(* ===== verification/Prelude.thy ===== *)
theory Prelude
  imports Main
    "HOL-Library.Char_ord" "HOL-Library.List_Lexorder"
    "HOL-Library.Product_Lexorder" "HOL-Library.Sublist"
begin

text \<open>
  What every component of the development shares: results with errors as values, the Python
  strings, dictionaries and orders the source uses, and the list lemmas behind the component proofs.

  Python \<open>str\<close> values are lists of characters (\<open>string\<close>). HOL characters are the code points
  0 to 255. The codes, identifiers and keys the program compares are ASCII. Korean display texts are
  carried as ASCII keys, because no branch of the modelled code depends on them.
\<close>

section \<open>Collections of facts\<close>

named_theorems res_simps \<open>inversion of results\<close>
named_theorems engine_defs \<open>definitions of the workflow engine\<close>
named_theorems store_simps \<open>reads after writes of the store\<close>

section \<open>Results\<close>

text \<open>
  A computation that may raise is a value of \<open>'e + 'a\<close>: \<open>Inl\<close> the exception, \<open>Inr\<close> the value.
\<close>

fun rbind :: "'e + 'a \<Rightarrow> ('a \<Rightarrow> 'e + 'b) \<Rightarrow> 'e + 'b" where
  "rbind (Inl e) f = Inl e"
| "rbind (Inr a) f = f a"

fun guard_or :: "bool \<Rightarrow> 'e \<Rightarrow> 'e + unit" where
  "guard_or b e = (if b then Inr () else Inl e)"

fun of_option :: "'e \<Rightarrow> 'a option \<Rightarrow> 'e + 'a" where
  "of_option e None = Inl e"
| "of_option e (Some a) = Inr a"

fun map_error :: "('e \<Rightarrow> 'f) \<Rightarrow> 'e + 'a \<Rightarrow> 'f + 'a" where
  "map_error g (Inl e) = Inl (g e)"
| "map_error g (Inr a) = Inr a"

lemma rbind_Inr_iff [res_simps]:
  "rbind m f = Inr b \<longleftrightarrow> (\<exists>a. m = Inr a \<and> f a = Inr b)"
  by (cases m) auto

lemma rbind_Inl_iff [res_simps]:
  "rbind m f = Inl e \<longleftrightarrow> m = Inl e \<or> (\<exists>a. m = Inr a \<and> f a = Inl e)"
  by (cases m) auto

lemma guard_or_iff [res_simps]:
  "guard_or b e = Inr u \<longleftrightarrow> b"
  "guard_or b e = Inl e' \<longleftrightarrow> \<not> b \<and> e' = e"
  by auto

lemma of_option_iff [res_simps]:
  "of_option e m = Inr a \<longleftrightarrow> m = Some a"
  "of_option e m = Inl e' \<longleftrightarrow> m = None \<and> e' = e"
  by (cases m; auto)+

lemma map_error_iff [res_simps]:
  "map_error g r = Inr a \<longleftrightarrow> r = Inr a"
  "map_error g r = Inl f \<longleftrightarrow> (\<exists>e. r = Inl e \<and> f = g e)"
  by (cases r; auto)+

lemma rbind_assoc: "rbind (rbind m f) g = rbind m (\<lambda>a. rbind (f a) g)"
  by (cases m) simp_all

lemma rbind_cong [fundef_cong]:
  "\<lbrakk> m = m'; \<And>a. m' = Inr a \<Longrightarrow> f a = f' a \<rbrakk> \<Longrightarrow> rbind m f = rbind m' f'"
  by (cases m') auto

declare guard_or.simps [simp del]

lemma guard_or_simps [simp]: "guard_or True e = Inr ()" "guard_or False e = Inl e"
  by (simp_all add: guard_or.simps)

text \<open>A loop that raises at its first failing element, and otherwise collects the values.\<close>

fun map_res :: "('a \<Rightarrow> 'e + 'b) \<Rightarrow> 'a list \<Rightarrow> 'e + 'b list" where
  "map_res f [] = Inr []"
| "map_res f (x # xs) = rbind (f x) (\<lambda>y. rbind (map_res f xs) (\<lambda>ys. Inr (y # ys)))"

lemma map_res_Inr_iff [res_simps]:
  "map_res f xs = Inr ys \<longleftrightarrow> list_all2 (\<lambda>x y. f x = Inr y) xs ys"
  by (induction xs arbitrary: ys) (auto simp: rbind_Inr_iff list_all2_Cons1)

lemma map_res_total: "(\<And>x. x \<in> set xs \<Longrightarrow> f x = Inr (g x)) \<Longrightarrow> map_res f xs = Inr (map g xs)"
  by (induction xs) auto

lemma map_res_ex: "(\<And>x. x \<in> set xs \<Longrightarrow> \<exists>y. f x = Inr y) \<Longrightarrow> \<exists>ys. map_res f xs = Inr ys"
proof (induction xs)
  case (Cons x xs)
  obtain y where "f x = Inr y" using Cons(2) by force
  moreover obtain ys where "map_res f xs = Inr ys" using Cons by force
  ultimately show ?case by simp
qed simp

section \<open>Strings\<close>

text \<open>\<open>str.isspace\<close> on the code points below 256: what \<open>str.strip()\<close> removes.\<close>

definition is_space :: "char \<Rightarrow> bool" where
  "is_space c = (let n = of_char c :: nat in
     (9 \<le> n \<and> n \<le> 13) \<or> (28 \<le> n \<and> n \<le> 32) \<or> n = 133 \<or> n = 160)"

definition strip :: "string \<Rightarrow> string" where
  "strip s = rev (dropWhile is_space (rev (dropWhile is_space s)))"

definition has_text :: "string \<Rightarrow> bool" where
  "has_text s = (strip s \<noteq> [])"

lemma rev_dropWhile_Nil: "rev (dropWhile is_space (rev t)) = [] \<longleftrightarrow> (\<forall>c \<in> set t. is_space c)"
  by simp

lemma dropWhile_all_space:
  "(\<forall>c \<in> set (dropWhile is_space s). is_space c) \<longleftrightarrow> (\<forall>c \<in> set s. is_space c)"
  by (induction s) auto

lemma has_text_iff: "has_text s \<longleftrightarrow> (\<exists>c \<in> set s. \<not> is_space c)"
  unfolding has_text_def strip_def by (auto simp only: rev_dropWhile_Nil dropWhile_all_space)

lemma strip_idem: "strip (strip s) = strip s"
proof -
  define t where "t = dropWhile is_space s"
  have ht: "t = [] \<or> \<not> is_space (hd t)"
    unfolding t_def by (metis hd_dropWhile)
  define u where "u = rev (dropWhile is_space (rev t))"
  have last: "u = [] \<or> \<not> is_space (last u)"
    unfolding u_def by (metis hd_dropWhile last_rev rev_is_Nil_conv)
  obtain v where tv: "t = u @ v"
    unfolding u_def by (metis rev_append rev_rev_ident takeWhile_dropWhile_id)
  have hu: "u = [] \<or> \<not> is_space (hd u)"
    using ht tv by (cases u) auto
  then have du: "dropWhile is_space u = u"
    by (cases u) auto
  have "dropWhile is_space (rev u) = rev u"
    using last by (cases "rev u") (auto simp: last_rev hd_rev)
  then have "strip u = u" using du by (simp add: strip_def)
  then show ?thesis by (simp add: strip_def u_def t_def)
qed

section \<open>Dictionaries\<close>

text \<open>
  A dict literal or comprehension keeps the last value of a repeated key; \<open>dict_of\<close> is the lookup
  function of a comprehension over \<open>key/value\<close> pairs in source order.
\<close>

definition dict_of :: "('k \<times> 'v) list \<Rightarrow> 'k \<Rightarrow> 'v option" where
  "dict_of kvs = map_of (rev kvs)"

lemma dict_of_Some_in: "dict_of kvs k = Some v \<Longrightarrow> (k, v) \<in> set kvs"
  by (auto simp: dict_of_def dest: map_of_SomeD)

lemma dict_of_None_iff: "dict_of kvs k = None \<longleftrightarrow> k \<notin> fst ` set kvs"
  by (simp add: dict_of_def map_of_eq_None_iff)

lemma dict_of_distinct:
  "distinct (map fst kvs) \<Longrightarrow> dict_of kvs k = Some v \<longleftrightarrow> (k, v) \<in> set kvs"
  unfolding dict_of_def by (subst map_of_eq_Some_iff) (simp_all add: rev_map [symmetric])

lemma dict_of_eq_map_of: "distinct (map fst kvs) \<Longrightarrow> dict_of kvs = map_of kvs"
  by (rule ext) (metis dict_of_distinct map_of_eq_Some_iff option.exhaust)

section \<open>Descending order\<close>

text \<open>
  A query ordered by \<open>"-created_at", "-id"\<close> sorts by the reversed orders of its keys. \<open>Desc\<close> wraps a
  key so that the library's stable \<open>sort_key\<close> does this.
\<close>

datatype 'a desc = Desc (undesc: 'a)

instantiation desc :: (linorder) linorder
begin
definition less_eq_desc :: "'a desc \<Rightarrow> 'a desc \<Rightarrow> bool" where
  "less_eq_desc x y = (undesc y \<le> undesc x)"
definition less_desc :: "'a desc \<Rightarrow> 'a desc \<Rightarrow> bool" where
  "less_desc x y = (undesc y < undesc x)"
instance
  by standard (auto simp: less_eq_desc_def less_desc_def desc.expand)
end

definition first_by :: "('a \<Rightarrow> 'b::linorder) \<Rightarrow> 'a list \<Rightarrow> 'a option" where
  "first_by f xs = (case sort_key f xs of [] \<Rightarrow> None | x # _ \<Rightarrow> Some x)"

lemma first_by_None_iff [simp]: "first_by f xs = None \<longleftrightarrow> xs = []"
proof -
  have "sort_key f xs = [] \<longleftrightarrow> xs = []"
    by (metis set_sort set_empty)
  then show ?thesis by (auto simp: first_by_def split: list.splits)
qed

lemma first_by_in: "first_by f xs = Some x \<Longrightarrow> x \<in> set xs"
  unfolding first_by_def by (metis (no_types, lifting) list.case_eq_if list.set_sel(1) option.distinct(1) option.inject set_sort)

lemma first_by_least:
  assumes "first_by f xs = Some x" and "y \<in> set xs"
  shows "f x \<le> f y"
proof -
  obtain zs where z: "sort_key f xs = x # zs"
    using assms(1) by (auto simp: first_by_def split: list.splits)
  have "y \<in> set (x # zs)" using assms(2) z by (metis set_sort)
  moreover have "sorted (map f (x # zs))" using z by (metis sorted_sort_key)
  ultimately show ?thesis by auto
qed

section \<open>Lists\<close>

lemma in_set_map_filter: "y \<in> set (List.map_filter f xs) \<longleftrightarrow> (\<exists>x \<in> set xs. f x = Some y)"
  by (induction xs) (auto split: option.splits)

lemma list_all2_in_right: "list_all2 P xs ys \<Longrightarrow> y \<in> set ys \<Longrightarrow> \<exists>x \<in> set xs. P x y"
  by (induction rule: list_all2_induct) auto

lemma list_all2_in_left: "list_all2 P xs ys \<Longrightarrow> x \<in> set xs \<Longrightarrow> \<exists>y \<in> set ys. P x y"
  by (induction rule: list_all2_induct) auto

lemma filter_singleD: "filter P xs = [x] \<Longrightarrow> x \<in> set xs \<and> P x"
  by (auto simp: filter_eq_Cons_iff)

lemma filter_single_unique:
  assumes "filter P xs = [x]" and "y \<in> set xs" and "P y"
  shows "y = x"
proof -
  have "y \<in> set (filter P xs)" using assms(2,3) by simp
  then show ?thesis using assms(1) by simp
qed

lemma length_filter_le_oneI:
  assumes "distinct xs" and eq: "\<And>x y. \<lbrakk> x \<in> set xs; y \<in> set xs; P x; P y \<rbrakk> \<Longrightarrow> x = y"
  shows "length (filter P xs) \<le> 1"
proof (cases "filter P xs")
  case Nil
  then show ?thesis by simp
next
  case (Cons x zs)
  then have x: "x \<in> set xs" "P x" by (auto simp: filter_eq_Cons_iff)
  have "z = x" if "z \<in> set zs" for z
  proof -
    have "z \<in> set (filter P xs)" using Cons that by simp
    then show ?thesis using eq x by auto
  qed
  moreover have "distinct (x # zs)" using assms(1) Cons by (metis distinct_filter)
  ultimately have "zs = []" by (cases zs) auto
  then show ?thesis using Cons by simp
qed

section \<open>Reachable states\<close>

text \<open>
  The states a labelled step relation reaches. A component proves an invariant by interpreting
  \<open>inductive_invariant\<close> on its own steps.
\<close>

inductive reach :: "('s \<Rightarrow> bool) \<Rightarrow> ('s \<Rightarrow> 'l \<Rightarrow> 's \<Rightarrow> bool) \<Rightarrow> 's \<Rightarrow> bool"
  for init :: "'s \<Rightarrow> bool" and step :: "'s \<Rightarrow> 'l \<Rightarrow> 's \<Rightarrow> bool" where
  reach_init: "init s \<Longrightarrow> reach init step s"
| reach_step: "\<lbrakk> reach init step s; step s l s' \<rbrakk> \<Longrightarrow> reach init step s'"

inductive run :: "('s \<Rightarrow> 'l \<Rightarrow> 's \<Rightarrow> bool) \<Rightarrow> 's \<Rightarrow> 'l list \<Rightarrow> 's \<Rightarrow> bool"
  for step :: "'s \<Rightarrow> 'l \<Rightarrow> 's \<Rightarrow> bool" where
  run_nil: "run step s [] s"
| run_cons: "\<lbrakk> step s l t; run step t ls u \<rbrakk> \<Longrightarrow> run step s (l # ls) u"

inductive_cases run_nilE: "run step s [] t"
inductive_cases run_consE: "run step s (l # ls) t"

lemma reach_run: "run step s ls t \<Longrightarrow> reach init step s \<Longrightarrow> reach init step t"
  by (induction rule: run.induct) (auto intro: reach_step)

locale inductive_invariant =
  fixes init :: "'s \<Rightarrow> bool" and step :: "'s \<Rightarrow> 'l \<Rightarrow> 's \<Rightarrow> bool" and inv :: "'s \<Rightarrow> bool"
  assumes holds_initially: "init s \<Longrightarrow> inv s"
    and preserved: "\<lbrakk> inv s; step s l s' \<rbrakk> \<Longrightarrow> inv s'"
begin

lemma on_reach: "reach init step s \<Longrightarrow> inv s"
  by (induction rule: reach.induct) (auto intro: holds_initially preserved)

lemma on_run: "run step s ls t \<Longrightarrow> inv s \<Longrightarrow> inv t"
  by (induction rule: run.induct) (auto intro: preserved)

end

end
