(* ===== verification/Canonical.thy ===== *)
theory Canonical
  imports Prelude "HOL-Library.Word" "HOL-Library.Multiset"
begin

text \<open>
  The values request and response bodies are made of, and \<open>IdempotencyService.canonical_request_hash\<close>
  (\<open>services/idempotency_service.py\<close>): \<open>_json_value\<close>, \<open>json.dumps\<close> with sorted keys and compact
  separators, UTF-8, SHA-256 and its hexadecimal digest. The lemmas say that the hash does not depend
  on the order in which a request's keys were written.
\<close>

unbundle bit_operations_syntax

section \<open>Python values\<close>

text \<open>
  A \<open>dict\<close> is an association list in insertion order. A \<open>UUID\<close> is its number, a \<open>date\<close> its day and a
  \<open>datetime\<close> its microsecond counted from 1970-01-01, UTC.
\<close>

datatype py = PNone | PBool bool | PInt int | PStr string | PUuid nat | PDate int | PDatetime int
  | PList "py list" | PDict "(string \<times> py) list"

fun truthy :: "py \<Rightarrow> bool" where
  "truthy PNone = False"
| "truthy (PBool b) = b"
| "truthy (PInt i) = (i \<noteq> 0)"
| "truthy (PStr s) = (s \<noteq> [])"
| "truthy (PUuid u) = True"
| "truthy (PDate d) = True"
| "truthy (PDatetime d) = True"
| "truthy (PList xs) = (xs \<noteq> [])"
| "truthy (PDict kvs) = (kvs \<noteq> [])"

definition opt_str :: "string option \<Rightarrow> py" where
  "opt_str v = (case v of None \<Rightarrow> PNone | Some s \<Rightarrow> PStr s)"

text \<open>\<open>d[k] = v\<close> replaces the value in place or appends the key.\<close>

fun dict_set :: "(string \<times> 'v) list \<Rightarrow> string \<Rightarrow> 'v \<Rightarrow> (string \<times> 'v) list" where
  "dict_set [] k v = [(k, v)]"
| "dict_set ((k', v') # kvs) k v = (if k' = k then (k, v) # kvs else (k', v') # dict_set kvs k v)"

lemma dict_set_lookup [simp]: "map_of (dict_set kvs k v) = (map_of kvs)(k \<mapsto> v)"
  by (induction kvs k v rule: dict_set.induct) (auto simp: fun_eq_iff)

lemma dict_set_idem: "dict_set (dict_set kvs k v) k w = dict_set kvs k w"
  by (induction kvs k v rule: dict_set.induct) auto

section \<open>Text of numbers, identifiers and dates\<close>

definition digit :: "nat \<Rightarrow> char" where
  "digit d = char_of (if d < 10 then 48 + d else 87 + d)"

fun base_digits :: "nat \<Rightarrow> nat \<Rightarrow> nat \<Rightarrow> string" where
  "base_digits b 0 n = []"
| "base_digits b (Suc w) n = base_digits b w (n div b) @ [digit (n mod b)]"

fun decimal :: "nat \<Rightarrow> string" where
  "decimal n = (if n < 10 then [digit n] else decimal (n div 10) @ [digit (n mod 10)])"

declare decimal.simps [simp del]

definition int_text :: "int \<Rightarrow> string" where
  "int_text i = (if i < 0 then CHR ''-'' # decimal (nat (- i)) else decimal (nat i))"

text \<open>\<open>str(uuid)\<close>: 32 hexadecimal digits in groups of 8, 4, 4, 4 and 12.\<close>

definition uuid_text :: "nat \<Rightarrow> string" where
  "uuid_text u =
     base_digits 16 8 (u div 16 ^ 24) @ ''-'' @ base_digits 16 4 (u div 16 ^ 20) @ ''-'' @
     base_digits 16 4 (u div 16 ^ 16) @ ''-'' @ base_digits 16 4 (u div 16 ^ 12) @ ''-'' @
     base_digits 16 12 u"

text \<open>Year, month and day of a day number (proleptic Gregorian calendar).\<close>

definition civil :: "int \<Rightarrow> int \<times> int \<times> int" where
  "civil day =
     (let z = day + 719468; era = z div 146097; doe = z mod 146097;
          yoe = (doe - doe div 1460 + doe div 36524 - doe div 146096) div 365;
          doy = doe - (365 * yoe + yoe div 4 - yoe div 100);
          mp = (5 * doy + 2) div 153;
          m = (if mp < 10 then mp + 3 else mp - 9)
      in (yoe + era * 400 + (if m \<le> 2 then 1 else 0), m, doy - (153 * mp + 2) div 5 + 1))"

definition iso_date :: "int \<Rightarrow> string" where
  "iso_date day =
     (let (y, m, d) = civil day in
      base_digits 10 4 (nat y) @ ''-'' @ base_digits 10 2 (nat m) @ ''-'' @ base_digits 10 2 (nat d))"

definition iso_datetime :: "int \<Rightarrow> string" where
  "iso_datetime us =
     (let sec = us div 1000000; frac = us mod 1000000; tod = nat (sec mod 86400) in
      iso_date (sec div 86400) @ ''T'' @ base_digits 10 2 (tod div 3600) @ '':'' @
      base_digits 10 2 (tod div 60 mod 60) @ '':'' @ base_digits 10 2 (tod mod 60) @
      (if frac = 0 then [] else ''.'' @ base_digits 10 6 (nat frac)) @ ''+00:00'')"

section \<open>Canonical JSON\<close>

fun json_value :: "py \<Rightarrow> py" where
  "json_value (PDict kvs) = PDict (map (\<lambda>(k, v). (k, json_value v)) kvs)"
| "json_value (PList xs) = PList (map json_value xs)"
| "json_value (PUuid u) = PStr (uuid_text u)"
| "json_value (PDate d) = PStr (iso_date d)"
| "json_value (PDatetime d) = PStr (iso_datetime d)"
| "json_value v = v"

text \<open>\<open>json.dumps(..., ensure_ascii=False)\<close> escapes quotes, backslashes and control characters.\<close>

definition escape_char :: "char \<Rightarrow> string" where
  "escape_char c =
     (let n = of_char c :: nat in
      if n = 34 then [CHR 0x5C, CHR 0x22] else if n = 92 then [CHR 0x5C, CHR 0x5C]
      else if n = 10 then [CHR 0x5C, CHR ''n''] else if n = 13 then [CHR 0x5C, CHR ''r'']
      else if n = 9 then [CHR 0x5C, CHR ''t''] else if n = 12 then [CHR 0x5C, CHR ''f'']
      else if n = 8 then [CHR 0x5C, CHR ''b'']
      else if n < 32 then CHR 0x5C # CHR ''u'' # base_digits 16 4 n
      else [c])"

definition json_string :: "string \<Rightarrow> string" where
  "json_string s = CHR 0x22 # concat (map escape_char s) @ [CHR 0x22]"

fun joined :: "string \<Rightarrow> string list \<Rightarrow> string" where
  "joined sep [] = []"
| "joined sep [x] = x"
| "joined sep (x # y # ys) = x @ sep @ joined sep (y # ys)"

text \<open>The text of a normalised value; keys are sorted by code point (\<open>sort_keys\<close>).\<close>

fun json_dumps :: "py \<Rightarrow> string" where
  "json_dumps PNone = ''null''"
| "json_dumps (PBool b) = (if b then ''true'' else ''false'')"
| "json_dumps (PInt i) = int_text i"
| "json_dumps (PStr s) = json_string s"
| "json_dumps (PUuid u) = json_string (uuid_text u)"
| "json_dumps (PDate d) = json_string (iso_date d)"
| "json_dumps (PDatetime d) = json_string (iso_datetime d)"
| "json_dumps (PList xs) = ''['' @ joined '','' (map json_dumps xs) @ '']''"
| "json_dumps (PDict kvs) = ''{'' @ joined '',''
     (map (\<lambda>(k, t). json_string k @ '':'' @ t)
       (sort_key fst (map (\<lambda>(k, v). (k, json_dumps v)) kvs))) @ ''}''"

text \<open>UTF-8 of code points below 256.\<close>

definition utf8_char :: "char \<Rightarrow> nat list" where
  "utf8_char c = (let n = of_char c in if n < 128 then [n] else [192 + n div 64, 128 + n mod 64])"

definition utf8 :: "string \<Rightarrow> nat list" where
  "utf8 s = concat (map utf8_char s)"

section \<open>SHA-256\<close>

definition sha_k :: "32 word list" where
  "sha_k = [
     1116352408, 1899447441, 3049323471, 3921009573, 961987163, 1508970993, 2453635748, 2870763221,
     3624381080, 310598401, 607225278, 1426881987, 1925078388, 2162078206, 2614888103, 3248222580,
     3835390401, 4022224774, 264347078, 604807628, 770255983, 1249150122, 1555081692, 1996064986,
     2554220882, 2821834349, 2952996808, 3210313671, 3336571891, 3584528711, 113926993, 338241895,
     666307205, 773529912, 1294757372, 1396182291, 1695183700, 1986661051, 2177026350, 2456956037,
     2730485921, 2820302411, 3259730800, 3345764771, 3516065817, 3600352804, 4094571909, 275423344,
     430227734, 506948616, 659060556, 883997877, 958139571, 1322822218, 1537002063, 1747873779,
     1955562222, 2024104815, 2227730452, 2361852424, 2428436474, 2756734187, 3204031479, 3329325298]"

definition sha_init :: "32 word list" where
  "sha_init = [
     1779033703, 3144134277, 1013904242, 2773480762, 1359893119, 2600822924, 528734635, 1541459225]"

definition rotr :: "nat \<Rightarrow> 32 word \<Rightarrow> 32 word" where
  "rotr n w = drop_bit n w OR push_bit (32 - n) w"

text \<open>Padding: a one bit, zeros up to 56 bytes modulo 64, the length in bits as eight bytes.\<close>

definition sha_pad :: "nat list \<Rightarrow> nat list" where
  "sha_pad bs =
     bs @ [128] @ replicate ((119 - length bs mod 64) mod 64) 0 @
     map (\<lambda>i. (8 * length bs) div 256 ^ (7 - i) mod 256) [0..<8]"

fun be_words :: "nat list \<Rightarrow> 32 word list" where
  "be_words (a # b # c # d # bs) =
     of_nat (((a * 256 + b) * 256 + c) * 256 + d) # be_words bs"
| "be_words bs = []"

text \<open>The message schedule, extended word by word; the accumulator holds it newest first.\<close>

fun sha_schedule :: "nat \<Rightarrow> 32 word list \<Rightarrow> 32 word list" where
  "sha_schedule 0 ws = rev ws"
| "sha_schedule (Suc n) ws =
     (let w15 = ws ! 14; w2 = ws ! 1;
          s0 = rotr 7 w15 XOR rotr 18 w15 XOR drop_bit 3 w15;
          s1 = rotr 17 w2 XOR rotr 19 w2 XOR drop_bit 10 w2
      in sha_schedule n ((ws ! 15 + s0 + ws ! 6 + s1) # ws))"

fun sha_round :: "32 word \<times> 32 word \<Rightarrow> 32 word list \<Rightarrow> 32 word list" where
  "sha_round (k, w) [a, b, c, d, e, f, g, h] =
     (let s1 = rotr 6 e XOR rotr 11 e XOR rotr 25 e;
          ch = (e AND f) XOR (NOT e AND g);
          t1 = h + s1 + ch + k + w;
          s0 = rotr 2 a XOR rotr 13 a XOR rotr 22 a;
          maj = (a AND b) XOR (a AND c) XOR (b AND c)
      in [t1 + s0 + maj, a, b, c, d + t1, e, f, g])"
| "sha_round kw st = st"

definition sha_block :: "32 word list \<Rightarrow> 32 word list \<Rightarrow> 32 word list" where
  "sha_block block st =
     map2 (+) st (fold sha_round (zip sha_k (sha_schedule 48 (rev block))) st)"

fun sha_blocks :: "nat \<Rightarrow> 32 word list \<Rightarrow> 32 word list \<Rightarrow> 32 word list" where
  "sha_blocks 0 ws st = st"
| "sha_blocks (Suc n) ws st = sha_blocks n (drop 16 ws) (sha_block (take 16 ws) st)"

definition sha256_hex :: "nat list \<Rightarrow> string" where
  "sha256_hex bs =
     (let ws = be_words (sha_pad bs) in
      concat (map (\<lambda>w. base_digits 16 8 (unat w)) (sha_blocks (length ws div 16) ws sha_init)))"

definition canonical_request_hash :: "py \<Rightarrow> string" where
  "canonical_request_hash v = sha256_hex (utf8 (json_dumps (json_value v)))"

section \<open>The length of a hash\<close>

lemma length_sha_round: "length st = 8 \<Longrightarrow> length (sha_round kw st) = 8"
  by (induction kw st rule: sha_round.induct) (simp_all add: Let_def)

lemma length_fold_round: "length st = 8 \<Longrightarrow> length (fold sha_round kws st) = 8"
  by (induction kws arbitrary: st) (simp_all add: length_sha_round)

lemma length_sha_block: "length st = 8 \<Longrightarrow> length (sha_block b st) = 8"
  by (simp add: sha_block_def length_fold_round)

lemma length_sha_blocks: "length st = 8 \<Longrightarrow> length (sha_blocks n ws st) = 8"
  by (induction n arbitrary: ws st) (simp_all add: length_sha_block)

lemma length_base_digits [simp]: "length (base_digits b w n) = w"
  by (induction b w n rule: base_digits.induct) simp_all

lemma length_request_hash: "length (canonical_request_hash v) = 64"
proof -
  have "sum_list (map (\<lambda>x. 8) ws) = 8 * length ws" for ws :: "32 word list"
    by (induction ws) simp_all
  then show ?thesis
    by (simp add: canonical_request_hash_def sha256_hex_def Let_def length_concat comp_def
        length_sha_blocks sha_init_def)
qed

lemma digit_hex: "d < 16 \<Longrightarrow> digit d \<in> set ''0123456789abcdef''"
proof -
  have "list_all (\<lambda>d. digit d \<in> set ''0123456789abcdef'') [0..<16]" by code_simp
  then show "d < 16 \<Longrightarrow> ?thesis" by (simp only: list_all_iff set_upt) simp
qed

lemma digit_mod_hex: "digit (n mod 16) \<in> set ''0123456789abcdef''"
  by (rule digit_hex) simp

lemma base_digits_hex: "set (base_digits 16 w n) \<subseteq> set ''0123456789abcdef''"
proof (induction w arbitrary: n)
  case (Suc w)
  then show ?case using digit_mod_hex [of n] by (simp only: base_digits.simps set_append) simp
qed simp

lemma hex_request_hash: "set (canonical_request_hash v) \<subseteq> set ''0123456789abcdef''"
  using base_digits_hex by (force simp: canonical_request_hash_def sha256_hex_def Let_def)

section \<open>The hash does not depend on key order\<close>

lemma sort_key_fst_perm:
  assumes "mset xs = mset ys" and "distinct (map fst xs)"
  shows "sort_key fst xs = sort_key fst (ys :: ('k::linorder \<times> 'v) list)"
proof (rule map_sorted_distinct_set_unique [where f = fst, symmetric])
  have "distinct (map fst ys)"
    using assms by (metis mset_map mset_eq_imp_distinct_iff)
  then show "distinct (map fst (sort_key fst ys))" "distinct (map fst (sort_key fst xs))"
    using assms(2) by (metis mset_map mset_sort mset_eq_imp_distinct_iff)+
  have "set xs = set ys" using assms(1) by (rule mset_eq_setD)
  then show "set (sort_key fst ys) = set (sort_key fst xs)" by simp
  show "inj_on fst (set (sort_key fst ys) \<union> set (sort_key fst xs))"
    using \<open>set xs = set ys\<close> assms(2) by (simp add: distinct_map)
qed simp_all

text \<open>Two bodies with the same content: equal up to the order of keys at every level.\<close>

inductive same_value :: "py \<Rightarrow> py \<Rightarrow> bool" where
  same_refl: "same_value v v"
| same_list: "list_all2 same_value xs ys \<Longrightarrow> same_value (PList xs) (PList ys)"
| same_dict: "\<lbrakk> distinct (map fst kvs); mset kvs = mset kvs';
      list_all2 (\<lambda>p q. fst p = fst q \<and> same_value (snd p) (snd q)) kvs' kvs'' \<rbrakk>
    \<Longrightarrow> same_value (PDict kvs) (PDict kvs'')"

lemma json_text_PDict:
  "json_dumps (json_value (PDict kvs)) = ''{'' @ joined '',''
     (map (\<lambda>(k, t). json_string k @ '':'' @ t)
       (sort_key fst (map (\<lambda>p. (fst p, json_dumps (json_value (snd p)))) kvs))) @ ''}''"
  by (simp add: comp_def case_prod_beta)

lemma same_value_text: "same_value v w \<Longrightarrow> json_dumps (json_value v) = json_dumps (json_value w)"
proof (induction rule: same_value.induct)
  case (same_list xs ys)
  then have "map (\<lambda>v. json_dumps (json_value v)) xs = map (\<lambda>v. json_dumps (json_value v)) ys"
    by (induction rule: list_all2_induct) auto
  then show ?case by (simp add: comp_def)
next
  case (same_dict kvs kvs' kvs'')
  let ?g = "\<lambda>p. (fst p, json_dumps (json_value (snd p)))"
  have "map ?g kvs' = map ?g kvs''"
    using same_dict(3) by (induction rule: list_all2_induct) auto
  moreover have "sort_key fst (map ?g kvs) = sort_key fst (map ?g kvs')"
    using same_dict(1,2) by (intro sort_key_fst_perm) (simp_all add: comp_def)
  ultimately show ?case by (simp only: json_text_PDict)
qed simp

lemma same_value_hash: "same_value v w \<Longrightarrow> canonical_request_hash v = canonical_request_hash w"
  by (simp add: canonical_request_hash_def same_value_text)

end
