(* ===== verification/ReviewData.thy ===== *)
theory ReviewData
  imports Canonical
begin

text \<open>
  The rows of guidance and its human review: \<open>inquiries/models/guidance.py\<close>, \<open>guidance_item.py\<close>,
  \<open>human_review.py\<close>, \<open>human_review_resume_dispatch.py\<close> and \<open>evidence/models/evidence_link.py\<close>. The
  columns of an evidence link that are only ever copied are its \<open>el_snapshots\<close>.
\<close>

record guidance_row =
  gd_id :: nat
  gd_public_id :: nat
  gd_inquiry_id :: nat
  gd_guidance_version :: int
  gd_review_status_code :: string
  gd_title :: string
  gd_summary_text :: string
  gd_safety_notice :: "string option"
  gd_evidence_sufficiency_code :: string
  gd_requires_consultation :: bool
  gd_ai_run_id :: "nat option"
  gd_reviewed_by :: "nat option"
  gd_reviewed_at :: "int option"

record guidance_item_row =
  gi_id :: nat
  gi_public_id :: nat
  gi_guidance_id :: nat
  gi_step_no :: int
  gi_action_type_code :: string
  gi_instruction_text :: string
  gi_caution_text :: "string option"
  gi_requires_confirmation :: bool

record evidence_row =
  el_id :: nat
  el_public_id :: nat
  el_inquiry_id :: nat
  el_guidance_id :: "nat option"
  el_ai_run_id :: "nat option"
  el_chunk_id :: nat
  el_chunk_public_id :: nat
  el_evidence_role_code :: string
  el_display_order :: int
  el_document_sha256 :: string
  el_is_verified :: bool
  el_verified_by :: "nat option"
  el_verified_at :: "int option"
  el_snapshots :: "(string \<times> py) list"

record review_row =
  rv_id :: nat
  rv_public_id :: nat
  rv_inquiry_id :: nat
  rv_guidance_id :: nat
  rv_published_guidance_id :: "nat option"
  rv_checkpoint_thread_id :: string
  rv_source_ai_request_id :: string
  rv_source_inquiry_state_version :: int
  rv_status_code :: string
  rv_decision_code :: "string option"
  rv_review_state_version :: int
  rv_initial_reason_code :: string
  rv_decision_reason_code :: "string option"
  rv_reviewer_id :: "nat option"
  rv_decided_at :: "int option"
  rv_decision_idempotency_key :: "string option"
  rv_decision_correlation_id :: "nat option"
  rv_modified_guidance_payload :: "(string \<times> py) list"
  rv_resume_failure_code :: "string option"
  rv_original_requires_consultation :: bool
  rv_effective_requires_consultation :: bool
  rv_consultation_origin_code :: string
  rv_consultation_origin_reason_code :: string
  rv_consultation_disposition_code :: "string option"
  rv_consultation_reason_code :: "string option"
  rv_consultation_evidence_snapshot :: "py list"
  rv_created_at :: int
  rv_updated_at :: int

record dispatch_row =
  dp_id :: nat
  dp_public_id :: nat
  dp_human_review_id :: nat
  dp_idempotency_key :: string
  dp_source_review_state_version :: int
  dp_status :: string
  dp_attempt_count :: int
  dp_created_at :: int

text \<open>The durable cause ledger of an AI run, as far as the review reads it.\<close>

record cause_ledger_row =
  cl_ai_run_id :: nat
  cl_causes :: "py list"

section \<open>What \<open>full_clean\<close> checks\<close>

text \<open>
  \<open>HumanReview.Meta.constraints\<close>: the state a decision leaves behind, field by field.
\<close>

definition review_decided_fields :: "review_row \<Rightarrow> bool" where
  "review_decided_fields v =
     (rv_decision_code v \<noteq> None \<and> rv_decision_reason_code v \<noteq> None \<and> rv_reviewer_id v \<noteq> None \<and>
      rv_decided_at v \<noteq> None \<and> rv_decision_idempotency_key v \<noteq> None \<and> rv_decision_correlation_id v \<noteq> None)"

definition review_pending_fields :: "review_row \<Rightarrow> bool" where
  "review_pending_fields v =
     (rv_decision_code v = None \<and> rv_decision_reason_code v = None \<and> rv_reviewer_id v = None \<and>
      rv_decided_at v = None \<and> rv_decision_idempotency_key v = None \<and> rv_decision_correlation_id v = None)"

definition review_state_fields :: "review_row \<Rightarrow> bool" where
  "review_state_fields v =
     (let published = (rv_published_guidance_id v \<noteq> None); failed = (rv_resume_failure_code v \<noteq> None);
          plain = (rv_modified_guidance_payload v = []); decision = rv_decision_code v;
          status = rv_status_code v in
      status = ''PENDING'' \<and> \<not> published \<and> \<not> failed \<and> plain \<or>
      status = ''APPROVED'' \<and> decision = Some ''APPROVE'' \<and> published \<and> \<not> failed \<and> plain \<or>
      status = ''MODIFIED'' \<and> decision = Some ''MODIFY'' \<and> published \<and> \<not> failed \<and> \<not> plain \<or>
      status = ''REJECTED'' \<and> decision = Some ''REJECT'' \<and> \<not> published \<and> \<not> failed \<and> plain \<or>
      status = ''RESUME_FAILED'' \<and> failed \<and>
        (decision = Some ''APPROVE'' \<and> published \<and> plain \<or> decision = Some ''MODIFY'' \<and> published \<and> \<not> plain \<or>
         decision = Some ''REJECT'' \<and> \<not> published \<and> plain))"

definition REVIEW_DECIDED_STATUSES :: "string set" where
  "REVIEW_DECIDED_STATUSES = {''APPROVED'', ''MODIFIED'', ''REJECTED'', ''RESUME_FAILED''}"

definition review_constraints :: "review_row \<Rightarrow> bool" where
  "review_constraints v =
     (rv_status_code v \<in> insert ''PENDING'' REVIEW_DECIDED_STATUSES \<and>
      (case rv_decision_code v of None \<Rightarrow> True | Some c \<Rightarrow> c \<in> {''APPROVE'', ''MODIFY'', ''REJECT''}) \<and>
      rv_consultation_origin_code v \<in>
        {''NOT_REQUIRED'', ''SAFETY_LOCKED'', ''FAIL_CLOSED_LOCKED'', ''NON_SAFETY_RESOLVABLE'', ''UNKNOWN_LOCKED''} \<and>
      (case rv_consultation_disposition_code v of None \<Rightarrow> True
       | Some c \<Rightarrow> c \<in> {''PRESERVE'', ''REQUIRE'', ''RESOLVE_NON_SAFETY''}) \<and>
      0 < rv_review_state_version v \<and> 0 < rv_source_inquiry_state_version v \<and>
      (rv_reviewer_id v = None) = (rv_decided_at v = None) \<and>
      (rv_status_code v = ''PENDING'' \<and> review_pending_fields v \<or>
       rv_status_code v \<in> REVIEW_DECIDED_STATUSES \<and> review_decided_fields v) \<and>
      (rv_status_code v = ''PENDING'' \<and> rv_consultation_disposition_code v = None \<and>
         rv_consultation_reason_code v = None \<and> rv_consultation_evidence_snapshot v = [] \<and>
         rv_effective_requires_consultation v = rv_original_requires_consultation v \<or>
       rv_status_code v \<in> REVIEW_DECIDED_STATUSES \<and> rv_consultation_disposition_code v \<noteq> None) \<and>
      review_state_fields v)"

text \<open>\<open>HumanReview.clean\<close>, without what the constraints repeat.\<close>

fun allowed_origin_reasons :: "string \<Rightarrow> string list" where
  "allowed_origin_reasons origin =
     (if origin = ''NOT_REQUIRED'' then [''NOT_REQUIRED'']
      else if origin = ''SAFETY_LOCKED'' then [''DANGER_ASSESSMENT'', ''EXPLICIT_SAFETY_RULE'']
      else if origin = ''FAIL_CLOSED_LOCKED'' then [''FAIL_CLOSED_AI_RESULT'']
      else if origin = ''NON_SAFETY_RESOLVABLE'' then [''HARNESS_UNSUPPORTED_FUNCTION'', ''HARNESS_SCOPE_EXCEEDED'']
      else if origin = ''UNKNOWN_LOCKED'' then [''UNCLASSIFIED_AI_SIGNAL'', ''LEGACY_UNCLASSIFIED'']
      else [])"

definition CONSULTATION_ESCALATION_REASONS :: "string set" where
  "CONSULTATION_ESCALATION_REASONS =
     {''CONSULTANT_SAFETY_ESCALATION'', ''PRODUCT_FUNCTION_UNCERTAIN'', ''CUSTOMER_CONTEXT_INCOMPLETE''}"

definition CONSULTATION_RESOLUTION_REASONS :: "string set" where
  "CONSULTATION_RESOLUTION_REASONS = {''PRODUCT_CAPABILITY_VERIFIED'', ''HARNESS_SCOPE_VERIFIED''}"

definition disposition_clean :: "review_row \<Rightarrow> bool" where
  "disposition_clean v =
     (let reason = rv_consultation_reason_code v; snapshot = rv_consultation_evidence_snapshot v in
      case rv_consultation_disposition_code v of
        None \<Rightarrow> False
      | Some disposition \<Rightarrow>
          if disposition = ''PRESERVE''
          then rv_effective_requires_consultation v = rv_original_requires_consultation v \<and>
            reason = None \<and> snapshot = []
          else if disposition = ''REQUIRE''
          then rv_effective_requires_consultation v \<and> snapshot = [] \<and>
            (case reason of None \<Rightarrow> False
             | Some r \<Rightarrow> r \<in> insert ''HUMAN_REVIEW_REJECTED'' CONSULTATION_ESCALATION_REASONS)
          else if disposition = ''RESOLVE_NON_SAFETY''
          then rv_original_requires_consultation v \<and> \<not> rv_effective_requires_consultation v \<and>
            rv_consultation_origin_code v = ''NON_SAFETY_RESOLVABLE'' \<and> snapshot \<noteq> [] \<and>
            (case reason of None \<Rightarrow> False | Some r \<Rightarrow> r \<in> CONSULTATION_RESOLUTION_REASONS)
          else True)"

definition review_clean :: "review_row \<Rightarrow> bool" where
  "review_clean v =
     (list_all (\<lambda>x. case x of PDict _ \<Rightarrow> True | _ \<Rightarrow> False) (rv_consultation_evidence_snapshot v) \<and>
      (if rv_original_requires_consultation v then rv_consultation_origin_code v \<noteq> ''NOT_REQUIRED''
       else rv_consultation_origin_code v = ''NOT_REQUIRED'') \<and>
      rv_consultation_origin_reason_code v \<in> set (allowed_origin_reasons (rv_consultation_origin_code v)) \<and>
      (rv_status_code v \<noteq> ''PENDING'' \<longrightarrow> disposition_clean v) \<and>
      (case rv_resume_failure_code v of None \<Rightarrow> rv_status_code v \<noteq> ''RESUME_FAILED''
       | Some c \<Rightarrow> (rv_status_code v = ''RESUME_FAILED'') = (c \<noteq> [])))"

end
