(* ===== verification/StateEngine.thy ===== *)
theory StateEngine
  imports Prelude
begin

text \<open>
  The pure transition engine of \<open>backend/apps/workflow\<close>: the snapshot and transition value objects
  (\<open>domain/workflow_snapshot.py\<close>, \<open>domain/transition.py\<close>), the loaded contract documents it reads,
  and \<open>StateMachine.resolve\<close> (\<open>engine/state_machine.py\<close>), with every exception of the code a value of
  \<open>sm_error\<close>. The lemmas characterise a successful plan, the errors, and determinism.
\<close>

section \<open>Contract documents\<close>

text \<open>
  The engine reads documents that passed the contract validator, so fields the validator types are
  plain values. \<open>'a option\<close> is a key read with \<open>.get\<close> (absent and null coincide). Where the code
  tells an absent key from a null one, the field is an \<open>option option\<close>: \<open>None\<close> absent,
  \<open>Some None\<close> null.
\<close>

record visit_rule =
  vr_mode :: "string option"
  vr_from_status :: "string option"
  vr_to_status :: "string option option"
  vr_required_status :: "string option"

record history_rule =
  hr_inquiry :: "bool option"
  hr_visit :: "bool option"
  hr_business :: "bool option"

record rule =
  r_id :: string
  r_event :: string
  r_from :: "string option"
  r_to :: string
  r_visit :: visit_rule
  r_history :: history_rule
  r_version_action :: "string option option"
  r_guard_refs :: "string list"
  r_effects :: "string list"

record event_entry =
  ev_code :: string
  ev_category :: string
  ev_actor_roles :: "string list"
  ev_requires_key :: bool
  ev_requires_version :: bool

record guard_entry =
  g_id :: string
  g_category :: string
  g_http_status :: int
  g_error_code :: string
  g_message :: string

record defaults_entry =
  d_version_action :: "string option"
  d_business_event :: bool
  d_correlation_id :: bool

record contract =
  c_terminal_states :: "string list"
  c_visit_statuses :: "(string \<times> string list) list"
  c_events :: "event_entry list"
  c_rules :: "rule list"
  c_defaults :: defaults_entry
  c_guards :: "guard_entry list"
  c_guard_categories :: "string list"
  c_security_precedence :: "string list"

section \<open>Snapshots and transitions\<close>

record snapshot =
  s_state :: "string option"
  s_version :: "int option"
  s_visit :: "string option"

datatype snapshot_error = Version_without_inquiry | Blank_state | Bad_version | Blank_visit_status

definition snapshot_init ::
  "string option \<Rightarrow> int option \<Rightarrow> string option \<Rightarrow> snapshot_error + snapshot" where
  "snapshot_init st v vis =
     rbind (case st of
              None \<Rightarrow> guard_or (v = None) Version_without_inquiry
            | Some s \<Rightarrow> rbind (guard_or (has_text s) Blank_state)
                (\<lambda>_. guard_or (case v of None \<Rightarrow> False | Some n \<Rightarrow> 1 \<le> n) Bad_version))
       (\<lambda>_. rbind (case vis of None \<Rightarrow> Inr () | Some w \<Rightarrow> guard_or (has_text w) Blank_visit_status)
       (\<lambda>_. Inr \<lparr>s_state = st, s_version = v, s_visit = vis\<rparr>))"

record transition =
  t_rule_id :: string
  t_event :: string
  t_state_before :: "string option"
  t_state_after :: string
  t_visit_mode :: string
  t_visit_before :: "string option"
  t_visit_after :: "string option"
  t_version_before :: "int option"
  t_version_after :: int
  t_version_action :: string
  t_guard_refs :: "string list"
  t_effects :: "string list"
  t_record_inquiry :: bool
  t_record_visit :: bool
  t_record_business :: bool

section \<open>StateMachine\<close>

datatype sm_reason =
    UNKNOWN_EVENT | TERMINAL_STATE | VISIT_STATE_MISMATCH | UNLISTED_TRANSITION
  | AMBIGUOUS_TRANSITION | UNKNOWN_VISIT_MODE | INVALID_VERSION_ACTION
  | STATE_VERSION_REQUIRED | UNKNOWN_VERSION_ACTION | VISIT_STATUS_NOT_ALLOWED

text \<open>\<open>Missing_key\<close> is the \<open>KeyError\<close> of a subscript on a rule that lacks the key.\<close>

datatype sm_error = Invalid sm_reason | Missing_key string

definition sm_event :: "contract \<Rightarrow> string \<Rightarrow> sm_error + event_entry" where
  "sm_event c code =
     of_option (Invalid UNKNOWN_EVENT) (dict_of (map (\<lambda>e. (ev_code e, e)) (c_events c)) code)"

definition visit_matches :: "visit_rule \<Rightarrow> snapshot \<Rightarrow> bool" where
  "visit_matches v s =
     (if vr_mode v \<in> {Some ''REQUIRE_ABSENT'', Some ''CREATE''} then s_visit s = None
      else if vr_mode v = Some ''PRESERVE'' then True
      else if vr_mode v = Some ''PRESERVE_REQUIRE_STATUS'' then s_visit s = vr_required_status v
      else if vr_mode v = Some ''TRANSITION'' then s_visit s = vr_from_status v
      else False)"

definition next_visit_status :: "visit_rule \<Rightarrow> snapshot \<Rightarrow> sm_error + string option" where
  "next_visit_status v s =
     rbind (of_option (Missing_key ''mode'') (vr_mode v)) (\<lambda>mode.
       if mode \<in> {''CREATE'', ''TRANSITION''}
         then of_option (Missing_key ''to_status'') (vr_to_status v)
       else if mode \<in> {''PRESERVE'', ''PRESERVE_REQUIRE_STATUS''} then Inr (s_visit s)
       else if mode = ''REQUIRE_ABSENT'' then Inr None
       else Inl (Invalid UNKNOWN_VISIT_MODE))"

definition next_version :: "snapshot \<Rightarrow> string option \<Rightarrow> sm_error + int" where
  "next_version s action =
     (if action = Some ''INITIALIZE_1'' then
        (if s_state s \<noteq> None \<or> s_version s \<noteq> None then Inl (Invalid INVALID_VERSION_ACTION)
         else Inr 1)
      else if action = Some ''INCREMENT'' then
        (case s_version s of
           None \<Rightarrow> Inl (Invalid STATE_VERSION_REQUIRED)
         | Some n \<Rightarrow> Inr (n + 1))
      else Inl (Invalid UNKNOWN_VERSION_ACTION))"

definition ensure_visit_allowed ::
  "contract \<Rightarrow> string option \<Rightarrow> string option \<Rightarrow> sm_error + unit" where
  "ensure_visit_allowed c st vis =
     (case (st, vis) of
        (Some s, Some w) \<Rightarrow>
          (case dict_of (c_visit_statuses c) s of
             None \<Rightarrow> Inl (Invalid VISIT_STATUS_NOT_ALLOWED)
           | Some allowed \<Rightarrow> guard_or (w \<in> set allowed) (Invalid VISIT_STATUS_NOT_ALLOWED))
      | _ \<Rightarrow> Inr ())"

definition state_candidates :: "contract \<Rightarrow> snapshot \<Rightarrow> string \<Rightarrow> rule list" where
  "state_candidates c s ev =
     filter (\<lambda>r. r_event r = ev \<and> r_from r = s_state s) (c_rules c)"

definition candidates :: "contract \<Rightarrow> snapshot \<Rightarrow> string \<Rightarrow> rule list" where
  "candidates c s ev = filter (\<lambda>r. visit_matches (r_visit r) s) (state_candidates c s ev)"

definition select_rule :: "contract \<Rightarrow> snapshot \<Rightarrow> string \<Rightarrow> sm_error + rule" where
  "select_rule c s ev =
     (case candidates c s ev of
        [] \<Rightarrow> Inl (Invalid (if state_candidates c s ev \<noteq> [] then VISIT_STATE_MISMATCH
                            else UNLISTED_TRANSITION))
      | [r] \<Rightarrow> Inr r
      | _ \<Rightarrow> Inl (Invalid AMBIGUOUS_TRANSITION))"

text \<open>\<open>rule.get("version_action", defaults.get("version_action"))\<close>: the default only for an absent key.\<close>

definition version_action_of :: "contract \<Rightarrow> rule \<Rightarrow> string option" where
  "version_action_of c r =
     (case r_version_action r of None \<Rightarrow> d_version_action (c_defaults c) | Some a \<Rightarrow> a)"

definition plan_of ::
  "contract \<Rightarrow> snapshot \<Rightarrow> string \<Rightarrow> rule \<Rightarrow> int \<Rightarrow> string option \<Rightarrow> transition" where
  "plan_of c s ev r v vis =
     \<lparr>t_rule_id = r_id r, t_event = ev,
      t_state_before = s_state s, t_state_after = r_to r,
      t_visit_mode = (case vr_mode (r_visit r) of Some m \<Rightarrow> m | None \<Rightarrow> []),
      t_visit_before = s_visit s, t_visit_after = vis,
      t_version_before = s_version s, t_version_after = v,
      t_version_action = (case version_action_of c r of Some a \<Rightarrow> a | None \<Rightarrow> []),
      t_guard_refs = r_guard_refs r, t_effects = r_effects r,
      t_record_inquiry = (hr_inquiry (r_history r) = Some True),
      t_record_visit = (hr_visit (r_history r) = Some True),
      t_record_business =
        (case hr_business (r_history r) of
           None \<Rightarrow> d_business_event (c_defaults c) | Some b \<Rightarrow> b)\<rparr>"

definition resolve :: "contract \<Rightarrow> snapshot \<Rightarrow> string \<Rightarrow> sm_error + transition" where
  "resolve c s ev =
     rbind (sm_event c ev) (\<lambda>_.
     rbind (guard_or (case s_state s of None \<Rightarrow> True | Some st \<Rightarrow> st \<notin> set (c_terminal_states c))
              (Invalid TERMINAL_STATE)) (\<lambda>_.
     rbind (ensure_visit_allowed c (s_state s) (s_visit s)) (\<lambda>_.
     rbind (select_rule c s ev) (\<lambda>r.
     rbind (next_version s (version_action_of c r)) (\<lambda>v.
     rbind (next_visit_status (r_visit r) s) (\<lambda>vis.
     rbind (ensure_visit_allowed c (Some (r_to r)) vis) (\<lambda>_.
     Inr (plan_of c s ev r v vis))))))))"

lemmas [engine_defs] = sm_event_def visit_matches_def next_visit_status_def next_version_def
  ensure_visit_allowed_def state_candidates_def candidates_def select_rule_def
  version_action_of_def plan_of_def resolve_def

section \<open>Facts about snapshots\<close>

lemma snapshot_init_Inr:
  "snapshot_init st v vis = Inr s \<longleftrightarrow>
     s = \<lparr>s_state = st, s_version = v, s_visit = vis\<rparr> \<and>
     (case st of None \<Rightarrow> v = None
      | Some x \<Rightarrow> has_text x \<and> (\<exists>n. v = Some n \<and> 1 \<le> n)) \<and>
     (case vis of None \<Rightarrow> True | Some w \<Rightarrow> has_text w)"
  by (auto simp: snapshot_init_def res_simps split: option.splits)

text \<open>The class invariant of a constructed snapshot.\<close>

definition snapshot_ok :: "snapshot \<Rightarrow> bool" where
  "snapshot_ok s =
     ((s_state s = None \<longrightarrow> s_version s = None) \<and>
      (s_state s \<noteq> None \<longrightarrow> (case s_version s of None \<Rightarrow> False | Some n \<Rightarrow> 1 \<le> n)))"

lemma snapshot_init_ok: "snapshot_init st v vis = Inr s \<Longrightarrow> snapshot_ok s"
  by (auto simp: snapshot_init_Inr snapshot_ok_def split: option.splits)

section \<open>Facts about plans\<close>

lemma plan_of_simps [simp]:
  "t_rule_id (plan_of c s ev r v vis) = r_id r"
  "t_event (plan_of c s ev r v vis) = ev"
  "t_state_before (plan_of c s ev r v vis) = s_state s"
  "t_state_after (plan_of c s ev r v vis) = r_to r"
  "t_visit_before (plan_of c s ev r v vis) = s_visit s"
  "t_visit_after (plan_of c s ev r v vis) = vis"
  "t_version_before (plan_of c s ev r v vis) = s_version s"
  "t_version_after (plan_of c s ev r v vis) = v"
  "t_guard_refs (plan_of c s ev r v vis) = r_guard_refs r"
  "t_effects (plan_of c s ev r v vis) = r_effects r"
  by (simp_all add: plan_of_def)

lemma select_rule_Inr:
  "select_rule c s ev = Inr r \<longleftrightarrow> candidates c s ev = [r]"
  by (auto simp: select_rule_def split: list.splits)

lemma candidates_in:
  "r \<in> set (candidates c s ev) \<longleftrightarrow>
     r \<in> set (c_rules c) \<and> r_event r = ev \<and> r_from r = s_state s \<and> visit_matches (r_visit r) s"
  by (auto simp: candidates_def state_candidates_def)

text \<open>What a successful \<open>resolve\<close> tells: the rule it used and every check it passed.\<close>

lemma resolve_Inr:
  "resolve c s ev = Inr t \<longleftrightarrow>
     (\<exists>e r v vis. sm_event c ev = Inr e \<and>
        (\<forall>st. s_state s = Some st \<longrightarrow> st \<notin> set (c_terminal_states c)) \<and>
        ensure_visit_allowed c (s_state s) (s_visit s) = Inr () \<and>
        candidates c s ev = [r] \<and>
        next_version s (version_action_of c r) = Inr v \<and>
        next_visit_status (r_visit r) s = Inr vis \<and>
        ensure_visit_allowed c (Some (r_to r)) vis = Inr () \<and>
        t = plan_of c s ev r v vis)"
  by (auto simp: resolve_def res_simps select_rule_Inr split: option.splits)

lemma resolve_rule:
  assumes "resolve c s ev = Inr t"
  obtains r v vis where "r \<in> set (c_rules c)" "r_event r = ev" "r_from r = s_state s"
    "visit_matches (r_visit r) s" "candidates c s ev = [r]" "t = plan_of c s ev r v vis"
    "next_version s (version_action_of c r) = Inr v" "next_visit_status (r_visit r) s = Inr vis"
    "ensure_visit_allowed c (Some (r_to r)) vis = Inr ()"
proof -
  from assms obtain r v vis where *: "candidates c s ev = [r]" "t = plan_of c s ev r v vis"
    "next_version s (version_action_of c r) = Inr v" "next_visit_status (r_visit r) s = Inr vis"
    "ensure_visit_allowed c (Some (r_to r)) vis = Inr ()"
    by (auto simp: resolve_Inr)
  then have "r \<in> set (candidates c s ev)" by simp
  then have "r \<in> set (c_rules c)" "r_event r = ev" "r_from r = s_state s"
    "visit_matches (r_visit r) s"
    by (simp_all add: candidates_in)
  then show ?thesis using * by (rule that)
qed

lemma next_version_Inr:
  "next_version s a = Inr v \<longleftrightarrow>
     (a = Some ''INITIALIZE_1'' \<and> s_state s = None \<and> s_version s = None \<and> v = 1) \<or>
     (a = Some ''INCREMENT'' \<and> (\<exists>n. s_version s = Some n \<and> v = n + 1))"
  by (auto simp: next_version_def split: option.splits)

lemma next_visit_status_Inr:
  assumes "next_visit_status v s = Inr vis"
  shows "(vr_mode v \<in> {Some ''CREATE'', Some ''TRANSITION''} \<and> vr_to_status v = Some vis) \<or>
         (vr_mode v \<in> {Some ''PRESERVE'', Some ''PRESERVE_REQUIRE_STATUS''} \<and> vis = s_visit s) \<or>
         (vr_mode v = Some ''REQUIRE_ABSENT'' \<and> vis = None)"
  using assms by (auto simp: next_visit_status_def res_simps split: if_splits)

lemma ensure_visit_allowed_Inr:
  "ensure_visit_allowed c st vis = Inr u \<longleftrightarrow>
     (\<forall>s w. st = Some s \<longrightarrow> vis = Some w \<longrightarrow>
        (\<exists>allowed. dict_of (c_visit_statuses c) s = Some allowed \<and> w \<in> set allowed))"
  by (auto simp: ensure_visit_allowed_def res_simps split: option.splits)

lemma version_after_cases:
  assumes "resolve c s ev = Inr t"
  shows "(s_version s = None \<and> t_version_after t = 1) \<or>
         (\<exists>n. s_version s = Some n \<and> t_version_after t = n + 1)"
  using assms by (auto simp: resolve_Inr next_version_Inr)

lemma resolve_not_terminal:
  "resolve c s ev = Inr t \<Longrightarrow> s_state s = Some st \<Longrightarrow> st \<notin> set (c_terminal_states c)"
  by (auto simp: resolve_Inr)

lemma resolve_terminal:
  assumes "s_state s = Some st" and "st \<in> set (c_terminal_states c)"
  shows "\<exists>e. resolve c s ev = Inl (Invalid e) \<and> e \<in> {UNKNOWN_EVENT, TERMINAL_STATE}"
  using assms
  by (cases "sm_event c ev") (auto simp: resolve_def sm_event_def res_simps)

end
