(* ===== verification/Store.thy ===== *)
theory Store
  imports ReviewData StateEngine
begin

text \<open>
  The database the services write: the rows of the inquiry aggregate, the append-only transition
  history and the idempotency records, with the constraints of the Django models
  (\<open>workflow/models\<close>, \<open>inquiries/models\<close>, \<open>consultations/models\<close>, \<open>visits/models/visit.py\<close>,
  \<open>questionnaires/models\<close>, \<open>audit/models/ai_run.py\<close>). A write that violates a constraint is the
  \<open>Integrity\<close> error the ORM raises.

  A row embeds the rows it joins (\<open>select_related\<close>) that no modelled operation changes: a
  subscription its customer, a visit its technician. Primary keys and generated UUIDs come from
  counters of the database; time is the clock reading of the request, in microseconds.
\<close>

section \<open>Rows\<close>

record user_row =
  u_id :: nat
  u_public_id :: nat
  u_username :: string
  u_role_code :: string
  u_authenticated :: bool
  u_is_active :: bool
  u_is_synthetic :: bool
  u_permissions :: "string list"
  u_full_name :: string
  u_phone :: string

record customer_row =
  cu_user :: user_row
  cu_is_synthetic :: bool
  cu_deleted_at :: "int option"

record subscription_row =
  su_public_id :: nat
  su_contract_no :: string
  su_customer :: customer_row
  su_product_model_id :: "nat option"
  su_model_code :: "string option"
  su_status_code :: string

record inquiry_row =
  i_id :: nat
  i_public_id :: nat
  i_inquiry_code :: string
  i_subscription :: subscription_row
  i_initiated_by :: user_row
  i_assigned_user_id :: "nat option"
  i_assigned_role_code :: string
  i_channel_code :: "string option"
  i_raw_text :: string
  i_priority_code :: string
  i_source_key :: "string option"
  i_source_correlation :: "nat option"
  i_questionnaire_session :: "nat option"
  i_status_code :: string
  i_state_version :: int
  i_cancelled_at :: "int option"
  i_cancellation_reason_code :: "string option"
  i_cancellation_reason_detail :: "string option"

record consultation_row =
  co_id :: nat
  co_public_id :: nat
  co_inquiry_id :: nat
  co_sequence :: int
  co_consultant_id :: "nat option"
  co_status :: string
  co_outcome :: string
  co_summary :: string
  co_ai_draft_summary :: "string option"
  co_confirmed_summary :: "string option"
  co_summary_confirmed_at :: "int option"
  co_consultation_note :: "string option"
  co_additional_check :: "string option"
  co_customer_guidance :: "string option"
  co_usage_guidance_status :: "string option"
  co_visit_review_reason :: "(string \<times> string option) option"
  co_visit_not_needed_reason :: "(string \<times> string option) option"
  co_state_version :: int
  co_idempotency_key :: string
  co_correlation_id :: nat
  co_started_at :: "int option"
  co_completed_at :: "int option"
  co_data_classification :: string
  co_created_at :: int

record visit_row =
  v_id :: nat
  v_public_id :: nat
  v_inquiry_id :: nat
  v_inquiry_public_id :: nat
  v_technician :: "user_row option"
  v_status :: string
  v_requested_at :: int
  v_scheduled_at :: "int option"
  v_preferred_date :: "int option"
  v_confirmed_date :: "int option"
  v_visit_reason :: py
  v_usage_guidance_status :: py
  v_handoff_payload :: py
  v_started_at :: "int option"
  v_completed_at :: "int option"
  v_confirmed_cause :: "string option"
  v_action_taken :: "string option"
  v_state_version :: int
  v_idempotency_key :: string
  v_correlation_id :: nat
  v_data_classification :: string
  v_created_at :: int

record handoff_row =
  ho_inquiry_id :: nat
  ho_consultation_id :: nat
  ho_report_version :: int
  ho_report_status_code :: string
  ho_sections :: "(string \<times> py) list"
  ho_confirmed_by :: nat
  ho_confirmed_at :: int

record feedback_row =
  fb_id :: nat
  fb_public_id :: nat
  fb_followup_code :: string
  fb_inquiry_id :: nat
  fb_consultation_id :: "nat option"
  fb_visit_id :: "nat option"
  fb_channel_code :: string
  fb_resolution_status_code :: string
  fb_state_version :: int
  fb_customer_response :: "string option"
  fb_unresolved_reason :: "string option"
  fb_next_action :: string
  fb_requested_at :: int
  fb_responded_at :: "int option"
  fb_confirmed_at :: "int option"
  fb_created_at :: int

text \<open>A question; \<open>qa_answer_payload\<close> is the JSON column that holds its options.\<close>

record qa_row =
  qa_id :: nat
  qa_public_id :: nat
  qa_inquiry_id :: nat
  qa_sequence_no :: int
  qa_answer_type_code :: string
  qa_answer_payload :: py

record answer_row =
  fa_question_id :: nat
  fa_answered_by :: nat
  fa_answer_text :: "string option"
  fa_answer_payload :: py
  fa_accepted_state_version :: int
  fa_answered_at :: int

record symptom_row =
  sy_inquiry_id :: nat
  sy_symptom_type_code :: string
  sy_structured_payload :: py
  sy_schema_version :: string
  sy_is_customer_confirmed :: bool

record questionnaire_row =
  qs_id :: nat
  qs_public_id :: nat
  qs_subscription :: subscription_row
  qs_inquiry_id :: "nat option"
  qs_status_code :: string
  qs_answers_payload :: py
  qs_state_version :: int
  qs_started_at :: int
  qs_submitted_at :: "int option"
  qs_linked_at :: "int option"

text \<open>\<open>ar_reproducible\<close>: provider, model name and prompt version are all set.\<close>

record ai_run_row =
  ar_id :: nat
  ar_inquiry_id :: nat
  ar_status_code :: string
  ar_input_payload :: py
  ar_reproducible :: bool
  ar_schema_validation_status_code :: string
  ar_validated_output_payload :: py
  ar_created_at :: int
  ar_started_at :: "int option"
  ar_completed_at :: "int option"
  ar_error_code :: "string option"
  ar_error_message :: "string option"

record ai_handoff_row =
  ah_id :: nat
  ah_inquiry_id :: nat
  ah_ai_run_id :: nat
  ah_consultation_id :: "nat option"
  ah_schema_version :: string
  ah_sanitized_payload :: "(string \<times> py) list"
  ah_ai_draft_summary :: string
  ah_created_at :: int

record history_row =
  h_id :: nat
  h_target_type_code :: string
  h_questionnaire_id :: "nat option"
  h_inquiry_id :: "nat option"
  h_consultation_id :: "nat option"
  h_visit_id :: "nat option"
  h_actor_id :: "nat option"
  h_changed_by_type_code :: string
  h_event_code :: string
  h_from_state :: "string option"
  h_to_state :: string
  h_state_version :: int
  h_correlation_id :: nat
  h_idempotency_key :: string
  h_change_reason :: "string option"
  h_changed_at :: int

record idem_row =
  ir_actor_id :: nat
  ir_operation_id :: string
  ir_idempotency_key :: string
  ir_request_hash :: string
  ir_response_status :: "int option"
  ir_response_body :: py
  ir_resource_public_id :: "nat option"
  ir_completed_at :: "int option"

record db =
  db_users :: "user_row list"
  db_inquiries :: "inquiry_row list"
  db_consultations :: "consultation_row list"
  db_visits :: "visit_row list"
  db_handoffs :: "handoff_row list"
  db_feedback :: "feedback_row list"
  db_qa :: "qa_row list"
  db_answers :: "answer_row list"
  db_subscriptions :: "subscription_row list"
  db_symptoms :: "symptom_row list"
  db_questionnaires :: "questionnaire_row list"
  db_ai_runs :: "ai_run_row list"
  db_ai_handoffs :: "ai_handoff_row list"
  db_guidances :: "guidance_row list"
  db_guidance_items :: "guidance_item_row list"
  db_evidence :: "evidence_row list"
  db_cause_ledgers :: "cause_ledger_row list"
  db_reviews :: "review_row list"
  db_dispatches :: "dispatch_row list"
  db_history :: "history_row list"
  db_idem :: "idem_row list"
  db_next_id :: nat
  db_next_uuid :: nat

section \<open>Errors\<close>

datatype app_error =
    Not_found | Permission_denied
  | Business string string py int
  | Integrity string
  | Runtime string
  | Uncaught string

abbreviation STATE_CONFLICT :: string where "STATE_CONFLICT \<equiv> ''STATE-CONFLICT-01''"
abbreviation DUPLICATE_EVENT :: string where "DUPLICATE_EVENT \<equiv> ''DUPLICATE-EVENT-01''"
abbreviation INTERNAL_ERROR :: string where "INTERNAL_ERROR \<equiv> ''INTERNAL_ERROR''"

definition internal_error :: app_error where
  "internal_error = Business INTERNAL_ERROR ''msg.internal'' (PDict []) 500"

section \<open>Constraints\<close>

definition inquiry_constraints :: "inquiry_row \<Rightarrow> bool" where
  "inquiry_constraints i =
     ((case i_channel_code i of None \<Rightarrow> True
       | Some c \<Rightarrow> c \<in> {''WEB'', ''MOBILE'', ''PHONE'', ''OPERATOR''}) \<and>
      i_assigned_role_code i \<in> {''NONE'', ''CONSULTANT'', ''TECHNICIAN''} \<and>
      (i_assigned_role_code i = ''NONE'' \<and> i_assigned_user_id i = None \<or>
       i_assigned_role_code i \<in> {''CONSULTANT'', ''TECHNICIAN''} \<and> i_assigned_user_id i \<noteq> None) \<and>
      i_status_code i \<in> {''DRAFT'', ''QUESTIONNAIRE_IN_PROGRESS'', ''AI_GUIDANCE'',
        ''CONSULTATION_REQUIRED'', ''CONSULTATION_IN_PROGRESS'', ''VISIT_REVIEW_PENDING'',
        ''VISIT_SCHEDULING'', ''VISIT_SCHEDULED'', ''COMPLETION_PENDING'', ''REVISIT_REQUIRED'',
        ''REOPENED'', ''RESOLVED'', ''CANCELLED''} \<and>
      i_priority_code i \<in> {''LOW'', ''NORMAL'', ''HIGH'', ''URGENT''} \<and>
      0 < i_state_version i \<and> i_raw_text i \<noteq> [] \<and>
      (case i_cancellation_reason_code i of None \<Rightarrow> True
       | Some r \<Rightarrow> r \<in> {''CUSTOMER_REQUEST'', ''DUPLICATE_INQUIRY'', ''ISSUE_RESOLVED'', ''OTHER''}) \<and>
      (if i_status_code i = ''CANCELLED''
       then i_cancelled_at i \<noteq> None \<and> i_cancellation_reason_code i \<noteq> None
       else i_cancelled_at i = None \<and> i_cancellation_reason_code i = None \<and>
            i_cancellation_reason_detail i = None))"

definition consultation_lifecycle :: "consultation_row \<Rightarrow> bool" where
  "consultation_lifecycle r =
     (co_status r = ''WAITING'' \<and> co_consultant_id r = None \<and> co_started_at r = None \<and>
        co_completed_at r = None \<or>
      co_status r = ''ASSIGNED'' \<and> co_consultant_id r \<noteq> None \<and> co_started_at r = None \<and>
        co_completed_at r = None \<or>
      co_status r = ''IN_PROGRESS'' \<and> co_consultant_id r \<noteq> None \<and> co_started_at r \<noteq> None \<and>
        co_completed_at r = None \<or>
      co_status r = ''COMPLETED'' \<and> co_consultant_id r \<noteq> None \<and> co_started_at r \<noteq> None \<and>
        co_completed_at r \<noteq> None \<or>
      co_status r = ''CANCELLED'' \<and> co_completed_at r = None)"

definition consultation_outcome_lifecycle :: "consultation_row \<Rightarrow> bool" where
  "consultation_outcome_lifecycle r =
     (co_status r = ''COMPLETED'' \<and>
        co_outcome r \<in> {''COMPLETED_NO_VISIT'', ''VISIT_REQUIRED'', ''REOPENED_FOLLOWUP''} \<or>
      co_status r = ''IN_PROGRESS'' \<and> co_outcome r \<in>
        {''PENDING'', ''COMPLETED_NO_VISIT'', ''VISIT_REQUIRED'', ''REOPENED_FOLLOWUP''} \<or>
      co_status r \<in> {''WAITING'', ''ASSIGNED'', ''CANCELLED''} \<and> co_outcome r = ''PENDING'')"

definition consultation_constraints :: "consultation_row \<Rightarrow> bool" where
  "consultation_constraints r =
     (0 < co_sequence r \<and> 0 < co_state_version r \<and>
      co_data_classification r \<in> {''synthetic'', ''operational''} \<and> co_idempotency_key r \<noteq> [] \<and>
      consultation_lifecycle r \<and> consultation_outcome_lifecycle r \<and>
      (case co_started_at r of None \<Rightarrow> True | Some t \<Rightarrow> co_created_at r \<le> t) \<and>
      (case (co_completed_at r, co_started_at r) of (Some t, Some s) \<Rightarrow> s \<le> t | _ \<Rightarrow> True))"

definition visit_lifecycle :: "visit_row \<Rightarrow> bool" where
  "visit_lifecycle r =
     (v_status r = ''ASSIGNING'' \<and> v_technician r = None \<and> v_started_at r = None \<and>
        v_completed_at r = None \<or>
      v_status r = ''SCHEDULING'' \<and> v_technician r \<noteq> None \<and> v_started_at r = None \<and>
        v_completed_at r = None \<or>
      v_status r = ''CONFIRMED'' \<and> v_technician r \<noteq> None \<and> v_scheduled_at r \<noteq> None \<and>
        v_started_at r = None \<and> v_completed_at r = None \<or>
      v_status r = ''IN_PROGRESS'' \<and> v_technician r \<noteq> None \<and> v_started_at r \<noteq> None \<and>
        v_completed_at r = None \<or>
      v_status r \<in> {''COMPLETED'', ''FOLLOW_UP_REQUIRED''} \<and> v_technician r \<noteq> None \<and>
        v_started_at r \<noteq> None \<and> v_completed_at r \<noteq> None \<or>
      v_status r = ''CANCELLED'' \<and> v_completed_at r = None)"

definition visit_constraints :: "visit_row \<Rightarrow> bool" where
  "visit_constraints r =
     (0 < v_state_version r \<and> v_data_classification r \<in> {''synthetic'', ''operational''} \<and>
      v_idempotency_key r \<noteq> [] \<and> visit_lifecycle r \<and>
      (case (v_completed_at r, v_started_at r) of (Some t, Some s) \<Rightarrow> s \<le> t | _ \<Rightarrow> True) \<and>
      (if v_status r \<in> {''COMPLETED'', ''FOLLOW_UP_REQUIRED''}
       then v_confirmed_cause r \<noteq> None \<and> v_action_taken r \<noteq> None
       else v_confirmed_cause r = None \<and> v_action_taken r = None))"

text \<open>The target of a history row: exactly the foreign key its type names.\<close>

definition history_target :: "history_row \<Rightarrow> (string \<times> nat) option" where
  "history_target h =
     (case (h_target_type_code h, h_questionnaire_id h, h_inquiry_id h, h_consultation_id h, h_visit_id h) of
        (t, Some q, None, None, None) \<Rightarrow> if t = ''QUESTIONNAIRE'' then Some (t, q) else None
      | (t, None, Some i, None, None) \<Rightarrow> if t = ''INQUIRY'' then Some (t, i) else None
      | (t, None, None, Some c, None) \<Rightarrow> if t = ''CONSULTATION'' then Some (t, c) else None
      | (t, None, None, None, Some v) \<Rightarrow> if t = ''VISIT'' then Some (t, v) else None
      | _ \<Rightarrow> None)"

definition history_constraints :: "history_row \<Rightarrow> bool" where
  "history_constraints h =
     (0 < h_state_version h \<and> history_target h \<noteq> None \<and>
      (h_changed_by_type_code h = ''USER'' \<and> h_actor_id h \<noteq> None \<or>
       h_changed_by_type_code h = ''SYSTEM'' \<and> h_actor_id h = None) \<and>
      (h_state_version h = 1 \<and> h_from_state h = None \<or>
       1 < h_state_version h \<and> h_from_state h \<noteq> None))"

definition history_slot :: "history_row \<Rightarrow> (string \<times> nat) option \<times> int" where
  "history_slot h = (history_target h, h_state_version h)"

section \<open>Transition history\<close>

definition insert_history :: "history_row \<Rightarrow> db \<Rightarrow> app_error + db" where
  "insert_history h d =
     (if \<not> history_constraints h then Inl (Integrity ''ck_status_history'')
      else if history_slot h \<in> history_slot ` set (db_history d)
      then Inl (Integrity ''uq_status_history_version'')
      else Inr (d\<lparr>db_history := db_history d @ [h\<lparr>h_id := db_next_id d\<rparr>],
                  db_next_id := Suc (db_next_id d)\<rparr>))"

definition create_transition_history ::
  "nat \<Rightarrow> nat option \<Rightarrow> string \<Rightarrow> string option \<Rightarrow> string \<Rightarrow> int \<Rightarrow> nat \<Rightarrow> string \<Rightarrow>
     string option \<Rightarrow> string option \<Rightarrow> int \<Rightarrow> db \<Rightarrow> app_error + db" where
  "create_transition_history inquiry actor event from to version correlation key changed_by reason now d =
     insert_history
       \<lparr>h_id = 0, h_target_type_code = ''INQUIRY'', h_questionnaire_id = None,
        h_inquiry_id = Some inquiry, h_consultation_id = None, h_visit_id = None, h_actor_id = actor,
        h_changed_by_type_code =
          (case changed_by of Some t \<Rightarrow> t
           | None \<Rightarrow> if actor = None then ''SYSTEM'' else ''USER''),
        h_event_code = event, h_from_state = from, h_to_state = to, h_state_version = version,
        h_correlation_id = correlation, h_idempotency_key = key, h_change_reason = reason,
        h_changed_at = now\<rparr> d"

definition create_visit_transition_history ::
  "nat \<Rightarrow> nat \<Rightarrow> string \<Rightarrow> string option \<Rightarrow> string \<Rightarrow> int \<Rightarrow> nat \<Rightarrow> string \<Rightarrow> int \<Rightarrow> db \<Rightarrow>
     app_error + db" where
  "create_visit_transition_history visit actor event from to version correlation key now d =
     insert_history
       \<lparr>h_id = 0, h_target_type_code = ''VISIT'', h_questionnaire_id = None, h_inquiry_id = None,
        h_consultation_id = None, h_visit_id = Some visit, h_actor_id = Some actor,
        h_changed_by_type_code = ''USER'', h_event_code = event, h_from_state = from, h_to_state = to,
        h_state_version = version, h_correlation_id = correlation, h_idempotency_key = key,
        h_change_reason = None, h_changed_at = now\<rparr> d"

definition record_start_inquiry ::
  "inquiry_row \<Rightarrow> user_row \<Rightarrow> nat \<Rightarrow> string \<Rightarrow> int \<Rightarrow> db \<Rightarrow> app_error + db" where
  "record_start_inquiry i actor correlation key now =
     create_transition_history (i_id i) (Some (u_id actor)) ''START_INQUIRY'' None ''DRAFT'' 1
       correlation key None None now"

definition record_inquiry_action ::
  "inquiry_row \<Rightarrow> transition \<Rightarrow> user_row \<Rightarrow> nat \<Rightarrow> string \<Rightarrow> string option \<Rightarrow> int \<Rightarrow> db \<Rightarrow>
     app_error + db" where
  "record_inquiry_action i t actor correlation key reason now =
     create_transition_history (i_id i) (Some (u_id actor)) (t_event t) (t_state_before t)
       (t_state_after t) (t_version_after t) correlation key None reason now"

definition record_submit_symptom ::
  "inquiry_row \<Rightarrow> transition \<Rightarrow> user_row \<Rightarrow> nat \<Rightarrow> string \<Rightarrow> int \<Rightarrow> db \<Rightarrow> app_error + db" where
  "record_submit_symptom i t actor correlation key now =
     create_transition_history (i_id i) (Some (u_id actor)) (t_event t) (t_state_before t)
       (t_state_after t) (t_version_after t) correlation key None None now"

definition record_cancel_inquiry ::
  "inquiry_row \<Rightarrow> transition \<Rightarrow> user_row \<Rightarrow> nat \<Rightarrow> string \<Rightarrow> string \<Rightarrow> string option \<Rightarrow> int \<Rightarrow> db \<Rightarrow>
     app_error + db" where
  "record_cancel_inquiry i t actor correlation key reason_code reason_detail now =
     (let detail = strip (case reason_detail of None \<Rightarrow> [] | Some s \<Rightarrow> s);
          change_reason = (if detail \<noteq> [] then reason_code @ '' | '' @ detail else reason_code)
      in create_transition_history (i_id i) (Some (u_id actor)) (t_event t) (t_state_before t)
           (t_state_after t) (t_version_after t) correlation key None (Some change_reason) now)"

definition record_visit_action ::
  "visit_row \<Rightarrow> transition \<Rightarrow> user_row \<Rightarrow> nat \<Rightarrow> string \<Rightarrow> int \<Rightarrow> db \<Rightarrow> app_error + db" where
  "record_visit_action v t actor correlation key now d =
     (case t_visit_after t of
        None \<Rightarrow> Inl (Integrity ''to_state'')
      | Some w \<Rightarrow> create_visit_transition_history (v_id v) (u_id actor) (t_event t)
          (t_visit_before t) w (v_state_version v) correlation key now d)"

definition record_questionnaire_action ::
  "nat \<Rightarrow> user_row \<Rightarrow> string \<Rightarrow> string option \<Rightarrow> string \<Rightarrow> int \<Rightarrow> nat \<Rightarrow> string \<Rightarrow> int \<Rightarrow> db \<Rightarrow>
     app_error + db" where
  "record_questionnaire_action session actor event from to version correlation key now d =
     insert_history
       \<lparr>h_id = 0, h_target_type_code = ''QUESTIONNAIRE'', h_questionnaire_id = Some session,
        h_inquiry_id = None, h_consultation_id = None, h_visit_id = None, h_actor_id = Some (u_id actor),
        h_changed_by_type_code = ''USER'', h_event_code = event, h_from_state = from, h_to_state = to,
        h_state_version = version, h_correlation_id = correlation, h_idempotency_key = key,
        h_change_reason = None, h_changed_at = now\<rparr> d"

definition record_ai_result ::
  "inquiry_row \<Rightarrow> transition \<Rightarrow> nat \<Rightarrow> string \<Rightarrow> int \<Rightarrow> db \<Rightarrow> app_error + db" where
  "record_ai_result i t correlation ai_request_id now =
     create_transition_history (i_id i) None (t_event t) (t_state_before t) (t_state_after t)
       (t_version_after t) correlation ai_request_id (Some ''SYSTEM'') None now"

definition record_human_review_result ::
  "inquiry_row \<Rightarrow> transition \<Rightarrow> nat \<Rightarrow> string \<Rightarrow> nat \<Rightarrow> string \<Rightarrow> int \<Rightarrow> db \<Rightarrow> app_error + db" where
  "record_human_review_result i t correlation key review reason_code now =
     create_transition_history (i_id i) None (t_event t) (t_state_before t) (t_state_after t)
       (t_version_after t) correlation key (Some ''SYSTEM'')
       (Some (reason_code @ '' | review='' @ uuid_text review)) now"

section \<open>Idempotency records\<close>

definition idem_scope :: "idem_row \<Rightarrow> nat \<times> string \<times> string" where
  "idem_scope r = (ir_actor_id r, ir_operation_id r, ir_idempotency_key r)"

definition lock_idempotency_scope :: "nat \<times> string \<times> string \<Rightarrow> db \<Rightarrow> idem_row option" where
  "lock_idempotency_scope k d = find (\<lambda>r. idem_scope r = k) (db_idem d)"

definition create_idempotency_record ::
  "nat \<times> string \<times> string \<Rightarrow> string \<Rightarrow> db \<Rightarrow> app_error + db" where
  "create_idempotency_record k hash d =
     (if k \<in> idem_scope ` set (db_idem d) then Inl (Integrity ''ux_workflow_idempotency_scope'')
      else Inr (d\<lparr>db_idem := db_idem d @
        [\<lparr>ir_actor_id = fst k, ir_operation_id = fst (snd k), ir_idempotency_key = snd (snd k),
          ir_request_hash = hash, ir_response_status = None, ir_response_body = PDict [],
          ir_resource_public_id = None, ir_completed_at = None\<rparr>]\<rparr>))"

definition complete_idempotency_record ::
  "nat \<times> string \<times> string \<Rightarrow> int \<Rightarrow> py \<Rightarrow> nat \<Rightarrow> int \<Rightarrow> db \<Rightarrow> db" where
  "complete_idempotency_record k status body resource now d =
     d\<lparr>db_idem := map (\<lambda>r. if idem_scope r = k
         then r\<lparr>ir_response_status := Some status, ir_response_body := body,
                ir_resource_public_id := Some resource, ir_completed_at := Some now\<rparr>
         else r) (db_idem d)\<rparr>"

text \<open>\<open>IdempotencyService.replay_or_conflict\<close>: the stored response, marked as a replay.\<close>

definition replay_or_conflict ::
  "idem_row \<Rightarrow> string \<Rightarrow> string \<Rightarrow> app_error + (int \<times> py)" where
  "replay_or_conflict r hash replay_field =
     (if ir_request_hash r \<noteq> hash then
        Inl (Business DUPLICATE_EVENT ''msg.key_reused'' (PDict []) 409)
      else case (ir_completed_at r, ir_response_status r, truthy (ir_response_body r)) of
        (Some _, Some status, True) \<Rightarrow>
          (case ir_response_body r of
             PDict kvs \<Rightarrow> Inr (status, PDict (dict_set kvs replay_field (PBool True)))
           | _ \<Rightarrow> Inl (Uncaught ''response_body''))
      | _ \<Rightarrow> Inl (Business DUPLICATE_EVENT ''msg.still_processing'' (PDict []) 409))"

section \<open>Inquiry rows\<close>

text \<open>\<open>save(update_fields=...)\<close> writes the named columns of the row and is refused by a violated check.\<close>

definition update_inquiry ::
  "(inquiry_row \<Rightarrow> inquiry_row) \<Rightarrow> inquiry_row \<Rightarrow> db \<Rightarrow> app_error + (inquiry_row \<times> db)" where
  "update_inquiry f i d =
     (if \<not> inquiry_constraints (f i) then Inl (Integrity ''ck_inquiry'')
      else Inr (f i, d\<lparr>db_inquiries :=
        map (\<lambda>r. if i_id r = i_id i then f r else r) (db_inquiries d)\<rparr>))"

definition apply_state_transition ::
  "inquiry_row \<Rightarrow> string \<Rightarrow> int \<Rightarrow> db \<Rightarrow> app_error + (inquiry_row \<times> db)" where
  "apply_state_transition i status version =
     update_inquiry (\<lambda>r. r\<lparr>i_status_code := status, i_state_version := version\<rparr>) i"

definition assign_consultant ::
  "inquiry_row \<Rightarrow> user_row \<Rightarrow> int \<Rightarrow> db \<Rightarrow> app_error + (inquiry_row \<times> db)" where
  "assign_consultant i actor version =
     update_inquiry (\<lambda>r. r\<lparr>i_assigned_user_id := Some (u_id actor),
       i_assigned_role_code := ''CONSULTANT'', i_state_version := version\<rparr>) i"

definition mark_cancelled ::
  "inquiry_row \<Rightarrow> string \<Rightarrow> int \<Rightarrow> string \<Rightarrow> string option \<Rightarrow> int \<Rightarrow> db \<Rightarrow>
     app_error + (inquiry_row \<times> db)" where
  "mark_cancelled i status version reason_code reason_detail now =
     update_inquiry (\<lambda>r. r\<lparr>i_status_code := status, i_state_version := version,
       i_cancelled_at := Some now, i_cancellation_reason_code := Some reason_code,
       i_cancellation_reason_detail := reason_detail\<rparr>) i"

text \<open>
  \<open>latest_visit_status\<close> orders by \<open>-created_at\<close> alone; among visits created at the same instant the
  model takes the first stored.
\<close>

definition visits_of :: "inquiry_row \<Rightarrow> db \<Rightarrow> visit_row list" where
  "visits_of i d = filter (\<lambda>v. v_inquiry_id v = i_id i) (db_visits d)"

definition consultations_of :: "inquiry_row \<Rightarrow> db \<Rightarrow> consultation_row list" where
  "consultations_of i d = filter (\<lambda>c. co_inquiry_id c = i_id i) (db_consultations d)"

definition latest_visit_status :: "inquiry_row \<Rightarrow> db \<Rightarrow> string option" where
  "latest_visit_status i d =
     map_option v_status (first_by (\<lambda>v. Desc (v_created_at v)) (visits_of i d))"

text \<open>A question with a \<open>customer_answer\<close>.\<close>

definition answered :: "db \<Rightarrow> qa_row \<Rightarrow> bool" where
  "answered d q = list_ex (\<lambda>a. fa_question_id a = qa_id q) (db_answers d)"

definition lock_owned_inquiry :: "nat \<Rightarrow> user_row \<Rightarrow> db \<Rightarrow> inquiry_row option" where
  "lock_owned_inquiry uid actor d =
     find (\<lambda>i. i_public_id i = uid \<and> u_id (cu_user (su_customer (i_subscription i))) = u_id actor \<and>
        cu_deleted_at (su_customer (i_subscription i)) = None) (db_inquiries d)"

definition lock_cancellable_inquiry :: "nat \<Rightarrow> user_row \<Rightarrow> db \<Rightarrow> inquiry_row option" where
  "lock_cancellable_inquiry uid actor d =
     (let scope =
        (if u_role_code actor = ''CUSTOMER'' then
           Some (\<lambda>i. u_id (cu_user (su_customer (i_subscription i))) = u_id actor \<and>
                    cu_deleted_at (su_customer (i_subscription i)) = None)
         else if u_role_code actor = ''CONSULTANT'' then
           Some (\<lambda>i. i_assigned_user_id i = Some (u_id actor) \<and> i_assigned_role_code i = ''CONSULTANT'')
         else if u_role_code actor = ''OPERATOR'' \<and> ''inquiries.cancel_inquiry'' \<in> set (u_permissions actor)
         then Some (\<lambda>i. True)
         else None)
      in case scope of None \<Rightarrow> None
         | Some P \<Rightarrow> find (\<lambda>i. P i \<and> i_public_id i = uid) (db_inquiries d))"

definition lock_assigned_inquiry :: "nat \<Rightarrow> user_row \<Rightarrow> db \<Rightarrow> inquiry_row option" where
  "lock_assigned_inquiry uid actor d =
     find (\<lambda>i. i_public_id i = uid \<and> i_assigned_user_id i = Some (u_id actor) \<and>
        i_assigned_role_code i = ''CONSULTANT'' \<and> u_is_synthetic (i_initiated_by i) \<and>
        cu_is_synthetic (su_customer (i_subscription i))) (db_inquiries d)"

end
