(* ===== verification/ActionResolver.thy ===== *)
theory ActionResolver
  imports StateEngine
begin

text \<open>
  \<open>AllowedActionResolver\<close> (\<open>engine/allowed_action_resolver.py\<close>): the actions a client may offer to an
  actor. The runtime action table comes from the API crosswalk, candidates from the state and role
  table of the contract, and each candidate must resolve in the state machine through a rule the
  table links it to and pass every guard that can be decided without a request payload.
\<close>

section \<open>Documents\<close>

record crosswalk_item =
  cx_action :: "string option"
  cx_event :: "string option"
  cx_operation_id :: "string option"
  cx_classification :: "string option"
  cx_implemented :: bool

record catalog_entry =
  ca_code :: string
  ca_label :: string
  ca_operation_id :: string
  ca_style :: string
  ca_requires_confirmation :: bool
  ca_confirmation_message :: "string option"

record assignment =
  as_action :: string
  as_rule_ids :: "string list"

record action_document =
  ad_catalog :: "catalog_entry list"
  ad_state_roles :: "(string \<times> (string \<times> assignment list) list) list"

record runtime_action =
  ra_event :: string
  ra_operation_id :: string

datatype resolver_error =
    Invalid_crosswalk_entry | Duplicate_action string | Catalog_drift string
  | Bad_snapshot snapshot_error | Engine_key_error string

section \<open>Runtime actions\<close>

definition text_value :: "string option \<Rightarrow> bool" where
  "text_value v = (case v of None \<Rightarrow> False | Some s \<Rightarrow> has_text s)"

fun runtime_action_contract ::
  "crosswalk_item list \<Rightarrow> (string \<times> runtime_action) list \<Rightarrow>
     resolver_error + (string \<times> runtime_action) list" where
  "runtime_action_contract [] result = Inr result"
| "runtime_action_contract (i # is) result =
     (if cx_classification i \<noteq> Some ''RUNTIME_IMPLEMENTED'' \<or> \<not> cx_implemented i then
        runtime_action_contract is result
      else case (cx_action i, cx_event i, cx_operation_id i) of
        (Some a, Some e, Some opid) \<Rightarrow>
          if \<not> (has_text a \<and> has_text e \<and> has_text opid) then Inl Invalid_crosswalk_entry
          else if a \<in> fst ` set result then Inl (Duplicate_action a)
          else runtime_action_contract is (result @ [(a, \<lparr>ra_event = e, ra_operation_id = opid\<rparr>)])
      | _ \<Rightarrow> Inl Invalid_crosswalk_entry)"

section \<open>Context\<close>

record action_context =
  ac_inquiry_state :: string
  ac_state_version :: int
  ac_actor_role :: string
  ac_actor_id :: "nat option"
  ac_owner_id :: "nat option"
  ac_assigned_user_id :: "nat option"
  ac_assigned_role_code :: "string option"
  ac_actor_permissions :: "string list"
  ac_product_present :: bool
  ac_symptom_payload_valid :: bool
  ac_open_followup_questions :: bool
  ac_consultation_exists :: bool
  ac_consultation_status :: "string option"
  ac_consultation_consultant_id :: "nat option"
  ac_consultation_summary :: string
  ac_consultation_confirmed_summary :: "string option"
  ac_consultation_summary_confirmed :: bool
  ac_consultation_outcome :: "string option"
  ac_consultation_completed :: bool
  ac_visit_exists :: bool
  ac_visit_status :: "string option"
  ac_visit_is_latest :: bool
  ac_visit_confirmed_date :: bool
  ac_technician_assigned :: bool
  ac_technician_active :: bool
  ac_technician_synthetic :: bool
  ac_technician_role :: "string option"
  ac_completion_source :: "string option"
  ac_actor_is_last_handler :: bool
  ac_fresh_resolved_feedback_exists :: bool

section \<open>Guards a read can decide\<close>

definition truthy_text :: "string option \<Rightarrow> bool" where
  "truthy_text v = (case v of None \<Rightarrow> False | Some s \<Rightarrow> s \<noteq> [])"

definition role_guards :: "string \<rightharpoonup> string" where
  "role_guards = map_of [
     (''G-ACTOR-CUSTOMER'', ''CUSTOMER''), (''G-ACTOR-CONSULTANT'', ''CONSULTANT''),
     (''G-ACTOR-TECHNICIAN'', ''TECHNICIAN''), (''G-ACTOR-SYSTEM'', ''SYSTEM'')]"

definition payload_guards :: "string list" where
  "payload_guards = [''G-STATE-VERSION'', ''G-IDEMPOTENCY-KEY'', ''G-CANCELLATION-REASON'',
     ''G-RESOLUTION-FEEDBACK-RESOLVED'', ''G-UNRESOLVED-FEEDBACK-VALID'',
     ''G-FINALIZATION-PAYLOAD-VALID'']"

definition guard_available :: "action_context \<Rightarrow> string \<Rightarrow> bool" where
  "guard_available x g =
     (case role_guards g of Some r \<Rightarrow> ac_actor_role x = r | None \<Rightarrow>
      if g = ''G-INQUIRY-OWNER'' then ac_actor_id x = ac_owner_id x
      else if g = ''G-ASSIGNED-CONSULTANT'' then
        ac_actor_role x = ''CONSULTANT'' \<and> ac_actor_id x = ac_assigned_user_id x
      else if g = ''G-UNASSIGNED-CONSULTATION-CLAIMABLE'' then
        ac_actor_role x = ''CONSULTANT'' \<and> ac_assigned_user_id x = None \<and>
        ac_assigned_role_code x = Some ''NONE'' \<and> ac_consultation_exists x \<and>
        ac_consultation_status x = Some ''WAITING'' \<and> ac_consultation_consultant_id x = None
      else if g = ''G-CANCEL-ACTOR-AUTHORIZED'' then
        (ac_actor_role x = ''CUSTOMER'' \<and> ac_actor_id x = ac_owner_id x) \<or>
        (ac_actor_role x = ''CONSULTANT'' \<and> ac_actor_id x = ac_assigned_user_id x) \<or>
        (ac_actor_role x = ''OPERATOR'' \<and> ''INQUIRY_CANCEL'' \<in> set (ac_actor_permissions x))
      else if g \<in> set payload_guards then True
      else if g = ''G-ACTOR-LAST-HANDLER'' then ac_actor_is_last_handler x
      else if g = ''G-RESOLVED-CUSTOMER-FEEDBACK-EXISTS'' then ac_fresh_resolved_feedback_exists x
      else if g = ''G-NO-FRESH-RESOLVED-CUSTOMER-FEEDBACK'' then \<not> ac_fresh_resolved_feedback_exists x
      else if g = ''G-SYMPTOM-PAYLOAD-VALID'' then ac_symptom_payload_valid x
      else if g = ''G-FOLLOWUP-ANSWERS-VALID'' then ac_open_followup_questions x
      else if g = ''G-CONSULTATION-SUMMARY-PAYLOAD-VALID'' then ac_consultation_exists x
      else if g = ''G-CONSULTATION-SUMMARY-CONFIRMABLE'' then
        ac_consultation_exists x \<and> has_text (ac_consultation_summary x) \<and>
        \<not> ac_consultation_summary_confirmed x
      else if g = ''G-CONSULTATION-RESULT-COMPLETE'' then
        ac_consultation_exists x \<and>
        ac_consultation_outcome x \<in>
          {Some ''COMPLETED_NO_VISIT'', Some ''VISIT_REQUIRED'', Some ''REOPENED_FOLLOWUP''} \<and>
        truthy_text (ac_consultation_confirmed_summary x) \<and> ac_consultation_summary_confirmed x \<and>
        \<not> ac_consultation_completed x
      else if g = ''G-VISIT-REVIEW-PAYLOAD-VALID'' then
        ac_consultation_exists x \<and> ac_consultation_outcome x = Some ''VISIT_REQUIRED'' \<and>
        truthy_text (ac_consultation_confirmed_summary x) \<and> \<not> ac_visit_exists x
      else if g = ''G-VISIT-HANDOFF-COMPLETE'' then
        ac_consultation_exists x \<and> ac_consultation_outcome x = Some ''VISIT_REQUIRED'' \<and>
        truthy_text (ac_consultation_confirmed_summary x) \<and> ac_product_present x \<and> \<not> ac_visit_exists x
      else if g = ''G-VISIT-NOT-NEEDED-RESULT-COMPLETE'' then
        ac_consultation_exists x \<and> ac_consultation_outcome x = Some ''VISIT_REQUIRED'' \<and>
        truthy_text (ac_consultation_confirmed_summary x) \<and> ac_consultation_summary_confirmed x \<and>
        \<not> ac_visit_exists x
      else if g = ''G-VISIT-SCHEDULE-PAYLOAD-VALID'' then ac_visit_exists x \<and> ac_visit_is_latest x
      else if g = ''G-CONFIRMED-VISIT-DATE'' then ac_visit_is_latest x \<and> ac_visit_confirmed_date x
      else if g = ''G-ASSIGNED-TECHNICIAN-PRESENT'' then
        ac_visit_is_latest x \<and> ac_technician_assigned x \<and> ac_technician_active x \<and>
        ac_technician_synthetic x \<and> ac_technician_role x = Some ''TECHNICIAN''
      else False)"

section \<open>Resolution\<close>

definition role_assignments :: "action_document \<Rightarrow> string \<Rightarrow> string \<Rightarrow> assignment list" where
  "role_assignments d st role =
     (case map_of (ad_state_roles d) st of
        None \<Rightarrow> []
      | Some rs \<Rightarrow> (case map_of rs role of None \<Rightarrow> [] | Some xs \<Rightarrow> xs))"

definition catalog_of :: "action_document \<Rightarrow> string \<Rightarrow> catalog_entry option" where
  "catalog_of d = dict_of (map (\<lambda>e. (ca_code e, e)) (ad_catalog d))"

text \<open>One candidate: \<open>Some\<close> the offered action, \<open>None\<close> a \<open>continue\<close> of the loop.\<close>

definition resolve_candidate ::
  "contract \<Rightarrow> action_document \<Rightarrow> (string \<times> runtime_action) list \<Rightarrow> action_context \<Rightarrow>
     assignment \<Rightarrow> resolver_error + catalog_entry option" where
  "resolve_candidate c d rt x a =
     (case map_of rt (as_action a) of
        None \<Rightarrow> Inr None
      | Some ra \<Rightarrow>
        (case catalog_of d (as_action a) of
           None \<Rightarrow> Inl (Catalog_drift (as_action a))
         | Some e \<Rightarrow>
           if ca_operation_id e \<noteq> ra_operation_id ra then Inl (Catalog_drift (as_action a))
           else
             (case snapshot_init (Some (ac_inquiry_state x)) (Some (ac_state_version x))
                     (ac_visit_status x) of
                Inl err \<Rightarrow> Inl (Bad_snapshot err)
              | Inr s \<Rightarrow>
                (case resolve c s (ra_event ra) of
                   Inl (Invalid r) \<Rightarrow> Inr None
                 | Inl (Missing_key k) \<Rightarrow> Inl (Engine_key_error k)
                 | Inr t \<Rightarrow>
                   if t_rule_id t \<notin> set (as_rule_ids a) then Inr None
                   else if \<not> list_all (guard_available x) (t_guard_refs t) then Inr None
                   else Inr (Some e)))))"

definition resolve_actions ::
  "contract \<Rightarrow> action_document \<Rightarrow> crosswalk_item list \<Rightarrow> action_context \<Rightarrow>
     resolver_error + catalog_entry list" where
  "resolve_actions c d cx x =
     rbind (runtime_action_contract cx []) (\<lambda>rt.
     rbind (map_res (resolve_candidate c d rt x)
              (role_assignments d (ac_inquiry_state x) (ac_actor_role x)))
       (\<lambda>rs. Inr (List.map_filter (\<lambda>r. r) rs)))"

section \<open>The runtime action table\<close>

lemma runtime_action_contract_distinct:
  "\<lbrakk> runtime_action_contract is acc = Inr rt; distinct (map fst acc) \<rbrakk> \<Longrightarrow> distinct (map fst rt)"
  by (induction "is" acc rule: runtime_action_contract.induct)
    (auto split: if_splits option.splits simp: image_iff)

definition implemented :: "crosswalk_item \<Rightarrow> bool" where
  "implemented i = (cx_classification i = Some ''RUNTIME_IMPLEMENTED'' \<and> cx_implemented i)"

lemma runtime_action_contract_in:
  "runtime_action_contract is acc = Inr rt \<Longrightarrow>
     (a, ra) \<in> set rt \<longleftrightarrow> (a, ra) \<in> set acc \<or>
       (\<exists>i \<in> set is. implemented i \<and> cx_action i = Some a \<and>
          cx_event i = Some (ra_event ra) \<and> cx_operation_id i = Some (ra_operation_id ra))"
proof (induction "is" acc rule: runtime_action_contract.induct)
  case (2 i "is" result)
  show ?case
  proof (cases "implemented i")
    case False
    then have "runtime_action_contract is result = Inr rt"
      using 2(3) by (auto simp: implemented_def split: if_splits)
    then show ?thesis using 2(1) False by (auto simp: implemented_def)
  next
    case True
    then obtain b e opid where i: "cx_action i = Some b" "cx_event i = Some e" "cx_operation_id i = Some opid"
      and r: "runtime_action_contract is (result @ [(b, \<lparr>ra_event = e, ra_operation_id = opid\<rparr>)]) = Inr rt"
      and ok: "has_text b \<and> has_text e \<and> has_text opid" "b \<notin> fst ` set result"
      using 2(3) by (auto simp: implemented_def split: if_splits option.splits)
    have "(a, ra) \<in> set rt \<longleftrightarrow> (a, ra) \<in> set (result @ [(b, \<lparr>ra_event = e, ra_operation_id = opid\<rparr>)]) \<or>
       (\<exists>i \<in> set is. implemented i \<and> cx_action i = Some a \<and>
          cx_event i = Some (ra_event ra) \<and> cx_operation_id i = Some (ra_operation_id ra))"
      using 2(2) True i ok r by (auto simp: implemented_def)
    then show ?thesis using True i by (cases ra) auto
  qed
qed simp

section \<open>Offered actions\<close>

lemma resolve_candidate_Some:
  "resolve_candidate c d rt x a = Inr (Some e) \<longleftrightarrow>
     (\<exists>ra s t. map_of rt (as_action a) = Some ra \<and> catalog_of d (as_action a) = Some e \<and>
        ca_operation_id e = ra_operation_id ra \<and>
        snapshot_init (Some (ac_inquiry_state x)) (Some (ac_state_version x)) (ac_visit_status x) = Inr s \<and>
        resolve c s (ra_event ra) = Inr t \<and> t_rule_id t \<in> set (as_rule_ids a) \<and>
        (\<forall>g \<in> set (t_guard_refs t). guard_available x g))"
  by (auto simp: resolve_candidate_def list_all_iff split: option.splits sum.splits sm_error.splits if_splits)

lemma resolve_actions_in:
  assumes "resolve_actions c d cx x = Inr es" and "runtime_action_contract cx [] = Inr rt"
  shows "e \<in> set es \<longleftrightarrow>
    (\<exists>a \<in> set (role_assignments d (ac_inquiry_state x) (ac_actor_role x)).
       resolve_candidate c d rt x a = Inr (Some e))"
proof -
  obtain rs where rs: "list_all2 (\<lambda>a r. resolve_candidate c d rt x a = Inr r)
      (role_assignments d (ac_inquiry_state x) (ac_actor_role x)) rs" "es = List.map_filter (\<lambda>r. r) rs"
    using assms by (auto simp: resolve_actions_def res_simps)
  have "e \<in> set es \<longleftrightarrow> Some e \<in> set rs" by (auto simp: rs(2) in_set_map_filter)
  also have "\<dots> \<longleftrightarrow> (\<exists>a \<in> set (role_assignments d (ac_inquiry_state x) (ac_actor_role x)).
       resolve_candidate c d rt x a = Inr (Some e))"
    using list_all2_in_right [OF rs(1)] list_all2_in_left [OF rs(1)] by fastforce
  finally show ?thesis .
qed

end
