(* ===== verification/ActionContext.thy ===== *)
theory ActionContext
  imports Store ActionResolver
begin

text \<open>
  \<open>AllowedActionContext.from_models\<close> (\<open>engine/allowed_action_resolver.py\<close>): the facts about an
  inquiry and an actor that decide which actions are offered, read from rows the caller already
  holds or from the database.
\<close>

section \<open>Arguments\<close>

text \<open>
  An argument the caller omits (\<open>_UNSET\<close>) is \<open>None\<close>. The two prefetched lists are the attributes
  \<open>allowed_action_consultations\<close> and \<open>allowed_action_visits\<close> an inquiry may carry; \<open>None\<close> when it
  carries none. \<open>fm_completion_facts\<close> is the mapping of source, last handler and fresh feedback.
\<close>

record from_args =
  fm_consultation :: "consultation_row option option"
  fm_visit :: "visit_row option option"
  fm_open_questions :: "bool option"
  fm_completion_facts :: "(string option \<times> nat option \<times> bool) option"
  fm_prefetched_consultations :: "consultation_row list option"
  fm_prefetched_visits :: "visit_row list option"

definition no_args :: from_args where
  "no_args = \<lparr>fm_consultation = None, fm_visit = None, fm_open_questions = None,
     fm_completion_facts = None, fm_prefetched_consultations = None, fm_prefetched_visits = None\<rparr>"

section \<open>Latest rows\<close>

definition latest_consultation :: "inquiry_row \<Rightarrow> db \<Rightarrow> consultation_row option" where
  "latest_consultation i d =
     first_by (\<lambda>c. (Desc (co_sequence c), Desc (co_id c))) (consultations_of i d)"

definition latest_visit :: "inquiry_row \<Rightarrow> db \<Rightarrow> visit_row option" where
  "latest_visit i d = first_by (\<lambda>v. (Desc (v_created_at v), Desc (v_id v))) (visits_of i d)"

definition chosen_row :: "'a option option \<Rightarrow> 'a list option \<Rightarrow> 'a option \<Rightarrow> 'a option" where
  "chosen_row given prefetched queried =
     (case given of Some r \<Rightarrow> r
      | None \<Rightarrow> (case prefetched of None \<Rightarrow> queried | Some [] \<Rightarrow> None | Some (x # _) \<Rightarrow> Some x))"

section \<open>Completion facts\<close>

definition the_time :: "int option \<Rightarrow> int" where
  "the_time t = (case t of None \<Rightarrow> 0 | Some n \<Rightarrow> n)"

definition completed_consultation :: "inquiry_row \<Rightarrow> db \<Rightarrow> consultation_row option" where
  "completed_consultation i d =
     first_by (\<lambda>c. (Desc (the_time (co_completed_at c)), Desc (co_id c)))
       (filter (\<lambda>c. co_status c = ''COMPLETED'' \<and> co_completed_at c \<noteq> None) (consultations_of i d))"

definition completed_visit :: "inquiry_row \<Rightarrow> db \<Rightarrow> visit_row option" where
  "completed_visit i d =
     first_by (\<lambda>v. (Desc (the_time (v_completed_at v)), Desc (v_id v)))
       (filter (\<lambda>v. v_status v = ''COMPLETED'' \<and> v_completed_at v \<noteq> None) (visits_of i d))"

text \<open>Source, last handler and time of the completed handling of an inquiry.\<close>

definition completion_source ::
  "inquiry_row \<Rightarrow> db \<Rightarrow> (string \<times> nat option \<times> int) option" where
  "completion_source i d =
     (case (completed_visit i d, completed_consultation i d) of
        (Some v, None) \<Rightarrow> Some (''VISIT'', map_option u_id (v_technician v), the_time (v_completed_at v))
      | (Some v, Some c) \<Rightarrow>
          if the_time (co_completed_at c) \<le> the_time (v_completed_at v)
          then Some (''VISIT'', map_option u_id (v_technician v), the_time (v_completed_at v))
          else Some (''CONSULTATION'', co_consultant_id c, the_time (co_completed_at c))
      | (None, Some c) \<Rightarrow> Some (''CONSULTATION'', co_consultant_id c, the_time (co_completed_at c))
      | (None, None) \<Rightarrow> None)"

definition latest_resolved_feedback :: "inquiry_row \<Rightarrow> db \<Rightarrow> feedback_row option" where
  "latest_resolved_feedback i d =
     first_by (\<lambda>f. (Desc (fb_created_at f), Desc (fb_id f)))
       (filter (\<lambda>f. fb_inquiry_id f = i_id i \<and> fb_resolution_status_code f = ''RESOLVED'') (db_feedback d))"

definition completion_facts ::
  "inquiry_row \<Rightarrow> from_args \<Rightarrow> db \<Rightarrow> string option \<times> nat option \<times> bool" where
  "completion_facts i a d =
     (if i_status_code i \<noteq> ''COMPLETION_PENDING'' then (None, None, False)
      else case fm_completion_facts a of
        Some facts \<Rightarrow> facts
      | None \<Rightarrow>
          (case completion_source i d of
             None \<Rightarrow> (None, None, False)
           | Some (source, handler, done_at) \<Rightarrow>
               (Some source, handler,
                case latest_resolved_feedback i d of
                  None \<Rightarrow> False | Some f \<Rightarrow> done_at < fb_created_at f)))"

section \<open>The projection\<close>

definition open_questions :: "inquiry_row \<Rightarrow> user_row \<Rightarrow> from_args \<Rightarrow> db \<Rightarrow> bool" where
  "open_questions i actor a d =
     (case fm_open_questions a of Some b \<Rightarrow> b
      | None \<Rightarrow>
          u_role_code actor = ''CUSTOMER'' \<and> i_status_code i = ''QUESTIONNAIRE_IN_PROGRESS'' \<and>
          list_ex (\<lambda>q. qa_inquiry_id q = i_id i \<and> \<not> answered d q) (db_qa d))"

definition from_models :: "inquiry_row \<Rightarrow> user_row \<Rightarrow> from_args \<Rightarrow> db \<Rightarrow> action_context" where
  "from_models i actor a d =
     (let consultation = chosen_row (fm_consultation a) (fm_prefetched_consultations a) (latest_consultation i d);
          visit = chosen_row (fm_visit a) (fm_prefetched_visits a) (latest_visit i d);
          role = u_role_code actor;
          permissions =
            (if role = ''OPERATOR'' \<and> u_authenticated actor \<and>
                ''inquiries.cancel_inquiry'' \<in> set (u_permissions actor)
             then [''INQUIRY_CANCEL''] else []);
          technician = (case visit of None \<Rightarrow> None | Some v \<Rightarrow> v_technician v);
          facts = completion_facts i a d;
          customer = su_customer (i_subscription i)
      in \<lparr>ac_inquiry_state = i_status_code i,
          ac_state_version = i_state_version i,
          ac_actor_role = role,
          ac_actor_id = Some (u_id actor),
          ac_owner_id = Some (u_id (cu_user customer)),
          ac_assigned_user_id = i_assigned_user_id i,
          ac_assigned_role_code = Some (i_assigned_role_code i),
          ac_actor_permissions = permissions,
          ac_product_present = (case su_product_model_id (i_subscription i) of None \<Rightarrow> False | Some p \<Rightarrow> p \<noteq> 0),
          ac_symptom_payload_valid =
            (2 \<le> length (strip (i_raw_text i)) \<and> length (strip (i_raw_text i)) \<le> 2000 \<and>
             (case su_product_model_id (i_subscription i) of None \<Rightarrow> False | Some p \<Rightarrow> p \<noteq> 0) \<and>
             su_status_code (i_subscription i) = ''ACTIVE''),
          ac_open_followup_questions = open_questions i actor a d,
          ac_consultation_exists = (consultation \<noteq> None),
          ac_consultation_status = map_option co_status consultation,
          ac_consultation_consultant_id = Option.bind consultation co_consultant_id,
          ac_consultation_summary = (case consultation of None \<Rightarrow> [] | Some c \<Rightarrow> co_summary c),
          ac_consultation_confirmed_summary = Option.bind consultation co_confirmed_summary,
          ac_consultation_summary_confirmed = (Option.bind consultation co_summary_confirmed_at \<noteq> None),
          ac_consultation_outcome = map_option co_outcome consultation,
          ac_consultation_completed = (Option.bind consultation co_completed_at \<noteq> None),
          ac_visit_exists = (visit \<noteq> None),
          ac_visit_status = map_option v_status visit,
          ac_visit_is_latest = (visit \<noteq> None),
          ac_visit_confirmed_date = (Option.bind visit v_confirmed_date \<noteq> None),
          ac_technician_assigned = (technician \<noteq> None),
          ac_technician_active = (case technician of None \<Rightarrow> False | Some t \<Rightarrow> u_is_active t),
          ac_technician_synthetic = (case technician of None \<Rightarrow> False | Some t \<Rightarrow> u_is_synthetic t),
          ac_technician_role = map_option u_role_code technician,
          ac_completion_source = fst facts,
          ac_actor_is_last_handler = (fst (snd facts) = Some (u_id actor)),
          ac_fresh_resolved_feedback_exists = snd (snd facts)\<rparr>)"

section \<open>Facts about the projection\<close>

lemma from_models_simps [simp]:
  "ac_inquiry_state (from_models i actor a d) = i_status_code i"
  "ac_state_version (from_models i actor a d) = i_state_version i"
  "ac_actor_role (from_models i actor a d) = u_role_code actor"
  "ac_visit_status (from_models i actor a d) =
     map_option v_status (chosen_row (fm_visit a) (fm_prefetched_visits a) (latest_visit i d))"
  by (simp_all add: from_models_def Let_def)

end
