(* ===== verification/GuardEngine.thy ===== *)
theory GuardEngine
  imports StateEngine "HOL-Library.Multiset"
begin

text \<open>
  \<open>GuardEvaluator\<close> (\<open>engine/guard_evaluator.py\<close>): the guards of a planned transition, evaluated in the
  security order of the contract and stopped at the first failure. The lemmas say what an allowed
  evaluation implies, that the order is a stable sort by the effective precedence, and which guard a
  denial names.
\<close>

section \<open>Context, failures, results\<close>

record guard_context =
  x_actor_role :: "string option"
  x_authenticated :: bool
  x_correlation_id :: "string option"
  x_idempotency_key :: "string option"
  x_requested_version :: "int option"
  x_trusted_internal :: bool
  x_domain_results :: "string \<rightharpoonup> bool"

record guard_failure =
  f_guard_id :: string
  f_category :: string
  f_http_status :: int
  f_error_code :: string
  f_message :: string
  f_reason :: string

record guard_evaluation =
  allowed :: bool
  failure :: "guard_failure option"

datatype guard_error = Unknown_guard string

definition CORE_ROLE_GUARDS :: "string \<rightharpoonup> string" where
  "CORE_ROLE_GUARDS = map_of [
     (''G-ACTOR-CUSTOMER'', ''CUSTOMER''),
     (''G-ACTOR-CONSULTANT'', ''CONSULTANT''),
     (''G-ACTOR-TECHNICIAN'', ''TECHNICIAN''),
     (''G-ACTOR-SYSTEM'', ''SYSTEM'')]"

definition guard_entry_of :: "contract \<Rightarrow> string \<Rightarrow> guard_entry option" where
  "guard_entry_of c = dict_of (map (\<lambda>g. (g_id g, g)) (c_guards c))"

section \<open>Effective precedence\<close>

definition insert_before :: "'a \<Rightarrow> 'a \<Rightarrow> 'a list \<Rightarrow> 'a list" where
  "insert_before x y xs = takeWhile (\<lambda>z. z \<noteq> y) xs @ x # dropWhile (\<lambda>z. z \<noteq> y) xs"

fun fill_precedence :: "'a list \<Rightarrow> 'a list \<Rightarrow> 'a list" where
  "fill_precedence [] eff = eff"
| "fill_precedence (k # ks) eff =
     (if k \<in> set eff then fill_precedence ks eff
      else case find (\<lambda>d. d \<in> set eff) ks of
             None \<Rightarrow> fill_precedence ks (eff @ [k])
           | Some d \<Rightarrow> fill_precedence ks (insert_before k d eff))"

definition effective_precedence :: "contract \<Rightarrow> string list" where
  "effective_precedence c = fill_precedence (c_guard_categories c) (c_security_precedence c)"

definition precedence_index :: "'a list \<Rightarrow> 'a \<Rightarrow> nat option" where
  "precedence_index eff = dict_of (zip eff [0..<length eff])"

definition guard_rank :: "contract \<Rightarrow> guard_entry \<Rightarrow> nat" where
  "guard_rank c g =
     (case precedence_index (effective_precedence c) (g_category g) of
        Some i \<Rightarrow> i | None \<Rightarrow> length (remdups (effective_precedence c)))"

definition ranked_refs ::
  "contract \<Rightarrow> string list \<Rightarrow> guard_error + ((nat \<times> nat) \<times> string) list" where
  "ranked_refs c refs =
     map_res (\<lambda>(i, g). rbind (of_option (Unknown_guard g) (guard_entry_of c g))
        (\<lambda>e. Inr ((guard_rank c e, i), g))) (List.enumerate 0 refs)"

definition ordered_guard_refs :: "contract \<Rightarrow> string list \<Rightarrow> guard_error + string list" where
  "ordered_guard_refs c refs =
     rbind (ranked_refs c refs) (\<lambda>ks. Inr (map snd (sort_key fst ks)))"

section \<open>Single checks\<close>

definition opt_has_text :: "string option \<Rightarrow> bool" where
  "opt_has_text v = (case v of None \<Rightarrow> False | Some s \<Rightarrow> has_text s)"

definition valid_idempotency_key :: "string option \<Rightarrow> bool" where
  "valid_idempotency_key v =
     (case v of None \<Rightarrow> False | Some s \<Rightarrow> has_text s \<and> length (strip s) \<le> 128)"

definition missing_required_guard :: "event_entry \<Rightarrow> transition \<Rightarrow> string option" where
  "missing_required_guard e t =
     find (\<lambda>g. g \<notin> set (t_guard_refs t))
       ((if ev_requires_version e then [''G-STATE-VERSION''] else []) @
        (if ev_requires_key e then [''G-IDEMPOTENCY-KEY''] else []))"

definition contract_failure :: "guard_entry \<Rightarrow> string \<Rightarrow> guard_failure" where
  "contract_failure g reason =
     \<lparr>f_guard_id = g_id g, f_category = g_category g, f_http_status = g_http_status g,
      f_error_code = g_error_code g, f_message = g_message g, f_reason = reason\<rparr>"

definition synthetic_guard_failure ::
  "string \<Rightarrow> string \<Rightarrow> int \<Rightarrow> string \<Rightarrow> string \<Rightarrow> string \<Rightarrow> guard_failure" where
  "synthetic_guard_failure i k h e m r =
     \<lparr>f_guard_id = i, f_category = k, f_http_status = h, f_error_code = e, f_message = m,
      f_reason = r\<rparr>"

definition denied :: "guard_failure \<Rightarrow> guard_evaluation" where
  "denied f = \<lparr>allowed = False, failure = Some f\<rparr>"

definition granted :: guard_evaluation where
  "granted = \<lparr>allowed = True, failure = None\<rparr>"

definition evaluate_event_actor ::
  "contract \<Rightarrow> event_entry \<Rightarrow> transition \<Rightarrow> guard_context \<Rightarrow> guard_error + guard_failure option" where
  "evaluate_event_actor c e t x =
     (if x_actor_role x \<noteq> Some ''SYSTEM'' \<and> \<not> x_authenticated x then
        Inr (Some (synthetic_guard_failure ''G-AUTHENTICATED-ACTOR'' ''AUTHENTICATION'' 401
          ''AUTH_REQUIRED'' ''msg.auth_required'' ''UNAUTHENTICATED_ACTOR''))
      else if x_actor_role x = Some ''SYSTEM'' \<and> \<not> x_trusted_internal x then
        (case guard_entry_of c ''G-ACTOR-SYSTEM'' of
           Some g \<Rightarrow> Inr (Some (contract_failure g ''UNTRUSTED_INTERNAL_ACTOR''))
         | None \<Rightarrow> Inr (Some (synthetic_guard_failure ''G-INTERNAL-ACTOR'' ''AUTHENTICATION'' 403
             ''FORBIDDEN'' ''msg.internal_only'' ''UNTRUSTED_INTERNAL_ACTOR'')))
      else if (case x_actor_role x of None \<Rightarrow> True | Some r \<Rightarrow> r \<notin> set (ev_actor_roles e)) then
        (case find (\<lambda>g. CORE_ROLE_GUARDS g \<noteq> None) (t_guard_refs t) of
           Some gid \<Rightarrow> rbind (of_option (Unknown_guard gid) (guard_entry_of c gid))
             (\<lambda>g. Inr (Some (contract_failure g ''EVENT_ROLE_MISMATCH'')))
         | None \<Rightarrow> Inr (Some (synthetic_guard_failure ''G-EVENT-ACTOR-ROLE'' ''ROLE'' 403
             ''FORBIDDEN'' ''msg.role_forbidden'' ''EVENT_ROLE_MISMATCH'')))
      else Inr None)"

definition evaluate_guard ::
  "string \<Rightarrow> event_entry \<Rightarrow> snapshot \<Rightarrow> guard_context \<Rightarrow> bool \<times> string" where
  "evaluate_guard gid e s x =
     (case CORE_ROLE_GUARDS gid of
        Some role \<Rightarrow>
          (if role = ''SYSTEM'' then
             (x_actor_role x = Some ''SYSTEM'' \<and> x_trusted_internal x, ''SYSTEM_ACTOR_MISMATCH'')
           else (x_authenticated x \<and> x_actor_role x = Some role, ''ACTOR_ROLE_MISMATCH''))
      | None \<Rightarrow>
          if gid = ''G-STATE-VERSION'' then
            (if \<not> ev_requires_version e then (False, ''UNEXPECTED_STATE_VERSION_GUARD'')
             else (x_requested_version x \<noteq> None \<and> x_requested_version x = s_version s,
                   ''STATE_VERSION_MISMATCH''))
          else if gid = ''G-IDEMPOTENCY-KEY'' then
            (if \<not> ev_requires_key e then (False, ''UNEXPECTED_IDEMPOTENCY_GUARD'')
             else (True, []))
          else case x_domain_results x gid of
                 None \<Rightarrow> (False, ''DOMAIN_RESULT_MISSING'')
               | Some b \<Rightarrow> (b, ''DOMAIN_GUARD_REJECTED''))"

section \<open>Evaluation\<close>

fun evaluate_refs ::
  "contract \<Rightarrow> event_entry \<Rightarrow> snapshot \<Rightarrow> guard_context \<Rightarrow> string list \<Rightarrow>
     guard_error + guard_evaluation" where
  "evaluate_refs c e s x [] = Inr granted"
| "evaluate_refs c e s x (gid # gids) =
     rbind (of_option (Unknown_guard gid) (guard_entry_of c gid)) (\<lambda>g.
       let (passed, reason) = evaluate_guard gid e s x in
       if \<not> passed then Inr (denied (contract_failure g reason))
       else evaluate_refs c e s x gids)"

definition evaluate ::
  "contract \<Rightarrow> transition \<Rightarrow> snapshot \<Rightarrow> guard_context \<Rightarrow> guard_error + guard_evaluation" where
  "evaluate c t s x =
     (case dict_of (map (\<lambda>e. (ev_code e, e)) (c_events c)) (t_event t) of
        None \<Rightarrow> Inr (denied (synthetic_guard_failure ''G-EVENT-CONTRACT'' ''BUSINESS_RULE'' 500
          ''INTERNAL_ERROR'' ''msg.unknown_event'' ''UNKNOWN_EVENT''))
      | Some e \<Rightarrow>
        (case missing_required_guard e t of
           Some gid \<Rightarrow> Inr (denied (synthetic_guard_failure gid ''BUSINESS_RULE'' 500
             ''INTERNAL_ERROR'' ''msg.guard_missing'' ''REQUIRED_GUARD_MISSING''))
         | None \<Rightarrow>
           rbind (evaluate_event_actor c e t x) (\<lambda>actor_failure.
             case actor_failure of
               Some f \<Rightarrow> Inr (denied f)
             | None \<Rightarrow>
                 if d_correlation_id (c_defaults c) \<and> \<not> opt_has_text (x_correlation_id x) then
                   Inr (denied (synthetic_guard_failure ''G-CORRELATION-ID'' ''PAYLOAD'' 422
                     ''VALIDATION_ERROR'' ''msg.correlation_required'' ''MISSING_CORRELATION_ID''))
                 else if ev_requires_key e \<and> \<not> valid_idempotency_key (x_idempotency_key x) then
                   Inr (denied (synthetic_guard_failure ''G-IDEMPOTENCY-KEY'' ''PAYLOAD'' 422
                     ''VALIDATION_ERROR'' ''msg.idempotency_key_required''
                     ''MISSING_OR_INVALID_IDEMPOTENCY_KEY''))
                 else rbind (ordered_guard_refs c (t_guard_refs t))
                        (\<lambda>gids. evaluate_refs c e s x gids))))"

lemma denied_simps [simp]:
  "allowed (denied f) = False" "failure (denied f) = Some f"
  "allowed granted = True" "failure granted = None"
  by (simp_all add: denied_def granted_def)

section \<open>The effective precedence\<close>

lemma insert_before_split: "takeWhile P xs @ dropWhile P xs = xs"
  by simp

lemma set_insert_before [simp]: "set (insert_before x y xs) = insert x (set xs)"
proof -
  have "set xs = set (takeWhile (\<lambda>z. z \<noteq> y) xs) \<union> set (dropWhile (\<lambda>z. z \<noteq> y) xs)"
    by (metis set_append takeWhile_dropWhile_id)
  then show ?thesis by (auto simp: insert_before_def)
qed

lemma distinct_insert_before:
  assumes "distinct xs" and "x \<notin> set xs"
  shows "distinct (insert_before x y xs)"
proof -
  have "distinct (takeWhile (\<lambda>z. z \<noteq> y) xs @ dropWhile (\<lambda>z. z \<noteq> y) xs)"
    using assms(1) by simp
  then show ?thesis using assms(2)
    by (auto simp: insert_before_def simp del: takeWhile_dropWhile_id
        dest: set_takeWhileD set_dropWhileD)
qed

lemma subseq_insert_before: "subseq xs (insert_before x y xs)"
proof -
  have "subseq (takeWhile (\<lambda>z. z \<noteq> y) xs @ dropWhile (\<lambda>z. z \<noteq> y) xs) (insert_before x y xs)"
    unfolding insert_before_def by (intro list_emb_append_mono) auto
  then show ?thesis by simp
qed

lemma set_fill_precedence [simp]: "set (fill_precedence ks eff) = set ks \<union> set eff"
  by (induction ks eff rule: fill_precedence.induct) (auto split: option.splits)

lemma distinct_fill_precedence: "distinct eff \<Longrightarrow> distinct (fill_precedence ks eff)"
  by (induction ks eff rule: fill_precedence.induct)
    (auto simp: distinct_insert_before split: option.splits)

lemma subseq_fill_precedence: "subseq eff (fill_precedence ks eff)"
proof (induction ks eff rule: fill_precedence.induct)
  case (1 eff)
  then show ?case by simp
next
  case (2 k ks eff)
  show ?case
  proof (cases "find (\<lambda>d. d \<in> set eff) ks")
    case None
    have "subseq (eff @ []) (eff @ [k])" by (intro list_emb_append_mono) auto
    then have "subseq eff (eff @ [k])" by simp
    then show ?thesis using 2 None by (auto intro: subseq_order.trans)
  next
    case (Some d)
    then show ?thesis using 2 by (auto intro: subseq_order.trans [OF subseq_insert_before])
  qed
qed

section \<open>The order of evaluation\<close>

lemma ranked_refs_Inr:
  assumes "ranked_refs c refs = Inr ks"
  shows "map snd ks = refs"
    and "\<And>k. k \<in> set ks \<Longrightarrow> \<exists>g. guard_entry_of c (snd k) = Some g \<and> fst (fst k) = guard_rank c g"
    and "map (snd \<circ> fst) ks = [0..<length refs]"
proof -
  have all: "list_all2 (\<lambda>(i, g) k. \<exists>e. guard_entry_of c g = Some e \<and> k = ((guard_rank c e, i), g))
      (List.enumerate 0 refs) ks"
    using assms unfolding ranked_refs_def map_res_Inr_iff
    by (rule list_all2_mono) (auto simp: res_simps)
  have "map snd ks = map snd (List.enumerate 0 refs)" "map (snd \<circ> fst) ks = map fst (List.enumerate 0 refs)"
    using all by (auto simp: list_all2_conv_all_nth nth_enumerate_eq intro!: nth_equalityI)
  then show "map snd ks = refs" "map (snd \<circ> fst) ks = [0..<length refs]" by simp_all
  fix k assume "k \<in> set ks"
  then show "\<exists>g. guard_entry_of c (snd k) = Some g \<and> fst (fst k) = guard_rank c g"
    using all by (auto simp: list_all2_conv_all_nth in_set_conv_nth nth_enumerate_eq)
qed

lemma ordered_guard_refs_mset:
  assumes "ordered_guard_refs c refs = Inr gids"
  shows "mset gids = mset refs"
proof -
  obtain ks where "ranked_refs c refs = Inr ks" "gids = map snd (sort_key fst ks)"
    using assms by (auto simp: ordered_guard_refs_def res_simps)
  then show ?thesis using ranked_refs_Inr(1) by (metis mset_map mset_sort)
qed

lemma ordered_guard_refs_sorted:
  assumes "ordered_guard_refs c refs = Inr gids" and "i < j" and "j < length gids"
    and "guard_entry_of c (gids ! i) = Some g" and "guard_entry_of c (gids ! j) = Some h"
  shows "guard_rank c g \<le> guard_rank c h"
proof -
  obtain ks where ks: "ranked_refs c refs = Inr ks" "gids = map snd (sort_key fst ks)"
    using assms(1) by (auto simp: ordered_guard_refs_def res_simps)
  let ?s = "sort_key fst ks"
  have rank: "fst (fst (?s ! n)) = guard_rank c e"
    if "n < length gids" "guard_entry_of c (gids ! n) = Some e" for n e
  proof -
    have n: "n < length ?s" using that ks by simp
    then have "?s ! n \<in> set ks" by (metis nth_mem set_sort)
    then show ?thesis using ranked_refs_Inr(2) [OF ks(1)] that n ks(2) by fastforce
  qed
  have len: "i < length ?s" "j < length ?s" using assms ks(2) by simp_all
  have "sorted (map fst ?s)" by (rule sorted_sort_key)
  then have "map fst ?s ! i \<le> map fst ?s ! j"
    using assms(2) len by (simp add: sorted_iff_nth_mono)
  then have "fst (?s ! i) \<le> fst (?s ! j)" using len by simp
  then have "fst (fst (?s ! i)) \<le> fst (fst (?s ! j))" by (auto simp: less_eq_prod_def)
  then show ?thesis using rank assms len by auto
qed

lemma ordered_guard_refs_total:
  assumes "\<And>g. g \<in> set refs \<Longrightarrow> guard_entry_of c g \<noteq> None"
  shows "\<exists>gids. ordered_guard_refs c refs = Inr gids"
proof -
  define f where "f = (\<lambda>(i::nat, g). ((guard_rank c (the (guard_entry_of c g)), i), g))"
  have "ranked_refs c refs = Inr (map f (List.enumerate 0 refs))"
    unfolding ranked_refs_def
  proof (rule map_res_total)
    fix p assume "p \<in> set (List.enumerate 0 refs)"
    then have "snd p \<in> set (map snd (List.enumerate 0 refs))" unfolding set_map by (rule imageI)
    then have "snd p \<in> set refs" by (simp only: map_snd_enumerate)
    then obtain e where "guard_entry_of c (snd p) = Some e" using assms by fastforce
    then show "(case p of (i, g) \<Rightarrow> rbind (of_option (Unknown_guard g) (guard_entry_of c g))
        (\<lambda>e. Inr ((guard_rank c e, i), g))) = Inr (f p)"
      by (cases p) (simp add: f_def)
  qed
  then show ?thesis by (simp add: ordered_guard_refs_def)
qed

section \<open>Allowed and denied evaluations\<close>

lemma evaluate_refs_allowed:
  assumes "evaluate_refs c e s x gids = Inr ev"
  shows "allowed ev \<longleftrightarrow> (\<forall>g \<in> set gids. fst (evaluate_guard g e s x))"
  using assms
proof (induction gids)
  case (Cons gid gids)
  then show ?case
    by (cases "fst (evaluate_guard gid e s x)") (auto simp: rbind_Inr_iff split_beta)
qed simp

lemma evaluate_refs_failure:
  assumes "evaluate_refs c e s x gids = Inr ev" and "\<not> allowed ev"
  shows "\<exists>pre g post entry. gids = pre @ g # post \<and> guard_entry_of c g = Some entry \<and>
    (\<forall>h \<in> set pre. fst (evaluate_guard h e s x)) \<and> \<not> fst (evaluate_guard g e s x) \<and>
    failure ev = Some (contract_failure entry (snd (evaluate_guard g e s x)))"
  using assms
proof (induction gids)
  case Nil
  then show ?case by simp
next
  case (Cons gid gids)
  then obtain g where g: "guard_entry_of c gid = Some g"
    and r: "(let (passed, reason) = evaluate_guard gid e s x in
       if \<not> passed then Inr (denied (contract_failure g reason))
       else evaluate_refs c e s x gids) = Inr ev"
    by (auto simp: res_simps)
  show ?case
  proof (cases "fst (evaluate_guard gid e s x)")
    case True
    then have "evaluate_refs c e s x gids = Inr ev" using r by (auto simp: split_beta)
    then obtain pre h post entry where "gids = pre @ h # post" "guard_entry_of c h = Some entry"
      "\<forall>k \<in> set pre. fst (evaluate_guard k e s x)" "\<not> fst (evaluate_guard h e s x)"
      "failure ev = Some (contract_failure entry (snd (evaluate_guard h e s x)))"
      using Cons by blast
    then show ?thesis using True by (intro exI [where x = "gid # pre"]) auto
  next
    case False
    then have "ev = denied (contract_failure g (snd (evaluate_guard gid e s x)))"
      using r by (simp add: split_beta)
    then show ?thesis using False g
      by (intro exI [where x = "[]"] exI [where x = gid] exI [where x = gids] exI [where x = g]) simp
  qed
qed

lemma evaluate_refs_total:
  "(\<And>g. g \<in> set gids \<Longrightarrow> guard_entry_of c g \<noteq> None) \<Longrightarrow> \<exists>ev. evaluate_refs c e s x gids = Inr ev"
proof (induction gids)
  case (Cons gid gids)
  then obtain g where "guard_entry_of c gid = Some g" by fastforce
  moreover obtain ev where "evaluate_refs c e s x gids = Inr ev" using Cons by auto
  ultimately show ?case by (simp add: split_beta)
qed simp

definition event_entry_of :: "contract \<Rightarrow> string \<Rightarrow> event_entry option" where
  "event_entry_of c = dict_of (map (\<lambda>e. (ev_code e, e)) (c_events c))"

lemma evaluate_event_actor_pass:
  "evaluate_event_actor c e t x = Inr None \<longleftrightarrow>
     (\<exists>r. x_actor_role x = Some r \<and> r \<in> set (ev_actor_roles e) \<and>
        (if r = ''SYSTEM'' then x_trusted_internal x else x_authenticated x))"
proof (cases "x_actor_role x")
  case None
  then show ?thesis
    by (cases "x_authenticated x")
      (simp_all add: evaluate_event_actor_def rbind_Inr_iff split: option.split)
next
  case (Some r)
  then show ?thesis
    by (cases "r = ''SYSTEM''"; cases "r \<in> set (ev_actor_roles e)")
      (simp_all add: evaluate_event_actor_def rbind_Inr_iff split: option.split)
qed

text \<open>The conjunction of checks that an allowed evaluation stands for.\<close>

definition all_checks ::
  "contract \<Rightarrow> event_entry \<Rightarrow> transition \<Rightarrow> snapshot \<Rightarrow> guard_context \<Rightarrow> bool" where
  "all_checks c e t s x =
     (missing_required_guard e t = None \<and>
      evaluate_event_actor c e t x = Inr None \<and>
      (d_correlation_id (c_defaults c) \<longrightarrow> opt_has_text (x_correlation_id x)) \<and>
      (ev_requires_key e \<longrightarrow> valid_idempotency_key (x_idempotency_key x)) \<and>
      (\<forall>g \<in> set (t_guard_refs t). fst (evaluate_guard g e s x)))"

lemma evaluate_allowed_iff:
  assumes "evaluate c t s x = Inr ev"
  shows "allowed ev \<longleftrightarrow> (\<exists>e. event_entry_of c (t_event t) = Some e \<and> all_checks c e t s x)"
proof (cases "event_entry_of c (t_event t)")
  case None
  then show ?thesis using assms by (auto simp: evaluate_def event_entry_of_def)
next
  case (Some e)
  have refs: "allowed ev \<longleftrightarrow> (\<forall>g \<in> set (t_guard_refs t). fst (evaluate_guard g e s x))"
    if run: "rbind (ordered_guard_refs c (t_guard_refs t)) (\<lambda>gids. evaluate_refs c e s x gids) = Inr ev"
  proof -
    obtain gids where "ordered_guard_refs c (t_guard_refs t) = Inr gids"
      and ev: "evaluate_refs c e s x gids = Inr ev"
      using run by (auto simp: rbind_Inr_iff)
    then have "set gids = set (t_guard_refs t)" by (metis ordered_guard_refs_mset set_mset_mset)
    then show ?thesis using evaluate_refs_allowed [OF ev] by simp
  qed
  show ?thesis
  proof (cases "missing_required_guard e t = None \<and> evaluate_event_actor c e t x = Inr None")
    case True
    then show ?thesis using assms Some refs
      by (auto simp: evaluate_def event_entry_of_def all_checks_def split: if_splits)
  next
    case False
    then have "\<not> allowed ev" using assms Some
      by (auto simp: evaluate_def event_entry_of_def rbind_Inr_iff split: option.splits)
    then show ?thesis using False Some by (auto simp: all_checks_def)
  qed
qed

lemma evaluate_failure_present: "evaluate c t s x = Inr ev \<Longrightarrow> \<not> allowed ev \<Longrightarrow> failure ev \<noteq> None"
  by (auto simp: evaluate_def rbind_Inr_iff split: option.splits if_splits
      dest!: evaluate_refs_failure)

section \<open>Stability of the order, denials\<close>

lemma sorted_by_second:
  "sorted (map (snd \<circ> fst) ks) \<Longrightarrow> \<forall>k \<in> set ks. fst (fst k) = r \<Longrightarrow> sorted (map fst ks)"
  by (induction ks) (auto simp: less_eq_prod_def)

lemma ranked_refs_sorted:
  assumes "ranked_refs c refs = Inr ks"
  shows "sorted (map fst (filter (\<lambda>k. fst (fst k) = r) ks))"
proof -
  have "sorted (map (snd \<circ> fst) ks)" using ranked_refs_Inr(3) [OF assms] by simp
  then have "sorted (map (snd \<circ> fst) (filter (\<lambda>k. fst (fst k) = r) ks))" by (rule sorted_filter)
  then show ?thesis by (rule sorted_by_second [where r = r]) simp
qed

text \<open>Guards of one rank keep the order the transition lists them in.\<close>

lemma ordered_guard_refs_stable:
  assumes "ordered_guard_refs c refs = Inr gids"
  shows "filter (\<lambda>g. map_option (guard_rank c) (guard_entry_of c g) = Some r) gids =
         filter (\<lambda>g. map_option (guard_rank c) (guard_entry_of c g) = Some r) refs"
proof -
  let ?Q = "\<lambda>g. map_option (guard_rank c) (guard_entry_of c g) = Some r"
  obtain ks where ks: "ranked_refs c refs = Inr ks" "gids = map snd (sort_key fst ks)"
    using assms by (auto simp: ordered_guard_refs_def res_simps)
  have Q: "?Q (snd k) \<longleftrightarrow> fst (fst k) = r" if "k \<in> set ks" for k
    using ranked_refs_Inr(2) [OF ks(1) that] by auto
  have "filter ?Q gids = map snd (filter (\<lambda>k. ?Q (snd k)) (sort_key fst ks))"
    by (simp add: ks(2) filter_map comp_def)
  also have "filter (\<lambda>k. ?Q (snd k)) (sort_key fst ks) = sort_key fst (filter (\<lambda>k. ?Q (snd k)) ks)"
    by (rule filter_sort)
  also have "filter (\<lambda>k. ?Q (snd k)) ks = filter (\<lambda>k. fst (fst k) = r) ks"
    using Q by (intro filter_cong) simp_all
  also have "sort_key fst (filter (\<lambda>k. fst (fst k) = r) ks) = filter (\<lambda>k. fst (fst k) = r) ks"
    using ranked_refs_sorted [OF ks(1)] by (rule sort_key_id_if_sorted)
  also have "map snd (filter (\<lambda>k. fst (fst k) = r) ks) = map snd (filter (\<lambda>k. ?Q (snd k)) ks)"
    using Q by (intro arg_cong [where f = "map snd"] filter_cong) simp_all
  also have "\<dots> = filter ?Q (map snd ks)" by (simp add: filter_map comp_def)
  finally show ?thesis using ranked_refs_Inr(1) [OF ks(1)] by simp
qed

text \<open>
  Once the event, the actor, the correlation id and the key pass, a denial names a guard that fails,
  and every guard of a smaller rank passes.
\<close>

definition preconditions_pass ::
  "contract \<Rightarrow> event_entry \<Rightarrow> transition \<Rightarrow> guard_context \<Rightarrow> bool" where
  "preconditions_pass c e t x =
     (missing_required_guard e t = None \<and> evaluate_event_actor c e t x = Inr None \<and>
      (d_correlation_id (c_defaults c) \<longrightarrow> opt_has_text (x_correlation_id x)) \<and>
      (ev_requires_key e \<longrightarrow> valid_idempotency_key (x_idempotency_key x)))"

lemma evaluate_denial:
  assumes "evaluate c t s x = Inr ev" and "\<not> allowed ev"
    and "event_entry_of c (t_event t) = Some e" and "preconditions_pass c e t x"
  shows "\<exists>g entry. g \<in> set (t_guard_refs t) \<and> guard_entry_of c g = Some entry \<and>
    \<not> fst (evaluate_guard g e s x) \<and>
    failure ev = Some (contract_failure entry (snd (evaluate_guard g e s x))) \<and>
    (\<forall>h \<in> set (t_guard_refs t). \<forall>h'. guard_entry_of c h = Some h' \<longrightarrow>
       guard_rank c h' < guard_rank c entry \<longrightarrow> fst (evaluate_guard h e s x))"
proof -
  obtain gids where gids: "ordered_guard_refs c (t_guard_refs t) = Inr gids" "evaluate_refs c e s x gids = Inr ev"
    using assms(1,3,4)
    by (auto simp: evaluate_def event_entry_of_def preconditions_pass_def rbind_Inr_iff split: if_splits)
  have set: "set gids = set (t_guard_refs t)" using ordered_guard_refs_mset [OF gids(1)] by (metis set_mset_mset)
  obtain pre g post entry where g: "gids = pre @ g # post" "guard_entry_of c g = Some entry"
    "\<forall>h \<in> set pre. fst (evaluate_guard h e s x)" "\<not> fst (evaluate_guard g e s x)"
    "failure ev = Some (contract_failure entry (snd (evaluate_guard g e s x)))"
    using evaluate_refs_failure [OF gids(2) assms(2)] by blast
  have "fst (evaluate_guard h e s x)"
    if h: "h \<in> set gids" "guard_entry_of c h = Some h'" "guard_rank c h' < guard_rank c entry" for h h'
  proof (rule ccontr)
    assume "\<not> fst (evaluate_guard h e s x)"
    then have "h \<notin> set pre" using g(3) by blast
    moreover have "h \<noteq> g" using h(2,3) g(2) by auto
    ultimately have "h \<in> set post" using h(1) g(1) by auto
    then obtain k where k: "k < length post" "post ! k = h" by (auto simp: in_set_conv_nth)
    have "guard_rank c entry \<le> guard_rank c h'"
      using ordered_guard_refs_sorted [OF gids(1), of "length pre" "length pre + Suc k" entry h'] k g(1,2) h(2)
      by (simp add: nth_append)
    then show False using h(3) by simp
  qed
  then show ?thesis using g set by (intro exI [of _ g] exI [of _ entry]) auto
qed

end
