(* ===== verification/AssignedAction.thy ===== *)
theory AssignedAction
  imports ActionContext GuardEngine
begin

text \<open>
  \<open>AssignedConsultantActionService.execute\<close> (\<open>services/assigned_consultant_action_service.py\<close>): the
  transaction every consultation and visit operation runs through. It locks the inquiry, replays a
  known idempotency key, plans the transition, evaluates the guards, claims the key, lets the
  operation mutate its resource, moves the inquiry, writes the history and stores the response.

  \<open>transaction.atomic\<close> is \<open>atomically\<close>: an error leaves the database of before. The one thing other
  transactions can do while the inquiry is locked is to commit an idempotency record; the records
  that arrive between the first lookup and the insert are the argument \<open>races\<close>.
\<close>

section \<open>Requests, documents, outcomes\<close>

record request =
  rq_actor :: user_row
  rq_target :: nat
  rq_data :: "(string \<times> py) list"
  rq_key :: string
  rq_correlation :: nat
  rq_now :: int

record documents =
  dc_contract :: contract
  dc_actions :: action_document
  dc_crosswalk :: "crosswalk_item list"
  dc_resume_enabled :: bool

type_synonym outcome = "int \<times> py"

definition add_races :: "idem_row list \<Rightarrow> db \<Rightarrow> db" where
  "add_races races d = d\<lparr>db_idem := db_idem d @ races\<rparr>"

definition atomically ::
  "idem_row list \<Rightarrow> (db \<Rightarrow> app_error + (outcome \<times> db)) \<Rightarrow> db \<Rightarrow> (app_error + outcome) \<times> db" where
  "atomically races body d =
     (case body d of
        Inl e \<Rightarrow> (Inl e, add_races races d)
      | Inr (out, d') \<Rightarrow> (Inr out, d'))"

definition requested_version :: "(string \<times> py) list \<Rightarrow> app_error + int option" where
  "requested_version data =
     (case map_of data ''state_version'' of
        None \<Rightarrow> Inl (Uncaught ''state_version'')
      | Some (PInt n) \<Rightarrow> Inr (Some n)
      | Some _ \<Rightarrow> Inr None)"

section \<open>Offered actions in responses\<close>

definition action_py :: "catalog_entry \<Rightarrow> py" where
  "action_py e = PDict [
     (''code'', PStr (ca_code e)), (''label'', PStr (ca_label e)),
     (''operation_id'', PStr (ca_operation_id e)), (''style'', PStr (ca_style e)),
     (''requires_confirmation'', PBool (ca_requires_confirmation e)),
     (''confirmation_message'', opt_str (ca_confirmation_message e))]"

definition offered ::
  "documents \<Rightarrow> inquiry_row \<Rightarrow> user_row \<Rightarrow> from_args \<Rightarrow> db \<Rightarrow> app_error + catalog_entry list" where
  "offered dc i actor a d =
     map_error (\<lambda>e. Uncaught ''allowed_actions'')
       (resolve_actions (dc_contract dc) (dc_actions dc) (dc_crosswalk dc) (from_models i actor a d))"

definition state_conflict ::
  "documents \<Rightarrow> inquiry_row \<Rightarrow> user_row \<Rightarrow> from_args \<Rightarrow> db \<Rightarrow> app_error" where
  "state_conflict dc i actor a d =
     (case offered dc i actor a d of
        Inl e \<Rightarrow> e
      | Inr es \<Rightarrow> Business STATE_CONFLICT ''msg.state_conflict''
          (PDict [(''current_status'', PStr (i_status_code i)),
                  (''current_state_version'', PInt (i_state_version i)),
                  (''allowed_actions'', PList (map (\<lambda>e. PStr (ca_code e)) es))]) 409)"

section \<open>Steps shared by the services\<close>

definition request_scope :: "user_row \<Rightarrow> string \<Rightarrow> string \<Rightarrow> nat \<times> string \<times> string" where
  "request_scope actor operation key = (u_id actor, operation, key)"

definition request_hash :: "(string \<times> py) list \<Rightarrow> (string \<times> py) list \<Rightarrow> nat \<Rightarrow> string" where
  "request_hash path body target =
     canonical_request_hash (PDict [
       (''normalized_path_parameters'', PDict path),
       (''normalized_request_body'', PDict body),
       (''target_public_id'', PUuid target)])"

definition inquiry_snapshot :: "inquiry_row \<Rightarrow> db \<Rightarrow> app_error + snapshot" where
  "inquiry_snapshot i d =
     map_error (\<lambda>e. Uncaught ''snapshot'')
       (snapshot_init (Some (i_status_code i)) (Some (i_state_version i)) (latest_visit_status i d))"

text \<open>Claiming the key: another transaction may have won it since the first lookup.\<close>

definition claim_key ::
  "nat \<times> string \<times> string \<Rightarrow> string \<Rightarrow> db \<Rightarrow> app_error + (outcome option \<times> db)" where
  "claim_key k hash d =
     (case create_idempotency_record k hash d of
        Inr d' \<Rightarrow> Inr (None, d')
      | Inl e \<Rightarrow>
          (case lock_idempotency_scope k d of
             None \<Rightarrow> Inl e
           | Some r \<Rightarrow> (rbind (replay_or_conflict r hash ''idempotent_replay'')
               (\<lambda>out. Inr (Some out, d)))))"

section \<open>The assigned consultant action\<close>

record workflow_context =
  wc_consultation :: "consultation_row option"
  wc_visit :: "visit_row option option"
  wc_latest_visit :: "visit_row option option"
  wc_technician :: "user_row option"

datatype resource = No_resource | R_consultation consultation_row | R_visit visit_row

text \<open>What an operation passes to \<open>execute\<close>.\<close>

record action_spec =
  sp_path :: "(string \<times> py) list"
  sp_operation :: string
  sp_event :: string
  sp_message :: string
  sp_context :: "inquiry_row \<Rightarrow> db \<Rightarrow> app_error + workflow_context"
  sp_domain :: "inquiry_row \<Rightarrow> workflow_context \<Rightarrow> (string \<times> bool) list"
  sp_mutation :: "inquiry_row \<Rightarrow> transition \<Rightarrow> workflow_context \<Rightarrow> db \<Rightarrow> app_error + (resource \<times> db)"
  sp_resource :: "resource \<Rightarrow> py"
  sp_assignment_actor :: "user_row option"

text \<open>\<open>_resolve_allowed_actions\<close>: the rows the context or the resource already holds.\<close>

definition action_args :: "workflow_context \<Rightarrow> resource \<Rightarrow> from_args" where
  "action_args x res =
     no_args\<lparr>
       fm_consultation := Some (case res of R_consultation c \<Rightarrow> Some c | _ \<Rightarrow> wc_consultation x),
       fm_visit := (case res of R_visit v \<Rightarrow> Some (Some v)
         | _ \<Rightarrow> (case wc_latest_visit x of Some v \<Rightarrow> Some v | None \<Rightarrow> wc_visit x))\<rparr>"

definition guard_failure_error ::
  "documents \<Rightarrow> inquiry_row \<Rightarrow> user_row \<Rightarrow> workflow_context \<Rightarrow> db \<Rightarrow> guard_evaluation \<Rightarrow>
     app_error option" where
  "guard_failure_error dc i actor x d ev =
     (if allowed ev then None
      else case failure ev of
        None \<Rightarrow> Some internal_error
      | Some f \<Rightarrow>
          if f_guard_id f = ''G-STATE-VERSION''
          then Some (state_conflict dc i actor (action_args x No_resource) d)
          else if f_http_status f = 404 then Some Not_found
          else if f_http_status f = 403 then Some Permission_denied
          else if f_http_status f = 422
          then Some (Business (f_error_code f) (f_message f) (PDict []) 422)
          else Some internal_error)"

definition engine_error ::
  "sm_reason set \<Rightarrow> app_error \<Rightarrow> sm_error \<Rightarrow> app_error" where
  "engine_error conflicts conflict e =
     (case e of Missing_key k \<Rightarrow> Uncaught k
      | Invalid r \<Rightarrow> if r \<in> conflicts then conflict else internal_error)"

definition plan_action ::
  "documents \<Rightarrow> request \<Rightarrow> action_spec \<Rightarrow> user_row \<Rightarrow> inquiry_row \<Rightarrow> workflow_context \<Rightarrow> db \<Rightarrow>
     app_error + transition" where
  "plan_action dc rq sp actor i x d =
     rbind (inquiry_snapshot i d) (\<lambda>s.
     rbind (map_error (engine_error {TERMINAL_STATE, UNLISTED_TRANSITION, VISIT_STATE_MISMATCH}
              (state_conflict dc i actor (action_args x No_resource) d))
              (resolve (dc_contract dc) s (sp_event sp))) (\<lambda>t.
     rbind (requested_version (rq_data rq)) (\<lambda>v.
     rbind (map_error (\<lambda>e. Uncaught ''guard'')
              (evaluate (dc_contract dc) t s
                 \<lparr>x_actor_role = Some (u_role_code actor), x_authenticated = u_authenticated actor,
                  x_correlation_id = Some (uuid_text (rq_correlation rq)),
                  x_idempotency_key = Some (rq_key rq), x_requested_version = v,
                  x_trusted_internal = False,
                  x_domain_results = dict_of ((''G-ASSIGNED-CONSULTANT'', True) # sp_domain sp i x)\<rparr>)) (\<lambda>ev.
     case guard_failure_error dc i actor x d ev of
       Some e \<Rightarrow> Inl e
     | None \<Rightarrow> Inr t))))"

text \<open>The visit history row, required exactly when the rule records it.\<close>

definition record_visit_part ::
  "request \<Rightarrow> transition \<Rightarrow> resource \<Rightarrow> db \<Rightarrow> app_error + db" where
  "record_visit_part rq t res d =
     (if \<not> t_record_visit t then Inr d
      else case res of
        No_resource \<Rightarrow> Inl internal_error
      | R_consultation c \<Rightarrow> Inl (Uncaught ''visit'')
      | R_visit v \<Rightarrow> record_visit_action v t (rq_actor rq) (rq_correlation rq) (rq_key rq) (rq_now rq) d)"

definition resource_public_id :: "inquiry_row \<Rightarrow> resource \<Rightarrow> nat" where
  "resource_public_id i res =
     (case res of No_resource \<Rightarrow> i_public_id i | R_consultation c \<Rightarrow> co_public_id c
      | R_visit v \<Rightarrow> v_public_id v)"

definition apply_action ::
  "documents \<Rightarrow> request \<Rightarrow> action_spec \<Rightarrow> user_row \<Rightarrow> inquiry_row \<Rightarrow> workflow_context \<Rightarrow>
     transition \<Rightarrow> db \<Rightarrow> app_error + (outcome \<times> db)" where
  "apply_action dc rq sp actor i x t d =
     rbind (sp_mutation sp i t x d) (\<lambda>(res, d1).
     rbind (apply_state_transition i (t_state_after t) (t_version_after t) d1) (\<lambda>(i', d2).
     rbind (record_inquiry_action i' t (rq_actor rq) (rq_correlation rq) (rq_key rq) None (rq_now rq) d2) (\<lambda>d3.
     rbind (record_visit_part rq t res d3) (\<lambda>d4.
     rbind (offered dc i' actor (action_args x res) d4) (\<lambda>es.
     let body = PDict [
           (''message'', PStr (sp_message sp)),
           (''inquiry_id'', PStr (uuid_text (i_public_id i'))),
           (''status'', PStr (i_status_code i')),
           (''state_version'', PInt (i_state_version i')),
           (''allowed_actions'', PList (map action_py es)),
           (''idempotent_replay'', PBool False),
           (''resource'', sp_resource sp res)]
     in Inr ((200, body), complete_idempotency_record
          (request_scope (rq_actor rq) (sp_operation sp) (rq_key rq)) 200 body
          (resource_public_id i' res) (rq_now rq) d4))))))"

text \<open>\<open>workflow_actor = assignment_actor or actor\<close>.\<close>

definition execution_actor :: "action_spec \<Rightarrow> request \<Rightarrow> user_row" where
  "execution_actor sp rq = (case sp_assignment_actor sp of Some a \<Rightarrow> a | None \<Rightarrow> rq_actor rq)"

definition execute_body ::
  "documents \<Rightarrow> idem_row list \<Rightarrow> action_spec \<Rightarrow> request \<Rightarrow> db \<Rightarrow> app_error + (outcome \<times> db)" where
  "execute_body dc races sp rq d =
     (let hash = request_hash (sp_path sp) (rq_data rq) (rq_target rq);
          actor = execution_actor sp rq;
          k = request_scope (rq_actor rq) (sp_operation sp) (rq_key rq)
      in rbind (of_option Not_found (lock_assigned_inquiry (rq_target rq) actor d)) (\<lambda>i.
         case lock_idempotency_scope k d of
           Some r \<Rightarrow> rbind (replay_or_conflict r hash ''idempotent_replay'')
             (\<lambda>out. Inr (out, add_races races d))
         | None \<Rightarrow>
             rbind (sp_context sp i d) (\<lambda>x.
             rbind (plan_action dc rq sp actor i x d) (\<lambda>t.
             rbind (claim_key k hash (add_races races d)) (\<lambda>(replayed, d').
             case replayed of
               Some out \<Rightarrow> Inr (out, d')
             | None \<Rightarrow> apply_action dc rq sp actor i x t d')))))"

definition execute ::
  "documents \<Rightarrow> idem_row list \<Rightarrow> action_spec \<Rightarrow> request \<Rightarrow> db \<Rightarrow> (app_error + outcome) \<times> db" where
  "execute dc races sp rq = atomically races (execute_body dc races sp rq)"

end
