(* ===== verification/Ledger.thy ===== *)
theory Ledger
  imports AssignedAction
begin

text \<open>
  What every workflow operation owes the database: an error changes nothing, a known key replays its
  stored response, and a fresh request moves one inquiry by one planned transition, appends its
  history and completes its idempotency record. The effect of such a request keeps the audit trail of
  every inquiry gapless and chained; \<open>Contracts\<close> states these laws as locales.
\<close>

section \<open>Writes and reads of the store\<close>

lemma add_races_simps [simp]:
  "db_inquiries (add_races races d) = db_inquiries d" "db_history (add_races races d) = db_history d"
  "db_visits (add_races races d) = db_visits d" "db_consultations (add_races races d) = db_consultations d"
  "db_idem (add_races races d) = db_idem d @ races" "db_next_id (add_races races d) = db_next_id d"
  "db_feedback (add_races races d) = db_feedback d" "db_subscriptions (add_races races d) = db_subscriptions d"
  "add_races [] d = d"
  by (simp_all add: add_races_def)

lemma insert_history_Inr:
  "insert_history h d = Inr d' \<longleftrightarrow>
     history_constraints h \<and> history_slot h \<notin> history_slot ` set (db_history d) \<and>
     d' = d\<lparr>db_history := db_history d @ [h\<lparr>h_id := db_next_id d\<rparr>], db_next_id := Suc (db_next_id d)\<rparr>"
  by (auto simp: insert_history_def)

lemma history_id [simp]:
  "history_target (h\<lparr>h_id := n\<rparr>) = history_target h" "history_slot (h\<lparr>h_id := n\<rparr>) = history_slot h"
  by (simp_all add: history_target_def history_slot_def)

lemma create_idempotency_record_Inr:
  "create_idempotency_record k hash d = Inr d' \<longleftrightarrow>
     k \<notin> idem_scope ` set (db_idem d) \<and>
     d' = d\<lparr>db_idem := db_idem d @
        [\<lparr>ir_actor_id = fst k, ir_operation_id = fst (snd k), ir_idempotency_key = snd (snd k),
          ir_request_hash = hash, ir_response_status = None, ir_response_body = PDict [],
          ir_resource_public_id = None, ir_completed_at = None\<rparr>]\<rparr>"
  by (auto simp: create_idempotency_record_def)

lemma claimed_record:
  assumes "create_idempotency_record k hash d = Inr d'"
  shows "\<exists>r. d' = d\<lparr>db_idem := db_idem d @ [r]\<rparr> \<and> idem_scope r = k \<and> ir_request_hash r = hash \<and>
    k \<notin> idem_scope ` set (db_idem d)"
proof -
  let ?r = "\<lparr>ir_actor_id = fst k, ir_operation_id = fst (snd k), ir_idempotency_key = snd (snd k),
    ir_request_hash = hash, ir_response_status = None, ir_response_body = PDict [],
    ir_resource_public_id = None, ir_completed_at = None\<rparr>"
  have "d' = d\<lparr>db_idem := db_idem d @ [?r]\<rparr>" "k \<notin> idem_scope ` set (db_idem d)"
    using assms unfolding create_idempotency_record_Inr by blast+
  moreover have "idem_scope ?r = k" "ir_request_hash ?r = hash" by (simp_all add: idem_scope_def)
  ultimately show ?thesis by blast
qed

lemma lock_idempotency_scope_Some:
  "lock_idempotency_scope k d = Some r \<Longrightarrow> r \<in> set (db_idem d) \<and> idem_scope r = k"
  by (auto simp: lock_idempotency_scope_def find_Some_iff)

lemma lock_idempotency_scope_None:
  "lock_idempotency_scope k d = None \<longleftrightarrow> k \<notin> idem_scope ` set (db_idem d)"
  by (auto simp: lock_idempotency_scope_def find_None_iff)

lemma find_unique_key:
  assumes "distinct (map f xs)" and "x \<in> set xs"
  shows "find (\<lambda>y. f y = f x) xs = Some x"
  using assms by (induction xs) (auto simp: rev_image_eqI)

lemma lock_idempotency_scope_unique:
  assumes "distinct (map idem_scope (db_idem d))" and "r \<in> set (db_idem d)" and "idem_scope r = k"
  shows "lock_idempotency_scope k d = Some r"
  unfolding lock_idempotency_scope_def using find_unique_key [OF assms(1,2)] assms(3) by simp

lemma replay_Inr:
  "replay_or_conflict r hash field = Inr out \<longleftrightarrow>
     (\<exists>st kvs t. ir_request_hash r = hash \<and> ir_completed_at r = Some t \<and>
        ir_response_status r = Some st \<and> ir_response_body r = PDict kvs \<and> kvs \<noteq> [] \<and>
        out = (st, PDict (dict_set kvs field (PBool True))))"
  by (cases "ir_completed_at r"; cases "ir_response_status r"; cases "ir_response_body r")
    (auto simp: replay_or_conflict_def split: bool.splits)

section \<open>Trails\<close>

definition trail :: "nat \<Rightarrow> db \<Rightarrow> history_row list" where
  "trail n d = filter (\<lambda>h. history_target h = Some (''INQUIRY'', n)) (db_history d)"

text \<open>Each row starts where the previous one ended.\<close>

fun chained :: "string option \<Rightarrow> history_row list \<Rightarrow> bool" where
  "chained s [] = True"
| "chained s (h # hs) = (h_from_state h = s \<and> chained (Some (h_to_state h)) hs)"

definition trail_ok :: "inquiry_row \<Rightarrow> history_row list \<Rightarrow> bool" where
  "trail_ok i hs =
     (hs \<noteq> [] \<and> map h_state_version hs = map int [1..<Suc (length hs)] \<and>
      i_state_version i = int (length hs) \<and> h_to_state (last hs) = i_status_code i \<and> chained None hs)"

definition ledger_ok :: "db \<Rightarrow> bool" where
  "ledger_ok d =
     (distinct (map i_id (db_inquiries d)) \<and> distinct (map idem_scope (db_idem d)) \<and>
      (\<forall>i \<in> set (db_inquiries d). trail_ok i (trail (i_id i) d)))"

lemma chained_append:
  "chained s (hs @ [h]) \<longleftrightarrow>
     chained s hs \<and> h_from_state h = (if hs = [] then s else Some (h_to_state (last hs)))"
  by (induction hs arbitrary: s) auto

lemma trail_ok_append:
  assumes "trail_ok i hs" and "h_state_version h = i_state_version i + 1"
    and "h_from_state h = Some (i_status_code i)"
    and "i_state_version j = h_state_version h" and "i_status_code j = h_to_state h"
  shows "trail_ok j (hs @ [h])"
  using assms by (auto simp: trail_ok_def chained_append)

lemma trail_version_bound:
  assumes "trail_ok i hs" and "h \<in> set hs"
  shows "h_state_version h \<le> i_state_version i"
proof -
  have "h_state_version h \<in> set (map int [1..<Suc (length hs)])"
    using assms by (metis trail_ok_def image_eqI set_map)
  then show ?thesis using assms(1) by (auto simp: trail_ok_def)
qed

text \<open>The slot of the next history row of an inquiry is free.\<close>

lemma next_slot_free:
  assumes "trail_ok i (trail (i_id i) d)" and "history_target h = Some (''INQUIRY'', i_id i)"
    and "h_state_version h = i_state_version i + 1"
  shows "history_slot h \<notin> history_slot ` set (db_history d)"
proof
  assume "history_slot h \<in> history_slot ` set (db_history d)"
  then obtain g where g: "g \<in> set (db_history d)" "history_target g = history_target h"
    "h_state_version g = h_state_version h"
    by (auto simp: history_slot_def)
  then have "g \<in> set (trail (i_id i) d)" using assms(2) by (simp add: trail_def)
  then show False using trail_version_bound [OF assms(1)] g(3) assms(3) by fastforce
qed

text \<open>Stored confirmations that an inquiry is resolved.\<close>

definition resolved_rows :: "nat \<Rightarrow> db \<Rightarrow> feedback_row list" where
  "resolved_rows n d =
     filter (\<lambda>f. fb_inquiry_id f = n \<and> fb_resolution_status_code f = ''RESOLVED'') (db_feedback d)"

section \<open>Replays and fresh effects\<close>

definition replayed ::
  "nat \<times> string \<times> string \<Rightarrow> string \<Rightarrow> idem_row list \<Rightarrow> db \<Rightarrow> outcome \<Rightarrow> db \<Rightarrow> bool" where
  "replayed k hash races d out d' =
     (d' = add_races races d \<and>
      (\<exists>r \<in> set (db_idem d'). idem_scope r = k \<and>
         replay_or_conflict r hash ''idempotent_replay'' = Inr out))"

text \<open>
  The effect of a request that was not a replay. \<open>f\<close> is what happens to the row of the inquiry; the
  history gains its row and possibly rows of other targets.
\<close>

definition fresh_effect ::
  "contract \<Rightarrow> nat \<times> string \<times> string \<Rightarrow> string \<Rightarrow> idem_row list \<Rightarrow> request \<Rightarrow> db \<Rightarrow>
     inquiry_row \<Rightarrow> transition \<Rightarrow> outcome \<Rightarrow> db \<Rightarrow> bool" where
  "fresh_effect c k hash races rq d i t out d' =
     (i \<in> set (db_inquiries d) \<and>
      (\<exists>s ev. resolve c s ev = Inr t \<and> s_state s = Some (i_status_code i) \<and>
         s_version s = Some (i_state_version i)) \<and>
      (\<exists>f. db_inquiries d' = map (\<lambda>r. if i_id r = i_id i then f r else r) (db_inquiries d) \<and>
         i_id (f i) = i_id i \<and> i_status_code (f i) = t_state_after t \<and>
         i_state_version (f i) = t_version_after t) \<and>
      (\<exists>h others. db_history d' = db_history d @ h # others \<and>
         history_target h = Some (''INQUIRY'', i_id i) \<and> h_event_code h = t_event t \<and>
         h_from_state h = t_state_before t \<and> h_to_state h = t_state_after t \<and>
         h_state_version h = t_version_after t \<and> h_idempotency_key h = rq_key rq \<and>
         (\<forall>g \<in> set others. \<forall>n. history_target g \<noteq> Some (''INQUIRY'', n))) \<and>
      (\<exists>r. db_idem d' = db_idem d @ races @ [r] \<and> idem_scope r = k \<and> ir_request_hash r = hash \<and>
         ir_response_status r = Some (fst out) \<and> ir_response_body r = snd out \<and>
         ir_completed_at r = Some (rq_now rq)) \<and>
      k \<notin> idem_scope ` set (db_idem d @ races) \<and>
      db_next_id d \<le> db_next_id d' \<and> (\<forall>n. resolved_rows n d' = resolved_rows n d))"

text \<open>The record a fresh request leaves behind.\<close>

definition completed_record ::
  "nat \<times> string \<times> string \<Rightarrow> string \<Rightarrow> idem_row list \<Rightarrow> request \<Rightarrow> db \<Rightarrow> outcome \<Rightarrow> db \<Rightarrow> bool" where
  "completed_record k hash races rq d out d' =
     ((\<exists>r. db_idem d' = db_idem d @ races @ [r] \<and> idem_scope r = k \<and> ir_request_hash r = hash \<and>
         ir_response_status r = Some (fst out) \<and> ir_response_body r = snd out \<and>
         ir_completed_at r = Some (rq_now rq)) \<and>
      k \<notin> idem_scope ` set (db_idem d @ races))"

lemma fresh_effect_completed:
  "fresh_effect c k hash races rq d i t out d' \<Longrightarrow> completed_record k hash races rq d out d'"
  unfolding fresh_effect_def completed_record_def by blast

lemma fresh_effect_version:
  assumes "fresh_effect c k hash races rq d i t out d'"
  shows "t_state_before t = Some (i_status_code i)" "t_version_after t = i_state_version i + 1"
  using assms by (auto simp: fresh_effect_def resolve_Inr next_version_Inr)

text \<open>Records other transactions commit meanwhile obey the same unique constraint.\<close>

definition races_ok :: "idem_row list \<Rightarrow> db \<Rightarrow> bool" where
  "races_ok races d = distinct (map idem_scope (db_idem d @ races))"

lemma ledger_ok_races: "ledger_ok d \<Longrightarrow> races_ok races d \<Longrightarrow> ledger_ok (add_races races d)"
  by (simp add: ledger_ok_def races_ok_def trail_def)

lemma fresh_effect_trails:
  assumes "fresh_effect c k hash races rq d i t out d'"
  shows "\<exists>h. (\<forall>n. trail n d' = trail n d @ (if n = i_id i then [h] else [])) \<and>
    h_event_code h = t_event t \<and> h_from_state h = t_state_before t \<and> h_to_state h = t_state_after t \<and>
    h_state_version h = t_version_after t \<and> h_idempotency_key h = rq_key rq"
proof -
  obtain h others where h: "db_history d' = db_history d @ h # others"
    "history_target h = Some (''INQUIRY'', i_id i)" "h_event_code h = t_event t"
    "h_from_state h = t_state_before t" "h_to_state h = t_state_after t"
    "h_state_version h = t_version_after t" "h_idempotency_key h = rq_key rq"
    "\<forall>g \<in> set others. \<forall>n. history_target g \<noteq> Some (''INQUIRY'', n)"
    using assms unfolding fresh_effect_def by blast
  then have "filter (\<lambda>h. history_target h = Some (''INQUIRY'', n)) others = []" for n
    by (auto simp: filter_empty_conv)
  then have "trail n d' = trail n d @ (if n = i_id i then [h] else [])" for n
    using h(1,2) by (cases "n = i_id i") (auto simp: trail_def)
  then show ?thesis using h by blast
qed

lemma fresh_effect_trail:
  assumes "fresh_effect c k hash races rq d i t out d'"
  shows "\<exists>h. trail n d' = trail n d @ (if n = i_id i then [h] else []) \<and>
    h_event_code h = t_event t \<and> h_from_state h = t_state_before t \<and> h_to_state h = t_state_after t \<and>
    h_state_version h = t_version_after t \<and> h_idempotency_key h = rq_key rq"
  using fresh_effect_trails [OF assms] by blast

lemma fresh_effect_ledger:
  assumes "ledger_ok d" and "races_ok races d" and "fresh_effect c k hash races rq d i t out d'"
  shows "ledger_ok d'"
proof -
  obtain f where f: "db_inquiries d' = map (\<lambda>r. if i_id r = i_id i then f r else r) (db_inquiries d)"
    "i_id (f i) = i_id i" "i_status_code (f i) = t_state_after t" "i_state_version (f i) = t_version_after t"
    using assms(3) unfolding fresh_effect_def by blast
  have i: "i \<in> set (db_inquiries d)" and dist: "distinct (map i_id (db_inquiries d))"
    using assms(1,3) by (simp_all add: fresh_effect_def ledger_ok_def)
  have same: "r = i" if "r \<in> set (db_inquiries d)" "i_id r = i_id i" for r
    using dist i that by (metis distinct_map inj_onD)
  have ids: "map i_id (db_inquiries d') = map i_id (db_inquiries d)"
    using f(1,2) same by auto
  obtain r where r: "db_idem d' = db_idem d @ races @ [r]" "idem_scope r = k"
    "k \<notin> idem_scope ` set (db_idem d @ races)"
    using assms(3) unfolding fresh_effect_def by blast
  then have "distinct (map idem_scope (db_idem d'))"
    using assms(2) by (auto simp: races_ok_def)
  moreover have "trail_ok j (trail (i_id j) d')" if j: "j \<in> set (db_inquiries d')" for j
  proof -
    obtain q where q: "q \<in> set (db_inquiries d)" "j = (if i_id q = i_id i then f q else q)"
      using j f(1) by auto
    have qt: "trail_ok q (trail (i_id q) d)" using assms(1) q(1) by (simp add: ledger_ok_def)
    obtain h where h: "trail (i_id q) d' = trail (i_id q) d @ (if i_id q = i_id i then [h] else [])"
      "h_from_state h = t_state_before t" "h_to_state h = t_state_after t" "h_state_version h = t_version_after t"
      using fresh_effect_trail [OF assms(3), of "i_id q"] by blast
    show ?thesis
    proof (cases "i_id q = i_id i")
      case True
      then have "q = i" using same q(1) by blast
      then show ?thesis
        using q(2) h f trail_ok_append [OF qt, of h "f i"] fresh_effect_version [OF assms(3)] by simp
    next
      case False
      then show ?thesis using q(2) h(1) qt by simp
    qed
  qed
  ultimately show ?thesis using dist ids by (simp add: ledger_ok_def)
qed

text \<open>Every row of an inquiry's trail is an edge of the contract.\<close>

definition lawful_row :: "contract \<Rightarrow> history_row \<Rightarrow> bool" where
  "lawful_row c h =
     ((\<exists>n. history_target h = Some (''INQUIRY'', n)) \<longrightarrow>
      (\<exists>r \<in> set (c_rules c). r_event r = h_event_code h \<and> r_from r = h_from_state h \<and>
         r_to r = h_to_state h))"

definition lawful :: "contract \<Rightarrow> db \<Rightarrow> bool" where
  "lawful c d = (\<forall>h \<in> set (db_history d). lawful_row c h)"

lemma fresh_effect_lawful:
  assumes "lawful c d" and "fresh_effect c k hash races rq d i t out d'"
  shows "lawful c d'"
proof -
  obtain s ev where "resolve c s ev = Inr t" using assms(2) unfolding fresh_effect_def by blast
  then obtain r where r: "r \<in> set (c_rules c)" "r_event r = t_event t" "r_from r = t_state_before t"
    "r_to r = t_state_after t"
    by (rule resolve_rule) auto
  obtain h others where h: "db_history d' = db_history d @ h # others" "h_event_code h = t_event t"
    "h_from_state h = t_state_before t" "h_to_state h = t_state_after t"
    "\<forall>g \<in> set others. \<forall>n. history_target g \<noteq> Some (''INQUIRY'', n)"
    using assms(2) unfolding fresh_effect_def by blast
  have "lawful_row c h" using h(2-4) r by (auto simp: lawful_row_def)
  moreover have "\<forall>g \<in> set others. lawful_row c g" using h(5) by (auto simp: lawful_row_def)
  ultimately show ?thesis using assms(1) h(1) by (auto simp: lawful_def)
qed

lemma lawful_races [simp]: "lawful c (add_races races d) = lawful c d"
  by (simp add: lawful_def)

end
