(* ===== verification/AssignedFacts.thy ===== *)
theory AssignedFacts
  imports Ledger
begin

text \<open>
  \<open>execute\<close> keeps the contract of a ledger operation whenever the operation it runs leaves the
  inquiries, the history and the idempotency records to it. Also: which requests are refused, and
  that a retry with the same key is answered by the stored response.
\<close>

section \<open>What a mutation may touch\<close>

definition frame :: "db \<Rightarrow> db \<Rightarrow> bool" where
  "frame d d' =
     (db_inquiries d' = db_inquiries d \<and> db_history d' = db_history d \<and> db_idem d' = db_idem d \<and>
      db_feedback d' = db_feedback d \<and> db_next_id d \<le> db_next_id d' \<and>
      (\<exists>new. map (\<lambda>v. (v_public_id v, v_inquiry_public_id v)) (db_visits d') =
         map (\<lambda>v. (v_public_id v, v_inquiry_public_id v)) (db_visits d) @ new))"

lemma frame_refl [simp]: "frame d d"
  by (simp add: frame_def)

lemma frame_trans: "frame d d' \<Longrightarrow> frame d' d'' \<Longrightarrow> frame d d''"
  by (fastforce simp: frame_def)

text \<open>An operation whose mutation stays within the frame.\<close>

definition framed :: "action_spec \<Rightarrow> bool" where
  "framed sp = (\<forall>i t x d res d'. sp_mutation sp i t x d = Inr (res, d') \<longrightarrow> frame d d')"

section \<open>Steps\<close>

lemma apply_state_transition_Inr:
  "apply_state_transition i st v d = Inr (i', d') \<Longrightarrow>
     i' = i\<lparr>i_status_code := st, i_state_version := v\<rparr> \<and>
     d' = d\<lparr>db_inquiries := map (\<lambda>r. if i_id r = i_id i
       then r\<lparr>i_status_code := st, i_state_version := v\<rparr> else r) (db_inquiries d)\<rparr>"
  by (auto simp: apply_state_transition_def update_inquiry_def split: if_splits)

lemma record_inquiry_action_Inr:
  assumes "record_inquiry_action i t actor corr key reason now d = Inr d'"
  shows "\<exists>h. d' = d\<lparr>db_history := db_history d @ [h], db_next_id := Suc (db_next_id d)\<rparr> \<and>
    history_target h = Some (''INQUIRY'', i_id i) \<and> h_event_code h = t_event t \<and>
    h_from_state h = t_state_before t \<and> h_to_state h = t_state_after t \<and>
    h_state_version h = t_version_after t \<and> h_idempotency_key h = key"
  using assms
  by (auto simp: record_inquiry_action_def create_transition_history_def insert_history_Inr history_target_def)

lemma record_visit_part_Inr:
  assumes "record_visit_part rq t res d = Inr d'"
  shows "\<exists>new n. d' = d\<lparr>db_history := db_history d @ new, db_next_id := n\<rparr> \<and> db_next_id d \<le> n \<and>
    (\<forall>g \<in> set new. \<forall>m. history_target g \<noteq> Some (''INQUIRY'', m))"
proof (cases "t_record_visit t")
  case False
  then show ?thesis using assms by (intro exI [of _ "[]"] exI [of _ "db_next_id d"]) (simp add: record_visit_part_def)
next
  case True
  then obtain v :: visit_row and w where "create_visit_transition_history (v_id v) (u_id (rq_actor rq)) (t_event t)
      (t_visit_before t) w (v_state_version v) (rq_correlation rq) (rq_key rq) (rq_now rq) d = Inr d'"
    using assms by (auto simp: record_visit_part_def record_visit_action_def split: resource.splits option.splits)
  then show ?thesis
    unfolding create_visit_transition_history_def insert_history_Inr
    by (intro exI) (auto simp: history_target_def)
qed

lemma complete_last:
  assumes "idem_scope r = k" and "k \<notin> idem_scope ` set rs" and "db_idem d = rs @ [r]"
  shows "complete_idempotency_record k st body res now d =
    d\<lparr>db_idem := rs @ [r\<lparr>ir_response_status := Some st, ir_response_body := body,
       ir_resource_public_id := Some res, ir_completed_at := Some now\<rparr>]\<rparr>"
proof -
  have "map (\<lambda>r. if idem_scope r = k then g r else r) rs = rs" for g
    using assms(2) by (induction rs) auto
  then show ?thesis using assms(1,3) by (simp add: complete_idempotency_record_def)
qed

lemma claim_key_Inr:
  assumes "claim_key k hash d = Inr (res, d')"
  shows "(\<exists>r out. res = Some out \<and> d' = d \<and> r \<in> set (db_idem d) \<and> idem_scope r = k \<and>
      replay_or_conflict r hash ''idempotent_replay'' = Inr out) \<or>
    (res = None \<and> create_idempotency_record k hash d = Inr d')"
  using assms
  by (auto simp: claim_key_def rbind_Inr_iff split: sum.splits option.splits dest!: lock_idempotency_scope_Some)

lemma plan_action_Inr:
  assumes "plan_action dc rq sp actor i x d = Inr t"
  shows "\<exists>s v ev. snapshot_init (Some (i_status_code i)) (Some (i_state_version i)) (latest_visit_status i d) = Inr s \<and>
    resolve (dc_contract dc) s (sp_event sp) = Inr t \<and> requested_version (rq_data rq) = Inr v \<and>
    evaluate (dc_contract dc) t s
      \<lparr>x_actor_role = Some (u_role_code actor), x_authenticated = u_authenticated actor,
       x_correlation_id = Some (uuid_text (rq_correlation rq)),
       x_idempotency_key = Some (rq_key rq), x_requested_version = v, x_trusted_internal = False,
       x_domain_results = dict_of ((''G-ASSIGNED-CONSULTANT'', True) # sp_domain sp i x)\<rparr> = Inr ev \<and>
    allowed ev"
proof -
  have "allowed ev" if "guard_failure_error dc i actor x d ev = None" for ev
    using that by (auto simp: guard_failure_error_def split: if_splits option.splits)
  then show ?thesis using assms
    by (fastforce simp: plan_action_def inquiry_snapshot_def rbind_Inr_iff map_error_iff split: option.splits)
qed

section \<open>The effect of a fresh action\<close>

lemma apply_action_fresh:
  assumes "apply_action dc rq sp actor i x t d1 = Inr (out, d')"
    and "framed sp"
    and "db_idem d1 = rs @ [r]" and "idem_scope r = request_scope (rq_actor rq) (sp_operation sp) (rq_key rq)"
    and "idem_scope r \<notin> idem_scope ` set rs"
  shows "(\<exists>f. db_inquiries d' = map (\<lambda>q. if i_id q = i_id i then f q else q) (db_inquiries d1) \<and>
       (\<forall>q. f q = q\<lparr>i_status_code := t_state_after t, i_state_version := t_version_after t\<rparr>)) \<and>
    (\<exists>h others. db_history d' = db_history d1 @ h # others \<and>
       history_target h = Some (''INQUIRY'', i_id i) \<and> h_event_code h = t_event t \<and>
       h_from_state h = t_state_before t \<and> h_to_state h = t_state_after t \<and>
       h_state_version h = t_version_after t \<and> h_idempotency_key h = rq_key rq \<and>
       (\<forall>g \<in> set others. \<forall>n. history_target g \<noteq> Some (''INQUIRY'', n))) \<and>
    (\<exists>kvs res. out = (200, PDict kvs) \<and> kvs \<noteq> [] \<and>
       db_idem d' = rs @ [r\<lparr>ir_response_status := Some 200, ir_response_body := PDict kvs,
         ir_resource_public_id := Some res, ir_completed_at := Some (rq_now rq)\<rparr>]) \<and>
    (\<exists>new. map (\<lambda>v. (v_public_id v, v_inquiry_public_id v)) (db_visits d') =
       map (\<lambda>v. (v_public_id v, v_inquiry_public_id v)) (db_visits d1) @ new) \<and>
    db_feedback d' = db_feedback d1 \<and> db_next_id d1 \<le> db_next_id d'"
proof -
  obtain res d2 i' d3 d4 d5 kvs where
    m: "sp_mutation sp i t x d1 = Inr (res, d2)" and
    a: "apply_state_transition i (t_state_after t) (t_version_after t) d2 = Inr (i', d3)" and
    h: "record_inquiry_action i' t (rq_actor rq) (rq_correlation rq) (rq_key rq) None (rq_now rq) d3 = Inr d4" and
    v: "record_visit_part rq t res d4 = Inr d5" and
    out: "out = (200, PDict kvs)" "kvs \<noteq> []" and
    d': "d' = complete_idempotency_record (request_scope (rq_actor rq) (sp_operation sp) (rq_key rq)) 200
      (PDict kvs) (resource_public_id i' res) (rq_now rq) d5"
    using assms(1) by (auto simp: apply_action_def rbind_Inr_iff Let_def)
  have fr: "frame d1 d2" using assms(2) m by (auto simp: framed_def)
  note a' = apply_state_transition_Inr [OF a]
  obtain row where row: "d4 = d3\<lparr>db_history := db_history d3 @ [row], db_next_id := Suc (db_next_id d3)\<rparr>"
    "history_target row = Some (''INQUIRY'', i_id i')" "h_event_code row = t_event t"
    "h_from_state row = t_state_before t" "h_to_state row = t_state_after t"
    "h_state_version row = t_version_after t" "h_idempotency_key row = rq_key rq"
    using record_inquiry_action_Inr [OF h] by blast
  obtain new n where new: "d5 = d4\<lparr>db_history := db_history d4 @ new, db_next_id := n\<rparr>" "db_next_id d4 \<le> n"
    "\<forall>g \<in> set new. \<forall>m. history_target g \<noteq> Some (''INQUIRY'', m)"
    using record_visit_part_Inr [OF v] by blast
  have "db_idem d5 = rs @ [r]" using fr a' row(1) new(1) assms(3) by (simp add: frame_def)
  then have c: "d' = d5\<lparr>db_idem := rs @ [r\<lparr>ir_response_status := Some 200, ir_response_body := PDict kvs,
      ir_resource_public_id := Some (resource_public_id i' res), ir_completed_at := Some (rq_now rq)\<rparr>]\<rparr>"
    unfolding d' using assms(4,5) by (intro complete_last) auto
  have hist: "db_history d' = db_history d1 @ row # new"
    using c new(1) row(1) a' fr by (simp add: frame_def)
  have inq: "db_inquiries d' = map (\<lambda>q. if i_id q = i_id i
      then q\<lparr>i_status_code := t_state_after t, i_state_version := t_version_after t\<rparr> else q) (db_inquiries d1)"
    using c new(1) row(1) a' fr by (simp add: frame_def)
  have vis: "db_visits d' = db_visits d2" using c new(1) row(1) a' by simp
  have target: "history_target row = Some (''INQUIRY'', i_id i)" using row(2) a' by simp
  show ?thesis
  proof (intro conjI)
    show "\<exists>f. db_inquiries d' = map (\<lambda>q. if i_id q = i_id i then f q else q) (db_inquiries d1) \<and>
       (\<forall>q. f q = q\<lparr>i_status_code := t_state_after t, i_state_version := t_version_after t\<rparr>)"
      by (rule exI [of _ "\<lambda>q. q\<lparr>i_status_code := t_state_after t, i_state_version := t_version_after t\<rparr>"])
        (simp add: inq)
    show "\<exists>h others. db_history d' = db_history d1 @ h # others \<and>
       history_target h = Some (''INQUIRY'', i_id i) \<and> h_event_code h = t_event t \<and>
       h_from_state h = t_state_before t \<and> h_to_state h = t_state_after t \<and>
       h_state_version h = t_version_after t \<and> h_idempotency_key h = rq_key rq \<and>
       (\<forall>g \<in> set others. \<forall>n. history_target g \<noteq> Some (''INQUIRY'', n))"
      using hist target row(3-7) new(3) by blast
    show "\<exists>kvs res. out = (200, PDict kvs) \<and> kvs \<noteq> [] \<and>
       db_idem d' = rs @ [r\<lparr>ir_response_status := Some 200, ir_response_body := PDict kvs,
         ir_resource_public_id := Some res, ir_completed_at := Some (rq_now rq)\<rparr>]"
      by (rule exI [of _ kvs], rule exI [of _ "resource_public_id i' res"]) (simp add: out c)
    show "\<exists>new. map (\<lambda>v. (v_public_id v, v_inquiry_public_id v)) (db_visits d') =
       map (\<lambda>v. (v_public_id v, v_inquiry_public_id v)) (db_visits d1) @ new"
      using fr vis by (simp add: frame_def)
    show "db_feedback d' = db_feedback d1" using c new(1) row(1) a' fr by (simp add: frame_def)
    show "db_next_id d1 \<le> db_next_id d'" using c new row(1) a' fr by (simp add: frame_def)
  qed
qed

section \<open>Executions\<close>

lemma execute_Inl: "execute dc races sp rq d = (Inl e, d') \<Longrightarrow> d' = add_races races d"
  by (auto simp: execute_def atomically_def split: sum.splits)

lemma execute_Inr:
  assumes "execute dc races sp rq d = (Inr out, d')"
  shows "\<exists>i. lock_assigned_inquiry (rq_target rq) (execution_actor sp rq) d = Some i \<and>
    (replayed (request_scope (rq_actor rq) (sp_operation sp) (rq_key rq))
       (request_hash (sp_path sp) (rq_data rq) (rq_target rq)) races d out d' \<or>
     (\<exists>x t d1. sp_context sp i d = Inr x \<and> plan_action dc rq sp (execution_actor sp rq) i x d = Inr t \<and>
        create_idempotency_record (request_scope (rq_actor rq) (sp_operation sp) (rq_key rq))
          (request_hash (sp_path sp) (rq_data rq) (rq_target rq)) (add_races races d) = Inr d1 \<and>
        apply_action dc rq sp (execution_actor sp rq) i x t d1 = Inr (out, d')))"
proof -
  let ?k = "request_scope (rq_actor rq) (sp_operation sp) (rq_key rq)"
  let ?h = "request_hash (sp_path sp) (rq_data rq) (rq_target rq)"
  have body: "execute_body dc races sp rq d = Inr (out, d')"
    using assms by (auto simp: execute_def atomically_def split: sum.splits)
  then obtain i where i: "lock_assigned_inquiry (rq_target rq) (execution_actor sp rq) d = Some i"
    by (auto simp: execute_body_def Let_def rbind_Inr_iff of_option_iff)
  show ?thesis
  proof (cases "lock_idempotency_scope ?k d")
    case (Some r)
    then have "replay_or_conflict r ?h ''idempotent_replay'' = Inr out" "d' = add_races races d"
      using body i by (auto simp: execute_body_def Let_def rbind_Inr_iff)
    moreover have "r \<in> set (db_idem d)" "idem_scope r = ?k"
      using lock_idempotency_scope_Some [OF Some] by auto
    ultimately show ?thesis using i by (auto simp: replayed_def)
  next
    case None
    then obtain x t res d1 where x: "sp_context sp i d = Inr x"
      "plan_action dc rq sp (execution_actor sp rq) i x d = Inr t"
      and c: "claim_key ?k ?h (add_races races d) = Inr (res, d1)"
      and r: "(case res of Some out \<Rightarrow> Inr (out, d1)
        | None \<Rightarrow> apply_action dc rq sp (execution_actor sp rq) i x t d1) = Inr (out, d')"
      using body i by (auto simp: execute_body_def Let_def rbind_Inr_iff)
    from claim_key_Inr [OF c] show ?thesis
    proof (elim disjE exE conjE)
      fix q o' assume "res = Some o'" "d1 = add_races races d" "q \<in> set (db_idem (add_races races d))"
        "idem_scope q = ?k" "replay_or_conflict q ?h ''idempotent_replay'' = Inr o'"
      then show ?thesis using r i by (auto simp: replayed_def)
    next
      assume "res = None" "create_idempotency_record ?k ?h (add_races races d) = Inr d1"
      then show ?thesis using r i x by auto
    qed
  qed
qed

lemma lock_assigned_inquiry_Some:
  "lock_assigned_inquiry uid actor d = Some i \<Longrightarrow>
     i \<in> set (db_inquiries d) \<and> i_public_id i = uid \<and> i_assigned_user_id i = Some (u_id actor)"
  by (auto simp: lock_assigned_inquiry_def find_Some_iff)

lemma execute_success:
  assumes "framed sp"
    and "execute dc races sp rq d = (Inr out, d')"
  shows "replayed (request_scope (rq_actor rq) (sp_operation sp) (rq_key rq))
       (request_hash (sp_path sp) (rq_data rq) (rq_target rq)) races d out d' \<or>
    (\<exists>i t. fresh_effect (dc_contract dc) (request_scope (rq_actor rq) (sp_operation sp) (rq_key rq))
       (request_hash (sp_path sp) (rq_data rq) (rq_target rq)) races rq d i t out d')"
proof -
  let ?k = "request_scope (rq_actor rq) (sp_operation sp) (rq_key rq)"
  let ?h = "request_hash (sp_path sp) (rq_data rq) (rq_target rq)"
  from execute_Inr [OF assms(2)] obtain i where
    i: "lock_assigned_inquiry (rq_target rq) (execution_actor sp rq) d = Some i" and
    cases: "replayed ?k ?h races d out d' \<or>
     (\<exists>x t d1. sp_context sp i d = Inr x \<and> plan_action dc rq sp (execution_actor sp rq) i x d = Inr t \<and>
        create_idempotency_record ?k ?h (add_races races d) = Inr d1 \<and>
        apply_action dc rq sp (execution_actor sp rq) i x t d1 = Inr (out, d'))"
    by blast
  show ?thesis
  proof (cases "replayed ?k ?h races d out d'")
    case False
    then obtain x t d1 where p: "plan_action dc rq sp (execution_actor sp rq) i x d = Inr t"
      and c: "create_idempotency_record ?k ?h (add_races races d) = Inr d1"
      and a: "apply_action dc rq sp (execution_actor sp rq) i x t d1 = Inr (out, d')"
      using cases by blast
    obtain r where d1: "d1 = (add_races races d)\<lparr>db_idem := (db_idem d @ races) @ [r]\<rparr>"
      and r: "idem_scope r = ?k" "ir_request_hash r = ?h"
      and k: "?k \<notin> idem_scope ` set (db_idem d @ races)"
      using claimed_record [OF c] unfolding add_races_simps by blast
    have idem: "db_idem d1 = (db_idem d @ races) @ [r]" using d1 by simp
    have free: "idem_scope r \<notin> idem_scope ` set (db_idem d @ races)" using r k by simp
    note eff = apply_action_fresh [OF a assms(1) idem r(1) free]
    obtain s v ev where s: "snapshot_init (Some (i_status_code i)) (Some (i_state_version i)) (latest_visit_status i d) = Inr s"
      "resolve (dc_contract dc) s (sp_event sp) = Inr t"
      using plan_action_Inr [OF p] by blast
    then have "s_state s = Some (i_status_code i)" "s_version s = Some (i_state_version i)"
      by (auto simp: snapshot_init_Inr)
    then have "fresh_effect (dc_contract dc) ?k ?h races rq d i t out d'"
      unfolding fresh_effect_def
    proof (intro conjI)
      show "i \<in> set (db_inquiries d)" using lock_assigned_inquiry_Some [OF i] by simp
      show "\<exists>s ev. resolve (dc_contract dc) s ev = Inr t \<and> s_state s = Some (i_status_code i) \<and>
          s_version s = Some (i_state_version i)"
        using s(2) \<open>s_state s = _\<close> \<open>s_version s = _\<close> by blast
      show "?k \<notin> idem_scope ` set (db_idem d @ races)" by (rule k)
      show "db_next_id d \<le> db_next_id d'" using eff d1 by simp
      show "\<forall>n. resolved_rows n d' = resolved_rows n d" using eff d1 by (simp add: resolved_rows_def)
      show "\<exists>f. db_inquiries d' = map (\<lambda>r. if i_id r = i_id i then f r else r) (db_inquiries d) \<and>
         i_id (f i) = i_id i \<and> i_status_code (f i) = t_state_after t \<and> i_state_version (f i) = t_version_after t"
      proof -
        obtain f where "db_inquiries d' = map (\<lambda>q. if i_id q = i_id i then f q else q) (db_inquiries d1)"
          "\<forall>q. f q = q\<lparr>i_status_code := t_state_after t, i_state_version := t_version_after t\<rparr>"
          using eff by blast
        then show ?thesis by (intro exI [of _ f]) (simp add: d1)
      qed
      show "\<exists>h others. db_history d' = db_history d @ h # others \<and>
         history_target h = Some (''INQUIRY'', i_id i) \<and> h_event_code h = t_event t \<and>
         h_from_state h = t_state_before t \<and> h_to_state h = t_state_after t \<and>
         h_state_version h = t_version_after t \<and> h_idempotency_key h = rq_key rq \<and>
         (\<forall>g \<in> set others. \<forall>n. history_target g \<noteq> Some (''INQUIRY'', n))"
        using eff d1 by simp
      show "\<exists>r. db_idem d' = db_idem d @ races @ [r] \<and> idem_scope r = ?k \<and> ir_request_hash r = ?h \<and>
         ir_response_status r = Some (fst out) \<and> ir_response_body r = snd out \<and>
         ir_completed_at r = Some (rq_now rq)"
      proof -
        obtain kvs res where "out = (200, PDict kvs)" "db_idem d' = (db_idem d @ races) @
            [r\<lparr>ir_response_status := Some 200, ir_response_body := PDict kvs,
             ir_resource_public_id := Some res, ir_completed_at := Some (rq_now rq)\<rparr>]"
          using eff by blast
        then show ?thesis using r by (auto simp: idem_scope_def)
      qed
    qed
    then show ?thesis by blast
  qed simp
qed

lemma execute_visit_ids:
  assumes "framed sp" and "execute dc races sp rq d = (Inr out, d')"
  shows "\<exists>new. map (\<lambda>v. (v_public_id v, v_inquiry_public_id v)) (db_visits d') =
    map (\<lambda>v. (v_public_id v, v_inquiry_public_id v)) (db_visits d) @ new"
proof -
  let ?k = "request_scope (rq_actor rq) (sp_operation sp) (rq_key rq)"
  from execute_Inr [OF assms(2)] consider "db_visits d' = db_visits d"
    | i x t d1 hash where "create_idempotency_record ?k hash (add_races races d) = Inr d1"
      "apply_action dc rq sp (execution_actor sp rq) i x t d1 = Inr (out, d')"
    by (auto simp: replayed_def)
  then show ?thesis
  proof cases
    case 2
    obtain r where r: "d1 = (add_races races d)\<lparr>db_idem := (db_idem d @ races) @ [r]\<rparr>"
      "idem_scope r = ?k" "?k \<notin> idem_scope ` set (db_idem d @ races)"
      using claimed_record [OF 2(1)] unfolding add_races_simps by blast
    then have "db_visits d1 = db_visits d" by simp
    then show ?thesis
      using apply_action_fresh [OF 2(2) assms(1), of "db_idem d @ races" r] r by simp
  qed simp
qed

section \<open>Known keys\<close>

lemma execute_known_key:
  assumes "lock_assigned_inquiry (rq_target rq) (execution_actor sp rq) d = Some i"
    and "lock_idempotency_scope (request_scope (rq_actor rq) (sp_operation sp) (rq_key rq)) d = Some r"
  shows "execute dc races sp rq d =
    (replay_or_conflict r (request_hash (sp_path sp) (rq_data rq) (rq_target rq)) ''idempotent_replay'',
     add_races races d)"
proof -
  let ?res = "replay_or_conflict r (request_hash (sp_path sp) (rq_data rq) (rq_target rq)) ''idempotent_replay''"
  have body: "execute_body dc races sp rq d = rbind ?res (\<lambda>out. Inr (out, add_races races d))"
    unfolding execute_body_def Let_def assms of_option.simps rbind.simps option.case ..
  show ?thesis by (cases ?res) (simp_all add: execute_def atomically_def body)
qed

lemma find_map_preserved:
  assumes same: "\<And>y. P (g y) = P y" and "find P xs = Some x"
  shows "find P (map g xs) = Some (g x)"
  using assms(2)
proof (induction xs)
  case (Cons y ys)
  then show ?case by (cases "P y") (simp_all add: same)
qed simp

lemma lock_assigned_after:
  assumes "lock_assigned_inquiry uid actor d = Some i"
    and "db_inquiries d' = map (\<lambda>q. if i_id q = n then q\<lparr>i_status_code := st, i_state_version := v\<rparr> else q)
      (db_inquiries d)"
  shows "\<exists>j. lock_assigned_inquiry uid actor d' = Some j"
  using assms(1) unfolding lock_assigned_inquiry_def assms(2)
  by (intro exI) (erule find_map_preserved [rotated], simp)

text \<open>
  A retry with the same key and body after a success returns the stored response, marked as a replay,
  and writes nothing.
\<close>

lemma execute_retry:
  assumes "framed sp" and "distinct (map idem_scope (db_idem d))" and "races_ok races d"
    and "execute dc races sp rq d = (Inr (st, PDict kvs), d')"
  shows "execute dc races' sp rq d' =
    (Inr (st, PDict (dict_set kvs ''idempotent_replay'' (PBool True))), add_races races' d')"
proof -
  let ?k = "request_scope (rq_actor rq) (sp_operation sp) (rq_key rq)"
  let ?h = "request_hash (sp_path sp) (rq_data rq) (rq_target rq)"
  obtain i where i: "lock_assigned_inquiry (rq_target rq) (execution_actor sp rq) d = Some i"
    and cases: "replayed ?k ?h races d (st, PDict kvs) d' \<or>
     (\<exists>x t d1. sp_context sp i d = Inr x \<and> plan_action dc rq sp (execution_actor sp rq) i x d = Inr t \<and>
        create_idempotency_record ?k ?h (add_races races d) = Inr d1 \<and>
        apply_action dc rq sp (execution_actor sp rq) i x t d1 = Inr ((st, PDict kvs), d'))"
    using execute_Inr [OF assms(4)] by blast
  have "\<exists>j r. lock_assigned_inquiry (rq_target rq) (execution_actor sp rq) d' = Some j \<and>
      lock_idempotency_scope ?k d' = Some r \<and>
      replay_or_conflict r ?h ''idempotent_replay'' =
        Inr (st, PDict (dict_set kvs ''idempotent_replay'' (PBool True)))"
  proof (cases "replayed ?k ?h races d (st, PDict kvs) d'")
    case True
    then obtain r where r: "r \<in> set (db_idem d')" "idem_scope r = ?k" "d' = add_races races d"
      "replay_or_conflict r ?h ''idempotent_replay'' = Inr (st, PDict kvs)"
      by (auto simp: replayed_def)
    have "distinct (map idem_scope (db_idem d'))" using r(3) assms(3) by (simp add: races_ok_def)
    then have "lock_idempotency_scope ?k d' = Some r"
      using r(1,2) by (rule lock_idempotency_scope_unique)
    moreover have "lock_assigned_inquiry (rq_target rq) (execution_actor sp rq) d' = Some i"
      using i r(3) by (simp add: lock_assigned_inquiry_def)
    ultimately show ?thesis using r(4) by (auto simp: replay_Inr dict_set_idem)
  next
    case False
    then obtain x t d1 where c: "create_idempotency_record ?k ?h (add_races races d) = Inr d1"
      and a: "apply_action dc rq sp (execution_actor sp rq) i x t d1 = Inr ((st, PDict kvs), d')"
      using cases by blast
    obtain r where d1: "d1 = (add_races races d)\<lparr>db_idem := (db_idem d @ races) @ [r]\<rparr>"
      and r: "idem_scope r = ?k" "ir_request_hash r = ?h"
      and k: "?k \<notin> idem_scope ` set (db_idem d @ races)"
      using claimed_record [OF c] unfolding add_races_simps by blast
    have idem: "db_idem d1 = (db_idem d @ races) @ [r]" using d1 by simp
    have free: "idem_scope r \<notin> idem_scope ` set (db_idem d @ races)" using r k by simp
    note eff = apply_action_fresh [OF a assms(1) idem r(1) free]
    obtain res where kvs: "st = 200" "kvs \<noteq> []" and idem': "db_idem d' = (db_idem d @ races) @
        [r\<lparr>ir_response_status := Some 200, ir_response_body := PDict kvs,
           ir_resource_public_id := Some res, ir_completed_at := Some (rq_now rq)\<rparr>]" (is "_ = _ @ [?r]")
      using eff by blast
    have scope: "idem_scope ?r = ?k" using r(1) by (simp add: idem_scope_def)
    have "distinct (map idem_scope (db_idem d'))"
      using idem' assms(3) k scope by (auto simp: races_ok_def)
    then have "lock_idempotency_scope ?k d' = Some ?r"
      using idem' scope by (intro lock_idempotency_scope_unique) simp_all
    moreover have "replay_or_conflict ?r ?h ''idempotent_replay'' =
        Inr (st, PDict (dict_set kvs ''idempotent_replay'' (PBool True)))"
      using r(2) kvs by (auto simp: replay_Inr)
    moreover have "\<exists>j. lock_assigned_inquiry (rq_target rq) (execution_actor sp rq) d' = Some j"
    proof -
      obtain f where "db_inquiries d' = map (\<lambda>q. if i_id q = i_id i then f q else q) (db_inquiries d1)"
        "\<forall>q. f q = q\<lparr>i_status_code := t_state_after t, i_state_version := t_version_after t\<rparr>"
        using eff by blast
      then have "db_inquiries d' = map (\<lambda>q. if i_id q = i_id i
          then q\<lparr>i_status_code := t_state_after t, i_state_version := t_version_after t\<rparr> else q) (db_inquiries d)"
        using d1 by simp
      then show ?thesis by (rule lock_assigned_after [OF i])
    qed
    ultimately show ?thesis by blast
  qed
  then show ?thesis using execute_known_key by metis
qed

section \<open>Refused requests\<close>

lemma missing_required_guard_None:
  assumes "missing_required_guard e t = None"
  shows "ev_requires_version e \<Longrightarrow> ''G-STATE-VERSION'' \<in> set (t_guard_refs t)"
    and "ev_requires_key e \<Longrightarrow> ''G-IDEMPOTENCY-KEY'' \<in> set (t_guard_refs t)"
  using assms by (auto simp: missing_required_guard_def find_None_iff split: if_splits)

text \<open>An allowed event that requires a version was given the version of the snapshot: the optimistic lock.\<close>

lemma evaluated_version:
  assumes "resolve c s event = Inr t" and "evaluate c t s x = Inr ev" and "allowed ev"
    and "event_entry_of c event = Some e" and "ev_requires_version e"
  shows "x_requested_version x \<noteq> None" "x_requested_version x = s_version s"
proof -
  have "t_event t = event" using assms(1) by (auto simp: resolve_Inr)
  then have checks: "all_checks c e t s x"
    using evaluate_allowed_iff [OF assms(2)] assms(3,4) by auto
  then have "''G-STATE-VERSION'' \<in> set (t_guard_refs t)"
    using missing_required_guard_None(1) assms(5) by (auto simp: all_checks_def)
  then have "fst (evaluate_guard ''G-STATE-VERSION'' e s x)"
    using checks by (auto simp: all_checks_def)
  then have "\<exists>v. x_requested_version x = Some v \<and> s_version s = Some v"
    using assms(5) by (cases "s_version s") (auto simp: evaluate_guard_def CORE_ROLE_GUARDS_def)
  then show "x_requested_version x \<noteq> None" "x_requested_version x = s_version s" by auto
qed

lemma plan_action_version:
  assumes "plan_action dc rq sp actor i x d = Inr t"
    and "event_entry_of (dc_contract dc) (sp_event sp) = Some e" and "ev_requires_version e"
  shows "requested_version (rq_data rq) = Inr (Some (i_state_version i))"
proof -
  let ?x = "\<lambda>v. \<lparr>x_actor_role = Some (u_role_code actor), x_authenticated = u_authenticated actor,
       x_correlation_id = Some (uuid_text (rq_correlation rq)),
       x_idempotency_key = Some (rq_key rq), x_requested_version = v, x_trusted_internal = False,
       x_domain_results = dict_of ((''G-ASSIGNED-CONSULTANT'', True) # sp_domain sp i x)\<rparr>"
  obtain s v ev where s: "snapshot_init (Some (i_status_code i)) (Some (i_state_version i)) (latest_visit_status i d) = Inr s"
    "resolve (dc_contract dc) s (sp_event sp) = Inr t" "requested_version (rq_data rq) = Inr v"
    "evaluate (dc_contract dc) t s (?x v) = Inr ev" "allowed ev"
    using plan_action_Inr [OF assms(1)] by blast
  from evaluated_version [OF s(2,4,5) assms(2,3)] have "v = s_version s" by simp
  then show ?thesis using s(1,3) by (auto simp: snapshot_init_Inr)
qed

end
