(* ===== verification/Tally.thy ===== *)
theory Tally
  imports Ledger
begin

text \<open>
  The ledger of the whole backend. Besides the fresh effect of \<open>Ledger\<close>, a request may create an
  inquiry, or confirm a resolution, which raises the version of the inquiry and stores the
  confirmation but writes no history row. The version of an inquiry therefore counts its history rows
  and its stored confirmations; without a confirmation its trail is gapless.
\<close>

section \<open>Counting rows and confirmations\<close>

text \<open>The trail of an inquiry with \<open>m\<close> stored confirmations.\<close>

definition tally_ok :: "inquiry_row \<Rightarrow> history_row list \<Rightarrow> nat \<Rightarrow> bool" where
  "tally_ok i hs m =
     (hs \<noteq> [] \<and> sorted_wrt (<) (map h_state_version hs) \<and>
      (\<forall>h \<in> set hs. 1 \<le> h_state_version h \<and> h_state_version h \<le> i_state_version i) \<and>
      i_state_version i = int (length hs + m) \<and> h_to_state (last hs) = i_status_code i \<and>
      chained None hs)"

definition tallied :: "db \<Rightarrow> bool" where
  "tallied d =
     (distinct (map i_id (db_inquiries d)) \<and> distinct (map idem_scope (db_idem d)) \<and>
      (\<forall>i \<in> set (db_inquiries d). i_id i < db_next_id d \<and>
         tally_ok i (trail (i_id i) d) (length (resolved_rows (i_id i) d))) \<and>
      (\<forall>n \<ge> db_next_id d. trail n d = [] \<and> resolved_rows n d = []))"

lemma tally_ok_append:
  assumes "tally_ok i hs m" and "h_state_version h = i_state_version i + 1"
    and "h_from_state h = Some (i_status_code i)"
    and "i_state_version j = h_state_version h" and "i_status_code j = h_to_state h"
  shows "tally_ok j (hs @ [h]) m"
proof -
  have "\<forall>g \<in> set hs. h_state_version g < h_state_version h"
    using assms(1,2) by (fastforce simp: tally_ok_def)
  then show ?thesis using assms by (fastforce simp: tally_ok_def chained_append sorted_wrt_append)
qed

lemma tally_ok_confirm:
  assumes "tally_ok i hs m" and "i_state_version j = i_state_version i + 1"
    and "i_status_code j = i_status_code i"
  shows "tally_ok j hs (Suc m)"
  using assms by (fastforce simp: tally_ok_def)

lemma tally_ok_new:
  assumes "h_state_version h = 1" and "h_from_state h = None" and "i_state_version i = 1"
    and "i_status_code i = h_to_state h"
  shows "tally_ok i [h] 0"
  using assms by (simp add: tally_ok_def)

text \<open>Without a confirmation the versions of the trail are 1, 2, ... without a gap.\<close>

lemma tally_ok_gapless:
  assumes "tally_ok i hs 0"
  shows "trail_ok i hs"
proof -
  let ?n = "length hs" and ?vs = "map h_state_version hs"
  have "sorted_wrt (<) ?vs" using assms by (simp add: tally_ok_def)
  then have vs: "sorted ?vs" "distinct ?vs" by (simp_all add: strict_sorted_iff)
  have sub: "set ?vs \<subseteq> {1..int ?n}" using assms by (auto simp: tally_ok_def)
  have "card (set ?vs) = ?n" using vs(2) by (metis distinct_card length_map)
  then have "set ?vs = {1..int ?n}" using sub by (intro card_subset_eq) auto
  moreover have "set (map int [1..<Suc ?n]) = {1..int ?n}"
  proof -
    have "set (map int [1..<Suc ?n]) = int ` {1..?n}" by auto
    also have "\<dots> = {1..int ?n}" by (simp add: image_int_atLeastAtMost)
    finally show ?thesis .
  qed
  moreover have "sorted (map int [1..<Suc ?n])" "distinct (map int [1..<Suc ?n])"
    by (simp_all add: sorted_map distinct_map sorted_wrt_append del: upt_Suc)
  ultimately have "?vs = map int [1..<Suc ?n]"
    using vs by (metis sorted_distinct_set_unique)
  then show ?thesis using assms by (simp add: tally_ok_def trail_ok_def)
qed

text \<open>With a confirmation there is a gap.\<close>

lemma tally_ok_gap:
  assumes "tally_ok i hs m" and "trail_ok i hs"
  shows "m = 0"
  using assms by (simp add: tally_ok_def trail_ok_def)

lemma tallied_races: "tallied d \<Longrightarrow> races_ok races d \<Longrightarrow> tallied (add_races races d)"
  by (simp add: tallied_def races_ok_def trail_def resolved_rows_def)

section \<open>Creations and silent effects\<close>

definition creation_effect ::
  "contract \<Rightarrow> nat \<times> string \<times> string \<Rightarrow> string \<Rightarrow> idem_row list \<Rightarrow> request \<Rightarrow> db \<Rightarrow>
     inquiry_row \<Rightarrow> outcome \<Rightarrow> db \<Rightarrow> bool" where
  "creation_effect c k hash races rq d i out d' =
     (db_inquiries d' = db_inquiries d @ [i] \<and> i_id i = db_next_id d \<and> i_state_version i = 1 \<and>
      (\<exists>h others. db_history d' = db_history d @ others @ [h] \<and>
         history_target h = Some (''INQUIRY'', i_id i) \<and> h_from_state h = None \<and>
         h_to_state h = i_status_code i \<and> h_state_version h = 1 \<and> h_idempotency_key h = rq_key rq \<and>
         (\<exists>r \<in> set (c_rules c). r_event r = h_event_code h \<and> r_from r = None \<and> r_to r = h_to_state h) \<and>
         (\<forall>g \<in> set others. \<forall>n. history_target g \<noteq> Some (''INQUIRY'', n))) \<and>
      completed_record k hash races rq d out d' \<and> db_next_id d < db_next_id d' \<and> (\<forall>n. resolved_rows n d' = resolved_rows n d))"

definition silent_effect ::
  "contract \<Rightarrow> nat \<times> string \<times> string \<Rightarrow> string \<Rightarrow> idem_row list \<Rightarrow> request \<Rightarrow> db \<Rightarrow>
     inquiry_row \<Rightarrow> transition \<Rightarrow> outcome \<Rightarrow> db \<Rightarrow> bool" where
  "silent_effect c k hash races rq d i t out d' =
     (i \<in> set (db_inquiries d) \<and>
      (\<exists>s ev. resolve c s ev = Inr t \<and> s_state s = Some (i_status_code i) \<and>
         s_version s = Some (i_state_version i)) \<and> t_state_after t = i_status_code i \<and>
      (\<exists>f. db_inquiries d' = map (\<lambda>r. if i_id r = i_id i then f r else r) (db_inquiries d) \<and>
         i_id (f i) = i_id i \<and> i_status_code (f i) = t_state_after t \<and>
         i_state_version (f i) = t_version_after t) \<and>
      db_history d' = db_history d \<and>
      completed_record k hash races rq d out d' \<and> db_next_id d \<le> db_next_id d' \<and>
      (\<exists>g. \<forall>n. resolved_rows n d' = resolved_rows n d @ (if n = i_id i then [g] else [])))"

text \<open>What any of the three effects does to the ledger, one step of the abstract counts.\<close>

lemma tallied_step:
  assumes d: "tallied d" "races_ok races d" and i: "i \<in> set (db_inquiries d)"
    and rows: "db_inquiries d' = map (\<lambda>r. if i_id r = i_id i then f r else r) (db_inquiries d)"
      "i_id (f i) = i_id i"
    and next_id: "db_next_id d \<le> db_next_id d'"
    and idem: "db_idem d' = db_idem d @ races @ [r]" "idem_scope r \<notin> idem_scope ` set (db_idem d @ races)"
    and trails: "\<And>n. trail n d' = trail n d @ (if n = i_id i then hs else [])"
    and confirmed: "\<And>n. resolved_rows n d' = resolved_rows n d @ (if n = i_id i then gs else [])"
    and here: "tally_ok (f i) (trail (i_id i) d @ hs) (length (resolved_rows (i_id i) d) + length gs)"
  shows "tallied d'"
proof -
  have dist: "distinct (map i_id (db_inquiries d))" using d(1) by (simp add: tallied_def)
  have same: "q = i" if "q \<in> set (db_inquiries d)" "i_id q = i_id i" for q
    using dist i that by (metis distinct_map inj_onD)
  have ids: "map i_id (db_inquiries d') = map i_id (db_inquiries d)"
    using rows same by auto
  have below: "i_id i < db_next_id d" using d(1) i by (simp add: tallied_def)
  have "i_id j < db_next_id d' \<and> tally_ok j (trail (i_id j) d') (length (resolved_rows (i_id j) d'))"
    if j: "j \<in> set (db_inquiries d')" for j
  proof -
    obtain q where q: "q \<in> set (db_inquiries d)" "j = (if i_id q = i_id i then f q else q)"
      using j rows(1) by auto
    have qt: "i_id q < db_next_id d" "tally_ok q (trail (i_id q) d) (length (resolved_rows (i_id q) d))"
      using d(1) q(1) by (simp_all add: tallied_def)
    show ?thesis
    proof (cases "i_id q = i_id i")
      case True
      then have "j = f i" using same q by auto
      then show ?thesis using here rows(2) qt(1) True next_id by (simp add: trails confirmed)
    next
      case False
      then show ?thesis using q(2) qt next_id by (simp add: trails confirmed)
    qed
  qed
  moreover have "distinct (map idem_scope (db_idem d'))"
    using d(2) idem by (auto simp: races_ok_def)
  moreover have "trail n d' = [] \<and> resolved_rows n d' = []" if "db_next_id d' \<le> n" for n
    using that next_id below d(1) by (auto simp: tallied_def trails confirmed)
  ultimately show ?thesis using dist ids by (simp add: tallied_def)
qed

lemma fresh_effect_tally:
  assumes "tallied d" and "races_ok races d" and "fresh_effect c k hash races rq d i t out d'"
  shows "tallied d'"
proof -
  note e = assms(3) [unfolded fresh_effect_def]
  obtain f where f: "db_inquiries d' = map (\<lambda>r. if i_id r = i_id i then f r else r) (db_inquiries d)"
    "i_id (f i) = i_id i" "i_status_code (f i) = t_state_after t" "i_state_version (f i) = t_version_after t"
    using e by blast
  obtain r where r: "db_idem d' = db_idem d @ races @ [r]" "idem_scope r \<notin> idem_scope ` set (db_idem d @ races)"
    using e by blast
  have i: "i \<in> set (db_inquiries d)" and n: "db_next_id d \<le> db_next_id d'" using e by blast+
  have c: "resolved_rows n d' = resolved_rows n d @ (if n = i_id i then [] else [])" for n using e by simp
  obtain h where h: "\<And>n. trail n d' = trail n d @ (if n = i_id i then [h] else [])"
    and hs: "h_from_state h = t_state_before t" "h_to_state h = t_state_after t"
      "h_state_version h = t_version_after t"
    using fresh_effect_trails [OF assms(3)] by blast
  have "tally_ok i (trail (i_id i) d) (length (resolved_rows (i_id i) d))"
    using assms(1) i by (simp add: tallied_def)
  then have "tally_ok (f i) (trail (i_id i) d @ [h]) (length (resolved_rows (i_id i) d))"
    using hs f fresh_effect_version [OF assms(3)] by (intro tally_ok_append) auto
  then show ?thesis
    by (intro tallied_step [OF assms(1,2) i f(1,2) n r h c]) simp
qed

lemma silent_effect_tally:
  assumes "tallied d" and "races_ok races d" and e: "silent_effect c k hash races rq d i t out d'"
  shows "tallied d'"
proof -
  note e' = e [unfolded silent_effect_def]
  have same: "t_state_after t = i_status_code i" using e' by blast
  obtain f where f: "db_inquiries d' = map (\<lambda>r. if i_id r = i_id i then f r else r) (db_inquiries d)"
    "i_id (f i) = i_id i" "i_status_code (f i) = t_state_after t" "i_state_version (f i) = t_version_after t"
    using e' by blast
  obtain r where r: "db_idem d' = db_idem d @ races @ [r]" "idem_scope r \<notin> idem_scope ` set (db_idem d @ races)"
    using e' unfolding completed_record_def by blast
  obtain g where c: "\<And>n. resolved_rows n d' = resolved_rows n d @ (if n = i_id i then [g] else [])"
    using e' by blast
  have i: "i \<in> set (db_inquiries d)" and n: "db_next_id d \<le> db_next_id d'" using e' by blast+
  have v: "t_version_after t = i_state_version i + 1"
    using e by (auto simp: silent_effect_def resolve_Inr next_version_Inr)
  have h: "\<And>n. trail n d' = trail n d @ (if n = i_id i then [] else [])"
    using e by (simp add: silent_effect_def trail_def)
  have "tally_ok i (trail (i_id i) d) (length (resolved_rows (i_id i) d))"
    using assms(1) i by (simp add: tallied_def)
  then have "tally_ok (f i) (trail (i_id i) d @ []) (length (resolved_rows (i_id i) d) + length [g])"
    using tally_ok_confirm [of i _ _ "f i"] f v same by simp
  then show ?thesis by (rule tallied_step [OF assms(1,2) i f(1,2) n r h c])
qed

lemma creation_effect_trail:
  assumes "creation_effect c k hash races rq d i out d'"
  shows "\<exists>h. (\<forall>n. trail n d' = trail n d @ (if n = i_id i then [h] else [])) \<and> h_from_state h = None \<and>
    h_to_state h = i_status_code i \<and> h_state_version h = 1 \<and> h_idempotency_key h = rq_key rq"
proof -
  obtain h others where h: "db_history d' = db_history d @ others @ [h]"
    "history_target h = Some (''INQUIRY'', i_id i)" "h_from_state h = None" "h_to_state h = i_status_code i"
    "h_state_version h = 1" "h_idempotency_key h = rq_key rq"
    "\<forall>g \<in> set others. \<forall>n. history_target g \<noteq> Some (''INQUIRY'', n)"
    using assms unfolding creation_effect_def by blast
  then have "filter (\<lambda>h. history_target h = Some (''INQUIRY'', n)) others = []" for n
    by (auto simp: filter_empty_conv)
  then have "trail n d' = trail n d @ (if n = i_id i then [h] else [])" for n
    using h(1,2) by (cases "n = i_id i") (auto simp: trail_def)
  then show ?thesis using h by blast
qed

lemma creation_effect_tally:
  assumes d: "tallied d" and "races_ok races d" and e: "creation_effect c k hash races rq d i out d'"
  shows "tallied d'"
proof -
  note e' = e [unfolded creation_effect_def]
  have i: "db_inquiries d' = db_inquiries d @ [i]" "i_id i = db_next_id d" "i_state_version i = 1"
    and n: "db_next_id d < db_next_id d'" using e' by blast+
  obtain r where r: "db_idem d' = db_idem d @ races @ [r]" "idem_scope r \<notin> idem_scope ` set (db_idem d @ races)"
    using e' unfolding completed_record_def by blast
  have c: "resolved_rows n d' = resolved_rows n d" for n using e' by blast
  obtain h where h: "\<And>n. trail n d' = trail n d @ (if n = i_id i then [h] else [])" "h_from_state h = None"
    "h_to_state h = i_status_code i" "h_state_version h = 1"
    using creation_effect_trail [OF e] by auto
  have new: "trail (i_id i) d = []" "resolved_rows (i_id i) d = []"
    using d i(2) by (simp_all add: tallied_def)
  have "tally_ok i (trail (i_id i) d') (length (resolved_rows (i_id i) d'))"
    using h i(3) tally_ok_new [of h i] by (simp add: new c)
  moreover have "i_id q < db_next_id d'" "i_id q \<noteq> i_id i"
      "tally_ok q (trail (i_id q) d') (length (resolved_rows (i_id q) d'))"
    if "q \<in> set (db_inquiries d)" for q
    using that d n i(2) by (fastforce simp: tallied_def h(1) c)+
  moreover have "trail m d' = [] \<and> resolved_rows m d' = []" if "db_next_id d' \<le> m" for m
    using that d n i(2) by (simp add: tallied_def h(1) c)
  moreover have "distinct (map i_id (db_inquiries d'))"
    using d i(1,2) by (auto simp: tallied_def)
  moreover have "distinct (map idem_scope (db_idem d'))"
    using assms(2) r by (auto simp: races_ok_def)
  ultimately show ?thesis using i(1,2) n by (simp add: tallied_def)
qed

lemma creation_effect_lawful:
  assumes "lawful c d" and "creation_effect c k hash races rq d i out d'"
  shows "lawful c d'"
proof -
  obtain h others r where h: "db_history d' = db_history d @ others @ [h]" "h_from_state h = None"
    "\<forall>g \<in> set others. \<forall>n. history_target g \<noteq> Some (''INQUIRY'', n)"
    "r \<in> set (c_rules c)" "r_event r = h_event_code h" "r_from r = None" "r_to r = h_to_state h"
    using assms(2) unfolding creation_effect_def by blast
  then have "lawful_row c h" "\<forall>g \<in> set others. lawful_row c g" by (auto simp: lawful_row_def)
  then show ?thesis using assms(1) h(1) by (auto simp: lawful_def)
qed

lemma silent_effect_lawful: "lawful c d \<Longrightarrow> silent_effect c k hash races rq d i t out d' \<Longrightarrow> lawful c d'"
  by (simp add: lawful_def silent_effect_def)

end
