(* ===== verification/Contracts.thy ===== *)
theory Contracts
  imports Tally
begin

text \<open>
  The contracts of the operations as locales. A keyed operation changes the database only under a
  claimed key; a tallied operation has one of the three effects on the ledger; a ledger operation has
  the fresh effect alone. Each contract gives the weaker one by \<open>sublocale\<close>, and every service of the
  backend is an interpretation of one of them.
\<close>

section \<open>Keys\<close>

locale keyed_operation =
  fixes perform_op :: "idem_row list \<Rightarrow> request \<Rightarrow> db \<Rightarrow> (app_error + outcome) \<times> db"
    and scope :: "request \<Rightarrow> nat \<times> string \<times> string"
    and hash_of :: "request \<Rightarrow> db \<Rightarrow> string"
  assumes failure_keeps: "perform_op races rq d = (Inl e, d') \<Longrightarrow> d' = add_races races d"
    and success_keyed: "perform_op races rq d = (Inr out, d') \<Longrightarrow>
      replayed (scope rq) (hash_of rq d) races d out d' \<or>
      completed_record (scope rq) (hash_of rq d) races rq d out d'"
begin

text \<open>The key of a successful request is answered by a completed record with the same hash.\<close>

lemma success_recorded:
  assumes "perform_op races rq d = (Inr out, d')"
  shows "\<exists>r \<in> set (db_idem d'). idem_scope r = scope rq \<and> ir_request_hash r = hash_of rq d \<and>
    ir_response_status r \<noteq> None \<and> ir_completed_at r \<noteq> None"
  using success_keyed [OF assms]
proof
  assume "replayed (scope rq) (hash_of rq d) races d out d'"
  then obtain r where "r \<in> set (db_idem d')" "idem_scope r = scope rq"
    "replay_or_conflict r (hash_of rq d) ''idempotent_replay'' = Inr out"
    by (auto simp: replayed_def)
  then show ?thesis by (intro bexI [of _ r]) (auto simp: replay_Inr)
qed (fastforce simp: completed_record_def)

text \<open>Keys are never forgotten, and a write needs a key the database has not seen.\<close>

lemma keys_grow:
  assumes "perform_op races rq d = (res, d')"
  shows "idem_scope ` set (db_idem d) \<subseteq> idem_scope ` set (db_idem d')"
proof (cases res)
  case (Inl e)
  then show ?thesis using failure_keeps assms by fastforce
next
  case (Inr out)
  then show ?thesis using success_keyed assms by (fastforce simp: replayed_def completed_record_def)
qed

lemma write_claims_key:
  assumes "perform_op races rq d = (res, d')" and "d' \<noteq> add_races races d"
  shows "scope rq \<notin> idem_scope ` set (db_idem d)" "scope rq \<in> idem_scope ` set (db_idem d')"
proof -
  obtain out where "res = Inr out"
    using assms failure_keeps [of races rq d] by (cases res) auto
  then have "completed_record (scope rq) (hash_of rq d) races rq d out d'"
    using assms success_keyed [of races rq d out d'] by (auto simp: replayed_def)
  then show "scope rq \<notin> idem_scope ` set (db_idem d)" "scope rq \<in> idem_scope ` set (db_idem d')"
    by (auto simp: completed_record_def)
qed

end

section \<open>The ledger of the backend\<close>

locale tallied_operation = keyed_operation perform_op scope hash_of
  for perform_op :: "idem_row list \<Rightarrow> request \<Rightarrow> db \<Rightarrow> (app_error + outcome) \<times> db"
    and scope :: "request \<Rightarrow> nat \<times> string \<times> string"
    and hash_of :: "request \<Rightarrow> db \<Rightarrow> string" +
  fixes c :: contract
  assumes tallied_effect: "perform_op races rq d = (Inr out, d') \<Longrightarrow>
      replayed (scope rq) (hash_of rq d) races d out d' \<or>
      (\<exists>i t. fresh_effect c (scope rq) (hash_of rq d) races rq d i t out d') \<or>
      (\<exists>i. creation_effect c (scope rq) (hash_of rq d) races rq d i out d') \<or>
      (\<exists>i t. silent_effect c (scope rq) (hash_of rq d) races rq d i t out d')"
begin

lemma keeps_tally:
  assumes "tallied d" and "races_ok races d" and "perform_op races rq d = (res, d')"
  shows "tallied d'"
proof (cases res)
  case (Inl e)
  then show ?thesis using failure_keeps assms tallied_races by blast
next
  case (Inr out)
  show ?thesis
    using tallied_effect [OF assms(3) [unfolded Inr]] assms(1,2)
    by (elim disjE exE) (auto simp: replayed_def intro: tallied_races fresh_effect_tally
        creation_effect_tally silent_effect_tally)
qed

lemma keeps_lawful:
  assumes "lawful c d" and "perform_op races rq d = (res, d')"
  shows "lawful c d'"
proof (cases res)
  case (Inl e)
  then show ?thesis using failure_keeps assms by fastforce
next
  case (Inr out)
  show ?thesis
    using tallied_effect [OF assms(2) [unfolded Inr]] assms(1)
    by (elim disjE exE) (auto simp: replayed_def intro: fresh_effect_lawful creation_effect_lawful
        silent_effect_lawful)
qed

end

section \<open>Gapless ledgers\<close>

locale ledger_operation =
  fixes perform_op :: "idem_row list \<Rightarrow> request \<Rightarrow> db \<Rightarrow> (app_error + outcome) \<times> db"
    and c :: contract
    and scope :: "request \<Rightarrow> nat \<times> string \<times> string"
    and hash_of :: "request \<Rightarrow> db \<Rightarrow> string"
  assumes failure_keeps: "perform_op races rq d = (Inl e, d') \<Longrightarrow> d' = add_races races d"
    and success_effect: "perform_op races rq d = (Inr out, d') \<Longrightarrow>
      replayed (scope rq) (hash_of rq d) races d out d' \<or>
      (\<exists>i t. fresh_effect c (scope rq) (hash_of rq d) races rq d i t out d')"

sublocale ledger_operation \<subseteq> tallied: tallied_operation perform_op scope hash_of c
proof unfold_locales
  fix races rq d e d' assume "perform_op races rq d = (Inl e, d')"
  then show "d' = add_races races d" by (rule failure_keeps)
next
  fix races rq d out d' assume "perform_op races rq d = (Inr out, d')"
  from success_effect [OF this] show "replayed (scope rq) (hash_of rq d) races d out d' \<or>
      completed_record (scope rq) (hash_of rq d) races rq d out d'"
    by (auto intro: fresh_effect_completed)
next
  fix races rq d out d' assume "perform_op races rq d = (Inr out, d')"
  from success_effect [OF this] show "replayed (scope rq) (hash_of rq d) races d out d' \<or>
      (\<exists>i t. fresh_effect c (scope rq) (hash_of rq d) races rq d i t out d') \<or>
      (\<exists>i. creation_effect c (scope rq) (hash_of rq d) races rq d i out d') \<or>
      (\<exists>i t. silent_effect c (scope rq) (hash_of rq d) races rq d i t out d')"
    by blast
qed

context ledger_operation
begin

lemma keeps_ledger:
  assumes "ledger_ok d" and "races_ok races d" and "perform_op races rq d = (res, d')"
  shows "ledger_ok d'"
proof (cases res)
  case (Inl e)
  then show ?thesis using failure_keeps assms ledger_ok_races by blast
next
  case (Inr out)
  show ?thesis
    using success_effect [OF assms(3) [unfolded Inr]] assms(1,2)
    by (elim disjE exE) (auto simp: replayed_def intro: ledger_ok_races fresh_effect_ledger)
qed

lemma effect_claims_key:
  assumes "perform_op races rq d = (res, d')" and "db_history d' \<noteq> db_history d"
  shows "scope rq \<notin> idem_scope ` set (db_idem d)" "scope rq \<in> idem_scope ` set (db_idem d')"
proof -
  have "d' \<noteq> add_races races d" using assms(2) by auto
  from tallied.write_claims_key [OF assms(1) this]
  show "scope rq \<notin> idem_scope ` set (db_idem d)" "scope rq \<in> idem_scope ` set (db_idem d')" by simp_all
qed

lemma history_grows:
  assumes "perform_op races rq d = (res, d')"
  shows "\<exists>new. trail n d' = trail n d @ new \<and> length new \<le> 1"
proof (cases res)
  case (Inl e)
  then have "d' = add_races races d" using failure_keeps assms by blast
  then show ?thesis by (simp add: trail_def)
next
  case (Inr out)
  with assms success_effect consider "replayed (scope rq) (hash_of rq d) races d out d'"
    | i t where "fresh_effect c (scope rq) (hash_of rq d) races rq d i t out d'"
    by blast
  then show ?thesis
  proof cases
    case 1
    then show ?thesis by (simp add: replayed_def trail_def)
  next
    case 2
    from fresh_effect_trail [OF this, of n] show ?thesis by (auto split: if_splits)
  qed
qed

end

end
