(* ===== verification/Consultations.thy ===== *)
theory Consultations
  imports AssignedAction
begin

text \<open>
  \<open>ConsultationRepository\<close> (\<open>consultations/repositories/consultation_repository.py\<close>) and the four
  operations of \<open>ConsultationService\<close> (\<open>consultations/services/consultation_service.py\<close>): start, save
  the summary, confirm it, complete the consultation.
\<close>

section \<open>Repository\<close>

definition lock_latest_consultation :: "inquiry_row \<Rightarrow> db \<Rightarrow> consultation_row option" where
  "lock_latest_consultation i d =
     first_by (\<lambda>c. (Desc (co_sequence c), Desc (co_id c))) (consultations_of i d)"

definition update_consultation ::
  "(consultation_row \<Rightarrow> consultation_row) \<Rightarrow> consultation_row \<Rightarrow> db \<Rightarrow>
     app_error + (consultation_row \<times> db)" where
  "update_consultation f c d =
     (if \<not> consultation_constraints (f c) then Inl (Integrity ''ck_consult'')
      else Inr (f c, d\<lparr>db_consultations :=
        map (\<lambda>r. if co_id r = co_id c then f r else r) (db_consultations d)\<rparr>))"

definition insert_consultation ::
  "consultation_row \<Rightarrow> db \<Rightarrow> app_error + (consultation_row \<times> db)" where
  "insert_consultation c d =
     (let c' = c\<lparr>co_id := db_next_id d, co_public_id := db_next_uuid d\<rparr> in
      if \<not> consultation_constraints c' then Inl (Integrity ''ck_consult'')
      else if list_ex (\<lambda>r. co_inquiry_id r = co_inquiry_id c \<and> co_sequence r = co_sequence c) (db_consultations d)
      then Inl (Integrity ''ux_consult_inquiry_sequence'')
      else Inr (c', d\<lparr>db_consultations := db_consultations d @ [c'],
        db_next_id := Suc (db_next_id d), db_next_uuid := Suc (db_next_uuid d)\<rparr>))"

text \<open>Every write of a consultation carries the version, key and correlation of its request.\<close>

definition stamp :: "int \<Rightarrow> string \<Rightarrow> nat \<Rightarrow> consultation_row \<Rightarrow> consultation_row" where
  "stamp version key correlation c =
     c\<lparr>co_state_version := version, co_idempotency_key := key, co_correlation_id := correlation\<rparr>"

definition next_sequence :: "inquiry_row \<Rightarrow> db \<Rightarrow> int" where
  "next_sequence i d = fold max (map co_sequence (consultations_of i d)) 0 + 1"

definition new_consultation ::
  "inquiry_row \<Rightarrow> int \<Rightarrow> nat option \<Rightarrow> string \<Rightarrow> int \<Rightarrow> string \<Rightarrow> nat \<Rightarrow> int option \<Rightarrow> string \<Rightarrow> int \<Rightarrow>
     consultation_row" where
  "new_consultation i seq consultant status version key correlation started classification created =
     \<lparr>co_id = 0, co_public_id = 0, co_inquiry_id = i_id i, co_sequence = seq,
      co_consultant_id = consultant, co_status = status, co_outcome = ''PENDING'', co_summary = [],
      co_ai_draft_summary = None, co_confirmed_summary = None, co_summary_confirmed_at = None,
      co_consultation_note = None, co_additional_check = None, co_customer_guidance = None,
      co_usage_guidance_status = None, co_visit_review_reason = None,
      co_visit_not_needed_reason = None, co_state_version = version, co_idempotency_key = key,
      co_correlation_id = correlation, co_started_at = started, co_completed_at = None,
      co_data_classification = classification, co_created_at = created\<rparr>"

definition consultation_request ::
  "inquiry_row \<Rightarrow> int \<Rightarrow> string \<Rightarrow> nat \<Rightarrow> consultation_row option \<Rightarrow> int \<Rightarrow> db \<Rightarrow>
     app_error + (consultation_row \<times> db)" where
  "consultation_request i version key correlation current now d =
     (case current of
        Some c \<Rightarrow>
          if co_status c \<in> {''WAITING'', ''ASSIGNED''}
          then update_consultation (stamp version key correlation) c d
          else if co_status c = ''IN_PROGRESS''
          then Inl (Runtime ''An in-progress consultation cannot be replaced by a request.'')
          else insert_consultation (new_consultation i (next_sequence i d) None ''WAITING'' version key
                 correlation None
                 (if cu_is_synthetic (su_customer (i_subscription i)) \<and>
                     u_is_synthetic (cu_user (su_customer (i_subscription i)))
                  then ''synthetic'' else ''operational'') now) d
      | None \<Rightarrow> insert_consultation (new_consultation i (next_sequence i d) None ''WAITING'' version key
                 correlation None
                 (if cu_is_synthetic (su_customer (i_subscription i)) \<and>
                     u_is_synthetic (cu_user (su_customer (i_subscription i)))
                  then ''synthetic'' else ''operational'') now) d)"

definition consultation_claim ::
  "consultation_row \<Rightarrow> user_row \<Rightarrow> int \<Rightarrow> string \<Rightarrow> nat \<Rightarrow> db \<Rightarrow> app_error + (consultation_row \<times> db)" where
  "consultation_claim c actor version key correlation d =
     (if co_status c \<noteq> ''WAITING'' \<or> co_consultant_id c \<noteq> None \<or> co_started_at c \<noteq> None
      then Inl (Runtime ''The consultation is no longer claimable.'')
      else update_consultation (\<lambda>r. stamp version key correlation
             (r\<lparr>co_consultant_id := Some (u_id actor), co_status := ''ASSIGNED''\<rparr>)) c d)"

text \<open>
  \<open>current.started_at or now\<close>: a stored datetime is truthy, so only a null one is replaced. The new
  value is computed once from the loaded row and written to it.
\<close>

definition consultation_start ::
  "inquiry_row \<Rightarrow> user_row \<Rightarrow> int \<Rightarrow> string \<Rightarrow> nat \<Rightarrow> consultation_row option \<Rightarrow> int \<Rightarrow> db \<Rightarrow>
     app_error + (consultation_row \<times> db)" where
  "consultation_start i actor version key correlation current now d =
     (case current of
        Some c \<Rightarrow>
          if co_status c \<in> {''WAITING'', ''ASSIGNED''} then
            (let started = (case co_started_at c of None \<Rightarrow> now | Some t \<Rightarrow> t) in
             update_consultation (\<lambda>r. stamp version key correlation
               (r\<lparr>co_consultant_id := Some (u_id actor), co_status := ''IN_PROGRESS'',
                  co_started_at := Some started\<rparr>)) c d)
          else insert_consultation (new_consultation i (next_sequence i d) (Some (u_id actor))
                 ''IN_PROGRESS'' version key correlation (Some now) ''synthetic'' now) d
      | None \<Rightarrow> insert_consultation (new_consultation i (next_sequence i d) (Some (u_id actor))
                 ''IN_PROGRESS'' version key correlation (Some now) ''synthetic'' now) d)"

text \<open>
  The request fields \<open>save_summary\<close> copies, each only when present. A text column takes a string or
  null; the outcome and summary columns are not nullable, so null is refused by the database.
\<close>

definition py_text :: "py \<Rightarrow> string option" where
  "py_text v = (case v of PStr s \<Rightarrow> Some s | _ \<Rightarrow> None)"

definition set_present ::
  "(string \<times> py) list \<Rightarrow> string \<Rightarrow> (string option \<Rightarrow> consultation_row \<Rightarrow> consultation_row) \<Rightarrow>
     consultation_row \<Rightarrow> consultation_row" where
  "set_present values field upd c =
     (case map_of values field of None \<Rightarrow> c | Some v \<Rightarrow> upd (py_text v) c)"

definition opt_text :: "string option \<Rightarrow> string" where
  "opt_text v = (case v of None \<Rightarrow> [] | Some s \<Rightarrow> s)"

definition summary_values :: "(string \<times> py) list \<Rightarrow> consultation_row \<Rightarrow> consultation_row" where
  "summary_values values c =
     set_present values ''usage_guidance_status'' (\<lambda>s r. r\<lparr>co_usage_guidance_status := s\<rparr>)
    (set_present values ''result_code'' (\<lambda>s r. r\<lparr>co_outcome := opt_text s\<rparr>)
    (set_present values ''customer_guidance'' (\<lambda>s r. r\<lparr>co_customer_guidance := s\<rparr>)
    (set_present values ''additional_check'' (\<lambda>s r. r\<lparr>co_additional_check := s\<rparr>)
    (set_present values ''consultation_note'' (\<lambda>s r. r\<lparr>co_consultation_note := s\<rparr>)
    (set_present values ''summary'' (\<lambda>s r. r\<lparr>co_summary := opt_text s\<rparr>) c)))))"

definition null_required :: "(string \<times> py) list \<Rightarrow> bool" where
  "null_required values =
     (map_of values ''summary'' = Some PNone \<or> map_of values ''result_code'' = Some PNone)"

definition consultation_save_summary ::
  "consultation_row \<Rightarrow> (string \<times> py) list \<Rightarrow> int \<Rightarrow> string \<Rightarrow> nat \<Rightarrow> db \<Rightarrow>
     app_error + (consultation_row \<times> db)" where
  "consultation_save_summary c values version key correlation d =
     (if null_required values then Inl (Integrity ''not null'')
      else update_consultation (\<lambda>r. stamp version key correlation (summary_values values r)) c d)"

definition consultation_confirm_summary ::
  "consultation_row \<Rightarrow> int \<Rightarrow> string \<Rightarrow> nat \<Rightarrow> int \<Rightarrow> db \<Rightarrow> app_error + (consultation_row \<times> db)" where
  "consultation_confirm_summary c version key correlation now d =
     (let confirmed = strip (co_summary c) in
      update_consultation (\<lambda>r. stamp version key correlation
        (r\<lparr>co_confirmed_summary := Some confirmed, co_summary_confirmed_at := Some now\<rparr>)) c d)"

definition consultation_complete ::
  "consultation_row \<Rightarrow> int \<Rightarrow> string \<Rightarrow> nat \<Rightarrow> int \<Rightarrow> db \<Rightarrow> app_error + (consultation_row \<times> db)" where
  "consultation_complete c version key correlation now d =
     update_consultation (\<lambda>r. stamp version key correlation
       (r\<lparr>co_status := ''COMPLETED'', co_completed_at := Some now\<rparr>)) c d"

definition cancel_active ::
  "inquiry_row \<Rightarrow> int \<Rightarrow> string \<Rightarrow> nat \<Rightarrow> db \<Rightarrow> app_error + (consultation_row option \<times> db)" where
  "cancel_active i version key correlation d =
     (case sort_key (\<lambda>c. (Desc (co_sequence c), Desc (co_id c)))
             (filter (\<lambda>c. co_status c \<in> {''WAITING'', ''ASSIGNED'', ''IN_PROGRESS''}) (consultations_of i d)) of
        [] \<Rightarrow> Inr (None, d)
      | [c] \<Rightarrow>
          rbind (update_consultation (\<lambda>r. stamp version key correlation
              (r\<lparr>co_status := ''CANCELLED'', co_outcome := ''PENDING'', co_completed_at := None\<rparr>)) c d)
            (\<lambda>(c', d'). Inr (Some c', d'))
      | _ \<Rightarrow> Inl (Runtime ''Multiple active consultations exist for one inquiry.''))"

definition record_visit_review ::
  "consultation_row \<Rightarrow> string \<Rightarrow> string option \<Rightarrow> int \<Rightarrow> string \<Rightarrow> nat \<Rightarrow> db \<Rightarrow>
     app_error + (consultation_row \<times> db)" where
  "record_visit_review c code detail version key correlation d =
     update_consultation (\<lambda>r. stamp version key correlation
       (r\<lparr>co_visit_review_reason := Some (code, detail)\<rparr>)) c d"

definition mark_visit_not_needed ::
  "consultation_row \<Rightarrow> string \<Rightarrow> string option \<Rightarrow> int \<Rightarrow> string \<Rightarrow> nat \<Rightarrow> int \<Rightarrow> db \<Rightarrow>
     app_error + (consultation_row \<times> db)" where
  "mark_visit_not_needed c code detail version key correlation now d =
     update_consultation (\<lambda>r. stamp version key correlation
       (r\<lparr>co_visit_not_needed_reason := Some (code, detail), co_outcome := ''COMPLETED_NO_VISIT'',
          co_status := ''COMPLETED'', co_completed_at := Some now\<rparr>)) c d"

section \<open>Service\<close>

definition time_py :: "int option \<Rightarrow> py" where
  "time_py t = (case t of None \<Rightarrow> PNone | Some n \<Rightarrow> PStr (iso_datetime n))"

definition consultation_resource :: "consultation_row option \<Rightarrow> py" where
  "consultation_resource c =
     (case c of None \<Rightarrow> PNone
      | Some r \<Rightarrow> PDict [
          (''consultation_id'', PStr (uuid_text (co_public_id r))),
          (''result_code'', PStr (co_outcome r)),
          (''summary'', PDict [
            (''ai_draft_summary'', opt_str (co_ai_draft_summary r)),
            (''edited_summary'', if co_summary r = [] then PNone else PStr (co_summary r)),
            (''confirmed_summary'', opt_str (co_confirmed_summary r)),
            (''confirmed_at'', time_py (co_summary_confirmed_at r))]),
          (''consultation_note'', opt_str (co_consultation_note r)),
          (''additional_check'', opt_str (co_additional_check r)),
          (''customer_guidance'', opt_str (co_customer_guidance r)),
          (''usage_guidance_status'', opt_str (co_usage_guidance_status r))])"

definition resource_consultation :: "resource \<Rightarrow> py" where
  "resource_consultation res =
     consultation_resource (case res of R_consultation c \<Rightarrow> Some c | _ \<Rightarrow> None)"

text \<open>\<open>consultation.attribute\<close> on \<open>None\<close> raises.\<close>

definition with_consultation ::
  "workflow_context \<Rightarrow> (consultation_row \<Rightarrow> app_error + (consultation_row \<times> db)) \<Rightarrow>
     app_error + (resource \<times> db)" where
  "with_consultation x f =
     (case wc_consultation x of
        None \<Rightarrow> Inl (Uncaught ''NoneType'')
      | Some c \<Rightarrow> rbind (f c) (\<lambda>(c', d'). Inr (R_consultation c', d')))"

definition consultation_context :: "inquiry_row \<Rightarrow> db \<Rightarrow> app_error + workflow_context" where
  "consultation_context i d =
     Inr \<lparr>wc_consultation = lock_latest_consultation i d, wc_visit = None, wc_latest_visit = None,
          wc_technician = None\<rparr>"

definition consultation_spec ::
  "request \<Rightarrow> user_row option \<Rightarrow> string \<Rightarrow> string \<Rightarrow> string \<Rightarrow>
     (inquiry_row \<Rightarrow> workflow_context \<Rightarrow> (string \<times> bool) list) \<Rightarrow>
     (inquiry_row \<Rightarrow> transition \<Rightarrow> workflow_context \<Rightarrow> db \<Rightarrow> app_error + (resource \<times> db)) \<Rightarrow> action_spec" where
  "consultation_spec rq assigned operation event msg domain mutation =
     \<lparr>sp_path = [(''inquiry_id'', PUuid (rq_target rq))], sp_operation = operation, sp_event = event,
      sp_message = msg, sp_context = consultation_context, sp_domain = domain,
      sp_mutation = mutation, sp_resource = resource_consultation, sp_assignment_actor = assigned\<rparr>"

definition start_spec :: "request \<Rightarrow> user_row option \<Rightarrow> action_spec" where
  "start_spec rq assigned =
     consultation_spec rq assigned ''startConsultation'' ''START_CONSULTATION'' ''msg.consultation_started''
       (\<lambda>i x. [])
       (\<lambda>i t x d. rbind (consultation_start i
            (case assigned of None \<Rightarrow> rq_actor rq | Some a \<Rightarrow> a) (t_version_after t) (rq_key rq)
            (rq_correlation rq) (wc_consultation x) (rq_now rq) d)
          (\<lambda>(c, d'). Inr (R_consultation c, d')))"

definition save_summary_spec :: "request \<Rightarrow> user_row option \<Rightarrow> action_spec" where
  "save_summary_spec rq assigned =
     consultation_spec rq assigned ''updateConsultationSummary'' ''UPDATE_CONSULTATION_SUMMARY''
       ''msg.summary_saved''
       (\<lambda>i x. [(''G-CONSULTATION-SUMMARY-PAYLOAD-VALID'',
          wc_consultation x \<noteq> None \<and> list_ex (\<lambda>(k, v). k \<noteq> ''state_version'') (rq_data rq))])
       (\<lambda>i t x d. with_consultation x (\<lambda>c. consultation_save_summary c (rq_data rq)
          (t_version_after t) (rq_key rq) (rq_correlation rq) d))"

definition confirm_summary_spec :: "request \<Rightarrow> user_row option \<Rightarrow> action_spec" where
  "confirm_summary_spec rq assigned =
     consultation_spec rq assigned ''confirmConsultationSummary'' ''CONFIRM_CONSULTATION_SUMMARY''
       ''msg.summary_confirmed''
       (\<lambda>i x. [(''G-CONSULTATION-SUMMARY-CONFIRMABLE'',
          case wc_consultation x of None \<Rightarrow> False
          | Some c \<Rightarrow> has_text (co_summary c) \<and> co_summary_confirmed_at c = None)])
       (\<lambda>i t x d. with_consultation x (\<lambda>c. consultation_confirm_summary c (t_version_after t) (rq_key rq)
          (rq_correlation rq) (rq_now rq) d))"

definition complete_spec :: "request \<Rightarrow> user_row option \<Rightarrow> action_spec" where
  "complete_spec rq assigned =
     consultation_spec rq assigned ''completeConsultation'' ''CONSULTATION_COMPLETED''
       ''msg.consultation_completed''
       (\<lambda>i x. [(''G-CONSULTATION-RESULT-COMPLETE'',
          case wc_consultation x of None \<Rightarrow> False
          | Some c \<Rightarrow> co_outcome c \<in> {''COMPLETED_NO_VISIT'', ''VISIT_REQUIRED'', ''REOPENED_FOLLOWUP''} \<and>
              truthy_text (co_confirmed_summary c) \<and> co_summary_confirmed_at c \<noteq> None \<and>
              co_completed_at c = None)])
       (\<lambda>i t x d. with_consultation x (\<lambda>c. consultation_complete c (t_version_after t) (rq_key rq)
          (rq_correlation rq) (rq_now rq) d))"

end
