(* ===== verification/Visits.thy ===== *)
theory Visits
  imports Consultations
begin

text \<open>
  \<open>VisitRepository\<close> (\<open>visits/repositories/visit_repository.py\<close>) and the five operations of
  \<open>VisitService\<close> (\<open>visits/services/visit_service.py\<close>): review the need of a visit, request it, mark it
  not needed, schedule it, confirm its date.
\<close>

section \<open>Repository\<close>

definition find_inquiry_public_id :: "nat \<Rightarrow> db \<Rightarrow> nat option" where
  "find_inquiry_public_id uid d =
     map_option v_inquiry_public_id (find (\<lambda>v. v_public_id v = uid) (db_visits d))"

definition lock_latest_visit :: "inquiry_row \<Rightarrow> db \<Rightarrow> visit_row option" where
  "lock_latest_visit i d = first_by (\<lambda>v. (Desc (v_created_at v), Desc (v_id v))) (visits_of i d)"

definition lock_visit_by_public_id :: "inquiry_row \<Rightarrow> nat \<Rightarrow> db \<Rightarrow> visit_row option" where
  "lock_visit_by_public_id i uid d = find (\<lambda>v. v_public_id v = uid) (visits_of i d)"

definition synthetic_technician :: "nat \<Rightarrow> db \<Rightarrow> user_row option" where
  "synthetic_technician uid d =
     find (\<lambda>u. u_public_id u = uid \<and> u_role_code u = ''TECHNICIAN'' \<and> u_is_active u \<and>
        u_is_synthetic u) (db_users d)"

definition update_visit ::
  "(visit_row \<Rightarrow> visit_row) \<Rightarrow> visit_row \<Rightarrow> db \<Rightarrow> app_error + (visit_row \<times> db)" where
  "update_visit f v d =
     (if \<not> visit_constraints (f v) then Inl (Integrity ''ck_visit'')
      else Inr (f v, d\<lparr>db_visits := map (\<lambda>r. if v_id r = v_id v then f r else r) (db_visits d)\<rparr>))"

definition insert_visit :: "visit_row \<Rightarrow> db \<Rightarrow> app_error + (visit_row \<times> db)" where
  "insert_visit v d =
     (let v' = v\<lparr>v_id := db_next_id d, v_public_id := db_next_uuid d\<rparr> in
      if \<not> visit_constraints v' then Inl (Integrity ''ck_visit'')
      else Inr (v', d\<lparr>db_visits := db_visits d @ [v'],
        db_next_id := Suc (db_next_id d), db_next_uuid := Suc (db_next_uuid d)\<rparr>))"

definition py_date :: "py option \<Rightarrow> int option" where
  "py_date v = (case v of Some (PDate d) \<Rightarrow> Some d | _ \<Rightarrow> None)"

definition required :: "(string \<times> py) list \<Rightarrow> string \<Rightarrow> app_error + py" where
  "required kvs k = of_option (Uncaught k) (map_of kvs k)"

definition handoff_fields :: "string list" where
  "handoff_fields = [''product_summary'', ''symptom_summary'', ''action_summary'', ''risk_summary'',
     ''priority_check_items'', ''consultant_final'']"

definition create_handoff ::
  "inquiry_row \<Rightarrow> consultation_row \<Rightarrow> user_row \<Rightarrow> py \<Rightarrow> int \<Rightarrow> db \<Rightarrow> app_error + db" where
  "create_handoff i c actor handoff now d =
     (case handoff of
        PDict kvs \<Rightarrow>
          rbind (map_res (\<lambda>k. rbind (required kvs k) (\<lambda>v. Inr (k, v))) handoff_fields) (\<lambda>sections.
            Inr (d\<lparr>db_handoffs := db_handoffs d @
              [\<lparr>ho_inquiry_id = i_id i, ho_consultation_id = co_id c,
                ho_report_version =
                  int (length (filter (\<lambda>h. ho_inquiry_id h = i_id i) (db_handoffs d))) + 1,
                ho_report_status_code = ''CONFIRMED'', ho_sections = sections,
                ho_confirmed_by = u_id actor, ho_confirmed_at = now\<rparr>]\<rparr>))
      | _ \<Rightarrow> Inl (Uncaught ''handoff''))"

definition visit_create ::
  "inquiry_row \<Rightarrow> consultation_row \<Rightarrow> user_row \<Rightarrow> (string \<times> py) list \<Rightarrow> string \<Rightarrow> nat \<Rightarrow> int \<Rightarrow>
     db \<Rightarrow> app_error + (visit_row \<times> db)" where
  "visit_create i c actor values key correlation now d =
     rbind (required values ''visit_reason'') (\<lambda>reason.
     rbind (required values ''usage_guidance_status'') (\<lambda>usage.
     rbind (required values ''handoff'') (\<lambda>handoff.
     rbind (insert_visit
       \<lparr>v_id = 0, v_public_id = 0, v_inquiry_id = i_id i, v_inquiry_public_id = i_public_id i,
        v_technician = None, v_status = ''ASSIGNING'', v_requested_at = now, v_scheduled_at = None,
        v_preferred_date = py_date (map_of values ''preferred_date''), v_confirmed_date = None,
        v_visit_reason = reason, v_usage_guidance_status = usage, v_handoff_payload = handoff,
        v_started_at = None, v_completed_at = None, v_confirmed_cause = None, v_action_taken = None,
        v_state_version = 1, v_idempotency_key = key, v_correlation_id = correlation,
        v_data_classification = ''synthetic'', v_created_at = now\<rparr> d) (\<lambda>(v, d').
     rbind (create_handoff i c actor handoff now d') (\<lambda>d''. Inr (v, d''))))))"

definition reopen_visit :: "visit_row \<Rightarrow> visit_row" where
  "reopen_visit v =
     v\<lparr>v_scheduled_at := None, v_started_at := None, v_completed_at := None,
       v_confirmed_cause := None, v_action_taken := None\<rparr>"

definition visit_update_schedule ::
  "visit_row \<Rightarrow> user_row \<Rightarrow> int option \<Rightarrow> int option \<Rightarrow> string option \<Rightarrow> string \<Rightarrow> nat \<Rightarrow> db \<Rightarrow>
     app_error + (visit_row \<times> db)" where
  "visit_update_schedule v technician preferred confirmed status key correlation d =
     (case status of
        None \<Rightarrow> Inl (Integrity ''status'')
      | Some st \<Rightarrow>
          (let revisit = (v_status v = ''FOLLOW_UP_REQUIRED'') in
           update_visit (\<lambda>r. (if revisit then reopen_visit r else r)
             \<lparr>v_technician := Some technician, v_preferred_date := preferred,
              v_confirmed_date := confirmed, v_status := st, v_state_version := v_state_version v + 1,
              v_idempotency_key := key, v_correlation_id := correlation\<rparr>) v d))"

text \<open>\<open>make_aware(combine(confirmed_date, time.min))\<close> in Asia/Seoul, nine hours ahead of UTC.\<close>

definition seoul_midnight :: "int \<Rightarrow> int" where
  "seoul_midnight day = (day * 86400 - 9 * 3600) * 1000000"

definition visit_confirm ::
  "visit_row \<Rightarrow> string option \<Rightarrow> string \<Rightarrow> nat \<Rightarrow> db \<Rightarrow> app_error + (visit_row \<times> db)" where
  "visit_confirm v status key correlation d =
     (case (v_confirmed_date v, status) of
        (Some day, Some st) \<Rightarrow>
          update_visit (\<lambda>r. r\<lparr>v_status := st, v_scheduled_at := Some (seoul_midnight day),
            v_state_version := v_state_version v + 1, v_idempotency_key := key,
            v_correlation_id := correlation\<rparr>) v d
      | (None, _) \<Rightarrow> Inl (Uncaught ''combine'')
      | _ \<Rightarrow> Inl (Integrity ''status''))"

section \<open>Service\<close>

definition date_py :: "int option \<Rightarrow> py" where
  "date_py t = (case t of None \<Rightarrow> PNone | Some n \<Rightarrow> PStr (iso_date n))"

definition visit_resource :: "visit_row \<Rightarrow> py" where
  "visit_resource v =
     PDict [
       (''visit_id'', PStr (uuid_text (v_public_id v))),
       (''inquiry_id'', PStr (uuid_text (v_inquiry_public_id v))),
       (''schedule'', PDict [
          (''preferred_date'', date_py (v_preferred_date v)),
          (''confirmed_date'', date_py (v_confirmed_date v)),
          (''schedule_status'', PStr (v_status v)),
          (''synthetic_technician_id'',
            (case v_technician v of None \<Rightarrow> PNone | Some t \<Rightarrow> PStr (uuid_text (u_public_id t))))]),
       (''technician'',
          (case v_technician v of None \<Rightarrow> PNone
           | Some t \<Rightarrow> PDict [
               (''is_synthetic'', PBool True),
               (''technician_id'', PStr (uuid_text (u_public_id t))),
               (''display_name'', PStr (take 80 (u_full_name t))),
               (''phone'', PStr (take 32 (u_phone t)))]))]"

definition resource_any :: "resource \<Rightarrow> py" where
  "resource_any res =
     (case res of No_resource \<Rightarrow> PNone | R_consultation c \<Rightarrow> consultation_resource (Some c)
      | R_visit v \<Rightarrow> visit_resource v)"

definition inquiry_visit_context :: "inquiry_row \<Rightarrow> db \<Rightarrow> app_error + workflow_context" where
  "inquiry_visit_context i d =
     Inr \<lparr>wc_consultation = lock_latest_consultation i d, wc_visit = Some (lock_latest_visit i d),
          wc_latest_visit = None, wc_technician = None\<rparr>"

definition inquiry_visit_spec ::
  "request \<Rightarrow> string \<Rightarrow> string \<Rightarrow> string \<Rightarrow>
     (inquiry_row \<Rightarrow> workflow_context \<Rightarrow> (string \<times> bool) list) \<Rightarrow>
     (inquiry_row \<Rightarrow> transition \<Rightarrow> workflow_context \<Rightarrow> db \<Rightarrow> app_error + (resource \<times> db)) \<Rightarrow> action_spec" where
  "inquiry_visit_spec rq operation event msg domain mutation =
     \<lparr>sp_path = [(''inquiry_id'', PUuid (rq_target rq))], sp_operation = operation, sp_event = event,
      sp_message = msg, sp_context = inquiry_visit_context, sp_domain = domain,
      sp_mutation = mutation, sp_resource = resource_any, sp_assignment_actor = None\<rparr>"

text \<open>The conditions three guards share: the consultation asks for a visit and none exists.\<close>

definition visit_wanted :: "workflow_context \<Rightarrow> bool" where
  "visit_wanted x =
     ((case wc_consultation x of None \<Rightarrow> False
       | Some c \<Rightarrow> co_outcome c = ''VISIT_REQUIRED'' \<and> truthy_text (co_confirmed_summary c)) \<and>
      wc_visit x = Some None)"

definition reason_of ::
  "request \<Rightarrow> (string \<Rightarrow> string option \<Rightarrow> app_error + 'a) \<Rightarrow> app_error + 'a" where
  "reason_of rq f =
     rbind (required (rq_data rq) ''reason_code'') (\<lambda>code.
       f (opt_text (py_text code)) (Option.bind (map_of (rq_data rq) ''reason_detail'') py_text))"

definition review_spec :: "request \<Rightarrow> action_spec" where
  "review_spec rq =
     inquiry_visit_spec rq ''requestVisitReview'' ''VISIT_REVIEW_REQUIRED'' ''msg.review_started''
       (\<lambda>i x. [(''G-VISIT-REVIEW-PAYLOAD-VALID'', visit_wanted x)])
       (\<lambda>i t x d. with_consultation x (\<lambda>c. reason_of rq (\<lambda>code detail.
          record_visit_review c code detail (t_version_after t) (rq_key rq) (rq_correlation rq) d)))"

definition create_request_spec :: "request \<Rightarrow> action_spec" where
  "create_request_spec rq =
     inquiry_visit_spec rq ''createVisitRequest'' ''VISIT_NEEDED'' ''msg.visit_requested''
       (\<lambda>i x. [(''G-VISIT-HANDOFF-COMPLETE'',
          visit_wanted x \<and> su_product_model_id (i_subscription i) \<noteq> None \<and>
          (case map_of (rq_data rq) ''handoff'' of None \<Rightarrow> False | Some h \<Rightarrow> truthy h))])
       (\<lambda>i t x d. case wc_consultation x of
          None \<Rightarrow> Inl (Uncaught ''NoneType'')
        | Some c \<Rightarrow> rbind (visit_create i c (rq_actor rq) (rq_data rq) (rq_key rq) (rq_correlation rq)
            (rq_now rq) d) (\<lambda>(v, d'). Inr (R_visit v, d')))"

definition not_needed_spec :: "request \<Rightarrow> action_spec" where
  "not_needed_spec rq =
     inquiry_visit_spec rq ''markVisitNotNeeded'' ''VISIT_NOT_NEEDED'' ''msg.visit_not_needed''
       (\<lambda>i x. [(''G-VISIT-NOT-NEEDED-RESULT-COMPLETE'',
          visit_wanted x \<and>
          (case wc_consultation x of None \<Rightarrow> False | Some c \<Rightarrow> co_summary_confirmed_at c \<noteq> None))])
       (\<lambda>i t x d. with_consultation x (\<lambda>c. reason_of rq (\<lambda>code detail.
          mark_visit_not_needed c code detail (t_version_after t) (rq_key rq) (rq_correlation rq)
            (rq_now rq) d)))"

definition visit_spec ::
  "nat \<Rightarrow> string \<Rightarrow> string \<Rightarrow> string \<Rightarrow> (inquiry_row \<Rightarrow> db \<Rightarrow> app_error + workflow_context) \<Rightarrow>
     (inquiry_row \<Rightarrow> workflow_context \<Rightarrow> (string \<times> bool) list) \<Rightarrow>
     (inquiry_row \<Rightarrow> transition \<Rightarrow> workflow_context \<Rightarrow> db \<Rightarrow> app_error + (resource \<times> db)) \<Rightarrow> action_spec" where
  "visit_spec uid operation event msg context domain mutation =
     \<lparr>sp_path = [(''visit_id'', PUuid uid)], sp_operation = operation, sp_event = event,
      sp_message = msg, sp_context = context, sp_domain = domain, sp_mutation = mutation,
      sp_resource = resource_any, sp_assignment_actor = None\<rparr>"

definition current_visit :: "workflow_context \<Rightarrow> bool" where
  "current_visit x =
     (case (wc_visit x, wc_latest_visit x) of
        (Some (Some v), Some (Some l)) \<Rightarrow> v_id v = v_id l
      | _ \<Rightarrow> False)"

definition with_visit ::
  "workflow_context \<Rightarrow> (visit_row \<Rightarrow> app_error + (visit_row \<times> db)) \<Rightarrow> app_error + (resource \<times> db)" where
  "with_visit x f =
     (case wc_visit x of
        Some (Some v) \<Rightarrow> rbind (f v) (\<lambda>(v', d'). Inr (R_visit v', d'))
      | _ \<Rightarrow> Inl (Uncaught ''NoneType''))"

definition schedule_context :: "nat \<Rightarrow> request \<Rightarrow> inquiry_row \<Rightarrow> db \<Rightarrow> app_error + workflow_context" where
  "schedule_context uid rq i d =
     rbind (required (rq_data rq) ''synthetic_technician_id'') (\<lambda>tid.
       Inr \<lparr>wc_consultation = lock_latest_consultation i d,
            wc_visit = Some (lock_visit_by_public_id i uid d),
            wc_latest_visit = Some (lock_latest_visit i d),
            wc_technician = (case tid of PUuid n \<Rightarrow> synthetic_technician n d | _ \<Rightarrow> None)\<rparr>)"

definition schedule_spec :: "nat \<Rightarrow> request \<Rightarrow> action_spec" where
  "schedule_spec uid rq =
     visit_spec uid ''updateVisitSchedule'' ''UPDATE_VISIT_SCHEDULE'' ''msg.schedule_saved''
       (schedule_context uid rq)
       (\<lambda>i x. [(''G-VISIT-SCHEDULE-PAYLOAD-VALID'', current_visit x \<and> wc_technician x \<noteq> None)])
       (\<lambda>i t x d. with_visit x (\<lambda>v.
          case wc_technician x of
            None \<Rightarrow> Inl (Integrity ''technician'')
          | Some tech \<Rightarrow>
              rbind (required (rq_data rq) ''preferred_date'') (\<lambda>p.
              rbind (required (rq_data rq) ''confirmed_date'') (\<lambda>c.
              visit_update_schedule v tech (py_date (Some p)) (py_date (Some c)) (t_visit_after t)
                (rq_key rq) (rq_correlation rq) d))))"

definition confirm_context :: "nat \<Rightarrow> inquiry_row \<Rightarrow> db \<Rightarrow> app_error + workflow_context" where
  "confirm_context uid i d =
     Inr \<lparr>wc_consultation = lock_latest_consultation i d,
          wc_visit = Some (lock_visit_by_public_id i uid d),
          wc_latest_visit = Some (lock_latest_visit i d), wc_technician = None\<rparr>"

definition technician_ok :: "workflow_context \<Rightarrow> bool" where
  "technician_ok x =
     (case wc_visit x of
        Some (Some v) \<Rightarrow> (case v_technician v of None \<Rightarrow> False
          | Some t \<Rightarrow> u_role_code t = ''TECHNICIAN'' \<and> u_is_active t \<and> u_is_synthetic t)
      | _ \<Rightarrow> False)"

definition confirm_visit_spec :: "nat \<Rightarrow> request \<Rightarrow> action_spec" where
  "confirm_visit_spec uid rq =
     visit_spec uid ''confirmVisit'' ''CONFIRM_VISIT'' ''msg.visit_confirmed'' (confirm_context uid)
       (\<lambda>i x. [(''G-CONFIRMED-VISIT-DATE'',
                 current_visit x \<and>
                 (case wc_visit x of Some (Some v) \<Rightarrow> v_confirmed_date v \<noteq> None | _ \<Rightarrow> False)),
               (''G-ASSIGNED-TECHNICIAN-PRESENT'', current_visit x \<and> technician_ok x)])
       (\<lambda>i t x d. with_visit x (\<lambda>v.
          visit_confirm v (t_visit_after t) (rq_key rq) (rq_correlation rq) d))"

section \<open>Operations\<close>

text \<open>
  Each operation of the two services as a transaction. The visit operations first find the inquiry of
  the visit named by the URL, outside the transaction of \<open>execute\<close>.
\<close>

datatype operation =
    Start "user_row option" | Save_summary "user_row option" | Confirm_summary "user_row option"
  | Complete "user_row option" | Request_review | Create_visit | Visit_not_needed
  | Update_schedule nat | Confirm_visit nat

definition spec_of :: "operation \<Rightarrow> request \<Rightarrow> action_spec" where
  "spec_of op rq =
     (case op of
        Start a \<Rightarrow> start_spec rq a | Save_summary a \<Rightarrow> save_summary_spec rq a
      | Confirm_summary a \<Rightarrow> confirm_summary_spec rq a | Complete a \<Rightarrow> complete_spec rq a
      | Request_review \<Rightarrow> review_spec rq | Create_visit \<Rightarrow> create_request_spec rq
      | Visit_not_needed \<Rightarrow> not_needed_spec rq
      | Update_schedule uid \<Rightarrow> schedule_spec uid rq | Confirm_visit uid \<Rightarrow> confirm_visit_spec uid rq)"

definition visit_named :: "operation \<Rightarrow> nat option" where
  "visit_named op =
     (case op of Update_schedule uid \<Rightarrow> Some uid | Confirm_visit uid \<Rightarrow> Some uid | _ \<Rightarrow> None)"

definition perform ::
  "documents \<Rightarrow> idem_row list \<Rightarrow> operation \<Rightarrow> request \<Rightarrow> db \<Rightarrow> (app_error + outcome) \<times> db" where
  "perform dc races op rq d =
     (case visit_named op of
        None \<Rightarrow> execute dc races (spec_of op rq) rq d
      | Some uid \<Rightarrow>
          (case find_inquiry_public_id uid d of
             None \<Rightarrow> (Inl Not_found, add_races races d)
           | Some target \<Rightarrow>
               let rq' = rq\<lparr>rq_target := target\<rparr> in execute dc races (spec_of op rq') rq' d))"

end
