(* ===== verification/OperationFacts.thy ===== *)
theory OperationFacts
  imports AssignedFacts Contracts Visits
begin

text \<open>
  The nine consultation and visit operations satisfy the contract of a ledger operation: their
  mutations stay within the frame, so the lemmas of \<open>ledger_operation\<close> hold of \<open>perform\<close>.
\<close>

section \<open>Frames\<close>

lemma update_consultation_frame: "update_consultation f c d = Inr (c', d') \<Longrightarrow> frame d d'"
  by (auto simp: update_consultation_def frame_def split: if_splits)

lemma insert_consultation_frame: "insert_consultation c d = Inr (c', d') \<Longrightarrow> frame d d'"
  by (auto simp: insert_consultation_def frame_def Let_def split: if_splits)

lemma update_visit_frame:
  assumes "update_visit f v d = Inr (v', d')"
    and "\<And>r. v_public_id (f r) = v_public_id r \<and> v_inquiry_public_id (f r) = v_inquiry_public_id r"
  shows "frame d d'"
proof -
  have "d' = d\<lparr>db_visits := map (\<lambda>r. if v_id r = v_id v then f r else r) (db_visits d)\<rparr>"
    using assms(1) by (auto simp: update_visit_def split: if_splits)
  then show ?thesis using assms(2)
    by (auto simp: frame_def comp_def intro!: exI [of _ "[]"])
qed

lemma insert_visit_frame: "insert_visit v d = Inr (v', d') \<Longrightarrow> frame d d'"
  by (auto simp: insert_visit_def frame_def Let_def split: if_splits)

lemma create_handoff_frame: "create_handoff i c actor h now d = Inr d' \<Longrightarrow> frame d d'"
  by (auto simp: create_handoff_def frame_def rbind_Inr_iff split: py.splits)

lemma with_consultation_frame:
  assumes "with_consultation x f = Inr (res, d')" and "\<And>c c' d'. f c = Inr (c', d') \<Longrightarrow> frame d d'"
  shows "frame d d'"
  using assms by (auto simp: with_consultation_def rbind_Inr_iff split: option.splits)

lemma with_visit_frame:
  assumes "with_visit x f = Inr (res, d')" and "\<And>v v' d'. f v = Inr (v', d') \<Longrightarrow> frame d d'"
  shows "frame d d'"
  using assms by (auto simp: with_visit_def rbind_Inr_iff split: option.splits)

lemmas consultation_frames = update_consultation_frame insert_consultation_frame

lemma consultation_start_frame:
  "consultation_start i actor v key corr cur now d = Inr (c', d') \<Longrightarrow> frame d d'"
  by (auto simp: consultation_start_def Let_def split: option.splits if_splits dest: consultation_frames)

lemma visit_create_frame:
  "visit_create i c actor values key corr now d = Inr (v', d') \<Longrightarrow> frame d d'"
  by (auto simp: visit_create_def rbind_Inr_iff intro: frame_trans
      dest!: insert_visit_frame create_handoff_frame)

lemma visit_update_schedule_frame:
  "visit_update_schedule v tech p c st key corr d = Inr (v', d') \<Longrightarrow> frame d d'"
  by (auto simp: visit_update_schedule_def Let_def reopen_visit_def split: option.splits
      elim!: update_visit_frame)

lemma visit_confirm_frame: "visit_confirm v st key corr d = Inr (v', d') \<Longrightarrow> frame d d'"
  by (auto simp: visit_confirm_def split: option.splits elim!: update_visit_frame)

lemmas spec_defs = start_spec_def save_summary_spec_def confirm_summary_spec_def complete_spec_def
  review_spec_def create_request_spec_def not_needed_spec_def schedule_spec_def confirm_visit_spec_def
  consultation_spec_def inquiry_visit_spec_def visit_spec_def

lemma reason_of_Inr: "reason_of rq f = Inr y \<Longrightarrow> \<exists>code detail. f code detail = Inr y"
  by (auto simp: reason_of_def rbind_Inr_iff)

lemma framed_consultation_specs:
  "framed (start_spec rq a)" "framed (save_summary_spec rq a)" "framed (confirm_summary_spec rq a)"
  "framed (complete_spec rq a)"
  unfolding framed_def spec_defs
  by (auto simp: rbind_Inr_iff consultation_save_summary_def consultation_confirm_summary_def
      consultation_complete_def Let_def dest: consultation_start_frame
      elim!: with_consultation_frame intro: update_consultation_frame split: if_splits)

lemma framed_visit_specs:
  "framed (review_spec rq)" "framed (create_request_spec rq)" "framed (not_needed_spec rq)"
  unfolding framed_def spec_defs
  by (auto simp: rbind_Inr_iff record_visit_review_def mark_visit_not_needed_def
      elim!: with_consultation_frame dest!: reason_of_Inr dest: visit_create_frame
      intro: update_consultation_frame split: option.splits)

lemma framed_schedule_specs: "framed (schedule_spec uid rq)" "framed (confirm_visit_spec uid rq)"
  unfolding framed_def spec_defs
  by (auto simp: rbind_Inr_iff elim!: with_visit_frame
      dest: visit_update_schedule_frame visit_confirm_frame split: option.splits)

lemma framed_spec_of: "framed (spec_of op rq)"
  by (cases op) (simp_all add: spec_of_def framed_consultation_specs framed_visit_specs framed_schedule_specs)

section \<open>Operations as ledger operations\<close>

fun operation_name :: "operation \<Rightarrow> string" where
  "operation_name (Start a) = ''startConsultation''"
| "operation_name (Save_summary a) = ''updateConsultationSummary''"
| "operation_name (Confirm_summary a) = ''confirmConsultationSummary''"
| "operation_name (Complete a) = ''completeConsultation''"
| "operation_name Request_review = ''requestVisitReview''"
| "operation_name Create_visit = ''createVisitRequest''"
| "operation_name Visit_not_needed = ''markVisitNotNeeded''"
| "operation_name (Update_schedule uid) = ''updateVisitSchedule''"
| "operation_name (Confirm_visit uid) = ''confirmVisit''"

fun operation_event :: "operation \<Rightarrow> string" where
  "operation_event (Start a) = ''START_CONSULTATION''"
| "operation_event (Save_summary a) = ''UPDATE_CONSULTATION_SUMMARY''"
| "operation_event (Confirm_summary a) = ''CONFIRM_CONSULTATION_SUMMARY''"
| "operation_event (Complete a) = ''CONSULTATION_COMPLETED''"
| "operation_event Request_review = ''VISIT_REVIEW_REQUIRED''"
| "operation_event Create_visit = ''VISIT_NEEDED''"
| "operation_event Visit_not_needed = ''VISIT_NOT_NEEDED''"
| "operation_event (Update_schedule uid) = ''UPDATE_VISIT_SCHEDULE''"
| "operation_event (Confirm_visit uid) = ''CONFIRM_VISIT''"

lemma spec_of_sel:
  "sp_operation (spec_of op rq) = operation_name op" "sp_event (spec_of op rq) = operation_event op"
  by (cases op; simp add: spec_of_def spec_defs)+

text \<open>The inquiry a request is about: named by the URL, or the inquiry of the visit it names.\<close>

definition target_of :: "operation \<Rightarrow> request \<Rightarrow> db \<Rightarrow> nat option" where
  "target_of op rq d =
     (case visit_named op of None \<Rightarrow> Some (rq_target rq) | Some uid \<Rightarrow> find_inquiry_public_id uid d)"

definition resolved_request :: "operation \<Rightarrow> request \<Rightarrow> db \<Rightarrow> request" where
  "resolved_request op rq d = (case target_of op rq d of None \<Rightarrow> rq | Some n \<Rightarrow> rq\<lparr>rq_target := n\<rparr>)"

definition operation_hash :: "operation \<Rightarrow> request \<Rightarrow> db \<Rightarrow> string" where
  "operation_hash op rq d =
     (let rq' = resolved_request op rq d in
      request_hash (sp_path (spec_of op rq')) (rq_data rq') (rq_target rq'))"

definition operation_scope :: "operation \<Rightarrow> request \<Rightarrow> nat \<times> string \<times> string" where
  "operation_scope op rq = request_scope (rq_actor rq) (operation_name op) (rq_key rq)"

lemma perform_eq:
  "perform dc races op rq d =
     (case target_of op rq d of
        None \<Rightarrow> (Inl Not_found, add_races races d)
      | Some n \<Rightarrow> execute dc races (spec_of op (resolved_request op rq d)) (resolved_request op rq d) d)"
  by (auto simp: perform_def target_of_def resolved_request_def Let_def split: option.splits)

lemma resolved_request_sel [simp]:
  "rq_actor (resolved_request op rq d) = rq_actor rq" "rq_key (resolved_request op rq d) = rq_key rq"
  "rq_data (resolved_request op rq d) = rq_data rq" "rq_now (resolved_request op rq d) = rq_now rq"
  "rq_correlation (resolved_request op rq d) = rq_correlation rq"
  by (simp_all add: resolved_request_def split: option.split)

lemma fresh_effect_resolved:
  "fresh_effect c k h races (resolved_request op rq d0) d i t out d' =
   fresh_effect c k h races rq d i t out d'"
  by (simp add: fresh_effect_def)

lemma perform_success:
  assumes "perform dc races op rq d = (Inr out, d')"
  shows "replayed (operation_scope op rq) (operation_hash op rq d) races d out d' \<or>
    (\<exists>i t. fresh_effect (dc_contract dc) (operation_scope op rq) (operation_hash op rq d) races rq d i t out d')"
proof -
  let ?rq = "resolved_request op rq d"
  have "execute dc races (spec_of op ?rq) ?rq d = (Inr out, d')"
    using assms by (auto simp: perform_eq split: option.splits)
  from execute_success [OF framed_spec_of this] show ?thesis
    by (simp add: spec_of_sel operation_scope_def operation_hash_def Let_def fresh_effect_resolved)
qed

lemma perform_failure: "perform dc races op rq d = (Inl e, d') \<Longrightarrow> d' = add_races races d"
  by (auto simp: perform_eq dest: execute_Inl split: option.splits)

interpretation perform: ledger_operation
  "\<lambda>races rq d. perform dc races op rq d" "dc_contract dc" "operation_scope op" "operation_hash op"
  by unfold_locales (erule perform_failure, erule perform_success)

section \<open>Retries and reused keys\<close>

lemma find_inquiry_pairs:
  "find_inquiry_public_id uid d =
     map_option snd (find (\<lambda>p. fst p = uid) (map (\<lambda>v. (v_public_id v, v_inquiry_public_id v)) (db_visits d)))"
proof -
  have "map_option v_inquiry_public_id (find (\<lambda>v. v_public_id v = uid) vs) =
      map_option snd (find (\<lambda>p. fst p = uid) (map (\<lambda>v. (v_public_id v, v_inquiry_public_id v)) vs))"
    for vs :: "visit_row list"
    by (induction vs) auto
  then show ?thesis by (simp add: find_inquiry_public_id_def)
qed

lemma find_append_Some: "find P xs = Some x \<Longrightarrow> find P (xs @ ys) = Some x"
  by (induction xs) (auto split: if_splits)

lemma target_after:
  assumes "perform dc races op rq d = (Inr out, d')"
  shows "target_of op rq d' = target_of op rq d"
proof -
  obtain n where n: "target_of op rq d = Some n"
    and e: "execute dc races (spec_of op (resolved_request op rq d)) (resolved_request op rq d) d = (Inr out, d')"
    using assms by (auto simp: perform_eq split: option.splits)
  have "find_inquiry_public_id uid d' = Some n" if h: "find_inquiry_public_id uid d = Some n" for uid
  proof -
    let ?m = "\<lambda>d. map (\<lambda>v. (v_public_id v, v_inquiry_public_id v)) (db_visits d)"
    obtain new where new: "?m d' = ?m d @ new" using execute_visit_ids [OF framed_spec_of e] by blast
    obtain a where "find (\<lambda>p. fst p = uid) (?m d) = Some (a, n)"
      using h by (auto simp: find_inquiry_pairs)
    then have "find (\<lambda>p. fst p = uid) (?m d') = Some (a, n)" unfolding new by (rule find_append_Some)
    then show ?thesis by (simp add: find_inquiry_pairs)
  qed
  then show ?thesis using n by (auto simp: target_of_def split: option.splits)
qed

lemma perform_retry:
  assumes "distinct (map idem_scope (db_idem d))" and "races_ok races d"
    and "perform dc races op rq d = (Inr (st, PDict kvs), d')"
  shows "perform dc races' op rq d' =
    (Inr (st, PDict (dict_set kvs ''idempotent_replay'' (PBool True))), add_races races' d')"
proof -
  have same: "resolved_request op rq d' = resolved_request op rq d"
    using target_after [OF assms(3)] by (simp add: resolved_request_def)
  obtain n where n: "target_of op rq d = Some n"
    and e: "execute dc races (spec_of op (resolved_request op rq d)) (resolved_request op rq d) d =
      (Inr (st, PDict kvs), d')"
    using assms(3) by (auto simp: perform_eq split: option.splits)
  have "target_of op rq d' = Some n" using target_after [OF assms(3)] n by simp
  then show ?thesis
    using execute_retry [OF framed_spec_of assms(1,2) e] by (simp add: perform_eq same)
qed

lemma perform_key_reuse:
  assumes "target_of op rq d = Some n"
    and "lock_assigned_inquiry n (execution_actor (spec_of op (resolved_request op rq d)) rq) d = Some i"
    and "lock_idempotency_scope (operation_scope op rq) d = Some r"
    and "ir_request_hash r \<noteq> operation_hash op rq d"
  shows "perform dc races op rq d =
    (Inl (Business DUPLICATE_EVENT ''msg.key_reused'' (PDict []) 409), add_races races d)"
proof -
  let ?rq = "resolved_request op rq d"
  have rq: "rq_target ?rq = n" using assms(1) by (simp add: resolved_request_def)
  have a: "execution_actor (spec_of op ?rq) ?rq = execution_actor (spec_of op ?rq) rq"
    by (simp add: execution_actor_def split: option.split)
  have "lock_idempotency_scope (request_scope (rq_actor ?rq) (sp_operation (spec_of op ?rq)) (rq_key ?rq)) d = Some r"
    using assms(3) by (simp add: operation_scope_def spec_of_sel)
  from execute_known_key [OF _ this, of i dc races] show ?thesis
    using assms(1,2,4) rq a
    by (simp add: perform_eq operation_hash_def Let_def replay_or_conflict_def)
qed

section \<open>The optimistic lock\<close>

lemma perform_fresh_version:
  assumes "perform dc races op rq d = (Inr out, d')"
    and "\<not> replayed (operation_scope op rq) (operation_hash op rq d) races d out d'"
    and "event_entry_of (dc_contract dc) (operation_event op) = Some e" and "ev_requires_version e"
  shows "\<exists>i n. target_of op rq d = Some n \<and> i \<in> set (db_inquiries d) \<and> i_public_id i = n \<and>
    map_of (rq_data rq) ''state_version'' = Some (PInt (i_state_version i))"
proof -
  let ?rq = "resolved_request op rq d"
  let ?sp = "spec_of op ?rq"
  obtain n where n: "target_of op rq d = Some n" and e: "execute dc races ?sp ?rq d = (Inr out, d')"
    using assms(1) by (auto simp: perform_eq split: option.splits)
  from execute_Inr [OF e] assms(2) obtain i x t where
    i: "lock_assigned_inquiry (rq_target ?rq) (execution_actor ?sp ?rq) d = Some i" and
    p: "plan_action dc ?rq ?sp (execution_actor ?sp ?rq) i x d = Inr t"
    by (auto simp: operation_scope_def operation_hash_def Let_def spec_of_sel)
  have "requested_version (rq_data ?rq) = Inr (Some (i_state_version i))"
    using plan_action_version [OF p _ assms(4)] assms(3) by (simp add: spec_of_sel)
  then have "map_of (rq_data rq) ''state_version'' = Some (PInt (i_state_version i))"
    by (auto simp: requested_version_def split: option.splits py.splits)
  moreover have "rq_target ?rq = n" using n by (simp add: resolved_request_def)
  ultimately show ?thesis using n lock_assigned_inquiry_Some [OF i] by auto
qed

end
