(* ===== verification/Sessions.thy ===== *)
theory Sessions
  imports OperationFacts
begin

text \<open>
  Sequences of requests. A session serves one call after another against the database; its calls
  carry the idempotency records other transactions committed meanwhile. The ledger stays well formed
  and lawful through every session, and a key takes effect at most once.
\<close>

section \<open>Calls\<close>

record call =
  cl_races :: "idem_row list"
  cl_operation :: operation
  cl_request :: request
  cl_effect :: bool

definition call_scope :: "call \<Rightarrow> nat \<times> string \<times> string" where
  "call_scope l = operation_scope (cl_operation l) (cl_request l)"

text \<open>\<open>cl_effect\<close> tells whether the call wrote history.\<close>

inductive served :: "documents \<Rightarrow> db \<Rightarrow> call \<Rightarrow> db \<Rightarrow> bool" for dc :: documents where
  serve: "\<lbrakk> races_ok (cl_races l) d;
      perform dc (cl_races l) (cl_operation l) (cl_request l) d = (res, d');
      cl_effect l = (db_history d' \<noteq> db_history d) \<rbrakk> \<Longrightarrow> served dc d l d'"

inductive_simps served_iff: "served dc d l d'"

section \<open>Invariants of sessions\<close>

definition ledger_lawful :: "contract \<Rightarrow> db \<Rightarrow> bool" where
  "ledger_lawful c d = (ledger_ok d \<and> lawful c d)"

interpretation sessions: inductive_invariant "ledger_lawful (dc_contract dc)" "served dc"
  "ledger_lawful (dc_contract dc)"
proof unfold_locales
  show "ledger_lawful (dc_contract dc) d'" if "ledger_lawful (dc_contract dc) d" "served dc d l d'" for d l d'
    using that
    by (auto simp: served_iff ledger_lawful_def intro: perform.keeps_ledger perform.tallied.keeps_lawful)
qed

section \<open>At most once\<close>

lemma served_keys:
  "served dc d l d' \<Longrightarrow> idem_scope ` set (db_idem d) \<subseteq> idem_scope ` set (db_idem d')"
  by (auto simp: served_iff dest!: perform.tallied.keys_grow)

lemma served_effect:
  assumes "served dc d l d'" and "cl_effect l"
  shows "call_scope l \<notin> idem_scope ` set (db_idem d)" "call_scope l \<in> idem_scope ` set (db_idem d')"
  using assms perform.effect_claims_key unfolding served_iff call_scope_def by metis+

lemma no_second_effect:
  assumes "run (served dc) d ls d'" and "k \<in> idem_scope ` set (db_idem d)"
  shows "filter (\<lambda>l. cl_effect l \<and> call_scope l = k) ls = []"
  using assms
proof (induction rule: run.induct)
  case (run_cons s l t ls u)
  then show ?case using served_keys served_effect(1) by fastforce
qed simp

lemma one_effect:
  assumes "run (served dc) d ls d'"
  shows "length (filter (\<lambda>l. cl_effect l \<and> call_scope l = k) ls) \<le> 1"
  using assms
proof (induction rule: run.induct)
  case (run_cons s l t ls u)
  show ?case
  proof (cases "cl_effect l \<and> call_scope l = k")
    case True
    then have "k \<in> idem_scope ` set (db_idem t)" using served_effect(2) [OF run_cons(1)] by blast
    then show ?thesis using no_second_effect [OF run_cons(2)] by simp
  next
    case False
    then show ?thesis using run_cons(3) by auto
  qed
qed simp

end
