(* ===== verification/ActionData.thy ===== *)
theory ActionData
  imports ActionResolver
begin

text \<open>
  The documents \<open>AllowedActionResolver\<close> reads: the action catalog and the state and role table of
  \<open>contracts/state-machine/allowed-actions.yaml\<close>, and the actions of
  \<open>contracts/api/action-operation-crosswalk.yaml\<close>. Korean labels and confirmation messages are
  represented by the action code.
\<close>

definition catalog_row :: "string \<Rightarrow> string \<Rightarrow> string \<Rightarrow> bool \<Rightarrow> catalog_entry" where
  "catalog_row c opid st cf = \<lparr>ca_code = c, ca_label = c, ca_operation_id = opid, ca_style = st,
     ca_requires_confirmation = cf, ca_confirmation_message = (if cf then Some c else None)\<rparr>"

definition crosswalk_row :: "string \<Rightarrow> string \<Rightarrow> string \<Rightarrow> bool \<Rightarrow> crosswalk_item" where
  "crosswalk_row a opid k im = \<lparr>cx_action = Some a, cx_event = Some a, cx_operation_id = Some opid,
     cx_classification = Some k, cx_implemented = im\<rparr>"

definition action_catalog :: "catalog_entry list" where
  "action_catalog = [
     catalog_row ''SUBMIT_SYMPTOM'' ''submitSymptom'' ''PRIMARY'' False,
     catalog_row ''CANCEL_INQUIRY'' ''cancelInquiry'' ''DESTRUCTIVE'' True,
     catalog_row ''SUBMIT_ANSWERS'' ''submitFollowUpAnswers'' ''PRIMARY'' False,
     catalog_row ''CUSTOMER_REPORTED_SELF_RESOLVED'' ''reportSelfResolution'' ''PRIMARY'' True,
     catalog_row ''REQUEST_CONSULTATION'' ''requestConsultation'' ''SECONDARY'' False,
     catalog_row ''CLAIM_CONSULTATION'' ''claimConsultation'' ''PRIMARY'' False,
     catalog_row ''START_CONSULTATION'' ''startConsultation'' ''PRIMARY'' False,
     catalog_row ''UPDATE_CONSULTATION_SUMMARY'' ''updateConsultationSummary'' ''SECONDARY'' False,
     catalog_row ''CONFIRM_CONSULTATION_SUMMARY'' ''confirmConsultationSummary'' ''PRIMARY'' True,
     catalog_row ''CONSULTATION_COMPLETED'' ''completeConsultation'' ''PRIMARY'' True,
     catalog_row ''VISIT_REVIEW_REQUIRED'' ''requestVisitReview'' ''SECONDARY'' False,
     catalog_row ''VISIT_NEEDED'' ''createVisitRequest'' ''PRIMARY'' True,
     catalog_row ''UPDATE_VISIT_SCHEDULE'' ''updateVisitSchedule'' ''SECONDARY'' False,
     catalog_row ''CONFIRM_VISIT'' ''confirmVisit'' ''PRIMARY'' True,
     catalog_row ''UPDATE_PREVISIT_REPORT'' ''updatePrevisitReport'' ''SECONDARY'' False,
     catalog_row ''CONFIRM_PREVISIT_REPORT'' ''confirmPrevisitReport'' ''PRIMARY'' True,
     catalog_row ''START_VISIT'' ''startVisit'' ''PRIMARY'' True,
     catalog_row ''VISIT_COMPLETED'' ''completeVisit'' ''PRIMARY'' True,
     catalog_row ''REVISIT_NEEDED'' ''requestRevisit'' ''SECONDARY'' True,
     catalog_row ''SUBMIT_RESOLUTION_FEEDBACK'' ''submitResolutionFeedback'' ''PRIMARY'' False,
     catalog_row ''CUSTOMER_REPORTED_UNRESOLVED'' ''reportUnresolved'' ''SECONDARY'' False,
     catalog_row ''RESUME_CONSULTATION'' ''resumeConsultation'' ''PRIMARY'' False,
     catalog_row ''FINALIZE_INQUIRY'' ''finalizeInquiry'' ''PRIMARY'' True,
     catalog_row ''VISIT_NOT_NEEDED'' ''markVisitNotNeeded'' ''SECONDARY'' True]"

definition state_role_actions :: "(string \<times> (string \<times> assignment list) list) list" where
  "state_role_actions = [
     (''DRAFT'', [
       (''CUSTOMER'', [\<lparr>as_action = ''SUBMIT_SYMPTOM'', as_rule_ids = [''TR-INQ-002'']\<rparr>,
         \<lparr>as_action = ''CANCEL_INQUIRY'', as_rule_ids = [''TR-INQ-004'']\<rparr>]),
       (''CONSULTANT'', [\<lparr>as_action = ''CANCEL_INQUIRY'', as_rule_ids = [''TR-INQ-004'']\<rparr>]),
       (''OPERATOR'', [\<lparr>as_action = ''CANCEL_INQUIRY'', as_rule_ids = [''TR-INQ-004'']\<rparr>])]),
     (''QUESTIONNAIRE_IN_PROGRESS'', [
       (''CUSTOMER'', [\<lparr>as_action = ''SUBMIT_ANSWERS'', as_rule_ids = [''TR-INQ-003'']\<rparr>,
         \<lparr>as_action = ''CANCEL_INQUIRY'', as_rule_ids = [''TR-INQ-005'']\<rparr>]),
       (''CONSULTANT'', [\<lparr>as_action = ''CANCEL_INQUIRY'', as_rule_ids = [''TR-INQ-005'']\<rparr>]),
       (''OPERATOR'', [\<lparr>as_action = ''CANCEL_INQUIRY'', as_rule_ids = [''TR-INQ-005'']\<rparr>])]),
     (''AI_GUIDANCE'', [
       (''CUSTOMER'', [\<lparr>as_action = ''CUSTOMER_REPORTED_SELF_RESOLVED'', as_rule_ids = [''TR-INQ-011'']\<rparr>,
         \<lparr>as_action = ''REQUEST_CONSULTATION'', as_rule_ids = [''TR-INQ-012'']\<rparr>])]),
     (''CONSULTATION_REQUIRED'', [
       (''CUSTOMER'', [\<lparr>as_action = ''REQUEST_CONSULTATION'', as_rule_ids = [''TR-INQ-013'']\<rparr>,
         \<lparr>as_action = ''CANCEL_INQUIRY'', as_rule_ids = [''TR-INQ-038'']\<rparr>]),
       (''CONSULTANT'', [\<lparr>as_action = ''CLAIM_CONSULTATION'', as_rule_ids = [''TR-INQ-037'']\<rparr>,
         \<lparr>as_action = ''START_CONSULTATION'', as_rule_ids = [''TR-INQ-014'']\<rparr>,
         \<lparr>as_action = ''CANCEL_INQUIRY'', as_rule_ids = [''TR-INQ-038'']\<rparr>]),
       (''OPERATOR'', [\<lparr>as_action = ''CANCEL_INQUIRY'', as_rule_ids = [''TR-INQ-038'']\<rparr>])]),
     (''CONSULTATION_IN_PROGRESS'', [
       (''CUSTOMER'', [\<lparr>as_action = ''CANCEL_INQUIRY'', as_rule_ids = [''TR-INQ-039'']\<rparr>]),
       (''CONSULTANT'', [\<lparr>as_action = ''UPDATE_CONSULTATION_SUMMARY'', as_rule_ids = [''TR-INQ-015'']\<rparr>,
         \<lparr>as_action = ''CONFIRM_CONSULTATION_SUMMARY'', as_rule_ids = [''TR-INQ-016'']\<rparr>,
         \<lparr>as_action = ''CONSULTATION_COMPLETED'', as_rule_ids = [''TR-INQ-017'']\<rparr>,
         \<lparr>as_action = ''VISIT_REVIEW_REQUIRED'', as_rule_ids = [''TR-INQ-018'']\<rparr>,
         \<lparr>as_action = ''CANCEL_INQUIRY'', as_rule_ids = [''TR-INQ-039'']\<rparr>]),
       (''OPERATOR'', [\<lparr>as_action = ''CANCEL_INQUIRY'', as_rule_ids = [''TR-INQ-039'']\<rparr>])]),
     (''VISIT_REVIEW_PENDING'', [
       (''CONSULTANT'', [\<lparr>as_action = ''VISIT_NEEDED'', as_rule_ids = [''TR-INQ-019'']\<rparr>,
         \<lparr>as_action = ''VISIT_NOT_NEEDED'', as_rule_ids = [''TR-INQ-034'']\<rparr>])]),
     (''VISIT_SCHEDULING'', [
       (''CONSULTANT'', [\<lparr>as_action = ''UPDATE_VISIT_SCHEDULE'', as_rule_ids = [''TR-INQ-020'', ''TR-INQ-021'']\<rparr>,
         \<lparr>as_action = ''CONFIRM_VISIT'', as_rule_ids = [''TR-INQ-022'']\<rparr>])]),
     (''VISIT_SCHEDULED'', [
       (''TECHNICIAN'', [\<lparr>as_action = ''UPDATE_PREVISIT_REPORT'', as_rule_ids = [''TR-INQ-023'']\<rparr>,
         \<lparr>as_action = ''CONFIRM_PREVISIT_REPORT'', as_rule_ids = [''TR-INQ-024'']\<rparr>,
         \<lparr>as_action = ''START_VISIT'', as_rule_ids = [''TR-INQ-025'']\<rparr>,
         \<lparr>as_action = ''VISIT_COMPLETED'', as_rule_ids = [''TR-INQ-026'']\<rparr>,
         \<lparr>as_action = ''REVISIT_NEEDED'', as_rule_ids = [''TR-INQ-027'']\<rparr>])]),
     (''COMPLETION_PENDING'', [
       (''CUSTOMER'', [\<lparr>as_action = ''SUBMIT_RESOLUTION_FEEDBACK'', as_rule_ids = [''TR-INQ-029'']\<rparr>,
         \<lparr>as_action = ''CUSTOMER_REPORTED_UNRESOLVED'', as_rule_ids = [''TR-INQ-030'']\<rparr>,
         \<lparr>as_action = ''REQUEST_CONSULTATION'', as_rule_ids = [''TR-INQ-031'']\<rparr>]),
       (''CONSULTANT'', [\<lparr>as_action = ''FINALIZE_INQUIRY'', as_rule_ids = [''TR-INQ-033'']\<rparr>]),
       (''TECHNICIAN'', [\<lparr>as_action = ''FINALIZE_INQUIRY'', as_rule_ids = [''TR-INQ-033'']\<rparr>])]),
     (''REVISIT_REQUIRED'', [
       (''CONSULTANT'', [\<lparr>as_action = ''UPDATE_VISIT_SCHEDULE'', as_rule_ids = [''TR-INQ-028'']\<rparr>])]),
     (''REOPENED'', [
       (''CONSULTANT'', [\<lparr>as_action = ''RESUME_CONSULTATION'', as_rule_ids = [''TR-INQ-032'']\<rparr>])]),
     (''RESOLVED'', []),
     (''CANCELLED'', [])]"

definition crosswalk :: "crosswalk_item list" where
  "crosswalk = [
     crosswalk_row ''SUBMIT_SYMPTOM'' ''submitSymptom'' ''RUNTIME_IMPLEMENTED'' True,
     crosswalk_row ''CANCEL_INQUIRY'' ''cancelInquiry'' ''RUNTIME_IMPLEMENTED'' True,
     crosswalk_row ''SUBMIT_ANSWERS'' ''submitFollowUpAnswers'' ''RUNTIME_IMPLEMENTED'' True,
     crosswalk_row ''CUSTOMER_REPORTED_SELF_RESOLVED'' ''reportSelfResolution'' ''DEFERRED'' False,
     crosswalk_row ''REQUEST_CONSULTATION'' ''requestConsultation'' ''RUNTIME_IMPLEMENTED'' True,
     crosswalk_row ''CLAIM_CONSULTATION'' ''claimConsultation'' ''RUNTIME_IMPLEMENTED'' True,
     crosswalk_row ''START_CONSULTATION'' ''startConsultation'' ''RUNTIME_IMPLEMENTED'' True,
     crosswalk_row ''UPDATE_CONSULTATION_SUMMARY'' ''updateConsultationSummary'' ''RUNTIME_IMPLEMENTED'' True,
     crosswalk_row ''CONFIRM_CONSULTATION_SUMMARY'' ''confirmConsultationSummary'' ''RUNTIME_IMPLEMENTED'' True,
     crosswalk_row ''CONSULTATION_COMPLETED'' ''completeConsultation'' ''RUNTIME_IMPLEMENTED'' True,
     crosswalk_row ''VISIT_REVIEW_REQUIRED'' ''requestVisitReview'' ''RUNTIME_IMPLEMENTED'' True,
     crosswalk_row ''VISIT_NEEDED'' ''createVisitRequest'' ''RUNTIME_IMPLEMENTED'' True,
     crosswalk_row ''UPDATE_VISIT_SCHEDULE'' ''updateVisitSchedule'' ''RUNTIME_IMPLEMENTED'' True,
     crosswalk_row ''CONFIRM_VISIT'' ''confirmVisit'' ''RUNTIME_IMPLEMENTED'' True,
     crosswalk_row ''UPDATE_PREVISIT_REPORT'' ''updatePrevisitReport'' ''DEFERRED'' False,
     crosswalk_row ''CONFIRM_PREVISIT_REPORT'' ''confirmPrevisitReport'' ''DEFERRED'' False,
     crosswalk_row ''START_VISIT'' ''startVisit'' ''OPENAPI_CONFIRMED'' False,
     crosswalk_row ''VISIT_COMPLETED'' ''completeVisit'' ''OPENAPI_CONFIRMED'' False,
     crosswalk_row ''REVISIT_NEEDED'' ''requestRevisit'' ''DEFERRED'' False,
     crosswalk_row ''SUBMIT_RESOLUTION_FEEDBACK'' ''submitResolutionFeedback'' ''RUNTIME_IMPLEMENTED'' True,
     crosswalk_row ''CUSTOMER_REPORTED_UNRESOLVED'' ''reportUnresolved'' ''RUNTIME_IMPLEMENTED'' True,
     crosswalk_row ''RESUME_CONSULTATION'' ''resumeConsultation'' ''RUNTIME_IMPLEMENTED'' True,
     crosswalk_row ''FINALIZE_INQUIRY'' ''finalizeInquiry'' ''RUNTIME_IMPLEMENTED'' True,
     crosswalk_row ''VISIT_NOT_NEEDED'' ''markVisitNotNeeded'' ''RUNTIME_IMPLEMENTED'' True]"

definition action_doc :: action_document where
  "action_doc = \<lparr>ad_catalog = action_catalog, ad_state_roles = state_role_actions\<rparr>"

text \<open>The actions the backend implements, with their event and operation.\<close>

definition runtime_actions :: "(string \<times> runtime_action) list" where
  "runtime_actions = [
     (''SUBMIT_SYMPTOM'', \<lparr>ra_event = ''SUBMIT_SYMPTOM'', ra_operation_id = ''submitSymptom''\<rparr>),
     (''CANCEL_INQUIRY'', \<lparr>ra_event = ''CANCEL_INQUIRY'', ra_operation_id = ''cancelInquiry''\<rparr>),
     (''SUBMIT_ANSWERS'', \<lparr>ra_event = ''SUBMIT_ANSWERS'', ra_operation_id = ''submitFollowUpAnswers''\<rparr>),
     (''REQUEST_CONSULTATION'', \<lparr>ra_event = ''REQUEST_CONSULTATION'', ra_operation_id = ''requestConsultation''\<rparr>),
     (''CLAIM_CONSULTATION'', \<lparr>ra_event = ''CLAIM_CONSULTATION'', ra_operation_id = ''claimConsultation''\<rparr>),
     (''START_CONSULTATION'', \<lparr>ra_event = ''START_CONSULTATION'', ra_operation_id = ''startConsultation''\<rparr>),
     (''UPDATE_CONSULTATION_SUMMARY'', \<lparr>ra_event = ''UPDATE_CONSULTATION_SUMMARY'', ra_operation_id = ''updateConsultationSummary''\<rparr>),
     (''CONFIRM_CONSULTATION_SUMMARY'', \<lparr>ra_event = ''CONFIRM_CONSULTATION_SUMMARY'', ra_operation_id = ''confirmConsultationSummary''\<rparr>),
     (''CONSULTATION_COMPLETED'', \<lparr>ra_event = ''CONSULTATION_COMPLETED'', ra_operation_id = ''completeConsultation''\<rparr>),
     (''VISIT_REVIEW_REQUIRED'', \<lparr>ra_event = ''VISIT_REVIEW_REQUIRED'', ra_operation_id = ''requestVisitReview''\<rparr>),
     (''VISIT_NEEDED'', \<lparr>ra_event = ''VISIT_NEEDED'', ra_operation_id = ''createVisitRequest''\<rparr>),
     (''UPDATE_VISIT_SCHEDULE'', \<lparr>ra_event = ''UPDATE_VISIT_SCHEDULE'', ra_operation_id = ''updateVisitSchedule''\<rparr>),
     (''CONFIRM_VISIT'', \<lparr>ra_event = ''CONFIRM_VISIT'', ra_operation_id = ''confirmVisit''\<rparr>),
     (''SUBMIT_RESOLUTION_FEEDBACK'', \<lparr>ra_event = ''SUBMIT_RESOLUTION_FEEDBACK'', ra_operation_id = ''submitResolutionFeedback''\<rparr>),
     (''CUSTOMER_REPORTED_UNRESOLVED'', \<lparr>ra_event = ''CUSTOMER_REPORTED_UNRESOLVED'', ra_operation_id = ''reportUnresolved''\<rparr>),
     (''RESUME_CONSULTATION'', \<lparr>ra_event = ''RESUME_CONSULTATION'', ra_operation_id = ''resumeConsultation''\<rparr>),
     (''FINALIZE_INQUIRY'', \<lparr>ra_event = ''FINALIZE_INQUIRY'', ra_operation_id = ''finalizeInquiry''\<rparr>),
     (''VISIT_NOT_NEEDED'', \<lparr>ra_event = ''VISIT_NOT_NEEDED'', ra_operation_id = ''markVisitNotNeeded''\<rparr>)]"

lemma runtime_actions_crosswalk: "runtime_action_contract crosswalk [] = Inr runtime_actions"
  by (simp add: crosswalk_def crosswalk_row_def runtime_actions_def has_text_iff is_space_def)

end
