(* ===== verification/ContractData.thy ===== *)
theory ContractData
  imports StateEngine
begin

text \<open>
  The approved state-machine contract, \<open>contracts/state-machine/*.yaml\<close>, as the value the engine
  loads: \<open>inquiry-states.yaml\<close>, \<open>inquiry-events.yaml\<close>, \<open>transition-rules.yaml\<close> and
  \<open>transition-guards.yaml\<close>, in the files' order. Only fields the engine reads are kept; a guard's
  Korean failure message is represented by the guard's id.
\<close>

section \<open>Visit conditions\<close>

text \<open>
  The shapes a rule's \<open>visit\<close> mapping has in the contract; a key the mapping lacks is \<open>None\<close>.
\<close>

definition visit_absent :: visit_rule where
  "visit_absent = \<lparr>vr_mode = Some ''REQUIRE_ABSENT'', vr_from_status = None,
     vr_to_status = None, vr_required_status = None\<rparr>"

definition visit_preserve :: visit_rule where
  "visit_preserve = \<lparr>vr_mode = Some ''PRESERVE'', vr_from_status = None,
     vr_to_status = None, vr_required_status = None\<rparr>"

definition visit_require :: "string \<Rightarrow> visit_rule" where
  "visit_require w = \<lparr>vr_mode = Some ''PRESERVE_REQUIRE_STATUS'', vr_from_status = None,
     vr_to_status = None, vr_required_status = Some w\<rparr>"

definition visit_create :: "string \<Rightarrow> visit_rule" where
  "visit_create w = \<lparr>vr_mode = Some ''CREATE'', vr_from_status = None,
     vr_to_status = Some (Some w), vr_required_status = None\<rparr>"

definition visit_move :: "string \<Rightarrow> string \<Rightarrow> visit_rule" where
  "visit_move v w = \<lparr>vr_mode = Some ''TRANSITION'', vr_from_status = Some v,
     vr_to_status = Some (Some w), vr_required_status = None\<rparr>"

definition history_flags :: "bool \<Rightarrow> bool \<Rightarrow> bool \<Rightarrow> history_rule" where
  "history_flags i v b = \<lparr>hr_inquiry = Some i, hr_visit = Some v, hr_business = Some b\<rparr>"

lemmas visit_shapes = visit_absent_def visit_preserve_def visit_require_def visit_create_def
  visit_move_def

section \<open>Transition rules\<close>

definition tr_inq_001 :: rule where
  "tr_inq_001 = \<lparr>
     r_id = ''TR-INQ-001'', r_event = ''START_INQUIRY'',
     r_from = None, r_to = ''DRAFT'',
     r_visit = visit_absent,
     r_history = history_flags True False True,
     r_version_action = Some (Some ''INITIALIZE_1''),
     r_guard_refs = [''G-ACTOR-CUSTOMER'', ''G-CUSTOMER-PRODUCT-OWNERSHIP'',
     ''G-IDEMPOTENCY-KEY''],
     r_effects = [''CREATE_INQUIRY'', ''LINK_OPTIONAL_QUESTIONNAIRE_SESSION'']\<rparr>"

definition tr_inq_035 :: rule where
  "tr_inq_035 = \<lparr>
     r_id = ''TR-INQ-035'', r_event = ''REGISTER_PHONE_INQUIRY'',
     r_from = None, r_to = ''CONSULTATION_REQUIRED'',
     r_visit = visit_absent,
     r_history = history_flags True False True,
     r_version_action = Some (Some ''INITIALIZE_1''),
     r_guard_refs = [''G-ACTOR-CONSULTANT'', ''G-CONSULTANT-PHONE-SUBSCRIPTION'',
     ''G-IDEMPOTENCY-KEY''],
     r_effects = [''CREATE_INQUIRY'', ''ASSIGN_CURRENT_CONSULTANT'', ''STORE_PHONE_INTAKE'',
     ''SET_REQUIRES_CONSULTATION'']\<rparr>"

definition tr_inq_002 :: rule where
  "tr_inq_002 = \<lparr>
     r_id = ''TR-INQ-002'', r_event = ''SUBMIT_SYMPTOM'',
     r_from = Some ''DRAFT'', r_to = ''QUESTIONNAIRE_IN_PROGRESS'',
     r_visit = visit_absent,
     r_history = history_flags True False True,
     r_version_action = None,
     r_guard_refs = [''G-ACTOR-CUSTOMER'', ''G-INQUIRY-OWNER'', ''G-STATE-VERSION'',
     ''G-IDEMPOTENCY-KEY'', ''G-SYMPTOM-PAYLOAD-VALID''],
     r_effects = [''STORE_CUSTOMER_SYMPTOM_INPUT'', ''MARK_QUESTIONNAIRE_SUBMITTED'',
     ''REQUEST_AI_STRUCTURING'']\<rparr>"

definition tr_inq_003 :: rule where
  "tr_inq_003 = \<lparr>
     r_id = ''TR-INQ-003'', r_event = ''SUBMIT_ANSWERS'',
     r_from = Some ''QUESTIONNAIRE_IN_PROGRESS'', r_to = ''QUESTIONNAIRE_IN_PROGRESS'',
     r_visit = visit_absent,
     r_history = history_flags False False True,
     r_version_action = None,
     r_guard_refs = [''G-ACTOR-CUSTOMER'', ''G-INQUIRY-OWNER'', ''G-STATE-VERSION'',
     ''G-IDEMPOTENCY-KEY'', ''G-FOLLOWUP-ANSWERS-VALID''],
     r_effects = [''APPEND_QUESTIONNAIRE_ANSWERS'', ''REQUEST_AI_REEVALUATION'']\<rparr>"

definition tr_inq_004 :: rule where
  "tr_inq_004 = \<lparr>
     r_id = ''TR-INQ-004'', r_event = ''CANCEL_INQUIRY'',
     r_from = Some ''DRAFT'', r_to = ''CANCELLED'',
     r_visit = visit_absent,
     r_history = history_flags True False True,
     r_version_action = None,
     r_guard_refs = [''G-CANCEL-ACTOR-AUTHORIZED'', ''G-STATE-VERSION'', ''G-IDEMPOTENCY-KEY'',
     ''G-CANCELLATION-REASON''],
     r_effects = [''CANCEL_ACTIVE_AI_PROCESS_IF_PRESENT'', ''SET_CANCELLED_AT'']\<rparr>"

definition tr_inq_005 :: rule where
  "tr_inq_005 = \<lparr>
     r_id = ''TR-INQ-005'', r_event = ''CANCEL_INQUIRY'',
     r_from = Some ''QUESTIONNAIRE_IN_PROGRESS'', r_to = ''CANCELLED'',
     r_visit = visit_absent,
     r_history = history_flags True False True,
     r_version_action = None,
     r_guard_refs = [''G-CANCEL-ACTOR-AUTHORIZED'', ''G-STATE-VERSION'', ''G-IDEMPOTENCY-KEY'',
     ''G-CANCELLATION-REASON''],
     r_effects = [''CANCEL_ACTIVE_AI_PROCESS_IF_PRESENT'', ''SET_CANCELLED_AT'']\<rparr>"

definition tr_inq_006 :: rule where
  "tr_inq_006 = \<lparr>
     r_id = ''TR-INQ-006'', r_event = ''PRODUCT_VALIDATION_FAILED'',
     r_from = Some ''DRAFT'', r_to = ''CONSULTATION_REQUIRED'',
     r_visit = visit_absent,
     r_history = history_flags True False True,
     r_version_action = None,
     r_guard_refs = [''G-ACTOR-SYSTEM'', ''G-STATE-VERSION'', ''G-PRODUCT-VALIDATION-FAILED''],
     r_effects = [''BLOCK_AI_AND_RAG'', ''PRESERVE_CUSTOMER_INPUT'',
     ''SET_REQUIRES_CONSULTATION'', ''SET_USAGE_GUIDANCE_PENDING_CONSULTATION'']\<rparr>"

definition tr_inq_007 :: rule where
  "tr_inq_007 = \<lparr>
     r_id = ''TR-INQ-007'', r_event = ''PRODUCT_VALIDATION_FAILED'',
     r_from = Some ''QUESTIONNAIRE_IN_PROGRESS'', r_to = ''CONSULTATION_REQUIRED'',
     r_visit = visit_absent,
     r_history = history_flags True False True,
     r_version_action = None,
     r_guard_refs = [''G-ACTOR-SYSTEM'', ''G-STATE-VERSION'', ''G-PRODUCT-VALIDATION-FAILED''],
     r_effects = [''BLOCK_AI_AND_RAG'', ''PRESERVE_CUSTOMER_INPUT'',
     ''SET_REQUIRES_CONSULTATION'', ''SET_USAGE_GUIDANCE_PENDING_CONSULTATION'']\<rparr>"

definition tr_inq_008 :: rule where
  "tr_inq_008 = \<lparr>
     r_id = ''TR-INQ-008'', r_event = ''SAFE_GUIDANCE_READY'',
     r_from = Some ''QUESTIONNAIRE_IN_PROGRESS'', r_to = ''AI_GUIDANCE'',
     r_visit = visit_absent,
     r_history = history_flags True False True,
     r_version_action = None,
     r_guard_refs = [''G-ACTOR-SYSTEM'', ''G-STATE-VERSION'', ''G-SAFE-GUIDANCE-VALID'',
     ''G-OFFICIAL-EVIDENCE-AVAILABLE'', ''G-NO-DANGER-CONFLICT''],
     r_effects = [''STORE_VALIDATED_GUIDANCE'', ''STORE_VALIDATED_EVIDENCE_REFERENCES'']\<rparr>"

definition tr_inq_040 :: rule where
  "tr_inq_040 = \<lparr>
     r_id = ''TR-INQ-040'', r_event = ''HUMAN_REVIEW_GUIDANCE_APPROVED'',
     r_from = Some ''QUESTIONNAIRE_IN_PROGRESS'', r_to = ''AI_GUIDANCE'',
     r_visit = visit_absent,
     r_history = history_flags True False True,
     r_version_action = None,
     r_guard_refs = [''G-ACTOR-SYSTEM'', ''G-STATE-VERSION'',
     ''G-HUMAN-REVIEW-GUIDANCE-APPROVED''],
     r_effects = [''STORE_HUMAN_APPROVED_GUIDANCE'', ''STORE_VALIDATED_EVIDENCE_REFERENCES'',
     ''SET_EFFECTIVE_REQUIRES_CONSULTATION_FALSE'']\<rparr>"

definition tr_inq_041 :: rule where
  "tr_inq_041 = \<lparr>
     r_id = ''TR-INQ-041'', r_event = ''HUMAN_REVIEW_CONSULTATION_REQUIRED'',
     r_from = Some ''QUESTIONNAIRE_IN_PROGRESS'', r_to = ''CONSULTATION_REQUIRED'',
     r_visit = visit_absent,
     r_history = history_flags True False True,
     r_version_action = None,
     r_guard_refs = [''G-ACTOR-SYSTEM'', ''G-STATE-VERSION'',
     ''G-HUMAN-REVIEW-CONSULTATION-REQUIRED''],
     r_effects = [''STORE_HUMAN_APPROVED_GUIDANCE'', ''STORE_VALIDATED_EVIDENCE_REFERENCES'',
     ''SET_EFFECTIVE_REQUIRES_CONSULTATION_TRUE'', ''UPSERT_CONSULTATION_REQUEST'']\<rparr>"

definition tr_inq_042 :: rule where
  "tr_inq_042 = \<lparr>
     r_id = ''TR-INQ-042'', r_event = ''HUMAN_REVIEW_REJECTED'',
     r_from = Some ''QUESTIONNAIRE_IN_PROGRESS'', r_to = ''CONSULTATION_REQUIRED'',
     r_visit = visit_absent,
     r_history = history_flags True False True,
     r_version_action = None,
     r_guard_refs = [''G-ACTOR-SYSTEM'', ''G-STATE-VERSION'', ''G-HUMAN-REVIEW-REJECTED''],
     r_effects = [''HIDE_REJECTED_GUIDANCE'', ''SET_EFFECTIVE_REQUIRES_CONSULTATION_TRUE'',
     ''UPSERT_CONSULTATION_REQUEST'']\<rparr>"

definition tr_inq_009 :: rule where
  "tr_inq_009 = \<lparr>
     r_id = ''TR-INQ-009'', r_event = ''DANGER_DETECTED'',
     r_from = Some ''QUESTIONNAIRE_IN_PROGRESS'', r_to = ''CONSULTATION_REQUIRED'',
     r_visit = visit_absent,
     r_history = history_flags True False True,
     r_version_action = None,
     r_guard_refs = [''G-ACTOR-SYSTEM'', ''G-STATE-VERSION'', ''G-DANGER-ASSESSMENT-VALID''],
     r_effects = [''BLOCK_GENERAL_SELF_GUIDANCE'', ''SET_REQUIRES_CONSULTATION'',
     ''STORE_USAGE_RESTRICTION'']\<rparr>"

definition tr_inq_010 :: rule where
  "tr_inq_010 = \<lparr>
     r_id = ''TR-INQ-010'', r_event = ''NO_EVIDENCE'',
     r_from = Some ''QUESTIONNAIRE_IN_PROGRESS'', r_to = ''CONSULTATION_REQUIRED'',
     r_visit = visit_absent,
     r_history = history_flags True False True,
     r_version_action = None,
     r_guard_refs = [''G-ACTOR-SYSTEM'', ''G-STATE-VERSION'', ''G-NO-USABLE-EVIDENCE''],
     r_effects = [''BLOCK_UNGROUNDED_GUIDANCE'', ''SET_REQUIRES_CONSULTATION'',
     ''SET_USAGE_GUIDANCE_PENDING_CONSULTATION'']\<rparr>"

definition tr_inq_036 :: rule where
  "tr_inq_036 = \<lparr>
     r_id = ''TR-INQ-036'', r_event = ''AI_PROCESSING_TIMEOUT'',
     r_from = Some ''QUESTIONNAIRE_IN_PROGRESS'', r_to = ''CONSULTATION_REQUIRED'',
     r_visit = visit_absent,
     r_history = history_flags True False True,
     r_version_action = None,
     r_guard_refs = [''G-ACTOR-SYSTEM'', ''G-STATE-VERSION'',
     ''G-AI-PROCESSING-TIMEOUT-VALID''],
     r_effects = [''PRESERVE_CUSTOMER_INPUT'', ''SET_REQUIRES_CONSULTATION'',
     ''SET_USAGE_GUIDANCE_PENDING_CONSULTATION'', ''DO_NOT_CREATE_CONSULTATION'']\<rparr>"

definition tr_inq_011 :: rule where
  "tr_inq_011 = \<lparr>
     r_id = ''TR-INQ-011'', r_event = ''CUSTOMER_REPORTED_SELF_RESOLVED'',
     r_from = Some ''AI_GUIDANCE'', r_to = ''RESOLVED'',
     r_visit = visit_absent,
     r_history = history_flags True False True,
     r_version_action = None,
     r_guard_refs = [''G-ACTOR-CUSTOMER'', ''G-INQUIRY-OWNER'', ''G-STATE-VERSION'',
     ''G-IDEMPOTENCY-KEY'', ''G-SELF-RESOLUTION-ALLOWED''],
     r_effects = [''STORE_SELF_RESOLUTION_RESULT'', ''SET_RESOLVED_AT'',
     ''SET_COMPLETION_SOURCE_SELF_SERVICE'']\<rparr>"

definition tr_inq_012 :: rule where
  "tr_inq_012 = \<lparr>
     r_id = ''TR-INQ-012'', r_event = ''REQUEST_CONSULTATION'',
     r_from = Some ''AI_GUIDANCE'', r_to = ''CONSULTATION_REQUIRED'',
     r_visit = visit_absent,
     r_history = history_flags True False True,
     r_version_action = None,
     r_guard_refs = [''G-ACTOR-CUSTOMER'', ''G-INQUIRY-OWNER'', ''G-STATE-VERSION'',
     ''G-IDEMPOTENCY-KEY''],
     r_effects = [''UPSERT_CONSULTATION_REQUEST'']\<rparr>"

definition tr_inq_013 :: rule where
  "tr_inq_013 = \<lparr>
     r_id = ''TR-INQ-013'', r_event = ''REQUEST_CONSULTATION'',
     r_from = Some ''CONSULTATION_REQUIRED'', r_to = ''CONSULTATION_REQUIRED'',
     r_visit = visit_absent,
     r_history = history_flags False False True,
     r_version_action = None,
     r_guard_refs = [''G-ACTOR-CUSTOMER'', ''G-INQUIRY-OWNER'', ''G-STATE-VERSION'',
     ''G-IDEMPOTENCY-KEY''],
     r_effects = [''RECORD_CUSTOMER_CONSULTATION_CONFIRMATION'',
     ''UPSERT_CONSULTATION_REQUEST'']\<rparr>"

definition tr_inq_014 :: rule where
  "tr_inq_014 = \<lparr>
     r_id = ''TR-INQ-014'', r_event = ''START_CONSULTATION'',
     r_from = Some ''CONSULTATION_REQUIRED'', r_to = ''CONSULTATION_IN_PROGRESS'',
     r_visit = visit_preserve,
     r_history = history_flags True False True,
     r_version_action = None,
     r_guard_refs = [''G-ACTOR-CONSULTANT'', ''G-ASSIGNED-CONSULTANT'', ''G-STATE-VERSION'',
     ''G-IDEMPOTENCY-KEY''],
     r_effects = [''SET_CONSULTATION_STARTED_AT'']\<rparr>"

definition tr_inq_015 :: rule where
  "tr_inq_015 = \<lparr>
     r_id = ''TR-INQ-015'', r_event = ''UPDATE_CONSULTATION_SUMMARY'',
     r_from = Some ''CONSULTATION_IN_PROGRESS'', r_to = ''CONSULTATION_IN_PROGRESS'',
     r_visit = visit_preserve,
     r_history = history_flags False False True,
     r_version_action = None,
     r_guard_refs = [''G-ACTOR-CONSULTANT'', ''G-ASSIGNED-CONSULTANT'', ''G-STATE-VERSION'',
     ''G-IDEMPOTENCY-KEY'', ''G-CONSULTATION-SUMMARY-PAYLOAD-VALID''],
     r_effects = [''UPDATE_CONSULTANT_EDITED_SUMMARY'']\<rparr>"

definition tr_inq_016 :: rule where
  "tr_inq_016 = \<lparr>
     r_id = ''TR-INQ-016'', r_event = ''CONFIRM_CONSULTATION_SUMMARY'',
     r_from = Some ''CONSULTATION_IN_PROGRESS'', r_to = ''CONSULTATION_IN_PROGRESS'',
     r_visit = visit_preserve,
     r_history = history_flags False False True,
     r_version_action = None,
     r_guard_refs = [''G-ACTOR-CONSULTANT'', ''G-ASSIGNED-CONSULTANT'', ''G-STATE-VERSION'',
     ''G-IDEMPOTENCY-KEY'', ''G-CONSULTATION-SUMMARY-CONFIRMABLE''],
     r_effects = [''CONFIRM_CONSULTANT_SUMMARY'']\<rparr>"

definition tr_inq_017 :: rule where
  "tr_inq_017 = \<lparr>
     r_id = ''TR-INQ-017'', r_event = ''CONSULTATION_COMPLETED'',
     r_from = Some ''CONSULTATION_IN_PROGRESS'', r_to = ''COMPLETION_PENDING'',
     r_visit = visit_preserve,
     r_history = history_flags True False True,
     r_version_action = None,
     r_guard_refs = [''G-ACTOR-CONSULTANT'', ''G-ASSIGNED-CONSULTANT'', ''G-STATE-VERSION'',
     ''G-IDEMPOTENCY-KEY'', ''G-CONSULTATION-RESULT-COMPLETE''],
     r_effects = [''SET_CONSULTATION_COMPLETED_AT'', ''SET_COMPLETION_SOURCE_CONSULTATION'',
     ''CLEAR_PREVIOUS_RESOLUTION_FEEDBACK'']\<rparr>"

definition tr_inq_018 :: rule where
  "tr_inq_018 = \<lparr>
     r_id = ''TR-INQ-018'', r_event = ''VISIT_REVIEW_REQUIRED'',
     r_from = Some ''CONSULTATION_IN_PROGRESS'', r_to = ''VISIT_REVIEW_PENDING'',
     r_visit = visit_absent,
     r_history = history_flags True False True,
     r_version_action = None,
     r_guard_refs = [''G-ACTOR-CONSULTANT'', ''G-ASSIGNED-CONSULTANT'', ''G-STATE-VERSION'',
     ''G-IDEMPOTENCY-KEY'', ''G-VISIT-REVIEW-PAYLOAD-VALID''],
     r_effects = [''STORE_VISIT_REVIEW_REASON'']\<rparr>"

definition tr_inq_019 :: rule where
  "tr_inq_019 = \<lparr>
     r_id = ''TR-INQ-019'', r_event = ''VISIT_NEEDED'',
     r_from = Some ''VISIT_REVIEW_PENDING'', r_to = ''VISIT_SCHEDULING'',
     r_visit = (visit_create ''ASSIGNING''),
     r_history = history_flags True True True,
     r_version_action = None,
     r_guard_refs = [''G-ACTOR-CONSULTANT'', ''G-ASSIGNED-CONSULTANT'', ''G-STATE-VERSION'',
     ''G-IDEMPOTENCY-KEY'', ''G-VISIT-HANDOFF-COMPLETE''],
     r_effects = [''CREATE_VISIT_REQUEST'', ''STORE_CUSTOMER_PREFERRED_DATE'',
     ''STORE_VISIT_HANDOFF'']\<rparr>"

definition tr_inq_020 :: rule where
  "tr_inq_020 = \<lparr>
     r_id = ''TR-INQ-020'', r_event = ''UPDATE_VISIT_SCHEDULE'',
     r_from = Some ''VISIT_SCHEDULING'', r_to = ''VISIT_SCHEDULING'',
     r_visit = (visit_move ''ASSIGNING'' ''SCHEDULING''),
     r_history = history_flags False True True,
     r_version_action = None,
     r_guard_refs = [''G-ACTOR-CONSULTANT'', ''G-ASSIGNED-CONSULTANT'', ''G-STATE-VERSION'',
     ''G-IDEMPOTENCY-KEY'', ''G-VISIT-SCHEDULE-PAYLOAD-VALID''],
     r_effects = [''UPDATE_VISIT_ASSIGNMENT_AND_SCHEDULE'']\<rparr>"

definition tr_inq_021 :: rule where
  "tr_inq_021 = \<lparr>
     r_id = ''TR-INQ-021'', r_event = ''UPDATE_VISIT_SCHEDULE'',
     r_from = Some ''VISIT_SCHEDULING'', r_to = ''VISIT_SCHEDULING'',
     r_visit = (visit_move ''SCHEDULING'' ''SCHEDULING''),
     r_history = history_flags False False True,
     r_version_action = None,
     r_guard_refs = [''G-ACTOR-CONSULTANT'', ''G-ASSIGNED-CONSULTANT'', ''G-STATE-VERSION'',
     ''G-IDEMPOTENCY-KEY'', ''G-VISIT-SCHEDULE-PAYLOAD-VALID''],
     r_effects = [''UPDATE_VISIT_ASSIGNMENT_AND_SCHEDULE'']\<rparr>"

definition tr_inq_022 :: rule where
  "tr_inq_022 = \<lparr>
     r_id = ''TR-INQ-022'', r_event = ''CONFIRM_VISIT'',
     r_from = Some ''VISIT_SCHEDULING'', r_to = ''VISIT_SCHEDULED'',
     r_visit = (visit_move ''SCHEDULING'' ''CONFIRMED''),
     r_history = history_flags True True True,
     r_version_action = None,
     r_guard_refs = [''G-ACTOR-CONSULTANT'', ''G-ASSIGNED-CONSULTANT'', ''G-STATE-VERSION'',
     ''G-IDEMPOTENCY-KEY'', ''G-CONFIRMED-VISIT-DATE'', ''G-ASSIGNED-TECHNICIAN-PRESENT''],
     r_effects = [''SET_VISIT_CONFIRMED_AT'']\<rparr>"

definition tr_inq_023 :: rule where
  "tr_inq_023 = \<lparr>
     r_id = ''TR-INQ-023'', r_event = ''UPDATE_PREVISIT_REPORT'',
     r_from = Some ''VISIT_SCHEDULED'', r_to = ''VISIT_SCHEDULED'',
     r_visit = (visit_require ''CONFIRMED''),
     r_history = history_flags False False True,
     r_version_action = None,
     r_guard_refs = [''G-ACTOR-TECHNICIAN'', ''G-ASSIGNED-TECHNICIAN'', ''G-STATE-VERSION'',
     ''G-IDEMPOTENCY-KEY'', ''G-PREVISIT-REPORT-PAYLOAD-VALID''],
     r_effects = [''UPDATE_TECHNICIAN_EDITED_REPORT'']\<rparr>"

definition tr_inq_024 :: rule where
  "tr_inq_024 = \<lparr>
     r_id = ''TR-INQ-024'', r_event = ''CONFIRM_PREVISIT_REPORT'',
     r_from = Some ''VISIT_SCHEDULED'', r_to = ''VISIT_SCHEDULED'',
     r_visit = (visit_require ''CONFIRMED''),
     r_history = history_flags False False True,
     r_version_action = None,
     r_guard_refs = [''G-ACTOR-TECHNICIAN'', ''G-ASSIGNED-TECHNICIAN'', ''G-STATE-VERSION'',
     ''G-IDEMPOTENCY-KEY'', ''G-PREVISIT-REPORT-CONFIRMABLE''],
     r_effects = [''CONFIRM_TECHNICIAN_REPORT'']\<rparr>"

definition tr_inq_025 :: rule where
  "tr_inq_025 = \<lparr>
     r_id = ''TR-INQ-025'', r_event = ''START_VISIT'',
     r_from = Some ''VISIT_SCHEDULED'', r_to = ''VISIT_SCHEDULED'',
     r_visit = (visit_move ''CONFIRMED'' ''IN_PROGRESS''),
     r_history = history_flags False True True,
     r_version_action = None,
     r_guard_refs = [''G-ACTOR-TECHNICIAN'', ''G-ASSIGNED-TECHNICIAN'', ''G-STATE-VERSION'',
     ''G-IDEMPOTENCY-KEY''],
     r_effects = [''SET_VISIT_STARTED_AT'']\<rparr>"

definition tr_inq_026 :: rule where
  "tr_inq_026 = \<lparr>
     r_id = ''TR-INQ-026'', r_event = ''VISIT_COMPLETED'',
     r_from = Some ''VISIT_SCHEDULED'', r_to = ''COMPLETION_PENDING'',
     r_visit = (visit_move ''IN_PROGRESS'' ''COMPLETED''),
     r_history = history_flags True True True,
     r_version_action = None,
     r_guard_refs = [''G-ACTOR-TECHNICIAN'', ''G-ASSIGNED-TECHNICIAN'', ''G-STATE-VERSION'',
     ''G-IDEMPOTENCY-KEY'', ''G-VISIT-RESULT-COMPLETE''],
     r_effects = [''STORE_VISIT_RESULT'', ''SET_VISIT_COMPLETED_AT'',
     ''SET_COMPLETION_SOURCE_VISIT'', ''UPDATE_CARE_HISTORY'',
     ''CLEAR_PREVIOUS_RESOLUTION_FEEDBACK'']\<rparr>"

definition tr_inq_027 :: rule where
  "tr_inq_027 = \<lparr>
     r_id = ''TR-INQ-027'', r_event = ''REVISIT_NEEDED'',
     r_from = Some ''VISIT_SCHEDULED'', r_to = ''REVISIT_REQUIRED'',
     r_visit = (visit_move ''IN_PROGRESS'' ''FOLLOW_UP_REQUIRED''),
     r_history = history_flags True True True,
     r_version_action = None,
     r_guard_refs = [''G-ACTOR-TECHNICIAN'', ''G-ASSIGNED-TECHNICIAN'', ''G-STATE-VERSION'',
     ''G-IDEMPOTENCY-KEY'', ''G-REVISIT-REASON''],
     r_effects = [''STORE_REVISIT_REASON'']\<rparr>"

definition tr_inq_028 :: rule where
  "tr_inq_028 = \<lparr>
     r_id = ''TR-INQ-028'', r_event = ''UPDATE_VISIT_SCHEDULE'',
     r_from = Some ''REVISIT_REQUIRED'', r_to = ''VISIT_SCHEDULING'',
     r_visit = (visit_move ''FOLLOW_UP_REQUIRED'' ''SCHEDULING''),
     r_history = history_flags True True True,
     r_version_action = None,
     r_guard_refs = [''G-ACTOR-CONSULTANT'', ''G-ASSIGNED-CONSULTANT'', ''G-STATE-VERSION'',
     ''G-IDEMPOTENCY-KEY'', ''G-VISIT-SCHEDULE-PAYLOAD-VALID''],
     r_effects = [''UPDATE_REVISIT_SCHEDULE'']\<rparr>"

definition tr_inq_029 :: rule where
  "tr_inq_029 = \<lparr>
     r_id = ''TR-INQ-029'', r_event = ''SUBMIT_RESOLUTION_FEEDBACK'',
     r_from = Some ''COMPLETION_PENDING'', r_to = ''COMPLETION_PENDING'',
     r_visit = visit_preserve,
     r_history = history_flags False False True,
     r_version_action = None,
     r_guard_refs = [''G-ACTOR-CUSTOMER'', ''G-INQUIRY-OWNER'', ''G-STATE-VERSION'',
     ''G-IDEMPOTENCY-KEY'', ''G-NO-FRESH-RESOLVED-CUSTOMER-FEEDBACK'',
     ''G-RESOLUTION-FEEDBACK-RESOLVED''],
     r_effects = [''STORE_RESOLVED_CUSTOMER_FEEDBACK'']\<rparr>"

definition tr_inq_030 :: rule where
  "tr_inq_030 = \<lparr>
     r_id = ''TR-INQ-030'', r_event = ''CUSTOMER_REPORTED_UNRESOLVED'',
     r_from = Some ''COMPLETION_PENDING'', r_to = ''REOPENED'',
     r_visit = visit_preserve,
     r_history = history_flags True False True,
     r_version_action = None,
     r_guard_refs = [''G-ACTOR-CUSTOMER'', ''G-INQUIRY-OWNER'', ''G-STATE-VERSION'',
     ''G-IDEMPOTENCY-KEY'', ''G-UNRESOLVED-FEEDBACK-VALID''],
     r_effects = [''STORE_UNRESOLVED_CUSTOMER_FEEDBACK'', ''CLEAR_FINALIZATION_ELIGIBILITY'']\<rparr>"

definition tr_inq_031 :: rule where
  "tr_inq_031 = \<lparr>
     r_id = ''TR-INQ-031'', r_event = ''REQUEST_CONSULTATION'',
     r_from = Some ''COMPLETION_PENDING'', r_to = ''CONSULTATION_REQUIRED'',
     r_visit = visit_preserve,
     r_history = history_flags True False True,
     r_version_action = None,
     r_guard_refs = [''G-ACTOR-CUSTOMER'', ''G-INQUIRY-OWNER'', ''G-STATE-VERSION'',
     ''G-IDEMPOTENCY-KEY'', ''G-NO-FRESH-RESOLVED-CUSTOMER-FEEDBACK''],
     r_effects = [''UPSERT_CONSULTATION_REQUEST'', ''CLEAR_FINALIZATION_ELIGIBILITY'']\<rparr>"

definition tr_inq_032 :: rule where
  "tr_inq_032 = \<lparr>
     r_id = ''TR-INQ-032'', r_event = ''RESUME_CONSULTATION'',
     r_from = Some ''REOPENED'', r_to = ''CONSULTATION_REQUIRED'',
     r_visit = visit_preserve,
     r_history = history_flags True False True,
     r_version_action = None,
     r_guard_refs = [''G-ACTOR-CONSULTANT'', ''G-STATE-VERSION'', ''G-IDEMPOTENCY-KEY''],
     r_effects = [''RESTORE_TO_CONSULTATION_QUEUE'']\<rparr>"

definition tr_inq_033 :: rule where
  "tr_inq_033 = \<lparr>
     r_id = ''TR-INQ-033'', r_event = ''FINALIZE_INQUIRY'',
     r_from = Some ''COMPLETION_PENDING'', r_to = ''RESOLVED'',
     r_visit = visit_preserve,
     r_history = history_flags True False True,
     r_version_action = None,
     r_guard_refs = [''G-ACTOR-LAST-HANDLER'', ''G-STATE-VERSION'', ''G-IDEMPOTENCY-KEY'',
     ''G-RESOLVED-CUSTOMER-FEEDBACK-EXISTS'', ''G-FINALIZATION-PAYLOAD-VALID''],
     r_effects = [''SET_RESOLVED_AT'', ''STORE_FINALIZED_BY'']\<rparr>"

definition tr_inq_034 :: rule where
  "tr_inq_034 = \<lparr>
     r_id = ''TR-INQ-034'', r_event = ''VISIT_NOT_NEEDED'',
     r_from = Some ''VISIT_REVIEW_PENDING'', r_to = ''COMPLETION_PENDING'',
     r_visit = visit_absent,
     r_history = history_flags True False True,
     r_version_action = None,
     r_guard_refs = [''G-ACTOR-CONSULTANT'', ''G-ASSIGNED-CONSULTANT'', ''G-STATE-VERSION'',
     ''G-IDEMPOTENCY-KEY'', ''G-VISIT-NOT-NEEDED-RESULT-COMPLETE''],
     r_effects = [''STORE_VISIT_NOT_NEEDED_REASON'',
     ''SET_CONSULTATION_RESULT_COMPLETED_NO_VISIT'', ''SET_CONSULTATION_COMPLETED_AT'',
     ''SET_COMPLETION_SOURCE_CONSULTATION'', ''CLEAR_PREVIOUS_RESOLUTION_FEEDBACK'']\<rparr>"

definition tr_inq_037 :: rule where
  "tr_inq_037 = \<lparr>
     r_id = ''TR-INQ-037'', r_event = ''CLAIM_CONSULTATION'',
     r_from = Some ''CONSULTATION_REQUIRED'', r_to = ''CONSULTATION_REQUIRED'',
     r_visit = visit_preserve,
     r_history = history_flags False False True,
     r_version_action = None,
     r_guard_refs = [''G-ACTOR-CONSULTANT'', ''G-UNASSIGNED-CONSULTATION-CLAIMABLE'',
     ''G-STATE-VERSION'', ''G-IDEMPOTENCY-KEY''],
     r_effects = [''ASSIGN_CURRENT_CONSULTANT'', ''ASSIGN_WAITING_CONSULTATION'']\<rparr>"

definition tr_inq_038 :: rule where
  "tr_inq_038 = \<lparr>
     r_id = ''TR-INQ-038'', r_event = ''CANCEL_INQUIRY'',
     r_from = Some ''CONSULTATION_REQUIRED'', r_to = ''CANCELLED'',
     r_visit = visit_absent,
     r_history = history_flags True False True,
     r_version_action = None,
     r_guard_refs = [''G-CANCEL-ACTOR-AUTHORIZED'', ''G-STATE-VERSION'', ''G-IDEMPOTENCY-KEY'',
     ''G-CANCELLATION-REASON''],
     r_effects = [''CANCEL_ACTIVE_AI_PROCESS_IF_PRESENT'',
     ''CANCEL_ACTIVE_CONSULTATION_IF_PRESENT'', ''SET_CANCELLED_AT'']\<rparr>"

definition tr_inq_039 :: rule where
  "tr_inq_039 = \<lparr>
     r_id = ''TR-INQ-039'', r_event = ''CANCEL_INQUIRY'',
     r_from = Some ''CONSULTATION_IN_PROGRESS'', r_to = ''CANCELLED'',
     r_visit = visit_absent,
     r_history = history_flags True False True,
     r_version_action = None,
     r_guard_refs = [''G-CANCEL-ACTOR-AUTHORIZED'', ''G-STATE-VERSION'', ''G-IDEMPOTENCY-KEY'',
     ''G-CANCELLATION-REASON''],
     r_effects = [''CANCEL_ACTIVE_AI_PROCESS_IF_PRESENT'',
     ''CANCEL_ACTIVE_CONSULTATION_IF_PRESENT'', ''SET_CANCELLED_AT'']\<rparr>"

definition waterbridge_rules :: "rule list" where
  "waterbridge_rules = [
     tr_inq_001, tr_inq_035, tr_inq_002, tr_inq_003, tr_inq_004, tr_inq_005, tr_inq_006,
     tr_inq_007, tr_inq_008, tr_inq_040, tr_inq_041, tr_inq_042, tr_inq_009, tr_inq_010,
     tr_inq_036, tr_inq_011, tr_inq_012, tr_inq_013, tr_inq_014, tr_inq_015, tr_inq_016,
     tr_inq_017, tr_inq_018, tr_inq_019, tr_inq_020, tr_inq_021, tr_inq_022, tr_inq_023,
     tr_inq_024, tr_inq_025, tr_inq_026, tr_inq_027, tr_inq_028, tr_inq_029, tr_inq_030,
     tr_inq_031, tr_inq_032, tr_inq_033, tr_inq_034, tr_inq_037, tr_inq_038, tr_inq_039]"

lemmas rule_defs = tr_inq_001_def tr_inq_035_def tr_inq_002_def tr_inq_003_def tr_inq_004_def tr_inq_005_def
  tr_inq_006_def tr_inq_007_def tr_inq_008_def tr_inq_040_def tr_inq_041_def tr_inq_042_def
  tr_inq_009_def tr_inq_010_def tr_inq_036_def tr_inq_011_def tr_inq_012_def tr_inq_013_def
  tr_inq_014_def tr_inq_015_def tr_inq_016_def tr_inq_017_def tr_inq_018_def tr_inq_019_def
  tr_inq_020_def tr_inq_021_def tr_inq_022_def tr_inq_023_def tr_inq_024_def tr_inq_025_def
  tr_inq_026_def tr_inq_027_def tr_inq_028_def tr_inq_029_def tr_inq_030_def tr_inq_031_def
  tr_inq_032_def tr_inq_033_def tr_inq_034_def tr_inq_037_def tr_inq_038_def tr_inq_039_def

section \<open>States, events, guards\<close>

definition waterbridge_states :: "(string \<times> string list) list" where
  "waterbridge_states = [
     (''DRAFT'', []),
     (''QUESTIONNAIRE_IN_PROGRESS'', []),
     (''AI_GUIDANCE'', []),
     (''CONSULTATION_REQUIRED'', []),
     (''CONSULTATION_IN_PROGRESS'', []),
     (''VISIT_REVIEW_PENDING'', [''ASSIGNING'']),
     (''VISIT_SCHEDULING'', [''ASSIGNING'', ''SCHEDULING'']),
     (''VISIT_SCHEDULED'', [''CONFIRMED'', ''IN_PROGRESS'']),
     (''COMPLETION_PENDING'', [''COMPLETED'']),
     (''REVISIT_REQUIRED'', [''FOLLOW_UP_REQUIRED'']),
     (''REOPENED'', [''COMPLETED'', ''FOLLOW_UP_REQUIRED'']),
     (''RESOLVED'', [''COMPLETED'']),
     (''CANCELLED'', [''CANCELLED''])]"

definition event_row :: "string \<Rightarrow> string \<Rightarrow> string list \<Rightarrow> bool \<Rightarrow> bool \<Rightarrow> event_entry" where
  "event_row c k rs i v = \<lparr>ev_code = c, ev_category = k, ev_actor_roles = rs,
     ev_requires_key = i, ev_requires_version = v\<rparr>"

definition waterbridge_events :: "event_entry list" where
  "waterbridge_events = [
     event_row ''START_CARE_PRECHECK'' ''USER_COMMAND'' [''CUSTOMER''] True False,
     event_row ''START_INQUIRY'' ''USER_COMMAND'' [''CUSTOMER''] True False,
     event_row ''REGISTER_PHONE_INQUIRY'' ''STAFF_COMMAND'' [''CONSULTANT''] True False,
     event_row ''PRODUCT_UPDATED'' ''DATA_UPDATE'' [''CUSTOMER''] True False,
     event_row ''SUBMIT_SYMPTOM'' ''USER_COMMAND'' [''CUSTOMER''] True True,
     event_row ''CANCEL_INQUIRY'' ''USER_COMMAND'' [''CUSTOMER'', ''CONSULTANT'', ''OPERATOR''] True True,
     event_row ''SUBMIT_ANSWERS'' ''USER_COMMAND'' [''CUSTOMER''] True True,
     event_row ''CUSTOMER_REPORTED_SELF_RESOLVED'' ''USER_COMMAND'' [''CUSTOMER''] True True,
     event_row ''REQUEST_CONSULTATION'' ''USER_COMMAND'' [''CUSTOMER''] True True,
     event_row ''SUBMIT_RESOLUTION_FEEDBACK'' ''DATA_UPDATE'' [''CUSTOMER''] True True,
     event_row ''CUSTOMER_REPORTED_UNRESOLVED'' ''USER_COMMAND'' [''CUSTOMER''] True True,
     event_row ''RESUME_CONSULTATION'' ''STAFF_COMMAND'' [''CONSULTANT''] True True,
     event_row ''CLAIM_CONSULTATION'' ''STAFF_COMMAND'' [''CONSULTANT''] True True,
     event_row ''START_CONSULTATION'' ''STAFF_COMMAND'' [''CONSULTANT''] True True,
     event_row ''CONSULTATION_COMPLETED'' ''STAFF_COMMAND'' [''CONSULTANT''] True True,
     event_row ''VISIT_REVIEW_REQUIRED'' ''STAFF_COMMAND'' [''CONSULTANT''] True True,
     event_row ''UPDATE_CONSULTATION_SUMMARY'' ''DATA_UPDATE'' [''CONSULTANT''] True True,
     event_row ''CONFIRM_CONSULTATION_SUMMARY'' ''DATA_UPDATE'' [''CONSULTANT''] True True,
     event_row ''VISIT_NEEDED'' ''STAFF_COMMAND'' [''CONSULTANT''] True True,
     event_row ''UPDATE_VISIT_SCHEDULE'' ''STAFF_COMMAND'' [''CONSULTANT''] True True,
     event_row ''CONFIRM_VISIT'' ''STAFF_COMMAND'' [''CONSULTANT''] True True,
     event_row ''UPDATE_PREVISIT_REPORT'' ''DATA_UPDATE'' [''TECHNICIAN''] True True,
     event_row ''CONFIRM_PREVISIT_REPORT'' ''DATA_UPDATE'' [''TECHNICIAN''] True True,
     event_row ''START_VISIT'' ''STAFF_COMMAND'' [''TECHNICIAN''] True True,
     event_row ''VISIT_COMPLETED'' ''STAFF_COMMAND'' [''TECHNICIAN''] True True,
     event_row ''REVISIT_NEEDED'' ''STAFF_COMMAND'' [''TECHNICIAN''] True True,
     event_row ''FINALIZE_INQUIRY'' ''STAFF_COMMAND'' [''CONSULTANT'', ''TECHNICIAN''] True True,
     event_row ''PRODUCT_VALIDATION_FAILED'' ''SYSTEM_EVENT'' [''SYSTEM''] False True,
     event_row ''SAFE_GUIDANCE_READY'' ''SYSTEM_EVENT'' [''SYSTEM''] False True,
     event_row ''HUMAN_REVIEW_GUIDANCE_APPROVED'' ''SYSTEM_EVENT'' [''SYSTEM''] False True,
     event_row ''HUMAN_REVIEW_CONSULTATION_REQUIRED'' ''SYSTEM_EVENT'' [''SYSTEM''] False True,
     event_row ''HUMAN_REVIEW_REJECTED'' ''SYSTEM_EVENT'' [''SYSTEM''] False True,
     event_row ''DANGER_DETECTED'' ''SYSTEM_EVENT'' [''SYSTEM''] False True,
     event_row ''NO_EVIDENCE'' ''SYSTEM_EVENT'' [''SYSTEM''] False True,
     event_row ''AI_PROCESSING_TIMEOUT'' ''SYSTEM_EVENT'' [''SYSTEM''] False True,
     event_row ''VISIT_NOT_NEEDED'' ''STAFF_COMMAND'' [''CONSULTANT''] True True]"

definition guard_row :: "string \<Rightarrow> string \<Rightarrow> int \<Rightarrow> string \<Rightarrow> guard_entry" where
  "guard_row i k h e = \<lparr>g_id = i, g_category = k, g_http_status = h, g_error_code = e, g_message = i\<rparr>"

definition waterbridge_guards :: "guard_entry list" where
  "waterbridge_guards = [
     guard_row ''G-ACTOR-CUSTOMER'' ''ROLE'' 403 ''CUSTOMER_ROLE_REQUIRED'',
     guard_row ''G-ACTOR-CONSULTANT'' ''ROLE'' 403 ''CONSULTANT_ROLE_REQUIRED'',
     guard_row ''G-ACTOR-TECHNICIAN'' ''ROLE'' 403 ''TECHNICIAN_ROLE_REQUIRED'',
     guard_row ''G-ACTOR-SYSTEM'' ''ROLE'' 403 ''INTERNAL_EVENT_ONLY'',
     guard_row ''G-ACTOR-LAST-HANDLER'' ''ASSIGNMENT'' 403 ''FINALIZATION_HANDLER_MISMATCH'',
     guard_row ''G-INQUIRY-OWNER'' ''RESOURCE_ACCESS'' 404 ''RESOURCE_NOT_FOUND'',
     guard_row ''G-CUSTOMER-PRODUCT-OWNERSHIP'' ''RESOURCE_ACCESS'' 404 ''PRODUCT_NOT_FOUND'',
     guard_row ''G-CONSULTANT-PHONE-SUBSCRIPTION'' ''RESOURCE_ACCESS'' 404 ''RESOURCE_NOT_FOUND'',
     guard_row ''G-ASSIGNED-CONSULTANT'' ''RESOURCE_ACCESS'' 404 ''RESOURCE_NOT_FOUND'',
     guard_row ''G-UNASSIGNED-CONSULTATION-CLAIMABLE'' ''RESOURCE_ACCESS'' 404 ''RESOURCE_NOT_FOUND'',
     guard_row ''G-ASSIGNED-TECHNICIAN'' ''RESOURCE_ACCESS'' 404 ''RESOURCE_NOT_FOUND'',
     guard_row ''G-ASSIGNED-TECHNICIAN-PRESENT'' ''BUSINESS_RULE'' 422 ''ASSIGNED_TECHNICIAN_REQUIRED'',
     guard_row ''G-CANCEL-ACTOR-AUTHORIZED'' ''RESOURCE_ACCESS'' 403 ''INQUIRY_CANCEL_FORBIDDEN'',
     guard_row ''G-STATE-VERSION'' ''CONCURRENCY'' 409 ''STATE_VERSION_CONFLICT'',
     guard_row ''G-IDEMPOTENCY-KEY'' ''IDEMPOTENCY'' 409 ''IDEMPOTENCY_KEY_REUSE_CONFLICT'',
     guard_row ''G-SYMPTOM-PAYLOAD-VALID'' ''PAYLOAD'' 422 ''INVALID_SYMPTOM_PAYLOAD'',
     guard_row ''G-FOLLOWUP-ANSWERS-VALID'' ''PAYLOAD'' 422 ''INVALID_FOLLOWUP_ANSWERS'',
     guard_row ''G-CANCELLATION-REASON'' ''PAYLOAD'' 422 ''INVALID_CANCELLATION_REASON'',
     guard_row ''G-CONSULTATION-SUMMARY-PAYLOAD-VALID'' ''PAYLOAD'' 422 ''INVALID_CONSULTATION_SUMMARY'',
     guard_row ''G-CONSULTATION-SUMMARY-CONFIRMABLE'' ''BUSINESS_RULE'' 422 ''CONSULTATION_SUMMARY_NOT_CONFIRMABLE'',
     guard_row ''G-CONSULTATION-RESULT-COMPLETE'' ''COMPLETION'' 422 ''CONSULTATION_RESULT_INCOMPLETE'',
     guard_row ''G-VISIT-REVIEW-PAYLOAD-VALID'' ''PAYLOAD'' 422 ''INVALID_VISIT_REVIEW_PAYLOAD'',
     guard_row ''G-VISIT-HANDOFF-COMPLETE'' ''COMPLETION'' 422 ''VISIT_HANDOFF_INCOMPLETE'',
     guard_row ''G-VISIT-SCHEDULE-PAYLOAD-VALID'' ''PAYLOAD'' 422 ''INVALID_VISIT_SCHEDULE'',
     guard_row ''G-CONFIRMED-VISIT-DATE'' ''BUSINESS_RULE'' 422 ''CONFIRMED_VISIT_DATE_REQUIRED'',
     guard_row ''G-PREVISIT-REPORT-PAYLOAD-VALID'' ''PAYLOAD'' 422 ''INVALID_PREVISIT_REPORT'',
     guard_row ''G-PREVISIT-REPORT-CONFIRMABLE'' ''BUSINESS_RULE'' 422 ''PREVISIT_REPORT_NOT_CONFIRMABLE'',
     guard_row ''G-VISIT-RESULT-COMPLETE'' ''COMPLETION'' 422 ''VISIT_RESULT_INCOMPLETE'',
     guard_row ''G-REVISIT-REASON'' ''PAYLOAD'' 422 ''REVISIT_REASON_REQUIRED'',
     guard_row ''G-RESOLUTION-FEEDBACK-RESOLVED'' ''PAYLOAD'' 422 ''INVALID_RESOLVED_FEEDBACK'',
     guard_row ''G-NO-FRESH-RESOLVED-CUSTOMER-FEEDBACK'' ''COMPLETION'' 409 ''STATE-CONFLICT-01'',
     guard_row ''G-UNRESOLVED-FEEDBACK-VALID'' ''PAYLOAD'' 422 ''INVALID_UNRESOLVED_FEEDBACK'',
     guard_row ''G-FINALIZATION-PAYLOAD-VALID'' ''PAYLOAD'' 422 ''INVALID_FINALIZATION_PAYLOAD'',
     guard_row ''G-PRODUCT-VALIDATION-FAILED'' ''BUSINESS_RULE'' 409 ''PRODUCT_VALIDATION_EVENT_MISMATCH'',
     guard_row ''G-SAFE-GUIDANCE-VALID'' ''SAFETY_AND_EVIDENCE'' 409 ''SAFE_GUIDANCE_PRECONDITION_FAILED'',
     guard_row ''G-OFFICIAL-EVIDENCE-AVAILABLE'' ''SAFETY_AND_EVIDENCE'' 409 ''OFFICIAL_EVIDENCE_REQUIRED'',
     guard_row ''G-NO-DANGER-CONFLICT'' ''SAFETY_AND_EVIDENCE'' 409 ''DANGER_RESULT_CONFLICT'',
     guard_row ''G-DANGER-ASSESSMENT-VALID'' ''SAFETY_AND_EVIDENCE'' 409 ''DANGER_EVENT_PRECONDITION_FAILED'',
     guard_row ''G-NO-USABLE-EVIDENCE'' ''SAFETY_AND_EVIDENCE'' 409 ''NO_EVIDENCE_EVENT_PRECONDITION_FAILED'',
     guard_row ''G-AI-PROCESSING-TIMEOUT-VALID'' ''SAFETY_AND_EVIDENCE'' 409 ''AI_PROCESSING_TIMEOUT_PRECONDITION_FAILED'',
     guard_row ''G-HUMAN-REVIEW-GUIDANCE-APPROVED'' ''SAFETY_AND_EVIDENCE'' 409 ''HUMAN_REVIEW_APPROVAL_PRECONDITION_FAILED'',
     guard_row ''G-HUMAN-REVIEW-CONSULTATION-REQUIRED'' ''SAFETY_AND_EVIDENCE'' 409 ''HUMAN_REVIEW_CONSULTATION_PRECONDITION_FAILED'',
     guard_row ''G-HUMAN-REVIEW-REJECTED'' ''SAFETY_AND_EVIDENCE'' 409 ''HUMAN_REVIEW_REJECTION_PRECONDITION_FAILED'',
     guard_row ''G-SELF-RESOLUTION-ALLOWED'' ''COMPLETION'' 422 ''SELF_RESOLUTION_NOT_ALLOWED'',
     guard_row ''G-RESOLVED-CUSTOMER-FEEDBACK-EXISTS'' ''COMPLETION'' 422 ''RESOLVED_CUSTOMER_FEEDBACK_REQUIRED'',
     guard_row ''G-VISIT-NOT-NEEDED-RESULT-COMPLETE'' ''COMPLETION'' 422 ''VISIT_NOT_NEEDED_RESULT_INCOMPLETE'']"

definition waterbridge :: contract where
  "waterbridge = \<lparr>
     c_terminal_states = [''RESOLVED'', ''CANCELLED''],
     c_visit_statuses = waterbridge_states,
     c_events = waterbridge_events,
     c_rules = waterbridge_rules,
     c_defaults = \<lparr>d_version_action = Some ''INCREMENT'', d_business_event = True, d_correlation_id = True\<rparr>,
     c_guards = waterbridge_guards,
     c_guard_categories = [
       ''AUTHENTICATION'', ''ROLE'', ''RESOURCE_ACCESS'', ''ASSIGNMENT'', ''CONCURRENCY'',
       ''IDEMPOTENCY'', ''PAYLOAD'', ''BUSINESS_RULE'', ''SAFETY_AND_EVIDENCE'', ''COMPLETION''],
     c_security_precedence = [
       ''AUTHENTICATION'', ''ROLE'', ''RESOURCE_ACCESS'', ''CONCURRENCY'', ''IDEMPOTENCY'',
       ''PAYLOAD'', ''BUSINESS_RULE'', ''SAFETY_AND_EVIDENCE'', ''COMPLETION'']\<rparr>"

end
