(* ===== verification/ContractTables.thy ===== *)
theory ContractTables
  imports GuardEngine ContractData
begin

text \<open>
  Reads of the approved contract as rewrite rules: the fields of each transition rule and the event
  and guard lookups the engine performs, so that proofs evaluate \<open>waterbridge\<close> without unfolding it.
\<close>

named_theorems contract_simps \<open>reads of the approved contract\<close>

lemma waterbridge_sel [contract_simps]:
  "c_terminal_states waterbridge = [''RESOLVED'', ''CANCELLED'']"
  "c_visit_statuses waterbridge = waterbridge_states"
  "c_events waterbridge = waterbridge_events"
  "c_rules waterbridge = waterbridge_rules"
  "c_guards waterbridge = waterbridge_guards"
  "d_version_action (c_defaults waterbridge) = Some ''INCREMENT''"
  "d_correlation_id (c_defaults waterbridge) = True"
  by (simp_all add: waterbridge_def)

section \<open>Fields of the rules\<close>

lemma tr_inq_001_sel [contract_simps]:
  "r_id tr_inq_001 = ''TR-INQ-001''"
  "r_event tr_inq_001 = ''START_INQUIRY''"
  "r_from tr_inq_001 = None"
  "r_to tr_inq_001 = ''DRAFT''"
  "r_visit tr_inq_001 = visit_absent"
  "r_version_action tr_inq_001 = Some (Some ''INITIALIZE_1'')"
  "r_guard_refs tr_inq_001 = [''G-ACTOR-CUSTOMER'', ''G-CUSTOMER-PRODUCT-OWNERSHIP'',
  ''G-IDEMPOTENCY-KEY'']"
  by (simp_all add: tr_inq_001_def)

lemma tr_inq_035_sel [contract_simps]:
  "r_id tr_inq_035 = ''TR-INQ-035''"
  "r_event tr_inq_035 = ''REGISTER_PHONE_INQUIRY''"
  "r_from tr_inq_035 = None"
  "r_to tr_inq_035 = ''CONSULTATION_REQUIRED''"
  "r_visit tr_inq_035 = visit_absent"
  "r_version_action tr_inq_035 = Some (Some ''INITIALIZE_1'')"
  "r_guard_refs tr_inq_035 = [''G-ACTOR-CONSULTANT'', ''G-CONSULTANT-PHONE-SUBSCRIPTION'',
  ''G-IDEMPOTENCY-KEY'']"
  by (simp_all add: tr_inq_035_def)

lemma tr_inq_002_sel [contract_simps]:
  "r_id tr_inq_002 = ''TR-INQ-002''"
  "r_event tr_inq_002 = ''SUBMIT_SYMPTOM''"
  "r_from tr_inq_002 = Some ''DRAFT''"
  "r_to tr_inq_002 = ''QUESTIONNAIRE_IN_PROGRESS''"
  "r_visit tr_inq_002 = visit_absent"
  "r_version_action tr_inq_002 = None"
  "r_guard_refs tr_inq_002 = [''G-ACTOR-CUSTOMER'', ''G-INQUIRY-OWNER'', ''G-STATE-VERSION'',
  ''G-IDEMPOTENCY-KEY'', ''G-SYMPTOM-PAYLOAD-VALID'']"
  by (simp_all add: tr_inq_002_def)

lemma tr_inq_003_sel [contract_simps]:
  "r_id tr_inq_003 = ''TR-INQ-003''"
  "r_event tr_inq_003 = ''SUBMIT_ANSWERS''"
  "r_from tr_inq_003 = Some ''QUESTIONNAIRE_IN_PROGRESS''"
  "r_to tr_inq_003 = ''QUESTIONNAIRE_IN_PROGRESS''"
  "r_visit tr_inq_003 = visit_absent"
  "r_version_action tr_inq_003 = None"
  "r_guard_refs tr_inq_003 = [''G-ACTOR-CUSTOMER'', ''G-INQUIRY-OWNER'', ''G-STATE-VERSION'',
  ''G-IDEMPOTENCY-KEY'', ''G-FOLLOWUP-ANSWERS-VALID'']"
  by (simp_all add: tr_inq_003_def)

lemma tr_inq_004_sel [contract_simps]:
  "r_id tr_inq_004 = ''TR-INQ-004''"
  "r_event tr_inq_004 = ''CANCEL_INQUIRY''"
  "r_from tr_inq_004 = Some ''DRAFT''"
  "r_to tr_inq_004 = ''CANCELLED''"
  "r_visit tr_inq_004 = visit_absent"
  "r_version_action tr_inq_004 = None"
  "r_guard_refs tr_inq_004 = [''G-CANCEL-ACTOR-AUTHORIZED'', ''G-STATE-VERSION'',
  ''G-IDEMPOTENCY-KEY'', ''G-CANCELLATION-REASON'']"
  by (simp_all add: tr_inq_004_def)

lemma tr_inq_005_sel [contract_simps]:
  "r_id tr_inq_005 = ''TR-INQ-005''"
  "r_event tr_inq_005 = ''CANCEL_INQUIRY''"
  "r_from tr_inq_005 = Some ''QUESTIONNAIRE_IN_PROGRESS''"
  "r_to tr_inq_005 = ''CANCELLED''"
  "r_visit tr_inq_005 = visit_absent"
  "r_version_action tr_inq_005 = None"
  "r_guard_refs tr_inq_005 = [''G-CANCEL-ACTOR-AUTHORIZED'', ''G-STATE-VERSION'',
  ''G-IDEMPOTENCY-KEY'', ''G-CANCELLATION-REASON'']"
  by (simp_all add: tr_inq_005_def)

lemma tr_inq_006_sel [contract_simps]:
  "r_id tr_inq_006 = ''TR-INQ-006''"
  "r_event tr_inq_006 = ''PRODUCT_VALIDATION_FAILED''"
  "r_from tr_inq_006 = Some ''DRAFT''"
  "r_to tr_inq_006 = ''CONSULTATION_REQUIRED''"
  "r_visit tr_inq_006 = visit_absent"
  "r_version_action tr_inq_006 = None"
  "r_guard_refs tr_inq_006 = [''G-ACTOR-SYSTEM'', ''G-STATE-VERSION'',
  ''G-PRODUCT-VALIDATION-FAILED'']"
  by (simp_all add: tr_inq_006_def)

lemma tr_inq_007_sel [contract_simps]:
  "r_id tr_inq_007 = ''TR-INQ-007''"
  "r_event tr_inq_007 = ''PRODUCT_VALIDATION_FAILED''"
  "r_from tr_inq_007 = Some ''QUESTIONNAIRE_IN_PROGRESS''"
  "r_to tr_inq_007 = ''CONSULTATION_REQUIRED''"
  "r_visit tr_inq_007 = visit_absent"
  "r_version_action tr_inq_007 = None"
  "r_guard_refs tr_inq_007 = [''G-ACTOR-SYSTEM'', ''G-STATE-VERSION'',
  ''G-PRODUCT-VALIDATION-FAILED'']"
  by (simp_all add: tr_inq_007_def)

lemma tr_inq_008_sel [contract_simps]:
  "r_id tr_inq_008 = ''TR-INQ-008''"
  "r_event tr_inq_008 = ''SAFE_GUIDANCE_READY''"
  "r_from tr_inq_008 = Some ''QUESTIONNAIRE_IN_PROGRESS''"
  "r_to tr_inq_008 = ''AI_GUIDANCE''"
  "r_visit tr_inq_008 = visit_absent"
  "r_version_action tr_inq_008 = None"
  "r_guard_refs tr_inq_008 = [''G-ACTOR-SYSTEM'', ''G-STATE-VERSION'',
  ''G-SAFE-GUIDANCE-VALID'', ''G-OFFICIAL-EVIDENCE-AVAILABLE'', ''G-NO-DANGER-CONFLICT'']"
  by (simp_all add: tr_inq_008_def)

lemma tr_inq_040_sel [contract_simps]:
  "r_id tr_inq_040 = ''TR-INQ-040''"
  "r_event tr_inq_040 = ''HUMAN_REVIEW_GUIDANCE_APPROVED''"
  "r_from tr_inq_040 = Some ''QUESTIONNAIRE_IN_PROGRESS''"
  "r_to tr_inq_040 = ''AI_GUIDANCE''"
  "r_visit tr_inq_040 = visit_absent"
  "r_version_action tr_inq_040 = None"
  "r_guard_refs tr_inq_040 = [''G-ACTOR-SYSTEM'', ''G-STATE-VERSION'',
  ''G-HUMAN-REVIEW-GUIDANCE-APPROVED'']"
  by (simp_all add: tr_inq_040_def)

lemma tr_inq_041_sel [contract_simps]:
  "r_id tr_inq_041 = ''TR-INQ-041''"
  "r_event tr_inq_041 = ''HUMAN_REVIEW_CONSULTATION_REQUIRED''"
  "r_from tr_inq_041 = Some ''QUESTIONNAIRE_IN_PROGRESS''"
  "r_to tr_inq_041 = ''CONSULTATION_REQUIRED''"
  "r_visit tr_inq_041 = visit_absent"
  "r_version_action tr_inq_041 = None"
  "r_guard_refs tr_inq_041 = [''G-ACTOR-SYSTEM'', ''G-STATE-VERSION'',
  ''G-HUMAN-REVIEW-CONSULTATION-REQUIRED'']"
  by (simp_all add: tr_inq_041_def)

lemma tr_inq_042_sel [contract_simps]:
  "r_id tr_inq_042 = ''TR-INQ-042''"
  "r_event tr_inq_042 = ''HUMAN_REVIEW_REJECTED''"
  "r_from tr_inq_042 = Some ''QUESTIONNAIRE_IN_PROGRESS''"
  "r_to tr_inq_042 = ''CONSULTATION_REQUIRED''"
  "r_visit tr_inq_042 = visit_absent"
  "r_version_action tr_inq_042 = None"
  "r_guard_refs tr_inq_042 = [''G-ACTOR-SYSTEM'', ''G-STATE-VERSION'',
  ''G-HUMAN-REVIEW-REJECTED'']"
  by (simp_all add: tr_inq_042_def)

lemma tr_inq_009_sel [contract_simps]:
  "r_id tr_inq_009 = ''TR-INQ-009''"
  "r_event tr_inq_009 = ''DANGER_DETECTED''"
  "r_from tr_inq_009 = Some ''QUESTIONNAIRE_IN_PROGRESS''"
  "r_to tr_inq_009 = ''CONSULTATION_REQUIRED''"
  "r_visit tr_inq_009 = visit_absent"
  "r_version_action tr_inq_009 = None"
  "r_guard_refs tr_inq_009 = [''G-ACTOR-SYSTEM'', ''G-STATE-VERSION'',
  ''G-DANGER-ASSESSMENT-VALID'']"
  by (simp_all add: tr_inq_009_def)

lemma tr_inq_010_sel [contract_simps]:
  "r_id tr_inq_010 = ''TR-INQ-010''"
  "r_event tr_inq_010 = ''NO_EVIDENCE''"
  "r_from tr_inq_010 = Some ''QUESTIONNAIRE_IN_PROGRESS''"
  "r_to tr_inq_010 = ''CONSULTATION_REQUIRED''"
  "r_visit tr_inq_010 = visit_absent"
  "r_version_action tr_inq_010 = None"
  "r_guard_refs tr_inq_010 = [''G-ACTOR-SYSTEM'', ''G-STATE-VERSION'',
  ''G-NO-USABLE-EVIDENCE'']"
  by (simp_all add: tr_inq_010_def)

lemma tr_inq_036_sel [contract_simps]:
  "r_id tr_inq_036 = ''TR-INQ-036''"
  "r_event tr_inq_036 = ''AI_PROCESSING_TIMEOUT''"
  "r_from tr_inq_036 = Some ''QUESTIONNAIRE_IN_PROGRESS''"
  "r_to tr_inq_036 = ''CONSULTATION_REQUIRED''"
  "r_visit tr_inq_036 = visit_absent"
  "r_version_action tr_inq_036 = None"
  "r_guard_refs tr_inq_036 = [''G-ACTOR-SYSTEM'', ''G-STATE-VERSION'',
  ''G-AI-PROCESSING-TIMEOUT-VALID'']"
  by (simp_all add: tr_inq_036_def)

lemma tr_inq_011_sel [contract_simps]:
  "r_id tr_inq_011 = ''TR-INQ-011''"
  "r_event tr_inq_011 = ''CUSTOMER_REPORTED_SELF_RESOLVED''"
  "r_from tr_inq_011 = Some ''AI_GUIDANCE''"
  "r_to tr_inq_011 = ''RESOLVED''"
  "r_visit tr_inq_011 = visit_absent"
  "r_version_action tr_inq_011 = None"
  "r_guard_refs tr_inq_011 = [''G-ACTOR-CUSTOMER'', ''G-INQUIRY-OWNER'', ''G-STATE-VERSION'',
  ''G-IDEMPOTENCY-KEY'', ''G-SELF-RESOLUTION-ALLOWED'']"
  by (simp_all add: tr_inq_011_def)

lemma tr_inq_012_sel [contract_simps]:
  "r_id tr_inq_012 = ''TR-INQ-012''"
  "r_event tr_inq_012 = ''REQUEST_CONSULTATION''"
  "r_from tr_inq_012 = Some ''AI_GUIDANCE''"
  "r_to tr_inq_012 = ''CONSULTATION_REQUIRED''"
  "r_visit tr_inq_012 = visit_absent"
  "r_version_action tr_inq_012 = None"
  "r_guard_refs tr_inq_012 = [''G-ACTOR-CUSTOMER'', ''G-INQUIRY-OWNER'', ''G-STATE-VERSION'',
  ''G-IDEMPOTENCY-KEY'']"
  by (simp_all add: tr_inq_012_def)

lemma tr_inq_013_sel [contract_simps]:
  "r_id tr_inq_013 = ''TR-INQ-013''"
  "r_event tr_inq_013 = ''REQUEST_CONSULTATION''"
  "r_from tr_inq_013 = Some ''CONSULTATION_REQUIRED''"
  "r_to tr_inq_013 = ''CONSULTATION_REQUIRED''"
  "r_visit tr_inq_013 = visit_absent"
  "r_version_action tr_inq_013 = None"
  "r_guard_refs tr_inq_013 = [''G-ACTOR-CUSTOMER'', ''G-INQUIRY-OWNER'', ''G-STATE-VERSION'',
  ''G-IDEMPOTENCY-KEY'']"
  by (simp_all add: tr_inq_013_def)

lemma tr_inq_014_sel [contract_simps]:
  "r_id tr_inq_014 = ''TR-INQ-014''"
  "r_event tr_inq_014 = ''START_CONSULTATION''"
  "r_from tr_inq_014 = Some ''CONSULTATION_REQUIRED''"
  "r_to tr_inq_014 = ''CONSULTATION_IN_PROGRESS''"
  "r_visit tr_inq_014 = visit_preserve"
  "r_version_action tr_inq_014 = None"
  "r_guard_refs tr_inq_014 = [''G-ACTOR-CONSULTANT'', ''G-ASSIGNED-CONSULTANT'',
  ''G-STATE-VERSION'', ''G-IDEMPOTENCY-KEY'']"
  by (simp_all add: tr_inq_014_def)

lemma tr_inq_015_sel [contract_simps]:
  "r_id tr_inq_015 = ''TR-INQ-015''"
  "r_event tr_inq_015 = ''UPDATE_CONSULTATION_SUMMARY''"
  "r_from tr_inq_015 = Some ''CONSULTATION_IN_PROGRESS''"
  "r_to tr_inq_015 = ''CONSULTATION_IN_PROGRESS''"
  "r_visit tr_inq_015 = visit_preserve"
  "r_version_action tr_inq_015 = None"
  "r_guard_refs tr_inq_015 = [''G-ACTOR-CONSULTANT'', ''G-ASSIGNED-CONSULTANT'',
  ''G-STATE-VERSION'', ''G-IDEMPOTENCY-KEY'', ''G-CONSULTATION-SUMMARY-PAYLOAD-VALID'']"
  by (simp_all add: tr_inq_015_def)

lemma tr_inq_016_sel [contract_simps]:
  "r_id tr_inq_016 = ''TR-INQ-016''"
  "r_event tr_inq_016 = ''CONFIRM_CONSULTATION_SUMMARY''"
  "r_from tr_inq_016 = Some ''CONSULTATION_IN_PROGRESS''"
  "r_to tr_inq_016 = ''CONSULTATION_IN_PROGRESS''"
  "r_visit tr_inq_016 = visit_preserve"
  "r_version_action tr_inq_016 = None"
  "r_guard_refs tr_inq_016 = [''G-ACTOR-CONSULTANT'', ''G-ASSIGNED-CONSULTANT'',
  ''G-STATE-VERSION'', ''G-IDEMPOTENCY-KEY'', ''G-CONSULTATION-SUMMARY-CONFIRMABLE'']"
  by (simp_all add: tr_inq_016_def)

lemma tr_inq_017_sel [contract_simps]:
  "r_id tr_inq_017 = ''TR-INQ-017''"
  "r_event tr_inq_017 = ''CONSULTATION_COMPLETED''"
  "r_from tr_inq_017 = Some ''CONSULTATION_IN_PROGRESS''"
  "r_to tr_inq_017 = ''COMPLETION_PENDING''"
  "r_visit tr_inq_017 = visit_preserve"
  "r_version_action tr_inq_017 = None"
  "r_guard_refs tr_inq_017 = [''G-ACTOR-CONSULTANT'', ''G-ASSIGNED-CONSULTANT'',
  ''G-STATE-VERSION'', ''G-IDEMPOTENCY-KEY'', ''G-CONSULTATION-RESULT-COMPLETE'']"
  by (simp_all add: tr_inq_017_def)

lemma tr_inq_018_sel [contract_simps]:
  "r_id tr_inq_018 = ''TR-INQ-018''"
  "r_event tr_inq_018 = ''VISIT_REVIEW_REQUIRED''"
  "r_from tr_inq_018 = Some ''CONSULTATION_IN_PROGRESS''"
  "r_to tr_inq_018 = ''VISIT_REVIEW_PENDING''"
  "r_visit tr_inq_018 = visit_absent"
  "r_version_action tr_inq_018 = None"
  "r_guard_refs tr_inq_018 = [''G-ACTOR-CONSULTANT'', ''G-ASSIGNED-CONSULTANT'',
  ''G-STATE-VERSION'', ''G-IDEMPOTENCY-KEY'', ''G-VISIT-REVIEW-PAYLOAD-VALID'']"
  by (simp_all add: tr_inq_018_def)

lemma tr_inq_019_sel [contract_simps]:
  "r_id tr_inq_019 = ''TR-INQ-019''"
  "r_event tr_inq_019 = ''VISIT_NEEDED''"
  "r_from tr_inq_019 = Some ''VISIT_REVIEW_PENDING''"
  "r_to tr_inq_019 = ''VISIT_SCHEDULING''"
  "r_visit tr_inq_019 = (visit_create ''ASSIGNING'')"
  "r_version_action tr_inq_019 = None"
  "r_guard_refs tr_inq_019 = [''G-ACTOR-CONSULTANT'', ''G-ASSIGNED-CONSULTANT'',
  ''G-STATE-VERSION'', ''G-IDEMPOTENCY-KEY'', ''G-VISIT-HANDOFF-COMPLETE'']"
  by (simp_all add: tr_inq_019_def)

lemma tr_inq_020_sel [contract_simps]:
  "r_id tr_inq_020 = ''TR-INQ-020''"
  "r_event tr_inq_020 = ''UPDATE_VISIT_SCHEDULE''"
  "r_from tr_inq_020 = Some ''VISIT_SCHEDULING''"
  "r_to tr_inq_020 = ''VISIT_SCHEDULING''"
  "r_visit tr_inq_020 = (visit_move ''ASSIGNING'' ''SCHEDULING'')"
  "r_version_action tr_inq_020 = None"
  "r_guard_refs tr_inq_020 = [''G-ACTOR-CONSULTANT'', ''G-ASSIGNED-CONSULTANT'',
  ''G-STATE-VERSION'', ''G-IDEMPOTENCY-KEY'', ''G-VISIT-SCHEDULE-PAYLOAD-VALID'']"
  by (simp_all add: tr_inq_020_def)

lemma tr_inq_021_sel [contract_simps]:
  "r_id tr_inq_021 = ''TR-INQ-021''"
  "r_event tr_inq_021 = ''UPDATE_VISIT_SCHEDULE''"
  "r_from tr_inq_021 = Some ''VISIT_SCHEDULING''"
  "r_to tr_inq_021 = ''VISIT_SCHEDULING''"
  "r_visit tr_inq_021 = (visit_move ''SCHEDULING'' ''SCHEDULING'')"
  "r_version_action tr_inq_021 = None"
  "r_guard_refs tr_inq_021 = [''G-ACTOR-CONSULTANT'', ''G-ASSIGNED-CONSULTANT'',
  ''G-STATE-VERSION'', ''G-IDEMPOTENCY-KEY'', ''G-VISIT-SCHEDULE-PAYLOAD-VALID'']"
  by (simp_all add: tr_inq_021_def)

lemma tr_inq_022_sel [contract_simps]:
  "r_id tr_inq_022 = ''TR-INQ-022''"
  "r_event tr_inq_022 = ''CONFIRM_VISIT''"
  "r_from tr_inq_022 = Some ''VISIT_SCHEDULING''"
  "r_to tr_inq_022 = ''VISIT_SCHEDULED''"
  "r_visit tr_inq_022 = (visit_move ''SCHEDULING'' ''CONFIRMED'')"
  "r_version_action tr_inq_022 = None"
  "r_guard_refs tr_inq_022 = [''G-ACTOR-CONSULTANT'', ''G-ASSIGNED-CONSULTANT'',
  ''G-STATE-VERSION'', ''G-IDEMPOTENCY-KEY'', ''G-CONFIRMED-VISIT-DATE'',
  ''G-ASSIGNED-TECHNICIAN-PRESENT'']"
  by (simp_all add: tr_inq_022_def)

lemma tr_inq_023_sel [contract_simps]:
  "r_id tr_inq_023 = ''TR-INQ-023''"
  "r_event tr_inq_023 = ''UPDATE_PREVISIT_REPORT''"
  "r_from tr_inq_023 = Some ''VISIT_SCHEDULED''"
  "r_to tr_inq_023 = ''VISIT_SCHEDULED''"
  "r_visit tr_inq_023 = (visit_require ''CONFIRMED'')"
  "r_version_action tr_inq_023 = None"
  "r_guard_refs tr_inq_023 = [''G-ACTOR-TECHNICIAN'', ''G-ASSIGNED-TECHNICIAN'',
  ''G-STATE-VERSION'', ''G-IDEMPOTENCY-KEY'', ''G-PREVISIT-REPORT-PAYLOAD-VALID'']"
  by (simp_all add: tr_inq_023_def)

lemma tr_inq_024_sel [contract_simps]:
  "r_id tr_inq_024 = ''TR-INQ-024''"
  "r_event tr_inq_024 = ''CONFIRM_PREVISIT_REPORT''"
  "r_from tr_inq_024 = Some ''VISIT_SCHEDULED''"
  "r_to tr_inq_024 = ''VISIT_SCHEDULED''"
  "r_visit tr_inq_024 = (visit_require ''CONFIRMED'')"
  "r_version_action tr_inq_024 = None"
  "r_guard_refs tr_inq_024 = [''G-ACTOR-TECHNICIAN'', ''G-ASSIGNED-TECHNICIAN'',
  ''G-STATE-VERSION'', ''G-IDEMPOTENCY-KEY'', ''G-PREVISIT-REPORT-CONFIRMABLE'']"
  by (simp_all add: tr_inq_024_def)

lemma tr_inq_025_sel [contract_simps]:
  "r_id tr_inq_025 = ''TR-INQ-025''"
  "r_event tr_inq_025 = ''START_VISIT''"
  "r_from tr_inq_025 = Some ''VISIT_SCHEDULED''"
  "r_to tr_inq_025 = ''VISIT_SCHEDULED''"
  "r_visit tr_inq_025 = (visit_move ''CONFIRMED'' ''IN_PROGRESS'')"
  "r_version_action tr_inq_025 = None"
  "r_guard_refs tr_inq_025 = [''G-ACTOR-TECHNICIAN'', ''G-ASSIGNED-TECHNICIAN'',
  ''G-STATE-VERSION'', ''G-IDEMPOTENCY-KEY'']"
  by (simp_all add: tr_inq_025_def)

lemma tr_inq_026_sel [contract_simps]:
  "r_id tr_inq_026 = ''TR-INQ-026''"
  "r_event tr_inq_026 = ''VISIT_COMPLETED''"
  "r_from tr_inq_026 = Some ''VISIT_SCHEDULED''"
  "r_to tr_inq_026 = ''COMPLETION_PENDING''"
  "r_visit tr_inq_026 = (visit_move ''IN_PROGRESS'' ''COMPLETED'')"
  "r_version_action tr_inq_026 = None"
  "r_guard_refs tr_inq_026 = [''G-ACTOR-TECHNICIAN'', ''G-ASSIGNED-TECHNICIAN'',
  ''G-STATE-VERSION'', ''G-IDEMPOTENCY-KEY'', ''G-VISIT-RESULT-COMPLETE'']"
  by (simp_all add: tr_inq_026_def)

lemma tr_inq_027_sel [contract_simps]:
  "r_id tr_inq_027 = ''TR-INQ-027''"
  "r_event tr_inq_027 = ''REVISIT_NEEDED''"
  "r_from tr_inq_027 = Some ''VISIT_SCHEDULED''"
  "r_to tr_inq_027 = ''REVISIT_REQUIRED''"
  "r_visit tr_inq_027 = (visit_move ''IN_PROGRESS'' ''FOLLOW_UP_REQUIRED'')"
  "r_version_action tr_inq_027 = None"
  "r_guard_refs tr_inq_027 = [''G-ACTOR-TECHNICIAN'', ''G-ASSIGNED-TECHNICIAN'',
  ''G-STATE-VERSION'', ''G-IDEMPOTENCY-KEY'', ''G-REVISIT-REASON'']"
  by (simp_all add: tr_inq_027_def)

lemma tr_inq_028_sel [contract_simps]:
  "r_id tr_inq_028 = ''TR-INQ-028''"
  "r_event tr_inq_028 = ''UPDATE_VISIT_SCHEDULE''"
  "r_from tr_inq_028 = Some ''REVISIT_REQUIRED''"
  "r_to tr_inq_028 = ''VISIT_SCHEDULING''"
  "r_visit tr_inq_028 = (visit_move ''FOLLOW_UP_REQUIRED'' ''SCHEDULING'')"
  "r_version_action tr_inq_028 = None"
  "r_guard_refs tr_inq_028 = [''G-ACTOR-CONSULTANT'', ''G-ASSIGNED-CONSULTANT'',
  ''G-STATE-VERSION'', ''G-IDEMPOTENCY-KEY'', ''G-VISIT-SCHEDULE-PAYLOAD-VALID'']"
  by (simp_all add: tr_inq_028_def)

lemma tr_inq_029_sel [contract_simps]:
  "r_id tr_inq_029 = ''TR-INQ-029''"
  "r_event tr_inq_029 = ''SUBMIT_RESOLUTION_FEEDBACK''"
  "r_from tr_inq_029 = Some ''COMPLETION_PENDING''"
  "r_to tr_inq_029 = ''COMPLETION_PENDING''"
  "r_visit tr_inq_029 = visit_preserve"
  "r_version_action tr_inq_029 = None"
  "r_guard_refs tr_inq_029 = [''G-ACTOR-CUSTOMER'', ''G-INQUIRY-OWNER'', ''G-STATE-VERSION'',
  ''G-IDEMPOTENCY-KEY'', ''G-NO-FRESH-RESOLVED-CUSTOMER-FEEDBACK'',
  ''G-RESOLUTION-FEEDBACK-RESOLVED'']"
  by (simp_all add: tr_inq_029_def)

lemma tr_inq_030_sel [contract_simps]:
  "r_id tr_inq_030 = ''TR-INQ-030''"
  "r_event tr_inq_030 = ''CUSTOMER_REPORTED_UNRESOLVED''"
  "r_from tr_inq_030 = Some ''COMPLETION_PENDING''"
  "r_to tr_inq_030 = ''REOPENED''"
  "r_visit tr_inq_030 = visit_preserve"
  "r_version_action tr_inq_030 = None"
  "r_guard_refs tr_inq_030 = [''G-ACTOR-CUSTOMER'', ''G-INQUIRY-OWNER'', ''G-STATE-VERSION'',
  ''G-IDEMPOTENCY-KEY'', ''G-UNRESOLVED-FEEDBACK-VALID'']"
  by (simp_all add: tr_inq_030_def)

lemma tr_inq_031_sel [contract_simps]:
  "r_id tr_inq_031 = ''TR-INQ-031''"
  "r_event tr_inq_031 = ''REQUEST_CONSULTATION''"
  "r_from tr_inq_031 = Some ''COMPLETION_PENDING''"
  "r_to tr_inq_031 = ''CONSULTATION_REQUIRED''"
  "r_visit tr_inq_031 = visit_preserve"
  "r_version_action tr_inq_031 = None"
  "r_guard_refs tr_inq_031 = [''G-ACTOR-CUSTOMER'', ''G-INQUIRY-OWNER'', ''G-STATE-VERSION'',
  ''G-IDEMPOTENCY-KEY'', ''G-NO-FRESH-RESOLVED-CUSTOMER-FEEDBACK'']"
  by (simp_all add: tr_inq_031_def)

lemma tr_inq_032_sel [contract_simps]:
  "r_id tr_inq_032 = ''TR-INQ-032''"
  "r_event tr_inq_032 = ''RESUME_CONSULTATION''"
  "r_from tr_inq_032 = Some ''REOPENED''"
  "r_to tr_inq_032 = ''CONSULTATION_REQUIRED''"
  "r_visit tr_inq_032 = visit_preserve"
  "r_version_action tr_inq_032 = None"
  "r_guard_refs tr_inq_032 = [''G-ACTOR-CONSULTANT'', ''G-STATE-VERSION'',
  ''G-IDEMPOTENCY-KEY'']"
  by (simp_all add: tr_inq_032_def)

lemma tr_inq_033_sel [contract_simps]:
  "r_id tr_inq_033 = ''TR-INQ-033''"
  "r_event tr_inq_033 = ''FINALIZE_INQUIRY''"
  "r_from tr_inq_033 = Some ''COMPLETION_PENDING''"
  "r_to tr_inq_033 = ''RESOLVED''"
  "r_visit tr_inq_033 = visit_preserve"
  "r_version_action tr_inq_033 = None"
  "r_guard_refs tr_inq_033 = [''G-ACTOR-LAST-HANDLER'', ''G-STATE-VERSION'',
  ''G-IDEMPOTENCY-KEY'', ''G-RESOLVED-CUSTOMER-FEEDBACK-EXISTS'',
  ''G-FINALIZATION-PAYLOAD-VALID'']"
  by (simp_all add: tr_inq_033_def)

lemma tr_inq_034_sel [contract_simps]:
  "r_id tr_inq_034 = ''TR-INQ-034''"
  "r_event tr_inq_034 = ''VISIT_NOT_NEEDED''"
  "r_from tr_inq_034 = Some ''VISIT_REVIEW_PENDING''"
  "r_to tr_inq_034 = ''COMPLETION_PENDING''"
  "r_visit tr_inq_034 = visit_absent"
  "r_version_action tr_inq_034 = None"
  "r_guard_refs tr_inq_034 = [''G-ACTOR-CONSULTANT'', ''G-ASSIGNED-CONSULTANT'',
  ''G-STATE-VERSION'', ''G-IDEMPOTENCY-KEY'', ''G-VISIT-NOT-NEEDED-RESULT-COMPLETE'']"
  by (simp_all add: tr_inq_034_def)

lemma tr_inq_037_sel [contract_simps]:
  "r_id tr_inq_037 = ''TR-INQ-037''"
  "r_event tr_inq_037 = ''CLAIM_CONSULTATION''"
  "r_from tr_inq_037 = Some ''CONSULTATION_REQUIRED''"
  "r_to tr_inq_037 = ''CONSULTATION_REQUIRED''"
  "r_visit tr_inq_037 = visit_preserve"
  "r_version_action tr_inq_037 = None"
  "r_guard_refs tr_inq_037 = [''G-ACTOR-CONSULTANT'', ''G-UNASSIGNED-CONSULTATION-CLAIMABLE'',
  ''G-STATE-VERSION'', ''G-IDEMPOTENCY-KEY'']"
  by (simp_all add: tr_inq_037_def)

lemma tr_inq_038_sel [contract_simps]:
  "r_id tr_inq_038 = ''TR-INQ-038''"
  "r_event tr_inq_038 = ''CANCEL_INQUIRY''"
  "r_from tr_inq_038 = Some ''CONSULTATION_REQUIRED''"
  "r_to tr_inq_038 = ''CANCELLED''"
  "r_visit tr_inq_038 = visit_absent"
  "r_version_action tr_inq_038 = None"
  "r_guard_refs tr_inq_038 = [''G-CANCEL-ACTOR-AUTHORIZED'', ''G-STATE-VERSION'',
  ''G-IDEMPOTENCY-KEY'', ''G-CANCELLATION-REASON'']"
  by (simp_all add: tr_inq_038_def)

lemma tr_inq_039_sel [contract_simps]:
  "r_id tr_inq_039 = ''TR-INQ-039''"
  "r_event tr_inq_039 = ''CANCEL_INQUIRY''"
  "r_from tr_inq_039 = Some ''CONSULTATION_IN_PROGRESS''"
  "r_to tr_inq_039 = ''CANCELLED''"
  "r_visit tr_inq_039 = visit_absent"
  "r_version_action tr_inq_039 = None"
  "r_guard_refs tr_inq_039 = [''G-CANCEL-ACTOR-AUTHORIZED'', ''G-STATE-VERSION'',
  ''G-IDEMPOTENCY-KEY'', ''G-CANCELLATION-REASON'']"
  by (simp_all add: tr_inq_039_def)

section \<open>Lookups\<close>

lemma waterbridge_events_distinct: "distinct (map ev_code waterbridge_events)"
  by (simp add: waterbridge_events_def event_row_def)

lemma waterbridge_guards_distinct: "distinct (map g_id waterbridge_guards)"
  by (simp add: waterbridge_guards_def guard_row_def)

lemma event_entry_of_waterbridge:
  "event_entry_of waterbridge code = Some e \<longleftrightarrow> e \<in> set waterbridge_events \<and> ev_code e = code"
proof -
  have "distinct (map fst (map (\<lambda>e. (ev_code e, e)) waterbridge_events))"
    using waterbridge_events_distinct by (simp add: comp_def)
  from dict_of_distinct [OF this] show ?thesis
    by (auto simp: event_entry_of_def waterbridge_sel)
qed

lemma guard_entry_of_waterbridge:
  "guard_entry_of waterbridge gid = Some g \<longleftrightarrow> g \<in> set waterbridge_guards \<and> g_id g = gid"
proof -
  have "distinct (map fst (map (\<lambda>g. (g_id g, g)) waterbridge_guards))"
    using waterbridge_guards_distinct by (simp add: comp_def)
  from dict_of_distinct [OF this] show ?thesis
    by (auto simp: guard_entry_of_def waterbridge_sel)
qed

lemma event_row_sel [contract_simps]:
  "ev_code (event_row c k rs i v) = c" "ev_actor_roles (event_row c k rs i v) = rs"
  "ev_requires_key (event_row c k rs i v) = i" "ev_requires_version (event_row c k rs i v) = v"
  by (simp_all add: event_row_def)

lemma guard_row_sel [contract_simps]:
  "g_id (guard_row i k h e) = i" "g_category (guard_row i k h e) = k"
  "g_http_status (guard_row i k h e) = h" "g_error_code (guard_row i k h e) = e"
  by (simp_all add: guard_row_def)

lemma event_lookup [contract_simps]:
  "event_entry_of waterbridge ''START_CARE_PRECHECK'' = Some (event_row ''START_CARE_PRECHECK'' ''USER_COMMAND'' [''CUSTOMER''] True False)"
  "event_entry_of waterbridge ''START_INQUIRY'' = Some (event_row ''START_INQUIRY'' ''USER_COMMAND'' [''CUSTOMER''] True False)"
  "event_entry_of waterbridge ''REGISTER_PHONE_INQUIRY'' = Some (event_row ''REGISTER_PHONE_INQUIRY'' ''STAFF_COMMAND'' [''CONSULTANT''] True False)"
  "event_entry_of waterbridge ''PRODUCT_UPDATED'' = Some (event_row ''PRODUCT_UPDATED'' ''DATA_UPDATE'' [''CUSTOMER''] True False)"
  "event_entry_of waterbridge ''SUBMIT_SYMPTOM'' = Some (event_row ''SUBMIT_SYMPTOM'' ''USER_COMMAND'' [''CUSTOMER''] True True)"
  "event_entry_of waterbridge ''CANCEL_INQUIRY'' = Some (event_row ''CANCEL_INQUIRY'' ''USER_COMMAND'' [''CUSTOMER'', ''CONSULTANT'', ''OPERATOR''] True True)"
  "event_entry_of waterbridge ''SUBMIT_ANSWERS'' = Some (event_row ''SUBMIT_ANSWERS'' ''USER_COMMAND'' [''CUSTOMER''] True True)"
  "event_entry_of waterbridge ''CUSTOMER_REPORTED_SELF_RESOLVED'' = Some (event_row ''CUSTOMER_REPORTED_SELF_RESOLVED'' ''USER_COMMAND'' [''CUSTOMER''] True True)"
  "event_entry_of waterbridge ''REQUEST_CONSULTATION'' = Some (event_row ''REQUEST_CONSULTATION'' ''USER_COMMAND'' [''CUSTOMER''] True True)"
  "event_entry_of waterbridge ''SUBMIT_RESOLUTION_FEEDBACK'' = Some (event_row ''SUBMIT_RESOLUTION_FEEDBACK'' ''DATA_UPDATE'' [''CUSTOMER''] True True)"
  "event_entry_of waterbridge ''CUSTOMER_REPORTED_UNRESOLVED'' = Some (event_row ''CUSTOMER_REPORTED_UNRESOLVED'' ''USER_COMMAND'' [''CUSTOMER''] True True)"
  "event_entry_of waterbridge ''RESUME_CONSULTATION'' = Some (event_row ''RESUME_CONSULTATION'' ''STAFF_COMMAND'' [''CONSULTANT''] True True)"
  "event_entry_of waterbridge ''CLAIM_CONSULTATION'' = Some (event_row ''CLAIM_CONSULTATION'' ''STAFF_COMMAND'' [''CONSULTANT''] True True)"
  "event_entry_of waterbridge ''START_CONSULTATION'' = Some (event_row ''START_CONSULTATION'' ''STAFF_COMMAND'' [''CONSULTANT''] True True)"
  "event_entry_of waterbridge ''CONSULTATION_COMPLETED'' = Some (event_row ''CONSULTATION_COMPLETED'' ''STAFF_COMMAND'' [''CONSULTANT''] True True)"
  "event_entry_of waterbridge ''VISIT_REVIEW_REQUIRED'' = Some (event_row ''VISIT_REVIEW_REQUIRED'' ''STAFF_COMMAND'' [''CONSULTANT''] True True)"
  "event_entry_of waterbridge ''UPDATE_CONSULTATION_SUMMARY'' = Some (event_row ''UPDATE_CONSULTATION_SUMMARY'' ''DATA_UPDATE'' [''CONSULTANT''] True True)"
  "event_entry_of waterbridge ''CONFIRM_CONSULTATION_SUMMARY'' = Some (event_row ''CONFIRM_CONSULTATION_SUMMARY'' ''DATA_UPDATE'' [''CONSULTANT''] True True)"
  "event_entry_of waterbridge ''VISIT_NEEDED'' = Some (event_row ''VISIT_NEEDED'' ''STAFF_COMMAND'' [''CONSULTANT''] True True)"
  "event_entry_of waterbridge ''UPDATE_VISIT_SCHEDULE'' = Some (event_row ''UPDATE_VISIT_SCHEDULE'' ''STAFF_COMMAND'' [''CONSULTANT''] True True)"
  "event_entry_of waterbridge ''CONFIRM_VISIT'' = Some (event_row ''CONFIRM_VISIT'' ''STAFF_COMMAND'' [''CONSULTANT''] True True)"
  "event_entry_of waterbridge ''UPDATE_PREVISIT_REPORT'' = Some (event_row ''UPDATE_PREVISIT_REPORT'' ''DATA_UPDATE'' [''TECHNICIAN''] True True)"
  "event_entry_of waterbridge ''CONFIRM_PREVISIT_REPORT'' = Some (event_row ''CONFIRM_PREVISIT_REPORT'' ''DATA_UPDATE'' [''TECHNICIAN''] True True)"
  "event_entry_of waterbridge ''START_VISIT'' = Some (event_row ''START_VISIT'' ''STAFF_COMMAND'' [''TECHNICIAN''] True True)"
  "event_entry_of waterbridge ''VISIT_COMPLETED'' = Some (event_row ''VISIT_COMPLETED'' ''STAFF_COMMAND'' [''TECHNICIAN''] True True)"
  "event_entry_of waterbridge ''REVISIT_NEEDED'' = Some (event_row ''REVISIT_NEEDED'' ''STAFF_COMMAND'' [''TECHNICIAN''] True True)"
  "event_entry_of waterbridge ''FINALIZE_INQUIRY'' = Some (event_row ''FINALIZE_INQUIRY'' ''STAFF_COMMAND'' [''CONSULTANT'', ''TECHNICIAN''] True True)"
  "event_entry_of waterbridge ''PRODUCT_VALIDATION_FAILED'' = Some (event_row ''PRODUCT_VALIDATION_FAILED'' ''SYSTEM_EVENT'' [''SYSTEM''] False True)"
  "event_entry_of waterbridge ''SAFE_GUIDANCE_READY'' = Some (event_row ''SAFE_GUIDANCE_READY'' ''SYSTEM_EVENT'' [''SYSTEM''] False True)"
  "event_entry_of waterbridge ''HUMAN_REVIEW_GUIDANCE_APPROVED'' = Some (event_row ''HUMAN_REVIEW_GUIDANCE_APPROVED'' ''SYSTEM_EVENT'' [''SYSTEM''] False True)"
  "event_entry_of waterbridge ''HUMAN_REVIEW_CONSULTATION_REQUIRED'' = Some (event_row ''HUMAN_REVIEW_CONSULTATION_REQUIRED'' ''SYSTEM_EVENT'' [''SYSTEM''] False True)"
  "event_entry_of waterbridge ''HUMAN_REVIEW_REJECTED'' = Some (event_row ''HUMAN_REVIEW_REJECTED'' ''SYSTEM_EVENT'' [''SYSTEM''] False True)"
  "event_entry_of waterbridge ''DANGER_DETECTED'' = Some (event_row ''DANGER_DETECTED'' ''SYSTEM_EVENT'' [''SYSTEM''] False True)"
  "event_entry_of waterbridge ''NO_EVIDENCE'' = Some (event_row ''NO_EVIDENCE'' ''SYSTEM_EVENT'' [''SYSTEM''] False True)"
  "event_entry_of waterbridge ''AI_PROCESSING_TIMEOUT'' = Some (event_row ''AI_PROCESSING_TIMEOUT'' ''SYSTEM_EVENT'' [''SYSTEM''] False True)"
  "event_entry_of waterbridge ''VISIT_NOT_NEEDED'' = Some (event_row ''VISIT_NOT_NEEDED'' ''STAFF_COMMAND'' [''CONSULTANT''] True True)"
  by (simp_all add: event_entry_of_waterbridge waterbridge_events_def contract_simps)

lemma guard_lookup [contract_simps]:
  "guard_entry_of waterbridge ''G-ACTOR-CUSTOMER'' = Some (guard_row ''G-ACTOR-CUSTOMER'' ''ROLE'' 403 ''CUSTOMER_ROLE_REQUIRED'')"
  "guard_entry_of waterbridge ''G-ACTOR-CONSULTANT'' = Some (guard_row ''G-ACTOR-CONSULTANT'' ''ROLE'' 403 ''CONSULTANT_ROLE_REQUIRED'')"
  "guard_entry_of waterbridge ''G-ACTOR-TECHNICIAN'' = Some (guard_row ''G-ACTOR-TECHNICIAN'' ''ROLE'' 403 ''TECHNICIAN_ROLE_REQUIRED'')"
  "guard_entry_of waterbridge ''G-ACTOR-SYSTEM'' = Some (guard_row ''G-ACTOR-SYSTEM'' ''ROLE'' 403 ''INTERNAL_EVENT_ONLY'')"
  "guard_entry_of waterbridge ''G-ACTOR-LAST-HANDLER'' = Some (guard_row ''G-ACTOR-LAST-HANDLER'' ''ASSIGNMENT'' 403 ''FINALIZATION_HANDLER_MISMATCH'')"
  "guard_entry_of waterbridge ''G-INQUIRY-OWNER'' = Some (guard_row ''G-INQUIRY-OWNER'' ''RESOURCE_ACCESS'' 404 ''RESOURCE_NOT_FOUND'')"
  "guard_entry_of waterbridge ''G-CUSTOMER-PRODUCT-OWNERSHIP'' = Some (guard_row ''G-CUSTOMER-PRODUCT-OWNERSHIP'' ''RESOURCE_ACCESS'' 404 ''PRODUCT_NOT_FOUND'')"
  "guard_entry_of waterbridge ''G-CONSULTANT-PHONE-SUBSCRIPTION'' = Some (guard_row ''G-CONSULTANT-PHONE-SUBSCRIPTION'' ''RESOURCE_ACCESS'' 404 ''RESOURCE_NOT_FOUND'')"
  "guard_entry_of waterbridge ''G-ASSIGNED-CONSULTANT'' = Some (guard_row ''G-ASSIGNED-CONSULTANT'' ''RESOURCE_ACCESS'' 404 ''RESOURCE_NOT_FOUND'')"
  "guard_entry_of waterbridge ''G-UNASSIGNED-CONSULTATION-CLAIMABLE'' = Some (guard_row ''G-UNASSIGNED-CONSULTATION-CLAIMABLE'' ''RESOURCE_ACCESS'' 404 ''RESOURCE_NOT_FOUND'')"
  "guard_entry_of waterbridge ''G-ASSIGNED-TECHNICIAN'' = Some (guard_row ''G-ASSIGNED-TECHNICIAN'' ''RESOURCE_ACCESS'' 404 ''RESOURCE_NOT_FOUND'')"
  "guard_entry_of waterbridge ''G-ASSIGNED-TECHNICIAN-PRESENT'' = Some (guard_row ''G-ASSIGNED-TECHNICIAN-PRESENT'' ''BUSINESS_RULE'' 422 ''ASSIGNED_TECHNICIAN_REQUIRED'')"
  "guard_entry_of waterbridge ''G-CANCEL-ACTOR-AUTHORIZED'' = Some (guard_row ''G-CANCEL-ACTOR-AUTHORIZED'' ''RESOURCE_ACCESS'' 403 ''INQUIRY_CANCEL_FORBIDDEN'')"
  "guard_entry_of waterbridge ''G-STATE-VERSION'' = Some (guard_row ''G-STATE-VERSION'' ''CONCURRENCY'' 409 ''STATE_VERSION_CONFLICT'')"
  "guard_entry_of waterbridge ''G-IDEMPOTENCY-KEY'' = Some (guard_row ''G-IDEMPOTENCY-KEY'' ''IDEMPOTENCY'' 409 ''IDEMPOTENCY_KEY_REUSE_CONFLICT'')"
  "guard_entry_of waterbridge ''G-SYMPTOM-PAYLOAD-VALID'' = Some (guard_row ''G-SYMPTOM-PAYLOAD-VALID'' ''PAYLOAD'' 422 ''INVALID_SYMPTOM_PAYLOAD'')"
  "guard_entry_of waterbridge ''G-FOLLOWUP-ANSWERS-VALID'' = Some (guard_row ''G-FOLLOWUP-ANSWERS-VALID'' ''PAYLOAD'' 422 ''INVALID_FOLLOWUP_ANSWERS'')"
  "guard_entry_of waterbridge ''G-CANCELLATION-REASON'' = Some (guard_row ''G-CANCELLATION-REASON'' ''PAYLOAD'' 422 ''INVALID_CANCELLATION_REASON'')"
  "guard_entry_of waterbridge ''G-CONSULTATION-SUMMARY-PAYLOAD-VALID'' = Some (guard_row ''G-CONSULTATION-SUMMARY-PAYLOAD-VALID'' ''PAYLOAD'' 422 ''INVALID_CONSULTATION_SUMMARY'')"
  "guard_entry_of waterbridge ''G-CONSULTATION-SUMMARY-CONFIRMABLE'' = Some (guard_row ''G-CONSULTATION-SUMMARY-CONFIRMABLE'' ''BUSINESS_RULE'' 422 ''CONSULTATION_SUMMARY_NOT_CONFIRMABLE'')"
  "guard_entry_of waterbridge ''G-CONSULTATION-RESULT-COMPLETE'' = Some (guard_row ''G-CONSULTATION-RESULT-COMPLETE'' ''COMPLETION'' 422 ''CONSULTATION_RESULT_INCOMPLETE'')"
  "guard_entry_of waterbridge ''G-VISIT-REVIEW-PAYLOAD-VALID'' = Some (guard_row ''G-VISIT-REVIEW-PAYLOAD-VALID'' ''PAYLOAD'' 422 ''INVALID_VISIT_REVIEW_PAYLOAD'')"
  "guard_entry_of waterbridge ''G-VISIT-HANDOFF-COMPLETE'' = Some (guard_row ''G-VISIT-HANDOFF-COMPLETE'' ''COMPLETION'' 422 ''VISIT_HANDOFF_INCOMPLETE'')"
  "guard_entry_of waterbridge ''G-VISIT-SCHEDULE-PAYLOAD-VALID'' = Some (guard_row ''G-VISIT-SCHEDULE-PAYLOAD-VALID'' ''PAYLOAD'' 422 ''INVALID_VISIT_SCHEDULE'')"
  "guard_entry_of waterbridge ''G-CONFIRMED-VISIT-DATE'' = Some (guard_row ''G-CONFIRMED-VISIT-DATE'' ''BUSINESS_RULE'' 422 ''CONFIRMED_VISIT_DATE_REQUIRED'')"
  "guard_entry_of waterbridge ''G-PREVISIT-REPORT-PAYLOAD-VALID'' = Some (guard_row ''G-PREVISIT-REPORT-PAYLOAD-VALID'' ''PAYLOAD'' 422 ''INVALID_PREVISIT_REPORT'')"
  "guard_entry_of waterbridge ''G-PREVISIT-REPORT-CONFIRMABLE'' = Some (guard_row ''G-PREVISIT-REPORT-CONFIRMABLE'' ''BUSINESS_RULE'' 422 ''PREVISIT_REPORT_NOT_CONFIRMABLE'')"
  "guard_entry_of waterbridge ''G-VISIT-RESULT-COMPLETE'' = Some (guard_row ''G-VISIT-RESULT-COMPLETE'' ''COMPLETION'' 422 ''VISIT_RESULT_INCOMPLETE'')"
  "guard_entry_of waterbridge ''G-REVISIT-REASON'' = Some (guard_row ''G-REVISIT-REASON'' ''PAYLOAD'' 422 ''REVISIT_REASON_REQUIRED'')"
  "guard_entry_of waterbridge ''G-RESOLUTION-FEEDBACK-RESOLVED'' = Some (guard_row ''G-RESOLUTION-FEEDBACK-RESOLVED'' ''PAYLOAD'' 422 ''INVALID_RESOLVED_FEEDBACK'')"
  "guard_entry_of waterbridge ''G-NO-FRESH-RESOLVED-CUSTOMER-FEEDBACK'' = Some (guard_row ''G-NO-FRESH-RESOLVED-CUSTOMER-FEEDBACK'' ''COMPLETION'' 409 ''STATE-CONFLICT-01'')"
  "guard_entry_of waterbridge ''G-UNRESOLVED-FEEDBACK-VALID'' = Some (guard_row ''G-UNRESOLVED-FEEDBACK-VALID'' ''PAYLOAD'' 422 ''INVALID_UNRESOLVED_FEEDBACK'')"
  "guard_entry_of waterbridge ''G-FINALIZATION-PAYLOAD-VALID'' = Some (guard_row ''G-FINALIZATION-PAYLOAD-VALID'' ''PAYLOAD'' 422 ''INVALID_FINALIZATION_PAYLOAD'')"
  "guard_entry_of waterbridge ''G-PRODUCT-VALIDATION-FAILED'' = Some (guard_row ''G-PRODUCT-VALIDATION-FAILED'' ''BUSINESS_RULE'' 409 ''PRODUCT_VALIDATION_EVENT_MISMATCH'')"
  "guard_entry_of waterbridge ''G-SAFE-GUIDANCE-VALID'' = Some (guard_row ''G-SAFE-GUIDANCE-VALID'' ''SAFETY_AND_EVIDENCE'' 409 ''SAFE_GUIDANCE_PRECONDITION_FAILED'')"
  "guard_entry_of waterbridge ''G-OFFICIAL-EVIDENCE-AVAILABLE'' = Some (guard_row ''G-OFFICIAL-EVIDENCE-AVAILABLE'' ''SAFETY_AND_EVIDENCE'' 409 ''OFFICIAL_EVIDENCE_REQUIRED'')"
  "guard_entry_of waterbridge ''G-NO-DANGER-CONFLICT'' = Some (guard_row ''G-NO-DANGER-CONFLICT'' ''SAFETY_AND_EVIDENCE'' 409 ''DANGER_RESULT_CONFLICT'')"
  "guard_entry_of waterbridge ''G-DANGER-ASSESSMENT-VALID'' = Some (guard_row ''G-DANGER-ASSESSMENT-VALID'' ''SAFETY_AND_EVIDENCE'' 409 ''DANGER_EVENT_PRECONDITION_FAILED'')"
  "guard_entry_of waterbridge ''G-NO-USABLE-EVIDENCE'' = Some (guard_row ''G-NO-USABLE-EVIDENCE'' ''SAFETY_AND_EVIDENCE'' 409 ''NO_EVIDENCE_EVENT_PRECONDITION_FAILED'')"
  "guard_entry_of waterbridge ''G-AI-PROCESSING-TIMEOUT-VALID'' = Some (guard_row ''G-AI-PROCESSING-TIMEOUT-VALID'' ''SAFETY_AND_EVIDENCE'' 409 ''AI_PROCESSING_TIMEOUT_PRECONDITION_FAILED'')"
  "guard_entry_of waterbridge ''G-HUMAN-REVIEW-GUIDANCE-APPROVED'' = Some (guard_row ''G-HUMAN-REVIEW-GUIDANCE-APPROVED'' ''SAFETY_AND_EVIDENCE'' 409 ''HUMAN_REVIEW_APPROVAL_PRECONDITION_FAILED'')"
  "guard_entry_of waterbridge ''G-HUMAN-REVIEW-CONSULTATION-REQUIRED'' = Some (guard_row ''G-HUMAN-REVIEW-CONSULTATION-REQUIRED'' ''SAFETY_AND_EVIDENCE'' 409 ''HUMAN_REVIEW_CONSULTATION_PRECONDITION_FAILED'')"
  "guard_entry_of waterbridge ''G-HUMAN-REVIEW-REJECTED'' = Some (guard_row ''G-HUMAN-REVIEW-REJECTED'' ''SAFETY_AND_EVIDENCE'' 409 ''HUMAN_REVIEW_REJECTION_PRECONDITION_FAILED'')"
  "guard_entry_of waterbridge ''G-SELF-RESOLUTION-ALLOWED'' = Some (guard_row ''G-SELF-RESOLUTION-ALLOWED'' ''COMPLETION'' 422 ''SELF_RESOLUTION_NOT_ALLOWED'')"
  "guard_entry_of waterbridge ''G-RESOLVED-CUSTOMER-FEEDBACK-EXISTS'' = Some (guard_row ''G-RESOLVED-CUSTOMER-FEEDBACK-EXISTS'' ''COMPLETION'' 422 ''RESOLVED_CUSTOMER_FEEDBACK_REQUIRED'')"
  "guard_entry_of waterbridge ''G-VISIT-NOT-NEEDED-RESULT-COMPLETE'' = Some (guard_row ''G-VISIT-NOT-NEEDED-RESULT-COMPLETE'' ''COMPLETION'' 422 ''VISIT_NOT_NEEDED_RESULT_INCOMPLETE'')"
  by (simp_all add: guard_entry_of_waterbridge waterbridge_guards_def contract_simps)

lemma visit_statuses_waterbridge [contract_simps]:
  "dict_of waterbridge_states ''DRAFT'' = Some []"
  "dict_of waterbridge_states ''QUESTIONNAIRE_IN_PROGRESS'' = Some []"
  "dict_of waterbridge_states ''AI_GUIDANCE'' = Some []"
  "dict_of waterbridge_states ''CONSULTATION_REQUIRED'' = Some []"
  "dict_of waterbridge_states ''CONSULTATION_IN_PROGRESS'' = Some []"
  "dict_of waterbridge_states ''VISIT_REVIEW_PENDING'' = Some [''ASSIGNING'']"
  "dict_of waterbridge_states ''VISIT_SCHEDULING'' = Some [''ASSIGNING'', ''SCHEDULING'']"
  "dict_of waterbridge_states ''VISIT_SCHEDULED'' = Some [''CONFIRMED'', ''IN_PROGRESS'']"
  "dict_of waterbridge_states ''COMPLETION_PENDING'' = Some [''COMPLETED'']"
  "dict_of waterbridge_states ''REVISIT_REQUIRED'' = Some [''FOLLOW_UP_REQUIRED'']"
  "dict_of waterbridge_states ''REOPENED'' = Some [''COMPLETED'', ''FOLLOW_UP_REQUIRED'']"
  "dict_of waterbridge_states ''RESOLVED'' = Some [''COMPLETED'']"
  "dict_of waterbridge_states ''CANCELLED'' = Some [''CANCELLED'']"
  by (simp_all add: dict_of_def waterbridge_states_def)

end
