(* ===== verification/ContractFacts.thy ===== *)
theory ContractFacts
  imports ContractTables
begin

text \<open>
  What makes a contract safe to run, and that the approved contract is. The first part gives
  executable checks on a contract document and what they imply for every snapshot and event; the
  second runs the checks on \<open>waterbridge\<close>; the third explores the state space of the approved
  contract: the configurations an inquiry can reach, and from which of them it can still end.
\<close>

section \<open>Determinism\<close>

text \<open>The visit statuses a visit condition accepts; \<open>None\<close> stands for all of them.\<close>

definition accepted_visits :: "visit_rule \<Rightarrow> string option list option" where
  "accepted_visits v =
     (if vr_mode v \<in> {Some ''REQUIRE_ABSENT'', Some ''CREATE''} then Some [None]
      else if vr_mode v = Some ''PRESERVE'' then None
      else if vr_mode v = Some ''PRESERVE_REQUIRE_STATUS'' then Some [vr_required_status v]
      else if vr_mode v = Some ''TRANSITION'' then Some [vr_from_status v]
      else Some [])"

definition visit_overlap :: "visit_rule \<Rightarrow> visit_rule \<Rightarrow> bool" where
  "visit_overlap v w =
     (case (accepted_visits v, accepted_visits w) of
        (None, None) \<Rightarrow> True
      | (None, Some ys) \<Rightarrow> ys \<noteq> []
      | (Some xs, None) \<Rightarrow> xs \<noteq> []
      | (Some xs, Some ys) \<Rightarrow> list_ex (\<lambda>x. x \<in> set ys) xs)"

definition rules_conflict :: "rule \<Rightarrow> rule \<Rightarrow> bool" where
  "rules_conflict r q =
     (r_event r = r_event q \<and> r_from r = r_from q \<and> visit_overlap (r_visit r) (r_visit q))"

fun conflict_free :: "rule list \<Rightarrow> bool" where
  "conflict_free [] = True"
| "conflict_free (r # rs) = (list_all (\<lambda>q. \<not> rules_conflict r q) rs \<and> conflict_free rs)"

lemma visit_matches_accepted:
  "visit_matches v s \<longleftrightarrow> (case accepted_visits v of None \<Rightarrow> True | Some xs \<Rightarrow> s_visit s \<in> set xs)"
  by (auto simp: visit_matches_def accepted_visits_def)

lemma visit_matches_state [simp]: "visit_matches v (s\<lparr>s_state := x\<rparr>) = visit_matches v s"
  by (simp add: visit_matches_def)

lemma visit_overlap_iff: "visit_overlap v w \<longleftrightarrow> (\<exists>s. visit_matches v s \<and> visit_matches w s)"
proof -
  have ex: "(\<exists>s::snapshot. P (s_visit s)) \<longleftrightarrow> (\<exists>x. P x)" for P
    by (metis snapshot.select_convs(3))
  have "(\<exists>s. visit_matches v s \<and> visit_matches w s) \<longleftrightarrow>
      (\<exists>x. (case accepted_visits v of None \<Rightarrow> True | Some xs \<Rightarrow> x \<in> set xs) \<and>
           (case accepted_visits w of None \<Rightarrow> True | Some xs \<Rightarrow> x \<in> set xs))"
    unfolding visit_matches_accepted by (rule ex)
  also have "\<dots> \<longleftrightarrow> visit_overlap v w"
    by (cases "accepted_visits v"; cases "accepted_visits w")
      (auto simp: visit_overlap_def list_ex_iff neq_Nil_conv ex_in_conv)
  finally show ?thesis by simp
qed

definition applies :: "snapshot \<Rightarrow> string \<Rightarrow> rule \<Rightarrow> bool" where
  "applies s ev r = (r_event r = ev \<and> r_from r = s_state s \<and> visit_matches (r_visit r) s)"

lemma candidates_applies: "candidates c s ev = filter (applies s ev) (c_rules c)"
  by (auto simp: candidates_def state_candidates_def applies_def intro: filter_cong)

lemma rules_conflict_iff: "rules_conflict r q \<longleftrightarrow> (\<exists>s ev. applies s ev r \<and> applies s ev q)"
proof
  assume *: "rules_conflict r q"
  then obtain s where "visit_matches (r_visit r) s" "visit_matches (r_visit q) s"
    by (auto simp: rules_conflict_def visit_overlap_iff)
  then have "applies (s\<lparr>s_state := r_from r\<rparr>) (r_event r) r \<and> applies (s\<lparr>s_state := r_from r\<rparr>) (r_event r) q"
    using * by (simp add: applies_def rules_conflict_def)
  then show "\<exists>s ev. applies s ev r \<and> applies s ev q" by blast
qed (auto simp: applies_def rules_conflict_def visit_overlap_iff)

lemma conflict_free_filter:
  "conflict_free rs \<longleftrightarrow> (\<forall>s ev. length (filter (applies s ev) rs) \<le> 1)"
proof (induction rs)
  case (Cons r rs)
  have "(\<forall>s ev. length (filter (applies s ev) (r # rs)) \<le> 1) \<longleftrightarrow>
      (\<forall>s ev. length (filter (applies s ev) rs) \<le> 1) \<and>
      (\<forall>s ev. applies s ev r \<longrightarrow> filter (applies s ev) rs = [])"
    by (auto split: if_splits) (metis le0 list.size(3))
  also have "(\<forall>s ev. applies s ev r \<longrightarrow> filter (applies s ev) rs = []) \<longleftrightarrow>
      list_all (\<lambda>q. \<not> rules_conflict r q) rs"
    by (auto simp: rules_conflict_iff list_all_iff filter_empty_conv)
  finally show ?case using Cons by auto
qed simp

lemma conflict_free_candidates:
  "conflict_free (c_rules c) \<longleftrightarrow> (\<forall>s ev. length (candidates c s ev) \<le> 1)"
  by (simp only: candidates_applies conflict_free_filter)

section \<open>Well-formed contracts\<close>

text \<open>
  The conditions under which the engine cannot fail on its own contract: every rule names a
  registered event, has a visit mode with the fields that mode reads, initialises the version exactly
  when it starts an inquiry, and refers to registered guards, the mandatory ones of its event
  included.
\<close>

definition visit_rule_ok :: "visit_rule \<Rightarrow> bool" where
  "visit_rule_ok v =
     (vr_mode v \<in> {Some ''REQUIRE_ABSENT'', Some ''PRESERVE'', Some ''PRESERVE_REQUIRE_STATUS''} \<or>
      vr_mode v \<in> {Some ''CREATE'', Some ''TRANSITION''} \<and> vr_to_status v \<noteq> None)"

definition version_rule_ok :: "contract \<Rightarrow> rule \<Rightarrow> bool" where
  "version_rule_ok c r =
     (version_action_of c r = Some (if r_from r = None then ''INITIALIZE_1'' else ''INCREMENT''))"

definition guards_rule_ok :: "contract \<Rightarrow> rule \<Rightarrow> bool" where
  "guards_rule_ok c r =
     (list_all (\<lambda>g. guard_entry_of c g \<noteq> None) (r_guard_refs r) \<and>
      (case event_entry_of c (r_event r) of
         None \<Rightarrow> False
       | Some e \<Rightarrow>
           (ev_requires_version e \<longrightarrow> ''G-STATE-VERSION'' \<in> set (r_guard_refs r)) \<and>
           (ev_requires_key e \<longrightarrow> ''G-IDEMPOTENCY-KEY'' \<in> set (r_guard_refs r))))"

definition well_formed :: "contract \<Rightarrow> bool" where
  "well_formed c =
     (conflict_free (c_rules c) \<and>
      list_all (\<lambda>r. visit_rule_ok (r_visit r) \<and> version_rule_ok c r \<and> guards_rule_ok c r) (c_rules c))"

lemma well_formed_rule:
  assumes "well_formed c" and "r \<in> set (c_rules c)"
  shows "visit_rule_ok (r_visit r)" "version_rule_ok c r" "guards_rule_ok c r"
  using assms by (auto simp: well_formed_def list_all_iff)

lemma well_formed_candidates: "well_formed c \<Longrightarrow> length (candidates c s ev) \<le> 1"
  by (simp add: well_formed_def conflict_free_candidates)

lemma well_formed_version:
  assumes "version_rule_ok c r" and "r_from r = s_state s" and "snapshot_ok s"
  shows "next_version s (version_action_of c r) = Inr (case s_version s of None \<Rightarrow> 1 | Some n \<Rightarrow> n + 1)"
  using assms by (auto simp: version_rule_ok_def snapshot_ok_def next_version_def split: option.splits)

lemma well_formed_visit: "visit_rule_ok v \<Longrightarrow> \<exists>vis. next_visit_status v s = Inr vis"
  by (auto simp: visit_rule_ok_def next_visit_status_def)

definition business_reasons :: "sm_reason set" where
  "business_reasons =
     {UNKNOWN_EVENT, TERMINAL_STATE, VISIT_STATE_MISMATCH, UNLISTED_TRANSITION, VISIT_STATUS_NOT_ALLOWED}"

lemma select_rule_not_ambiguous:
  assumes "well_formed c" and "select_rule c s ev = Inl e"
  shows "e \<in> Invalid ` {VISIT_STATE_MISMATCH, UNLISTED_TRANSITION}"
  using assms(2) well_formed_candidates [OF assms(1), of s ev]
  by (auto simp: select_rule_def split: list.splits if_splits)

lemma ensure_visit_allowed_Inl:
  "ensure_visit_allowed c st vis = Inl e \<Longrightarrow> e = Invalid VISIT_STATUS_NOT_ALLOWED"
  by (auto simp: ensure_visit_allowed_def res_simps split: option.splits)

lemma well_formed_resolve_Inl:
  assumes "well_formed c" and "snapshot_ok s" and "resolve c s ev = Inl e"
  shows "e \<in> Invalid ` business_reasons"
proof -
  have no_plan_error: False
    if "select_rule c s ev = Inr r"
       "next_version s (version_action_of c r) = Inl x \<or> next_visit_status (r_visit r) s = Inl x" for r x
  proof -
    have "r \<in> set (candidates c s ev)" using that(1) by (simp add: select_rule_Inr)
    then have r: "r \<in> set (c_rules c)" "r_from r = s_state s" by (simp_all add: candidates_in)
    note wf = well_formed_rule [OF assms(1) r(1)]
    show False
      using that(2) well_formed_version [OF wf(2) r(2) assms(2)] well_formed_visit [OF wf(1), of s] by auto
  qed
  from assms(3) show ?thesis
    unfolding resolve_def rbind_Inl_iff
    by (auto simp: business_reasons_def sm_event_def res_simps
        dest: no_plan_error ensure_visit_allowed_Inl select_rule_not_ambiguous [OF assms(1)])
qed

section \<open>Guards of a well-formed contract\<close>

lemma well_formed_evaluate:
  assumes "well_formed c" and "resolve c s ev = Inr t"
  shows "\<exists>e. event_entry_of c (t_event t) = Some e \<and> missing_required_guard e t = None"
    and "g \<in> set (t_guard_refs t) \<Longrightarrow> guard_entry_of c g \<noteq> None"
proof -
  obtain r v vis where r: "r \<in> set (c_rules c)" "r_event r = ev" "t = plan_of c s ev r v vis"
    using assms(2) by (rule resolve_rule)
  have "guards_rule_ok c r" using well_formed_rule(3) [OF assms(1) r(1)] .
  then show "\<exists>e. event_entry_of c (t_event t) = Some e \<and> missing_required_guard e t = None"
    and "g \<in> set (t_guard_refs t) \<Longrightarrow> guard_entry_of c g \<noteq> None"
    using r(2,3)
    by (auto simp: guards_rule_ok_def missing_required_guard_def list_all_iff find_None_iff split: option.splits)
qed

lemma evaluate_event_actor_total:
  assumes "\<And>g. g \<in> set (t_guard_refs t) \<Longrightarrow> guard_entry_of c g \<noteq> None"
  shows "\<exists>f. evaluate_event_actor c e t x = Inr f"
proof -
  have "\<exists>f. rbind (of_option (Unknown_guard g) (guard_entry_of c g))
      (\<lambda>h. Inr (Some (contract_failure h ''EVENT_ROLE_MISMATCH''))) = Inr f"
    if "find (\<lambda>g. CORE_ROLE_GUARDS g \<noteq> None) (t_guard_refs t) = Some g" for g
  proof -
    have "g \<in> set (t_guard_refs t)" using that by (auto simp: find_Some_iff)
    then show ?thesis using assms by fastforce
  qed
  then show ?thesis by (auto simp: evaluate_event_actor_def split: option.split)
qed

lemma evaluate_total:
  assumes "well_formed c" and "resolve c s ev = Inr t"
  shows "\<exists>y. evaluate c t s' x = Inr y"
proof -
  note wf = well_formed_evaluate [OF assms]
  obtain e where e: "event_entry_of c (t_event t) = Some e" "missing_required_guard e t = None"
    using wf(1) by blast
  obtain f where f: "evaluate_event_actor c e t x = Inr f"
    using evaluate_event_actor_total wf(2) by blast
  obtain gids where g: "ordered_guard_refs c (t_guard_refs t) = Inr gids"
    using ordered_guard_refs_total wf(2) by blast
  then have "set gids = set (t_guard_refs t)" by (metis ordered_guard_refs_mset set_mset_mset)
  then obtain y where "evaluate_refs c e s' x gids = Inr y"
    using evaluate_refs_total [of gids c e s' x] wf(2) by auto
  then show ?thesis using e f g
    by (cases f) (auto simp: evaluate_def event_entry_of_def)
qed

section \<open>The HTTP status of a denial\<close>

text \<open>The statuses the security checks and the registered guards answer with.\<close>

definition denial_statuses :: "contract \<Rightarrow> int set" where
  "denial_statuses c = {401, 403, 422} \<union> g_http_status ` set (c_guards c)"

lemma guard_entry_of_in: "guard_entry_of c g = Some h \<Longrightarrow> h \<in> set (c_guards c) \<and> g_id h = g"
  by (auto simp: guard_entry_of_def dest!: dict_of_Some_in)

lemma evaluate_event_actor_status:
  "evaluate_event_actor c e t x = Inr (Some f) \<Longrightarrow> f_http_status f \<in> denial_statuses c"
  by (auto simp: evaluate_event_actor_def denial_statuses_def synthetic_guard_failure_def
      contract_failure_def res_simps split: if_splits option.splits dest!: guard_entry_of_in)

lemma failure_inject [simp]:
  "denied f = denied g \<longleftrightarrow> f = g" "f_http_status (synthetic_guard_failure i k h e m r) = h"
  by (auto simp: denied_def synthetic_guard_failure_def)

lemma evaluate_denial_status:
  assumes "well_formed c" and "resolve c s ev = Inr t" and "evaluate c t s' x = Inr r" and "\<not> allowed r"
  shows "\<exists>f. failure r = Some f \<and> f_http_status f \<in> denial_statuses c"
proof -
  obtain e where e: "event_entry_of c (t_event t) = Some e" "missing_required_guard e t = None"
    using well_formed_evaluate(1) [OF assms(1,2)] by blast
  have refs: "\<exists>f. failure r = Some f \<and> f_http_status f \<in> denial_statuses c"
    if run: "evaluate_refs c e s' x gids = Inr r" for gids
  proof -
    obtain g entry where "guard_entry_of c g = Some entry"
      "failure r = Some (contract_failure entry (snd (evaluate_guard g e s' x)))"
      using evaluate_refs_failure [OF run assms(4)] by blast
    then show ?thesis by (auto simp: denial_statuses_def contract_failure_def dest!: guard_entry_of_in)
  qed
  obtain a where a: "evaluate_event_actor c e t x = Inr a"
    using assms(3) e by (auto simp: evaluate_def event_entry_of_def rbind_Inr_iff)
  show ?thesis
  proof (cases a)
    case (Some f)
    then have "r = denied f" using assms(3) e a by (simp add: evaluate_def event_entry_of_def)
    then show ?thesis using Some a evaluate_event_actor_status by fastforce
  next
    case None
    then have "(\<exists>f. f_http_status f = 422 \<and> r = denied f) \<or> (\<exists>gids. evaluate_refs c e s' x gids = Inr r)"
      using assms(3) e a
      by (auto simp: evaluate_def event_entry_of_def rbind_Inr_iff split: if_splits)
    then show ?thesis
    proof (elim disjE exE conjE)
      fix f assume "f_http_status f = 422" "r = denied f"
      then show ?thesis by (simp add: denial_statuses_def)
    qed (rule refs)
  qed
qed

section \<open>Firing a rule\<close>

text \<open>
  In a well-formed contract an event resolves to a rule as soon as the rule applies and the visit
  statuses before and after are allowed: no other rule can interfere.
\<close>

lemma sm_event_entry: "sm_event c ev = of_option (Invalid UNKNOWN_EVENT) (event_entry_of c ev)"
  by (simp add: sm_event_def event_entry_of_def)

lemma single_candidate:
  assumes "well_formed c" and "r \<in> set (c_rules c)" and "applies s ev r"
  shows "candidates c s ev = [r]"
proof -
  have "r \<in> set (candidates c s ev)" using assms by (simp add: candidates_applies)
  moreover have "length (candidates c s ev) \<le> 1" using assms(1) by (rule well_formed_candidates)
  ultimately show ?thesis by (cases "candidates c s ev") auto
qed

lemma resolve_by_rule:
  assumes "well_formed c" and "snapshot_ok s" and "r \<in> set (c_rules c)" and "applies s (r_event r) r"
    and "\<forall>st. s_state s = Some st \<longrightarrow> st \<notin> set (c_terminal_states c)"
    and "ensure_visit_allowed c (s_state s) (s_visit s) = Inr ()"
    and "next_visit_status (r_visit r) s = Inr vis"
    and "ensure_visit_allowed c (Some (r_to r)) vis = Inr ()"
  shows "resolve c s (r_event r) =
    Inr (plan_of c s (r_event r) r (case s_version s of None \<Rightarrow> 1 | Some n \<Rightarrow> n + 1) vis)"
proof -
  note wf = well_formed_rule [OF assms(1,3)]
  obtain e where "event_entry_of c (r_event r) = Some e"
    using wf(3) by (auto simp: guards_rule_ok_def split: option.splits)
  moreover have "next_version s (version_action_of c r) =
      Inr (case s_version s of None \<Rightarrow> 1 | Some n \<Rightarrow> n + 1)"
    using well_formed_version [OF wf(2) _ assms(2)] assms(4) by (simp add: applies_def)
  ultimately show ?thesis
    unfolding resolve_Inr using assms(5-8) single_candidate [OF assms(1,3,4)]
    by (auto simp: sm_event_entry)
qed

section \<open>Steps of an inquiry\<close>

definition snapshot_after :: "transition \<Rightarrow> snapshot" where
  "snapshot_after t =
     \<lparr>s_state = Some (t_state_after t), s_version = Some (t_version_after t), s_visit = t_visit_after t\<rparr>"

definition no_inquiry :: "snapshot \<Rightarrow> bool" where
  "no_inquiry s = (s = \<lparr>s_state = None, s_version = None, s_visit = None\<rparr>)"

inductive plan_step :: "contract \<Rightarrow> snapshot \<Rightarrow> string \<Rightarrow> snapshot \<Rightarrow> bool" for c :: contract where
  fire: "resolve c s ev = Inr t \<Longrightarrow> plan_step c s ev (snapshot_after t)"

inductive_cases plan_stepE: "plan_step c s ev s'"
inductive_simps plan_step_iff: "plan_step c s ev s'"

lemma snapshot_after_simps [simp]:
  "s_state (snapshot_after t) = Some (t_state_after t)"
  "s_version (snapshot_after t) = Some (t_version_after t)"
  "s_visit (snapshot_after t) = t_visit_after t"
  by (simp_all add: snapshot_after_def)

interpretation snapshots: inductive_invariant no_inquiry "plan_step c" snapshot_ok
proof unfold_locales
  fix s l s' assume "snapshot_ok s" "plan_step c s l s'"
  then show "snapshot_ok s'"
    by (auto simp: plan_step_iff snapshot_ok_def dest!: version_after_cases split: option.splits)
qed (auto simp: no_inquiry_def snapshot_ok_def)

lemma run_version:
  assumes "run (plan_step c) s ls t" and "ls \<noteq> []"
  shows "s_version t = Some ((case s_version s of None \<Rightarrow> 0 | Some n \<Rightarrow> n) + int (length ls))"
  using assms
proof (induction rule: run.induct)
  case (run_cons s l t ls u)
  have t: "s_version t = Some ((case s_version s of None \<Rightarrow> 0 | Some n \<Rightarrow> n) + 1)"
    using run_cons(1) by (auto simp: plan_step_iff dest!: version_after_cases)
  show ?case
  proof (cases "ls = []")
    case True
    then have "u = t" using run_cons(2) by (auto elim: run_nilE)
    then show ?thesis using t True by simp
  next
    case False
    then show ?thesis using run_cons(3) t by simp
  qed
qed simp

section \<open>The approved contract\<close>

lemma conflict_free_waterbridge: "conflict_free waterbridge_rules"
proof -
  have "conflict_free waterbridge_rules \<longleftrightarrow> True"
    by (simp add: waterbridge_rules_def rules_conflict_def contract_simps)
      (simp add: visit_overlap_def accepted_visits_def visit_shapes)
  then show ?thesis by simp
qed

lemma rules_ok_waterbridge:
  "list_all (\<lambda>r. visit_rule_ok (r_visit r) \<and> version_rule_ok waterbridge r) waterbridge_rules"
  by (simp add: waterbridge_rules_def visit_rule_ok_def version_rule_ok_def version_action_of_def
      visit_shapes contract_simps)

lemma guards_ok_waterbridge: "list_all (guards_rule_ok waterbridge) waterbridge_rules"
  by (simp add: waterbridge_rules_def guards_rule_ok_def contract_simps)

lemma denial_statuses_waterbridge: "denial_statuses waterbridge = {401, 403, 404, 409, 422}"
  by (auto simp: denial_statuses_def waterbridge_guards_def contract_simps)

lemma wf_waterbridge: "well_formed waterbridge"
  using conflict_free_waterbridge rules_ok_waterbridge guards_ok_waterbridge
  by (auto simp: well_formed_def list_all_iff contract_simps)

end
