(* ===== verification/ActionFacts.thy ===== *)
theory ActionFacts
  imports ActionData ContractFacts
begin

text \<open>
  The approved documents offer only what the engine accepts: the action table is total (no catalog
  drift, no missing key), and every offered action resolves to a transition whose event admits the
  actor's role.
\<close>

section \<open>Checks on the action table\<close>

text \<open>
  An assignment of an action to a state and role is sound when the action, where it is implemented,
  is in the catalog under the implemented operation, and its event admits the role.
\<close>

definition assignment_ok ::
  "contract \<Rightarrow> action_document \<Rightarrow> (string \<times> runtime_action) list \<Rightarrow> string \<Rightarrow> assignment \<Rightarrow> bool" where
  "assignment_ok c d rt role a =
     (case map_of rt (as_action a) of
        None \<Rightarrow> True
      | Some ra \<Rightarrow>
          (case catalog_of d (as_action a) of
             None \<Rightarrow> False
           | Some e \<Rightarrow> ca_code e = as_action a \<and> ca_operation_id e = ra_operation_id ra) \<and>
          (case event_entry_of c (ra_event ra) of
             None \<Rightarrow> False
           | Some ev \<Rightarrow> role \<in> set (ev_actor_roles ev) \<and> role \<noteq> ''SYSTEM''))"

definition action_table_ok ::
  "contract \<Rightarrow> action_document \<Rightarrow> (string \<times> runtime_action) list \<Rightarrow> bool" where
  "action_table_ok c d rt =
     list_all (\<lambda>(st, rs). list_all (\<lambda>(role, as). list_all (assignment_ok c d rt role) as) rs)
       (ad_state_roles d)"

lemma role_assignments_ok:
  assumes "action_table_ok c d rt" and "a \<in> set (role_assignments d st role)"
  shows "assignment_ok c d rt role a"
proof -
  obtain rs where rs: "map_of (ad_state_roles d) st = Some rs"
    using assms(2) by (cases "map_of (ad_state_roles d) st") (auto simp: role_assignments_def)
  then obtain as where as: "map_of rs role = Some as" "a \<in> set as"
    using assms(2) by (cases "map_of rs role") (auto simp: role_assignments_def)
  have "(st, rs) \<in> set (ad_state_roles d)" "(role, as) \<in> set rs"
    using rs as by (auto dest: map_of_SomeD)
  then show ?thesis using assms(1) as(2) by (fastforce simp: action_table_ok_def list_all_iff)
qed

lemma resolve_candidate_total:
  assumes "well_formed c" and "assignment_ok c d rt role a"
    and "snapshot_init (Some (ac_inquiry_state x)) (Some (ac_state_version x)) (ac_visit_status x) = Inr s"
  shows "\<exists>r. resolve_candidate c d rt x a = Inr r"
proof -
  have "\<exists>q. e = Invalid q" if "resolve c s ev = Inl e" for ev e
    using well_formed_resolve_Inl [OF assms(1) snapshot_init_ok [OF assms(3)] that] by auto
  then show ?thesis using assms(2,3)
    by (fastforce simp: resolve_candidate_def assignment_ok_def split: option.splits sum.splits sm_error.splits)
qed

lemma resolve_actions_total:
  assumes "well_formed c" and "runtime_action_contract cx [] = Inr rt" and "action_table_ok c d rt"
    and "snapshot_init (Some (ac_inquiry_state x)) (Some (ac_state_version x)) (ac_visit_status x) = Inr s"
  shows "\<exists>es. resolve_actions c d cx x = Inr es"
proof -
  have "\<exists>r. resolve_candidate c d rt x a = Inr r"
    if "a \<in> set (role_assignments d (ac_inquiry_state x) (ac_actor_role x))" for a
    by (rule resolve_candidate_total [OF assms(1) role_assignments_ok [OF assms(3) that] assms(4)])
  then have "\<exists>rs. map_res (resolve_candidate c d rt x)
      (role_assignments d (ac_inquiry_state x) (ac_actor_role x)) = Inr rs"
    by (rule map_res_ex)
  then show ?thesis using assms(2) by (auto simp: resolve_actions_def)
qed

lemma offered_action:
  assumes "action_table_ok c d rt" and "runtime_action_contract cx [] = Inr rt"
    and "resolve_actions c d cx x = Inr es" and "e \<in> set es"
  shows "\<exists>ra s t ev. map_of rt (ca_code e) = Some ra \<and>
     snapshot_init (Some (ac_inquiry_state x)) (Some (ac_state_version x)) (ac_visit_status x) = Inr s \<and>
     resolve c s (ra_event ra) = Inr t \<and> event_entry_of c (ra_event ra) = Some ev \<and>
     ac_actor_role x \<in> set (ev_actor_roles ev) \<and> ac_actor_role x \<noteq> ''SYSTEM'' \<and>
     (\<forall>g \<in> set (t_guard_refs t). guard_available x g)"
proof -
  obtain a where a: "a \<in> set (role_assignments d (ac_inquiry_state x) (ac_actor_role x))"
    "resolve_candidate c d rt x a = Inr (Some e)"
    using resolve_actions_in [OF assms(3,2)] assms(4) by blast
  then show ?thesis
    using role_assignments_ok [OF assms(1) a(1)]
    by (fastforce simp: resolve_candidate_Some assignment_ok_def split: option.splits)
qed

section \<open>The approved table\<close>

lemma catalog_lookup:
  "distinct (map ca_code action_catalog)"
  by (simp add: action_catalog_def catalog_row_def)

lemma catalog_of_action_doc:
  "catalog_of action_doc k = Some e \<longleftrightarrow> e \<in> set action_catalog \<and> ca_code e = k"
proof -
  have "distinct (map fst (map (\<lambda>e. (ca_code e, e)) action_catalog))"
    using catalog_lookup by (simp add: comp_def)
  from dict_of_distinct [OF this] show ?thesis by (auto simp: catalog_of_def action_doc_def)
qed

lemma catalog_row_sel:
  "ca_code (catalog_row c opid st cf) = c" "ca_operation_id (catalog_row c opid st cf) = opid"
  by (simp_all add: catalog_row_def)

lemma catalog_reads:
  "catalog_of action_doc ''SUBMIT_SYMPTOM'' = Some (catalog_row ''SUBMIT_SYMPTOM'' ''submitSymptom'' ''PRIMARY'' False)"
  "catalog_of action_doc ''CANCEL_INQUIRY'' = Some (catalog_row ''CANCEL_INQUIRY'' ''cancelInquiry'' ''DESTRUCTIVE'' True)"
  "catalog_of action_doc ''SUBMIT_ANSWERS'' = Some (catalog_row ''SUBMIT_ANSWERS'' ''submitFollowUpAnswers'' ''PRIMARY'' False)"
  "catalog_of action_doc ''CUSTOMER_REPORTED_SELF_RESOLVED'' = Some (catalog_row ''CUSTOMER_REPORTED_SELF_RESOLVED'' ''reportSelfResolution'' ''PRIMARY'' True)"
  "catalog_of action_doc ''REQUEST_CONSULTATION'' = Some (catalog_row ''REQUEST_CONSULTATION'' ''requestConsultation'' ''SECONDARY'' False)"
  "catalog_of action_doc ''CLAIM_CONSULTATION'' = Some (catalog_row ''CLAIM_CONSULTATION'' ''claimConsultation'' ''PRIMARY'' False)"
  "catalog_of action_doc ''START_CONSULTATION'' = Some (catalog_row ''START_CONSULTATION'' ''startConsultation'' ''PRIMARY'' False)"
  "catalog_of action_doc ''UPDATE_CONSULTATION_SUMMARY'' = Some (catalog_row ''UPDATE_CONSULTATION_SUMMARY'' ''updateConsultationSummary'' ''SECONDARY'' False)"
  "catalog_of action_doc ''CONFIRM_CONSULTATION_SUMMARY'' = Some (catalog_row ''CONFIRM_CONSULTATION_SUMMARY'' ''confirmConsultationSummary'' ''PRIMARY'' True)"
  "catalog_of action_doc ''CONSULTATION_COMPLETED'' = Some (catalog_row ''CONSULTATION_COMPLETED'' ''completeConsultation'' ''PRIMARY'' True)"
  "catalog_of action_doc ''VISIT_REVIEW_REQUIRED'' = Some (catalog_row ''VISIT_REVIEW_REQUIRED'' ''requestVisitReview'' ''SECONDARY'' False)"
  "catalog_of action_doc ''VISIT_NEEDED'' = Some (catalog_row ''VISIT_NEEDED'' ''createVisitRequest'' ''PRIMARY'' True)"
  "catalog_of action_doc ''UPDATE_VISIT_SCHEDULE'' = Some (catalog_row ''UPDATE_VISIT_SCHEDULE'' ''updateVisitSchedule'' ''SECONDARY'' False)"
  "catalog_of action_doc ''CONFIRM_VISIT'' = Some (catalog_row ''CONFIRM_VISIT'' ''confirmVisit'' ''PRIMARY'' True)"
  "catalog_of action_doc ''UPDATE_PREVISIT_REPORT'' = Some (catalog_row ''UPDATE_PREVISIT_REPORT'' ''updatePrevisitReport'' ''SECONDARY'' False)"
  "catalog_of action_doc ''CONFIRM_PREVISIT_REPORT'' = Some (catalog_row ''CONFIRM_PREVISIT_REPORT'' ''confirmPrevisitReport'' ''PRIMARY'' True)"
  "catalog_of action_doc ''START_VISIT'' = Some (catalog_row ''START_VISIT'' ''startVisit'' ''PRIMARY'' True)"
  "catalog_of action_doc ''VISIT_COMPLETED'' = Some (catalog_row ''VISIT_COMPLETED'' ''completeVisit'' ''PRIMARY'' True)"
  "catalog_of action_doc ''REVISIT_NEEDED'' = Some (catalog_row ''REVISIT_NEEDED'' ''requestRevisit'' ''SECONDARY'' True)"
  "catalog_of action_doc ''SUBMIT_RESOLUTION_FEEDBACK'' = Some (catalog_row ''SUBMIT_RESOLUTION_FEEDBACK'' ''submitResolutionFeedback'' ''PRIMARY'' False)"
  "catalog_of action_doc ''CUSTOMER_REPORTED_UNRESOLVED'' = Some (catalog_row ''CUSTOMER_REPORTED_UNRESOLVED'' ''reportUnresolved'' ''SECONDARY'' False)"
  "catalog_of action_doc ''RESUME_CONSULTATION'' = Some (catalog_row ''RESUME_CONSULTATION'' ''resumeConsultation'' ''PRIMARY'' False)"
  "catalog_of action_doc ''FINALIZE_INQUIRY'' = Some (catalog_row ''FINALIZE_INQUIRY'' ''finalizeInquiry'' ''PRIMARY'' True)"
  "catalog_of action_doc ''VISIT_NOT_NEEDED'' = Some (catalog_row ''VISIT_NOT_NEEDED'' ''markVisitNotNeeded'' ''SECONDARY'' True)"
  by (simp_all add: catalog_of_action_doc action_catalog_def catalog_row_sel)

lemma action_table_approved: "action_table_ok waterbridge action_doc runtime_actions"
proof -
  have "ad_state_roles action_doc = state_role_actions" by (simp add: action_doc_def)
  then show ?thesis
    unfolding action_table_ok_def
    by (simp add: state_role_actions_def assignment_ok_def runtime_actions_def catalog_reads
        catalog_row_sel contract_simps)
qed

end
