(* ===== verification/Lifecycle.thy ===== *)
theory Lifecycle
  imports ContractFacts
begin

text \<open>
  The life of an inquiry under the approved contract: which combinations of inquiry state and visit
  status the engine can reach, from which of them a terminal state is still reachable, and the one
  combination where every event is refused.
\<close>

section \<open>Reachable configurations\<close>

text \<open>The visit statuses an inquiry in a given state can have.\<close>

definition lifecycle :: "(string \<times> string option list) list" where
  "lifecycle = [
     (''DRAFT'', [None]), (''QUESTIONNAIRE_IN_PROGRESS'', [None]), (''AI_GUIDANCE'', [None]),
     (''CONSULTATION_REQUIRED'', [None]), (''CONSULTATION_IN_PROGRESS'', [None]),
     (''VISIT_REVIEW_PENDING'', [None]),
     (''VISIT_SCHEDULING'', [Some ''ASSIGNING'', Some ''SCHEDULING'']),
     (''VISIT_SCHEDULED'', [Some ''CONFIRMED'', Some ''IN_PROGRESS'']),
     (''REVISIT_REQUIRED'', [Some ''FOLLOW_UP_REQUIRED'']),
     (''COMPLETION_PENDING'', [None, Some ''COMPLETED'']),
     (''REOPENED'', [None, Some ''COMPLETED'']),
     (''RESOLVED'', [None, Some ''COMPLETED'']), (''CANCELLED'', [None])]"

definition lifecycle_visits :: "string option \<Rightarrow> string option list" where
  "lifecycle_visits st =
     (case st of None \<Rightarrow> [None]
      | Some x \<Rightarrow> (case map_of lifecycle x of None \<Rightarrow> [] | Some vs \<Rightarrow> vs))"

definition in_lifecycle :: "snapshot \<Rightarrow> bool" where
  "in_lifecycle s = (s_visit s \<in> set (lifecycle_visits (s_state s)))"

text \<open>A rule keeps the table when every visit status it starts from leads back into it.\<close>

definition rule_keeps :: "contract \<Rightarrow> (string option \<Rightarrow> string option list) \<Rightarrow> rule \<Rightarrow> bool" where
  "rule_keeps c f r =
     list_all (\<lambda>vis. let s = \<lparr>s_state = r_from r, s_version = None, s_visit = vis\<rparr> in
        visit_matches (r_visit r) s \<longrightarrow>
        (case next_visit_status (r_visit r) s of
           Inl e \<Rightarrow> True
         | Inr vis' \<Rightarrow> ensure_visit_allowed c (Some (r_to r)) vis' = Inr () \<longrightarrow>
             vis' \<in> set (f (Some (r_to r))))) (f (r_from r))"

lemma visit_matches_cong: "s_visit s = s_visit s' \<Longrightarrow> visit_matches v s = visit_matches v s'"
  by (simp add: visit_matches_def)

lemma next_visit_status_cong:
  "s_visit s = s_visit s' \<Longrightarrow> next_visit_status v s = next_visit_status v s'"
  by (cases "vr_mode v") (simp_all add: next_visit_status_def)

lemma rule_keeps_step:
  assumes "list_all (rule_keeps c f) (c_rules c)"
    and "s_visit s \<in> set (f (s_state s))" and "plan_step c s ev s'"
  shows "s_visit s' \<in> set (f (s_state s'))"
proof -
  obtain t where t: "resolve c s ev = Inr t" "s' = snapshot_after t"
    using assms(3) by (auto simp: plan_step_iff)
  obtain r v vis where r: "r \<in> set (c_rules c)" "r_from r = s_state s" "visit_matches (r_visit r) s"
    "t = plan_of c s ev r v vis" "next_visit_status (r_visit r) s = Inr vis"
    "ensure_visit_allowed c (Some (r_to r)) vis = Inr ()"
    using t(1) by (rule resolve_rule)
  let ?s = "\<lparr>s_state = r_from r, s_version = None, s_visit = s_visit s\<rparr>"
  have "rule_keeps c f r" using assms(1) r(1) by (simp add: list_all_iff)
  moreover have "s_visit s \<in> set (f (r_from r))" using assms(2) r(2) by simp
  moreover have "visit_matches (r_visit r) ?s" "next_visit_status (r_visit r) ?s = Inr vis"
    using r(3,5) visit_matches_cong [of s ?s] next_visit_status_cong [of s ?s] by simp_all
  ultimately have "vis \<in> set (f (Some (r_to r)))"
    using r(6) by (fastforce simp: rule_keeps_def list_all_iff Let_def)
  then show ?thesis using t(2) r(4) by simp
qed

lemma lifecycle_lookup:
  "list_all (\<lambda>(st, vs). lifecycle_visits (Some st) = vs) lifecycle"
  "lifecycle_visits None = [None]"
  by (simp_all add: lifecycle_visits_def lifecycle_def)

lemmas lifecycle_simps = lifecycle_lookup [unfolded lifecycle_def, simplified]

lemma waterbridge_keeps: "list_all (rule_keeps waterbridge lifecycle_visits) (c_rules waterbridge)"
  by (simp add: waterbridge_rules_def rule_keeps_def visit_matches_def next_visit_status_def
      ensure_visit_allowed_def visit_shapes contract_simps lifecycle_simps)

interpretation lifecycles: inductive_invariant no_inquiry "plan_step waterbridge" in_lifecycle
proof unfold_locales
  show "in_lifecycle s \<Longrightarrow> plan_step waterbridge s l s' \<Longrightarrow> in_lifecycle s'" for s l s'
    unfolding in_lifecycle_def by (rule rule_keeps_step [OF waterbridge_keeps])
qed (simp add: no_inquiry_def in_lifecycle_def lifecycle_simps)

section \<open>The events a configuration accepts\<close>

text \<open>
  What the engine can do in a configuration, computed from the rules: event, next inquiry state, next
  visit status.
\<close>

definition firing :: "contract \<Rightarrow> string option \<Rightarrow> string option \<Rightarrow> rule \<Rightarrow>
    (string \<times> string \<times> string option) option" where
  "firing c st vis r =
     (let s = \<lparr>s_state = st, s_version = None, s_visit = vis\<rparr> in
      if r_from r = st \<and> visit_matches (r_visit r) s then
        (case next_visit_status (r_visit r) s of
           Inl e \<Rightarrow> None
         | Inr vis' \<Rightarrow>
             if ensure_visit_allowed c (Some (r_to r)) vis' = Inr () then Some (r_event r, r_to r, vis')
             else None)
      else None)"

definition firings :: "contract \<Rightarrow> string option \<Rightarrow> string option \<Rightarrow>
    (string \<times> string \<times> string option) list" where
  "firings c st vis =
     (if st \<in> set (map Some (c_terminal_states c)) \<or> ensure_visit_allowed c st vis \<noteq> Inr () then []
      else List.map_filter (firing c st vis) (c_rules c))"

lemma in_firing:
  "firing c st vis r = Some (ev, st', vis') \<longleftrightarrow>
     r_event r = ev \<and> r_to r = st' \<and> r_from r = st \<and>
     visit_matches (r_visit r) \<lparr>s_state = st, s_version = None, s_visit = vis\<rparr> \<and>
     next_visit_status (r_visit r) \<lparr>s_state = st, s_version = None, s_visit = vis\<rparr> = Inr vis' \<and>
     ensure_visit_allowed c (Some st') vis' = Inr ()"
  by (auto simp: firing_def Let_def split: sum.splits if_splits)

lemma in_firings:
  "(ev, st', vis') \<in> set (firings c st vis) \<longleftrightarrow>
     st \<notin> set (map Some (c_terminal_states c)) \<and> ensure_visit_allowed c st vis = Inr () \<and>
     (\<exists>r \<in> set (c_rules c). r_event r = ev \<and> r_to r = st' \<and> r_from r = st \<and>
        visit_matches (r_visit r) \<lparr>s_state = st, s_version = None, s_visit = vis\<rparr> \<and>
        next_visit_status (r_visit r) \<lparr>s_state = st, s_version = None, s_visit = vis\<rparr> = Inr vis' \<and>
        ensure_visit_allowed c (Some st') vis' = Inr ())"
  by (auto simp: firings_def in_set_map_filter in_firing)

definition version_next :: "int option \<Rightarrow> int" where
  "version_next v = (case v of None \<Rightarrow> 1 | Some n \<Rightarrow> n + 1)"

lemma plan_step_firings:
  assumes "well_formed c" and "snapshot_ok s"
  shows "plan_step c s ev s' \<longleftrightarrow>
    (\<exists>st' vis'. (ev, st', vis') \<in> set (firings c (s_state s) (s_visit s)) \<and>
       s' = \<lparr>s_state = Some st', s_version = Some (version_next (s_version s)), s_visit = vis'\<rparr>)"
proof
  assume "plan_step c s ev s'"
  then obtain t where t: "resolve c s ev = Inr t" "s' = snapshot_after t" by (auto simp: plan_step_iff)
  from t(1) obtain r v vis where r: "r \<in> set (c_rules c)" "r_event r = ev" "r_from r = s_state s"
    "visit_matches (r_visit r) s" "t = plan_of c s ev r v vis"
    "next_visit_status (r_visit r) s = Inr vis" "ensure_visit_allowed c (Some (r_to r)) vis = Inr ()"
    by (rule resolve_rule)
  have v: "t_version_after t = version_next (s_version s)"
    using version_after_cases [OF t(1)] by (auto simp: version_next_def)
  have "(ev, r_to r, vis) \<in> set (firings c (s_state s) (s_visit s))"
    unfolding in_firings using r t(1)
      visit_matches_cong [of s "\<lparr>s_state = s_state s, s_version = None, s_visit = s_visit s\<rparr>"]
      next_visit_status_cong [of s "\<lparr>s_state = s_state s, s_version = None, s_visit = s_visit s\<rparr>"]
    by (auto simp: resolve_Inr)
  then show "\<exists>st' vis'. (ev, st', vis') \<in> set (firings c (s_state s) (s_visit s)) \<and>
       s' = \<lparr>s_state = Some st', s_version = Some (version_next (s_version s)), s_visit = vis'\<rparr>"
    using t(2) r(5) v by (auto simp: snapshot_after_def)
next
  assume "\<exists>st' vis'. (ev, st', vis') \<in> set (firings c (s_state s) (s_visit s)) \<and>
       s' = \<lparr>s_state = Some st', s_version = Some (version_next (s_version s)), s_visit = vis'\<rparr>"
  then obtain st' vis' r where s': "s' = \<lparr>s_state = Some st', s_version = Some (version_next (s_version s)), s_visit = vis'\<rparr>"
    and r: "s_state s \<notin> set (map Some (c_terminal_states c))"
      "ensure_visit_allowed c (s_state s) (s_visit s) = Inr ()"
      "r \<in> set (c_rules c)" "r_event r = ev" "r_to r = st'" "r_from r = s_state s"
      "visit_matches (r_visit r) s" "next_visit_status (r_visit r) s = Inr vis'"
      "ensure_visit_allowed c (Some st') vis' = Inr ()"
    unfolding in_firings
    by (metis visit_matches_cong next_visit_status_cong snapshot.select_convs(3))
  have "resolve c s (r_event r) = Inr (plan_of c s (r_event r) r (version_next (s_version s)) vis')"
    unfolding version_next_def
    by (rule resolve_by_rule) (use assms r in \<open>auto simp: applies_def\<close>)
  from plan_step.fire [OF this] show "plan_step c s ev s'"
    using r(4,5) s' by (simp add: snapshot_after_def)
qed

text \<open>The transition graph of the approved contract, configuration by configuration.\<close>

lemma firings_waterbridge:
  "firings waterbridge None None = [
     (''START_INQUIRY'', ''DRAFT'', None),
     (''REGISTER_PHONE_INQUIRY'', ''CONSULTATION_REQUIRED'', None)]"
  "firings waterbridge (Some ''DRAFT'') None = [
     (''SUBMIT_SYMPTOM'', ''QUESTIONNAIRE_IN_PROGRESS'', None),
     (''CANCEL_INQUIRY'', ''CANCELLED'', None),
     (''PRODUCT_VALIDATION_FAILED'', ''CONSULTATION_REQUIRED'', None)]"
  "firings waterbridge (Some ''CONSULTATION_REQUIRED'') None = [
     (''REQUEST_CONSULTATION'', ''CONSULTATION_REQUIRED'', None),
     (''START_CONSULTATION'', ''CONSULTATION_IN_PROGRESS'', None),
     (''CLAIM_CONSULTATION'', ''CONSULTATION_REQUIRED'', None),
     (''CANCEL_INQUIRY'', ''CANCELLED'', None)]"
  "firings waterbridge (Some ''QUESTIONNAIRE_IN_PROGRESS'') None = [
     (''SUBMIT_ANSWERS'', ''QUESTIONNAIRE_IN_PROGRESS'', None),
     (''CANCEL_INQUIRY'', ''CANCELLED'', None),
     (''PRODUCT_VALIDATION_FAILED'', ''CONSULTATION_REQUIRED'', None),
     (''SAFE_GUIDANCE_READY'', ''AI_GUIDANCE'', None),
     (''HUMAN_REVIEW_GUIDANCE_APPROVED'', ''AI_GUIDANCE'', None),
     (''HUMAN_REVIEW_CONSULTATION_REQUIRED'', ''CONSULTATION_REQUIRED'', None),
     (''HUMAN_REVIEW_REJECTED'', ''CONSULTATION_REQUIRED'', None),
     (''DANGER_DETECTED'', ''CONSULTATION_REQUIRED'', None),
     (''NO_EVIDENCE'', ''CONSULTATION_REQUIRED'', None),
     (''AI_PROCESSING_TIMEOUT'', ''CONSULTATION_REQUIRED'', None)]"
  "firings waterbridge (Some ''CANCELLED'') None = []"
  "firings waterbridge (Some ''CONSULTATION_IN_PROGRESS'') None = [
     (''UPDATE_CONSULTATION_SUMMARY'', ''CONSULTATION_IN_PROGRESS'', None),
     (''CONFIRM_CONSULTATION_SUMMARY'', ''CONSULTATION_IN_PROGRESS'', None),
     (''CONSULTATION_COMPLETED'', ''COMPLETION_PENDING'', None),
     (''VISIT_REVIEW_REQUIRED'', ''VISIT_REVIEW_PENDING'', None),
     (''CANCEL_INQUIRY'', ''CANCELLED'', None)]"
  "firings waterbridge (Some ''AI_GUIDANCE'') None = [
     (''CUSTOMER_REPORTED_SELF_RESOLVED'', ''RESOLVED'', None),
     (''REQUEST_CONSULTATION'', ''CONSULTATION_REQUIRED'', None)]"
  "firings waterbridge (Some ''COMPLETION_PENDING'') None = [
     (''SUBMIT_RESOLUTION_FEEDBACK'', ''COMPLETION_PENDING'', None),
     (''CUSTOMER_REPORTED_UNRESOLVED'', ''REOPENED'', None),
     (''REQUEST_CONSULTATION'', ''CONSULTATION_REQUIRED'', None),
     (''FINALIZE_INQUIRY'', ''RESOLVED'', None)]"
  "firings waterbridge (Some ''VISIT_REVIEW_PENDING'') None = [
     (''VISIT_NEEDED'', ''VISIT_SCHEDULING'', Some ''ASSIGNING''),
     (''VISIT_NOT_NEEDED'', ''COMPLETION_PENDING'', None)]"
  "firings waterbridge (Some ''RESOLVED'') None = []"
  "firings waterbridge (Some ''REOPENED'') None = [
     (''RESUME_CONSULTATION'', ''CONSULTATION_REQUIRED'', None)]"
  "firings waterbridge (Some ''VISIT_SCHEDULING'') (Some ''ASSIGNING'') = [
     (''UPDATE_VISIT_SCHEDULE'', ''VISIT_SCHEDULING'', Some ''SCHEDULING'')]"
  "firings waterbridge (Some ''VISIT_SCHEDULING'') (Some ''SCHEDULING'') = [
     (''UPDATE_VISIT_SCHEDULE'', ''VISIT_SCHEDULING'', Some ''SCHEDULING''),
     (''CONFIRM_VISIT'', ''VISIT_SCHEDULED'', Some ''CONFIRMED'')]"
  "firings waterbridge (Some ''VISIT_SCHEDULED'') (Some ''CONFIRMED'') = [
     (''UPDATE_PREVISIT_REPORT'', ''VISIT_SCHEDULED'', Some ''CONFIRMED''),
     (''CONFIRM_PREVISIT_REPORT'', ''VISIT_SCHEDULED'', Some ''CONFIRMED''),
     (''START_VISIT'', ''VISIT_SCHEDULED'', Some ''IN_PROGRESS'')]"
  "firings waterbridge (Some ''VISIT_SCHEDULED'') (Some ''IN_PROGRESS'') = [
     (''VISIT_COMPLETED'', ''COMPLETION_PENDING'', Some ''COMPLETED''),
     (''REVISIT_NEEDED'', ''REVISIT_REQUIRED'', Some ''FOLLOW_UP_REQUIRED'')]"
  "firings waterbridge (Some ''COMPLETION_PENDING'') (Some ''COMPLETED'') = [
     (''SUBMIT_RESOLUTION_FEEDBACK'', ''COMPLETION_PENDING'', Some ''COMPLETED''),
     (''CUSTOMER_REPORTED_UNRESOLVED'', ''REOPENED'', Some ''COMPLETED''),
     (''FINALIZE_INQUIRY'', ''RESOLVED'', Some ''COMPLETED'')]"
  "firings waterbridge (Some ''REVISIT_REQUIRED'') (Some ''FOLLOW_UP_REQUIRED'') = [
     (''UPDATE_VISIT_SCHEDULE'', ''VISIT_SCHEDULING'', Some ''SCHEDULING'')]"
  "firings waterbridge (Some ''REOPENED'') (Some ''COMPLETED'') = []"
  "firings waterbridge (Some ''RESOLVED'') (Some ''COMPLETED'') = []"
  by (simp_all add: firings_def firing_def List.map_filter_def waterbridge_rules_def visit_matches_def
      next_visit_status_def ensure_visit_allowed_def visit_shapes contract_simps)

section \<open>Every configuration of the table is reached\<close>

definition inquiry_reach :: "snapshot \<Rightarrow> bool" where
  "inquiry_reach = reach no_inquiry (plan_step waterbridge)"

definition reached :: "string option \<Rightarrow> string option \<Rightarrow> bool" where
  "reached st vis = (\<exists>s. inquiry_reach s \<and> s_state s = st \<and> s_visit s = vis)"

lemma reach_ok: "inquiry_reach s \<Longrightarrow> snapshot_ok s \<and> in_lifecycle s"
  unfolding inquiry_reach_def using snapshots.on_reach lifecycles.on_reach by blast

lemma reached_step:
  assumes "reached st vis" and "(ev, st', vis') \<in> set (firings waterbridge st vis)"
  shows "reached (Some st') vis'"
proof -
  obtain s where s: "inquiry_reach s" "s_state s = st" "s_visit s = vis"
    using assms(1) by (auto simp: reached_def)
  let ?s' = "\<lparr>s_state = Some st', s_version = Some (version_next (s_version s)), s_visit = vis'\<rparr>"
  have "plan_step waterbridge s ev ?s'"
    using assms(2) s plan_step_firings [OF wf_waterbridge] reach_ok by metis
  then have "inquiry_reach ?s'"
    using s(1) unfolding inquiry_reach_def by (metis reach_step)
  then show ?thesis by (force simp: reached_def)
qed

lemma reached_start: "reached None None"
proof -
  have "inquiry_reach \<lparr>s_state = None, s_version = None, s_visit = None\<rparr>"
    unfolding inquiry_reach_def by (rule reach_init) (simp add: no_inquiry_def)
  then show ?thesis by (force simp: reached_def)
qed

lemma reached_before_visit:
  "reached (Some ''DRAFT'') None" "reached (Some ''QUESTIONNAIRE_IN_PROGRESS'') None"
  "reached (Some ''AI_GUIDANCE'') None" "reached (Some ''CONSULTATION_REQUIRED'') None"
  "reached (Some ''CONSULTATION_IN_PROGRESS'') None" "reached (Some ''VISIT_REVIEW_PENDING'') None"
  "reached (Some ''COMPLETION_PENDING'') None" "reached (Some ''REOPENED'') None"
  "reached (Some ''RESOLVED'') None" "reached (Some ''CANCELLED'') None"
proof -
  show a: "reached (Some ''DRAFT'') None"
    by (rule reached_step [OF reached_start, of "''START_INQUIRY''"]) (simp add: firings_waterbridge)
  show b: "reached (Some ''QUESTIONNAIRE_IN_PROGRESS'') None"
    by (rule reached_step [OF a, of "''SUBMIT_SYMPTOM''"]) (simp add: firings_waterbridge)
  show "reached (Some ''CANCELLED'') None"
    by (rule reached_step [OF a, of "''CANCEL_INQUIRY''"]) (simp add: firings_waterbridge)
  show "reached (Some ''AI_GUIDANCE'') None"
    by (rule reached_step [OF b, of "''SAFE_GUIDANCE_READY''"]) (simp add: firings_waterbridge)
  show c: "reached (Some ''CONSULTATION_REQUIRED'') None"
    by (rule reached_step [OF b, of "''NO_EVIDENCE''"]) (simp add: firings_waterbridge)
  show d: "reached (Some ''CONSULTATION_IN_PROGRESS'') None"
    by (rule reached_step [OF c, of "''START_CONSULTATION''"]) (simp add: firings_waterbridge)
  show "reached (Some ''VISIT_REVIEW_PENDING'') None"
    by (rule reached_step [OF d, of "''VISIT_REVIEW_REQUIRED''"]) (simp add: firings_waterbridge)
  show e: "reached (Some ''COMPLETION_PENDING'') None"
    by (rule reached_step [OF d, of "''CONSULTATION_COMPLETED''"]) (simp add: firings_waterbridge)
  show "reached (Some ''REOPENED'') None"
    by (rule reached_step [OF e, of "''CUSTOMER_REPORTED_UNRESOLVED''"]) (simp add: firings_waterbridge)
  show "reached (Some ''RESOLVED'') None"
    by (rule reached_step [OF e, of "''FINALIZE_INQUIRY''"]) (simp add: firings_waterbridge)
qed

lemma reached_visit:
  "reached (Some ''VISIT_SCHEDULING'') (Some ''ASSIGNING'')"
  "reached (Some ''VISIT_SCHEDULING'') (Some ''SCHEDULING'')"
  "reached (Some ''VISIT_SCHEDULED'') (Some ''CONFIRMED'')"
  "reached (Some ''VISIT_SCHEDULED'') (Some ''IN_PROGRESS'')"
  "reached (Some ''REVISIT_REQUIRED'') (Some ''FOLLOW_UP_REQUIRED'')"
  "reached (Some ''COMPLETION_PENDING'') (Some ''COMPLETED'')"
  "reached (Some ''REOPENED'') (Some ''COMPLETED'')"
  "reached (Some ''RESOLVED'') (Some ''COMPLETED'')"
proof -
  show a: "reached (Some ''VISIT_SCHEDULING'') (Some ''ASSIGNING'')"
    by (rule reached_step [OF reached_before_visit(6), of "''VISIT_NEEDED''"]) (simp add: firings_waterbridge)
  show b: "reached (Some ''VISIT_SCHEDULING'') (Some ''SCHEDULING'')"
    by (rule reached_step [OF a, of "''UPDATE_VISIT_SCHEDULE''"]) (simp add: firings_waterbridge)
  show c: "reached (Some ''VISIT_SCHEDULED'') (Some ''CONFIRMED'')"
    by (rule reached_step [OF b, of "''CONFIRM_VISIT''"]) (simp add: firings_waterbridge)
  show d: "reached (Some ''VISIT_SCHEDULED'') (Some ''IN_PROGRESS'')"
    by (rule reached_step [OF c, of "''START_VISIT''"]) (simp add: firings_waterbridge)
  show "reached (Some ''REVISIT_REQUIRED'') (Some ''FOLLOW_UP_REQUIRED'')"
    by (rule reached_step [OF d, of "''REVISIT_NEEDED''"]) (simp add: firings_waterbridge)
  show e: "reached (Some ''COMPLETION_PENDING'') (Some ''COMPLETED'')"
    by (rule reached_step [OF d, of "''VISIT_COMPLETED''"]) (simp add: firings_waterbridge)
  show "reached (Some ''REOPENED'') (Some ''COMPLETED'')"
    by (rule reached_step [OF e, of "''CUSTOMER_REPORTED_UNRESOLVED''"]) (simp add: firings_waterbridge)
  show "reached (Some ''RESOLVED'') (Some ''COMPLETED'')"
    by (rule reached_step [OF e, of "''FINALIZE_INQUIRY''"]) (simp add: firings_waterbridge)
qed

lemma lifecycle_visits_cases:
  assumes "vis \<in> set (lifecycle_visits (Some st))"
  obtains vs where "(st, vs) \<in> set lifecycle" "vis \<in> set vs"
  using assms by (cases "map_of lifecycle st") (auto simp: lifecycle_visits_def dest: map_of_SomeD)

lemma reached_iff: "reached st vis \<longleftrightarrow> vis \<in> set (lifecycle_visits st)"
proof
  show "reached st vis \<Longrightarrow> vis \<in> set (lifecycle_visits st)"
    using reach_ok by (auto simp: reached_def in_lifecycle_def)
  assume vis: "vis \<in> set (lifecycle_visits st)"
  show "reached st vis"
  proof (cases st)
    case None
    then show ?thesis using vis reached_start by (simp add: lifecycle_visits_def)
  next
    case (Some x)
    with vis obtain vs where "(x, vs) \<in> set lifecycle" "vis \<in> set vs"
      by (auto elim: lifecycle_visits_cases)
    then show ?thesis using Some reached_before_visit reached_visit by (auto simp: lifecycle_def)
  qed
qed

section \<open>Ending an inquiry\<close>

text \<open>From every reachable configuration but one, at most five events end the inquiry.\<close>

definition ends_within :: "nat \<Rightarrow> string \<Rightarrow> string option \<Rightarrow> bool" where
  "ends_within k st vis =
     (\<forall>s. snapshot_ok s \<longrightarrow> s_state s = Some st \<longrightarrow> s_visit s = vis \<longrightarrow>
        (\<exists>ls t. run (plan_step waterbridge) s ls t \<and> length ls \<le> k \<and>
           s_state t \<in> {Some ''RESOLVED'', Some ''CANCELLED''}))"

lemma ends_now: "st \<in> {''RESOLVED'', ''CANCELLED''} \<Longrightarrow> ends_within k st vis"
  unfolding ends_within_def by (metis run_nil list.size(3) le0 insert_iff empty_iff)

lemma ends_step:
  assumes "(ev, st', vis') \<in> set (firings waterbridge (Some st) vis)" and "ends_within k st' vis'"
  shows "ends_within (Suc k) st vis"
  unfolding ends_within_def
proof (intro allI impI)
  fix s assume s: "snapshot_ok s" "s_state s = Some st" "s_visit s = vis"
  let ?s' = "\<lparr>s_state = Some st', s_version = Some (version_next (s_version s)), s_visit = vis'\<rparr>"
  have step: "plan_step waterbridge s ev ?s'"
    using assms(1) s plan_step_firings [OF wf_waterbridge s(1)] by metis
  then have "snapshot_ok ?s'" using s(1) by (rule snapshots.preserved [rotated])
  then obtain ls t where "run (plan_step waterbridge) ?s' ls t" "length ls \<le> k"
    "s_state t \<in> {Some ''RESOLVED'', Some ''CANCELLED''}"
    using assms(2) by (force simp: ends_within_def)
  then show "\<exists>ls t. run (plan_step waterbridge) s ls t \<and> length ls \<le> Suc k \<and>
           s_state t \<in> {Some ''RESOLVED'', Some ''CANCELLED''}"
    using run_cons [of "plan_step waterbridge", OF step] by (metis Suc_le_mono length_Cons)
qed

lemma ends_before_visit:
  "ends_within 1 ''DRAFT'' None" "ends_within 1 ''QUESTIONNAIRE_IN_PROGRESS'' None"
  "ends_within 1 ''AI_GUIDANCE'' None" "ends_within 1 ''CONSULTATION_REQUIRED'' None"
  "ends_within 1 ''CONSULTATION_IN_PROGRESS'' None" "ends_within 2 ''VISIT_REVIEW_PENDING'' None"
  "ends_within 1 ''COMPLETION_PENDING'' None" "ends_within 2 ''REOPENED'' None"
proof -
  have r: "ends_within 0 ''RESOLVED'' vis" and c: "ends_within 0 ''CANCELLED'' vis" for vis
    by (simp_all add: ends_now)
  note one = ends_step [where k = 0, simplified One_nat_def [symmetric]]
  note two = ends_step [where k = 1, simplified Suc_1]
  show "ends_within 1 ''DRAFT'' None" "ends_within 1 ''QUESTIONNAIRE_IN_PROGRESS'' None"
    "ends_within 1 ''CONSULTATION_IN_PROGRESS'' None"
    by (rule one [OF _ c, of "''CANCEL_INQUIRY''" None]; simp add: firings_waterbridge)+
  show cr: "ends_within 1 ''CONSULTATION_REQUIRED'' None"
    by (rule one [OF _ c, of "''CANCEL_INQUIRY''" None]) (simp add: firings_waterbridge)
  show "ends_within 1 ''AI_GUIDANCE'' None"
    by (rule one [OF _ r, of "''CUSTOMER_REPORTED_SELF_RESOLVED''" None]) (simp add: firings_waterbridge)
  show cp: "ends_within 1 ''COMPLETION_PENDING'' None"
    by (rule one [OF _ r, of "''FINALIZE_INQUIRY''" None]) (simp add: firings_waterbridge)
  show "ends_within 2 ''VISIT_REVIEW_PENDING'' None"
    by (rule two [OF _ cp, of "''VISIT_NOT_NEEDED''"]) (simp add: firings_waterbridge)
  show "ends_within 2 ''REOPENED'' None"
    by (rule two [OF _ cr, of "''RESUME_CONSULTATION''"]) (simp add: firings_waterbridge)
qed

lemma ends_visit:
  "ends_within 1 ''COMPLETION_PENDING'' (Some ''COMPLETED'')"
  "ends_within 2 ''VISIT_SCHEDULED'' (Some ''IN_PROGRESS'')"
  "ends_within 3 ''VISIT_SCHEDULED'' (Some ''CONFIRMED'')"
  "ends_within 4 ''VISIT_SCHEDULING'' (Some ''SCHEDULING'')"
  "ends_within 5 ''VISIT_SCHEDULING'' (Some ''ASSIGNING'')"
  "ends_within 5 ''REVISIT_REQUIRED'' (Some ''FOLLOW_UP_REQUIRED'')"
proof -
  have r: "ends_within 0 ''RESOLVED'' (Some ''COMPLETED'')" by (simp add: ends_now)
  show a: "ends_within 1 ''COMPLETION_PENDING'' (Some ''COMPLETED'')"
    using ends_step [OF _ r, of "''FINALIZE_INQUIRY''"] by (simp add: firings_waterbridge)
  show b: "ends_within 2 ''VISIT_SCHEDULED'' (Some ''IN_PROGRESS'')"
    using ends_step [OF _ a, of "''VISIT_COMPLETED''"] by (simp add: firings_waterbridge numeral_2_eq_2)
  show c: "ends_within 3 ''VISIT_SCHEDULED'' (Some ''CONFIRMED'')"
    using ends_step [OF _ b, of "''START_VISIT''"] by (simp add: firings_waterbridge numeral_3_eq_3 numeral_2_eq_2)
  show d: "ends_within 4 ''VISIT_SCHEDULING'' (Some ''SCHEDULING'')"
    using ends_step [OF _ c, of "''CONFIRM_VISIT''"] by (simp add: firings_waterbridge)
  show "ends_within 5 ''VISIT_SCHEDULING'' (Some ''ASSIGNING'')"
    using ends_step [OF _ d, of "''UPDATE_VISIT_SCHEDULE''"] by (simp add: firings_waterbridge)
  show "ends_within 5 ''REVISIT_REQUIRED'' (Some ''FOLLOW_UP_REQUIRED'')"
    using ends_step [OF _ d, of "''UPDATE_VISIT_SCHEDULE''"] by (simp add: firings_waterbridge)
qed

lemma ends_mono: "ends_within j st vis \<Longrightarrow> j \<le> k \<Longrightarrow> ends_within k st vis"
  unfolding ends_within_def by (blast intro: le_trans)

lemmas ends_five =
  ends_before_visit [THEN ends_mono [where k = 5], simplified]
  ends_visit [THEN ends_mono [where k = 5], simplified]

lemma reached_ends:
  assumes "vis \<in> set (lifecycle_visits (Some st))" and "(st, vis) \<noteq> (''REOPENED'', Some ''COMPLETED'')"
  shows "ends_within 5 st vis"
proof -
  obtain vs where "(st, vs) \<in> set lifecycle" "vis \<in> set vs"
    using assms(1) by (rule lifecycle_visits_cases)
  then show ?thesis
    using assms(2) by (auto simp: lifecycle_def ends_now ends_five)
qed

section \<open>The deadlock\<close>

lemma firings_Nil_blocked:
  assumes "firings waterbridge (s_state s) (s_visit s) = []" and "snapshot_ok s"
  shows "\<exists>e. resolve waterbridge s ev = Inl (Invalid e) \<and> e \<in> business_reasons"
proof (cases "resolve waterbridge s ev")
  case (Inl e)
  then show ?thesis using well_formed_resolve_Inl [OF wf_waterbridge assms(2)] by auto
next
  case (Inr t)
  then have "plan_step waterbridge s ev (snapshot_after t)" by (rule plan_step.fire)
  then show ?thesis using assms plan_step_firings [OF wf_waterbridge] by simp
qed

end
