(* ===== verification/Scenario.thy ===== *)
theory Scenario
  imports Sessions ActionFacts Lifecycle
begin

text \<open>
  The approved documents as the services load them, and one concrete inquiry: registered by phone,
  claimed by a consultant, about to be consulted. Its requests are the inputs at which the
  properties' hypotheses are shown to hold.
\<close>

section \<open>The approved documents\<close>

definition approved :: documents where
  "approved = \<lparr>dc_contract = waterbridge, dc_actions = action_doc, dc_crosswalk = crosswalk,
     dc_resume_enabled = True\<rparr>"

lemma approved_sel [simp]:
  "dc_contract approved = waterbridge" "dc_actions approved = action_doc" "dc_crosswalk approved = crosswalk"
  by (simp_all add: approved_def)

text \<open>With the approved documents the offered actions never fail on a row the database accepts.\<close>

lemma offered_total:
  assumes "snapshot_init (Some (i_status_code i)) (Some (i_state_version i))
    (map_option v_status (chosen_row (fm_visit a) (fm_prefetched_visits a) (latest_visit i d))) = Inr s"
  shows "\<exists>es. offered approved i actor a d = Inr es"
proof -
  have "\<exists>es. resolve_actions waterbridge action_doc crosswalk (from_models i actor a d) = Inr es"
    using assms by (intro resolve_actions_total [OF wf_waterbridge runtime_actions_crosswalk action_table_approved])
      simp
  then show ?thesis by (auto simp: offered_def)
qed

section \<open>One inquiry\<close>

definition lee :: user_row where
  "lee = \<lparr>u_id = 7, u_public_id = 107, u_username = ''LEE'', u_role_code = ''CONSULTANT'', u_authenticated = True,
     u_is_active = True, u_is_synthetic = True, u_permissions = [], u_full_name = ''Lee'',
     u_phone = ''010''\<rparr>"

definition kim :: user_row where
  "kim = \<lparr>u_id = 3, u_public_id = 103, u_username = ''KIM'', u_role_code = ''CUSTOMER'', u_authenticated = True,
     u_is_active = True, u_is_synthetic = True, u_permissions = [], u_full_name = ''Kim'',
     u_phone = ''011''\<rparr>"

definition leak :: inquiry_row where
  "leak = \<lparr>i_id = 1, i_public_id = 501, i_inquiry_code = ''INQ-1'',
     i_subscription = \<lparr>su_public_id = 301, su_contract_no = ''C-1'',
       su_customer = \<lparr>cu_user = kim, cu_is_synthetic = True, cu_deleted_at = None\<rparr>,
       su_product_model_id = Some 11, su_model_code = Some ''WPUJAC104DWH'', su_status_code = ''ACTIVE''\<rparr>,
     i_initiated_by = lee, i_assigned_user_id = Some 7, i_assigned_role_code = ''CONSULTANT'',
     i_channel_code = Some ''PHONE'', i_raw_text = ''water leaks'', i_priority_code = ''NORMAL'',
     i_source_key = Some ''k0'', i_source_correlation = Some 900, i_questionnaire_session = None,
     i_status_code = ''CONSULTATION_REQUIRED'', i_state_version = 2, i_cancelled_at = None,
     i_cancellation_reason_code = None, i_cancellation_reason_detail = None\<rparr>"

definition waiting :: consultation_row where
  "waiting = (new_consultation leak 1 None ''WAITING'' 1 ''k0'' 900 None ''synthetic'' 10)
     \<lparr>co_id := 2, co_public_id := 601, co_consultant_id := Some 7, co_status := ''ASSIGNED''\<rparr>"

definition leak_history :: "string \<Rightarrow> string option \<Rightarrow> int \<Rightarrow> history_row" where
  "leak_history event from version =
     \<lparr>h_id = nat version + 2, h_target_type_code = ''INQUIRY'', h_questionnaire_id = None,
      h_inquiry_id = Some 1, h_consultation_id = None, h_visit_id = None, h_actor_id = Some 7,
      h_changed_by_type_code = ''USER'', h_event_code = event, h_from_state = from,
      h_to_state = ''CONSULTATION_REQUIRED'', h_state_version = version, h_correlation_id = 900,
      h_idempotency_key = ''k0'', h_change_reason = None, h_changed_at = 10\<rparr>"

definition office :: db where
  "office = \<lparr>db_users = [lee, kim], db_inquiries = [leak], db_consultations = [waiting],
     db_visits = [], db_handoffs = [], db_feedback = [], db_qa = [], db_answers = [],
     db_subscriptions = [i_subscription leak], db_symptoms = [], db_questionnaires = [], db_ai_runs = [],
     db_ai_handoffs = [], db_guidances = [], db_guidance_items = [], db_evidence = [],
     db_cause_ledgers = [], db_reviews = [], db_dispatches = [],
     db_history = [leak_history ''REGISTER_PHONE_INQUIRY'' None 1,
       leak_history ''CLAIM_CONSULTATION'' (Some ''CONSULTATION_REQUIRED'') 2],
     db_idem = [], db_next_id = 5, db_next_uuid = 700\<rparr>"

definition start_call :: request where
  "start_call = \<lparr>rq_actor = lee, rq_target = 501, rq_data = [(''state_version'', PInt 2)],
     rq_key = ''k1'', rq_correlation = 901, rq_now = 20\<rparr>"

lemmas office_defs = office_def leak_def waiting_def lee_def kim_def start_call_def leak_history_def
  new_consultation_def

lemma ledger_office: "ledger_ok office" "lawful waterbridge office" "races_ok [] office"
proof -
  show "ledger_ok office"
    by (simp add: ledger_ok_def trail_ok_def trail_def history_target_def office_defs)
  show "races_ok [] office" by (simp add: races_ok_def office_def)
  have "lawful waterbridge office = True"
    by (simp add: lawful_def lawful_row_def office_defs waterbridge_rules_def contract_simps)
  then show "lawful waterbridge office" by simp
qed

definition leak_snapshot :: snapshot where
  "leak_snapshot = \<lparr>s_state = Some ''CONSULTATION_REQUIRED'', s_version = Some 2, s_visit = None\<rparr>"

definition start_plan :: transition where
  "start_plan = plan_of waterbridge leak_snapshot ''START_CONSULTATION'' tr_inq_014 3 None"

lemma start_resolves: "resolve waterbridge leak_snapshot ''START_CONSULTATION'' = Inr start_plan"
proof -
  have "tr_inq_014 \<in> set (c_rules waterbridge)" by (simp add: contract_simps waterbridge_rules_def)
  then have "resolve waterbridge leak_snapshot (r_event tr_inq_014) =
      Inr (plan_of waterbridge leak_snapshot (r_event tr_inq_014) tr_inq_014
        (case s_version leak_snapshot of None \<Rightarrow> 1 | Some n \<Rightarrow> n + 1) None)"
    by (intro resolve_by_rule wf_waterbridge)
      (auto simp: applies_def leak_snapshot_def snapshot_ok_def visit_matches_def next_visit_status_def
        ensure_visit_allowed_def visit_shapes contract_simps)
  then show ?thesis by (simp add: start_plan_def leak_snapshot_def contract_simps)
qed

lemma start_plan_sel [simp]:
  "t_event start_plan = ''START_CONSULTATION''" "t_state_before start_plan = Some ''CONSULTATION_REQUIRED''"
  "t_state_after start_plan = ''CONSULTATION_IN_PROGRESS''" "t_version_after start_plan = 3"
  "t_visit_before start_plan = None" "t_visit_after start_plan = None" "\<not> t_record_visit start_plan"
  "t_guard_refs start_plan =
     [''G-ACTOR-CONSULTANT'', ''G-ASSIGNED-CONSULTANT'', ''G-STATE-VERSION'', ''G-IDEMPOTENCY-KEY'']"
  by (simp_all add: start_plan_def leak_snapshot_def contract_simps)
    (simp add: plan_of_def tr_inq_014_def history_flags_def)

text \<open>The context \<open>execute\<close> builds for the request.\<close>

definition start_context :: guard_context where
  "start_context = \<lparr>x_actor_role = Some ''CONSULTANT'', x_authenticated = True,
     x_correlation_id = Some (uuid_text 901), x_idempotency_key = Some ''k1'',
     x_requested_version = Some 2, x_trusted_internal = False,
     x_domain_results = dict_of [(''G-ASSIGNED-CONSULTANT'', True)]\<rparr>"

definition start_event :: event_entry where
  "start_event = event_row ''START_CONSULTATION'' ''STAFF_COMMAND'' [''CONSULTANT''] True True"

lemma start_event_entry: "event_entry_of waterbridge ''START_CONSULTATION'' = Some start_event"
  by (simp add: contract_simps start_event_def)

lemma start_preconditions: "preconditions_pass waterbridge start_event start_plan (start_context\<lparr>x_requested_version := v\<rparr>)"
proof -
  have "opt_has_text (Some (uuid_text 901))"
    by (simp add: opt_has_text_def has_text_iff uuid_text_def is_space_def)
  then show ?thesis
    by (simp add: preconditions_pass_def missing_required_guard_def contract_simps evaluate_event_actor_def
        start_context_def start_event_def valid_idempotency_key_def has_text_iff is_space_def strip_def)
qed

lemma start_guards:
  "fst (evaluate_guard ''G-ACTOR-CONSULTANT'' start_event leak_snapshot (start_context\<lparr>x_requested_version := v\<rparr>))"
  "fst (evaluate_guard ''G-ASSIGNED-CONSULTANT'' start_event leak_snapshot (start_context\<lparr>x_requested_version := v\<rparr>))"
  "fst (evaluate_guard ''G-IDEMPOTENCY-KEY'' start_event leak_snapshot (start_context\<lparr>x_requested_version := v\<rparr>))"
  "evaluate_guard ''G-STATE-VERSION'' start_event leak_snapshot (start_context\<lparr>x_requested_version := v\<rparr>) =
     (v = Some 2, ''STATE_VERSION_MISMATCH'')"
  by (auto simp: evaluate_guard_def CORE_ROLE_GUARDS_def start_context_def start_event_def contract_simps
      leak_snapshot_def dict_of_def)

lemma start_checks: "all_checks waterbridge start_event start_plan leak_snapshot start_context"
proof -
  have "start_context = start_context\<lparr>x_requested_version := Some 2\<rparr>" by (simp add: start_context_def)
  then show ?thesis
    using start_preconditions [of "Some 2"] start_guards [of "Some 2"]
    by (simp add: all_checks_def preconditions_pass_def)
qed

lemma start_planned:
  "plan_action approved start_call (start_spec start_call None) lee leak
     \<lparr>wc_consultation = Some waiting, wc_visit = None, wc_latest_visit = None, wc_technician = None\<rparr> office =
   Inr start_plan"
proof -
  have s: "inquiry_snapshot leak office = Inr leak_snapshot"
    by (simp add: inquiry_snapshot_def snapshot_init_def leak_def latest_visit_status_def visits_of_def
        office_def leak_snapshot_def first_by_def has_text_iff is_space_def)
  have v: "requested_version (rq_data start_call) = Inr (Some 2)"
    by (simp add: requested_version_def start_call_def)
  obtain ev where ev: "evaluate waterbridge start_plan leak_snapshot start_context = Inr ev"
    using evaluate_total [OF wf_waterbridge start_resolves] by blast
  then have "allowed ev" using evaluate_allowed_iff [OF ev] start_checks start_event_entry by auto
  then show ?thesis using s v ev start_resolves
    by (simp add: plan_action_def start_spec_def consultation_spec_def guard_failure_error_def
        start_context_def lee_def start_call_def)
qed

section \<open>Starting the consultation\<close>

text \<open>The consultation, the inquiry and the history row the request writes.\<close>

definition started :: consultation_row where
  "started = stamp 3 ''k1'' 901 (waiting\<lparr>co_consultant_id := Some 7, co_status := ''IN_PROGRESS'',
     co_started_at := Some 20\<rparr>)"

definition claimed_office :: "string \<Rightarrow> db" where
  "claimed_office hash = office\<lparr>db_idem := [
     \<lparr>ir_actor_id = 7, ir_operation_id = ''startConsultation'', ir_idempotency_key = ''k1'',
      ir_request_hash = hash, ir_response_status = None, ir_response_body = PDict [],
      ir_resource_public_id = None, ir_completed_at = None\<rparr>]\<rparr>"

lemma start_applied:
  "\<exists>kvs d'. apply_action approved start_call (start_spec start_call None) lee leak
     \<lparr>wc_consultation = Some waiting, wc_visit = None, wc_latest_visit = None, wc_technician = None\<rparr>
     start_plan (claimed_office hash) = Inr ((200, PDict kvs), d')"
  (is "\<exists>kvs d'. apply_action _ _ _ _ _ ?x _ ?d = _")
proof -
  obtain d1 where m: "sp_mutation (start_spec start_call None) leak start_plan ?x ?d =
      Inr (R_consultation started, d1)" and d1: "db_history d1 = db_history office" "db_visits d1 = []"
      "db_inquiries d1 = [leak]"
    by (simp add: start_spec_def consultation_spec_def consultation_start_def update_consultation_def
        started_def stamp_def consultation_constraints_def consultation_lifecycle_def
        consultation_outcome_lifecycle_def claimed_office_def office_defs)
  let ?i = "leak\<lparr>i_status_code := ''CONSULTATION_IN_PROGRESS'', i_state_version := 3\<rparr>"
  obtain d2 where a: "apply_state_transition leak ''CONSULTATION_IN_PROGRESS'' 3 d1 = Inr (?i, d2)"
    and d2: "db_history d2 = db_history office" "db_visits d2 = []"
    using d1 by (simp add: apply_state_transition_def update_inquiry_def inquiry_constraints_def leak_def)
  obtain d3 where h: "record_inquiry_action ?i start_plan lee 901 ''k1'' None 20 d2 = Inr d3"
    and d3: "db_visits d3 = []"
    using d2 by (simp add: record_inquiry_action_def create_transition_history_def insert_history_def
        history_constraints_def history_target_def history_slot_def office_def leak_history_def leak_def)
  have "latest_visit ?i d3 = None" using d3 by (simp add: latest_visit_def visits_of_def first_by_def)
  then obtain es where "offered approved ?i lee (action_args ?x (R_consultation started)) d3 = Inr es"
    using offered_total [of ?i "action_args ?x (R_consultation started)" d3]
    by (auto simp: action_args_def no_args_def chosen_row_def snapshot_init_def has_text_iff is_space_def)
  then show ?thesis using m a h
    by (simp add: apply_action_def start_call_def record_visit_part_def Let_def)
qed

lemma start_performed:
  "\<exists>kvs d'. perform approved [] (Start None) start_call office = (Inr (200, PDict kvs), d') \<and>
     \<not> replayed (operation_scope (Start None) start_call) (operation_hash (Start None) start_call office)
       [] office (200, PDict kvs) d' \<and> db_history d' \<noteq> db_history office"
proof -
  let ?x = "\<lparr>wc_consultation = Some waiting, wc_visit = None, wc_latest_visit = None, wc_technician = None\<rparr>"
  let ?sp = "start_spec start_call None"
  let ?h = "request_hash (sp_path ?sp) (rq_data start_call) (rq_target start_call)"
  have sel: "execution_actor ?sp start_call = lee" "sp_operation ?sp = ''startConsultation''"
    by (simp_all add: execution_actor_def start_spec_def consultation_spec_def start_call_def)
  have lock: "lock_assigned_inquiry (rq_target start_call) lee office = Some leak"
    by (simp add: lock_assigned_inquiry_def office_defs)
  have key: "lock_idempotency_scope (request_scope (rq_actor start_call) ''startConsultation'' (rq_key start_call)) office = None"
    by (simp add: lock_idempotency_scope_def office_def)
  have ctx: "sp_context ?sp leak office = Inr ?x"
    by (simp add: start_spec_def consultation_spec_def consultation_context_def lock_latest_consultation_def
        consultations_of_def first_by_def office_defs)
  have claim: "claim_key (request_scope (rq_actor start_call) ''startConsultation'' (rq_key start_call)) ?h
      (add_races [] office) = Inr (None, claimed_office ?h)"
    by (simp add: claim_key_def create_idempotency_record_def claimed_office_def request_scope_def
        start_call_def lee_def office_def)
  obtain kvs d' where ap: "apply_action approved start_call ?sp lee leak ?x start_plan (claimed_office ?h) =
      Inr ((200, PDict kvs), d')"
    using start_applied by blast
  have "execute_body approved [] ?sp start_call office = Inr ((200, PDict kvs), d')"
    using lock key ctx claim ap start_planned by (simp add: execute_body_def sel Let_def)
  then have p: "perform approved [] (Start None) start_call office = (Inr (200, PDict kvs), d')"
    by (simp add: perform_def visit_named_def spec_of_def execute_def atomically_def)
  have "\<not> replayed (operation_scope (Start None) start_call) (operation_hash (Start None) start_call office)
      [] office (200, PDict kvs) d'"
    by (auto simp: replayed_def office_def)
  then show ?thesis using p perform_success [OF p] by (auto simp: fresh_effect_def)
qed

section \<open>The actions offered to the consultant\<close>

abbreviation leak_facts :: action_context where
  "leak_facts \<equiv> from_models leak lee no_args office"

lemma leak_sel: "i_status_code leak = ''CONSULTATION_REQUIRED''" "i_state_version leak = 2"
  "i_assigned_user_id leak = Some 7" "u_role_code lee = ''CONSULTANT''" "u_id lee = 7"
  by (simp_all add: leak_def lee_def)

lemma leak_no_visit: "latest_visit leak office = None"
  by (simp add: latest_visit_def visits_of_def office_def first_by_def)

lemma leak_context_snapshot:
  "snapshot_init (Some (ac_inquiry_state leak_facts)) (Some (ac_state_version leak_facts))
     (ac_visit_status leak_facts) = Inr leak_snapshot"
  by (simp add: leak_no_visit chosen_row_def no_args_def snapshot_init_def leak_snapshot_def leak_sel
      has_text_iff is_space_def)

lemma leak_offered: "\<exists>es. resolve_actions waterbridge action_doc crosswalk leak_facts = Inr es"
  using leak_context_snapshot
  by (rule resolve_actions_total [OF wf_waterbridge runtime_actions_crosswalk action_table_approved])

lemma leak_guards: "guard_available leak_facts ''G-ACTOR-CONSULTANT''"
  "guard_available leak_facts ''G-ASSIGNED-CONSULTANT''"
  "guard_available leak_facts ''G-STATE-VERSION''" "guard_available leak_facts ''G-IDEMPOTENCY-KEY''"
  by (simp_all add: guard_available_def role_guards_def payload_guards_def)
    (simp_all add: from_models_def Let_def leak_sel)

lemma leak_offered_start:
  assumes "resolve_actions waterbridge action_doc crosswalk leak_facts = Inr es"
  shows "\<exists>e \<in> set es. ca_code e = ''START_CONSULTATION''"
proof -
  let ?a = "\<lparr>as_action = ''START_CONSULTATION'', as_rule_ids = [''TR-INQ-014'']\<rparr>"
  let ?e = "catalog_row ''START_CONSULTATION'' ''startConsultation'' ''PRIMARY'' False"
  have "?a \<in> set (role_assignments action_doc ''CONSULTATION_REQUIRED'' ''CONSULTANT'')"
    by (simp add: role_assignments_def action_doc_def state_role_actions_def)
  then have a: "?a \<in> set (role_assignments action_doc (ac_inquiry_state leak_facts) (ac_actor_role leak_facts))"
    by (simp add: leak_sel)
  have "t_rule_id start_plan = ''TR-INQ-014''" by (simp add: start_plan_def contract_simps)
  then have "resolve_candidate waterbridge action_doc runtime_actions leak_facts ?a = Inr (Some ?e)"
    unfolding resolve_candidate_Some
    using leak_context_snapshot start_resolves leak_guards
    by (auto simp: runtime_actions_def catalog_reads catalog_row_sel)
  then show ?thesis
    using a resolve_actions_in [OF assms runtime_actions_crosswalk, of ?e]
    by (intro bexI [of _ ?e]) (auto simp: catalog_row_sel)
qed

end
