(* ===== verification/Flow.thy ===== *)
theory Flow
  imports AssignedAction
begin

text \<open>
  What the services outside \<open>AssignedConsultantActionService\<close> have in common. Each of them
  (\<open>inquiries/services/*.py\<close>) runs one transaction: lock the target, answer a known idempotency key,
  plan the event with the engine, claim the key, write, complete the idempotency record. They differ
  in the target they lock, in how an engine or guard failure is answered and in what they write, and
  those are the arguments of the definitions below.
\<close>

section \<open>Validated data\<close>

text \<open>
  \<open>validated_data[k]\<close> raises \<open>KeyError\<close> for a missing key and \<open>validated_data.get(k)\<close> is null then.
  The serializers type the fields; a value of another type is refused like a malformed one.
\<close>

definition field :: "request \<Rightarrow> string \<Rightarrow> app_error + py" where
  "field rq k = of_option (Uncaught k) (map_of (rq_data rq) k)"

definition field_or_none :: "request \<Rightarrow> string \<Rightarrow> py" where
  "field_or_none rq k = (case map_of (rq_data rq) k of None \<Rightarrow> PNone | Some v \<Rightarrow> v)"

definition text_field :: "request \<Rightarrow> string \<Rightarrow> app_error + string" where
  "text_field rq k = rbind (field rq k) (\<lambda>v. case v of PStr s \<Rightarrow> Inr s | _ \<Rightarrow> Inl (Uncaught k))"

definition uuid_field :: "request \<Rightarrow> string \<Rightarrow> app_error + nat" where
  "uuid_field rq k = rbind (field rq k) (\<lambda>v. case v of PUuid u \<Rightarrow> Inr u | _ \<Rightarrow> Inl (Uncaught k))"

definition opt_text_field :: "request \<Rightarrow> string \<Rightarrow> string option" where
  "opt_text_field rq k = (case field_or_none rq k of PStr s \<Rightarrow> Some s | _ \<Rightarrow> None)"

definition opt_uuid_field :: "request \<Rightarrow> string \<Rightarrow> nat option" where
  "opt_uuid_field rq k = (case field_or_none rq k of PUuid u \<Rightarrow> Some u | _ \<Rightarrow> None)"

section \<open>Planning an event\<close>

text \<open>
  \<open>es_invalid\<close> answers an \<open>InvalidStateTransition\<close>, \<open>es_effects\<close> are the effects the service insists
  on, \<open>es_domain\<close> computes the domain results, \<open>es_denied\<close> answers a guard failure and
  \<open>es_unexplained\<close> a refusal without one.
\<close>

record event_spec =
  es_event :: string
  es_invalid :: "sm_reason \<Rightarrow> app_error"
  es_effects :: "string list"
  es_domain :: "app_error + (string \<times> bool) list"
  es_denied :: "guard_failure \<Rightarrow> app_error"
  es_unexplained :: app_error

definition event_context ::
  "request \<Rightarrow> int option \<Rightarrow> (string \<times> bool) list \<Rightarrow> guard_context" where
  "event_context rq v results =
     \<lparr>x_actor_role = Some (u_role_code (rq_actor rq)),
      x_authenticated = u_authenticated (rq_actor rq),
      x_correlation_id = Some (uuid_text (rq_correlation rq)), x_idempotency_key = Some (rq_key rq),
      x_requested_version = v, x_trusted_internal = False, x_domain_results = dict_of results\<rparr>"

definition judged :: "event_spec \<Rightarrow> guard_evaluation \<Rightarrow> app_error + unit" where
  "judged es ev =
     (if allowed ev then Inr ()
      else case failure ev of None \<Rightarrow> Inl (es_unexplained es) | Some f \<Rightarrow> Inl (es_denied es f))"

definition plan_event ::
  "documents \<Rightarrow> event_spec \<Rightarrow> request \<Rightarrow> inquiry_row \<Rightarrow> db \<Rightarrow> app_error + transition" where
  "plan_event dc es rq i d =
     rbind (inquiry_snapshot i d) (\<lambda>s.
     rbind (map_error (\<lambda>e. case e of Missing_key k \<Rightarrow> Uncaught k | Invalid r \<Rightarrow> es_invalid es r)
              (resolve (dc_contract dc) s (es_event es))) (\<lambda>t.
     rbind (guard_or (\<forall>e \<in> set (es_effects es). e \<in> set (t_effects t)) internal_error) (\<lambda>_.
     rbind (es_domain es) (\<lambda>results.
     rbind (requested_version (rq_data rq)) (\<lambda>v.
     rbind (map_error (\<lambda>e. Uncaught ''guard'')
              (evaluate (dc_contract dc) t s (event_context rq v results))) (\<lambda>ev.
     rbind (judged es ev) (\<lambda>_. Inr t)))))))"

text \<open>The answers to a failed transition or guard that several services share.\<close>

definition invalid_as ::
  "sm_reason set \<Rightarrow> app_error \<Rightarrow> app_error \<Rightarrow> sm_reason \<Rightarrow> app_error" where
  "invalid_as conflicts conflict other r = (if r \<in> conflicts then conflict else other)"

definition denied_as ::
  "string set \<Rightarrow> app_error \<Rightarrow> (guard_failure \<Rightarrow> app_error) \<Rightarrow> guard_failure \<Rightarrow> app_error" where
  "denied_as conflicts conflict other f =
     (if f_guard_id f \<in> conflicts then conflict
      else if f_http_status f = 404 then Not_found
      else if f_http_status f = 403 then Permission_denied
      else other f)"

text \<open>A 422 names the field the guard is about; any other status is an internal error.\<close>

definition payload_error :: "string \<Rightarrow> app_error \<Rightarrow> guard_failure \<Rightarrow> app_error" where
  "payload_error k other f =
     (if f_http_status f = 422
      then Business (f_error_code f) (f_message f) (PDict [(k, PList [PStr (f_message f)])]) 422
      else other)"

text \<open>Errors a service words in its own way.\<close>

definition internal_as :: "string \<Rightarrow> app_error" where
  "internal_as msg = Business INTERNAL_ERROR msg (PDict []) 500"

fun reworded :: "string \<Rightarrow> app_error \<Rightarrow> app_error" where
  "reworded msg (Business code _ details status) = Business code msg details status"
| "reworded msg e = e"

definition plain_error :: "guard_failure \<Rightarrow> app_error" where
  "plain_error f = Business (f_error_code f) (f_message f) (PDict []) (f_http_status f)"

section \<open>The transaction\<close>

text \<open>
  \<open>known\<close> answers a record found under the key before planning. The records in \<open>races\<close> arrive from
  other transactions between that lookup and the claim of the key.
\<close>

definition keyed_flow ::
  "idem_row list \<Rightarrow> nat \<times> string \<times> string \<Rightarrow> string \<Rightarrow> (db \<Rightarrow> app_error + 'i) \<Rightarrow>
     ('i \<Rightarrow> idem_row \<Rightarrow> db \<Rightarrow> app_error + outcome) \<Rightarrow> ('i \<Rightarrow> db \<Rightarrow> app_error + 'p) \<Rightarrow>
     ('i \<Rightarrow> 'p \<Rightarrow> db \<Rightarrow> app_error + (outcome \<times> db)) \<Rightarrow> db \<Rightarrow> app_error + (outcome \<times> db)" where
  "keyed_flow races k hash lock known plan apply d =
     rbind (lock d) (\<lambda>i.
       case lock_idempotency_scope k d of
         Some r \<Rightarrow> rbind (known i r d) (\<lambda>out. Inr (out, add_races races d))
       | None \<Rightarrow>
           rbind (plan i d) (\<lambda>p.
           rbind (claim_key k hash (add_races races d)) (\<lambda>(replayed, d').
           case replayed of
             Some out \<Rightarrow> Inr (out, d')
           | None \<Rightarrow> apply i p d')))"

definition replay_known :: "string \<Rightarrow> 'i \<Rightarrow> idem_row \<Rightarrow> db \<Rightarrow> app_error + outcome" where
  "replay_known hash i r d = replay_or_conflict r hash ''idempotent_replay''"

section \<open>Writing the event and the response\<close>

definition move_inquiry ::
  "request \<Rightarrow> inquiry_row \<Rightarrow> transition \<Rightarrow> bool \<Rightarrow> string option \<Rightarrow> db \<Rightarrow>
     app_error + (inquiry_row \<times> db)" where
  "move_inquiry rq i t record reason d =
     rbind (apply_state_transition i (t_state_after t) (t_version_after t) d) (\<lambda>(i', d1).
     rbind (if record
            then record_inquiry_action i' t (rq_actor rq) (rq_correlation rq) (rq_key rq) reason (rq_now rq) d1
            else Inr d1) (\<lambda>d2.
     Inr (i', d2)))"

definition message_body :: "string \<Rightarrow> inquiry_row \<Rightarrow> catalog_entry list \<Rightarrow> (string \<times> py) list" where
  "message_body msg i es =
     [(''message'', PStr msg),
      (''inquiry_id'', PStr (uuid_text (i_public_id i))),
      (''status'', PStr (i_status_code i)),
      (''state_version'', PInt (i_state_version i)),
      (''allowed_actions'', PList (map action_py es)),
      (''idempotent_replay'', PBool False),
      (''resource'', PNone)]"

definition state_body :: "inquiry_row \<Rightarrow> catalog_entry list \<Rightarrow> (string \<times> py) list" where
  "state_body i es =
     [(''inquiry_id'', PStr (uuid_text (i_public_id i))),
      (''state'', PStr (i_status_code i)),
      (''state_version'', PInt (i_state_version i)),
      (''idempotent_replay'', PBool False),
      (''allowed_actions'', PList (map action_py es))]"

definition created_body :: "inquiry_row \<Rightarrow> catalog_entry list \<Rightarrow> (string \<times> py) list" where
  "created_body i es =
     [(''inquiry_id'', PStr (uuid_text (i_public_id i))),
      (''inquiry_code'', PStr (i_inquiry_code i)),
      (''status_code'', PStr (i_status_code i)),
      (''state_version'', PInt (i_state_version i)),
      (''idempotent_replay'', PBool False),
      (''allowed_actions'', PList (map action_py es))]"

definition answer_with ::
  "request \<Rightarrow> string \<Rightarrow> int \<Rightarrow> (string \<times> py) list \<Rightarrow> nat \<Rightarrow> db \<Rightarrow> outcome \<times> db" where
  "answer_with rq operation status kvs resource d =
     ((status, PDict kvs),
      complete_idempotency_record (request_scope (rq_actor rq) operation (rq_key rq)) status (PDict kvs)
        resource (rq_now rq) d)"

definition respond ::
  "documents \<Rightarrow> request \<Rightarrow> string \<Rightarrow> int \<Rightarrow> (inquiry_row \<Rightarrow> catalog_entry list \<Rightarrow> (string \<times> py) list) \<Rightarrow>
     inquiry_row \<Rightarrow> from_args \<Rightarrow> nat \<Rightarrow> db \<Rightarrow> app_error + (outcome \<times> db)" where
  "respond dc rq operation status body i a resource d =
     rbind (offered dc i (rq_actor rq) a d) (\<lambda>es. Inr (answer_with rq operation status (body i es) resource d))"

end
