(* ===== verification/CustomerFlow.thy ===== *)
theory CustomerFlow
  imports Flow Consultations
begin

text \<open>
  What a customer does with an inquiry: \<open>InquiryService.create\<close> and \<open>cancel\<close>
  (\<open>inquiries/services/inquiry_service.py\<close>) with \<open>InquiryLinkService\<close>
  (\<open>questionnaires/services/inquiry_link_service.py\<close>), \<open>InquiryTransitionService.submit_symptom\<close>
  (\<open>inquiry_transition_service.py\<close>) and \<open>FollowUpAnswerService.submit\<close>
  (\<open>followup_answer_service.py\<close>), over \<open>InquiryRepository\<close>. The calls to the AI service that
  \<open>transaction.on_commit\<close> schedules run after the transaction and are not part of it.
\<close>

section \<open>Submitting the symptom\<close>

definition symptom_payload_is_valid :: "inquiry_row \<Rightarrow> bool" where
  "symptom_payload_is_valid i =
     (let text = strip (i_raw_text i); s = i_subscription i in
      2 \<le> length text \<and> length text \<le> 2000 \<and> su_product_model_id s \<noteq> None \<and>
      su_status_code s = ''ACTIVE'')"

definition symptom_hash :: "request \<Rightarrow> string" where
  "symptom_hash rq =
     request_hash [(''inquiry_id'', PUuid (rq_target rq))]
       [(''state_version'', field_or_none rq ''state_version'')] (rq_target rq)"

definition symptom_event :: "documents \<Rightarrow> request \<Rightarrow> inquiry_row \<Rightarrow> db \<Rightarrow> event_spec" where
  "symptom_event dc rq i d =
     (let conflict = state_conflict dc i (rq_actor rq) no_args d in
      \<lparr>es_event = ''SUBMIT_SYMPTOM'',
       es_invalid = invalid_as {TERMINAL_STATE, UNLISTED_TRANSITION} conflict internal_error,
       es_effects = [],
       es_domain = Inr [(''G-INQUIRY-OWNER'', True),
         (''G-SYMPTOM-PAYLOAD-VALID'', symptom_payload_is_valid i)],
       es_denied = denied_as {''G-STATE-VERSION''} conflict (\<lambda>f.
         if f_http_status f = 422
         then Business ''VALIDATION_ERROR'' ''msg.check_input''
           (PDict [(''symptom'', PList [PStr (f_message f)])]) 422
         else internal_error),
       es_unexplained = internal_error\<rparr>)"

definition apply_symptom ::
  "documents \<Rightarrow> request \<Rightarrow> inquiry_row \<Rightarrow> transition \<Rightarrow> db \<Rightarrow> app_error + (outcome \<times> db)" where
  "apply_symptom dc rq i t d =
     rbind (apply_state_transition i (t_state_after t) (t_version_after t) d) (\<lambda>(i', d1).
     rbind (record_submit_symptom i' t (rq_actor rq) (rq_correlation rq) (rq_key rq) (rq_now rq) d1) (\<lambda>d2.
     respond dc rq ''submitSymptom'' 200 state_body i' no_args (i_public_id i') d2))"

definition submit_symptom_body ::
  "documents \<Rightarrow> idem_row list \<Rightarrow> request \<Rightarrow> db \<Rightarrow> app_error + (outcome \<times> db)" where
  "submit_symptom_body dc races rq d =
     rbind (field rq ''state_version'') (\<lambda>_.
     keyed_flow races (request_scope (rq_actor rq) ''submitSymptom'' (rq_key rq)) (symptom_hash rq)
       (\<lambda>d. of_option Not_found (lock_owned_inquiry (rq_target rq) (rq_actor rq) d))
       (replay_known (symptom_hash rq))
       (\<lambda>i d. plan_event dc (symptom_event dc rq i d) rq i d)
       (apply_symptom dc rq) d)"

section \<open>Cancelling\<close>

definition cancel_hash :: "request \<Rightarrow> string" where
  "cancel_hash rq =
     request_hash [(''inquiry_id'', PUuid (rq_target rq))]
       [(''state_version'', field_or_none rq ''state_version''),
        (''reason_code'', field_or_none rq ''reason_code''),
        (''reason_detail'', field_or_none rq ''reason_detail'')] (rq_target rq)"

definition cancel_event :: "documents \<Rightarrow> request \<Rightarrow> inquiry_row \<Rightarrow> db \<Rightarrow> event_spec" where
  "cancel_event dc rq i d =
     (let conflict = state_conflict dc i (rq_actor rq) no_args d;
          unevaluated = internal_as ''The cancellation contract could not be evaluated.'' in
      \<lparr>es_event = ''CANCEL_INQUIRY'',
       es_invalid = invalid_as
         {TERMINAL_STATE, UNLISTED_TRANSITION, VISIT_STATE_MISMATCH, VISIT_STATUS_NOT_ALLOWED} conflict
         unevaluated,
       es_effects = [],
       es_domain = Inr [(''G-CANCEL-ACTOR-AUTHORIZED'', True), (''G-CANCELLATION-REASON'', True)],
       es_denied = denied_as {''G-STATE-VERSION''} conflict (payload_error ''reason_code'' unevaluated),
       es_unexplained = unevaluated\<rparr>)"

text \<open>The checks of \<open>AIRun.Meta\<close> that a cancellation can violate.\<close>

definition ai_run_constraints :: "ai_run_row \<Rightarrow> bool" where
  "ai_run_constraints r =
     ((case ar_completed_at r of
         None \<Rightarrow> True
       | Some t \<Rightarrow>
           ar_status_code r = ''CANCELLED'' \<and> ar_started_at r = None \<and> ar_created_at r \<le> t \<or>
           (case ar_started_at r of None \<Rightarrow> False | Some s \<Rightarrow> s \<le> t)) \<and>
      (ar_status_code r \<in> {''QUEUED'', ''CANCELLED''} \<and> ar_started_at r = None \<or> ar_reproducible r) \<and>
      (ar_status_code r = ''QUEUED'' \<and> ar_started_at r = None \<and> ar_completed_at r = None \<or>
       ar_status_code r \<in> {''RUNNING'', ''RETRYING''} \<and> ar_started_at r \<noteq> None \<and> ar_completed_at r = None \<or>
       ar_status_code r \<in> {''SUCCEEDED'', ''NO_EVIDENCE'', ''FAILED'', ''TIMED_OUT''} \<and>
         ar_started_at r \<noteq> None \<and> ar_completed_at r \<noteq> None \<or>
       ar_status_code r = ''CANCELLED'' \<and> ar_completed_at r \<noteq> None))"

definition active_run :: "inquiry_row \<Rightarrow> ai_run_row \<Rightarrow> bool" where
  "active_run i r = (ar_inquiry_id r = i_id i \<and> ar_status_code r \<in> {''QUEUED'', ''RUNNING'', ''RETRYING''})"

definition cancelled_run :: "int \<Rightarrow> ai_run_row \<Rightarrow> ai_run_row" where
  "cancelled_run now r =
     r\<lparr>ar_status_code := ''CANCELLED'', ar_completed_at := Some now,
       ar_error_code := Some ''CANCELLED_BY_INQUIRY'', ar_error_message := None\<rparr>"

definition cancel_active_ai_runs :: "inquiry_row \<Rightarrow> int \<Rightarrow> db \<Rightarrow> app_error + db" where
  "cancel_active_ai_runs i now d =
     (if list_ex (\<lambda>r. active_run i r \<and> \<not> ai_run_constraints (cancelled_run now r)) (db_ai_runs d)
      then Inl (Integrity ''ck_ai_run'')
      else Inr (d\<lparr>db_ai_runs :=
        map (\<lambda>r. if active_run i r then cancelled_run now r else r) (db_ai_runs d)\<rparr>))"

definition apply_cancel ::
  "documents \<Rightarrow> request \<Rightarrow> string \<Rightarrow> string option \<Rightarrow> inquiry_row \<Rightarrow> transition \<Rightarrow> db \<Rightarrow>
     app_error + (outcome \<times> db)" where
  "apply_cancel dc rq reason detail i t d =
     rbind (cancel_active i (t_version_after t) (rq_key rq) (rq_correlation rq) d) (\<lambda>(_, d1).
     rbind (mark_cancelled i (t_state_after t) (t_version_after t) reason detail (rq_now rq) d1) (\<lambda>(i', d2).
     rbind (cancel_active_ai_runs i' (rq_now rq) d2) (\<lambda>d3.
     rbind (record_cancel_inquiry i' t (rq_actor rq) (rq_correlation rq) (rq_key rq) reason detail (rq_now rq) d3) (\<lambda>d4.
     respond dc rq ''cancelInquiry'' 200 state_body i' no_args (i_public_id i') d4))))"

definition cancel_body ::
  "documents \<Rightarrow> idem_row list \<Rightarrow> request \<Rightarrow> db \<Rightarrow> app_error + (outcome \<times> db)" where
  "cancel_body dc races rq d =
     rbind (field rq ''state_version'') (\<lambda>_.
     rbind (text_field rq ''reason_code'') (\<lambda>reason.
     keyed_flow races (request_scope (rq_actor rq) ''cancelInquiry'' (rq_key rq)) (cancel_hash rq)
       (\<lambda>d. of_option Not_found (lock_cancellable_inquiry (rq_target rq) (rq_actor rq) d))
       (replay_known (cancel_hash rq))
       (\<lambda>i d. plan_event dc (cancel_event dc rq i d) rq i d)
       (apply_cancel dc rq reason (opt_text_field rq ''reason_detail'')) d))"

section \<open>Answering follow-up questions\<close>

text \<open>\<open>public_question_options\<close> of the \<open>question_options\<close> property.\<close>

definition question_options :: "qa_row \<Rightarrow> py list" where
  "question_options q =
     (case qa_answer_payload q of
        PDict kvs \<Rightarrow> (case map_of kvs ''question_options'' of Some (PList xs) \<Rightarrow> xs | _ \<Rightarrow> [])
      | _ \<Rightarrow> [])"

definition public_question_options :: "py list \<Rightarrow> string list" where
  "public_question_options xs =
     List.map_filter (\<lambda>v. case v of
        PStr s \<Rightarrow> if has_text s then Some (take 200 (strip s)) else None | _ \<Rightarrow> None) (take 10 xs)"

definition has_field :: "(string \<times> py) list \<Rightarrow> string \<Rightarrow> bool" where
  "has_field item k = (map_of item k \<noteq> None)"

definition answer_matches_question :: "qa_row \<Rightarrow> (string \<times> py) list \<Rightarrow> bool" where
  "answer_matches_question q item =
     (if qa_answer_type_code q = ''FREE_TEXT''
      then has_field item ''answer_text'' \<and> \<not> has_field item ''answer_payload''
      else if qa_answer_type_code q = ''SINGLE_CHOICE'' then
        \<not> has_field item ''answer_text'' \<and>
        (case map_of item ''answer_payload'' of
           Some (PDict kvs) \<Rightarrow> set (map fst kvs) = {''selected_option''} \<and>
             (case map_of kvs ''selected_option'' of
                Some (PStr s) \<Rightarrow> s \<in> set (public_question_options (question_options q)) | _ \<Rightarrow> False)
         | _ \<Rightarrow> False)
      else False)"

definition lock_unanswered_questions :: "inquiry_row \<Rightarrow> nat list \<Rightarrow> db \<Rightarrow> qa_row list" where
  "lock_unanswered_questions i ids d =
     sort_key qa_sequence_no
       (filter (\<lambda>q. qa_inquiry_id q = i_id i \<and> qa_public_id q \<in> set ids \<and> \<not> answered d q) (db_qa d))"

text \<open>The submitted answers by question; a later answer to the same question wins.\<close>

definition submitted_answers :: "request \<Rightarrow> app_error + (nat \<times> (string \<times> py) list) list" where
  "submitted_answers rq =
     rbind (field rq ''answers'') (\<lambda>v.
       case v of
         PList xs \<Rightarrow> map_res (\<lambda>x. case x of
             PDict item \<Rightarrow> (case map_of item ''question_id'' of
                 Some (PUuid u) \<Rightarrow> Inr (u, item) | _ \<Rightarrow> Inl (Uncaught ''question_id''))
           | _ \<Rightarrow> Inl (Uncaught ''answers'')) xs
       | _ \<Rightarrow> Inl (Uncaught ''answers''))"

definition answers_are_valid :: "qa_row list \<Rightarrow> (nat \<times> (string \<times> py) list) list \<Rightarrow> bool" where
  "answers_are_valid questions submitted =
     (length questions = length submitted \<and>
      list_all (\<lambda>q. case dict_of submitted (qa_public_id q) of
         None \<Rightarrow> False | Some item \<Rightarrow> answer_matches_question q item) questions)"

definition answers_event :: "documents \<Rightarrow> request \<Rightarrow> inquiry_row \<Rightarrow> db \<Rightarrow> event_spec" where
  "answers_event dc rq i d =
     (let conflict = reworded ''The inquiry state has changed.'' (state_conflict dc i (rq_actor rq) no_args d);
          unprocessed = internal_as ''The request could not be processed.'' in
      \<lparr>es_event = ''SUBMIT_ANSWERS'',
       es_invalid = invalid_as {TERMINAL_STATE, UNLISTED_TRANSITION, VISIT_STATE_MISMATCH} conflict
         (internal_as ''The workflow contract could not be resolved.''),
       es_effects = [],
       es_domain = rbind (submitted_answers rq) (\<lambda>submitted.
         Inr [(''G-INQUIRY-OWNER'', True),
              (''G-FOLLOWUP-ANSWERS-VALID'',
               answers_are_valid (lock_unanswered_questions i (map fst submitted) d) submitted)]),
       es_denied = denied_as {''G-STATE-VERSION''} conflict (payload_error ''answers'' unprocessed),
       es_unexplained = unprocessed\<rparr>)"

text \<open>
  \<open>FollowUpAnswer.full_clean\<close>: one value, a stripped text or a non-empty object, from the customer
  who owns the inquiry, to a question without an answer.
\<close>

definition create_followup_answer ::
  "inquiry_row \<Rightarrow> qa_row \<Rightarrow> user_row \<Rightarrow> (string \<times> py) list \<Rightarrow> int \<Rightarrow> int \<Rightarrow> db \<Rightarrow> app_error + db" where
  "create_followup_answer i q actor item version now d =
     (let text = (case map_of item ''answer_text'' of Some (PStr s) \<Rightarrow> Some s | _ \<Rightarrow> None);
          payload = (case map_of item ''answer_payload'' of None \<Rightarrow> PNone | Some v \<Rightarrow> v);
          valid = (case (text, payload) of
              (Some s, PNone) \<Rightarrow> has_text s
            | (None, PDict kvs) \<Rightarrow> kvs \<noteq> []
            | _ \<Rightarrow> False)
      in if \<not> valid \<or> u_id (cu_user (su_customer (i_subscription i))) \<noteq> u_id actor \<or> answered d q \<or> version \<le> 0
         then Inl (Uncaught ''ValidationError'')
         else Inr (d\<lparr>db_answers := db_answers d @
           [\<lparr>fa_question_id = qa_id q, fa_answered_by = u_id actor, fa_answer_text = map_option strip text,
             fa_answer_payload = payload, fa_accepted_state_version = version, fa_answered_at = now\<rparr>]\<rparr>))"

fun create_answers ::
  "inquiry_row \<Rightarrow> user_row \<Rightarrow> (nat \<times> (string \<times> py) list) list \<Rightarrow> int \<Rightarrow> int \<Rightarrow> qa_row list \<Rightarrow> db \<Rightarrow>
     app_error + db" where
  "create_answers i actor submitted version now [] d = Inr d"
| "create_answers i actor submitted version now (q # qs) d =
     rbind (of_option (Uncaught ''question'') (dict_of submitted (qa_public_id q))) (\<lambda>item.
     rbind (create_followup_answer i q actor item version now d) (\<lambda>d'.
     create_answers i actor submitted version now qs d'))"

definition answers_hash :: "request \<Rightarrow> string" where
  "answers_hash rq =
     request_hash [(''inquiry_id'', PUuid (rq_target rq))] (rq_data rq) (rq_target rq)"

definition apply_answers ::
  "documents \<Rightarrow> request \<Rightarrow> inquiry_row \<Rightarrow> transition \<Rightarrow> db \<Rightarrow> app_error + (outcome \<times> db)" where
  "apply_answers dc rq i t d =
     rbind (submitted_answers rq) (\<lambda>submitted.
     rbind (create_answers i (rq_actor rq) submitted (i_state_version i) (rq_now rq)
              (lock_unanswered_questions i (map fst submitted) d) d) (\<lambda>d1.
     rbind (move_inquiry rq i t (t_record_business t) None d1) (\<lambda>(i', d2).
     respond dc rq ''submitFollowUpAnswers'' 200 (message_body ''Follow-up answers were saved.'') i'
       no_args (i_public_id i') d2)))"

definition submit_answers_body ::
  "documents \<Rightarrow> idem_row list \<Rightarrow> request \<Rightarrow> db \<Rightarrow> app_error + (outcome \<times> db)" where
  "submit_answers_body dc races rq d =
     keyed_flow races (request_scope (rq_actor rq) ''submitFollowUpAnswers'' (rq_key rq)) (answers_hash rq)
       (\<lambda>d. of_option Not_found (lock_owned_inquiry (rq_target rq) (rq_actor rq) d))
       (replay_known (answers_hash rq))
       (\<lambda>i d. plan_event dc (answers_event dc rq i d) rq i d)
       (apply_answers dc rq) d"

section \<open>Creating\<close>

definition find_active_owned_subscription :: "nat \<Rightarrow> user_row \<Rightarrow> db \<Rightarrow> subscription_row option" where
  "find_active_owned_subscription uid actor d =
     find (\<lambda>s. su_public_id s = uid \<and> u_id (cu_user (su_customer s)) = u_id actor \<and>
        cu_deleted_at (su_customer s) = None \<and> su_status_code s = ''ACTIVE'') (db_subscriptions d)"

definition create_hash :: "request \<Rightarrow> string" where
  "create_hash rq =
     request_hash []
       [(''subscription_id'', field_or_none rq ''subscription_id''),
        (''channel_code'', field_or_none rq ''channel_code''),
        (''raw_text'', field_or_none rq ''raw_text''),
        (''representative_symptom_code'', field_or_none rq ''representative_symptom_code''),
        (''questionnaire_session_id'', field_or_none rq ''questionnaire_session_id'')]
       (case opt_uuid_field rq ''subscription_id'' of None \<Rightarrow> 0 | Some u \<Rightarrow> u)"

text \<open>\<open>generate_inquiry_code\<close>: \<open>INQ-\<close> and the hexadecimal digits of a fresh UUID.\<close>

definition upper_char :: "char \<Rightarrow> char" where
  "upper_char c = (let n = of_char c :: nat in if 97 \<le> n \<and> n \<le> 122 then char_of (n - 32) else c)"

definition uuid_hex :: "nat \<Rightarrow> string" where
  "uuid_hex u = map upper_char (base_digits 16 32 u)"

definition insert_inquiry :: "inquiry_row \<Rightarrow> db \<Rightarrow> app_error + (inquiry_row \<times> db)" where
  "insert_inquiry i d =
     (let i' = i\<lparr>i_id := db_next_id d, i_public_id := db_next_uuid d,
                i_inquiry_code := ''INQ-'' @ uuid_hex (db_next_uuid d + 1)\<rparr> in
      if \<not> inquiry_constraints i' then Inl (Integrity ''ck_inquiry'')
      else Inr (i', d\<lparr>db_inquiries := db_inquiries d @ [i'], db_next_id := db_next_id d + 1,
        db_next_uuid := db_next_uuid d + 2\<rparr>))"

definition create_inquiry ::
  "subscription_row \<Rightarrow> user_row \<Rightarrow> string \<Rightarrow> string \<Rightarrow> nat option \<Rightarrow> db \<Rightarrow>
     app_error + (inquiry_row \<times> db)" where
  "create_inquiry s actor channel raw session =
     insert_inquiry
       \<lparr>i_id = 0, i_public_id = 0, i_inquiry_code = [], i_subscription = s, i_initiated_by = actor,
        i_assigned_user_id = None, i_assigned_role_code = ''NONE'', i_channel_code = Some channel,
        i_raw_text = raw, i_priority_code = ''NORMAL'', i_source_key = None, i_source_correlation = None,
        i_questionnaire_session = session, i_status_code = ''DRAFT'', i_state_version = 1,
        i_cancelled_at = None, i_cancellation_reason_code = None, i_cancellation_reason_detail = None\<rparr>"

definition insert_symptom :: "symptom_row \<Rightarrow> db \<Rightarrow> app_error + db" where
  "insert_symptom y d =
     (if sy_symptom_type_code y = [] then Inl (Integrity ''ck_inquiry_symptom_code_nonempty'')
      else if list_ex (\<lambda>z. sy_inquiry_id z = sy_inquiry_id y) (db_symptoms d)
      then Inl (Integrity ''inquiry_id'')
      else Inr (d\<lparr>db_symptoms := db_symptoms d @ [y]\<rparr>))"

definition create_representative_symptom :: "inquiry_row \<Rightarrow> string \<Rightarrow> db \<Rightarrow> app_error + db" where
  "create_representative_symptom i code =
     insert_symptom \<lparr>sy_inquiry_id = i_id i, sy_symptom_type_code = code,
       sy_structured_payload = PDict [(''representative_symptom_code'', PStr code)],
       sy_schema_version = ''v1'', sy_is_customer_confirmed = True\<rparr>"

section \<open>Linking a submitted questionnaire\<close>

definition lock_link_candidate ::
  "nat \<Rightarrow> user_row \<Rightarrow> subscription_row \<Rightarrow> db \<Rightarrow> questionnaire_row option" where
  "lock_link_candidate uid actor s d =
     find (\<lambda>q. qs_public_id q = uid \<and> su_public_id (qs_subscription q) = su_public_id s \<and>
        u_id (cu_user (su_customer (qs_subscription q))) = u_id actor \<and>
        cu_deleted_at (su_customer (qs_subscription q)) = None) (db_questionnaires d)"

definition lock_candidate ::
  "user_row \<Rightarrow> subscription_row \<Rightarrow> nat option \<Rightarrow> db \<Rightarrow> app_error + questionnaire_row option" where
  "lock_candidate actor s session d =
     (case session of
        None \<Rightarrow> Inr None
      | Some uid \<Rightarrow> rbind (of_option Not_found (lock_link_candidate uid actor s d)) (\<lambda>q.
          if qs_status_code q \<noteq> ''SUBMITTED'' \<or> qs_inquiry_id q \<noteq> None
          then Inl (Business STATE_CONFLICT ''msg.questionnaire_not_linkable''
            (PDict [(''current_status'', PStr (qs_status_code q)),
                    (''current_state_version'', PInt (qs_state_version q)),
                    (''linked'', PBool (qs_inquiry_id q \<noteq> None))]) 409)
          else Inr (Some q)))"

text \<open>\<open>QuestionnaireSession.full_clean\<close>: the checks of \<open>clean\<close> and of \<open>Meta.constraints\<close>.\<close>

definition questionnaire_valid :: "questionnaire_row \<Rightarrow> inquiry_row option \<Rightarrow> bool" where
  "questionnaire_valid q i =
     ((case qs_answers_payload q of PDict kvs \<Rightarrow> True | _ \<Rightarrow> False) \<and> 0 < qs_state_version q \<and>
      (qs_status_code q \<in> {''UNANSWERED'', ''IN_PROGRESS''} \<and> qs_submitted_at q = None \<or>
       qs_status_code q = ''SUBMITTED'' \<and>
         (case qs_submitted_at q of None \<Rightarrow> False | Some t \<Rightarrow> qs_started_at q \<le> t)) \<and>
      (case (qs_inquiry_id q, i) of
         (None, _) \<Rightarrow> qs_linked_at q = None
       | (Some n, None) \<Rightarrow> False
       | (Some n, Some j) \<Rightarrow> n = i_id j \<and> qs_status_code q = ''SUBMITTED'' \<and>
           su_public_id (i_subscription j) = su_public_id (qs_subscription q) \<and>
           (case (qs_submitted_at q, qs_linked_at q) of
              (Some s, Some t) \<Rightarrow> s \<le> t | _ \<Rightarrow> False)))"

definition link_questionnaire ::
  "questionnaire_row option \<Rightarrow> inquiry_row \<Rightarrow> user_row \<Rightarrow> nat \<Rightarrow> string \<Rightarrow> int \<Rightarrow> db \<Rightarrow> app_error + db" where
  "link_questionnaire session i actor correlation key now d =
     (case session of
        None \<Rightarrow> Inr d
      | Some q \<Rightarrow>
          let q' = q\<lparr>qs_inquiry_id := Some (i_id i), qs_linked_at := Some now,
                     qs_state_version := qs_state_version q + 1\<rparr> in
          if \<not> questionnaire_valid q' (Some i) \<or>
             list_ex (\<lambda>r. qs_id r \<noteq> qs_id q \<and> qs_inquiry_id r = Some (i_id i)) (db_questionnaires d)
          then Inl (Uncaught ''ValidationError'')
          else record_questionnaire_action (qs_id q) actor ''START_INQUIRY'' (Some (qs_status_code q))
                 (qs_status_code q') (qs_state_version q') correlation key now
                 (d\<lparr>db_questionnaires := map (\<lambda>r. if qs_id r = qs_id q then q' else r) (db_questionnaires d)\<rparr>))"

definition created_args :: from_args where
  "created_args = no_args\<lparr>fm_consultation := Some None, fm_visit := Some None\<rparr>"

definition apply_creation ::
  "documents \<Rightarrow> request \<Rightarrow> subscription_row \<times> string \<times> string \<Rightarrow> unit \<Rightarrow> db \<Rightarrow>
     app_error + (outcome \<times> db)" where
  "apply_creation dc rq = (\<lambda>(s, channel, raw) _ d.
     rbind (lock_candidate (rq_actor rq) s (opt_uuid_field rq ''questionnaire_session_id'') d) (\<lambda>session.
     rbind (create_inquiry s (rq_actor rq) channel raw (opt_uuid_field rq ''questionnaire_session_id'') d) (\<lambda>(i, d1).
     rbind (link_questionnaire session i (rq_actor rq) (rq_correlation rq) (rq_key rq) (rq_now rq) d1) (\<lambda>d2.
     rbind (case opt_text_field rq ''representative_symptom_code'' of
              None \<Rightarrow> Inr d2 | Some code \<Rightarrow> create_representative_symptom i code d2) (\<lambda>d3.
     rbind (offered dc i (rq_actor rq) created_args d3) (\<lambda>es.
     rbind (record_start_inquiry i (rq_actor rq) (rq_correlation rq) (rq_key rq) (rq_now rq) d3) (\<lambda>d4.
     Inr (answer_with rq ''startInquiry'' 201 (created_body i es) (i_public_id i) d4))))))))"

definition create_body ::
  "documents \<Rightarrow> idem_row list \<Rightarrow> request \<Rightarrow> db \<Rightarrow> app_error + (outcome \<times> db)" where
  "create_body dc races rq d =
     rbind (uuid_field rq ''subscription_id'') (\<lambda>uid.
     keyed_flow races (request_scope (rq_actor rq) ''startInquiry'' (rq_key rq)) (create_hash rq)
       (\<lambda>d. rbind (of_option Not_found (find_active_owned_subscription uid (rq_actor rq) d)) (\<lambda>s.
            rbind (text_field rq ''channel_code'') (\<lambda>channel.
            rbind (text_field rq ''raw_text'') (\<lambda>raw. Inr (s, channel, raw)))))
       (replay_known (create_hash rq))
       (\<lambda>_ d. Inr ())
       (apply_creation dc rq) d)"

section \<open>Services\<close>

definition submit_symptom ::
  "documents \<Rightarrow> idem_row list \<Rightarrow> request \<Rightarrow> db \<Rightarrow> (app_error + outcome) \<times> db" where
  "submit_symptom dc races rq = atomically races (submit_symptom_body dc races rq)"

definition cancel_inquiry ::
  "documents \<Rightarrow> idem_row list \<Rightarrow> request \<Rightarrow> db \<Rightarrow> (app_error + outcome) \<times> db" where
  "cancel_inquiry dc races rq = atomically races (cancel_body dc races rq)"

definition submit_answers ::
  "documents \<Rightarrow> idem_row list \<Rightarrow> request \<Rightarrow> db \<Rightarrow> (app_error + outcome) \<times> db" where
  "submit_answers dc races rq = atomically races (submit_answers_body dc races rq)"

definition start_inquiry ::
  "documents \<Rightarrow> idem_row list \<Rightarrow> request \<Rightarrow> db \<Rightarrow> (app_error + outcome) \<times> db" where
  "start_inquiry dc races rq = atomically races (create_body dc races rq)"

end
