(* ===== verification/ConsultationQueue.thy ===== *)
theory ConsultationQueue
  imports CustomerFlow
begin

text \<open>
  How an inquiry reaches a consultant: \<open>ConsultationRequestService.request\<close>,
  \<open>ConsultationClaimService.claim\<close> with the routing of \<open>inquiries/p1_team_routing.py\<close>,
  \<open>ConsultantPhoneInquiryService.register\<close> (all under \<open>inquiries/services\<close>) and the projection of
  the AI handoffs onto a consultation (\<open>consultation_handoff_repository.py\<close>).
\<close>

section \<open>AI handoffs\<close>

definition is_projection_eligible :: "ai_handoff_row \<Rightarrow> bool" where
  "is_projection_eligible h =
     (ah_schema_version h \<noteq> ''2.0.0'' \<or>
      map_of (ah_sanitized_payload h) ''routing_reason'' \<noteq> Some (PStr ''HARNESS_ESCALATE''))"

text \<open>
  \<open>isinstance(x, int) and not isinstance(x, bool)\<close>, the version of the payload, else of the input of
  the AI run, else 0.
\<close>

definition int_value :: "py option \<Rightarrow> int option" where
  "int_value v = (case v of Some (PInt n) \<Rightarrow> Some n | _ \<Rightarrow> None)"

definition run_of :: "db \<Rightarrow> ai_handoff_row \<Rightarrow> ai_run_row option" where
  "run_of d h = find (\<lambda>r. ar_id r = ah_ai_run_id h) (db_ai_runs d)"

definition projection_rank :: "db \<Rightarrow> ai_handoff_row \<Rightarrow> int \<times> int \<times> nat" where
  "projection_rank d h =
     (let run_input = (case run_of d h of None \<Rightarrow> None
            | Some r \<Rightarrow> (case ar_input_payload r of PDict kvs \<Rightarrow> map_of kvs ''state_version'' | _ \<Rightarrow> None));
          version = (case int_value (map_of (ah_sanitized_payload h) ''state_version'') of
            Some n \<Rightarrow> n
          | None \<Rightarrow> (case int_value run_input of Some n \<Rightarrow> n | None \<Rightarrow> 0));
          completed = (case Option.bind (run_of d h) ar_completed_at of Some t \<Rightarrow> t | None \<Rightarrow> ah_created_at h)
      in (version, completed, ah_id h))"

text \<open>The newest eligible handoff that is free or already belongs to the consultation.\<close>

definition candidate_handoff :: "inquiry_row \<Rightarrow> consultation_row \<Rightarrow> db \<Rightarrow> ai_handoff_row option" where
  "candidate_handoff i c d =
     first_by (\<lambda>h. Desc (projection_rank d h))
       (filter (\<lambda>h. ah_inquiry_id h = i_id i \<and> ah_consultation_id h \<in> {None, Some (co_id c)} \<and>
          is_projection_eligible h) (db_ai_handoffs d))"

text \<open>
  \<open>attach_to_latest_consultation\<close> with the consultation given: the handoff is attached unless a newer
  one is projected already, and the consultation takes over its draft summary.
\<close>

definition attach_handoff ::
  "inquiry_row \<Rightarrow> consultation_row \<Rightarrow> db \<Rightarrow> app_error + (consultation_row \<times> db)" where
  "attach_handoff i c d =
     (case candidate_handoff i c d of
        None \<Rightarrow> Inr (c, d)
      | Some h \<Rightarrow>
          let projected = filter (\<lambda>g. ah_consultation_id g = Some (co_id c) \<and> ah_id g \<noteq> ah_id h) (db_ai_handoffs d)
          in if list_ex (\<lambda>g. projection_rank d h < projection_rank d g) projected then Inr (c, d)
             else
               let d1 = d\<lparr>db_ai_handoffs :=
                     map (\<lambda>g. if ah_id g = ah_id h then g\<lparr>ah_consultation_id := Some (co_id c)\<rparr> else g)
                       (db_ai_handoffs d)\<rparr>
               in if co_ai_draft_summary c = Some (ah_ai_draft_summary h) then Inr (c, d1)
                  else update_consultation (\<lambda>r. r\<lparr>co_ai_draft_summary := Some (ah_ai_draft_summary h)\<rparr>) c d1)"

section \<open>Requesting a consultation\<close>

definition consultation_arg :: "consultation_row option \<Rightarrow> from_args" where
  "consultation_arg c = no_args\<lparr>fm_consultation := Some c\<rparr>"

definition request_event :: "documents \<Rightarrow> request \<Rightarrow> inquiry_row \<Rightarrow> db \<Rightarrow> event_spec" where
  "request_event dc rq i d =
     (let current = lock_latest_consultation i d;
          x = from_models i (rq_actor rq) (consultation_arg current) d;
          conflict = state_conflict dc i (rq_actor rq) (consultation_arg current) d in
      \<lparr>es_event = ''REQUEST_CONSULTATION'',
       es_invalid = invalid_as {TERMINAL_STATE, UNLISTED_TRANSITION, VISIT_STATE_MISMATCH} conflict internal_error,
       es_effects = [''UPSERT_CONSULTATION_REQUEST''],
       es_domain = Inr [(''G-INQUIRY-OWNER'', True),
         (''G-NO-FRESH-RESOLVED-CUSTOMER-FEEDBACK'', \<not> ac_fresh_resolved_feedback_exists x)],
       es_denied = denied_as {''G-STATE-VERSION'', ''G-NO-FRESH-RESOLVED-CUSTOMER-FEEDBACK''} conflict
         plain_error,
       es_unexplained = internal_error\<rparr>)"

text \<open>The request hash over the whole validated body.\<close>

definition body_hash :: "request \<Rightarrow> string" where
  "body_hash rq = request_hash [(''inquiry_id'', PUuid (rq_target rq))] (rq_data rq) (rq_target rq)"

definition apply_request ::
  "documents \<Rightarrow> request \<Rightarrow> inquiry_row \<Rightarrow> transition \<times> consultation_row option \<Rightarrow> db \<Rightarrow> app_error + (outcome \<times> db)" where
  "apply_request dc rq = (\<lambda>i (t, current) d.
       rbind (consultation_request i (t_version_after t) (rq_key rq) (rq_correlation rq) current (rq_now rq) d)
         (\<lambda>(c, d1).
       rbind (attach_handoff i c d1) (\<lambda>(c', d2).
       rbind (move_inquiry rq i t (t_record_business t) None d2) (\<lambda>(i', d3).
       respond dc rq ''requestConsultation'' 200 (message_body ''msg.consultation_requested'') i'
         (consultation_arg (Some c')) (i_public_id i') d3))))"

definition request_consultation_body ::
  "documents \<Rightarrow> idem_row list \<Rightarrow> request \<Rightarrow> db \<Rightarrow> app_error + (outcome \<times> db)" where
  "request_consultation_body dc races rq d =
     keyed_flow races (request_scope (rq_actor rq) ''requestConsultation'' (rq_key rq)) (body_hash rq)
       (\<lambda>d. of_option Not_found (lock_owned_inquiry (rq_target rq) (rq_actor rq) d))
       (replay_known (body_hash rq))
       (\<lambda>i d. rbind (plan_event dc (request_event dc rq i d) rq i d)
          (\<lambda>t. Inr (t, lock_latest_consultation i d)))
       (apply_request dc rq)
       d"

section \<open>Claiming a waiting consultation\<close>

definition contract_consultant :: "string \<rightharpoonup> string" where
  "contract_consultant = map_of [
     (''SYN-P1-TEAM-CONTRACT-001'', ''SKN-001''), (''SYN-P1-TEAM-CONTRACT-002'', ''SKN-002''),
     (''SYN-P1-TEAM-CONTRACT-003'', ''SKN-003''), (''SYN-P1-TEAM-CONTRACT-004'', ''SKN-004''),
     (''SYN-P1-TEAM-CONTRACT-005'', ''SKN-005''), (''SYN-P1-TEAM-CONTRACT-006'', ''SKN-006''),
     (''SYN-P1-EXTRA-CONTRACT-001'', ''SKN-007'')]"

definition routing_username :: "user_row \<Rightarrow> string" where
  "routing_username u = map upper_char (strip (u_username u))"

definition can_access_contract :: "user_row \<Rightarrow> string \<Rightarrow> bool" where
  "can_access_contract actor contract_no =
     (case contract_consultant (strip contract_no) of
        None \<Rightarrow> True | Some username \<Rightarrow> routing_username actor = username)"

definition lock_claimable :: "nat \<Rightarrow> db \<Rightarrow> inquiry_row option" where
  "lock_claimable uid d =
     find (\<lambda>i. i_public_id i = uid \<and> cu_deleted_at (su_customer (i_subscription i)) = None \<and>
        cu_is_synthetic (su_customer (i_subscription i)) \<and>
        u_is_synthetic (cu_user (su_customer (i_subscription i)))) (db_inquiries d)"

definition is_claimable :: "inquiry_row \<Rightarrow> consultation_row option \<Rightarrow> bool" where
  "is_claimable i c =
     (i_status_code i = ''CONSULTATION_REQUIRED'' \<and> i_assigned_user_id i = None \<and>
      i_assigned_role_code i = ''NONE'' \<and>
      (case c of None \<Rightarrow> False
       | Some r \<Rightarrow> co_status r = ''WAITING'' \<and> co_consultant_id r = None \<and> co_started_at r = None))"

definition claim_event :: "documents \<Rightarrow> request \<Rightarrow> inquiry_row \<Rightarrow> db \<Rightarrow> event_spec" where
  "claim_event dc rq i d =
     (let c = lock_latest_consultation i d in
      \<lparr>es_event = ''CLAIM_CONSULTATION'', es_invalid = (\<lambda>r. Not_found),
       es_effects = [''ASSIGN_CURRENT_CONSULTANT'', ''ASSIGN_WAITING_CONSULTATION''],
       es_domain = Inr [(''G-UNASSIGNED-CONSULTATION-CLAIMABLE'', True)],
       es_denied = denied_as {''G-STATE-VERSION''}
         (state_conflict dc i (rq_actor rq) (consultation_arg c) d) plain_error,
       es_unexplained = internal_error\<rparr>)"

text \<open>
  A known key is answered at once when it stands for this request or this inquiry; otherwise only a
  caller who may see the inquiry in the queue learns of the conflict.
\<close>

definition claim_known :: "request \<Rightarrow> inquiry_row \<Rightarrow> idem_row \<Rightarrow> db \<Rightarrow> app_error + outcome" where
  "claim_known rq i r d =
     (if ir_request_hash r = body_hash rq \<or> ir_resource_public_id r = Some (i_public_id i)
      then replay_known (body_hash rq) i r d
      else if \<not> is_claimable i (lock_latest_consultation i d) then Inl Not_found
      else replay_known (body_hash rq) i r d)"

definition lock_routed :: "request \<Rightarrow> db \<Rightarrow> app_error + inquiry_row" where
  "lock_routed rq d =
     rbind (of_option Not_found (lock_claimable (rq_target rq) d)) (\<lambda>i.
     rbind (guard_or (can_access_contract (rq_actor rq) (su_contract_no (i_subscription i))) Not_found) (\<lambda>_.
     Inr i))"

definition apply_claim ::
  "documents \<Rightarrow> request \<Rightarrow> inquiry_row \<Rightarrow> transition \<times> consultation_row \<Rightarrow> db \<Rightarrow> app_error + (outcome \<times> db)" where
  "apply_claim dc rq = (\<lambda>i (t, c) d.
       rbind (assign_consultant i (rq_actor rq) (t_version_after t) d) (\<lambda>(i', d1).
       rbind (consultation_claim c (rq_actor rq) (t_version_after t) (rq_key rq) (rq_correlation rq) d1)
         (\<lambda>(c', d2).
       rbind (if t_record_business t
              then record_inquiry_action i' t (rq_actor rq) (rq_correlation rq) (rq_key rq) None (rq_now rq) d2
              else Inr d2) (\<lambda>d3.
       respond dc rq ''claimConsultation'' 200 (message_body ''msg.consultation_claimed'') i'
         (consultation_arg (Some c')) (i_public_id i') d3))))"

definition claim_consultation_body ::
  "documents \<Rightarrow> idem_row list \<Rightarrow> request \<Rightarrow> db \<Rightarrow> app_error + (outcome \<times> db)" where
  "claim_consultation_body dc races rq d =
     keyed_flow races (request_scope (rq_actor rq) ''claimConsultation'' (rq_key rq)) (body_hash rq)
       (lock_routed rq)
       (claim_known rq)
       (\<lambda>i d. case lock_latest_consultation i d of
          None \<Rightarrow> Inl Not_found
        | Some c \<Rightarrow>
            rbind (guard_or (is_claimable i (Some c)) Not_found) (\<lambda>_.
            rbind (plan_event dc (claim_event dc rq i d) rq i d) (\<lambda>t. Inr (t, c))))
       (apply_claim dc rq)
       d"

section \<open>Registering a phone inquiry\<close>

definition lock_active_synthetic_subscription :: "nat \<Rightarrow> db \<Rightarrow> subscription_row option" where
  "lock_active_synthetic_subscription uid d =
     find (\<lambda>s. su_public_id s = uid \<and> su_status_code s = ''ACTIVE'' \<and>
        cu_deleted_at (su_customer s) = None \<and> cu_is_synthetic (su_customer s) \<and>
        u_is_active (cu_user (su_customer s)) \<and> u_is_synthetic (cu_user (su_customer s))) (db_subscriptions d)"

definition phone_hash :: "request \<Rightarrow> string" where
  "phone_hash rq =
     request_hash []
       [(''subscription_id'', field_or_none rq ''subscription_id''),
        (''raw_text'', field_or_none rq ''raw_text''),
        (''representative_symptom_code'', field_or_none rq ''representative_symptom_code''),
        (''priority_code'', field_or_none rq ''priority_code'')]
       (case opt_uuid_field rq ''subscription_id'' of None \<Rightarrow> 0 | Some u \<Rightarrow> u)"

text \<open>No exception of the engine is caught here, and no version is requested.\<close>

definition plan_phone :: "documents \<Rightarrow> request \<Rightarrow> app_error + transition" where
  "plan_phone dc rq =
     (let s = \<lparr>s_state = None, s_version = None, s_visit = None\<rparr> in
      rbind (map_error (\<lambda>e. Uncaught ''InvalidStateTransition'')
        (resolve (dc_contract dc) s ''REGISTER_PHONE_INQUIRY'')) (\<lambda>t.
      rbind (map_error (\<lambda>e. Uncaught ''guard'')
        (evaluate (dc_contract dc) t s
          (event_context rq None [(''G-CONSULTANT-PHONE-SUBSCRIPTION'', True)]))) (\<lambda>ev.
      if allowed ev then Inr t
      else case failure ev of
        None \<Rightarrow> Inl (Runtime ''Phone inquiry guard failed without detail'')
      | Some f \<Rightarrow> Inl (plain_error f))))"

definition create_phone_inquiry ::
  "subscription_row \<Rightarrow> request \<Rightarrow> string \<Rightarrow> string \<Rightarrow> transition \<Rightarrow> db \<Rightarrow> app_error + (inquiry_row \<times> db)" where
  "create_phone_inquiry s rq raw priority t =
     insert_inquiry
       \<lparr>i_id = 0, i_public_id = 0, i_inquiry_code = [], i_subscription = s, i_initiated_by = rq_actor rq,
        i_assigned_user_id = Some (u_id (rq_actor rq)), i_assigned_role_code = ''CONSULTANT'',
        i_channel_code = Some ''PHONE'', i_raw_text = raw, i_priority_code = priority,
        i_source_key = Some (rq_key rq), i_source_correlation = Some (rq_correlation rq),
        i_questionnaire_session = None, i_status_code = t_state_after t,
        i_state_version = t_version_after t, i_cancelled_at = None, i_cancellation_reason_code = None,
        i_cancellation_reason_detail = None\<rparr>"

definition create_phone_symptom :: "inquiry_row \<Rightarrow> string \<Rightarrow> db \<Rightarrow> app_error + db" where
  "create_phone_symptom i code =
     insert_symptom \<lparr>sy_inquiry_id = i_id i, sy_symptom_type_code = code,
       sy_structured_payload = PDict [(''representative_symptom_code'', PStr code),
         (''source'', PStr ''CONSULTANT_PHONE_INTAKE'')],
       sy_schema_version = ''v1'', sy_is_customer_confirmed = False\<rparr>"

definition apply_phone ::
  "documents \<Rightarrow> request \<Rightarrow> subscription_row \<times> string \<times> string \<times> string \<Rightarrow> transition \<Rightarrow> db \<Rightarrow>
     app_error + (outcome \<times> db)" where
  "apply_phone dc rq = (\<lambda>(s, raw, code, priority) t d.
       rbind (create_phone_inquiry s rq raw priority t d) (\<lambda>(i, d1).
       rbind (create_phone_symptom i code d1) (\<lambda>d2.
       rbind (offered dc i (rq_actor rq) created_args d2) (\<lambda>es.
       rbind (record_inquiry_action i t (rq_actor rq) (rq_correlation rq) (rq_key rq) None (rq_now rq) d2) (\<lambda>d3.
       Inr (answer_with rq ''registerConsultantPhoneInquiry'' 201 (created_body i es) (i_public_id i) d3))))))"

definition register_phone_body ::
  "documents \<Rightarrow> idem_row list \<Rightarrow> request \<Rightarrow> db \<Rightarrow> app_error + (outcome \<times> db)" where
  "register_phone_body dc races rq d =
     rbind (uuid_field rq ''subscription_id'') (\<lambda>uid.
     keyed_flow races (request_scope (rq_actor rq) ''registerConsultantPhoneInquiry'' (rq_key rq)) (phone_hash rq)
       (\<lambda>d. rbind (of_option Not_found (lock_active_synthetic_subscription uid d)) (\<lambda>s.
            rbind (text_field rq ''raw_text'') (\<lambda>raw.
            rbind (text_field rq ''representative_symptom_code'') (\<lambda>code.
            rbind (text_field rq ''priority_code'') (\<lambda>priority. Inr (s, raw, code, priority))))))
       (replay_known (phone_hash rq))
       (\<lambda>_ d. plan_phone dc rq)
       (apply_phone dc rq)
       d)"

section \<open>Services\<close>

definition request_consultation ::
  "documents \<Rightarrow> idem_row list \<Rightarrow> request \<Rightarrow> db \<Rightarrow> (app_error + outcome) \<times> db" where
  "request_consultation dc races rq = atomically races (request_consultation_body dc races rq)"

definition claim_consultation ::
  "documents \<Rightarrow> idem_row list \<Rightarrow> request \<Rightarrow> db \<Rightarrow> (app_error + outcome) \<times> db" where
  "claim_consultation dc races rq = atomically races (claim_consultation_body dc races rq)"

definition register_phone_inquiry ::
  "documents \<Rightarrow> idem_row list \<Rightarrow> request \<Rightarrow> db \<Rightarrow> (app_error + outcome) \<times> db" where
  "register_phone_inquiry dc races rq = atomically races (register_phone_body dc races rq)"

end
