(* ===== verification/HumanReview.thy ===== *)
theory HumanReview
  imports ConsultationQueue
begin

text \<open>
  \<open>HumanReviewService\<close> (\<open>inquiries/services/human_review_service.py\<close>) over \<open>HumanReviewRepository\<close>
  (\<open>inquiries/repositories/human_review_repository.py\<close>): a review is created with the origin of its
  consultation requirement, and a consultant decides it once, which publishes guidance or requests a
  consultation. A rejected review is put into the outbox of
  \<open>human_review_resume_dispatch_service.py\<close>. A \<open>ValidationError\<close> of \<open>full_clean\<close> is \<open>Uncaught\<close>.
\<close>

section \<open>Where the consultation requirement comes from\<close>

definition ledger_cause_priority :: "string \<rightharpoonup> nat" where
  "ledger_cause_priority = map_of [
     (''DANGER_ASSESSMENT'', 0), (''EXPLICIT_SAFETY_RULE'', 1), (''FAIL_CLOSED_AI_RESULT'', 2),
     (''UNCLASSIFIED_AI_SIGNAL'', 3), (''HARNESS_UNSUPPORTED_FUNCTION'', 4), (''HARNESS_SCOPE_EXCEEDED'', 5)]"

definition ledger_origin_by_cause :: "string \<rightharpoonup> string" where
  "ledger_origin_by_cause = map_of [
     (''DANGER_ASSESSMENT'', ''SAFETY_LOCKED''), (''EXPLICIT_SAFETY_RULE'', ''SAFETY_LOCKED''),
     (''FAIL_CLOSED_AI_RESULT'', ''FAIL_CLOSED_LOCKED''), (''UNCLASSIFIED_AI_SIGNAL'', ''UNKNOWN_LOCKED''),
     (''HARNESS_UNSUPPORTED_FUNCTION'', ''NON_SAFETY_RESOLVABLE''),
     (''HARNESS_SCOPE_EXCEEDED'', ''NON_SAFETY_RESOLVABLE'')]"

text \<open>\<open>LEDGER_LOCK_BY_CAUSE\<close> has the same entries.\<close>

definition ledger_lock_by_cause :: "string \<rightharpoonup> string" where
  "ledger_lock_by_cause = ledger_origin_by_cause"

definition unclassified_origin :: "string \<times> string" where
  "unclassified_origin = (''UNKNOWN_LOCKED'', ''UNCLASSIFIED_AI_SIGNAL'')"

fun cause_code :: "py \<Rightarrow> string option" where
  "cause_code (PDict kvs) = (case map_of kvs ''cause_code'' of Some (PStr s) \<Rightarrow> Some s | _ \<Rightarrow> None)"
| "cause_code _ = None"

fun cause_lock :: "py \<Rightarrow> string option" where
  "cause_lock (PDict kvs) = (case map_of kvs ''lock_class'' of Some (PStr s) \<Rightarrow> Some s | _ \<Rightarrow> None)"
| "cause_lock _ = None"

text \<open>
  Every cause must be an object with a known code and the lock of that code; then the strictest cause
  gives the origin. A cause that is no object makes the lists differ in length.
\<close>

definition consultation_origin_from_ledger :: "py list \<Rightarrow> string \<times> string" where
  "consultation_origin_from_ledger causes =
     (let codes = List.map_filter cause_code causes;
          known = (\<lambda>p. case cause_code p of None \<Rightarrow> False | Some c \<Rightarrow> ledger_cause_priority c \<noteq> None) in
      if causes = [] \<or> \<not> list_all known causes then unclassified_origin
      else if \<not> list_all (\<lambda>p. cause_lock p = Option.bind (cause_code p) ledger_lock_by_cause) causes
      then unclassified_origin
      else case first_by (\<lambda>c. case ledger_cause_priority c of None \<Rightarrow> 0 | Some p \<Rightarrow> p) codes of
        None \<Rightarrow> unclassified_origin
      | Some c \<Rightarrow> (case ledger_origin_by_cause c of None \<Rightarrow> unclassified_origin | Some origin \<Rightarrow> (origin, c)))"

definition guidance_run :: "guidance_row \<Rightarrow> db \<Rightarrow> ai_run_row option" where
  "guidance_run g d = Option.bind (gd_ai_run_id g) (\<lambda>k. find (\<lambda>r. ar_id r = k) (db_ai_runs d))"

definition guidance_links :: "nat \<Rightarrow> db \<Rightarrow> evidence_row list" where
  "guidance_links k d =
     sort_key (\<lambda>l. (el_display_order l, el_public_id l)) (filter (\<lambda>l. el_guidance_id l = Some k) (db_evidence d))"

fun py_get :: "py \<Rightarrow> string \<Rightarrow> py" where
  "py_get (PDict kvs) k = (case map_of kvs k of None \<Rightarrow> PNone | Some v \<Rightarrow> v)"
| "py_get _ k = PNone"

fun is_dict :: "py \<Rightarrow> bool" where
  "is_dict (PDict kvs) = True"
| "is_dict _ = False"

fun names_rule :: "py \<Rightarrow> bool" where
  "names_rule (PList xs) = list_ex (\<lambda>x. case x of PStr s \<Rightarrow> has_text s | _ \<Rightarrow> False) xs"
| "names_rule _ = False"

definition consultation_origin :: "guidance_row \<Rightarrow> db \<Rightarrow> string \<times> string" where
  "consultation_origin g d =
     (if \<not> gd_requires_consultation g then (''NOT_REQUIRED'', ''NOT_REQUIRED'')
      else
        let run = guidance_run g d in
        case Option.bind run (\<lambda>r. find (\<lambda>c. cl_ai_run_id c = ar_id r) (db_cause_ledgers d)) of
          Some ledger \<Rightarrow> consultation_origin_from_ledger (cl_causes ledger)
        | None \<Rightarrow>
            let safety = py_get (case run of None \<Rightarrow> PNone | Some r \<Rightarrow> ar_validated_output_payload r) ''safety_assessment'';
                links = guidance_links (gd_id g) d in
            if is_dict safety \<and> py_get safety ''risk_level'' = PStr ''danger''
            then (''SAFETY_LOCKED'', ''DANGER_ASSESSMENT'')
            else if names_rule (py_get safety ''matched_safety_rule_ids'')
            then (''SAFETY_LOCKED'', ''EXPLICIT_SAFETY_RULE'')
            else if (case run of None \<Rightarrow> False
                | Some r \<Rightarrow> ar_status_code r = ''SUCCEEDED'' \<and> ar_schema_validation_status_code r = ''PASSED'' \<and>
                    is_dict safety \<and> gd_evidence_sufficiency_code g = ''VERIFIED'' \<and>
                    links \<noteq> [] \<and> list_all el_is_verified links)
            then unclassified_origin
            else (''FAIL_CLOSED_LOCKED'', ''FAIL_CLOSED_AI_RESULT''))"

section \<open>Saving\<close>

text \<open>\<open>full_clean\<close> of a review: constraints, \<open>clean\<close>, and the inquiries of its guidances.\<close>

definition guidance_of :: "nat \<Rightarrow> db \<Rightarrow> guidance_row option" where
  "guidance_of k d = find (\<lambda>g. gd_id g = k) (db_guidances d)"

definition same_inquiry :: "nat \<Rightarrow> nat \<Rightarrow> db \<Rightarrow> bool" where
  "same_inquiry k inquiry d = (case guidance_of k d of None \<Rightarrow> True | Some g \<Rightarrow> gd_inquiry_id g = inquiry)"

definition validation_failed :: app_error where
  "validation_failed = Uncaught ''ValidationError''"

definition review_ok :: "review_row \<Rightarrow> db \<Rightarrow> bool" where
  "review_ok v d =
     (review_constraints v \<and> review_clean v \<and> same_inquiry (rv_guidance_id v) (rv_inquiry_id v) d \<and>
      (case rv_published_guidance_id v of None \<Rightarrow> True | Some k \<Rightarrow> same_inquiry k (rv_inquiry_id v) d))"

text \<open>\<open>save()\<close> writes the changed row \<open>f v\<close> and its time of change.\<close>

definition save_review ::
  "(review_row \<Rightarrow> review_row) \<Rightarrow> review_row \<Rightarrow> int \<Rightarrow> db \<Rightarrow> app_error + (review_row \<times> db)" where
  "save_review f v now d =
     rbind (guard_or (review_ok (f v) d) validation_failed) (\<lambda>_.
     let g = (\<lambda>r. (f r)\<lparr>rv_updated_at := now\<rparr>) in
     Inr (g v, d\<lparr>db_reviews := map (\<lambda>r. if rv_id r = rv_id v then g r else r) (db_reviews d)\<rparr>))"

definition guidance_ok :: "guidance_row \<Rightarrow> db \<Rightarrow> bool" where
  "guidance_ok g d =
     (0 < gd_guidance_version g \<and> has_text (gd_review_status_code g) \<and> has_text (gd_title g) \<and>
      has_text (gd_summary_text g) \<and> has_text (gd_evidence_sufficiency_code g) \<and>
      (gd_reviewed_by g = None) = (gd_reviewed_at g = None) \<and>
      \<not> list_ex (\<lambda>r. gd_id r \<noteq> gd_id g \<and> gd_inquiry_id r = gd_inquiry_id g \<and>
          gd_guidance_version r = gd_guidance_version g) (db_guidances d) \<and>
      (case guidance_run g d of None \<Rightarrow> True | Some r \<Rightarrow> ar_inquiry_id r = gd_inquiry_id g))"

definition save_guidance :: "guidance_row \<Rightarrow> db \<Rightarrow> app_error + db" where
  "save_guidance g d =
     rbind (guard_or (guidance_ok g d) validation_failed) (\<lambda>_.
     Inr (d\<lparr>db_guidances := map (\<lambda>r. if gd_id r = gd_id g then g else r) (db_guidances d)\<rparr>))"

definition insert_guidance :: "guidance_row \<Rightarrow> db \<Rightarrow> app_error + (guidance_row \<times> db)" where
  "insert_guidance g d =
     (let g' = g\<lparr>gd_id := db_next_id d, gd_public_id := db_next_uuid d\<rparr> in
      rbind (guard_or (guidance_ok g' d) validation_failed) (\<lambda>_.
      Inr (g', d\<lparr>db_guidances := db_guidances d @ [g'], db_next_id := Suc (db_next_id d),
                 db_next_uuid := Suc (db_next_uuid d)\<rparr>)))"

definition insert_item :: "guidance_item_row \<Rightarrow> db \<Rightarrow> app_error + db" where
  "insert_item item d =
     rbind (guard_or (0 < gi_step_no item \<and> has_text (gi_action_type_code item) \<and>
         has_text (gi_instruction_text item) \<and>
         \<not> list_ex (\<lambda>r. gi_guidance_id r = gi_guidance_id item \<and> gi_step_no r = gi_step_no item) (db_guidance_items d))
       validation_failed) (\<lambda>_.
     Inr (d\<lparr>db_guidance_items := db_guidance_items d @
              [item\<lparr>gi_id := db_next_id d, gi_public_id := db_next_uuid d\<rparr>],
            db_next_id := Suc (db_next_id d), db_next_uuid := Suc (db_next_uuid d)\<rparr>))"

text \<open>The checks of an evidence link that are about the columns a copy does not take over.\<close>

definition evidence_ok :: "evidence_row \<Rightarrow> db \<Rightarrow> bool" where
  "evidence_ok l d =
     (0 < el_display_order l \<and>
      el_is_verified l = (el_verified_by l \<noteq> None) \<and> el_is_verified l = (el_verified_at l \<noteq> None) \<and>
      (case el_guidance_id l of None \<Rightarrow> False | Some k \<Rightarrow> same_inquiry k (el_inquiry_id l) d) \<and>
      (case el_ai_run_id l of None \<Rightarrow> True
       | Some k \<Rightarrow> (case find (\<lambda>r. ar_id r = k) (db_ai_runs d) of None \<Rightarrow> True
           | Some r \<Rightarrow> ar_inquiry_id r = el_inquiry_id l)) \<and>
      (case el_verified_by l of None \<Rightarrow> True
       | Some u \<Rightarrow> (case find (\<lambda>x. u_id x = u) (db_users d) of None \<Rightarrow> True
           | Some x \<Rightarrow> u_role_code x \<in> {''CONSULTANT'', ''OPERATOR''})) \<and>
      \<not> list_ex (\<lambda>r. el_guidance_id r = el_guidance_id l \<and>
          (el_chunk_id r = el_chunk_id l \<and> el_evidence_role_code r = el_evidence_role_code l \<or>
           el_display_order r = el_display_order l)) (db_evidence d))"

definition clone_evidence :: "nat \<Rightarrow> evidence_row \<Rightarrow> db \<Rightarrow> app_error + db" where
  "clone_evidence guidance source d =
     (let l = source\<lparr>el_id := db_next_id d, el_public_id := db_next_uuid d, el_guidance_id := Some guidance\<rparr> in
      rbind (guard_or (evidence_ok l d) validation_failed) (\<lambda>_.
      Inr (d\<lparr>db_evidence := db_evidence d @ [l], db_next_id := Suc (db_next_id d),
             db_next_uuid := Suc (db_next_uuid d)\<rparr>)))"

text \<open>A loop of writes.\<close>

fun each :: "('a \<Rightarrow> db \<Rightarrow> app_error + db) \<Rightarrow> 'a list \<Rightarrow> db \<Rightarrow> app_error + db" where
  "each f [] d = Inr d"
| "each f (x # xs) d = rbind (f x d) (each f xs)"

section \<open>Creating a review\<close>

definition checkpoint_thread_id :: "nat \<Rightarrow> string \<Rightarrow> int \<Rightarrow> string" where
  "checkpoint_thread_id inquiry ai_request_id version =
     ''hitl-'' @ take 32 (sha256_hex (utf8 (uuid_text inquiry @ '':'' @ ai_request_id @ '':'' @ int_text version)))"

definition create_pending ::
  "inquiry_row \<Rightarrow> guidance_row \<Rightarrow> string \<Rightarrow> int \<Rightarrow> int \<Rightarrow> db \<Rightarrow> app_error + (review_row \<times> db)" where
  "create_pending i g ai_request_id version now d =
     (let (origin, reason) = consultation_origin g d;
          v = \<lparr>rv_id = db_next_id d, rv_public_id = db_next_uuid d, rv_inquiry_id = gd_inquiry_id g,
               rv_guidance_id = gd_id g, rv_published_guidance_id = None,
               rv_checkpoint_thread_id = checkpoint_thread_id (i_public_id i) ai_request_id version,
               rv_source_ai_request_id = ai_request_id, rv_source_inquiry_state_version = version,
               rv_status_code = ''PENDING'', rv_decision_code = None, rv_review_state_version = 1,
               rv_initial_reason_code = ''CAUTION_PRE_SEND_REVIEW'', rv_decision_reason_code = None,
               rv_reviewer_id = None, rv_decided_at = None, rv_decision_idempotency_key = None,
               rv_decision_correlation_id = None, rv_modified_guidance_payload = [],
               rv_resume_failure_code = None,
               rv_original_requires_consultation = gd_requires_consultation g,
               rv_effective_requires_consultation = gd_requires_consultation g,
               rv_consultation_origin_code = origin, rv_consultation_origin_reason_code = reason,
               rv_consultation_disposition_code = None, rv_consultation_reason_code = None,
               rv_consultation_evidence_snapshot = [], rv_created_at = now, rv_updated_at = now\<rparr> in
      rbind (guard_or (review_ok v d \<and>
          \<not> list_ex (\<lambda>r. rv_guidance_id r = gd_id g \<or> rv_checkpoint_thread_id r = rv_checkpoint_thread_id v)
            (db_reviews d)) validation_failed) (\<lambda>_.
      Inr (v, d\<lparr>db_reviews := db_reviews d @ [v], db_next_id := Suc (db_next_id d),
                db_next_uuid := Suc (db_next_uuid d)\<rparr>)))"

section \<open>Visibility\<close>

definition reserved_contracts :: "(string \<times> string) list" where
  "reserved_contracts = [
     (''SKN-001'', ''SYN-P1-TEAM-CONTRACT-001''), (''SKN-002'', ''SYN-P1-TEAM-CONTRACT-002''),
     (''SKN-003'', ''SYN-P1-TEAM-CONTRACT-003''), (''SKN-004'', ''SYN-P1-TEAM-CONTRACT-004''),
     (''SKN-005'', ''SYN-P1-TEAM-CONTRACT-005''), (''SKN-006'', ''SYN-P1-TEAM-CONTRACT-006''),
     (''SKN-007'', ''SYN-P1-EXTRA-CONTRACT-001'')]"

definition assigned_contract :: "user_row \<Rightarrow> string option" where
  "assigned_contract actor = map_of reserved_contracts (routing_username actor)"

definition review_visible_to :: "user_row \<Rightarrow> inquiry_row \<Rightarrow> bool" where
  "review_visible_to actor i =
     (let contract = su_contract_no (i_subscription i); reserved = (contract \<in> snd ` set reserved_contracts) in
      (i_assigned_user_id i = Some (u_id actor) \<or>
       i_assigned_user_id i = None \<and> i_assigned_role_code i = ''NONE'') \<and>
      u_is_synthetic (i_initiated_by i) \<and>
      (case assigned_contract actor of
         None \<Rightarrow> \<not> reserved
       | Some c \<Rightarrow> contract = c \<or> \<not> reserved))"

definition lock_for_human_review :: "nat \<Rightarrow> db \<Rightarrow> inquiry_row option" where
  "lock_for_human_review k d = find (\<lambda>i. i_id i = k) (db_inquiries d)"

definition lock_visible :: "nat \<Rightarrow> user_row \<Rightarrow> db \<Rightarrow> review_row option" where
  "lock_visible uid actor d =
     find (\<lambda>v. rv_public_id v = uid \<and>
         (case lock_for_human_review (rv_inquiry_id v) d of None \<Rightarrow> False | Some i \<Rightarrow> review_visible_to actor i))
       (db_reviews d)"

definition lock_review :: "request \<Rightarrow> db \<Rightarrow> app_error + (review_row \<times> inquiry_row)" where
  "lock_review rq d =
     rbind (of_option Not_found (lock_visible (rq_target rq) (rq_actor rq) d)) (\<lambda>v.
     rbind (of_option Not_found (lock_for_human_review (rv_inquiry_id v) d)) (\<lambda>i.
     Inr (v, i)))"

section \<open>What the decision does about the consultation\<close>

definition review_conflict :: "review_row \<Rightarrow> app_error" where
  "review_conflict v = Business STATE_CONFLICT ''msg.review_decided''
     (PDict [(''current_status'', PStr (rv_status_code v)),
             (''current_review_state_version'', PInt (rv_review_state_version v)),
             (''allowed_actions'', PList (if rv_status_code v = ''PENDING'' then [PStr ''DECIDE_HUMAN_REVIEW''] else []))])
     409"

definition consultation_invalid :: "string \<Rightarrow> app_error" where
  "consultation_invalid msg = Business ''VALIDATION_ERROR'' msg (PDict []) 422"

definition consultation_locked :: "review_row \<Rightarrow> string \<Rightarrow> app_error" where
  "consultation_locked v msg = Business ''HUMAN_REVIEW_CONSULTATION_LOCKED'' msg
     (PDict [(''consultation_origin'', PStr (rv_consultation_origin_code v))]) 422"

record consultation_audit =
  cz_effective :: bool
  cz_disposition :: string
  cz_reason :: "string option"
  cz_snapshot :: "py list"

definition evidence_snapshot :: "evidence_row \<Rightarrow> py" where
  "evidence_snapshot l = PDict
     [(''evidence_link_id'', PStr (uuid_text (el_public_id l))),
      (''chunk_id'', PStr (uuid_text (el_chunk_public_id l))),
      (''document_sha256'', PStr (el_document_sha256 l))]"

definition selected_evidence :: "evidence_row list \<Rightarrow> py \<Rightarrow> evidence_row option" where
  "selected_evidence verified v = find (\<lambda>l. PUuid (el_public_id l) = v) verified"

text \<open>The status of use the AI run asked for, the only ones a resolution accepts are restrictions.\<close>

definition usage_restricted :: "ai_run_row option \<Rightarrow> bool" where
  "usage_restricted ai =
     (case ai of None \<Rightarrow> False
      | Some r \<Rightarrow> (let usage = py_get (ar_validated_output_payload r) ''usage_guidance'' in
          is_dict usage \<and> py_get usage ''guidance_status'' \<in> {PStr ''PARTIAL_STOP'', PStr ''TOTAL_STOP''}))"

definition resolution_audit ::
  "review_row \<Rightarrow> string option \<Rightarrow> py list \<Rightarrow> evidence_row list \<Rightarrow> ai_run_row option \<Rightarrow>
     app_error + consultation_audit" where
  "resolution_audit v reason ids verified ai =
     rbind (guard_or (rv_consultation_origin_code v = ''NON_SAFETY_RESOLVABLE'')
       (consultation_locked v ''msg.consultation_locked'')) (\<lambda>_.
     rbind (guard_or (rv_original_requires_consultation v) (consultation_invalid ''msg.resolve_needs_original'')) (\<lambda>_.
     rbind (guard_or (case reason of None \<Rightarrow> False | Some r \<Rightarrow> r \<in> CONSULTATION_RESOLUTION_REASONS)
       (consultation_invalid ''msg.resolve_needs_reason'')) (\<lambda>_.
     rbind (guard_or (usage_restricted ai) (consultation_locked v ''msg.usage_not_restricted'')) (\<lambda>_.
     rbind (guard_or (ids \<noteq> []) (consultation_invalid ''msg.resolve_needs_evidence'')) (\<lambda>_.
     rbind (guard_or (list_all (\<lambda>x. selected_evidence verified x \<noteq> None) ids)
       (consultation_invalid ''msg.evidence_not_verified'')) (\<lambda>_.
     Inr \<lparr>cz_effective = False, cz_disposition = ''RESOLVE_NON_SAFETY'', cz_reason = reason,
          cz_snapshot = map evidence_snapshot (List.map_filter (selected_evidence verified) ids)\<rparr>))))))"

definition consultation_audit_for ::
  "review_row \<Rightarrow> string \<Rightarrow> string \<Rightarrow> string option \<Rightarrow> py list \<Rightarrow> evidence_row list \<Rightarrow> ai_run_row option \<Rightarrow>
     app_error + consultation_audit" where
  "consultation_audit_for v decision disposition reason ids verified ai =
     (if decision = ''REJECT'' then
        rbind (guard_or (disposition = ''PRESERVE'' \<and> reason = None \<and> ids = [])
          (consultation_invalid ''msg.reject_fixes_consultation'')) (\<lambda>_.
        Inr \<lparr>cz_effective = True, cz_disposition = ''REQUIRE'', cz_reason = Some ''HUMAN_REVIEW_REJECTED'',
             cz_snapshot = []\<rparr>)
      else if disposition = ''PRESERVE'' then
        rbind (guard_or (reason = None \<and> ids = []) (consultation_invalid ''msg.preserve_has_no_reason'')) (\<lambda>_.
        Inr \<lparr>cz_effective = rv_original_requires_consultation v, cz_disposition = ''PRESERVE'', cz_reason = None,
             cz_snapshot = []\<rparr>)
      else if disposition = ''REQUIRE'' then
        rbind (guard_or (\<not> rv_original_requires_consultation v) (consultation_invalid ''msg.already_required'')) (\<lambda>_.
        rbind (guard_or (case reason of None \<Rightarrow> False | Some r \<Rightarrow> r \<in> CONSULTATION_ESCALATION_REASONS)
          (consultation_invalid ''msg.require_needs_reason'')) (\<lambda>_.
        rbind (guard_or (ids = []) (consultation_invalid ''msg.require_has_no_evidence'')) (\<lambda>_.
        Inr \<lparr>cz_effective = True, cz_disposition = ''REQUIRE'', cz_reason = reason, cz_snapshot = []\<rparr>)))
      else
        rbind (guard_or (disposition = ''RESOLVE_NON_SAFETY'') (consultation_invalid ''msg.unknown_disposition'')) (\<lambda>_.
        resolution_audit v reason ids verified ai))"

definition review_event :: "string \<Rightarrow> bool \<Rightarrow> string" where
  "review_event decision effective =
     (if decision = ''REJECT'' then ''HUMAN_REVIEW_REJECTED''
      else if effective then ''HUMAN_REVIEW_CONSULTATION_REQUIRED''
      else ''HUMAN_REVIEW_GUIDANCE_APPROVED'')"

section \<open>Planning a decision\<close>

definition verified_evidence :: "review_row \<Rightarrow> db \<Rightarrow> evidence_row list" where
  "verified_evidence v d =
     (let links = guidance_links (rv_guidance_id v) d in if list_all el_is_verified links then links else [])"

definition evidence_ready :: "guidance_row \<Rightarrow> evidence_row list \<Rightarrow> db \<Rightarrow> bool" where
  "evidence_ready g verified d =
     (verified \<noteq> [] \<and> gd_evidence_sufficiency_code g = ''VERIFIED'' \<and>
      (case guidance_run g d of None \<Rightarrow> False
       | Some r \<Rightarrow> ar_status_code r = ''SUCCEEDED'' \<and> ar_schema_validation_status_code r = ''PASSED''))"

definition inquiry_moved_on :: "inquiry_row \<Rightarrow> app_error" where
  "inquiry_moved_on i = Business STATE_CONFLICT ''msg.inquiry_moved_on''
     (PDict [(''current_status'', PStr (i_status_code i)), (''current_state_version'', PInt (i_state_version i))]) 409"

definition review_domain :: "string \<Rightarrow> bool \<Rightarrow> bool \<Rightarrow> (string \<times> bool) list" where
  "review_domain decision effective ready =
     (let accepted = (decision \<in> {''APPROVE'', ''MODIFY''}) in
      [(''G-HUMAN-REVIEW-GUIDANCE-APPROVED'', accepted \<and> \<not> effective \<and> ready),
       (''G-HUMAN-REVIEW-CONSULTATION-REQUIRED'', accepted \<and> effective \<and> ready),
       (''G-HUMAN-REVIEW-REJECTED'', decision = ''REJECT'')])"

definition system_context :: "nat \<Rightarrow> int \<Rightarrow> (string \<times> bool) list \<Rightarrow> guard_context" where
  "system_context correlation version results =
     \<lparr>x_actor_role = Some ''SYSTEM'', x_authenticated = False, x_correlation_id = Some (uuid_text correlation),
      x_idempotency_key = None, x_requested_version = Some version, x_trusted_internal = True,
      x_domain_results = dict_of results\<rparr>"

definition review_judged :: "inquiry_row \<Rightarrow> guard_evaluation \<Rightarrow> app_error + unit" where
  "review_judged i ev =
     (if allowed ev then Inr ()
      else case failure ev of
        None \<Rightarrow> Inl (internal_as ''msg.review_condition'')
      | Some f \<Rightarrow> Inl (if f_guard_id f = ''G-STATE-VERSION'' then inquiry_moved_on i else plain_error f))"

definition review_transition ::
  "documents \<Rightarrow> inquiry_row \<Rightarrow> string \<Rightarrow> (string \<times> bool) list \<Rightarrow> nat \<Rightarrow> db \<Rightarrow> app_error + transition" where
  "review_transition dc i event results correlation d =
     rbind (inquiry_snapshot i d) (\<lambda>s.
     rbind (map_error (\<lambda>e. case e of Missing_key k \<Rightarrow> Uncaught k
              | Invalid r \<Rightarrow> invalid_as {TERMINAL_STATE, UNLISTED_TRANSITION, VISIT_STATE_MISMATCH}
                  (inquiry_moved_on i) (internal_as ''msg.review_contract'') r)
              (resolve (dc_contract dc) s event)) (\<lambda>t.
     rbind (map_error (\<lambda>e. Uncaught ''guard'')
              (evaluate (dc_contract dc) t s (system_context correlation (i_state_version i) results))) (\<lambda>ev.
     rbind (review_judged i ev) (\<lambda>_. Inr t))))"

fun list_value :: "py \<Rightarrow> py list" where
  "list_value (PList xs) = xs"
| "list_value _ = []"

record review_plan =
  pl_decision :: string
  pl_guidance :: guidance_row
  pl_verified :: "evidence_row list"
  pl_audit :: consultation_audit
  pl_event :: string
  pl_transition :: transition

definition plan_review ::
  "documents \<Rightarrow> request \<Rightarrow> review_row \<times> inquiry_row \<Rightarrow> db \<Rightarrow> app_error + review_plan" where
  "plan_review dc rq = (\<lambda>(v, i) d.
     rbind (guard_or (rv_status_code v = ''PENDING'') (review_conflict v)) (\<lambda>_.
     rbind (field rq ''review_state_version'') (\<lambda>version.
     rbind (guard_or (version = PInt (rv_review_state_version v) \<and>
         i_status_code i = ''QUESTIONNAIRE_IN_PROGRESS'' \<and>
         i_state_version i = rv_source_inquiry_state_version v) (review_conflict v)) (\<lambda>_.
     rbind (text_field rq ''decision'') (\<lambda>decision.
     rbind (of_option (Uncaught ''guidance'') (guidance_of (rv_guidance_id v) d)) (\<lambda>g.
     let verified = verified_evidence v d in
     rbind (text_field rq ''consultation_disposition'') (\<lambda>disposition.
     rbind (consultation_audit_for v decision disposition (opt_text_field rq ''consultation_reason_code'')
         (list_value (field_or_none rq ''consultation_evidence_ids'')) verified (guidance_run g d)) (\<lambda>audit.
     let event = review_event decision (cz_effective audit) in
     rbind (review_transition dc i event
         (review_domain decision (cz_effective audit) (evidence_ready g verified d)) (rq_correlation rq) d) (\<lambda>t.
     Inr \<lparr>pl_decision = decision, pl_guidance = g, pl_verified = verified, pl_audit = audit,
          pl_event = event, pl_transition = t\<rparr>)))))))))"

section \<open>What the decision does to the guidance\<close>

fun opt_text :: "py \<Rightarrow> string option" where
  "opt_text (PStr s) = Some s"
| "opt_text _ = None"

definition entry_text :: "py \<Rightarrow> string \<Rightarrow> app_error + string" where
  "entry_text v k = of_option (Uncaught k) (opt_text (py_get v k))"

record guidance_draft =
  dr_title :: string
  dr_summary_text :: string
  dr_safety_notice :: "string option"
  dr_items :: "py list"

definition guidance_items :: "nat \<Rightarrow> db \<Rightarrow> guidance_item_row list" where
  "guidance_items k d =
     sort_key (\<lambda>x. (gi_step_no x, gi_public_id x)) (filter (\<lambda>x. gi_guidance_id x = k) (db_guidance_items d))"

definition copied_item :: "guidance_item_row \<Rightarrow> py" where
  "copied_item x = PDict
     [(''action_type_code'', PStr (gi_action_type_code x)), (''instruction_text'', PStr (gi_instruction_text x)),
      (''caution_text'', opt_str (gi_caution_text x)), (''requires_confirmation'', PBool (gi_requires_confirmation x))]"

definition guidance_draft_for :: "request \<Rightarrow> review_plan \<Rightarrow> db \<Rightarrow> app_error + guidance_draft" where
  "guidance_draft_for rq p d =
     (let g = pl_guidance p; modified = field_or_none rq ''modified_guidance'' in
      if pl_decision p = ''MODIFY'' then
        rbind (entry_text modified ''title'') (\<lambda>title.
        rbind (entry_text modified ''summary_text'') (\<lambda>summary.
        Inr \<lparr>dr_title = title, dr_summary_text = summary,
             dr_safety_notice = opt_text (py_get modified ''safety_notice''),
             dr_items = list_value (py_get modified ''items'')\<rparr>))
      else Inr \<lparr>dr_title = gd_title g, dr_summary_text = gd_summary_text g, dr_safety_notice = gd_safety_notice g,
                dr_items = map copied_item (guidance_items (gd_id g) d)\<rparr>)"

definition save_draft_item :: "nat \<Rightarrow> nat \<times> py \<Rightarrow> db \<Rightarrow> app_error + db" where
  "save_draft_item guidance = (\<lambda>(step, x) d.
     rbind (entry_text x ''instruction_text'') (\<lambda>text.
     insert_item \<lparr>gi_id = 0, gi_public_id = 0, gi_guidance_id = guidance, gi_step_no = int step,
         gi_action_type_code = (case py_get x ''action_type_code'' of PStr s \<Rightarrow> s | _ \<Rightarrow> ''NEXT_ACTION''),
         gi_instruction_text = text, gi_caution_text = opt_text (py_get x ''caution_text''),
         gi_requires_confirmation = (case py_get x ''requires_confirmation'' of PBool b \<Rightarrow> b | _ \<Rightarrow> True)\<rparr> d))"

definition latest_guidance_version :: "nat \<Rightarrow> db \<Rightarrow> int" where
  "latest_guidance_version inquiry d =
     fold max (map gd_guidance_version (filter (\<lambda>g. gd_inquiry_id g = inquiry) (db_guidances d))) 0"

definition reviewed_guidance :: "request \<Rightarrow> string \<Rightarrow> guidance_row \<Rightarrow> guidance_row" where
  "reviewed_guidance rq status g =
     g\<lparr>gd_review_status_code := status, gd_reviewed_by := Some (u_id (rq_actor rq)),
       gd_reviewed_at := Some (rq_now rq)\<rparr>"

definition publish_guidance ::
  "request \<Rightarrow> review_row \<Rightarrow> review_plan \<Rightarrow> guidance_draft \<Rightarrow> db \<Rightarrow> app_error + (guidance_row \<times> db)" where
  "publish_guidance rq v p draft d =
     (let g = pl_guidance p in
      rbind (insert_guidance (reviewed_guidance rq ''APPROVED''
        \<lparr>gd_id = 0, gd_public_id = 0, gd_inquiry_id = rv_inquiry_id v,
         gd_guidance_version = latest_guidance_version (rv_inquiry_id v) d + 1,
         gd_review_status_code = [], gd_title = dr_title draft, gd_summary_text = dr_summary_text draft,
         gd_safety_notice = dr_safety_notice draft,
         gd_evidence_sufficiency_code = gd_evidence_sufficiency_code g,
         gd_requires_consultation = cz_effective (pl_audit p), gd_ai_run_id = gd_ai_run_id g,
         gd_reviewed_by = None, gd_reviewed_at = None\<rparr>) d) (\<lambda>(g', d1).
      rbind (each (save_draft_item (gd_id g')) (enumerate 1 (dr_items draft)) d1) (\<lambda>d2.
      rbind (each (clone_evidence (gd_id g')) (pl_verified p) d2) (\<lambda>d3.
      Inr (g', d3)))))"

definition apply_guidance_decision ::
  "request \<Rightarrow> review_row \<Rightarrow> review_plan \<Rightarrow> db \<Rightarrow> app_error + (guidance_row option \<times> db)" where
  "apply_guidance_decision rq v p d =
     (let g = pl_guidance p in
      if pl_decision p = ''APPROVE'' \<and> gd_requires_consultation g = cz_effective (pl_audit p) then
        let g' = reviewed_guidance rq ''APPROVED'' g in
        rbind (save_guidance g' d) (\<lambda>d1. Inr (Some g', d1))
      else
        rbind (save_guidance (reviewed_guidance rq ''REJECTED'' g) d) (\<lambda>d1.
        if pl_decision p = ''REJECT'' then Inr (None, d1)
        else
          rbind (guidance_draft_for rq p d1) (\<lambda>draft.
          rbind (publish_guidance rq v p draft d1) (\<lambda>(g', d2).
          Inr (Some g', d2)))))"

section \<open>The decided review\<close>

fun decided_status :: "string \<Rightarrow> app_error + string" where
  "decided_status decision =
     (if decision = ''APPROVE'' then Inr ''APPROVED''
      else if decision = ''MODIFY'' then Inr ''MODIFIED''
      else if decision = ''REJECT'' then Inr ''REJECTED''
      else Inl (Uncaught ''decision''))"

definition decision_reason :: "request \<Rightarrow> string" where
  "decision_reason rq = (case opt_text_field rq ''reason_code'' of None \<Rightarrow> ''APPROVED_AS_IS'' | Some r \<Rightarrow> r)"

definition modified_payload :: "request \<Rightarrow> (string \<times> py) list" where
  "modified_payload rq = (case field_or_none rq ''modified_guidance'' of PDict kvs \<Rightarrow> kvs | _ \<Rightarrow> [])"

definition decided_review ::
  "request \<Rightarrow> review_plan \<Rightarrow> string \<Rightarrow> guidance_row option \<Rightarrow> review_row \<Rightarrow> review_row" where
  "decided_review rq p status published v =
     v\<lparr>rv_status_code := status, rv_decision_code := Some (pl_decision p),
       rv_review_state_version := rv_review_state_version v + 1,
       rv_decision_reason_code := Some (decision_reason rq), rv_reviewer_id := Some (u_id (rq_actor rq)),
       rv_decided_at := Some (rq_now rq), rv_decision_idempotency_key := Some (rq_key rq),
       rv_decision_correlation_id := Some (rq_correlation rq),
       rv_modified_guidance_payload := modified_payload rq,
       rv_published_guidance_id := map_option gd_id published,
       rv_effective_requires_consultation := cz_effective (pl_audit p),
       rv_consultation_disposition_code := Some (cz_disposition (pl_audit p)),
       rv_consultation_reason_code := cz_reason (pl_audit p),
       rv_consultation_evidence_snapshot := cz_snapshot (pl_audit p)\<rparr>"

text \<open>A consultation is requested when the requirement stays or the guidance was rejected.\<close>

definition request_review_consultation ::
  "request \<Rightarrow> inquiry_row \<Rightarrow> review_plan \<Rightarrow> db \<Rightarrow> app_error + db" where
  "request_review_consultation rq i p d =
     (if pl_event p \<in> {''HUMAN_REVIEW_CONSULTATION_REQUIRED'', ''HUMAN_REVIEW_REJECTED''} then
        rbind (consultation_request i (t_version_after (pl_transition p)) (rq_key rq) (rq_correlation rq)
          (lock_latest_consultation i d) (rq_now rq) d) (\<lambda>(c, d1).
        rbind (attach_handoff i c d1) (\<lambda>(_, d2). Inr d2))
      else Inr d)"

section \<open>Projection\<close>

definition guidance_projection :: "guidance_row \<Rightarrow> db \<Rightarrow> py" where
  "guidance_projection g d = PDict
     [(''guidance_id'', PStr (uuid_text (gd_public_id g))), (''guidance_version'', PInt (gd_guidance_version g)),
      (''title'', PStr (gd_title g)), (''summary_text'', PStr (gd_summary_text g)),
      (''safety_notice'', opt_str (gd_safety_notice g)),
      (''requires_consultation'', PBool (gd_requires_consultation g)),
      (''items'', PList (map (\<lambda>x. PDict
         [(''step_no'', PInt (gi_step_no x)), (''instruction_text'', PStr (gi_instruction_text x)),
          (''caution_text'', opt_str (gi_caution_text x)),
          (''requires_confirmation'', PBool (gi_requires_confirmation x))]) (guidance_items (gd_id g) d)))]"

definition can_resolve_consultation :: "review_row \<Rightarrow> bool" where
  "can_resolve_consultation v =
     (rv_status_code v = ''PENDING'' \<and> rv_original_requires_consultation v \<and>
      rv_consultation_origin_code v = ''NON_SAFETY_RESOLVABLE'')"

definition review_projection :: "review_row \<Rightarrow> inquiry_row \<Rightarrow> string \<Rightarrow> guidance_row \<Rightarrow> db \<Rightarrow> (string \<times> py) list" where
  "review_projection v i model g d =
     [(''review_id'', PStr (uuid_text (rv_public_id v))), (''inquiry_id'', PStr (uuid_text (i_public_id i))),
      (''inquiry_status'', PStr (i_status_code i)), (''inquiry_state_version'', PInt (i_state_version i)),
      (''model_code'', PStr model), (''status'', PStr (rv_status_code v)),
      (''decision'', opt_str (rv_decision_code v)), (''review_state_version'', PInt (rv_review_state_version v)),
      (''source_inquiry_state_version'', PInt (rv_source_inquiry_state_version v)),
      (''reason_code'', PStr (rv_initial_reason_code v)),
      (''decision_reason_code'', opt_str (rv_decision_reason_code v)),
      (''consultation_origin'', PStr (rv_consultation_origin_code v)),
      (''consultation_origin_reason'', PStr (rv_consultation_origin_reason_code v)),
      (''original_requires_consultation'', PBool (rv_original_requires_consultation v)),
      (''effective_requires_consultation'', PBool (rv_effective_requires_consultation v)),
      (''consultation_disposition'', opt_str (rv_consultation_disposition_code v)),
      (''consultation_reason_code'', opt_str (rv_consultation_reason_code v)),
      (''can_resolve_consultation'', PBool (can_resolve_consultation v)),
      (''verified_evidence_ids'', PList (map (\<lambda>l. PStr (uuid_text (el_public_id l)))
         (filter (\<lambda>l. el_guidance_id l = Some (gd_id g) \<and> el_is_verified l) (db_evidence d)))),
      (''proposed_guidance'', guidance_projection g d),
      (''published_guidance'', case Option.bind (rv_published_guidance_id v) (\<lambda>k. guidance_of k d) of
         None \<Rightarrow> PNone | Some h \<Rightarrow> guidance_projection h d),
      (''allowed_actions'', PList (if rv_status_code v = ''PENDING'' then [PStr ''DECIDE_HUMAN_REVIEW''] else [])),
      (''created_at'', PStr (iso_datetime (rv_created_at v))), (''updated_at'', PStr (iso_datetime (rv_updated_at v)))]"

section \<open>The outbox of rejected reviews\<close>

definition CONTEXT_RESUME_APPROVED_MODEL_CODES :: "string set" where
  "CONTEXT_RESUME_APPROVED_MODEL_CODES = {''WPUJAC104DWH''}"

definition is_review_model_approved :: "string \<Rightarrow> bool" where
  "is_review_model_approved model = (map upper_char (strip model) \<in> CONTEXT_RESUME_APPROVED_MODEL_CODES)"

definition dispatch_key :: "review_row \<Rightarrow> string" where
  "dispatch_key v =
     ''human-review-resume:'' @ uuid_text (rv_public_id v) @ '':'' @ int_text (rv_review_state_version v)"

definition enqueue_resume :: "review_row \<Rightarrow> int \<Rightarrow> db \<Rightarrow> app_error + db" where
  "enqueue_resume v now d =
     rbind (guard_or (rv_status_code v = ''REJECTED'' \<and> rv_decision_code v = Some ''REJECT'' \<and>
         rv_review_state_version v = 2) (Uncaught ''only an official rejected review can be enqueued'')) (\<lambda>_.
     case find (\<lambda>p. dp_human_review_id p = rv_id v) (db_dispatches d) of
       Some p \<Rightarrow> rbind (guard_or (dp_idempotency_key p = dispatch_key v \<and>
           dp_source_review_state_version p = rv_review_state_version v)
         (Uncaught ''resume dispatch binding conflict'')) (\<lambda>_. Inr d)
     | None \<Rightarrow>
         rbind (guard_or (dispatch_key v \<notin> dp_idempotency_key ` set (db_dispatches d))
           (Integrity ''idempotency_key'')) (\<lambda>_.
         Inr (d\<lparr>db_dispatches := db_dispatches d @
                 [\<lparr>dp_id = db_next_id d, dp_public_id = db_next_uuid d, dp_human_review_id = rv_id v,
                   dp_idempotency_key = dispatch_key v, dp_source_review_state_version = rv_review_state_version v,
                   dp_status = ''PENDING'', dp_attempt_count = 0, dp_created_at = now\<rparr>],
                db_next_id := Suc (db_next_id d), db_next_uuid := Suc (db_next_uuid d)\<rparr>)))"

definition schedule_resume :: "documents \<Rightarrow> string \<Rightarrow> review_row \<Rightarrow> int \<Rightarrow> db \<Rightarrow> app_error + db" where
  "schedule_resume dc model v now d =
     (if dc_resume_enabled dc \<and> is_review_model_approved model then enqueue_resume v now d else Inr d)"

section \<open>Deciding\<close>

definition move_reviewed ::
  "request \<Rightarrow> inquiry_row \<Rightarrow> transition \<Rightarrow> review_row \<Rightarrow> db \<Rightarrow> app_error + (inquiry_row \<times> db)" where
  "move_reviewed rq i t v d =
     rbind (apply_state_transition i (t_state_after t) (t_version_after t) d) (\<lambda>(i', d1).
     rbind (if t_record_business t
            then record_human_review_result i' t (rq_correlation rq) (rq_key rq) (rv_public_id v)
              (decision_reason rq) (rq_now rq) d1
            else Inr d1) (\<lambda>d2.
     Inr (i', d2)))"

definition apply_decision ::
  "documents \<Rightarrow> request \<Rightarrow> review_row \<times> inquiry_row \<Rightarrow> review_plan \<Rightarrow> db \<Rightarrow> app_error + (outcome \<times> db)" where
  "apply_decision dc rq = (\<lambda>(v, i) p d.
     rbind (apply_guidance_decision rq v p d) (\<lambda>(published, d1).
     rbind (decided_status (pl_decision p)) (\<lambda>status.
     rbind (save_review (decided_review rq p status published) v (rq_now rq) d1) (\<lambda>(v', d2).
     rbind (request_review_consultation rq i p d2) (\<lambda>d3.
     rbind (move_reviewed rq i (pl_transition p) v' d3) (\<lambda>(i', d4).
     rbind (of_option (Uncaught ''model_code'') (su_model_code (i_subscription i'))) (\<lambda>model.
     let (out, d5) = answer_with rq ''decideHumanReview'' 200
           (review_projection v' i' model (pl_guidance p) d4 @ [(''idempotent_replay'', PBool False)])
           (rv_public_id v') d4 in
     rbind (if pl_decision p = ''REJECT'' then schedule_resume dc model v' (rq_now rq) d5 else Inr d5) (\<lambda>d6.
     Inr (out, d6)))))))))"

definition review_hash :: "request \<Rightarrow> string" where
  "review_hash rq = request_hash [(''review_id'', PUuid (rq_target rq))] (rq_data rq) (rq_target rq)"

definition decide_body ::
  "documents \<Rightarrow> idem_row list \<Rightarrow> request \<Rightarrow> db \<Rightarrow> app_error + (outcome \<times> db)" where
  "decide_body dc races rq d =
     keyed_flow races (request_scope (rq_actor rq) ''decideHumanReview'' (rq_key rq)) (review_hash rq)
       (lock_review rq)
       (replay_known (review_hash rq))
       (plan_review dc rq)
       (apply_decision dc rq)
       d"

definition decide ::
  "documents \<Rightarrow> idem_row list \<Rightarrow> request \<Rightarrow> db \<Rightarrow> (app_error + outcome) \<times> db" where
  "decide dc races rq = atomically races (decide_body dc races rq)"

section \<open>Reading reviews, failed resumptions\<close>

definition list_pending :: "user_row \<Rightarrow> db \<Rightarrow> review_row list" where
  "list_pending actor d =
     sort_key (\<lambda>v. (rv_created_at v, rv_public_id v))
       (filter (\<lambda>v. case lock_for_human_review (rv_inquiry_id v) d of
            None \<Rightarrow> False
          | Some i \<Rightarrow> review_visible_to actor i \<and> rv_status_code v = ''PENDING'' \<and>
              i_status_code i = ''QUESTIONNAIRE_IN_PROGRESS'' \<and>
              rv_source_inquiry_state_version v = i_state_version i) (db_reviews d))"

definition mark_resume_failed ::
  "nat \<Rightarrow> string \<Rightarrow> int \<Rightarrow> db \<Rightarrow> app_error + (review_row \<times> db)" where
  "mark_resume_failed uid failure_code now d =
     rbind (of_option Not_found (find (\<lambda>v. rv_public_id v = uid) (db_reviews d))) (\<lambda>v.
     rbind (guard_or (rv_status_code v \<in> {''APPROVED'', ''MODIFIED'', ''REJECTED''}) (review_conflict v)) (\<lambda>_.
     save_review (\<lambda>r. r\<lparr>rv_status_code := ''RESUME_FAILED'', rv_resume_failure_code := Some failure_code,
       rv_review_state_version := rv_review_state_version r + 1\<rparr>) v now d))"

end
