(* ===== verification/FlowFacts.thy ===== *)
theory FlowFacts
  imports Flow Tally AssignedFacts
begin

text \<open>
  What a keyed transaction does when it succeeds: it replays, or it claimed its key, ran its writes and
  completed the record. The writes of an operation are described by how they move one inquiry
  (\<open>recorded_move\<close>), from which its effect on the ledger follows.
\<close>

section \<open>Steps that leave the ledger alone\<close>

definition quiet :: "db \<Rightarrow> db \<Rightarrow> bool" where
  "quiet d d' =
     (db_inquiries d' = db_inquiries d \<and> db_history d' = db_history d \<and> db_idem d' = db_idem d \<and>
      db_next_id d \<le> db_next_id d' \<and> (\<forall>n. resolved_rows n d' = resolved_rows n d))"

lemma quiet_refl [simp]: "quiet d d"
  by (simp add: quiet_def)

lemma quiet_trans [trans]: "quiet d d' \<Longrightarrow> quiet d' d'' \<Longrightarrow> quiet d d''"
  by (auto simp: quiet_def)

lemma frame_quiet: "frame d d' \<Longrightarrow> quiet d d'"
  by (simp add: frame_def quiet_def resolved_rows_def)

section \<open>Single writes\<close>

lemma update_inquiry_Inr:
  "update_inquiry f i d = Inr (i', d') \<Longrightarrow>
     i' = f i \<and> d' = d\<lparr>db_inquiries := map (\<lambda>r. if i_id r = i_id i then f r else r) (db_inquiries d)\<rparr>"
  by (simp add: update_inquiry_def split: if_splits)

text \<open>A row of the transition \<open>t\<close> of inquiry \<open>n\<close> is appended to the history.\<close>

definition appended :: "string \<Rightarrow> nat \<Rightarrow> transition \<Rightarrow> db \<Rightarrow> db \<Rightarrow> bool" where
  "appended key n t d d' =
     (\<exists>h. d' = d\<lparr>db_history := db_history d @ [h], db_next_id := Suc (db_next_id d)\<rparr> \<and>
        history_target h = Some (''INQUIRY'', n) \<and> h_event_code h = t_event t \<and>
        h_from_state h = t_state_before t \<and> h_to_state h = t_state_after t \<and>
        h_state_version h = t_version_after t \<and> h_idempotency_key h = key)"

lemma create_transition_history_Inr:
  assumes "create_transition_history n actor ev from to v corr key by reason now d = Inr d'"
  shows "\<exists>h. d' = d\<lparr>db_history := db_history d @ [h], db_next_id := Suc (db_next_id d)\<rparr> \<and>
    history_target h = Some (''INQUIRY'', n) \<and> h_event_code h = ev \<and> h_from_state h = from \<and>
    h_to_state h = to \<and> h_state_version h = v \<and> h_idempotency_key h = key"
  using assms by (auto simp: create_transition_history_def insert_history_Inr history_target_def)

lemma recorded_rows:
  "record_inquiry_action i t actor corr key reason now d = Inr d' \<Longrightarrow> appended key (i_id i) t d d'"
  "record_submit_symptom i t actor corr key now d = Inr d' \<Longrightarrow> appended key (i_id i) t d d'"
  "record_cancel_inquiry i t actor corr key code detail now d = Inr d' \<Longrightarrow> appended key (i_id i) t d d'"
  unfolding record_inquiry_action_def record_submit_symptom_def record_cancel_inquiry_def Let_def
    appended_def
  by (drule create_transition_history_Inr, simp)+

section \<open>Moving one inquiry\<close>

text \<open>The writes of a recorded event; \<open>asg\<close> tells that the assignment of the inquiry is kept.\<close>

definition keeps_target :: "bool \<Rightarrow> (inquiry_row \<Rightarrow> inquiry_row) \<Rightarrow> bool" where
  "keeps_target asg f =
     (\<forall>r. i_id (f r) = i_id r \<and> i_public_id (f r) = i_public_id r \<and> i_subscription (f r) = i_subscription r \<and>
        i_initiated_by (f r) = i_initiated_by r \<and>
        (asg \<longrightarrow> i_assigned_user_id (f r) = i_assigned_user_id r \<and>
           i_assigned_role_code (f r) = i_assigned_role_code r))"

definition moved_rows :: "bool \<Rightarrow> inquiry_row \<Rightarrow> transition \<Rightarrow> db \<Rightarrow> db \<Rightarrow> bool" where
  "moved_rows asg i t d d' =
     (\<exists>f. db_inquiries d' = map (\<lambda>r. if i_id r = i_id i then f r else r) (db_inquiries d) \<and>
        keeps_target asg f \<and> i_status_code (f i) = t_state_after t \<and>
        i_state_version (f i) = t_version_after t)"

definition recorded_move :: "bool \<Rightarrow> string \<Rightarrow> inquiry_row \<Rightarrow> transition \<Rightarrow> db \<Rightarrow> db \<Rightarrow> bool" where
  "recorded_move asg key i t d d' =
     (moved_rows asg i t d d' \<and>
      (\<exists>h. db_history d' = db_history d @ [h] \<and> history_target h = Some (''INQUIRY'', i_id i) \<and>
         h_event_code h = t_event t \<and> h_from_state h = t_state_before t \<and>
         h_to_state h = t_state_after t \<and> h_state_version h = t_version_after t \<and>
         h_idempotency_key h = key) \<and>
      db_idem d' = db_idem d \<and> db_next_id d \<le> db_next_id d' \<and>
      (\<forall>n. resolved_rows n d' = resolved_rows n d))"

lemma recorded_moveI:
  assumes "quiet d d1" and "update_inquiry f i d1 = Inr (i', d2)" and "quiet d2 d3"
    and "appended key (i_id i) t d3 d'" and "keeps_target asg f"
    and "i_status_code (f i) = t_state_after t" and "i_state_version (f i) = t_version_after t"
  shows "recorded_move asg key i t d d'"
proof -
  note d2 = update_inquiry_Inr [OF assms(2)]
  have rows: "db_inquiries d' = map (\<lambda>r. if i_id r = i_id i then f r else r) (db_inquiries d)"
    using assms(1,3,4) d2 by (auto simp: quiet_def appended_def)
  then have "moved_rows asg i t d d'" using assms(5-7) by (auto simp: moved_rows_def)
  then show ?thesis using assms(1,3,4) d2
    by (auto simp: recorded_move_def quiet_def appended_def resolved_rows_def)
qed

lemma move_inquiry_recorded:
  assumes "quiet d d1" and "move_inquiry rq i t True reason d1 = Inr (i', d')"
  shows "recorded_move True (rq_key rq) i t d d'"
proof -
  obtain d2 where a: "apply_state_transition i (t_state_after t) (t_version_after t) d1 = Inr (i', d2)"
    and h: "record_inquiry_action i' t (rq_actor rq) (rq_correlation rq) (rq_key rq) reason (rq_now rq) d2 = Inr d'"
    using assms(2) by (auto simp: move_inquiry_def rbind_Inr_iff)
  have "i_id i' = i_id i" using apply_state_transition_Inr [OF a] by simp
  then have h': "appended (rq_key rq) (i_id i) t d2 d'" using recorded_rows(1) [OF h] by simp
  show ?thesis
    by (rule recorded_moveI [OF assms(1) a [unfolded apply_state_transition_def] quiet_refl h'])
      (auto simp: keeps_target_def)
qed

section \<open>A successful flow\<close>

definition claimed_db :: "idem_row list \<Rightarrow> idem_row \<Rightarrow> db \<Rightarrow> db" where
  "claimed_db races r d = d\<lparr>db_idem := db_idem d @ races @ [r]\<rparr>"

lemma claimed_db_simps [simp]:
  "db_inquiries (claimed_db races r d) = db_inquiries d" "db_history (claimed_db races r d) = db_history d"
  "db_idem (claimed_db races r d) = db_idem d @ races @ [r]"
  "db_next_id (claimed_db races r d) = db_next_id d" "db_visits (claimed_db races r d) = db_visits d"
  "db_consultations (claimed_db races r d) = db_consultations d"
  "db_subscriptions (claimed_db races r d) = db_subscriptions d"
  "db_ai_runs (claimed_db races r d) = db_ai_runs d" "db_feedback (claimed_db races r d) = db_feedback d"
  "resolved_rows n (claimed_db races r d) = resolved_rows n d"
  by (simp_all add: claimed_db_def resolved_rows_def)

text \<open>A fresh key, claimed for the request with its hash.\<close>

definition fresh_key :: "nat \<times> string \<times> string \<Rightarrow> string \<Rightarrow> idem_row list \<Rightarrow> db \<Rightarrow> idem_row \<Rightarrow> bool" where
  "fresh_key k hash races d r =
     (idem_scope r = k \<and> ir_request_hash r = hash \<and> k \<notin> idem_scope ` set (db_idem d @ races))"

text \<open>An answer to a known key is the replay of its record.\<close>

definition replays :: "string \<Rightarrow> ('i \<Rightarrow> idem_row \<Rightarrow> db \<Rightarrow> app_error + outcome) \<Rightarrow> bool" where
  "replays hash known =
     (\<forall>i r d out. known i r d = Inr out \<longrightarrow> replay_or_conflict r hash ''idempotent_replay'' = Inr out)"

lemma replay_known_replays [simp]: "replays hash (replay_known hash)"
  by (simp add: replays_def replay_known_def)

lemma keyed_flow_Inr:
  assumes "keyed_flow races k hash lock known plan apply d = Inr (out, d')" and "replays hash known"
  shows "\<exists>i. lock d = Inr i \<and>
    (replayed k hash races d out d' \<or>
     (\<exists>p r. plan i d = Inr p \<and> fresh_key k hash races d r \<and> apply i p (claimed_db races r d) = Inr (out, d')))"
proof -
  obtain i where i: "lock d = Inr i" using assms(1) by (auto simp: keyed_flow_def rbind_Inr_iff)
  show ?thesis
  proof (cases "lock_idempotency_scope k d")
    case (Some r)
    then have "known i r d = Inr out" and d': "d' = add_races races d"
      using assms(1) i by (auto simp: keyed_flow_def rbind_Inr_iff)
    then have "replay_or_conflict r hash ''idempotent_replay'' = Inr out"
      using assms(2) unfolding replays_def by blast
    then show ?thesis
      using i d' lock_idempotency_scope_Some [OF Some] by (auto simp: replayed_def)
  next
    case None
    then obtain p res d1 where p: "plan i d = Inr p"
      and c: "claim_key k hash (add_races races d) = Inr (res, d1)"
      and r: "(case res of Some out \<Rightarrow> Inr (out, d1) | None \<Rightarrow> apply i p d1) = Inr (out, d')"
      using assms(1) i by (auto simp: keyed_flow_def rbind_Inr_iff)
    from claim_key_Inr [OF c] show ?thesis
    proof (elim disjE exE conjE)
      fix q o' assume "res = Some o'" "d1 = add_races races d" "q \<in> set (db_idem (add_races races d))"
        "idem_scope q = k" "replay_or_conflict q hash ''idempotent_replay'' = Inr o'"
      then show ?thesis using r i by (auto simp: replayed_def)
    next
      assume res: "res = None" and c: "create_idempotency_record k hash (add_races races d) = Inr d1"
      from claimed_record [OF c] obtain q where "d1 = claimed_db races q d" "fresh_key k hash races d q"
        unfolding claimed_db_def fresh_key_def add_races_def by auto
      then show ?thesis using r res i p by auto
    qed
  qed
qed

section \<open>Plans\<close>

lemma plan_event_Inr:
  assumes "plan_event dc es rq i d = Inr t"
  shows "\<exists>s results v ev. snapshot_init (Some (i_status_code i)) (Some (i_state_version i)) (latest_visit_status i d) = Inr s \<and>
    resolve (dc_contract dc) s (es_event es) = Inr t \<and> set (es_effects es) \<subseteq> set (t_effects t) \<and>
    es_domain es = Inr results \<and> requested_version (rq_data rq) = Inr v \<and>
    evaluate (dc_contract dc) t s (event_context rq v results) = Inr ev \<and> allowed ev"
proof -
  have judged: "judged es ev = Inr u \<Longrightarrow> allowed ev" for ev u
    by (auto simp: judged_def split: if_splits option.splits)
  show ?thesis using assms
    by (fastforce simp: plan_event_def inquiry_snapshot_def rbind_Inr_iff map_error_iff guard_or_iff
        dest: judged)
qed

lemma plan_event_resolves:
  assumes "plan_event dc es rq i d = Inr t"
  shows "\<exists>s. resolve (dc_contract dc) s (es_event es) = Inr t \<and> s_state s = Some (i_status_code i) \<and>
    s_version s = Some (i_state_version i)"
  using plan_event_Inr [OF assms] by (auto simp: snapshot_init_Inr)

lemma plan_event_version:
  assumes "plan_event dc es rq i d = Inr t"
    and "event_entry_of (dc_contract dc) (es_event es) = Some e" and "ev_requires_version e"
  shows "requested_version (rq_data rq) = Inr (Some (i_state_version i))"
proof -
  obtain s results v ev where s:
    "snapshot_init (Some (i_status_code i)) (Some (i_state_version i)) (latest_visit_status i d) = Inr s"
    "resolve (dc_contract dc) s (es_event es) = Inr t" "requested_version (rq_data rq) = Inr v"
    "evaluate (dc_contract dc) t s (event_context rq v results) = Inr ev" "allowed ev"
    using plan_event_Inr [OF assms(1)] by blast
  from evaluated_version [OF s(2,4,5) assms(2,3)] have "v = s_version s" by (simp add: event_context_def)
  then show ?thesis using s(1,3) by (auto simp: snapshot_init_Inr)
qed

section \<open>Effects\<close>

lemma answered_record:
  assumes "fresh_key k hash races d r" and "k = request_scope (rq_actor rq) operation (rq_key rq)"
    and "answer_with rq operation st kvs res d2 = (out, d')" and "db_idem d2 = db_idem d @ races @ [r]"
  shows "out = (st, PDict kvs) \<and> d' = d2\<lparr>db_idem := db_idem d @ races @
    [r\<lparr>ir_response_status := Some st, ir_response_body := PDict kvs, ir_resource_public_id := Some res,
       ir_completed_at := Some (rq_now rq)\<rparr>]\<rparr>"
proof -
  have "complete_idempotency_record k st (PDict kvs) res (rq_now rq) d2 =
    d2\<lparr>db_idem := (db_idem d @ races) @ [r\<lparr>ir_response_status := Some st, ir_response_body := PDict kvs,
       ir_resource_public_id := Some res, ir_completed_at := Some (rq_now rq)\<rparr>]\<rparr>"
    using assms(1,4) by (intro complete_last) (auto simp: fresh_key_def)
  then show ?thesis using assms(2,3) by (simp add: answer_with_def)
qed

lemma answered_completed:
  assumes "fresh_key k hash races d r" and "k = request_scope (rq_actor rq) operation (rq_key rq)"
    and "answer_with rq operation st kvs res d2 = (out, d')" and "db_idem d2 = db_idem d @ races @ [r]"
  shows "completed_record k hash races rq d out d'"
  using answered_record [OF assms] assms(1)
  by (auto simp: completed_record_def fresh_key_def idem_scope_def)

lemma answered_keeps:
  assumes "answer_with rq operation st kvs res d2 = (out, d')"
  shows "db_inquiries d' = db_inquiries d2" "db_history d' = db_history d2" "db_next_id d' = db_next_id d2"
    "resolved_rows n d' = resolved_rows n d2" "db_subscriptions d' = db_subscriptions d2"
    "db_consultations d' = db_consultations d2" "db_ai_runs d' = db_ai_runs d2" "db_visits d' = db_visits d2"
    "db_feedback d' = db_feedback d2"
  using assms by (auto simp: answer_with_def complete_idempotency_record_def resolved_rows_def)

lemma fresh_from_move:
  assumes plan: "resolve c s ev = Inr t" "s_state s = Some (i_status_code i)" "s_version s = Some (i_state_version i)"
    and "i \<in> set (db_inquiries d)"
    and key: "fresh_key k hash races d r" "k = request_scope (rq_actor rq) operation (rq_key rq)"
    and move: "recorded_move asg (rq_key rq) i t (claimed_db races r d) d2"
    and ans: "answer_with rq operation st kvs res d2 = (out, d')"
  shows "fresh_effect c k hash races rq d i t out d'"
proof -
  have idem: "db_idem d2 = db_idem d @ races @ [r]" using move by (simp add: recorded_move_def)
  have "completed_record k hash races rq d out d'" by (rule answered_completed [OF key ans idem])
  then show ?thesis
    using plan assms(4) move answered_keeps [OF ans]
    unfolding fresh_effect_def completed_record_def recorded_move_def moved_rows_def keeps_target_def
    by auto
qed

end
