(* ===== verification/Resolution.thy ===== *)
theory Resolution
  imports ConsultationQueue
begin

text \<open>
  \<open>ResolutionService\<close> (\<open>inquiries/services/resolution_service.py\<close>) over \<open>ResolutionRepository\<close>
  (\<open>inquiries/repositories/resolution_repository.py\<close>): the customer confirms or denies that the
  completed handling solved the inquiry, a consultant resumes a reopened inquiry, and its last handler
  finalises it.
\<close>

section \<open>Actions\<close>

datatype resolution_action = Feedback | Unresolved | Resume | Finalize

datatype resolution_scope = OWNER | ASSIGNED_CONSULTANT | STAFF

record action_config =
  cf_operation_id :: string
  cf_event_code :: string
  cf_message :: string
  cf_scope :: resolution_scope
  cf_required_effect :: string

fun action_configs :: "resolution_action \<Rightarrow> action_config" where
  "action_configs Feedback = \<lparr>cf_operation_id = ''submitResolutionFeedback'',
     cf_event_code = ''SUBMIT_RESOLUTION_FEEDBACK'', cf_message = ''msg.feedback_saved'',
     cf_scope = OWNER, cf_required_effect = ''STORE_RESOLVED_CUSTOMER_FEEDBACK''\<rparr>"
| "action_configs Unresolved = \<lparr>cf_operation_id = ''reportUnresolved'',
     cf_event_code = ''CUSTOMER_REPORTED_UNRESOLVED'', cf_message = ''msg.reopened'',
     cf_scope = OWNER, cf_required_effect = ''STORE_UNRESOLVED_CUSTOMER_FEEDBACK''\<rparr>"
| "action_configs Resume = \<lparr>cf_operation_id = ''resumeConsultation'',
     cf_event_code = ''RESUME_CONSULTATION'', cf_message = ''msg.resumed'',
     cf_scope = ASSIGNED_CONSULTANT, cf_required_effect = ''RESTORE_TO_CONSULTATION_QUEUE''\<rparr>"
| "action_configs Finalize = \<lparr>cf_operation_id = ''finalizeInquiry'',
     cf_event_code = ''FINALIZE_INQUIRY'', cf_message = ''msg.finalized'',
     cf_scope = STAFF, cf_required_effect = ''SET_RESOLVED_AT''\<rparr>"

section \<open>Repository\<close>

definition lock_staff_inquiry :: "nat \<Rightarrow> db \<Rightarrow> inquiry_row option" where
  "lock_staff_inquiry uid d = find (\<lambda>i. i_public_id i = uid) (db_inquiries d)"

definition lock_assigned_consultant_inquiry :: "nat \<Rightarrow> user_row \<Rightarrow> db \<Rightarrow> inquiry_row option" where
  "lock_assigned_consultant_inquiry uid actor d =
     find (\<lambda>i. i_public_id i = uid \<and> i_assigned_user_id i = Some (u_id actor) \<and>
        i_assigned_role_code i = ''CONSULTANT'') (db_inquiries d)"

record completed_handling =
  hd_source_code :: string
  hd_completed_at :: int
  hd_handler :: "user_row option"
  hd_consultation_id :: "nat option"
  hd_visit_id :: "nat option"

definition user_of :: "db \<Rightarrow> nat option \<Rightarrow> user_row option" where
  "user_of d n = Option.bind n (\<lambda>k. find (\<lambda>u. u_id u = k) (db_users d))"

definition handling_of_visit :: "visit_row \<Rightarrow> completed_handling" where
  "handling_of_visit v =
     \<lparr>hd_source_code = ''VISIT'', hd_completed_at = the_time (v_completed_at v),
      hd_handler = v_technician v, hd_consultation_id = None, hd_visit_id = Some (v_id v)\<rparr>"

definition handling_of_consultation :: "db \<Rightarrow> consultation_row \<Rightarrow> completed_handling" where
  "handling_of_consultation d c =
     \<lparr>hd_source_code = ''CONSULTATION'', hd_completed_at = the_time (co_completed_at c),
      hd_handler = user_of d (co_consultant_id c), hd_consultation_id = Some (co_id c), hd_visit_id = None\<rparr>"

definition lock_completed_handling :: "inquiry_row \<Rightarrow> db \<Rightarrow> completed_handling option" where
  "lock_completed_handling i d =
     (case (completed_visit i d, completed_consultation i d) of
        (None, None) \<Rightarrow> None
      | (Some v, None) \<Rightarrow> Some (handling_of_visit v)
      | (Some v, Some c) \<Rightarrow>
          if the_time (co_completed_at c) \<le> the_time (v_completed_at v)
          then Some (handling_of_visit v) else Some (handling_of_consultation d c)
      | (None, Some c) \<Rightarrow> Some (handling_of_consultation d c))"

definition fresh_resolved_feedback_exists :: "inquiry_row \<Rightarrow> completed_handling \<Rightarrow> db \<Rightarrow> bool" where
  "fresh_resolved_feedback_exists i h d =
     list_ex (\<lambda>f. fb_inquiry_id f = i_id i \<and> fb_resolution_status_code f = ''RESOLVED'' \<and>
        hd_completed_at h < fb_created_at f) (db_feedback d)"

definition feedback_channel :: "inquiry_row \<Rightarrow> app_error + string" where
  "feedback_channel i =
     (if i_channel_code i = Some ''WEB'' then Inr ''WEB''
      else if i_channel_code i = Some ''MOBILE'' then Inr ''APP''
      else if i_channel_code i = Some ''PHONE'' then Inr ''PHONE''
      else Inl (Uncaught ''A confirmed customer channel is required for feedback.''))"

text \<open>The checks of \<open>FollowupConfirmation.Meta\<close>, which \<open>full_clean\<close> validates.\<close>

definition feedback_constraints :: "feedback_row \<Rightarrow> bool" where
  "feedback_constraints f =
     (0 < fb_state_version f \<and>
      (fb_resolution_status_code f = ''PENDING'' \<and> fb_responded_at f = None \<and> fb_confirmed_at f = None \<or>
       fb_resolution_status_code f \<in> {''RESOLVED'', ''UNRESOLVED'', ''REOPENED''} \<and> fb_responded_at f \<noteq> None) \<and>
      (fb_resolution_status_code f \<notin> {''UNRESOLVED'', ''REOPENED''} \<or> fb_unresolved_reason f \<noteq> None) \<and>
      (fb_resolution_status_code f \<noteq> ''RESOLVED'' \<or> fb_confirmed_at f \<noteq> None) \<and>
      (case fb_responded_at f of None \<Rightarrow> True | Some t \<Rightarrow> fb_requested_at f \<le> t) \<and>
      (case fb_confirmed_at f of None \<Rightarrow> True
       | Some t \<Rightarrow> (case fb_responded_at f of None \<Rightarrow> False | Some s \<Rightarrow> s \<le> t)) \<and>
      (fb_consultation_id f \<noteq> None \<or> fb_visit_id f \<noteq> None))"

definition insert_feedback :: "feedback_row \<Rightarrow> db \<Rightarrow> app_error + (feedback_row \<times> db)" where
  "insert_feedback f d =
     (let f' = f\<lparr>fb_id := db_next_id d, fb_public_id := db_next_uuid d,
                fb_followup_code := ''FUP-'' @ uuid_hex (db_next_uuid d + 1)\<rparr> in
      if \<not> feedback_constraints f' then Inl (Uncaught ''ValidationError'')
      else Inr (f', d\<lparr>db_feedback := db_feedback d @ [f'], db_next_id := db_next_id d + 1,
        db_next_uuid := db_next_uuid d + 2\<rparr>))"

definition create_resolved_feedback ::
  "inquiry_row \<Rightarrow> completed_handling \<Rightarrow> int \<Rightarrow> string option \<Rightarrow> int \<Rightarrow> db \<Rightarrow>
     app_error + (feedback_row \<times> db)" where
  "create_resolved_feedback i h version comment now d =
     rbind (feedback_channel i) (\<lambda>channel.
       insert_feedback \<lparr>fb_id = 0, fb_public_id = 0, fb_followup_code = [], fb_inquiry_id = i_id i,
         fb_consultation_id = hd_consultation_id h, fb_visit_id = hd_visit_id h, fb_channel_code = channel,
         fb_resolution_status_code = ''RESOLVED'', fb_state_version = version,
         fb_customer_response = comment, fb_unresolved_reason = None,
         fb_next_action = ''FINALIZE_INQUIRY'', fb_requested_at = hd_completed_at h,
         fb_responded_at = Some now, fb_confirmed_at = Some now, fb_created_at = now\<rparr> d)"

definition create_unresolved_feedback ::
  "inquiry_row \<Rightarrow> completed_handling \<Rightarrow> int \<Rightarrow> string option \<Rightarrow> string option \<Rightarrow> int \<Rightarrow> db \<Rightarrow>
     app_error + (feedback_row \<times> db)" where
  "create_unresolved_feedback i h version reason comment now d =
     rbind (feedback_channel i) (\<lambda>channel.
       insert_feedback \<lparr>fb_id = 0, fb_public_id = 0, fb_followup_code = [], fb_inquiry_id = i_id i,
         fb_consultation_id = hd_consultation_id h, fb_visit_id = hd_visit_id h, fb_channel_code = channel,
         fb_resolution_status_code = ''REOPENED'', fb_state_version = version,
         fb_customer_response = comment,
         fb_unresolved_reason = Some (case reason of None \<Rightarrow> [] | Some r \<Rightarrow> r),
         fb_next_action = ''RESUME_CONSULTATION'', fb_requested_at = hd_completed_at h,
         fb_responded_at = Some now, fb_confirmed_at = None, fb_created_at = now\<rparr> d)"

section \<open>Service\<close>

definition lock_resolution :: "resolution_action \<Rightarrow> request \<Rightarrow> db \<Rightarrow> inquiry_row option" where
  "lock_resolution a rq d =
     (case cf_scope (action_configs a) of
        OWNER \<Rightarrow> lock_owned_inquiry (rq_target rq) (rq_actor rq) d
      | ASSIGNED_CONSULTANT \<Rightarrow> lock_assigned_consultant_inquiry (rq_target rq) (rq_actor rq) d
      | STAFF \<Rightarrow> lock_staff_inquiry (rq_target rq) d)"

definition resolution_domain ::
  "resolution_action \<Rightarrow> user_row \<Rightarrow> inquiry_row \<Rightarrow> completed_handling option \<Rightarrow> db \<Rightarrow>
     app_error + (string \<times> bool) list" where
  "resolution_domain a actor i handling d =
     (case a of
        Feedback \<Rightarrow> rbind (of_option (Uncaught ''AssertionError'') handling) (\<lambda>h.
          Inr [(''G-INQUIRY-OWNER'', True),
               (''G-NO-FRESH-RESOLVED-CUSTOMER-FEEDBACK'', \<not> fresh_resolved_feedback_exists i h d),
               (''G-RESOLUTION-FEEDBACK-RESOLVED'', True)])
      | Unresolved \<Rightarrow> Inr [(''G-INQUIRY-OWNER'', True), (''G-UNRESOLVED-FEEDBACK-VALID'', True)]
      | Finalize \<Rightarrow> rbind (of_option (Uncaught ''AssertionError'') handling) (\<lambda>h.
          Inr [(''G-ACTOR-LAST-HANDLER'',
                case hd_handler h of None \<Rightarrow> False
                | Some u \<Rightarrow> u_id u = u_id actor \<and> u_role_code u = u_role_code actor),
               (''G-RESOLVED-CUSTOMER-FEEDBACK-EXISTS'', fresh_resolved_feedback_exists i h d),
               (''G-FINALIZATION-PAYLOAD-VALID'', True)])
      | Resume \<Rightarrow> Inr [])"

definition resolution_event ::
  "documents \<Rightarrow> resolution_action \<Rightarrow> request \<Rightarrow> inquiry_row \<Rightarrow> completed_handling option \<Rightarrow> db \<Rightarrow> event_spec" where
  "resolution_event dc a rq i handling d =
     (let conflict = state_conflict dc i (rq_actor rq) no_args d in
      \<lparr>es_event = cf_event_code (action_configs a),
       es_invalid = invalid_as {TERMINAL_STATE, UNLISTED_TRANSITION, VISIT_STATE_MISMATCH} conflict internal_error,
       es_effects = [cf_required_effect (action_configs a)],
       es_domain = resolution_domain a (rq_actor rq) i handling d,
       es_denied = denied_as {''G-STATE-VERSION'', ''G-NO-FRESH-RESOLVED-CUSTOMER-FEEDBACK''} conflict
         plain_error,
       es_unexplained = internal_error\<rparr>)"

definition plan_resolution ::
  "documents \<Rightarrow> resolution_action \<Rightarrow> request \<Rightarrow> inquiry_row \<Rightarrow> db \<Rightarrow>
     app_error + (transition \<times> completed_handling option)" where
  "plan_resolution dc a rq i d =
     (let handling = (if a = Resume then None else lock_completed_handling i d) in
      rbind (guard_or (a = Resume \<or> handling \<noteq> None)
        (Business ''COMPLETION_SOURCE_REQUIRED'' ''msg.completion_source'' (PDict []) 422)) (\<lambda>_.
      rbind (plan_event dc (resolution_event dc a rq i handling d) rq i d) (\<lambda>t. Inr (t, handling))))"

text \<open>\<open>_mutate\<close>, with the public id of the resource it returns.\<close>

definition resolution_mutate ::
  "resolution_action \<Rightarrow> request \<Rightarrow> inquiry_row \<Rightarrow> completed_handling option \<Rightarrow> int \<Rightarrow> db \<Rightarrow>
     app_error + (nat \<times> db)" where
  "resolution_mutate a rq i handling version d =
     (case a of
        Feedback \<Rightarrow> rbind (of_option (Uncaught ''AssertionError'') handling) (\<lambda>h.
          rbind (create_resolved_feedback i h version (opt_text_field rq ''comment'') (rq_now rq) d)
            (\<lambda>(f, d'). Inr (fb_public_id f, d')))
      | Unresolved \<Rightarrow> rbind (of_option (Uncaught ''AssertionError'') handling) (\<lambda>h.
          rbind (create_unresolved_feedback i h version (opt_text_field rq ''reason_code'')
            (opt_text_field rq ''comment'') (rq_now rq) d) (\<lambda>(f, d'). Inr (fb_public_id f, d')))
      | Resume \<Rightarrow> rbind (consultation_request i version (rq_key rq) (rq_correlation rq)
          (lock_latest_consultation i d) (rq_now rq) d) (\<lambda>(c, d'). Inr (co_public_id c, d'))
      | Finalize \<Rightarrow> rbind (of_option (Uncaught ''AssertionError'') handling) (\<lambda>h. Inr (i_public_id i, d)))"

definition change_reason ::
  "resolution_action \<Rightarrow> request \<Rightarrow> completed_handling option \<Rightarrow> string option" where
  "change_reason a rq handling =
     (case a of
        Finalize \<Rightarrow> map_option (\<lambda>h. case opt_text_field rq ''final_note'' of
            Some (c # cs) \<Rightarrow> hd_source_code h @ '' | '' @ c # cs | _ \<Rightarrow> hd_source_code h) handling
      | Unresolved \<Rightarrow> (case opt_text_field rq ''reason_code'' of
            Some (c # cs) \<Rightarrow> Some (c # cs) | _ \<Rightarrow> opt_text_field rq ''comment'')
      | _ \<Rightarrow> None)"

definition apply_resolution ::
  "documents \<Rightarrow> resolution_action \<Rightarrow> request \<Rightarrow> inquiry_row \<Rightarrow> transition \<times> completed_handling option \<Rightarrow>
     db \<Rightarrow> app_error + (outcome \<times> db)" where
  "apply_resolution dc a rq = (\<lambda>i (t, handling) d.
       rbind (resolution_mutate a rq i handling (t_version_after t) d) (\<lambda>(resource, d1).
       rbind (move_inquiry rq i t (t_record_inquiry t) (change_reason a rq handling) d1) (\<lambda>(i', d2).
       respond dc rq (cf_operation_id (action_configs a)) 200 (message_body (cf_message (action_configs a))) i' no_args resource d2)))"

definition resolution_body ::
  "documents \<Rightarrow> resolution_action \<Rightarrow> idem_row list \<Rightarrow> request \<Rightarrow> db \<Rightarrow> app_error + (outcome \<times> db)" where
  "resolution_body dc a races rq d =
     (let config = action_configs a in
      keyed_flow races (request_scope (rq_actor rq) (cf_operation_id config) (rq_key rq)) (body_hash rq)
        (\<lambda>d. of_option Not_found (lock_resolution a rq d))
        (replay_known (body_hash rq))
        (\<lambda>i d. plan_resolution dc a rq i d)
        (apply_resolution dc a rq)
        d)"

definition resolve_inquiry ::
  "documents \<Rightarrow> resolution_action \<Rightarrow> idem_row list \<Rightarrow> request \<Rightarrow> db \<Rightarrow> (app_error + outcome) \<times> db" where
  "resolve_inquiry dc a races rq = atomically races (resolution_body dc a races rq)"

end
