(* ===== verification/ServiceFacts.thy ===== *)
theory ServiceFacts
  imports FlowFacts Contracts OperationFacts Resolution
begin

text \<open>
  The effect of every service on the ledger: symptoms, cancellations, answers, requests, claims,
  reopenings, resumptions and finalisations move one inquiry and record it; the two creations append
  an inquiry with its first history row; a resolution feedback moves the version silently.
\<close>

section \<open>What the services rely on in the contract\<close>

definition records_business :: "contract \<Rightarrow> rule \<Rightarrow> bool" where
  "records_business c r =
     (case hr_business (r_history r) of None \<Rightarrow> d_business_event (c_defaults c) | Some b \<Rightarrow> b)"

definition REVIEW_EVENTS :: "string set" where
  "REVIEW_EVENTS =
     {''HUMAN_REVIEW_GUIDANCE_APPROVED'', ''HUMAN_REVIEW_CONSULTATION_REQUIRED'', ''HUMAN_REVIEW_REJECTED''}"

definition flow_contract :: "contract \<Rightarrow> bool" where
  "flow_contract c =
     (list_ex (\<lambda>r. r_event r = ''START_INQUIRY'' \<and> r_from r = None \<and> r_to r = ''DRAFT'') (c_rules c) \<and>
      list_all (\<lambda>r.
        (r_event r \<in> {''SUBMIT_ANSWERS'', ''REQUEST_CONSULTATION'', ''CLAIM_CONSULTATION''} \<longrightarrow>
           records_business c r) \<and>
        (r_event r \<in> REVIEW_EVENTS \<longrightarrow> records_business c r) \<and>
        (r_event r \<in> {''CUSTOMER_REPORTED_UNRESOLVED'', ''RESUME_CONSULTATION'', ''FINALIZE_INQUIRY''} \<longrightarrow>
           hr_inquiry (r_history r) = Some True) \<and>
        (r_event r = ''SUBMIT_RESOLUTION_FEEDBACK'' \<longrightarrow> hr_inquiry (r_history r) \<noteq> Some True) \<and>
        (r_event r \<in> {''CLAIM_CONSULTATION'', ''SUBMIT_RESOLUTION_FEEDBACK''} \<longrightarrow>
           r_from r = Some (r_to r))) (c_rules c))"

lemma flow_contract_rule:
  assumes "flow_contract c" and "resolve c s ev = Inr t"
  shows "ev \<in> {''SUBMIT_ANSWERS'', ''REQUEST_CONSULTATION'', ''CLAIM_CONSULTATION''} \<Longrightarrow> t_record_business t"
    and "ev \<in> {''CUSTOMER_REPORTED_UNRESOLVED'', ''RESUME_CONSULTATION'', ''FINALIZE_INQUIRY''} \<Longrightarrow> t_record_inquiry t"
    and "ev = ''SUBMIT_RESOLUTION_FEEDBACK'' \<Longrightarrow> \<not> t_record_inquiry t"
    and "ev \<in> {''CLAIM_CONSULTATION'', ''SUBMIT_RESOLUTION_FEEDBACK''} \<Longrightarrow> s_state s = Some (t_state_after t)"
    and "ev \<in> REVIEW_EVENTS \<Longrightarrow> t_record_business t"
proof -
  obtain r v vis where r: "r \<in> set (c_rules c)" "r_event r = ev" "r_from r = s_state s" "t = plan_of c s ev r v vis"
    using assms(2) by (rule resolve_rule) auto
  have flags: "t_record_business t = records_business c r"
    "t_record_inquiry t = (hr_inquiry (r_history r) = Some True)" "t_state_after t = r_to r"
    using r(4) by (simp_all add: plan_of_def records_business_def)
  show "ev \<in> {''SUBMIT_ANSWERS'', ''REQUEST_CONSULTATION'', ''CLAIM_CONSULTATION''} \<Longrightarrow> t_record_business t"
    "ev \<in> {''CUSTOMER_REPORTED_UNRESOLVED'', ''RESUME_CONSULTATION'', ''FINALIZE_INQUIRY''} \<Longrightarrow> t_record_inquiry t"
    "ev = ''SUBMIT_RESOLUTION_FEEDBACK'' \<Longrightarrow> \<not> t_record_inquiry t"
    "ev \<in> {''CLAIM_CONSULTATION'', ''SUBMIT_RESOLUTION_FEEDBACK''} \<Longrightarrow> s_state s = Some (t_state_after t)"
    "ev \<in> REVIEW_EVENTS \<Longrightarrow> t_record_business t"
    using assms(1) r(1-3) unfolding flags flow_contract_def list_all_iff by auto
qed

section \<open>Steps\<close>

lemma atomically_Inr:
  "atomically races body d = (Inr out, d') \<longleftrightarrow> body d = Inr (out, d')"
  by (auto simp: atomically_def split: sum.splits)

lemma atomically_Inl: "atomically races body d = (Inl e, d') \<Longrightarrow> d' = add_races races d"
  by (auto simp: atomically_def split: sum.splits)

lemma respond_Inr:
  "respond dc rq op st body i a res d = Inr p \<longleftrightarrow>
     (\<exists>es. offered dc i (rq_actor rq) a d = Inr es \<and> answer_with rq op st (body i es) res d = p)"
  by (auto simp: respond_def rbind_Inr_iff)

lemma lock_find_in:
  "lock_owned_inquiry uid actor d = Some i \<Longrightarrow> i \<in> set (db_inquiries d)"
  "lock_cancellable_inquiry uid actor d = Some i \<Longrightarrow> i \<in> set (db_inquiries d)"
  "lock_claimable uid d = Some i \<Longrightarrow> i \<in> set (db_inquiries d)"
  "lock_assigned_consultant_inquiry uid actor d = Some i \<Longrightarrow> i \<in> set (db_inquiries d)"
  "lock_staff_inquiry uid d = Some i \<Longrightarrow> i \<in> set (db_inquiries d)"
  by (auto simp: lock_owned_inquiry_def lock_cancellable_inquiry_def lock_claimable_def
      lock_assigned_consultant_inquiry_def lock_staff_inquiry_def Let_def find_Some_iff split: if_splits)

text \<open>A planned event whose writes are recorded and answered.\<close>

definition move_of ::
  "contract \<Rightarrow> bool \<Rightarrow> request \<Rightarrow> string \<Rightarrow> db \<Rightarrow> db \<Rightarrow> inquiry_row \<Rightarrow> transition \<Rightarrow> outcome \<Rightarrow> db \<Rightarrow> bool" where
  "move_of c asg rq operation d d1 i t out d' =
     (i \<in> set (db_inquiries d) \<and>
      (\<exists>s ev. resolve c s ev = Inr t \<and> s_state s = Some (i_status_code i) \<and>
         s_version s = Some (i_state_version i)) \<and>
      (\<exists>d2 st kvs res. recorded_move asg (rq_key rq) i t d1 d2 \<and> kvs \<noteq> [] \<and>
         answer_with rq operation st kvs res d2 = (out, d')))"

lemma move_of_effect:
  assumes "move_of c asg rq operation d (claimed_db races r d) i t out d'"
    and "fresh_key (request_scope (rq_actor rq) operation (rq_key rq)) hash races d r"
  shows "fresh_effect c (request_scope (rq_actor rq) operation (rq_key rq)) hash races rq d i t out d'"
  using assms fresh_from_move [OF _ _ _ _ assms(2) refl] unfolding move_of_def by blast

lemma respond_move:
  assumes "plan_event dc es rq i d = Inr t" and "i \<in> set (db_inquiries d)"
    and "recorded_move asg (rq_key rq) i t d1 d2"
    and "respond dc rq operation st body i' a res d2 = Inr (out, d')" and "\<And>es. body i' es \<noteq> []"
  shows "move_of (dc_contract dc) asg rq operation d d1 i t out d'"
  using plan_event_resolves [OF assms(1)] assms(2-5) unfolding move_of_def respond_Inr by blast

lemma body_nonempty [simp]:
  "message_body msg i es \<noteq> []" "state_body i es \<noteq> []" "created_body i es \<noteq> []"
  by (simp_all add: message_body_def state_body_def created_body_def)

section \<open>Quiet writes\<close>

lemma cancel_active_quiet: "cancel_active i v key corr d = Inr (c, d') \<Longrightarrow> quiet d d'"
  by (auto simp: cancel_active_def rbind_Inr_iff split: list.splits dest!: update_consultation_frame frame_quiet)

lemma consultation_request_quiet:
  "consultation_request i v key corr cur now d = Inr (c, d') \<Longrightarrow> quiet d d'"
  by (auto simp: consultation_request_def split: option.splits if_splits
      dest!: update_consultation_frame insert_consultation_frame frame_quiet)

lemma consultation_claim_quiet: "consultation_claim c actor v key corr d = Inr (c', d') \<Longrightarrow> quiet d d'"
  by (auto simp: consultation_claim_def split: if_splits dest!: update_consultation_frame frame_quiet)

lemma handoff_update_quiet: "quiet d (d\<lparr>db_ai_handoffs := hs\<rparr>)"
  by (simp add: quiet_def resolved_rows_def)

lemma attach_handoff_quiet: "attach_handoff i c d = Inr (c', d') \<Longrightarrow> quiet d d'"
  by (auto simp: attach_handoff_def Let_def split: option.splits if_splits
      dest!: update_consultation_frame frame_quiet intro: quiet_trans handoff_update_quiet)

lemma cancel_active_ai_runs_quiet: "cancel_active_ai_runs i now d = Inr d' \<Longrightarrow> quiet d d'"
  by (auto simp: cancel_active_ai_runs_def quiet_def resolved_rows_def split: if_splits)

lemma create_followup_answer_quiet: "create_followup_answer i q actor item v now d = Inr d' \<Longrightarrow> quiet d d'"
  by (auto simp: create_followup_answer_def quiet_def resolved_rows_def Let_def split: if_splits)

lemma create_answers_quiet: "create_answers i actor sub v now qs d = Inr d' \<Longrightarrow> quiet d d'"
  by (induction qs arbitrary: d)
    (auto simp: rbind_Inr_iff dest!: create_followup_answer_quiet intro: quiet_trans)

lemma insert_feedback_Inr:
  assumes "insert_feedback f d = Inr (f', d')"
  shows "\<exists>n u. d' = d\<lparr>db_feedback := db_feedback d @ [f'], db_next_id := n, db_next_uuid := u\<rparr> \<and>
    db_next_id d \<le> n \<and> fb_inquiry_id f' = fb_inquiry_id f \<and>
    fb_resolution_status_code f' = fb_resolution_status_code f"
  using assms unfolding insert_feedback_def Let_def by (force split: if_splits)

lemma unresolved_feedback_quiet:
  assumes "create_unresolved_feedback i h v reason comment now d = Inr (f, d')"
  shows "quiet d d'"
proof -
  obtain f' where "insert_feedback f' d = Inr (f, d')" "fb_resolution_status_code f' = ''REOPENED''"
    using assms by (fastforce simp: create_unresolved_feedback_def rbind_Inr_iff)
  from this(2) insert_feedback_Inr [OF this(1)] show ?thesis by (auto simp: quiet_def resolved_rows_def)
qed

section \<open>Customer services\<close>

lemma apply_symptom_move:
  assumes "plan_event dc es rq i d = Inr t" and "i \<in> set (db_inquiries d)"
    and "apply_symptom dc rq i t d1 = Inr (out, d')"
  shows "move_of (dc_contract dc) True rq ''submitSymptom'' d d1 i t out d'"
proof -
  obtain i' d2 d3 where
    a: "apply_state_transition i (t_state_after t) (t_version_after t) d1 = Inr (i', d2)" and
    h: "record_submit_symptom i' t (rq_actor rq) (rq_correlation rq) (rq_key rq) (rq_now rq) d2 = Inr d3" and
    ans: "respond dc rq ''submitSymptom'' 200 state_body i' no_args (i_public_id i') d3 = Inr (out, d')"
    using assms(3) by (auto simp: apply_symptom_def rbind_Inr_iff)
  have "appended (rq_key rq) (i_id i) t d2 d3"
    using recorded_rows(2) [OF h] apply_state_transition_Inr [OF a] by simp
  then have "recorded_move True (rq_key rq) i t d1 d3"
    by (rule recorded_moveI [OF quiet_refl a [unfolded apply_state_transition_def] quiet_refl])
      (auto simp: keeps_target_def)
  from respond_move [OF assms(1,2) this ans] show ?thesis by simp
qed

lemma apply_cancel_move:
  assumes "plan_event dc es rq i d = Inr t" and "i \<in> set (db_inquiries d)"
    and "apply_cancel dc rq reason detail i t d1 = Inr (out, d')"
  shows "move_of (dc_contract dc) True rq ''cancelInquiry'' d d1 i t out d'"
proof -
  obtain c d2 i' d3 d4 d5 where
    q: "cancel_active i (t_version_after t) (rq_key rq) (rq_correlation rq) d1 = Inr (c, d2)" and
    a: "mark_cancelled i (t_state_after t) (t_version_after t) reason detail (rq_now rq) d2 = Inr (i', d3)" and
    r: "cancel_active_ai_runs i' (rq_now rq) d3 = Inr d4" and
    h: "record_cancel_inquiry i' t (rq_actor rq) (rq_correlation rq) (rq_key rq) reason detail (rq_now rq) d4 = Inr d5" and
    ans: "respond dc rq ''cancelInquiry'' 200 state_body i' no_args (i_public_id i') d5 = Inr (out, d')"
    using assms(3) by (auto simp: apply_cancel_def rbind_Inr_iff)
  have "i_id i' = i_id i" using update_inquiry_Inr [OF a [unfolded mark_cancelled_def]] by simp
  then have "appended (rq_key rq) (i_id i) t d4 d5" using recorded_rows(3) [OF h] by simp
  then have "recorded_move True (rq_key rq) i t d1 d5"
    by (rule recorded_moveI [OF cancel_active_quiet [OF q] a [unfolded mark_cancelled_def]
          cancel_active_ai_runs_quiet [OF r]]) (auto simp: keeps_target_def)
  from respond_move [OF assms(1,2) this ans] show ?thesis by simp
qed

lemma apply_answers_move:
  assumes "plan_event dc es rq i d = Inr t" and "i \<in> set (db_inquiries d)" and "t_record_business t"
    and "apply_answers dc rq i t d1 = Inr (out, d')"
  shows "move_of (dc_contract dc) True rq ''submitFollowUpAnswers'' d d1 i t out d'"
proof -
  obtain sub d2 i' d3 where
    q: "create_answers i (rq_actor rq) sub (i_state_version i) (rq_now rq)
      (lock_unanswered_questions i (map fst sub) d1) d1 = Inr d2" and
    m: "move_inquiry rq i t True None d2 = Inr (i', d3)" and
    ans: "respond dc rq ''submitFollowUpAnswers'' 200 (message_body ''Follow-up answers were saved.'') i'
      no_args (i_public_id i') d3 = Inr (out, d')"
    using assms(3,4) by (auto simp: apply_answers_def rbind_Inr_iff)
  from respond_move [OF assms(1,2) move_inquiry_recorded [OF create_answers_quiet [OF q] m] ans]
  show ?thesis by simp
qed

section \<open>Queue services\<close>

lemma apply_request_move:
  assumes "plan_event dc es rq i d = Inr t" and "i \<in> set (db_inquiries d)" and "t_record_business t"
    and "apply_request dc rq i (t, current) d1 = Inr (out, d')"
  shows "move_of (dc_contract dc) True rq ''requestConsultation'' d d1 i t out d'"
proof -
  obtain c d2 c' d3 i' d4 where
    q: "consultation_request i (t_version_after t) (rq_key rq) (rq_correlation rq) current (rq_now rq) d1 = Inr (c, d2)"
      "attach_handoff i c d2 = Inr (c', d3)" and
    m: "move_inquiry rq i t True None d3 = Inr (i', d4)" and
    ans: "respond dc rq ''requestConsultation'' 200 (message_body ''msg.consultation_requested'') i'
      (consultation_arg (Some c')) (i_public_id i') d4 = Inr (out, d')"
    using assms(3,4) by (auto simp: apply_request_def rbind_Inr_iff)
  have "quiet d1 d3"
    using consultation_request_quiet [OF q(1)] attach_handoff_quiet [OF q(2)] by (rule quiet_trans)
  from respond_move [OF assms(1,2) move_inquiry_recorded [OF this m] ans] show ?thesis by simp
qed

lemma apply_claim_move:
  assumes "plan_event dc es rq i d = Inr t" and "i \<in> set (db_inquiries d)" and "t_record_business t"
    and "t_state_after t = i_status_code i" and "apply_claim dc rq i (t, c) d1 = Inr (out, d')"
  shows "move_of (dc_contract dc) False rq ''claimConsultation'' d d1 i t out d'"
proof -
  obtain i' d2 c' d3 d4 where
    a: "assign_consultant i (rq_actor rq) (t_version_after t) d1 = Inr (i', d2)" and
    q: "consultation_claim c (rq_actor rq) (t_version_after t) (rq_key rq) (rq_correlation rq) d2 = Inr (c', d3)" and
    h: "record_inquiry_action i' t (rq_actor rq) (rq_correlation rq) (rq_key rq) None (rq_now rq) d3 = Inr d4" and
    ans: "respond dc rq ''claimConsultation'' 200 (message_body ''msg.consultation_claimed'') i'
      (consultation_arg (Some c')) (i_public_id i') d4 = Inr (out, d')"
    using assms(3,5) by (auto simp: apply_claim_def rbind_Inr_iff)
  have "i_id i' = i_id i" using update_inquiry_Inr [OF a [unfolded assign_consultant_def]] by simp
  then have "appended (rq_key rq) (i_id i) t d3 d4" using recorded_rows(1) [OF h] by simp
  then have "recorded_move False (rq_key rq) i t d1 d4"
    by (rule recorded_moveI [OF quiet_refl a [unfolded assign_consultant_def] consultation_claim_quiet [OF q]])
      (auto simp: keeps_target_def assms(4))
  from respond_move [OF assms(1,2) this ans] show ?thesis by simp
qed

section \<open>Resolution services\<close>

lemma resolution_mutate_quiet:
  assumes "resolution_mutate a rq i handling v d = Inr (res, d')" and "a \<noteq> Feedback"
  shows "quiet d d'"
  using assms
  by (auto simp: resolution_mutate_def rbind_Inr_iff split: resolution_action.splits
      dest!: unresolved_feedback_quiet consultation_request_quiet)

lemma apply_resolution_move:
  assumes "plan_event dc es rq i d = Inr t" and "i \<in> set (db_inquiries d)" and "t_record_inquiry t"
    and "a \<noteq> Feedback" and "apply_resolution dc a rq i (t, handling) d1 = Inr (out, d')"
  shows "move_of (dc_contract dc) True rq (cf_operation_id (action_configs a)) d d1 i t out d'"
proof -
  obtain res d2 i' d3 where
    q: "resolution_mutate a rq i handling (t_version_after t) d1 = Inr (res, d2)" and
    m: "move_inquiry rq i t True (change_reason a rq handling) d2 = Inr (i', d3)" and
    ans: "respond dc rq (cf_operation_id (action_configs a)) 200 (message_body (cf_message (action_configs a))) i'
      no_args res d3 = Inr (out, d')"
    using assms(3,5) by (auto simp: apply_resolution_def rbind_Inr_iff)
  from respond_move [OF assms(1,2) move_inquiry_recorded [OF resolution_mutate_quiet [OF q assms(4)] m] ans]
  show ?thesis by simp
qed

text \<open>A resolution feedback raises the version and stores the confirmation, with no history row.\<close>

lemma feedback_silent:
  assumes "plan_event dc es rq i d = Inr t" and "i \<in> set (db_inquiries d)" and "\<not> t_record_inquiry t"
    and "t_state_after t = i_status_code i"
    and key: "fresh_key (request_scope (rq_actor rq) ''submitResolutionFeedback'' (rq_key rq)) hash races d r"
    and "apply_resolution dc Feedback rq i (t, handling) (claimed_db races r d) = Inr (out, d')"
  shows "silent_effect (dc_contract dc) (request_scope (rq_actor rq) ''submitResolutionFeedback'' (rq_key rq))
    hash races rq d i t out d'"
proof -
  let ?d = "claimed_db races r d"
  obtain h f d2 i' d3 kvs res where
    q: "create_resolved_feedback i h (t_version_after t) (opt_text_field rq ''comment'') (rq_now rq) ?d = Inr (f, d2)" and
    a: "apply_state_transition i (t_state_after t) (t_version_after t) d2 = Inr (i', d3)" and
    ans: "answer_with rq ''submitResolutionFeedback'' 200 kvs res d3 = (out, d')"
    using assms(3,6)
    by (auto simp: apply_resolution_def resolution_mutate_def move_inquiry_def rbind_Inr_iff respond_Inr)
  obtain f' where f': "insert_feedback f' ?d = Inr (f, d2)" "fb_inquiry_id f' = i_id i"
    "fb_resolution_status_code f' = ''RESOLVED''"
    using q unfolding create_resolved_feedback_def rbind_Inr_iff by force
  obtain n u where d2: "d2 = ?d\<lparr>db_feedback := db_feedback ?d @ [f], db_next_id := n, db_next_uuid := u\<rparr>"
    "db_next_id ?d \<le> n" "fb_inquiry_id f = i_id i" "fb_resolution_status_code f = ''RESOLVED''"
    using insert_feedback_Inr [OF f'(1)] f'(2,3) by metis
  note d3 = apply_state_transition_Inr [OF a]
  have idem: "db_idem d3 = db_idem d @ races @ [r]" using d2 d3 by simp
  have "resolved_rows m d' = resolved_rows m d @ (if m = i_id i then [f] else [])" for m
    using answered_keeps(4) [OF ans] d2 d3 by (simp add: resolved_rows_def)
  moreover have "db_history d' = db_history d" "db_next_id d \<le> db_next_id d'"
    "db_inquiries d' = map (\<lambda>q. if i_id q = i_id i
       then q\<lparr>i_status_code := t_state_after t, i_state_version := t_version_after t\<rparr> else q) (db_inquiries d)"
    using answered_keeps(1-3) [OF ans] d2 d3 by simp_all
  moreover have "completed_record (request_scope (rq_actor rq) ''submitResolutionFeedback'' (rq_key rq)) hash races rq d out d'"
    by (rule answered_completed [OF key refl ans idem])
  ultimately show ?thesis
    using assms(2,4) plan_event_resolves [OF assms(1)] unfolding silent_effect_def
    by (intro conjI exI [of _ "\<lambda>q. q\<lparr>i_status_code := t_state_after t, i_state_version := t_version_after t\<rparr>"])
      (blast | simp)+
qed

section \<open>Creations\<close>

text \<open>Writes after the insertion: no inquiry changes, and no row of an inquiry's trail is added.\<close>

definition aside :: "db \<Rightarrow> db \<Rightarrow> bool" where
  "aside d d' =
     (db_inquiries d' = db_inquiries d \<and> db_idem d' = db_idem d \<and> db_next_id d \<le> db_next_id d' \<and>
      (\<forall>n. resolved_rows n d' = resolved_rows n d) \<and>
      (\<exists>others. db_history d' = db_history d @ others \<and>
         (\<forall>g \<in> set others. \<forall>n. history_target g \<noteq> Some (''INQUIRY'', n))))"

lemma aside_refl [simp]: "aside d d"
  by (simp add: aside_def)

lemma aside_trans: "aside d d' \<Longrightarrow> aside d' d'' \<Longrightarrow> aside d d''"
  by (fastforce simp: aside_def)

lemma insert_symptom_aside: "insert_symptom y d = Inr d' \<Longrightarrow> aside d d'"
  by (auto simp: insert_symptom_def aside_def resolved_rows_def split: if_splits)

lemma link_questionnaire_aside:
  assumes "link_questionnaire q i actor corr key now d = Inr d'"
  shows "aside d d'"
  using assms
  by (auto simp: link_questionnaire_def Let_def record_questionnaire_action_def insert_history_Inr
      aside_def resolved_rows_def history_target_def split: option.splits if_splits)

lemma insert_inquiry_Inr:
  assumes "insert_inquiry i0 d = Inr (i, d')"
  shows "db_inquiries d' = db_inquiries d @ [i]" "db_history d' = db_history d" "db_idem d' = db_idem d"
    "db_next_id d' = Suc (db_next_id d)" "resolved_rows n d' = resolved_rows n d" "i_id i = db_next_id d"
    "i_state_version i = i_state_version i0" "i_status_code i = i_status_code i0"
    "i_public_id i = db_next_uuid d" "i_subscription i = i_subscription i0"
  using assms by (auto simp: insert_inquiry_def Let_def resolved_rows_def split: if_splits)

lemma creation_effectI:
  assumes ins: "insert_inquiry i0 (claimed_db races r d) = Inr (i, d1)" and "i_state_version i0 = 1"
    and "aside d1 d2"
    and row: "create_transition_history (i_id i) actor ev None (i_status_code i0) 1 corr (rq_key rq) by reason now d2 = Inr d3"
    and ans: "answer_with rq operation st kvs res d3 = (out, d')"
    and key: "fresh_key (request_scope (rq_actor rq) operation (rq_key rq)) hash races d r"
    and rule: "\<exists>q \<in> set (c_rules c). r_event q = ev \<and> r_from q = None \<and> r_to q = i_status_code i0"
  shows "creation_effect c (request_scope (rq_actor rq) operation (rq_key rq)) hash races rq d i out d'"
proof -
  note i = insert_inquiry_Inr [OF ins]
  obtain h where h: "d3 = d2\<lparr>db_history := db_history d2 @ [h], db_next_id := Suc (db_next_id d2)\<rparr>"
    "history_target h = Some (''INQUIRY'', i_id i)" "h_event_code h = ev" "h_from_state h = None"
    "h_to_state h = i_status_code i0" "h_state_version h = 1" "h_idempotency_key h = rq_key rq"
    using create_transition_history_Inr [OF row] by blast
  obtain others where o: "db_history d2 = db_history d @ others"
    "\<forall>g \<in> set others. \<forall>n. history_target g \<noteq> Some (''INQUIRY'', n)"
    using assms(3) i(2) by (auto simp: aside_def)
  have "db_idem d3 = db_idem d @ races @ [r]" using assms(3) i h(1) by (simp add: aside_def)
  then have "completed_record (request_scope (rq_actor rq) operation (rq_key rq)) hash races rq d out d'"
    by (rule answered_completed [OF key refl ans])
  moreover have "db_inquiries d' = db_inquiries d @ [i]" "i_id i = db_next_id d" "db_next_id d < db_next_id d'"
    "\<And>n. resolved_rows n d' = resolved_rows n d"
    using answered_keeps(1,3,4) [OF ans] h(1) assms(3) i by (auto simp: aside_def resolved_rows_def)
  moreover have "db_history d' = db_history d @ others @ [h]"
    using answered_keeps(2) [OF ans] h(1) o(1) by simp
  ultimately show ?thesis
    using i h(2-7) o(2) rule assms(2) unfolding creation_effect_def by auto
qed

lemma apply_creation_effect:
  assumes "flow_contract c"
    and "fresh_key (request_scope (rq_actor rq) ''startInquiry'' (rq_key rq)) hash races d r"
    and "apply_creation dc rq (s, channel, raw) u (claimed_db races r d) = Inr (out, d')"
  shows "\<exists>i. creation_effect c (request_scope (rq_actor rq) ''startInquiry'' (rq_key rq)) hash races rq d i out d'"
proof -
  obtain q i d1 d2 d3 kvs res d4 where
    ins: "create_inquiry s (rq_actor rq) channel raw (opt_uuid_field rq ''questionnaire_session_id'')
      (claimed_db races r d) = Inr (i, d1)" and
    link: "link_questionnaire q i (rq_actor rq) (rq_correlation rq) (rq_key rq) (rq_now rq) d1 = Inr d2" and
    sym: "(case opt_text_field rq ''representative_symptom_code'' of
      None \<Rightarrow> Inr d2 | Some code \<Rightarrow> create_representative_symptom i code d2) = Inr d3" and
    row: "record_start_inquiry i (rq_actor rq) (rq_correlation rq) (rq_key rq) (rq_now rq) d3 = Inr d4" and
    ans: "answer_with rq ''startInquiry'' 201 kvs res d4 = (out, d')"
    using assms(3) by (auto simp: apply_creation_def rbind_Inr_iff)
  have "aside d2 d3" using sym
    by (auto simp: create_representative_symptom_def dest!: insert_symptom_aside split: option.splits)
  then have "aside d1 d3" using link_questionnaire_aside [OF link] by (rule aside_trans [rotated])
  moreover have "\<exists>q \<in> set (c_rules c). r_event q = ''START_INQUIRY'' \<and> r_from q = None \<and> r_to q = ''DRAFT''"
    using assms(1) by (auto simp: flow_contract_def list_ex_iff)
  ultimately show ?thesis
    using creation_effectI [OF ins [unfolded create_inquiry_def] _ _ _ ans assms(2)]
      row [unfolded record_start_inquiry_def]
    by fastforce
qed

lemma apply_phone_effect:
  assumes "plan_phone dc rq = Inr t"
    and "fresh_key (request_scope (rq_actor rq) ''registerConsultantPhoneInquiry'' (rq_key rq)) hash races d r"
    and "apply_phone dc rq (s, raw, code, priority) t (claimed_db races r d) = Inr (out, d')"
  shows "\<exists>i. creation_effect (dc_contract dc)
    (request_scope (rq_actor rq) ''registerConsultantPhoneInquiry'' (rq_key rq)) hash races rq d i out d'"
proof -
  obtain i d1 d2 kvs res d3 where
    ins: "create_phone_inquiry s rq raw priority t (claimed_db races r d) = Inr (i, d1)" and
    sym: "create_phone_symptom i code d1 = Inr d2" and
    row: "record_inquiry_action i t (rq_actor rq) (rq_correlation rq) (rq_key rq) None (rq_now rq) d2 = Inr d3" and
    ans: "answer_with rq ''registerConsultantPhoneInquiry'' 201 kvs res d3 = (out, d')"
    using assms(3) by (auto simp: apply_phone_def rbind_Inr_iff)
  have t: "resolve (dc_contract dc) \<lparr>s_state = None, s_version = None, s_visit = None\<rparr> ''REGISTER_PHONE_INQUIRY'' = Inr t"
    using assms(1) by (auto simp: plan_phone_def Let_def rbind_Inr_iff map_error_iff split: if_splits option.splits)
  have v: "t_version_after t = 1" "t_state_before t = None" "t_event t = ''REGISTER_PHONE_INQUIRY''"
    using t by (auto simp: resolve_Inr next_version_Inr)
  have "aside d1 d2" using sym by (auto simp: create_phone_symptom_def dest!: insert_symptom_aside)
  moreover obtain q where "q \<in> set (c_rules (dc_contract dc))" "r_event q = ''REGISTER_PHONE_INQUIRY''"
    "r_from q = None" "r_to q = t_state_after t"
    using t by (rule resolve_rule) auto
  ultimately show ?thesis
    using creation_effectI [OF ins [unfolded create_phone_inquiry_def] _ _ _ ans assms(2)]
      row [unfolded record_inquiry_action_def] v
    by fastforce
qed

end
