(* ===== verification/ServiceCases.thy ===== *)
theory ServiceCases
  imports ServiceFacts
begin

text \<open>
  The successful calls of each service: the target that was locked, and either the replay of a known
  key or the plan, the claimed key and the writes of a fresh request.
\<close>

section \<open>Customer services\<close>

lemma submit_symptom_cases:
  assumes "submit_symptom dc races rq d = (Inr out, d')"
  shows "\<exists>i. lock_owned_inquiry (rq_target rq) (rq_actor rq) d = Some i \<and>
    (replayed (request_scope (rq_actor rq) ''submitSymptom'' (rq_key rq)) (symptom_hash rq) races d out d' \<or>
     (\<exists>t r. plan_event dc (symptom_event dc rq i d) rq i d = Inr t \<and>
        fresh_key (request_scope (rq_actor rq) ''submitSymptom'' (rq_key rq)) (symptom_hash rq) races d r \<and>
        apply_symptom dc rq i t (claimed_db races r d) = Inr (out, d')))"
proof -
  have "submit_symptom_body dc races rq d = Inr (out, d')"
    using assms by (simp add: submit_symptom_def atomically_Inr)
  then obtain v where "field rq ''state_version'' = Inr v"
    "keyed_flow races (request_scope (rq_actor rq) ''submitSymptom'' (rq_key rq)) (symptom_hash rq)
      (\<lambda>d. of_option Not_found (lock_owned_inquiry (rq_target rq) (rq_actor rq) d))
      (replay_known (symptom_hash rq)) (\<lambda>i d. plan_event dc (symptom_event dc rq i d) rq i d)
      (apply_symptom dc rq) d = Inr (out, d')"
    unfolding submit_symptom_body_def rbind_Inr_iff by blast
  from keyed_flow_Inr [OF this(2)] show ?thesis by (simp add: of_option_iff)
qed

lemma submit_answers_cases:
  assumes "submit_answers dc races rq d = (Inr out, d')"
  shows "\<exists>i. lock_owned_inquiry (rq_target rq) (rq_actor rq) d = Some i \<and>
    (replayed (request_scope (rq_actor rq) ''submitFollowUpAnswers'' (rq_key rq)) (answers_hash rq) races d out d' \<or>
     (\<exists>t r. plan_event dc (answers_event dc rq i d) rq i d = Inr t \<and>
        fresh_key (request_scope (rq_actor rq) ''submitFollowUpAnswers'' (rq_key rq)) (answers_hash rq) races d r \<and>
        apply_answers dc rq i t (claimed_db races r d) = Inr (out, d')))"
proof -
  have "submit_answers_body dc races rq d = Inr (out, d')"
    using assms by (simp add: submit_answers_def atomically_Inr)
  from keyed_flow_Inr [OF this [unfolded submit_answers_body_def]] show ?thesis
    by (simp add: of_option_iff)
qed

lemma cancel_inquiry_cases:
  assumes "cancel_inquiry dc races rq d = (Inr out, d')"
  shows "\<exists>i reason. lock_cancellable_inquiry (rq_target rq) (rq_actor rq) d = Some i \<and>
    text_field rq ''reason_code'' = Inr reason \<and>
    (replayed (request_scope (rq_actor rq) ''cancelInquiry'' (rq_key rq)) (cancel_hash rq) races d out d' \<or>
     (\<exists>t r. plan_event dc (cancel_event dc rq i d) rq i d = Inr t \<and>
        fresh_key (request_scope (rq_actor rq) ''cancelInquiry'' (rq_key rq)) (cancel_hash rq) races d r \<and>
        apply_cancel dc rq reason (opt_text_field rq ''reason_detail'') i t (claimed_db races r d) = Inr (out, d')))"
proof -
  have "cancel_body dc races rq d = Inr (out, d')"
    using assms by (simp add: cancel_inquiry_def atomically_Inr)
  then obtain reason where r: "text_field rq ''reason_code'' = Inr reason"
    "keyed_flow races (request_scope (rq_actor rq) ''cancelInquiry'' (rq_key rq)) (cancel_hash rq)
      (\<lambda>d. of_option Not_found (lock_cancellable_inquiry (rq_target rq) (rq_actor rq) d))
      (replay_known (cancel_hash rq)) (\<lambda>i d. plan_event dc (cancel_event dc rq i d) rq i d)
      (apply_cancel dc rq reason (opt_text_field rq ''reason_detail'')) d = Inr (out, d')"
    unfolding cancel_body_def rbind_Inr_iff by blast
  from keyed_flow_Inr [OF r(2)] r(1) show ?thesis by (simp add: of_option_iff)
qed

definition lock_subscription :: "request \<Rightarrow> nat \<Rightarrow> db \<Rightarrow> app_error + subscription_row \<times> string \<times> string" where
  "lock_subscription rq uid d =
     rbind (of_option Not_found (find_active_owned_subscription uid (rq_actor rq) d)) (\<lambda>s.
     rbind (text_field rq ''channel_code'') (\<lambda>channel.
     rbind (text_field rq ''raw_text'') (\<lambda>raw. Inr (s, channel, raw))))"

lemma start_inquiry_cases:
  assumes "start_inquiry dc races rq d = (Inr out, d')"
  shows "\<exists>uid i. uuid_field rq ''subscription_id'' = Inr uid \<and> lock_subscription rq uid d = Inr i \<and>
    (replayed (request_scope (rq_actor rq) ''startInquiry'' (rq_key rq)) (create_hash rq) races d out d' \<or>
     (\<exists>r. fresh_key (request_scope (rq_actor rq) ''startInquiry'' (rq_key rq)) (create_hash rq) races d r \<and>
        apply_creation dc rq i () (claimed_db races r d) = Inr (out, d')))"
proof -
  have "create_body dc races rq d = Inr (out, d')"
    using assms by (simp add: start_inquiry_def atomically_Inr)
  then obtain uid where u: "uuid_field rq ''subscription_id'' = Inr uid"
    "keyed_flow races (request_scope (rq_actor rq) ''startInquiry'' (rq_key rq)) (create_hash rq)
      (lock_subscription rq uid) (replay_known (create_hash rq)) (\<lambda>_ d. Inr ()) (apply_creation dc rq) d = Inr (out, d')"
    unfolding create_body_def rbind_Inr_iff lock_subscription_def [abs_def] by blast
  from keyed_flow_Inr [OF u(2)] u(1) show ?thesis by simp
qed

section \<open>Queue services\<close>

lemma request_consultation_cases:
  assumes "request_consultation dc races rq d = (Inr out, d')"
  shows "\<exists>i. lock_owned_inquiry (rq_target rq) (rq_actor rq) d = Some i \<and>
    (replayed (request_scope (rq_actor rq) ''requestConsultation'' (rq_key rq)) (body_hash rq) races d out d' \<or>
     (\<exists>t r. plan_event dc (request_event dc rq i d) rq i d = Inr t \<and>
        fresh_key (request_scope (rq_actor rq) ''requestConsultation'' (rq_key rq)) (body_hash rq) races d r \<and>
        apply_request dc rq i (t, lock_latest_consultation i d) (claimed_db races r d) = Inr (out, d')))"
proof -
  have "request_consultation_body dc races rq d = Inr (out, d')"
    using assms by (simp add: request_consultation_def atomically_Inr)
  from keyed_flow_Inr [OF this [unfolded request_consultation_body_def]] obtain i where
    i: "of_option Not_found (lock_owned_inquiry (rq_target rq) (rq_actor rq) d) = Inr i" and
    cases: "replayed (request_scope (rq_actor rq) ''requestConsultation'' (rq_key rq)) (body_hash rq) races d out d' \<or>
     (\<exists>p r. rbind (plan_event dc (request_event dc rq i d) rq i d)
          (\<lambda>t. Inr (t, lock_latest_consultation i d)) = Inr p \<and>
        fresh_key (request_scope (rq_actor rq) ''requestConsultation'' (rq_key rq)) (body_hash rq) races d r \<and>
        apply_request dc rq i p (claimed_db races r d) = Inr (out, d'))"
    using replay_known_replays by blast
  from cases show ?thesis using i unfolding rbind_Inr_iff of_option_iff sum.inject by blast
qed

lemma claim_known_replays [simp]: "replays (body_hash rq) (claim_known rq)"
  by (auto simp: replays_def claim_known_def replay_known_def split: if_splits)

lemma claim_consultation_cases:
  assumes "claim_consultation dc races rq d = (Inr out, d')"
  shows "\<exists>i. lock_routed rq d = Inr i \<and>
    (replayed (request_scope (rq_actor rq) ''claimConsultation'' (rq_key rq)) (body_hash rq) races d out d' \<or>
     (\<exists>t c r. lock_latest_consultation i d = Some c \<and> is_claimable i (Some c) \<and>
        plan_event dc (claim_event dc rq i d) rq i d = Inr t \<and>
        fresh_key (request_scope (rq_actor rq) ''claimConsultation'' (rq_key rq)) (body_hash rq) races d r \<and>
        apply_claim dc rq i (t, c) (claimed_db races r d) = Inr (out, d')))"
proof -
  have "claim_consultation_body dc races rq d = Inr (out, d')"
    using assms by (simp add: claim_consultation_def atomically_Inr)
  from keyed_flow_Inr [OF this [unfolded claim_consultation_body_def]] obtain i where
    i: "lock_routed rq d = Inr i" and
    cases: "replayed (request_scope (rq_actor rq) ''claimConsultation'' (rq_key rq)) (body_hash rq) races d out d' \<or>
     (\<exists>p r. (case lock_latest_consultation i d of
          None \<Rightarrow> Inl Not_found
        | Some c \<Rightarrow>
            rbind (guard_or (is_claimable i (Some c)) Not_found) (\<lambda>_.
            rbind (plan_event dc (claim_event dc rq i d) rq i d) (\<lambda>t. Inr (t, c)))) = Inr p \<and>
        fresh_key (request_scope (rq_actor rq) ''claimConsultation'' (rq_key rq)) (body_hash rq) races d r \<and>
        apply_claim dc rq i p (claimed_db races r d) = Inr (out, d'))"
    by auto
  from cases i show ?thesis
    by (cases "lock_latest_consultation i d") (auto simp: rbind_Inr_iff guard_or_iff)
qed

definition lock_phone_subscription ::
  "request \<Rightarrow> nat \<Rightarrow> db \<Rightarrow> app_error + subscription_row \<times> string \<times> string \<times> string" where
  "lock_phone_subscription rq uid d =
     rbind (of_option Not_found (lock_active_synthetic_subscription uid d)) (\<lambda>s.
     rbind (text_field rq ''raw_text'') (\<lambda>raw.
     rbind (text_field rq ''representative_symptom_code'') (\<lambda>code.
     rbind (text_field rq ''priority_code'') (\<lambda>priority. Inr (s, raw, code, priority)))))"

lemma register_phone_cases:
  assumes "register_phone_inquiry dc races rq d = (Inr out, d')"
  shows "\<exists>uid i. uuid_field rq ''subscription_id'' = Inr uid \<and> lock_phone_subscription rq uid d = Inr i \<and>
    (replayed (request_scope (rq_actor rq) ''registerConsultantPhoneInquiry'' (rq_key rq)) (phone_hash rq) races d out d' \<or>
     (\<exists>t r. plan_phone dc rq = Inr t \<and>
        fresh_key (request_scope (rq_actor rq) ''registerConsultantPhoneInquiry'' (rq_key rq)) (phone_hash rq) races d r \<and>
        apply_phone dc rq i t (claimed_db races r d) = Inr (out, d')))"
proof -
  have "register_phone_body dc races rq d = Inr (out, d')"
    using assms by (simp add: register_phone_inquiry_def atomically_Inr)
  then obtain uid where u: "uuid_field rq ''subscription_id'' = Inr uid"
    "keyed_flow races (request_scope (rq_actor rq) ''registerConsultantPhoneInquiry'' (rq_key rq)) (phone_hash rq)
      (lock_phone_subscription rq uid) (replay_known (phone_hash rq)) (\<lambda>_ d. plan_phone dc rq)
      (apply_phone dc rq) d = Inr (out, d')"
    unfolding register_phone_body_def rbind_Inr_iff lock_phone_subscription_def [abs_def] by blast
  from keyed_flow_Inr [OF u(2)] u(1) show ?thesis by simp
qed

section \<open>Resolution services\<close>

lemma plan_resolution_Inr:
  assumes "plan_resolution dc a rq i d = Inr (t, h)"
  shows "h = (if a = Resume then None else lock_completed_handling i d)" and "a = Resume \<or> h \<noteq> None"
    and "plan_event dc (resolution_event dc a rq i h d) rq i d = Inr t"
  using assms unfolding plan_resolution_def Let_def rbind_Inr_iff guard_or_iff by blast+

lemma resolve_inquiry_cases:
  assumes "resolve_inquiry dc a races rq d = (Inr out, d')"
  shows "\<exists>i. lock_resolution a rq d = Some i \<and>
    (replayed (request_scope (rq_actor rq) (cf_operation_id (action_configs a)) (rq_key rq)) (body_hash rq) races d out d' \<or>
     (\<exists>t h r. plan_resolution dc a rq i d = Inr (t, h) \<and>
        fresh_key (request_scope (rq_actor rq) (cf_operation_id (action_configs a)) (rq_key rq)) (body_hash rq) races d r \<and>
        apply_resolution dc a rq i (t, h) (claimed_db races r d) = Inr (out, d')))"
proof -
  have "resolution_body dc a races rq d = Inr (out, d')"
    using assms by (simp add: resolve_inquiry_def atomically_Inr)
  from keyed_flow_Inr [OF this [unfolded resolution_body_def Let_def]] show ?thesis
    by (simp add: of_option_iff)
qed

section \<open>Plans that are recorded\<close>

lemma answers_plan_recorded:
  assumes "flow_contract (dc_contract dc)" and "plan_event dc (answers_event dc rq i d) rq i d = Inr t"
  shows "t_record_business t"
  using plan_event_resolves [OF assms(2)] flow_contract_rule(1) [OF assms(1)]
  by (auto simp: answers_event_def Let_def)

lemma request_plan_recorded:
  assumes "flow_contract (dc_contract dc)" and "plan_event dc (request_event dc rq i d) rq i d = Inr t"
  shows "t_record_business t"
  using plan_event_resolves [OF assms(2)] flow_contract_rule(1) [OF assms(1)]
  by (auto simp: request_event_def Let_def)

lemma claim_plan_recorded:
  assumes "flow_contract (dc_contract dc)" and "plan_event dc (claim_event dc rq i d) rq i d = Inr t"
  shows "t_record_business t" "t_state_after t = i_status_code i"
proof -
  obtain s where "resolve (dc_contract dc) s ''CLAIM_CONSULTATION'' = Inr t" "s_state s = Some (i_status_code i)"
    using plan_event_resolves [OF assms(2)] by (auto simp: claim_event_def Let_def)
  then show "t_record_business t" "t_state_after t = i_status_code i"
    using flow_contract_rule(1,4) [OF assms(1)] by fastforce+
qed

lemma lock_routed_in: "lock_routed rq d = Inr i \<Longrightarrow> i \<in> set (db_inquiries d)"
  by (auto simp: lock_routed_def rbind_Inr_iff of_option_iff intro: lock_find_in(3))

lemma resolution_plan:
  assumes "plan_resolution dc a rq i d = Inr (t, h)"
  obtains s where "resolve (dc_contract dc) s (cf_event_code (action_configs a)) = Inr t"
    "s_state s = Some (i_status_code i)" "s_version s = Some (i_state_version i)"
  using plan_event_resolves [OF plan_resolution_Inr(3) [OF assms]]
  by (auto simp: resolution_event_def Let_def)

lemma resolution_plan_recorded:
  assumes "flow_contract (dc_contract dc)" and "plan_resolution dc a rq i d = Inr (t, h)"
  shows "a \<noteq> Feedback \<Longrightarrow> t_record_inquiry t"
    and "a = Feedback \<Longrightarrow> \<not> t_record_inquiry t \<and> t_state_after t = i_status_code i"
proof -
  obtain s where s: "resolve (dc_contract dc) s (cf_event_code (action_configs a)) = Inr t"
    "s_state s = Some (i_status_code i)"
    using resolution_plan [OF assms(2)] by blast
  show "t_record_inquiry t" if "a \<noteq> Feedback"
    using s flow_contract_rule(2) [OF assms(1)] that by (cases a) fastforce+
  show "\<not> t_record_inquiry t \<and> t_state_after t = i_status_code i" if "a = Feedback"
    using s flow_contract_rule(3,4) [OF assms(1)] that by fastforce
qed

lemma lock_resolution_in: "lock_resolution a rq d = Some i \<Longrightarrow> i \<in> set (db_inquiries d)"
  using lock_find_in by (auto simp: lock_resolution_def split: resolution_scope.splits)

end
