(* ===== verification/Retries.thy ===== *)
theory Retries
  imports ServiceCases
begin

text \<open>
  A second call with the same key and request: it finds the record the first one left, and the target
  it locks is still there, because the writes of a service keep what the locks look at.
\<close>

section \<open>What the locks look at\<close>

definition kept_targets :: "bool \<Rightarrow> db \<Rightarrow> db \<Rightarrow> bool" where
  "kept_targets asg d d' = (\<exists>g. db_inquiries d' = map g (db_inquiries d) \<and> keeps_target asg g)"

text \<open>Only the row of one inquiry changes.\<close>

definition touches :: "bool \<Rightarrow> inquiry_row \<Rightarrow> db \<Rightarrow> db \<Rightarrow> bool" where
  "touches asg i d d' =
     (\<exists>f. keeps_target asg f \<and> db_inquiries d' = map (\<lambda>r. if i_id r = i_id i then f r else r) (db_inquiries d))"

lemma touches_same: "db_inquiries d' = db_inquiries d \<Longrightarrow> touches asg i d d'"
  unfolding touches_def by (rule exI [of _ "\<lambda>r. r"]) (simp add: keeps_target_def)

lemma touches_kept: "touches asg i d d' \<Longrightarrow> kept_targets asg d d'"
  unfolding touches_def kept_targets_def
  by (elim exE conjE, rule exI, rule conjI, assumption) (simp add: keeps_target_def)

lemma touches_other: "touches asg i d d' \<Longrightarrow> j \<in> set (db_inquiries d) \<Longrightarrow> i_id j \<noteq> i_id i \<Longrightarrow> j \<in> set (db_inquiries d')"
  by (force simp: touches_def)

lemma locks_after:
  assumes "kept_targets asg d d'"
  shows "lock_owned_inquiry uid actor d = Some i \<Longrightarrow> \<exists>j. lock_owned_inquiry uid actor d' = Some j"
    and "lock_staff_inquiry uid d = Some i \<Longrightarrow> \<exists>j. lock_staff_inquiry uid d' = Some j"
    and "lock_routed rq d = Inr i \<Longrightarrow> \<exists>j. lock_routed rq d' = Inr j"
    and "asg \<Longrightarrow> lock_assigned_consultant_inquiry uid actor d = Some i \<Longrightarrow>
      \<exists>j. lock_assigned_consultant_inquiry uid actor d' = Some j"
    and "asg \<Longrightarrow> lock_cancellable_inquiry uid actor d = Some i \<Longrightarrow>
      \<exists>j. lock_cancellable_inquiry uid actor d' = Some j"
proof -
  obtain g where rows: "db_inquiries d' = map g (db_inquiries d)" and g: "keeps_target asg g"
    using assms by (auto simp: kept_targets_def)
  note same = g [unfolded keeps_target_def]
  show "\<exists>j. lock_owned_inquiry uid actor d' = Some j" if "lock_owned_inquiry uid actor d = Some i"
    using that unfolding lock_owned_inquiry_def rows
    by (intro exI) (erule find_map_preserved [rotated], simp add: same)
  show "\<exists>j. lock_staff_inquiry uid d' = Some j" if "lock_staff_inquiry uid d = Some i"
    using that unfolding lock_staff_inquiry_def rows
    by (intro exI) (erule find_map_preserved [rotated], simp add: same)
  show "\<exists>j. lock_routed rq d' = Inr j" if "lock_routed rq d = Inr i"
  proof -
    have c: "lock_claimable (rq_target rq) d = Some i" "can_access_contract (rq_actor rq) (su_contract_no (i_subscription i))"
      using that by (auto simp: lock_routed_def rbind_Inr_iff of_option_iff guard_or_iff)
    have "lock_claimable (rq_target rq) d' = Some (g i)"
      using c(1) unfolding lock_claimable_def rows by (rule find_map_preserved [rotated]) (simp add: same)
    then show ?thesis using c(2) by (simp add: lock_routed_def same)
  qed
  show "\<exists>j. lock_assigned_consultant_inquiry uid actor d' = Some j"
    if "asg" "lock_assigned_consultant_inquiry uid actor d = Some i"
    using that unfolding lock_assigned_consultant_inquiry_def rows
    by (intro exI) (erule find_map_preserved [rotated], simp add: same)
  show "\<exists>j. lock_cancellable_inquiry uid actor d' = Some j"
    if "asg" "lock_cancellable_inquiry uid actor d = Some i"
    using that unfolding lock_cancellable_inquiry_def rows Let_def
    by (auto split: if_splits intro!: exI elim!: find_map_preserved [rotated] simp: same)
qed

section \<open>The record a success leaves\<close>

definition answered_fresh ::
  "nat \<times> string \<times> string \<Rightarrow> string \<Rightarrow> idem_row list \<Rightarrow> request \<Rightarrow> db \<Rightarrow> outcome \<Rightarrow> db \<Rightarrow> bool" where
  "answered_fresh k hash races rq d out d' =
     (completed_record k hash races rq d out d' \<and> (\<exists>kvs. snd out = PDict kvs \<and> kvs \<noteq> []))"

lemma move_of_answered:
  assumes "move_of c asg rq operation d (claimed_db races r d) i t out d'"
    and "fresh_key (request_scope (rq_actor rq) operation (rq_key rq)) hash races d r"
  shows "answered_fresh (request_scope (rq_actor rq) operation (rq_key rq)) hash races rq d out d' \<and>
    touches asg i d d'"
proof -
  obtain d2 st kvs res where m: "recorded_move asg (rq_key rq) i t (claimed_db races r d) d2" "kvs \<noteq> []"
    and a: "answer_with rq operation st kvs res d2 = (out, d')"
    using assms(1) unfolding move_of_def by blast
  have idem: "db_idem d2 = db_idem d @ races @ [r]" using m(1) by (simp add: recorded_move_def)
  have "touches asg i d d'"
    using m(1) answered_keeps(1) [OF a] by (auto simp: recorded_move_def moved_rows_def touches_def)
  then show ?thesis
    using answered_completed [OF assms(2) refl a idem] answered_record [OF assms(2) refl a idem] m(2)
    by (simp add: answered_fresh_def)
qed

lemma success_replays:
  assumes "distinct (map idem_scope (db_idem d))" and "races_ok races d"
    and "replayed k hash races d (st, PDict kvs) d' \<or> answered_fresh k hash races rq d (st, PDict kvs) d'"
  shows "\<exists>r. lock_idempotency_scope k d' = Some r \<and> ir_request_hash r = hash \<and>
    replay_or_conflict r hash ''idempotent_replay'' =
      Inr (st, PDict (dict_set kvs ''idempotent_replay'' (PBool True)))"
  using assms(3)
proof
  assume "replayed k hash races d (st, PDict kvs) d'"
  then obtain r where r: "r \<in> set (db_idem d')" "idem_scope r = k" "d' = add_races races d"
    "replay_or_conflict r hash ''idempotent_replay'' = Inr (st, PDict kvs)"
    by (auto simp: replayed_def)
  have "distinct (map idem_scope (db_idem d'))" using r(3) assms(2) by (simp add: races_ok_def)
  then have "lock_idempotency_scope k d' = Some r" using r(1,2) by (rule lock_idempotency_scope_unique)
  then show ?thesis using r(4) by (auto simp: replay_Inr dict_set_idem)
next
  assume a: "answered_fresh k hash races rq d (st, PDict kvs) d'"
  then obtain r where r: "db_idem d' = db_idem d @ races @ [r]" "idem_scope r = k" "ir_request_hash r = hash"
    "ir_response_status r = Some st" "ir_response_body r = PDict kvs" "ir_completed_at r = Some (rq_now rq)"
    "k \<notin> idem_scope ` set (db_idem d @ races)" and kvs: "kvs \<noteq> []"
    unfolding answered_fresh_def completed_record_def by auto
  have "distinct (map idem_scope (db_idem d'))" using r assms(2) by (auto simp: races_ok_def)
  then have "lock_idempotency_scope k d' = Some r" using r(1,2) by (intro lock_idempotency_scope_unique) simp_all
  moreover have "replay_or_conflict r hash ''idempotent_replay'' =
      Inr (st, PDict (dict_set kvs ''idempotent_replay'' (PBool True)))"
    using r kvs by (auto simp: replay_Inr)
  ultimately show ?thesis using r(3) by blast
qed

text \<open>The second call, for any flow that still locks a target and answers its own record by replay.\<close>

lemma keyed_flow_retry:
  assumes "distinct (map idem_scope (db_idem d))" and "races_ok races d"
    and "replayed k hash races d (st, PDict kvs) d' \<or> answered_fresh k hash races rq d (st, PDict kvs) d'"
    and "\<exists>j. lock d' = Inr j"
    and "\<And>j r. ir_request_hash r = hash \<Longrightarrow> known j r d' = replay_or_conflict r hash ''idempotent_replay''"
  shows "keyed_flow races' k hash lock known plan apply d' =
    Inr ((st, PDict (dict_set kvs ''idempotent_replay'' (PBool True))), add_races races' d')"
  using success_replays [OF assms(1-3)] assms(4,5) by (auto simp: keyed_flow_def)

section \<open>Services that move an inquiry\<close>

text \<open>
  A success replayed, or it was planned for the event and recorded; either way only the inquiry \<open>i\<close>
  changed.
\<close>

definition settled ::
  "documents \<Rightarrow> bool \<Rightarrow> string \<Rightarrow> inquiry_row \<Rightarrow> nat \<times> string \<times> string \<Rightarrow> string \<Rightarrow> idem_row list \<Rightarrow>
     request \<Rightarrow> db \<Rightarrow> outcome \<Rightarrow> db \<Rightarrow> bool" where
  "settled dc asg event i k hash races rq d out d' =
     ((replayed k hash races d out d' \<or>
       answered_fresh k hash races rq d out d' \<and>
       (\<exists>es t. es_event es = event \<and> plan_event dc es rq i d = Inr t)) \<and> touches asg i d d')"

lemma settled_replay: "replayed k hash races d out d' \<Longrightarrow> settled dc asg event i k hash races rq d out d'"
  by (auto simp: settled_def replayed_def intro: touches_same)

lemma settled_move:
  assumes "plan_event dc es rq i d = Inr t" and "es_event es = event"
    and "move_of c asg rq operation d (claimed_db races r d) i t out d'"
    and "fresh_key (request_scope (rq_actor rq) operation (rq_key rq)) hash races d r"
  shows "settled dc asg event i (request_scope (rq_actor rq) operation (rq_key rq)) hash races rq d out d'"
  using move_of_answered [OF assms(3,4)] assms(1,2) by (auto simp: settled_def)

lemma settled_flow_retry:
  assumes "settled dc asg event i k hash races rq d (st, PDict kvs) d'"
    and "distinct (map idem_scope (db_idem d))" and "races_ok races d"
    and "kept_targets asg d d' \<Longrightarrow> \<exists>j. lock d' = Inr j"
    and "\<And>j r. ir_request_hash r = hash \<Longrightarrow> known j r d' = replay_or_conflict r hash ''idempotent_replay''"
  shows "keyed_flow races' k hash lock known plan apply d' =
    Inr ((st, PDict (dict_set kvs ''idempotent_replay'' (PBool True))), add_races races' d')"
proof (rule keyed_flow_retry [OF assms(2,3)])
  show "replayed k hash races d (st, PDict kvs) d' \<or> answered_fresh k hash races rq d (st, PDict kvs) d'"
    using assms(1) by (auto simp: settled_def)
  show "\<exists>j. lock d' = Inr j" using assms(1,4) touches_kept unfolding settled_def by blast
qed (rule assms(5))

lemma settled_feedback:
  assumes "fresh_key (request_scope (rq_actor rq) ''submitResolutionFeedback'' (rq_key rq)) hash races d r"
    and "\<not> t_record_inquiry t" and "plan_event dc es rq i d = Inr t" and "es_event es = event"
    and "apply_resolution dc Feedback rq i (t, handling) (claimed_db races r d) = Inr (out, d')"
  shows "settled dc True event i (request_scope (rq_actor rq) ''submitResolutionFeedback'' (rq_key rq)) hash races rq d out d'"
proof -
  let ?d = "claimed_db races r d"
  obtain h f d2 i' d3 es res where
    q: "create_resolved_feedback i h (t_version_after t) (opt_text_field rq ''comment'') (rq_now rq) ?d = Inr (f, d2)" and
    a: "apply_state_transition i (t_state_after t) (t_version_after t) d2 = Inr (i', d3)" and
    ans: "answer_with rq ''submitResolutionFeedback'' 200 (message_body ''msg.feedback_saved'' i' es) res d3 = (out, d')"
    using assms(2,5)
    by (auto simp: apply_resolution_def resolution_mutate_def move_inquiry_def rbind_Inr_iff respond_Inr)
  obtain f' where "insert_feedback f' ?d = Inr (f, d2)"
    using q unfolding create_resolved_feedback_def rbind_Inr_iff by blast
  from insert_feedback_Inr [OF this] have d2: "db_inquiries d2 = db_inquiries d" "db_idem d2 = db_idem d @ races @ [r]"
    by auto
  note d3 = apply_state_transition_Inr [OF a]
  have idem: "db_idem d3 = db_idem d @ races @ [r]" using d2 d3 by simp
  have "db_inquiries d' = map (\<lambda>q. if i_id q = i_id i
       then q\<lparr>i_status_code := t_state_after t, i_state_version := t_version_after t\<rparr> else q) (db_inquiries d)"
    using answered_keeps(1) [OF ans] d2 d3 by simp
  then have "touches True i d d'"
    unfolding touches_def
    by (intro exI [of _ "\<lambda>q. q\<lparr>i_status_code := t_state_after t, i_state_version := t_version_after t\<rparr>"])
      (simp add: keeps_target_def)
  then show ?thesis
    using answered_completed [OF assms(1) refl ans idem] answered_record [OF assms(1) refl ans idem] assms(3,4)
    by (auto simp: settled_def answered_fresh_def)
qed

lemma spec_events [simp]:
  "es_event (symptom_event dc rq i d) = ''SUBMIT_SYMPTOM''"
  "es_event (cancel_event dc rq i d) = ''CANCEL_INQUIRY''"
  "es_event (answers_event dc rq i d) = ''SUBMIT_ANSWERS''"
  "es_event (request_event dc rq i d) = ''REQUEST_CONSULTATION''"
  "es_event (claim_event dc rq i d) = ''CLAIM_CONSULTATION''"
  "es_event (resolution_event dc a rq i h d) = cf_event_code (action_configs a)"
  by (simp_all add: Let_def symptom_event_def cancel_event_def answers_event_def request_event_def claim_event_def resolution_event_def)

lemma submit_symptom_settled:
  assumes "submit_symptom dc races rq d = (Inr out, d')"
  shows "\<exists>i. lock_owned_inquiry (rq_target rq) (rq_actor rq) d = Some i \<and> settled dc True ''SUBMIT_SYMPTOM'' i
    (request_scope (rq_actor rq) ''submitSymptom'' (rq_key rq)) (symptom_hash rq) races rq d out d'"
  using submit_symptom_cases [OF assms] apply_symptom_move lock_find_in(1)
    settled_move [OF _ spec_events(1)] settled_replay
  by metis

lemma cancel_inquiry_settled:
  assumes "cancel_inquiry dc races rq d = (Inr out, d')"
  shows "\<exists>i. lock_cancellable_inquiry (rq_target rq) (rq_actor rq) d = Some i \<and> settled dc True ''CANCEL_INQUIRY'' i
    (request_scope (rq_actor rq) ''cancelInquiry'' (rq_key rq)) (cancel_hash rq) races rq d out d'"
  using cancel_inquiry_cases [OF assms] apply_cancel_move lock_find_in(2)
    settled_move [OF _ spec_events(2)] settled_replay
  by metis

lemma submit_answers_settled:
  assumes "flow_contract (dc_contract dc)" and "submit_answers dc races rq d = (Inr out, d')"
  shows "\<exists>i. lock_owned_inquiry (rq_target rq) (rq_actor rq) d = Some i \<and> settled dc True ''SUBMIT_ANSWERS'' i
    (request_scope (rq_actor rq) ''submitFollowUpAnswers'' (rq_key rq)) (answers_hash rq) races rq d out d'"
  using submit_answers_cases [OF assms(2)] apply_answers_move lock_find_in(1) answers_plan_recorded [OF assms(1)]
    settled_move [OF _ spec_events(3)] settled_replay
  by metis

lemma request_consultation_settled:
  assumes "flow_contract (dc_contract dc)" and "request_consultation dc races rq d = (Inr out, d')"
  shows "\<exists>i. lock_owned_inquiry (rq_target rq) (rq_actor rq) d = Some i \<and> settled dc True ''REQUEST_CONSULTATION'' i
    (request_scope (rq_actor rq) ''requestConsultation'' (rq_key rq)) (body_hash rq) races rq d out d'"
  using request_consultation_cases [OF assms(2)] apply_request_move lock_find_in(1) request_plan_recorded [OF assms(1)]
    settled_move [OF _ spec_events(4)] settled_replay
  by metis

lemma claim_consultation_settled:
  assumes "flow_contract (dc_contract dc)" and "claim_consultation dc races rq d = (Inr out, d')"
  shows "\<exists>i. lock_routed rq d = Inr i \<and> settled dc False ''CLAIM_CONSULTATION'' i
    (request_scope (rq_actor rq) ''claimConsultation'' (rq_key rq)) (body_hash rq) races rq d out d'"
  using claim_consultation_cases [OF assms(2)] apply_claim_move lock_routed_in claim_plan_recorded [OF assms(1)]
    settled_move [OF _ spec_events(5)] settled_replay
  by metis

lemma resolve_inquiry_settled:
  assumes "flow_contract (dc_contract dc)" and "resolve_inquiry dc a races rq d = (Inr out, d')"
  shows "\<exists>i. lock_resolution a rq d = Some i \<and> settled dc True (cf_event_code (action_configs a)) i
    (request_scope (rq_actor rq) (cf_operation_id (action_configs a)) (rq_key rq)) (body_hash rq) races rq d out d'"
proof -
  let ?k = "request_scope (rq_actor rq) (cf_operation_id (action_configs a)) (rq_key rq)"
  obtain i where i: "lock_resolution a rq d = Some i" and cases:
    "replayed ?k (body_hash rq) races d out d' \<or>
     (\<exists>t h r. plan_resolution dc a rq i d = Inr (t, h) \<and> fresh_key ?k (body_hash rq) races d r \<and>
        apply_resolution dc a rq i (t, h) (claimed_db races r d) = Inr (out, d'))"
    using resolve_inquiry_cases [OF assms(2)] by blast
  from cases have "settled dc True (cf_event_code (action_configs a)) i ?k (body_hash rq) races rq d out d'"
  proof (elim disjE exE conjE)
    fix t h r assume p: "plan_resolution dc a rq i d = Inr (t, h)" and k: "fresh_key ?k (body_hash rq) races d r"
      and ap: "apply_resolution dc a rq i (t, h) (claimed_db races r d) = Inr (out, d')"
    note plan = plan_resolution_Inr(3) [OF p] and recorded = resolution_plan_recorded [OF assms(1) p]
    show ?thesis
    proof (cases "a = Feedback")
      case True
      have "\<not> t_record_inquiry t" using recorded(2) True by simp
      from settled_feedback [OF k [unfolded True action_configs.simps action_config.select_convs] this
          plan spec_events(6) ap [unfolded True]]
      show ?thesis by (simp add: True)
    next
      case False
      show ?thesis
        using settled_move [OF plan spec_events(6) apply_resolution_move [OF plan lock_resolution_in [OF i]
            recorded(1) [OF False] False ap] k] .
    qed
  qed (rule settled_replay)
  then show ?thesis using i by blast
qed

section \<open>Creations\<close>

text \<open>Subscriptions are never written.\<close>

lemma insert_inquiry_subscriptions: "insert_inquiry i d = Inr (i', d') \<Longrightarrow> db_subscriptions d' = db_subscriptions d"
  by (auto simp: insert_inquiry_def Let_def split: if_splits)

lemma insert_symptom_subscriptions: "insert_symptom y d = Inr d' \<Longrightarrow> db_subscriptions d' = db_subscriptions d"
  by (auto simp: insert_symptom_def split: if_splits)

lemma history_subscriptions:
  "record_start_inquiry i actor corr key now d = Inr d' \<Longrightarrow> db_subscriptions d' = db_subscriptions d"
  "record_inquiry_action i t actor corr key reason now d = Inr d' \<Longrightarrow> db_subscriptions d' = db_subscriptions d"
  by (auto simp: record_start_inquiry_def record_inquiry_action_def create_transition_history_def insert_history_Inr)

lemma link_questionnaire_subscriptions:
  "link_questionnaire q i actor corr key now d = Inr d' \<Longrightarrow> db_subscriptions d' = db_subscriptions d"
  by (auto simp: link_questionnaire_def Let_def record_questionnaire_action_def insert_history_Inr
      split: option.splits if_splits)

lemma apply_creation_answered:
  assumes "fresh_key (request_scope (rq_actor rq) ''startInquiry'' (rq_key rq)) hash races d r"
    and "apply_creation dc rq p u (claimed_db races r d) = Inr (out, d')"
    and "completed_record (request_scope (rq_actor rq) ''startInquiry'' (rq_key rq)) hash races rq d out d'"
  shows "answered_fresh (request_scope (rq_actor rq) ''startInquiry'' (rq_key rq)) hash races rq d out d' \<and>
    db_subscriptions d' = db_subscriptions d"
proof -
  obtain s channel raw where p: "p = (s, channel, raw)" by (cases p)
  obtain q i d1 d2 d3 d4 es where
    "create_inquiry s (rq_actor rq) channel raw (opt_uuid_field rq ''questionnaire_session_id'')
      (claimed_db races r d) = Inr (i, d1)"
    "link_questionnaire q i (rq_actor rq) (rq_correlation rq) (rq_key rq) (rq_now rq) d1 = Inr d2"
    "(case opt_text_field rq ''representative_symptom_code'' of
      None \<Rightarrow> Inr d2 | Some code \<Rightarrow> create_representative_symptom i code d2) = Inr d3"
    "record_start_inquiry i (rq_actor rq) (rq_correlation rq) (rq_key rq) (rq_now rq) d3 = Inr d4" and
    ans: "answer_with rq ''startInquiry'' 201 (created_body i es) (i_public_id i) d4 = (out, d')"
    using assms(2) by (auto simp: apply_creation_def rbind_Inr_iff p)
  then have "db_subscriptions d4 = db_subscriptions d"
    by (auto simp: create_inquiry_def create_representative_symptom_def split: option.splits
        dest!: insert_inquiry_subscriptions insert_symptom_subscriptions history_subscriptions
          link_questionnaire_subscriptions)
  moreover have "snd out = PDict (created_body i es)" using ans by (auto simp: answer_with_def)
  ultimately show ?thesis using assms(3) answered_keeps(5) [OF ans] by (auto simp: answered_fresh_def)
qed

lemma apply_phone_answered:
  assumes "apply_phone dc rq p t (claimed_db races r d) = Inr (out, d')"
    and "completed_record k hash races rq d out d'"
  shows "answered_fresh k hash races rq d out d' \<and> db_subscriptions d' = db_subscriptions d"
proof -
  obtain s raw code priority where p: "p = (s, raw, code, priority)" by (cases p)
  obtain i d1 d2 d3 es where
    "create_phone_inquiry s rq raw priority t (claimed_db races r d) = Inr (i, d1)"
    "create_phone_symptom i code d1 = Inr d2"
    "record_inquiry_action i t (rq_actor rq) (rq_correlation rq) (rq_key rq) None (rq_now rq) d2 = Inr d3" and
    ans: "answer_with rq ''registerConsultantPhoneInquiry'' 201 (created_body i es) (i_public_id i) d3 = (out, d')"
    using assms(1) by (auto simp: apply_phone_def rbind_Inr_iff p)
  then have "db_subscriptions d3 = db_subscriptions d"
    by (auto simp: create_phone_inquiry_def create_phone_symptom_def
        dest!: insert_inquiry_subscriptions insert_symptom_subscriptions history_subscriptions)
  moreover have "snd out = PDict (created_body i es)" using ans by (auto simp: answer_with_def)
  ultimately show ?thesis using assms(2) answered_keeps(5) [OF ans] by (auto simp: answered_fresh_def)
qed

section \<open>Retries\<close>

lemma submit_symptom_retry:
  assumes "distinct (map idem_scope (db_idem d))" and "races_ok races d"
    and "submit_symptom dc races rq d = (Inr (st, PDict kvs), d')"
  shows "submit_symptom dc races' rq d' =
    (Inr (st, PDict (dict_set kvs ''idempotent_replay'' (PBool True))), add_races races' d')"
proof -
  obtain i where i: "lock_owned_inquiry (rq_target rq) (rq_actor rq) d = Some i" and s: "settled dc True ''SUBMIT_SYMPTOM'' i
      (request_scope (rq_actor rq) ''submitSymptom'' (rq_key rq)) (symptom_hash rq) races rq d (st, PDict kvs) d'"
    using submit_symptom_settled [OF assms(3)] by blast
  have "submit_symptom_body dc races rq d = Inr ((st, PDict kvs), d')"
    using assms(3) by (simp add: submit_symptom_def atomically_Inr)
  then obtain v where v: "field rq ''state_version'' = Inr v" by (auto simp: submit_symptom_body_def rbind_Inr_iff)
  show ?thesis unfolding submit_symptom_def atomically_Inr submit_symptom_body_def v rbind.simps
    using i by (intro settled_flow_retry [OF s assms(1,2)]) (auto simp: replay_known_def of_option_iff dest: locks_after(1))
qed

lemma submit_answers_retry:
  assumes "flow_contract (dc_contract dc)" and "distinct (map idem_scope (db_idem d))" and "races_ok races d"
    and "submit_answers dc races rq d = (Inr (st, PDict kvs), d')"
  shows "submit_answers dc races' rq d' =
    (Inr (st, PDict (dict_set kvs ''idempotent_replay'' (PBool True))), add_races races' d')"
proof -
  obtain i where i: "lock_owned_inquiry (rq_target rq) (rq_actor rq) d = Some i" and s: "settled dc True ''SUBMIT_ANSWERS'' i
      (request_scope (rq_actor rq) ''submitFollowUpAnswers'' (rq_key rq)) (answers_hash rq) races rq d (st, PDict kvs) d'"
    using submit_answers_settled [OF assms(1,4)] by blast
  show ?thesis unfolding submit_answers_def atomically_Inr submit_answers_body_def
    using i by (intro settled_flow_retry [OF s assms(2,3)]) (auto simp: replay_known_def of_option_iff dest: locks_after(1))
qed

lemma cancel_inquiry_retry:
  assumes "distinct (map idem_scope (db_idem d))" and "races_ok races d"
    and "cancel_inquiry dc races rq d = (Inr (st, PDict kvs), d')"
  shows "cancel_inquiry dc races' rq d' =
    (Inr (st, PDict (dict_set kvs ''idempotent_replay'' (PBool True))), add_races races' d')"
proof -
  obtain i where i: "lock_cancellable_inquiry (rq_target rq) (rq_actor rq) d = Some i" and s: "settled dc True ''CANCEL_INQUIRY'' i
      (request_scope (rq_actor rq) ''cancelInquiry'' (rq_key rq)) (cancel_hash rq) races rq d (st, PDict kvs) d'"
    using cancel_inquiry_settled [OF assms(3)] by blast
  obtain reason where r: "text_field rq ''reason_code'' = Inr reason" using cancel_inquiry_cases [OF assms(3)] by blast
  have "cancel_body dc races rq d = Inr ((st, PDict kvs), d')"
    using assms(3) by (simp add: cancel_inquiry_def atomically_Inr)
  then obtain v where v: "field rq ''state_version'' = Inr v" by (auto simp: cancel_body_def rbind_Inr_iff)
  show ?thesis unfolding cancel_inquiry_def atomically_Inr cancel_body_def v r rbind.simps
    using i by (intro settled_flow_retry [OF s assms(1,2)]) (auto simp: replay_known_def of_option_iff dest: locks_after(5))
qed

lemma request_consultation_retry:
  assumes "flow_contract (dc_contract dc)" and "distinct (map idem_scope (db_idem d))" and "races_ok races d"
    and "request_consultation dc races rq d = (Inr (st, PDict kvs), d')"
  shows "request_consultation dc races' rq d' =
    (Inr (st, PDict (dict_set kvs ''idempotent_replay'' (PBool True))), add_races races' d')"
proof -
  obtain i where i: "lock_owned_inquiry (rq_target rq) (rq_actor rq) d = Some i" and s: "settled dc True ''REQUEST_CONSULTATION'' i
      (request_scope (rq_actor rq) ''requestConsultation'' (rq_key rq)) (body_hash rq) races rq d (st, PDict kvs) d'"
    using request_consultation_settled [OF assms(1,4)] by blast
  show ?thesis unfolding request_consultation_def atomically_Inr request_consultation_body_def
    using i by (intro settled_flow_retry [OF s assms(2,3)]) (auto simp: replay_known_def of_option_iff dest: locks_after(1))
qed

lemma claim_consultation_retry:
  assumes "flow_contract (dc_contract dc)" and "distinct (map idem_scope (db_idem d))" and "races_ok races d"
    and "claim_consultation dc races rq d = (Inr (st, PDict kvs), d')"
  shows "claim_consultation dc races' rq d' =
    (Inr (st, PDict (dict_set kvs ''idempotent_replay'' (PBool True))), add_races races' d')"
proof -
  obtain i where i: "lock_routed rq d = Inr i" and s: "settled dc False ''CLAIM_CONSULTATION'' i
      (request_scope (rq_actor rq) ''claimConsultation'' (rq_key rq)) (body_hash rq) races rq d (st, PDict kvs) d'"
    using claim_consultation_settled [OF assms(1,4)] by blast
  show ?thesis unfolding claim_consultation_def atomically_Inr claim_consultation_body_def
    using i by (intro settled_flow_retry [OF s assms(2,3)]) (auto simp: replay_known_def claim_known_def dest: locks_after(3))
qed

lemma resolve_inquiry_retry:
  assumes "flow_contract (dc_contract dc)" and "distinct (map idem_scope (db_idem d))" and "races_ok races d"
    and "resolve_inquiry dc a races rq d = (Inr (st, PDict kvs), d')"
  shows "resolve_inquiry dc a races' rq d' =
    (Inr (st, PDict (dict_set kvs ''idempotent_replay'' (PBool True))), add_races races' d')"
proof -
  obtain i where i: "lock_resolution a rq d = Some i" and s: "settled dc True (cf_event_code (action_configs a)) i
      (request_scope (rq_actor rq) (cf_operation_id (action_configs a)) (rq_key rq)) (body_hash rq) races rq d (st, PDict kvs) d'"
    using resolve_inquiry_settled [OF assms(1,4)] by blast
  show ?thesis unfolding resolve_inquiry_def atomically_Inr resolution_body_def Let_def
    using i by (intro settled_flow_retry [OF s assms(2,3)]) (auto simp: replay_known_def of_option_iff lock_resolution_def split: resolution_scope.splits dest: locks_after(1,2,4))
qed

lemma start_inquiry_retry:
  assumes "flow_contract (dc_contract dc)" and "distinct (map idem_scope (db_idem d))" and "races_ok races d"
    and "start_inquiry dc races rq d = (Inr (st, PDict kvs), d')"
  shows "start_inquiry dc races' rq d' =
    (Inr (st, PDict (dict_set kvs ''idempotent_replay'' (PBool True))), add_races races' d')"
proof -
  let ?k = "request_scope (rq_actor rq) ''startInquiry'' (rq_key rq)" and ?out = "(st, PDict kvs)"
  obtain uid p where u: "uuid_field rq ''subscription_id'' = Inr uid" "lock_subscription rq uid d = Inr p"
    and c: "replayed ?k (create_hash rq) races d ?out d' \<or>
     (\<exists>r. fresh_key ?k (create_hash rq) races d r \<and> apply_creation dc rq p () (claimed_db races r d) = Inr (?out, d'))"
    using start_inquiry_cases [OF assms(4)] by blast
  from c have "(replayed ?k (create_hash rq) races d ?out d' \<or> answered_fresh ?k (create_hash rq) races rq d ?out d') \<and>
      db_subscriptions d' = db_subscriptions d"
  proof (elim disjE exE conjE)
    fix r assume k: "fresh_key ?k (create_hash rq) races d r"
      and a: "apply_creation dc rq p () (claimed_db races r d) = Inr (?out, d')"
    obtain i where "creation_effect (dc_contract dc) ?k (create_hash rq) races rq d i ?out d'"
      using apply_creation_effect [OF assms(1) k] a by (cases p) blast
    then have "completed_record ?k (create_hash rq) races rq d ?out d'" by (simp add: creation_effect_def)
    from apply_creation_answered [OF k a this] show ?thesis by simp
  qed (auto simp: replayed_def)
  moreover from this u(2) have "lock_subscription rq uid d' = Inr p"
    by (simp add: lock_subscription_def find_active_owned_subscription_def)
  ultimately show ?thesis
    unfolding start_inquiry_def atomically_Inr create_body_def u(1) rbind.simps lock_subscription_def [symmetric]
    by (intro keyed_flow_retry [OF assms(2,3)]) (blast | simp add: replay_known_def)+
qed

lemma register_phone_retry:
  assumes "distinct (map idem_scope (db_idem d))" and "races_ok races d"
    and "register_phone_inquiry dc races rq d = (Inr (st, PDict kvs), d')"
  shows "register_phone_inquiry dc races' rq d' =
    (Inr (st, PDict (dict_set kvs ''idempotent_replay'' (PBool True))), add_races races' d')"
proof -
  let ?k = "request_scope (rq_actor rq) ''registerConsultantPhoneInquiry'' (rq_key rq)" and ?out = "(st, PDict kvs)"
  obtain uid p where u: "uuid_field rq ''subscription_id'' = Inr uid" "lock_phone_subscription rq uid d = Inr p"
    and c: "replayed ?k (phone_hash rq) races d ?out d' \<or>
     (\<exists>t r. plan_phone dc rq = Inr t \<and> fresh_key ?k (phone_hash rq) races d r \<and>
        apply_phone dc rq p t (claimed_db races r d) = Inr (?out, d'))"
    using register_phone_cases [OF assms(3)] by blast
  from c have "(replayed ?k (phone_hash rq) races d ?out d' \<or> answered_fresh ?k (phone_hash rq) races rq d ?out d') \<and>
      db_subscriptions d' = db_subscriptions d"
  proof (elim disjE exE conjE)
    fix t r assume t: "plan_phone dc rq = Inr t" and k: "fresh_key ?k (phone_hash rq) races d r"
      and a: "apply_phone dc rq p t (claimed_db races r d) = Inr (?out, d')"
    obtain i where "creation_effect (dc_contract dc) ?k (phone_hash rq) races rq d i ?out d'"
      using apply_phone_effect [OF t k] a by (cases p) blast
    then have "completed_record ?k (phone_hash rq) races rq d ?out d'" by (simp add: creation_effect_def)
    from apply_phone_answered [OF a this] show ?thesis by simp
  qed (auto simp: replayed_def)
  moreover from this u(2) have "lock_phone_subscription rq uid d' = Inr p"
    by (simp add: lock_phone_subscription_def lock_active_synthetic_subscription_def)
  ultimately show ?thesis
    unfolding register_phone_inquiry_def atomically_Inr register_phone_body_def u(1) rbind.simps
      lock_phone_subscription_def [symmetric]
    by (intro keyed_flow_retry [OF assms(1,2)]) (blast | simp add: replay_known_def)+
qed

end
