(* ===== verification/ServiceSafety.thy ===== *)
theory ServiceSafety
  imports Retries
begin

text \<open>
  What single services guarantee beyond the ledger: a claim has one winner, a cancelled inquiry leaves
  no consultation and no AI run active, a questionnaire is linked to one inquiry, and reserved
  contracts stay with their consultant.
\<close>

section \<open>Unknown keys\<close>

lemma unknown_key: "k \<notin> idem_scope ` set (db_idem d) \<Longrightarrow> lock_idempotency_scope k d = None"
  unfolding lock_idempotency_scope_def find_None_iff by (metis image_eqI)

lemma claim_unknown_key:
  assumes "k \<notin> idem_scope ` set (db_idem d @ races)"
  shows "\<exists>r. claim_key k hash (add_races races d) = Inr (None, claimed_db races r d)"
proof -
  have "k \<notin> idem_scope ` set (db_idem (add_races races d))" using assms by simp
  then show ?thesis
    by (simp add: claim_key_def create_idempotency_record_def claimed_db_def add_races_def del: image_iff) blast
qed

section \<open>Claims\<close>

lemma claim_assigns:
  assumes "claim_consultation dc races rq d = (Inr out, d')"
    and "\<not> replayed (request_scope (rq_actor rq) ''claimConsultation'' (rq_key rq)) (body_hash rq) races d out d'"
  shows "\<exists>i v. lock_claimable (rq_target rq) d = Some i \<and>
    can_access_contract (rq_actor rq) (su_contract_no (i_subscription i)) \<and> i_assigned_user_id i = None \<and>
    db_inquiries d' = map (\<lambda>r. if i_id r = i_id i
      then r\<lparr>i_assigned_user_id := Some (u_id (rq_actor rq)), i_assigned_role_code := ''CONSULTANT'',
             i_state_version := v\<rparr> else r) (db_inquiries d)"
proof -
  obtain i t c r where i: "lock_routed rq d = Inr i" "is_claimable i (Some c)"
    and a: "apply_claim dc rq i (t, c) (claimed_db races r d) = Inr (out, d')"
    using claim_consultation_cases [OF assms(1)] assms(2) by blast
  obtain i' d1 c' d2 d3 where
    s: "assign_consultant i (rq_actor rq) (t_version_after t) (claimed_db races r d) = Inr (i', d1)" and
    q: "consultation_claim c (rq_actor rq) (t_version_after t) (rq_key rq) (rq_correlation rq) d1 = Inr (c', d2)" and
    h: "(if t_record_business t
         then record_inquiry_action i' t (rq_actor rq) (rq_correlation rq) (rq_key rq) None (rq_now rq) d2
         else Inr d2) = Inr d3" and
    ans: "respond dc rq ''claimConsultation'' 200 (message_body ''msg.consultation_claimed'') i'
      (consultation_arg (Some c')) (i_public_id i') d3 = Inr (out, d')"
    using a by (auto simp: apply_claim_def rbind_Inr_iff)
  have "db_inquiries d3 = db_inquiries d1"
    using consultation_claim_quiet [OF q] h recorded_rows(1)
    by (auto simp: quiet_def appended_def split: if_splits dest!: recorded_rows(1))
  moreover have "db_inquiries d' = db_inquiries d3"
    using ans answered_keeps(1) unfolding respond_Inr by blast
  ultimately show ?thesis
    using i update_inquiry_Inr [OF s [unfolded assign_consultant_def]]
    by (auto simp: lock_routed_def rbind_Inr_iff of_option_iff guard_or_iff is_claimable_def)
qed

lemma claim_concealed:
  assumes "lock_claimable (rq_target rq) d = Some i" and "i_assigned_user_id i \<noteq> None"
    and "lock_idempotency_scope (request_scope (rq_actor rq) ''claimConsultation'' (rq_key rq)) d = None"
  shows "claim_consultation dc races rq d = (Inl Not_found, add_races races d)"
proof -
  have "claim_consultation_body dc races rq d = Inl Not_found"
    using assms
    by (cases "can_access_contract (rq_actor rq) (su_contract_no (i_subscription i))";
        cases "lock_latest_consultation i d")
      (auto simp: claim_consultation_body_def keyed_flow_def lock_routed_def is_claimable_def)
  then show ?thesis by (simp add: claim_consultation_def atomically_def)
qed

lemma claim_one_winner:
  assumes "claim_consultation dc races rq d = (Inr out, d')"
    and "\<not> replayed (request_scope (rq_actor rq) ''claimConsultation'' (rq_key rq)) (body_hash rq) races d out d'"
    and "rq_target rq2 = rq_target rq"
    and "request_scope (rq_actor rq2) ''claimConsultation'' (rq_key rq2) \<notin> idem_scope ` set (db_idem d')"
  shows "claim_consultation dc races2 rq2 d' = (Inl Not_found, add_races races2 d')"
proof -
  obtain i v where i: "lock_claimable (rq_target rq) d = Some i" and rows: "db_inquiries d' = map (\<lambda>r. if i_id r = i_id i
      then r\<lparr>i_assigned_user_id := Some (u_id (rq_actor rq)), i_assigned_role_code := ''CONSULTANT'',
             i_state_version := v\<rparr> else r) (db_inquiries d)"
    using claim_assigns [OF assms(1,2)] by blast
  have "lock_claimable (rq_target rq2) d' = Some (i\<lparr>i_assigned_user_id := Some (u_id (rq_actor rq)),
      i_assigned_role_code := ''CONSULTANT'', i_state_version := v\<rparr>)"
    using find_map_preserved [OF _ i [unfolded lock_claimable_def], of "\<lambda>r. if i_id r = i_id i
      then r\<lparr>i_assigned_user_id := Some (u_id (rq_actor rq)), i_assigned_role_code := ''CONSULTANT'',
             i_state_version := v\<rparr> else r"]
    by (simp add: lock_claimable_def rows assms(3))
  moreover have "lock_idempotency_scope (request_scope (rq_actor rq2) ''claimConsultation'' (rq_key rq2)) d' = None"
    using assms(4) by (rule unknown_key)
  ultimately show ?thesis by (intro claim_concealed) auto
qed

section \<open>Cancellation\<close>

definition active_consultations :: "nat \<Rightarrow> db \<Rightarrow> consultation_row list" where
  "active_consultations n d =
     filter (\<lambda>c. co_inquiry_id c = n \<and> co_status c \<in> {''WAITING'', ''ASSIGNED'', ''IN_PROGRESS''}) (db_consultations d)"

definition active_runs :: "nat \<Rightarrow> db \<Rightarrow> ai_run_row list" where
  "active_runs n d =
     filter (\<lambda>r. ar_inquiry_id r = n \<and> ar_status_code r \<in> {''QUEUED'', ''RUNNING'', ''RETRYING''}) (db_ai_runs d)"

lemma update_consultation_rows:
  "update_consultation f c d = Inr (c', d') \<Longrightarrow>
     db_consultations d' = map (\<lambda>r. if co_id r = co_id c then f r else r) (db_consultations d)"
  by (auto simp: update_consultation_def split: if_splits)

lemma cancel_active_none:
  assumes "cancel_active i v key corr d = Inr (c, d')"
  shows "active_consultations (i_id i) d' = []"
proof -
  let ?P = "\<lambda>c. co_inquiry_id c = i_id i \<and> co_status c \<in> {''WAITING'', ''ASSIGNED'', ''IN_PROGRESS''}"
  let ?xs = "sort_key (\<lambda>c. (Desc (co_sequence c), Desc (co_id c)))
    (filter (\<lambda>c. co_status c \<in> {''WAITING'', ''ASSIGNED'', ''IN_PROGRESS''}) (consultations_of i d))"
  have set: "set ?xs = {c \<in> set (db_consultations d). ?P c}" by (auto simp: consultations_of_def)
  show ?thesis
  proof (cases ?xs)
    case Nil
    then have "d' = d" using assms by (simp add: cancel_active_def)
    moreover have "\<not> ?P c" if "c \<in> set (db_consultations d)" for c
    proof -
      have "{c \<in> set (db_consultations d). ?P c} = {}" using set unfolding Nil by simp
      then show ?thesis using that by blast
    qed
    ultimately show ?thesis by (simp add: active_consultations_def filter_empty_conv)
  next
    case (Cons x xs)
    then have "xs = []" using assms by (auto simp: cancel_active_def split: list.splits)
    then have one: "{c \<in> set (db_consultations d). ?P c} = {x}" using set unfolding Cons \<open>xs = []\<close> by simp
    obtain c' where "update_consultation (\<lambda>r. stamp v key corr
        (r\<lparr>co_status := ''CANCELLED'', co_outcome := ''PENDING'', co_completed_at := None\<rparr>)) x d = Inr (c', d')"
      using assms Cons \<open>xs = []\<close> by (auto simp: cancel_active_def rbind_Inr_iff)
    note rows = update_consultation_rows [OF this]
    have "\<not> ?P c" if c: "c \<in> set (db_consultations d')" for c
    proof -
      obtain r where r: "r \<in> set (db_consultations d)"
        "c = (if co_id r = co_id x then stamp v key corr (r\<lparr>co_status := ''CANCELLED'', co_outcome := ''PENDING'',
          co_completed_at := None\<rparr>) else r)"
        using c rows by auto
      show ?thesis
      proof (cases "co_id r = co_id x")
        case True
        then show ?thesis using r(2) by (simp add: stamp_def)
      next
        case False
        then have "r \<noteq> x" by auto
        then show ?thesis using one r False by auto
      qed
    qed
    then show ?thesis by (auto simp: active_consultations_def filter_empty_conv)
  qed
qed

lemma cancel_active_ai_runs_none:
  assumes "cancel_active_ai_runs i now d = Inr d'"
  shows "active_runs (i_id i) d' = []"
  using assms
  by (auto simp: cancel_active_ai_runs_def active_runs_def filter_empty_conv active_run_def cancelled_run_def
      split: if_splits)

lemma cancel_stops:
  assumes "cancel_inquiry dc races rq d = (Inr out, d')"
    and "\<not> replayed (request_scope (rq_actor rq) ''cancelInquiry'' (rq_key rq)) (cancel_hash rq) races d out d'"
  shows "\<exists>i t s. lock_cancellable_inquiry (rq_target rq) (rq_actor rq) d = Some i \<and>
    resolve (dc_contract dc) s ''CANCEL_INQUIRY'' = Inr t \<and>
    (\<exists>j \<in> set (db_inquiries d'). i_id j = i_id i \<and> i_status_code j = t_state_after t \<and>
       i_cancelled_at j = Some (rq_now rq)) \<and>
    active_consultations (i_id i) d' = [] \<and> active_runs (i_id i) d' = []"
proof -
  obtain i reason t r where i: "lock_cancellable_inquiry (rq_target rq) (rq_actor rq) d = Some i"
    and p: "plan_event dc (cancel_event dc rq i d) rq i d = Inr t"
    and ap: "apply_cancel dc rq reason (opt_text_field rq ''reason_detail'') i t (claimed_db races r d) = Inr (out, d')"
    using cancel_inquiry_cases [OF assms(1)] assms(2) by blast
  obtain c d1 i' d2 d3 d4 where
    q: "cancel_active i (t_version_after t) (rq_key rq) (rq_correlation rq) (claimed_db races r d) = Inr (c, d1)" and
    m: "mark_cancelled i (t_state_after t) (t_version_after t) reason (opt_text_field rq ''reason_detail'')
      (rq_now rq) d1 = Inr (i', d2)" and
    k: "cancel_active_ai_runs i' (rq_now rq) d2 = Inr d3" and
    h: "record_cancel_inquiry i' t (rq_actor rq) (rq_correlation rq) (rq_key rq) reason
      (opt_text_field rq ''reason_detail'') (rq_now rq) d3 = Inr d4" and
    ans: "respond dc rq ''cancelInquiry'' 200 state_body i' no_args (i_public_id i') d4 = Inr (out, d')"
    using ap by (auto simp: apply_cancel_def rbind_Inr_iff)
  note m' = update_inquiry_Inr [OF m [unfolded mark_cancelled_def]]
  have d3: "db_inquiries d3 = db_inquiries d2" "db_consultations d3 = db_consultations d1"
    using k m' by (auto simp: cancel_active_ai_runs_def split: if_splits)
  obtain es where a: "answer_with rq ''cancelInquiry'' 200 (state_body i' es) (i_public_id i') d4 = (out, d')"
    using ans unfolding respond_Inr by blast
  have "db_inquiries d4 = db_inquiries d3 \<and> db_consultations d4 = db_consultations d3 \<and> db_ai_runs d4 = db_ai_runs d3"
    using recorded_rows(3) [OF h] by (auto simp: appended_def)
  then have d': "db_inquiries d' = db_inquiries d3" "db_consultations d' = db_consultations d3"
    "db_ai_runs d' = db_ai_runs d3"
    using answered_keeps(1,6,7) [OF a] by simp_all
  have "i \<in> set (db_inquiries d1)"
    using lock_find_in(2) [OF i] cancel_active_quiet [OF q] by (simp add: quiet_def)
  then have "\<exists>j \<in> set (db_inquiries d'). i_id j = i_id i \<and> i_status_code j = t_state_after t \<and>
      i_cancelled_at j = Some (rq_now rq)"
    using d' d3 m' by (intro bexI [of _ i']) (auto intro: rev_image_eqI [of i])
  moreover have "active_consultations (i_id i) d' = []"
    using cancel_active_none [OF q] d' d3 by (simp add: active_consultations_def)
  moreover have "active_runs (i_id i) d' = []"
    using cancel_active_ai_runs_none [OF k] d' m' by (simp add: active_runs_def)
  ultimately show ?thesis using i plan_event_resolves [OF p] by auto
qed

section \<open>Questionnaires\<close>

lemma insert_inquiry_questionnaires:
  "insert_inquiry i d = Inr (i', d') \<Longrightarrow> db_questionnaires d' = db_questionnaires d"
  by (auto simp: insert_inquiry_def Let_def split: if_splits)

lemma insert_symptom_questionnaires:
  "insert_symptom y d = Inr d' \<Longrightarrow> db_questionnaires d' = db_questionnaires d"
  by (auto simp: insert_symptom_def split: if_splits)

lemma start_row_questionnaires:
  "record_start_inquiry i actor corr key now d = Inr d' \<Longrightarrow> db_questionnaires d' = db_questionnaires d"
  by (auto simp: record_start_inquiry_def create_transition_history_def insert_history_Inr)

lemma answer_questionnaires:
  "answer_with rq op st kvs res d = (out, d') \<Longrightarrow> db_questionnaires d' = db_questionnaires d"
  by (auto simp: answer_with_def complete_idempotency_record_def)

lemma link_questionnaire_rows:
  assumes "link_questionnaire (Some q) i actor corr key now d = Inr d'"
  shows "db_questionnaires d' = map (\<lambda>r. if qs_id r = qs_id q
    then q\<lparr>qs_inquiry_id := Some (i_id i), qs_linked_at := Some now, qs_state_version := qs_state_version q + 1\<rparr>
    else r) (db_questionnaires d)"
  using assms
  by (auto simp: link_questionnaire_def Let_def record_questionnaire_action_def insert_history_Inr split: if_splits)

text \<open>A fresh creation with a questionnaire found it submitted and free, and leaves it linked.\<close>

lemma creation_links:
  assumes "start_inquiry dc races rq d = (Inr out, d')"
    and "\<not> replayed (request_scope (rq_actor rq) ''startInquiry'' (rq_key rq)) (create_hash rq) races d out d'"
    and "opt_uuid_field rq ''questionnaire_session_id'' = Some u"
  shows "\<exists>uid s q n v. uuid_field rq ''subscription_id'' = Inr uid \<and>
    find_active_owned_subscription uid (rq_actor rq) d = Some s \<and>
    lock_link_candidate u (rq_actor rq) s d = Some q \<and> qs_status_code q = ''SUBMITTED'' \<and> qs_inquiry_id q = None \<and>
    db_subscriptions d' = db_subscriptions d \<and>
    db_questionnaires d' = map (\<lambda>r. if qs_id r = qs_id q
      then q\<lparr>qs_inquiry_id := Some n, qs_linked_at := Some (rq_now rq), qs_state_version := v\<rparr> else r) (db_questionnaires d)"
proof -
  obtain uid p r where u: "uuid_field rq ''subscription_id'' = Inr uid" "lock_subscription rq uid d = Inr p"
    and ap: "apply_creation dc rq p () (claimed_db races r d) = Inr (out, d')"
    using start_inquiry_cases [OF assms(1)] assms(2) by blast
  obtain s channel raw where p: "p = (s, channel, raw)" and s: "find_active_owned_subscription uid (rq_actor rq) d = Some s"
    using u(2) by (auto simp: lock_subscription_def rbind_Inr_iff of_option_iff)
  let ?d = "claimed_db races r d"
  obtain session i d1 d2 d3 d4 es where
    c: "lock_candidate (rq_actor rq) s (opt_uuid_field rq ''questionnaire_session_id'') ?d = Inr session" and
    ins: "create_inquiry s (rq_actor rq) channel raw (opt_uuid_field rq ''questionnaire_session_id'') ?d = Inr (i, d1)" and
    lnk: "link_questionnaire session i (rq_actor rq) (rq_correlation rq) (rq_key rq) (rq_now rq) d1 = Inr d2" and
    sym: "(case opt_text_field rq ''representative_symptom_code'' of
      None \<Rightarrow> Inr d2 | Some code \<Rightarrow> create_representative_symptom i code d2) = Inr d3" and
    row: "record_start_inquiry i (rq_actor rq) (rq_correlation rq) (rq_key rq) (rq_now rq) d3 = Inr d4" and
    ans: "answer_with rq ''startInquiry'' 201 (created_body i es) (i_public_id i) d4 = (out, d')"
    using ap by (auto simp: apply_creation_def rbind_Inr_iff p)
  obtain q where q: "session = Some q" "lock_link_candidate u (rq_actor rq) s ?d = Some q"
    "qs_status_code q = ''SUBMITTED''" "qs_inquiry_id q = None"
    using c assms(3) by (auto simp: lock_candidate_def rbind_Inr_iff of_option_iff split: if_splits)
  have claimed: "lock_link_candidate u (rq_actor rq) s d = Some q" "db_questionnaires ?d = db_questionnaires d"
    "db_subscriptions ?d = db_subscriptions d"
    using q(2) by (simp_all add: lock_link_candidate_def claimed_db_def)
  have d1: "db_questionnaires d1 = db_questionnaires d" "db_subscriptions d1 = db_subscriptions d"
    using insert_inquiry_questionnaires [OF ins [unfolded create_inquiry_def]]
      insert_inquiry_subscriptions [OF ins [unfolded create_inquiry_def]] claimed(2,3) by simp_all
  have d3: "db_questionnaires d3 = db_questionnaires d2" "db_subscriptions d3 = db_subscriptions d2"
    using sym insert_symptom_questionnaires insert_symptom_subscriptions
    by (auto simp: create_representative_symptom_def split: option.splits)
  have d': "db_questionnaires d' = db_questionnaires d2" "db_subscriptions d' = db_subscriptions d"
    using d3 start_row_questionnaires [OF row] answer_questionnaires [OF ans] history_subscriptions(1) [OF row]
      answered_keeps(5) [OF ans] link_questionnaire_subscriptions [OF lnk] d1 by simp_all
  show ?thesis
    using u(1) s claimed(1) q(3,4) d' link_questionnaire_rows [OF lnk [unfolded q(1)]] unfolding d1
    by (intro exI [of _ uid] exI [of _ s] exI [of _ q] exI [of _ "i_id i"] exI [of _ "qs_state_version q + 1"]) simp
qed

lemma link_candidate_after:
  assumes "distinct (map qs_id (db_questionnaires d))" and "lock_link_candidate u actor s d = Some q"
    and "db_questionnaires d' = map (\<lambda>r. if qs_id r = qs_id q
      then q\<lparr>qs_inquiry_id := Some n, qs_linked_at := t, qs_state_version := v\<rparr> else r) (db_questionnaires d)"
  shows "lock_link_candidate u actor s d' =
    Some (q\<lparr>qs_inquiry_id := Some n, qs_linked_at := t, qs_state_version := v\<rparr>)"
proof -
  let ?q = "q\<lparr>qs_inquiry_id := Some n, qs_linked_at := t, qs_state_version := v\<rparr>"
  let ?P = "\<lambda>q. qs_public_id q = u \<and> su_public_id (qs_subscription q) = su_public_id s \<and>
        u_id (cu_user (su_customer (qs_subscription q))) = u_id actor \<and>
        cu_deleted_at (su_customer (qs_subscription q)) = None"
  let ?g = "\<lambda>r. if qs_id r = qs_id q then ?q else r"
  have q: "q \<in> set (db_questionnaires d)" "?P q"
    using assms(2) by (auto simp: lock_link_candidate_def find_Some_iff)
  have same: "?P (?g y) = ?P y" if "y \<in> set (db_questionnaires d)" for y
  proof (cases "qs_id y = qs_id q")
    case True
    then have "y = q" using that q(1) assms(1) by (metis distinct_map inj_onD)
    then show ?thesis by simp
  qed simp
  have "find ?P (map ?g xs) = Some (?g x)"
    if "find ?P xs = Some x" "\<And>y. y \<in> set xs \<Longrightarrow> ?P (?g y) = ?P y" for xs x
    using that
  proof (induction xs)
    case (Cons y ys)
    have "?P (?g y) = ?P y" by (rule Cons.prems(2)) simp
    then show ?case using Cons by (cases "?P y") auto
  qed simp
  from this [OF assms(2) [unfolded lock_link_candidate_def] same] show ?thesis
    by (simp add: lock_link_candidate_def assms(3))
qed

lemma linked_once:
  assumes d: "distinct (map qs_id (db_questionnaires d))"
    and first: "start_inquiry dc races rq d = (Inr out, d')"
      "\<not> replayed (request_scope (rq_actor rq) ''startInquiry'' (rq_key rq)) (create_hash rq) races d out d'"
    and session: "opt_uuid_field rq ''questionnaire_session_id'' = Some u"
    and again: "rq_actor rq2 = rq_actor rq" "uuid_field rq2 ''subscription_id'' = uuid_field rq ''subscription_id''"
      "opt_uuid_field rq2 ''questionnaire_session_id'' = Some u"
      "text_field rq2 ''channel_code'' = Inr channel" "text_field rq2 ''raw_text'' = Inr raw"
    and key: "request_scope (rq_actor rq) ''startInquiry'' (rq_key rq2) \<notin> idem_scope ` set (db_idem d' @ races2)"
  shows "\<exists>details. start_inquiry dc races2 rq2 d' =
    (Inl (Business STATE_CONFLICT ''msg.questionnaire_not_linkable'' details 409), add_races races2 d')"
proof -
  let ?k = "request_scope (rq_actor rq) ''startInquiry'' (rq_key rq2)"
  obtain uid s q n v where s: "uuid_field rq ''subscription_id'' = Inr uid"
    "find_active_owned_subscription uid (rq_actor rq) d = Some s" "lock_link_candidate u (rq_actor rq) s d = Some q"
    "db_subscriptions d' = db_subscriptions d" and
    rows: "db_questionnaires d' = map (\<lambda>r. if qs_id r = qs_id q
      then q\<lparr>qs_inquiry_id := Some n, qs_linked_at := Some (rq_now rq), qs_state_version := v\<rparr> else r) (db_questionnaires d)"
    using creation_links [OF first session] by blast
  have sub: "find_active_owned_subscription uid (rq_actor rq) d' = Some s"
    using s(2,4) by (simp add: find_active_owned_subscription_def)
  have unknown: "lock_idempotency_scope ?k d' = None"
    using key by (intro unknown_key) (simp add: image_Un)
  obtain r where claim: "claim_key ?k (create_hash rq2) (add_races races2 d') = Inr (None, claimed_db races2 r d')"
    using claim_unknown_key [OF key] by blast
  let ?d1 = "claimed_db races2 r d'"
  have d1: "db_questionnaires ?d1 = db_questionnaires d'" by (simp add: claimed_db_def)
  have "lock_link_candidate u (rq_actor rq) s ?d1 =
      Some (q\<lparr>qs_inquiry_id := Some n, qs_linked_at := Some (rq_now rq), qs_state_version := v\<rparr>)"
    using link_candidate_after [OF d s(3), of ?d1] rows d1 by simp
  then have "\<exists>details. lock_candidate (rq_actor rq) s (Some u) ?d1 =
      Inl (Business STATE_CONFLICT ''msg.questionnaire_not_linkable'' details 409)"
    by (simp add: lock_candidate_def)
  then obtain details where "create_body dc races2 rq2 d' =
      Inl (Business STATE_CONFLICT ''msg.questionnaire_not_linkable'' details 409)"
    using s(1) sub unknown claim again
    by (auto simp: create_body_def keyed_flow_def apply_creation_def)
  then show ?thesis by (simp add: start_inquiry_def atomically_def)
qed

section \<open>Reserved contracts\<close>

text \<open>\<open>P1TeamConsultantRouting\<close>: each reserved contract belongs to one consultant and each consultant has one.\<close>

lemma contract_consultant_inj: "inj_on contract_consultant (dom contract_consultant)"
  by (auto simp: inj_on_def contract_consultant_def split: if_splits)

lemma claim_routed:
  assumes "claim_consultation dc races rq d = (Inr out, d')"
    and "\<not> replayed (request_scope (rq_actor rq) ''claimConsultation'' (rq_key rq)) (body_hash rq) races d out d'"
    and "lock_claimable (rq_target rq) d = Some i"
    and "contract_consultant (strip (su_contract_no (i_subscription i))) = Some name"
  shows "routing_username (rq_actor rq) = name"
  using claim_assigns [OF assms(1,2)] assms(3,4) by (auto simp: can_access_contract_def)

end
