(* ===== verification/ReviewFacts.thy ===== *)
theory ReviewFacts
  imports HumanReview ServiceSafety
begin

text \<open>
  What a decision of a human review does to the ledger: its writes to guidance, evidence and reviews
  leave inquiries, history and idempotency records alone, so a decision is one recorded move of the
  inquiry, and its retry is answered from the stored response.
\<close>

lemma find_SomeD: "find P xs = Some x \<Longrightarrow> x \<in> set xs \<and> P x"
  by (auto simp: find_Some_iff)

text \<open>The time of change is no part of what \<open>full_clean\<close> checks.\<close>

lemma review_updated [simp]:
  "review_constraints (v\<lparr>rv_updated_at := now\<rparr>) = review_constraints v"
  "review_clean (v\<lparr>rv_updated_at := now\<rparr>) = review_clean v"
  by (cases v; simp only: review_row.select_convs review_row.update_convs review_constraints_def
      review_decided_fields_def review_pending_fields_def review_state_fields_def review_clean_def
      disposition_clean_def)+

section \<open>Writes beside the ledger\<close>

lemma quiet_tables:
  "quiet d (d\<lparr>db_guidances := gs\<rparr>)" "quiet d (d\<lparr>db_reviews := vs\<rparr>)"
  by (simp_all add: quiet_def resolved_rows_def)

lemma save_guidance_quiet: "save_guidance g d = Inr d' \<Longrightarrow> quiet d d'"
  by (auto simp: save_guidance_def rbind_Inr_iff quiet_tables)

lemma save_review_quiet: "save_review f v now d = Inr (v', d') \<Longrightarrow> quiet d d'"
  by (auto simp: save_review_def rbind_Inr_iff Let_def quiet_tables)

lemma insert_guidance_quiet: "insert_guidance g d = Inr (g', d') \<Longrightarrow> quiet d d'"
  by (auto simp: insert_guidance_def rbind_Inr_iff Let_def quiet_def resolved_rows_def)

lemma insert_item_quiet: "insert_item x d = Inr d' \<Longrightarrow> quiet d d'"
  by (auto simp: insert_item_def rbind_Inr_iff quiet_def resolved_rows_def)

lemma save_draft_item_quiet: "save_draft_item k p d = Inr d' \<Longrightarrow> quiet d d'"
  by (auto simp: save_draft_item_def rbind_Inr_iff dest: insert_item_quiet split: prod.splits)

lemma clone_evidence_quiet: "clone_evidence k l d = Inr d' \<Longrightarrow> quiet d d'"
  by (auto simp: clone_evidence_def rbind_Inr_iff Let_def quiet_def resolved_rows_def)

lemma each_quiet:
  assumes "\<And>x d d'. f x d = Inr d' \<Longrightarrow> quiet d d'" and "each f xs d = Inr d'"
  shows "quiet d d'"
  using assms(2) by (induction xs arbitrary: d) (auto simp: rbind_Inr_iff dest!: assms(1) intro: quiet_trans)

lemma publish_guidance_quiet:
  assumes "publish_guidance rq v p draft d = Inr (g', d')"
  shows "quiet d d'"
proof -
  obtain g d1 d2 where i: "insert_guidance g d = Inr (g', d1)"
    and x: "each (save_draft_item (gd_id g')) (enumerate 1 (dr_items draft)) d1 = Inr d2"
    and e: "each (clone_evidence (gd_id g')) (pl_verified p) d2 = Inr d'"
    using assms by (auto simp: publish_guidance_def rbind_Inr_iff Let_def)
  show ?thesis
    using insert_guidance_quiet [OF i] each_quiet [OF save_draft_item_quiet x] each_quiet [OF clone_evidence_quiet e]
    by (meson quiet_trans)
qed

lemma apply_guidance_decision_quiet: "apply_guidance_decision rq v p d = Inr (g', d') \<Longrightarrow> quiet d d'"
  by (auto simp: apply_guidance_decision_def rbind_Inr_iff Let_def split: if_splits
      dest!: save_guidance_quiet publish_guidance_quiet intro: quiet_trans)

lemma request_review_consultation_quiet: "request_review_consultation rq i p d = Inr d' \<Longrightarrow> quiet d d'"
  by (auto simp: request_review_consultation_def rbind_Inr_iff split: if_splits
      dest!: consultation_request_quiet attach_handoff_quiet intro: quiet_trans)

text \<open>The outbox row is written after the response and does not look at it.\<close>

lemma schedule_resume_Inr:
  assumes "schedule_resume dc model v now (d\<lparr>db_idem := rs\<rparr>) = Inr d'"
  shows "\<exists>d1. schedule_resume dc model v now d = Inr d1 \<and> d' = d1\<lparr>db_idem := rs\<rparr> \<and> quiet d d1"
proof -
  have "schedule_resume dc model v now (d\<lparr>db_idem := rs\<rparr>) =
      map_sum id (\<lambda>d1. d1\<lparr>db_idem := rs\<rparr>) (schedule_resume dc model v now d)"
    by (simp add: schedule_resume_def enqueue_resume_def guard_or.simps split: option.splits)
  then obtain d1 where d1: "schedule_resume dc model v now d = Inr d1" "d' = d1\<lparr>db_idem := rs\<rparr>"
    using assms by (cases "schedule_resume dc model v now d") auto
  have "quiet d d1"
    using d1(1) by (auto simp: schedule_resume_def enqueue_resume_def rbind_Inr_iff quiet_def resolved_rows_def
        split: if_splits option.splits)
  with d1 show ?thesis by blast
qed

section \<open>A plan\<close>

lemma lock_review_Inr:
  assumes "lock_review rq d = Inr (v, i)"
  shows "lock_visible (rq_target rq) (rq_actor rq) d = Some v" "i \<in> set (db_inquiries d)" "i_id i = rv_inquiry_id v"
    "v \<in> set (db_reviews d)" "rv_public_id v = rq_target rq"
    "lock_for_human_review (rv_inquiry_id v) d = Some i" "review_visible_to (rq_actor rq) i"
proof -
  show l: "lock_visible (rq_target rq) (rq_actor rq) d = Some v" and h: "lock_for_human_review (rv_inquiry_id v) d = Some i"
    using assms by (auto simp: lock_review_def rbind_Inr_iff of_option_iff)
  from find_SomeD [OF l [unfolded lock_visible_def]] h
  show "v \<in> set (db_reviews d)" "rv_public_id v = rq_target rq" "review_visible_to (rq_actor rq) i" by simp_all
  from find_SomeD [OF h [unfolded lock_for_human_review_def]]
  show "i \<in> set (db_inquiries d)" "i_id i = rv_inquiry_id v" by simp_all
qed

lemma plan_review_Inr:
  assumes "plan_review dc rq (v, i) d = Inr p"
  shows "rv_status_code v = ''PENDING''" "map_of (rq_data rq) ''review_state_version'' = Some (PInt (rv_review_state_version v))"
    "i_status_code i = ''QUESTIONNAIRE_IN_PROGRESS''" "i_state_version i = rv_source_inquiry_state_version v"
    "guidance_of (rv_guidance_id v) d = Some (pl_guidance p)"
    "pl_verified p = verified_evidence v d"
    "\<exists>disposition. text_field rq ''decision'' = Inr (pl_decision p) \<and>
       consultation_audit_for v (pl_decision p) disposition (opt_text_field rq ''consultation_reason_code'')
         (list_value (field_or_none rq ''consultation_evidence_ids'')) (pl_verified p)
         (guidance_run (pl_guidance p) d) = Inr (pl_audit p)"
    "pl_event p = review_event (pl_decision p) (cz_effective (pl_audit p))"
    "review_transition dc i (pl_event p) (review_domain (pl_decision p) (cz_effective (pl_audit p))
       (evidence_ready (pl_guidance p) (pl_verified p) d)) (rq_correlation rq) d = Inr (pl_transition p)"
proof -
  obtain version decision g disposition audit t where
    "rv_status_code v = ''PENDING''" "field rq ''review_state_version'' = Inr version"
    "version = PInt (rv_review_state_version v)" "i_status_code i = ''QUESTIONNAIRE_IN_PROGRESS''"
    "i_state_version i = rv_source_inquiry_state_version v" "text_field rq ''decision'' = Inr decision"
    "guidance_of (rv_guidance_id v) d = Some g"
    "consultation_audit_for v decision disposition (opt_text_field rq ''consultation_reason_code'')
         (list_value (field_or_none rq ''consultation_evidence_ids'')) (verified_evidence v d)
         (guidance_run g d) = Inr audit"
    "review_transition dc i (review_event decision (cz_effective audit)) (review_domain decision (cz_effective audit)
       (evidence_ready g (verified_evidence v d) d)) (rq_correlation rq) d = Inr t"
    "p = \<lparr>pl_decision = decision, pl_guidance = g, pl_verified = verified_evidence v d, pl_audit = audit,
          pl_event = review_event decision (cz_effective audit), pl_transition = t\<rparr>"
    using assms by (auto simp: plan_review_def Let_def rbind_Inr_iff guard_or_iff of_option_iff)
  then show "rv_status_code v = ''PENDING''" "map_of (rq_data rq) ''review_state_version'' = Some (PInt (rv_review_state_version v))"
    "i_status_code i = ''QUESTIONNAIRE_IN_PROGRESS''" "i_state_version i = rv_source_inquiry_state_version v"
    "guidance_of (rv_guidance_id v) d = Some (pl_guidance p)"
    "pl_verified p = verified_evidence v d"
    "\<exists>disposition. text_field rq ''decision'' = Inr (pl_decision p) \<and>
       consultation_audit_for v (pl_decision p) disposition (opt_text_field rq ''consultation_reason_code'')
         (list_value (field_or_none rq ''consultation_evidence_ids'')) (pl_verified p)
         (guidance_run (pl_guidance p) d) = Inr (pl_audit p)"
    "pl_event p = review_event (pl_decision p) (cz_effective (pl_audit p))"
    "review_transition dc i (pl_event p) (review_domain (pl_decision p) (cz_effective (pl_audit p))
       (evidence_ready (pl_guidance p) (pl_verified p) d)) (rq_correlation rq) d = Inr (pl_transition p)"
    by (auto simp: field_def of_option_iff)
qed

lemma review_transition_resolves:
  assumes "review_transition dc i event results correlation d = Inr t"
  shows "\<exists>s. resolve (dc_contract dc) s event = Inr t \<and> s_state s = Some (i_status_code i) \<and>
    s_version s = Some (i_state_version i)"
  using assms
  by (auto simp: review_transition_def inquiry_snapshot_def rbind_Inr_iff map_error_iff snapshot_init_Inr)

lemma review_event_events: "review_event decision effective \<in> REVIEW_EVENTS"
  by (simp add: review_event_def REVIEW_EVENTS_def)

section \<open>The move\<close>

lemma recorded_human_review:
  "record_human_review_result i t correlation key review reason now d = Inr d' \<Longrightarrow> appended key (i_id i) t d d'"
  unfolding record_human_review_result_def appended_def by (drule create_transition_history_Inr) auto

lemma move_reviewed_recorded:
  assumes "quiet d d1" and "t_record_business t" and "move_reviewed rq i t v d1 = Inr (i', d')"
  shows "recorded_move True (rq_key rq) i t d d'"
proof -
  obtain d2 where a: "apply_state_transition i (t_state_after t) (t_version_after t) d1 = Inr (i', d2)"
    and h: "record_human_review_result i' t (rq_correlation rq) (rq_key rq) (rv_public_id v) (decision_reason rq)
      (rq_now rq) d2 = Inr d'"
    using assms(2,3) by (auto simp: move_reviewed_def rbind_Inr_iff)
  have "i_id i' = i_id i" using apply_state_transition_Inr [OF a] by simp
  then have h': "appended (rq_key rq) (i_id i) t d2 d'" using recorded_human_review [OF h] by simp
  show ?thesis
    by (rule recorded_moveI [OF assms(1) a [unfolded apply_state_transition_def] quiet_refl h'])
      (auto simp: keeps_target_def)
qed

lemma recorded_move_quiet: "recorded_move asg key i t d d1 \<Longrightarrow> quiet d1 d2 \<Longrightarrow> recorded_move asg key i t d d2"
  by (auto simp: recorded_move_def moved_rows_def quiet_def)

text \<open>The writes of a decision in their order, the outbox row before the response it does not change.\<close>

definition decision_writes ::
  "documents \<Rightarrow> request \<Rightarrow> review_row \<Rightarrow> inquiry_row \<Rightarrow> review_plan \<Rightarrow> db \<Rightarrow> review_row \<Rightarrow> inquiry_row \<Rightarrow> db \<Rightarrow> bool" where
  "decision_writes dc rq v i p d v' i' d' =
     (\<exists>published d1 status d2 d3 d4 model.
        apply_guidance_decision rq v p d = Inr (published, d1) \<and>
        decided_status (pl_decision p) = Inr status \<and>
        save_review (decided_review rq p status published) v (rq_now rq) d1 = Inr (v', d2) \<and>
        request_review_consultation rq i p d2 = Inr d3 \<and>
        move_reviewed rq i (pl_transition p) v' d3 = Inr (i', d4) \<and>
        (if pl_decision p = ''REJECT'' then schedule_resume dc model v' (rq_now rq) d4 else Inr d4) = Inr d')"

lemma answered_then_Inr:
  "(case q of (out', e) \<Rightarrow> rbind (f e) (\<lambda>e'. Inr (out', e'))) = Inr (out, d') \<longleftrightarrow>
     (\<exists>e. q = (out, e) \<and> f e = Inr d')"
  by (cases q) (auto simp: rbind_Inr_iff)

lemma answer_with_idem:
  "\<exists>f. \<forall>d. answer_with rq operation st kvs res d = ((st, PDict kvs), d\<lparr>db_idem := map f (db_idem d)\<rparr>)"
  unfolding answer_with_def complete_idempotency_record_def by (rule exI, rule allI, rule refl)

lemma apply_decision_Inr:
  assumes "apply_decision dc rq (v, i) p d = Inr (out, d')"
  shows "\<exists>v' i' d4 kvs. decision_writes dc rq v i p d v' i' d4 \<and> kvs \<noteq> [] \<and>
    answer_with rq ''decideHumanReview'' 200 kvs (rv_public_id v') d4 = (out, d')"
proof -
  obtain published d1 status v' d2 d3 i' d4 model d5 where w:
    "apply_guidance_decision rq v p d = Inr (published, d1)" "decided_status (pl_decision p) = Inr status"
    "save_review (decided_review rq p status published) v (rq_now rq) d1 = Inr (v', d2)"
    "request_review_consultation rq i p d2 = Inr d3" "move_reviewed rq i (pl_transition p) v' d3 = Inr (i', d4)"
    and a: "answer_with rq ''decideHumanReview'' 200
        (review_projection v' i' model (pl_guidance p) d4 @ [(''idempotent_replay'', PBool False)])
        (rv_public_id v') d4 = (out, d5)"
    and s: "(if pl_decision p = ''REJECT'' then schedule_resume dc model v' (rq_now rq) d5 else Inr d5) = Inr d'"
    using assms by (auto simp: apply_decision_def rbind_Inr_iff Let_def of_option_iff answered_then_Inr
        simp del: decided_status.simps)
  let ?kvs = "review_projection v' i' model (pl_guidance p) d4 @ [(''idempotent_replay'', PBool False)]"
  obtain f where f: "\<And>d. answer_with rq ''decideHumanReview'' 200 ?kvs (rv_public_id v') d =
      ((200, PDict ?kvs), d\<lparr>db_idem := map f (db_idem d)\<rparr>)"
    using answer_with_idem by blast
  have d5: "d5 = d4\<lparr>db_idem := map f (db_idem d4)\<rparr>" and out: "out = (200, PDict ?kvs)" using a unfolding f by simp_all
  obtain d6 where d6: "(if pl_decision p = ''REJECT'' then schedule_resume dc model v' (rq_now rq) d4 else Inr d4) = Inr d6"
    "d' = d6\<lparr>db_idem := map f (db_idem d4)\<rparr>" "db_idem d6 = db_idem d4"
  proof (cases "pl_decision p = ''REJECT''")
    case True
    from s schedule_resume_Inr [of dc model v' "rq_now rq" "map f (db_idem d4)" d4 d'] True that show ?thesis
      unfolding d5 by (auto simp: quiet_def)
  next
    case False
    then show ?thesis using s that [of d4] unfolding d5 by simp
  qed
  have "answer_with rq ''decideHumanReview'' 200 ?kvs (rv_public_id v') d6 = (out, d')"
    unfolding f out d6(2,3) by simp
  moreover have "?kvs \<noteq> []" by simp
  moreover have "decision_writes dc rq v i p d v' i' d6" unfolding decision_writes_def using w d6(1) by blast
  ultimately show ?thesis by blast
qed

lemma decision_writes_move:
  assumes "decision_writes dc rq v i p d v' i' d'" and "t_record_business (pl_transition p)"
  shows "recorded_move True (rq_key rq) i (pl_transition p) d d'"
proof -
  obtain published d1 status d2 d3 d4 model where w:
    "apply_guidance_decision rq v p d = Inr (published, d1)"
    "save_review (decided_review rq p status published) v (rq_now rq) d1 = Inr (v', d2)"
    "request_review_consultation rq i p d2 = Inr d3" "move_reviewed rq i (pl_transition p) v' d3 = Inr (i', d4)"
    "(if pl_decision p = ''REJECT'' then schedule_resume dc model v' (rq_now rq) d4 else Inr d4) = Inr d'"
    using assms(1) unfolding decision_writes_def by blast
  have "quiet d d3"
    using apply_guidance_decision_quiet [OF w(1)] save_review_quiet [OF w(2)]
      request_review_consultation_quiet [OF w(3)] by (meson quiet_trans)
  from move_reviewed_recorded [OF this assms(2) w(4)]
  have m: "recorded_move True (rq_key rq) i (pl_transition p) d d4" .
  have "quiet d4 d'"
    using w(5) schedule_resume_Inr [where d = d4 and rs = "db_idem d4"] by (auto split: if_splits)
  with m show ?thesis by (rule recorded_move_quiet)
qed

section \<open>A successful decision\<close>

lemma decide_cases:
  assumes "decide dc races rq d = (Inr out, d')"
  shows "\<exists>v i. lock_review rq d = Inr (v, i) \<and>
    (replayed (request_scope (rq_actor rq) ''decideHumanReview'' (rq_key rq)) (review_hash rq) races d out d' \<or>
     (\<exists>p r. plan_review dc rq (v, i) d = Inr p \<and>
        fresh_key (request_scope (rq_actor rq) ''decideHumanReview'' (rq_key rq)) (review_hash rq) races d r \<and>
        apply_decision dc rq (v, i) p (claimed_db races r d) = Inr (out, d')))"
proof -
  have "decide_body dc races rq d = Inr (out, d')"
    using assms by (simp add: decide_def atomically_Inr)
  from keyed_flow_Inr [OF this [unfolded decide_body_def]] show ?thesis by auto
qed

lemma apply_decision_move:
  assumes "flow_contract (dc_contract dc)" and "lock_review rq d = Inr (v, i)" and "plan_review dc rq (v, i) d = Inr p"
    and "apply_decision dc rq (v, i) p d1 = Inr (out, d')"
  shows "move_of (dc_contract dc) True rq ''decideHumanReview'' d d1 i (pl_transition p) out d'"
proof -
  obtain s where s: "resolve (dc_contract dc) s (pl_event p) = Inr (pl_transition p)"
    "s_state s = Some (i_status_code i)" "s_version s = Some (i_state_version i)"
    using review_transition_resolves [OF plan_review_Inr(9) [OF assms(3)]] by blast
  have "pl_event p \<in> REVIEW_EVENTS" unfolding plan_review_Inr(8) [OF assms(3)] by (rule review_event_events)
  then have b: "t_record_business (pl_transition p)" by (rule flow_contract_rule(5) [OF assms(1) s(1)])
  obtain v' i' d4 kvs where w: "decision_writes dc rq v i p d1 v' i' d4" "kvs \<noteq> []"
    "answer_with rq ''decideHumanReview'' 200 kvs (rv_public_id v') d4 = (out, d')"
    using apply_decision_Inr [OF assms(4)] by blast
  then show ?thesis
    using decision_writes_move [OF w(1) b] s lock_review_Inr(2) [OF assms(2)] unfolding move_of_def by blast
qed

section \<open>The reviews\<close>

definition same_reviews :: "db \<Rightarrow> db \<Rightarrow> bool" where
  "same_reviews d d' = (db_reviews d' = db_reviews d)"

lemma same_reviews_trans: "same_reviews d d' \<Longrightarrow> same_reviews d' d'' \<Longrightarrow> same_reviews d d''"
  by (simp add: same_reviews_def)

lemma save_guidance_reviews: "save_guidance g d = Inr d' \<Longrightarrow> same_reviews d d'"
  by (auto simp: save_guidance_def rbind_Inr_iff same_reviews_def)

lemma insert_guidance_reviews: "insert_guidance g d = Inr (g', d') \<Longrightarrow> same_reviews d d'"
  by (auto simp: insert_guidance_def rbind_Inr_iff Let_def same_reviews_def)

lemma save_draft_item_reviews: "save_draft_item k p d = Inr d' \<Longrightarrow> same_reviews d d'"
  by (auto simp: save_draft_item_def insert_item_def rbind_Inr_iff same_reviews_def split: prod.splits)

lemma clone_evidence_reviews: "clone_evidence k l d = Inr d' \<Longrightarrow> same_reviews d d'"
  by (auto simp: clone_evidence_def rbind_Inr_iff Let_def same_reviews_def)

lemma each_reviews:
  assumes "\<And>x d d'. f x d = Inr d' \<Longrightarrow> same_reviews d d'" and "each f xs d = Inr d'"
  shows "same_reviews d d'"
  using assms(2)
  by (induction xs arbitrary: d) (auto simp: rbind_Inr_iff same_reviews_def dest!: assms(1) [unfolded same_reviews_def])

lemma publish_guidance_reviews:
  assumes "publish_guidance rq v p draft d = Inr (g', d')"
  shows "same_reviews d d'"
proof -
  obtain g d1 d2 where i: "insert_guidance g d = Inr (g', d1)"
    and x: "each (save_draft_item (gd_id g')) (enumerate 1 (dr_items draft)) d1 = Inr d2"
    and e: "each (clone_evidence (gd_id g')) (pl_verified p) d2 = Inr d'"
    using assms by (auto simp: publish_guidance_def rbind_Inr_iff Let_def)
  show ?thesis
    using insert_guidance_reviews [OF i] each_reviews [OF save_draft_item_reviews x]
      each_reviews [OF clone_evidence_reviews e] by (meson same_reviews_trans)
qed

lemma apply_guidance_decision_reviews: "apply_guidance_decision rq v p d = Inr (g', d') \<Longrightarrow> same_reviews d d'"
  by (auto simp: apply_guidance_decision_def rbind_Inr_iff Let_def split: if_splits
      dest!: save_guidance_reviews publish_guidance_reviews intro: same_reviews_trans)

lemma consultation_reviews:
  "update_consultation f c d = Inr (c', d') \<Longrightarrow> same_reviews d d'"
  "insert_consultation c d = Inr (c', d') \<Longrightarrow> same_reviews d d'"
  by (auto simp: update_consultation_def insert_consultation_def same_reviews_def Let_def split: if_splits)

lemma attach_handoff_reviews: "attach_handoff i c d = Inr (c', d') \<Longrightarrow> same_reviews d d'"
  by (auto simp: attach_handoff_def Let_def split: option.splits if_splits
      dest!: consultation_reviews(1)) (auto simp: same_reviews_def)

lemma request_review_consultation_reviews: "request_review_consultation rq i p d = Inr d' \<Longrightarrow> same_reviews d d'"
  by (auto simp: request_review_consultation_def consultation_request_def rbind_Inr_iff split: if_splits option.splits
      dest!: consultation_reviews attach_handoff_reviews intro: same_reviews_trans)
    (auto simp: same_reviews_def)

lemma move_reviewed_reviews: "move_reviewed rq i t v d = Inr (i', d') \<Longrightarrow> same_reviews d d'"
  by (auto simp: move_reviewed_def rbind_Inr_iff apply_state_transition_def record_human_review_result_def
      same_reviews_def dest!: update_inquiry_Inr create_transition_history_Inr split: if_splits)

lemma schedule_resume_reviews: "schedule_resume dc model v now d = Inr d' \<Longrightarrow> same_reviews d d'"
  by (auto simp: schedule_resume_def enqueue_resume_def rbind_Inr_iff same_reviews_def split: if_splits option.splits)

text \<open>A decision writes the row of the review it decided, and no other.\<close>

lemma decision_writes_review:
  assumes "decision_writes dc rq v i p d v' i' d'"
  obtains published status where "decided_status (pl_decision p) = Inr status"
    "v' = (decided_review rq p status published v)\<lparr>rv_updated_at := rq_now rq\<rparr>"
    "review_constraints v'" "review_clean v'"
    "db_reviews d' = map (\<lambda>r. if rv_id r = rv_id v
       then (decided_review rq p status published r)\<lparr>rv_updated_at := rq_now rq\<rparr> else r) (db_reviews d)"
proof -
  obtain published d1 status d2 d3 d4 model where w:
    "apply_guidance_decision rq v p d = Inr (published, d1)" "decided_status (pl_decision p) = Inr status"
    "save_review (decided_review rq p status published) v (rq_now rq) d1 = Inr (v', d2)"
    "request_review_consultation rq i p d2 = Inr d3" "move_reviewed rq i (pl_transition p) v' d3 = Inr (i', d4)"
    "(if pl_decision p = ''REJECT'' then schedule_resume dc model v' (rq_now rq) d4 else Inr d4) = Inr d'"
    using assms unfolding decision_writes_def by blast
  have "same_reviews d4 d'" using w(6) schedule_resume_reviews by (auto simp: same_reviews_def split: if_splits)
  then have "same_reviews d2 d'"
    using request_review_consultation_reviews [OF w(4)] move_reviewed_reviews [OF w(5)] by (simp add: same_reviews_def)
  moreover have "same_reviews d d1" by (rule apply_guidance_decision_reviews [OF w(1)])
  moreover have "review_ok (decided_review rq p status published v) d1"
    "v' = (decided_review rq p status published v)\<lparr>rv_updated_at := rq_now rq\<rparr>"
    "db_reviews d2 = map (\<lambda>r. if rv_id r = rv_id v
       then (decided_review rq p status published r)\<lparr>rv_updated_at := rq_now rq\<rparr> else r) (db_reviews d1)"
    using w(3) by (auto simp: save_review_def rbind_Inr_iff guard_or_iff Let_def)
  ultimately show ?thesis
    using that [OF w(2)] by (simp add: same_reviews_def review_ok_def review_updated)
qed

section \<open>Retries\<close>

definition keeps_review :: "(review_row \<Rightarrow> review_row) \<Rightarrow> bool" where
  "keeps_review f = (\<forall>v. rv_public_id (f v) = rv_public_id v \<and> rv_inquiry_id (f v) = rv_inquiry_id v)"

definition kept_reviews :: "db \<Rightarrow> db \<Rightarrow> bool" where
  "kept_reviews d d' = (\<exists>g. db_reviews d' = map g (db_reviews d) \<and> keeps_review g)"

lemma kept_reviews_refl: "db_reviews d' = db_reviews d \<Longrightarrow> kept_reviews d d'"
  unfolding kept_reviews_def by (rule exI [of _ "\<lambda>v. v"]) (simp add: keeps_review_def)

lemma decision_writes_kept:
  assumes "decision_writes dc rq v i p d v' i' d'"
  shows "kept_reviews d d'"
  using assms
proof (rule decision_writes_review)
  fix published status
  assume r: "db_reviews d' = map (\<lambda>r. if rv_id r = rv_id v
       then (decided_review rq p status published r)\<lparr>rv_updated_at := rq_now rq\<rparr> else r) (db_reviews d)"
  show ?thesis unfolding kept_reviews_def
    by (rule exI, rule conjI [OF r]) (simp add: keeps_review_def decided_review_def)
qed

lemma answer_reviews: "answer_with rq operation st kvs res d = (out, d') \<Longrightarrow> db_reviews d' = db_reviews d"
  by (auto simp: answer_with_def complete_idempotency_record_def)

lemma decide_settled:
  assumes "flow_contract (dc_contract dc)" and "decide dc races rq d = (Inr out, d')"
  shows "\<exists>v i. lock_review rq d = Inr (v, i) \<and> touches True i d d' \<and> kept_reviews d d' \<and>
    (replayed (request_scope (rq_actor rq) ''decideHumanReview'' (rq_key rq)) (review_hash rq) races d out d' \<or>
     answered_fresh (request_scope (rq_actor rq) ''decideHumanReview'' (rq_key rq)) (review_hash rq) races rq d out d')"
proof -
  obtain v i where l: "lock_review rq d = Inr (v, i)"
    and c: "replayed (request_scope (rq_actor rq) ''decideHumanReview'' (rq_key rq)) (review_hash rq) races d out d' \<or>
      (\<exists>p r. plan_review dc rq (v, i) d = Inr p \<and>
         fresh_key (request_scope (rq_actor rq) ''decideHumanReview'' (rq_key rq)) (review_hash rq) races d r \<and>
         apply_decision dc rq (v, i) p (claimed_db races r d) = Inr (out, d'))"
    using decide_cases [OF assms(2)] by blast
  from c show ?thesis
  proof (elim disjE exE conjE)
    assume r: "replayed (request_scope (rq_actor rq) ''decideHumanReview'' (rq_key rq)) (review_hash rq) races d out d'"
    then have "touches True i d d'" "kept_reviews d d'"
      by (auto simp: replayed_def add_races_def intro: touches_same kept_reviews_refl)
    with l r show ?thesis by blast
  next
    fix p r assume p: "plan_review dc rq (v, i) d = Inr p"
      and k: "fresh_key (request_scope (rq_actor rq) ''decideHumanReview'' (rq_key rq)) (review_hash rq) races d r"
      and a: "apply_decision dc rq (v, i) p (claimed_db races r d) = Inr (out, d')"
    note m = move_of_answered [OF apply_decision_move [OF assms(1) l p a] k]
    obtain v' i' d4 kvs where w: "decision_writes dc rq v i p (claimed_db races r d) v' i' d4"
      "answer_with rq ''decideHumanReview'' 200 kvs (rv_public_id v') d4 = (out, d')"
      using apply_decision_Inr [OF a] by blast
    have "kept_reviews d d'"
      using decision_writes_kept [OF w(1)] answer_reviews [OF w(2)] by (simp add: kept_reviews_def claimed_db_def)
    with l m show ?thesis by blast
  qed
qed

lemma lock_review_after:
  assumes "lock_review rq d = Inr (v, i)" and "kept_targets True d d'" and "kept_reviews d d'"
  shows "\<exists>j. lock_review rq d' = Inr j"
proof -
  obtain g where rows: "db_inquiries d' = map g (db_inquiries d)" and g: "keeps_target True g"
    using assms(2) by (auto simp: kept_targets_def)
  obtain f where revs: "db_reviews d' = map f (db_reviews d)" and f: "keeps_review f"
    using assms(3) by (auto simp: kept_reviews_def)
  note same = g [unfolded keeps_target_def] and kept = f [unfolded keeps_review_def]
  have "find (\<lambda>i. i_id i = k) (map g xs) = map_option g (find (\<lambda>i. i_id i = k) xs)" for k xs
    by (induction xs) (simp_all add: same)
  then have lock: "lock_for_human_review k d' = map_option g (lock_for_human_review k d)" for k
    by (simp add: lock_for_human_review_def rows)
  have "(case lock_for_human_review k d' of None \<Rightarrow> False | Some j \<Rightarrow> review_visible_to actor j) =
      (case lock_for_human_review k d of None \<Rightarrow> False | Some j \<Rightarrow> review_visible_to actor j)" for k actor
    by (simp add: lock review_visible_to_def same split: option.split)
  then have "lock_visible (rq_target rq) (rq_actor rq) d' = Some (f v)"
    using lock_review_Inr(1) [OF assms(1)] find_map_preserved [where g = f, OF _ lock_review_Inr(1) [OF assms(1), unfolded lock_visible_def]]
    by (simp add: lock_visible_def revs kept)
  moreover have "lock_for_human_review (rv_inquiry_id (f v)) d' = Some (g i)"
    using lock_review_Inr(6) [OF assms(1)] by (simp add: lock kept)
  ultimately show ?thesis by (simp add: lock_review_def)
qed

lemma decide_retry:
  assumes "flow_contract (dc_contract dc)" and "distinct (map idem_scope (db_idem d))" and "races_ok races d"
    and "decide dc races rq d = (Inr (st, PDict kvs), d')"
  shows "decide dc races' rq d' =
    (Inr (st, PDict (dict_set kvs ''idempotent_replay'' (PBool True))), add_races races' d')"
proof -
  obtain v i where l: "lock_review rq d = Inr (v, i)" "touches True i d d'" "kept_reviews d d'"
    and s: "replayed (request_scope (rq_actor rq) ''decideHumanReview'' (rq_key rq)) (review_hash rq) races d
        (st, PDict kvs) d' \<or>
      answered_fresh (request_scope (rq_actor rq) ''decideHumanReview'' (rq_key rq)) (review_hash rq) races rq d
        (st, PDict kvs) d'"
    using decide_settled [OF assms(1,4)] by blast
  have "\<exists>j. lock_review rq d' = Inr j" using lock_review_after [OF l(1) touches_kept [OF l(2)] l(3)] .
  then show ?thesis unfolding decide_def atomically_Inr decide_body_def
    by (intro keyed_flow_retry [OF assms(2,3) s]) (auto simp: replay_known_def)
qed

end
