(* ===== verification/Backend.thy ===== *)
theory Backend
  imports ReviewFacts Scenario
begin

text \<open>
  The services of the backend as one system over one database: every call of the customer, queue,
  resolution, human review, consultation and visit services, in any order, between steps of the parts of the backend
  that are not modelled, which leave inquiries, history and idempotency records alone. Each service is
  a tallied operation, so the invariants of the ledger hold in every state the system reaches from an
  empty database.
\<close>

section \<open>Calls\<close>

datatype service =
    Handling operation | Submit_symptom | Submit_answers | Cancel_inquiry | Start_inquiry
  | Request_consultation | Claim_consultation | Register_phone | Resolution resolution_action
  | Decide_review

fun serve ::
  "documents \<Rightarrow> service \<Rightarrow> idem_row list \<Rightarrow> request \<Rightarrow> db \<Rightarrow> (app_error + outcome) \<times> db" where
  "serve dc (Handling op) races rq = perform dc races op rq"
| "serve dc Submit_symptom races rq = submit_symptom dc races rq"
| "serve dc Submit_answers races rq = submit_answers dc races rq"
| "serve dc Cancel_inquiry races rq = cancel_inquiry dc races rq"
| "serve dc Start_inquiry races rq = start_inquiry dc races rq"
| "serve dc Request_consultation races rq = request_consultation dc races rq"
| "serve dc Claim_consultation races rq = claim_consultation dc races rq"
| "serve dc Register_phone races rq = register_phone_inquiry dc races rq"
| "serve dc (Resolution a) races rq = resolve_inquiry dc a races rq"
| "serve dc Decide_review races rq = decide dc races rq"

fun service_name :: "service \<Rightarrow> string" where
  "service_name (Handling op) = operation_name op"
| "service_name Submit_symptom = ''submitSymptom''"
| "service_name Submit_answers = ''submitFollowUpAnswers''"
| "service_name Cancel_inquiry = ''cancelInquiry''"
| "service_name Start_inquiry = ''startInquiry''"
| "service_name Request_consultation = ''requestConsultation''"
| "service_name Claim_consultation = ''claimConsultation''"
| "service_name Register_phone = ''registerConsultantPhoneInquiry''"
| "service_name (Resolution a) = cf_operation_id (action_configs a)"
| "service_name Decide_review = ''decideHumanReview''"

fun service_hash :: "service \<Rightarrow> request \<Rightarrow> db \<Rightarrow> string" where
  "service_hash (Handling op) rq d = operation_hash op rq d"
| "service_hash Submit_symptom rq d = symptom_hash rq"
| "service_hash Submit_answers rq d = answers_hash rq"
| "service_hash Cancel_inquiry rq d = cancel_hash rq"
| "service_hash Start_inquiry rq d = create_hash rq"
| "service_hash Register_phone rq d = phone_hash rq"
| "service_hash Decide_review rq d = review_hash rq"
| "service_hash _ rq d = body_hash rq"

definition service_scope :: "service \<Rightarrow> request \<Rightarrow> nat \<times> string \<times> string" where
  "service_scope sv rq = request_scope (rq_actor rq) (service_name sv) (rq_key rq)"

section \<open>Every service is a tallied operation\<close>

lemma serve_failure: "serve dc sv races rq d = (Inl e, d') \<Longrightarrow> d' = add_races races d"
  by (cases sv) (auto simp: submit_symptom_def submit_answers_def cancel_inquiry_def start_inquiry_def
      request_consultation_def claim_consultation_def register_phone_inquiry_def resolve_inquiry_def decide_def
      dest: atomically_Inl perform_failure)

text \<open>The kinds of effect a successful call can have, the first three recorded in the history.\<close>

definition recorded_effect ::
  "contract \<Rightarrow> nat \<times> string \<times> string \<Rightarrow> string \<Rightarrow> idem_row list \<Rightarrow> request \<Rightarrow> db \<Rightarrow> outcome \<Rightarrow> db \<Rightarrow> bool" where
  "recorded_effect c k hash races rq d out d' =
     (replayed k hash races d out d' \<or>
      (\<exists>i t. fresh_effect c k hash races rq d i t out d') \<or>
      (\<exists>i. creation_effect c k hash races rq d i out d'))"

lemma recorded_effectI:
  "replayed k hash races d out d' \<Longrightarrow> recorded_effect c k hash races rq d out d'"
  "fresh_effect c k hash races rq d i t out d' \<Longrightarrow> recorded_effect c k hash races rq d out d'"
  "creation_effect c k hash races rq d i out d' \<Longrightarrow> recorded_effect c k hash races rq d out d'"
  unfolding recorded_effect_def by blast+

lemmas planned_move = recorded_effectI(2) [OF move_of_effect]

lemma symptom_effect:
  assumes "submit_symptom dc races rq d = (Inr out, d')"
  shows "recorded_effect (dc_contract dc) (request_scope (rq_actor rq) ''submitSymptom'' (rq_key rq))
    (symptom_hash rq) races rq d out d'"
  using submit_symptom_cases [OF assms] apply_symptom_move lock_find_in(1)
  by (meson planned_move recorded_effectI(1))

lemma answers_effect:
  assumes "flow_contract (dc_contract dc)" and "submit_answers dc races rq d = (Inr out, d')"
  shows "recorded_effect (dc_contract dc) (request_scope (rq_actor rq) ''submitFollowUpAnswers'' (rq_key rq))
    (answers_hash rq) races rq d out d'"
  using submit_answers_cases [OF assms(2)] apply_answers_move lock_find_in(1) answers_plan_recorded [OF assms(1)]
  by (meson planned_move recorded_effectI(1))

lemma cancel_effect:
  assumes "cancel_inquiry dc races rq d = (Inr out, d')"
  shows "recorded_effect (dc_contract dc) (request_scope (rq_actor rq) ''cancelInquiry'' (rq_key rq))
    (cancel_hash rq) races rq d out d'"
  using cancel_inquiry_cases [OF assms] apply_cancel_move lock_find_in(2)
  by (meson planned_move recorded_effectI(1))

lemma request_effect:
  assumes "flow_contract (dc_contract dc)" and "request_consultation dc races rq d = (Inr out, d')"
  shows "recorded_effect (dc_contract dc) (request_scope (rq_actor rq) ''requestConsultation'' (rq_key rq))
    (body_hash rq) races rq d out d'"
  using request_consultation_cases [OF assms(2)] apply_request_move lock_find_in(1)
    request_plan_recorded [OF assms(1)]
  by (meson planned_move recorded_effectI(1))

lemma claim_effect:
  assumes "flow_contract (dc_contract dc)" and "claim_consultation dc races rq d = (Inr out, d')"
  shows "recorded_effect (dc_contract dc) (request_scope (rq_actor rq) ''claimConsultation'' (rq_key rq))
    (body_hash rq) races rq d out d'"
  using claim_consultation_cases [OF assms(2)] apply_claim_move lock_routed_in claim_plan_recorded [OF assms(1)]
  by (meson planned_move recorded_effectI(1))

lemma start_effect:
  assumes "flow_contract (dc_contract dc)" and "start_inquiry dc races rq d = (Inr out, d')"
  shows "recorded_effect (dc_contract dc) (request_scope (rq_actor rq) ''startInquiry'' (rq_key rq))
    (create_hash rq) races rq d out d'"
  using start_inquiry_cases [OF assms(2)] apply_creation_effect [OF assms(1)]
  by (metis prod_cases3 recorded_effectI(1,3))

lemma phone_effect:
  assumes "register_phone_inquiry dc races rq d = (Inr out, d')"
  shows "recorded_effect (dc_contract dc) (request_scope (rq_actor rq) ''registerConsultantPhoneInquiry'' (rq_key rq))
    (phone_hash rq) races rq d out d'"
  using register_phone_cases [OF assms] apply_phone_effect by (metis prod_cases4 recorded_effectI(1,3))

lemma resolution_effect:
  assumes "flow_contract (dc_contract dc)" and "a \<noteq> Feedback" and "resolve_inquiry dc a races rq d = (Inr out, d')"
  shows "recorded_effect (dc_contract dc)
    (request_scope (rq_actor rq) (cf_operation_id (action_configs a)) (rq_key rq)) (body_hash rq) races rq d out d'"
  using resolve_inquiry_cases [OF assms(3)] apply_resolution_move [OF _ _ _ assms(2)]
    plan_resolution_Inr(3) lock_resolution_in resolution_plan_recorded(1) [OF assms(1) _ assms(2)]
  by (meson planned_move recorded_effectI(1))

lemma feedback_effect:
  assumes "flow_contract (dc_contract dc)" and "resolve_inquiry dc Feedback races rq d = (Inr out, d')"
  shows "replayed (service_scope (Resolution Feedback) rq) (body_hash rq) races d out d' \<or>
    (\<exists>i t. lock_resolution Feedback rq d = Some i \<and>
       silent_effect (dc_contract dc) (service_scope (Resolution Feedback) rq) (body_hash rq) races rq d i t out d')"
proof -
  have "\<not> t_record_inquiry t" "t_state_after t = i_status_code i"
    if "plan_resolution dc Feedback rq i d = Inr (t, h)" for t i h
    using resolution_plan_recorded(2) [OF assms(1) that refl] by simp_all
  then show ?thesis
    using resolve_inquiry_cases [OF assms(2)] feedback_silent plan_resolution_Inr(3) lock_resolution_in
    unfolding service_scope_def service_name.simps action_configs.simps action_config.select_convs
    by meson
qed

lemma decide_effect:
  assumes "flow_contract (dc_contract dc)" and "decide dc races rq d = (Inr out, d')"
  shows "recorded_effect (dc_contract dc) (request_scope (rq_actor rq) ''decideHumanReview'' (rq_key rq))
    (review_hash rq) races rq d out d'"
  using decide_cases [OF assms(2)] apply_decision_move [OF assms(1)] by (meson planned_move recorded_effectI(1))

lemma handling_effects:
  assumes "serve dc (Handling op) races rq d = (Inr out, d')"
  shows "recorded_effect (dc_contract dc) (service_scope (Handling op) rq) (operation_hash op rq d) races rq d out d'"
  using perform_success [of dc races op rq d out d'] assms
  by (auto simp: service_scope_def operation_scope_def intro: recorded_effectI)

lemma serve_effect:
  assumes "flow_contract (dc_contract dc)" and "sv \<noteq> Resolution Feedback"
    and "serve dc sv races rq d = (Inr out, d')"
  shows "recorded_effect (dc_contract dc) (service_scope sv rq) (service_hash sv rq d) races rq d out d'"
  using assms(2,3) handling_effects
  by (cases sv) (auto simp: service_scope_def
      intro: symptom_effect answers_effect [OF assms(1)] cancel_effect start_effect [OF assms(1)]
        request_effect [OF assms(1)] claim_effect [OF assms(1)] phone_effect resolution_effect [OF assms(1)]
        decide_effect [OF assms(1)])

lemma creation_effect_completed:
  "creation_effect c k hash races rq d i out d' \<Longrightarrow> completed_record k hash races rq d out d'"
  by (simp add: creation_effect_def)

lemma silent_effect_completed:
  "silent_effect c k hash races rq d i t out d' \<Longrightarrow> completed_record k hash races rq d out d'"
  by (simp add: silent_effect_def)

lemma recorded_effect_completed:
  "recorded_effect c k hash races rq d out d' \<Longrightarrow>
     replayed k hash races d out d' \<or> completed_record k hash races rq d out d'"
  by (auto simp: recorded_effect_def intro: fresh_effect_completed creation_effect_completed)

text \<open>The services under documents that meet what they rely on.\<close>

locale workflow_documents =
  fixes dc :: documents
  assumes flow: "flow_contract (dc_contract dc)"

sublocale workflow_documents \<subseteq> service: tallied_operation "serve dc sv" "service_scope sv" "service_hash sv"
  "dc_contract dc" for sv
proof unfold_locales
  fix races rq d e d' assume "serve dc sv races rq d = (Inl e, d')"
  then show "d' = add_races races d" by (rule serve_failure)
next
  fix races rq d out d' assume s: "serve dc sv races rq d = (Inr out, d')"
  show "replayed (service_scope sv rq) (service_hash sv rq d) races d out d' \<or>
      completed_record (service_scope sv rq) (service_hash sv rq d) races rq d out d'"
  proof (cases "sv = Resolution Feedback")
    case True
    then have "resolve_inquiry dc Feedback races rq d = (Inr out, d')" using s by simp
    from feedback_effect [OF flow this] show ?thesis
      by (simp add: True) (blast intro: silent_effect_completed)
  next
    case False
    then show ?thesis using recorded_effect_completed [OF serve_effect [OF flow False s]] by simp
  qed
next
  fix races rq d out d' assume s: "serve dc sv races rq d = (Inr out, d')"
  show "replayed (service_scope sv rq) (service_hash sv rq d) races d out d' \<or>
      (\<exists>i t. fresh_effect (dc_contract dc) (service_scope sv rq) (service_hash sv rq d) races rq d i t out d') \<or>
      (\<exists>i. creation_effect (dc_contract dc) (service_scope sv rq) (service_hash sv rq d) races rq d i out d') \<or>
      (\<exists>i t. silent_effect (dc_contract dc) (service_scope sv rq) (service_hash sv rq d) races rq d i t out d')"
  proof (cases "sv = Resolution Feedback")
    case True
    then have "resolve_inquiry dc Feedback races rq d = (Inr out, d')" using s by simp
    from feedback_effect [OF flow this] show ?thesis by (simp add: True) blast
  next
    case False
    then show ?thesis using serve_effect [OF flow False s] unfolding recorded_effect_def by blast
  qed
qed

section \<open>The system\<close>

text \<open>
  A step serves one call, whose races are records other transactions committed, or is the work of a
  part of the backend that leaves inquiries, history, idempotency records and confirmations alone.
\<close>

record service_call =
  sc_service :: service
  sc_request :: request
  sc_races :: "idem_row list"
  sc_wrote :: bool

datatype label = Served service_call | Elsewhere

inductive backend_step :: "documents \<Rightarrow> db \<Rightarrow> label \<Rightarrow> db \<Rightarrow> bool" for dc :: documents where
  step_serve: "\<lbrakk> races_ok (sc_races l) d;
      serve dc (sc_service l) (sc_races l) (sc_request l) d = (res, d');
      sc_wrote l = (d' \<noteq> add_races (sc_races l) d) \<rbrakk> \<Longrightarrow> backend_step dc d (Served l) d'"
| step_elsewhere: "quiet d d' \<Longrightarrow> backend_step dc d Elsewhere d'"

inductive_cases backend_servedE: "backend_step dc d (Served l) d'"
inductive_cases backend_elsewhereE: "backend_step dc d Elsewhere d'"
inductive_simps backend_step_iff: "backend_step dc d l d'"

definition empty_ledger :: "db \<Rightarrow> bool" where
  "empty_ledger d = (db_inquiries d = [] \<and> db_history d = [] \<and> db_idem d = [] \<and> db_feedback d = [])"

definition backend_ok :: "contract \<Rightarrow> db \<Rightarrow> bool" where
  "backend_ok c d = (tallied d \<and> lawful c d)"

lemma quiet_backend_ok: "quiet d d' \<Longrightarrow> backend_ok c d \<Longrightarrow> backend_ok c d'"
  by (auto simp: backend_ok_def quiet_def tallied_def lawful_def trail_def)

context workflow_documents
begin

lemma step_keeps_ok: "backend_ok (dc_contract dc) d \<Longrightarrow> backend_step dc d l d' \<Longrightarrow> backend_ok (dc_contract dc) d'"
  by (auto simp: backend_step_iff backend_ok_def
      intro: service.keeps_tally service.keeps_lawful quiet_backend_ok [unfolded backend_ok_def, THEN conjunct1]
        quiet_backend_ok [unfolded backend_ok_def, THEN conjunct2])

lemma step_keys:
  "backend_step dc d l d' \<Longrightarrow> idem_scope ` set (db_idem d) \<subseteq> idem_scope ` set (db_idem d')"
  by (auto simp: backend_step_iff quiet_def dest!: service.keys_grow)

end

sublocale workflow_documents \<subseteq> system: inductive_invariant empty_ledger "backend_step dc"
  "backend_ok (dc_contract dc)"
proof unfold_locales
  show "backend_ok (dc_contract dc) d" if "empty_ledger d" for d
    using that by (simp add: empty_ledger_def backend_ok_def tallied_def lawful_def trail_def resolved_rows_def)
qed (rule step_keeps_ok)

text \<open>A stored confirmation stays, so a trail that lost a version to one keeps the gap.\<close>

context workflow_documents
begin

lemma confirmations_stay:
  "backend_step dc d l d' \<Longrightarrow> length (resolved_rows n d) \<le> length (resolved_rows n d')"
proof (cases l)
  case Elsewhere
  then show "backend_step dc d l d' \<Longrightarrow> ?thesis" by (auto simp: quiet_def elim: backend_elsewhereE)
next
  case (Served c)
  assume "backend_step dc d l d'"
  then obtain res where s: "serve dc (sc_service c) (sc_races c) (sc_request c) d = (res, d')"
    unfolding Served by (auto elim: backend_servedE)
  show ?thesis
  proof (cases res)
    case (Inl e)
    then show ?thesis using serve_failure [OF s [unfolded Inl]] by (simp add: resolved_rows_def)
  next
    case (Inr out)
    from service.tallied_effect [OF s [unfolded Inr]] show ?thesis
      by (auto simp: replayed_def resolved_rows_def fresh_effect_def creation_effect_def silent_effect_def)
  qed
qed

lemma confirmations_stay_run:
  "run (backend_step dc) d ls d' \<Longrightarrow> length (resolved_rows n d) \<le> length (resolved_rows n d')"
  by (induction rule: run.induct) (auto dest: confirmations_stay intro: le_trans)

lemma confirmed_trail_gap:
  assumes "backend_ok (dc_contract dc) d" and "run (backend_step dc) d ls d'" and "resolved_rows (i_id j) d \<noteq> []"
    and "j \<in> set (db_inquiries d')"
  shows "\<not> trail_ok j (trail (i_id j) d')"
proof -
  have "tally_ok j (trail (i_id j) d') (length (resolved_rows (i_id j) d'))"
    using system.on_run [OF assms(2,1)] assms(4) by (simp add: backend_ok_def tallied_def)
  moreover have "0 < length (resolved_rows (i_id j) d')"
    using confirmations_stay_run [OF assms(2), of "i_id j"] assms(3) by (cases "resolved_rows (i_id j) d") auto
  ultimately show ?thesis using tally_ok_gap by blast
qed

end

lemma silent_effect_row:
  assumes "silent_effect c k hash races rq d i t out d'"
  shows "i \<in> set (db_inquiries d)"
    "\<exists>j \<in> set (db_inquiries d'). i_id j = i_id i \<and> i_state_version j = i_state_version i + 1 \<and>
       i_status_code j = i_status_code i"
    "trail n d' = trail n d" "resolved_rows (i_id i) d' \<noteq> []"
proof -
  note e = assms [unfolded silent_effect_def]
  show i: "i \<in> set (db_inquiries d)" and "resolved_rows (i_id i) d' \<noteq> []" using e by auto
  show "trail n d' = trail n d" using e by (simp add: trail_def)
  have v: "t_version_after t = i_state_version i + 1"
    using assms by (auto simp: silent_effect_def resolve_Inr next_version_Inr)
  obtain f where f: "db_inquiries d' = map (\<lambda>r. if i_id r = i_id i then f r else r) (db_inquiries d)"
    "i_id (f i) = i_id i" "i_status_code (f i) = t_state_after t" "i_state_version (f i) = t_version_after t"
    using e by blast
  have "f i \<in> set (db_inquiries d')" using i unfolding f(1) by (auto intro: rev_image_eqI [of i])
  then show "\<exists>j \<in> set (db_inquiries d'). i_id j = i_id i \<and> i_state_version j = i_state_version i + 1 \<and>
       i_status_code j = i_status_code i"
    using f(2-4) v e by (intro bexI [of _ "f i"]) auto
qed

section \<open>At most once, over all services\<close>

fun wrote_under :: "nat \<times> string \<times> string \<Rightarrow> label \<Rightarrow> bool" where
  "wrote_under k (Served l) = (sc_wrote l \<and> service_scope (sc_service l) (sc_request l) = k)"
| "wrote_under k Elsewhere = False"

context workflow_documents
begin

lemma wrote_claims_key:
  assumes "backend_step dc d l d'" and "wrote_under k l"
  shows "k \<notin> idem_scope ` set (db_idem d)" "k \<in> idem_scope ` set (db_idem d')"
proof -
  obtain c where l: "l = Served c" using assms(2) by (cases l) auto
  then obtain res where s: "serve dc (sc_service c) (sc_races c) (sc_request c) d = (res, d')"
    and w: "d' \<noteq> add_races (sc_races c) d" and k: "service_scope (sc_service c) (sc_request c) = k"
    using assms by (auto elim!: backend_servedE)
  show "k \<notin> idem_scope ` set (db_idem d)" "k \<in> idem_scope ` set (db_idem d')"
    using service.write_claims_key [OF s w] unfolding k by simp_all
qed

lemma no_second_write:
  assumes "run (backend_step dc) d ls d'" and "k \<in> idem_scope ` set (db_idem d)"
  shows "filter (wrote_under k) ls = []"
  using assms
proof (induction rule: run.induct)
  case (run_cons s l t ls u)
  have "\<not> wrote_under k l" using wrote_claims_key(1) [OF run_cons(1)] run_cons(4) by blast
  moreover have "k \<in> idem_scope ` set (db_idem t)" using step_keys [OF run_cons(1)] run_cons(4) by blast
  ultimately show ?case using run_cons(3) by simp
qed simp

lemma at_most_one_write:
  assumes "run (backend_step dc) d ls d'"
  shows "length (filter (wrote_under k) ls) \<le> 1"
  using assms
proof (induction rule: run.induct)
  case (run_cons s l t ls u)
  show ?case
  proof (cases "wrote_under k l")
    case True
    then have "k \<in> idem_scope ` set (db_idem t)" using wrote_claims_key(2) [OF run_cons(1)] by blast
    then show ?thesis using no_second_write [OF run_cons(2)] by simp
  next
    case False
    then show ?thesis using run_cons(3) by simp
  qed
qed simp

end

section \<open>Retries, over all services\<close>

context workflow_documents
begin

lemma retry:
  assumes "\<forall>op. sv \<noteq> Handling op" and "distinct (map idem_scope (db_idem d))" and "races_ok races d"
    and "serve dc sv races rq d = (Inr (st, PDict kvs), d')"
  shows "serve dc sv races' rq d' =
    (Inr (st, PDict (dict_set kvs ''idempotent_replay'' (PBool True))), add_races races' d')"
  using assms(1,4)
  by (cases sv) (simp_all add: submit_symptom_retry [OF assms(2,3)] submit_answers_retry [OF flow assms(2,3)]
      cancel_inquiry_retry [OF assms(2,3)] start_inquiry_retry [OF flow assms(2,3)]
      request_consultation_retry [OF flow assms(2,3)] claim_consultation_retry [OF flow assms(2,3)]
      register_phone_retry [OF assms(2,3)] resolve_inquiry_retry [OF flow assms(2,3)]
      decide_retry [OF flow assms(2,3)])

end

section \<open>Services that move an inquiry of their own\<close>

text \<open>A decision has no event of its own: \<open>review_event\<close> chooses it.\<close>

fun service_event :: "service \<Rightarrow> string" where
  "service_event (Handling op) = operation_event op"
| "service_event Submit_symptom = ''SUBMIT_SYMPTOM''"
| "service_event Submit_answers = ''SUBMIT_ANSWERS''"
| "service_event Cancel_inquiry = ''CANCEL_INQUIRY''"
| "service_event Start_inquiry = ''START_INQUIRY''"
| "service_event Request_consultation = ''REQUEST_CONSULTATION''"
| "service_event Claim_consultation = ''CLAIM_CONSULTATION''"
| "service_event Register_phone = ''REGISTER_PHONE_INQUIRY''"
| "service_event (Resolution a) = cf_event_code (action_configs a)"
| "service_event Decide_review = []"

fun service_lock :: "service \<Rightarrow> request \<Rightarrow> db \<Rightarrow> inquiry_row option" where
  "service_lock Cancel_inquiry rq d = lock_cancellable_inquiry (rq_target rq) (rq_actor rq) d"
| "service_lock Claim_consultation rq d = (case lock_routed rq d of Inl e \<Rightarrow> None | Inr i \<Rightarrow> Some i)"
| "service_lock (Resolution a) rq d = lock_resolution a rq d"
| "service_lock Decide_review rq d = (case lock_review rq d of Inl e \<Rightarrow> None | Inr (v, i) \<Rightarrow> Some i)"
| "service_lock sv rq d = lock_owned_inquiry (rq_target rq) (rq_actor rq) d"

definition moving_services :: "service set" where
  "moving_services = {Submit_symptom, Submit_answers, Cancel_inquiry, Request_consultation, Claim_consultation} \<union>
     range Resolution"

definition customer_services :: "service set" where
  "customer_services = {Submit_symptom, Submit_answers, Request_consultation, Resolution Feedback, Resolution Unresolved}"

lemma service_lock_target:
  assumes "sv \<in> moving_services" and "service_lock sv rq d = Some i"
  shows "i \<in> set (db_inquiries d) \<and> i_public_id i = rq_target rq"
  using assms
  by (auto simp: moving_services_def lock_routed_def rbind_Inr_iff of_option_iff lock_owned_inquiry_def
      lock_cancellable_inquiry_def lock_claimable_def lock_resolution_def lock_staff_inquiry_def
      lock_assigned_consultant_inquiry_def find_Some_iff Let_def split: if_splits sum.splits resolution_scope.splits)

lemma customer_lock_owned:
  assumes "sv \<in> customer_services" and "service_lock sv rq d = Some i"
  shows "u_id (cu_user (su_customer (i_subscription i))) = u_id (rq_actor rq)"
  using assms by (auto simp: customer_services_def lock_resolution_def lock_owned_inquiry_def find_Some_iff)

context workflow_documents
begin

lemma serve_settled:
  assumes "sv \<in> moving_services" and "serve dc sv races rq d = (Inr out, d')"
  shows "\<exists>i. service_lock sv rq d = Some i \<and>
    settled dc (sv \<noteq> Claim_consultation) (service_event sv) i (service_scope sv rq) (service_hash sv rq d) races rq d out d'"
proof -
  consider "sv = Submit_symptom" | "sv = Submit_answers" | "sv = Cancel_inquiry" | "sv = Request_consultation"
    | "sv = Claim_consultation" | a where "sv = Resolution a"
    using assms(1) by (auto simp: moving_services_def)
  then show ?thesis
    using assms(2)
    by cases (auto simp: service_scope_def dest: submit_symptom_settled submit_answers_settled [OF flow]
        cancel_inquiry_settled request_consultation_settled [OF flow] claim_consultation_settled [OF flow]
        resolve_inquiry_settled [OF flow])
qed

text \<open>A fresh success carried the version of the inquiry it moved.\<close>

lemma fresh_version:
  assumes "sv \<in> moving_services" and "serve dc sv races rq d = (Inr out, d')" and "d' \<noteq> add_races races d"
    and "event_entry_of (dc_contract dc) (service_event sv) = Some e" and "ev_requires_version e"
  shows "\<exists>i \<in> set (db_inquiries d). i_public_id i = rq_target rq \<and>
    map_of (rq_data rq) ''state_version'' = Some (PInt (i_state_version i))"
proof -
  obtain i es t where i: "service_lock sv rq d = Some i" and p: "es_event es = service_event sv"
    "plan_event dc es rq i d = Inr t"
    using serve_settled [OF assms(1,2)] assms(3) by (auto simp: settled_def replayed_def)
  have "requested_version (rq_data rq) = Inr (Some (i_state_version i))"
    using plan_event_version [OF p(2)] assms(4,5) p(1) by simp
  then have "map_of (rq_data rq) ''state_version'' = Some (PInt (i_state_version i))"
    by (auto simp: requested_version_def split: option.splits py.splits)
  then show ?thesis using service_lock_target [OF assms(1) i] by blast
qed

text \<open>A customer's service changes no inquiry of another customer.\<close>

lemma customer_isolation:
  assumes "distinct (map i_id (db_inquiries d))" and "sv \<in> customer_services"
    and "serve dc sv races rq d = (Inr out, d')"
    and "j \<in> set (db_inquiries d)" and "u_id (cu_user (su_customer (i_subscription j))) \<noteq> u_id (rq_actor rq)"
  shows "j \<in> set (db_inquiries d')"
proof -
  have m: "sv \<in> moving_services" using assms(2) by (auto simp: customer_services_def moving_services_def)
  obtain i where i: "service_lock sv rq d = Some i" and t: "touches (sv \<noteq> Claim_consultation) i d d'"
    using serve_settled [OF m assms(3)] by (auto simp: settled_def)
  have "i \<noteq> j" using customer_lock_owned [OF assms(2) i] assms(5) by auto
  then have "i_id j \<noteq> i_id i"
    using assms(1,4) service_lock_target [OF m i] by (metis distinct_map inj_onD)
  then show ?thesis using touches_other [OF t assms(4)] by blast
qed

end

section \<open>The approved documents\<close>

lemma flow_waterbridge: "flow_contract waterbridge"
proof -
  have "c_defaults waterbridge = \<lparr>d_version_action = Some ''INCREMENT'', d_business_event = True, d_correlation_id = True\<rparr>"
    by (simp add: waterbridge_def)
  moreover have "hr_business (r_history tr_inq_003) = Some True" "hr_business (r_history tr_inq_012) = Some True"
    "hr_business (r_history tr_inq_013) = Some True" "hr_business (r_history tr_inq_031) = Some True"
    "hr_business (r_history tr_inq_037) = Some True" "hr_inquiry (r_history tr_inq_029) = Some False"
    "hr_inquiry (r_history tr_inq_030) = Some True" "hr_inquiry (r_history tr_inq_032) = Some True"
    "hr_inquiry (r_history tr_inq_033) = Some True" "hr_business (r_history tr_inq_040) = Some True"
    "hr_business (r_history tr_inq_041) = Some True" "hr_business (r_history tr_inq_042) = Some True"
    by (simp_all add: history_flags_def tr_inq_003_def tr_inq_012_def tr_inq_013_def tr_inq_031_def tr_inq_037_def
        tr_inq_029_def tr_inq_030_def tr_inq_032_def tr_inq_033_def tr_inq_040_def tr_inq_041_def tr_inq_042_def)
  ultimately show ?thesis
    by (simp add: flow_contract_def REVIEW_EVENTS_def records_business_def waterbridge_rules_def contract_simps)
qed

interpretation backend: workflow_documents approved
  by unfold_locales (simp add: flow_waterbridge)

end
