(* ===== verification/BackendScenario.thy ===== *)
theory BackendScenario
  imports Backend
begin

text \<open>
  Concrete calls of the customer, queue and resolution services under the approved documents: an
  inquiry started with a questionnaire from an empty ledger, a claim of a reserved contract, a
  cancellation that stops a consultation and an AI run, and a resolution feedback.
\<close>

section \<open>Planned events\<close>

text \<open>How a call is planned: the rule that applies, and every check of the event.\<close>

lemma plan_event_by_rule:
  assumes rule: "r \<in> set (c_rules waterbridge)" "applies s (r_event r) r" "r_event r = es_event es"
    "\<forall>st. s_state s = Some st \<longrightarrow> st \<notin> set (c_terminal_states waterbridge)"
    "ensure_visit_allowed waterbridge (s_state s) (s_visit s) = Inr ()"
    "next_visit_status (r_visit r) s = Inr vis" "ensure_visit_allowed waterbridge (Some (r_to r)) vis = Inr ()"
    and snap: "snapshot_init (Some (i_status_code i)) (Some (i_state_version i)) (latest_visit_status i d) = Inr s"
    and t: "t = plan_of waterbridge s (es_event es) r (i_state_version i + 1) vis"
    and eff: "set (es_effects es) \<subseteq> set (t_effects t)" and dom: "es_domain es = Inr results"
    and ver: "requested_version (rq_data rq) = Inr v"
    and e: "event_entry_of waterbridge (es_event es) = Some e"
    and checks: "all_checks waterbridge e t s (event_context rq v results)"
  shows "plan_event approved es rq i d = Inr t"
proof -
  have ok: "snapshot_ok s" using snapshot_init_ok [OF snap] .
  have "s_version s = Some (i_state_version i)" using snap by (auto simp: snapshot_init_Inr)
  then have res: "resolve waterbridge s (es_event es) = Inr t"
    using resolve_by_rule [OF wf_waterbridge ok rule(1,2,4-7)] by (simp add: rule(3) t)
  obtain ev where ev: "evaluate waterbridge t s (event_context rq v results) = Inr ev"
    using evaluate_total [OF wf_waterbridge res] by blast
  have "t_event t = es_event es" by (simp add: t plan_of_def)
  then have "allowed ev" using evaluate_allowed_iff [OF ev] checks e by auto
  moreover have "\<forall>x \<in> set (es_effects es). x \<in> set (t_effects t)" using eff by blast
  ultimately show ?thesis
    using snap res dom ver ev by (simp add: plan_event_def inquiry_snapshot_def judged_def)
qed

text \<open>A call whose key is unknown goes through its plan and its writes.\<close>

lemma keyed_flow_runs:
  assumes "lock d = Inr i" and "k \<notin> idem_scope ` set (db_idem d)" and "plan i d = Inr p"
    and "\<And>r. idem_scope r = k \<Longrightarrow> \<exists>out d'. apply i p (claimed_db [] r d) = Inr (out, d') \<and> P out d'"
  shows "\<exists>out d'. keyed_flow [] k hash lock known plan apply d = Inr (out, d') \<and> P out d'"
proof -
  obtain r where c: "create_idempotency_record k hash (add_races [] d) = Inr (claimed_db [] r d)" "idem_scope r = k"
    using assms(2)
    by (auto simp: create_idempotency_record_def claimed_db_def idem_scope_def split: prod.split)
  then show ?thesis
    using assms(1,3) unknown_key [OF assms(2)] assms(4) [OF c(2)]
    by (auto simp: keyed_flow_def claim_key_def)
qed

text \<open>A row whose slot is free is accepted.\<close>

lemma inquiry_row_accepted:
  assumes "0 < v" and "v = 1 \<longleftrightarrow> from = None"
    and "(Some (''INQUIRY'', n), v) \<notin> history_slot ` set (db_history d)"
  shows "\<exists>h. create_transition_history n (Some a) ev from to v corr key None reason now d =
    Inr (d\<lparr>db_history := db_history d @ [h], db_next_id := Suc (db_next_id d)\<rparr>)"
proof -
  let ?h = "\<lparr>h_id = 0, h_target_type_code = ''INQUIRY'', h_questionnaire_id = None,
        h_inquiry_id = Some n, h_consultation_id = None, h_visit_id = None, h_actor_id = Some a,
        h_changed_by_type_code = ''USER'', h_event_code = ev, h_from_state = from, h_to_state = to, h_state_version = v,
        h_correlation_id = corr, h_idempotency_key = key, h_change_reason = reason,
        h_changed_at = now\<rparr>"
  have "history_constraints ?h" "history_slot ?h = (Some (''INQUIRY'', n), v)"
    using assms(1,2) by (auto simp: history_constraints_def history_target_def history_slot_def)
  then show ?thesis using assms(3) by (simp add: create_transition_history_def insert_history_def) blast
qed

lemma questionnaire_row_accepted:
  assumes "1 < v" and "(Some (''QUESTIONNAIRE'', n), v) \<notin> history_slot ` set (db_history d)"
  shows "\<exists>h. record_questionnaire_action n actor ev (Some from) to v corr key now d =
    Inr (d\<lparr>db_history := db_history d @ [h], db_next_id := Suc (db_next_id d)\<rparr>) \<and>
    history_slot h = (Some (''QUESTIONNAIRE'', n), v)"
proof -
  let ?h = "\<lparr>h_id = 0, h_target_type_code = ''QUESTIONNAIRE'', h_questionnaire_id = Some n,
        h_inquiry_id = None, h_consultation_id = None, h_visit_id = None, h_actor_id = Some (u_id actor),
        h_changed_by_type_code = ''USER'', h_event_code = ev, h_from_state = Some from, h_to_state = to,
        h_state_version = v, h_correlation_id = corr, h_idempotency_key = key,
        h_change_reason = None, h_changed_at = now\<rparr>"
  have "history_constraints ?h" "history_slot ?h = (Some (''QUESTIONNAIRE'', n), v)"
    "history_slot (?h\<lparr>h_id := db_next_id d\<rparr>) = (Some (''QUESTIONNAIRE'', n), v)"
    using assms(1) by (auto simp: history_constraints_def history_target_def history_slot_def)
  then show ?thesis using assms(2) by (simp add: record_questionnaire_action_def insert_history_def) blast
qed

text \<open>The actions of an inquiry without visits can be listed.\<close>

lemma offered_without_visits:
  assumes "db_visits d = []" and "has_text (i_status_code i)" and "0 < i_state_version i"
  shows "\<exists>es. offered approved i actor (no_args\<lparr>fm_consultation := c\<rparr>) d = Inr es"
proof -
  have "latest_visit i d = None" using assms(1) by (simp add: latest_visit_def visits_of_def first_by_def)
  then show ?thesis using assms(2,3)
    by (intro offered_total) (simp add: no_args_def chosen_row_def snapshot_init_def)
qed

section \<open>Starting an inquiry\<close>

definition kims_contract :: subscription_row where
  "kims_contract = \<lparr>su_public_id = 301, su_contract_no = ''SYN-P1-TEAM-CONTRACT-001'',
     su_customer = \<lparr>cu_user = kim, cu_is_synthetic = True, cu_deleted_at = None\<rparr>,
     su_product_model_id = Some 11, su_model_code = Some ''WPUJAC104DWH'', su_status_code = ''ACTIVE''\<rparr>"

definition precheck :: questionnaire_row where
  "precheck = \<lparr>qs_id = 1, qs_public_id = 401, qs_subscription = kims_contract, qs_inquiry_id = None,
     qs_status_code = ''SUBMITTED'', qs_answers_payload = PDict [], qs_state_version = 2, qs_started_at = 1,
     qs_submitted_at = Some 5, qs_linked_at = None\<rparr>"

definition counter :: db where
  "counter = \<lparr>db_users = [kim], db_inquiries = [], db_consultations = [], db_visits = [], db_handoffs = [],
     db_feedback = [], db_qa = [], db_answers = [], db_subscriptions = [kims_contract], db_symptoms = [],
     db_questionnaires = [precheck], db_ai_runs = [], db_ai_handoffs = [], db_guidances = [], db_guidance_items = [],
     db_evidence = [], db_cause_ledgers = [], db_reviews = [], db_dispatches = [], db_history = [], db_idem = [],
     db_next_id = 2, db_next_uuid = 500\<rparr>"

definition open_call :: request where
  "open_call = \<lparr>rq_actor = kim, rq_target = 0,
     rq_data = [(''subscription_id'', PUuid 301), (''channel_code'', PStr ''WEB''),
       (''raw_text'', PStr ''water leaks''), (''questionnaire_session_id'', PUuid 401)],
     rq_key = ''c1'', rq_correlation = 900, rq_now = 30\<rparr>"

lemmas counter_defs = counter_def kims_contract_def precheck_def kim_def open_call_def

lemma counter_empty: "empty_ledger counter" "races_ok [] counter" "distinct (map qs_id (db_questionnaires counter))"
  by (simp_all add: empty_ledger_def races_ok_def counter_def)

definition opened :: inquiry_row where
  "opened = \<lparr>i_id = 2, i_public_id = 500, i_inquiry_code = ''INQ-'' @ uuid_hex 501, i_subscription = kims_contract,
     i_initiated_by = kim, i_assigned_user_id = None, i_assigned_role_code = ''NONE'',
     i_channel_code = Some ''WEB'', i_raw_text = ''water leaks'', i_priority_code = ''NORMAL'', i_source_key = None,
     i_source_correlation = None, i_questionnaire_session = Some 401, i_status_code = ''DRAFT'',
     i_state_version = 1, i_cancelled_at = None, i_cancellation_reason_code = None,
     i_cancellation_reason_detail = None\<rparr>"

lemma opened_offered: "\<exists>es. offered approved opened kim created_args d = Inr es"
  by (rule offered_total)
    (simp add: opened_def created_args_def no_args_def chosen_row_def snapshot_init_def has_text_iff is_space_def)

lemma counter_history: "db_history counter = []" "db_next_id counter = 2" "db_questionnaires counter = [precheck]"
  by (simp_all add: counter_def)

lemma creation_applied:
  assumes "idem_scope r = (3, ''startInquiry'', ''c1'')"
  shows "\<exists>out d'. apply_creation approved open_call (kims_contract, ''WEB'', ''water leaks'') () (claimed_db [] r counter) =
      Inr (out, d') \<and> fst out = 201 \<and> db_inquiries d' = [opened] \<and> (\<exists>kvs. snd out = PDict kvs)"
proof -
  let ?d = "claimed_db [] r counter"
  have sel: "opt_uuid_field open_call ''questionnaire_session_id'' = Some 401"
    "opt_text_field open_call ''representative_symptom_code'' = None"
    by (simp_all add: opt_uuid_field_def opt_text_field_def field_or_none_def open_call_def)
  have c: "lock_candidate kim kims_contract (Some 401) ?d = Inr (Some precheck)"
    by (simp add: lock_candidate_def lock_link_candidate_def claimed_db_def counter_defs)
  define d1 where "d1 = ?d\<lparr>db_inquiries := [opened], db_next_id := 3, db_next_uuid := 502\<rparr>"
  have ok: "inquiry_constraints opened" by (simp add: inquiry_constraints_def opened_def)
  have ins: "create_inquiry kims_contract kim ''WEB'' ''water leaks'' (Some 401) ?d = Inr (opened, d1)"
    using ok by (simp add: create_inquiry_def insert_inquiry_def Let_def opened_def claimed_db_def counter_def d1_def)
  have d1: "db_history d1 = []" "db_next_id d1 = 3" "db_questionnaires d1 = [precheck]" "db_inquiries d1 = [opened]"
    by (simp_all add: d1_def counter_history claimed_db_def)
  let ?q = "precheck\<lparr>qs_inquiry_id := Some 2, qs_linked_at := Some 30, qs_state_version := 3\<rparr>"
  have valid: "questionnaire_valid ?q (Some opened)" by (simp add: questionnaire_valid_def precheck_def opened_def)
  obtain g where g: "record_questionnaire_action 1 kim ''START_INQUIRY'' (Some ''SUBMITTED'') ''SUBMITTED'' 3 900 ''c1'' 30
      (d1\<lparr>db_questionnaires := [?q]\<rparr>) =
      Inr (d1\<lparr>db_questionnaires := [?q], db_history := [g], db_next_id := 4\<rparr>)"
    and slot: "history_slot g = (Some (''QUESTIONNAIRE'', 1), 3)"
    using questionnaire_row_accepted [of 3 1 "d1\<lparr>db_questionnaires := [?q]\<rparr>" kim "''START_INQUIRY''"
        "''SUBMITTED''" "''SUBMITTED''" 900 "''c1''" 30]
    by (auto simp: d1)
  define d2 where "d2 = d1\<lparr>db_questionnaires := [?q], db_history := [g], db_next_id := 4\<rparr>"
  have lnk: "link_questionnaire (Some precheck) opened kim 900 ''c1'' 30 d1 = Inr d2"
    using g valid by (simp add: link_questionnaire_def Let_def d1 d2_def precheck_def opened_def)
  have d2: "db_history d2 = [g]" "db_next_id d2 = 4" "db_inquiries d2 = [opened]"
    by (simp_all add: d2_def d1)
  obtain es where es: "offered approved opened kim created_args d2 = Inr es" using opened_offered by blast
  obtain h where row: "record_start_inquiry opened kim 900 ''c1'' 30 d2 =
      Inr (d2\<lparr>db_history := [g, h], db_next_id := 5\<rparr>)"
    using inquiry_row_accepted [of 1 None 2 d2 3 "''START_INQUIRY''" "''DRAFT''" 900 "''c1''" None 30] slot
    by (auto simp: d2 record_start_inquiry_def opened_def kim_def)
  have a: "rq_actor open_call = kim" "rq_correlation open_call = 900" "rq_key open_call = ''c1''" "rq_now open_call = 30"
    by (simp_all add: open_call_def)
  show ?thesis
    by (simp add: apply_creation_def sel a answer_with_def complete_idempotency_record_def c ins lnk es row d2)
qed

lemma inquiry_started:
  "\<exists>kvs d'. start_inquiry approved [] open_call counter = (Inr (201, PDict kvs), d') \<and> db_inquiries d' = [opened]"
proof -
  have scope: "request_scope (rq_actor open_call) ''startInquiry'' (rq_key open_call) = (3, ''startInquiry'', ''c1'')"
    by (simp add: request_scope_def open_call_def kim_def)
  have l: "lock_subscription open_call 301 counter = Inr (kims_contract, ''WEB'', ''water leaks'')"
    by (simp add: lock_subscription_def find_active_owned_subscription_def text_field_def field_def counter_defs)
  have "\<exists>out d'. keyed_flow [] (3, ''startInquiry'', ''c1'') (create_hash open_call) (lock_subscription open_call 301)
      (replay_known (create_hash open_call)) (\<lambda>_ d. Inr ()) (apply_creation approved open_call) counter = Inr (out, d') \<and>
      fst out = 201 \<and> db_inquiries d' = [opened] \<and> (\<exists>kvs. snd out = PDict kvs)"
    by (rule keyed_flow_runs [of "lock_subscription open_call 301" counter "(kims_contract, ''WEB'', ''water leaks'')"
          "(3, ''startInquiry'', ''c1'')" "\<lambda>_ d. Inr ()" "()" "apply_creation approved open_call"
          "\<lambda>out d'. fst out = 201 \<and> db_inquiries d' = [opened] \<and> (\<exists>kvs. snd out = PDict kvs)"])
      (use l creation_applied in \<open>auto simp: counter_def\<close>)
  then obtain out d' where "create_body approved [] open_call counter = Inr (out, d')" "fst out = 201"
    "db_inquiries d' = [opened]" "\<exists>kvs. snd out = PDict kvs"
    unfolding create_body_def lock_subscription_def [symmetric] scope
    by (auto simp: uuid_field_def field_def open_call_def)
  then show ?thesis by (cases out) (auto simp: start_inquiry_def atomically_def)
qed

section \<open>Claiming a reserved contract\<close>

definition park :: user_row where
  "park = lee\<lparr>u_id := 8, u_public_id := 108, u_username := '' skn-001 ''\<rparr>"

definition queued :: inquiry_row where
  "queued = leak\<lparr>i_subscription := kims_contract, i_assigned_user_id := None, i_assigned_role_code := ''NONE''\<rparr>"

definition unclaimed :: consultation_row where
  "unclaimed = waiting\<lparr>co_consultant_id := None, co_status := ''WAITING''\<rparr>"

definition queue :: db where
  "queue = office\<lparr>db_users := [lee, kim, park], db_inquiries := [queued], db_consultations := [unclaimed],
     db_subscriptions := [kims_contract]\<rparr>"

definition claim_call :: request where
  "claim_call = \<lparr>rq_actor = park, rq_target = 501, rq_data = [(''state_version'', PInt 2)],
     rq_key = ''q1'', rq_correlation = 902, rq_now = 25\<rparr>"

definition claim_plan :: transition where
  "claim_plan = plan_of waterbridge leak_snapshot ''CLAIM_CONSULTATION'' tr_inq_037 3 None"

lemmas queue_defs = queue_def queued_def unclaimed_def park_def claim_call_def kims_contract_def office_defs

lemma claim_plan_sel [simp]:
  "t_event claim_plan = ''CLAIM_CONSULTATION''" "t_state_before claim_plan = Some ''CONSULTATION_REQUIRED''"
  "t_state_after claim_plan = ''CONSULTATION_REQUIRED''" "t_version_after claim_plan = 3"
  "t_guard_refs claim_plan =
     [''G-ACTOR-CONSULTANT'', ''G-UNASSIGNED-CONSULTATION-CLAIMABLE'', ''G-STATE-VERSION'', ''G-IDEMPOTENCY-KEY'']"
  "set (t_effects claim_plan) = {''ASSIGN_CURRENT_CONSULTANT'', ''ASSIGN_WAITING_CONSULTATION''}"
  by (simp_all add: claim_plan_def leak_snapshot_def contract_simps)
    (simp add: plan_of_def tr_inq_037_def)

lemma correlation_text: "opt_has_text (Some (uuid_text n))"
  by (simp add: opt_has_text_def has_text_iff uuid_text_def is_space_def)

lemma claim_checks:
  "all_checks waterbridge (event_row ''CLAIM_CONSULTATION'' ''STAFF_COMMAND'' [''CONSULTANT''] True True) claim_plan
     leak_snapshot (event_context claim_call (Some 2) [(''G-UNASSIGNED-CONSULTATION-CLAIMABLE'', True)])"
  using correlation_text
  by (simp add: all_checks_def missing_required_guard_def contract_simps evaluate_event_actor_def event_context_def
      valid_idempotency_key_def has_text_iff is_space_def strip_def evaluate_guard_def CORE_ROLE_GUARDS_def
      leak_snapshot_def dict_of_def claim_call_def park_def lee_def)

lemma queue_snapshot:
  "snapshot_init (Some (i_status_code queued)) (Some (i_state_version queued)) (latest_visit_status queued queue) =
     Inr leak_snapshot"
  by (simp add: snapshot_init_def queue_defs latest_visit_status_def visits_of_def leak_snapshot_def first_by_def
      has_text_iff is_space_def)

lemma claim_planned: "plan_event approved (claim_event approved claim_call queued queue) claim_call queued queue = Inr claim_plan"
proof (rule plan_event_by_rule [where r = tr_inq_037 and s = leak_snapshot and vis = None
      and results = "[(''G-UNASSIGNED-CONSULTATION-CLAIMABLE'', True)]" and v = "Some 2"
      and e = "event_row ''CLAIM_CONSULTATION'' ''STAFF_COMMAND'' [''CONSULTANT''] True True"])
  show "tr_inq_037 \<in> set (c_rules waterbridge)" by (simp add: contract_simps waterbridge_rules_def)
  show "applies leak_snapshot (r_event tr_inq_037) tr_inq_037" "next_visit_status (r_visit tr_inq_037) leak_snapshot = Inr None"
    "ensure_visit_allowed waterbridge (s_state leak_snapshot) (s_visit leak_snapshot) = Inr ()"
    "ensure_visit_allowed waterbridge (Some (r_to tr_inq_037)) None = Inr ()"
    "\<forall>st. s_state leak_snapshot = Some st \<longrightarrow> st \<notin> set (c_terminal_states waterbridge)"
    by (auto simp: applies_def leak_snapshot_def visit_matches_def next_visit_status_def
        ensure_visit_allowed_def visit_shapes contract_simps)
  show "claim_plan = plan_of waterbridge leak_snapshot (es_event (claim_event approved claim_call queued queue)) tr_inq_037
      (i_state_version queued + 1) None"
    by (simp add: claim_plan_def queued_def leak_def)
qed (use queue_snapshot claim_checks in \<open>simp_all add: contract_simps claim_event_def Let_def requested_version_def claim_call_def\<close>)

definition claimed :: inquiry_row where
  "claimed = queued\<lparr>i_assigned_user_id := Some 8, i_assigned_role_code := ''CONSULTANT'', i_state_version := 3\<rparr>"

lemma claim_applied:
  "\<exists>out d'. apply_claim approved claim_call queued (claim_plan, unclaimed) (claimed_db [] r queue) = Inr (out, d') \<and>
     db_inquiries d' = [claimed] \<and> db_history d' \<noteq> db_history queue"
proof -
  let ?d = "claimed_db [] r queue"
  define d1 where "d1 = ?d\<lparr>db_inquiries := [claimed]\<rparr>"
  have "inquiry_constraints claimed" by (simp add: inquiry_constraints_def claimed_def queued_def leak_def)
  then have a: "assign_consultant queued park 3 ?d = Inr (claimed, d1)"
    by (simp add: assign_consultant_def update_inquiry_def d1_def claimed_def park_def queue_def)
  let ?c = "stamp 3 ''q1'' 902 (unclaimed\<lparr>co_consultant_id := Some 8, co_status := ''ASSIGNED''\<rparr>)"
  have ok: "consultation_constraints ?c"
    by (simp add: consultation_constraints_def consultation_lifecycle_def consultation_outcome_lifecycle_def stamp_def
        unclaimed_def waiting_def new_consultation_def)
  define d2 where "d2 = d1\<lparr>db_consultations := [?c]\<rparr>"
  have c: "consultation_claim unclaimed park 3 ''q1'' 902 d1 = Inr (?c, d2)"
    using ok by (simp add: consultation_claim_def update_consultation_def d1_def d2_def park_def queue_def)
      (simp add: unclaimed_def waiting_def new_consultation_def)
  have d2: "db_history d2 = db_history queue" "db_visits d2 = []" "db_inquiries d2 = [claimed]"
    by (simp_all add: d2_def d1_def queue_def office_def)
  have "(Some (''INQUIRY'', 1), 3) \<notin> history_slot ` set (db_history d2)"
    by (simp add: d2 queue_def office_def leak_history_def history_slot_def)
  then obtain h where h: "record_inquiry_action claimed claim_plan park 902 ''q1'' None 25 d2 =
      Inr (d2\<lparr>db_history := db_history d2 @ [h], db_next_id := Suc (db_next_id d2)\<rparr>)"
    using inquiry_row_accepted [of 3 "Some ''CONSULTATION_REQUIRED''" 1 d2 8 "''CLAIM_CONSULTATION''"
        "''CONSULTATION_REQUIRED''" 902 "''q1''" None 25]
    by (auto simp: record_inquiry_action_def claimed_def queued_def leak_def park_def)
  define d3 where "d3 = d2\<lparr>db_history := db_history d2 @ [h], db_next_id := Suc (db_next_id d2)\<rparr>"
  have d3: "db_history d3 = db_history queue @ [h]" "db_visits d3 = []" "db_inquiries d3 = [claimed]"
    by (simp_all add: d3_def d2)
  obtain es where es: "offered approved claimed park (consultation_arg (Some ?c)) d3 = Inr es"
    using offered_without_visits [of d3 claimed park "Some (Some ?c)"] d3
    by (auto simp: consultation_arg_def claimed_def queued_def leak_def has_text_iff is_space_def)
  have b: "t_record_business claim_plan" by (simp add: claim_plan_def plan_of_def tr_inq_037_def history_flags_def)
  have sel: "rq_actor claim_call = park" "rq_key claim_call = ''q1''" "rq_correlation claim_call = 902" "rq_now claim_call = 25"
    by (simp_all add: claim_call_def)
  show ?thesis
    by (simp add: apply_claim_def sel a c b h [folded d3_def] es respond_def answer_with_def
        complete_idempotency_record_def d3)
qed

lemma park_routing: "routing_username park = ''SKN-001''"
  by code_simp

lemma claim_performed:
  "\<exists>out d'. claim_consultation approved [] claim_call queue = (Inr out, d') \<and>
     db_inquiries d' = [claimed] \<and> db_history d' \<noteq> db_history queue"
proof -
  let ?k = "request_scope (rq_actor claim_call) ''claimConsultation'' (rq_key claim_call)"
  have "lock_claimable 501 queue = Some queued"
    by (simp add: lock_claimable_def queue_defs)
  moreover have "can_access_contract park (su_contract_no (i_subscription queued))"
    by (simp add: can_access_contract_def park_routing contract_consultant_def queued_def kims_contract_def
        strip_def is_space_def)
  ultimately have l: "lock_routed claim_call queue = Inr queued" by (simp add: lock_routed_def claim_call_def)
  have c: "lock_latest_consultation queued queue = Some unclaimed"
    by (simp add: lock_latest_consultation_def consultations_of_def first_by_def queue_defs)
  have q: "is_claimable queued (Some unclaimed)" by (simp add: is_claimable_def queue_defs)
  have "\<exists>out d'. claim_consultation_body approved [] claim_call queue = Inr (out, d') \<and>
      db_inquiries d' = [claimed] \<and> db_history d' \<noteq> db_history queue"
    unfolding claim_consultation_body_def
    by (rule keyed_flow_runs [of "lock_routed claim_call" queue queued ?k _ "(claim_plan, unclaimed)"
          "apply_claim approved claim_call" "\<lambda>out d'. db_inquiries d' = [claimed] \<and> db_history d' \<noteq> db_history queue"])
      (use l c q claim_planned claim_applied in \<open>auto simp: queue_def office_def\<close>)
  then show ?thesis by (auto simp: claim_consultation_def atomically_def)
qed

end
