(* ===== verification/CloseScenario.thy ===== *)
theory CloseScenario
  imports BackendScenario
begin

text \<open>
  Concrete calls that close an inquiry under the approved documents: its customer cancels it while a
  consultation and an AI run are active, and confirms that a completed consultation solved it.
\<close>

section \<open>Cancelling\<close>

definition guessing :: ai_run_row where
  "guessing = \<lparr>ar_id = 4, ar_inquiry_id = 1, ar_status_code = ''QUEUED'', ar_input_payload = PDict [],
     ar_reproducible = True, ar_schema_validation_status_code = ''NOT_RUN'',
     ar_validated_output_payload = PNone, ar_created_at = 11, ar_started_at = None, ar_completed_at = None,
     ar_error_code = None, ar_error_message = None\<rparr>"

definition desk :: db where
  "desk = office\<lparr>db_ai_runs := [guessing]\<rparr>"

definition cancel_call :: request where
  "cancel_call = \<lparr>rq_actor = kim, rq_target = 501,
     rq_data = [(''state_version'', PInt 2), (''reason_code'', PStr ''ISSUE_RESOLVED'')],
     rq_key = ''x1'', rq_correlation = 903, rq_now = 40\<rparr>"

definition cancel_plan :: transition where
  "cancel_plan = plan_of waterbridge leak_snapshot ''CANCEL_INQUIRY'' tr_inq_038 3 None"

definition cancelled :: inquiry_row where
  "cancelled = leak\<lparr>i_status_code := ''CANCELLED'', i_state_version := 3, i_cancelled_at := Some 40,
     i_cancellation_reason_code := Some ''ISSUE_RESOLVED''\<rparr>"

lemma cancel_plan_sel [simp]:
  "t_event cancel_plan = ''CANCEL_INQUIRY''" "t_state_before cancel_plan = Some ''CONSULTATION_REQUIRED''"
  "t_state_after cancel_plan = ''CANCELLED''" "t_version_after cancel_plan = 3"
  "t_guard_refs cancel_plan =
     [''G-CANCEL-ACTOR-AUTHORIZED'', ''G-STATE-VERSION'', ''G-IDEMPOTENCY-KEY'', ''G-CANCELLATION-REASON'']"
  by (simp_all add: cancel_plan_def leak_snapshot_def contract_simps)

lemma cancel_checks:
  "all_checks waterbridge (event_row ''CANCEL_INQUIRY'' ''USER_COMMAND'' [''CUSTOMER'', ''CONSULTANT'', ''OPERATOR''] True True)
     cancel_plan leak_snapshot (event_context cancel_call (Some 2)
       [(''G-CANCEL-ACTOR-AUTHORIZED'', True), (''G-CANCELLATION-REASON'', True)])"
  using correlation_text
  by (simp add: all_checks_def missing_required_guard_def contract_simps evaluate_event_actor_def event_context_def
      valid_idempotency_key_def has_text_iff is_space_def strip_def evaluate_guard_def CORE_ROLE_GUARDS_def
      leak_snapshot_def dict_of_def cancel_call_def kim_def)

lemma desk_sel [simp]: "db_visits desk = []" "db_idem desk = []" "db_history desk = db_history office"
  "db_consultations desk = [waiting]" "db_inquiries desk = [leak]" "db_ai_runs desk = [guessing]"
  by (simp_all add: desk_def office_def)

lemma leak_visitless: "db_visits d = [] \<Longrightarrow> inquiry_snapshot leak d = Inr leak_snapshot"
  by (simp add: inquiry_snapshot_def snapshot_init_def latest_visit_status_def visits_of_def leak_snapshot_def first_by_def
      has_text_iff is_space_def leak_sel)

lemma cancel_planned:
  "plan_event approved (cancel_event approved cancel_call leak desk) cancel_call leak desk = Inr cancel_plan"
proof (rule plan_event_by_rule [where r = tr_inq_038 and s = leak_snapshot and vis = None
      and results = "[(''G-CANCEL-ACTOR-AUTHORIZED'', True), (''G-CANCELLATION-REASON'', True)]" and v = "Some 2"
      and e = "event_row ''CANCEL_INQUIRY'' ''USER_COMMAND'' [''CUSTOMER'', ''CONSULTANT'', ''OPERATOR''] True True"])
  show "tr_inq_038 \<in> set (c_rules waterbridge)" by (simp add: contract_simps waterbridge_rules_def)
  show "applies leak_snapshot (r_event tr_inq_038) tr_inq_038" "next_visit_status (r_visit tr_inq_038) leak_snapshot = Inr None"
    "ensure_visit_allowed waterbridge (s_state leak_snapshot) (s_visit leak_snapshot) = Inr ()"
    "ensure_visit_allowed waterbridge (Some (r_to tr_inq_038)) None = Inr ()"
    "\<forall>st. s_state leak_snapshot = Some st \<longrightarrow> st \<notin> set (c_terminal_states waterbridge)"
    by (auto simp: applies_def leak_snapshot_def visit_matches_def next_visit_status_def
        ensure_visit_allowed_def visit_shapes contract_simps)
  show "snapshot_init (Some (i_status_code leak)) (Some (i_state_version leak)) (latest_visit_status leak desk) = Inr leak_snapshot"
    using leak_visitless [of desk] by (simp add: inquiry_snapshot_def map_error_iff)
  show "cancel_plan = plan_of waterbridge leak_snapshot (es_event (cancel_event approved cancel_call leak desk)) tr_inq_038
      (i_state_version leak + 1) None"
    by (simp add: cancel_plan_def leak_def cancel_event_def Let_def)
qed (use cancel_checks in \<open>simp_all add: contract_simps cancel_event_def Let_def requested_version_def cancel_call_def\<close>)

lemma cancel_applied:
  "\<exists>out d'. apply_cancel approved cancel_call ''ISSUE_RESOLVED'' None leak cancel_plan (claimed_db [] r desk) =
     Inr (out, d') \<and> db_inquiries d' = [cancelled] \<and> db_history d' \<noteq> db_history desk"
proof -
  let ?d = "claimed_db [] r desk"
  let ?c = "stamp 3 ''x1'' 903 (waiting\<lparr>co_status := ''CANCELLED'', co_outcome := ''PENDING'', co_completed_at := None\<rparr>)"
  have ok: "consultation_constraints ?c"
    by (simp add: consultation_constraints_def consultation_lifecycle_def consultation_outcome_lifecycle_def stamp_def
        waiting_def new_consultation_def)
  define d1 where "d1 = ?d\<lparr>db_consultations := [?c]\<rparr>"
  have c: "cancel_active leak 3 ''x1'' 903 ?d = Inr (Some ?c, d1)"
    using ok by (simp add: cancel_active_def consultations_of_def update_consultation_def d1_def)
      (simp add: waiting_def new_consultation_def leak_def)
  define d2 where "d2 = d1\<lparr>db_inquiries := [cancelled]\<rparr>"
  have "inquiry_constraints cancelled" by (simp add: inquiry_constraints_def cancelled_def leak_def)
  then have m: "mark_cancelled leak ''CANCELLED'' 3 ''ISSUE_RESOLVED'' None 40 d1 = Inr (cancelled, d2)"
    by (simp add: mark_cancelled_def update_inquiry_def d1_def d2_def cancelled_def leak_def)
  define d3 where "d3 = d2\<lparr>db_ai_runs := [cancelled_run 40 guessing]\<rparr>"
  have k: "cancel_active_ai_runs cancelled 40 d2 = Inr d3"
    by (simp add: cancel_active_ai_runs_def active_run_def cancelled_run_def ai_run_constraints_def guessing_def
        d1_def d2_def d3_def cancelled_def leak_def)
  have d3: "db_history d3 = db_history office" "db_visits d3 = []" "db_inquiries d3 = [cancelled]"
    by (simp_all add: d1_def d2_def d3_def)
  have "(Some (''INQUIRY'', 1), 3) \<notin> history_slot ` set (db_history d3)"
    by (simp add: d3 office_def leak_history_def history_slot_def)
  then obtain h where h: "record_cancel_inquiry cancelled cancel_plan kim 903 ''x1'' ''ISSUE_RESOLVED'' None 40 d3 =
      Inr (d3\<lparr>db_history := db_history d3 @ [h], db_next_id := Suc (db_next_id d3)\<rparr>)"
    using inquiry_row_accepted [of 3 "Some ''CONSULTATION_REQUIRED''" 1 d3 3 "''CANCEL_INQUIRY''"
        "''CANCELLED''" 903 "''x1''" "Some ''ISSUE_RESOLVED''" 40]
    by (auto simp: record_cancel_inquiry_def cancelled_def leak_def kim_def strip_def)
  define d4 where "d4 = d3\<lparr>db_history := db_history d3 @ [h], db_next_id := Suc (db_next_id d3)\<rparr>"
  have d4: "db_history d4 = db_history office @ [h]" "db_visits d4 = []" "db_inquiries d4 = [cancelled]"
    by (simp_all add: d4_def d3)
  obtain es where es: "offered approved cancelled kim no_args d4 = Inr es"
    using offered_without_visits [of d4 cancelled kim None] d4
    by (auto simp: cancelled_def leak_def has_text_iff is_space_def no_args_def)
  have sel: "rq_actor cancel_call = kim" "rq_key cancel_call = ''x1''" "rq_correlation cancel_call = 903"
    "rq_now cancel_call = 40"
    by (simp_all add: cancel_call_def)
  show ?thesis
    by (simp add: apply_cancel_def sel c m k h [folded d4_def] es respond_def answer_with_def
        complete_idempotency_record_def d4)
qed

lemma cancel_performed:
  "\<exists>out d'. cancel_inquiry approved [] cancel_call desk = (Inr out, d') \<and>
     db_inquiries d' = [cancelled] \<and> db_history d' \<noteq> db_history desk"
proof -
  let ?k = "request_scope (rq_actor cancel_call) ''cancelInquiry'' (rq_key cancel_call)"
  have f: "field cancel_call ''state_version'' = Inr (PInt 2)" "text_field cancel_call ''reason_code'' = Inr ''ISSUE_RESOLVED''"
    "opt_text_field cancel_call ''reason_detail'' = None"
    by (simp_all add: field_def text_field_def opt_text_field_def field_or_none_def cancel_call_def)
  have l: "lock_cancellable_inquiry (rq_target cancel_call) (rq_actor cancel_call) desk = Some leak"
    by (simp add: lock_cancellable_inquiry_def cancel_call_def kim_def) (simp add: leak_def kim_def)
  have "\<exists>out d'. cancel_body approved [] cancel_call desk = Inr (out, d') \<and>
      db_inquiries d' = [cancelled] \<and> db_history d' \<noteq> db_history desk"
    unfolding cancel_body_def f rbind.simps
    by (rule keyed_flow_runs [of _ desk leak ?k _ cancel_plan _
          "\<lambda>out d'. db_inquiries d' = [cancelled] \<and> db_history d' \<noteq> db_history desk"])
      (use l cancel_planned cancel_applied in \<open>auto\<close>)
  then show ?thesis by (auto simp: cancel_inquiry_def atomically_def)
qed

section \<open>Confirming the resolution\<close>

definition pending :: inquiry_row where
  "pending = leak\<lparr>i_status_code := ''COMPLETION_PENDING'', i_state_version := 4\<rparr>"

definition solved :: consultation_row where
  "solved = stamp 4 ''k2'' 902 (waiting\<lparr>co_status := ''COMPLETED'', co_outcome := ''COMPLETED_NO_VISIT'',
     co_started_at := Some 20, co_completed_at := Some 25\<rparr>)"

text \<open>An inquiry of another customer in the same database.\<close>

definition choi :: user_row where
  "choi = kim\<lparr>u_id := 9, u_public_id := 109, u_username := ''CHOI''\<rparr>"

definition stranger :: inquiry_row where
  "stranger = opened\<lparr>i_id := 7, i_public_id := 507, i_initiated_by := choi, i_subscription :=
     kims_contract\<lparr>su_public_id := 302, su_customer := \<lparr>cu_user = choi, cu_is_synthetic = True, cu_deleted_at = None\<rparr>\<rparr>\<rparr>"

definition closing :: db where
  "closing = office\<lparr>db_inquiries := [pending, stranger], db_consultations := [solved],
     db_history := db_history office @
       [(leak_history ''START_CONSULTATION'' (Some ''CONSULTATION_REQUIRED'') 3)
          \<lparr>h_to_state := ''CONSULTATION_IN_PROGRESS''\<rparr>,
        (leak_history ''CONSULTATION_COMPLETED'' (Some ''CONSULTATION_IN_PROGRESS'') 4)
          \<lparr>h_to_state := ''COMPLETION_PENDING''\<rparr>,
        (leak_history ''START_INQUIRY'' None 1)\<lparr>h_id := 8, h_inquiry_id := Some 7, h_to_state := ''DRAFT''\<rparr>],
     db_next_id := 9\<rparr>"

lemma closing_ok: "backend_ok waterbridge closing"
proof -
  have "lawful waterbridge closing = True"
    by (simp add: lawful_def lawful_row_def closing_def office_def leak_history_def waterbridge_rules_def contract_simps)
  moreover have "tallied closing"
    by (simp add: tallied_def tally_ok_def trail_def resolved_rows_def history_target_def closing_def office_def
        leak_history_def pending_def stranger_def opened_def leak_def)
  ultimately show ?thesis by (simp add: backend_ok_def)
qed

definition feedback_call :: request where
  "feedback_call = \<lparr>rq_actor = kim, rq_target = 501, rq_data = [(''state_version'', PInt 4)],
     rq_key = ''f1'', rq_correlation = 904, rq_now = 60\<rparr>"

definition pending_snapshot :: snapshot where
  "pending_snapshot = \<lparr>s_state = Some ''COMPLETION_PENDING'', s_version = Some 4, s_visit = None\<rparr>"

definition feedback_plan :: transition where
  "feedback_plan = plan_of waterbridge pending_snapshot ''SUBMIT_RESOLUTION_FEEDBACK'' tr_inq_029 5 None"

definition talked :: completed_handling where
  "talked = \<lparr>hd_source_code = ''CONSULTATION'', hd_completed_at = 25, hd_handler = Some lee,
     hd_consultation_id = Some 2, hd_visit_id = None\<rparr>"

definition confirmed :: inquiry_row where
  "confirmed = pending\<lparr>i_state_version := 5\<rparr>"

lemma confirmed_version: "confirmed \<noteq> pending" "pending \<noteq> confirmed"
proof -
  have "i_state_version confirmed \<noteq> i_state_version pending" by (simp add: confirmed_def pending_def)
  then show "confirmed \<noteq> pending" "pending \<noteq> confirmed" by auto
qed

lemma feedback_plan_sel [simp]:
  "t_event feedback_plan = ''SUBMIT_RESOLUTION_FEEDBACK''" "t_state_before feedback_plan = Some ''COMPLETION_PENDING''"
  "t_state_after feedback_plan = ''COMPLETION_PENDING''" "t_version_after feedback_plan = 5"
  "t_guard_refs feedback_plan =
     [''G-ACTOR-CUSTOMER'', ''G-INQUIRY-OWNER'', ''G-STATE-VERSION'', ''G-IDEMPOTENCY-KEY'',
      ''G-NO-FRESH-RESOLVED-CUSTOMER-FEEDBACK'', ''G-RESOLUTION-FEEDBACK-RESOLVED'']"
  "\<not> t_record_inquiry feedback_plan" "set (t_effects feedback_plan) = {''STORE_RESOLVED_CUSTOMER_FEEDBACK''}"
  by (simp_all add: feedback_plan_def pending_snapshot_def contract_simps)
    (simp_all add: plan_of_def tr_inq_029_def history_flags_def)

lemma closing_sel [simp]: "db_visits closing = []" "db_idem closing = []" "db_feedback closing = []"
  "db_consultations closing = [solved]" "db_inquiries closing = [pending, stranger]"
  by (simp_all add: closing_def office_def)

abbreviation feedback_results :: "(string \<times> bool) list" where
  "feedback_results \<equiv> [(''G-INQUIRY-OWNER'', True), (''G-NO-FRESH-RESOLVED-CUSTOMER-FEEDBACK'', True),
     (''G-RESOLUTION-FEEDBACK-RESOLVED'', True)]"

lemma feedback_checks:
  "all_checks waterbridge (event_row ''SUBMIT_RESOLUTION_FEEDBACK'' ''DATA_UPDATE'' [''CUSTOMER''] True True)
     feedback_plan pending_snapshot (event_context feedback_call (Some 4) feedback_results)"
  using correlation_text
  by (simp add: all_checks_def missing_required_guard_def contract_simps evaluate_event_actor_def event_context_def
      valid_idempotency_key_def has_text_iff is_space_def strip_def evaluate_guard_def CORE_ROLE_GUARDS_def
      pending_snapshot_def dict_of_def feedback_call_def kim_def)

lemma handling_found: "lock_completed_handling pending closing = Some talked"
  by (simp add: lock_completed_handling_def completed_visit_def completed_consultation_def visits_of_def
      consultations_of_def first_by_def)
    (simp add: solved_def stamp_def waiting_def new_consultation_def pending_def leak_def first_by_def
      handling_of_consultation_def talked_def user_of_def the_time_def closing_def office_def lee_def)

lemma no_feedback: "db_feedback d = [] \<Longrightarrow> \<not> fresh_resolved_feedback_exists i h d"
  by (simp add: fresh_resolved_feedback_exists_def)

lemma feedback_planned:
  "plan_event approved (resolution_event approved Feedback feedback_call pending (Some talked) closing)
     feedback_call pending closing = Inr feedback_plan"
proof (rule plan_event_by_rule [where r = tr_inq_029 and s = pending_snapshot and vis = None
      and results = feedback_results and v = "Some 4"
      and e = "event_row ''SUBMIT_RESOLUTION_FEEDBACK'' ''DATA_UPDATE'' [''CUSTOMER''] True True"])
  show "tr_inq_029 \<in> set (c_rules waterbridge)" by (simp add: contract_simps waterbridge_rules_def)
  show "applies pending_snapshot (r_event tr_inq_029) tr_inq_029"
    "next_visit_status (r_visit tr_inq_029) pending_snapshot = Inr None"
    "ensure_visit_allowed waterbridge (s_state pending_snapshot) (s_visit pending_snapshot) = Inr ()"
    "ensure_visit_allowed waterbridge (Some (r_to tr_inq_029)) None = Inr ()"
    "\<forall>st. s_state pending_snapshot = Some st \<longrightarrow> st \<notin> set (c_terminal_states waterbridge)"
    by (auto simp: applies_def pending_snapshot_def visit_matches_def next_visit_status_def
        ensure_visit_allowed_def visit_shapes contract_simps)
  show "snapshot_init (Some (i_status_code pending)) (Some (i_state_version pending)) (latest_visit_status pending closing) =
      Inr pending_snapshot"
    by (simp add: pending_def snapshot_init_def latest_visit_status_def visits_of_def pending_snapshot_def first_by_def
      has_text_iff is_space_def)
  show "feedback_plan = plan_of waterbridge pending_snapshot
      (es_event (resolution_event approved Feedback feedback_call pending (Some talked) closing)) tr_inq_029
      (i_state_version pending + 1) None"
    by (simp add: feedback_plan_def pending_def resolution_event_def Let_def)
  show "es_domain (resolution_event approved Feedback feedback_call pending (Some talked) closing) = Inr feedback_results"
    by (simp add: resolution_event_def Let_def resolution_domain_def no_feedback)
qed (use feedback_checks in \<open>simp_all add: contract_simps resolution_event_def Let_def requested_version_def
  feedback_call_def\<close>)

lemma feedback_applied:
  "\<exists>out d'. apply_resolution approved Feedback feedback_call pending (feedback_plan, Some talked)
     (claimed_db [] r closing) = Inr (out, d') \<and> db_inquiries d' = [confirmed, stranger] \<and> db_history d' = db_history closing"
proof -
  let ?d = "claimed_db [] r closing"
  obtain f d1 where f: "create_resolved_feedback pending talked 5 None 60 ?d = Inr (f, d1)"
    and d1: "db_history d1 = db_history closing" "db_visits d1 = []" "db_inquiries d1 = [pending, stranger]"
    by (simp add: create_resolved_feedback_def insert_feedback_def Let_def feedback_channel_def feedback_constraints_def
        talked_def pending_def leak_def)
  define d2 where "d2 = d1\<lparr>db_inquiries := [confirmed, stranger]\<rparr>"
  have "inquiry_constraints confirmed" by (simp add: inquiry_constraints_def confirmed_def pending_def leak_def)
  then have a: "apply_state_transition pending ''COMPLETION_PENDING'' 5 d1 = Inr (confirmed, d2)"
    by (simp add: apply_state_transition_def update_inquiry_def d1 d2_def confirmed_def pending_def leak_def stranger_def)
  have d2: "db_history d2 = db_history closing" "db_visits d2 = []" "db_inquiries d2 = [confirmed, stranger]"
    by (simp_all add: d2_def d1)
  obtain es where es: "offered approved confirmed kim no_args d2 = Inr es"
    using offered_without_visits [of d2 confirmed kim None] d2
    by (auto simp: confirmed_def pending_def leak_def has_text_iff is_space_def no_args_def)
  have sel: "rq_actor feedback_call = kim" "rq_key feedback_call = ''f1''" "rq_correlation feedback_call = 904"
    "rq_now feedback_call = 60" "opt_text_field feedback_call ''comment'' = None"
    by (simp_all add: feedback_call_def opt_text_field_def field_or_none_def)
  show ?thesis
    by (simp add: apply_resolution_def resolution_mutate_def move_inquiry_def sel f a es respond_def answer_with_def
        complete_idempotency_record_def d2)
qed

lemma feedback_performed:
  "\<exists>out d'. resolve_inquiry approved Feedback [] feedback_call closing = (Inr out, d') \<and>
     db_inquiries d' = [confirmed, stranger] \<and> db_history d' = db_history closing"
proof -
  let ?k = "request_scope (rq_actor feedback_call) ''submitResolutionFeedback'' (rq_key feedback_call)"
  have l: "lock_resolution Feedback feedback_call closing = Some pending"
    by (simp add: lock_resolution_def lock_owned_inquiry_def feedback_call_def kim_def)
      (simp add: pending_def leak_def kim_def)
  have "plan_resolution approved Feedback feedback_call pending closing = Inr (feedback_plan, Some talked)"
    by (simp add: plan_resolution_def handling_found feedback_planned)
  then have "\<exists>out d'. resolution_body approved Feedback [] feedback_call closing = Inr (out, d') \<and>
      db_inquiries d' = [confirmed, stranger] \<and> db_history d' = db_history closing"
    unfolding resolution_body_def action_configs.simps action_config.select_convs Let_def
    by (intro keyed_flow_runs [of _ closing pending ?k _ "(feedback_plan, Some talked)" _
          "\<lambda>out d'. db_inquiries d' = [confirmed, stranger] \<and> db_history d' = db_history closing"])
      (use l feedback_applied in \<open>auto\<close>)
  then show ?thesis by (auto simp: resolve_inquiry_def atomically_def)
qed

end
