(* ===== verification/BackendProperties.thy ===== *)
theory BackendProperties
  imports CloseScenario
begin

text \<open>
  The properties of the services taken together, under the approved documents: the account of
  versions and history over every reachable state, keys and retries over all services, and what a
  claim, a cancellation, a confirmation and a linked questionnaire guarantee.
\<close>

section \<open>Reaching the scenarios\<close>

lemma served_call:
  assumes "serve approved sv [] rq d = (Inr out, d')" and "distinct (map idem_scope (db_idem d))"
  shows "backend_step approved d (Served \<lparr>sc_service = sv, sc_request = rq, sc_races = [], sc_wrote = (d' \<noteq> d)\<rparr>) d'"
  using assms by (auto simp: backend_step_iff races_ok_def add_races_def)

lemma opened_reachable:
  "\<exists>kvs d'. start_inquiry approved [] open_call counter = (Inr (201, PDict kvs), d') \<and> db_inquiries d' = [opened] \<and>
     backend_step approved counter (Served \<lparr>sc_service = Start_inquiry, sc_request = open_call, sc_races = [], sc_wrote = True\<rparr>) d' \<and>
     reach empty_ledger (backend_step approved) d'"
proof -
  obtain kvs d' where s: "start_inquiry approved [] open_call counter = (Inr (201, PDict kvs), d')" "db_inquiries d' = [opened]"
    using inquiry_started by blast
  have "d' \<noteq> counter" using s(2) by (auto simp: counter_def)
  then have step: "backend_step approved counter
      (Served \<lparr>sc_service = Start_inquiry, sc_request = open_call, sc_races = [], sc_wrote = True\<rparr>) d'"
    using served_call [of Start_inquiry open_call counter "(201, PDict kvs)" d'] s(1) by (simp add: counter_def)
  have "empty_ledger counter" by (simp add: empty_ledger_def counter_def)
  then have "reach empty_ledger (backend_step approved) d'" using step by (blast intro: reach_init reach_step)
  then show ?thesis using s step by blast
qed

section \<open>The ledger of the backend\<close>



text \<open>
  C23: Across all services and any order of calls, at most one call with the same actor, operation and
  key writes to the database.
\<close>

theorem backend_key_once:
  assumes "run (backend_step approved) d ls d'"
  shows "length (filter (wrote_under k) ls) \<le> 1"
  using assms by (rule backend.at_most_one_write)

theorem backend_key_once_witness:
  "\<exists>l d'. run (backend_step approved) counter [l] d' \<and>
     length (filter (wrote_under (3, ''startInquiry'', ''c1'')) [l]) = 1"
proof -
  let ?l = "Served \<lparr>sc_service = Start_inquiry, sc_request = open_call, sc_races = [], sc_wrote = True\<rparr>"
  obtain d' where "backend_step approved counter ?l d'" using opened_reachable by blast
  then have r: "run (backend_step approved) counter [?l] d'" by (blast intro: run_cons run_nil)
  have "wrote_under (3, ''startInquiry'', ''c1'') ?l"
    by (simp add: service_scope_def request_scope_def open_call_def kim_def)
  then have "filter (wrote_under (3, ''startInquiry'', ''c1'')) [?l] = [?l]" by simp
  then show ?thesis using backend_key_once [OF r, of "(3, ''startInquiry'', ''c1'')"] r by fastforce
qed



section \<open>Moving an inquiry\<close>

text \<open>
  C25: A customer's confirmation that the handling solved the inquiry raises the inquiry's version by
  one and writes no history row; from then on, whatever services are called, the versions in the
  inquiry's history have a gap.
\<close>

theorem confirmation_leaves_gap:
  assumes "resolve_inquiry approved Feedback races rq d = (Inr out, d')" and "d' \<noteq> add_races races d"
  shows "\<exists>i \<in> set (db_inquiries d). i_public_id i = rq_target rq \<and>
    (\<exists>j \<in> set (db_inquiries d'). i_id j = i_id i \<and> i_state_version j = i_state_version i + 1 \<and>
       i_status_code j = i_status_code i) \<and>
    trail (i_id i) d' = trail (i_id i) d \<and>
    (backend_ok waterbridge d \<and> races_ok races d \<longrightarrow> (\<forall>ls d''. run (backend_step approved) d' ls d'' \<longrightarrow>
       (\<forall>j \<in> set (db_inquiries d''). i_id j = i_id i \<longrightarrow> \<not> trail_ok j (trail (i_id i) d''))))"
proof -
  obtain i t where i: "lock_resolution Feedback rq d = Some i" and
    e: "silent_effect waterbridge (service_scope (Resolution Feedback) rq) (body_hash rq) races rq d i t out d'"
    using feedback_effect [OF _ assms(1)] flow_waterbridge assms(2) by (auto simp: replayed_def)
  note row = silent_effect_row [OF e]
  have "i_public_id i = rq_target rq"
    using service_lock_target [of "Resolution Feedback" rq d i] i by (simp add: moving_services_def)
  moreover have "\<not> trail_ok j (trail (i_id i) d'')"
    if ok: "backend_ok waterbridge d" "races_ok races d" and r: "run (backend_step approved) d' ls d''"
      and j: "j \<in> set (db_inquiries d'')" "i_id j = i_id i" for ls d'' j
  proof -
    have "backend_ok waterbridge d'"
      using ok silent_effect_tally [OF _ _ e] silent_effect_lawful [OF _ e] by (simp add: backend_ok_def)
    then show ?thesis using backend.confirmed_trail_gap [OF _ r _ j(1)] row(4) j(2) by simp
  qed
  ultimately show ?thesis using row(1-3) by (intro bexI [of _ i]) auto
qed

theorem confirmation_leaves_gap_witness:
  "\<exists>out d'. resolve_inquiry approved Feedback [] feedback_call closing = (Inr out, d') \<and> d' \<noteq> closing \<and>
     db_inquiries d' = [confirmed, stranger] \<and> \<not> trail_ok confirmed (trail 1 d')"
proof -
  obtain out d' where f: "resolve_inquiry approved Feedback [] feedback_call closing = (Inr out, d')"
    "db_inquiries d' = [confirmed, stranger]"
    using feedback_performed by blast
  have n: "d' \<noteq> add_races [] closing"
    using f(2) confirmed_version by (auto simp: add_races_def)
  obtain i where i: "i \<in> set (db_inquiries closing)" "i_public_id i = rq_target feedback_call"
    and gap: "backend_ok waterbridge closing \<and> races_ok [] closing \<longrightarrow>
      (\<forall>ls d''. run (backend_step approved) d' ls d'' \<longrightarrow>
        (\<forall>j \<in> set (db_inquiries d''). i_id j = i_id i \<longrightarrow> \<not> trail_ok j (trail (i_id i) d'')))"
    using confirmation_leaves_gap [OF f(1) n] by blast
  have one: "i_id i = 1" "i_id confirmed = 1"
    using i by (auto simp: feedback_call_def pending_def confirmed_def stranger_def leak_def)
  have "\<not> trail_ok confirmed (trail 1 d')"
    using gap closing_ok run_nil [of "backend_step approved" d'] f(2) one by (simp add: races_ok_def)
  then show ?thesis using f n by (auto simp: add_races_def)
qed






section \<open>What single services guarantee\<close>

text \<open>
  C28: After a consultant has claimed an inquiry, every claim of that inquiry under another key, by
  whomever, is answered with 404 and changes nothing.
\<close>

theorem claim_has_one_winner:
  assumes "claim_consultation dc races rq d = (Inr out, d')" and "d' \<noteq> add_races races d"
    and "rq_target rq2 = rq_target rq"
    and "request_scope (rq_actor rq2) ''claimConsultation'' (rq_key rq2) \<notin> idem_scope ` set (db_idem d')"
  shows "claim_consultation dc races2 rq2 d' = (Inl Not_found, add_races races2 d')"
  using assms by (intro claim_one_winner [OF assms(1)]) (auto simp: replayed_def)

theorem claim_has_one_winner_witness:
  "\<exists>out d'. claim_consultation approved [] claim_call queue = (Inr out, d') \<and> d' \<noteq> queue \<and>
     claim_consultation approved [] (claim_call\<lparr>rq_actor := lee, rq_key := ''q2''\<rparr>) d' = (Inl Not_found, d')"
proof -
  obtain out d' where c: "claim_consultation approved [] claim_call queue = (Inr out, d')" and
    n: "db_history d' \<noteq> db_history queue"
    using claim_performed by blast
  have n': "d' \<noteq> add_races [] queue" using n by (auto simp: add_races_def)
  have s: "serve approved Claim_consultation [] claim_call queue = (Inr out, d')" using c by simp
  have "idem_scope ` set (db_idem d') \<subseteq> {service_scope Claim_consultation claim_call}"
    using backend.service.success_keyed [OF s] n' by (auto simp: replayed_def completed_record_def queue_def office_def)
  then have "claim_consultation approved [] (claim_call\<lparr>rq_actor := lee, rq_key := ''q2''\<rparr>) d' =
      (Inl Not_found, add_races [] d')"
    by (intro claim_has_one_winner [OF c n'])
      (auto simp: service_scope_def request_scope_def claim_call_def lee_def park_def)
  then show ?thesis using c n' by (auto simp: add_races_def)
qed

text \<open>
  A reserved contract is claimed only by the consultant it is reserved for: a claim that writes
  on an inquiry of a contract with a reserved consultant was made under that consultant's name, up to
  surrounding spaces and case.
\<close>

theorem reserved_claim_routed:
  assumes "claim_consultation dc races rq d = (Inr out, d')" and "d' \<noteq> add_races races d"
    and "lock_claimable (rq_target rq) d = Some i"
    and "contract_consultant (strip (su_contract_no (i_subscription i))) = Some name"
  shows "routing_username (rq_actor rq) = name"
  using assms(2) by (intro claim_routed [OF assms(1) _ assms(3,4)]) (auto simp: replayed_def)

theorem reserved_claim_routed_witness:
  "\<exists>out d'. claim_consultation approved [] claim_call queue = (Inr out, d') \<and> d' \<noteq> queue \<and>
     u_username (rq_actor claim_call) = '' skn-001 '' \<and> routing_username (rq_actor claim_call) = ''SKN-001''"
proof -
  obtain out d' where c: "claim_consultation approved [] claim_call queue = (Inr out, d')" and
    n: "db_history d' \<noteq> db_history queue"
    using claim_performed by blast
  have n': "d' \<noteq> add_races [] queue" using n by (auto simp: add_races_def)
  have "lock_claimable (rq_target claim_call) queue = Some queued"
    by (simp add: lock_claimable_def claim_call_def queue_defs)
  moreover have "contract_consultant (strip (su_contract_no (i_subscription queued))) = Some ''SKN-001''"
    by (simp add: contract_consultant_def queued_def kims_contract_def strip_def is_space_def)
  ultimately have "routing_username (rq_actor claim_call) = ''SKN-001''"
    by (rule reserved_claim_routed [OF c n'])
  then show ?thesis using c n' by (auto simp: add_races_def claim_call_def park_def)
qed

text \<open>
  C30: A cancellation that writes leaves the inquiry it names CANCELLED at the time of the request, with
  no waiting, assigned or running consultation and no queued or running AI run.
\<close>

lemma cancel_target:
  assumes "resolve waterbridge s ''CANCEL_INQUIRY'' = Inr t"
  shows "t_state_after t = ''CANCELLED''"
proof -
  have "\<forall>r \<in> set waterbridge_rules. r_event r = ''CANCEL_INQUIRY'' \<longrightarrow> r_to r = ''CANCELLED''"
    by (simp add: waterbridge_rules_def contract_simps)
  moreover obtain r v vis where "r \<in> set (c_rules waterbridge)" "r_event r = ''CANCEL_INQUIRY''"
    "t = plan_of waterbridge s ''CANCEL_INQUIRY'' r v vis"
    using resolve_rule [OF assms] by metis
  ultimately show ?thesis by (simp add: plan_of_def waterbridge_sel)
qed

theorem cancellation_stops_work:
  assumes "cancel_inquiry approved races rq d = (Inr out, d')" and "d' \<noteq> add_races races d"
  shows "\<exists>i. lock_cancellable_inquiry (rq_target rq) (rq_actor rq) d = Some i \<and>
    (\<exists>j \<in> set (db_inquiries d'). i_id j = i_id i \<and> i_status_code j = ''CANCELLED'' \<and>
       i_cancelled_at j = Some (rq_now rq)) \<and>
    active_consultations (i_id i) d' = [] \<and> active_runs (i_id i) d' = []"
proof -
  have "\<not> replayed (request_scope (rq_actor rq) ''cancelInquiry'' (rq_key rq)) (cancel_hash rq) races d out d'"
    using assms(2) by (simp add: replayed_def)
  from cancel_stops [OF assms(1) this] show ?thesis using cancel_target by fastforce
qed

theorem cancellation_stops_work_witness:
  "\<exists>out d'. cancel_inquiry approved [] cancel_call desk = (Inr out, d') \<and>
     active_consultations 1 desk \<noteq> [] \<and> active_runs 1 desk \<noteq> [] \<and>
     active_consultations 1 d' = [] \<and> active_runs 1 d' = []"
proof -
  obtain out d' where c: "cancel_inquiry approved [] cancel_call desk = (Inr out, d')" and
    n: "db_history d' \<noteq> db_history desk"
    using cancel_performed by blast
  have n': "d' \<noteq> add_races [] desk" using n by (auto simp: add_races_def)
  have l: "lock_cancellable_inquiry (rq_target cancel_call) (rq_actor cancel_call) desk = Some leak"
    by (simp add: lock_cancellable_inquiry_def cancel_call_def kim_def) (simp add: leak_def kim_def)
  have "active_consultations 1 desk \<noteq> []" "active_runs 1 desk \<noteq> []" "i_id leak = 1"
    by (simp_all add: active_consultations_def active_runs_def waiting_def new_consultation_def guessing_def leak_def)
  then show ?thesis using cancellation_stops_work [OF c n'] l c by auto
qed

text \<open>
  C31: A submitted questionnaire is linked to one inquiry: after an inquiry was started with it, the
  same customer starting another inquiry with it under another key is refused with a state conflict
  (409), and nothing is written.
\<close>

theorem questionnaire_linked_once:
  assumes "distinct (map qs_id (db_questionnaires d))"
    and "start_inquiry dc races rq d = (Inr out, d')" and "d' \<noteq> add_races races d"
    and "opt_uuid_field rq ''questionnaire_session_id'' = Some u"
    and "rq_actor rq2 = rq_actor rq" and "uuid_field rq2 ''subscription_id'' = uuid_field rq ''subscription_id''"
    and "opt_uuid_field rq2 ''questionnaire_session_id'' = Some u"
    and "text_field rq2 ''channel_code'' = Inr channel" and "text_field rq2 ''raw_text'' = Inr raw"
    and "request_scope (rq_actor rq) ''startInquiry'' (rq_key rq2) \<notin> idem_scope ` set (db_idem d' @ races2)"
  shows "\<exists>details. start_inquiry dc races2 rq2 d' =
    (Inl (Business STATE_CONFLICT ''msg.questionnaire_not_linkable'' details 409), add_races races2 d')"
  using assms(3) by (intro linked_once [OF assms(1,2) _ assms(4-10)]) (simp add: replayed_def)

theorem questionnaire_linked_once_witness:
  "\<exists>out d' details. start_inquiry approved [] open_call counter = (Inr out, d') \<and> d' \<noteq> counter \<and>
     start_inquiry approved [] (open_call\<lparr>rq_key := ''c2''\<rparr>) d' =
       (Inl (Business STATE_CONFLICT ''msg.questionnaire_not_linkable'' details 409), d')"
proof -
  obtain out d' where o: "start_inquiry approved [] open_call counter = (Inr out, d')" "db_inquiries d' = [opened]"
    using inquiry_started by blast
  have n: "d' \<noteq> add_races [] counter" using o(2) by (auto simp: add_races_def counter_def)
  have s: "serve approved Start_inquiry [] open_call counter = (Inr out, d')" using o by simp
  have k: "idem_scope ` set (db_idem d') \<subseteq> {service_scope Start_inquiry open_call}"
    using backend.service.success_keyed [OF s] n by (auto simp: replayed_def completed_record_def counter_def)
  have f: "opt_uuid_field open_call ''questionnaire_session_id'' = Some 401"
    "opt_uuid_field (open_call\<lparr>rq_key := ''c2''\<rparr>) ''questionnaire_session_id'' = Some 401"
    "uuid_field (open_call\<lparr>rq_key := ''c2''\<rparr>) ''subscription_id'' = uuid_field open_call ''subscription_id''"
    "text_field (open_call\<lparr>rq_key := ''c2''\<rparr>) ''channel_code'' = Inr ''WEB''"
    "text_field (open_call\<lparr>rq_key := ''c2''\<rparr>) ''raw_text'' = Inr ''water leaks''"
    by (simp_all add: opt_uuid_field_def uuid_field_def text_field_def field_def field_or_none_def open_call_def)
  have "\<exists>details. start_inquiry approved [] (open_call\<lparr>rq_key := ''c2''\<rparr>) d' =
      (Inl (Business STATE_CONFLICT ''msg.questionnaire_not_linkable'' details 409), add_races [] d')"
    using k by (intro questionnaire_linked_once [OF _ o(1) n f(1) _ f(3,2,4,5)])
      (auto simp: counter_def service_scope_def request_scope_def open_call_def)
  then show ?thesis using o(1) n by (auto simp: add_races_def)
qed

end
