(* ===== verification/ReviewSafety.thy ===== *)
theory ReviewSafety
  imports BackendScenario
begin

text \<open>
  What a decision of a human review may do: when it waives a required consultation, which state it
  takes the inquiry to, that it leaves an open consultation behind, and that it is taken once.
\<close>

section \<open>Waiving a consultation\<close>

definition resolvable_by_cause :: "py \<Rightarrow> bool" where
  "resolvable_by_cause x =
     (cause_code x \<in> {Some ''HARNESS_UNSUPPORTED_FUNCTION'', Some ''HARNESS_SCOPE_EXCEEDED''} \<and>
      cause_lock x = Some ''NON_SAFETY_RESOLVABLE'')"

text \<open>What entitles a reviewer to decide that no consultation is needed although the AI required one.\<close>

definition waiver_entitled :: "review_row \<Rightarrow> string \<Rightarrow> consultation_audit \<Rightarrow> evidence_row list \<Rightarrow> ai_run_row option \<Rightarrow> bool" where
  "waiver_entitled v decision a verified ai =
     (rv_consultation_origin_code v = ''NON_SAFETY_RESOLVABLE'' \<and> decision \<noteq> ''REJECT'' \<and> usage_restricted ai \<and>
      (\<exists>r \<in> CONSULTATION_RESOLUTION_REASONS. cz_reason a = Some r) \<and> cz_snapshot a \<noteq> [] \<and>
      set (cz_snapshot a) \<subseteq> evidence_snapshot ` set verified)"

lemma resolution_audit_Inr:
  assumes "resolution_audit v reason ids verified ai = Inr a"
  shows "\<not> cz_effective a" "decision \<noteq> ''REJECT'' \<Longrightarrow> waiver_entitled v decision a verified ai"
proof -
  have a: "rv_consultation_origin_code v = ''NON_SAFETY_RESOLVABLE''" "usage_restricted ai" "ids \<noteq> []"
    "case reason of None \<Rightarrow> False | Some r \<Rightarrow> r \<in> CONSULTATION_RESOLUTION_REASONS"
    "list_all (\<lambda>x. selected_evidence verified x \<noteq> None) ids"
    "a = \<lparr>cz_effective = False, cz_disposition = ''RESOLVE_NON_SAFETY'', cz_reason = reason,
          cz_snapshot = map evidence_snapshot (List.map_filter (selected_evidence verified) ids)\<rparr>"
    using assms by (auto simp: resolution_audit_def rbind_Inr_iff guard_or_iff)
  show "\<not> cz_effective a" by (simp add: a(6))
  obtain x xs y where "ids = x # xs" "selected_evidence verified x = Some y"
    using a(3,5) by (cases ids) auto
  then have "cz_snapshot a \<noteq> []" by (simp add: a(6) List.map_filter_def)
  moreover have "selected_evidence verified x = Some l \<Longrightarrow> l \<in> set verified" for x l
    by (auto simp: selected_evidence_def find_Some_iff)
  then have "set (cz_snapshot a) \<subseteq> evidence_snapshot ` set verified"
    by (auto simp: a(6) List.map_filter_def)
  ultimately show "waiver_entitled v decision a verified ai" if "decision \<noteq> ''REJECT''"
    using a(1,2,4) that by (auto simp: waiver_entitled_def a(6) split: option.splits)
qed

lemma consultation_audit_Inr:
  assumes "consultation_audit_for v decision disposition reason ids verified ai = Inr a"
  shows "decision = ''REJECT'' \<Longrightarrow> cz_effective a"
    and "\<not> cz_effective a \<Longrightarrow> rv_original_requires_consultation v \<Longrightarrow> waiver_entitled v decision a verified ai"
  using assms resolution_audit_Inr(2) [where a = a]
  by (auto simp: consultation_audit_for_def rbind_Inr_iff split: if_splits)

lemma verified_evidence_verified: "l \<in> set (verified_evidence v d) \<Longrightarrow> el_is_verified l"
  by (auto simp: verified_evidence_def Let_def list_all_iff split: if_splits)

section \<open>The causes an AI run recorded\<close>

definition harness_cause :: "string \<Rightarrow> bool" where
  "harness_cause c \<longleftrightarrow> c = ''HARNESS_UNSUPPORTED_FUNCTION'' \<or> c = ''HARNESS_SCOPE_EXCEEDED''"

lemma harness_origin: "ledger_origin_by_cause c = Some ''NON_SAFETY_RESOLVABLE'' \<longleftrightarrow> harness_cause c"
proof (cases "harness_cause c")
  case True
  then show ?thesis by (auto simp: harness_cause_def ledger_origin_by_cause_def)
next
  case False
  then show ?thesis by (simp add: harness_cause_def ledger_origin_by_cause_def split: if_split)
qed

lemma harness_priority: "ledger_cause_priority c = Some n \<Longrightarrow> harness_cause c \<longleftrightarrow> 4 \<le> n"
  unfolding ledger_cause_priority_def harness_cause_def
  by (drule map_of_SomeD) (simp, elim disjE conjE, simp_all)

lemma harness_known: "harness_cause c \<Longrightarrow> ledger_cause_priority c \<noteq> None"
  by (auto simp: harness_cause_def ledger_cause_priority_def)

lemmas harness_cause_tables = harness_origin harness_priority harness_known

lemma resolvable_iff: "resolvable_by_cause x \<longleftrightarrow>
    (\<exists>c. cause_code x = Some c \<and> harness_cause c \<and> cause_lock x = ledger_lock_by_cause c)"
proof -
  have "resolvable_by_cause x \<longleftrightarrow> (\<exists>c. cause_code x = Some c \<and> harness_cause c \<and> cause_lock x = Some ''NON_SAFETY_RESOLVABLE'')"
    unfolding resolvable_by_cause_def harness_cause_def by blast
  moreover have "harness_cause c \<Longrightarrow> ledger_lock_by_cause c = Some ''NON_SAFETY_RESOLVABLE''" for c
    unfolding ledger_lock_by_cause_def harness_origin .
  ultimately show ?thesis by metis
qed

text \<open>The strictest of known causes is a limit of the harness exactly when all of them are.\<close>

lemma strictest_harness:
  assumes "first_by (\<lambda>c. case ledger_cause_priority c of None \<Rightarrow> 0 | Some p \<Rightarrow> p) codes = Some c"
    and "\<And>q. q \<in> set codes \<Longrightarrow> ledger_cause_priority q \<noteq> None"
  shows "harness_cause c \<longleftrightarrow> (\<forall>q \<in> set codes. harness_cause q)"
proof
  have c: "c \<in> set codes" using assms(1) by (rule first_by_in)
  then show "harness_cause c" if "\<forall>q \<in> set codes. harness_cause q" using that by blast
  assume h: "harness_cause c"
  show "\<forall>q \<in> set codes. harness_cause q"
  proof
    fix q assume q: "q \<in> set codes"
    obtain n m where n: "ledger_cause_priority c = Some n" "ledger_cause_priority q = Some m"
      using assms(2) c q by blast
    have "n \<le> m" using first_by_least [OF assms(1) q] n by simp
    then show "harness_cause q" using h harness_cause_tables(2) n by fastforce
  qed
qed

lemma ledger_resolvable:
  "fst (consultation_origin_from_ledger causes) = ''NON_SAFETY_RESOLVABLE'' \<longleftrightarrow>
     causes \<noteq> [] \<and> list_all resolvable_by_cause causes"
proof -
  let ?known = "\<lambda>p. case cause_code p of None \<Rightarrow> False | Some c \<Rightarrow> ledger_cause_priority c \<noteq> None"
  let ?lock = "\<lambda>p. cause_lock p = Option.bind (cause_code p) ledger_lock_by_cause"
  let ?codes = "List.map_filter cause_code causes"
  have u: "fst unclassified_origin \<noteq> ''NON_SAFETY_RESOLVABLE''" by (simp add: unclassified_origin_def)
  have all: "list_all resolvable_by_cause causes \<longleftrightarrow>
      list_all ?known causes \<and> list_all ?lock causes \<and> (\<forall>q \<in> set ?codes. harness_cause q)"
  proof -
    have "resolvable_by_cause x \<longleftrightarrow> ?known x \<and> ?lock x \<and> (\<forall>q. cause_code x = Some q \<longrightarrow> harness_cause q)" for x
      using harness_cause_tables(3) by (cases "cause_code x") (auto simp: resolvable_iff)
    moreover have "(\<forall>q \<in> set ?codes. harness_cause q) \<longleftrightarrow>
        (\<forall>x \<in> set causes. \<forall>q. cause_code x = Some q \<longrightarrow> harness_cause q)"
      by (auto simp: List.map_filter_def)
    ultimately show ?thesis by (auto simp: list_all_iff)
  qed
  show ?thesis
  proof (cases "causes \<noteq> [] \<and> list_all ?known causes \<and> list_all ?lock causes")
    case False
    then show ?thesis using u all by (auto simp: consultation_origin_from_ledger_def)
  next
    case True
    then obtain x xs where "causes = x # xs" "?known x" by (cases causes) auto
    then have "?codes \<noteq> []" by (auto simp: List.map_filter_def split: option.splits)
    then obtain c where c: "first_by (\<lambda>c. case ledger_cause_priority c of None \<Rightarrow> 0 | Some p \<Rightarrow> p) ?codes = Some c"
      by (metis first_by_None_iff not_None_eq)
    have known: "ledger_cause_priority q \<noteq> None" if "q \<in> set ?codes" for q
      using that True by (auto simp: List.map_filter_def list_all_iff split: option.splits)
    have "fst (consultation_origin_from_ledger causes) = ''NON_SAFETY_RESOLVABLE'' \<longleftrightarrow> harness_cause c"
      using True c u harness_cause_tables(1) [of c]
      by (auto simp: consultation_origin_from_ledger_def split: option.split)
    then show ?thesis using True all strictest_harness [OF c known] by simp
  qed
qed

section \<open>The target state\<close>

definition review_target :: "string \<Rightarrow> string" where
  "review_target event =
     (if event = ''HUMAN_REVIEW_GUIDANCE_APPROVED'' then ''AI_GUIDANCE'' else ''CONSULTATION_REQUIRED'')"

lemma waterbridge_review_rules:
  "list_all (\<lambda>r. r_event r \<in> REVIEW_EVENTS \<longrightarrow> r_to r = review_target (r_event r)) (c_rules waterbridge)"
  by (simp add: waterbridge_rules_def contract_simps REVIEW_EVENTS_def review_target_def)

lemma review_resolves_to:
  assumes "resolve waterbridge s ev = Inr t" and "ev \<in> REVIEW_EVENTS"
  shows "t_state_after t = review_target ev"
proof -
  obtain r v vis where r: "r \<in> set (c_rules waterbridge)" "r_event r = ev" "t = plan_of waterbridge s ev r v vis"
    using assms(1) by (rule resolve_rule) auto
  then show ?thesis using waterbridge_review_rules assms(2) by (auto simp: list_all_iff plan_of_def)
qed

section \<open>An open consultation\<close>

definition open_consultation :: "nat \<Rightarrow> db \<Rightarrow> bool" where
  "open_consultation n d =
     list_ex (\<lambda>c. co_inquiry_id c = n \<and> co_status c \<in> {''WAITING'', ''ASSIGNED''}) (db_consultations d)"

lemma update_consultation_open:
  assumes "update_consultation f c d = Inr (c', d')"
    and "\<And>r. co_inquiry_id (f r) = co_inquiry_id r \<and> co_status (f r) = co_status r" and "open_consultation n d"
  shows "open_consultation n d'"
proof -
  obtain x where x: "x \<in> set (db_consultations d)" "co_inquiry_id x = n" "co_status x \<in> {''WAITING'', ''ASSIGNED''}"
    using assms(3) by (auto simp: open_consultation_def list_ex_iff)
  let ?x = "if co_id x = co_id c then f x else x"
  have "?x \<in> set (db_consultations d')" using x(1) unfolding update_consultation_rows [OF assms(1)] by auto
  moreover have "co_inquiry_id ?x = n" "co_status ?x \<in> {''WAITING'', ''ASSIGNED''}" using x(2,3) assms(2) by auto
  ultimately show ?thesis unfolding open_consultation_def list_ex_iff by blast
qed

lemma lock_latest_in: "lock_latest_consultation i d = Some c \<Longrightarrow> c \<in> set (db_consultations d) \<and> co_inquiry_id c = i_id i"
  by (auto simp: lock_latest_consultation_def consultations_of_def dest: first_by_in)

lemma consultation_request_open:
  assumes "consultation_request i v key corr (lock_latest_consultation i d) now d = Inr (c, d')"
  shows "open_consultation (i_id i) d'"
proof -
  have new: "open_consultation (i_id i) d'" if "insert_consultation (new_consultation i s None ''WAITING'' v key corr None k now) d = Inr (c, d')" for s k
    using that by (auto simp: insert_consultation_def new_consultation_def open_consultation_def Let_def split: if_splits)
  show ?thesis
  proof (cases "lock_latest_consultation i d")
    case None
    then show ?thesis using assms new by (simp add: consultation_request_def)
  next
    case (Some q)
    show ?thesis
    proof (cases "co_status q \<in> {''WAITING'', ''ASSIGNED''}")
      case True
      then have u: "update_consultation (stamp v key corr) q d = Inr (c, d')"
        using assms Some by (simp add: consultation_request_def)
      have "open_consultation (i_id i) d"
        using lock_latest_in [OF Some] True by (auto simp: open_consultation_def list_ex_iff)
      then show ?thesis by (rule update_consultation_open [OF u, rotated]) (simp add: stamp_def)
    next
      case False
      then show ?thesis using assms Some new by (auto simp: consultation_request_def split: if_splits)
    qed
  qed
qed

lemma attach_handoff_open:
  assumes "attach_handoff i c d = Inr (c', d')" and "open_consultation n d"
  shows "open_consultation n d'"
proof -
  have h: "open_consultation n (d\<lparr>db_ai_handoffs := hs\<rparr>)" for hs
    using assms(2) by (simp add: open_consultation_def)
  show ?thesis
    using assms h by (auto simp: attach_handoff_def Let_def split: option.splits if_splits
        elim!: update_consultation_open)
qed

lemma request_review_open:
  assumes "request_review_consultation rq i p d = Inr d'" and "pl_event p \<in> {''HUMAN_REVIEW_CONSULTATION_REQUIRED'', ''HUMAN_REVIEW_REJECTED''}"
  shows "open_consultation (i_id i) d'"
proof -
  obtain c d1 c' where "consultation_request i (t_version_after (pl_transition p)) (rq_key rq) (rq_correlation rq)
      (lock_latest_consultation i d) (rq_now rq) d = Inr (c, d1)" "attach_handoff i c d1 = Inr (c', d')"
    using assms by (auto simp: request_review_consultation_def rbind_Inr_iff)
  then show ?thesis by (metis consultation_request_open attach_handoff_open)
qed

section \<open>A fresh decision\<close>

lemma decide_fresh:
  assumes "decide dc races rq d = (Inr out, d')" and "d' \<noteq> add_races races d"
  obtains v i p r v' i' d1 kvs where "lock_review rq d = Inr (v, i)" "plan_review dc rq (v, i) d = Inr p"
    "decision_writes dc rq v i p (claimed_db races r d) v' i' d1"
    "answer_with rq ''decideHumanReview'' 200 kvs (rv_public_id v') d1 = (out, d')"
proof -
  obtain v i p r where "lock_review rq d = Inr (v, i)" "plan_review dc rq (v, i) d = Inr p"
    and a: "apply_decision dc rq (v, i) p (claimed_db races r d) = Inr (out, d')"
    using decide_cases [OF assms(1)] assms(2) by (auto simp: replayed_def)
  then show ?thesis using that apply_decision_Inr [OF a] by blast
qed

lemma decision_writes_open:
  assumes "decision_writes dc rq v i p d v' i' d'"
    and "pl_event p \<in> {''HUMAN_REVIEW_CONSULTATION_REQUIRED'', ''HUMAN_REVIEW_REJECTED''}"
  shows "open_consultation (i_id i) d'"
proof -
  obtain published d1 status d2 d3 d4 model where w:
    "request_review_consultation rq i p d2 = Inr d3" "move_reviewed rq i (pl_transition p) v' d3 = Inr (i', d4)"
    "(if pl_decision p = ''REJECT'' then schedule_resume dc model v' (rq_now rq) d4 else Inr d4) = Inr d'"
    using assms(1) unfolding decision_writes_def by blast
  have "db_consultations d4 = db_consultations d3" using w(2)
    by (auto simp: move_reviewed_def rbind_Inr_iff apply_state_transition_def record_human_review_result_def
        dest!: update_inquiry_Inr create_transition_history_Inr split: if_splits)
  moreover have "db_consultations d' = db_consultations d4" using w(3)
    by (auto simp: schedule_resume_def enqueue_resume_def rbind_Inr_iff split: if_splits option.splits)
  ultimately show ?thesis using request_review_open [OF w(1) assms(2)] by (simp add: open_consultation_def)
qed

lemma decision_writes_inquiry:
  assumes "decision_writes dc rq v i p d v' i' d'" and "t_record_business (pl_transition p)" and "i \<in> set (db_inquiries d)"
  shows "\<exists>j \<in> set (db_inquiries d'). i_id j = i_id i \<and> i_status_code j = t_state_after (pl_transition p) \<and>
    i_state_version j = t_version_after (pl_transition p)"
proof -
  obtain f where f: "db_inquiries d' = map (\<lambda>r. if i_id r = i_id i then f r else r) (db_inquiries d)"
    "keeps_target True f" "i_status_code (f i) = t_state_after (pl_transition p)"
    "i_state_version (f i) = t_version_after (pl_transition p)"
    using decision_writes_move [OF assms(1,2)] by (auto simp: recorded_move_def moved_rows_def)
  have "f i \<in> set (db_inquiries d')" using assms(3) unfolding f(1) by (auto intro: rev_image_eqI)
  then show ?thesis using f(2-4) by (auto simp: keeps_target_def)
qed

text \<open>The row a fresh decision leaves, with the plan it came from.\<close>

definition decided_row :: "request \<Rightarrow> review_row \<Rightarrow> review_plan \<Rightarrow> review_row \<Rightarrow> bool" where
  "decided_row rq v p v' =
     (rv_id v' = rv_id v \<and> rv_public_id v' = rv_public_id v \<and> rv_inquiry_id v' = rv_inquiry_id v \<and>
      rv_review_state_version v' = rv_review_state_version v + 1 \<and> rv_status_code v' \<in> REVIEW_DECIDED_STATUSES \<and>
      rv_decision_code v' = Some (pl_decision p) \<and> rv_reviewer_id v' = Some (u_id (rq_actor rq)) \<and>
      rv_original_requires_consultation v' = rv_original_requires_consultation v \<and>
      rv_effective_requires_consultation v' = cz_effective (pl_audit p) \<and>
      rv_consultation_evidence_snapshot v' = cz_snapshot (pl_audit p) \<and>
      rv_consultation_reason_code v' = cz_reason (pl_audit p))"

lemma decision_writes_decided:
  assumes "decision_writes dc rq v i p d v' i' d'" and "v \<in> set (db_reviews d)"
  shows "v' \<in> set (db_reviews d')" "decided_row rq v p v'" "review_constraints v'" "review_clean v'"
proof -
  obtain published status where s: "decided_status (pl_decision p) = Inr status"
    and v': "v' = (decided_review rq p status published v)\<lparr>rv_updated_at := rq_now rq\<rparr>"
    and ok: "review_constraints v'" "review_clean v'"
    and rows: "db_reviews d' = map (\<lambda>r. if rv_id r = rv_id v
       then (decided_review rq p status published r)\<lparr>rv_updated_at := rq_now rq\<rparr> else r) (db_reviews d)"
    using assms(1) by (rule decision_writes_review)
  show "review_constraints v'" "review_clean v'" by (rule ok)+
  show "v' \<in> set (db_reviews d')" using assms(2) unfolding rows v' by (auto intro: rev_image_eqI)
  have "status \<in> REVIEW_DECIDED_STATUSES"
    using s by (auto simp: REVIEW_DECIDED_STATUSES_def split: if_splits)
  then show "decided_row rq v p v'" by (simp add: decided_row_def v' decided_review_def)
qed

lemma decide_decided:
  assumes "decide approved races rq d = (Inr out, d')" and "d' \<noteq> add_races races d"
  shows "\<exists>v i p v'. lock_review rq d = Inr (v, i) \<and> plan_review approved rq (v, i) d = Inr p \<and>
    v' \<in> set (db_reviews d') \<and> decided_row rq v p v' \<and> review_constraints v' \<and> review_clean v' \<and>
    (\<exists>j \<in> set (db_inquiries d'). i_id j = i_id i \<and> i_status_code j = review_target (pl_event p) \<and>
       i_state_version j = i_state_version i + 1) \<and>
    (cz_effective (pl_audit p) \<longrightarrow> open_consultation (i_id i) d')"
proof -
  obtain v i p r v' i' d1 kvs where l: "lock_review rq d = Inr (v, i)" and p: "plan_review approved rq (v, i) d = Inr p"
    and w: "decision_writes approved rq v i p (claimed_db races r d) v' i' d1"
    and a: "answer_with rq ''decideHumanReview'' 200 kvs (rv_public_id v') d1 = (out, d')"
    using assms by (rule decide_fresh)
  obtain s where s: "resolve waterbridge s (pl_event p) = Inr (pl_transition p)" "s_version s = Some (i_state_version i)"
    using review_transition_resolves [OF plan_review_Inr(9) [OF p]] by auto
  have e: "pl_event p \<in> REVIEW_EVENTS" unfolding plan_review_Inr(8) [OF p] by (rule review_event_events)
  note b = flow_contract_rule(5) [OF flow_waterbridge s(1) e]
  have t: "t_state_after (pl_transition p) = review_target (pl_event p)" "t_version_after (pl_transition p) = i_state_version i + 1"
    using review_resolves_to [OF s(1) e] s by (auto simp: resolve_Inr next_version_Inr)
  note same = answer_reviews [OF a] answered_keeps(1,6) [OF a]
  have v: "v \<in> set (db_reviews (claimed_db races r d))" and i: "i \<in> set (db_inquiries (claimed_db races r d))"
    using lock_review_Inr(2,4) [OF l] by (simp_all add: claimed_db_def)
  have "cz_effective (pl_audit p) \<Longrightarrow> open_consultation (i_id i) d'"
    using decision_writes_open [OF w] unfolding plan_review_Inr(8) [OF p]
    by (auto simp: review_event_def open_consultation_def same split: if_splits)
  then show ?thesis
    using l p decision_writes_decided [OF w v] decision_writes_inquiry [OF w b i] t by (auto simp: same)
qed

section \<open>Decided once\<close>

text \<open>
  A further call on a decided review is refused, whatever it asks for: the review is not pending.
\<close>

lemma decided_refused:
  assumes "\<forall>v \<in> set (db_reviews d). rv_public_id v = rq_target rq \<longrightarrow> rv_status_code v \<noteq> ''PENDING''"
    and "request_scope (rq_actor rq) ''decideHumanReview'' (rq_key rq) \<notin> idem_scope ` set (db_idem d)"
  shows "\<exists>e. decide dc races rq d = (Inl e, add_races races d) \<and> (e = Not_found \<or> (\<exists>v. e = review_conflict v))"
proof (cases "lock_review rq d")
  case (Inl e)
  then have "e = Not_found" by (auto simp: lock_review_def rbind_Inl_iff of_option_iff)
  then show ?thesis using Inl by (simp add: decide_def decide_body_def keyed_flow_def atomically_def)
next
  case (Inr q)
  then obtain v i where q: "lock_review rq d = Inr (v, i)" by (cases q) auto
  have "rv_status_code v \<noteq> ''PENDING''" using assms(1) lock_review_Inr(4,5) [OF q] by blast
  then have "plan_review dc rq (v, i) d = Inl (review_conflict v)" by (simp add: plan_review_def)
  then have "decide dc races rq d = (Inl (review_conflict v), add_races races d)"
    using q unknown_key [OF assms(2)] by (simp add: decide_def decide_body_def keyed_flow_def atomically_def)
  then show ?thesis by blast
qed

lemma claimed_reviews: "db_reviews (claimed_db races r d) = db_reviews d"
  by (simp add: claimed_db_def)

lemma decision_leaves_decided:
  assumes "decide dc races rq d = (Inr out, d')" and "d' \<noteq> add_races races d"
    and "distinct (map rv_public_id (db_reviews d))"
  shows "\<forall>v \<in> set (db_reviews d'). rv_public_id v = rq_target rq \<longrightarrow> rv_status_code v \<noteq> ''PENDING''"
proof -
  obtain v i p r v' i' d1 kvs where l: "lock_review rq d = Inr (v, i)"
    and w: "decision_writes dc rq v i p (claimed_db races r d) v' i' d1"
    and a: "answer_with rq ''decideHumanReview'' 200 kvs (rv_public_id v') d1 = (out, d')"
    using assms(1,2) by (rule decide_fresh)
  obtain published status where s: "decided_status (pl_decision p) = Inr status"
    and rows: "db_reviews d1 = map (\<lambda>r. if rv_id r = rv_id v
       then (decided_review rq p status published r)\<lparr>rv_updated_at := rq_now rq\<rparr> else r) (db_reviews d)"
    using decision_writes_review [OF w] unfolding claimed_reviews by blast
  have st: "status \<noteq> ''PENDING''" using s by (auto split: if_splits)
  show ?thesis unfolding answer_reviews [OF a] rows
  proof (intro ballI impI)
    fix q assume "q \<in> set (map (\<lambda>r. if rv_id r = rv_id v
       then (decided_review rq p status published r)\<lparr>rv_updated_at := rq_now rq\<rparr> else r) (db_reviews d))"
      and t: "rv_public_id q = rq_target rq"
    then obtain x where x: "x \<in> set (db_reviews d)" "q = (if rv_id x = rv_id v
       then (decided_review rq p status published x)\<lparr>rv_updated_at := rq_now rq\<rparr> else x)" by auto
    have "rv_public_id x = rq_target rq" using t x(2) by (simp add: decided_review_def split: if_splits)
    then have "x = v" using x(1) lock_review_Inr(4,5) [OF l] assms(3) by (metis distinct_map inj_onD)
    then show "rv_status_code q \<noteq> ''PENDING''" using st by (simp add: x(2) decided_review_def)
  qed
qed

end
