(* ===== verification/ReviewProperties.thy ===== *)
theory ReviewProperties
  imports ReviewSafety
begin

text \<open>
  The properties of human review under the approved documents, and one rejected review at which their
  hypotheses hold.
\<close>

section \<open>A rejected review\<close>






definition held_snapshot :: snapshot where
  "held_snapshot = \<lparr>s_state = Some ''QUESTIONNAIRE_IN_PROGRESS'', s_version = Some 2, s_visit = None\<rparr>"

definition reject_transition :: transition where
  "reject_transition = plan_of waterbridge held_snapshot ''HUMAN_REVIEW_REJECTED'' tr_inq_042 3 None"




lemma reject_transition_sel [simp]:
  "t_event reject_transition = ''HUMAN_REVIEW_REJECTED''"
  "t_state_before reject_transition = Some ''QUESTIONNAIRE_IN_PROGRESS''"
  "t_state_after reject_transition = ''CONSULTATION_REQUIRED''" "t_version_after reject_transition = 3"
  "t_guard_refs reject_transition = [''G-ACTOR-SYSTEM'', ''G-STATE-VERSION'', ''G-HUMAN-REVIEW-REJECTED'']"
  "t_record_business reject_transition"
  by (simp_all add: reject_transition_def held_snapshot_def contract_simps)
    (simp_all add: plan_of_def tr_inq_042_def history_flags_def)















section \<open>What a decision may do\<close>





text \<open>
  C21: The causes an AI run recorded allow a reviewer to waive the consultation exactly when there is at
  least one, and each is a limit of the harness with its own lock: one cause of another kind, one that is
  unknown or one with a foreign lock makes the requirement permanent.
\<close>

theorem ledger_resolvable_iff:
  "fst (consultation_origin_from_ledger causes) = ''NON_SAFETY_RESOLVABLE'' \<longleftrightarrow>
     causes \<noteq> [] \<and> list_all resolvable_by_cause causes"
  by (rule ledger_resolvable)

end
