(* ===== verification/ContractValidator.thy ===== *)
theory ContractValidator
  imports Canonical
begin

text \<open>
  The contract validator \<open>workflow/contracts/contract_validator.py\<close>: six YAML documents are checked
  for their shape and for the references between them, and every error is collected. Loaded documents
  are values of \<open>yaml\<close>; floats and dates, which no field of a contract takes, are not among them. An
  error is its path, the kind of its message and the values the message shows. A Python \<open>TypeError\<close>
  that the checks do not catch is a \<open>crash\<close>.
\<close>

section \<open>Documents\<close>

datatype yaml = YNull | YBool bool | YInt int | YStr string | YList "yaml list" | YMap "(yaml \<times> yaml) list"

type_synonym mapping = "(yaml \<times> yaml) list"

definition has_key :: "mapping \<Rightarrow> string \<Rightarrow> bool" where
  "has_key m k = (map_of m (YStr k) \<noteq> None)"

definition get_or :: "mapping \<Rightarrow> string \<Rightarrow> yaml \<Rightarrow> yaml" where
  "get_or m k v = (case map_of m (YStr k) of None \<Rightarrow> v | Some w \<Rightarrow> w)"

abbreviation get :: "mapping \<Rightarrow> string \<Rightarrow> yaml" where
  "get m k \<equiv> get_or m k YNull"

text \<open>\<open>str\<close> of a mapping key, which is a scalar.\<close>

fun key_text :: "yaml \<Rightarrow> string" where
  "key_text (YStr s) = s"
| "key_text (YInt i) = int_text i"
| "key_text (YBool b) = (if b then ''True'' else ''False'')"
| "key_text _ = ''None''"

text \<open>Python's \<open>==\<close>: a boolean equals its number, and a mapping does not depend on the order of its keys.\<close>

function yaml_eq :: "yaml \<Rightarrow> yaml \<Rightarrow> bool" where
  "yaml_eq YNull w = (w = YNull)"
| "yaml_eq (YStr s) w = (w = YStr s)"
| "yaml_eq (YBool b) w = (w = YBool b \<or> w = YInt (if b then 1 else 0))"
| "yaml_eq (YInt i) w = (w = YInt i \<or> w = YBool True \<and> i = 1 \<or> w = YBool False \<and> i = 0)"
| "yaml_eq (YList xs) w =
     (case w of
        YList ys \<Rightarrow> length xs = length ys \<and> list_all (\<lambda>(x, y). yaml_eq x y) (zip xs ys)
      | _ \<Rightarrow> False)"
| "yaml_eq (YMap m) w =
     (case w of
        YMap n \<Rightarrow> length m = length n \<and>
          list_all (\<lambda>(k, v). list_ex (\<lambda>(l, u). yaml_eq k l \<and> yaml_eq v u) n) m
      | _ \<Rightarrow> False)"
  by pat_completeness auto

lemma size_zip_left: "(x, y) \<in> set (zip xs ys) \<Longrightarrow> size x < Suc (size_list size xs)"
  by (drule set_zip_leftD) (induction xs, auto)

lemma size_pair_in:
  fixes m :: mapping
  assumes "(k, v) \<in> set m"
  shows "size k < Suc (size_list (size_prod size size) m)" "size v < Suc (size_list (size_prod size size) m)"
  using assms by (induction m) auto

termination yaml_eq
  by (relation "measure (\<lambda>(v, w). size v)") (auto simp: size_zip_left size_pair_in)

section \<open>Errors\<close>

datatype contract_error = Contract_error (ce_path: string) (ce_kind: string) (ce_shown: "string list")

type_synonym 'a checked = "'a \<times> contract_error list"

datatype crash = Type_error

definition indexed :: "string \<Rightarrow> nat \<Rightarrow> string" where
  "indexed path n = path @ ''['' @ decimal n @ '']''"

definition dotted :: "string \<Rightarrow> string \<Rightarrow> string" where
  "dotted path k = path @ ''.'' @ k"

section \<open>Helpers\<close>

fun nonempty_string :: "yaml \<Rightarrow> string option" where
  "nonempty_string (YStr s) = (if has_text s then Some (strip s) else None)"
| "nonempty_string _ = None"

definition sorted_set :: "'a::linorder list \<Rightarrow> 'a list" where
  "sorted_set xs = sort (remdups xs)"

definition duplicate_values :: "string list \<Rightarrow> string list" where
  "duplicate_values xs = sorted_set (filter (\<lambda>x. 1 < count_list xs x) xs)"

definition string_list :: "yaml \<Rightarrow> string \<Rightarrow> bool \<Rightarrow> string list checked" where
  "string_list v path require_nonempty =
     (case v of
        YList xs \<Rightarrow>
          if require_nonempty \<and> xs = [] then ([], [Contract_error path ''value_required'' []])
          else let result = List.map_filter nonempty_string xs in
            (result,
             List.map_filter (\<lambda>(n, x). if nonempty_string x = None
               then Some (Contract_error (indexed path n) ''nonempty_string'' []) else None) (enumerate 0 xs) @
             map (\<lambda>d. Contract_error path ''duplicate'' [d]) (duplicate_values result))
      | _ \<Rightarrow> ([], [Contract_error path ''list'' []]))"

definition required_string :: "mapping \<Rightarrow> string \<Rightarrow> string \<Rightarrow> string option checked" where
  "required_string m k path =
     (case nonempty_string (get m k) of
        None \<Rightarrow> (None, [Contract_error (dotted path k) ''nonempty_string'' []])
      | Some s \<Rightarrow> (Some s, []))"

definition required_mapping :: "yaml \<Rightarrow> string \<Rightarrow> mapping checked" where
  "required_mapping v path =
     (case v of YMap (kv # kvs) \<Rightarrow> (kv # kvs, []) | _ \<Rightarrow> ([], [Contract_error path ''nonempty_mapping'' []]))"

fun nonempty_mapping :: "yaml \<Rightarrow> mapping option" where
  "nonempty_mapping (YMap (kv # kvs)) = Some (kv # kvs)"
| "nonempty_mapping _ = None"

definition mapping_entries :: "yaml \<Rightarrow> string \<Rightarrow> bool \<Rightarrow> mapping list checked" where
  "mapping_entries v path require_nonempty =
     (case v of
        YList xs \<Rightarrow>
          if require_nonempty \<and> xs = [] then ([], [Contract_error path ''entry_required'' []])
          else (List.map_filter nonempty_mapping xs,
             List.map_filter (\<lambda>(n, x). if nonempty_mapping x = None
               then Some (Contract_error (indexed path n) ''nonempty_mapping'' []) else None) (enumerate 0 xs))
      | _ \<Rightarrow> ([], [Contract_error path ''list'' []]))"

definition document :: "mapping \<Rightarrow> string \<Rightarrow> mapping checked" where
  "document documents name =
     (case nonempty_mapping (get documents name) of
        None \<Rightarrow> ([], [Contract_error name ''nonempty_contract'' []])
      | Some m \<Rightarrow> (m, []))"

definition CONTRACT_NAMES :: "(string \<times> string) list" where
  "CONTRACT_NAMES =
     [(''states'', ''inquiry-states''), (''events'', ''inquiry-events''), (''transitions'', ''transition-rules''),
      (''guards'', ''transition-guards''), (''allowed_actions'', ''allowed-actions''),
      (''role_permissions'', ''role-permissions'')]"

definition validate_contract_header :: "mapping \<Rightarrow> string \<Rightarrow> string \<Rightarrow> contract_error list" where
  "validate_contract_header doc name expected =
     (let path = dotted name ''contract'';
          (header, e1) = required_mapping (get doc ''contract'') path in
      if header = [] then e1
      else let (found, e2) = required_string header ''name'' path in
        e1 @ e2 @
        (case found of None \<Rightarrow> []
         | Some s \<Rightarrow> if s \<noteq> expected then [Contract_error (dotted path ''name'') ''expected_name'' [expected]] else []) @
        concat (map (\<lambda>k. snd (required_string header k path)) [''version'', ''status'', ''owner'']))"

text \<open>The first entry of a code is indexed; later ones are duplicates.\<close>

fun code_index_from ::
  "nat \<Rightarrow> string \<Rightarrow> string \<Rightarrow> (string \<times> mapping) list \<Rightarrow> mapping list \<Rightarrow> (string \<times> mapping) list checked" where
  "code_index_from n path k result [] = (result, [])"
| "code_index_from n path k result (entry # entries) =
     (let (code, e1) = required_string entry k (indexed path n) in
      case code of
        None \<Rightarrow> (let (r, e) = code_index_from (Suc n) path k result entries in (r, e1 @ e))
      | Some c \<Rightarrow>
          if c \<in> set (map fst result)
          then let (r, e) = code_index_from (Suc n) path k result entries
               in (r, e1 @ Contract_error path (k @ ''_duplicate'') [c] # e)
          else let (r, e) = code_index_from (Suc n) path k (result @ [(c, entry)]) entries in (r, e1 @ e))"

definition code_index :: "mapping list \<Rightarrow> string \<Rightarrow> string \<Rightarrow> (string \<times> mapping) list checked" where
  "code_index entries path k = code_index_from 0 path k [] entries"

definition validate_reference ::
  "string option \<Rightarrow> string list \<Rightarrow> string \<Rightarrow> string \<Rightarrow> contract_error list" where
  "validate_reference v registry path registry_name =
     (case v of None \<Rightarrow> []
      | Some s \<Rightarrow> if s \<in> set registry then [] else [Contract_error path (''unregistered '' @ registry_name) [s]])"

definition validate_references ::
  "string list \<Rightarrow> string list \<Rightarrow> string \<Rightarrow> string \<Rightarrow> contract_error list" where
  "validate_references vs registry path registry_name =
     concat (map (\<lambda>v. validate_reference (Some v) registry path registry_name) vs)"

text \<open>A hashable copy of a value; mapping keys are sorted by their text.\<close>

datatype frozen = FNull | FInt int | FStr string | FTuple "frozen list"

fun freeze :: "yaml \<Rightarrow> frozen" where
  "freeze YNull = FNull"
| "freeze (YBool b) = FInt (if b then 1 else 0)"
| "freeze (YInt i) = FInt i"
| "freeze (YStr s) = FStr s"
| "freeze (YList xs) = FTuple (map freeze xs)"
| "freeze (YMap m) = FTuple (map (\<lambda>(k, v). FTuple [FStr k, v])
     (sort_key fst (map (\<lambda>(k, v). (key_text k, freeze v)) m)))"

fun is_bool :: "yaml \<Rightarrow> bool" where
  "is_bool (YBool b) = True"
| "is_bool _ = False"

definition require_bool :: "mapping \<Rightarrow> string \<Rightarrow> string \<Rightarrow> contract_error list" where
  "require_bool m path k =
     (if is_bool (get m k) then [] else [Contract_error (dotted path k) ''boolean'' []])"

text \<open>The two halves of a set difference reported in sorted order.\<close>

definition without :: "'a::linorder list \<Rightarrow> 'a list \<Rightarrow> 'a list" where
  "without xs ys = sorted_set (filter (\<lambda>x. x \<notin> set ys) xs)"

section \<open>States\<close>

definition state_errors :: "string list \<Rightarrow> string list \<Rightarrow> nat \<times> mapping \<Rightarrow> contract_error list" where
  "state_errors owner_types visit_statuses = (\<lambda>(n, entry).
     (let path = indexed ''states.states'' n;
          (owner, e1) = required_string entry ''owner_type'' path;
          (allowed, e2) = string_list (get entry ''allowed_visit_statuses'') (dotted path ''allowed_visit_statuses'') False
      in e1 @ validate_reference owner owner_types (dotted path ''owner_type'') ''owner_type'' @
         require_bool entry path ''terminal'' @ e2 @
         validate_references allowed visit_statuses (dotted path ''allowed_visit_statuses'') ''visit status''))"

definition terminal_flags :: "mapping list \<Rightarrow> string list" where
  "terminal_flags entries =
     List.map_filter (\<lambda>e. if get e ''terminal'' = YBool True then nonempty_string (get e ''code'') else None) entries"

record state_index =
  si_states :: "(string \<times> mapping) list"
  si_terminal :: "string list"
  si_visits :: "string list"

definition validate_states :: "mapping \<Rightarrow> state_index checked" where
  "validate_states doc =
     (let (entries, e1) = mapping_entries (get doc ''states'') ''states.states'' True;
          (by_code, e2) = code_index entries ''states.states'' ''code'';
          codes = map fst by_code;
          (owner_types, e3) = string_list (get doc ''owner_types'') ''states.owner_types'' True;
          (visit_statuses, e4) = string_list (get doc ''visit_status_codes'') ''states.visit_status_codes'' True;
          (terminal, e5) = string_list (get doc ''terminal_states'') ''states.terminal_states'' True;
          initial = nonempty_string (get doc ''initial_state'');
          flags = terminal_flags entries
      in (\<lparr>si_states = by_code, si_terminal = terminal, si_visits = visit_statuses\<rparr>,
          e1 @ e2 @ e3 @ e4 @ e5 @
          (if initial = None then [Contract_error ''states.initial_state'' ''nonempty_string'' []] else []) @
          validate_reference initial codes ''states.initial_state'' ''state'' @
          validate_references (sorted_set terminal) codes ''states.terminal_states'' ''state'' @
          concat (map (state_errors owner_types visit_statuses) (enumerate 0 entries)) @
          map (\<lambda>s. Contract_error ''states.terminal_states'' ''flag_not_true'' [s]) (without terminal flags) @
          map (\<lambda>s. Contract_error ''states.states'' ''not_in_terminal_states'' [s]) (without flags terminal)))"

section \<open>Events\<close>

definition external_action_errors :: "mapping \<Rightarrow> string \<Rightarrow> contract_error list" where
  "external_action_errors entry path =
     (let (action, e1) = required_mapping (get entry ''external_action'') (dotted path ''external_action'');
          operation = get action ''operation_id'';
          here = dotted (dotted path ''external_action'') ''operation_id''
      in if action = [] then e1
         else e1 @ (case get action ''exposed'' of
             YBool True \<Rightarrow> if nonempty_string operation = None then [Contract_error here ''operation_required'' []] else []
           | YBool False \<Rightarrow> if operation \<noteq> YNull then [Contract_error here ''null_for_internal'' []] else []
           | _ \<Rightarrow> [Contract_error (dotted (dotted path ''external_action'') ''exposed'') ''boolean'' []]))"

definition event_errors :: "string list \<Rightarrow> string list \<Rightarrow> string list \<Rightarrow> nat \<times> mapping \<Rightarrow> contract_error list" where
  "event_errors categories scopes roles = (\<lambda>(n, entry).
     (let path = indexed ''events.events'' n;
          (category, e1) = required_string entry ''category'' path;
          (scope, e2) = required_string entry ''scope'' path;
          (actor_roles, e3) = string_list (get entry ''actor_roles'') (dotted path ''actor_roles'') True
      in e1 @ e2 @ validate_reference category categories (dotted path ''category'') ''event category'' @
         validate_reference scope scopes (dotted path ''scope'') ''event scope'' @ e3 @
         validate_references actor_roles roles (dotted path ''actor_roles'') ''actor role'' @
         concat (map (require_bool entry path)
           [''changes_inquiry_state'', ''changes_visit_state'', ''requires_idempotency_key'', ''requires_state_version'']) @
         external_action_errors entry path))"

definition validate_events :: "mapping \<Rightarrow> ((string \<times> mapping) list \<times> string list) checked" where
  "validate_events doc =
     (let (categories, e1) = string_list (get doc ''categories'') ''events.categories'' True;
          (scopes, e2) = string_list (get doc ''scopes'') ''events.scopes'' True;
          (roles, e3) = string_list (get doc ''actor_roles'') ''events.actor_roles'' True;
          (entries, e4) = mapping_entries (get doc ''events'') ''events.events'' True;
          (by_code, e5) = code_index entries ''events.events'' ''code''
      in ((by_code, roles),
          e1 @ e2 @ e3 @ e4 @ e5 @ concat (map (event_errors categories scopes roles) (enumerate 0 entries))))"

section \<open>Guards\<close>

definition condition_errors :: "mapping \<Rightarrow> string \<Rightarrow> contract_error list" where
  "condition_errors entry path =
     (let here = dotted path ''conditions'' in
      case get entry ''conditions'' of
        YMap m \<Rightarrow>
          (let (combiner, e1) = required_string m ''combiner'' here in
           e1 @ (if combiner \<in> {Some ''ALL'', Some ''ANY''} then []
                 else [Contract_error (dotted here ''combiner'') ''all_or_any'' []]) @
           snd (string_list (get m ''items'') (dotted here ''items'') True))
      | v \<Rightarrow> snd (string_list v here True))"

definition failure_errors :: "mapping \<Rightarrow> string \<Rightarrow> contract_error list" where
  "failure_errors entry path =
     (let here = dotted path ''failure'';
          (failure, e1) = required_mapping (get entry ''failure'') here
      in if failure = [] then e1
         else e1 @ (case get failure ''http_status'' of
             YInt n \<Rightarrow> if 400 \<le> n \<and> n \<le> 599 then [] else [Contract_error (dotted here ''http_status'') ''range'' []]
           | _ \<Rightarrow> [Contract_error (dotted here ''http_status'') ''integer'' []]) @
           concat (map (\<lambda>k. snd (required_string failure k here)) [''error_code'', ''message'']))"

definition guard_errors :: "string list \<Rightarrow> nat \<times> mapping \<Rightarrow> contract_error list" where
  "guard_errors categories = (\<lambda>(n, entry).
     (let path = indexed ''guards.guards'' n;
          (category, e1) = required_string entry ''category'' path
      in e1 @ validate_reference category categories (dotted path ''category'') ''guard category'' @
         condition_errors entry path @ failure_errors entry path))"

definition validate_guards :: "mapping \<Rightarrow> (string \<times> mapping) list checked" where
  "validate_guards doc =
     (let (categories, e1) = string_list (get doc ''guard_categories'') ''guards.guard_categories'' True;
          (entries, e2) = mapping_entries (get doc ''guards'') ''guards.guards'' True;
          (by_id, e3) = code_index entries ''guards.guards'' ''id''
      in (by_id, e1 @ e2 @ e3 @ concat (map (guard_errors categories) (enumerate 0 entries))))"

section \<open>Transitions\<close>

definition from_state_of :: "mapping \<Rightarrow> string list \<Rightarrow> string \<Rightarrow> string option checked" where
  "from_state_of entry states path =
     (let here = dotted path ''from_inquiry_state'' in
      if \<not> has_key entry ''from_inquiry_state'' then (None, [Contract_error here ''missing_key'' []])
      else case get entry ''from_inquiry_state'' of
          YNull \<Rightarrow> (None, [])
        | v \<Rightarrow> (case nonempty_string v of
              Some s \<Rightarrow> (Some s, validate_reference (Some s) states here ''state'')
            | None \<Rightarrow> (None, [Contract_error here ''null_or_string'' []])))"

definition start_errors :: "mapping \<Rightarrow> string option \<Rightarrow> string list \<Rightarrow> string \<Rightarrow> contract_error list" where
  "start_errors entry from terminal path =
     (if get entry ''version_action'' = YStr ''INITIALIZE_1''
      then (if from \<noteq> None then [Contract_error (dotted path ''from_inquiry_state'') ''null_for_initialize'' []] else [])
      else if from = None then [Contract_error (dotted path ''from_inquiry_state'') ''state_required'' []] else []) @
     (case from of None \<Rightarrow> []
      | Some s \<Rightarrow> if s \<in> set terminal then [Contract_error path ''leaves_terminal'' [s]] else [])"

definition visit_errors :: "mapping \<Rightarrow> string list \<Rightarrow> string list \<Rightarrow> string \<Rightarrow> string option checked" where
  "visit_errors visit modes statuses path =
     (let here = dotted path ''visit'';
          (mode, e1) = required_string visit ''mode'' here
      in (mode, e1 @ validate_reference mode modes (dotted here ''mode'') ''visit mode'' @
        concat (map (\<lambda>k. if get visit k = YNull then []
            else let (status, e) = required_string visit k here
              in e @ validate_reference status statuses (dotted here k) ''visit status'')
          [''from_status'', ''to_status'', ''required_status''])))"

definition guard_ref_errors ::
  "mapping \<Rightarrow> mapping \<Rightarrow> string list \<Rightarrow> string \<Rightarrow> contract_error list" where
  "guard_ref_errors entry event guards path =
     (let here = dotted path ''guard_refs'';
          (refs, e1) = string_list (get entry ''guard_refs'') here True
      in e1 @ validate_references refs guards here ''guard'' @
         (if get event ''requires_state_version'' = YBool True \<and> ''G-STATE-VERSION'' \<notin> set refs
          then [Contract_error here ''version_guard_required'' []] else []) @
         (if get event ''requires_idempotency_key'' = YBool True \<and> ''G-IDEMPOTENCY-KEY'' \<notin> set refs
          then [Contract_error here ''idempotency_guard_required'' []] else []))"

definition history_errors ::
  "mapping \<Rightarrow> mapping \<Rightarrow> string option \<Rightarrow> string option \<Rightarrow> string option \<Rightarrow> string \<Rightarrow> contract_error list" where
  "history_errors entry visit mode from to path =
     (let here = dotted path ''history'';
          (history, e1) = required_mapping (get entry ''history'') here;
          visit_changes = (mode = Some ''CREATE'' \<or>
            mode = Some ''TRANSITION'' \<and> \<not> yaml_eq (get visit ''from_status'') (get visit ''to_status''))
      in if history = [] then e1
         else e1 @
           concat (map (require_bool history here)
             [''record_inquiry_state_history'', ''record_visit_state_history'', ''record_business_event'']) @
           (if from \<noteq> to \<and> get history ''record_inquiry_state_history'' \<noteq> YBool True
            then [Contract_error (dotted here ''record_inquiry_state_history'') ''true_for_change'' []] else []) @
           (if visit_changes \<and> get history ''record_visit_state_history'' \<noteq> YBool True
            then [Contract_error (dotted here ''record_visit_state_history'') ''true_for_change'' []] else []))"

definition version_action_errors :: "mapping \<Rightarrow> string list \<Rightarrow> string \<Rightarrow> contract_error list" where
  "version_action_errors entry actions path =
     (let here = dotted path ''version_action'' in
      case get entry ''version_action'' of
        YNull \<Rightarrow> []
      | v \<Rightarrow> (case nonempty_string v of
            None \<Rightarrow> [Contract_error here ''nonempty_string'' []]
          | Some s \<Rightarrow> validate_reference (Some s) actions here ''version action''))"

record registries =
  rg_states :: "string list"
  rg_terminal :: "string list"
  rg_visits :: "string list"
  rg_events :: "(string \<times> mapping) list"
  rg_guards :: "string list"
  rg_modes :: "string list"
  rg_actions :: "string list"

definition event_of :: "(string \<times> mapping) list \<Rightarrow> string option \<Rightarrow> mapping" where
  "event_of events code = (case Option.bind code (map_of events) of None \<Rightarrow> [] | Some e \<Rightarrow> e)"

definition transition_errors ::
  "registries \<Rightarrow> (string option \<times> string \<times> frozen) list \<Rightarrow> nat \<Rightarrow> mapping \<Rightarrow>
     (string option \<times> string \<times> frozen) option checked" where
  "transition_errors rg seen n entry =
     (let path = indexed ''transitions.transitions'' n;
          (event, e1) = required_string entry ''event'' path;
          (from, e2) = from_state_of entry (rg_states rg) path;
          (to, e3) = required_string entry ''to_inquiry_state'' path;
          (visit, e4) = required_mapping (get entry ''visit'') (dotted path ''visit'');
          (mode, e5) = (if visit = [] then (None, []) else visit_errors visit (rg_modes rg) (rg_visits rg) path);
          combination = map_option (\<lambda>e. (from, e, freeze (YMap visit))) event
      in (combination,
          e1 @ validate_reference event (map fst (rg_events rg)) (dotted path ''event'') ''event'' @ e2 @
          e3 @ validate_reference to (rg_states rg) (dotted path ''to_inquiry_state'') ''state'' @
          start_errors entry from (rg_terminal rg) path @ e4 @ e5 @
          (case combination of None \<Rightarrow> []
           | Some k \<Rightarrow> if k \<in> set seen then [Contract_error path ''combination_duplicate'' []] else []) @
          guard_ref_errors entry (event_of (rg_events rg) event) (rg_guards rg) path @
          history_errors entry visit mode from to path @
          version_action_errors entry (rg_actions rg) path))"

fun transitions_errors_from ::
  "registries \<Rightarrow> (string option \<times> string \<times> frozen) list \<Rightarrow> nat \<Rightarrow> mapping list \<Rightarrow> contract_error list" where
  "transitions_errors_from rg seen n [] = []"
| "transitions_errors_from rg seen n (entry # entries) =
     (let (combination, e) = transition_errors rg seen n entry;
          seen' = (case combination of None \<Rightarrow> seen | Some k \<Rightarrow> k # seen)
      in e @ transitions_errors_from rg seen' (Suc n) entries)"

text \<open>The keys of a mapping of \<open>rule_semantics\<close>; codes are compared with its string keys only.\<close>

definition semantics_keys :: "mapping \<Rightarrow> string \<Rightarrow> string list checked" where
  "semantics_keys semantics k =
     (let keys = (case get semantics k of YMap m \<Rightarrow> map fst m | _ \<Rightarrow> [])
      in (List.map_filter (\<lambda>v. case v of YStr s \<Rightarrow> Some s | _ \<Rightarrow> None) keys,
          if keys = [] then [Contract_error (dotted ''transitions.rule_semantics'' k) ''nonempty_mapping'' []] else []))"

fun excluded_events_from ::
  "string list \<Rightarrow> string list \<Rightarrow> nat \<Rightarrow> mapping list \<Rightarrow> string list checked" where
  "excluded_events_from registry seen n [] = (seen, [])"
| "excluded_events_from registry seen n (entry # entries) =
     (let path = indexed ''transitions.excluded_events'' n;
          (event, e1) = required_string entry ''event'' path;
          e2 = validate_reference event registry (dotted path ''event'') ''event'';
          e3 = (case event of None \<Rightarrow> []
            | Some c \<Rightarrow> if c \<in> set seen then [Contract_error ''transitions.excluded_events'' ''duplicate'' [c]] else []);
          (r, e) = excluded_events_from registry (case event of None \<Rightarrow> seen | Some c \<Rightarrow> c # seen) (Suc n) entries
      in (r, e1 @ e2 @ e3 @ e))"

definition validate_transitions ::
  "mapping \<Rightarrow> state_index \<Rightarrow> (string \<times> mapping) list \<Rightarrow> string list \<Rightarrow> (string \<times> mapping) list checked" where
  "validate_transitions doc si events guards =
     (let (entries, e1) = mapping_entries (get doc ''transitions'') ''transitions.transitions'' True;
          (by_id, e2) = code_index entries ''transitions.transitions'' ''id'';
          (semantics, e3) = required_mapping (get doc ''rule_semantics'') ''transitions.rule_semantics'';
          (modes, e4) = semantics_keys semantics ''visit_modes'';
          (actions, e5) = semantics_keys semantics ''version_actions'';
          rg = \<lparr>rg_states = map fst (si_states si), rg_terminal = si_terminal si, rg_visits = si_visits si,
            rg_events = events, rg_guards = guards, rg_modes = modes, rg_actions = actions\<rparr>;
          used = List.map_filter (\<lambda>e. nonempty_string (get e ''event'')) entries;
          (excluded_entries, e6) = mapping_entries (get doc ''excluded_events'') ''transitions.excluded_events'' False;
          (excluded, e7) = excluded_events_from (map fst events) [] 0 excluded_entries
      in (by_id,
          e1 @ e2 @ e3 @ e4 @ e5 @ transitions_errors_from rg [] 0 entries @ e6 @ e7 @
          map (\<lambda>c. Contract_error ''transitions'' ''used_and_excluded'' [c])
            (sorted_set (filter (\<lambda>c. c \<in> set excluded) used)) @
          map (\<lambda>c. Contract_error ''transitions'' ''neither_used_nor_excluded'' [c])
            (without (map fst events) (used @ excluded))))"

section \<open>Roles\<close>

text \<open>\<open>for role in event.get("actor_roles", [])\<close>: a string yields its characters, a mapping its keys.\<close>

fun iterated :: "yaml \<Rightarrow> crash + yaml list" where
  "iterated (YList xs) = Inr xs"
| "iterated (YStr s) = Inr (map (\<lambda>c. YStr [c]) s)"
| "iterated (YMap m) = Inr (map fst m)"
| "iterated _ = Inl Type_error"

definition event_roles :: "mapping \<Rightarrow> crash + string list" where
  "event_roles event =
     rbind (iterated (get_or event ''actor_roles'' (YList []))) (\<lambda>vs. Inr (List.map_filter nonempty_string vs))"

definition permission_errors ::
  "(string \<times> mapping) list \<Rightarrow> string list \<Rightarrow> nat \<times> mapping \<Rightarrow> (string \<times> string) list checked" where
  "permission_errors events actor_roles = (\<lambda>(n, entry).
     (let path = indexed ''role_permissions.roles'' n;
          role = nonempty_string (get entry ''code'');
          here = dotted path ''allowed_events'';
          (allowed, e1) = string_list (get entry ''allowed_events'') here True
      in (case role of None \<Rightarrow> [] | Some r \<Rightarrow> map (\<lambda>e. (e, r)) allowed,
          validate_reference role actor_roles (dotted path ''code'') ''actor role'' @ e1 @
          validate_references allowed (map fst events) here ''event'' @
          (case get entry ''required_permissions'' of
             YNull \<Rightarrow> []
           | YMap m \<Rightarrow> concat (map (\<lambda>(k, permissions).
               (let at = dotted (dotted path ''required_permissions'') (key_text k) in
                (if k \<notin> YStr ` set allowed then [Contract_error at ''not_in_allowed_events'' []] else []) @
                snd (string_list permissions at True))) m)
           | _ \<Rightarrow> [Contract_error (dotted path ''required_permissions'') ''mapping'' []]))))"

definition validate_role_permissions ::
  "mapping \<Rightarrow> (string \<times> mapping) list \<Rightarrow> string list \<Rightarrow> crash + (string \<times> mapping) list checked" where
  "validate_role_permissions doc events actor_roles =
     (let (entries, e1) = mapping_entries (get doc ''roles'') ''role_permissions.roles'' True;
          (by_code, e2) = code_index entries ''role_permissions.roles'' ''code'';
          checks = map (permission_errors events actor_roles) (enumerate 0 entries);
          permitted = concat (map fst checks)
      in rbind (map_res (\<lambda>(c, event). rbind (event_roles event) (\<lambda>rs. Inr (c, event, rs))) events) (\<lambda>roles.
         let listed = concat (map (\<lambda>(c, event, rs). map (\<lambda>r. (c, r)) rs) roles)
         in Inr (by_code,
           e1 @ e2 @ concat (map snd checks) @
           map (\<lambda>(e, r). Contract_error ''role_permissions.roles'' ''permission_missing'' [e, r]) (without listed permitted) @
           map (\<lambda>(e, r). Contract_error ''role_permissions.roles'' ''permission_unlisted'' [r, e]) (without permitted listed) @
           concat (map (\<lambda>(c, event, rs).
             if get event ''category'' = YStr ''SYSTEM_EVENT'' \<and> set rs \<noteq> {''SYSTEM''}
             then [Contract_error (dotted ''events.events'' c) ''system_role_only'' []] else []) roles) @
           concat (map (\<lambda>(c, event, rs).
             if c = ''FINALIZE_INQUIRY'' \<and> set rs \<noteq> {''CONSULTANT'', ''TECHNICIAN''}
             then [Contract_error ''events.events.FINALIZE_INQUIRY'' ''handlers_only'' []] else []) roles))))"

section \<open>Allowed actions\<close>

definition catalog_errors :: "(string \<times> mapping) list \<Rightarrow> string list \<Rightarrow> nat \<times> mapping \<Rightarrow> contract_error list" where
  "catalog_errors events styles = (\<lambda>(n, entry).
     (let path = indexed ''allowed_actions.action_catalog'' n;
          code = nonempty_string (get entry ''code'');
          (style, e1) = required_string entry ''style'' path
      in (case code of None \<Rightarrow> []
          | Some c \<Rightarrow> (case map_of events c of
                None \<Rightarrow> [Contract_error (dotted path ''code'') ''unregistered event'' [c]]
              | Some event \<Rightarrow>
                  let action = (case get event ''external_action'' of YMap m \<Rightarrow> m | _ \<Rightarrow> []) in
                  (if get action ''exposed'' \<noteq> YBool True \<or> get event ''category'' = YStr ''SYSTEM_EVENT''
                   then [Contract_error (dotted path ''code'') ''exposed_only'' []] else []) @
                  (if yaml_eq (get entry ''operation_id'') (get action ''operation_id'') then []
                   else [Contract_error (dotted path ''operation_id'') ''operation_mismatch'' []]))) @
         e1 @ validate_reference style styles (dotted path ''style'') ''action style'' @
         require_bool entry path ''requires_confirmation''))"

text \<open>\<open>normalized_role not in actor_roles\<close>: on a string it is a substring test, which \<open>None\<close> does not allow.\<close>

fun contained :: "string option \<Rightarrow> yaml \<Rightarrow> crash + bool" where
  "contained r (YList xs) = Inr ((case r of None \<Rightarrow> YNull | Some s \<Rightarrow> YStr s) \<in> set xs)"
| "contained r (YMap m) = Inr ((case r of None \<Rightarrow> YNull | Some s \<Rightarrow> YStr s) \<in> fst ` set m)"
| "contained (Some s) (YStr t) = Inr (sublist s t)"
| "contained r _ = Inl Type_error"

definition role_errors :: "mapping option \<Rightarrow> string option \<Rightarrow> string \<Rightarrow> crash + contract_error list" where
  "role_errors event role path =
     rbind (contained role (case event of None \<Rightarrow> YList [] | Some e \<Rightarrow> get_or e ''actor_roles'' (YList []))) (\<lambda>b.
     Inr ((if b then [] else [Contract_error (dotted path ''action'') ''role_not_in_event''
             [case role of None \<Rightarrow> ''None'' | Some r \<Rightarrow> r]]) @
          (case event of None \<Rightarrow> []
           | Some e \<Rightarrow> if get e ''category'' = YStr ''SYSTEM_EVENT''
             then [Contract_error (dotted path ''action'') ''system_event'' []] else [])))"

definition rule_errors ::
  "(string \<times> mapping) list \<Rightarrow> string option \<Rightarrow> string \<Rightarrow> string \<Rightarrow> string \<Rightarrow> contract_error list" where
  "rule_errors rules action state path rule_id =
     (let here = dotted path ''transition_rule_ids'' in
      case map_of rules rule_id of
        None \<Rightarrow> [Contract_error here ''unregistered transition rule'' [rule_id]]
      | Some rule \<Rightarrow>
          (case action of None \<Rightarrow> []
           | Some a \<Rightarrow> if get rule ''event'' = YStr a then [] else [Contract_error here ''other_event'' [rule_id]]) @
          (if get rule ''from_inquiry_state'' = YStr state then []
           else [Contract_error here ''other_state'' [rule_id]]))"

record action_registries =
  ar_actions :: "string list"
  ar_events :: "(string \<times> mapping) list"
  ar_roles :: "string list"
  ar_rules :: "(string \<times> mapping) list"

fun action_entries_errors ::
  "action_registries \<Rightarrow> string \<Rightarrow> string option \<Rightarrow> string \<Rightarrow> string list \<Rightarrow> nat \<Rightarrow> mapping list \<Rightarrow>
     crash + contract_error list" where
  "action_entries_errors ag state role path seen n [] = Inr []"
| "action_entries_errors ag state role path seen n (entry # entries) =
     (let here = indexed path n;
          (action, e1) = required_string entry ''action'' here;
          e2 = validate_reference action (ar_actions ag) (dotted here ''action'') ''action'';
          e3 = (case action of None \<Rightarrow> []
            | Some a \<Rightarrow> if a \<in> set seen then [Contract_error path ''action_duplicate'' [a]] else []);
          (rule_ids, e4) = string_list (get entry ''transition_rule_ids'') (dotted here ''transition_rule_ids'') True;
          e5 = concat (map (rule_errors (ar_rules ag) action state here) rule_ids)
      in rbind (case action of None \<Rightarrow> Inr [] | Some a \<Rightarrow> role_errors (map_of (ar_events ag) a) role here) (\<lambda>er.
         rbind (action_entries_errors ag state role path (case action of None \<Rightarrow> seen | Some a \<Rightarrow> a # seen)
            (Suc n) entries) (\<lambda>e.
         Inr (e1 @ e2 @ e3 @ er @ e4 @ e5 @ e))))"

definition role_actions_errors ::
  "action_registries \<Rightarrow> string \<Rightarrow> yaml \<times> yaml \<Rightarrow> crash + contract_error list" where
  "role_actions_errors ag state = (\<lambda>(role, v).
     (let path = dotted (dotted ''allowed_actions.state_role_actions'' state) (key_text role);
          name = nonempty_string role;
          (entries, e1) = mapping_entries v path True
      in rbind (action_entries_errors ag state name path [] 0 entries) (\<lambda>e.
         Inr (validate_reference name (ar_roles ag) path ''role'' @ e1 @ e))))"

definition state_actions_errors ::
  "action_registries \<Rightarrow> string list \<Rightarrow> yaml \<times> yaml \<Rightarrow> crash + contract_error list" where
  "state_actions_errors ag terminal = (\<lambda>(state, role_map).
     (case nonempty_string state of
        None \<Rightarrow> Inr [Contract_error ''allowed_actions.state_role_actions'' ''nonempty_string'' []]
      | Some s \<Rightarrow>
         let here = dotted ''allowed_actions.state_role_actions'' s in
         (case role_map of
            YMap m \<Rightarrow>
              rbind (map_res (role_actions_errors ag s) m) (\<lambda>es.
              Inr ((if s \<in> set terminal \<and> m \<noteq> [] then [Contract_error here ''terminal_actions'' []] else []) @ concat es))
          | _ \<Rightarrow> Inr [Contract_error here ''mapping'' []])))"

definition internal_state_errors ::
  "(string \<times> mapping) list \<Rightarrow> yaml \<times> yaml \<Rightarrow> (string \<times> string) list checked" where
  "internal_state_errors events = (\<lambda>(state, v).
     (case nonempty_string state of
        None \<Rightarrow> ([], [])
      | Some s \<Rightarrow>
         let here = dotted ''allowed_actions.internal_events_by_state'' s;
             (codes, e1) = string_list v here False
         in (map (\<lambda>c. (s, c)) (filter (\<lambda>c. map_of events c \<noteq> None) codes),
             e1 @ concat (map (\<lambda>c. case map_of events c of
               None \<Rightarrow> [Contract_error here ''unregistered event'' [c]]
             | Some event \<Rightarrow> if get event ''category'' = YStr ''SYSTEM_EVENT'' then []
                 else [Contract_error here ''not_system_event'' [c]]) codes))))"

text \<open>
  The expected pairs. A state is hashed, so a list or a mapping crashes; sorting states of which some
  are strings and some numbers crashes too.
\<close>

datatype state_key = Number int | Name string

fun hashed_state :: "yaml \<Rightarrow> crash + state_key" where
  "hashed_state (YStr s) = Inr (Name s)"
| "hashed_state (YInt i) = Inr (Number i)"
| "hashed_state (YBool b) = Inr (Number (if b then 1 else 0))"
| "hashed_state _ = Inl Type_error"

fun hashed_event :: "(string \<times> mapping) list \<Rightarrow> yaml \<Rightarrow> crash + (string \<times> mapping) option" where
  "hashed_event events (YStr c) = Inr (map_option (\<lambda>e. (c, e)) (map_of events c))"
| "hashed_event events (YList xs) = Inl Type_error"
| "hashed_event events (YMap m) = Inl Type_error"
| "hashed_event events _ = Inr None"

definition expected_pair :: "(string \<times> mapping) list \<Rightarrow> mapping \<Rightarrow> crash + (state_key \<times> string) option" where
  "expected_pair events rule =
     (if get rule ''from_inquiry_state'' = YNull then Inr None
      else rbind (hashed_event events (get rule ''event'')) (\<lambda>found.
        case found of
          None \<Rightarrow> Inr None
        | Some (c, event) \<Rightarrow>
            if get event ''category'' = YStr ''SYSTEM_EVENT''
            then rbind (hashed_state (get rule ''from_inquiry_state'')) (\<lambda>k. Inr (Some (k, c)))
            else Inr None))"

definition named_pairs :: "(state_key \<times> string) list \<Rightarrow> (string \<times> string) list" where
  "named_pairs ps = List.map_filter (\<lambda>(k, c). case k of Name s \<Rightarrow> Some (s, c) | Number i \<Rightarrow> None) ps"

definition numbered_pairs :: "(state_key \<times> string) list \<Rightarrow> (int \<times> string) list" where
  "numbered_pairs ps = List.map_filter (\<lambda>(k, c). case k of Number i \<Rightarrow> Some (i, c) | Name s \<Rightarrow> None) ps"

definition missing_internal_errors ::
  "(state_key \<times> string) list \<Rightarrow> (string \<times> string) list \<Rightarrow> crash + contract_error list" where
  "missing_internal_errors expected actual =
     (let names = without (named_pairs expected) actual;
          numbers = sorted_set (numbered_pairs expected);
          missing = (\<lambda>shown. Contract_error ''allowed_actions.internal_events_by_state'' ''system_event_missing'' shown)
      in if names \<noteq> [] \<and> numbers \<noteq> [] then Inl Type_error
         else Inr (map (\<lambda>(s, c). missing [s, c]) names @ map (\<lambda>(i, c). missing [int_text i, c]) numbers))"

definition state_keys_errors :: "string list \<Rightarrow> mapping \<Rightarrow> string \<Rightarrow> contract_error list" where
  "state_keys_errors states m path =
     (let present = List.map_filter (\<lambda>(k, v). nonempty_string k) m in
      map (\<lambda>s. Contract_error path ''state_missing'' [s]) (without states present) @
      map (\<lambda>s. Contract_error path ''unregistered state'' [s]) (without present states))"

fun mapping_or_empty :: "yaml \<Rightarrow> string \<Rightarrow> mapping checked" where
  "mapping_or_empty (YMap m) path = (m, [])"
| "mapping_or_empty _ path = ([], [Contract_error path ''mapping'' []])"

definition validate_internal_events ::
  "mapping \<Rightarrow> state_index \<Rightarrow> (string \<times> mapping) list \<Rightarrow> (string \<times> mapping) list \<Rightarrow> crash + contract_error list" where
  "validate_internal_events doc si events rules =
     (let path = ''allowed_actions.internal_events_by_state'';
          (internal, e1) = mapping_or_empty (get doc ''internal_events_by_state'') path;
          checks = map (internal_state_errors events) internal;
          actual = concat (map fst checks)
      in rbind (map_res (expected_pair events) (map snd rules)) (\<lambda>found.
         let expected = List.map_filter id found in
         rbind (missing_internal_errors expected actual) (\<lambda>e2.
         Inr (e1 @ state_keys_errors (map fst (si_states si)) internal path @ concat (map snd checks) @ e2 @
           map (\<lambda>(s, c). Contract_error path ''transition_missing'' [s, c]) (without actual (named_pairs expected))))))"

definition validate_allowed_actions ::
  "mapping \<Rightarrow> state_index \<Rightarrow> (string \<times> mapping) list \<Rightarrow> string list \<Rightarrow> (string \<times> mapping) list \<Rightarrow>
     crash + contract_error list" where
  "validate_allowed_actions doc si events roles rules =
     (let (styles, e1) = string_list (get doc ''styles'') ''allowed_actions.styles'' True;
          (entries, e2) = mapping_entries (get doc ''action_catalog'') ''allowed_actions.action_catalog'' True;
          (by_code, e3) = code_index entries ''allowed_actions.action_catalog'' ''code'';
          (table, e4) = mapping_or_empty (get doc ''state_role_actions'') ''allowed_actions.state_role_actions'';
          ag = \<lparr>ar_actions = map fst by_code, ar_events = events, ar_roles = roles, ar_rules = rules\<rparr>
      in rbind (map_res (state_actions_errors ag (si_terminal si)) table) (\<lambda>e5.
         rbind (validate_internal_events doc si events rules) (\<lambda>e6.
         Inr (e1 @ e2 @ e3 @ concat (map (catalog_errors events styles) (enumerate 0 entries)) @ e4 @
           state_keys_errors (map fst (si_states si)) table ''allowed_actions.state_role_actions'' @
           concat e5 @ e6))))"

section \<open>All documents\<close>

definition collect_contract_errors :: "yaml \<Rightarrow> crash + contract_error list" where
  "collect_contract_errors documents =
     (case documents of
        YMap m \<Rightarrow>
          let docs = map (\<lambda>(name, expected). (name, expected, document m name)) CONTRACT_NAMES;
              doc = (\<lambda>name. fst (document m name));
              headers = concat (map (\<lambda>(name, expected, d, e).
                if d = [] then [] else validate_contract_header d name expected) docs);
              (si, e1) = validate_states (doc ''states'');
              ((events, actor_roles), e2) = validate_events (doc ''events'');
              (guards, e3) = validate_guards (doc ''guards'');
              (rules, e4) = validate_transitions (doc ''transitions'') si events (map fst guards)
          in rbind (validate_role_permissions (doc ''role_permissions'') events actor_roles) (\<lambda>(roles, e5).
             rbind (validate_allowed_actions (doc ''allowed_actions'') si events (map fst roles) rules) (\<lambda>e6.
             Inr (concat (map (\<lambda>(name, expected, d, e). e) docs) @ headers @ e1 @ e2 @ e3 @ e4 @ e5 @ e6)))
      | _ \<Rightarrow> Inr [Contract_error ''contracts'' ''mapping'' []])"

datatype contract_exception = Crash crash | Validation_error "contract_error list"

definition validate_contract_documents :: "yaml \<Rightarrow> contract_exception + unit" where
  "validate_contract_documents documents =
     (case collect_contract_errors documents of
        Inl e \<Rightarrow> Inl (Crash e)
      | Inr [] \<Rightarrow> Inr ()
      | Inr es \<Rightarrow> Inl (Validation_error es))"

end
