(* ===== verification/ValidatorFacts.thy ===== *)
theory ValidatorFacts
  imports ContractValidator ContractFacts
begin

text \<open>
  What an accepted set of contract documents is. The engines read the documents without further
  checks; \<open>engine_contract\<close> is that reading, with a value of another type than the engine model's as an
  error. Accepted documents whose codes carry no surrounding spaces are read without an error, up to
  the parts the validator leaves alone: the defaults of the transitions, the guard precedence and the
  effects of a rule.
\<close>

section \<open>No errors\<close>

lemma nonempty_string_Some: "nonempty_string v = Some s \<longleftrightarrow> (\<exists>t. v = YStr t \<and> has_text t \<and> s = strip t)"
  by (cases v) auto

lemma nonempty_mapping_Some: "nonempty_mapping v = Some m \<longleftrightarrow> v = YMap m \<and> m \<noteq> []"
  by (cases v rule: nonempty_mapping.cases) auto

lemma map_filter_nil: "List.map_filter f xs = [] \<longleftrightarrow> (\<forall>x \<in> set xs. f x = None)"
  by (induction xs) (auto split: option.split)

lemma map_filter_enumerate_nil:
  "List.map_filter (\<lambda>(n, x). if P x then Some (f n) else None) (enumerate k xs) = [] \<longleftrightarrow> (\<forall>x \<in> set xs. \<not> P x)"
  by (induction xs arbitrary: k) auto

lemma concat_enumerate_nil:
  assumes "concat (map f (enumerate k xs)) = []" and "x \<in> set xs"
  shows "\<exists>n. f (n, x) = []"
  using assms by (induction xs arbitrary: k) auto

lemma required_string_nil:
  "snd (required_string m k path) = [] \<longleftrightarrow> (\<exists>t. get m k = YStr t \<and> has_text t)"
  by (cases "get m k") (auto simp: required_string_def)

lemma required_string_fst:
  "fst (required_string m k path) = nonempty_string (get m k)"
  by (simp add: required_string_def split: option.split)

lemma required_mapping_nil: "snd (required_mapping v path) = [] \<longleftrightarrow> (\<exists>m. v = YMap m \<and> m \<noteq> [])"
  by (auto simp: required_mapping_def split: yaml.splits list.splits)

lemma required_mapping_YMap [simp]: "required_mapping (YMap (kv # m)) path = (kv # m, [])"
  by (simp add: required_mapping_def)

lemma nonempty_strings:
  assumes "\<forall>x \<in> set xs. nonempty_string x \<noteq> None"
  shows "\<exists>ts. xs = map YStr ts \<and> (\<forall>t \<in> set ts. has_text t) \<and> List.map_filter nonempty_string xs = map strip ts"
  using assms
proof (induction xs)
  case (Cons x xs)
  then obtain ts where ts: "xs = map YStr ts" "\<forall>t \<in> set ts. has_text t"
    "List.map_filter nonempty_string xs = map strip ts"
    by auto
  obtain t where "x = YStr t" "has_text t" using Cons.prems by (auto simp: nonempty_string_Some)
  then show ?case using ts by (intro exI [of _ "t # ts"]) auto
qed simp

lemma string_list_nil:
  assumes "snd (string_list v path ne) = []"
  shows "\<exists>ts. v = YList (map YStr ts) \<and> (\<forall>t \<in> set ts. has_text t) \<and> (ne \<longrightarrow> ts \<noteq> []) \<and>
    fst (string_list v path ne) = map strip ts"
proof -
  obtain xs where v: "v = YList xs" using assms by (cases v) (auto simp: string_list_def)
  have ne: "\<not> (ne \<and> xs = [])" using assms by (auto simp: v string_list_def)
  then have "\<forall>x \<in> set xs. nonempty_string x \<noteq> None"
    using assms by (simp add: v string_list_def map_filter_enumerate_nil Let_def split: if_splits)
  then obtain ts where "xs = map YStr ts" "\<forall>t \<in> set ts. has_text t"
    "List.map_filter nonempty_string xs = map strip ts"
    using nonempty_strings by blast
  then show ?thesis using ne by (intro exI [of _ ts]) (auto simp: v string_list_def Let_def)
qed

lemma nonempty_mappings:
  assumes "\<forall>x \<in> set xs. nonempty_mapping x \<noteq> None"
  shows "xs = map YMap (List.map_filter nonempty_mapping xs)"
  using assms
proof (induction xs)
  case (Cons x xs)
  then obtain m where "x = YMap m" "nonempty_mapping x = Some m" by (auto simp: nonempty_mapping_Some)
  then show ?case using Cons by simp
qed simp

lemma mapping_entries_nil:
  assumes "snd (mapping_entries v path ne) = []"
  shows "v = YList (map YMap (fst (mapping_entries v path ne)))"
proof -
  obtain xs where v: "v = YList xs" using assms by (cases v) (auto simp: mapping_entries_def)
  have "\<not> (ne \<and> xs = [])" using assms by (auto simp: v mapping_entries_def)
  then have "\<forall>x \<in> set xs. nonempty_mapping x \<noteq> None" "fst (mapping_entries v path ne) = List.map_filter nonempty_mapping xs"
    using assms by (auto simp: v mapping_entries_def map_filter_enumerate_nil split: if_splits)
  then show ?thesis using nonempty_mappings v by simp
qed

lemma code_index_from_nil:
  assumes "snd (code_index_from n path k result entries) = []"
  shows "\<forall>e \<in> set entries. \<exists>t. get e k = YStr t \<and> has_text t"
    "fst (code_index_from n path k result entries) =
       result @ map (\<lambda>e. (the (nonempty_string (get e k)), e)) entries"
    "distinct (map fst result) \<Longrightarrow>
      distinct (map fst result @ map (\<lambda>e. the (nonempty_string (get e k))) entries)"
proof -
  have "(\<forall>e \<in> set entries. \<exists>t. get e k = YStr t \<and> has_text t) \<and>
    fst (code_index_from n path k result entries) =
       result @ map (\<lambda>e. (the (nonempty_string (get e k)), e)) entries \<and>
    (distinct (map fst result) \<longrightarrow>
      distinct (map fst result @ map (\<lambda>e. the (nonempty_string (get e k))) entries))"
    using assms
  proof (induction n path k result entries rule: code_index_from.induct)
    case (2 n path k result entry entries)
    obtain code e1 where r: "required_string entry k (indexed path n) = (code, e1)" by fastforce
    have "e1 = []" using 2(4) r by (auto simp: Let_def split_beta split: option.splits if_splits)
    then obtain t where t: "get entry k = YStr t" "has_text t" "code = Some (strip t)"
      using required_string_nil [of entry k "indexed path n"] required_string_fst [of entry k "indexed path n"] r by auto
    have new: "strip t \<notin> set (map fst result)"
      using 2(4) r t by (auto simp: Let_def split_beta split: if_splits)
    then have "snd (code_index_from (Suc n) path k (result @ [(strip t, entry)]) entries) = []"
      using 2(4) r t by (auto simp: Let_def split_beta)
    from 2(3) [OF refl r [symmetric] t(3) new this] new r t show ?case
      by (auto simp: Let_def split_beta)
  qed simp
  then show "\<forall>e \<in> set entries. \<exists>t. get e k = YStr t \<and> has_text t"
    "fst (code_index_from n path k result entries) =
       result @ map (\<lambda>e. (the (nonempty_string (get e k)), e)) entries"
    "distinct (map fst result) \<Longrightarrow>
      distinct (map fst result @ map (\<lambda>e. the (nonempty_string (get e k))) entries)"
    by blast+
qed

lemma validate_reference_nil:
  "validate_reference v registry path name = [] \<longleftrightarrow> (\<forall>s. v = Some s \<longrightarrow> s \<in> set registry)"
  by (auto simp: validate_reference_def split: option.split)

lemma validate_references_nil:
  "validate_references vs registry path name = [] \<longleftrightarrow> set vs \<subseteq> set registry"
  by (auto simp: validate_references_def validate_reference_nil)

lemma require_bool_nil: "require_bool m path k = [] \<longleftrightarrow> (\<exists>b. get m k = YBool b)"
  by (cases "get m k") (auto simp: require_bool_def)

section \<open>Reading documents\<close>

text \<open>
  What \<open>StateMachine.__init__\<close>, \<open>GuardEvaluator.__init__\<close> and the rules they return read of the
  documents. An absent key that is subscripted, or a value of another type, is \<open>None\<close>.
\<close>

fun text_value :: "yaml \<Rightarrow> string option" where
  "text_value (YStr s) = Some s"
| "text_value _ = None"

fun opt_text_value :: "yaml \<Rightarrow> string option option" where
  "opt_text_value YNull = Some None"
| "opt_text_value (YStr s) = Some (Some s)"
| "opt_text_value _ = None"

fun texts_value :: "yaml \<Rightarrow> string list option" where
  "texts_value (YList xs) = those (map text_value xs)"
| "texts_value _ = None"

fun maps_value :: "yaml \<Rightarrow> mapping list option" where
  "maps_value (YList xs) = those (map (\<lambda>v. case v of YMap m \<Rightarrow> Some m | _ \<Rightarrow> None) xs)"
| "maps_value _ = None"

fun map_value :: "yaml \<Rightarrow> mapping option" where
  "map_value (YMap m) = Some m"
| "map_value _ = None"

fun int_value :: "yaml \<Rightarrow> int option" where
  "int_value (YInt i) = Some i"
| "int_value _ = None"

fun opt_bool_value :: "yaml \<Rightarrow> bool option option" where
  "opt_bool_value YNull = Some None"
| "opt_bool_value (YBool b) = Some (Some b)"
| "opt_bool_value _ = None"

definition all_read :: "('a \<Rightarrow> 'b option) \<Rightarrow> 'a list \<Rightarrow> 'b list option" where
  "all_read f xs = those (map f xs)"

definition read_visit :: "mapping \<Rightarrow> visit_rule option" where
  "read_visit m =
     Option.bind (opt_text_value (get m ''mode'')) (\<lambda>mode.
     Option.bind (opt_text_value (get m ''from_status'')) (\<lambda>from.
     Option.bind (opt_text_value (get m ''to_status'')) (\<lambda>to.
     Option.bind (opt_text_value (get m ''required_status'')) (\<lambda>req.
     Some \<lparr>vr_mode = mode, vr_from_status = from,
       vr_to_status = (if has_key m ''to_status'' then Some to else None), vr_required_status = req\<rparr>))))"

definition read_history :: "mapping \<Rightarrow> history_rule option" where
  "read_history m =
     Option.bind (opt_bool_value (get m ''record_inquiry_state_history'')) (\<lambda>i.
     Option.bind (opt_bool_value (get m ''record_visit_state_history'')) (\<lambda>v.
     Option.bind (opt_bool_value (get m ''record_business_event'')) (\<lambda>b.
     Some \<lparr>hr_inquiry = i, hr_visit = v, hr_business = b\<rparr>)))"

definition read_rule :: "mapping \<Rightarrow> rule option" where
  "read_rule m =
     Option.bind (text_value (get m ''id'')) (\<lambda>rid.
     Option.bind (text_value (get m ''event'')) (\<lambda>event.
     Option.bind (opt_text_value (get m ''from_inquiry_state'')) (\<lambda>from.
     Option.bind (text_value (get m ''to_inquiry_state'')) (\<lambda>to.
     Option.bind (map_value (get_or m ''visit'' (YMap []))) (\<lambda>v. Option.bind (read_visit v) (\<lambda>visit.
     Option.bind (map_value (get_or m ''history'' (YMap []))) (\<lambda>h. Option.bind (read_history h) (\<lambda>history.
     Option.bind (opt_text_value (get m ''version_action'')) (\<lambda>action.
     Option.bind (texts_value (get_or m ''guard_refs'' (YList []))) (\<lambda>guards.
     Option.bind (texts_value (get_or m ''effects'' (YList []))) (\<lambda>effects.
     Some \<lparr>r_id = rid, r_event = event, r_from = from, r_to = to, r_visit = visit, r_history = history,
       r_version_action = (if has_key m ''version_action'' then Some action else None), r_guard_refs = guards,
       r_effects = effects\<rparr>)))))))))))"

definition read_event :: "mapping \<Rightarrow> event_entry option" where
  "read_event m =
     Option.bind (text_value (get m ''code'')) (\<lambda>code.
     Option.bind (text_value (get m ''category'')) (\<lambda>category.
     Option.bind (texts_value (get_or m ''actor_roles'' (YList []))) (\<lambda>roles.
     Some \<lparr>ev_code = code, ev_category = category, ev_actor_roles = roles,
       ev_requires_key = (get m ''requires_idempotency_key'' = YBool True),
       ev_requires_version = (get m ''requires_state_version'' = YBool True)\<rparr>)))"

definition read_guard :: "mapping \<Rightarrow> guard_entry option" where
  "read_guard m =
     Option.bind (text_value (get m ''id'')) (\<lambda>gid.
     Option.bind (text_value (get m ''category'')) (\<lambda>category.
     Option.bind (map_value (get m ''failure'')) (\<lambda>f.
     Option.bind (int_value (get f ''http_status'')) (\<lambda>status.
     Option.bind (text_value (get f ''error_code'')) (\<lambda>code.
     Option.bind (text_value (get f ''message'')) (\<lambda>message.
     Some \<lparr>g_id = gid, g_category = category, g_http_status = status, g_error_code = code,
       g_message = message\<rparr>))))))"

definition read_state :: "mapping \<Rightarrow> (string \<times> string list) option" where
  "read_state m =
     Option.bind (text_value (get m ''code'')) (\<lambda>code.
     Option.bind (texts_value (get m ''allowed_visit_statuses'')) (\<lambda>visits. Some (code, visits)))"

definition doc_of :: "mapping \<Rightarrow> string \<Rightarrow> mapping" where
  "doc_of m name = (case get m name of YMap d \<Rightarrow> d | _ \<Rightarrow> [])"

definition engine_contract :: "defaults_entry \<Rightarrow> string list \<Rightarrow> mapping \<Rightarrow> contract option" where
  "engine_contract defaults precedence m =
     Option.bind (texts_value (get (doc_of m ''states'') ''terminal_states'')) (\<lambda>terminal.
     Option.bind (Option.bind (maps_value (get (doc_of m ''states'') ''states'')) (all_read read_state)) (\<lambda>states.
     Option.bind (Option.bind (maps_value (get (doc_of m ''events'') ''events'')) (all_read read_event)) (\<lambda>events.
     Option.bind (Option.bind (maps_value (get (doc_of m ''transitions'') ''transitions'')) (all_read read_rule)) (\<lambda>rules.
     Option.bind (Option.bind (maps_value (get (doc_of m ''guards'') ''guards'')) (all_read read_guard)) (\<lambda>guards.
     Option.bind (texts_value (get (doc_of m ''guards'') ''guard_categories'')) (\<lambda>categories.
     Some \<lparr>c_terminal_states = terminal, c_visit_statuses = states, c_events = events, c_rules = rules,
       c_defaults = defaults, c_guards = guards, c_guard_categories = categories,
       c_security_precedence = precedence\<rparr>))))))"

text \<open>Every string but a description carries no surrounding spaces.\<close>

fun codes_plain :: "yaml \<Rightarrow> bool" where
  "codes_plain (YStr s) = (strip s = s)"
| "codes_plain (YList xs) = list_all codes_plain xs"
| "codes_plain (YMap m) = list_all (\<lambda>(k, v). k = YStr ''description'' \<or> codes_plain v) m"
| "codes_plain _ = True"

lemma plain_get:
  assumes "codes_plain (YMap m)" and "get m k = YStr t" and "k \<noteq> ''description''"
  shows "strip t = t"
proof -
  have "(YStr k, YStr t) \<in> set m"
    using assms(2) by (auto simp: get_or_def split: option.splits dest: map_of_SomeD)
  then show ?thesis using assms(1,3) by (fastforce simp: list_all_iff)
qed

lemma plain_sub:
  assumes "codes_plain (YMap m)" and "k \<noteq> ''description''"
  shows "codes_plain (get m k)"
proof (cases "map_of m (YStr k)")
  case None
  then show ?thesis by (simp add: get_or_def)
next
  case (Some v)
  then have "(YStr k, v) \<in> set m" by (rule map_of_SomeD)
  then show ?thesis using assms Some by (fastforce simp: get_or_def list_all_iff)
qed

lemma plain_texts: "codes_plain (YList (map YStr ts)) \<longleftrightarrow> map strip ts = ts"
  by (induction ts) auto

lemma plain_entries: "codes_plain (YList (map YMap ms)) \<longleftrightarrow> (\<forall>m \<in> set ms. codes_plain (YMap m))"
  by (auto simp: list_all_iff)

declare codes_plain.simps [simp del]

section \<open>Accepted documents\<close>

lemma document_nil:
  assumes "snd (document m name) = []"
  shows "fst (document m name) = doc_of m name" "get m name = YMap (doc_of m name)"
proof -
  obtain d where "nonempty_mapping (get m name) = Some d" using assms by (auto simp: document_def split: option.splits)
  moreover from this have "get m name = YMap d" by (simp add: nonempty_mapping_Some)
  ultimately show "fst (document m name) = doc_of m name" "get m name = YMap (doc_of m name)"
    by (simp_all add: document_def doc_of_def)
qed

lemma accepted_parts:
  assumes "validate_contract_documents (YMap m) = Inr ()"
  obtains si events roles guards rules where "validate_states (doc_of m ''states'') = (si, [])"
    "validate_events (doc_of m ''events'') = ((events, roles), [])" "validate_guards (doc_of m ''guards'') = (guards, [])"
    "validate_transitions (doc_of m ''transitions'') si events (map fst guards) = (rules, [])"
    "\<forall>name \<in> {''states'', ''events'', ''guards'', ''transitions''}. get m name = YMap (doc_of m name)"
proof -
  have c: "collect_contract_errors (YMap m) = Inr []"
    using assms by (auto simp: validate_contract_documents_def split: sum.splits list.splits)
  have "\<forall>(name, expected) \<in> set CONTRACT_NAMES. snd (document m name) = []"
    using c by (auto simp: collect_contract_errors_def Let_def split_beta rbind_Inr_iff)
  then have d: "snd (document m ''states'') = []" "snd (document m ''events'') = []" "snd (document m ''guards'') = []"
    "snd (document m ''transitions'') = []"
    by (simp_all add: CONTRACT_NAMES_def)
  note docs = d [THEN document_nil(1)] and gets = d [THEN document_nil(2)]
  obtain si e1 where s: "validate_states (doc_of m ''states'') = (si, e1)" by fastforce
  obtain events roles e2 where e: "validate_events (doc_of m ''events'') = ((events, roles), e2)" by (metis surj_pair)
  obtain guards e3 where g: "validate_guards (doc_of m ''guards'') = (guards, e3)" by fastforce
  obtain rules e4 where t: "validate_transitions (doc_of m ''transitions'') si events (map fst guards) = (rules, e4)"
    by fastforce
  have "e1 = [] \<and> e2 = [] \<and> e3 = [] \<and> e4 = []"
    using c by (simp add: collect_contract_errors_def Let_def docs s e g t split_beta rbind_Inr_iff) blast
  then show thesis using that s e g t gets by simp
qed

lemma states_accepted:
  assumes "validate_states d = (si, [])" and "codes_plain (YMap d)"
  obtains es terminal where "get d ''states'' = YList (map YMap es)" "get d ''terminal_states'' = YList (map YStr terminal)"
    "si_terminal si = terminal" "si_states si = map (\<lambda>e. (the (text_value (get e ''code'')), e)) es"
    "\<forall>e \<in> set es. \<exists>code visits. get e ''code'' = YStr code \<and>
       get e ''allowed_visit_statuses'' = YList (map YStr visits) \<and> set visits \<subseteq> set (si_visits si)"
    "distinct (map fst (si_states si))" "set terminal \<subseteq> fst ` set (si_states si)"
proof -
  define es where "es = fst (mapping_entries (get d ''states'') ''states.states'' True)"
  define ix where "ix = code_index es ''states.states'' ''code''"
  define ows where "ows = string_list (get d ''owner_types'') ''states.owner_types'' True"
  define vs where "vs = string_list (get d ''visit_status_codes'') ''states.visit_status_codes'' True"
  define ts where "ts = string_list (get d ''terminal_states'') ''states.terminal_states'' True"
  have nil: "snd (mapping_entries (get d ''states'') ''states.states'' True) = []" "snd ix = []" "snd ts = []"
    "concat (map (state_errors (fst ows) (fst vs)) (enumerate 0 es)) = []"
    "validate_references (sorted_set (fst ts)) (map fst (fst ix)) ''states.terminal_states'' ''state'' = []"
    and si: "si_states si = fst ix" "si_terminal si = fst ts" "si_visits si = fst vs"
    using assms(1) by (auto simp: validate_states_def Let_def split_beta es_def ix_def ows_def vs_def ts_def)
  have e: "get d ''states'' = YList (map YMap es)" using mapping_entries_nil [OF nil(1)] by (simp add: es_def)
  have pe: "codes_plain (YMap x)" if "x \<in> set es" for x
    using plain_sub [OF assms(2), of "''states''"] that e by (simp add: plain_entries)
  have code: "\<exists>c. get x ''code'' = YStr c \<and> has_text c \<and> strip c = c" if "x \<in> set es" for x
    using code_index_from_nil(1) [OF nil(2) [unfolded ix_def code_index_def]] plain_get [OF pe [OF that], of "''code''"] that
    by fastforce
  have "fst ix = map (\<lambda>e. (the (nonempty_string (get e ''code'')), e)) es"
    using code_index_from_nil(2) [OF nil(2) [unfolded ix_def code_index_def]] by (simp add: ix_def code_index_def)
  also have "\<dots> = map (\<lambda>e. (the (text_value (get e ''code'')), e)) es"
    using code by (intro map_cong refl) fastforce
  finally have ixs: "fst ix = map (\<lambda>e. (the (text_value (get e ''code'')), e)) es" .
  have dist: "distinct (map fst (fst ix))"
    using code_index_from_nil(2,3) [OF nil(2) [unfolded ix_def code_index_def]] by (simp add: ix_def code_index_def comp_def)
  obtain t where t: "get d ''terminal_states'' = YList (map YStr t)" "fst ts = map strip t"
    using string_list_nil [OF nil(3) [unfolded ts_def]] by (auto simp: ts_def)
  have "map strip t = t" using plain_sub [OF assms(2), of "''terminal_states''"] t(1) by (simp add: plain_texts)
  moreover have "\<exists>c visits. get x ''code'' = YStr c \<and>
       get x ''allowed_visit_statuses'' = YList (map YStr visits) \<and> set visits \<subseteq> set (si_visits si)" if x: "x \<in> set es" for x
  proof -
    obtain n where "state_errors (fst ows) (fst vs) (n, x) = []" using concat_enumerate_nil [OF nil(4) x] by blast
    then have v: "snd (string_list (get x ''allowed_visit_statuses'')
        (dotted (indexed ''states.states'' n) ''allowed_visit_statuses'') False) = []"
      "set (fst (string_list (get x ''allowed_visit_statuses'')
        (dotted (indexed ''states.states'' n) ''allowed_visit_statuses'') False)) \<subseteq> set (fst vs)"
      by (auto simp: state_errors_def Let_def split_beta validate_references_nil)
    then obtain ys where y: "get x ''allowed_visit_statuses'' = YList (map YStr ys)" "set (map strip ys) \<subseteq> set (fst vs)"
      using string_list_nil [OF v(1)] by auto
    have "map strip ys = ys" using plain_sub [OF pe [OF x], of "''allowed_visit_statuses''"] y(1) by (simp add: plain_texts)
    then show ?thesis using y code [OF x] si(3) by fastforce
  qed
  moreover have "set t \<subseteq> fst ` set (si_states si)"
    using nil(5) t(2) calculation(1) si(1) by (simp add: validate_references_nil sorted_set_def)
  ultimately show thesis
    using that [of es t] e t si ixs dist by simp
qed

text \<open>A list of entries indexed by a code that is trimmed.\<close>

lemma index_accepted:
  assumes "snd (mapping_entries (get d k) path True) = []" and "codes_plain (YMap d)" and "k \<noteq> ''description''"
    and "snd (code_index (fst (mapping_entries (get d k) path True)) path c) = []" and "c \<noteq> ''description''"
  obtains es where "get d k = YList (map YMap es)" "fst (mapping_entries (get d k) path True) = es"
    "\<forall>e \<in> set es. codes_plain (YMap e) \<and> (\<exists>t. get e c = YStr t)"
    "fst (code_index es path c) = map (\<lambda>e. (the (text_value (get e c)), e)) es"
    "distinct (map (\<lambda>e. the (text_value (get e c))) es)"
proof -
  define es where "es = fst (mapping_entries (get d k) path True)"
  have e: "get d k = YList (map YMap es)" using mapping_entries_nil [OF assms(1)] by (simp add: es_def)
  have pe: "codes_plain (YMap x)" if "x \<in> set es" for x
    using plain_sub [OF assms(2,3)] that e by (simp add: plain_entries)
  note ix = code_index_from_nil [OF assms(4) [folded es_def, unfolded code_index_def]]
  have code: "\<exists>t. get x c = YStr t \<and> has_text t \<and> strip t = t" if "x \<in> set es" for x
    using ix(1) plain_get [OF pe [OF that] _ assms(5)] that by fastforce
  then have same: "map (\<lambda>e. the (nonempty_string (get e c))) es = map (\<lambda>e. the (text_value (get e c))) es"
    by (intro map_cong refl) fastforce
  have "fst (code_index es path c) = map (\<lambda>e. (the (nonempty_string (get e c)), e)) es"
    using ix(2) by (simp add: code_index_def)
  also have "\<dots> = map (\<lambda>e. (the (text_value (get e c)), e)) es"
    using code by (intro map_cong refl) fastforce
  finally have "fst (code_index es path c) = map (\<lambda>e. (the (text_value (get e c)), e)) es" .
  moreover have "distinct (map (\<lambda>e. the (text_value (get e c))) es)" using ix(3) same by simp
  moreover have "\<forall>e \<in> set es. codes_plain (YMap e) \<and> (\<exists>t. get e c = YStr t)" using pe code by blast
  ultimately show thesis using that [OF e es_def [symmetric]] by blast
qed

lemma plain_string_list:
  assumes "snd (string_list (get m k) path ne) = []" and "codes_plain (YMap m)" and "k \<noteq> ''description''"
  shows "get m k = YList (map YStr (fst (string_list (get m k) path ne)))"
proof -
  obtain t where t: "get m k = YList (map YStr t)" "fst (string_list (get m k) path ne) = map strip t"
    using string_list_nil [OF assms(1)] by auto
  have "map strip t = t" using plain_sub [OF assms(2,3)] t(1) by (simp add: plain_texts)
  then show ?thesis using t by simp
qed

lemma plain_required_string:
  assumes "snd (required_string m k path) = []" and "codes_plain (YMap m)" and "k \<noteq> ''description''"
  obtains t where "get m k = YStr t" "fst (required_string m k path) = Some t"
proof -
  obtain t where t: "get m k = YStr t" "has_text t" using assms(1) by (auto simp: required_string_nil)
  then have "strip t = t" using plain_get [OF assms(2) _ assms(3)] by simp
  then show thesis using that t by (simp add: required_string_fst)
qed

lemma events_accepted:
  assumes "validate_events d = ((events, roles), [])" and "codes_plain (YMap d)"
  obtains es where "get d ''events'' = YList (map YMap es)"
    "events = map (\<lambda>e. (the (text_value (get e ''code'')), e)) es" "distinct (map fst events)"
    "\<forall>e \<in> set es. \<exists>code category rs. get e ''code'' = YStr code \<and> get e ''category'' = YStr category \<and>
       get e ''actor_roles'' = YList (map YStr rs)"
proof -
  define cs where "cs = string_list (get d ''categories'') ''events.categories'' True"
  define ss where "ss = string_list (get d ''scopes'') ''events.scopes'' True"
  define rs where "rs = string_list (get d ''actor_roles'') ''events.actor_roles'' True"
  define es0 where "es0 = fst (mapping_entries (get d ''events'') ''events.events'' True)"
  have nil: "snd (mapping_entries (get d ''events'') ''events.events'' True) = []"
    "snd (code_index es0 ''events.events'' ''code'') = []"
    "concat (map (event_errors (fst cs) (fst ss) (fst rs)) (enumerate 0 es0)) = []"
    and ev: "events = fst (code_index es0 ''events.events'' ''code'')"
    using assms(1) by (auto simp: validate_events_def Let_def split_beta cs_def ss_def rs_def es0_def)
  obtain es where es: "get d ''events'' = YList (map YMap es)" "es0 = es"
    "\<forall>e \<in> set es. codes_plain (YMap e) \<and> (\<exists>t. get e ''code'' = YStr t)"
    "fst (code_index es ''events.events'' ''code'') = map (\<lambda>e. (the (text_value (get e ''code'')), e)) es"
    "distinct (map (\<lambda>e. the (text_value (get e ''code''))) es)"
    using index_accepted [OF nil(1) assms(2) _ nil(2) [unfolded es0_def]] unfolding es0_def by auto
  have "\<exists>code category rs. get x ''code'' = YStr code \<and> get x ''category'' = YStr category \<and>
       get x ''actor_roles'' = YList (map YStr rs)" if x: "x \<in> set es" for x
  proof -
    obtain n where n: "event_errors (fst cs) (fst ss) (fst rs) (n, x) = []"
      using concat_enumerate_nil [OF nil(3)] x es(2) by blast
    let ?p = "indexed ''events.events'' n"
    have "snd (required_string x ''category'' ?p) = []"
      and r: "snd (string_list (get x ''actor_roles'') (dotted ?p ''actor_roles'') True) = []"
      using n by (auto simp: event_errors_def Let_def split_beta)
    then show ?thesis using es(3) x plain_string_list [OF r] by (auto simp: required_string_nil)
  qed
  then show thesis using that [of es] es ev by (auto simp: comp_def)
qed

lemma guards_accepted:
  assumes "validate_guards d = (guards, [])" and "codes_plain (YMap d)"
  obtains es categories where "get d ''guards'' = YList (map YMap es)"
    "get d ''guard_categories'' = YList (map YStr categories)"
    "guards = map (\<lambda>e. (the (text_value (get e ''id'')), e)) es" "distinct (map fst guards)"
    "\<forall>e \<in> set es. \<exists>gid category f status code message. get e ''id'' = YStr gid \<and>
       get e ''category'' = YStr category \<and> category \<in> set categories \<and> get e ''failure'' = YMap f \<and>
       get f ''http_status'' = YInt status \<and> 400 \<le> status \<and> status \<le> 599 \<and>
       get f ''error_code'' = YStr code \<and> get f ''message'' = YStr message"
proof -
  define cs where "cs = string_list (get d ''guard_categories'') ''guards.guard_categories'' True"
  define es0 where "es0 = fst (mapping_entries (get d ''guards'') ''guards.guards'' True)"
  have nil: "snd (mapping_entries (get d ''guards'') ''guards.guards'' True) = []"
    "snd (code_index es0 ''guards.guards'' ''id'') = []" "snd cs = []"
    "concat (map (guard_errors (fst cs)) (enumerate 0 es0)) = []"
    and ev: "guards = fst (code_index es0 ''guards.guards'' ''id'')"
    using assms(1) by (auto simp: validate_guards_def Let_def split_beta cs_def es0_def)
  obtain es where es: "get d ''guards'' = YList (map YMap es)" "es0 = es"
    "\<forall>e \<in> set es. codes_plain (YMap e) \<and> (\<exists>t. get e ''id'' = YStr t)"
    "fst (code_index es ''guards.guards'' ''id'') = map (\<lambda>e. (the (text_value (get e ''id'')), e)) es"
    "distinct (map (\<lambda>e. the (text_value (get e ''id''))) es)"
    using index_accepted [OF nil(1) assms(2) _ nil(2) [unfolded es0_def]] unfolding es0_def by auto
  note cats = plain_string_list [OF nil(3) [unfolded cs_def] assms(2), folded cs_def]
  have "\<exists>gid category f status code message. get x ''id'' = YStr gid \<and>
       get x ''category'' = YStr category \<and> category \<in> set (fst cs) \<and> get x ''failure'' = YMap f \<and>
       get f ''http_status'' = YInt status \<and> 400 \<le> status \<and> status \<le> 599 \<and>
       get f ''error_code'' = YStr code \<and> get f ''message'' = YStr message" if x: "x \<in> set es" for x
  proof -
    obtain n where n: "guard_errors (fst cs) (n, x) = []"
      using concat_enumerate_nil [OF nil(4)] x es(2) by blast
    let ?p = "indexed ''guards.guards'' n"
    have c: "snd (required_string x ''category'' ?p) = []"
      "validate_reference (fst (required_string x ''category'' ?p)) (fst cs) (dotted ?p ''category'') ''guard category'' = []"
      and f: "failure_errors x ?p = []"
      using n by (auto simp: guard_errors_def Let_def split_beta)
    have "codes_plain (YMap x)" using es(3) x by blast
    then obtain t where t: "get x ''category'' = YStr t" "t \<in> set (fst cs)"
      using plain_required_string [OF c(1)] c(2) by (auto simp: validate_reference_nil)
    have "snd (required_mapping (get x ''failure'') (dotted ?p ''failure'')) = []"
      using f by (auto simp: failure_errors_def Let_def split_beta split: if_splits)
    then obtain kv kvs where m: "get x ''failure'' = YMap (kv # kvs)" by (auto simp: required_mapping_nil neq_Nil_conv)
    let ?m = "kv # kvs"
    have "\<exists>status. get ?m ''http_status'' = YInt status \<and> 400 \<le> status \<and> status \<le> 599"
      "\<exists>t. get ?m ''error_code'' = YStr t" "\<exists>t. get ?m ''message'' = YStr t"
      using f m by (auto simp: failure_errors_def Let_def split_beta required_string_nil split: yaml.splits if_splits)
    then show ?thesis using t m es(3) x by blast
  qed
  then show thesis using that [of es "fst cs"] es ev cats by (auto simp: comp_def)
qed

text \<open>What is known of one rule of accepted documents.\<close>

definition opt_yaml :: "string option \<Rightarrow> yaml" where
  "opt_yaml v = (case v of None \<Rightarrow> YNull | Some s \<Rightarrow> YStr s)"

lemma opt_text_value_iff: "opt_text_value v = Some x \<longleftrightarrow> v = opt_yaml x"
  by (cases v) (auto simp: opt_yaml_def split: option.splits)

definition rule_typed :: "registries \<Rightarrow> mapping \<Rightarrow> string option \<Rightarrow> string \<Rightarrow> string \<Rightarrow> bool" where
  "rule_typed rg e from event to =
     (get e ''event'' = YStr event \<and> event \<in> set (map fst (rg_events rg)) \<and>
      get e ''from_inquiry_state'' = opt_yaml from \<and>
      (\<forall>s. from = Some s \<longrightarrow> s \<in> set (rg_states rg) \<and> s \<notin> set (rg_terminal rg)) \<and>
      (from = None \<longleftrightarrow> get e ''version_action'' = YStr ''INITIALIZE_1'') \<and>
      get e ''to_inquiry_state'' = YStr to \<and> to \<in> set (rg_states rg) \<and>
      (\<exists>a. get e ''version_action'' = opt_yaml a) \<and>
      (\<exists>v mode. get e ''visit'' = YMap v \<and> get v ''mode'' = YStr mode \<and>
         (\<forall>k \<in> {''from_status'', ''to_status'', ''required_status''}. \<exists>x. get v k = opt_yaml x)) \<and>
      (\<exists>h i vs b. get e ''history'' = YMap h \<and> get h ''record_inquiry_state_history'' = YBool i \<and>
         get h ''record_visit_state_history'' = YBool vs \<and> get h ''record_business_event'' = YBool b \<and>
         (from \<noteq> Some to \<longrightarrow> i)) \<and>
      (\<exists>refs. get e ''guard_refs'' = YList (map YStr refs) \<and> set refs \<subseteq> set (rg_guards rg) \<and>
         (get (event_of (rg_events rg) (Some event)) ''requires_state_version'' = YBool True \<longrightarrow>
            ''G-STATE-VERSION'' \<in> set refs) \<and>
         (get (event_of (rg_events rg) (Some event)) ''requires_idempotency_key'' = YBool True \<longrightarrow>
            ''G-IDEMPOTENCY-KEY'' \<in> set refs)))"

lemma from_state_accepted:
  assumes "snd (from_state_of e states path) = []" and "codes_plain (YMap e)"
  shows "get e ''from_inquiry_state'' = opt_yaml (fst (from_state_of e states path)) \<and>
    (\<forall>s. fst (from_state_of e states path) = Some s \<longrightarrow> s \<in> set states)"
proof -
  have plain: "strip t = t" if "get e ''from_inquiry_state'' = YStr t" for t
    using plain_get [OF assms(2) that] by simp
  show ?thesis
    using assms(1) plain
    by (auto simp: from_state_of_def Let_def opt_yaml_def validate_reference_nil split: if_splits yaml.splits option.splits)
qed

lemma start_accepted:
  assumes "start_errors e from terminal path = []"
  shows "(from = None \<longleftrightarrow> get e ''version_action'' = YStr ''INITIALIZE_1'') \<and> (\<forall>s. from = Some s \<longrightarrow> s \<notin> set terminal)"
  using assms by (auto simp: start_errors_def split: if_splits option.splits)

lemma visit_accepted:
  assumes "snd (visit_errors v modes statuses path) = []" and "codes_plain (YMap v)"
  shows "(\<exists>mode. get v ''mode'' = YStr mode) \<and>
    (\<forall>k \<in> {''from_status'', ''to_status'', ''required_status''}. \<exists>x. get v k = opt_yaml x)"
proof -
  have "\<exists>x. get v k = opt_yaml x" if k: "k \<in> {''from_status'', ''to_status'', ''required_status''}" for k
  proof (cases "get v k = YNull")
    case True
    then show ?thesis by (intro exI [of _ None]) (simp add: opt_yaml_def)
  next
    case False
    then have "snd (required_string v k (dotted path ''visit'')) = []"
      using assms(1) k by (auto simp: visit_errors_def Let_def split_beta)
    then obtain t where "get v k = YStr t" by (auto simp: required_string_nil)
    then show ?thesis by (intro exI [of _ "Some t"]) (simp add: opt_yaml_def)
  qed
  moreover have "\<exists>mode. get v ''mode'' = YStr mode"
    using assms(1) by (auto simp: visit_errors_def Let_def split_beta required_string_nil)
  ultimately show ?thesis by blast
qed

lemma history_accepted:
  assumes "history_errors e visit mode from to path = []"
  shows "\<exists>h i vs b. get e ''history'' = YMap h \<and> get h ''record_inquiry_state_history'' = YBool i \<and>
    get h ''record_visit_state_history'' = YBool vs \<and> get h ''record_business_event'' = YBool b \<and>
    (from \<noteq> to \<longrightarrow> i)"
proof -
  have "snd (required_mapping (get e ''history'') (dotted path ''history'')) = []"
    using assms by (auto simp: history_errors_def Let_def split_beta split: if_splits)
  then obtain kv kvs where "get e ''history'' = YMap (kv # kvs)" by (auto simp: required_mapping_nil neq_Nil_conv)
  then show ?thesis
    using assms by (auto simp: history_errors_def Let_def require_bool_nil split: if_splits)
qed

lemma guard_refs_accepted:
  assumes "guard_ref_errors e event guards path = []" and "codes_plain (YMap e)"
  shows "\<exists>refs. get e ''guard_refs'' = YList (map YStr refs) \<and> set refs \<subseteq> set guards \<and>
    (get event ''requires_state_version'' = YBool True \<longrightarrow> ''G-STATE-VERSION'' \<in> set refs) \<and>
    (get event ''requires_idempotency_key'' = YBool True \<longrightarrow> ''G-IDEMPOTENCY-KEY'' \<in> set refs)"
proof -
  let ?l = "string_list (get e ''guard_refs'') (dotted path ''guard_refs'') True"
  have "snd ?l = []" and r: "set (fst ?l) \<subseteq> set guards"
    "get event ''requires_state_version'' = YBool True \<longrightarrow> ''G-STATE-VERSION'' \<in> set (fst ?l)"
    "get event ''requires_idempotency_key'' = YBool True \<longrightarrow> ''G-IDEMPOTENCY-KEY'' \<in> set (fst ?l)"
    using assms(1) by (auto simp: guard_ref_errors_def Let_def split_beta validate_references_nil split: if_splits)
  then have "get e ''guard_refs'' = YList (map YStr (fst ?l))"
    using plain_string_list [OF _ assms(2), of "''guard_refs''"] by simp
  then show ?thesis using r by blast
qed

lemma version_action_accepted:
  assumes "version_action_errors e actions path = []"
  shows "\<exists>a. get e ''version_action'' = opt_yaml a"
  using assms by (cases "get e ''version_action''")
    (auto simp: version_action_errors_def Let_def opt_yaml_def intro: exI [of _ None] exI [of _ "Some s" for s])

lemma transition_accepted:
  assumes "snd (transition_errors rg seen n e) = []" and "codes_plain (YMap e)"
  shows "\<exists>from event to. rule_typed rg e from event to"
proof -
  let ?p = "indexed ''transitions.transitions'' n"
  note t = assms(1) [unfolded transition_errors_def Let_def split_beta, simplified]
  obtain event where ev: "get e ''event'' = YStr event" "fst (required_string e ''event'' ?p) = Some event"
    by (rule plain_required_string [OF _ assms(2), of "''event''" ?p]) (use t in simp_all)
  obtain to where to: "get e ''to_inquiry_state'' = YStr to" "fst (required_string e ''to_inquiry_state'' ?p) = Some to"
    by (rule plain_required_string [OF _ assms(2), of "''to_inquiry_state''" ?p]) (use t in simp_all)
  have "snd (required_mapping (get e ''visit'') (dotted ?p ''visit'')) = []" using t by simp
  then obtain kv kvs where v: "get e ''visit'' = YMap (kv # kvs)" by (auto simp: required_mapping_nil neq_Nil_conv)
  have "codes_plain (YMap (kv # kvs))" using plain_sub [OF assms(2), of "''visit''"] v by simp
  then have vis: "(\<exists>mode. get (kv # kvs) ''mode'' = YStr mode) \<and>
      (\<forall>k \<in> {''from_status'', ''to_status'', ''required_status''}. \<exists>x. get (kv # kvs) k = opt_yaml x)"
    using t v by (intro visit_accepted [of "kv # kvs" "rg_modes rg" "rg_visits rg" ?p]) simp_all
  let ?from = "fst (from_state_of e (rg_states rg) ?p)"
  let ?mode = "fst (visit_errors (kv # kvs) (rg_modes rg) (rg_visits rg) ?p)"
  have "rule_typed rg e ?from event to"
    unfolding rule_typed_def
    using t ev to v vis from_state_accepted [OF _ assms(2), of "rg_states rg" ?p]
      start_accepted [of e ?from "rg_terminal rg" ?p] version_action_accepted [of e "rg_actions rg" ?p]
      guard_refs_accepted [OF _ assms(2), of "event_of (rg_events rg) (Some event)" "rg_guards rg" ?p]
      history_accepted [of e "kv # kvs" ?mode ?from "Some to" ?p]
    by (simp add: validate_reference_nil)
  then show ?thesis by blast
qed

lemma transitions_from_nil:
  assumes "transitions_errors_from rg seen n entries = []" and "e \<in> set entries"
  shows "\<exists>seen n. snd (transition_errors rg seen n e) = []"
  using assms
proof (induction entries arbitrary: seen n)
  case (Cons x xs)
  show ?case
  proof (cases "e = x")
    case True
    then have "snd (transition_errors rg seen n e) = []" using Cons.prems(1) by (simp add: Let_def split_beta)
    then show ?thesis by blast
  next
    case False
    then show ?thesis using Cons by (auto simp: Let_def split_beta)
  qed
qed simp

lemma transitions_accepted:
  assumes "validate_transitions d si events guards = (rules, [])" and "codes_plain (YMap d)"
  obtains es rg where "get d ''transitions'' = YList (map YMap es)" "rg_states rg = map fst (si_states si)"
    "rg_terminal rg = si_terminal si" "rg_events rg = events" "rg_guards rg = guards"
    "\<forall>e \<in> set es. (\<exists>t. get e ''id'' = YStr t) \<and> (\<exists>from event to. rule_typed rg e from event to)"
    "distinct (map (\<lambda>e. the (text_value (get e ''id''))) es)"
proof -
  obtain es0 e1 where m: "mapping_entries (get d ''transitions'') ''transitions.transitions'' True = (es0, e1)" by fastforce
  obtain by_id e2 where ix: "code_index es0 ''transitions.transitions'' ''id'' = (by_id, e2)" by fastforce
  obtain semantics e3 where sem: "required_mapping (get d ''rule_semantics'') ''transitions.rule_semantics'' = (semantics, e3)"
    by fastforce
  obtain modes e4 where modes: "semantics_keys semantics ''visit_modes'' = (modes, e4)" by fastforce
  obtain actions e5 where actions: "semantics_keys semantics ''version_actions'' = (actions, e5)" by fastforce
  obtain xs e6 where xs: "mapping_entries (get d ''excluded_events'') ''transitions.excluded_events'' False = (xs, e6)"
    by fastforce
  obtain excluded e7 where ex: "excluded_events_from (map fst events) [] 0 xs = (excluded, e7)" by fastforce
  define rg where "rg = \<lparr>rg_states = map fst (si_states si), rg_terminal = si_terminal si, rg_visits = si_visits si,
    rg_events = events, rg_guards = guards, rg_modes = modes, rg_actions = actions\<rparr>"
  have "e1 = [] \<and> e2 = [] \<and> transitions_errors_from rg [] 0 es0 = []"
    using assms(1) unfolding validate_transitions_def m ix sem modes actions xs ex rg_def Let_def prod.case
    by (simp only: prod.inject append_is_Nil_conv)
  then have nil: "snd (mapping_entries (get d ''transitions'') ''transitions.transitions'' True) = []"
    "snd (code_index (fst (mapping_entries (get d ''transitions'') ''transitions.transitions'' True))
       ''transitions.transitions'' ''id'') = []" "transitions_errors_from rg [] 0 es0 = []"
    by (simp_all add: m ix)
  obtain es where es: "get d ''transitions'' = YList (map YMap es)" "es0 = es"
    "\<forall>e \<in> set es. codes_plain (YMap e) \<and> (\<exists>t. get e ''id'' = YStr t)"
    "distinct (map (\<lambda>e. the (text_value (get e ''id''))) es)"
    using index_accepted [OF nil(1) assms(2) _ nil(2), unfolded m fst_conv] by auto
  have "\<exists>from event to. rule_typed rg e from event to" if e: "e \<in> set es" for e
    using transitions_from_nil [OF nil(3)] transition_accepted es(2,3) e by blast
  then show thesis using that [of es rg] es by (simp add: rg_def)
qed

section \<open>The engines' reading\<close>

lemma those_Some: "those (map f xs) = Some ys \<longleftrightarrow> list_all2 (\<lambda>x y. f x = Some y) xs ys"
  by (induction xs arbitrary: ys) (auto simp: list_all2_Cons1 split: option.splits)

lemma all_read_total:
  assumes "\<forall>x \<in> set xs. \<exists>y. f x = Some y"
  shows "\<exists>ys. all_read f xs = Some ys \<and> list_all2 (\<lambda>x y. f x = Some y) xs ys"
proof -
  have "\<exists>ys. list_all2 (\<lambda>x y. f x = Some y) xs ys"
    using assms by (induction xs) (auto simp: list_all2_Cons1)
  then show ?thesis by (auto simp: all_read_def those_Some)
qed

lemma texts_value_map [simp]: "those (map (text_value \<circ> YStr) ts) = Some ts"
  by (induction ts) simp_all

lemma maps_value_map [simp]: "those (map ((\<lambda>v. case v of YMap m \<Rightarrow> Some m | _ \<Rightarrow> None) \<circ> YMap) ms) = Some ms"
  by (induction ms) simp_all

lemma get_or_map: "get m k \<noteq> YNull \<Longrightarrow> get_or m k v = get m k"
  by (auto simp: get_or_def split: option.splits)

lemma opt_text_yaml [simp]: "opt_text_value (opt_yaml x) = Some x"
  by (simp add: opt_text_value_iff)

text \<open>The effects of a rule are read but not validated.\<close>

definition effects_typed :: "mapping \<Rightarrow> bool" where
  "effects_typed e = (texts_value (get_or e ''effects'' (YList [])) \<noteq> None)"

lemma rule_read:
  assumes "rule_typed rg e from event to" and "get e ''id'' = YStr t" and "effects_typed e"
  shows "\<exists>r. read_rule e = Some r \<and> r_id r = t \<and> r_event r = event \<and> r_from r = from \<and> r_to r = to \<and>
    r_version_action r = (if has_key e ''version_action'' then opt_text_value (get e ''version_action'') else None) \<and>
    vr_mode (r_visit r) \<noteq> None \<and> hr_business (r_history r) \<noteq> None \<and>
    (from \<noteq> Some to \<longrightarrow> hr_inquiry (r_history r) = Some True) \<and>
    get e ''guard_refs'' = YList (map YStr (r_guard_refs r))"
proof -
  obtain a v mode h i vs b refs where k: "get e ''event'' = YStr event" "get e ''from_inquiry_state'' = opt_yaml from"
    "get e ''to_inquiry_state'' = YStr to" "get e ''version_action'' = opt_yaml a"
    "get e ''visit'' = YMap v" "get v ''mode'' = YStr mode"
    "\<forall>k \<in> {''from_status'', ''to_status'', ''required_status''}. \<exists>x. get v k = opt_yaml x"
    "get e ''history'' = YMap h" "get h ''record_inquiry_state_history'' = YBool i"
    "get h ''record_visit_state_history'' = YBool vs" "get h ''record_business_event'' = YBool b"
    "from \<noteq> Some to \<longrightarrow> i" "get e ''guard_refs'' = YList (map YStr refs)"
    using assms(1) unfolding rule_typed_def by blast
  obtain x1 x2 x3 where x: "get v ''from_status'' = opt_yaml x1" "get v ''to_status'' = opt_yaml x2"
    "get v ''required_status'' = opt_yaml x3" using k(7) by auto
  obtain vis where vis: "read_visit v = Some vis" "vr_mode vis = Some mode"
    using k(6) x by (simp add: read_visit_def)
  obtain his where his: "read_history h = Some his" "hr_business his = Some b" "hr_inquiry his = Some i"
    using k(9-11) by (simp add: read_history_def)
  obtain eff where eff: "texts_value (get_or e ''effects'' (YList [])) = Some eff" using assms(3) by (auto simp: effects_typed_def)
  have g: "get_or e ''visit'' (YMap []) = YMap v" "get_or e ''history'' (YMap []) = YMap h"
    "get_or e ''guard_refs'' (YList []) = YList (map YStr refs)"
    using k(5,8,13) get_or_map [of e "''visit''"] get_or_map [of e "''history''"] get_or_map [of e "''guard_refs''"] by simp_all
  show ?thesis
    using k(1-4,12,13) assms(2) vis his eff by (simp add: read_rule_def g)
qed

text \<open>What the validator guarantees of the contract the engines run on.\<close>

definition rule_sound :: "contract \<Rightarrow> rule \<Rightarrow> bool" where
  "rule_sound c r =
     (guards_rule_ok c r \<and> r_to r \<in> fst ` set (c_visit_statuses c) \<and>
      (\<forall>s. r_from r = Some s \<longrightarrow> s \<in> fst ` set (c_visit_statuses c) \<and> s \<notin> set (c_terminal_states c)) \<and>
      (r_from r = None \<longleftrightarrow> r_version_action r = Some (Some ''INITIALIZE_1'')) \<and>
      vr_mode (r_visit r) \<noteq> None \<and> hr_business (r_history r) \<noteq> None \<and>
      (r_from r \<noteq> Some (r_to r) \<longrightarrow> hr_inquiry (r_history r) = Some True))"

definition contract_sound :: "contract \<Rightarrow> bool" where
  "contract_sound c =
     (distinct (map ev_code (c_events c)) \<and> distinct (map g_id (c_guards c)) \<and> distinct (map r_id (c_rules c)) \<and>
      distinct (map fst (c_visit_statuses c)) \<and> set (c_terminal_states c) \<subseteq> fst ` set (c_visit_statuses c) \<and>
      list_all (\<lambda>g. 400 \<le> g_http_status g \<and> g_http_status g \<le> 599 \<and> g_category g \<in> set (c_guard_categories c)) (c_guards c) \<and>
      list_all (rule_sound c) (c_rules c))"

lemma read_codes:
  assumes "list_all2 (\<lambda>e r. f e = Some r) es rs" and "\<And>e r. f e = Some r \<Longrightarrow> get e k = YStr (g r)"
  shows "map g rs = map (\<lambda>e. the (text_value (get e k))) es"
  using assms(1) by (induction rule: list_all2_induct) (simp_all add: assms(2))

lemma read_event_code: "read_event e = Some r \<Longrightarrow> get e ''code'' = YStr (ev_code r)"
  by (cases "get e ''code''") (auto simp: read_event_def bind_eq_Some_conv)

lemma read_guard_id: "read_guard e = Some r \<Longrightarrow> get e ''id'' = YStr (g_id r)"
  by (cases "get e ''id''") (auto simp: read_guard_def bind_eq_Some_conv)

lemma read_rule_id: "read_rule e = Some r \<Longrightarrow> get e ''id'' = YStr (r_id r)"
  by (cases "get e ''id''") (auto simp: read_rule_def bind_eq_Some_conv)

lemma read_state_code: "read_state e = Some r \<Longrightarrow> get e ''code'' = YStr (fst r)"
  by (cases "get e ''code''") (auto simp: read_state_def bind_eq_Some_conv)

lemma event_read:
  assumes "get e ''code'' = YStr code" and "get e ''category'' = YStr category"
    and "get e ''actor_roles'' = YList (map YStr rs)"
  shows "\<exists>r. read_event e = Some r"
  using assms get_or_map [of e "''actor_roles''"] by (simp add: read_event_def)

lemma event_flags:
  "read_event e = Some r \<Longrightarrow> ev_requires_key r = (get e ''requires_idempotency_key'' = YBool True) \<and>
     ev_requires_version r = (get e ''requires_state_version'' = YBool True)"
  by (auto simp: read_event_def bind_eq_Some_conv)

lemma event_entry_read:
  assumes "list_all2 (\<lambda>e r. read_event e = Some r) es (c_events c)"
    and "events = map (\<lambda>e. (the (text_value (get e ''code'')), e)) es" and "distinct (map fst events)"
    and "ev \<in> set (map fst events)"
  shows "\<exists>e r. event_of events (Some ev) = e \<and> event_entry_of c ev = Some r \<and> read_event e = Some r"
proof -
  have codes: "map ev_code (c_events c) = map fst events"
    using read_codes [OF assms(1) read_event_code] assms(2) by (simp add: comp_def)
  obtain e where e: "(ev, e) \<in> set events" using assms(4) by auto
  then obtain r where r: "r \<in> set (c_events c)" "read_event e = Some r"
    using list_all2_in_left [OF assms(1), of e] assms(2) by auto
  have "e \<in> set es" "ev = the (text_value (get e ''code''))" using e assms(2) by auto
  then have "ev_code r = ev" using read_event_code [OF r(2)] by simp
  moreover have "distinct (map fst (map (\<lambda>e. (ev_code e, e)) (c_events c)))"
    using codes assms(3) by (simp add: comp_def)
  ultimately have "event_entry_of c ev = Some r"
    using dict_of_distinct [of "map (\<lambda>e. (ev_code e, e)) (c_events c)" ev r] r(1) by (force simp: event_entry_of_def)
  moreover have "map_of events ev = Some e" using e assms(3) by simp
  ultimately show ?thesis using r(2) by (auto simp: event_of_def)
qed

lemma read_guard_sound:
  assumes "get e ''id'' = YStr gid" and "get e ''category'' = YStr category" and "category \<in> set categories"
    and "get e ''failure'' = YMap f" and "get f ''http_status'' = YInt status" and "400 \<le> status" and "status \<le> 599"
    and "get f ''error_code'' = YStr code" and "get f ''message'' = YStr message"
  shows "\<exists>g. read_guard e = Some g \<and> 400 \<le> g_http_status g \<and> g_http_status g \<le> 599 \<and> g_category g \<in> set categories"
  using assms by (simp add: read_guard_def)

lemma rule_read_sound:
  assumes t: "rule_typed rg e from event to" and r: "read_rule e = Some r" "get e ''id'' = YStr t" "effects_typed e"
    and states: "set (rg_states rg) = fst ` set (c_visit_statuses c)" "rg_terminal rg = c_terminal_states c"
    and guards: "set (rg_guards rg) = g_id ` set (c_guards c)"
    and events: "list_all2 (\<lambda>e r. read_event e = Some r) es (c_events c)"
      "rg_events rg = map (\<lambda>e. (the (text_value (get e ''code'')), e)) es" "distinct (map fst (rg_events rg))"
  shows "rule_sound c r"
proof -
  obtain r' where r': "read_rule e = Some r'" "r_event r' = event" "r_from r' = from" "r_to r' = to"
    "r_version_action r' = (if has_key e ''version_action'' then opt_text_value (get e ''version_action'') else None)"
    "vr_mode (r_visit r') \<noteq> None" "hr_business (r_history r') \<noteq> None"
    "from \<noteq> Some to \<longrightarrow> hr_inquiry (r_history r') = Some True"
    "get e ''guard_refs'' = YList (map YStr (r_guard_refs r'))"
    using rule_read [OF t r(2,3)] by blast
  note r'' = r'(2-) [unfolded option.inject [THEN iffD1, OF r'(1) [unfolded r(1), symmetric]]]
  obtain refs where k: "event \<in> set (map fst (rg_events rg))" "from = None \<longleftrightarrow> get e ''version_action'' = YStr ''INITIALIZE_1''"
    "\<forall>s. from = Some s \<longrightarrow> s \<in> set (rg_states rg) \<and> s \<notin> set (rg_terminal rg)" "to \<in> set (rg_states rg)"
    "get e ''guard_refs'' = YList (map YStr refs)" "set refs \<subseteq> set (rg_guards rg)"
    "get (event_of (rg_events rg) (Some event)) ''requires_state_version'' = YBool True \<longrightarrow> ''G-STATE-VERSION'' \<in> set refs"
    "get (event_of (rg_events rg) (Some event)) ''requires_idempotency_key'' = YBool True \<longrightarrow>
       ''G-IDEMPOTENCY-KEY'' \<in> set refs"
    using t unfolding rule_typed_def by blast
  have refs: "r_guard_refs r = refs" using r''(8) k(5) by (simp add: inj_map_eq_map inj_on_def)
  obtain ee er where ee: "event_of (rg_events rg) (Some event) = ee" "event_entry_of c event = Some er" "read_event ee = Some er"
    using event_entry_read [OF events k(1)] by blast
  have "guard_entry_of c g \<noteq> None" if "g \<in> set refs" for g
  proof -
    have "g \<in> g_id ` set (c_guards c)" using k(6) that guards by blast
    then show ?thesis by (simp add: guard_entry_of_def dict_of_None_iff image_image)
  qed
  then have "guards_rule_ok c r"
    using ee k(7,8) event_flags [OF ee(3)] by (auto simp: guards_rule_ok_def refs r'' list_all_iff)
  moreover have "(from = None) = (r_version_action r = Some (Some ''INITIALIZE_1''))"
  proof -
    obtain a where a: "get e ''version_action'' = opt_yaml a" using t unfolding rule_typed_def by blast
    have "has_key e ''version_action''" if "get e ''version_action'' \<noteq> YNull"
      using that by (auto simp: has_key_def get_or_def split: option.splits)
    then show ?thesis using k(2) r''(4) a by (auto simp: opt_yaml_def split: option.splits)
  qed
  ultimately show ?thesis
    using k(3,4) r'' states by (simp add: rule_sound_def)
qed

lemma accepted_contract_sound:
  assumes acc: "validate_contract_documents (YMap m) = Inr ()"
    and plain: "\<forall>name \<in> {''states'', ''events'', ''guards'', ''transitions''}. codes_plain (get m name)"
    and eff: "\<forall>es. get (doc_of m ''transitions'') ''transitions'' = YList (map YMap es) \<longrightarrow> list_all effects_typed es"
  shows "\<exists>c. engine_contract df prec m = Some c \<and> contract_sound c"
proof -
  obtain si events roles guards rules where v: "validate_states (doc_of m ''states'') = (si, [])"
    "validate_events (doc_of m ''events'') = ((events, roles), [])" "validate_guards (doc_of m ''guards'') = (guards, [])"
    "validate_transitions (doc_of m ''transitions'') si events (map fst guards) = (rules, [])"
    and docs: "\<forall>name \<in> {''states'', ''events'', ''guards'', ''transitions''}. get m name = YMap (doc_of m name)"
    using accepted_parts [OF acc] by blast
  have p: "codes_plain (YMap (doc_of m ''states''))" "codes_plain (YMap (doc_of m ''events''))"
    "codes_plain (YMap (doc_of m ''guards''))" "codes_plain (YMap (doc_of m ''transitions''))"
    using plain docs by auto
  obtain ss terminal where s: "get (doc_of m ''states'') ''states'' = YList (map YMap ss)"
    "get (doc_of m ''states'') ''terminal_states'' = YList (map YStr terminal)" "si_terminal si = terminal"
    "si_states si = map (\<lambda>e. (the (text_value (get e ''code'')), e)) ss"
    "\<forall>e \<in> set ss. \<exists>code visits. get e ''code'' = YStr code \<and>
       get e ''allowed_visit_statuses'' = YList (map YStr visits) \<and> set visits \<subseteq> set (si_visits si)"
    "distinct (map fst (si_states si))" "set terminal \<subseteq> fst ` set (si_states si)"
    by (rule states_accepted [OF v(1) p(1)])
  obtain es where e: "get (doc_of m ''events'') ''events'' = YList (map YMap es)"
    "events = map (\<lambda>e. (the (text_value (get e ''code'')), e)) es" "distinct (map fst events)"
    "\<forall>e \<in> set es. \<exists>code category rs. get e ''code'' = YStr code \<and> get e ''category'' = YStr category \<and>
       get e ''actor_roles'' = YList (map YStr rs)"
    by (rule events_accepted [OF v(2) p(2)])
  obtain gs categories where g: "get (doc_of m ''guards'') ''guards'' = YList (map YMap gs)"
    "get (doc_of m ''guards'') ''guard_categories'' = YList (map YStr categories)"
    "guards = map (\<lambda>e. (the (text_value (get e ''id'')), e)) gs" "distinct (map fst guards)"
    "\<forall>e \<in> set gs. \<exists>gid category f status code message. get e ''id'' = YStr gid \<and>
       get e ''category'' = YStr category \<and> category \<in> set categories \<and> get e ''failure'' = YMap f \<and>
       get f ''http_status'' = YInt status \<and> 400 \<le> status \<and> status \<le> 599 \<and>
       get f ''error_code'' = YStr code \<and> get f ''message'' = YStr message"
    by (rule guards_accepted [OF v(3) p(3)])
  obtain ts rg where t: "get (doc_of m ''transitions'') ''transitions'' = YList (map YMap ts)"
    "rg_states rg = map fst (si_states si)" "rg_terminal rg = si_terminal si" "rg_events rg = events"
    "rg_guards rg = map fst guards"
    "\<forall>e \<in> set ts. (\<exists>t. get e ''id'' = YStr t) \<and> (\<exists>from event to. rule_typed rg e from event to)"
    "distinct (map (\<lambda>e. the (text_value (get e ''id''))) ts)"
    by (rule transitions_accepted [OF v(4) p(4)])
  have eff': "effects_typed e" if "e \<in> set ts" for e using eff t(1) that by (auto simp: list_all_iff)
  obtain vs where vs: "all_read read_state ss = Some vs" "list_all2 (\<lambda>x y. read_state x = Some y) ss vs"
    using all_read_total [of ss read_state] s(5) by (fastforce simp: read_state_def)
  obtain evs where evs: "all_read read_event es = Some evs" "list_all2 (\<lambda>x y. read_event x = Some y) es evs"
    using all_read_total [of es read_event] e(4) event_read by blast
  obtain grs where grs: "all_read read_guard gs = Some grs" "list_all2 (\<lambda>x y. read_guard x = Some y) gs grs"
    using all_read_total [of gs read_guard] g(5) read_guard_sound by meson
  obtain rs where rs: "all_read read_rule ts = Some rs" "list_all2 (\<lambda>x y. read_rule x = Some y) ts rs"
    using all_read_total [of ts read_rule] t(6) eff' rule_read by meson
  define c where "c = \<lparr>c_terminal_states = terminal, c_visit_statuses = vs, c_events = evs, c_rules = rs,
    c_defaults = df, c_guards = grs, c_guard_categories = categories, c_security_precedence = prec\<rparr>"
  have read: "engine_contract df prec m = Some c"
    by (simp add: engine_contract_def s(1,2) e(1) g(1,2) t(1) vs(1) evs(1) grs(1) rs(1) c_def)
  have vcodes: "map fst vs = map fst (si_states si)"
    using read_codes [OF vs(2) read_state_code] s(4) by (simp add: comp_def)
  have gcodes: "map g_id grs = map fst guards"
    using read_codes [OF grs(2) read_guard_id] g(3) by (simp add: comp_def)
  have ecodes: "map ev_code evs = map fst events"
    using read_codes [OF evs(2) read_event_code] e(2) by (simp add: comp_def)
  have sel: "c_visit_statuses c = vs" "c_terminal_states c = terminal" "c_guards c = grs" "c_events c = evs" "c_rules c = rs"
    "c_guard_categories c = categories"
    by (simp_all add: c_def)
  have "rule_sound c r" if r: "r \<in> set rs" for r
  proof -
    obtain x where x: "x \<in> set ts" "read_rule x = Some r" using list_all2_in_right [OF rs(2) r] by blast
    obtain i fr event to where y: "get x ''id'' = YStr i" "rule_typed rg x fr event to" using t(6) x(1) by blast
    have "set (rg_states rg) = fst ` set (c_visit_statuses c)"
      using vcodes t(2) sel(1) by (metis list.set_map)
    moreover have "set (rg_guards rg) = g_id ` set (c_guards c)"
      using gcodes t(5) sel(3) by (metis list.set_map)
    moreover have "rg_terminal rg = c_terminal_states c" using t(3) s(3) sel(2) by simp
    ultimately show ?thesis
      using rule_read_sound [OF y(2) x(2) y(1) eff' [OF x(1)], of c es] evs(2) e(2,3) t(4) sel(4) by simp
  qed
  moreover have "400 \<le> g_http_status x \<and> g_http_status x \<le> 599 \<and> g_category x \<in> set categories" if x: "x \<in> set grs" for x
  proof -
    obtain y where y: "y \<in> set gs" "read_guard y = Some x" using list_all2_in_right [OF grs(2) x] by blast
    have "\<exists>z. read_guard y = Some z \<and> 400 \<le> g_http_status z \<and> g_http_status z \<le> 599 \<and> g_category z \<in> set categories"
      using g(5) y(1) read_guard_sound by meson
    then show ?thesis using y(2) by simp
  qed
  moreover have "distinct (map r_id rs)" using read_codes [OF rs(2) read_rule_id] t(7) by simp
  moreover have "set terminal \<subseteq> fst ` set vs" using s(7) vcodes by (metis list.set_map)
  ultimately have "contract_sound c"
    using s(6) e(3) g(4) by (simp add: contract_sound_def sel vcodes gcodes ecodes list_all_iff)
  then show ?thesis using read by blast
qed

section \<open>Checks that do not crash\<close>

text \<open>Roles of events in lists, and events and states of rules as texts or null.\<close>

definition roles_listed :: "mapping \<Rightarrow> bool" where
  "roles_listed e = (case get_or e ''actor_roles'' (YList []) of YList xs \<Rightarrow> True | _ \<Rightarrow> False)"

definition text_or_null :: "yaml \<Rightarrow> bool" where
  "text_or_null v = (opt_text_value v \<noteq> None)"

definition checkable :: "mapping \<Rightarrow> bool" where
  "checkable m =
     ((\<forall>xs e. get (doc_of m ''events'') ''events'' = YList xs \<and> YMap e \<in> set xs \<longrightarrow> roles_listed e) \<and>
      (\<forall>xs e. get (doc_of m ''transitions'') ''transitions'' = YList xs \<and> YMap e \<in> set xs \<longrightarrow>
         text_or_null (get e ''event'') \<and> text_or_null (get e ''from_inquiry_state'')))"

lemma document_fst: "fst (document m name) = doc_of m name"
  by (cases "get m name" rule: nonempty_mapping.cases) (simp_all add: document_def doc_of_def)

lemma mapping_entries_in:
  "e \<in> set (fst (mapping_entries v path ne)) \<Longrightarrow> \<exists>xs. v = YList xs \<and> YMap e \<in> set xs"
  by (cases v) (auto simp: mapping_entries_def in_set_map_filter nonempty_mapping_Some split: if_splits)

lemma code_index_from_in:
  "(c, e) \<in> set (fst (code_index_from n path k result es)) \<Longrightarrow> (c, e) \<in> set result \<or> e \<in> set es"
proof (induction es arbitrary: n result)
  case (Cons x xs)
  obtain code e1 where r: "required_string x k (indexed path n) = (code, e1)" by fastforce
  show ?case
  proof (cases code)
    case None
    then show ?thesis using Cons.prems Cons.IH [of "Suc n" result] r by (auto simp: split_beta)
  next
    case (Some a)
    then show ?thesis
      using Cons.prems Cons.IH [of "Suc n" result] Cons.IH [of "Suc n" "result @ [(a, x)]"] r
      by (auto simp: split_beta split: if_splits)
  qed
qed simp

lemma code_index_in: "(c, e) \<in> set (fst (code_index es path k)) \<Longrightarrow> e \<in> set es"
  unfolding code_index_def by (drule code_index_from_in) simp

lemma events_in:
  assumes "(c, e) \<in> set (fst (fst (validate_events d)))"
  shows "\<exists>xs. get d ''events'' = YList xs \<and> YMap e \<in> set xs"
  using assms by (auto simp: validate_events_def Let_def split_beta dest!: code_index_in mapping_entries_in)

lemma rules_in:
  assumes "(c, e) \<in> set (fst (validate_transitions d si events guards))"
  shows "\<exists>xs. get d ''transitions'' = YList xs \<and> YMap e \<in> set xs"
proof -
  have "fst (validate_transitions d si events guards) =
      fst (code_index (fst (mapping_entries (get d ''transitions'') ''transitions.transitions'' True)) ''transitions.transitions'' ''id'')"
    by (simp add: validate_transitions_def Let_def split_beta)
  then show ?thesis using assms code_index_in mapping_entries_in by metis
qed

lemma event_roles_total: "roles_listed e \<Longrightarrow> \<exists>rs. event_roles e = Inr rs"
  by (auto simp: roles_listed_def event_roles_def split: yaml.splits)

lemma role_permissions_total:
  assumes "\<forall>(c, e) \<in> set events. roles_listed e"
  shows "\<exists>r. validate_role_permissions d events roles = Inr r"
proof -
  have "\<exists>ys. map_res (\<lambda>(c, event). rbind (event_roles event) (\<lambda>rs. Inr (c, event, rs))) events = Inr ys"
    using assms event_roles_total by (intro map_res_ex) fastforce
  then show ?thesis by (auto simp: validate_role_permissions_def Let_def split_beta)
qed

lemma role_errors_total:
  assumes "\<forall>e. event = Some e \<longrightarrow> roles_listed e"
  shows "\<exists>es. role_errors event role path = Inr es"
  using assms by (cases event) (auto simp: role_errors_def roles_listed_def split: yaml.splits)

lemma action_entries_total:
  assumes "\<forall>(c, e) \<in> set (ar_events ag). roles_listed e"
  shows "\<exists>es. action_entries_errors ag state role path seen n entries = Inr es"
proof (induction entries arbitrary: seen n)
  case (Cons entry entries)
  have "\<exists>es. role_errors (map_of (ar_events ag) a) role p = Inr es" for a p
    using assms by (intro role_errors_total) (auto dest: map_of_SomeD)
  then have "\<exists>es. (case x of None \<Rightarrow> Inr [] | Some a \<Rightarrow> role_errors (map_of (ar_events ag) a) role p) = Inr es" for x p
    by (cases x) auto
  then show ?case using Cons by (simp add: Let_def split_beta rbind_Inr_iff) metis
qed simp

lemma state_actions_total:
  assumes "\<forall>(c, e) \<in> set (ar_events ag). roles_listed e"
  shows "\<exists>es. state_actions_errors ag terminal x = Inr es"
proof -
  have "\<exists>es. role_actions_errors ag s y = Inr es" for s y
    using action_entries_total [OF assms] by (simp add: role_actions_errors_def Let_def split_beta rbind_Inr_iff)
  then have "\<exists>es. map_res (role_actions_errors ag s) m = Inr es" for s m by (intro map_res_ex) blast
  then show ?thesis
    by (auto simp: state_actions_errors_def Let_def split_beta rbind_Inr_iff split: option.split yaml.split)
qed

lemma expected_pair_total:
  assumes "text_or_null (get rule ''event'')" and "text_or_null (get rule ''from_inquiry_state'')"
  shows "\<exists>p. expected_pair events rule = Inr p \<and> (\<forall>k c. p = Some (k, c) \<longrightarrow> (\<exists>s. k = Name s))"
proof -
  have v: "v = YNull \<or> (\<exists>s. v = YStr s)" if "text_or_null v" for v
    using that by (cases v) (auto simp: text_or_null_def)
  show ?thesis
    using v [OF assms(1)] v [OF assms(2)]
    by (auto simp: expected_pair_def split: option.split)
qed

lemma internal_events_total:
  assumes "\<forall>(c, e) \<in> set rules. text_or_null (get e ''event'') \<and> text_or_null (get e ''from_inquiry_state'')"
  shows "\<exists>es. validate_internal_events d si events rules = Inr es"
proof -
  have t: "\<exists>p. expected_pair events r = Inr p" if "r \<in> set (map snd rules)" for r
    using that assms expected_pair_total by fastforce
  have "\<exists>found. map_res (expected_pair events) (map snd rules) = Inr found" by (rule map_res_ex) (rule t)
  then obtain found where f: "map_res (expected_pair events) (map snd rules) = Inr found" by blast
  have "\<exists>s. k = Name s" if "(k, c) \<in> set (List.map_filter id found)" for k c
  proof -
    have "Some (k, c) \<in> set found" using that by (auto simp: in_set_map_filter)
    then obtain r where r: "r \<in> set (map snd rules)" "expected_pair events r = Inr (Some (k, c))"
      using list_all2_in_right [OF f [unfolded map_res_Inr_iff]] by blast
    then have "text_or_null (get r ''event'')" "text_or_null (get r ''from_inquiry_state'')" using assms by auto
    from expected_pair_total [OF this, of events] show ?thesis unfolding r(2) by simp
  qed
  then have "(case p of (k, c) \<Rightarrow> case k of Number i \<Rightarrow> Some (i, c) | Name s \<Rightarrow> None) = None"
    if "p \<in> set (List.map_filter id found)" for p
    using that by (cases p) (fastforce split: state_key.split)
  then have "numbered_pairs (List.map_filter id found) = []"
    unfolding numbered_pairs_def map_filter_nil by blast
  then have m: "\<exists>es. missing_internal_errors (List.map_filter id found) actual = Inr es" for actual
    by (simp add: missing_internal_errors_def Let_def sorted_set_def)
  obtain internal e1 where i: "mapping_or_empty (get d ''internal_events_by_state'') ''allowed_actions.internal_events_by_state'' =
      (internal, e1)" by fastforce
  obtain e2 where e2: "missing_internal_errors (List.map_filter id found)
      (concat (map fst (map (internal_state_errors events) internal))) = Inr e2" using m by blast
  show ?thesis unfolding validate_internal_events_def i f Let_def prod.case rbind.simps e2 by blast
qed

lemma allowed_actions_total:
  assumes "\<forall>(c, e) \<in> set events. roles_listed e"
    and "\<forall>(c, e) \<in> set rules. text_or_null (get e ''event'') \<and> text_or_null (get e ''from_inquiry_state'')"
  shows "\<exists>es. validate_allowed_actions d si events roles rules = Inr es"
proof -
  obtain styles e1 where s: "string_list (get d ''styles'') ''allowed_actions.styles'' True = (styles, e1)" by fastforce
  obtain entries e2 where en: "mapping_entries (get d ''action_catalog'') ''allowed_actions.action_catalog'' True = (entries, e2)"
    by fastforce
  obtain by_code e3 where ix: "code_index entries ''allowed_actions.action_catalog'' ''code'' = (by_code, e3)" by fastforce
  obtain table e4 where t: "mapping_or_empty (get d ''state_role_actions'') ''allowed_actions.state_role_actions'' = (table, e4)"
    by fastforce
  define ag where "ag = \<lparr>ar_actions = map fst by_code, ar_events = events, ar_roles = roles, ar_rules = rules\<rparr>"
  have "\<exists>es. map_res (state_actions_errors ag (si_terminal si)) table = Inr es"
    by (rule map_res_ex) (rule state_actions_total, simp add: ag_def assms(1))
  then obtain e5 where a: "map_res (state_actions_errors ag (si_terminal si)) table = Inr e5" by blast
  obtain e6 where i: "validate_internal_events d si events rules = Inr e6"
    using internal_events_total [OF assms(2)] by blast
  show ?thesis
    unfolding validate_allowed_actions_def s en ix t Let_def prod.case ag_def [symmetric] a i rbind.simps by blast
qed

lemma collect_total:
  assumes "checkable m"
  shows "\<exists>es. collect_contract_errors (YMap m) = Inr es"
proof -
  obtain si e1 where s: "validate_states (doc_of m ''states'') = (si, e1)" by fastforce
  obtain events roles e2 where e: "validate_events (doc_of m ''events'') = ((events, roles), e2)" by (metis surj_pair)
  obtain guards e3 where g: "validate_guards (doc_of m ''guards'') = (guards, e3)" by fastforce
  obtain rules e4 where t: "validate_transitions (doc_of m ''transitions'') si events (map fst guards) = (rules, e4)"
    by fastforce
  have ev: "\<forall>(c, x) \<in> set events. roles_listed x"
    using assms events_in [of _ _ "doc_of m ''events''"] by (force simp: checkable_def e)
  have ru: "\<forall>(c, x) \<in> set rules. text_or_null (get x ''event'') \<and> text_or_null (get x ''from_inquiry_state'')"
    using assms rules_in [of _ _ "doc_of m ''transitions''" si events "map fst guards"] by (force simp: checkable_def t)
  obtain named e5 where r: "validate_role_permissions (doc_of m ''role_permissions'') events roles = Inr (named, e5)"
    using role_permissions_total [OF ev] by (metis surj_pair)
  obtain e6 where a: "validate_allowed_actions (doc_of m ''allowed_actions'') si events (map fst named) rules = Inr e6"
    using allowed_actions_total [OF ev ru] by blast
  show ?thesis
    unfolding collect_contract_errors_def yaml.case Let_def document_fst s e g t prod.case r a rbind.simps by blast
qed

end
