(* ===== verification/ValidatorProperties.thy ===== *)
theory ValidatorProperties
  imports ValidatorFacts
begin

text \<open>
  The properties of the contract validator, on any documents and on small concrete ones.
\<close>

section \<open>Small documents\<close>

definition fields :: "(string \<times> yaml) list \<Rightarrow> yaml" where
  "fields kvs = YMap (map (\<lambda>(k, v). (YStr k, v)) kvs)"

definition texts :: "string list \<Rightarrow> yaml" where
  "texts xs = YList (map YStr xs)"

definition header :: "string \<Rightarrow> yaml" where
  "header name = fields [(''name'', YStr name), (''version'', YStr ''1''), (''status'', YStr ''OK''), (''owner'', YStr ''PM'')]"

definition small_states :: yaml where
  "small_states = fields [(''contract'', header ''inquiry-states''), (''initial_state'', YStr ''DRAFT''),
     (''owner_types'', texts [''NONE'']), (''visit_status_codes'', texts [''ASSIGNING'']),
     (''terminal_states'', texts [''CLOSED'']),
     (''states'', YList [
        fields [(''code'', YStr ''DRAFT''), (''owner_type'', YStr ''NONE''), (''terminal'', YBool False),
          (''allowed_visit_statuses'', texts [''ASSIGNING''])],
        fields [(''code'', YStr ''CLOSED''), (''owner_type'', YStr ''NONE''), (''terminal'', YBool True),
          (''allowed_visit_statuses'', texts [''ASSIGNING''])]])]"

definition small_event :: "string \<Rightarrow> yaml \<Rightarrow> bool \<Rightarrow> yaml" where
  "small_event code roles exposed = fields [(''code'', YStr code), (''category'', YStr ''USER''), (''scope'', YStr ''ALL''),
     (''actor_roles'', roles), (''changes_inquiry_state'', YBool True), (''changes_visit_state'', YBool False),
     (''requires_idempotency_key'', YBool True), (''requires_state_version'', YBool exposed),
     (''external_action'', fields [(''exposed'', YBool exposed), (''operation_id'', if exposed then YStr ''close'' else YNull)])]"

definition small_events :: "yaml \<Rightarrow> yaml" where
  "small_events roles = fields [(''contract'', header ''inquiry-events''), (''categories'', texts [''USER'']),
     (''scopes'', texts [''ALL'']), (''actor_roles'', texts [''CUSTOMER'']),
     (''events'', YList [small_event ''OPEN'' roles False, small_event ''CLOSE'' (texts [''CUSTOMER'']) True])]"

definition small_guard :: "string \<Rightarrow> yaml" where
  "small_guard gid = fields [(''id'', YStr gid), (''category'', YStr ''ROLE''), (''conditions'', texts [''x'']),
     (''failure'', fields [(''http_status'', YInt 409), (''error_code'', YStr ''E''), (''message'', YStr ''m'')])]"

definition small_guards :: yaml where
  "small_guards = fields [(''contract'', header ''transition-guards''), (''guard_categories'', texts [''ROLE'']),
     (''guards'', YList [small_guard ''G-STATE-VERSION'', small_guard ''G-IDEMPOTENCY-KEY''])]"

definition small_history :: yaml where
  "small_history = fields [(''record_inquiry_state_history'', YBool True), (''record_visit_state_history'', YBool False),
     (''record_business_event'', YBool True)]"

definition small_opening :: yaml where
  "small_opening = fields [(''id'', YStr ''T1''), (''event'', YStr ''OPEN''), (''from_inquiry_state'', YNull),
     (''to_inquiry_state'', YStr ''DRAFT''), (''version_action'', YStr ''INITIALIZE_1''),
     (''visit'', fields [(''mode'', YStr ''REQUIRE_ABSENT'')]), (''guard_refs'', texts [''G-IDEMPOTENCY-KEY'']),
     (''history'', small_history)]"

definition small_closing :: "string \<Rightarrow> yaml \<Rightarrow> yaml" where
  "small_closing rid visit = fields [(''id'', YStr rid), (''event'', YStr ''CLOSE''), (''from_inquiry_state'', YStr ''DRAFT''),
     (''to_inquiry_state'', YStr ''CLOSED''), (''visit'', visit),
     (''guard_refs'', texts [''G-STATE-VERSION'', ''G-IDEMPOTENCY-KEY'']), (''history'', small_history)]"

definition preserving :: yaml where
  "preserving = fields [(''mode'', YStr ''PRESERVE'')]"

definition assigning :: yaml where
  "assigning = fields [(''mode'', YStr ''TRANSITION''), (''from_status'', YStr ''ASSIGNING''),
     (''to_status'', YStr ''ASSIGNING'')]"

definition small_transitions :: "yaml list \<Rightarrow> yaml" where
  "small_transitions closings = fields [(''contract'', header ''transition-rules''),
     (''rule_semantics'', fields [
        (''visit_modes'', fields [(''PRESERVE'', YNull), (''TRANSITION'', YNull), (''REQUIRE_ABSENT'', YNull)]),
        (''version_actions'', fields [(''INITIALIZE_1'', YNull), (''INCREMENT'', YNull)])]),
     (''transitions'', YList (small_opening # closings)), (''excluded_events'', YList [])]"

definition small_actions :: yaml where
  "small_actions = fields [(''contract'', header ''allowed-actions''), (''styles'', texts [''PRIMARY'']),
     (''action_catalog'', YList [fields [(''code'', YStr ''CLOSE''), (''operation_id'', YStr ''close''),
        (''style'', YStr ''PRIMARY''), (''requires_confirmation'', YBool False)]]),
     (''state_role_actions'', fields [
        (''DRAFT'', fields [(''CUSTOMER'', YList [fields [(''action'', YStr ''CLOSE''), (''transition_rule_ids'', texts [''T2''])]])]),
        (''CLOSED'', fields [])]),
     (''internal_events_by_state'', fields [(''DRAFT'', YList []), (''CLOSED'', YList [])])]"

definition small_roles :: yaml where
  "small_roles = fields [(''contract'', header ''role-permissions''),
     (''roles'', YList [fields [(''code'', YStr ''CUSTOMER''), (''allowed_events'', texts [''OPEN'', ''CLOSE''])]])]"

definition small_documents :: "yaml \<Rightarrow> yaml list \<Rightarrow> (yaml \<times> yaml) list" where
  "small_documents roles closings = map (\<lambda>(k, v). (YStr k, v))
     [(''states'', small_states), (''events'', small_events roles), (''transitions'', small_transitions closings),
      (''guards'', small_guards), (''allowed_actions'', small_actions), (''role_permissions'', small_roles)]"

lemmas small_defs = small_documents_def small_states_def small_events_def small_event_def small_guards_def small_guard_def
  small_history_def small_opening_def small_closing_def preserving_def assigning_def small_transitions_def
  small_actions_def small_roles_def fields_def texts_def header_def


abbreviation small :: "(yaml \<times> yaml) list" where
  "small \<equiv> small_documents (texts [''CUSTOMER'']) [small_closing ''T2'' preserving]"



section \<open>Properties\<close>








text \<open>
  C34: The validator answers with its collected errors, and does not crash, on every set of documents in
  which the roles of every event are a list and the event and the starting state of every rule are
  texts or null. Without that it may crash: an event with null roles ends in a \<open>TypeError\<close>.
\<close>

theorem validator_collects:
  assumes "checkable m"
  shows "(validate_contract_documents (YMap m) = Inr () \<or>
      (\<exists>e es. validate_contract_documents (YMap m) = Inl (Validation_error (e # es)))) \<and>
    validate_contract_documents (YMap (small_documents YNull [])) = Inl (Crash Type_error)"
proof
  obtain es where "collect_contract_errors (YMap m) = Inr es" using collect_total [OF assms] by blast
  then show "validate_contract_documents (YMap m) = Inr () \<or>
      (\<exists>e es. validate_contract_documents (YMap m) = Inl (Validation_error (e # es)))"
    by (cases es) (auto simp: validate_contract_documents_def)
  show "validate_contract_documents (YMap (small_documents YNull [])) = Inl (Crash Type_error)" by code_simp
qed

definition headless :: "(yaml \<times> yaml) list" where
  "headless = map (\<lambda>(k, v). if k = YStr ''guards'' then (k, YNull) else (k, v)) small"

theorem validator_collects_witness:
  "\<exists>e es. validate_contract_documents (YMap headless) = Inl (Validation_error (e # es))"
proof -
  have "case get (doc_of headless ''events'') ''events'' of YList xs \<Rightarrow>
      list_all (\<lambda>x. case x of YMap e \<Rightarrow> roles_listed e | _ \<Rightarrow> False) xs | _ \<Rightarrow> False"
    "case get (doc_of headless ''transitions'') ''transitions'' of YList xs \<Rightarrow>
      list_all (\<lambda>x. case x of YMap e \<Rightarrow> text_or_null (get e ''event'') \<and> text_or_null (get e ''from_inquiry_state'') |
        _ \<Rightarrow> False) xs | _ \<Rightarrow> False"
    by code_simp+
  then have c: "checkable headless" by (fastforce simp: checkable_def list_all_iff split: yaml.split_asm)
  have "validate_contract_documents (YMap headless) \<noteq> Inr ()" by code_simp
  then show ?thesis using validator_collects [OF c] by blast
qed

end
