(* ===== verification/AuthStore.thy ===== *)
theory AuthStore
  imports Canonical
begin

text \<open>
  The tables and primitives of customer authentication and account administration
  (\<open>accounts/models\<close>, \<open>accounts/services/p1_auth_crypto.py\<close>, \<open>p1_auth_otp_cipher.py\<close>,
  \<open>contract_email_protection.py\<close>): accounts, contract customers and their e-mail contacts, one-time
  code challenges, tickets, rate buckets, receipts, the e-mail outbox, refresh tokens and audit events.

  What belongs to a library is a field of \<open>auth_env\<close>: Django's password hashing and e-mail syntax
  check, Fernet, the Unicode tables behind \<open>normalize\<close>, \<open>casefold\<close> and \<open>upper\<close>, the database's
  \<open>UPPER\<close>, and the parser of UUID texts. HMAC-SHA256 is spelled out. Durations of the settings are in
  seconds (hours, minutes where their name says so), clock readings in microseconds; one request has
  one clock reading. Random codes, tickets, salts and nonces are arguments, identifiers and UUIDs come
  from a counter of the database. A foreign key is the primary key of its row.
\<close>

section \<open>Rows\<close>

record permission_row =
  pm_app_label :: string
  pm_model :: string
  pm_codename :: string

record group_row =
  gr_id :: nat
  gr_name :: string
  gr_permissions :: "permission_row list"

record account_row =
  ac_id :: nat
  ac_public_id :: nat
  ac_username :: string
  ac_password :: string
  ac_full_name :: string
  ac_role_code :: string
  ac_employee_no :: "string option"
  ac_is_staff :: bool
  ac_is_superuser :: bool
  ac_is_active :: bool
  ac_is_synthetic :: bool
  ac_auth_version :: int
  ac_groups :: "nat list"
  ac_permissions :: "permission_row list"

record profile_row =
  cp_id :: nat
  cp_user :: "nat option"
  cp_customer_no :: string
  cp_customer_name :: string
  cp_is_synthetic :: bool
  cp_deleted_at :: "int option"
  cp_consent_version :: string
  cp_consented_at :: "int option"

record contact_row =
  ct_id :: nat
  ct_customer :: nat
  ct_encrypted_email :: string
  ct_email_lookup_hmac :: string
  ct_is_active :: bool
  ct_is_primary :: bool
  ct_delivery_policy :: string
  ct_data_classification :: string

record contract_row =
  sb_id :: nat
  sb_customer :: nat
  sb_contract_no :: string
  sb_status_code :: string

record link_row =
  ln_id :: nat
  ln_user :: nat
  ln_customer :: nat
  ln_is_active :: bool
  ln_link_reason :: string

datatype purpose = SIGNUP | USERNAME_RECOVERY | PASSWORD_RESET
datatype ticket_purpose = CLAIM | RESET
datatype receipt_operation = Signup_receipt | Reset_receipt
datatype outbox_status = Pending | Sent | Failed | Suppressed

record challenge_row =
  ch_id :: nat
  ch_public_id :: nat
  ch_purpose :: purpose
  ch_customer :: "nat option"
  ch_contact :: "nat option"
  ch_subscription :: "nat option"
  ch_user :: "nat option"
  ch_target_resolved :: bool
  ch_idempotency_key_hmac :: string
  ch_request_fingerprint_hmac :: string
  ch_otp_digest :: string
  ch_expires_at :: int
  ch_resend_not_before :: int
  ch_failure_count :: int
  ch_max_failures :: int
  ch_verified_at :: "int option"
  ch_consumed_at :: "int option"
  ch_delivery_attempted :: bool

record ticket_row =
  tk_id :: nat
  tk_purpose :: ticket_purpose
  tk_digest :: string
  tk_challenge :: nat
  tk_customer :: nat
  tk_user :: "nat option"
  tk_auth_version_at_issue :: "int option"
  tk_expires_at :: int
  tk_consumed_at :: "int option"

record challenge_bucket =
  cb_purpose :: purpose
  cb_request_fingerprint_hmac :: string
  cb_window_started_at :: int
  cb_request_count :: int
  cb_last_requested_at :: "int option"

record login_bucket =
  lb_subject_hmac :: string
  lb_window_started_at :: int
  lb_failure_count :: int
  lb_last_failed_at :: "int option"

record account_consent =
  an_user :: nat
  an_code :: string
  an_version :: string
  an_agreed :: bool

record receipt_row =
  rc_operation :: receipt_operation
  rc_idempotency_key_hmac :: string
  rc_request_fingerprint_hmac :: string
  rc_user :: nat
  rc_auth_version_at_completion :: int
  rc_completed_at :: int

record outbox_row =
  ob_id :: nat
  ob_challenge :: nat
  ob_contact :: "nat option"
  ob_encrypted_otp :: string
  ob_status :: outbox_status
  ob_attempt_count :: int
  ob_max_attempts :: int
  ob_available_at :: int
  ob_sent_at :: "int option"
  ob_last_error_code :: string
  ob_created_at :: int

text \<open>A token is the claims it signs.\<close>

record jwt_claims =
  jc_token_type :: string
  jc_jti :: string
  jc_sub :: "string option"
  jc_role_code :: "string option"
  jc_auth_version :: py
  jc_iat :: int
  jc_exp :: int

record outstanding_token =
  ot_user :: "nat option"
  ot_jti :: string
  ot_token :: jwt_claims
  ot_created_at :: int
  ot_expires_at :: int

record account_audit =
  ae_target_user :: nat
  ae_actor :: nat
  ae_event_type :: string
  ae_before_values :: "(string \<times> py) list"
  ae_after_values :: "(string \<times> py) list"
  ae_changed_fields :: "string list"
  ae_reason :: string
  ae_correlation_id :: nat

record auth_db =
  au_accounts :: "account_row list"
  au_groups :: "group_row list"
  au_permissions :: "permission_row list"
  au_lifecycle_lock :: bool
  au_profiles :: "profile_row list"
  au_contacts :: "contact_row list"
  au_contracts :: "contract_row list"
  au_links :: "link_row list"
  au_challenges :: "challenge_row list"
  au_tickets :: "ticket_row list"
  au_challenge_buckets :: "challenge_bucket list"
  au_login_buckets :: "login_bucket list"
  au_login_failures :: "(string \<times> int) list"
  au_consents :: "account_consent list"
  au_receipts :: "receipt_row list"
  au_locks :: "(receipt_operation \<times> string) list"
  au_outbox :: "outbox_row list"
  au_outstanding :: "outstanding_token list"
  au_blacklist :: "string list"
  au_audit :: "account_audit list"
  au_next :: nat

section \<open>Errors\<close>

text \<open>
  The \<open>BackendError\<close>s with their codes, the errors of the crypto boundaries, the framework's
  \<open>AuthenticationFailed\<close> and \<open>PermissionDenied\<close>, \<open>AccountLifecycleError\<close>, and the exceptions nobody
  catches (a violated constraint, a failed validation, a missing row or key, a bad value).
\<close>

datatype auth_error =
    Verification_failed | Rate_limited int | Duplicate_event | Invalid_request
  | Identifier_unavailable | Login_failed | Crypto_misconfigured | Cipher_invalid
  | Email_protection_invalid | Authentication_failed string | Permission_denied_error
  | Lifecycle_error string | Integrity_violation | Validation_failed | Value_invalid | Missing_row

definition rate_limited :: "int \<Rightarrow> auth_error" where
  "rate_limited retry_after = Rate_limited (max 1 retry_after)"

section \<open>Settings and libraries\<close>

record auth_env =
  en_hmac_secret :: string
  en_otp_key_bytes :: "nat option"
  en_contract_encryption_bytes :: "nat option"
  en_contract_hmac_key :: "nat list option"
  en_contract_key_version :: string
  en_otp_ttl :: int
  en_otp_resend :: int
  en_otp_max_failures :: int
  en_ticket_ttl :: int
  en_replay_ttl :: int
  en_window_hours :: int
  en_max_per_window :: int
  en_login_window :: int
  en_login_max_failures :: int
  en_access_ttl_minutes :: int
  en_refresh_ttl_hours :: int
  en_demo_login_enabled :: bool
  en_demo_login_codes :: "string list"
  en_debug :: bool
  en_runtime_environment :: string
  en_approved_delivery_enabled :: bool
  en_approved_hmacs :: "string list"
  en_redirect_to :: string
  en_nfkc :: "string \<Rightarrow> string"
  en_casefold :: "string \<Rightarrow> string"
  en_upper :: "string \<Rightarrow> string"
  en_db_upper :: "string \<Rightarrow> string"
  en_valid_email :: "string \<Rightarrow> bool"
  en_check_password :: "string \<Rightarrow> string \<Rightarrow> bool"
  en_make_password :: "string \<Rightarrow> string \<Rightarrow> string"
  en_password_usable :: "string \<Rightarrow> bool"
  en_dummy_password_hash :: string
  en_fernet_encrypt :: "nat \<Rightarrow> string \<Rightarrow> string"
  en_fernet_decrypt :: "string \<Rightarrow> string option"
  en_contract_decrypt :: "string \<Rightarrow> string option"
  en_uuid_parse :: "string \<Rightarrow> nat option"

definition seconds :: "int \<Rightarrow> int" where
  "seconds s = s * 1000000"

section \<open>HMAC\<close>

definition sha256_bytes :: "nat list \<Rightarrow> nat list" where
  "sha256_bytes bs =
     (let ws = be_words (sha_pad bs) in
      concat (map (\<lambda>w. map (\<lambda>i. unat w div 256 ^ (3 - i) mod 256) [0..<4])
        (sha_blocks (length ws div 16) ws sha_init)))"

definition hmac_block :: "nat list \<Rightarrow> nat list" where
  "hmac_block key =
     (let k = (if length key > 64 then sha256_bytes key else key) in k @ replicate (64 - length k) 0)"

definition xor_byte :: "nat \<Rightarrow> nat \<Rightarrow> nat" where
  "xor_byte m b = unat (of_nat m XOR (of_nat b :: 8 word))"

definition hmac_hex :: "nat list \<Rightarrow> nat list \<Rightarrow> string" where
  "hmac_hex key msg =
     sha256_hex (map (xor_byte 92) (hmac_block key) @
       sha256_bytes (map (xor_byte 54) (hmac_block key) @ msg))"

section \<open>Codes, tickets and digests\<close>

text \<open>\<open>P1AuthCrypto(settings.P1_AUTH_HMAC_SECRET)\<close> refuses a secret of less than 32 bytes.\<close>

definition crypto_ready :: "auth_env \<Rightarrow> bool" where
  "crypto_ready env = (32 \<le> length (utf8 (en_hmac_secret env)))"

definition normalize_text :: "auth_env \<Rightarrow> string \<Rightarrow> string" where
  "normalize_text env v = strip (en_nfkc env v)"

definition normalize_username :: "auth_env \<Rightarrow> string \<Rightarrow> string" where
  "normalize_username env v = en_casefold env (normalize_text env v)"

definition crypto_digest :: "auth_env \<Rightarrow> string \<Rightarrow> string \<Rightarrow> string" where
  "crypto_digest env namespace v =
     hmac_hex (utf8 (en_hmac_secret env)) (utf8 (namespace @ [CHR 0x00] @ v))"

definition crypto_fingerprint :: "auth_env \<Rightarrow> string \<Rightarrow> (string \<times> py) list \<Rightarrow> string" where
  "crypto_fingerprint env namespace kvs = crypto_digest env namespace (json_dumps (PDict kvs))"

fun purpose_code :: "purpose \<Rightarrow> string" where
  "purpose_code SIGNUP = ''SIGNUP''"
| "purpose_code USERNAME_RECOVERY = ''USERNAME_RECOVERY''"
| "purpose_code PASSWORD_RESET = ''PASSWORD_RESET''"

definition otp_digest :: "auth_env \<Rightarrow> nat \<Rightarrow> purpose \<Rightarrow> string \<Rightarrow> string" where
  "otp_digest env public_id p otp =
     crypto_digest env ''otp'' (uuid_text public_id @ '':'' @ purpose_code p @ '':'' @ otp)"

definition ticket_digest :: "auth_env \<Rightarrow> string \<Rightarrow> string" where
  "ticket_digest env raw = crypto_digest env ''ticket'' raw"

text \<open>\<open>f"{secrets.randbelow(1_000_000):06d}"\<close>, the drawn number given.\<close>

definition generate_otp :: "nat \<Rightarrow> string" where
  "generate_otp n = base_digits 10 6 n"

section \<open>The cipher of codes waiting for delivery\<close>

definition otp_cipher_ready :: "auth_env \<Rightarrow> bool" where
  "otp_cipher_ready env = (en_otp_key_bytes env = Some 32)"

definition is_ascii :: "string \<Rightarrow> bool" where
  "is_ascii s = list_all (\<lambda>c. of_char c < (128 :: nat)) s"

definition is_digit :: "char \<Rightarrow> bool" where
  "is_digit c = (c \<in> set ''0123456789'')"

definition encrypt_otp :: "auth_env \<Rightarrow> nat \<Rightarrow> string \<Rightarrow> auth_error + string" where
  "encrypt_otp env nonce otp =
     (if \<not> otp_cipher_ready env then Inl Cipher_invalid
      else if \<not> is_ascii otp then Inl Value_invalid
      else Inr (en_fernet_encrypt env nonce otp))"

definition decrypt_otp :: "auth_env \<Rightarrow> string \<Rightarrow> auth_error + string" where
  "decrypt_otp env ciphertext =
     (if \<not> otp_cipher_ready env \<or> \<not> is_ascii ciphertext then Inl Cipher_invalid
      else case en_fernet_decrypt env ciphertext of
        None \<Rightarrow> Inl Cipher_invalid
      | Some otp \<Rightarrow>
          if is_ascii otp \<and> length otp = 6 \<and> list_all is_digit otp then Inr otp
          else Inl Cipher_invalid)"

section \<open>Protection of contract e-mails\<close>

definition protection_key :: "auth_env \<Rightarrow> auth_error + nat list" where
  "protection_key env =
     (case en_contract_hmac_key env of
        Some k \<Rightarrow>
          if en_contract_encryption_bytes env = Some 32 \<and> length k = 32 \<and>
             has_text (en_contract_key_version env)
          then Inr k else Inl Email_protection_invalid
      | None \<Rightarrow> Inl Email_protection_invalid)"

definition normalize_contract_email :: "auth_env \<Rightarrow> string \<Rightarrow> auth_error + string" where
  "normalize_contract_email env v =
     (let s = en_casefold env (strip (en_nfkc env v)) in
      if en_valid_email env s then Inr s else Inl Email_protection_invalid)"

definition lookup_hmac :: "auth_env \<Rightarrow> string \<Rightarrow> auth_error + string" where
  "lookup_hmac env email =
     rbind (protection_key env) (\<lambda>k.
     rbind (normalize_contract_email env email) (\<lambda>s. Inr (hmac_hex k (utf8 s))))"

definition decrypt_email :: "auth_env \<Rightarrow> string \<Rightarrow> auth_error + string" where
  "decrypt_email env ciphertext =
     (if \<not> is_ascii ciphertext then Inl Email_protection_invalid
      else of_option Email_protection_invalid (en_contract_decrypt env ciphertext))"

section \<open>Rows by key\<close>

definition the_row :: "('r \<Rightarrow> bool) \<Rightarrow> 'r list \<Rightarrow> 'r option" where
  "the_row P rows = find P rows"

definition put_row :: "('r \<Rightarrow> nat) \<Rightarrow> 'r \<Rightarrow> 'r list \<Rightarrow> 'r list" where
  "put_row key r rows = map (\<lambda>x. if key x = key r then r else x) rows"

definition account_of :: "auth_db \<Rightarrow> nat \<Rightarrow> account_row option" where
  "account_of d k = the_row (\<lambda>a. ac_id a = k) (au_accounts d)"

definition profile_of :: "auth_db \<Rightarrow> nat \<Rightarrow> profile_row option" where
  "profile_of d k = the_row (\<lambda>c. cp_id c = k) (au_profiles d)"

definition challenge_of :: "auth_db \<Rightarrow> nat \<Rightarrow> challenge_row option" where
  "challenge_of d k = the_row (\<lambda>c. ch_id c = k) (au_challenges d)"

definition save_account :: "account_row \<Rightarrow> auth_db \<Rightarrow> auth_db" where
  "save_account a d = d\<lparr>au_accounts := put_row ac_id a (au_accounts d)\<rparr>"

definition save_challenge :: "challenge_row \<Rightarrow> auth_db \<Rightarrow> auth_db" where
  "save_challenge c d = d\<lparr>au_challenges := put_row ch_id c (au_challenges d)\<rparr>"

definition save_ticket :: "ticket_row \<Rightarrow> auth_db \<Rightarrow> auth_db" where
  "save_ticket t d = d\<lparr>au_tickets := put_row tk_id t (au_tickets d)\<rparr>"

definition iexact :: "auth_env \<Rightarrow> string \<Rightarrow> string \<Rightarrow> bool" where
  "iexact env a b = (en_db_upper env a = en_db_upper env b)"

text \<open>
  The conditions of the account queries that join the customer's tables. The reverse join on the
  profile is an outer join, so \<open>customer_profile__deleted_at__isnull\<close> also holds without a profile.
\<close>

definition has_active_link :: "auth_db \<Rightarrow> account_row \<Rightarrow> bool" where
  "has_active_link d a = list_ex (\<lambda>l. ln_user l = ac_id a \<and> ln_is_active l) (au_links d)"

definition profile_not_deleted :: "auth_db \<Rightarrow> account_row \<Rightarrow> bool" where
  "profile_not_deleted d a =
     list_all (\<lambda>c. cp_user c = Some (ac_id a) \<longrightarrow> cp_deleted_at c = None) (au_profiles d)"

text \<open>\<open>transaction.atomic\<close>: a raised error leaves the database as it was.\<close>

fun committed :: "auth_db \<Rightarrow> 'e + ('a \<times> auth_db) \<Rightarrow> ('e + 'a) \<times> auth_db" where
  "committed d (Inl e) = (Inl e, d)"
| "committed d (Inr (a, d')) = (Inr a, d')"

section \<open>Audit events\<close>

text \<open>
  \<open>AccountAuditEvent.save\<close> validates: snapshots hold only allowed keys and no forbidden fragment in
  their JSON text, changed fields come from the allow list, the reason is not blank. The fragments are
  made of letters, so the separators of the text do not matter.
\<close>

definition ALLOWED_SNAPSHOT_KEYS :: "string list" where
  "ALLOWED_SNAPSHOT_KEYS = [''role_code'', ''is_active'', ''is_staff'', ''is_superuser'',
     ''auth_version'', ''groups'', ''permissions'', ''credential_changed'']"

definition ALLOWED_CHANGED_FIELDS :: "string list" where
  "ALLOWED_CHANGED_FIELDS =
     ALLOWED_SNAPSHOT_KEYS @ [''full_name'', ''email'', ''phone'', ''account_created'']"

definition FORBIDDEN_KEY_FRAGMENTS :: "string list" where
  "FORBIDDEN_KEY_FRAGMENTS = [''password'', ''token'', ''secret'', ''hash'']"

definition ACCOUNT_AUDIT_EVENT_TYPES :: "string list" where
  "ACCOUNT_AUDIT_EVENT_TYPES = [''CREATE'', ''UPDATE'', ''DEACTIVATE'', ''REACTIVATE'', ''ROLE_CHANGE'',
     ''ADMIN_PERMISSION_CHANGE'', ''PASSWORD_CHANGE'', ''PASSWORD_RESET'', ''CREDENTIAL_RECOVERY'']"

definition ascii_lower :: "string \<Rightarrow> string" where
  "ascii_lower s =
     map (\<lambda>c. let n = of_char c :: nat in if 65 \<le> n \<and> n \<le> 90 then char_of (n + 32) else c) s"

fun contains :: "string \<Rightarrow> string \<Rightarrow> bool" where
  "contains [] needle = (needle = [])"
| "contains (c # cs) needle = (take (length needle) (c # cs) = needle \<or> contains cs needle)"

definition validate_snapshot :: "(string \<times> py) list \<Rightarrow> bool" where
  "validate_snapshot kvs =
     (list_all (\<lambda>kv. fst kv \<in> set ALLOWED_SNAPSHOT_KEYS) kvs \<and>
      list_all (\<lambda>f. list_all (\<lambda>kv. \<not> contains (ascii_lower (fst kv)) f) kvs) FORBIDDEN_KEY_FRAGMENTS \<and>
      list_all (\<lambda>f. \<not> contains (ascii_lower (json_dumps (PDict kvs))) f) FORBIDDEN_KEY_FRAGMENTS)"

definition audit_clean :: "account_audit \<Rightarrow> bool" where
  "audit_clean e =
     (ae_event_type e \<in> set ACCOUNT_AUDIT_EVENT_TYPES \<and>
      validate_snapshot (ae_before_values e) \<and> ae_after_values e \<noteq> [] \<and>
      validate_snapshot (ae_after_values e) \<and> ae_changed_fields e \<noteq> [] \<and>
      list_all (\<lambda>f. f \<in> set ALLOWED_CHANGED_FIELDS) (ae_changed_fields e) \<and> has_text (ae_reason e))"

definition record_audit :: "account_audit \<Rightarrow> auth_db \<Rightarrow> auth_error + auth_db" where
  "record_audit e d =
     (if audit_clean e then Inr (d\<lparr>au_audit := au_audit d @ [e]\<rparr>) else Inl Validation_failed)"

end
