(* ===== verification/AuthTokens.thy ===== *)
theory AuthTokens
  imports AuthStore
begin

text \<open>
  JSON web tokens (\<open>accounts/services/authentication_service.py\<close>, \<open>common/authentication\<close>,
  \<open>accounts/repositories/account_repository.py\<close>): issuing a pair, rotation, logout, the demo login and
  the check of an access token against the account it names. Signing and parsing belong to SimpleJWT:
  a raw token is \<open>Some\<close> claims when its signature and form are right, \<open>None\<close> otherwise, and what the
  library checks besides is written out in \<open>validated_refresh\<close> and \<open>validated_access\<close>.
\<close>

section \<open>Accounts of tokens\<close>

definition find_active_by_subject :: "auth_env \<Rightarrow> auth_db \<Rightarrow> string \<Rightarrow> account_row option" where
  "find_active_by_subject env d subject =
     (case en_uuid_parse env (strip subject) of
        None \<Rightarrow> None
      | Some u \<Rightarrow> the_row (\<lambda>a. ac_is_active a \<and> ac_public_id a = u) (au_accounts d))"

definition lock_active_by_pk :: "auth_db \<Rightarrow> nat \<Rightarrow> account_row option" where
  "lock_active_by_pk d k = the_row (\<lambda>a. ac_id a = k \<and> ac_is_active a) (au_accounts d)"

definition starts_with :: "string \<Rightarrow> string \<Rightarrow> bool" where
  "starts_with s p = (take (length p) s = p)"

definition find_active_by_demo_code :: "auth_db \<Rightarrow> string \<Rightarrow> account_row option" where
  "find_active_by_demo_code d code0 =
     (let code = strip code0 in
      if starts_with code ''DEMO-'' then
        the_row (\<lambda>a. ac_username a = code \<and> ac_is_active a \<and> ac_is_synthetic a) (au_accounts d)
      else if starts_with code ''SYN-'' then
        the_row (\<lambda>a. ac_is_active a \<and> ac_is_synthetic a \<and> ac_role_code a = ''CUSTOMER'' \<and>
          list_ex (\<lambda>c. cp_user c = Some (ac_id a) \<and> cp_customer_no c = code \<and> cp_is_synthetic c \<and>
            cp_deleted_at c = None) (au_profiles d)) (au_accounts d)
      else None)"

section \<open>Claims\<close>

definition required_claim :: "string option \<Rightarrow> string option" where
  "required_claim v =
     (case v of None \<Rightarrow> None | Some s \<Rightarrow> if strip s = [] then None else Some (strip s))"

text \<open>Booleans are integers in Python; they are refused explicitly.\<close>

fun required_positive_int_claim :: "py \<Rightarrow> int option" where
  "required_positive_int_claim (PInt n) = (if n < 1 then None else Some n)"
| "required_positive_int_claim _ = None"

definition epoch :: "int \<Rightarrow> int" where
  "epoch t = t div 1000000"

section \<open>Issuing a pair\<close>

record token_pair =
  tp_access :: jwt_claims
  tp_refresh :: jwt_claims
  tp_access_expires_in :: int
  tp_refresh_expires_in :: int

definition new_jti :: "nat \<Rightarrow> string" where
  "new_jti n = base_digits 16 32 n"

text \<open>\<open>RefreshToken.for_user\<close> with the role and version claims set, and the access token derived from it.\<close>

definition refresh_claims :: "auth_env \<Rightarrow> int \<Rightarrow> account_row \<Rightarrow> nat \<Rightarrow> jwt_claims" where
  "refresh_claims env now a n =
     \<lparr>jc_token_type = ''refresh'', jc_jti = new_jti n, jc_sub = Some (uuid_text (ac_public_id a)),
      jc_role_code = Some (ac_role_code a), jc_auth_version = PInt (ac_auth_version a),
      jc_iat = epoch now, jc_exp = epoch (now + seconds (3600 * en_refresh_ttl_hours env))\<rparr>"

definition access_claims :: "auth_env \<Rightarrow> int \<Rightarrow> jwt_claims \<Rightarrow> nat \<Rightarrow> jwt_claims" where
  "access_claims env now r n =
     r\<lparr>jc_token_type := ''access'', jc_jti := new_jti n, jc_iat := epoch now,
       jc_exp := epoch (now + seconds (60 * en_access_ttl_minutes env))\<rparr>"

definition pair_refresh :: "auth_env \<Rightarrow> int \<Rightarrow> account_row \<Rightarrow> int option \<Rightarrow> nat \<Rightarrow> jwt_claims" where
  "pair_refresh env now a absolute_exp n =
     (case absolute_exp of
        Some e \<Rightarrow> (refresh_claims env now a n)\<lparr>jc_exp := e\<rparr>
      | None \<Rightarrow> refresh_claims env now a n)"

definition pair_of :: "auth_env \<Rightarrow> int \<Rightarrow> jwt_claims \<Rightarrow> nat \<Rightarrow> token_pair" where
  "pair_of env now refresh n =
     \<lparr>tp_access = access_claims env now refresh n, tp_refresh = refresh,
      tp_access_expires_in = jc_exp (access_claims env now refresh n) - jc_iat (access_claims env now refresh n),
      tp_refresh_expires_in = max 0 (jc_exp refresh - epoch now)\<rparr>"

definition add_outstanding :: "nat \<Rightarrow> jwt_claims \<Rightarrow> int \<Rightarrow> auth_db \<Rightarrow> auth_db" where
  "add_outstanding pk c created d = d\<lparr>au_outstanding := au_outstanding d @
     [\<lparr>ot_user = Some pk, ot_jti = jc_jti c, ot_token = c, ot_created_at = created,
       ot_expires_at = seconds (jc_exp c)\<rparr>]\<rparr>"

definition issue_pair ::
  "auth_env \<Rightarrow> int \<Rightarrow> nat \<Rightarrow> int option \<Rightarrow> auth_db \<Rightarrow> auth_error + (token_pair \<times> auth_db)" where
  "issue_pair env now pk absolute_exp d =
     (case lock_active_by_pk d pk of
        None \<Rightarrow> Inl (Authentication_failed ''user_inactive'')
      | Some a \<Rightarrow>
          rbind (case absolute_exp of
              Some e \<Rightarrow> guard_or (epoch now < e) (Authentication_failed ''refresh_token_expired'')
            | None \<Rightarrow> Inr ()) (\<lambda>_.
          Inr (pair_of env now (pair_refresh env now a absolute_exp (au_next d)) (Suc (au_next d)),
               (add_outstanding pk (pair_refresh env now a absolute_exp (au_next d)) now d)
                 \<lparr>au_next := au_next d + 2\<rparr>)))"

section \<open>Rotation and logout\<close>

text \<open>SimpleJWT's verification of a refresh token: type, expiry, blacklist.\<close>

definition validated_refresh :: "int \<Rightarrow> jwt_claims option \<Rightarrow> auth_db \<Rightarrow> auth_error + jwt_claims" where
  "validated_refresh now raw d =
     (case raw of
        Some c \<Rightarrow>
          if jc_token_type c = ''refresh'' \<and> epoch now < jc_exp c \<and> jc_jti c \<notin> set (au_blacklist d)
          then Inr c else Inl (Authentication_failed ''refresh_token_invalid'')
      | None \<Rightarrow> Inl (Authentication_failed ''refresh_token_invalid''))"

definition active_user_for_refresh :: "auth_env \<Rightarrow> auth_db \<Rightarrow> jwt_claims \<Rightarrow> auth_error + account_row" where
  "active_user_for_refresh env d c =
     (case (required_claim (jc_sub c), required_claim (jc_role_code c),
            required_positive_int_claim (jc_auth_version c)) of
        (Some sub, Some role, Some version) \<Rightarrow>
          (case find_active_by_subject env d sub of
             Some a \<Rightarrow>
               if ac_role_code a = role \<and> ac_auth_version a = version then Inr a
               else Inl (Authentication_failed ''user_state_changed'')
           | None \<Rightarrow> Inl (Authentication_failed ''user_state_changed''))
      | _ \<Rightarrow> Inl (Authentication_failed ''refresh_claim_missing''))"

definition blacklist_jti :: "string \<Rightarrow> auth_db \<Rightarrow> auth_db" where
  "blacklist_jti jti d =
     (if jti \<in> set (au_blacklist d) then d else d\<lparr>au_blacklist := au_blacklist d @ [jti]\<rparr>)"

definition blacklist_refresh :: "jwt_claims \<Rightarrow> account_row \<Rightarrow> auth_db \<Rightarrow> auth_db" where
  "blacklist_refresh c a d =
     blacklist_jti (jc_jti c)
       (if list_ex (\<lambda>t. ot_jti t = jc_jti c) (au_outstanding d) then d
        else add_outstanding (ac_id a) c (seconds (jc_iat c)) d)"

definition refresh_session ::
  "auth_env \<Rightarrow> int \<Rightarrow> jwt_claims option \<Rightarrow> auth_db \<Rightarrow> (auth_error + (account_row \<times> token_pair)) \<times> auth_db" where
  "refresh_session env now raw d = committed d (
     rbind (validated_refresh now raw d) (\<lambda>c.
     rbind (active_user_for_refresh env d c) (\<lambda>a.
     rbind (issue_pair env now (ac_id a) (Some (jc_exp c)) d) (\<lambda>(pair, d').
     Inr ((a, pair), blacklist_refresh c a d')))))"

definition logout ::
  "auth_env \<Rightarrow> int \<Rightarrow> jwt_claims option \<Rightarrow> auth_db \<Rightarrow> (auth_error + unit) \<times> auth_db" where
  "logout env now raw d = committed d (
     rbind (validated_refresh now raw d) (\<lambda>c.
     rbind (active_user_for_refresh env d c) (\<lambda>a.
     Inr ((), blacklist_refresh c a d))))"

definition demo_login ::
  "auth_env \<Rightarrow> int \<Rightarrow> string \<Rightarrow> auth_db \<Rightarrow> (auth_error + (account_row \<times> token_pair)) \<times> auth_db" where
  "demo_login env now demo_user_code d = committed d (
     let code = strip demo_user_code in
     rbind (guard_or (en_demo_login_enabled env) Permission_denied_error) (\<lambda>_.
     rbind (guard_or (code \<in> set (en_demo_login_codes env) \<and>
         (starts_with code ''DEMO-'' \<or> starts_with code ''SYN-''))
       (Authentication_failed ''demo_user_not_allowed'')) (\<lambda>_.
     rbind (of_option (Authentication_failed ''demo_user_not_found'') (find_active_by_demo_code d code)) (\<lambda>a.
     rbind (issue_pair env now (ac_id a) None d) (\<lambda>(pair, d'). Inr ((a, pair), d'))))))"

section \<open>The account of an access token\<close>

text \<open>SimpleJWT's verification of an access token: type and expiry; then \<open>JWTAuthentication.get_user\<close>.\<close>

definition validated_access :: "int \<Rightarrow> jwt_claims option \<Rightarrow> auth_error + jwt_claims" where
  "validated_access now raw =
     (case raw of
        Some c \<Rightarrow> if jc_token_type c = ''access'' \<and> epoch now < jc_exp c then Inr c
                  else Inl (Authentication_failed ''token_not_valid'')
      | None \<Rightarrow> Inl (Authentication_failed ''token_not_valid''))"

definition get_user :: "auth_env \<Rightarrow> auth_db \<Rightarrow> jwt_claims \<Rightarrow> auth_error + account_row" where
  "get_user env d c =
     (case (required_claim (jc_sub c), required_claim (jc_role_code c),
            required_positive_int_claim (jc_auth_version c)) of
        (Some sub, Some role, Some version) \<Rightarrow>
          (case find_active_by_subject env d sub of
             None \<Rightarrow> Inl (Authentication_failed ''user_not_found'')
           | Some a \<Rightarrow>
               if \<not> ac_is_active a \<or> role \<noteq> ac_role_code a \<or> version \<noteq> ac_auth_version a
               then Inl (Authentication_failed ''user_state_changed'') else Inr a)
      | _ \<Rightarrow> Inl (Authentication_failed ''token_claim_missing''))"

definition authenticate :: "auth_env \<Rightarrow> int \<Rightarrow> jwt_claims option \<Rightarrow> auth_db \<Rightarrow> auth_error + account_row" where
  "authenticate env now raw d = rbind (validated_access now raw) (get_user env d)"

section \<open>Facts\<close>

lemma issue_pair_Inr:
  assumes "issue_pair env now pk e d = Inr (pair, d')"
  obtains a where "lock_active_by_pk d pk = Some a"
    and "d' = (add_outstanding pk (tp_refresh pair) now d)\<lparr>au_next := au_next d + 2\<rparr>"
    and "jc_auth_version (tp_access pair) = PInt (ac_auth_version a)"
    and "jc_auth_version (tp_refresh pair) = PInt (ac_auth_version a)"
proof -
  obtain a where a: "lock_active_by_pk d pk = Some a"
    using assms by (cases "lock_active_by_pk d pk") (simp_all add: issue_pair_def)
  let ?r = "pair_refresh env now a e (au_next d)"
  have v: "jc_auth_version ?r = PInt (ac_auth_version a)"
    by (simp add: pair_refresh_def refresh_claims_def split: option.split)
  have "pair = pair_of env now ?r (Suc (au_next d))"
    "d' = (add_outstanding pk ?r now d)\<lparr>au_next := au_next d + 2\<rparr>"
    using assms by (simp_all add: issue_pair_def a rbind_Inr_iff)
  then show ?thesis using that [OF a] v by (simp add: pair_of_def access_claims_def)
qed

end
