(* ===== verification/AuthChallenge.thy ===== *)
theory AuthChallenge
  imports AuthTokens
begin

text \<open>
  One-time code challenges (\<open>P1AuthService.create_challenge\<close> to \<open>verify_password_reset_challenge\<close>,
  \<open>P1AuthTargetService\<close>, \<open>P1AuthEmailOutboxService\<close>, \<open>P1AuthEmailService\<close>). A code is created for the
  contract customer a request identifies, if there is one, mailed by the outbox worker, and verified
  with a bounded number of guesses against a target that must still be current.
\<close>

section \<open>The target of a request\<close>

text \<open>A validated request body: the fields that were sent.\<close>

type_synonym identity = "(string \<times> string) list"

definition sent_field :: "identity \<Rightarrow> string \<Rightarrow> string" where
  "sent_field ident k = (case map_of ident k of None \<Rightarrow> [] | Some v \<Rightarrow> v)"

definition identity_fingerprint :: "auth_env \<Rightarrow> identity \<Rightarrow> string" where
  "identity_fingerprint env ident =
     crypto_fingerprint env ''challenge-request''
       (map (\<lambda>(k, v). (k, PStr (if k \<in> {''email'', ''username''} then normalize_username env v
                                 else normalize_text env v)))
         (filter (\<lambda>(k, v). v \<noteq> []) ident))"

definition usable_contact :: "contact_row \<Rightarrow> bool" where
  "usable_contact c =
     (ct_is_active c \<and> ct_is_primary c \<and>
      ct_data_classification c \<in> {''synthetic'', ''approved_test_pii''})"

definition active_contract :: "nat \<Rightarrow> contract_row \<Rightarrow> bool" where
  "active_contract customer s = (sb_customer s = customer \<and> sb_status_code s = ''ACTIVE'')"

definition customer_account :: "account_row \<Rightarrow> bool" where
  "customer_account a = (ac_is_active a \<and> ac_role_code a = ''CUSTOMER'' \<and> ac_is_synthetic a)"

record auth_target =
  tg_customer :: profile_row
  tg_contact :: contact_row
  tg_user :: "account_row option"
  tg_contract :: "contract_row option"

text \<open>The contacts a request identifies, with their customers: two matches are as good as none.\<close>

definition matching_contacts ::
  "auth_env \<Rightarrow> identity \<Rightarrow> auth_db \<Rightarrow> auth_error + (contact_row \<times> profile_row) list" where
  "matching_contacts env ident d =
     (let base = List.map_filter (\<lambda>ct. case profile_of d (ct_customer ct) of
                    Some c \<Rightarrow> if usable_contact ct \<and> cp_is_synthetic c \<and> cp_deleted_at c = None
                              then Some (ct, c) else None
                  | None \<Rightarrow> None) (au_contacts d) in
      if sent_field ident ''customer_number'' \<noteq> [] then
        rbind (of_option Missing_row (map_of ident ''contract_number'')) (\<lambda>no.
        Inr (filter (\<lambda>(ct, c). cp_customer_no c = sent_field ident ''customer_number'' \<and>
            list_ex (\<lambda>s. active_contract (ct_customer ct) s \<and> sb_contract_no s = no) (au_contracts d)) base))
      else
        rbind (of_option Missing_row (map_of ident ''email'')) (\<lambda>email.
        (case lookup_hmac env email of
           Inl e \<Rightarrow> Inr []
         | Inr h \<Rightarrow>
             rbind (of_option Missing_row (map_of ident ''name'')) (\<lambda>name.
             Inr (filter (\<lambda>(ct, c). ct_email_lookup_hmac ct = h \<and> cp_customer_name c = name \<and>
                 list_ex (active_contract (ct_customer ct)) (au_contracts d)) base)))))"

definition resolve_target ::
  "auth_env \<Rightarrow> identity \<Rightarrow> purpose \<Rightarrow> auth_db \<Rightarrow> auth_error + auth_target option" where
  "resolve_target env ident p d =
     rbind (matching_contacts env ident d) (\<lambda>matches.
     case matches of
       [(ct, c)] \<Rightarrow>
         let numbered = (sent_field ident ''customer_number'' \<noteq> []);
             contract = (if numbered
               then the_row (\<lambda>s. active_contract (cp_id c) s \<and>
                      sb_contract_no s = sent_field ident ''contract_number'') (au_contracts d)
               else None);
             link = the_row (\<lambda>l. ln_customer l = cp_id c \<and> ln_is_active l \<and>
                      (case account_of d (ln_user l) of Some a \<Rightarrow> customer_account a | None \<Rightarrow> False)) (au_links d);
             user = (case link of None \<Rightarrow> None | Some l \<Rightarrow> account_of d (ln_user l));
             target = \<lparr>tg_customer = c, tg_contact = ct, tg_user = user, tg_contract = contract\<rparr>
         in if numbered \<and> contract = None then Inr None
            else if p = SIGNUP then
              Inr (if cp_user c \<noteq> None \<or> link \<noteq> None then None else Some target)
            else (case user of
                None \<Rightarrow> Inr None
              | Some a \<Rightarrow>
                  if cp_user c \<noteq> Some (ac_id a) then Inr None
                  else if sent_field ident ''username'' \<noteq> [] \<and>
                    en_casefold env (ac_username a) \<noteq> en_casefold env (sent_field ident ''username'')
                  then Inr None else Inr (Some target))
     | _ \<Rightarrow> Inr None)"

section \<open>The target at the time of use\<close>

definition lock_current :: "auth_db \<Rightarrow> challenge_row \<Rightarrow> auth_target option" where
  "lock_current d ch =
     (case (ch_customer ch, ch_contact ch) of
        (Some cid, Some tid) \<Rightarrow>
          (case the_row (\<lambda>c. cp_id c = cid \<and> cp_is_synthetic c \<and> cp_deleted_at c = None) (au_profiles d) of
             None \<Rightarrow> None
           | Some c \<Rightarrow>
          (case the_row (\<lambda>ct. ct_id ct = tid \<and> ct_customer ct = cid \<and> usable_contact ct) (au_contacts d) of
             None \<Rightarrow> None
           | Some ct \<Rightarrow>
          (case the_row (\<lambda>s. active_contract cid s \<and>
                  (case ch_subscription ch of Some k \<Rightarrow> sb_id s = k | None \<Rightarrow> True)) (au_contracts d) of
             None \<Rightarrow> None
           | Some s \<Rightarrow>
             let contract = (if ch_subscription ch = None then None else Some s) in
             if ch_purpose ch = SIGNUP then
               if cp_user c \<noteq> None \<or> list_ex (\<lambda>l. ln_customer l = cid \<and> ln_is_active l) (au_links d) then None
               else Some \<lparr>tg_customer = c, tg_contact = ct, tg_user = None, tg_contract = contract\<rparr>
             else (case ch_user ch of
                 None \<Rightarrow> None
               | Some uid \<Rightarrow>
                   if cp_user c \<noteq> Some uid then None
                   else (case the_row (\<lambda>a. ac_id a = uid \<and> customer_account a) (au_accounts d) of
                       None \<Rightarrow> None
                     | Some a \<Rightarrow>
                         if list_ex (\<lambda>l. ln_customer l = cid \<and> ln_user l = uid \<and> ln_is_active l) (au_links d)
                         then Some \<lparr>tg_customer = c, tg_contact = ct, tg_user = Some a, tg_contract = contract\<rparr>
                         else None)))))
      | _ \<Rightarrow> None)"

section \<open>Creating a challenge\<close>

definition idempotency_key :: "string \<Rightarrow> auth_error + string" where
  "idempotency_key v =
     (if strip v = [] \<or> 128 < length (strip v) then Inl Invalid_request else Inr (strip v))"

definition idempotency_hmac :: "auth_env \<Rightarrow> string \<Rightarrow> auth_error + string" where
  "idempotency_hmac env key =
     rbind (guard_or (crypto_ready env) Crypto_misconfigured) (\<lambda>_.
     rbind (idempotency_key key) (\<lambda>k. Inr (crypto_digest env ''idempotency-key'' k)))"

record challenge_data =
  cd_challenge_id :: nat
  cd_expires_in :: int
  cd_resend_after :: int

definition challenge_data_of :: "auth_env \<Rightarrow> challenge_row \<Rightarrow> challenge_data" where
  "challenge_data_of env c =
     \<lparr>cd_challenge_id = ch_public_id c, cd_expires_in = en_otp_ttl env, cd_resend_after = en_otp_resend env\<rparr>"

definition replay_challenge :: "auth_env \<Rightarrow> challenge_row \<Rightarrow> string \<Rightarrow> auth_error + challenge_data" where
  "replay_challenge env c fp =
     (if ch_request_fingerprint_hmac c \<noteq> fp then Inl Duplicate_event else Inr (challenge_data_of env c))"

definition challenge_for :: "auth_db \<Rightarrow> purpose \<Rightarrow> string \<Rightarrow> challenge_row option" where
  "challenge_for d p idem = the_row (\<lambda>c. ch_purpose c = p \<and> ch_idempotency_key_hmac c = idem) (au_challenges d)"

text \<open>The bucket of a request after a window that has passed is started anew.\<close>

definition current_bucket :: "auth_env \<Rightarrow> int \<Rightarrow> purpose \<Rightarrow> string \<Rightarrow> auth_db \<Rightarrow> challenge_bucket" where
  "current_bucket env now p fp d =
     (let b = (case the_row (\<lambda>b. cb_purpose b = p \<and> cb_request_fingerprint_hmac b = fp) (au_challenge_buckets d) of
                 Some b \<Rightarrow> b
               | None \<Rightarrow> \<lparr>cb_purpose = p, cb_request_fingerprint_hmac = fp, cb_window_started_at = now,
                          cb_request_count = 0, cb_last_requested_at = None\<rparr>) in
      if cb_window_started_at b \<le> now - seconds (3600 * en_window_hours env)
      then b\<lparr>cb_window_started_at := now, cb_request_count := 0, cb_last_requested_at := None\<rparr> else b)"

definition put_bucket :: "challenge_bucket \<Rightarrow> auth_db \<Rightarrow> auth_db" where
  "put_bucket b d = d\<lparr>au_challenge_buckets :=
     filter (\<lambda>x. \<not> (cb_purpose x = cb_purpose b \<and>
       cb_request_fingerprint_hmac x = cb_request_fingerprint_hmac b)) (au_challenge_buckets d) @ [b]\<rparr>"

definition check_rate :: "auth_env \<Rightarrow> int \<Rightarrow> challenge_bucket \<Rightarrow> auth_error + unit" where
  "check_rate env now b =
     (case cb_last_requested_at b of
        Some t \<Rightarrow>
          if t + seconds (en_otp_resend env) > now
          then Inl (rate_limited ((t + seconds (en_otp_resend env) - now) div 1000000 + 1))
          else guard_or (cb_request_count b < en_max_per_window env) (rate_limited 3600)
      | None \<Rightarrow> guard_or (cb_request_count b < en_max_per_window env) (rate_limited 3600))"

definition new_challenge ::
  "auth_env \<Rightarrow> int \<Rightarrow> purpose \<Rightarrow> auth_target option \<Rightarrow> string \<Rightarrow> string \<Rightarrow> string \<Rightarrow> nat \<Rightarrow> challenge_row" where
  "new_challenge env now p target idem fp otp n =
     \<lparr>ch_id = n, ch_public_id = n, ch_purpose = p,
      ch_customer = map_option (\<lambda>t. cp_id (tg_customer t)) target,
      ch_contact = map_option (\<lambda>t. ct_id (tg_contact t)) target,
      ch_subscription = Option.bind target (\<lambda>t. map_option sb_id (tg_contract t)),
      ch_user = Option.bind target (\<lambda>t. map_option ac_id (tg_user t)),
      ch_target_resolved = (target \<noteq> None), ch_idempotency_key_hmac = idem,
      ch_request_fingerprint_hmac = fp, ch_otp_digest = otp_digest env n p otp,
      ch_expires_at = now + seconds (en_otp_ttl env), ch_resend_not_before = now + seconds (en_otp_resend env),
      ch_failure_count = 0, ch_max_failures = en_otp_max_failures env, ch_verified_at = None,
      ch_consumed_at = None, ch_delivery_attempted = False\<rparr>"

text \<open>\<open>full_clean\<close>: the model's \<open>clean\<close>, its check constraints and its unique constraint.\<close>

definition challenge_clean :: "auth_db \<Rightarrow> challenge_row \<Rightarrow> bool" where
  "challenge_clean d c =
     (ch_target_resolved c = (ch_customer c \<noteq> None \<and> ch_contact c \<noteq> None) \<and>
      (case ch_contact c of None \<Rightarrow> True
       | Some k \<Rightarrow> list_ex (\<lambda>ct. ct_id ct = k \<and> Some (ct_customer ct) = ch_customer c) (au_contacts d)) \<and>
      (case ch_subscription c of None \<Rightarrow> True
       | Some k \<Rightarrow> list_ex (\<lambda>s. sb_id s = k \<and> Some (sb_customer s) = ch_customer c) (au_contracts d)) \<and>
      (case (ch_user c, ch_customer c) of
         (Some u, Some k) \<Rightarrow> list_ex (\<lambda>l. ln_user l = u \<and> ln_customer l = k \<and> ln_is_active l) (au_links d)
       | _ \<Rightarrow> True) \<and>
      1 \<le> ch_max_failures c \<and> ch_failure_count c \<le> ch_max_failures c \<and>
      challenge_for d (ch_purpose c) (ch_idempotency_key_hmac c) = None)"

text \<open>\<open>ck_p1_email_outbox_state\<close> and the bounds of the attempts.\<close>

definition outbox_ok :: "outbox_row \<Rightarrow> bool" where
  "outbox_ok r =
     (0 \<le> ob_attempt_count r \<and> 1 \<le> ob_max_attempts r \<and> ob_attempt_count r \<le> ob_max_attempts r \<and>
      (case ob_status r of
         Pending \<Rightarrow> ob_encrypted_otp r \<noteq> [] \<and> ob_sent_at r = None \<and> ob_attempt_count r < ob_max_attempts r
       | Sent \<Rightarrow> ob_encrypted_otp r = [] \<and> ob_sent_at r \<noteq> None \<and> 1 \<le> ob_attempt_count r
       | Failed \<Rightarrow> ob_encrypted_otp r = [] \<and> ob_sent_at r = None \<and> ob_attempt_count r = ob_max_attempts r
       | Suppressed \<Rightarrow> ob_encrypted_otp r = [] \<and> ob_sent_at r = None))"

definition outbox_entry :: "int \<Rightarrow> challenge_row \<Rightarrow> nat option \<Rightarrow> string \<Rightarrow> outbox_status \<Rightarrow> string \<Rightarrow> nat \<Rightarrow> outbox_row" where
  "outbox_entry now c contact encrypted status err n =
     \<lparr>ob_id = n, ob_challenge = ch_id c, ob_contact = contact, ob_encrypted_otp = encrypted,
      ob_status = status, ob_attempt_count = 0, ob_max_attempts = 3, ob_available_at = now,
      ob_sent_at = None, ob_last_error_code = err, ob_created_at = now\<rparr>"

definition enqueue ::
  "auth_env \<Rightarrow> int \<Rightarrow> challenge_row \<Rightarrow> contact_row option \<Rightarrow> string \<Rightarrow> auth_db \<Rightarrow> auth_error + auth_db" where
  "enqueue env now c contact otp d =
     rbind (case contact of
         Some ct \<Rightarrow>
           if ch_target_resolved c
           then rbind (encrypt_otp env (au_next d) otp)
             (\<lambda>e. Inr (outbox_entry now c (Some (ct_id ct)) e Pending [] (au_next d)))
           else Inr (outbox_entry now c None [] Suppressed ''TARGET_UNRESOLVED'' (au_next d))
       | None \<Rightarrow> Inr (outbox_entry now c None [] Suppressed ''TARGET_UNRESOLVED'' (au_next d))) (\<lambda>row.
     rbind (guard_or (outbox_ok row) Integrity_violation) (\<lambda>_.
     Inr (d\<lparr>au_outbox := au_outbox d @ [row], au_next := Suc (au_next d)\<rparr>)))"

text \<open>Earlier challenges of the same request are consumed.\<close>

definition supersede :: "int \<Rightarrow> challenge_row \<Rightarrow> challenge_row \<Rightarrow> challenge_row" where
  "supersede now new c =
     (if ch_purpose c = ch_purpose new \<and> ch_request_fingerprint_hmac c = ch_request_fingerprint_hmac new \<and>
         ch_consumed_at c = None then c\<lparr>ch_consumed_at := Some now\<rparr> else c)"

definition add_challenge :: "int \<Rightarrow> challenge_row \<Rightarrow> auth_db \<Rightarrow> auth_db" where
  "add_challenge now c d = d\<lparr>au_challenges := map (supersede now c) (au_challenges d) @ [c],
     au_next := Suc (au_next d)\<rparr>"

definition create_body ::
  "auth_env \<Rightarrow> int \<Rightarrow> nat \<Rightarrow> purpose \<Rightarrow> identity \<Rightarrow> string \<Rightarrow> auth_db \<Rightarrow> auth_error + (challenge_data \<times> auth_db)" where
  "create_body env now draw p ident idem d =
     (let fp = identity_fingerprint env ident in
      case challenge_for d p idem of
        Some c \<Rightarrow> rbind (replay_challenge env c fp) (\<lambda>r. Inr (r, d))
      | None \<Rightarrow>
          let b = current_bucket env now p fp d in
          rbind (check_rate env now b) (\<lambda>_.
          rbind (resolve_target env ident p d) (\<lambda>target.
          let otp = generate_otp draw; c = new_challenge env now p target idem fp otp (au_next d) in
          rbind (guard_or (challenge_clean d c) Validation_failed) (\<lambda>_.
          rbind (enqueue env now c (map_option tg_contact target) otp (add_challenge now c d)) (\<lambda>d'.
          Inr (challenge_data_of env c,
            put_bucket (b\<lparr>cb_request_count := cb_request_count b + 1, cb_last_requested_at := Some now\<rparr>) d'))))))"

text \<open>After an \<open>IntegrityError\<close> the challenge of the same key is answered, if one was committed.\<close>

definition create_challenge ::
  "auth_env \<Rightarrow> int \<Rightarrow> nat \<Rightarrow> purpose \<Rightarrow> identity \<Rightarrow> string \<Rightarrow> auth_db \<Rightarrow> (auth_error + challenge_data) \<times> auth_db" where
  "create_challenge env now draw p ident key d =
     (case idempotency_hmac env key of
        Inl e \<Rightarrow> (Inl e, d)
      | Inr idem \<Rightarrow>
          (case create_body env now draw p ident idem d of
             Inl Integrity_violation \<Rightarrow>
               (case challenge_for d p idem of
                  None \<Rightarrow> (Inl Integrity_violation, d)
                | Some c \<Rightarrow> (replay_challenge env c (identity_fingerprint env ident), d))
           | r \<Rightarrow> committed d r))"

section \<open>Verifying a code\<close>

text \<open>
  \<open>_lock_and_verify_challenge\<close>: the error is a value, so that a counted failure is committed. The
  result is the challenge with the current target, as the code leaves it in memory.
\<close>

definition attempt_counted :: "challenge_row \<Rightarrow> challenge_row" where
  "attempt_counted c = c\<lparr>ch_failure_count := ch_failure_count c + 1\<rparr>"

definition lock_and_verify ::
  "auth_env \<Rightarrow> int \<Rightarrow> nat \<Rightarrow> purpose \<Rightarrow> string \<Rightarrow> auth_db \<Rightarrow>
     (auth_error + (challenge_row \<times> auth_target)) \<times> auth_db" where
  "lock_and_verify env now public_id p otp d =
     (case the_row (\<lambda>c. ch_public_id c = public_id \<and> ch_purpose c = p) (au_challenges d) of
        None \<Rightarrow> (Inl Verification_failed, d)
      | Some c \<Rightarrow>
          if ch_max_failures c \<le> ch_failure_count c then (Inl (rate_limited (en_otp_resend env)), d)
          else if ch_consumed_at c \<noteq> None \<or> ch_verified_at c \<noteq> None \<or> ch_expires_at c \<le> now
          then (Inl Verification_failed, d)
          else if \<not> crypto_ready env then (Inl Crypto_misconfigured, d)
          else if otp_digest env (ch_public_id c) p otp \<noteq> ch_otp_digest c then
            (Inl (if ch_max_failures c \<le> ch_failure_count c + 1 then rate_limited (en_otp_resend env)
                  else Verification_failed),
             save_challenge (attempt_counted c) d)
          else if \<not> ch_target_resolved c \<or> ch_customer c = None then (Inl Verification_failed, d)
          else case lock_current d c of
            None \<Rightarrow> (Inl Verification_failed, save_challenge (c\<lparr>ch_consumed_at := Some now\<rparr>) d)
          | Some t \<Rightarrow>
              (Inr (c\<lparr>ch_user := map_option ac_id (tg_user t),
                      ch_verified_at := Some now, ch_consumed_at := Some now\<rparr>, t),
               save_challenge (c\<lparr>ch_verified_at := Some now, ch_consumed_at := Some now\<rparr>) d))"

text \<open>Creating a ticket: its digest and its challenge are unique.\<close>

definition create_ticket :: "ticket_row \<Rightarrow> auth_db \<Rightarrow> auth_error + auth_db" where
  "create_ticket t d =
     (if list_ex (\<lambda>x. tk_digest x = tk_digest t \<or> tk_challenge x = tk_challenge t) (au_tickets d) \<or>
         \<not> (case tk_purpose t of
              CLAIM \<Rightarrow> tk_user t = None \<and> tk_auth_version_at_issue t = None
            | RESET \<Rightarrow> tk_user t \<noteq> None \<and>
                (case tk_auth_version_at_issue t of Some v \<Rightarrow> 1 \<le> v | None \<Rightarrow> False))
      then Inl Integrity_violation
      else Inr (d\<lparr>au_tickets := au_tickets d @ [t], au_next := Suc (au_next d)\<rparr>))"

definition issued_ticket ::
  "auth_env \<Rightarrow> int \<Rightarrow> ticket_purpose \<Rightarrow> string \<Rightarrow> challenge_row \<Rightarrow> auth_target \<Rightarrow> nat \<Rightarrow> ticket_row" where
  "issued_ticket env now p raw c t n =
     \<lparr>tk_id = n, tk_purpose = p, tk_digest = ticket_digest env raw, tk_challenge = ch_id c,
      tk_customer = cp_id (tg_customer t),
      tk_user = (if p = RESET then map_option ac_id (tg_user t) else None),
      tk_auth_version_at_issue = (if p = RESET then map_option ac_auth_version (tg_user t) else None),
      tk_expires_at = now + seconds (en_ticket_ttl env), tk_consumed_at = None\<rparr>"

definition verify_signup_challenge ::
  "auth_env \<Rightarrow> int \<Rightarrow> string \<Rightarrow> nat \<Rightarrow> string \<Rightarrow> auth_db \<Rightarrow> (auth_error + string) \<times> auth_db" where
  "verify_signup_challenge env now raw public_id otp d =
     (case lock_and_verify env now public_id SIGNUP otp d of
        (Inl e, d') \<Rightarrow> (Inl e, d')
      | (Inr (c, t), d') \<Rightarrow>
          committed d (rbind (create_ticket (issued_ticket env now CLAIM raw c t (au_next d')) d')
            (\<lambda>d''. Inr (raw, d''))))"

definition verify_username_challenge ::
  "auth_env \<Rightarrow> int \<Rightarrow> nat \<Rightarrow> string \<Rightarrow> auth_db \<Rightarrow> (auth_error + string) \<times> auth_db" where
  "verify_username_challenge env now public_id otp d =
     (case lock_and_verify env now public_id USERNAME_RECOVERY otp d of
        (Inl e, d') \<Rightarrow> (Inl e, d')
      | (Inr (c, t), d') \<Rightarrow>
          (case tg_user t of None \<Rightarrow> (Inl Verification_failed, d') | Some a \<Rightarrow> (Inr (ac_username a), d')))"

definition verify_password_reset_challenge ::
  "auth_env \<Rightarrow> int \<Rightarrow> string \<Rightarrow> nat \<Rightarrow> string \<Rightarrow> auth_db \<Rightarrow> (auth_error + string) \<times> auth_db" where
  "verify_password_reset_challenge env now raw public_id otp d =
     (case lock_and_verify env now public_id PASSWORD_RESET otp d of
        (Inl e, d') \<Rightarrow> (Inl e, d')
      | (Inr (c, t), d') \<Rightarrow>
          (case tg_user t of
             None \<Rightarrow> (Inl Verification_failed, d')
           | Some a \<Rightarrow>
               committed d (rbind (create_ticket (issued_ticket env now RESET raw c t (au_next d')) d')
                 (\<lambda>d''. Inr (raw, d'')))))"

section \<open>Delivering a code\<close>

fun domain_after :: "string \<Rightarrow> string \<Rightarrow> string" where
  "domain_after [] acc = acc"
| "domain_after (c # cs) acc = domain_after cs (if c = CHR 0x40 then cs else acc)"

text \<open>\<open>email.rsplit("@", 1)[-1]\<close>\<close>

definition email_domain :: "string \<Rightarrow> string" where
  "email_domain s = domain_after s s"

definition ends_with :: "string \<Rightarrow> string \<Rightarrow> bool" where
  "ends_with s p = starts_with (rev s) (rev p)"

definition approved_delivery_allowed :: "auth_env \<Rightarrow> contact_row \<Rightarrow> bool" where
  "approved_delivery_allowed env ct =
     (if en_debug env then True
      else if en_runtime_environment env \<noteq> ''AWS_NONPROD'' then False
      else if \<not> en_approved_delivery_enabled env then False
      else list_ex (\<lambda>h. ct_email_lookup_hmac ct = h) (en_approved_hmacs env))"

text \<open>
  The recipient of a code, \<open>None\<close> when it must not be sent. \<open>send_mail\<close> is the mail library's: its
  result is \<open>Some\<close> the number of messages sent, or \<open>None\<close> when it raised.
\<close>

definition otp_recipient :: "auth_env \<Rightarrow> contact_row \<Rightarrow> auth_error + string option" where
  "otp_recipient env ct =
     rbind (protection_key env) (\<lambda>_.
     if ct_delivery_policy ct = ''RUNTIME_REDIRECT_ONLY'' \<and> ct_data_classification ct = ''synthetic'' then
       rbind (decrypt_email env (ct_encrypted_email ct)) (\<lambda>_.
       let to = strip (en_redirect_to env) in Inr (if to = [] then None else Some to))
     else if ct_delivery_policy ct = ''APPROVED_TEST_RECIPIENT'' \<and> ct_data_classification ct = ''approved_test_pii'' then
       if \<not> approved_delivery_allowed env ct then Inr None
       else rbind (decrypt_email env (ct_encrypted_email ct)) (\<lambda>to.
         Inr (if ends_with (email_domain to) ''.invalid'' \<or> to = [] then None else Some to))
     else Inr None)"

record mail =
  ml_recipient :: string
  ml_otp :: string

definition deliver_otp ::
  "auth_env \<Rightarrow> contact_row \<Rightarrow> string \<Rightarrow> (mail \<Rightarrow> int option) \<Rightarrow> auth_error + bool" where
  "deliver_otp env ct otp send =
     rbind (otp_recipient env ct) (\<lambda>to.
     Inr (case to of None \<Rightarrow> False | Some addr \<Rightarrow> send \<lparr>ml_recipient = addr, ml_otp = otp\<rparr> = Some 1))"

definition deliverable :: "int \<Rightarrow> challenge_row \<Rightarrow> bool" where
  "deliverable now c =
     (ch_target_resolved c \<and> ch_consumed_at c = None \<and> ch_verified_at c = None \<and>
      now < ch_expires_at c \<and> ch_failure_count c < ch_max_failures c)"

definition due :: "int \<Rightarrow> outbox_row \<Rightarrow> bool" where
  "due now r =
     (ob_status r = Pending \<and> ob_available_at r \<le> now \<and> ob_attempt_count r < ob_max_attempts r)"

definition next_due :: "int \<Rightarrow> auth_db \<Rightarrow> outbox_row option" where
  "next_due now d = first_by (\<lambda>r. (ob_created_at r, ob_id r)) (filter (due now) (au_outbox d))"

definition save_outbox :: "outbox_row \<Rightarrow> auth_db \<Rightarrow> auth_error + auth_db" where
  "save_outbox r d =
     (if outbox_ok r then Inr (d\<lparr>au_outbox := put_row ob_id r (au_outbox d)\<rparr>) else Inl Integrity_violation)"

text \<open>The row after an attempt to deliver it, and the outcome counted for it.\<close>

definition attempted_row :: "int \<Rightarrow> outbox_row \<Rightarrow> auth_error + bool \<Rightarrow> outbox_row \<times> string" where
  "attempted_row now r delivered =
     (let n = ob_attempt_count r + 1;
          r' = r\<lparr>ob_attempt_count := n, ob_last_error_code :=
            (case delivered of Inl e \<Rightarrow> ''PROTECTED_DELIVERY_DATA_INVALID''
             | Inr True \<Rightarrow> [] | Inr False \<Rightarrow> ''DELIVERY_FAILED'')\<rparr> in
      if delivered = Inr True then
        (r'\<lparr>ob_status := Sent, ob_sent_at := Some now, ob_encrypted_otp := []\<rparr>, ''sent'')
      else if ob_max_attempts r \<le> n then (r'\<lparr>ob_status := Failed, ob_encrypted_otp := []\<rparr>, ''failed'')
      else (r'\<lparr>ob_available_at := now + seconds (30 * n)\<rparr>, ''failed''))"

definition suppressed_row :: "outbox_row \<Rightarrow> outbox_row" where
  "suppressed_row r =
     r\<lparr>ob_attempt_count := ob_attempt_count r + 1, ob_status := Suppressed, ob_encrypted_otp := [],
       ob_last_error_code := ''CHALLENGE_NOT_DELIVERABLE''\<rparr>"

text \<open>The code is sent only while its challenge is open and its target and contact are current.\<close>

definition delivery_target :: "int \<Rightarrow> outbox_row \<Rightarrow> challenge_row \<Rightarrow> auth_db \<Rightarrow> auth_target option" where
  "delivery_target now r c d =
     (case (if deliverable now c then lock_current d c else None) of
        Some t \<Rightarrow>
          if ob_contact r \<noteq> None \<and> ch_contact c = ob_contact r \<and> Some (ct_id (tg_contact t)) = ob_contact r
          then Some t else None
      | None \<Rightarrow> None)"

definition processed_row ::
  "auth_env \<Rightarrow> int \<Rightarrow> (mail \<Rightarrow> int option) \<Rightarrow> outbox_row \<Rightarrow> challenge_row \<Rightarrow> auth_db \<Rightarrow> outbox_row \<times> string" where
  "processed_row env now send r c d =
     (case delivery_target now r c d of
        Some t \<Rightarrow> attempted_row now r
          (rbind (decrypt_otp env (ob_encrypted_otp r)) (\<lambda>otp. deliver_otp env (tg_contact t) otp send))
      | None \<Rightarrow> (suppressed_row r, ''suppressed''))"

definition process_one ::
  "auth_env \<Rightarrow> int \<Rightarrow> (mail \<Rightarrow> int option) \<Rightarrow> auth_db \<Rightarrow> auth_error + (string option \<times> auth_db)" where
  "process_one env now send d =
     (case next_due now d of
        None \<Rightarrow> Inr (None, d)
      | Some r \<Rightarrow>
          (case challenge_of d (ob_challenge r) of
             None \<Rightarrow> Inl Missing_row
           | Some c0 \<Rightarrow>
               let c = c0\<lparr>ch_delivery_attempted := True\<rparr>; d1 = save_challenge c d;
                   res = processed_row env now send r c d1 in
               rbind (save_outbox (fst res) d1) (\<lambda>d'. Inr (Some (snd res), d'))))"

record outbox_counts =
  oc_processed :: nat
  oc_sent :: nat
  oc_failed :: nat
  oc_suppressed :: nat

definition count_outcome :: "string \<Rightarrow> outbox_counts \<Rightarrow> outbox_counts" where
  "count_outcome w c =
     (let c = c\<lparr>oc_processed := Suc (oc_processed c)\<rparr> in
      if w = ''sent'' then c\<lparr>oc_sent := Suc (oc_sent c)\<rparr>
      else if w = ''failed'' then c\<lparr>oc_failed := Suc (oc_failed c)\<rparr>
      else c\<lparr>oc_suppressed := Suc (oc_suppressed c)\<rparr>)"

text \<open>
  The worker's loop: every row is a transaction of its own, with its own clock reading and its own
  call of the mail library; an error ends the loop and keeps what was committed.
\<close>

fun process_loop ::
  "auth_env \<Rightarrow> (nat \<Rightarrow> int) \<Rightarrow> (nat \<Rightarrow> mail \<Rightarrow> int option) \<Rightarrow> nat \<Rightarrow> outbox_counts \<Rightarrow> auth_db \<Rightarrow>
     (auth_error + outbox_counts) \<times> auth_db" where
  "process_loop env clock send 0 counts d = (Inr counts, d)"
| "process_loop env clock send (Suc n) counts d =
     (case process_one env (clock n) (send n) d of
        Inl e \<Rightarrow> (Inl e, d)
      | Inr (None, d') \<Rightarrow> (Inr counts, d')
      | Inr (Some outcome, d') \<Rightarrow> process_loop env clock send n (count_outcome outcome counts) d')"

definition process_pending ::
  "auth_env \<Rightarrow> (nat \<Rightarrow> int) \<Rightarrow> (nat \<Rightarrow> mail \<Rightarrow> int option) \<Rightarrow> int \<Rightarrow> auth_db \<Rightarrow>
     (auth_error + outbox_counts) \<times> auth_db" where
  "process_pending env clock send max_rows d =
     process_loop env clock send (nat (max 1 max_rows))
       \<lparr>oc_processed = 0, oc_sent = 0, oc_failed = 0, oc_suppressed = 0\<rparr> d"

end
