(* ===== verification/AuthCredentials.thy ===== *)
theory AuthCredentials
  imports AuthChallenge
begin

text \<open>
  Sign-up, password login and password reset (\<open>P1AuthService.signup\<close>, \<open>login\<close>,
  \<open>confirm_password_reset\<close>) with their receipts, tickets and rate bucket. Requests with one
  idempotency key are serialised by its lock row, so the receipt the code reads again after every lock
  is the one it read first.
\<close>

section \<open>Receipts\<close>

definition lock_operation_idempotency :: "receipt_operation \<Rightarrow> string \<Rightarrow> auth_db \<Rightarrow> auth_db" where
  "lock_operation_idempotency op idem d =
     (if (op, idem) \<in> set (au_locks d) then d else d\<lparr>au_locks := au_locks d @ [(op, idem)]\<rparr>)"

definition receipt_for :: "auth_db \<Rightarrow> receipt_operation \<Rightarrow> string \<Rightarrow> receipt_row option" where
  "receipt_for d op idem =
     the_row (\<lambda>r. rc_operation r = op \<and> rc_idempotency_key_hmac r = idem) (au_receipts d)"

definition create_receipt :: "receipt_row \<Rightarrow> auth_db \<Rightarrow> auth_error + auth_db" where
  "create_receipt r d =
     (if receipt_for d (rc_operation r) (rc_idempotency_key_hmac r) \<noteq> None \<or> rc_auth_version_at_completion r < 1
      then Inl Integrity_violation else Inr (d\<lparr>au_receipts := au_receipts d @ [r]\<rparr>))"

definition validate_receipt_request :: "receipt_row \<Rightarrow> string \<Rightarrow> auth_error + unit" where
  "validate_receipt_request r fp = guard_or (rc_request_fingerprint_hmac r = fp) Duplicate_event"

definition current_receipt_user ::
  "auth_env \<Rightarrow> int \<Rightarrow> receipt_row \<Rightarrow> string \<Rightarrow> auth_db \<Rightarrow> auth_error + account_row" where
  "current_receipt_user env now r password d =
     (case the_row (\<lambda>a. ac_id a = rc_user r \<and> customer_account a \<and> has_active_link d a \<and>
              profile_not_deleted d a) (au_accounts d) of
        None \<Rightarrow> Inl Verification_failed
      | Some a \<Rightarrow>
          if rc_completed_at r < now - seconds (en_replay_ttl env) \<or>
             ac_auth_version a \<noteq> rc_auth_version_at_completion r \<or>
             \<not> en_check_password env password (ac_password a)
          then Inl Verification_failed else Inr a)"

section \<open>Tickets\<close>

definition ticket_for :: "auth_db \<Rightarrow> ticket_purpose \<Rightarrow> string \<Rightarrow> ticket_row option" where
  "ticket_for d p digest = the_row (\<lambda>t. tk_digest t = digest \<and> tk_purpose t = p) (au_tickets d)"

definition ticket_open :: "int \<Rightarrow> ticket_row \<Rightarrow> bool" where
  "ticket_open now t = (tk_consumed_at t = None \<and> now < tk_expires_at t)"

definition has_usable_ticket :: "auth_db \<Rightarrow> int \<Rightarrow> ticket_purpose \<Rightarrow> string \<Rightarrow> bool" where
  "has_usable_ticket d now p digest =
     list_ex (\<lambda>t. tk_digest t = digest \<and> tk_purpose t = p \<and> ticket_open now t) (au_tickets d)"

definition consume_ticket :: "int \<Rightarrow> ticket_row \<Rightarrow> auth_db \<Rightarrow> auth_db" where
  "consume_ticket now t d = save_ticket (t\<lparr>tk_consumed_at := Some now\<rparr>) d"

section \<open>Accounts\<close>

text \<open>
  \<open>create_user\<close>: the name is stripped, \<open>full_clean\<close> normalises it and checks that it is new up to case.
\<close>

definition create_user ::
  "auth_env \<Rightarrow> string \<Rightarrow> string \<Rightarrow> string \<Rightarrow> string \<Rightarrow> auth_db \<Rightarrow> auth_error + (account_row \<times> auth_db)" where
  "create_user env salt username password full_name d =
     (let name = en_nfkc env (strip username);
          a = \<lparr>ac_id = au_next d, ac_public_id = au_next d, ac_username = name,
               ac_password = (if password \<noteq> [] then en_make_password env salt password else CHR ''!'' # salt),
               ac_full_name = full_name, ac_role_code = ''CUSTOMER'', ac_employee_no = None,
               ac_is_staff = False, ac_is_superuser = False, ac_is_active = True, ac_is_synthetic = True,
               ac_auth_version = 1, ac_groups = [], ac_permissions = []\<rparr>
      in if username = [] then Inl Value_invalid
         else if strip username = [] \<or> 150 < length (strip username) \<or> full_name = [] \<or>
           list_ex (\<lambda>b. iexact env (ac_username b) name) (au_accounts d)
         then Inl Validation_failed
         else Inr (a, d\<lparr>au_accounts := au_accounts d @ [a], au_next := Suc (au_next d)\<rparr>))"

record consent_item =
  ci_code :: string
  ci_version :: string
  ci_agreed :: bool

record signup_request =
  sr_claim_ticket :: string
  sr_name :: string
  sr_email :: string
  sr_username :: string
  sr_password :: string
  sr_consents :: "consent_item list"
  sr_key :: string
  sr_correlation_id :: string

definition consent_value :: "consent_item \<Rightarrow> py" where
  "consent_value c =
     PDict [(''code'', PStr (ci_code c)), (''version'', PStr (ci_version c)), (''agreed'', PBool (ci_agreed c))]"

definition signup_fingerprint :: "auth_env \<Rightarrow> signup_request \<Rightarrow> string" where
  "signup_fingerprint env rq =
     crypto_fingerprint env ''signup-request''
       [(''ticket'', PStr (ticket_digest env (sr_claim_ticket rq))),
        (''name'', PStr (normalize_text env (sr_name rq))),
        (''email'', PStr (normalize_username env (sr_email rq))),
        (''username'', PStr (normalize_username env (sr_username rq))),
        (''password'', PStr (crypto_digest env ''password-request'' (sr_password rq))),
        (''consents'', PList (map consent_value (sort_key (\<lambda>c. (ci_code c, ci_version c)) (sr_consents rq))))]"

definition agreed_versions :: "consent_item list \<Rightarrow> string \<Rightarrow> string option" where
  "agreed_versions cs = dict_of (map (\<lambda>c. (ci_code c, ci_version c)) (filter ci_agreed cs))"

text \<open>Linking the customer to the new account: the profile, the link and the consents.\<close>

definition link_customer :: "int \<Rightarrow> account_row \<Rightarrow> profile_row \<Rightarrow> consent_item list \<Rightarrow> auth_db \<Rightarrow> auth_error + auth_db" where
  "link_customer now a c consents d =
     (let version = (case agreed_versions consents ''PRIVACY_COLLECTION_USE'' of Some v \<Rightarrow> v | None \<Rightarrow> []);
          c' = c\<lparr>cp_user := Some (ac_id a), cp_consent_version := version, cp_consented_at := Some now\<rparr>;
          link = \<lparr>ln_id = au_next d, ln_user = ac_id a, ln_customer = cp_id c, ln_is_active = True,
                  ln_link_reason = ''SIGN_UP_EMAIL_OTP''\<rparr>
      in if 40 < length version \<or>
            list_ex (\<lambda>x. cp_id x \<noteq> cp_id c \<and> cp_user x = Some (ac_id a)) (au_profiles d) \<or>
            list_ex (\<lambda>l. ln_is_active l \<and> (ln_user l = ac_id a \<or> ln_customer l = cp_id c)) (au_links d)
         then Inl Validation_failed
         else if \<not> distinct (map (\<lambda>k. (ci_code k, ci_version k)) consents) then Inl Integrity_violation
         else Inr (d\<lparr>au_profiles := put_row cp_id c' (au_profiles d), au_links := au_links d @ [link],
                au_consents := au_consents d @
                  map (\<lambda>k. \<lparr>an_user = ac_id a, an_code = ci_code k, an_version = ci_version k,
                             an_agreed = ci_agreed k\<rparr>) consents,
                au_next := Suc (au_next d)\<rparr>))"

definition creation_audit :: "account_row \<Rightarrow> nat \<Rightarrow> account_audit" where
  "creation_audit a correlation =
     \<lparr>ae_target_user = ac_id a, ae_actor = ac_id a, ae_event_type = ''CREATE'', ae_before_values = [],
      ae_after_values = [(''role_code'', PStr (ac_role_code a)), (''is_active'', PBool (ac_is_active a)),
        (''is_staff'', PBool (ac_is_staff a)), (''is_superuser'', PBool (ac_is_superuser a)),
        (''auth_version'', PInt (ac_auth_version a)), (''groups'', PList []), (''permissions'', PList [])],
      ae_changed_fields = [''account_created''], ae_reason = ''P1_EMAIL_OTP_SIGNUP'',
      ae_correlation_id = correlation\<rparr>"

section \<open>Sign-up\<close>

record signup_result =
  sg_user :: account_row
  sg_pair :: token_pair
  sg_replay :: bool

definition replay_signup_receipt ::
  "auth_env \<Rightarrow> int \<Rightarrow> receipt_row \<Rightarrow> string \<Rightarrow> string \<Rightarrow> auth_db \<Rightarrow> auth_error + (signup_result \<times> auth_db)" where
  "replay_signup_receipt env now r fp password d =
     rbind (validate_receipt_request r fp) (\<lambda>_.
     rbind (current_receipt_user env now r password d) (\<lambda>a.
     rbind (issue_pair env now (ac_id a) None d) (\<lambda>(pair, d').
     Inr (\<lparr>sg_user = a, sg_pair = pair, sg_replay = True\<rparr>, d'))))"

text \<open>The contract the claim ticket was issued for is still the caller's and nobody has signed up for it.\<close>

definition signup_target ::
  "auth_env \<Rightarrow> int \<Rightarrow> signup_request \<Rightarrow> auth_db \<Rightarrow> auth_error + (ticket_row \<times> auth_target)" where
  "signup_target env now rq d =
     rbind (of_option Verification_failed (ticket_for d CLAIM (ticket_digest env (sr_claim_ticket rq)))) (\<lambda>t.
     rbind (guard_or (ticket_open now t) Verification_failed) (\<lambda>_.
     rbind (of_option Verification_failed (Option.bind (challenge_of d (tk_challenge t)) (lock_current d))) (\<lambda>tg.
     rbind (guard_or (cp_id (tg_customer tg) = tk_customer t \<and> tg_user tg = None) Verification_failed) (\<lambda>_.
     if sr_name rq = [] \<and> sr_email rq = [] then Inr (t, tg)
     else rbind (map_error (\<lambda>_. Verification_failed) (lookup_hmac env (sr_email rq))) (\<lambda>h.
       rbind (guard_or (normalize_text env (cp_customer_name (tg_customer tg)) = normalize_text env (sr_name rq) \<and>
           ct_email_lookup_hmac (tg_contact tg) = h) Verification_failed) (\<lambda>_. Inr (t, tg)))))))"

definition signup_body ::
  "auth_env \<Rightarrow> int \<Rightarrow> string \<Rightarrow> signup_request \<Rightarrow> string \<Rightarrow> auth_db \<Rightarrow> auth_error + (signup_result \<times> auth_db)" where
  "signup_body env now salt rq idem d0 =
     (let d = lock_operation_idempotency Signup_receipt idem d0; fp = signup_fingerprint env rq in
      case receipt_for d Signup_receipt idem of
        Some r \<Rightarrow> replay_signup_receipt env now r fp (sr_password rq) d
      | None \<Rightarrow>
          rbind (signup_target env now rq d) (\<lambda>(t, tg).
          rbind (guard_or (\<not> list_ex (\<lambda>b. iexact env (ac_username b) (sr_username rq)) (au_accounts d))
            Identifier_unavailable) (\<lambda>_.
          rbind (create_user env salt (sr_username rq) (sr_password rq) (cp_customer_name (tg_customer tg)) d) (\<lambda>(a, d1).
          rbind (link_customer now a (tg_customer tg) (sr_consents rq) d1) (\<lambda>d2.
          rbind (create_receipt \<lparr>rc_operation = Signup_receipt, rc_idempotency_key_hmac = idem,
                   rc_request_fingerprint_hmac = fp, rc_user = ac_id a,
                   rc_auth_version_at_completion = ac_auth_version a, rc_completed_at = now\<rparr>
                 (consume_ticket now t d2)) (\<lambda>d3.
          rbind (of_option Value_invalid (en_uuid_parse env (sr_correlation_id rq))) (\<lambda>correlation.
          rbind (record_audit (creation_audit a correlation) d3) (\<lambda>d4.
          rbind (issue_pair env now (ac_id a) None d4) (\<lambda>(pair, d5).
          Inr (\<lparr>sg_user = a, sg_pair = pair, sg_replay = False\<rparr>, d5))))))))))"

text \<open>An \<open>IntegrityError\<close> is answered from the receipt of the key, or as a name that is not available.\<close>

definition signup ::
  "auth_env \<Rightarrow> int \<Rightarrow> string \<Rightarrow> signup_request \<Rightarrow> auth_db \<Rightarrow> (auth_error + signup_result) \<times> auth_db" where
  "signup env now salt rq d =
     (case idempotency_hmac env (sr_key rq) of
        Inl e \<Rightarrow> (Inl e, d)
      | Inr idem \<Rightarrow>
          if receipt_for d Signup_receipt idem = None \<and>
             \<not> has_usable_ticket d now CLAIM (ticket_digest env (sr_claim_ticket rq))
          then (Inl Verification_failed, d)
          else case signup_body env now salt rq idem d of
            Inl Integrity_violation \<Rightarrow>
              (case receipt_for d Signup_receipt idem of
                 Some r \<Rightarrow> committed d (replay_signup_receipt env now r (signup_fingerprint env rq) (sr_password rq) d)
               | None \<Rightarrow> (Inl Identifier_unavailable, d))
          | res \<Rightarrow> committed d res)"

section \<open>Login\<close>

definition login_subject :: "auth_env \<Rightarrow> string \<Rightarrow> string" where
  "login_subject env username = crypto_digest env ''login-subject'' (normalize_username env username)"

text \<open>The bucket of a name, its window started anew when it has passed.\<close>

definition current_login_bucket :: "auth_env \<Rightarrow> int \<Rightarrow> string \<Rightarrow> auth_db \<Rightarrow> login_bucket" where
  "current_login_bucket env now subject d =
     (let b = (case the_row (\<lambda>b. lb_subject_hmac b = subject) (au_login_buckets d) of
                 Some b \<Rightarrow> b
               | None \<Rightarrow> \<lparr>lb_subject_hmac = subject, lb_window_started_at = now, lb_failure_count = 0,
                          lb_last_failed_at = None\<rparr>) in
      if lb_window_started_at b \<le> now - seconds (en_login_window env)
      then b\<lparr>lb_window_started_at := now, lb_failure_count := 0, lb_last_failed_at := None\<rparr> else b)"

definition put_login_bucket :: "login_bucket \<Rightarrow> auth_db \<Rightarrow> auth_db" where
  "put_login_bucket b d = d\<lparr>au_login_buckets :=
     filter (\<lambda>x. lb_subject_hmac x \<noteq> lb_subject_hmac b) (au_login_buckets d) @ [b]\<rparr>"

definition login_account :: "auth_env \<Rightarrow> string \<Rightarrow> auth_db \<Rightarrow> account_row option" where
  "login_account env username d =
     the_row (\<lambda>a. iexact env (ac_username a) username \<and> ac_is_active a \<and> ac_is_synthetic a \<and>
        ((ac_role_code a = ''CUSTOMER'' \<and> has_active_link d a \<and> profile_not_deleted d a) \<or>
         (ac_role_code a = ''CONSULTANT'' \<and> ac_employee_no a \<noteq> None))) (au_accounts d)"

definition failed_login :: "int \<Rightarrow> string \<Rightarrow> login_bucket \<Rightarrow> auth_db \<Rightarrow> auth_db" where
  "failed_login now subject b d =
     put_login_bucket (b\<lparr>lb_failure_count := lb_failure_count b + 1, lb_last_failed_at := Some now\<rparr>)
       (d\<lparr>au_login_failures := au_login_failures d @ [(subject, now)]\<rparr>)"

definition cleared_login :: "int \<Rightarrow> string \<Rightarrow> login_bucket \<Rightarrow> auth_db \<Rightarrow> auth_db" where
  "cleared_login now subject b d =
     put_login_bucket (b\<lparr>lb_window_started_at := now, lb_failure_count := 0, lb_last_failed_at := None\<rparr>)
       (d\<lparr>au_login_failures := filter (\<lambda>f. fst f \<noteq> subject) (au_login_failures d)\<rparr>)"

definition login ::
  "auth_env \<Rightarrow> int \<Rightarrow> string \<Rightarrow> string \<Rightarrow> auth_db \<Rightarrow> (auth_error + (account_row \<times> token_pair)) \<times> auth_db" where
  "login env now username password d =
     (if \<not> crypto_ready env then (Inl Crypto_misconfigured, d)
      else let subject = login_subject env username; b = current_login_bucket env now subject d in
      if en_login_max_failures env \<le> lb_failure_count b then
        (Inl (rate_limited
           ((lb_window_started_at b + seconds (en_login_window env) - now) div 1000000 + 1)), d)
      else case login_account env username d of
        None \<Rightarrow> (Inl Login_failed, failed_login now subject b d)
      | Some a \<Rightarrow>
          if \<not> en_check_password env password (ac_password a)
          then (Inl Login_failed, failed_login now subject b d)
          else committed d
            (rbind (issue_pair env now (ac_id a) None (cleared_login now subject b d)) (\<lambda>(pair, d').
             Inr ((a, pair), d'))))"

section \<open>Password reset\<close>

definition set_password :: "auth_env \<Rightarrow> string \<Rightarrow> string \<Rightarrow> account_row \<Rightarrow> account_row" where
  "set_password env salt password a =
     a\<lparr>ac_password := en_make_password env salt password, ac_auth_version := ac_auth_version a + 1\<rparr>"

definition revoke_tokens :: "nat \<Rightarrow> auth_db \<Rightarrow> auth_db" where
  "revoke_tokens user d =
     fold blacklist_jti (map ot_jti (filter (\<lambda>t. ot_user t = Some user) (au_outstanding d))) d"

definition reset_fingerprint :: "auth_env \<Rightarrow> string \<Rightarrow> string \<Rightarrow> string" where
  "reset_fingerprint env ticket password =
     crypto_fingerprint env ''password-reset-request''
       [(''ticket'', PStr (ticket_digest env ticket)),
        (''password'', PStr (crypto_digest env ''password-request'' password))]"

definition reset_audit :: "account_row \<Rightarrow> account_row \<Rightarrow> nat \<Rightarrow> account_audit" where
  "reset_audit before after correlation =
     \<lparr>ae_target_user = ac_id after, ae_actor = ac_id after, ae_event_type = ''PASSWORD_RESET'',
      ae_before_values = [(''auth_version'', PInt (ac_auth_version before)), (''credential_changed'', PBool False)],
      ae_after_values = [(''auth_version'', PInt (ac_auth_version after)), (''credential_changed'', PBool True)],
      ae_changed_fields = [''auth_version'', ''credential_changed''],
      ae_reason = ''P1_EMAIL_OTP_PASSWORD_RESET'', ae_correlation_id = correlation\<rparr>"

text \<open>The account a reset ticket still stands for.\<close>

definition reset_target ::
  "auth_env \<Rightarrow> int \<Rightarrow> string \<Rightarrow> auth_db \<Rightarrow> auth_error + (ticket_row \<times> account_row)" where
  "reset_target env now ticket d =
     rbind (of_option Verification_failed (ticket_for d RESET (ticket_digest env ticket))) (\<lambda>t.
     rbind (guard_or (tk_user t \<noteq> None \<and> ticket_open now t) Verification_failed) (\<lambda>_.
     rbind (of_option Verification_failed (Option.bind (challenge_of d (tk_challenge t)) (lock_current d))) (\<lambda>tg.
     rbind (of_option Verification_failed (tg_user tg)) (\<lambda>a.
     rbind (guard_or (Some (ac_id a) = tk_user t \<and> cp_id (tg_customer tg) = tk_customer t \<and>
         tk_auth_version_at_issue t = Some (ac_auth_version a)) Verification_failed) (\<lambda>_. Inr (t, a))))))"

definition reset_body ::
  "auth_env \<Rightarrow> int \<Rightarrow> string \<Rightarrow> string \<Rightarrow> string \<Rightarrow> string \<Rightarrow> string \<Rightarrow> auth_db \<Rightarrow> auth_error + (unit \<times> auth_db)" where
  "reset_body env now salt ticket password idem correlation_id d0 =
     (let d = lock_operation_idempotency Reset_receipt idem d0; fp = reset_fingerprint env ticket password in
      case receipt_for d Reset_receipt idem of
        Some r \<Rightarrow>
          rbind (validate_receipt_request r fp) (\<lambda>_.
          rbind (current_receipt_user env now r password d) (\<lambda>_. Inr ((), d)))
      | None \<Rightarrow>
          rbind (reset_target env now ticket d) (\<lambda>(t, a).
          let a' = set_password env salt password a;
              d1 = consume_ticket now t (revoke_tokens (ac_id a) (save_account a' d)) in
          rbind (create_receipt \<lparr>rc_operation = Reset_receipt, rc_idempotency_key_hmac = idem,
                   rc_request_fingerprint_hmac = fp, rc_user = ac_id a,
                   rc_auth_version_at_completion = ac_auth_version a', rc_completed_at = now\<rparr> d1) (\<lambda>d2.
          rbind (of_option Value_invalid (en_uuid_parse env correlation_id)) (\<lambda>correlation.
          rbind (record_audit (reset_audit a a' correlation) d2) (\<lambda>d3. Inr ((), d3))))))"

definition confirm_password_reset ::
  "auth_env \<Rightarrow> int \<Rightarrow> string \<Rightarrow> string \<Rightarrow> string \<Rightarrow> string \<Rightarrow> string \<Rightarrow> auth_db \<Rightarrow> (auth_error + unit) \<times> auth_db" where
  "confirm_password_reset env now salt ticket password key correlation_id d =
     (case idempotency_hmac env key of
        Inl e \<Rightarrow> (Inl e, d)
      | Inr idem \<Rightarrow>
          if receipt_for d Reset_receipt idem = None \<and>
             \<not> has_usable_ticket d now RESET (ticket_digest env ticket)
          then (Inl Verification_failed, d)
          else committed d (reset_body env now salt ticket password idem correlation_id d))"

end
