(* ===== verification/AccountLifecycle.thy ===== *)
theory AccountLifecycle
  imports AuthTokens AuthCredentials
begin

text \<open>
  \<open>AccountLifecycleService\<close> (\<open>accounts/services/account_lifecycle_service.py\<close>) with its policies
  (\<open>account_admin_policy.py\<close>, \<open>credential_policy.py\<close>): deactivation, reactivation, consultant
  credentials, and granting and revoking account administration. Every operation bumps the account's
  authentication version, blacklists its refresh tokens and writes an audit event, or raises and
  changes nothing.
\<close>

section \<open>Policy\<close>

definition ACCOUNT_ADMIN_GROUP :: string where
  "ACCOUNT_ADMIN_GROUP = ''T017_ACCOUNT_ADMINISTRATORS''"

definition ACCOUNT_ADMIN_PERMISSION_CODES :: "string list" where
  "ACCOUNT_ADMIN_PERMISSION_CODES = [''add_user'', ''change_user'', ''view_user'']"

definition ascii_letter :: "char \<Rightarrow> bool" where
  "ascii_letter c = (let n = of_char c :: nat in (65 \<le> n \<and> n \<le> 90) \<or> (97 \<le> n \<and> n \<le> 122))"

definition consultant_password_ok :: "string \<Rightarrow> bool" where
  "consultant_password_ok s =
     (12 \<le> length s \<and> length s \<le> 64 \<and> list_all (\<lambda>c. ascii_letter c \<or> is_digit c) s \<and>
      list_ex ascii_letter s \<and> list_ex is_digit s)"

definition normalize_synthetic_username :: "auth_env \<Rightarrow> string \<Rightarrow> string option" where
  "normalize_synthetic_username env v =
     (let u = en_upper env (strip v) in
      if starts_with u ''DEMO-'' \<or> starts_with u ''SYN-'' then Some u else None)"

definition user_permission :: "permission_row \<Rightarrow> bool" where
  "user_permission p = (pm_app_label p = ''accounts'' \<and> pm_model p = ''user'')"

text \<open>The policy group is created when it is missing and given exactly the policy's permissions.\<close>

definition policy_permissions :: "auth_db \<Rightarrow> permission_row list" where
  "policy_permissions d =
     filter (\<lambda>p. user_permission p \<and> pm_codename p \<in> set ACCOUNT_ADMIN_PERMISSION_CODES) (au_permissions d)"

definition policy_group :: "auth_db \<Rightarrow> group_row option" where
  "policy_group d = the_row (\<lambda>g. gr_name g = ACCOUNT_ADMIN_GROUP) (au_groups d)"

definition ensure_policy_group :: "auth_db \<Rightarrow> auth_error + (group_row \<times> auth_db)" where
  "ensure_policy_group d =
     (if set (map pm_codename (policy_permissions d)) \<noteq> set ACCOUNT_ADMIN_PERMISSION_CODES
      then Inl (Lifecycle_error ''ACCOUNT_ADMIN_POLICY_INCOMPLETE'')
      else
        let (g, d1) = (case policy_group d of
            Some g \<Rightarrow> (g, d)
          | None \<Rightarrow>
              (let g = \<lparr>gr_id = au_next d, gr_name = ACCOUNT_ADMIN_GROUP, gr_permissions = []\<rparr> in
               (g, d\<lparr>au_groups := au_groups d @ [g], au_next := Suc (au_next d)\<rparr>)))
        in if set (map pm_codename (gr_permissions g)) = set ACCOUNT_ADMIN_PERMISSION_CODES then Inr (g, d1)
           else let g' = g\<lparr>gr_permissions := policy_permissions d\<rparr> in
             Inr (g', d1\<lparr>au_groups := put_row gr_id g' (au_groups d1)\<rparr>))"

definition usable_password :: "auth_env \<Rightarrow> account_row \<Rightarrow> bool" where
  "usable_password env a = en_password_usable env (ac_password a)"

definition synthetic_operator :: "auth_env \<Rightarrow> account_row \<Rightarrow> bool" where
  "synthetic_operator env a =
     (ac_is_active a \<and> ac_is_synthetic a \<and> ac_is_staff a \<and> ac_role_code a = ''OPERATOR'' \<and> usable_password env a)"

definition practical_admin :: "auth_env \<Rightarrow> group_row \<Rightarrow> account_row \<Rightarrow> bool" where
  "practical_admin env g a =
     (synthetic_operator env a \<and> gr_id g \<in> set (ac_groups a) \<and>
      set ACCOUNT_ADMIN_PERMISSION_CODES \<subseteq> set (map pm_codename (filter user_permission (gr_permissions g))))"

definition authorize_actor :: "auth_env \<Rightarrow> account_row \<Rightarrow> group_row \<Rightarrow> auth_error + unit" where
  "authorize_actor env actor g =
     (if \<not> synthetic_operator env actor then Inl (Lifecycle_error ''ACCOUNT_ADMIN_REQUIRED'')
      else if ac_is_superuser actor then Inr ()
      else guard_or (practical_admin env g actor) (Lifecycle_error ''ACCOUNT_ADMIN_REQUIRED''))"

section \<open>Snapshots, tokens and audit\<close>

definition snapshot_groups :: "auth_db \<Rightarrow> account_row \<Rightarrow> group_row list" where
  "snapshot_groups d a = filter (\<lambda>g. gr_id g \<in> set (ac_groups a)) (au_groups d)"

definition account_snapshot :: "auth_db \<Rightarrow> account_row \<Rightarrow> (string \<times> py) list" where
  "account_snapshot d a =
     [(''role_code'', PStr (ac_role_code a)), (''is_active'', PBool (ac_is_active a)),
      (''is_staff'', PBool (ac_is_staff a)), (''is_superuser'', PBool (ac_is_superuser a)),
      (''auth_version'', PInt (ac_auth_version a)),
      (''groups'', PList (map PStr (sort (map gr_name (snapshot_groups d a))))),
      (''permissions'', PList (map PStr (sort (remdups
         (concat (map (\<lambda>g. map pm_codename (gr_permissions g)) (snapshot_groups d a)) @
          map pm_codename (ac_permissions a))))))]"

definition reason_text :: "string \<Rightarrow> auth_error + string" where
  "reason_text v = (if strip v = [] then Inl (Lifecycle_error ''REASON_REQUIRED'') else Inr (strip v))"

definition correlation_of :: "auth_env \<Rightarrow> string \<Rightarrow> auth_error + nat" where
  "correlation_of env v = of_option (Lifecycle_error ''CORRELATION_ID_REQUIRED'') (en_uuid_parse env v)"

definition lock_users :: "nat \<Rightarrow> nat \<Rightarrow> auth_db \<Rightarrow> auth_error + (account_row \<times> account_row)" where
  "lock_users actor target d =
     (if \<not> au_lifecycle_lock d then Inl Missing_row
      else case (account_of d actor, account_of d target) of
        (Some a, Some t) \<Rightarrow> Inr (a, t)
      | _ \<Rightarrow> Inl (Lifecycle_error ''ACCOUNT_NOT_FOUND''))"

definition require_synthetic :: "account_row \<Rightarrow> auth_error + unit" where
  "require_synthetic t = guard_or (ac_is_synthetic t) (Lifecycle_error ''SYNTHETIC_ACCOUNT_REQUIRED'')"

definition active_superuser :: "auth_env \<Rightarrow> account_row \<Rightarrow> bool" where
  "active_superuser env a =
     (ac_is_active a \<and> ac_is_staff a \<and> ac_is_superuser a \<and> usable_password env a)"

definition protect_last_superuser :: "auth_env \<Rightarrow> account_row \<Rightarrow> auth_db \<Rightarrow> auth_error + unit" where
  "protect_last_superuser env t d =
     (if \<not> active_superuser env t then Inr ()
      else guard_or (list_ex (\<lambda>a. ac_is_active a \<and> ac_is_staff a \<and> ac_is_superuser a \<and> ac_id a \<noteq> ac_id t \<and>
             usable_password env a) (au_accounts d)) (Lifecycle_error ''LAST_ADMIN_PROTECTED''))"

definition protect_last_practical_admin :: "auth_env \<Rightarrow> account_row \<Rightarrow> group_row \<Rightarrow> auth_db \<Rightarrow> auth_error + unit" where
  "protect_last_practical_admin env t g d =
     (if \<not> practical_admin env g t then Inr ()
      else guard_or (list_ex (\<lambda>a. ac_is_active a \<and> ac_is_synthetic a \<and> ac_is_staff a \<and>
             ac_role_code a = ''OPERATOR'' \<and> gr_id g \<in> set (ac_groups a) \<and> ac_id a \<noteq> ac_id t \<and>
             usable_password env a) (au_accounts d)) (Lifecycle_error ''LAST_ADMIN_PROTECTED''))"

record lifecycle_request =
  lr_actor :: nat
  lr_target :: nat
  lr_reason :: string
  lr_correlation_id :: string

text \<open>
  What the five operations share: the checks before the operation's own, and the save of the changed
  account with the revocation of its tokens and the audit event.
\<close>

definition authorized ::
  "auth_env \<Rightarrow> lifecycle_request \<Rightarrow> auth_db \<Rightarrow>
     auth_error + (string \<times> nat \<times> account_row \<times> account_row \<times> group_row \<times> auth_db)" where
  "authorized env rq d =
     rbind (reason_text (lr_reason rq)) (\<lambda>reason.
     rbind (correlation_of env (lr_correlation_id rq)) (\<lambda>correlation.
     rbind (lock_users (lr_actor rq) (lr_target rq) d) (\<lambda>(actor, t).
     rbind (ensure_policy_group d) (\<lambda>(g, d1).
     rbind (authorize_actor env actor g) (\<lambda>_.
     rbind (require_synthetic t) (\<lambda>_.
     Inr (reason, correlation, actor, t, g, d1)))))))"

definition changed_account ::
  "account_row \<Rightarrow> account_row \<Rightarrow> account_row \<Rightarrow> string \<Rightarrow> (string \<times> py) list \<Rightarrow> string list \<Rightarrow> string \<Rightarrow> nat \<Rightarrow>
     auth_db \<Rightarrow> auth_error + (account_row \<times> auth_db)" where
  "changed_account actor t t' event credential changed reason correlation d =
     (let d' = revoke_tokens (ac_id t) (save_account t' d) in
      rbind (record_audit \<lparr>ae_target_user = ac_id t, ae_actor = ac_id actor, ae_event_type = event,
          ae_before_values = account_snapshot d t @ map (\<lambda>kv. (fst kv, PBool False)) credential,
          ae_after_values = account_snapshot d' t' @ credential,
          ae_changed_fields = changed, ae_reason = reason, ae_correlation_id = correlation\<rparr> d') (\<lambda>d''.
      Inr (t', d'')))"

section \<open>Operations\<close>

definition deactivate ::
  "auth_env \<Rightarrow> lifecycle_request \<Rightarrow> auth_db \<Rightarrow> (auth_error + account_row) \<times> auth_db" where
  "deactivate env rq d = committed d (
     rbind (authorized env rq d) (\<lambda>(reason, correlation, actor, t, g, d1).
     rbind (guard_or (ac_id actor \<noteq> ac_id t) (Lifecycle_error ''SELF_DEACTIVATION_DENIED'')) (\<lambda>_.
     rbind (guard_or (ac_is_active t) (Lifecycle_error ''ACCOUNT_STATE_CONFLICT'')) (\<lambda>_.
     rbind (protect_last_superuser env t d1) (\<lambda>_.
     rbind (protect_last_practical_admin env t g d1) (\<lambda>_.
     changed_account actor t (t\<lparr>ac_is_active := False, ac_auth_version := ac_auth_version t + 1\<rparr>)
       ''DEACTIVATE'' [] [''is_active'', ''auth_version''] reason correlation d1))))))"

definition reactivate ::
  "auth_env \<Rightarrow> lifecycle_request \<Rightarrow> auth_db \<Rightarrow> (auth_error + account_row) \<times> auth_db" where
  "reactivate env rq d = committed d (
     rbind (authorized env rq d) (\<lambda>(reason, correlation, actor, t, g, d1).
     rbind (guard_or (\<not> ac_is_active t) (Lifecycle_error ''ACCOUNT_STATE_CONFLICT'')) (\<lambda>_.
     changed_account actor t (t\<lparr>ac_is_active := True, ac_auth_version := ac_auth_version t + 1\<rparr>)
       ''REACTIVATE'' [] [''is_active'', ''auth_version''] reason correlation d1)))"

text \<open>\<open>full_clean\<close> of a changed consultant.\<close>

definition account_clean :: "auth_env \<Rightarrow> account_row \<Rightarrow> auth_db \<Rightarrow> bool" where
  "account_clean env a d =
     (ac_username a \<noteq> [] \<and> length (ac_username a) \<le> 150 \<and> ac_full_name a \<noteq> [] \<and> 1 \<le> ac_auth_version a \<and>
      list_all (\<lambda>b. ac_id b \<noteq> ac_id a \<longrightarrow> \<not> iexact env (ac_username b) (ac_username a)) (au_accounts d))"

definition consultant_username :: "auth_env \<Rightarrow> string option \<Rightarrow> string option \<Rightarrow> account_row \<Rightarrow> auth_error + string" where
  "consultant_username env username new_password t =
     rbind (case username of
         Some u \<Rightarrow> of_option (Lifecycle_error ''CONSULTANT_CREDENTIAL_INVALID'') (normalize_synthetic_username env u)
       | None \<Rightarrow> Inr (ac_username t)) (\<lambda>name.
     rbind (case new_password of
         Some p \<Rightarrow> guard_or (p = [] \<or> consultant_password_ok p) (Lifecycle_error ''CONSULTANT_CREDENTIAL_INVALID'')
       | None \<Rightarrow> Inr ()) (\<lambda>_. Inr name))"

definition with_credentials :: "auth_env \<Rightarrow> string \<Rightarrow> string \<Rightarrow> string option \<Rightarrow> account_row \<Rightarrow> account_row" where
  "with_credentials env salt name new_password t =
     t\<lparr>ac_username := en_nfkc env name,
       ac_password := (case new_password of
           Some p \<Rightarrow> if p = [] then ac_password t else en_make_password env salt p
         | None \<Rightarrow> ac_password t),
       ac_auth_version := ac_auth_version t + 1\<rparr>"

definition update_consultant_credentials ::
  "auth_env \<Rightarrow> string \<Rightarrow> string option \<Rightarrow> string option \<Rightarrow> lifecycle_request \<Rightarrow> auth_db \<Rightarrow>
     (auth_error + account_row) \<times> auth_db" where
  "update_consultant_credentials env salt username new_password rq d = committed d (
     rbind (authorized env rq d) (\<lambda>(reason, correlation, actor, t, g, d1).
     rbind (guard_or (ac_role_code t = ''CONSULTANT'') (Lifecycle_error ''CONSULTANT_ACCOUNT_REQUIRED'')) (\<lambda>_.
     rbind (consultant_username env username new_password t) (\<lambda>name.
     rbind (guard_or (\<not> list_ex (\<lambda>b. ac_id b \<noteq> ac_id t \<and> iexact env (ac_username b) name) (au_accounts d1))
       (Lifecycle_error ''CONSULTANT_USERNAME_CONFLICT'')) (\<lambda>_.
     rbind (guard_or (name \<noteq> ac_username t \<or> (new_password \<noteq> None \<and> new_password \<noteq> Some []))
       (Lifecycle_error ''ACCOUNT_STATE_CONFLICT'')) (\<lambda>_.
     let t' = with_credentials env salt name new_password t in
     rbind (guard_or (account_clean env t' d1) (Lifecycle_error ''CONSULTANT_CREDENTIAL_INVALID'')) (\<lambda>_.
     changed_account actor t t' ''CREDENTIAL_RECOVERY'' [(''credential_changed'', PBool True)]
       [''auth_version'', ''credential_changed''] reason correlation d1)))))))"

definition admin_fields :: "string list" where
  "admin_fields = [''is_staff'', ''auth_version'', ''groups'', ''permissions'']"

definition grant_account_admin ::
  "auth_env \<Rightarrow> lifecycle_request \<Rightarrow> auth_db \<Rightarrow> (auth_error + account_row) \<times> auth_db" where
  "grant_account_admin env rq d = committed d (
     rbind (authorized env rq d) (\<lambda>(reason, correlation, actor, t, g, d1).
     rbind (guard_or (\<not> ac_is_superuser t \<and> ac_role_code t = ''OPERATOR'')
       (Lifecycle_error ''PRIVILEGE_ESCALATION_DENIED'')) (\<lambda>_.
     rbind (guard_or (ac_is_active t) (Lifecycle_error ''ACCOUNT_STATE_CONFLICT'')) (\<lambda>_.
     rbind (guard_or (usable_password env t) (Lifecycle_error ''PRIVILEGE_ESCALATION_DENIED'')) (\<lambda>_.
     rbind (guard_or (\<not> practical_admin env g t) (Lifecycle_error ''ACCOUNT_STATE_CONFLICT'')) (\<lambda>_.
     changed_account actor t (t\<lparr>ac_groups := remdups (ac_groups t @ [gr_id g]), ac_is_staff := True,
         ac_auth_version := ac_auth_version t + 1\<rparr>)
       ''ADMIN_PERMISSION_CHANGE'' [] admin_fields reason correlation d1))))))"

definition revoke_account_admin ::
  "auth_env \<Rightarrow> lifecycle_request \<Rightarrow> auth_db \<Rightarrow> (auth_error + account_row) \<times> auth_db" where
  "revoke_account_admin env rq d = committed d (
     rbind (authorized env rq d) (\<lambda>(reason, correlation, actor, t, g, d1).
     rbind (guard_or (ac_id actor \<noteq> ac_id t) (Lifecycle_error ''SELF_ADMIN_CHANGE_DENIED'')) (\<lambda>_.
     rbind (guard_or (\<not> ac_is_superuser t) (Lifecycle_error ''PRIVILEGE_ESCALATION_DENIED'')) (\<lambda>_.
     rbind (guard_or (practical_admin env g t) (Lifecycle_error ''ACCOUNT_STATE_CONFLICT'')) (\<lambda>_.
     rbind (protect_last_practical_admin env t g d1) (\<lambda>_.
     changed_account actor t (t\<lparr>ac_groups := filter (\<lambda>k. k \<noteq> gr_id g) (ac_groups t), ac_is_staff := False,
         ac_auth_version := ac_auth_version t + 1\<rparr>)
       ''ADMIN_PERMISSION_CHANGE'' [] admin_fields reason correlation d1))))))"

end
