(* ===== verification/AuthEvolution.thy ===== *)
theory AuthEvolution
  imports AccountLifecycle
begin

text \<open>
  How the tables of authentication may change: rows are appended, and the rows there evolve without
  going back (a count of failed guesses or an authentication version only grows, a consumed challenge
  or ticket stays consumed, a revoked token stays revoked). Every operation is built from writes that
  have this property, which is a reflexive and transitive relation on databases.
\<close>

section \<open>Rows by key\<close>

lemma the_row_Some: "the_row P xs = Some x \<Longrightarrow> x \<in> set xs \<and> P x"
  by (auto simp: the_row_def find_Some_iff)

lemma the_row_None: "the_row P xs = None \<longleftrightarrow> (\<forall>x \<in> set xs. \<not> P x)"
  by (auto simp: the_row_def find_None_iff)

lemma key_unique: "\<lbrakk> distinct (map key xs); x \<in> set xs; y \<in> set xs; key x = key y \<rbrakk> \<Longrightarrow> x = y"
  by (auto simp: distinct_map inj_on_def)

lemma the_row_key:
  assumes "distinct (map key xs)" and "x \<in> set xs" and "key x = k" and "\<And>y. P y \<Longrightarrow> key y = k"
  shows "the_row P xs = (if P x then Some x else None)"
proof (cases "the_row P xs")
  case None
  then have "\<not> P x" using assms(2) the_row_None by metis
  then show ?thesis using None by simp
next
  case (Some y)
  then have "y \<in> set xs" "P y" using the_row_Some [of P xs y] by simp_all
  moreover have "key y = key x" using assms(3) assms(4) [OF \<open>P y\<close>] by simp
  ultimately have "y = x" using key_unique [OF assms(1)] assms(2) by blast
  then show ?thesis using Some \<open>P y\<close> by simp
qed

lemma set_put_row: "set (put_row key r xs) \<subseteq> insert r (set xs)"
  by (auto simp: put_row_def)

lemma in_put_row: "x \<in> set xs \<Longrightarrow> key x = key r \<Longrightarrow> r \<in> set (put_row key r xs)"
  by (force simp: put_row_def)

lemma in_put_row_other: "x \<in> set xs \<Longrightarrow> key x \<noteq> key r \<Longrightarrow> x \<in> set (put_row key r xs)"
  by (force simp: put_row_def)

lemma map_put_row:
  assumes "distinct (map key xs)" and "x \<in> set xs" and "key x = key r" and "f x = f r"
  shows "map f (put_row key r xs) = map f xs"
proof -
  have "f (if key y = key r then r else y) = f y" if "y \<in> set xs" for y
    using key_unique [OF assms(1) that assms(2)] assms(3,4) by auto
  then show ?thesis by (simp add: put_row_def)
qed

section \<open>Growth of a table\<close>

definition grown :: "('r \<Rightarrow> 'r \<Rightarrow> bool) \<Rightarrow> 'r list \<Rightarrow> 'r list \<Rightarrow> bool" where
  "grown R xs ys = list_all2 R xs (take (length xs) ys)"

lemma grown_in: "grown R xs ys \<Longrightarrow> x \<in> set xs \<Longrightarrow> \<exists>y \<in> set ys. R x y"
  unfolding grown_def by (meson in_set_takeD list_all2_in_left)

locale evolution =
  fixes R :: "'r \<Rightarrow> 'r \<Rightarrow> bool"
  assumes R_refl: "R x x"
    and R_trans: "\<lbrakk> R x y; R y z \<rbrakk> \<Longrightarrow> R x z"
begin

lemma grown_append: "grown R xs (xs @ ys)"
  by (simp add: grown_def list_all2_refl R_refl)

lemma grown_refl: "grown R xs xs"
  using grown_append [of xs "[]"] by simp

lemma grown_trans:
  assumes "grown R xs ys" and "grown R ys zs"
  shows "grown R xs zs"
proof -
  have le: "length xs \<le> length ys"
    using assms(1) by (auto simp: grown_def dest: list_all2_lengthD)
  have "list_all2 R (take (length xs) ys) (take (length xs) (take (length ys) zs))"
    using assms(2) unfolding grown_def by (rule list_all2_takeI)
  then have "list_all2 R (take (length xs) ys) (take (length xs) zs)"
    using le by (simp add: min_def)
  with assms(1) show ?thesis
    unfolding grown_def by (blast intro: list_all2_trans [where ?P1.0 = R and ?P2.0 = R] R_trans)
qed

lemma grown_map: "(\<And>x. x \<in> set xs \<Longrightarrow> R x (f x)) \<Longrightarrow> grown R xs (map f xs)"
  by (simp add: grown_def list_all2_conv_all_nth)

lemma grown_put:
  assumes "distinct (map key xs)" and "x \<in> set xs" and "key x = key r" and "R x r"
  shows "grown R xs (put_row key r xs)"
  unfolding put_row_def
proof (rule grown_map)
  fix y assume "y \<in> set xs"
  then show "R y (if key y = key r then r else y)"
    using key_unique [OF assms(1) \<open>y \<in> set xs\<close> assms(2)] assms(3,4) R_refl by auto
qed

lemma grown_map_append: "(\<And>x. x \<in> set xs \<Longrightarrow> R x (f x)) \<Longrightarrow> grown R xs (map f xs @ ys)"
  using grown_map grown_append grown_trans by metis

end

section \<open>Evolution of rows\<close>

definition account_evolves :: "account_row \<Rightarrow> account_row \<Rightarrow> bool" where
  "account_evolves a b =
     (ac_id b = ac_id a \<and> ac_public_id b = ac_public_id a \<and> ac_auth_version a \<le> ac_auth_version b)"

definition challenge_evolves :: "challenge_row \<Rightarrow> challenge_row \<Rightarrow> bool" where
  "challenge_evolves c e =
     (ch_id e = ch_id c \<and> ch_public_id e = ch_public_id c \<and> ch_purpose e = ch_purpose c \<and>
      ch_customer e = ch_customer c \<and> ch_target_resolved e = ch_target_resolved c \<and>
      ch_otp_digest e = ch_otp_digest c \<and> ch_max_failures e = ch_max_failures c \<and>
      ch_failure_count c \<le> ch_failure_count e \<and>
      (ch_consumed_at c \<noteq> None \<longrightarrow> ch_consumed_at e \<noteq> None))"

definition ticket_evolves :: "ticket_row \<Rightarrow> ticket_row \<Rightarrow> bool" where
  "ticket_evolves t u =
     (tk_id u = tk_id t \<and> tk_digest u = tk_digest t \<and> tk_purpose u = tk_purpose t \<and>
      tk_challenge u = tk_challenge t \<and> tk_customer u = tk_customer t \<and>
      (tk_consumed_at t \<noteq> None \<longrightarrow> tk_consumed_at u \<noteq> None))"

interpretation accounts: evolution account_evolves
  by unfold_locales (auto simp: account_evolves_def)

interpretation challenges: evolution challenge_evolves
  by unfold_locales (auto simp: challenge_evolves_def)

interpretation tickets: evolution ticket_evolves
  by unfold_locales (auto simp: ticket_evolves_def)

section \<open>Evolution of the database\<close>

text \<open>Keys are distinct and below the counter.\<close>

definition keys_ok :: "auth_db \<Rightarrow> bool" where
  "keys_ok d =
     (distinct (map ac_id (au_accounts d)) \<and> distinct (map ac_public_id (au_accounts d)) \<and>
      distinct (map ch_id (au_challenges d)) \<and> distinct (map ch_public_id (au_challenges d)) \<and>
      distinct (map tk_id (au_tickets d)) \<and> distinct (map ob_id (au_outbox d)) \<and>
      (\<forall>a \<in> set (au_accounts d). ac_id a < au_next d \<and> ac_public_id a < au_next d) \<and>
      (\<forall>c \<in> set (au_challenges d). ch_id c < au_next d \<and> ch_public_id c < au_next d) \<and>
      (\<forall>t \<in> set (au_tickets d). tk_id t < au_next d) \<and> (\<forall>r \<in> set (au_outbox d). ob_id r < au_next d))"

definition auth_later :: "auth_db \<Rightarrow> auth_db \<Rightarrow> bool" where
  "auth_later d d' =
     (grown account_evolves (au_accounts d) (au_accounts d') \<and>
      grown challenge_evolves (au_challenges d) (au_challenges d') \<and>
      grown ticket_evolves (au_tickets d) (au_tickets d') \<and>
      set (au_blacklist d) \<subseteq> set (au_blacklist d') \<and> au_next d \<le> au_next d')"

definition evolves :: "auth_db \<Rightarrow> auth_db \<Rightarrow> bool" where
  "evolves d d' = (keys_ok d \<longrightarrow> keys_ok d' \<and> auth_later d d')"

lemma auth_later_refl: "auth_later d d"
  by (simp add: auth_later_def accounts.grown_refl challenges.grown_refl tickets.grown_refl)

lemma auth_later_trans: "auth_later d e \<Longrightarrow> auth_later e f \<Longrightarrow> auth_later d f"
  unfolding auth_later_def
  using accounts.grown_trans challenges.grown_trans tickets.grown_trans by (meson order_trans)

interpretation databases: evolution evolves
  by unfold_locales (auto simp: evolves_def intro: auth_later_refl auth_later_trans)

lemmas evolves_refl = databases.R_refl
lemmas evolves_trans = databases.R_trans

text \<open>A write that leaves the keyed tables alone, or only appends to the others.\<close>

lemma evolves_same:
  "\<lbrakk> au_accounts d' = au_accounts d; au_challenges d' = au_challenges d; au_tickets d' = au_tickets d;
     au_outbox d' = au_outbox d; set (au_blacklist d) \<subseteq> set (au_blacklist d'); au_next d \<le> au_next d' \<rbrakk>
   \<Longrightarrow> evolves d d'"
  unfolding evolves_def keys_ok_def auth_later_def
  by (auto simp: accounts.grown_refl challenges.grown_refl tickets.grown_refl intro: less_le_trans)

lemma evolves_save_account:
  assumes "a \<in> set (au_accounts d)" and "account_evolves a b"
  shows "evolves d (save_account b d)"
  unfolding evolves_def
proof (intro impI conjI)
  assume k: "keys_ok d"
  have kb: "ac_id a = ac_id b" "ac_public_id a = ac_public_id b"
    using assms(2) by (simp_all add: account_evolves_def)
  have d1: "distinct (map ac_id (au_accounts d))" using k by (simp add: keys_ok_def)
  have "map ac_id (put_row ac_id b (au_accounts d)) = map ac_id (au_accounts d)"
    "map ac_public_id (put_row ac_id b (au_accounts d)) = map ac_public_id (au_accounts d)"
    using map_put_row [OF d1 assms(1) kb(1)] kb by metis+
  moreover have "\<forall>x \<in> set (put_row ac_id b (au_accounts d)). ac_id x < au_next d \<and> ac_public_id x < au_next d"
    using set_put_row [of ac_id b "au_accounts d"] k kb assms(1) unfolding keys_ok_def by (metis insert_iff subset_iff)
  ultimately show "keys_ok (save_account b d)" using k by (simp add: keys_ok_def save_account_def)
  show "auth_later d (save_account b d)"
    using accounts.grown_put [OF d1 assms(1) kb(1) assms(2)]
    by (simp add: auth_later_def save_account_def challenges.grown_refl tickets.grown_refl)
qed

lemma evolves_save_challenge:
  assumes "c \<in> set (au_challenges d)" and "challenge_evolves c e"
  shows "evolves d (save_challenge e d)"
  unfolding evolves_def
proof (intro impI conjI)
  assume k: "keys_ok d"
  have kb: "ch_id c = ch_id e" "ch_public_id c = ch_public_id e"
    using assms(2) by (simp_all add: challenge_evolves_def)
  have d1: "distinct (map ch_id (au_challenges d))" using k by (simp add: keys_ok_def)
  have "map ch_id (put_row ch_id e (au_challenges d)) = map ch_id (au_challenges d)"
    "map ch_public_id (put_row ch_id e (au_challenges d)) = map ch_public_id (au_challenges d)"
    using map_put_row [OF d1 assms(1) kb(1)] kb by metis+
  moreover have "\<forall>x \<in> set (put_row ch_id e (au_challenges d)). ch_id x < au_next d \<and> ch_public_id x < au_next d"
    using set_put_row [of ch_id e "au_challenges d"] k kb assms(1) unfolding keys_ok_def by (metis insert_iff subset_iff)
  ultimately show "keys_ok (save_challenge e d)" using k by (simp add: keys_ok_def save_challenge_def)
  show "auth_later d (save_challenge e d)"
    using challenges.grown_put [OF d1 assms(1) kb(1) assms(2)]
    by (simp add: auth_later_def save_challenge_def accounts.grown_refl tickets.grown_refl)
qed

lemma evolves_save_ticket:
  assumes "t \<in> set (au_tickets d)" and "ticket_evolves t u"
  shows "evolves d (save_ticket u d)"
  unfolding evolves_def
proof (intro impI conjI)
  assume k: "keys_ok d"
  have kb: "tk_id t = tk_id u" using assms(2) by (simp add: ticket_evolves_def)
  have d1: "distinct (map tk_id (au_tickets d))" using k by (simp add: keys_ok_def)
  have "map tk_id (put_row tk_id u (au_tickets d)) = map tk_id (au_tickets d)"
    using map_put_row [OF d1 assms(1) kb] kb by metis
  moreover have "\<forall>x \<in> set (put_row tk_id u (au_tickets d)). tk_id x < au_next d"
    using set_put_row [of tk_id u "au_tickets d"] k kb assms(1) unfolding keys_ok_def by (metis insert_iff subset_iff)
  ultimately show "keys_ok (save_ticket u d)" using k by (simp add: keys_ok_def save_ticket_def)
  show "auth_later d (save_ticket u d)"
    using tickets.grown_put [OF d1 assms(1) kb assms(2)]
    by (simp add: auth_later_def save_ticket_def accounts.grown_refl challenges.grown_refl)
qed

lemma evolves_put_outbox:
  assumes "r \<in> set (au_outbox d)" and "ob_id s = ob_id r"
  shows "evolves d (d\<lparr>au_outbox := put_row ob_id s (au_outbox d)\<rparr>)"
  unfolding evolves_def
proof (intro impI conjI)
  assume k: "keys_ok d"
  have d1: "distinct (map ob_id (au_outbox d))" using k by (simp add: keys_ok_def)
  have "map ob_id (put_row ob_id s (au_outbox d)) = map ob_id (au_outbox d)"
    using map_put_row [OF d1 assms(1)] assms(2) by metis
  moreover have "\<forall>x \<in> set (put_row ob_id s (au_outbox d)). ob_id x < au_next d"
    using set_put_row [of ob_id s "au_outbox d"] k assms unfolding keys_ok_def by (metis insert_iff subset_iff)
  ultimately show "keys_ok (d\<lparr>au_outbox := put_row ob_id s (au_outbox d)\<rparr>)" using k by (simp add: keys_ok_def)
qed (simp add: auth_later_def accounts.grown_refl challenges.grown_refl tickets.grown_refl)

end
