(* ===== verification/AuthSystem.thy ===== *)
theory AuthSystem
  imports AuthEvolution
begin

text \<open>
  The operations of authentication and account administration as one system: sequences of calls, each
  with the clock reading of its request, between steps of the parts that are not modelled, which change
  contract customers, contacts, contracts and account links in any way.
\<close>

section \<open>Writes evolve\<close>

named_theorems auth_evolves \<open>writes that evolve the tables\<close>

lemma blacklist_jti_frame [simp]:
  "au_accounts (blacklist_jti j d) = au_accounts d" "au_challenges (blacklist_jti j d) = au_challenges d"
  "au_tickets (blacklist_jti j d) = au_tickets d" "au_outbox (blacklist_jti j d) = au_outbox d"
  "au_next (blacklist_jti j d) = au_next d" "au_groups (blacklist_jti j d) = au_groups d"
  "au_outstanding (blacklist_jti j d) = au_outstanding d"
  "set (au_blacklist (blacklist_jti j d)) = insert j (set (au_blacklist d))"
  by (auto simp: blacklist_jti_def)

lemma fold_blacklist_frame [simp]:
  "au_accounts (fold blacklist_jti js d) = au_accounts d"
  "au_challenges (fold blacklist_jti js d) = au_challenges d"
  "au_tickets (fold blacklist_jti js d) = au_tickets d" "au_outbox (fold blacklist_jti js d) = au_outbox d"
  "au_next (fold blacklist_jti js d) = au_next d" "au_groups (fold blacklist_jti js d) = au_groups d"
  "set (au_blacklist (fold blacklist_jti js d)) = set js \<union> set (au_blacklist d)"
  by (induction js arbitrary: d) simp_all

lemma revoke_tokens_frame [simp]:
  "au_accounts (revoke_tokens u d) = au_accounts d" "au_challenges (revoke_tokens u d) = au_challenges d"
  "au_tickets (revoke_tokens u d) = au_tickets d" "au_groups (revoke_tokens u d) = au_groups d"
  "set (au_blacklist (revoke_tokens u d)) =
     {ot_jti t | t. t \<in> set (au_outstanding d) \<and> ot_user t = Some u} \<union> set (au_blacklist d)"
  by (auto simp: revoke_tokens_def)

lemma evolves_revoke [auth_evolves]: "evolves d (revoke_tokens u d)"
  by (rule evolves_same) (simp_all add: revoke_tokens_def)

lemma evolves_blacklist_refresh [auth_evolves]: "evolves d (blacklist_refresh c a d)"
  by (rule evolves_same) (auto simp: blacklist_refresh_def add_outstanding_def)

lemma evolves_issue_pair [auth_evolves]:
  assumes "issue_pair env now pk e d = Inr (pair, d')"
  shows "evolves d d'"
  using assms by (elim issue_pair_Inr) (rule evolves_same, simp_all add: add_outstanding_def)

lemma evolves_consume_ticket:
  "t \<in> set (au_tickets d) \<Longrightarrow> evolves d (consume_ticket now t d)"
  unfolding consume_ticket_def by (rule evolves_save_ticket [of t]) (simp_all add: ticket_evolves_def)

lemma evolves_append_account:
  assumes "ac_id a = au_next d" and "ac_public_id a = au_next d"
  shows "evolves d (d\<lparr>au_accounts := au_accounts d @ [a], au_next := Suc (au_next d)\<rparr>)"
  using assms unfolding evolves_def keys_ok_def auth_later_def
  by (auto simp: accounts.grown_append challenges.grown_refl tickets.grown_refl less_Suc_eq)

lemma evolves_append_ticket:
  assumes "tk_id t = au_next d"
  shows "evolves d (d\<lparr>au_tickets := au_tickets d @ [t], au_next := Suc (au_next d)\<rparr>)"
  using assms unfolding evolves_def keys_ok_def auth_later_def
  by (auto simp: tickets.grown_append challenges.grown_refl accounts.grown_refl less_Suc_eq)

lemma evolves_append_outbox:
  assumes "ob_id r = au_next d"
  shows "evolves d (d\<lparr>au_outbox := au_outbox d @ [r], au_next := Suc (au_next d)\<rparr>)"
  using assms unfolding evolves_def keys_ok_def auth_later_def
  by (auto simp: tickets.grown_refl challenges.grown_refl accounts.grown_refl less_Suc_eq)

lemma supersede_keys [simp]:
  "ch_id (supersede now c x) = ch_id x" "ch_public_id (supersede now c x) = ch_public_id x"
  by (simp_all add: supersede_def)

lemma evolves_add_challenge:
  assumes "ch_id c = au_next d" and "ch_public_id c = au_next d"
  shows "evolves d (add_challenge now c d)"
proof -
  have "grown challenge_evolves (au_challenges d) (map (supersede now c) (au_challenges d) @ [c])"
    by (rule challenges.grown_map_append) (simp add: supersede_def challenge_evolves_def)
  moreover have "map ch_id (map (supersede now c) xs) = map ch_id xs"
    "map ch_public_id (map (supersede now c) xs) = map ch_public_id xs" for xs
    by simp_all
  ultimately show ?thesis
    using assms unfolding evolves_def keys_ok_def auth_later_def add_challenge_def
    by (auto simp: tickets.grown_refl accounts.grown_refl less_Suc_eq simp del: map_map)
qed

section \<open>Operations evolve\<close>

lemma committed_evolves:
  assumes "\<And>a d'. m = Inr (a, d') \<Longrightarrow> evolves d d'"
  shows "evolves d (snd (committed d m))"
  using assms by (cases m) (auto simp: evolves_refl)

lemma enqueue_evolves: "enqueue env now c contact otp d = Inr d' \<Longrightarrow> evolves d d'"
  unfolding enqueue_def rbind_Inr_iff
  by (auto simp: outbox_entry_def intro!: evolves_append_outbox split: option.splits if_splits)
    (auto simp: rbind_Inr_iff)

lemma create_body_evolves:
  assumes "create_body env now draw p ident idem d = Inr (r, d')"
  shows "evolves d d'"
proof (cases "challenge_for d p idem")
  case (Some c)
  then show ?thesis using assms by (auto simp: create_body_def rbind_Inr_iff intro: evolves_refl)
next
  case None
  let ?fp = "identity_fingerprint env ident"
  obtain target d1 b where
    e: "enqueue env now (new_challenge env now p target idem ?fp (generate_otp draw) (au_next d))
      (map_option tg_contact target) (generate_otp draw)
      (add_challenge now (new_challenge env now p target idem ?fp (generate_otp draw) (au_next d)) d) = Inr d1"
    and d': "d' = put_bucket b d1"
    using assms by (auto simp: create_body_def None Let_def rbind_Inr_iff)
  have "evolves d (add_challenge now (new_challenge env now p target idem ?fp (generate_otp draw) (au_next d)) d)"
    by (rule evolves_add_challenge) (simp_all add: new_challenge_def)
  moreover have "evolves d1 d'" by (rule evolves_same) (simp_all add: d' put_bucket_def)
  ultimately show ?thesis using enqueue_evolves [OF e] evolves_trans by metis
qed

lemma create_challenge_evolves: "evolves d (snd (create_challenge env now draw p ident key d))"
proof (cases "idempotency_hmac env key")
  case (Inr idem)
  let ?r = "create_body env now draw p ident idem d"
  have "evolves d (snd (committed d ?r))"
    by (rule committed_evolves) (rule create_body_evolves)
  then show ?thesis
    by (auto simp: create_challenge_def Inr evolves_refl split: sum.splits auth_error.splits option.splits)
qed (simp add: create_challenge_def evolves_refl)

lemma the_challenge_in:
  "the_row P (au_challenges d) = Some c \<Longrightarrow> c \<in> set (au_challenges d)"
  by (drule the_row_Some) simp

lemma lock_and_verify_evolves: "evolves d (snd (lock_and_verify env now pid p otp d))"
proof (cases "the_row (\<lambda>c. ch_public_id c = pid \<and> ch_purpose c = p) (au_challenges d)")
  case (Some c)
  then have c: "c \<in> set (au_challenges d)" by (rule the_challenge_in)
  show ?thesis
    by (auto simp: lock_and_verify_def Some attempt_counted_def challenge_evolves_def evolves_refl
        intro!: evolves_save_challenge [OF c] split: option.split)
qed (simp add: lock_and_verify_def evolves_refl)

lemma create_ticket_evolves:
  "create_ticket t d = Inr d' \<Longrightarrow> tk_id t = au_next d \<Longrightarrow> evolves d d'"
  by (auto simp: create_ticket_def evolves_append_ticket split: if_splits)

lemma verified_ticket_evolves:
  assumes "evolves d d1" and "tk_id t = au_next d1"
  shows "evolves d (snd (committed d (rbind (create_ticket t d1) (\<lambda>d2. Inr (raw, d2)))))"
  using assms by (intro committed_evolves)
    (auto simp: rbind_Inr_iff dest: create_ticket_evolves intro: evolves_trans)

lemma verify_evolves:
  "evolves d (snd (verify_signup_challenge env now raw pid otp d))"
  "evolves d (snd (verify_username_challenge env now pid otp d))"
  "evolves d (snd (verify_password_reset_challenge env now raw pid otp d))"
proof -
  have v: "evolves d d1" if "lock_and_verify env now pid p otp d = (r, d1)" for p r d1
    using lock_and_verify_evolves [of d env now pid p otp] that by simp
  show "evolves d (snd (verify_signup_challenge env now raw pid otp d))"
    by (auto simp: verify_signup_challenge_def issued_ticket_def v intro!: verified_ticket_evolves
        split: prod.split sum.split)
  show "evolves d (snd (verify_username_challenge env now pid otp d))"
    by (auto simp: verify_username_challenge_def v split: prod.split sum.split option.split)
  show "evolves d (snd (verify_password_reset_challenge env now raw pid otp d))"
    by (auto simp: verify_password_reset_challenge_def issued_ticket_def v intro!: verified_ticket_evolves
        split: prod.split sum.split option.split)
qed

lemma save_outbox_evolves:
  "save_outbox s d = Inr d' \<Longrightarrow> r \<in> set (au_outbox d) \<Longrightarrow> ob_id s = ob_id r \<Longrightarrow> evolves d d'"
  by (auto simp: save_outbox_def evolves_put_outbox split: if_splits)

lemma next_due_in: "next_due now d = Some r \<Longrightarrow> r \<in> set (au_outbox d) \<and> due now r"
  unfolding next_due_def by (drule first_by_in) simp

lemma attempted_row_id [simp]: "ob_id (fst (attempted_row now r x)) = ob_id r"
  by (simp add: attempted_row_def Let_def)

lemma processed_row_cases:
  "fst (processed_row env now send r c d) = suppressed_row r \<or>
   (\<exists>x. fst (processed_row env now send r c d) = fst (attempted_row now r x))"
  by (auto simp: processed_row_def split: option.split)

lemma processed_row_id [simp]: "ob_id (fst (processed_row env now send r c d)) = ob_id r"
  using processed_row_cases [of env now send r c d] by (auto simp: suppressed_row_def)

lemma process_one_Some:
  assumes "process_one env now send d = Inr (Some w, d')"
  obtains r c where "next_due now d = Some r" and "challenge_of d (ob_challenge r) = Some c"
    and "save_outbox (fst (processed_row env now send r (c\<lparr>ch_delivery_attempted := True\<rparr>)
      (save_challenge (c\<lparr>ch_delivery_attempted := True\<rparr>) d)))
      (save_challenge (c\<lparr>ch_delivery_attempted := True\<rparr>) d) = Inr d'"
  using assms by (auto simp: process_one_def Let_def rbind_Inr_iff split: option.splits)

lemma process_one_None: "process_one env now send d = Inr (None, d') \<Longrightarrow> next_due now d = None \<and> d' = d"
  by (auto simp: process_one_def Let_def rbind_Inr_iff split: option.splits)

lemma process_one_evolves: "process_one env now send d = Inr (w, d') \<Longrightarrow> evolves d d'"
proof (cases w)
  case None
  then show "process_one env now send d = Inr (w, d') \<Longrightarrow> evolves d d'"
    using process_one_None evolves_refl by blast
next
  case (Some x)
  assume "process_one env now send d = Inr (w, d')"
  then obtain r c where r: "next_due now d = Some r" "challenge_of d (ob_challenge r) = Some c"
    "save_outbox (fst (processed_row env now send r (c\<lparr>ch_delivery_attempted := True\<rparr>)
      (save_challenge (c\<lparr>ch_delivery_attempted := True\<rparr>) d)))
      (save_challenge (c\<lparr>ch_delivery_attempted := True\<rparr>) d) = Inr d'"
    using process_one_Some Some by blast
  have c: "c \<in> set (au_challenges d)" using r(2) by (auto simp: challenge_of_def dest: the_row_Some)
  have "evolves d (save_challenge (c\<lparr>ch_delivery_attempted := True\<rparr>) d)"
    by (rule evolves_save_challenge [OF c]) (simp add: challenge_evolves_def)
  moreover have "evolves (save_challenge (c\<lparr>ch_delivery_attempted := True\<rparr>) d) d'"
    using save_outbox_evolves [OF r(3), of r] next_due_in [OF r(1)] by (simp add: save_challenge_def)
  ultimately show "evolves d d'" by (rule evolves_trans)
qed

lemma process_loop_evolves: "evolves d (snd (process_loop env clock send n counts d))"
proof (induction n arbitrary: counts d)
  case (Suc n)
  then show ?case
    by (auto simp: evolves_refl split: sum.split option.split prod.split dest!: process_one_evolves
        intro: evolves_trans)
qed (simp add: evolves_refl)

lemma lock_idempotency_frame [simp]:
  "au_accounts (lock_operation_idempotency op idem d) = au_accounts d"
  "au_tickets (lock_operation_idempotency op idem d) = au_tickets d"
  "au_challenges (lock_operation_idempotency op idem d) = au_challenges d"
  by (simp_all add: lock_operation_idempotency_def)

lemma evolves_lock_idempotency: "evolves d (lock_operation_idempotency op idem d)"
  by (rule evolves_same) (auto simp: lock_operation_idempotency_def)

lemma create_user_evolves: "create_user env salt name pw full d = Inr (a, d') \<Longrightarrow> evolves d d'"
  by (auto simp: create_user_def Let_def split: if_splits intro!: evolves_append_account)

lemma create_user_frame:
  "create_user env salt name pw full d = Inr (a, d') \<Longrightarrow>
     au_tickets d' = au_tickets d \<and> au_challenges d' = au_challenges d"
  by (auto simp: create_user_def Let_def split: if_splits)

lemma link_customer_evolves: "link_customer now a c cs d = Inr d' \<Longrightarrow> evolves d d'"
  by (auto simp: link_customer_def Let_def split: if_splits intro!: evolves_same)

lemma link_customer_frame:
  "link_customer now a c cs d = Inr d' \<Longrightarrow> au_tickets d' = au_tickets d \<and> au_challenges d' = au_challenges d"
  by (auto simp: link_customer_def Let_def split: if_splits)

lemma create_receipt_evolves: "create_receipt r d = Inr d' \<Longrightarrow> evolves d d'"
  by (auto simp: create_receipt_def split: if_splits intro!: evolves_same)

lemma record_audit_evolves: "record_audit e d = Inr d' \<Longrightarrow> evolves d d'"
  by (auto simp: record_audit_def split: if_splits intro!: evolves_same)

lemma replay_signup_evolves: "replay_signup_receipt env now r fp pw d = Inr (x, d') \<Longrightarrow> evolves d d'"
  by (auto simp: replay_signup_receipt_def rbind_Inr_iff intro: evolves_issue_pair)

lemma signup_target_ticket:
  "signup_target env now rq d = Inr (t, tg) \<Longrightarrow>
     t \<in> set (au_tickets d) \<and> tk_purpose t = CLAIM \<and> tk_digest t = ticket_digest env (sr_claim_ticket rq) \<and>
     ticket_open now t"
  unfolding signup_target_def rbind_Inr_iff of_option_iff guard_or_iff ticket_for_def
  by (auto simp: rbind_Inr_iff guard_or_iff split: if_splits dest: the_row_Some)

text \<open>The writes of a sign-up that creates an account.\<close>

lemma signup_fresh:
  assumes "signup_body env now salt rq idem d0 = Inr (res, d')"
    and "receipt_for (lock_operation_idempotency Signup_receipt idem d0) Signup_receipt idem = None"
  obtains t tg a d1 d2 d3 where
    "signup_target env now rq (lock_operation_idempotency Signup_receipt idem d0) = Inr (t, tg)"
    and "create_user env salt (sr_username rq) (sr_password rq) (cp_customer_name (tg_customer tg))
      (lock_operation_idempotency Signup_receipt idem d0) = Inr (a, d1)"
    and "link_customer now a (tg_customer tg) (sr_consents rq) d1 = Inr d2"
    and "evolves (consume_ticket now t d2) d'" and "evolves (consume_ticket now t d2) d3"
    and "sg_replay res = False" and "au_tickets d' = au_tickets (consume_ticket now t d2)"
proof -
  let ?d = "lock_operation_idempotency Signup_receipt idem d0"
  obtain t tg a d1 d2 d3 correlation d4 pair where st: "signup_target env now rq ?d = Inr (t, tg)"
    "create_user env salt (sr_username rq) (sr_password rq) (cp_customer_name (tg_customer tg)) ?d = Inr (a, d1)"
    "link_customer now a (tg_customer tg) (sr_consents rq) d1 = Inr d2"
    and r: "create_receipt \<lparr>rc_operation = Signup_receipt, rc_idempotency_key_hmac = idem,
                   rc_request_fingerprint_hmac = signup_fingerprint env rq, rc_user = ac_id a,
                   rc_auth_version_at_completion = ac_auth_version a, rc_completed_at = now\<rparr>
                 (consume_ticket now t d2) = Inr d3"
    and e: "record_audit (creation_audit a correlation) d3 = Inr d4"
    and p: "issue_pair env now (ac_id a) None d4 = Inr (pair, d')"
    and res: "res = \<lparr>sg_user = a, sg_pair = pair, sg_replay = False\<rparr>"
    using assms by (auto simp: signup_body_def Let_def rbind_Inr_iff)
  have "evolves (consume_ticket now t d2) d'"
    using create_receipt_evolves [OF r] record_audit_evolves [OF e] evolves_issue_pair [OF p] evolves_trans by metis
  moreover have "au_tickets d3 = au_tickets (consume_ticket now t d2)" "au_tickets d4 = au_tickets d3"
    "au_tickets d' = au_tickets d4"
    using r e p by (auto simp: create_receipt_def record_audit_def add_outstanding_def split: if_splits
        elim!: issue_pair_Inr)
  ultimately show ?thesis
    using that [OF st] create_receipt_evolves [OF r] res by simp
qed

lemma signup_body_evolves:
  assumes "signup_body env now salt rq idem d0 = Inr (res, d')"
  shows "evolves d0 d'"
proof -
  let ?d = "lock_operation_idempotency Signup_receipt idem d0"
  have "evolves ?d d'"
  proof (cases "receipt_for ?d Signup_receipt idem")
    case (Some r)
    then show ?thesis using assms by (auto simp: signup_body_def Let_def intro: replay_signup_evolves)
  next
    case None
    obtain t tg a d1 d2 where st: "signup_target env now rq ?d = Inr (t, tg)"
      "create_user env salt (sr_username rq) (sr_password rq) (cp_customer_name (tg_customer tg)) ?d = Inr (a, d1)"
      "link_customer now a (tg_customer tg) (sr_consents rq) d1 = Inr d2"
      and e: "evolves (consume_ticket now t d2) d'"
      by (rule signup_fresh [OF assms None]) blast
    have "t \<in> set (au_tickets d2)"
      using signup_target_ticket [OF st(1)] create_user_frame [OF st(2)] link_customer_frame [OF st(3)] by simp
    then have "evolves d2 (consume_ticket now t d2)" by (rule evolves_consume_ticket)
    then show ?thesis
      using create_user_evolves [OF st(2)] link_customer_evolves [OF st(3)] e evolves_trans by metis
  qed
  then show ?thesis using evolves_lock_idempotency evolves_trans by blast
qed

lemma signup_evolves: "evolves d (snd (signup env now salt rq d))"
proof (cases "idempotency_hmac env (sr_key rq)")
  case (Inr idem)
  have "evolves d (snd (committed d (signup_body env now salt rq idem d)))"
    by (rule committed_evolves) (rule signup_body_evolves)
  moreover have "evolves d (snd (committed d (replay_signup_receipt env now r fp pw d)))" for r fp pw
    by (rule committed_evolves) (rule replay_signup_evolves)
  ultimately show ?thesis
    by (auto simp: signup_def Inr evolves_refl split: sum.splits auth_error.splits option.splits)
qed (simp add: signup_def evolves_refl)

lemma login_evolves: "evolves d (snd (login env now username password d))"
proof -
  have f: "evolves d (failed_login now s b d)" "evolves d (cleared_login now s b d)" for s b
    by (rule evolves_same; simp add: failed_login_def cleared_login_def put_login_bucket_def)+
  have "evolves d (snd (committed d (rbind (issue_pair env now k None (cleared_login now s b d))
      (\<lambda>(pair, d'). Inr ((a, pair), d')))))" for k s b a
    by (rule committed_evolves) (auto simp: rbind_Inr_iff intro: evolves_trans [OF f(2)] evolves_issue_pair)
  then show ?thesis
    by (auto simp: login_def Let_def evolves_refl f split: option.split)
qed

lemma lock_current_account:
  "lock_current d c = Some tg \<Longrightarrow> tg_user tg = Some a \<Longrightarrow> a \<in> set (au_accounts d) \<and> customer_account a"
  unfolding lock_current_def
  by (auto simp: Let_def split: option.splits if_splits dest: the_row_Some)

lemma reset_target_rows:
  assumes "reset_target env now ticket d = Inr (t, a)"
  shows "t \<in> set (au_tickets d)" "a \<in> set (au_accounts d)" "customer_account a" "ticket_open now t"
    "tk_digest t = ticket_digest env ticket" "tk_purpose t = RESET" "tk_user t = Some (ac_id a)"
    "tk_auth_version_at_issue t = Some (ac_auth_version a)"
  using assms unfolding reset_target_def rbind_Inr_iff of_option_iff guard_or_iff ticket_for_def
  by (auto simp: bind_eq_Some_conv dest: the_row_Some lock_current_account)

lemma set_password_evolves: "account_evolves a (set_password env salt pw a)"
  by (simp add: account_evolves_def set_password_def)

text \<open>The writes of a password reset.\<close>

lemma reset_fresh:
  assumes "reset_body env now salt ticket pw idem cid d0 = Inr ((), d')"
    and "receipt_for (lock_operation_idempotency Reset_receipt idem d0) Reset_receipt idem = None"
  obtains t a d1 where
    "reset_target env now ticket (lock_operation_idempotency Reset_receipt idem d0) = Inr (t, a)"
    and "d1 = consume_ticket now t (revoke_tokens (ac_id a) (save_account (set_password env salt pw a)
      (lock_operation_idempotency Reset_receipt idem d0)))"
    and "evolves d1 d'" and "au_accounts d' = au_accounts d1" and "au_blacklist d' = au_blacklist d1"
    and "au_tickets d' = au_tickets d1"
proof -
  let ?d = "lock_operation_idempotency Reset_receipt idem d0"
  obtain t a d2 correlation where t: "reset_target env now ticket ?d = Inr (t, a)"
    and r: "create_receipt \<lparr>rc_operation = Reset_receipt, rc_idempotency_key_hmac = idem,
        rc_request_fingerprint_hmac = reset_fingerprint env ticket pw, rc_user = ac_id a,
        rc_auth_version_at_completion = ac_auth_version (set_password env salt pw a), rc_completed_at = now\<rparr>
      (consume_ticket now t (revoke_tokens (ac_id a) (save_account (set_password env salt pw a) ?d))) = Inr d2"
    and e: "record_audit (reset_audit a (set_password env salt pw a) correlation) d2 = Inr d'"
    using assms by (auto simp: reset_body_def Let_def rbind_Inr_iff)
  show ?thesis
  proof (rule that [OF t refl])
    show "evolves (consume_ticket now t (revoke_tokens (ac_id a) (save_account (set_password env salt pw a) ?d))) d'"
      using create_receipt_evolves [OF r] record_audit_evolves [OF e] evolves_trans by metis
  qed (use r e in \<open>auto simp: create_receipt_def record_audit_def split: if_splits\<close>)
qed

lemma reset_body_evolves:
  assumes "reset_body env now salt ticket pw idem cid d0 = Inr (u, d')"
  shows "evolves d0 d'"
proof -
  let ?d = "lock_operation_idempotency Reset_receipt idem d0"
  have "evolves ?d d'"
  proof (cases "receipt_for ?d Reset_receipt idem")
    case (Some r)
    then show ?thesis using assms by (auto simp: reset_body_def Let_def rbind_Inr_iff intro: evolves_refl)
  next
    case None
    obtain t a d1 where t: "reset_target env now ticket ?d = Inr (t, a)"
      and d1: "d1 = consume_ticket now t (revoke_tokens (ac_id a) (save_account (set_password env salt pw a) ?d))"
      and e: "evolves d1 d'"
      by (rule reset_fresh [OF _ None]) (use assms in auto)
    let ?s = "save_account (set_password env salt pw a) ?d"
    have "evolves ?d ?s"
      by (rule evolves_save_account [OF reset_target_rows(2) [OF t] set_password_evolves])
    moreover have "evolves ?s (revoke_tokens (ac_id a) ?s)" by (rule evolves_revoke)
    moreover have "evolves (revoke_tokens (ac_id a) ?s) d1"
      unfolding d1 using reset_target_rows(1) [OF t] by (intro evolves_consume_ticket) (simp add: save_account_def)
    ultimately show ?thesis using e evolves_trans by blast
  qed
  then show ?thesis using evolves_lock_idempotency evolves_trans by blast
qed

lemma confirm_password_reset_evolves:
  "evolves d (snd (confirm_password_reset env now salt ticket pw key cid d))"
proof (cases "idempotency_hmac env key")
  case (Inr idem)
  have "evolves d (snd (committed d (reset_body env now salt ticket pw idem cid d)))"
    by (rule committed_evolves) (rule reset_body_evolves)
  then show ?thesis by (auto simp: confirm_password_reset_def Inr evolves_refl)
qed (simp add: confirm_password_reset_def evolves_refl)

lemma token_operations_evolve:
  "evolves d (snd (refresh_session env now raw d))"
  "evolves d (snd (logout env now raw d))"
  "evolves d (snd (demo_login env now code d))"
  unfolding refresh_session_def logout_def demo_login_def Let_def
  by (rule committed_evolves;
      auto simp: rbind_Inr_iff intro: evolves_blacklist_refresh evolves_trans [OF evolves_issue_pair evolves_blacklist_refresh]
        evolves_issue_pair)+

section \<open>Account administration evolves\<close>

lemma ensure_policy_group_frame:
  assumes "ensure_policy_group d = Inr (g, d1)"
  shows "evolves d d1" "au_accounts d1 = au_accounts d" "au_outstanding d1 = au_outstanding d"
    "au_blacklist d1 = au_blacklist d"
  using assms
  by (auto simp: ensure_policy_group_def Let_def split: option.splits if_splits intro!: evolves_same)

lemma authorized_Inr:
  assumes "authorized env rq d = Inr (reason, correlation, actor, t, g, d1)"
  shows "evolves d d1" "au_accounts d1 = au_accounts d" "au_outstanding d1 = au_outstanding d"
    "t \<in> set (au_accounts d)" "account_of d (lr_target rq) = Some t" "actor \<in> set (au_accounts d)"
    "ensure_policy_group d = Inr (g, d1)" "authorize_actor env actor g = Inr ()" "ac_is_synthetic t"
    "account_of d (lr_actor rq) = Some actor" "strip reason \<noteq> []"
  using assms ensure_policy_group_frame
  by (auto simp: authorized_def rbind_Inr_iff guard_or_iff lock_users_def account_of_def require_synthetic_def
      reason_text_def strip_idem split: if_splits option.splits dest: the_row_Some)

lemma rbind_pair_iff: "rbind m (\<lambda>x. Inr (t, x)) = Inr (r, y) \<longleftrightarrow> m = Inr y \<and> r = t"
  by (cases m) auto

lemma changed_account_Inr:
  assumes "changed_account actor t t' event cred changed reason correlation d = Inr (r, d')"
  shows "r = t'" "au_accounts d' = put_row ac_id t' (au_accounts d)"
    "au_groups d' = au_groups d"
    "set (au_blacklist d') =
       {ot_jti x | x. x \<in> set (au_outstanding d) \<and> ot_user x = Some (ac_id t)} \<union> set (au_blacklist d)"
    "\<lbrakk> t \<in> set (au_accounts d); account_evolves t t' \<rbrakk> \<Longrightarrow> evolves d d'"
proof -
  let ?d = "revoke_tokens (ac_id t) (save_account t' d)"
  obtain e where e: "record_audit e ?d = Inr d'" and r: "r = t'"
    using assms unfolding changed_account_def Let_def rbind_pair_iff by blast
  show "r = t'" by (rule r)
  show "au_accounts d' = put_row ac_id t' (au_accounts d)" "au_groups d' = au_groups d"
    "set (au_blacklist d') =
       {ot_jti x | x. x \<in> set (au_outstanding d) \<and> ot_user x = Some (ac_id t)} \<union> set (au_blacklist d)"
    using e by (auto simp: record_audit_def save_account_def split: if_splits)
  show "evolves d d'" if "t \<in> set (au_accounts d)" "account_evolves t t'"
    using evolves_save_account [OF that] evolves_revoke record_audit_evolves [OF e] evolves_trans by metis
qed

text \<open>A successful operation: the account it changed, how, and the database it was saved in.\<close>

definition account_change ::
  "auth_env \<Rightarrow> lifecycle_request \<Rightarrow> auth_db \<Rightarrow> group_row \<Rightarrow> account_row \<Rightarrow> account_row \<Rightarrow> auth_db \<Rightarrow> auth_db \<Rightarrow> bool" where
  "account_change env rq d g t t' d1 d' =
     (\<exists>reason correlation actor event cred changed.
        authorized env rq d = Inr (reason, correlation, actor, t, g, d1) \<and>
        ac_auth_version t' = ac_auth_version t + 1 \<and> ac_id t' = ac_id t \<and> ac_public_id t' = ac_public_id t \<and>
        changed_account actor t t' event cred changed reason correlation d1 = Inr (t', d'))"

lemma committed_Inr: "committed d m = (Inr a, d') \<longleftrightarrow> m = Inr (a, d')"
  by (cases m) auto

lemma changed_account_result:
  "changed_account actor t t' event cred changed reason correlation d = Inr (r, d') \<Longrightarrow> r = t'"
  by (rule changed_account_Inr(1))

lemma account_changeI:
  assumes "authorized env rq d = Inr (reason, correlation, actor, t, g, d1)"
    and "changed_account actor t t' event cred changed reason correlation d1 = Inr (r, d')"
    and "ac_auth_version t' = ac_auth_version t + 1" "ac_id t' = ac_id t" "ac_public_id t' = ac_public_id t"
  shows "r = t' \<and> account_change env rq d g t t' d1 d'"
proof -
  have "r = t'" using assms(2) by (rule changed_account_result)
  then show ?thesis using assms unfolding account_change_def by blast
qed

lemma authorized_cases:
  assumes "committed d (rbind (authorized env rq d) f) = (Inr r, d')"
  obtains reason correlation actor t g d1
  where "authorized env rq d = Inr (reason, correlation, actor, t, g, d1)"
    and "f (reason, correlation, actor, t, g, d1) = Inr (r, d')"
  using assms by (cases "authorized env rq d") (auto simp: committed_Inr)

lemma deactivate_change:
  assumes "deactivate env rq d = (Inr r, d')"
  obtains t g d1 where "account_change env rq d g t r d1 d'"
    and "r = t\<lparr>ac_is_active := False, ac_auth_version := ac_auth_version t + 1\<rparr>"
    and "protect_last_superuser env t d1 = Inr ()" and "protect_last_practical_admin env t g d1 = Inr ()"
  using assms unfolding deactivate_def
proof (rule authorized_cases, goal_cases)
  case (1 reason correlation actor t g d1)
  then have p: "protect_last_superuser env t d1 = Inr ()" "protect_last_practical_admin env t g d1 = Inr ()"
    and c: "changed_account actor t (t\<lparr>ac_is_active := False, ac_auth_version := ac_auth_version t + 1\<rparr>)
       ''DEACTIVATE'' [] [''is_active'', ''auth_version''] reason correlation d1 = Inr (r, d')"
    by (simp_all add: rbind_Inr_iff guard_or_iff)
  from account_changeI [OF 1(2) c] have r: "account_change env rq d g t r d1 d'"
    "r = t\<lparr>ac_is_active := False, ac_auth_version := ac_auth_version t + 1\<rparr>" by auto
  show ?case by (rule 1(1) [OF r p])
qed

lemma reactivate_change:
  assumes "reactivate env rq d = (Inr r, d')"
  obtains t g d1 where "account_change env rq d g t r d1 d'" and "\<not> ac_is_active t"
    and "r = t\<lparr>ac_is_active := True, ac_auth_version := ac_auth_version t + 1\<rparr>"
  using assms unfolding reactivate_def
proof (rule authorized_cases, goal_cases)
  case (1 reason correlation actor t g d1)
  then have p: "\<not> ac_is_active t"
    and c: "changed_account actor t (t\<lparr>ac_is_active := True, ac_auth_version := ac_auth_version t + 1\<rparr>)
       ''REACTIVATE'' [] [''is_active'', ''auth_version''] reason correlation d1 = Inr (r, d')"
    by (simp_all add: rbind_Inr_iff guard_or_iff)
  from account_changeI [OF 1(2) c] have r: "account_change env rq d g t r d1 d'"
    "r = t\<lparr>ac_is_active := True, ac_auth_version := ac_auth_version t + 1\<rparr>" by auto
  show ?case by (rule 1(1) [OF r(1) p r(2)])
qed

lemma update_change:
  assumes "update_consultant_credentials env salt username pw rq d = (Inr r, d')"
  obtains t g d1 name where "account_change env rq d g t r d1 d'" and "ac_role_code t = ''CONSULTANT''"
    and "r = with_credentials env salt name pw t"
  using assms unfolding update_consultant_credentials_def
proof (rule authorized_cases, goal_cases)
  case (1 reason correlation actor t g d1)
  then obtain name where p: "ac_role_code t = ''CONSULTANT''"
    and c: "changed_account actor t (with_credentials env salt name pw t)
       ''CREDENTIAL_RECOVERY'' [(''credential_changed'', PBool True)]
       [''auth_version'', ''credential_changed''] reason correlation d1 = Inr (r, d')"
    by (auto simp: rbind_Inr_iff guard_or_iff Let_def)
  from account_changeI [OF 1(2) c] have r: "account_change env rq d g t r d1 d'"
    "r = with_credentials env salt name pw t" by (auto simp: with_credentials_def)
  show ?case by (rule 1(1) [OF r(1) p r(2)])
qed

lemma grant_change:
  assumes "grant_account_admin env rq d = (Inr r, d')"
  obtains t g d1 where "account_change env rq d g t r d1 d'" and "ac_is_active t" and "ac_role_code t = ''OPERATOR''"
    and "r = t\<lparr>ac_groups := remdups (ac_groups t @ [gr_id g]), ac_is_staff := True,
         ac_auth_version := ac_auth_version t + 1\<rparr>"
  using assms unfolding grant_account_admin_def
proof (rule authorized_cases, goal_cases)
  case (1 reason correlation actor t g d1)
  then have p: "ac_is_active t" "ac_role_code t = ''OPERATOR''"
    and c: "changed_account actor t (t\<lparr>ac_groups := remdups (ac_groups t @ [gr_id g]), ac_is_staff := True,
         ac_auth_version := ac_auth_version t + 1\<rparr>)
       ''ADMIN_PERMISSION_CHANGE'' [] admin_fields reason correlation d1 = Inr (r, d')"
    by (simp_all add: rbind_Inr_iff guard_or_iff)
  from account_changeI [OF 1(2) c] have r: "account_change env rq d g t r d1 d'"
    "r = t\<lparr>ac_groups := remdups (ac_groups t @ [gr_id g]), ac_is_staff := True,
         ac_auth_version := ac_auth_version t + 1\<rparr>" by auto
  show ?case by (rule 1(1) [OF r(1) p r(2)])
qed

lemma revoke_change:
  assumes "revoke_account_admin env rq d = (Inr r, d')"
  obtains t g d1 where "account_change env rq d g t r d1 d'" and "\<not> ac_is_superuser t"
    and "practical_admin env g t" and "protect_last_practical_admin env t g d1 = Inr ()"
    and "r = t\<lparr>ac_groups := filter (\<lambda>k. k \<noteq> gr_id g) (ac_groups t), ac_is_staff := False,
         ac_auth_version := ac_auth_version t + 1\<rparr>"
  using assms unfolding revoke_account_admin_def
proof (rule authorized_cases, goal_cases)
  case (1 reason correlation actor t g d1)
  then have p: "\<not> ac_is_superuser t" "practical_admin env g t" "protect_last_practical_admin env t g d1 = Inr ()"
    and c: "changed_account actor t (t\<lparr>ac_groups := filter (\<lambda>k. k \<noteq> gr_id g) (ac_groups t), ac_is_staff := False,
         ac_auth_version := ac_auth_version t + 1\<rparr>)
       ''ADMIN_PERMISSION_CHANGE'' [] admin_fields reason correlation d1 = Inr (r, d')"
    by (simp_all add: rbind_Inr_iff guard_or_iff)
  from account_changeI [OF 1(2) c] have r: "account_change env rq d g t r d1 d'"
    "r = t\<lparr>ac_groups := filter (\<lambda>k. k \<noteq> gr_id g) (ac_groups t), ac_is_staff := False,
         ac_auth_version := ac_auth_version t + 1\<rparr>" by auto
  show ?case by (rule 1(1) [OF r(1) p r(2)])
qed

lemma account_change_rows:
  assumes "account_change env rq d g t t' d1 d'"
  shows "t \<in> set (au_accounts d)" "account_of d (lr_target rq) = Some t" "account_evolves t t'"
    "au_accounts d' = put_row ac_id t' (au_accounts d)" "evolves d d'"
    "ensure_policy_group d = Inr (g, d1)" "au_groups d' = au_groups d1"
    "{ot_jti x | x. x \<in> set (au_outstanding d) \<and> ot_user x = Some (ac_id t)} \<subseteq> set (au_blacklist d')"
    "ac_auth_version t' = ac_auth_version t + 1"
proof -
  obtain reason correlation actor event cred changed where
    a: "authorized env rq d = Inr (reason, correlation, actor, t, g, d1)"
    and v: "ac_auth_version t' = ac_auth_version t + 1" "ac_id t' = ac_id t" "ac_public_id t' = ac_public_id t"
    and c: "changed_account actor t t' event cred changed reason correlation d1 = Inr (t', d')"
    using assms unfolding account_change_def by blast
  note a' = authorized_Inr [OF a] and c' = changed_account_Inr [OF c]
  show "t \<in> set (au_accounts d)" "account_of d (lr_target rq) = Some t" "ensure_policy_group d = Inr (g, d1)"
    "au_groups d' = au_groups d1" "ac_auth_version t' = ac_auth_version t + 1"
    using a' c' v by simp_all
  show e: "account_evolves t t'" using v by (simp add: account_evolves_def)
  show "au_accounts d' = put_row ac_id t' (au_accounts d)" using a'(2) c'(2) by simp
  show "evolves d d'" using a' c'(5) e evolves_trans by metis
  show "{ot_jti x | x. x \<in> set (au_outstanding d) \<and> ot_user x = Some (ac_id t)} \<subseteq> set (au_blacklist d')"
    using a'(3) c'(4) by auto
qed

end
