(* ===== verification/AuthRuns.thy ===== *)
theory AuthRuns
  imports AuthSystem
begin

text \<open>
  Sequences of requests to authentication and account administration, and what they preserve: the keys
  and the evolution of the tables, the bound on guesses of a code, the administrators that remain, and
  the work left in the outbox.
\<close>

section \<open>Requests\<close>

text \<open>
  \<open>Elsewhere\<close> is a step of the parts of the backend that are not modelled: it replaces the customers,
  contacts, contracts and links by any others.
\<close>

datatype auth_op =
    Create_challenge nat purpose identity string
  | Verify_signup string nat string
  | Verify_username nat string
  | Verify_reset string nat string
  | Deliver "nat \<Rightarrow> int" "nat \<Rightarrow> mail \<Rightarrow> int option" int
  | Sign_up string signup_request
  | Log_in string string
  | Reset_password string string string string string
  | Refresh "jwt_claims option"
  | Log_out "jwt_claims option"
  | Demo_login string
  | Deactivate lifecycle_request
  | Reactivate lifecycle_request
  | Update_credentials string "string option" "string option" lifecycle_request
  | Grant_admin lifecycle_request
  | Revoke_admin lifecycle_request
  | Elsewhere "profile_row list" "contact_row list" "contract_row list" "link_row list"

fun auth_step :: "auth_env \<Rightarrow> int \<times> auth_op \<Rightarrow> auth_db \<Rightarrow> auth_db" where
  "auth_step env (now, Create_challenge draw p ident key) d = snd (create_challenge env now draw p ident key d)"
| "auth_step env (now, Verify_signup raw pid otp) d = snd (verify_signup_challenge env now raw pid otp d)"
| "auth_step env (now, Verify_username pid otp) d = snd (verify_username_challenge env now pid otp d)"
| "auth_step env (now, Verify_reset raw pid otp) d = snd (verify_password_reset_challenge env now raw pid otp d)"
| "auth_step env (now, Deliver clock send n) d = snd (process_pending env clock send n d)"
| "auth_step env (now, Sign_up salt rq) d = snd (signup env now salt rq d)"
| "auth_step env (now, Log_in name pw) d = snd (login env now name pw d)"
| "auth_step env (now, Reset_password salt ticket pw key cid) d =
     snd (confirm_password_reset env now salt ticket pw key cid d)"
| "auth_step env (now, Refresh raw) d = snd (refresh_session env now raw d)"
| "auth_step env (now, Log_out raw) d = snd (logout env now raw d)"
| "auth_step env (now, Demo_login code) d = snd (demo_login env now code d)"
| "auth_step env (now, Deactivate rq) d = snd (deactivate env rq d)"
| "auth_step env (now, Reactivate rq) d = snd (reactivate env rq d)"
| "auth_step env (now, Update_credentials salt name pw rq) d =
     snd (update_consultant_credentials env salt name pw rq d)"
| "auth_step env (now, Grant_admin rq) d = snd (grant_account_admin env rq d)"
| "auth_step env (now, Revoke_admin rq) d = snd (revoke_account_admin env rq d)"
| "auth_step env (now, Elsewhere profiles contacts contracts links) d =
     d\<lparr>au_profiles := profiles, au_contacts := contacts, au_contracts := contracts, au_links := links\<rparr>"

definition auth_steps :: "auth_env \<Rightarrow> (int \<times> auth_op) list \<Rightarrow> auth_db \<Rightarrow> auth_db" where
  "auth_steps env ls d = fold (auth_step env) ls d"

lemma auth_steps_simps [simp]:
  "auth_steps env [] d = d" "auth_steps env (l # ls) d = auth_steps env ls (auth_step env l d)"
  by (simp_all add: auth_steps_def)

section \<open>Every request evolves the tables\<close>

lemma change_evolves:
  assumes "\<And>r d'. m = (Inr r, d') \<Longrightarrow> evolves d d'" and "\<And>e d'. m = (Inl e, d') \<Longrightarrow> d' = d"
  shows "evolves d (snd m)"
  using assms by (cases m; cases "fst m") (auto simp: evolves_refl)

lemma committed_Inl: "committed d m = (Inl e, d') \<Longrightarrow> d' = d"
  by (cases m) auto

lemma lifecycle_refused:
  "deactivate env rq d = (Inl e, d') \<Longrightarrow> d' = d"
  "reactivate env rq d = (Inl e, d') \<Longrightarrow> d' = d"
  "update_consultant_credentials env salt name pw rq d = (Inl e, d') \<Longrightarrow> d' = d"
  "grant_account_admin env rq d = (Inl e, d') \<Longrightarrow> d' = d"
  "revoke_account_admin env rq d = (Inl e, d') \<Longrightarrow> d' = d"
  unfolding deactivate_def reactivate_def update_consultant_credentials_def grant_account_admin_def
    revoke_account_admin_def
  by (rule committed_Inl, assumption)+

lemma lifecycle_evolves:
  "evolves d (snd (deactivate env rq d))"
  "evolves d (snd (reactivate env rq d))"
  "evolves d (snd (update_consultant_credentials env salt name pw rq d))"
  "evolves d (snd (grant_account_admin env rq d))"
  "evolves d (snd (revoke_account_admin env rq d))"
  by (rule change_evolves; blast elim: deactivate_change reactivate_change update_change grant_change revoke_change
      intro: account_change_rows(5) dest: lifecycle_refused)+

lemma auth_step_evolves: "evolves d (auth_step env l d)"
  by (cases "(env, l, d)" rule: auth_step.cases)
    (simp_all add: create_challenge_evolves verify_evolves process_pending_def process_loop_evolves
      signup_evolves login_evolves confirm_password_reset_evolves token_operations_evolve lifecycle_evolves,
     rule evolves_same, simp_all)

lemma auth_steps_evolve: "evolves d (auth_steps env ls d)"
proof (induction ls arbitrary: d)
  case (Cons l ls)
  then show ?case using auth_step_evolves evolves_trans auth_steps_simps(2) by metis
qed (simp add: evolves_refl)

interpretation auth_keys: inductive_invariant keys_ok "\<lambda>d l d'. d' = auth_step env l d" keys_ok for env
  using auth_step_evolves by unfold_locales (auto simp: evolves_def)

lemma keys_steps: "keys_ok d \<Longrightarrow> keys_ok (auth_steps env ls d)"
  using auth_steps_evolve evolves_def by blast

section \<open>Guesses of a code\<close>

text \<open>
  A wrong guess is a verification that compares its code with the stored digest of an open challenge
  and finds them different.
\<close>

definition challenge_named :: "auth_db \<Rightarrow> nat \<Rightarrow> challenge_row option" where
  "challenge_named d pid = the_row (\<lambda>c. ch_public_id c = pid) (au_challenges d)"

definition wrong_code :: "auth_env \<Rightarrow> int \<Rightarrow> nat \<Rightarrow> purpose \<Rightarrow> string \<Rightarrow> auth_db \<Rightarrow> bool" where
  "wrong_code env now pid p otp d =
     (case challenge_named d pid of
        None \<Rightarrow> False
      | Some c \<Rightarrow> ch_purpose c = p \<and> ch_failure_count c < ch_max_failures c \<and> ch_consumed_at c = None \<and>
          ch_verified_at c = None \<and> now < ch_expires_at c \<and> crypto_ready env \<and>
          otp_digest env pid p otp \<noteq> ch_otp_digest c)"

fun wrong_guess :: "auth_env \<Rightarrow> nat \<Rightarrow> int \<times> auth_op \<Rightarrow> auth_db \<Rightarrow> bool" where
  "wrong_guess env pid (now, Verify_signup raw k otp) d = (k = pid \<and> wrong_code env now k SIGNUP otp d)"
| "wrong_guess env pid (now, Verify_username k otp) d = (k = pid \<and> wrong_code env now k USERNAME_RECOVERY otp d)"
| "wrong_guess env pid (now, Verify_reset raw k otp) d = (k = pid \<and> wrong_code env now k PASSWORD_RESET otp d)"
| "wrong_guess env pid _ d = False"

text \<open>A verification that is answered with success.\<close>

fun accepted :: "auth_env \<Rightarrow> nat \<Rightarrow> int \<times> auth_op \<Rightarrow> auth_db \<Rightarrow> bool" where
  "accepted env pid (now, Verify_signup raw k otp) d =
     (k = pid \<and> \<not> isl (fst (verify_signup_challenge env now raw k otp d)))"
| "accepted env pid (now, Verify_username k otp) d =
     (k = pid \<and> \<not> isl (fst (verify_username_challenge env now k otp d)))"
| "accepted env pid (now, Verify_reset raw k otp) d =
     (k = pid \<and> \<not> isl (fst (verify_password_reset_challenge env now raw k otp d)))"
| "accepted env pid _ d = False"

fun count_steps ::
  "auth_env \<Rightarrow> (int \<times> auth_op \<Rightarrow> auth_db \<Rightarrow> bool) \<Rightarrow> (int \<times> auth_op) list \<Rightarrow> auth_db \<Rightarrow> nat" where
  "count_steps env P [] d = 0"
| "count_steps env P (l # ls) d = (if P l d then 1 else 0) + count_steps env P ls (auth_step env l d)"

text \<open>What a sequence can do at most, when every counted step lowers a potential that no step raises.\<close>

lemma count_steps_potential:
  assumes "\<And>l d. I d \<Longrightarrow> I (auth_step env l d)"
    and "\<And>l d. I d \<Longrightarrow> pot (auth_step env l d) + (if P l d then 1 else 0) \<le> (pot d :: nat)"
    and "I d"
  shows "count_steps env P ls d + pot (auth_steps env ls d) \<le> pot d"
  using assms(3)
proof (induction ls arbitrary: d)
  case (Cons l ls)
  have "count_steps env P ls (auth_step env l d) + pot (auth_steps env ls (auth_step env l d)) \<le> pot (auth_step env l d)"
    by (rule Cons.IH [OF assms(1) [OF Cons.prems]])
  then show ?case using assms(2) [OF Cons.prems, of l] by simp
qed simp

text \<open>The challenge with a public identifier, before and after a step.\<close>

definition has_challenge :: "nat \<Rightarrow> auth_db \<Rightarrow> bool" where
  "has_challenge pid d = (keys_ok d \<and> challenge_named d pid \<noteq> None)"

lemma challenge_named_Some:
  assumes "keys_ok d"
  shows "challenge_named d pid = Some c \<longleftrightarrow> c \<in> set (au_challenges d) \<and> ch_public_id c = pid"
proof
  show "challenge_named d pid = Some c \<Longrightarrow> c \<in> set (au_challenges d) \<and> ch_public_id c = pid"
    unfolding challenge_named_def by (rule the_row_Some)
  assume c: "c \<in> set (au_challenges d) \<and> ch_public_id c = pid"
  have "distinct (map ch_public_id (au_challenges d))" using assms by (simp add: keys_ok_def)
  then show "challenge_named d pid = Some c"
    unfolding challenge_named_def using the_row_key [of ch_public_id "au_challenges d" c pid] c by simp
qed

lemma challenge_named_evolves:
  assumes "evolves d d'" and "keys_ok d" and "challenge_named d pid = Some c"
  shows "\<exists>e. challenge_named d' pid = Some e \<and> challenge_evolves c e"
proof -
  have k: "keys_ok d'" and g: "grown challenge_evolves (au_challenges d) (au_challenges d')"
    using assms(1,2) by (auto simp: evolves_def auth_later_def)
  have c: "c \<in> set (au_challenges d)" "ch_public_id c = pid"
    using assms(2,3) challenge_named_Some by blast+
  obtain e where "e \<in> set (au_challenges d')" "challenge_evolves c e" using grown_in [OF g c(1)] by blast
  then show ?thesis using challenge_named_Some [OF k] c(2) by (auto simp: challenge_evolves_def)
qed

lemma has_challenge_step: "has_challenge pid d \<Longrightarrow> has_challenge pid (auth_step env l d)"
proof -
  assume h: "has_challenge pid d"
  then obtain c where "challenge_named d pid = Some c" by (auto simp: has_challenge_def)
  then have "\<exists>e. challenge_named (auth_step env l d) pid = Some e \<and> challenge_evolves c e"
    using challenge_named_evolves [OF auth_step_evolves] h by (simp add: has_challenge_def)
  then show "has_challenge pid (auth_step env l d)"
    using h auth_step_evolves [of d env l] by (auto simp: has_challenge_def evolves_def)
qed

definition guesses_left :: "nat \<Rightarrow> auth_db \<Rightarrow> nat" where
  "guesses_left pid d =
     (case challenge_named d pid of None \<Rightarrow> 0 | Some c \<Rightarrow> nat (ch_max_failures c - ch_failure_count c))"

definition code_open :: "nat \<Rightarrow> auth_db \<Rightarrow> nat" where
  "code_open pid d =
     (case challenge_named d pid of None \<Rightarrow> 0 | Some c \<Rightarrow> if ch_consumed_at c = None then 1 else 0)"

lemma potentials_evolve:
  assumes "evolves d d'" and "has_challenge pid d"
  shows "guesses_left pid d' \<le> guesses_left pid d" "code_open pid d' \<le> code_open pid d"
proof -
  obtain c e where "challenge_named d pid = Some c" "challenge_named d' pid = Some e" "challenge_evolves c e"
    using challenge_named_evolves assms unfolding has_challenge_def by blast
  then show "guesses_left pid d' \<le> guesses_left pid d" "code_open pid d' \<le> code_open pid d"
    by (auto simp: guesses_left_def code_open_def challenge_evolves_def)
qed

text \<open>What a verification does to the challenge it names.\<close>

lemma lock_row:
  assumes "keys_ok d"
  shows "the_row (\<lambda>c. ch_public_id c = pid \<and> ch_purpose c = p) (au_challenges d) =
    (case challenge_named d pid of Some c \<Rightarrow> if ch_purpose c = p then Some c else None | None \<Rightarrow> None)"
proof (cases "challenge_named d pid")
  case None
  then have "the_row (\<lambda>c. ch_public_id c = pid \<and> ch_purpose c = p) (au_challenges d) = None"
    unfolding challenge_named_def the_row_None by blast
  then show ?thesis by (simp add: None)
next
  case (Some c)
  have "distinct (map ch_public_id (au_challenges d))" using assms by (simp add: keys_ok_def)
  moreover have "c \<in> set (au_challenges d)" "ch_public_id c = pid" using Some assms challenge_named_Some by blast+
  ultimately show ?thesis
    using Some the_row_key [of ch_public_id "au_challenges d" c pid "\<lambda>c. ch_public_id c = pid \<and> ch_purpose c = p"]
    by simp
qed

lemma named_after_save:
  assumes "keys_ok d" and "challenge_named d pid = Some c" and "challenge_evolves c e"
  shows "challenge_named (save_challenge e d) pid = Some e"
proof -
  have c: "c \<in> set (au_challenges d)" "ch_public_id c = pid" using assms challenge_named_Some by blast+
  have "keys_ok (save_challenge e d)" using evolves_save_challenge [OF c(1) assms(3)] assms(1) by (simp add: evolves_def)
  moreover have "e \<in> set (au_challenges (save_challenge e d))"
    using in_put_row [OF c(1), of ch_id e] assms(3) by (simp add: save_challenge_def challenge_evolves_def)
  ultimately show ?thesis using challenge_named_Some c(2) assms(3) by (simp add: challenge_evolves_def)
qed

lemma wrong_code_counts:
  assumes "keys_ok d" and "wrong_code env now pid p otp d"
  obtains c e where "challenge_named d pid = Some c"
    and "lock_and_verify env now pid p otp d = (Inl e, save_challenge (attempt_counted c) d)"
    and "challenge_named (save_challenge (attempt_counted c) d) pid = Some (attempt_counted c)"
    and "ch_failure_count c < ch_max_failures c"
proof -
  obtain c where c: "challenge_named d pid = Some c" and w: "ch_purpose c = p" "ch_failure_count c < ch_max_failures c"
    "ch_consumed_at c = None" "ch_verified_at c = None" "now < ch_expires_at c" "crypto_ready env"
    "otp_digest env pid p otp \<noteq> ch_otp_digest c"
    using assms(2) by (auto simp: wrong_code_def split: option.splits)
  have "ch_public_id c = pid" using assms(1) c challenge_named_Some by blast
  then have "lock_and_verify env now pid p otp d =
      (Inl (if ch_max_failures c \<le> ch_failure_count c + 1 then rate_limited (en_otp_resend env)
            else Verification_failed), save_challenge (attempt_counted c) d)"
    using w by (simp add: lock_and_verify_def lock_row [OF assms(1)] c)
  moreover have "challenge_named (save_challenge (attempt_counted c) d) pid = Some (attempt_counted c)"
    by (rule named_after_save [OF assms(1) c]) (simp add: attempt_counted_def challenge_evolves_def)
  ultimately show ?thesis using that c w(2) by blast
qed

lemma wrong_guess_potential:
  assumes "has_challenge pid d"
  shows "guesses_left pid (auth_step env l d) + (if wrong_guess env pid l d then 1 else 0) \<le> guesses_left pid d"
proof (cases "wrong_guess env pid l d")
  case True
  then obtain now p otp where w: "wrong_code env now pid p otp d"
    and st: "\<And>e d'. lock_and_verify env now pid p otp d = (Inl e, d') \<Longrightarrow> auth_step env l d = d'"
    by (cases "(env, pid, l, d)" rule: wrong_guess.cases)
      (auto simp: verify_signup_challenge_def verify_username_challenge_def verify_password_reset_challenge_def)
  obtain c e where c: "challenge_named d pid = Some c"
    "lock_and_verify env now pid p otp d = (Inl e, save_challenge (attempt_counted c) d)"
    "challenge_named (save_challenge (attempt_counted c) d) pid = Some (attempt_counted c)"
    "ch_failure_count c < ch_max_failures c"
    by (rule wrong_code_counts [OF _ w]) (use assms in \<open>auto simp: has_challenge_def\<close>)
  then show ?thesis using True st [OF c(2)] by (simp add: guesses_left_def attempt_counted_def)
next
  case False
  then show ?thesis using potentials_evolve(1) [OF auth_step_evolves assms] by simp
qed

lemma verified_consumes:
  assumes "keys_ok d" and "lock_and_verify env now pid p otp d = (Inr x, d')"
  shows "code_open pid d = 1 \<and> code_open pid d' = 0"
proof -
  obtain c where c: "challenge_named d pid = Some c" "ch_purpose c = p"
    using assms(2) by (auto simp: lock_and_verify_def lock_row [OF assms(1)] split: option.splits if_splits)
  then have open': "ch_consumed_at c = None"
    and d': "d' = save_challenge (c\<lparr>ch_verified_at := Some now, ch_consumed_at := Some now\<rparr>) d"
    using assms(2) by (auto simp: lock_and_verify_def lock_row [OF assms(1)] split: option.splits if_splits)
  have "challenge_named d' pid = Some (c\<lparr>ch_verified_at := Some now, ch_consumed_at := Some now\<rparr>)"
    unfolding d' by (rule named_after_save [OF assms(1) c(1)]) (simp add: challenge_evolves_def)
  then show ?thesis using c(1) open' by (simp add: code_open_def)
qed

lemma ticket_keeps_challenges: "create_ticket t d = Inr d' \<Longrightarrow> au_challenges d' = au_challenges d"
  by (auto simp: create_ticket_def split: if_splits)

lemma ticket_committed:
  assumes "committed d (rbind (create_ticket t d1) (\<lambda>d2. Inr (raw, d2))) = (Inr r, d')"
  shows "au_challenges d' = au_challenges d1"
  using assms ticket_keeps_challenges by (auto simp: committed_Inr rbind_Inr_iff)

lemma verify_Inr:
  "verify_signup_challenge env now raw k otp d = (Inr r, d') \<Longrightarrow>
     \<exists>x d1. lock_and_verify env now k SIGNUP otp d = (Inr x, d1) \<and> au_challenges d' = au_challenges d1"
  "verify_username_challenge env now k otp d = (Inr r, d') \<Longrightarrow>
     \<exists>x d1. lock_and_verify env now k USERNAME_RECOVERY otp d = (Inr x, d1) \<and> au_challenges d' = au_challenges d1"
  "verify_password_reset_challenge env now raw k otp d = (Inr r, d') \<Longrightarrow>
     \<exists>x d1. lock_and_verify env now k PASSWORD_RESET otp d = (Inr x, d1) \<and> au_challenges d' = au_challenges d1"
  unfolding verify_signup_challenge_def verify_username_challenge_def verify_password_reset_challenge_def
  by (auto split: prod.splits sum.splits option.splits dest: ticket_committed)

lemma not_isl_Inr: "\<not> isl x \<Longrightarrow> \<exists>r. x = Inr r"
  by (cases x) auto

lemma accepted_verifies:
  assumes "accepted env pid l d"
  obtains now p otp x d' where "lock_and_verify env now pid p otp d = (Inr x, d')"
    and "au_challenges (auth_step env l d) = au_challenges d'"
proof (cases "(env, pid, l, d)" rule: accepted.cases)
  case (1 env' pid' now raw k otp d0)
  then obtain r where "verify_signup_challenge env now raw pid otp d = (Inr r, auth_step env l d)"
    using assms not_isl_Inr by (cases "verify_signup_challenge env now raw pid otp d") force
  then show ?thesis using verify_Inr(1) that by blast
next
  case (2 env' pid' now k otp d0)
  then obtain r where "verify_username_challenge env now pid otp d = (Inr r, auth_step env l d)"
    using assms not_isl_Inr by (cases "verify_username_challenge env now pid otp d") force
  then show ?thesis using verify_Inr(2) that by blast
next
  case (3 env' pid' now raw k otp d0)
  then obtain r where "verify_password_reset_challenge env now raw pid otp d = (Inr r, auth_step env l d)"
    using assms not_isl_Inr by (cases "verify_password_reset_challenge env now raw pid otp d") force
  then show ?thesis using verify_Inr(3) that by blast
qed (use assms in simp_all)

lemma accepted_potential:
  assumes "has_challenge pid d"
  shows "code_open pid (auth_step env l d) + (if accepted env pid l d then 1 else 0) \<le> code_open pid d"
proof (cases "accepted env pid l d")
  case True
  obtain now p otp x d' where v: "lock_and_verify env now pid p otp d = (Inr x, d')"
    and e: "au_challenges (auth_step env l d) = au_challenges d'"
    by (rule accepted_verifies [OF True])
  have "code_open pid (auth_step env l d) = code_open pid d'" by (simp add: code_open_def challenge_named_def e)
  then show ?thesis using verified_consumes [OF _ v] assms True by (simp add: has_challenge_def)
next
  case False
  then show ?thesis using potentials_evolve(2) [OF auth_step_evolves assms] by simp
qed

end
