(* ===== verification/AuthSafety.thy ===== *)
theory AuthSafety
  imports AuthRuns
begin

text \<open>
  Which tables a request leaves alone, the administrators that remain whatever is requested, and the
  work left in the outbox.
\<close>

section \<open>What a request leaves alone\<close>

text \<open>Accounts, groups and outbox are the same.\<close>

definition keeps_users :: "auth_db \<Rightarrow> auth_db \<Rightarrow> bool" where
  "keeps_users d d' = (au_accounts d' = au_accounts d \<and> au_groups d' = au_groups d \<and> au_outbox d' = au_outbox d)"

lemma keeps_users_refl [simp]: "keeps_users d d"
  by (simp add: keeps_users_def)

lemma keeps_users_trans: "keeps_users d e \<Longrightarrow> keeps_users e f \<Longrightarrow> keeps_users d f"
  by (simp add: keeps_users_def)

lemma issue_pair_keeps: "issue_pair env now pk e d = Inr (pair, d') \<Longrightarrow> keeps_users d d'"
  by (elim issue_pair_Inr) (simp add: keeps_users_def add_outstanding_def)

lemma keeps_writes:
  "keeps_users d (revoke_tokens u d)" "keeps_users d (blacklist_refresh c a d)"
  "keeps_users d (consume_ticket now t d)" "keeps_users d (lock_operation_idempotency op idem d)"
  "keeps_users d (failed_login now s b d)" "keeps_users d (cleared_login now s b d)"
  "keeps_users d (save_challenge ch d)" "keeps_users d (put_bucket cb d)"
  by (simp_all add: keeps_users_def revoke_tokens_def blacklist_refresh_def add_outstanding_def
      consume_ticket_def save_ticket_def lock_operation_idempotency_def failed_login_def cleared_login_def
      put_login_bucket_def save_challenge_def put_bucket_def)

lemma keeps_rows:
  "create_receipt r d = Inr d' \<Longrightarrow> keeps_users d d'" "record_audit e d = Inr d' \<Longrightarrow> keeps_users d d'"
  "create_ticket t d = Inr d' \<Longrightarrow> keeps_users d d'" "link_customer now a c cs d = Inr d' \<Longrightarrow> keeps_users d d'"
  by (auto simp: keeps_users_def create_receipt_def record_audit_def create_ticket_def link_customer_def Let_def
      split: if_splits)

lemma committed_keeps:
  assumes "\<And>a d'. m = Inr (a, d') \<Longrightarrow> keeps_users d d'"
  shows "keeps_users d (snd (committed d m))"
  using assms by (cases m) auto

lemma lock_and_verify_keeps: "keeps_users d (snd (lock_and_verify env now pid p otp d))"
  by (auto simp: lock_and_verify_def keeps_writes split: option.split)

lemma verify_keeps:
  "keeps_users d (snd (verify_signup_challenge env now raw pid otp d))"
  "keeps_users d (snd (verify_username_challenge env now pid otp d))"
  "keeps_users d (snd (verify_password_reset_challenge env now raw pid otp d))"
proof -
  have v: "keeps_users d d1" if "lock_and_verify env now pid p otp d = (r, d1)" for p r d1
    using lock_and_verify_keeps [of d env now pid p otp] that by simp
  have t: "keeps_users d (snd (committed d (rbind (create_ticket t d1) (\<lambda>d2. Inr (raw, d2)))))"
    if "keeps_users d d1" for t d1
    using that by (intro committed_keeps) (auto simp: rbind_Inr_iff dest: keeps_rows(3) intro: keeps_users_trans)
  show "keeps_users d (snd (verify_signup_challenge env now raw pid otp d))"
    by (auto simp: verify_signup_challenge_def v intro!: t split: prod.split sum.split)
  show "keeps_users d (snd (verify_username_challenge env now pid otp d))"
    by (auto simp: verify_username_challenge_def v split: prod.split sum.split option.split)
  show "keeps_users d (snd (verify_password_reset_challenge env now raw pid otp d))"
    by (auto simp: verify_password_reset_challenge_def v intro!: t split: prod.split sum.split option.split)
qed

lemma token_operations_keep:
  "keeps_users d (snd (refresh_session env now raw d))"
  "keeps_users d (snd (logout env now raw d))"
  "keeps_users d (snd (demo_login env now code d))"
  unfolding refresh_session_def logout_def demo_login_def Let_def
  by (rule committed_keeps;
      auto simp: rbind_Inr_iff keeps_writes intro: keeps_users_trans [OF issue_pair_keeps keeps_writes(2)]
        issue_pair_keeps)+

lemma login_keeps: "keeps_users d (snd (login env now username password d))"
proof -
  have "keeps_users d (snd (committed d (rbind (issue_pair env now k None (cleared_login now s b d))
      (\<lambda>(pair, d'). Inr ((a, pair), d')))))" for k s b a
    by (rule committed_keeps) (auto simp: rbind_Inr_iff intro: keeps_users_trans [OF keeps_writes(6)] issue_pair_keeps)
  then show ?thesis by (auto simp: login_def Let_def keeps_writes split: option.split)
qed

text \<open>A challenge and the outbox leave accounts and groups alone.\<close>

definition keeps_accounts :: "auth_db \<Rightarrow> auth_db \<Rightarrow> bool" where
  "keeps_accounts d d' = (au_accounts d' = au_accounts d \<and> au_groups d' = au_groups d)"

lemma enqueue_Inr:
  assumes "enqueue env now c contact otp d = Inr d'"
  obtains r where "d' = d\<lparr>au_outbox := au_outbox d @ [r], au_next := Suc (au_next d)\<rparr>" and "outbox_ok r"
    and "ob_challenge r = ch_id c" and "ob_id r = au_next d"
  using assms unfolding enqueue_def rbind_Inr_iff guard_or_iff
  by (auto simp: outbox_entry_def rbind_Inr_iff split: option.splits if_splits)

lemma create_body_Inr:
  assumes "create_body env now draw p ident idem d = Inr (r, d')"
  obtains "d' = d" "challenge_for d p idem \<noteq> None"
  | c contact d1 b where "c = new_challenge env now p (Some contact) idem (identity_fingerprint env ident)
        (generate_otp draw) (au_next d) \<or> c = new_challenge env now p None idem (identity_fingerprint env ident)
        (generate_otp draw) (au_next d)"
      and "enqueue env now c (if ch_target_resolved c then Some (tg_contact contact) else None) (generate_otp draw)
        (add_challenge now c d) = Inr d1"
      and "d' = put_bucket b d1"
proof (cases "challenge_for d p idem")
  case (Some c)
  then show ?thesis using assms that(1) by (auto simp: create_body_def rbind_Inr_iff)
next
  case None
  let ?n = "\<lambda>t. new_challenge env now p t idem (identity_fingerprint env ident) (generate_otp draw) (au_next d)"
  obtain target d1 b where
    e: "enqueue env now (?n target) (map_option tg_contact target) (generate_otp draw)
      (add_challenge now (?n target) d) = Inr d1" and d': "d' = put_bucket b d1"
    using assms by (auto simp: create_body_def None Let_def rbind_Inr_iff)
  have r: "ch_target_resolved (?n target) = (target \<noteq> None)" by (simp add: new_challenge_def)
  show ?thesis
  proof (cases target)
    case None
    then show ?thesis using that(2) [of "?n None" undefined, OF _ _ d'] e r by simp
  next
    case (Some t)
    then show ?thesis using that(2) [of "?n (Some t)" t, OF _ _ d'] e r by simp
  qed
qed

lemma create_challenge_keeps: "keeps_accounts d (snd (create_challenge env now draw p ident key d))"
proof (cases "idempotency_hmac env key")
  case (Inr idem)
  let ?r = "create_body env now draw p ident idem d"
  have "keeps_accounts d d'" if "?r = Inr (a, d')" for a d'
    using that by (rule create_body_Inr)
      (auto simp: keeps_accounts_def put_bucket_def add_challenge_def elim!: enqueue_Inr)
  then have "keeps_accounts d (snd (committed d ?r))"
    by (cases ?r) (auto simp: keeps_accounts_def)
  then show ?thesis
    by (auto simp: create_challenge_def Inr keeps_accounts_def split: sum.splits auth_error.splits option.splits)
qed (simp add: create_challenge_def keeps_accounts_def)

lemma process_one_keeps: "process_one env now send d = Inr (w, d') \<Longrightarrow> keeps_accounts d d'"
proof (cases w)
  case (Some x)
  assume "process_one env now send d = Inr (w, d')"
  then show "keeps_accounts d d'" unfolding Some
    by (elim process_one_Some) (auto simp: save_outbox_def keeps_accounts_def save_challenge_def split: if_splits)
qed (auto simp: keeps_accounts_def dest: process_one_None)

lemma process_loop_keeps: "keeps_accounts d (snd (process_loop env clock send n counts d))"
proof (induction n arbitrary: counts d)
  case (Suc n)
  then show ?case
    by (auto simp: keeps_accounts_def split: sum.split option.split prod.split dest!: process_one_keeps)
qed (simp add: keeps_accounts_def)

section \<open>How requests change accounts\<close>

text \<open>
  Accounts are appended by a sign-up, a customer's password is replaced, or the target of an
  administrative operation changes; groups change only in administrative operations.
\<close>

definition appends_account :: "auth_db \<Rightarrow> auth_db \<Rightarrow> bool" where
  "appends_account d d' =
     (au_groups d' = au_groups d \<and> au_outbox d' = au_outbox d \<and>
      (\<exists>new. au_accounts d' = au_accounts d @ new))"

definition resets_password :: "auth_env \<Rightarrow> auth_db \<Rightarrow> auth_db \<Rightarrow> bool" where
  "resets_password env d d' =
     (au_groups d' = au_groups d \<and> au_outbox d' = au_outbox d \<and>
      (\<exists>a salt pw. a \<in> set (au_accounts d) \<and> customer_account a \<and>
         au_accounts d' = put_row ac_id (set_password env salt pw a) (au_accounts d)))"

lemma appends_keeps: "keeps_users d d' \<Longrightarrow> appends_account d d'"
  by (simp add: keeps_users_def appends_account_def)

lemma create_user_appends: "create_user env salt name pw full d = Inr (a, d') \<Longrightarrow> appends_account d d'"
  by (auto simp: create_user_def Let_def appends_account_def split: if_splits)

lemma appends_trans: "appends_account d e \<Longrightarrow> keeps_users e f \<Longrightarrow> appends_account d f"
  by (auto simp: keeps_users_def appends_account_def)

lemma signup_body_appends:
  assumes "signup_body env now salt rq idem d0 = Inr (res, d')"
  shows "appends_account d0 d'"
proof -
  let ?d = "lock_operation_idempotency Signup_receipt idem d0"
  have k: "keeps_users d0 ?d" by (rule keeps_writes)
  show ?thesis
  proof (cases "receipt_for ?d Signup_receipt idem")
    case (Some r)
    then have "keeps_users ?d d'"
      using assms by (auto simp: signup_body_def Let_def replay_signup_receipt_def rbind_Inr_iff dest: issue_pair_keeps)
    then show ?thesis using k keeps_users_trans appends_keeps by blast
  next
    case None
    obtain t tg a d1 d2 d3 correlation d4 pair where st: "signup_target env now rq ?d = Inr (t, tg)"
      and c: "create_user env salt (sr_username rq) (sr_password rq) (cp_customer_name (tg_customer tg)) ?d = Inr (a, d1)"
      and l: "link_customer now a (tg_customer tg) (sr_consents rq) d1 = Inr d2"
      and r: "create_receipt \<lparr>rc_operation = Signup_receipt, rc_idempotency_key_hmac = idem,
                   rc_request_fingerprint_hmac = signup_fingerprint env rq, rc_user = ac_id a,
                   rc_auth_version_at_completion = ac_auth_version a, rc_completed_at = now\<rparr>
                 (consume_ticket now t d2) = Inr d3"
      and e: "record_audit (creation_audit a correlation) d3 = Inr d4"
      and p: "issue_pair env now (ac_id a) None d4 = Inr (pair, d')"
      and res: "res = \<lparr>sg_user = a, sg_pair = pair, sg_replay = False\<rparr>"
      using assms None by (auto simp: signup_body_def Let_def rbind_Inr_iff)
    have "appends_account d0 d1"
      using create_user_appends [OF c] k by (auto simp: appends_account_def keeps_users_def)
    then show ?thesis
      using keeps_rows(4) [OF l] keeps_writes(3) keeps_rows(1) [OF r] keeps_rows(2) [OF e] issue_pair_keeps [OF p]
        appends_trans by metis
  qed
qed

lemma signup_appends: "appends_account d (snd (signup env now salt rq d))"
proof (cases "idempotency_hmac env (sr_key rq)")
  case (Inr idem)
  let ?b = "signup_body env now salt rq idem d"
  have "appends_account d (snd (committed d ?b))"
    by (cases ?b) (auto simp: appends_account_def dest: signup_body_appends)
  moreover have "appends_account d (snd (committed d (replay_signup_receipt env now r fp pw d)))" for r fp pw
    by (rule appends_keeps, rule committed_keeps)
      (auto simp: replay_signup_receipt_def rbind_Inr_iff dest: issue_pair_keeps)
  ultimately show ?thesis
    by (auto simp: signup_def Inr appends_keeps split: sum.splits auth_error.splits option.splits)
qed (simp add: signup_def appends_keeps)

lemma reset_body_effect:
  assumes "reset_body env now salt ticket pw idem cid d0 = Inr (u, d')"
  shows "keeps_users d0 d' \<or> resets_password env d0 d'"
proof -
  let ?d = "lock_operation_idempotency Reset_receipt idem d0"
  have k: "keeps_users d0 ?d" by (rule keeps_writes)
  show ?thesis
  proof (cases "receipt_for ?d Reset_receipt idem")
    case (Some r)
    then have "d' = ?d" using assms by (auto simp: reset_body_def Let_def rbind_Inr_iff)
    then show ?thesis using k by simp
  next
    case None
    obtain t a d2 correlation where t: "reset_target env now ticket ?d = Inr (t, a)"
      and r: "create_receipt \<lparr>rc_operation = Reset_receipt, rc_idempotency_key_hmac = idem,
          rc_request_fingerprint_hmac = reset_fingerprint env ticket pw, rc_user = ac_id a,
          rc_auth_version_at_completion = ac_auth_version (set_password env salt pw a), rc_completed_at = now\<rparr>
        (consume_ticket now t (revoke_tokens (ac_id a) (save_account (set_password env salt pw a) ?d))) = Inr d2"
      and e: "record_audit (reset_audit a (set_password env salt pw a) correlation) d2 = Inr d'"
      using assms None by (auto simp: reset_body_def Let_def rbind_Inr_iff)
    have "keeps_users (save_account (set_password env salt pw a) ?d) d'"
      using keeps_writes(1,3) keeps_rows(1) [OF r] keeps_rows(2) [OF e] keeps_users_trans by metis
    moreover have "a \<in> set (au_accounts d0)" "customer_account a"
      using reset_target_rows(2,3) [OF t] by simp_all
    ultimately have "resets_password env d0 d'"
      using k unfolding resets_password_def keeps_users_def save_account_def by fastforce
    then show ?thesis ..
  qed
qed

lemma reset_effect:
  "keeps_users d (snd (confirm_password_reset env now salt ticket pw key cid d)) \<or>
   resets_password env d (snd (confirm_password_reset env now salt ticket pw key cid d))"
proof (cases "idempotency_hmac env key")
  case (Inr idem)
  let ?b = "reset_body env now salt ticket pw idem cid d"
  have "keeps_users d (snd (committed d ?b)) \<or> resets_password env d (snd (committed d ?b))"
    by (cases ?b) (auto dest: reset_body_effect)
  then show ?thesis by (auto simp: confirm_password_reset_def Inr)
qed (simp add: confirm_password_reset_def)

section \<open>Administrators that remain\<close>

definition superuser_remains :: "auth_env \<Rightarrow> auth_db \<Rightarrow> bool" where
  "superuser_remains env d = (\<exists>a \<in> set (au_accounts d). active_superuser env a)"

definition admin_remains :: "auth_env \<Rightarrow> auth_db \<Rightarrow> bool" where
  "admin_remains env d =
     (\<exists>g. policy_group d = Some g \<and> (\<exists>a \<in> set (au_accounts d). practical_admin env g a))"

text \<open>Django's hasher: a password it has hashed is usable.\<close>

definition hashes_usable :: "auth_env \<Rightarrow> bool" where
  "hashes_usable env = (\<forall>salt pw. en_password_usable env (en_make_password env salt pw))"

text \<open>A holder of a role remains when one account is replaced by one that still holds it or another holds it.\<close>

lemma replaced_remains:
  assumes "a \<in> set xs" and "P a" and "t \<in> set xs" and "ac_id t' = ac_id t" and "distinct (map ac_id xs)"
    and "P t \<Longrightarrow> P t' \<or> (\<exists>b \<in> set xs. ac_id b \<noteq> ac_id t \<and> P b)"
  shows "\<exists>b \<in> set (put_row ac_id t' xs). P b"
proof (cases "ac_id a = ac_id t")
  case True
  then have "a = t" using key_unique [OF assms(5)] assms(1,3) by blast
  then consider "P t'" | b where "b \<in> set xs" "ac_id b \<noteq> ac_id t" "P b" using assms(2,6) by blast
  then show ?thesis
  proof cases
    case 1
    then show ?thesis using in_put_row [OF assms(3), of ac_id t'] assms(4) by auto
  next
    case 2
    then show ?thesis using in_put_row_other [of b xs ac_id t'] assms(4) by auto
  qed
next
  case False
  then show ?thesis using in_put_row_other [OF assms(1), of ac_id t'] assms(2,4) by auto
qed

lemma superuser_protected:
  "protect_last_superuser env t d = Inr () \<Longrightarrow> active_superuser env t \<Longrightarrow>
     \<exists>b \<in> set (au_accounts d). ac_id b \<noteq> ac_id t \<and> active_superuser env b"
  by (auto simp: protect_last_superuser_def guard_or_iff list_ex_iff active_superuser_def)

lemma admin_protected:
  "protect_last_practical_admin env t g d = Inr () \<Longrightarrow> practical_admin env g t \<Longrightarrow>
     \<exists>b \<in> set (au_accounts d). ac_id b \<noteq> ac_id t \<and> practical_admin env g b"
  by (auto simp: protect_last_practical_admin_def guard_or_iff list_ex_iff practical_admin_def synthetic_operator_def)

text \<open>The policy group an administrative operation works with has the policy's permissions.\<close>

lemma the_row_put:
  assumes "the_row P xs = Some x" and "key x = key r" and "P r"
  shows "the_row P (put_row key r xs) = Some r"
  using assms(1)
proof (induction xs)
  case (Cons y ys)
  then show ?case using assms(2,3) by (auto simp: the_row_def put_row_def split: if_splits)
qed (simp add: the_row_def)

lemma the_row_append: "the_row P xs = None \<Longrightarrow> the_row P (xs @ [x]) = (if P x then Some x else None)"
  unfolding the_row_def by (induction xs) (auto split: if_splits)

lemma policy_permissions_suffice:
  "set (map pm_codename (filter user_permission (policy_permissions d))) = set (map pm_codename (policy_permissions d))"
  by (auto simp: policy_permissions_def)

lemma ensured_group:
  assumes "ensure_policy_group d = Inr (g, d1)"
  shows "policy_group d1 = Some g"
    and "policy_group d = Some g0 \<Longrightarrow> practical_admin env g0 a \<Longrightarrow> practical_admin env g a"
proof -
  have p: "set (map pm_codename (policy_permissions d)) = set ACCOUNT_ADMIN_PERMISSION_CODES"
    using assms by (auto simp: ensure_policy_group_def split: if_splits)
  have named: "gr_name x = ACCOUNT_ADMIN_GROUP" if "policy_group d = Some x" for x
    using that by (auto simp: policy_group_def dest: the_row_Some)
  show "policy_group d1 = Some g"
  proof (cases "policy_group d")
    case (Some x)
    then have "policy_group (d\<lparr>au_groups := put_row gr_id (x\<lparr>gr_permissions := policy_permissions d\<rparr>) (au_groups d)\<rparr>) =
        Some (x\<lparr>gr_permissions := policy_permissions d\<rparr>)"
      using the_row_put [of "\<lambda>g. gr_name g = ACCOUNT_ADMIN_GROUP" "au_groups d" x gr_id
          "x\<lparr>gr_permissions := policy_permissions d\<rparr>"] named [OF Some] by (simp add: policy_group_def)
    then show ?thesis using assms Some p by (auto simp: ensure_policy_group_def Let_def split: if_splits)
  next
    case None
    let ?x = "\<lparr>gr_id = au_next d, gr_name = ACCOUNT_ADMIN_GROUP, gr_permissions = []\<rparr>"
    let ?xs = "au_groups d @ [?x]"
    have "the_row (\<lambda>g. gr_name g = ACCOUNT_ADMIN_GROUP) ?xs = Some ?x"
      using the_row_append [OF None [unfolded policy_group_def], of ?x] by simp
    then have "the_row (\<lambda>g. gr_name g = ACCOUNT_ADMIN_GROUP)
        (put_row gr_id (?x\<lparr>gr_permissions := policy_permissions d\<rparr>) ?xs) =
        Some (?x\<lparr>gr_permissions := policy_permissions d\<rparr>)"
      by (rule the_row_put) simp_all
    moreover have "set (map pm_codename (gr_permissions ?x)) \<noteq> set ACCOUNT_ADMIN_PERMISSION_CODES"
      by (simp add: ACCOUNT_ADMIN_PERMISSION_CODES_def)
    then have "g = ?x\<lparr>gr_permissions := policy_permissions d\<rparr>"
      "au_groups d1 = put_row gr_id (?x\<lparr>gr_permissions := policy_permissions d\<rparr>) ?xs"
      using assms p by (auto simp: ensure_policy_group_def None Let_def)
    ultimately show ?thesis by (simp add: policy_group_def)
  qed
  show "practical_admin env g a" if g0: "policy_group d = Some g0" "practical_admin env g0 a"
  proof -
    have "g = g0 \<or> g = g0\<lparr>gr_permissions := policy_permissions d\<rparr>"
      using assms g0 p by (auto simp: ensure_policy_group_def Let_def split: if_splits)
    moreover have "practical_admin env (g0\<lparr>gr_permissions := policy_permissions d\<rparr>) a"
    proof -
      have "set ACCOUNT_ADMIN_PERMISSION_CODES \<subseteq>
          set (map pm_codename (filter user_permission (policy_permissions d)))"
        unfolding policy_permissions_suffice p ..
      then show ?thesis using g0(2) unfolding practical_admin_def by simp
    qed
    ultimately show ?thesis using g0(2) by auto
  qed
qed

definition administered :: "auth_env \<Rightarrow> auth_db \<Rightarrow> bool" where
  "administered env d = (keys_ok d \<and> superuser_remains env d \<and> admin_remains env d)"

text \<open>An administrative operation that keeps or hands over the roles of its target.\<close>

lemma change_administered:
  assumes "account_change env rq d g t r d1 d'" and "administered env d"
    and "active_superuser env t \<Longrightarrow>
      active_superuser env r \<or> (\<exists>b \<in> set (au_accounts d). ac_id b \<noteq> ac_id t \<and> active_superuser env b)"
    and "practical_admin env g t \<Longrightarrow>
      practical_admin env g r \<or> (\<exists>b \<in> set (au_accounts d). ac_id b \<noteq> ac_id t \<and> practical_admin env g b)"
  shows "administered env d'"
proof -
  note rows = account_change_rows [OF assms(1)]
  have k: "keys_ok d" using assms(2) by (simp add: administered_def)
  then have dk: "distinct (map ac_id (au_accounts d))" by (simp add: keys_ok_def)
  have id: "ac_id r = ac_id t" using rows(3) by (simp add: account_evolves_def)
  obtain a where a: "a \<in> set (au_accounts d)" "active_superuser env a"
    using assms(2) by (auto simp: administered_def superuser_remains_def)
  obtain g0 b where g0: "policy_group d = Some g0" and b: "b \<in> set (au_accounts d)" "practical_admin env g0 b"
    using assms(2) by (auto simp: administered_def admin_remains_def)
  have "\<exists>x \<in> set (put_row ac_id r (au_accounts d)). active_superuser env x"
    using replaced_remains [of a _ "active_superuser env", OF a rows(1) id dk assms(3)] by blast
  moreover have "practical_admin env g b" by (rule ensured_group(2) [OF rows(6) g0 b(2)])
  then have "\<exists>x \<in> set (put_row ac_id r (au_accounts d)). practical_admin env g x"
    using replaced_remains [of b _ "practical_admin env g", OF b(1) _ rows(1) id dk assms(4)] by blast
  moreover have "policy_group d' = Some g"
    using ensured_group(1) [OF rows(6)] rows(7) by (simp add: policy_group_def)
  moreover have "keys_ok d'" using rows(5) k by (simp add: evolves_def)
  ultimately show ?thesis
    using rows(4) by (simp add: administered_def superuser_remains_def admin_remains_def)
qed

lemma accounts_of_change:
  "account_change env rq d g t r d1 d' \<Longrightarrow> au_accounts d1 = au_accounts d"
  unfolding account_change_def using authorized_Inr(2) by blast

lemma deactivate_administered:
  "deactivate env rq d = (Inr r, d') \<Longrightarrow> administered env d \<Longrightarrow> administered env d'"
proof (erule deactivate_change)
  fix t g d1
  assume "administered env d" and c: "account_change env rq d g t r d1 d'"
    and p: "protect_last_superuser env t d1 = Inr ()" "protect_last_practical_admin env t g d1 = Inr ()"
  then show "administered env d'"
    using superuser_protected [OF p(1)] admin_protected [OF p(2)] accounts_of_change [OF c]
    by (intro change_administered [OF c]) simp_all
qed

lemma reactivate_administered:
  "reactivate env rq d = (Inr r, d') \<Longrightarrow> administered env d \<Longrightarrow> administered env d'"
proof (erule reactivate_change)
  fix t g d1
  assume "administered env d" and c: "account_change env rq d g t r d1 d'" and i: "\<not> ac_is_active t"
  then show "administered env d'"
    by (intro change_administered [OF c]) (simp_all add: active_superuser_def practical_admin_def synthetic_operator_def)
qed

lemma update_administered:
  assumes "hashes_usable env"
  shows "update_consultant_credentials env salt name pw rq d = (Inr r, d') \<Longrightarrow> administered env d \<Longrightarrow>
    administered env d'"
proof (erule update_change)
  fix t g d1 nm
  assume "administered env d" and c: "account_change env rq d g t r d1 d'" and i: "ac_role_code t = ''CONSULTANT''"
    and r: "r = with_credentials env salt nm pw t"
  then show "administered env d'"
    using assms
    by (intro change_administered [OF c])
      (auto simp: active_superuser_def practical_admin_def synthetic_operator_def with_credentials_def
        usable_password_def hashes_usable_def split: option.split)
qed

lemma grant_administered:
  "grant_account_admin env rq d = (Inr r, d') \<Longrightarrow> administered env d \<Longrightarrow> administered env d'"
proof (erule grant_change)
  fix t g d1
  assume "administered env d" and c: "account_change env rq d g t r d1 d'"
    and r: "r = t\<lparr>ac_groups := remdups (ac_groups t @ [gr_id g]), ac_is_staff := True,
         ac_auth_version := ac_auth_version t + 1\<rparr>"
  then show "administered env d'"
    by (intro change_administered [OF c])
      (auto simp: active_superuser_def practical_admin_def synthetic_operator_def usable_password_def)
qed

lemma revoke_administered:
  "revoke_account_admin env rq d = (Inr r, d') \<Longrightarrow> administered env d \<Longrightarrow> administered env d'"
proof (erule revoke_change)
  fix t g d1
  assume "administered env d" and c: "account_change env rq d g t r d1 d'" and i: "\<not> ac_is_superuser t"
    and p: "protect_last_practical_admin env t g d1 = Inr ()"
  then show "administered env d'"
    using admin_protected [OF p] accounts_of_change [OF c]
    by (intro change_administered [OF c]) (simp_all add: active_superuser_def)
qed

lemma keeps_accounts_administered:
  "\<lbrakk> keeps_accounts d d'; evolves d d'; administered env d \<rbrakk> \<Longrightarrow> administered env d'"
  by (simp add: administered_def keeps_accounts_def superuser_remains_def admin_remains_def policy_group_def evolves_def)

lemma appends_administered:
  "\<lbrakk> appends_account d d'; evolves d d'; administered env d \<rbrakk> \<Longrightarrow> administered env d'"
  by (auto simp: administered_def appends_account_def superuser_remains_def admin_remains_def policy_group_def evolves_def)

lemma resets_administered:
  assumes "hashes_usable env" and "resets_password env d d'" and "evolves d d'" and "administered env d"
  shows "administered env d'"
proof -
  obtain t salt pw where t: "t \<in> set (au_accounts d)" "customer_account t"
    and e: "au_accounts d' = put_row ac_id (set_password env salt pw t) (au_accounts d)"
    and g: "au_groups d' = au_groups d"
    using assms(2) by (auto simp: resets_password_def)
  let ?r = "set_password env salt pw t"
  have dk: "distinct (map ac_id (au_accounts d))" and id: "ac_id ?r = ac_id t"
    using assms(4) by (simp_all add: administered_def keys_ok_def set_password_def)
  obtain a where a: "a \<in> set (au_accounts d)" "active_superuser env a"
    using assms(4) by (auto simp: administered_def superuser_remains_def)
  obtain g0 b where g0: "policy_group d = Some g0" and b: "b \<in> set (au_accounts d)" "practical_admin env g0 b"
    using assms(4) by (auto simp: administered_def admin_remains_def)
  have "active_superuser env t \<Longrightarrow> active_superuser env ?r"
    using assms(1) by (simp add: active_superuser_def set_password_def usable_password_def hashes_usable_def)
  then have "\<exists>x \<in> set (put_row ac_id ?r (au_accounts d)). active_superuser env x"
    using replaced_remains [of a _ "active_superuser env", OF a t(1) id dk] by blast
  moreover have "\<not> practical_admin env g0 t"
    using t(2) by (simp add: practical_admin_def synthetic_operator_def customer_account_def)
  then have "\<exists>x \<in> set (put_row ac_id ?r (au_accounts d)). practical_admin env g0 x"
    using replaced_remains [of b _ "practical_admin env g0", OF b t(1) id dk] by blast
  ultimately show ?thesis
    using assms(3,4) g0 g by (simp add: e administered_def superuser_remains_def admin_remains_def policy_group_def evolves_def)
qed

lemma keeps_users_accounts: "keeps_users d d' \<Longrightarrow> keeps_accounts d d'"
  by (simp add: keeps_users_def keeps_accounts_def)

lemma change_result:
  assumes "\<And>r d'. m = (Inr r, d') \<Longrightarrow> Q d'" and "\<And>e d'. m = (Inl e, d') \<Longrightarrow> d' = d" and "Q d"
  shows "Q (snd m)"
  using assms by (cases m; cases "fst m") auto

lemma lifecycle_administered:
  assumes "administered env d"
  shows "administered env (snd (deactivate env rq d))" "administered env (snd (reactivate env rq d))"
    "hashes_usable env \<Longrightarrow> administered env (snd (update_consultant_credentials env salt name pw rq d))"
    "administered env (snd (grant_account_admin env rq d))" "administered env (snd (revoke_account_admin env rq d))"
  by (rule change_result [where Q = "administered env"], erule deactivate_administered [OF _ assms],
      erule lifecycle_refused, rule assms)
    (rule change_result [where Q = "administered env"],
      erule reactivate_administered [OF _ assms] update_administered [OF _ _ assms, rotated] grant_administered [OF _ assms]
        revoke_administered [OF _ assms], (assumption | erule lifecycle_refused | rule assms)+)+

lemma auth_step_administered:
  assumes "hashes_usable env" and "administered env d"
  shows "administered env (auth_step env l d)"
proof -
  obtain now op where l: "l = (now, op)" by (cases l)
  note keep = keeps_accounts_administered [OF _ _ assms(2)] keeps_users_accounts
  show ?thesis unfolding l
  proof (cases op)
    case (Reset_password salt ticket pw key cid)
    consider "keeps_users d (snd (confirm_password_reset env now salt ticket pw key cid d))"
      | "resets_password env d (snd (confirm_password_reset env now salt ticket pw key cid d))"
      using reset_effect by blast
    then show "administered env (auth_step env (now, op) d)"
      by (cases; simp add: Reset_password keep confirm_password_reset_evolves
          resets_administered [OF assms(1) _ _ assms(2)])
  next
    case (Elsewhere profiles contacts contracts links)
    have "keeps_accounts d (auth_step env (now, op) d)" by (simp add: Elsewhere keeps_accounts_def)
    then show "administered env (auth_step env (now, op) d)" by (rule keep(1) [OF _ auth_step_evolves])
  next
    case (Sign_up salt rq)
    then show "administered env (auth_step env (now, op) d)"
      using appends_administered [OF signup_appends signup_evolves assms(2)] by simp
  next
    case (Deactivate rq)
    then show "administered env (auth_step env (now, op) d)" using lifecycle_administered(1) [OF assms(2)] by simp
  next
    case (Reactivate rq)
    then show "administered env (auth_step env (now, op) d)" using lifecycle_administered(2) [OF assms(2)] by simp
  next
    case (Update_credentials salt name pw rq)
    then show "administered env (auth_step env (now, op) d)" using lifecycle_administered(3) [OF assms(2) assms(1)] by simp
  next
    case (Grant_admin rq)
    then show "administered env (auth_step env (now, op) d)" using lifecycle_administered(4) [OF assms(2)] by simp
  next
    case (Revoke_admin rq)
    then show "administered env (auth_step env (now, op) d)" using lifecycle_administered(5) [OF assms(2)] by simp
  qed (simp_all add: keep verify_keeps verify_evolves login_keeps login_evolves token_operations_keep
      token_operations_evolve create_challenge_keeps create_challenge_evolves process_pending_def
      process_loop_keeps process_loop_evolves)
qed

interpretation auth_administration:
  inductive_invariant "\<lambda>d. hashes_usable env \<and> administered env d" "\<lambda>d l d'. d' = auth_step env l d"
    "\<lambda>d. hashes_usable env \<and> administered env d" for env
  by unfold_locales (auto intro: auth_step_administered)

lemma steps_administered:
  "hashes_usable env \<Longrightarrow> administered env d \<Longrightarrow> administered env (auth_steps env ls d)"
  by (induction ls arbitrary: d) (simp_all add: auth_step_administered)

end
