(* ===== verification/AuthOutbox.thy ===== *)
theory AuthOutbox
  imports AuthSafety
begin

text \<open>
  The outbox of codes: its rows stay well formed in every sequence of requests, a run of the worker
  always ends with an answer, and the attempts that are left bound the rows it can process.
\<close>

section \<open>A well formed outbox\<close>

definition outbox_wf :: "auth_db \<Rightarrow> bool" where
  "outbox_wf d =
     (keys_ok d \<and> (\<forall>r \<in> set (au_outbox d). outbox_ok r \<and> challenge_of d (ob_challenge r) \<noteq> None))"

lemma challenge_of_iff: "challenge_of d k \<noteq> None \<longleftrightarrow> k \<in> ch_id ` set (au_challenges d)"
  by (auto simp: challenge_of_def the_row_None)

lemma challenges_stay:
  assumes "evolves d d'" and "keys_ok d"
  shows "ch_id ` set (au_challenges d) \<subseteq> ch_id ` set (au_challenges d')"
proof
  fix k assume "k \<in> ch_id ` set (au_challenges d)"
  then obtain c where c: "c \<in> set (au_challenges d)" "k = ch_id c" by blast
  have "grown challenge_evolves (au_challenges d) (au_challenges d')"
    using assms by (simp add: evolves_def auth_later_def)
  then obtain e where "e \<in> set (au_challenges d')" "challenge_evolves c e" using grown_in c(1) by metis
  then show "k \<in> ch_id ` set (au_challenges d')" using c(2) by (metis challenge_evolves_def image_eqI)
qed

lemma outbox_wf_grows:
  assumes "outbox_wf d" and "evolves d d'"
    and "\<And>r. r \<in> set (au_outbox d') \<Longrightarrow> r \<in> set (au_outbox d) \<or>
      (outbox_ok r \<and> ob_challenge r \<in> ch_id ` set (au_challenges d'))"
  shows "outbox_wf d'"
proof -
  have k: "keys_ok d" using assms(1) by (simp add: outbox_wf_def)
  have "keys_ok d'" using assms(2) k by (simp add: evolves_def)
  moreover have "outbox_ok r \<and> ob_challenge r \<in> ch_id ` set (au_challenges d')" if "r \<in> set (au_outbox d')" for r
    using assms(3) [OF that] challenges_stay [OF assms(2) k] assms(1)
    unfolding outbox_wf_def challenge_of_iff by blast
  ultimately show ?thesis unfolding outbox_wf_def challenge_of_iff by blast
qed

lemma outbox_wf_same:
  assumes "outbox_wf d" and "evolves d d'" and "au_outbox d' = au_outbox d"
  shows "outbox_wf d'"
  by (rule outbox_wf_grows [OF assms(1,2)]) (simp add: assms(3))

section \<open>One row\<close>

text \<open>The attempts left: what a run of the worker can do at most.\<close>

definition attempts_left :: "outbox_row \<Rightarrow> nat" where
  "attempts_left r = (if ob_status r = Pending then nat (ob_max_attempts r - ob_attempt_count r) else 0)"

definition pending_attempts :: "auth_db \<Rightarrow> nat" where
  "pending_attempts d = sum_list (map attempts_left (au_outbox d))"

lemma processed_row_ok:
  assumes "outbox_ok r" and "due now r"
  shows "outbox_ok (fst (processed_row env now send r c d))"
    and "attempts_left (fst (processed_row env now send r c d)) < attempts_left r"
    and "ob_challenge (fst (processed_row env now send r c d)) = ob_challenge r"
proof -
  have r: "0 \<le> ob_attempt_count r" "1 \<le> ob_max_attempts r" "ob_status r = Pending" "ob_encrypted_otp r \<noteq> []"
    "ob_sent_at r = None" "ob_attempt_count r < ob_max_attempts r"
    using assms by (auto simp: outbox_ok_def due_def)
  have a: "outbox_ok (fst (attempted_row now r x)) \<and> attempts_left (fst (attempted_row now r x)) < attempts_left r \<and>
      ob_challenge (fst (attempted_row now r x)) = ob_challenge r" for x
    using r by (auto simp: attempted_row_def Let_def outbox_ok_def attempts_left_def)
  have s: "outbox_ok (suppressed_row r) \<and> attempts_left (suppressed_row r) < attempts_left r \<and>
      ob_challenge (suppressed_row r) = ob_challenge r"
    using r by (auto simp: suppressed_row_def outbox_ok_def attempts_left_def)
  show "outbox_ok (fst (processed_row env now send r c d))"
    "attempts_left (fst (processed_row env now send r c d)) < attempts_left r"
    "ob_challenge (fst (processed_row env now send r c d)) = ob_challenge r"
    using processed_row_cases [of env now send r c d] a s by auto
qed

lemma sum_put_row:
  assumes "distinct (map key xs)" and "x \<in> set xs" and "key s = key x"
  shows "sum_list (map f (put_row key s xs)) + f x = sum_list (map f xs) + (f s :: nat)"
  using assms(1,2)
proof (induction xs)
  case (Cons y ys)
  show ?case
  proof (cases "key y = key x")
    case True
    then have "y = x" using Cons.prems assms(3) by (metis key_unique list.set_intros(1))
    moreover have "\<forall>z \<in> set ys. key z \<noteq> key s" using Cons.prems(1) assms(3) True by (auto simp: image_iff)
    then have "put_row key s ys = ys" by (auto simp: put_row_def intro!: map_idI)
    ultimately show ?thesis using assms(3) by (simp add: put_row_def)
  next
    case False
    then have "x \<in> set ys" using Cons.prems(2) by auto
    then show ?thesis using Cons.IH Cons.prems(1) False assms(3) by (simp add: put_row_def)
  qed
qed simp

lemma process_one_total:
  assumes "outbox_wf d"
  obtains "process_one env now send d = Inr (None, d)" "next_due now d = None"
  | w d' where "process_one env now send d = Inr (Some w, d')" "outbox_wf d'"
      "pending_attempts d' < pending_attempts d"
proof (cases "next_due now d")
  case None
  then show ?thesis using that(1) by (simp add: process_one_def)
next
  case (Some r)
  note r = next_due_in [OF Some]
  have k: "keys_ok d" and ok: "outbox_ok r" using assms r by (auto simp: outbox_wf_def)
  obtain c where c: "challenge_of d (ob_challenge r) = Some c"
    using assms r by (auto simp: outbox_wf_def)
  let ?c = "c\<lparr>ch_delivery_attempted := True\<rparr>"
  let ?d = "save_challenge ?c d"
  let ?s = "fst (processed_row env now send r ?c ?d)"
  let ?d' = "?d\<lparr>au_outbox := put_row ob_id ?s (au_outbox d)\<rparr>"
  note s = processed_row_ok [OF ok conjunct2 [OF r], of env send ?c ?d]
  have p: "process_one env now send d = Inr (Some (snd (processed_row env now send r ?c ?d)), ?d')"
    using s(1) by (simp add: process_one_def Some c save_outbox_def save_challenge_def Let_def)
  have "r \<in> set (au_outbox d)" using r by simp
  moreover have "distinct (map ob_id (au_outbox d))" using k by (simp add: keys_ok_def)
  ultimately have "pending_attempts ?d' + attempts_left r = pending_attempts d + attempts_left ?s"
    using sum_put_row [of ob_id "au_outbox d" r ?s attempts_left] by (simp add: pending_attempts_def)
  moreover have "outbox_wf ?d'"
  proof (rule outbox_wf_grows [OF assms process_one_evolves [OF p]])
    fix x assume "x \<in> set (au_outbox ?d')"
    then have "x \<in> set (put_row ob_id ?s (au_outbox d))" by simp
    then have "x \<in> insert ?s (set (au_outbox d))" by (rule subsetD [OF set_put_row])
    moreover have "ob_challenge r \<in> ch_id ` set (au_challenges d)"
      using c challenge_of_iff [of d "ob_challenge r"] by simp
    then have "ob_challenge r \<in> ch_id ` set (au_challenges ?d')"
      by (rule subsetD [OF challenges_stay [OF process_one_evolves [OF p] k]])
    ultimately show "x \<in> set (au_outbox d) \<or> (outbox_ok x \<and> ob_challenge x \<in> ch_id ` set (au_challenges ?d'))"
      using s(1,3) by auto
  qed
  ultimately show ?thesis using that(2) [OF p] s(2) by simp
qed

section \<open>A run of the worker\<close>

lemma process_loop_ends:
  assumes "outbox_wf d" and "pending_attempts d < n"
  shows "\<exists>counts' d' k. process_loop env clock send n counts d = (Inr counts', d') \<and> k < n \<and>
    next_due (clock k) d' = None \<and> outbox_wf d' \<and>
    oc_processed counts' + pending_attempts d' \<le> oc_processed counts + pending_attempts d"
  using assms
proof (induction n arbitrary: counts d)
  case (Suc n)
  from Suc.prems(1) show ?case
  proof (rule process_one_total [where env = env and now = "clock n" and send = "send n"])
    assume "process_one env (clock n) (send n) d = Inr (None, d)" "next_due (clock n) d = None"
    then show ?thesis using Suc.prems(1) by auto
  next
    fix w d1
    assume p: "process_one env (clock n) (send n) d = Inr (Some w, d1)" "outbox_wf d1"
      "pending_attempts d1 < pending_attempts d"
    have "pending_attempts d1 < n" using p(3) Suc.prems(2) by simp
    then obtain counts' d' k where "process_loop env clock send n (count_outcome w counts) d1 = (Inr counts', d')"
      "k < n" "next_due (clock k) d' = None" "outbox_wf d'"
      "oc_processed counts' + pending_attempts d' \<le> oc_processed (count_outcome w counts) + pending_attempts d1"
      using Suc.IH [OF p(2)] by blast
    moreover have "oc_processed (count_outcome w counts) = Suc (oc_processed counts)"
      by (simp add: count_outcome_def Let_def)
    ultimately show ?thesis using p(1,3) by (auto intro!: exI [of _ k])
  qed
qed simp

section \<open>The outbox through every request\<close>

lemma keeps_outbox: "keeps_users d d' \<Longrightarrow> au_outbox d' = au_outbox d"
  by (simp add: keeps_users_def)

lemma process_loop_wf:
  "outbox_wf d \<Longrightarrow> outbox_wf (snd (process_loop env clock send n counts d))"
proof (induction n arbitrary: counts d)
  case (Suc n)
  from Suc.prems show ?case
    by (rule process_one_total [where env = env and now = "clock n" and send = "send n"])
      (simp_all add: Suc.IH Suc.prems)
qed simp

lemma create_body_wf:
  assumes "create_body env now draw p ident idem d = Inr (r, d')" and "outbox_wf d"
  shows "outbox_wf d'"
proof (rule outbox_wf_grows [OF assms(2) create_body_evolves [OF assms(1)]])
  fix x assume "x \<in> set (au_outbox d')"
  with assms(1) show "x \<in> set (au_outbox d) \<or> (outbox_ok x \<and> ob_challenge x \<in> ch_id ` set (au_challenges d'))"
    by (elim create_body_Inr enqueue_Inr) (auto simp: put_bucket_def add_challenge_def)
qed

lemma create_challenge_wf:
  assumes "outbox_wf d"
  shows "outbox_wf (snd (create_challenge env now draw p ident key d))"
proof (cases "idempotency_hmac env key")
  case (Inr idem)
  let ?r = "create_body env now draw p ident idem d"
  have "outbox_wf (snd (committed d ?r))"
    using assms by (cases ?r) (auto dest: create_body_wf)
  then show ?thesis
    using assms by (auto simp: create_challenge_def Inr split: sum.splits auth_error.splits option.splits)
qed (simp add: create_challenge_def assms)

lemma account_change_outbox: "account_change env rq d g t r d1 d' \<Longrightarrow> au_outbox d' = au_outbox d"
  unfolding account_change_def changed_account_def Let_def rbind_pair_iff
  by (auto simp: authorized_def ensure_policy_group_def rbind_Inr_iff record_audit_def revoke_tokens_def
      save_account_def Let_def split: if_splits option.splits)

lemma lifecycle_outbox:
  "au_outbox (snd (deactivate env rq d)) = au_outbox d"
  "au_outbox (snd (reactivate env rq d)) = au_outbox d"
  "au_outbox (snd (update_consultant_credentials env salt name pw rq d)) = au_outbox d"
  "au_outbox (snd (grant_account_admin env rq d)) = au_outbox d"
  "au_outbox (snd (revoke_account_admin env rq d)) = au_outbox d"
  by (rule change_result [where Q = "\<lambda>e. au_outbox e = au_outbox d"];
      blast elim: deactivate_change reactivate_change update_change grant_change revoke_change
        intro: account_change_outbox dest: lifecycle_refused)+

lemma auth_step_outbox_wf:
  assumes "outbox_wf d"
  shows "outbox_wf (auth_step env l d)"
proof -
  obtain now op where l: "l = (now, op)" by (cases l)
  note same = outbox_wf_same [OF assms auth_step_evolves]
  show ?thesis unfolding l
  proof (cases op)
    case (Create_challenge draw p ident key)
    then show "outbox_wf (auth_step env (now, op) d)" using create_challenge_wf [OF assms] by simp
  next
    case (Deliver clock send n)
    then show "outbox_wf (auth_step env (now, op) d)" using process_loop_wf [OF assms] by (simp add: process_pending_def)
  next
    case (Sign_up salt rq)
    have "au_outbox (auth_step env (now, op) d) = au_outbox d"
      using signup_appends [of d env now salt rq] by (simp add: Sign_up appends_account_def)
    then show "outbox_wf (auth_step env (now, op) d)" by (rule same)
  next
    case (Reset_password salt ticket pw key cid)
    have "au_outbox (auth_step env (now, op) d) = au_outbox d"
      using reset_effect [of d env now salt ticket pw key cid]
      by (auto simp: Reset_password keeps_users_def resets_password_def)
    then show "outbox_wf (auth_step env (now, op) d)" by (rule same)
  qed (rule same, simp add: keeps_outbox verify_keeps login_keeps token_operations_keep lifecycle_outbox)+
qed

interpretation auth_outbox: inductive_invariant outbox_wf "\<lambda>d l d'. d' = auth_step env l d" outbox_wf for env
  by unfold_locales (auto intro: auth_step_outbox_wf)

end
