(* ===== verification/AuthFacts.thy ===== *)
theory AuthFacts
  imports AuthOutbox
begin

text \<open>
  Sessions that end, codes that arrive, and audit events that are refused: the facts behind the
  properties of authentication.
\<close>

section \<open>Sessions that end\<close>

text \<open>The account whose sessions a successful request ends.\<close>

fun changed_pk :: "(auth_error + account_row) \<times> auth_db \<Rightarrow> nat option" where
  "changed_pk (Inr a, d) = Some (ac_id a)"
| "changed_pk (Inl e, d) = None"

definition reset_pk :: "auth_env \<Rightarrow> int \<Rightarrow> string \<Rightarrow> string \<Rightarrow> auth_error + unit \<Rightarrow> auth_db \<Rightarrow> nat option" where
  "reset_pk env now ticket key res d =
     (case (idempotency_hmac env key, res, reset_target env now ticket d) of
        (Inr idem, Inr u, Inr (t, a)) \<Rightarrow>
          if receipt_for d Reset_receipt idem = None then Some (ac_id a) else None
      | _ \<Rightarrow> None)"

fun sessions_ended :: "auth_env \<Rightarrow> int \<times> auth_op \<Rightarrow> auth_db \<Rightarrow> nat option" where
  "sessions_ended env (now, Reset_password salt ticket pw key cid) d =
     reset_pk env now ticket key (fst (confirm_password_reset env now salt ticket pw key cid d)) d"
| "sessions_ended env (now, Deactivate rq) d = changed_pk (deactivate env rq d)"
| "sessions_ended env (now, Reactivate rq) d = changed_pk (reactivate env rq d)"
| "sessions_ended env (now, Update_credentials salt name pw rq) d =
     changed_pk (update_consultant_credentials env salt name pw rq d)"
| "sessions_ended env (now, Grant_admin rq) d = changed_pk (grant_account_admin env rq d)"
| "sessions_ended env (now, Revoke_admin rq) d = changed_pk (revoke_account_admin env rq d)"
| "sessions_ended env _ d = None"

text \<open>The step raised the version of the account and blacklisted its refresh tokens.\<close>

definition version_raised :: "auth_db \<Rightarrow> nat \<Rightarrow> auth_db \<Rightarrow> bool" where
  "version_raised d k d' =
     (\<exists>a b. a \<in> set (au_accounts d) \<and> ac_id a = k \<and> b \<in> set (au_accounts d') \<and> account_evolves a b \<and>
        ac_auth_version b = ac_auth_version a + 1 \<and>
        {ot_jti x | x. x \<in> set (au_outstanding d) \<and> ot_user x = Some k} \<subseteq> set (au_blacklist d'))"

lemma change_raises:
  assumes "account_change env rq d g t r d1 d'"
  shows "version_raised d (ac_id r) d'"
proof -
  note rows = account_change_rows [OF assms]
  have id: "ac_id r = ac_id t" using rows(3) by (simp add: account_evolves_def)
  have "r \<in> set (au_accounts d')" unfolding rows(4) by (rule in_put_row [OF rows(1)]) (simp add: id)
  then show ?thesis
    using rows(1,3,8,9) unfolding version_raised_def id by blast
qed

lemma changed_pk_Some: "changed_pk m = Some k \<Longrightarrow> \<exists>r d'. m = (Inr r, d') \<and> ac_id r = k"
  by (cases m rule: changed_pk.cases) auto

lemma lifecycle_raises:
  "deactivate env rq d = (Inr r, d') \<Longrightarrow> version_raised d (ac_id r) d'"
  "reactivate env rq d = (Inr r, d') \<Longrightarrow> version_raised d (ac_id r) d'"
  "update_consultant_credentials env salt name pw rq d = (Inr r, d') \<Longrightarrow> version_raised d (ac_id r) d'"
  "grant_account_admin env rq d = (Inr r, d') \<Longrightarrow> version_raised d (ac_id r) d'"
  "revoke_account_admin env rq d = (Inr r, d') \<Longrightarrow> version_raised d (ac_id r) d'"
  by (blast elim: deactivate_change reactivate_change update_change grant_change revoke_change intro: change_raises)+

lemma lock_current_cong:
  assumes "au_profiles d' = au_profiles d" and "au_contacts d' = au_contacts d"
    and "au_contracts d' = au_contracts d" and "au_links d' = au_links d" and "au_accounts d' = au_accounts d"
  shows "lock_current d' = lock_current d"
  by (rule ext) (unfold lock_current_def assms, rule refl)

lemma lock_current_locks [simp]: "lock_current (d\<lparr>au_locks := x\<rparr>) = lock_current d"
  by (rule lock_current_cong) simp_all

lemma lock_idempotency_reads [simp]:
  "reset_target env now ticket (lock_operation_idempotency op idem d) = reset_target env now ticket d"
  "receipt_for (lock_operation_idempotency op idem d) op' idem' = receipt_for d op' idem'"
  by (simp_all add: lock_operation_idempotency_def reset_target_def ticket_for_def challenge_of_def receipt_for_def)

lemma reset_raises:
  assumes "reset_pk env now ticket key (fst (confirm_password_reset env now salt ticket pw key cid d)) d = Some k"
  shows "version_raised d k (snd (confirm_password_reset env now salt ticket pw key cid d))"
proof -
  let ?c = "confirm_password_reset env now salt ticket pw key cid d"
  obtain idem t a where i: "idempotency_hmac env key = Inr idem" and u: "fst ?c = Inr ()"
    and t: "reset_target env now ticket d = Inr (t, a)" and n: "receipt_for d Reset_receipt idem = None"
    and k: "k = ac_id a"
    using assms by (auto simp: reset_pk_def split: sum.splits if_splits)
  obtain d' where c: "?c = (Inr (), d')" using u by (cases ?c) simp
  then have b: "reset_body env now salt ticket pw idem cid d = Inr ((), d')"
    by (auto simp: confirm_password_reset_def i committed_Inr split: if_splits)
  obtain t' a' d1 where t': "reset_target env now ticket d = Inr (t', a')"
    and d1: "d1 = consume_ticket now t' (revoke_tokens (ac_id a') (save_account (set_password env salt pw a')
      (lock_operation_idempotency Reset_receipt idem d)))"
    and acc: "au_accounts d' = au_accounts d1" and bl: "au_blacklist d' = au_blacklist d1"
    by (rule reset_fresh [OF b]) (simp_all add: n)
  have a': "a' = a" using t t' by simp
  have a: "a \<in> set (au_accounts d)" using reset_target_rows(2) [OF t] .
  have "au_accounts d' = put_row ac_id (set_password env salt pw a) (au_accounts d)"
    by (simp add: acc d1 a' consume_ticket_def save_ticket_def save_account_def)
  then have "set_password env salt pw a \<in> set (au_accounts d')"
    using in_put_row [OF a, of ac_id "set_password env salt pw a"] by (simp add: set_password_def)
  moreover have "{ot_jti x | x. x \<in> set (au_outstanding d) \<and> ot_user x = Some k} \<subseteq> set (au_blacklist d')"
    by (auto simp: bl d1 a' k consume_ticket_def save_ticket_def save_account_def lock_operation_idempotency_def)
  ultimately have "version_raised d k d'"
    unfolding version_raised_def k
    using a set_password_evolves [of a env salt pw] by (force simp: set_password_def)
  then show ?thesis by (simp add: c)
qed

lemma ended_raises:
  assumes "sessions_ended env l d = Some k"
  shows "version_raised d k (auth_step env l d)"
proof -
  obtain now op where l: "l = (now, op)" by (cases l)
  show ?thesis unfolding l
  proof (cases op)
    case (Reset_password salt ticket pw key cid)
    then show "version_raised d k (auth_step env (now, op) d)" using assms l reset_raises by simp
  qed (use assms l lifecycle_raises in \<open>auto dest!: changed_pk_Some\<close>)
qed

text \<open>A token of an earlier version is refused in every later state.\<close>

lemma outdated_subject:
  assumes "keys_ok d" and "b \<in> set (au_accounts d)" and "v < ac_auth_version b"
    and "en_uuid_parse env (strip sub) = Some (ac_public_id b)"
    and "find_active_by_subject env d sub = Some x"
  shows "ac_auth_version x \<noteq> v"
proof -
  have "x \<in> set (au_accounts d)" "ac_public_id x = ac_public_id b"
    using assms(4,5) by (auto simp: find_active_by_subject_def dest: the_row_Some)
  moreover have "distinct (map ac_public_id (au_accounts d))" using assms(1) by (simp add: keys_ok_def)
  ultimately have "x = b" using key_unique assms(2) by metis
  then show ?thesis using assms(3) by simp
qed

definition token_refused :: "auth_env \<Rightarrow> int \<Rightarrow> jwt_claims \<Rightarrow> auth_db \<Rightarrow> bool" where
  "token_refused env now tok d =
     (isl (authenticate env now (Some tok) d) \<and>
      isl (fst (refresh_session env now (Some tok) d)) \<and> snd (refresh_session env now (Some tok) d) = d \<and>
      isl (fst (logout env now (Some tok) d)))"

lemma outdated_refused:
  assumes "keys_ok d" and "b \<in> set (au_accounts d)" and "v < ac_auth_version b"
    and "jc_auth_version tok = PInt v" and "required_claim (jc_sub tok) = Some sub"
    and "en_uuid_parse env (strip sub) = Some (ac_public_id b)"
  shows "token_refused env now tok d"
proof -
  have g: "isl (get_user env d tok)" "isl (active_user_for_refresh env d tok)"
    using outdated_subject [OF assms(1,2,3,6)] assms(4,5)
    by (auto simp: get_user_def active_user_for_refresh_def split: option.splits if_splits)
  have "isl (authenticate env now (Some tok) d)"
    using g(1) by (auto simp: authenticate_def validated_access_def)
  then show ?thesis
    using g(2) by (cases "active_user_for_refresh env d tok")
      (auto simp: token_refused_def refresh_session_def logout_def validated_refresh_def)
qed

section \<open>Codes that arrive\<close>

text \<open>What Fernet documents: it decrypts what it encrypted, and its tokens are ASCII texts.\<close>

definition fernet_laws :: "auth_env \<Rightarrow> bool" where
  "fernet_laws env =
     (\<forall>nonce p. is_ascii p \<longrightarrow>
        en_fernet_decrypt env (en_fernet_encrypt env nonce p) = Some p \<and>
        is_ascii (en_fernet_encrypt env nonce p) \<and> en_fernet_encrypt env nonce p \<noteq> [])"

lemma digit_decimal: "digit (n mod 10) \<in> set ''0123456789''"
proof -
  have "list_all (\<lambda>d. digit d \<in> set ''0123456789'') [0..<10]" by code_simp
  moreover have "n mod 10 \<in> set [0..<10]" by simp
  ultimately show ?thesis unfolding list_all_iff by blast
qed

lemma digits_decimal: "set (base_digits 10 w n) \<subseteq> set ''0123456789''"
proof (induction w arbitrary: n)
  case (Suc w)
  then show ?case using digit_decimal [of n] by (simp only: base_digits.simps set_append) simp
qed simp

lemma digits_ascii: "set s \<subseteq> set ''0123456789'' \<Longrightarrow> is_ascii s"
proof -
  have "list_all (\<lambda>c. of_char c < (128 :: nat)) ''0123456789''" by code_simp
  then show "set s \<subseteq> set ''0123456789'' \<Longrightarrow> is_ascii s"
    unfolding is_ascii_def list_all_iff by blast
qed

lemma otp_form: "is_ascii (generate_otp n)" "length (generate_otp n) = 6" "list_all is_digit (generate_otp n)"
  using digits_decimal [of 6 n] digits_ascii
  by (auto simp only: generate_otp_def length_base_digits list_all_iff is_digit_def)

lemma otp_roundtrip:
  assumes "fernet_laws env" and "encrypt_otp env nonce (generate_otp n) = Inr e"
  shows "decrypt_otp env e = Inr (generate_otp n)" "e \<noteq> []"
  using assms otp_form [of n] by (auto simp: encrypt_otp_def decrypt_otp_def fernet_laws_def split: if_splits)

lemma lock_current_contact: "lock_current d c = Some t \<Longrightarrow> ch_contact c = Some (ct_id (tg_contact t))"
  unfolding lock_current_def by (auto simp: Let_def split: option.splits if_splits dest: the_row_Some)

lemma lock_current_row:
  assumes "ch_customer e = ch_customer c" and "ch_contact e = ch_contact c" and "ch_user e = ch_user c"
    and "ch_subscription e = ch_subscription c" and "ch_purpose e = ch_purpose c"
  shows "lock_current d e = lock_current d c"
  unfolding lock_current_def assms by (rule refl)

lemma lock_current_delivery: "lock_current d (c\<lparr>ch_delivery_attempted := b\<rparr>) = lock_current d c"
  by (rule lock_current_row) simp_all

lemma enqueue_resolved:
  assumes "ch_target_resolved c" and "enqueue env now c (Some ct) otp d = Inr d'"
  obtains e where "encrypt_otp env (au_next d) otp = Inr e"
    and "outbox_ok (outbox_entry now c (Some (ct_id ct)) e Pending [] (au_next d))"
    and "d' = d\<lparr>au_outbox := au_outbox d @ [outbox_entry now c (Some (ct_id ct)) e Pending [] (au_next d)],
      au_next := Suc (au_next d)\<rparr>"
  using assms by (cases "encrypt_otp env (au_next d) otp") (auto simp: enqueue_def rbind_Inr_iff guard_or_iff)

text \<open>What a request that creates a resolved challenge leaves.\<close>

definition challenge_created ::
  "auth_env \<Rightarrow> int \<Rightarrow> purpose \<Rightarrow> string \<Rightarrow> challenge_row \<Rightarrow> outbox_row \<Rightarrow> auth_db \<Rightarrow> auth_db \<Rightarrow> bool" where
  "challenge_created env now p otp c row d d1 =
     (c \<in> set (au_challenges d1) \<and> ch_purpose c = p \<and> ch_otp_digest c = otp_digest env (ch_public_id c) p otp \<and>
      ch_expires_at c = now + seconds (en_otp_ttl env) \<and> ch_failure_count c < ch_max_failures c \<and>
      ch_verified_at c = None \<and> ch_consumed_at c = None \<and>
      au_outbox d1 = au_outbox d @ [row] \<and> outbox_ok row \<and> ob_status row = Pending \<and> ob_available_at row = now \<and>
      ob_challenge row = ch_id c \<and> ob_contact row = ch_contact c \<and> ob_attempt_count row = 0 \<and> ob_max_attempts row = 3 \<and>
      (\<exists>nonce. encrypt_otp env nonce otp = Inr (ob_encrypted_otp row)))"

lemma create_challenge_created:
  assumes "keys_ok d" and "idempotency_hmac env key = Inr idem" and "challenge_for d p idem = None"
    and "create_challenge env now draw p ident key d = (Inr data, d1)"
    and "c \<in> set (au_challenges d1)" and "ch_public_id c = cd_challenge_id data" and "ch_target_resolved c"
  obtains row where "challenge_created env now p (generate_otp draw) c row d d1"
proof -
  let ?new = "\<lambda>t. new_challenge env now p t idem (identity_fingerprint env ident) (generate_otp draw) (au_next d)"
  have body: "create_body env now draw p ident idem d = Inr (data, d1)"
    using assms(2-4) by (auto simp: create_challenge_def committed_Inr split: sum.splits auth_error.splits)
  obtain target b d2 where clean: "challenge_clean d (?new target)"
    and e: "enqueue env now (?new target) (map_option tg_contact target) (generate_otp draw)
      (add_challenge now (?new target) d) = Inr d2"
    and data: "data = challenge_data_of env (?new target)" and d1: "d1 = put_bucket b d2"
    using body by (auto simp: create_body_def assms(3) Let_def rbind_Inr_iff guard_or_iff)
  have k1: "keys_ok d1" using create_body_evolves [OF body] assms(1) by (simp add: evolves_def)
  have "au_challenges d2 = au_challenges (add_challenge now (?new target) d)" using e by (rule enqueue_Inr) simp
  then have mem: "?new target \<in> set (au_challenges d1)" by (simp add: d1 put_bucket_def add_challenge_def)
  have c: "c = ?new target"
  proof (rule key_unique [of ch_public_id])
    show "distinct (map ch_public_id (au_challenges d1))" using k1 by (simp add: keys_ok_def)
    show "ch_public_id c = ch_public_id (?new target)" using assms(6) data by (simp add: challenge_data_of_def)
  qed (use assms(5) mem in auto)
  then obtain tg where tg: "target = Some tg" using assms(7) by (auto simp: new_challenge_def)
  let ?d = "add_challenge now (?new target) d"
  let ?row = "\<lambda>en. outbox_entry now (?new target) (Some (ct_id (tg_contact tg))) en Pending [] (au_next ?d)"
  obtain en where en: "encrypt_otp env (au_next ?d) (generate_otp draw) = Inr en" "outbox_ok (?row en)"
    "d2 = ?d\<lparr>au_outbox := au_outbox ?d @ [?row en], au_next := Suc (au_next ?d)\<rparr>"
    by (rule enqueue_resolved [of "?new target" env now "tg_contact tg" "generate_otp draw" ?d d2])
      (use e in \<open>simp_all add: tg new_challenge_def\<close>)
  have o: "au_outbox d1 = au_outbox d @ [?row en]" by (simp add: d1 put_bucket_def en(3) add_challenge_def)
  have "challenge_created env now p (generate_otp draw) c (?row en) d d1"
    unfolding challenge_created_def c
    using mem clean en(1,2) o
    by (auto simp: new_challenge_def tg outbox_entry_def challenge_clean_def)
  then show ?thesis using that by blast
qed

text \<open>A mail library that only ever delivers one given mail.\<close>

definition delivers_only :: "mail \<Rightarrow> mail \<Rightarrow> int option" where
  "delivers_only m x = (if x = m then Some 1 else None)"

lemma challenge_of_Some: "keys_ok d \<Longrightarrow> c \<in> set (au_challenges d) \<Longrightarrow> challenge_of d (ch_id c) = Some c"
  unfolding challenge_of_def using the_row_key [of ch_id "au_challenges d" c "ch_id c" "\<lambda>x. ch_id x = ch_id c"]
  by (simp add: keys_ok_def)

lemma only_due:
  assumes "au_outbox d1 = au_outbox d @ [row]" and "\<forall>r \<in> set (au_outbox d). ob_status r \<noteq> Pending" and "due now1 row"
  shows "next_due now1 d1 = Some row"
proof -
  have "filter (due now1) (au_outbox d1) = [row]"
    using assms by (auto simp: due_def filter_empty_conv)
  then show ?thesis by (simp add: next_due_def first_by_def)
qed

lemma save_challenge_outbox: "au_outbox (save_challenge c d) = au_outbox d"
  by (simp add: save_challenge_def)

lemma created_delivered:
  assumes "fernet_laws env" and k: "keys_ok d1" and created: "challenge_created env now p (generate_otp n) c row d d1"
    and quiet: "\<forall>r \<in> set (au_outbox d). ob_status r \<noteq> Pending"
    and t: "lock_current d1 c = Some t" and to: "otp_recipient env (tg_contact t) = Inr (Some addr)"
    and times: "now \<le> now1" "now1 < ch_expires_at c" and res: "ch_target_resolved c"
  obtains d2 where
    "process_one env now1 (delivers_only \<lparr>ml_recipient = addr, ml_otp = generate_otp n\<rparr>) d1 = Inr (Some ''sent'', d2)"
    and "au_challenges d2 = put_row ch_id (c\<lparr>ch_delivery_attempted := True\<rparr>) (au_challenges d1)"
    and "lock_current d2 = lock_current d1"
proof -
  note cr = created [unfolded challenge_created_def]
  let ?c = "c\<lparr>ch_delivery_attempted := True\<rparr>"
  let ?d = "save_challenge ?c d1"
  let ?send = "delivers_only \<lparr>ml_recipient = addr, ml_otp = generate_otp n\<rparr>"
  have due: "next_due now1 d1 = Some row"
    by (rule only_due [OF _ quiet]) (use cr times(1) in \<open>auto simp: due_def\<close>)
  have c: "challenge_of d1 (ob_challenge row) = Some c" using cr k challenge_of_Some by metis
  obtain nonce where en: "encrypt_otp env nonce (generate_otp n) = Inr (ob_encrypted_otp row)" using cr by blast
  have dec: "decrypt_otp env (ob_encrypted_otp row) = Inr (generate_otp n)"
    using otp_roundtrip(1) [OF assms(1) en] .
  have lc: "lock_current ?d = lock_current d1" by (rule lock_current_cong) (simp_all add: save_challenge_def)
  have "lock_current ?d ?c = Some t" using t by (simp only: lc lock_current_delivery)
  moreover have "deliverable now1 ?c" using cr times(2) res by (simp add: deliverable_def)
  moreover have "ob_contact row = Some (ct_id (tg_contact t))" using cr lock_current_contact [OF t] by metis
  ultimately have "delivery_target now1 row ?c ?d = Some t"
    using cr by (simp add: delivery_target_def)
  then have row: "processed_row env now1 ?send row ?c ?d = attempted_row now1 row (Inr True)"
    by (simp add: processed_row_def dec deliver_otp_def to delivers_only_def)
  let ?s = "fst (attempted_row now1 row (Inr True))"
  have s: "snd (attempted_row now1 row (Inr True)) = ''sent''" "outbox_ok ?s"
    using cr by (auto simp: attempted_row_def Let_def outbox_ok_def)
  let ?d2 = "?d\<lparr>au_outbox := put_row ob_id ?s (au_outbox d1)\<rparr>"
  have "process_one env now1 ?send d1 = Inr (Some ''sent'', ?d2)"
    using s by (simp add: process_one_def due c row save_outbox_def save_challenge_outbox Let_def)
  moreover have "lock_current ?d2 = lock_current d1"
    by (rule lock_current_cong) (simp_all add: save_challenge_def)
  moreover have "au_challenges ?d2 = put_row ch_id ?c (au_challenges d1)" by (simp add: save_challenge_def)
  ultimately show ?thesis using that by blast
qed

lemma right_code_accepted:
  assumes "keys_ok d" and "challenge_named d pid = Some c" and "ch_purpose c = p"
    and "ch_otp_digest c = otp_digest env pid p otp" and "ch_failure_count c < ch_max_failures c"
    and "ch_consumed_at c = None" and "ch_verified_at c = None" and "now < ch_expires_at c" and "crypto_ready env"
    and "ch_target_resolved c" and "lock_current d c = Some t"
  shows "\<exists>x d'. lock_and_verify env now pid p otp d = (Inr (x, t), d')"
proof -
  have "ch_public_id c = pid" using assms(1,2) challenge_named_Some by blast
  moreover have "ch_customer c \<noteq> None" using assms(11) by (auto simp: lock_current_def split: option.splits)
  ultimately show ?thesis
    using assms(3-11) by (simp add: lock_and_verify_def lock_row [OF assms(1)] assms(2))
qed

lemma other_code_refused:
  assumes "keys_ok d" and "challenge_named d pid = Some c" and "otp_digest env pid p otp \<noteq> ch_otp_digest c"
  shows "isl (fst (lock_and_verify env now pid p otp d))"
proof -
  have "ch_public_id c = pid" using assms(1,2) challenge_named_Some by blast
  then show ?thesis
    using assms(3) by (simp add: lock_and_verify_def lock_row [OF assms(1)] assms(2))
qed

section \<open>Audit events that are refused\<close>

lemma contains_prefix: "take (length f) s = f \<Longrightarrow> contains s f"
  by (cases s) auto

lemma contains_append: "contains (a @ f @ b) f"
  by (induction a) (simp_all add: contains_prefix)

lemma lower_append: "ascii_lower (a @ b) = ascii_lower a @ ascii_lower b"
  by (simp add: ascii_lower_def)

text \<open>A text occurs in another.\<close>

definition inside :: "string \<Rightarrow> string \<Rightarrow> bool" where
  "inside x y = (\<exists>a b. y = a @ x @ b)"

lemma inside_trans: "inside x y \<Longrightarrow> inside y z \<Longrightarrow> inside x z"
  unfolding inside_def by (metis append.assoc)

lemma inside_refl: "inside x x"
  unfolding inside_def by (metis append.left_neutral append_Nil2)

lemma inside_surrounded: "inside x y \<Longrightarrow> inside x (a @ y @ b)"
  unfolding inside_def by (metis append.assoc)

lemma inside_joined: "x \<in> set xs \<Longrightarrow> inside x (joined sep xs)"
proof (induction sep xs rule: joined.induct)
  case (2 sep y)
  then show ?case by (simp add: inside_refl)
next
  case (3 sep y z zs)
  show ?case
  proof (cases "x = y")
    case True
    then show ?thesis
      using inside_surrounded [OF inside_refl, of x "[]" "sep @ joined sep (z # zs)"] by simp
  next
    case False
    then have "inside x (joined sep (z # zs))" using 3 by auto
    then show ?thesis using inside_surrounded [of x "joined sep (z # zs)" "y @ sep" "[]"] by simp
  qed
qed simp

lemma inside_contains: "inside x y \<Longrightarrow> ascii_lower x = f \<Longrightarrow> contains (ascii_lower y) f"
  unfolding inside_def using contains_append by (auto simp: lower_append)

lemma inside_string: "inside x (concat (map escape_char s)) \<Longrightarrow> inside x (json_dumps (PStr s))"
  using inside_surrounded [of x "concat (map escape_char s)" "[CHR 0x22]" "[CHR 0x22]"]
  by (simp add: json_string_def)

lemma inside_list: "v \<in> set xs \<Longrightarrow> inside (json_dumps v) (json_dumps (PList xs))"
  using inside_surrounded [OF inside_joined, of "json_dumps v" "map json_dumps xs" "''[''" "'',''" "'']''"] by simp

lemma inside_dict: "(k, v) \<in> set kvs \<Longrightarrow> inside (json_dumps v) (json_dumps (PDict kvs))"
proof -
  assume kv: "(k, v) \<in> set kvs"
  let ?items = "map (\<lambda>(k, t). json_string k @ '':'' @ t) (sort_key fst (map (\<lambda>(k, v). (k, json_dumps v)) kvs))"
  have "json_string k @ '':'' @ json_dumps v \<in> set ?items" using kv by force
  then have "inside (json_string k @ '':'' @ json_dumps v) (joined '','' ?items)" by (rule inside_joined)
  moreover have "inside (json_dumps v) (json_string k @ '':'' @ json_dumps v)"
    using inside_surrounded [OF inside_refl, of "json_dumps v" "json_string k @ '':''" "[]"] by simp
  ultimately have "inside (json_dumps v) (joined '','' ?items)" by (rule inside_trans [rotated])
  then show ?thesis using inside_surrounded [of _ "joined '','' ?items" "''{''" "''}''"] by simp
qed

lemma escaped_token: "inside ''token'' (concat (map escape_char (u @ ''token'' @ v)))"
proof -
  have "concat (map escape_char ''token'') = ''token''" by code_simp
  then show ?thesis unfolding inside_def map_append concat_append by metis
qed

text \<open>No snapshot of an account passes the audit when one of its permissions names a token.\<close>

lemma token_permission_refused:
  assumes "p \<in> set (ac_permissions a)" and "pm_codename p = u @ ''token'' @ v"
  shows "\<not> validate_snapshot (account_snapshot d a @ extra)"
proof -
  let ?codes = "sort (remdups (concat (map (\<lambda>g. map pm_codename (gr_permissions g)) (snapshot_groups d a)) @
          map pm_codename (ac_permissions a)))"
  have "PStr (pm_codename p) \<in> set (map PStr ?codes)" using assms(1) by auto
  then have "inside (json_dumps (PStr (pm_codename p))) (json_dumps (PList (map PStr ?codes)))" by (rule inside_list)
  moreover have "(''permissions'', PList (map PStr ?codes)) \<in> set (account_snapshot d a @ extra)"
    by (simp add: account_snapshot_def)
  then have "inside (json_dumps (PList (map PStr ?codes))) (json_dumps (PDict (account_snapshot d a @ extra)))"
    by (rule inside_dict)
  moreover have "inside ''token'' (json_dumps (PStr (pm_codename p)))"
    unfolding assms(2) by (rule inside_string [OF escaped_token])
  ultimately have "inside ''token'' (json_dumps (PDict (account_snapshot d a @ extra)))"
    using inside_trans by blast
  moreover have "ascii_lower ''token'' = ''token''" by code_simp
  ultimately have "contains (ascii_lower (json_dumps (PDict (account_snapshot d a @ extra)))) ''token''"
    by (rule inside_contains)
  moreover have "''token'' \<in> set FORBIDDEN_KEY_FRAGMENTS" by (simp add: FORBIDDEN_KEY_FRAGMENTS_def)
  ultimately show ?thesis unfolding validate_snapshot_def list_all_iff by blast
qed

lemma token_change_refused:
  assumes "p \<in> set (ac_permissions t)" and "pm_codename p = u @ ''token'' @ v"
  shows "changed_account actor t t' event cred changed reason correlation d = Inl Validation_failed"
  using token_permission_refused [OF assms] by (simp add: changed_account_def Let_def record_audit_def audit_clean_def)

end
