(* ===== verification/AuthProperties.thy ===== *)
theory AuthProperties
  imports AuthFacts
begin

text \<open>
  The properties of authentication and account administration, and small databases on which their
  hypotheses are shown to hold.
\<close>

section \<open>A small installation\<close>

definition lab :: auth_env where
  "lab = \<lparr>en_hmac_secret = replicate 32 CHR ''s'', en_otp_key_bytes = Some 32,
     en_contract_encryption_bytes = Some 32, en_contract_hmac_key = Some (replicate 32 7),
     en_contract_key_version = ''v1'', en_otp_ttl = 300, en_otp_resend = 60, en_otp_max_failures = 5,
     en_ticket_ttl = 300, en_replay_ttl = 300, en_window_hours = 1, en_max_per_window = 5,
     en_login_window = 300, en_login_max_failures = 5, en_access_ttl_minutes = 60, en_refresh_ttl_hours = 168,
     en_demo_login_enabled = False, en_demo_login_codes = [], en_debug = False, en_runtime_environment = '''',
     en_approved_delivery_enabled = False, en_approved_hmacs = [], en_redirect_to = ''inbox@lab.invalid'',
     en_nfkc = (\<lambda>s. s), en_casefold = (\<lambda>s. s), en_upper = (\<lambda>s. s), en_db_upper = (\<lambda>s. s),
     en_valid_email = (\<lambda>s. True), en_check_password = (\<lambda>p h. h = CHR ''#'' # p),
     en_make_password = (\<lambda>salt p. CHR ''#'' # p), en_password_usable = (\<lambda>h. h \<noteq> [] \<and> hd h = CHR ''#''),
     en_dummy_password_hash = ''#'', en_fernet_encrypt = (\<lambda>n p. CHR ''e'' # p),
     en_fernet_decrypt = (\<lambda>c. case c of [] \<Rightarrow> None | x # xs \<Rightarrow> if x = CHR ''e'' then Some xs else None),
     en_contract_decrypt = Some, en_uuid_parse = (\<lambda>s. Some 11)\<rparr>"

definition staff :: "nat \<Rightarrow> string \<Rightarrow> bool \<Rightarrow> account_row" where
  "staff k role super =
     \<lparr>ac_id = k, ac_public_id = k, ac_username = CHR ''D'' # decimal k, ac_password = ''#secret'',
      ac_full_name = ''name'', ac_role_code = role, ac_employee_no = Some (decimal k), ac_is_staff = True,
      ac_is_superuser = super, ac_is_active = True, ac_is_synthetic = True, ac_auth_version = 3,
      ac_groups = [], ac_permissions = []\<rparr>"

definition policy_rows :: "permission_row list" where
  "policy_rows = map (\<lambda>c. \<lparr>pm_app_label = ''accounts'', pm_model = ''user'', pm_codename = c\<rparr>)
     [''add_user'', ''change_user'', ''view_user'']"

definition token_viewer :: permission_row where
  "token_viewer = \<lparr>pm_app_label = ''token_blacklist'', pm_model = ''outstandingtoken'',
     pm_codename = ''view_outstandingtoken''\<rparr>"

definition old_token :: jwt_claims where
  "old_token = \<lparr>jc_token_type = ''refresh'', jc_jti = ''j'', jc_sub = Some ''u'', jc_role_code = Some ''CONSULTANT'',
     jc_auth_version = PInt 3, jc_iat = 0, jc_exp = 1000\<rparr>"

definition open_challenge :: challenge_row where
  "open_challenge =
     \<lparr>ch_id = 13, ch_public_id = 13, ch_purpose = SIGNUP, ch_customer = Some 1, ch_contact = Some 2,
      ch_subscription = None, ch_user = None, ch_target_resolved = True, ch_idempotency_key_hmac = ''k'',
      ch_request_fingerprint_hmac = ''f'', ch_otp_digest = ''d'', ch_expires_at = 300000000,
      ch_resend_not_before = 60000000, ch_failure_count = 0, ch_max_failures = 5, ch_verified_at = None,
      ch_consumed_at = None, ch_delivery_attempted = False\<rparr>"

definition installation :: auth_db where
  "installation =
     \<lparr>au_accounts = [staff 10 ''OPERATOR'' True, staff 11 ''CONSULTANT'' False,
        (staff 12 ''OPERATOR'' False)\<lparr>ac_groups := [1]\<rparr>,
        (staff 14 ''OPERATOR'' False)\<lparr>ac_permissions := [token_viewer]\<rparr>],
      au_groups = [\<lparr>gr_id = 1, gr_name = ACCOUNT_ADMIN_GROUP, gr_permissions = policy_rows\<rparr>],
      au_permissions = policy_rows, au_lifecycle_lock = True,
      au_profiles = [\<lparr>cp_id = 1, cp_user = None, cp_customer_no = ''C1'', cp_customer_name = ''Kim'',
        cp_is_synthetic = True, cp_deleted_at = None, cp_consent_version = '''', cp_consented_at = None\<rparr>],
      au_contacts = [\<lparr>ct_id = 2, ct_customer = 1, ct_encrypted_email = ''x'', ct_email_lookup_hmac = ''h'',
        ct_is_active = True, ct_is_primary = True, ct_delivery_policy = ''RUNTIME_REDIRECT_ONLY'',
        ct_data_classification = ''synthetic''\<rparr>],
      au_contracts = [\<lparr>sb_id = 3, sb_customer = 1, sb_contract_no = ''K1'', sb_status_code = ''ACTIVE''\<rparr>],
      au_links = [], au_challenges = [], au_tickets = [], au_challenge_buckets = [], au_login_buckets = [],
      au_login_failures = [], au_consents = [], au_receipts = [], au_locks = [], au_outbox = [],
      au_outstanding = [\<lparr>ot_user = Some 11, ot_jti = ''j'', ot_token = old_token, ot_created_at = 0,
        ot_expires_at = 1000000000\<rparr>],
      au_blacklist = [], au_audit = [], au_next = 20\<rparr>"

definition queued_mail :: auth_db where
  "queued_mail = installation\<lparr>au_challenges := [open_challenge],
     au_outbox := [\<lparr>ob_id = 15, ob_challenge = 13, ob_contact = Some 2, ob_encrypted_otp = ''e123456'',
       ob_status = Pending, ob_attempt_count = 0, ob_max_attempts = 3, ob_available_at = 0, ob_sent_at = None,
       ob_last_error_code = '''', ob_created_at = 0\<rparr>]\<rparr>"

lemma installation_keys: "keys_ok installation"
  by (simp add: keys_ok_def installation_def staff_def)

lemma queued_mail_keys: "keys_ok queued_mail"
  by (simp add: keys_ok_def queued_mail_def installation_def staff_def open_challenge_def)

lemma queued_mail_outbox: "outbox_wf queued_mail"
  using queued_mail_keys by (simp add: outbox_wf_def queued_mail_def outbox_ok_def challenge_of_def the_row_def open_challenge_def)

lemma lab_laws: "fernet_laws lab" "hashes_usable lab"
  by (simp_all add: fernet_laws_def hashes_usable_def lab_def is_ascii_def)

definition dismissal :: "nat \<Rightarrow> lifecycle_request" where
  "dismissal k = \<lparr>lr_actor = 10, lr_target = k, lr_reason = ''left'', lr_correlation_id = ''c''\<rparr>"

definition administrators :: group_row where
  "administrators = \<lparr>gr_id = 1, gr_name = ACCOUNT_ADMIN_GROUP, gr_permissions = policy_rows\<rparr>"

lemma installation_policy: "policy_group installation = Some administrators" "ensure_policy_group installation = Inr (administrators, installation)"
  by (simp_all add: ensure_policy_group_def policy_permissions_def policy_group_def the_row_def installation_def
    administrators_def policy_rows_def user_permission_def ACCOUNT_ADMIN_PERMISSION_CODES_def)

lemma practical_operator:
  "practical_admin lab administrators ((staff k ''OPERATOR'' False)\<lparr>ac_groups := [1]\<rparr>)"
  by (simp add: practical_admin_def administrators_def synthetic_operator_def usable_password_def staff_def
    lab_def policy_rows_def user_permission_def ACCOUNT_ADMIN_PERMISSION_CODES_def)

lemma dismissal_authorized:
  assumes "lock_users 10 k installation = Inr (staff 10 ''OPERATOR'' True, t)" and "ac_is_synthetic t"
  shows "authorized lab (dismissal k) installation =
    Inr (''left'', 11, staff 10 ''OPERATOR'' True, t, administrators, installation)"
proof -
  have "reason_text ''left'' = Inr ''left''" by code_simp
  moreover have "correlation_of lab ''c'' = Inr 11" by (simp add: correlation_of_def lab_def)
  moreover have "authorize_actor lab (staff 10 ''OPERATOR'' True) administrators = Inr ()"
    by (simp add: authorize_actor_def synthetic_operator_def usable_password_def staff_def lab_def)
  ultimately show ?thesis
    using assms by (simp add: authorized_def dismissal_def installation_policy require_synthetic_def)
qed

lemma installation_locked:
  "lock_users 10 11 installation = Inr (staff 10 ''OPERATOR'' True, staff 11 ''CONSULTANT'' False)"
  "lock_users 10 14 installation = Inr (staff 10 ''OPERATOR'' True, (staff 14 ''OPERATOR'' False)\<lparr>ac_permissions := [token_viewer]\<rparr>)"
  by (simp_all add: lock_users_def account_of_def the_row_def installation_def staff_def)

lemma consultant_unprotected:
  "protect_last_superuser lab (staff 11 ''CONSULTANT'' False) d = Inr ()"
  "protect_last_practical_admin lab (staff 11 ''CONSULTANT'' False) g d = Inr ()"
  by (simp_all add: protect_last_superuser_def active_superuser_def protect_last_practical_admin_def
    practical_admin_def staff_def)

definition consultant_snapshot :: "bool \<Rightarrow> int \<Rightarrow> (string \<times> py) list" where
  "consultant_snapshot active v =
     [(''role_code'', PStr ''CONSULTANT''), (''is_active'', PBool active), (''is_staff'', PBool True),
      (''is_superuser'', PBool False), (''auth_version'', PInt v), (''groups'', PList []), (''permissions'', PList [])]"

lemma consultant_snapshots:
  "account_snapshot d (staff 11 ''CONSULTANT'' False) = consultant_snapshot True 3"
  "account_snapshot d ((staff 11 ''CONSULTANT'' False)\<lparr>ac_is_active := b, ac_auth_version := v\<rparr>) = consultant_snapshot b v"
  by (simp_all add: account_snapshot_def staff_def snapshot_groups_def consultant_snapshot_def)

lemma consultant_snapshots_clean:
  "validate_snapshot (consultant_snapshot True 3)" "validate_snapshot (consultant_snapshot False 4)"
  by code_simp+

section \<open>Guesses\<close>

text \<open>
  C35: Whatever requests arrive in whatever order, and whatever the rest of the backend does to customers
  and contracts, the wrong codes that are ever compared for a challenge are at most the failures it
  allows beyond those counted, it is answered with success at most once and never after it was consumed,
  and once the failures are used up every verification, with the right code too, is refused as rate
  limited.
\<close>

theorem code_guesses_bounded:
  assumes "keys_ok d" and "c \<in> set (au_challenges d)" and "ch_public_id c = pid"
  shows "count_steps env (wrong_guess env pid) ls d \<le> nat (ch_max_failures c - ch_failure_count c) \<and>
    count_steps env (accepted env pid) ls d \<le> (if ch_consumed_at c = None then 1 else 0) \<and>
    (count_steps env (wrong_guess env pid) ls d = nat (ch_max_failures c - ch_failure_count c) \<longrightarrow>
      lock_and_verify env now pid (ch_purpose c) otp (auth_steps env ls d) =
        (Inl (rate_limited (en_otp_resend env)), auth_steps env ls d))"
proof -
  have c: "challenge_named d pid = Some c" using assms challenge_named_Some by blast
  then have h: "has_challenge pid d" using assms(1) by (simp add: has_challenge_def)
  let ?e = "auth_steps env ls d"
  have g: "count_steps env (wrong_guess env pid) ls d + guesses_left pid ?e \<le> guesses_left pid d"
    by (rule count_steps_potential [where I = "has_challenge pid", OF has_challenge_step wrong_guess_potential h])
  have a: "count_steps env (accepted env pid) ls d + code_open pid ?e \<le> code_open pid d"
    by (rule count_steps_potential [where I = "has_challenge pid", OF has_challenge_step accepted_potential h])
  obtain x where x: "challenge_named ?e pid = Some x" "challenge_evolves c x"
    using challenge_named_evolves [OF auth_steps_evolve assms(1) c] by blast
  have "lock_and_verify env now pid (ch_purpose c) otp ?e = (Inl (rate_limited (en_otp_resend env)), ?e)"
    if "guesses_left pid ?e = 0"
    using that x by (simp add: guesses_left_def lock_and_verify_def lock_row [OF keys_steps [OF assms(1)]]
        challenge_evolves_def)
  then show ?thesis using g a c by (auto simp: guesses_left_def code_open_def)
qed

lemma code_guesses_bounded_witness:
  "count_steps lab (wrong_guess lab 13) [(1, Verify_signup ''t'' 13 ''000000''), (2, Verify_signup ''t'' 13 ''000001'')]
     queued_mail \<le> 5"
  using code_guesses_bounded [of queued_mail open_challenge 13 lab
      "[(1, Verify_signup ''t'' 13 ''000000''), (2, Verify_signup ''t'' 13 ''000001'')]"] queued_mail_keys
  by (simp add: queued_mail_def open_challenge_def)

section \<open>Sessions\<close>

text \<open>
  C36: A password reset, a deactivation or reactivation, a change of a consultant's credentials, and the
  grant or withdrawal of administration end the sessions of the account for good: after whatever further
  requests, every access or refresh token issued for the account at its version before the change is
  refused by authentication, rotation and logout, which change nothing, and every refresh token stored
  for the account is blacklisted.
\<close>

theorem sessions_end_for_good:
  assumes "keys_ok d" and "sessions_ended env l d = Some k" and "account_of d k = Some a"
    and "jc_auth_version tok = PInt v" and "v \<le> ac_auth_version a"
    and "required_claim (jc_sub tok) = Some sub" and "en_uuid_parse env (strip sub) = Some (ac_public_id a)"
  shows "token_refused env now tok (auth_steps env (l # ls) d) \<and>
    (\<forall>t \<in> set (au_outstanding d). ot_user t = Some k \<longrightarrow>
       ot_jti t \<in> set (au_blacklist (auth_steps env (l # ls) d)))"
proof -
  let ?d = "auth_step env l d" and ?e = "auth_steps env (l # ls) d"
  obtain x b where x: "x \<in> set (au_accounts d)" "ac_id x = k" and b: "b \<in> set (au_accounts ?d)" "account_evolves x b"
    "ac_auth_version b = ac_auth_version x + 1"
    and j: "{ot_jti x | x. x \<in> set (au_outstanding d) \<and> ot_user x = Some k} \<subseteq> set (au_blacklist ?d)"
    using ended_raises [OF assms(2)] unfolding version_raised_def by blast
  have "a \<in> set (au_accounts d)" "ac_id a = k" using assms(3) by (auto simp: account_of_def dest: the_row_Some)
  then have xa: "x = a" using x key_unique [of ac_id "au_accounts d" x a] assms(1) by (simp add: keys_ok_def)
  have k1: "keys_ok ?d" using auth_step_evolves assms(1) by (simp add: evolves_def)
  then have later: "auth_later ?d ?e" and k2: "keys_ok ?e"
    using auth_steps_evolve [of ?d env ls] by (simp_all add: evolves_def)
  then have "grown account_evolves (au_accounts ?d) (au_accounts ?e)"
    and bl: "set (au_blacklist ?d) \<subseteq> set (au_blacklist ?e)"
    by (simp_all add: auth_later_def)
  then obtain y where y: "y \<in> set (au_accounts ?e)" "account_evolves b y" using grown_in b(1) by metis
  have v: "v < ac_auth_version y" and p: "ac_public_id y = ac_public_id a"
    using b(2,3) y(2) xa assms(5) by (auto simp: account_evolves_def)
  have "token_refused env now tok ?e"
    by (rule outdated_refused [OF k2 y(1) v assms(4,6)]) (simp add: p assms(7))
  moreover have "ot_jti t \<in> set (au_blacklist ?e)" if "t \<in> set (au_outstanding d)" "ot_user t = Some k" for t
    using that j bl by blast
  ultimately show ?thesis by blast
qed

lemma dismissal_ends: "sessions_ended lab (0, Deactivate (dismissal 11)) installation = Some 11"
proof -
  let ?t = "staff 11 ''CONSULTANT'' False"
  let ?t' = "?t\<lparr>ac_is_active := False, ac_auth_version := ac_auth_version ?t + 1\<rparr>"
  have v: "ac_auth_version ?t + 1 = 4" "ac_is_active ?t" "ac_id ?t = 11" "ac_id (staff 10 ''OPERATOR'' True) = 10"
    "ac_is_synthetic ?t"
    by (simp_all add: staff_def)
  have "\<exists>d. changed_account (staff 10 ''OPERATOR'' True) ?t ?t' ''DEACTIVATE'' [] [''is_active'', ''auth_version'']
      ''left'' 11 installation = Inr (?t', d)"
    by (simp add: changed_account_def record_audit_def audit_clean_def v(1) consultant_snapshots
        consultant_snapshots_clean ACCOUNT_AUDIT_EVENT_TYPES_def ALLOWED_CHANGED_FIELDS_def Let_def)
      (simp add: consultant_snapshot_def has_text_def, code_simp)
  then obtain d where "changed_account (staff 10 ''OPERATOR'' True) ?t ?t' ''DEACTIVATE'' []
      [''is_active'', ''auth_version''] ''left'' 11 installation = Inr (?t', d)" by blast
  then show ?thesis
    by (simp add: deactivate_def dismissal_authorized [OF installation_locked(1) v(5)] v(2-4) consultant_unprotected)
qed

lemma sessions_end_for_good_witness:
  "token_refused lab 5 old_token (auth_steps lab [(0, Deactivate (dismissal 11)), (1, Refresh (Some old_token))] installation) \<and>
   ''j'' \<in> set (au_blacklist (auth_steps lab [(0, Deactivate (dismissal 11)), (1, Refresh (Some old_token))] installation))"
proof -
  have a: "account_of installation 11 = Some (staff 11 ''CONSULTANT'' False)"
    by (simp add: account_of_def the_row_def installation_def staff_def)
  have t: "jc_auth_version old_token = PInt 3" "required_claim (jc_sub old_token) = Some ''u''"
    "en_uuid_parse lab (strip ''u'') = Some (ac_public_id (staff 11 ''CONSULTANT'' False))"
    "(3::int) \<le> ac_auth_version (staff 11 ''CONSULTANT'' False)"
    by code_simp+
  show ?thesis
    using sessions_end_for_good [OF installation_keys dismissal_ends a t(1,4,2,3), of 5 "[(1, Refresh (Some old_token))]"]
    by (simp add: installation_def)
qed

section \<open>Administrators\<close>

text \<open>
  C37: When there is an active superuser with a usable password and an active member of the policy group
  with its permissions, there still are both after any sequence of requests to authentication and account
  administration: nobody can deactivate or demote the last of either.
\<close>

theorem administrators_remain:
  assumes "hashes_usable env" and "keys_ok d" and "superuser_remains env d" and "admin_remains env d"
  shows "superuser_remains env (auth_steps env ls d) \<and> admin_remains env (auth_steps env ls d)"
  using steps_administered [OF assms(1)] assms(2-4) unfolding administered_def by blast

lemma installation_superuser: "superuser_remains lab installation"
  by (simp add: superuser_remains_def active_superuser_def usable_password_def installation_def staff_def lab_def)

lemma installation_admin: "admin_remains lab installation"
proof -
  have "(staff 12 ''OPERATOR'' False)\<lparr>ac_groups := [1]\<rparr> \<in> set (au_accounts installation)" by (simp add: installation_def)
  then show ?thesis using practical_operator by (auto simp: admin_remains_def installation_policy)
qed

lemma administrators_remain_witness:
  "superuser_remains lab (auth_steps lab [(0, Deactivate (dismissal 12)), (1, Revoke_admin (dismissal 12))] installation)"
  using administrators_remain [OF lab_laws(2) installation_keys installation_superuser installation_admin] by blast

section \<open>Codes\<close>

text \<open>
  C38: A code makes the round trip. When a request creates a challenge for a customer who is still
  current and has a deliverable address, and nothing else waits in the outbox, the worker decrypts and
  mails exactly the code that was drawn, to that address, and marks the row sent; until the challenge
  expires, that code is accepted, for that target, and every code with another digest is refused.
\<close>

theorem mailed_code_verifies:
  assumes "fernet_laws env" and "keys_ok d" and "\<forall>r \<in> set (au_outbox d). ob_status r \<noteq> Pending"
    and "idempotency_hmac env key = Inr idem" and "challenge_for d p idem = None"
    and "create_challenge env now draw p ident key d = (Inr data, d1)"
    and "c \<in> set (au_challenges d1)" and "ch_public_id c = cd_challenge_id data" and "ch_target_resolved c"
    and "lock_current d1 c = Some t" and "otp_recipient env (tg_contact t) = Inr (Some addr)"
    and "now \<le> now1" and "now1 < now + seconds (en_otp_ttl env)" and "now2 < now + seconds (en_otp_ttl env)"
  shows "\<exists>d2. process_one env now1 (delivers_only \<lparr>ml_recipient = addr, ml_otp = generate_otp draw\<rparr>) d1 =
      Inr (Some ''sent'', d2) \<and>
    (\<exists>x d3. lock_and_verify env now2 (cd_challenge_id data) p (generate_otp draw) d2 = (Inr (x, t), d3)) \<and>
    (\<forall>otp. otp_digest env (cd_challenge_id data) p otp \<noteq> otp_digest env (cd_challenge_id data) p (generate_otp draw) \<longrightarrow>
      isl (fst (lock_and_verify env now2 (cd_challenge_id data) p otp d2)))"
proof -
  let ?c = "c\<lparr>ch_delivery_attempted := True\<rparr>" and ?pid = "cd_challenge_id data"
  obtain row where created: "challenge_created env now p (generate_otp draw) c row d d1"
    by (rule create_challenge_created [OF assms(2,4-9)])
  note cr = created [unfolded challenge_created_def]
  have k1: "keys_ok d1" using create_challenge_evolves [of d env now draw p ident key] assms(2,6)
    by (simp add: evolves_def)
  obtain d2 where sent: "process_one env now1 (delivers_only \<lparr>ml_recipient = addr, ml_otp = generate_otp draw\<rparr>) d1 =
      Inr (Some ''sent'', d2)"
    and ch: "au_challenges d2 = put_row ch_id ?c (au_challenges d1)" and lc: "lock_current d2 = lock_current d1"
    by (rule created_delivered [OF assms(1) k1 created assms(3,10,11,12) _ assms(9)]) (use cr assms(13) in auto)
  have k2: "keys_ok d2" using process_one_evolves [OF sent] k1 by (simp add: evolves_def)
  have "?c \<in> set (au_challenges d2)" unfolding ch by (rule in_put_row [OF assms(7)]) simp
  then have n: "challenge_named d2 ?pid = Some ?c" using challenge_named_Some [OF k2] assms(8) by simp
  have "lock_current d2 ?c = Some t" using assms(10) by (simp only: lc lock_current_delivery)
  moreover have "crypto_ready env" using assms(4) by (simp add: idempotency_hmac_def rbind_Inr_iff guard_or_iff)
  ultimately have "\<exists>x d3. lock_and_verify env now2 ?pid p (generate_otp draw) d2 = (Inr (x, t), d3)"
    using cr assms(8,9,14) by (intro right_code_accepted [OF k2 n]) auto
  moreover have "isl (fst (lock_and_verify env now2 ?pid p otp d2))"
    if "otp_digest env ?pid p otp \<noteq> otp_digest env ?pid p (generate_otp draw)" for otp
    using that cr assms(8) by (intro other_code_refused [OF k2 n]) simp
  ultimately show ?thesis using sent by blast
qed

definition kim_identity :: identity where
  "kim_identity = [(''customer_number'', ''C1''), (''contract_number'', ''K1'')]"

definition kim_target :: auth_target where
  "kim_target = \<lparr>tg_customer = hd (au_profiles installation), tg_contact = hd (au_contacts installation), tg_user = None,
     tg_contract = Some (hd (au_contracts installation))\<rparr>"

lemma kim_sent: "sent_field kim_identity ''customer_number'' = ''C1''" "sent_field kim_identity ''contract_number'' = ''K1''"
  by code_simp+

lemma lab_values:
  "en_otp_ttl lab = 300" "en_otp_resend lab = 60" "en_otp_max_failures lab = 5" "en_window_hours lab = 1"
  "en_max_per_window lab = 5"
  by (simp_all add: lab_def)

lemma kim_resolved: "resolve_target lab kim_identity SIGNUP installation = Inr (Some kim_target)"
proof -
  have "matching_contacts lab kim_identity installation = Inr [(hd (au_contacts installation), hd (au_profiles installation))]"
    unfolding matching_contacts_def Let_def kim_sent
    by (simp add: installation_def kim_identity_def List.map_filter_def profile_of_def the_row_def usable_contact_def active_contract_def)
  then show ?thesis
    by (simp add: resolve_target_def kim_sent Let_def kim_target_def the_row_def installation_def active_contract_def)
qed

lemma kim_posted:
  assumes "idempotency_hmac lab ''k'' = Inr idem"
  defines "c \<equiv> new_challenge lab 0 SIGNUP (Some kim_target) idem (identity_fingerprint lab kim_identity) (generate_otp 7) 20"
  obtains d1 where "create_challenge lab 0 7 SIGNUP kim_identity ''k'' installation = (Inr (challenge_data_of lab c), d1)"
    and "c \<in> set (au_challenges d1)" and "lock_current d1 c = Some kim_target"
proof -
  let ?add = "add_challenge 0 c installation"
  have t: "challenge_for installation SIGNUP idem = None" by (simp add: challenge_for_def the_row_def installation_def)
  have rate: "check_rate lab 0 (current_bucket lab 0 SIGNUP fp installation) = Inr ()" for fp
    by (simp add: check_rate_def current_bucket_def Let_def the_row_def installation_def lab_values seconds_def)
  have clean: "challenge_clean installation c"
    by (simp add: challenge_clean_def c_def new_challenge_def kim_target_def installation_def challenge_for_def the_row_def lab_values)
  have n: "au_next installation = 20" by (simp add: installation_def)
  have otp: "generate_otp 7 = ''000007''" by code_simp
  have enc: "encrypt_otp lab n ''000007'' = Inr ''e000007''" for n
    by (simp add: encrypt_otp_def otp_cipher_ready_def lab_def is_ascii_def)
  obtain d2 where e: "enqueue lab 0 c (Some (tg_contact kim_target)) (generate_otp 7) ?add = Inr d2"
    and same: "au_challenges d2 = au_challenges ?add" "au_profiles d2 = au_profiles installation"
      "au_contacts d2 = au_contacts installation" "au_contracts d2 = au_contracts installation"
      "au_links d2 = au_links installation" "au_accounts d2 = au_accounts installation"
    by (simp add: enqueue_def otp enc c_def new_challenge_def outbox_ok_def outbox_entry_def add_challenge_def)
  let ?b = "(current_bucket lab 0 SIGNUP (identity_fingerprint lab kim_identity) installation)"
  let ?d1 = "put_bucket (?b\<lparr>cb_request_count := cb_request_count ?b + 1, cb_last_requested_at := Some 0\<rparr>) d2"
  have "create_body lab 0 7 SIGNUP kim_identity idem installation = Inr (challenge_data_of lab c, ?d1)"
    using e clean by (simp add: create_body_def t rate kim_resolved Let_def n c_def [symmetric])
  then have "create_challenge lab 0 7 SIGNUP kim_identity ''k'' installation = (Inr (challenge_data_of lab c), ?d1)"
    by (simp add: create_challenge_def assms(1))
  moreover have "c \<in> set (au_challenges ?d1)" by (simp add: put_bucket_def same add_challenge_def)
  moreover have "lock_current ?d1 c = Some kim_target"
    by (simp add: lock_current_def c_def new_challenge_def put_bucket_def same kim_target_def the_row_def
        installation_def usable_contact_def active_contract_def)
  ultimately show ?thesis using that by blast
qed

lemma mailed_code_verifies_witness:
  "\<exists>data d1 d2. create_challenge lab 0 7 SIGNUP kim_identity ''k'' installation = (Inr data, d1) \<and>
    process_one lab 5 (delivers_only \<lparr>ml_recipient = ''inbox@lab.invalid'', ml_otp = generate_otp 7\<rparr>) d1 =
      Inr (Some ''sent'', d2) \<and>
    (\<exists>x d3. lock_and_verify lab 9 (cd_challenge_id data) SIGNUP (generate_otp 7) d2 = (Inr (x, kim_target), d3))"
proof -
  have "idempotency_key ''k'' = Inr ''k''" by code_simp
  moreover have "crypto_ready lab" by code_simp
  ultimately obtain idem where i: "idempotency_hmac lab ''k'' = Inr idem"
    by (simp add: idempotency_hmac_def)
  let ?c = "new_challenge lab 0 SIGNUP (Some kim_target) idem (identity_fingerprint lab kim_identity) (generate_otp 7) 20"
  obtain d1 where p: "create_challenge lab 0 7 SIGNUP kim_identity ''k'' installation = (Inr (challenge_data_of lab ?c), d1)"
    and c: "?c \<in> set (au_challenges d1)" and l: "lock_current d1 ?c = Some kim_target"
    by (rule kim_posted [OF i])
  have to: "otp_recipient lab (tg_contact kim_target) = Inr (Some ''inbox@lab.invalid'')"
    by code_simp
  show ?thesis
    using mailed_code_verifies [OF lab_laws(1) installation_keys _ i _ p c _ _ l to, of 5 9] p
    by (fastforce simp: installation_def challenge_data_of_def new_challenge_def challenge_for_def the_row_def lab_values seconds_def)
qed

section \<open>The outbox worker\<close>

text \<open>
  C39: A run of the outbox worker comes to its end by itself: when it may process more rows than attempts
  are left in the outbox, it returns without an error whatever the clock shows and the mail library does,
  at a reading of the clock at which no row is due; it has processed at most as many rows as attempts are
  gone, so no row is tried more often than its maximum.
\<close>

theorem outbox_run_ends:
  assumes "outbox_wf d" and "int (pending_attempts d) < max_rows"
  shows "\<exists>counts d' k. process_pending env clock send max_rows d = (Inr counts, d') \<and> outbox_wf d' \<and>
    next_due (clock k) d' = None \<and> oc_processed counts + pending_attempts d' \<le> pending_attempts d"
proof -
  have "pending_attempts d < nat (max 1 max_rows)" using assms(2) by linarith
  from process_loop_ends [OF assms(1) this, of env clock send
      "\<lparr>oc_processed = 0, oc_sent = 0, oc_failed = 0, oc_suppressed = 0\<rparr>"]
  show ?thesis by (auto simp: process_pending_def)
qed

lemma outbox_run_ends_witness:
  "\<exists>counts d' k. process_pending lab int (\<lambda>n m. Some 1) 100 queued_mail = (Inr counts, d') \<and> outbox_wf d' \<and>
    next_due (int k) d' = None \<and> oc_processed counts + pending_attempts d' \<le> pending_attempts queued_mail"
proof -
  have "int (pending_attempts queued_mail) < 100" by (simp add: pending_attempts_def attempts_left_def queued_mail_def)
  then show ?thesis by (rule outbox_run_ends [OF queued_mail_outbox])
qed

section \<open>Refused audit events\<close>

text \<open>
  C40: The audit event of an administrative operation is validated against words that secrets use, and the
  codes of the account's permissions are part of it: an account with a permission whose code contains
  \<open>token\<close> (the framework's own \<open>view_outstandingtoken\<close> is one) cannot be deactivated, however good the
  request: it ends in a validation error and changes nothing, and no other administrative operation on
  the account succeeds.
\<close>

theorem token_permission_blocks_deactivation:
  assumes "authorized env rq d = Inr (reason, correlation, actor, t, g, d1)"
    and "p \<in> set (ac_permissions t)" and "pm_codename p = u @ ''token'' @ v"
    and "ac_id actor \<noteq> ac_id t" and "ac_is_active t"
    and "protect_last_superuser env t d1 = Inr ()" and "protect_last_practical_admin env t g d1 = Inr ()"
  shows "deactivate env rq d = (Inl Validation_failed, d) \<and> isl (fst (reactivate env rq d)) \<and>
    isl (fst (update_consultant_credentials env salt username pw rq d)) \<and>
    isl (fst (grant_account_admin env rq d)) \<and> isl (fst (revoke_account_admin env rq d))"
proof -
  note blocked = token_change_refused [OF assms(2,3)]
  have "deactivate env rq d = (Inl Validation_failed, d)"
    using assms(4-7) by (simp add: deactivate_def assms(1) blocked)
  moreover have "isl (fst (committed d (rbind (authorized env rq d) f)))"
    if "\<And>r d'. f (reason, correlation, actor, t, g, d1) \<noteq> Inr (r, d')"
    for f :: "_ \<Rightarrow> auth_error + (account_row \<times> auth_db)"
    using that assms(1) by (cases "f (reason, correlation, actor, t, g, d1)") auto
  ultimately show ?thesis
    unfolding reactivate_def update_consultant_credentials_def grant_account_admin_def revoke_account_admin_def
    by (auto simp: rbind_Inr_iff Let_def blocked)
qed

lemma token_permission_blocks_deactivation_witness:
  "deactivate lab (dismissal 14) installation = (Inl Validation_failed, installation)"
proof -
  let ?t = "(staff 14 ''OPERATOR'' False)\<lparr>ac_permissions := [token_viewer]\<rparr>"
  have "token_viewer \<in> set (ac_permissions ?t)" "pm_codename token_viewer = ''view_outstanding'' @ ''token'' @ []"
    "ac_id (staff 10 ''OPERATOR'' True) \<noteq> ac_id ?t" "ac_is_active ?t"
    "protect_last_superuser lab ?t installation = Inr ()"
    "protect_last_practical_admin lab ?t administrators installation = Inr ()"
    by (simp_all add: token_viewer_def staff_def protect_last_superuser_def active_superuser_def
        protect_last_practical_admin_def practical_admin_def administrators_def)
  moreover have "ac_is_synthetic ?t" by (simp add: staff_def)
  ultimately show ?thesis
    using token_permission_blocks_deactivation [OF dismissal_authorized [OF installation_locked(2)]] by blast
qed

end
