(* ===== verification/AiSchema.thy ===== *)
theory AiSchema
  imports Prelude
begin

text \<open>
  The data of the AI service: \<open>src/ai/app/schemas\<close> (\<open>common.py\<close>, \<open>safety.py\<close>, \<open>guidance.py\<close>,
  \<open>retrieval.py\<close>, \<open>symptom.py\<close>, \<open>pipeline.py\<close>), the signals of \<open>structuring/llm_contracts.py\<close>, the
  retrieved chunk of \<open>retrieval/models/retrieved_chunk.py\<close> and the rules of
  \<open>configs/safety_rules.yaml\<close> as \<open>safety/rule_loader.py\<close> admits them.

  In this part of the program Korean texts are compared and searched, so a text is the list of its
  code points; identifiers, codes and model codes are ASCII and stay strings.
\<close>

section \<open>Texts\<close>

type_synonym utext = "int list"

text \<open>
  What \<open>str_strip_whitespace\<close> of the contract models removes: the code points with the Unicode
  property \<open>White_Space\<close>.
\<close>

definition text_space :: "int \<Rightarrow> bool" where
  "text_space c = ((9 \<le> c \<and> c \<le> 13) \<or> c = 32 \<or> c = 133 \<or> c = 160 \<or> c = 5760 \<or>
     (8192 \<le> c \<and> c \<le> 8202) \<or> c = 8232 \<or> c = 8233 \<or> c = 8239 \<or> c = 8287 \<or> c = 12288)"

definition text_strip :: "utext \<Rightarrow> utext" where
  "text_strip t = rev (dropWhile text_space (rev (dropWhile text_space t)))"

definition trim :: "string \<Rightarrow> string" where
  "trim s = (let sp = (\<lambda>c. text_space (of_char c)) in rev (dropWhile sp (rev (dropWhile sp s))))"

text \<open>\<open>phrase in text\<close> on strings of any kind.\<close>

fun occurs_in :: "'a list \<Rightarrow> 'a list \<Rightarrow> bool" where
  "occurs_in p [] = (p = [])"
| "occurs_in p (c # cs) = (take (length p) (c # cs) = p \<or> occurs_in p cs)"

text \<open>For evaluation: a phrase that does not begin here is dismissed at its first differing character.\<close>

fun leads :: "'a list \<Rightarrow> 'a list \<Rightarrow> bool" where
  "leads [] ys = True"
| "leads (x # xs) [] = False"
| "leads (x # xs) (y # ys) = (x = y \<and> leads xs ys)"

lemma leads_take: "leads p xs \<longleftrightarrow> take (length p) xs = p"
  by (induction p xs rule: leads.induct) auto

lemma occurs_in_code [code]:
  "occurs_in p [] = (p = [])"
  "occurs_in p (c # cs) = (leads p (c # cs) \<or> occurs_in p cs)"
  by (simp_all only: occurs_in.simps leads_take)

text \<open>\<open>list(dict.fromkeys(xs))\<close>, and the loop that appends what is not yet there: the first
  occurrence of every element, in order.\<close>

fun first_seen :: "'a list \<Rightarrow> 'a list \<Rightarrow> 'a list" where
  "first_seen seen [] = []"
| "first_seen seen (x # xs) =
     (if x \<in> set seen then first_seen seen xs else x # first_seen (x # seen) xs)"

definition fromkeys :: "'a list \<Rightarrow> 'a list" where
  "fromkeys xs = first_seen [] xs"

lemma set_first_seen: "set (first_seen seen xs) = set xs - set seen"
  by (induction seen xs rule: first_seen.induct) auto

lemma distinct_first_seen: "distinct (first_seen seen xs)"
  by (induction seen xs rule: first_seen.induct) (auto simp: set_first_seen)

lemma set_fromkeys [simp]: "set (fromkeys xs) = set xs"
  by (simp add: fromkeys_def set_first_seen)

lemma distinct_fromkeys [simp]: "distinct (fromkeys xs)"
  by (simp add: fromkeys_def distinct_first_seen)

lemma fromkeys_Nil_iff [simp]: "fromkeys xs = [] \<longleftrightarrow> xs = []"
  by (metis set_empty set_fromkeys)

lemma first_seen_distinct:
  "distinct xs \<Longrightarrow> set xs \<inter> set seen = {} \<Longrightarrow> first_seen seen xs = xs"
  by (induction xs arbitrary: seen) auto

lemma fromkeys_distinct: "distinct xs \<Longrightarrow> fromkeys xs = xs"
  by (simp add: fromkeys_def first_seen_distinct)

section \<open>Errors\<close>

text \<open>
  The exceptions of the modelled code: a \<open>ValueError\<close> (pydantic's validation error is one) named by
  its check, a missing key, the two kinds of cancellation, and the failures of the stages.
\<close>

datatype ai_error =
    Value_error string
  | Missing_key string
  | Pipeline_cancelled
  | Stage_timeout string
  | Retrieval_configuration
  | Retrieval_execution nat bool
  | Retrieval_tool string bool
  | Generation_execution string nat bool bool
  | Runtime_failure string

section \<open>Codes\<close>

datatype risk_level = RISK_GENERAL | RISK_CAUTION | RISK_DANGER

datatype safety_priority =
  GENERAL_GUIDANCE | CONSULTATION_RECOMMENDED | PRIORITY_CONSULTATION

definition safety_priority_of :: "string \<Rightarrow> ai_error + safety_priority" where
  "safety_priority_of s =
     (if s = ''general_guidance'' then Inr GENERAL_GUIDANCE
      else if s = ''consultation_recommended'' then Inr CONSULTATION_RECOMMENDED
      else if s = ''priority_consultation'' then Inr PRIORITY_CONSULTATION
      else Inl (Value_error ''SafetyPriority''))"

datatype guidance_status =
  GUIDE_NORMAL | GUIDE_PARTIAL_STOP | GUIDE_TOTAL_STOP | GUIDE_PENDING_CONSULTATION

datatype ai_execution_status = AI_SUCCEEDED | AI_FALLBACK

datatype ai_stage =
    STRUCTURING | CHECKING_MISSING_FIELDS | SAFETY_CHECK | RETRIEVING | RERANKING | GENERATING
  | VALIDATING | STAGE_COMPLETED | STAGE_FAILED | STAGE_CANCELLED

datatype fallback_reason =
    RUNTIME_PRODUCT_NOT_APPROVED | NO_EVIDENCE | MCP_TOOL_FAILURE | OUTPUT_SCHEMA_INVALID
  | UNSPECIFIED_FALLBACK

datatype retrieval_outcome = NOT_RUN | AVAILABLE | NO_MATCH

datatype importance = IMPORTANCE_HIGH | IMPORTANCE_MEDIUM | IMPORTANCE_LOW

text \<open>The fields of \<open>SafetySignals\<close>, which are the names of the detector's patterns.\<close>

datatype safety_signal =
    electrical_component_damage | exposed_wire | water_near_electrical_part | water_leak
  | smoke_or_burn | shock_or_spark | refrigerant_leak_or_line_damage

section \<open>Safety rules\<close>

record safety_rule =
  sr_rule_id :: string
  sr_name :: "utext option"
  sr_applicability_policy :: "string option"
  sr_risk_level :: risk_level
  sr_status :: guidance_status
  sr_requires_consultation :: bool
  sr_priority :: "string option"
  sr_keywords :: "utext list"
  sr_negated_expressions :: "utext list"
  sr_restricted_functions :: "utext list"
  sr_next_actions :: "utext list"
  sr_next_action_merge_policy :: "string option"

record no_evidence_rule =
  ne_risk_level :: risk_level
  ne_priority :: safety_priority
  ne_status :: guidance_status
  ne_requires_consultation :: bool
  ne_safety_reason :: utext
  ne_message :: utext

record prohibited_expressions =
  pe_diagnosis :: "utext list"
  pe_guarantee :: "utext list"
  pe_repair :: "utext list"
  pe_fallback_message :: utext

record safety_config =
  sc_rules :: "(string \<times> safety_rule) list"
  sc_no_evidence :: no_evidence_rule
  sc_prohibited :: prohibited_expressions

text \<open>The form of a rule identifier: \<open>SAFETY-[A-Z0-9]+(?:-[A-Z0-9]+)*-\d{3}\<close>.\<close>

fun split_dash :: "string \<Rightarrow> string list" where
  "split_dash [] = [[]]"
| "split_dash (c # cs) =
     (if c = CHR ''-'' then [] # split_dash cs
      else (case split_dash cs of [] \<Rightarrow> [[c]] | p # ps \<Rightarrow> (c # p) # ps))"

definition is_digit_char :: "char \<Rightarrow> bool" where
  "is_digit_char c = (let n = of_char c :: nat in 48 \<le> n \<and> n \<le> 57)"

definition is_upper_char :: "char \<Rightarrow> bool" where
  "is_upper_char c = (let n = of_char c :: nat in 65 \<le> n \<and> n \<le> 90)"

definition code_part :: "string \<Rightarrow> bool" where
  "code_part p = (p \<noteq> [] \<and> list_all (\<lambda>c. is_upper_char c \<or> is_digit_char c) p)"

definition safety_rule_id_ok :: "string \<Rightarrow> bool" where
  "safety_rule_id_ok s =
     (let parts = split_dash s in
      3 \<le> length parts \<and> hd parts = ''SAFETY'' \<and> list_all code_part (tl parts) \<and>
      length (last parts) = 3 \<and> list_all is_digit_char (last parts))"

section \<open>Assessments, guidance and evidence\<close>

record safety_assessment =
  sa_risk_level :: risk_level
  sa_priority :: safety_priority
  sa_requires_consultation :: bool
  sa_matched_safety_rule_ids :: "string list"
  sa_detected_risks :: "utext list"
  sa_safety_reason :: utext

text \<open>
  \<open>SafetyAssessment(...)\<close>: the priority is parsed, the identifiers have the form above and are
  distinct, and texts lose their surrounding white space.
\<close>

definition safety_assessment_init ::
  "risk_level \<Rightarrow> string \<Rightarrow> bool \<Rightarrow> string list \<Rightarrow> utext list \<Rightarrow> utext \<Rightarrow>
     ai_error + safety_assessment" where
  "safety_assessment_init risk priority consultation ids risks reason =
     rbind (safety_priority_of priority) (\<lambda>p.
     rbind (guard_or (list_all safety_rule_id_ok ids) (Value_error ''matched_safety_rule_ids'')) (\<lambda>_.
     rbind (guard_or (distinct ids) (Value_error ''matched_safety_rule_ids'')) (\<lambda>_.
     Inr \<lparr>sa_risk_level = risk, sa_priority = p, sa_requires_consultation = consultation,
       sa_matched_safety_rule_ids = ids, sa_detected_risks = map text_strip risks,
       sa_safety_reason = text_strip reason\<rparr>)))"

record usage_guidance =
  ug_status :: guidance_status
  ug_message :: utext
  ug_restricted_functions :: "utext list"
  ug_next_actions :: "utext list"

definition usage_guidance_init ::
  "guidance_status \<Rightarrow> utext \<Rightarrow> utext list \<Rightarrow> utext list \<Rightarrow> usage_guidance" where
  "usage_guidance_init status message restricted actions =
     \<lparr>ug_status = status, ug_message = text_strip message,
      ug_restricted_functions = map text_strip restricted, ug_next_actions = map text_strip actions\<rparr>"

record evidence_reference =
  er_document_title :: utext
  er_page :: "int option"
  er_chunk_id :: string
  er_summary :: utext
  er_verification_status :: string

record retrieved_chunk =
  ch_chunk_id :: string
  ch_document_title :: utext
  ch_page :: "int option"
  ch_model_code :: "string option"
  ch_content :: utext
  ch_verification_status :: string
  ch_allowed_use :: bool
  ch_runtime_eligible :: bool

record missing_field =
  mf_field_name :: string
  mf_importance :: importance

record followup_question =
  fq_question_id :: string
  fq_target_field :: string

record structured_symptom =
  ss_symptom_type :: utext
  ss_occurrence_time :: "utext option"
  ss_target_water_type :: "utext option"
  ss_occurrence_condition :: "utext option"
  ss_error_code :: "utext option"
  ss_accompanying_symptoms :: "utext list"
  ss_actions_taken :: "utext list"

section \<open>The public result\<close>

record analysis_result =
  an_inquiry_id :: nat
  an_correlation_id :: nat
  an_ai_request_id :: string
  an_state_version :: nat
  an_model_code :: string
  an_status :: ai_execution_status
  an_fallback_reason_code :: "fallback_reason option"
  an_failure_stage :: "ai_stage option"
  an_retry_count :: nat
  an_structured_symptom :: structured_symptom
  an_missing_fields :: "missing_field list"
  an_followup_questions :: "followup_question list"
  an_safety_assessment :: safety_assessment
  an_usage_guidance :: usage_guidance
  an_evidence_references :: "evidence_reference list"

text \<open>\<open>SymptomAnalysisResult.validate_fallback_reason\<close>.\<close>

definition validate_fallback_reason :: "analysis_result \<Rightarrow> bool" where
  "validate_fallback_reason r = ((an_status r = AI_FALLBACK) = (an_fallback_reason_code r \<noteq> None))"

end
