(* ===== verification/AiConfig.thy ===== *)
theory AiConfig
  imports AiSchema
begin

text \<open>
  The Korean texts the AI service compares or writes, as code points, and its configuration files
  \<open>src/ai/configs/safety_rules.yaml\<close> and \<open>prohibited_expressions.yaml\<close>, transcribed entry by
  entry. Names begin with what a text is for: \<open>msg\<close> a message, \<open>rf\<close> a restricted function, \<open>na\<close> a next
  action, \<open>kw\<close> a keyword, \<open>neg\<close> a negated expression, \<open>ph\<close> a prohibited phrase, \<open>risk\<close> and \<open>reason\<close>
  the entries of an assessment.
\<close>

section \<open>Texts of the program\<close>

definition msg_danger_guidance :: utext where
  "msg_danger_guidance = [50948, 54744, 32, 49888, 54840, 44032, 32, 44048, 51648, 46104, 50612,
     32, 51221, 49688, 44592, 32, 49324, 50857, 32, 51228, 54620, 32, 48143, 32, 50504, 51204,
     32, 51312, 52824, 44032, 32, 54596, 50836, 54633, 45768, 45796, 46]"

definition rf_all_dispensing :: utext where
  "rf_all_dispensing = [51204, 52404, 32, 52636, 49688, 32, 44592, 45733, 32, 51473, 51648]"

definition rf_power_off :: utext where
  "rf_power_off = [51228, 54408, 32, 51204, 50896, 32, 52264, 45800, 32, 54596, 50836]"

definition na_close_valve_default :: utext where
  "na_close_valve_default = [50896, 49688, 32, 44277, 44553, 32, 48184, 48652, 40, 50896, 49688,
     32, 48184, 48652, 41, 47484, 32, 51104, 44536, 49464, 50836, 46]"

definition na_unplug_default :: utext where
  "na_unplug_default = [51204, 50896, 32, 54540, 47084, 44536, 47484, 32, 48977, 44256, 32,
     49324, 50857, 51012, 32, 51593, 49884, 32, 51473, 45800, 54616, 49464, 50836, 46]"

definition na_engineer_default :: utext where
  "na_engineer_default = [51204, 47928, 32, 44592, 49324, 32, 48169, 47928, 32, 51216, 44160,
     51012, 32, 49888, 52397, 54616, 49464, 50836, 46]"

definition msg_caution_guidance :: utext where
  "msg_caution_guidance = [51068, 48512, 32, 44592, 45733, 50640, 32, 51060, 49345, 51060, 32,
     44048, 51648, 46104, 50632, 49845, 45768, 45796, 46, 32, 44288, 47144, 32, 44592, 45733, 32,
     54869, 51064, 32, 48143, 32, 51088, 44032, 51312, 52824, 47484, 32, 51652, 54665, 54644, 32,
     48372, 49464, 50836, 46]"

definition rf_check_function :: utext where
  "rf_check_function = [54644, 45817, 32, 44592, 45733, 40, 45257, 49688, 47, 50728, 49688, 47,
     52636, 49688, 41, 32, 54869, 51064, 32, 54596, 50836]"

definition na_self_help_steps :: utext where
  "na_self_help_steps = [50504, 45236, 46108, 32, 51088, 44032, 51312, 52824, 32, 45800, 44228,
     48324, 32, 51216, 44160, 32, 49688, 54665]"

definition na_consult_if_unresolved :: utext where
  "na_consult_if_unresolved = [51613, 49345, 32, 48120, 44060, 49440, 32, 49884, 32, 49345,
     45812, 32, 50672, 44208]"

definition msg_normal_guidance :: utext where
  "msg_normal_guidance = [51221, 49688, 44592, 47484, 32, 51221, 49345, 51201, 51004, 47196, 32,
     49324, 50857, 54616, 49892, 32, 49688, 32, 51080, 49845, 45768, 45796, 46, 32, 51088, 44032,
     32, 51216, 44160, 32, 48143, 32, 52992, 50612, 32, 44032, 51060, 46300, 47484, 32, 54869,
     51064, 54616, 49464, 50836, 46]"

definition na_keep_filter :: utext where
  "na_keep_filter = [44592, 48376, 32, 54596, 53552, 32, 48143, 32, 49324, 50857, 32, 54872,
     44221, 32, 50976, 51648]"

definition na_check_schedule :: utext where
  "na_check_schedule = [51221, 44592, 32, 44288, 47532, 32, 51068, 51221, 32, 54869, 51064]"

definition rf_ungrounded_self_help :: utext where
  "rf_ungrounded_self_help = [44540, 44144, 32, 50630, 45716, 32, 51088, 44032, 51312, 52824, 32,
     50504, 45236]"

definition na_request_consultant :: utext where
  "na_request_consultant = [51204, 47928, 32, 49345, 45812, 49324, 32, 50672, 44208, 51012, 32,
     50836, 52397, 54644, 32, 51452, 49464, 50836, 46]"

definition risk_wet_electrical :: utext where
  "risk_wet_electrical = [51204, 44592, 32, 48512, 54408, 32, 51452, 48320, 32, 47932, 44592]"

definition reason_wet_electrical :: utext where
  "reason_wet_electrical = [91, 83, 97, 102, 101, 116, 121, 93, 32, 51204, 44592, 32, 48512,
     54408, 32, 51452, 48320, 32, 47932, 44592, 32, 44048, 51648]"

definition risk_product_leak :: utext where
  "risk_product_leak = [51228, 54408, 32, 45572, 49688]"

definition reason_product_leak :: utext where
  "reason_product_leak = [91, 83, 97, 102, 101, 116, 121, 93, 32, 44256, 44061, 32, 51077, 47141,
     50640, 49436, 32, 45572, 49688, 32, 44048, 51648]"

definition risk_electrical :: utext where
  "risk_electrical = [51204, 44592, 32, 48512, 54408, 32, 49552, 49345, 183, 45432, 52636, 32,
     50948, 54744]"

definition reason_electrical :: utext where
  "reason_electrical = [91, 83, 97, 102, 101, 116, 121, 93, 32, 51204, 44592, 32, 50948, 54744,
     32, 44288, 52769, 32, 49888, 54840, 32, 44048, 51648]"

definition risk_refrigerant :: utext where
  "risk_refrigerant = [45257, 47588, 32, 45572, 52636, 183, 45257, 47588, 32, 48176, 44288, 32,
     49552, 49345, 32, 50948, 54744]"

definition reason_refrigerant :: utext where
  "reason_refrigerant = [91, 83, 97, 102, 101, 116, 121, 93, 32, 45257, 47588, 32, 45572, 52636,
     32, 46608, 45716, 32, 45257, 47588, 32, 48176, 44288, 32, 49552, 49345, 32, 44288, 52769,
     32, 49888, 54840, 32, 44048, 51648]"

definition risk_heater_alert :: utext where
  "risk_heater_alert = [50728, 49688, 183, 51221, 49688, 183, 45257, 49688, 32, 48260, 53948, 32,
     46041, 49884, 32, 51216, 47736, 32, 48143, 32, 48744, 44036, 32, 54364, 49884, 52285]"

definition reason_heater_alert :: utext where
  "reason_heater_alert = [91, 83, 97, 102, 101, 116, 121, 93, 32, 44277, 49885, 32, 47588, 45684,
     50620, 51032, 32, 50728, 49688, 32, 55176, 53552, 32, 44221, 44256, 32, 54364, 49884, 32,
     51312, 54633, 32, 44048, 51648]"

definition txt_keyword_open :: utext where
  "txt_keyword_open = [93, 32, 53412, 50892, 46300, 40, 39]"

definition txt_keyword_close :: utext where
  "txt_keyword_close = [39, 41, 32, 44048, 51648]"

definition reason_no_keyword :: utext where
  "reason_no_keyword = [47749, 49884, 51201, 32, 50948, 54744, 32, 53412, 50892, 46300, 44032,
     32, 44048, 51648, 46104, 51648, 32, 50506, 50520, 49845, 45768, 45796, 46, 32, 51068, 48152,
     32, 51613, 49345, 32, 51312, 52824, 32, 44032, 51060, 46300, 47484, 32, 51228, 44277, 54633,
     45768, 45796, 46]"

definition txt_leak :: utext where
  "txt_leak = [45572, 49688]"

definition msg_blocked_danger :: utext where
  "msg_blocked_danger = [50504, 51204, 32, 54869, 51064, 51060, 32, 54596, 50836, 54616, 50668,
     32, 51228, 54408, 32, 49324, 50857, 51012, 32, 51473, 45800, 54616, 44256, 32, 49345, 45812,
     32, 50672, 44208, 51012, 32, 51652, 54665, 54633, 45768, 45796, 46]"

definition rf_whole_product :: utext where
  "rf_whole_product = [51204, 52404, 32, 51228, 54408, 32, 49324, 50857]"

definition na_stop_and_consult :: utext where
  "na_stop_and_consult = [51228, 54408, 32, 49324, 50857, 51012, 32, 51473, 45800, 54616, 44256,
     32, 51204, 47928, 32, 49345, 45812, 32, 50672, 44208, 51012, 32, 50836, 52397, 54644, 32,
     51452, 49464, 50836, 46]"

definition msg_blocked :: utext where
  "msg_blocked = [51088, 46041, 32, 50504, 45236, 47484, 32, 54869, 51221, 54616, 51648, 32,
     47803, 54644, 32, 49345, 45812, 49324, 32, 44160, 53664, 44032, 32, 54596, 50836, 54633,
     45768, 45796, 46]"

definition rf_unreviewed_self_help :: utext where
  "rf_unreviewed_self_help = [44160, 53664, 32, 51204, 32, 51088, 44032, 51312, 52824, 32, 50504,
     45236]"

definition na_request_consultation :: utext where
  "na_request_consultation = [51204, 47928, 32, 49345, 45812, 32, 50672, 44208, 51012, 32, 50836,
     52397, 54644, 32, 51452, 49464, 50836, 46]"

definition reason_routing :: utext where
  "reason_routing = [51088, 46041, 32, 50504, 45236, 32, 82, 111, 117, 116, 105, 110, 103, 32,
     51312, 44148, 51012, 32, 52649, 51313, 54616, 51648, 32, 47803, 54644, 32, 49345, 45812, 32,
     44160, 53664, 44032, 32, 54596, 50836, 54633, 45768, 45796, 46]"

definition reason_unconfirmed :: utext where
  "reason_unconfirmed = [54596, 49688, 32, 51221, 48372, 47484, 32, 54869, 51064, 54616, 51648,
     32, 47803, 54644, 32, 49345, 45812, 32, 54869, 51064, 51060, 32, 54596, 50836, 54633, 45768,
     45796, 46]"

definition reason_pending :: utext where
  "reason_pending = [52628, 44032, 32, 51221, 48372, 32, 54869, 51064, 32, 51204, 32, 50504,
     45236, 32, 49373, 49457, 51012, 32, 48372, 47448, 54633, 45768, 45796, 46]"

definition msg_unconfirmed :: utext where
  "msg_unconfirmed = [54596, 49688, 32, 51221, 48372, 47484, 32, 54869, 51064, 54616, 51648, 32,
     47803, 54664, 49845, 45768, 45796, 46, 32, 51204, 47928, 32, 49345, 45812, 51012, 32, 53685,
     54644, 32, 54869, 51064, 54644, 32, 51452, 49464, 50836, 46]"

definition msg_pending :: utext where
  "msg_pending = [50504, 51204, 54620, 32, 50504, 45236, 47484, 32, 50948, 54644, 32, 52628,
     44032, 32, 51221, 48372, 44032, 32, 54596, 50836, 54633, 45768, 45796, 46, 32, 54364, 49884,
     46108, 32, 51656, 47928, 50640, 32, 45813, 48320, 54644, 32, 51452, 49464, 50836, 46]"

definition rf_unconfirmed_self_help :: utext where
  "rf_unconfirmed_self_help = [44540, 44144, 32, 54869, 51064, 32, 51204, 32, 51088, 44032,
     51312, 52824, 32, 50504, 45236]"

definition na_answer_questions :: utext where
  "na_answer_questions = [52628, 44032, 32, 51656, 47928, 50640, 32, 45813, 48320, 54644, 32,
     51452, 49464, 50836, 46]"

definition opt_absence_within_10 :: utext where
  "opt_absence_within_10 = [49, 48, 51068, 32, 51060, 45236, 32, 48512, 51116, 32, 54980]"

definition opt_absence_over_10 :: utext where
  "opt_absence_over_10 = [49, 48, 51068, 32, 51060, 49345, 32, 48512, 51116, 32, 54980]"

definition opt_long_unused :: utext where
  "opt_long_unused = [51109, 49884, 44036, 32, 48120, 49324, 50857, 32, 54980]"

definition opt_unsuitable_place :: utext where
  "opt_unsuitable_place = [48512, 51201, 54633, 32, 51109, 49548, 32, 49444, 52824, 32, 54980]"

definition txt_taste_odor :: utext where
  "txt_taste_odor = [47932, 47579, 47, 45252, 49352, 32, 51060, 49345]"

section \<open>Texts of the configuration\<close>

definition na_leak_1 :: utext where
  "na_leak_1 = [51593, 49884, 32, 50896, 49688, 32, 44277, 44553, 32, 48184, 48652, 40, 50896,
     49688, 32, 48184, 48652, 41, 47484, 32, 51104, 44536, 49464, 50836, 46]"

definition na_leak_2 :: utext where
  "na_leak_2 = [51222, 51008, 32, 49552, 51004, 47196, 32, 51204, 50896, 32, 54540, 47084, 44536,
     47484, 32, 47564, 51648, 51648, 32, 47560, 49884, 44256, 44, 32, 50504, 51204, 54624, 32,
     46412, 32, 51204, 50896, 51012, 32, 52264, 45800, 54644, 32, 51452, 49464, 50836, 46]"

definition na_leak_3 :: utext where
  "na_leak_3 = [51204, 47928, 32, 44592, 49324, 32, 48169, 47928, 32, 51216, 44160, 51012, 32,
     50836, 52397, 54616, 49464, 50836, 46]"

definition name_leak :: utext where
  "name_leak = [51228, 54408, 32, 54616, 48512, 32, 48143, 32, 51204, 50896, 48512, 32, 51452,
     48320, 32, 45572, 49688]"

definition kw_leak_2 :: utext where
  "kw_leak_2 = [47932, 32, 49352]"

definition kw_leak_3 :: utext where
  "kw_leak_3 = [47932, 51060, 32, 49352]"

definition kw_leak_4 :: utext where
  "kw_leak_4 = [48148, 45797, 50640, 32, 47932]"

definition kw_leak_5 :: utext where
  "kw_leak_5 = [51228, 54408, 32, 48145, 50640, 32, 47932]"

definition kw_leak_6 :: utext where
  "kw_leak_6 = [51204, 50896, 49440, 32, 44540, 52376, 32, 47932]"

definition kw_leak_7 :: utext where
  "kw_leak_7 = [54540, 47084, 44536, 32, 47932]"

definition rf_electrical_1 :: utext where
  "rf_electrical_1 = [51228, 54408, 32, 51204, 52404, 32, 44592, 45733, 32, 49324, 50857, 32,
     51473, 51648]"

definition na_electrical_1 :: utext where
  "na_electrical_1 = [51593, 49884, 32, 51221, 49688, 44592, 32, 51204, 50896, 32, 54540, 47084,
     44536, 47484, 32, 48977, 51004, 49464, 50836, 46]"

definition na_electrical_2 :: utext where
  "na_electrical_2 = [51228, 54408, 32, 49324, 50857, 51012, 32, 51473, 45800, 54616, 44256, 32,
     51204, 47928, 32, 49345, 45812, 49324, 32, 48143, 32, 44592, 49324, 32, 50672, 44208, 51012,
     32, 44592, 45796, 47532, 49464, 50836, 46]"

definition name_electrical :: utext where
  "name_electrical = [51204, 44592, 32, 45252, 49352, 183, 50672, 44592, 183, 49828, 54028,
     53356, 183, 44048, 51204, 32, 50948, 54744]"

definition kw_electrical_1 :: utext where
  "kw_electrical_1 = [53444, 32, 45252, 49352]"

definition kw_electrical_2 :: utext where
  "kw_electrical_2 = [50672, 44592]"

definition kw_electrical_3 :: utext where
  "kw_electrical_3 = [49828, 54028, 53356]"

definition kw_electrical_4 :: utext where
  "kw_electrical_4 = [48520, 44867]"

definition kw_electrical_5 :: utext where
  "kw_electrical_5 = [52236, 47551]"

definition kw_electrical_6 :: utext where
  "kw_electrical_6 = [44048, 51204]"

definition kw_electrical_7 :: utext where
  "kw_electrical_7 = [53440, 45716, 32, 45252, 49352]"

definition kw_electrical_8 :: utext where
  "kw_electrical_8 = [54868, 51116]"

definition rf_hot_water_1 :: utext where
  "rf_hot_water_1 = [50728, 49688, 32, 52636, 49688, 32, 44592, 45733, 32, 51473, 51648]"

definition na_hot_water_1 :: utext where
  "na_hot_water_1 = [50728, 49688, 32, 48260, 53948, 51012, 32, 45796, 49884, 32, 45580, 47084,
     32, 47688, 52628, 51648, 32, 50506, 51012, 32, 44221, 50864, 32, 51221, 49688, 32, 48184,
     48652, 47484, 32, 51104, 44536, 49464, 50836, 46]"

definition na_hot_water_2 :: utext where
  "na_hot_water_2 = [54868, 49345, 50640, 32, 51452, 51032, 54616, 49884, 44256, 32, 50500,
     51060, 46308, 51032, 32, 51217, 44540, 51012, 32, 51228, 54620, 54616, 49464, 50836, 46]"

definition name_hot_water :: utext where
  "name_hot_water = [50728, 49688, 32, 50672, 49549, 32, 49116, 50612, 51256, 32, 45208, 50740,
     32, 47, 32, 51312, 51208, 32, 48520, 44032]"

definition kw_hot_water_1 :: utext where
  "kw_hot_water_1 = [46888, 44144, 50868, 32, 47932, 32, 50504, 32, 47688, 52644]"

definition kw_hot_water_2 :: utext where
  "kw_hot_water_2 = [50728, 49688, 32, 44228, 49549, 32, 45208, 50740]"

definition kw_hot_water_3 :: utext where
  "kw_hot_water_3 = [54868, 49345]"

definition kw_hot_water_4 :: utext where
  "kw_hot_water_4 = [50728, 49688, 32, 52628, 52636, 32, 50504, 32, 44732, 51664]"

definition rf_heater_1 :: utext where
  "rf_heater_1 = [50728, 49688, 32, 52636, 49688, 32, 48143, 32, 51020, 50857, 32, 51473, 51648]"

definition na_heater_1 :: utext where
  "na_heater_1 = [50728, 49688, 32, 44592, 45733, 32, 49324, 50857, 44284, 32, 50728, 49688, 32,
     51020, 50857, 51012, 32, 51473, 45800, 54616, 49464, 50836, 46]"

definition na_heater_2 :: utext where
  "na_heater_2 = [51228, 54408, 51012, 32, 51649, 51217, 32, 48516, 54644, 54616, 51648, 32,
     47568, 44256, 32, 51204, 47928, 32, 49345, 45812, 32, 48143, 32, 44592, 49324, 32, 51216,
     44160, 51012, 32, 50836, 52397, 54616, 49464, 50836, 46]"

definition name_heater :: utext where
  "name_heater = [50728, 49688, 32, 55176, 53552, 183, 49692, 44036, 50728, 49688, 32, 47784,
     46280, 32, 44256, 51109, 32, 48143, 32, 51020, 50857, 32, 51228, 54620]"

definition kw_heater_1 :: utext where
  "kw_heater_1 = [55176, 53552, 32, 44256, 51109]"

definition kw_heater_2 :: utext where
  "kw_heater_2 = [55176, 53552, 32, 51060, 49345]"

definition kw_heater_3 :: utext where
  "kw_heater_3 = [49692, 44036, 50728, 49688, 32, 47784, 46280]"

definition kw_heater_4 :: utext where
  "kw_heater_4 = [49692, 44036, 32, 50728, 49688, 32, 47784, 46280]"

definition kw_heater_5 :: utext where
  "kw_heater_5 = [50728, 49688, 32, 47784, 46280, 32, 51216, 44160]"

definition kw_heater_6 :: utext where
  "kw_heater_6 = [50728, 49688, 32, 51020, 50857, 32, 44552, 51648]"

definition kw_heater_7 :: utext where
  "kw_heater_7 = [50728, 49688, 45716, 32, 51020, 50857, 54616, 51648]"

definition kw_heater_8 :: utext where
  "kw_heater_8 = [50728, 49688, 47484, 32, 51020, 50857, 54616, 51648]"

definition kw_heater_9 :: utext where
  "kw_heater_9 = [50728, 49688, 32, 47560, 49884, 51648]"

definition kw_heater_10 :: utext where
  "kw_heater_10 = [50728, 49688, 47484, 32, 47560, 49884, 51648]"

definition neg_heater_1 :: utext where
  "neg_heater_1 = [50728, 49688, 32, 55176, 53552, 32, 44256, 51109, 51008, 32, 50500, 45785,
     45768, 45796]"

definition neg_heater_2 :: utext where
  "neg_heater_2 = [50728, 49688, 32, 55176, 53552, 32, 51060, 49345, 51008, 32, 50630, 49845,
     45768, 45796]"

definition neg_heater_3 :: utext where
  "neg_heater_3 = [50728, 49688, 32, 55176, 53552, 45716, 32, 51221, 49345, 51077, 45768, 45796]"

definition neg_heater_4 :: utext where
  "neg_heater_4 = [49692, 44036, 50728, 49688, 32, 47784, 46280, 51008, 32, 51221, 49345, 51077,
     45768, 45796]"

definition rf_refrigerant_2 :: utext where
  "rf_refrigerant_2 = [51228, 54408, 32, 48143, 32, 51204, 50896, 32, 53076, 46300, 32, 51217,
     52489, 32, 44552, 51648]"

definition na_refrigerant_1 :: utext where
  "na_refrigerant_1 = [51228, 54408, 51060, 45208, 32, 51204, 50896, 32, 53076, 46300, 47484, 32,
     47564, 51648, 51648, 32, 47560, 49464, 50836, 46]"

definition na_refrigerant_2 :: utext where
  "na_refrigerant_2 = [48520, 44867, 51060, 45208, 32, 49828, 54028, 53356, 47484, 32, 51068,
     51004, 53420, 32, 49688, 32, 51080, 45716, 32, 54665, 46041, 51012, 32, 54588, 54616, 49464,
     50836, 46]"

definition na_refrigerant_3 :: utext where
  "na_refrigerant_3 = [51228, 54408, 51012, 32, 47564, 51648, 51648, 32, 50506, 44256, 32, 44032,
     45733, 54620, 32, 44221, 50864, 32, 52285, 47928, 51012, 32, 50676, 50612, 32, 52649, 48516,
     55176, 32, 54872, 44592, 54616, 49464, 50836, 46]"

definition na_refrigerant_4 :: utext where
  "na_refrigerant_4 = [50504, 51204, 54620, 32, 51109, 49548, 47196, 32, 51060, 46041, 54620, 32,
     46244, 32, 51204, 47928, 32, 49345, 45812, 32, 48143, 32, 44592, 49324, 32, 51216, 44160,
     51012, 32, 50836, 52397, 54616, 49464, 50836, 46]"

definition name_refrigerant :: utext where
  "name_refrigerant = [45257, 47588, 32, 45572, 52636, 32, 46608, 45716, 32, 45257, 47588, 32,
     48176, 44288, 32, 49552, 49345]"

definition kw_refrigerant_1 :: utext where
  "kw_refrigerant_1 = [45257, 47588, 32, 45572, 52636]"

definition kw_refrigerant_2 :: utext where
  "kw_refrigerant_2 = [45257, 47588, 44032, 32, 49352]"

definition kw_refrigerant_3 :: utext where
  "kw_refrigerant_3 = [45257, 47588, 32, 48176, 44288, 32, 49552, 49345]"

definition kw_refrigerant_4 :: utext where
  "kw_refrigerant_4 = [45257, 47588, 44288, 32, 49552, 49345]"

definition neg_refrigerant_1 :: utext where
  "neg_refrigerant_1 = [45257, 47588, 32, 45572, 52636, 51008, 32, 50630, 49845, 45768, 45796]"

definition neg_refrigerant_2 :: utext where
  "neg_refrigerant_2 = [45257, 47588, 44032, 32, 49352, 51648, 32, 50506, 49845, 45768, 45796]"

definition neg_refrigerant_3 :: utext where
  "neg_refrigerant_3 = [45257, 47588, 32, 48176, 44288, 51008, 32, 49552, 49345, 46104, 51648,
     32, 50506, 50520, 49845, 45768, 45796]"

definition neg_refrigerant_4 :: utext where
  "neg_refrigerant_4 = [45257, 47588, 44288, 51008, 32, 51221, 49345, 51077, 45768, 45796]"

definition rf_temp_1 :: utext where
  "rf_temp_1 = [54644, 45817, 32, 44592, 45733, 40, 45257, 49688, 47, 50728, 49688, 41, 32,
     54620, 51221, 32, 54869, 51064, 32, 54596, 50836]"

definition na_temp_1 :: utext where
  "na_temp_1 = [54596, 53552, 32, 44368, 52404, 32, 51452, 44592, 32, 48143, 32, 51204, 50896,
     32, 47016, 54532, 32, 49345, 53468, 47484, 32, 54869, 51064, 54616, 49464, 50836, 46]"

definition na_temp_2 :: utext where
  "na_temp_2 = [51088, 44032, 51312, 52824, 32, 50504, 45236, 50640, 32, 46384, 46972, 32, 51216,
     44160, 54644, 32, 48372, 49464, 50836, 46]"

definition name_temp :: utext where
  "name_temp = [45257, 47, 50728, 49688, 32, 48120, 55137, 32, 48143, 32, 52636, 49688, 47049,
     32, 51200, 54616]"

definition kw_temp_1 :: utext where
  "kw_temp_1 = [50504, 32, 52264, 44032]"

definition kw_temp_2 :: utext where
  "kw_temp_2 = [50504, 32, 46888, 44144]"

definition kw_temp_3 :: utext where
  "kw_temp_3 = [48120, 51648, 44540]"

definition kw_temp_4 :: utext where
  "kw_temp_4 = [52636, 49688, 47049]"

definition kw_temp_5 :: utext where
  "kw_temp_5 = [51320, 51320]"

definition kw_temp_6 :: utext where
  "kw_temp_6 = [50557, 54616, 44172, 32, 45208, 50740]"

definition reason_no_evidence :: utext where
  "reason_no_evidence = [54869, 51064, 32, 44032, 45733, 54620, 32, 44277, 49885, 32, 44540,
     44144, 44032, 32, 50630, 50612, 32, 50504, 51204, 54620, 32, 51088, 44032, 51312, 52824, 32,
     50504, 45236, 47484, 32, 51228, 44277, 54624, 32, 49688, 32, 50630, 51004, 47728, 32, 51204,
     47928, 32, 49345, 45812, 51060, 32, 54596, 50836, 54633, 45768, 45796, 46]"

definition msg_no_evidence :: utext where
  "msg_no_evidence = [54869, 51064, 32, 44032, 45733, 54620, 32, 44277, 49885, 32, 47588, 45684,
     50620, 32, 44540, 44144, 44032, 32, 48512, 51313, 54616, 50668, 32, 51088, 44032, 51312,
     52824, 32, 50504, 45236, 44032, 32, 51228, 44277, 46104, 51648, 32, 50506, 49845, 45768,
     45796, 46, 32, 49345, 45812, 32, 50672, 44208, 51012, 32, 46020, 50752, 46300, 47532, 44192,
     49845, 45768, 45796, 46]"

definition ph_diagnosis_1 :: utext where
  "ph_diagnosis_1 = [44256, 51109, 51060, 32, 54869, 49892, 54633, 45768, 45796]"

definition ph_diagnosis_2 :: utext where
  "ph_diagnosis_2 = [49, 48, 48, 37, 32, 48512, 54408, 32, 44208, 54632, 51077, 45768, 45796]"

definition ph_diagnosis_3 :: utext where
  "ph_diagnosis_3 = [48152, 46300, 49884, 32, 44368, 52404, 54644, 50556, 32, 54633, 45768,
     45796]"

definition ph_diagnosis_4 :: utext where
  "ph_diagnosis_4 = [47784, 53552, 44032, 32, 54028, 49552, 46104, 50632, 49845, 45768, 45796]"

definition ph_diagnosis_5 :: utext where
  "ph_diagnosis_5 = [44592, 54032, 51060, 32, 53468, 50892, 51276, 49845, 45768, 45796]"

definition ph_diagnosis_6 :: utext where
  "ph_diagnosis_6 = [54869, 49892, 54620, 32, 44256, 51109, 32, 50896, 51064, 51008]"

definition ph_guarantee_1 :: utext where
  "ph_guarantee_1 = [51208, 45824, 32, 50504, 51204, 54633, 45768, 45796]"

definition ph_guarantee_2 :: utext where
  "ph_guarantee_2 = [49, 48, 48, 37, 32, 50504, 49900, 54616, 44256, 32, 46300, 49492, 46020, 32,
     46121, 45768, 45796]"

definition ph_guarantee_3 :: utext where
  "ph_guarantee_3 = [49688, 51656, 50640, 32, 50500, 47924, 32, 47928, 51228, 44032, 32, 50630,
     49845, 45768, 45796]"

definition ph_guarantee_4 :: utext where
  "ph_guarantee_4 = [50976, 54644, 32, 47932, 51656, 51060, 32, 51204, 54784, 32, 50630, 49845,
     45768, 45796]"

definition ph_guarantee_5 :: utext where
  "ph_guarantee_5 = [47560, 49492, 46020, 32, 51064, 52404, 50640, 32, 54644, 44032, 32, 50630,
     49845, 45768, 45796]"

definition ph_guarantee_6 :: utext where
  "ph_guarantee_6 = [50504, 51204, 51012, 32, 48372, 51613, 54633, 45768, 45796]"

definition ph_repair_1 :: utext where
  "ph_repair_1 = [52964, 48260, 47484, 32, 48516, 54644, 54616, 49464, 50836]"

definition ph_repair_2 :: utext where
  "ph_repair_2 = [45208, 49324, 47484, 32, 54400, 44256, 32, 45236, 48512, 47484]"

definition ph_repair_3 :: utext where
  "ph_repair_3 = [51204, 49440, 51012, 32, 54588, 48373, 54616, 50668]"

definition ph_repair_4 :: utext where
  "ph_repair_4 = [44592, 54032, 51012, 32, 46895, 50612, 49436]"

definition ph_repair_5 :: utext where
  "ph_repair_5 = [48184, 48652, 47484, 32, 51649, 51217, 32, 46895, 50612]"

definition ph_repair_6 :: utext where
  "ph_repair_6 = [47784, 53552, 47484, 32, 49552, 51004, 47196, 32, 51312, 50668]"

definition msg_prohibited_fallback :: utext where
  "msg_prohibited_fallback = [50504, 51204, 54616, 44256, 32, 44160, 51613, 46108, 32, 50504,
     45236, 47484, 32, 50948, 54644, 32, 54869, 51221, 51201, 51064, 32, 51652, 45800, 32, 47928,
     44396, 32, 45824, 49888, 32, 51216, 44160, 32, 54596, 50836, 32, 49324, 54637, 32, 48143,
     32, 44277, 49885, 32, 49436, 48708, 49828, 32, 49345, 45812, 51012, 32, 44428, 51109, 54644,
     32, 46300, 47549, 45768, 45796, 46]"

section \<open>The approved rules\<close>

definition rule_leak :: safety_rule where
  "rule_leak = \<lparr>sr_rule_id = ''SAFETY-LEAK-001'', sr_name = Some name_leak,
     sr_applicability_policy = None, sr_risk_level = RISK_DANGER, sr_status = GUIDE_TOTAL_STOP,
     sr_requires_consultation = True, sr_priority = Some ''priority_consultation'', sr_keywords =
     [txt_leak, kw_leak_2, kw_leak_3, kw_leak_4, kw_leak_5, kw_leak_6, kw_leak_7],
     sr_negated_expressions = [], sr_restricted_functions = [rf_all_dispensing, rf_power_off],
     sr_next_actions = [na_leak_1, na_leak_2, na_leak_3], sr_next_action_merge_policy =
     None\<rparr>"

definition rule_electrical :: safety_rule where
  "rule_electrical = \<lparr>sr_rule_id = ''SAFETY-ELECTRICAL-001'', sr_name = Some
     name_electrical, sr_applicability_policy = None, sr_risk_level = RISK_DANGER, sr_status =
     GUIDE_TOTAL_STOP, sr_requires_consultation = True, sr_priority = Some
     ''priority_consultation'', sr_keywords = [kw_electrical_1, kw_electrical_2, kw_electrical_3,
     kw_electrical_4, kw_electrical_5, kw_electrical_6, kw_electrical_7, kw_electrical_8],
     sr_negated_expressions = [], sr_restricted_functions = [rf_electrical_1], sr_next_actions =
     [na_electrical_1, na_electrical_2], sr_next_action_merge_policy = None\<rparr>"

definition rule_hot_water :: safety_rule where
  "rule_hot_water = \<lparr>sr_rule_id = ''SAFETY-HOT-WATER-001'', sr_name = Some name_hot_water,
     sr_applicability_policy = None, sr_risk_level = RISK_DANGER, sr_status = GUIDE_PARTIAL_STOP,
     sr_requires_consultation = True, sr_priority = Some ''priority_consultation'', sr_keywords =
     [kw_hot_water_1, kw_hot_water_2, kw_hot_water_3, kw_hot_water_4], sr_negated_expressions =
     [], sr_restricted_functions = [rf_hot_water_1], sr_next_actions = [na_hot_water_1,
     na_hot_water_2], sr_next_action_merge_policy = None\<rparr>"

definition rule_heater :: safety_rule where
  "rule_heater = \<lparr>sr_rule_id = ''SAFETY-HOT-WATER-HEATER-001'', sr_name = Some
     name_heater, sr_applicability_policy = Some ''RUNTIME_APPROVED_PRODUCTS'', sr_risk_level =
     RISK_DANGER, sr_status = GUIDE_PARTIAL_STOP, sr_requires_consultation = True, sr_priority =
     Some ''priority_consultation'', sr_keywords = [kw_heater_1, kw_heater_2, kw_heater_3,
     kw_heater_4, kw_heater_5, kw_heater_6, kw_heater_7, kw_heater_8, kw_heater_9, kw_heater_10],
     sr_negated_expressions = [neg_heater_1, neg_heater_2, neg_heater_3, neg_heater_4],
     sr_restricted_functions = [rf_heater_1], sr_next_actions = [na_heater_1, na_heater_2],
     sr_next_action_merge_policy = None\<rparr>"

definition rule_refrigerant :: safety_rule where
  "rule_refrigerant = \<lparr>sr_rule_id = ''SAFETY-REFRIGERANT-001'', sr_name = Some
     name_refrigerant, sr_applicability_policy = Some ''RUNTIME_APPROVED_PRODUCTS'',
     sr_risk_level = RISK_DANGER, sr_status = GUIDE_TOTAL_STOP, sr_requires_consultation = True,
     sr_priority = Some ''priority_consultation'', sr_keywords = [kw_refrigerant_1,
     kw_refrigerant_2, kw_refrigerant_3, kw_refrigerant_4], sr_negated_expressions =
     [neg_refrigerant_1, neg_refrigerant_2, neg_refrigerant_3, neg_refrigerant_4],
     sr_restricted_functions = [rf_electrical_1, rf_refrigerant_2], sr_next_actions =
     [na_refrigerant_1, na_refrigerant_2, na_refrigerant_3, na_refrigerant_4],
     sr_next_action_merge_policy = Some ''EXCLUSIVE''\<rparr>"

definition rule_temp :: safety_rule where
  "rule_temp = \<lparr>sr_rule_id = ''SAFETY-TEMP-ABNORMAL-001'', sr_name = Some name_temp,
     sr_applicability_policy = None, sr_risk_level = RISK_CAUTION, sr_status =
     GUIDE_PARTIAL_STOP, sr_requires_consultation = False, sr_priority = Some
     ''consultation_recommended'', sr_keywords = [kw_temp_1, kw_temp_2, kw_temp_3, kw_temp_4,
     kw_temp_5, kw_temp_6], sr_negated_expressions = [], sr_restricted_functions = [rf_temp_1],
     sr_next_actions = [na_temp_1, na_temp_2], sr_next_action_merge_policy = None\<rparr>"

definition no_evidence_default :: no_evidence_rule where
  "no_evidence_default = \<lparr>ne_risk_level = RISK_CAUTION, ne_priority =
     CONSULTATION_RECOMMENDED, ne_status = GUIDE_PENDING_CONSULTATION, ne_requires_consultation =
     True, ne_safety_reason = reason_no_evidence, ne_message = msg_no_evidence\<rparr>"

definition prohibited_default :: prohibited_expressions where
  "prohibited_default = \<lparr>pe_diagnosis = [ph_diagnosis_1, ph_diagnosis_2, ph_diagnosis_3,
     ph_diagnosis_4, ph_diagnosis_5, ph_diagnosis_6], pe_guarantee = [ph_guarantee_1,
     ph_guarantee_2, ph_guarantee_3, ph_guarantee_4, ph_guarantee_5, ph_guarantee_6], pe_repair =
     [ph_repair_1, ph_repair_2, ph_repair_3, ph_repair_4, ph_repair_5, ph_repair_6],
     pe_fallback_message = msg_prohibited_fallback\<rparr>"

definition approved_config :: safety_config where
  "approved_config = \<lparr>sc_rules = [(''leak_danger'', rule_leak), (''electrical_danger'',
     rule_electrical), (''hot_water_danger'', rule_hot_water), (''hot_water_heater_danger'',
     rule_heater), (''refrigerant_danger'', rule_refrigerant), (''temp_abnormal_caution'',
     rule_temp)], sc_no_evidence = no_evidence_default, sc_prohibited =
     prohibited_default\<rparr>"

end
