(* ===== verification/AiSafety.thy ===== *)
theory AiSafety
  imports AiConfig
begin

text \<open>
  The safety decisions of the AI service: \<open>safety/rule_precedence.py\<close>, \<open>rule_loader.py\<close>,
  \<open>risk_classifier.py\<close>, \<open>usage_guidance_classifier.py\<close>, \<open>no_evidence_policy.py\<close>,
  \<open>prohibited_action_guard.py\<close>, and the validators of \<open>validation/safety\<close> that check a guidance
  before it leaves the service.

  The regular expressions over Korean text of \<open>safety/signal_detector.py\<close>, of the classifier's
  negated leaks and of \<open>guidance_message_guard.py\<close> are not translated: \<open>text_checks\<close> holds what the
  code asks them, and every theorem holds for every answer they may give.
\<close>

section \<open>What the regular expressions decide\<close>

record text_checks =
  asserted_keyword :: "utext \<Rightarrow> utext \<Rightarrow> bool"
  detected_signals :: "utext \<Rightarrow> safety_signal list"
  panel_alert :: "utext \<Rightarrow> bool"
  leak_negated :: "utext \<Rightarrow> bool"
  semantics_ok :: "utext \<Rightarrow> guidance_status \<Rightarrow> bool"
  grounded :: "utext \<Rightarrow> utext list \<Rightarrow> bool"

section \<open>Precedence of rules\<close>

fun guidance_precedence :: "guidance_status \<Rightarrow> nat" where
  "guidance_precedence GUIDE_NORMAL = 0"
| "guidance_precedence GUIDE_PENDING_CONSULTATION = 1"
| "guidance_precedence GUIDE_PARTIAL_STOP = 2"
| "guidance_precedence GUIDE_TOTAL_STOP = 3"

definition rule_candidates ::
  "(string \<times> safety_rule) list \<Rightarrow> string list \<Rightarrow> risk_level \<Rightarrow> safety_rule list" where
  "rule_candidates rules ids risk =
     filter (\<lambda>r. sr_rule_id r \<in> set ids \<and> sr_risk_level r = risk) (map snd rules)"

definition select_effective_rules ::
  "(string \<times> safety_rule) list \<Rightarrow> string list \<Rightarrow> risk_level \<Rightarrow> safety_rule list" where
  "select_effective_rules rules ids risk =
     (let candidates = rule_candidates rules ids risk in
      if candidates = [] then []
      else let highest = Max (set (map (guidance_precedence \<circ> sr_status) candidates)) in
        sort_key sr_rule_id
          (filter (\<lambda>r. guidance_precedence (sr_status r) = highest) candidates))"

definition select_effective_rule ::
  "(string \<times> safety_rule) list \<Rightarrow> string list \<Rightarrow> risk_level \<Rightarrow> safety_rule option" where
  "select_effective_rule rules ids risk =
     (case select_effective_rules rules ids risk of [] \<Rightarrow> None | r # _ \<Rightarrow> Some r)"

text \<open>\<open>merge_rule_list_field\<close>: next actions of exclusive rules displace all others.\<close>

definition merge_restricted :: "safety_rule list \<Rightarrow> utext list" where
  "merge_restricted rules = fromkeys (concat (map sr_restricted_functions rules))"

definition exclusive_rules :: "safety_rule list \<Rightarrow> safety_rule list" where
  "exclusive_rules rules = filter (\<lambda>r. sr_next_action_merge_policy r = Some ''EXCLUSIVE'') rules"

definition merge_actions :: "safety_rule list \<Rightarrow> utext list" where
  "merge_actions rules =
     (let selected = (if exclusive_rules rules \<noteq> [] then exclusive_rules rules else rules) in
      fromkeys (concat (map sr_next_actions selected)))"

section \<open>Admission of a configuration\<close>

definition blank_text :: "utext \<Rightarrow> bool" where
  "blank_text t = list_all (\<lambda>c. text_space c \<or> (28 \<le> c \<and> c \<le> 31)) t"

text \<open>\<open>_validate\<close> of the rule loader; the codes of risk and status are parsed when a rule is read.\<close>

definition validate_rule :: "string list \<Rightarrow> safety_rule \<Rightarrow> ai_error + unit" where
  "validate_rule seen r =
     rbind (guard_or (safety_rule_id_ok (sr_rule_id r)) (Value_error ''rule_id'')) (\<lambda>_.
     rbind (guard_or (sr_rule_id r \<notin> set seen) (Value_error ''duplicate rule_id'')) (\<lambda>_.
     rbind (guard_or (\<not> (sr_risk_level r = RISK_DANGER \<and> sr_status r = GUIDE_NORMAL))
       (Value_error ''danger and NORMAL'')) (\<lambda>_.
     rbind (guard_or (sr_applicability_policy r \<in> {None, Some ''RUNTIME_APPROVED_PRODUCTS''})
       (Value_error ''applicability_policy'')) (\<lambda>_.
     rbind (guard_or (list_all (\<lambda>t. \<not> blank_text t) (sr_negated_expressions r))
       (Value_error ''negated_expressions'')) (\<lambda>_.
     guard_or (sr_next_action_merge_policy r \<in> {None, Some ''EXCLUSIVE''})
       (Value_error ''next_action_merge_policy''))))))"

fun validate_rule_list :: "string list \<Rightarrow> (string \<times> safety_rule) list \<Rightarrow> ai_error + unit" where
  "validate_rule_list seen [] = Inr ()"
| "validate_rule_list seen ((k, r) # rs) =
     rbind (validate_rule seen r) (\<lambda>_. validate_rule_list (sr_rule_id r # seen) rs)"

definition validate_safety_config :: "safety_config \<Rightarrow> ai_error + unit" where
  "validate_safety_config cfg =
     rbind (guard_or (sc_rules cfg \<noteq> []) (Value_error ''rules'')) (\<lambda>_.
     rbind (validate_rule_list [] (sc_rules cfg)) (\<lambda>_.
     let n = sc_no_evidence cfg in
     rbind (guard_or (ne_risk_level n = RISK_CAUTION) (Value_error ''no evidence risk'')) (\<lambda>_.
     rbind (guard_or (ne_priority n = CONSULTATION_RECOMMENDED)
       (Value_error ''no evidence priority'')) (\<lambda>_.
     rbind (guard_or (ne_status n = GUIDE_PENDING_CONSULTATION)
       (Value_error ''no evidence status'')) (\<lambda>_.
     guard_or (ne_requires_consultation n) (Value_error ''no evidence consultation''))))))"

section \<open>The risk classifier\<close>

text \<open>\<open>str.strip\<close> also removes the separators 28 to 31.\<close>

definition py_strip :: "utext \<Rightarrow> utext" where
  "py_strip t = (let sp = (\<lambda>c. text_space c \<or> (28 \<le> c \<and> c \<le> 31)) in
     rev (dropWhile sp (rev (dropWhile sp t))))"

definition text_of :: "string \<Rightarrow> utext" where
  "text_of s = map (\<lambda>c. of_char c :: int) s"

text \<open>
  \<open>casefold\<close> as far as a result can equal one of the aliases: besides the capital letters only the
  Kelvin sign and the long s fold to a single ASCII letter.
\<close>

definition fold_char :: "int \<Rightarrow> int" where
  "fold_char c = (if 65 \<le> c \<and> c \<le> 90 then c + 32
     else if c = 8490 then 107 else if c = 383 then 115 else c)"

definition leak_aliases :: "utext list" where
  "leak_aliases = [text_of ''symptom_leak'', text_of ''leak'', txt_leak, risk_product_leak]"

fun text_lines :: "utext list \<Rightarrow> utext" where
  "text_lines [] = []"
| "text_lines [t] = t"
| "text_lines (t # u # us) = t @ 10 # text_lines (u # us)"

definition normalize_selected :: "bool \<Rightarrow> utext list \<Rightarrow> utext list" where
  "normalize_selected negated symptoms =
     concat (map (\<lambda>s. let selected = py_strip s in
       if map fold_char selected \<in> set leak_aliases
       then (if negated then [] else [txt_leak]) else [selected]) symptoms)"

record risk_finding =
  rk_ids :: "string list"
  rk_risks :: "utext list"
  rk_reasons :: "utext list"
  rk_level :: risk_level
  rk_priority :: string
  rk_consultation :: bool

text \<open>The rules that observed signals name directly, with the risk and the reason they add.\<close>

definition feature_findings ::
  "(safety_signal \<Rightarrow> bool) \<Rightarrow> bool \<Rightarrow> (string \<times> utext \<times> utext) list" where
  "feature_findings has_signal alert =
     (if has_signal water_near_electrical_part \<or> has_signal water_leak
      then [(''SAFETY-LEAK-001'',
             if has_signal water_near_electrical_part then risk_wet_electrical else risk_product_leak,
             if has_signal water_near_electrical_part then reason_wet_electrical
             else reason_product_leak)] else []) @
     (if has_signal electrical_component_damage \<or> has_signal exposed_wire \<or>
         has_signal smoke_or_burn \<or> has_signal shock_or_spark
      then [(''SAFETY-ELECTRICAL-001'', risk_electrical, reason_electrical)] else []) @
     (if has_signal refrigerant_leak_or_line_damage
      then [(''SAFETY-REFRIGERANT-001'', risk_refrigerant, reason_refrigerant)] else []) @
     (if alert then [(''SAFETY-HOT-WATER-HEATER-001'', risk_heater_alert, reason_heater_alert)]
      else [])"

definition keyword_reason :: "safety_rule \<Rightarrow> utext \<Rightarrow> utext" where
  "keyword_reason r kw =
     [91] @ (case sr_name r of None \<Rightarrow> text_of ''None'' | Some n \<Rightarrow> n) @ txt_keyword_open @ kw @
     txt_keyword_close"

definition priority_or :: "safety_rule \<Rightarrow> string \<Rightarrow> string" where
  "priority_or r d = (case sr_priority r of None \<Rightarrow> d | Some p \<Rightarrow> p)"

fun keyword_step ::
  "(utext \<Rightarrow> bool) \<Rightarrow> string \<times> safety_rule \<Rightarrow> risk_finding \<Rightarrow> risk_finding" where
  "keyword_step asserted (key, r) k =
     (case find asserted (sr_keywords r) of None \<Rightarrow> k
      | Some kw \<Rightarrow>
          let found = k\<lparr>rk_ids := rk_ids k @ [sr_rule_id r],
                rk_risks := rk_risks k @ [case sr_name r of None \<Rightarrow> text_of key | Some n \<Rightarrow> n],
                rk_reasons := rk_reasons k @ [keyword_reason r kw]\<rparr> in
          if sr_risk_level r = RISK_DANGER
          then found\<lparr>rk_level := RISK_DANGER, rk_priority := priority_or r ''priority_consultation'',
            rk_consultation := True\<rparr>
          else if sr_risk_level r = RISK_CAUTION \<and> rk_level k \<noteq> RISK_DANGER
          then found\<lparr>rk_level := RISK_CAUTION,
            rk_priority := priority_or r ''consultation_recommended'',
            rk_consultation := sr_requires_consultation r\<rparr>
          else found)"

fun text_joined :: "utext \<Rightarrow> utext list \<Rightarrow> utext" where
  "text_joined sep [] = []"
| "text_joined sep [t] = t"
| "text_joined sep (t # u # us) = t @ sep @ text_joined sep (u # us)"

definition initial_finding :: "bool \<Rightarrow> (string \<times> utext \<times> utext) list \<Rightarrow> risk_finding" where
  "initial_finding danger features =
     \<lparr>rk_ids = [], rk_risks = map (fst \<circ> snd) features, rk_reasons = map (snd \<circ> snd) features,
      rk_level = (if danger then RISK_DANGER else RISK_GENERAL),
      rk_priority = (if danger then ''priority_consultation'' else ''general_guidance''),
      rk_consultation = danger\<rparr>"

text \<open>The finding of a text before the precedence of danger rules is applied.\<close>

definition find_risks ::
  "text_checks \<Rightarrow> safety_config \<Rightarrow> utext \<Rightarrow> utext list \<Rightarrow> safety_signal list \<Rightarrow> utext list \<Rightarrow>
     risk_finding" where
  "find_risks tc cfg raw selected signals answers =
     (let source = text_lines (raw # answers);
          chosen = normalize_selected (leak_negated tc raw) selected;
          search = py_strip (source @ 10 # text_lines chosen);
          detected = detected_signals tc source;
          alert = panel_alert tc source;
          features = feature_findings (\<lambda>s. s \<in> set signals \<or> s \<in> set detected) alert;
          danger = (signals \<noteq> [] \<or> detected \<noteq> [] \<or> alert);
          k = fold (keyword_step (asserted_keyword tc search)) (sc_rules cfg)
                (initial_finding danger features)
      in k\<lparr>rk_ids := rk_ids k @ map fst features\<rparr>)"

definition classify ::
  "text_checks \<Rightarrow> safety_config \<Rightarrow> utext \<Rightarrow> utext list \<Rightarrow> safety_signal list \<Rightarrow> utext list \<Rightarrow>
     ai_error + safety_assessment" where
  "classify tc cfg raw selected signals answers =
     (let k = find_risks tc cfg raw selected signals answers;
          priority = (if rk_level k = RISK_DANGER
            then (case select_effective_rule (sc_rules cfg) (rk_ids k) RISK_DANGER of
                    None \<Rightarrow> rk_priority k | Some r \<Rightarrow> priority_or r ''priority_consultation'')
            else rk_priority k);
          consultation = (rk_level k = RISK_DANGER \<or> rk_consultation k);
          reason = (if rk_risks k = [] then reason_no_keyword
            else text_joined [59, 32] (rk_reasons k))
      in safety_assessment_init (rk_level k) priority consultation (fromkeys (rk_ids k))
           (fromkeys (rk_risks k)) reason)"

section \<open>Usage guidance\<close>

definition no_evidence_guidance :: "safety_config \<Rightarrow> usage_guidance" where
  "no_evidence_guidance cfg =
     usage_guidance_init (ne_status (sc_no_evidence cfg)) (ne_message (sc_no_evidence cfg))
       [rf_ungrounded_self_help] [na_request_consultant]"

definition no_evidence_assessment :: "safety_config \<Rightarrow> safety_assessment \<Rightarrow> safety_assessment" where
  "no_evidence_assessment cfg a =
     (if sa_risk_level a = RISK_DANGER then a
      else a\<lparr>sa_risk_level := ne_risk_level (sc_no_evidence cfg),
             sa_priority := ne_priority (sc_no_evidence cfg),
             sa_requires_consultation := ne_requires_consultation (sc_no_evidence cfg),
             sa_safety_reason := ne_safety_reason (sc_no_evidence cfg)\<rparr>)"

definition or_default :: "'a list \<Rightarrow> 'a list \<Rightarrow> 'a list" where
  "or_default xs d = (if xs = [] then d else xs)"

definition danger_guidance :: "safety_config \<Rightarrow> string list \<Rightarrow> usage_guidance" where
  "danger_guidance cfg ids =
     (let rules = select_effective_rules (sc_rules cfg) ids RISK_DANGER;
          restricted = [rf_all_dispensing, rf_power_off];
          actions = [na_close_valve_default, na_unplug_default, na_engineer_default]
      in case rules of
           [] \<Rightarrow> usage_guidance_init GUIDE_TOTAL_STOP msg_danger_guidance restricted actions
         | r # _ \<Rightarrow> usage_guidance_init (sr_status r) msg_danger_guidance
             (or_default (merge_restricted rules) restricted)
             (or_default (merge_actions rules) actions))"

definition determine_guidance ::
  "safety_config \<Rightarrow> safety_assessment \<Rightarrow> bool \<Rightarrow> usage_guidance" where
  "determine_guidance cfg a has_evidence =
     (if \<not> has_evidence \<and> sa_risk_level a \<noteq> RISK_DANGER then no_evidence_guidance cfg
      else if sa_risk_level a = RISK_DANGER then danger_guidance cfg (sa_matched_safety_rule_ids a)
      else if sa_risk_level a = RISK_CAUTION
      then usage_guidance_init GUIDE_PARTIAL_STOP msg_caution_guidance [rf_check_function]
             [na_self_help_steps, na_consult_if_unresolved]
      else usage_guidance_init GUIDE_NORMAL msg_normal_guidance []
             [na_keep_filter, na_check_schedule])"

definition determine_assessment_and_guidance ::
  "safety_config \<Rightarrow> safety_assessment \<Rightarrow> bool \<Rightarrow> safety_assessment \<times> usage_guidance" where
  "determine_assessment_and_guidance cfg a has_evidence =
     (if \<not> has_evidence \<and> sa_risk_level a \<noteq> RISK_DANGER
      then (no_evidence_assessment cfg a, no_evidence_guidance cfg)
      else (a, determine_guidance cfg a has_evidence))"

section \<open>The validators\<close>

text \<open>\<open>SafetyRuleAlignmentValidator.validate\<close>.\<close>

definition validate_alignment ::
  "safety_config \<Rightarrow> safety_assessment \<Rightarrow> usage_guidance \<Rightarrow> ai_error + unit" where
  "validate_alignment cfg a g =
     (if sa_risk_level a \<noteq> RISK_DANGER then Inr ()
      else
        let ids = sa_matched_safety_rule_ids a;
            matched = select_effective_rules (sc_rules cfg) ids RISK_DANGER in
        rbind (guard_or (sa_requires_consultation a) (Value_error ''consultation'')) (\<lambda>_.
        rbind (guard_or (ids \<noteq> []) (Value_error ''no rule'')) (\<lambda>_.
        rbind (guard_or (set ids \<subseteq> set (map (sr_rule_id \<circ> snd) (sc_rules cfg)))
          (Value_error ''unknown rule'')) (\<lambda>_.
        rbind (guard_or (matched \<noteq> []) (Value_error ''no danger rule'')) (\<lambda>_.
        rbind (guard_or (list_all sr_requires_consultation matched)
          (Value_error ''rule without consultation'')) (\<lambda>_.
        rbind (of_option (Missing_key ''priority'') (sr_priority (hd matched))) (\<lambda>raw_priority.
        rbind (safety_priority_of raw_priority) (\<lambda>priority.
        rbind (guard_or (sa_priority a = priority) (Value_error ''priority'')) (\<lambda>_.
        rbind (guard_or (ug_status g = sr_status (hd matched)) (Value_error ''status'')) (\<lambda>_.
        rbind (guard_or (ug_restricted_functions g = merge_restricted matched)
          (Value_error ''restricted_functions'')) (\<lambda>_.
        guard_or (ug_next_actions g = merge_actions matched)
          (Value_error ''next_actions''))))))))))))"

text \<open>\<open>ProhibitedActionGuard.validate\<close> and \<open>ProhibitedPhraseValidator.validate\<close>.\<close>

definition actions_allowed :: "safety_config \<Rightarrow> utext list \<Rightarrow> bool" where
  "actions_allowed cfg actions =
     list_all (\<lambda>a. \<not> list_ex (\<lambda>p. occurs_in p a) (pe_repair (sc_prohibited cfg))) actions"

definition detected_phrases :: "safety_config \<Rightarrow> utext \<Rightarrow> utext list" where
  "detected_phrases cfg message =
     (let p = sc_prohibited cfg in
      filter (\<lambda>ph. occurs_in ph message) (pe_diagnosis p @ pe_guarantee p @ pe_repair p))"

definition sanitized_message :: "safety_config \<Rightarrow> utext \<Rightarrow> utext" where
  "sanitized_message cfg message =
     (if message = [] \<or> detected_phrases cfg message = [] then message
      else pe_fallback_message (sc_prohibited cfg))"

text \<open>\<open>UsageGuidanceValidator.validate\<close>.\<close>

definition validate_guidance ::
  "text_checks \<Rightarrow> safety_config \<Rightarrow> safety_assessment \<Rightarrow> usage_guidance \<Rightarrow> bool \<Rightarrow>
     ai_error + usage_guidance" where
  "validate_guidance tc cfg a g has_evidence =
     rbind (guard_or (\<not> (sa_risk_level a = RISK_DANGER \<and> ug_status g = GUIDE_NORMAL))
       (Value_error ''danger with NORMAL'')) (\<lambda>_.
     rbind (guard_or (has_evidence \<or> sa_risk_level a = RISK_DANGER \<or>
         ug_status g = GUIDE_PENDING_CONSULTATION) (Value_error ''no evidence'')) (\<lambda>_.
     rbind (validate_alignment cfg a g) (\<lambda>_.
     rbind (guard_or (semantics_ok tc (ug_message g) (ug_status g))
       (Value_error ''message'')) (\<lambda>_.
     rbind (guard_or (actions_allowed cfg (ug_next_actions g)) (Value_error ''repair action'')) (\<lambda>_.
     rbind (guard_or (ug_message g = [] \<or> detected_phrases cfg (ug_message g) = [])
       (Value_error ''prohibited phrase'')) (\<lambda>_.
     Inr g))))))"

end
