(* ===== verification/AiHarness.thy ===== *)
theory AiHarness
  imports AiSafety
begin

text \<open>
  The harness that decides whether an AI result may reach a customer:
  \<open>src/ai/app/orchestration/harness\<close> (\<open>product_registry.py\<close>, \<open>product_match.py\<close>, \<open>verifier.py\<close>,
  \<open>retry_policy.py\<close>, \<open>runner.py\<close>) and the input of a handoff to a consultant
  (\<open>orchestration/handoff/handoff_input.py\<close>).

  Tracing spans are left out, and so are the English messages of issues. The supplementary synthesis
  of a handoff by a language model never stops a handoff and is left out as well.
\<close>

section \<open>Products\<close>

datatype product_family = FAMILY_UNKNOWN | DIRECT_WATER_PURIFIER | ICE_WATER_PURIFIER

record product_context =
  pc_model_code :: string
  pc_family :: product_family
  pc_runtime_approved :: bool
  pc_supported_functions :: "string list"

text \<open>\<open>str.upper\<close> as far as the result is ASCII: letters, and the sharp s as two letters.\<close>

definition code_upper :: "string \<Rightarrow> string" where
  "code_upper s = concat (map (\<lambda>c. let n = of_char c :: nat in
     if 97 \<le> n \<and> n \<le> 122 then [char_of (n - 32)] else if n = 223 then ''SS'' else [c]) s)"

definition code_lower :: "string \<Rightarrow> string" where
  "code_lower s = map (\<lambda>c. let n = of_char c :: nat in
     if 65 \<le> n \<and> n \<le> 90 then char_of (n + 32) else c) s"

definition KNOWN_EXACT_MODEL_CODES :: "(string \<times> product_family) list" where
  "KNOWN_EXACT_MODEL_CODES =
     [(''WPUJAC104DWH'', DIRECT_WATER_PURIFIER), (''WPUIAC425SNW'', ICE_WATER_PURIFIER),
      (''WPUIAC606SNW'', ICE_WATER_PURIFIER)]"

definition RUNTIME_APPROVED_EXACT_MODEL_CODES :: "string list" where
  "RUNTIME_APPROVED_EXACT_MODEL_CODES = [''WPUJAC104DWH'']"

definition is_runtime_approved_model_code :: "string \<Rightarrow> string list option \<Rightarrow> bool" where
  "is_runtime_approved_model_code code approved =
     (code_upper (strip code) \<in> set (case approved of
        None \<Rightarrow> RUNTIME_APPROVED_EXACT_MODEL_CODES | Some cs \<Rightarrow> cs))"

definition resolve_product_context ::
  "string \<Rightarrow> string list \<Rightarrow> string list option \<Rightarrow> product_context" where
  "resolve_product_context code supported approved =
     (let exact = code_upper (strip code) in
      \<lparr>pc_model_code = exact,
       pc_family = (case map_of KNOWN_EXACT_MODEL_CODES exact of
          None \<Rightarrow> FAMILY_UNKNOWN | Some f \<Rightarrow> f),
       pc_runtime_approved = is_runtime_approved_model_code exact approved,
       pc_supported_functions = supported\<rparr>)"

definition normalize_model_code :: "string option \<Rightarrow> string option" where
  "normalize_model_code code =
     (case code of None \<Rightarrow> None
      | Some s \<Rightarrow>
          let n = filter (\<lambda>c. is_upper_char c \<or> is_digit_char c) (code_upper s) in
          if n = [] then None else Some n)"

definition infer_product_family :: "string option \<Rightarrow> product_family option" where
  "infer_product_family code =
     (case normalize_model_code code of None \<Rightarrow> None
      | Some n \<Rightarrow>
          if occurs_in ''IAC425'' n \<or> occurs_in ''IAC606'' n then Some ICE_WATER_PURIFIER
          else if occurs_in ''JAC104'' n \<or> occurs_in ''JCC104'' n then Some DIRECT_WATER_PURIFIER
          else None)"

section \<open>Verification results\<close>

datatype harness_decision = PASS | RETRY_RETRIEVAL | RETRY_GENERATION | HUMAN_REVIEW | ESCALATE

datatype issue_code =
    ISSUE_NO_EVIDENCE | ISSUE_UNVERIFIED_EVIDENCE | ISSUE_WRONG_MODEL_EVIDENCE
  | ISSUE_PRODUCT_FAMILY_MISMATCH | ISSUE_UNSUPPORTED_FUNCTION | ISSUE_SAFETY_CONFLICT
  | ISSUE_OUTPUT_SCHEMA_INVALID | ISSUE_AI_PROCESSING_TIMEOUT | ISSUE_RUNTIME_PRODUCT_NOT_APPROVED
  | ISSUE_MCP_TOOL_FAILURE

fun issue_value :: "issue_code \<Rightarrow> string" where
  "issue_value ISSUE_NO_EVIDENCE = ''NO_EVIDENCE''"
| "issue_value ISSUE_UNVERIFIED_EVIDENCE = ''UNVERIFIED_EVIDENCE''"
| "issue_value ISSUE_WRONG_MODEL_EVIDENCE = ''WRONG_MODEL_EVIDENCE''"
| "issue_value ISSUE_PRODUCT_FAMILY_MISMATCH = ''PRODUCT_FAMILY_MISMATCH''"
| "issue_value ISSUE_UNSUPPORTED_FUNCTION = ''UNSUPPORTED_FUNCTION''"
| "issue_value ISSUE_SAFETY_CONFLICT = ''SAFETY_CONFLICT''"
| "issue_value ISSUE_OUTPUT_SCHEMA_INVALID = ''OUTPUT_SCHEMA_INVALID''"
| "issue_value ISSUE_AI_PROCESSING_TIMEOUT = ''AI_PROCESSING_TIMEOUT''"
| "issue_value ISSUE_RUNTIME_PRODUCT_NOT_APPROVED = ''RUNTIME_PRODUCT_NOT_APPROVED''"
| "issue_value ISSUE_MCP_TOOL_FAILURE = ''MCP_TOOL_FAILURE''"

record verification_issue =
  vi_code :: issue_code
  vi_retryable :: bool
  vi_chunk_id :: "string option"

record verification_result =
  vr_decision :: harness_decision
  vr_evidence_present :: bool
  vr_product_match_valid :: bool
  vr_product_family_valid :: bool
  vr_function_valid :: bool
  vr_safety_valid :: bool
  vr_schema_valid :: bool
  vr_accepted :: "string list"
  vr_rejected :: "string list"
  vr_issues :: "verification_issue list"

section \<open>Product matching\<close>

record match_result =
  mr_model_valid :: bool
  mr_family_valid :: bool
  mr_accepted :: "string list"
  mr_rejected :: "string list"
  mr_issues :: "verification_issue list"

definition model_matches :: "product_context \<Rightarrow> retrieved_chunk \<Rightarrow> bool" where
  "model_matches p c =
     (normalize_model_code (ch_model_code c) \<noteq> None \<and>
      normalize_model_code (ch_model_code c) = normalize_model_code (Some (pc_model_code p)))"

definition family_conflicts :: "product_context \<Rightarrow> retrieved_chunk \<Rightarrow> bool" where
  "family_conflicts p c =
     (case infer_product_family (ch_model_code c) of None \<Rightarrow> False | Some f \<Rightarrow> f \<noteq> pc_family p)"

fun match_step :: "product_context \<Rightarrow> retrieved_chunk \<Rightarrow> match_result \<Rightarrow> match_result" where
  "match_step p c m =
     (if \<not> model_matches p c
      then m\<lparr>mr_model_valid := False, mr_rejected := mr_rejected m @ [ch_chunk_id c],
             mr_issues := mr_issues m @ [\<lparr>vi_code = ISSUE_WRONG_MODEL_EVIDENCE,
               vi_retryable = True, vi_chunk_id = Some (ch_chunk_id c)\<rparr>]\<rparr>
      else if family_conflicts p c
      then m\<lparr>mr_family_valid := False, mr_rejected := mr_rejected m @ [ch_chunk_id c],
             mr_issues := mr_issues m @ [\<lparr>vi_code = ISSUE_PRODUCT_FAMILY_MISMATCH,
               vi_retryable = True, vi_chunk_id = Some (ch_chunk_id c)\<rparr>]\<rparr>
      else m\<lparr>mr_accepted := mr_accepted m @ [ch_chunk_id c]\<rparr>)"

definition match_chunks :: "product_context \<Rightarrow> retrieved_chunk list \<Rightarrow> match_result" where
  "match_chunks p chunks = fold (match_step p) chunks
     \<lparr>mr_model_valid = True, mr_family_valid = True, mr_accepted = [], mr_rejected = [],
      mr_issues = []\<rparr>"

definition missing_functions :: "product_context \<Rightarrow> string list \<Rightarrow> string list" where
  "missing_functions p required =
     (let clean = (\<lambda>fs. map (code_lower \<circ> strip) (filter has_text fs)) in
      filter (\<lambda>f. f \<notin> set (clean (pc_supported_functions p))) (clean required))"

section \<open>The verifier\<close>

datatype tool_name = SEARCH_OFFICIAL_EVIDENCE | LOOKUP_PRODUCT_CONTEXT | GET_INQUIRY_CONTEXT

record tool_failure =
  tf_tool_name :: tool_name
  tf_retryable :: bool

definition retrieval_retry_allowed :: "tool_failure \<Rightarrow> bool" where
  "retrieval_retry_allowed f = (tf_retryable f \<and> tf_tool_name f = SEARCH_OFFICIAL_EVIDENCE)"

text \<open>
  What a verification is called with. The optional payload and its schema are checked by the schema
  library: \<open>hi_payload\<close> says whether they are given and whether the payload conforms.
\<close>

datatype output_payload = No_payload | Payload_without_schema | Payload bool

record harness_input =
  hi_product :: product_context
  hi_chunks :: "retrieved_chunk list"
  hi_safety :: "safety_assessment option"
  hi_guidance :: "usage_guidance option"
  hi_required_functions :: "string list"
  hi_payload :: output_payload
  hi_timed_out :: bool
  hi_evidence_required :: "bool option"
  hi_tool_failure :: "tool_failure option"

definition VERIFIED_STATUSES :: "string list" where
  "VERIFIED_STATUSES = [''official_verified'', ''team_verified'']"

definition chunk_eligible :: "retrieved_chunk \<Rightarrow> bool" where
  "chunk_eligible c = (ch_allowed_use c \<and> ch_runtime_eligible c \<and>
     ch_verification_status c \<in> set VERIFIED_STATUSES)"

definition safety_is_consistent ::
  "safety_config \<Rightarrow> safety_assessment option \<Rightarrow> usage_guidance option \<Rightarrow> ai_error + bool" where
  "safety_is_consistent cfg safety guidance =
     (case (safety, guidance) of
        (Some a, Some g) \<Rightarrow>
          (case validate_alignment cfg a g of
             Inr _ \<Rightarrow> Inr True | Inl (Value_error _) \<Rightarrow> Inr False | Inl e \<Rightarrow> Inl e)
      | _ \<Rightarrow> Inr True)"

definition schema_is_valid :: "usage_guidance option \<Rightarrow> output_payload \<Rightarrow> bool" where
  "schema_is_valid guidance payload =
     (guidance \<noteq> None \<and> (case payload of
        No_payload \<Rightarrow> True | Payload_without_schema \<Rightarrow> False | Payload conforms \<Rightarrow> conforms))"

definition issue :: "issue_code \<Rightarrow> bool \<Rightarrow> string option \<Rightarrow> verification_issue" where
  "issue c retryable chunk = \<lparr>vi_code = c, vi_retryable = retryable, vi_chunk_id = chunk\<rparr>"

definition is_danger :: "safety_assessment option \<Rightarrow> bool" where
  "is_danger safety = (case safety of None \<Rightarrow> False | Some a \<Rightarrow> sa_risk_level a = RISK_DANGER)"

definition all_rejected :: "harness_input \<Rightarrow> string list" where
  "all_rejected h = map ch_chunk_id (hi_chunks h)"

definition unapproved_result :: "harness_input \<Rightarrow> bool \<Rightarrow> verification_result" where
  "unapproved_result h safe =
     \<lparr>vr_decision = ESCALATE, vr_evidence_present = False, vr_product_match_valid = False,
      vr_product_family_valid = (pc_family (hi_product h) \<noteq> FAMILY_UNKNOWN),
      vr_function_valid = False, vr_safety_valid = safe,
      vr_schema_valid = schema_is_valid (hi_guidance h) (hi_payload h), vr_accepted = [],
      vr_rejected = all_rejected h,
      vr_issues = [issue ISSUE_RUNTIME_PRODUCT_NOT_APPROVED False None]\<rparr>"

definition tool_failure_result :: "harness_input \<Rightarrow> tool_failure \<Rightarrow> bool \<Rightarrow> verification_result" where
  "tool_failure_result h f safe =
     \<lparr>vr_decision = (if retrieval_retry_allowed f then RETRY_RETRIEVAL else ESCALATE),
      vr_evidence_present = False, vr_product_match_valid = True,
      vr_product_family_valid = (pc_family (hi_product h) \<noteq> FAMILY_UNKNOWN),
      vr_function_valid = False, vr_safety_valid = safe,
      vr_schema_valid = schema_is_valid (hi_guidance h) (hi_payload h), vr_accepted = [],
      vr_rejected = all_rejected h,
      vr_issues = [issue ISSUE_MCP_TOOL_FAILURE (retrieval_retry_allowed f) None]\<rparr>"

definition timeout_result :: "harness_input \<Rightarrow> verification_result" where
  "timeout_result h =
     \<lparr>vr_decision = ESCALATE, vr_evidence_present = (hi_chunks h \<noteq> []),
      vr_product_match_valid = False, vr_product_family_valid = False, vr_function_valid = False,
      vr_safety_valid = False, vr_schema_valid = False, vr_accepted = [],
      vr_rejected = all_rejected h, vr_issues = [issue ISSUE_AI_PROCESSING_TIMEOUT False None]\<rparr>"

definition RETRYABLE_RETRIEVAL_ISSUES :: "issue_code list" where
  "RETRYABLE_RETRIEVAL_ISSUES = [ISSUE_UNVERIFIED_EVIDENCE, ISSUE_WRONG_MODEL_EVIDENCE,
     ISSUE_PRODUCT_FAMILY_MISMATCH]"

text \<open>The verdict on a run of an approved product without a tool failure.\<close>

definition evidence_verdict :: "harness_input \<Rightarrow> bool \<Rightarrow> verification_result" where
  "evidence_verdict h safe =
     (let required = (case hi_evidence_required h of
            None \<Rightarrow> \<not> is_danger (hi_safety h) | Some b \<Rightarrow> b);
          eligible = filter chunk_eligible (hi_chunks h);
          refused = filter (\<lambda>c. \<not> chunk_eligible c) (hi_chunks h);
          m = match_chunks (hi_product h) eligible;
          missing = missing_functions (hi_product h) (hi_required_functions h);
          present = (mr_accepted m \<noteq> []);
          schema = schema_is_valid (hi_guidance h) (hi_payload h);
          issues = map (\<lambda>c. issue ISSUE_UNVERIFIED_EVIDENCE True (Some (ch_chunk_id c))) refused @
            mr_issues m @
            (if missing \<noteq> [] then [issue ISSUE_UNSUPPORTED_FUNCTION False None] else []) @
            (if required \<and> \<not> present then [issue ISSUE_NO_EVIDENCE False None] else []) @
            (if \<not> safe then [issue ISSUE_SAFETY_CONFLICT False None] else []) @
            (if \<not> schema then [issue ISSUE_OUTPUT_SCHEMA_INVALID True None] else []);
          retryable = list_ex (\<lambda>i. vi_retryable i \<and> vi_code i \<in> set RETRYABLE_RETRIEVAL_ISSUES)
            issues;
          decision =
            (if \<not> safe then ESCALATE
             else if missing \<noteq> [] then HUMAN_REVIEW
             else if required \<and> \<not> present
             then (if retryable then RETRY_RETRIEVAL else ESCALATE)
             else if required \<and> (\<not> mr_model_valid m \<or> \<not> mr_family_valid m) then RETRY_RETRIEVAL
             else if \<not> schema then RETRY_GENERATION
             else PASS)
      in \<lparr>vr_decision = decision, vr_evidence_present = present,
          vr_product_match_valid = mr_model_valid m, vr_product_family_valid = mr_family_valid m,
          vr_function_valid = (missing = []), vr_safety_valid = safe, vr_schema_valid = schema,
          vr_accepted = mr_accepted m,
          vr_rejected = fromkeys (map ch_chunk_id refused @ mr_rejected m), vr_issues = issues\<rparr>)"

definition verify_output :: "safety_config \<Rightarrow> harness_input \<Rightarrow> ai_error + verification_result" where
  "verify_output cfg h =
     (if hi_timed_out h then Inr (timeout_result h)
      else rbind (safety_is_consistent cfg (hi_safety h) (hi_guidance h)) (\<lambda>safe.
        if \<not> pc_runtime_approved (hi_product h) then Inr (unapproved_result h safe)
        else case hi_tool_failure h of
               Some f \<Rightarrow> Inr (tool_failure_result h f safe)
             | None \<Rightarrow> Inr (evidence_verdict h safe)))"

section \<open>Retries\<close>

record retry_state =
  rt_retrieval :: nat
  rt_generation :: nat

definition MAX_RETRIEVAL_RETRIES :: nat where "MAX_RETRIEVAL_RETRIES = 1"
definition MAX_GENERATION_RETRIES :: nat where "MAX_GENERATION_RETRIES = 1"

text \<open>The decision, the state after it, and whether the budget was exhausted.\<close>

definition apply_retry_policy ::
  "harness_decision \<Rightarrow> retry_state \<Rightarrow> harness_decision \<times> retry_state \<times> bool" where
  "apply_retry_policy d st =
     (if d = RETRY_RETRIEVAL
      then (if MAX_RETRIEVAL_RETRIES \<le> rt_retrieval st then (ESCALATE, st, True)
            else (RETRY_RETRIEVAL, st\<lparr>rt_retrieval := rt_retrieval st + 1\<rparr>, False))
      else if d = RETRY_GENERATION
      then (if MAX_GENERATION_RETRIES \<le> rt_generation st then (ESCALATE, st, True)
            else (RETRY_GENERATION, st\<lparr>rt_generation := rt_generation st + 1\<rparr>, False))
      else (d, st, False))"

section \<open>The runner\<close>

datatype harness_error =
    ERROR_NO_EVIDENCE | ERROR_AI_PROCESSING_TIMEOUT | ERROR_MCP_TOOL_FAILURE
  | ERROR_OUTPUT_SCHEMA_INVALID

fun error_value :: "harness_error \<Rightarrow> string" where
  "error_value ERROR_NO_EVIDENCE = ''NO_EVIDENCE''"
| "error_value ERROR_AI_PROCESSING_TIMEOUT = ''AI_PROCESSING_TIMEOUT''"
| "error_value ERROR_MCP_TOOL_FAILURE = ''MCP_TOOL_FAILURE''"
| "error_value ERROR_OUTPUT_SCHEMA_INVALID = ''OUTPUT_SCHEMA_INVALID''"

record harness_result =
  hr_decision :: harness_decision
  hr_verification :: verification_result
  hr_retry_state :: retry_state
  hr_error_code :: "harness_error option"
  hr_should_retry :: bool
  hr_should_escalate :: bool

definition has_issue :: "verification_result \<Rightarrow> issue_code \<Rightarrow> bool" where
  "has_issue v c = list_ex (\<lambda>i. vi_code i = c) (vr_issues v)"

definition exhausted_error_code :: "verification_result \<Rightarrow> harness_error" where
  "exhausted_error_code v =
     (if has_issue v ISSUE_MCP_TOOL_FAILURE then ERROR_MCP_TOOL_FAILURE
      else if has_issue v ISSUE_OUTPUT_SCHEMA_INVALID then ERROR_OUTPUT_SCHEMA_INVALID
      else ERROR_NO_EVIDENCE)"

definition judge_verification ::
  "harness_input \<Rightarrow> retry_state \<Rightarrow> verification_result \<Rightarrow> harness_result" where
  "judge_verification h st v =
     (if hi_timed_out h
      then \<lparr>hr_decision = ESCALATE, hr_verification = v, hr_retry_state = st,
            hr_error_code = Some ERROR_AI_PROCESSING_TIMEOUT, hr_should_retry = False,
            hr_should_escalate = True\<rparr>
      else if hi_tool_failure h \<noteq> None \<and> vr_decision v = ESCALATE
      then \<lparr>hr_decision = ESCALATE, hr_verification = v, hr_retry_state = st,
            hr_error_code = Some ERROR_MCP_TOOL_FAILURE, hr_should_retry = False,
            hr_should_escalate = True\<rparr>
      else case apply_retry_policy (vr_decision v) st of
        (d, st', exhausted) \<Rightarrow>
          if exhausted
          then \<lparr>hr_decision = ESCALATE, hr_verification = v, hr_retry_state = st',
                hr_error_code = Some (exhausted_error_code v), hr_should_retry = False,
                hr_should_escalate = True\<rparr>
          else \<lparr>hr_decision = d, hr_verification = v, hr_retry_state = st', hr_error_code = None,
                hr_should_retry = (d = RETRY_RETRIEVAL \<or> d = RETRY_GENERATION),
                hr_should_escalate = (d = ESCALATE)\<rparr>)"

definition run_harness ::
  "safety_config \<Rightarrow> retry_state \<Rightarrow> harness_input \<Rightarrow> ai_error + harness_result" where
  "run_harness cfg st h = rbind (verify_output cfg h) (\<lambda>v. Inr (judge_verification h st v))"

end
