(* ===== verification/AiContext.thy ===== *)
theory AiContext
  imports AiHarness
begin

text \<open>
  The context a pipeline run works on (\<open>orchestration/pipeline_context.py\<close>), when it waits for the
  customer (\<open>orchestration/clarification_policy.py\<close>, \<open>retrieval/filters/evidence_applicability_gate.py\<close>,
  \<open>structuring/duplicate_question_guard.py\<close>), the handoff of a run to a consultant
  (\<open>orchestration/handoff/handoff_input.py\<close>) and the routing of a harness result
  (\<open>HarnessRunner.route_runtime\<close>).
\<close>

section \<open>The context\<close>

record pipeline_context =
  cx_inquiry_id :: nat
  cx_correlation_id :: nat
  cx_ai_request_id :: string
  cx_state_version :: nat
  cx_raw_symptom :: utext
  cx_model_code :: string
  cx_selected_symptoms :: "utext list"
  cx_previous_answers :: "(string \<times> utext) list"
  cx_structured_symptom :: "structured_symptom option"
  cx_safety_signals :: "safety_signal list"
  cx_missing_fields :: "missing_field list"
  cx_followup_questions :: "followup_question list"
  cx_safety_assessment :: "safety_assessment option"
  cx_evidence_references :: "evidence_reference list"
  cx_retrieval_outcome :: retrieval_outcome
  cx_retry_count :: nat
  cx_usage_guidance :: "usage_guidance option"
  cx_awaiting_customer_input :: bool

section \<open>Waiting for the customer\<close>

definition APPLICABILITY_QUESTION_ID :: string where
  "APPLICABILITY_QUESTION_ID = ''followup-taste-odor-applicability''"

definition supported_conditions :: "utext list" where
  "supported_conditions =
     [opt_absence_within_10, opt_absence_over_10, opt_long_unused, opt_unsuitable_place]"

text \<open>
  Whether the last answer to the applicability question names a supported condition. \<open>nfc\<close> is
  Unicode's normalization form C.
\<close>

definition applicability_supported :: "(utext \<Rightarrow> utext) \<Rightarrow> (string \<times> utext) list \<Rightarrow> bool" where
  "applicability_supported nfc answers =
     (case find (\<lambda>a. fst a = APPLICABILITY_QUESTION_ID) (rev answers) of
        None \<Rightarrow> False | Some a \<Rightarrow> py_strip (nfc (snd a)) \<in> set supported_conditions)"

definition required_fields :: "structured_symptom option \<Rightarrow> string list" where
  "required_fields symptom =
     (if (case symptom of None \<Rightarrow> False | Some s \<Rightarrow> ss_symptom_type s = txt_taste_odor)
      then [''occurrence_time'', ''target_water_type'', ''actions_taken'', ''taste_odor_applicability'']
      else [])"

definition requires_more_information :: "(utext \<Rightarrow> utext) \<Rightarrow> pipeline_context \<Rightarrow> bool" where
  "requires_more_information nfc ctx =
     (list_ex (\<lambda>m. mf_field_name m \<in> set (required_fields (cx_structured_symptom ctx)))
        (cx_missing_fields ctx) \<or>
      (required_fields (cx_structured_symptom ctx) \<noteq> [] \<and>
       \<not> applicability_supported nfc (cx_previous_answers ctx)))"

definition required_missing_fields :: "pipeline_context \<Rightarrow> string list" where
  "required_missing_fields ctx =
     map mf_field_name (filter (\<lambda>m. mf_importance m = IMPORTANCE_HIGH \<or>
       mf_field_name m \<in> set (required_fields (cx_structured_symptom ctx))) (cx_missing_fields ctx))"

definition should_wait_for_customer_input :: "(utext \<Rightarrow> utext) \<Rightarrow> pipeline_context \<Rightarrow> bool" where
  "should_wait_for_customer_input nfc ctx =
     (\<not> is_danger (cx_safety_assessment ctx) \<and>
      (requires_more_information nfc ctx \<or> required_missing_fields ctx \<noteq> []))"

definition QUESTION_FIELD_MAP :: "(string \<times> string) list" where
  "QUESTION_FIELD_MAP =
     [(''followup-occurrence-time'', ''occurrence_time''),
      (''followup-target-water-type'', ''target_water_type''),
      (''followup-occurrence-condition'', ''occurrence_condition''),
      (''followup-actions-taken'', ''actions_taken''),
      (''followup-taste-odor-applicability'', ''taste_odor_applicability'')]"

definition answered_target_fields :: "(string \<times> utext) list \<Rightarrow> string list" where
  "answered_target_fields answers =
     List.map_filter (\<lambda>a. if blank_text (snd a) then None else map_of QUESTION_FIELD_MAP (fst a))
       answers"

definition unresolved_answered_required_fields :: "pipeline_context \<Rightarrow> string list" where
  "unresolved_answered_required_fields ctx =
     filter (\<lambda>f. f \<in> set (answered_target_fields (cx_previous_answers ctx)))
       (required_missing_fields ctx)"

section \<open>Handoff to a consultant\<close>

datatype routing_reason = ROUTE_FAIL_CLOSED | ROUTE_DANGER | ROUTE_HARNESS_ESCALATE

record handoff =
  ho_inquiry_id :: nat
  ho_correlation_id :: nat
  ho_ai_request_id :: string
  ho_state_version :: nat
  ho_routing_reason :: routing_reason
  ho_model_code :: string
  ho_safety_requires_consultation :: bool
  ho_escalation_reason :: string
  ho_source_chunk_ids :: "string list"

definition within :: "nat \<Rightarrow> 'a list \<Rightarrow> bool" where
  "within n xs = (xs \<noteq> [] \<and> length xs \<le> n)"

definition labelled :: "string \<Rightarrow> utext option \<Rightarrow> utext list" where
  "labelled name v =
     (case v of None \<Rightarrow> [] | Some t \<Rightarrow> if t = [] then [] else [text_of (name @ ''='') @ t])"

definition symptom_parts :: "structured_symptom option \<Rightarrow> utext list" where
  "symptom_parts symptom =
     (let parts = (case symptom of None \<Rightarrow> []
        | Some s \<Rightarrow> labelled ''symptom_type'' (Some (ss_symptom_type s)) @
            labelled ''occurrence_time'' (ss_occurrence_time s) @
            labelled ''target_water_type'' (ss_target_water_type s) @
            labelled ''occurrence_condition'' (ss_occurrence_condition s) @
            labelled ''error_code'' (ss_error_code s) @
            map (\<lambda>t. text_of ''accompanying_symptom='' @ t) (ss_accompanying_symptoms s))
      in if parts = [] then [text_of ''structured symptom unavailable''] else parts)"

text \<open>The lengths the handoff contract admits; an empty answer is skipped.\<close>

definition handoff_answer_ok :: "string \<times> utext \<Rightarrow> bool" where
  "handoff_answer_ok a =
     (snd a = [] \<or>
      (within 100 (trim (if fst a = [] then ''answer'' else fst a)) \<and> within 500 (text_strip (snd a))))"

definition handoff_evidence_ok :: "evidence_reference \<Rightarrow> bool" where
  "handoff_evidence_ok e =
     (within 200 (trim (er_chunk_id e)) \<and> within 500 (text_strip (er_document_title e)) \<and>
      (case er_page e of None \<Rightarrow> True | Some p \<Rightarrow> 1 \<le> p) \<and> within 2000 (text_strip (er_summary e)))"

definition handoff_evidence :: "pipeline_context \<Rightarrow> string list \<Rightarrow> evidence_reference list" where
  "handoff_evidence ctx accepted =
     filter (\<lambda>e. er_chunk_id e \<in> set accepted) (cx_evidence_references ctx)"

definition handoff_input_ok :: "pipeline_context \<Rightarrow> string \<Rightarrow> string list \<Rightarrow> bool" where
  "handoff_input_ok ctx reason accepted =
     (within 100 (trim (cx_ai_request_id ctx)) \<and> 1 \<le> cx_state_version ctx \<and>
      within 100 (trim (cx_model_code ctx)) \<and>
      within 2000 (text_strip (text_joined [32, 124, 32] (symptom_parts (cx_structured_symptom ctx)))) \<and>
      list_all handoff_answer_ok (cx_previous_answers ctx) \<and>
      list_all handoff_evidence_ok (handoff_evidence ctx accepted) \<and>
      within 500 (trim reason))"

text \<open>\<open>HarnessRunner._context_routing_reason\<close>.\<close>

definition uses_retrieving_failure_stage :: "pipeline_context \<Rightarrow> bool" where
  "uses_retrieving_failure_stage ctx =
     (cx_retrieval_outcome ctx = NO_MATCH \<and> cx_evidence_references ctx = [] \<and>
      \<not> cx_awaiting_customer_input ctx \<and>
      (case cx_usage_guidance ctx of None \<Rightarrow> False
       | Some g \<Rightarrow> ug_status g = GUIDE_PENDING_CONSULTATION))"

definition context_routing_reason :: "pipeline_context \<Rightarrow> string \<Rightarrow> routing_reason" where
  "context_routing_reason ctx reason =
     (if reason \<in> {''RUNTIME_PRODUCT_NOT_APPROVED'', ''AI_PROCESSING_TIMEOUT'',
         ''HUMAN_REVIEW_REJECTED''} then ROUTE_FAIL_CLOSED
      else if is_danger (cx_safety_assessment ctx) then ROUTE_DANGER
      else if reason = ''NO_EVIDENCE'' then ROUTE_FAIL_CLOSED
      else if reason \<in> {''MCP_TOOL_FAILURE'', ''OUTPUT_SCHEMA_INVALID'', ''UNSPECIFIED_FALLBACK''} \<and>
        uses_retrieving_failure_stage ctx then ROUTE_FAIL_CLOSED
      else ROUTE_HARNESS_ESCALATE)"

definition create_handoff :: "pipeline_context \<Rightarrow> string \<Rightarrow> string list \<Rightarrow> ai_error + handoff" where
  "create_handoff ctx reason accepted =
     (let ids = fromkeys accepted in
      rbind (guard_or (handoff_input_ok ctx reason ids)
        (Value_error ''ConsultationHandoffInput'')) (\<lambda>_.
      Inr \<lparr>ho_inquiry_id = cx_inquiry_id ctx, ho_correlation_id = cx_correlation_id ctx,
           ho_ai_request_id = cx_ai_request_id ctx, ho_state_version = cx_state_version ctx,
           ho_routing_reason = context_routing_reason ctx reason, ho_model_code = cx_model_code ctx,
           ho_safety_requires_consultation = (case cx_safety_assessment ctx of
              None \<Rightarrow> False | Some a \<Rightarrow> sa_requires_consultation a),
           ho_escalation_reason = reason,
           ho_source_chunk_ids = map er_chunk_id (handoff_evidence ctx ids)\<rparr>))"

section \<open>Routing of a harness result\<close>

record review_request =
  rq_review_reason :: string
  rq_issue_codes :: "string list"
  rq_evidence_chunk_ids :: "string list"
  rq_proposed_guidance :: usage_guidance

record runtime_result =
  ru_harness :: harness_result
  ru_human_review :: "review_request option"
  ru_handoff :: "handoff option"

fun comma_separated :: "string list \<Rightarrow> string" where
  "comma_separated [] = []"
| "comma_separated [s] = s"
| "comma_separated (s # t # ts) = s @ '','' @ comma_separated (t # ts)"

definition review_reason_text :: "string list \<Rightarrow> string" where
  "review_reason_text codes =
     ''HARNESS_HUMAN_REVIEW:'' @ (if codes = [] then ''UNSPECIFIED'' else comma_separated codes)"

definition canonical_escalation_reason :: "harness_result \<Rightarrow> string" where
  "canonical_escalation_reason h =
     (if hr_error_code h = Some ERROR_AI_PROCESSING_TIMEOUT then ''AI_PROCESSING_TIMEOUT''
      else case find (\<lambda>c. has_issue (hr_verification h) c)
             [ISSUE_RUNTIME_PRODUCT_NOT_APPROVED, ISSUE_MCP_TOOL_FAILURE,
              ISSUE_OUTPUT_SCHEMA_INVALID, ISSUE_NO_EVIDENCE] of
        Some c \<Rightarrow> issue_value c
      | None \<Rightarrow> (case hr_error_code h of Some e \<Rightarrow> error_value e | None \<Rightarrow> ''UNSPECIFIED_FALLBACK''))"

definition start_review ::
  "pipeline_context \<Rightarrow> harness_result \<Rightarrow> usage_guidance \<Rightarrow> ai_error + review_request" where
  "start_review ctx h g =
     (let codes = map (issue_value \<circ> vi_code) (vr_issues (hr_verification h));
          reason = review_reason_text codes in
      rbind (guard_or (within 100 (trim (cx_ai_request_id ctx)) \<and> 1 \<le> cx_state_version ctx \<and>
          within 100 (trim (cx_model_code ctx)) \<and> within 500 (trim reason))
        (Value_error ''HumanReviewRequest'')) (\<lambda>_.
      Inr \<lparr>rq_review_reason = reason, rq_issue_codes = codes,
           rq_evidence_chunk_ids = vr_accepted (hr_verification h), rq_proposed_guidance = g\<rparr>))"

definition route_runtime ::
  "pipeline_context \<Rightarrow> harness_result \<Rightarrow> usage_guidance option \<Rightarrow> string option \<Rightarrow>
     ai_error + runtime_result" where
  "route_runtime ctx h guidance forced =
     (let accepted = vr_accepted (hr_verification h);
          hand_over = (\<lambda>reason. rbind (create_handoff ctx reason accepted) (\<lambda>ho.
            Inr \<lparr>ru_harness = h, ru_human_review = None, ru_handoff = Some ho\<rparr>)) in
      if hr_decision h = HUMAN_REVIEW
      then (case guidance of
              None \<Rightarrow> hand_over (canonical_escalation_reason h)
            | Some g \<Rightarrow> rbind (start_review ctx h g) (\<lambda>r.
                Inr \<lparr>ru_harness = h, ru_human_review = Some r, ru_handoff = None\<rparr>))
      else if hr_should_escalate h then hand_over (canonical_escalation_reason h)
      else case forced of
             Some reason \<Rightarrow> hand_over reason
           | None \<Rightarrow> Inr \<lparr>ru_harness = h, ru_human_review = None, ru_handoff = None\<rparr>)"

end
