(* ===== verification/AiPipeline.thy ===== *)
theory AiPipeline
  imports AiContext
begin

text \<open>
  A pipeline run: the stages of \<open>orchestration/stages\<close>, the generation of guidance
  (\<open>generation/customer_guidance/guidance_generator.py\<close>), the guarded search
  (\<open>harness/evidence_capture.py\<close>), the single RAG pipeline (\<open>pipelines/single_rag_pipeline.py\<close>) and
  the cooperative cancellation (\<open>common/timeout/cancellation.py\<close>).

  Python raises through code that has already changed the context, so a step returns its result
  \<^emph>\<open>and\<close> the state it left, also when the result is an exception.
\<close>

section \<open>The world outside\<close>

text \<open>
  What the run asks for and does not decide: the vector search, the provider of guidance, the clock
  behind the deadlines and a cancellation by the caller (one answer per checkpoint), the structuring
  and the questions of a symptom, and the selection among forwarded chunks by topic and scenario.
\<close>

datatype search_reply =
    Search_found "retrieved_chunk list"
  | Search_fails bool
  | Search_tool_error string bool
  | Search_cancelled
  | Search_timed_out

datatype provider_failure = Provider_timeout | Provider_connection | Provider_broken

definition failure_code :: "provider_failure \<Rightarrow> string" where
  "failure_code f =
     (if f = Provider_timeout then ''PROVIDER_TIMEOUT''
      else if f = Provider_connection then ''PROVIDER_TRANSPORT_FAILURE''
      else ''PROVIDER_EXECUTION_FAILED'')"

datatype provider_reply =
    Provider_output nat "utext list"
  | Provider_configuration
  | Provider_output_invalid string
  | Provider_refusal
  | Provider_cancelled
  | Provider_timed_out
  | Provider_fails bool provider_failure

datatype checkpoint = Go_on | Deadline_passed | Cancel_requested

record ai_world =
  wd_checks :: text_checks
  wd_nfc :: "utext \<Rightarrow> utext"
  wd_config :: safety_config
  wd_has_search :: bool
  wd_has_provider :: bool
  wd_search :: "nat \<Rightarrow> search_reply"
  wd_provider :: "nat \<Rightarrow> provider_reply"
  wd_clock :: "nat \<Rightarrow> checkpoint"
  wd_structure :: "bool \<Rightarrow> pipeline_context \<Rightarrow> structured_symptom \<times> safety_signal list"
  wd_questions :: "pipeline_context \<Rightarrow>
     structured_symptom \<times> missing_field list \<times> followup_question list"
  wd_select :: "pipeline_context \<Rightarrow> retrieved_chunk list \<Rightarrow> retrieved_chunk list"
  wd_summary_ok :: "pipeline_context \<Rightarrow> bool"

section \<open>Steps\<close>

record capture =
  cp_forwarded :: "retrieved_chunk list"
  cp_rejected :: "retrieved_chunk list"
  cp_all_rejected :: "retrieved_chunk list"

record run_state =
  rs_ctx :: pipeline_context
  rs_capture :: capture
  rs_searches :: nat
  rs_provider_calls :: nat
  rs_checks :: nat

type_synonym 'a run_step = "run_state \<Rightarrow> (ai_error + 'a) \<times> run_state"

fun and_then :: "'a run_step \<Rightarrow> ('a \<Rightarrow> 'b run_step) \<Rightarrow> 'b run_step" where
  "and_then m f s = (case m s of (Inl e, t) \<Rightarrow> (Inl e, t) | (Inr a, t) \<Rightarrow> f a t)"

definition done_with :: "'a \<Rightarrow> 'a run_step" where
  "done_with a s = (Inr a, s)"

definition fails_with :: "ai_error \<Rightarrow> 'a run_step" where
  "fails_with e s = (Inl e, s)"

definition result_step :: "ai_error + 'a \<Rightarrow> 'a run_step" where
  "result_step r s = (r, s)"

definition change_ctx :: "(pipeline_context \<Rightarrow> pipeline_context) \<Rightarrow> unit run_step" where
  "change_ctx f s = (Inr (), s\<lparr>rs_ctx := f (rs_ctx s)\<rparr>)"

definition with_ctx :: "(pipeline_context \<Rightarrow> 'a run_step) \<Rightarrow> 'a run_step" where
  "with_ctx f s = f (rs_ctx s) s"

text \<open>\<open>raise_if_cancelled\<close>, outside and inside a deadline; \<open>deadline_scope\<close> checks on entry and exit.\<close>

definition raise_if_cancelled :: "ai_world \<Rightarrow> string option \<Rightarrow> unit run_step" where
  "raise_if_cancelled w scope s =
     (let t = s\<lparr>rs_checks := rs_checks s + 1\<rparr> in
      case wd_clock w (rs_checks s) of
        Go_on \<Rightarrow> (Inr (), t)
      | Cancel_requested \<Rightarrow> (Inl Pipeline_cancelled, t)
      | Deadline_passed \<Rightarrow> (case scope of None \<Rightarrow> (Inr (), t) | Some stage \<Rightarrow> (Inl (Stage_timeout stage), t)))"

definition deadline_scope :: "ai_world \<Rightarrow> string \<Rightarrow> unit run_step \<Rightarrow> unit run_step" where
  "deadline_scope w stage body =
     and_then (raise_if_cancelled w (Some stage)) (\<lambda>_.
     and_then body (\<lambda>_. raise_if_cancelled w (Some stage)))"

section \<open>The guarded search\<close>

definition customer_safe :: "product_context \<Rightarrow> retrieved_chunk \<Rightarrow> bool" where
  "customer_safe p c =
     (pc_runtime_approved p \<and> pc_family p \<noteq> FAMILY_UNKNOWN \<and> chunk_eligible c \<and>
      normalize_model_code (ch_model_code c) = normalize_model_code (Some (pc_model_code p)))"

definition record_search :: "product_context \<Rightarrow> retrieved_chunk list \<Rightarrow> capture \<Rightarrow> capture" where
  "record_search p chunks cp =
     (let rejected = filter (\<lambda>c. \<not> customer_safe p c) chunks in
      \<lparr>cp_forwarded = cp_forwarded cp @ filter (customer_safe p) chunks,
       cp_rejected = cp_rejected cp @ rejected,
       cp_all_rejected = cp_all_rejected cp @ rejected\<rparr>)"

definition guarded_search ::
  "ai_world \<Rightarrow> product_context \<Rightarrow> run_state \<Rightarrow> search_reply \<times> run_state" where
  "guarded_search w p s =
     (if \<not> pc_runtime_approved p then (Search_found [], s)
      else
        let t = s\<lparr>rs_searches := rs_searches s + 1\<rparr> in
        case wd_search w (rs_searches s) of
          Search_found chunks \<Rightarrow>
            (Search_found (filter (customer_safe p) chunks),
             t\<lparr>rs_capture := record_search p chunks (rs_capture t)\<rparr>)
        | r \<Rightarrow> (r, t))"

definition begin_attempt :: "unit run_step" where
  "begin_attempt s = (Inr (), s\<lparr>rs_capture := (rs_capture s)\<lparr>cp_forwarded := [], cp_rejected := []\<rparr>\<rparr>)"

text \<open>The chunks the run used, then the refused ones, the first of every identifier.\<close>

fun first_chunks :: "string list \<Rightarrow> retrieved_chunk list \<Rightarrow> retrieved_chunk list" where
  "first_chunks seen [] = []"
| "first_chunks seen (c # cs) =
     (if ch_chunk_id c \<in> set seen then first_chunks seen cs
      else c # first_chunks (ch_chunk_id c # seen) cs)"

definition evidence_for_harness :: "run_state \<Rightarrow> retrieved_chunk list" where
  "evidence_for_harness s =
     (let used = map er_chunk_id (cx_evidence_references (rs_ctx s)) in
      first_chunks [] (filter (\<lambda>c. ch_chunk_id c \<in> set used) (cp_forwarded (rs_capture s)) @
        cp_rejected (rs_capture s)))"

definition rejected_chunk_ids :: "run_state \<Rightarrow> string list" where
  "rejected_chunk_ids s = fromkeys (map ch_chunk_id (cp_all_rejected (rs_capture s)))"

section \<open>The retrieval stage\<close>

definition evidence_of_chunk :: "retrieved_chunk \<Rightarrow> evidence_reference" where
  "evidence_of_chunk c =
     \<lparr>er_document_title = text_strip (ch_document_title c), er_page = ch_page c,
      er_chunk_id = trim (ch_chunk_id c), er_summary = text_strip (ch_content c),
      er_verification_status = ch_verification_status c\<rparr>"

definition store_evidence :: "evidence_reference list \<Rightarrow> pipeline_context \<Rightarrow> pipeline_context" where
  "store_evidence es ctx =
     ctx\<lparr>cx_evidence_references := es,
         cx_retrieval_outcome := (if es = [] then NO_MATCH else AVAILABLE)\<rparr>"

definition MAX_INTERNAL_RETRIES :: nat where "MAX_INTERNAL_RETRIES = 1"

text \<open>
  One attempt and, after a transient failure, the attempts that are left. A chunk without a known
  verification status fails the attempt for good, as the reference to it is not valid.
\<close>

fun retrieval_attempts :: "ai_world \<Rightarrow> product_context \<Rightarrow> nat \<Rightarrow> nat \<Rightarrow> unit run_step" where
  "retrieval_attempts w p retries left s =
     (let scope = Some ''RETRIEVING'';
          give_up = (\<lambda>retryable t. (Inl (Retrieval_execution retries retryable),
            t\<lparr>rs_ctx := (rs_ctx t)\<lparr>cx_retry_count := max (cx_retry_count (rs_ctx t)) retries\<rparr>\<rparr>)) in
      case raise_if_cancelled w scope s of
        (Inl e, t) \<Rightarrow> (Inl e, t)
      | (Inr _, t0) \<Rightarrow>
          (case guarded_search w p t0 of
             (Search_cancelled, t) \<Rightarrow> (Inl Pipeline_cancelled, t)
           | (Search_timed_out, t) \<Rightarrow> (Inl (Stage_timeout ''RETRIEVING''), t)
           | (Search_tool_error kind retryable, t) \<Rightarrow> (Inl (Retrieval_tool kind retryable), t)
           | (Search_found chunks, t) \<Rightarrow>
               (let selected = wd_select w (rs_ctx t) chunks in
                if list_all (\<lambda>c. ch_verification_status c \<in> set VERIFIED_STATUSES) selected
                then change_ctx (store_evidence (map evidence_of_chunk selected)) t
                else give_up False t)
           | (Search_fails retryable, t) \<Rightarrow>
               (case left of
                  0 \<Rightarrow> give_up retryable t
                | Suc rest \<Rightarrow>
                    if \<not> retryable then give_up retryable t
                    else (case raise_if_cancelled w scope t of
                            (Inl e, u) \<Rightarrow> (Inl e, u)
                          | (Inr _, u) \<Rightarrow>
                              retrieval_attempts w p (retries + 1) rest
                                (u\<lparr>rs_ctx := (rs_ctx u)\<lparr>cx_retry_count :=
                                   max (cx_retry_count (rs_ctx u)) (retries + 1)\<rparr>\<rparr>)))))"

definition execute_retrieval_stage :: "ai_world \<Rightarrow> product_context \<Rightarrow> unit run_step" where
  "execute_retrieval_stage w p =
     (if wd_has_search w then retrieval_attempts w p 0 MAX_INTERNAL_RETRIES
      else fails_with Retrieval_configuration)"

section \<open>The generation stage\<close>

record generation_request =
  gr_status :: guidance_status
  gr_restricted_functions :: "utext list"
  gr_allowed_next_actions :: "utext list"
  gr_evidence_summaries :: "utext list"

definition build_request ::
  "ai_world \<Rightarrow> pipeline_context \<Rightarrow> safety_assessment \<Rightarrow> usage_guidance \<Rightarrow>
     ai_error + generation_request" where
  "build_request w ctx a g =
     (let summaries = map (text_strip \<circ> er_summary) (cx_evidence_references ctx) in
      rbind (guard_or (wd_summary_ok w ctx \<and> sa_risk_level a \<noteq> RISK_DANGER \<and>
          ug_status g \<in> {GUIDE_NORMAL, GUIDE_PARTIAL_STOP} \<and>
          within 1000 (text_strip (sa_safety_reason a)) \<and>
          length (ug_restricted_functions g) \<le> 10 \<and>
          list_all (within 300) (map text_strip (ug_restricted_functions g)) \<and>
          within 10 (ug_next_actions g) \<and>
          list_all (within 500) (map text_strip (ug_next_actions g)) \<and>
          within 5 summaries \<and> list_all (within 4000) summaries)
        (Value_error ''GuidanceGenerationRequest'')) (\<lambda>_.
      Inr \<lparr>gr_status = ug_status g,
           gr_restricted_functions = map text_strip (ug_restricted_functions g),
           gr_allowed_next_actions = map text_strip (ug_next_actions g),
           gr_evidence_summaries = summaries\<rparr>))"

definition OUTPUT_DIAGNOSTIC_CODES :: "string list" where
  "OUTPUT_DIAGNOSTIC_CODES =
     [''PROVIDER_OUTPUT_INVALID'', ''PROVIDER_SCHEMA_INVALID'', ''PROVIDER_HTTP_REJECTED'',
      ''PROVIDER_RESPONSE_JSON_INVALID'', ''PROVIDER_RESPONSE_SHAPE_INVALID'',
      ''PROVIDER_RESPONSE_INCOMPLETE'', ''PROVIDER_OUTPUT_COUNT_INVALID'',
      ''PROVIDER_EVIDENCE_SELECTION_INVALID'']"

text \<open>The calls of the provider: one retry after a transient failure.\<close>

fun provider_attempts ::
  "ai_world \<Rightarrow> nat \<Rightarrow> nat \<Rightarrow> (nat \<times> utext list \<times> nat) run_step" where
  "provider_attempts w retries left s =
     (let scope = Some ''GENERATING'';
          broken = (\<lambda>code t. (Inl (Generation_execution code retries False False), t)) in
      case raise_if_cancelled w scope s of
        (Inl e, t) \<Rightarrow> (Inl e, t)
      | (Inr _, t0) \<Rightarrow>
          (let t = t0\<lparr>rs_provider_calls := rs_provider_calls t0 + 1\<rparr> in
           case wd_provider w (rs_provider_calls t0) of
             Provider_output i actions \<Rightarrow> (Inr (i, actions, retries), t)
           | Provider_configuration \<Rightarrow> broken ''PROVIDER_CONFIGURATION_INVALID'' t
           | Provider_output_invalid code \<Rightarrow>
               broken (if code \<in> set OUTPUT_DIAGNOSTIC_CODES then code
                       else ''PROVIDER_OUTPUT_INVALID'') t
           | Provider_refusal \<Rightarrow> broken ''PROVIDER_REFUSAL'' t
           | Provider_cancelled \<Rightarrow> (Inl Pipeline_cancelled, t)
           | Provider_timed_out \<Rightarrow> (Inl (Stage_timeout ''GENERATING''), t)
           | Provider_fails retryable f \<Rightarrow>
               (let give_up = (Inl (Generation_execution (failure_code f) retries retryable
                      (f = Provider_timeout)), t) in
                case left of
                  0 \<Rightarrow> give_up
                | Suc rest \<Rightarrow>
                    if \<not> retryable then give_up
                    else (case raise_if_cancelled w scope t of
                            (Inl e, u) \<Rightarrow> (Inl e, u)
                          | (Inr _, u) \<Rightarrow>
                              provider_attempts w (retries + 1) rest
                                (u\<lparr>rs_ctx := (rs_ctx u)\<lparr>cx_retry_count :=
                                   max (cx_retry_count (rs_ctx u)) (retries + 1)\<rparr>\<rparr>)))))"

text \<open>
  \<open>CustomerGuidanceGenerator.generate\<close>: the provider chooses a summary and among the allowed actions;
  status and restrictions stay those of the deterministic guidance.
\<close>

definition assemble_guidance ::
  "ai_world \<Rightarrow> safety_assessment \<Rightarrow> generation_request \<Rightarrow> nat \<Rightarrow> utext list \<Rightarrow> nat \<Rightarrow>
     ai_error + usage_guidance" where
  "assemble_guidance w a q i actions retries =
     (let failed = (\<lambda>code. Generation_execution code retries False False) in
      rbind (guard_or (i < length (gr_evidence_summaries q))
        (failed ''PROVIDER_EVIDENCE_SELECTION_INVALID'')) (\<lambda>_.
      let g = usage_guidance_init (gr_status q) (gr_evidence_summaries q ! i)
                (gr_restricted_functions q) actions in
      rbind (guard_or (list_all (\<lambda>x. x \<in> set (gr_allowed_next_actions q)) (ug_next_actions g))
        (failed ''NEXT_ACTION_NOT_ALLOWLISTED'')) (\<lambda>_.
      rbind (guard_or (grounded (wd_checks w) (ug_message g) (gr_evidence_summaries q))
        (failed ''GROUNDING_VALIDATION_FAILED'')) (\<lambda>_.
      map_error (\<lambda>e. case e of Value_error _ \<Rightarrow> failed ''GUIDANCE_SAFETY_VALIDATION_FAILED'' | _ \<Rightarrow> e)
        (validate_guidance (wd_checks w) (wd_config w) a g True)))))"

definition generate_guidance ::
  "ai_world \<Rightarrow> safety_assessment \<Rightarrow> usage_guidance \<Rightarrow> usage_guidance run_step" where
  "generate_guidance w a g =
     (if \<not> wd_has_provider w
      then fails_with (Generation_execution ''PROVIDER_CONFIGURATION_INVALID'' 0 False False)
      else
        and_then (with_ctx (\<lambda>ctx. result_step (build_request w ctx a g))) (\<lambda>q.
        and_then (provider_attempts w 0 MAX_INTERNAL_RETRIES) (\<lambda>(i, actions, retries).
        and_then (change_ctx (\<lambda>ctx. ctx\<lparr>cx_retry_count := max (cx_retry_count ctx) retries\<rparr>)) (\<lambda>_.
        result_step (assemble_guidance w a q i actions retries)))))"

definition execute_generation_stage :: "ai_world \<Rightarrow> unit run_step" where
  "execute_generation_stage w =
     with_ctx (\<lambda>ctx. case cx_safety_assessment ctx of
       None \<Rightarrow> fails_with (Runtime_failure ''no safety assessment'')
     | Some a0 \<Rightarrow>
         (let has_evidence = (cx_evidence_references ctx \<noteq> []);
              (a, g) = determine_assessment_and_guidance (wd_config w) a0 has_evidence;
              keep = (\<lambda>g'. change_ctx (\<lambda>c. c\<lparr>cx_usage_guidance := Some g'\<rparr>)) in
          and_then (change_ctx (\<lambda>c. c\<lparr>cx_safety_assessment := Some a\<rparr>)) (\<lambda>_.
          if sa_risk_level a = RISK_DANGER \<or> \<not> has_evidence then keep g
          else and_then (generate_guidance w a g) keep)))"

section \<open>The other stages\<close>

definition execute_validation_stage :: "ai_world \<Rightarrow> unit run_step" where
  "execute_validation_stage w =
     with_ctx (\<lambda>ctx. case cx_usage_guidance ctx of
       None \<Rightarrow> done_with ()
     | Some g \<Rightarrow>
         if ug_message g = [] then done_with ()
         else
           let g' = g\<lparr>ug_message := sanitized_message (wd_config w) (ug_message g)\<rparr> in
           and_then (change_ctx (\<lambda>c. c\<lparr>cx_usage_guidance := Some g'\<rparr>)) (\<lambda>_.
           case cx_safety_assessment ctx of
             None \<Rightarrow> fails_with (Runtime_failure ''no safety assessment'')
           | Some a \<Rightarrow>
               and_then (result_step (validate_guidance (wd_checks w) (wd_config w) a g'
                 (cx_evidence_references ctx \<noteq> []))) (\<lambda>_. done_with ())))"

definition classify_context ::
  "ai_world \<Rightarrow> safety_signal list \<Rightarrow> pipeline_context \<Rightarrow> ai_error + safety_assessment" where
  "classify_context w signals ctx =
     classify (wd_checks w) (wd_config w) (cx_raw_symptom ctx) (cx_selected_symptoms ctx) signals
       (map snd (cx_previous_answers ctx))"

text \<open>A danger found before structuring keeps the language model out of it.\<close>

definition execute_structuring_stage :: "ai_world \<Rightarrow> unit run_step" where
  "execute_structuring_stage w =
     with_ctx (\<lambda>ctx.
     and_then (result_step (classify_context w [] ctx)) (\<lambda>preflight.
     let (symptom, signals) = wd_structure w (sa_risk_level preflight \<noteq> RISK_DANGER) ctx in
     change_ctx (\<lambda>c. c\<lparr>cx_structured_symptom := Some symptom, cx_safety_signals := signals\<rparr>)))"

definition execute_safety_check_stage :: "ai_world \<Rightarrow> unit run_step" where
  "execute_safety_check_stage w =
     with_ctx (\<lambda>ctx.
     and_then (result_step (classify_context w (cx_safety_signals ctx) ctx)) (\<lambda>a.
     change_ctx (\<lambda>c. c\<lparr>cx_safety_assessment := Some a\<rparr>)))"

definition execute_missing_fields_stage :: "ai_world \<Rightarrow> unit run_step" where
  "execute_missing_fields_stage w =
     change_ctx (\<lambda>c. let (symptom, missing, questions) = wd_questions w c in
       c\<lparr>cx_structured_symptom := Some symptom, cx_missing_fields := missing,
         cx_followup_questions := questions\<rparr>)"

definition execute_questionnaire_pending_stage :: "unit run_step" where
  "execute_questionnaire_pending_stage =
     with_ctx (\<lambda>ctx. case cx_safety_assessment ctx of
       None \<Rightarrow> fails_with (Runtime_failure ''no safety assessment'')
     | Some a \<Rightarrow>
         (let stuck = (unresolved_answered_required_fields ctx \<noteq> []) in
          change_ctx (\<lambda>c. c\<lparr>
            cx_followup_questions := (if stuck then [] else cx_followup_questions c),
            cx_awaiting_customer_input := True,
            cx_safety_assessment := Some (a\<lparr>sa_risk_level := RISK_CAUTION,
              sa_priority := CONSULTATION_RECOMMENDED, sa_requires_consultation := True,
              sa_safety_reason := (if stuck then reason_unconfirmed else reason_pending)\<rparr>),
            cx_usage_guidance := Some (usage_guidance_init GUIDE_PENDING_CONSULTATION
              (if stuck then msg_unconfirmed else msg_pending) [rf_unconfirmed_self_help]
              [if stuck then na_request_consultation else na_answer_questions])\<rparr>)))"

section \<open>The pipeline\<close>

definition generate_and_validate :: "ai_world \<Rightarrow> unit run_step" where
  "generate_and_validate w =
     and_then (deadline_scope w ''GENERATING'' (execute_generation_stage w)) (\<lambda>_.
     deadline_scope w ''VALIDATING'' (execute_validation_stage w))"

definition run_single_rag :: "ai_world \<Rightarrow> product_context \<Rightarrow> unit run_step" where
  "run_single_rag w p =
     and_then (raise_if_cancelled w None) (\<lambda>_.
     and_then (deadline_scope w ''STRUCTURING'' (execute_structuring_stage w)) (\<lambda>_.
     and_then (deadline_scope w ''SAFETY_CHECK'' (execute_safety_check_stage w)) (\<lambda>_.
     with_ctx (\<lambda>ctx.
       if is_danger (cx_safety_assessment ctx) then generate_and_validate w
       else
         and_then (deadline_scope w ''CHECKING_MISSING_FIELDS''
           (execute_missing_fields_stage w)) (\<lambda>_.
         with_ctx (\<lambda>ctx'.
           if should_wait_for_customer_input (wd_nfc w) ctx'
           then and_then (deadline_scope w ''GENERATING'' execute_questionnaire_pending_stage) (\<lambda>_.
             deadline_scope w ''VALIDATING'' (execute_validation_stage w))
           else and_then (deadline_scope w ''RETRIEVING'' (execute_retrieval_stage w p)) (\<lambda>_.
             generate_and_validate w)))))))"

end
