(* ===== verification/AiRuntime.thy ===== *)
theory AiRuntime
  imports AiPipeline
begin

text \<open>
  From a pipeline run to the public result: the bounded retries of
  \<open>orchestration/harness/runtime.py\<close>, the conversion of \<open>orchestration/pipeline_result.py\<close>, the
  routing policy of \<open>validation/routing/response_routing_policy.py\<close> and the direct path of
  \<open>PipelineRouter.run_pipeline\<close>.
\<close>

section \<open>Blocking guidance\<close>

definition safe_blocking_guidance :: "pipeline_context \<Rightarrow> usage_guidance" where
  "safe_blocking_guidance ctx =
     (if is_danger (cx_safety_assessment ctx)
      then usage_guidance_init GUIDE_TOTAL_STOP msg_blocked_danger [rf_whole_product]
             [na_stop_and_consult]
      else usage_guidance_init GUIDE_PENDING_CONSULTATION msg_blocked [rf_unreviewed_self_help]
             [na_request_consultation])"

definition block_guidance :: "unit run_step" where
  "block_guidance = change_ctx (\<lambda>c. c\<lparr>cx_usage_guidance := Some (safe_blocking_guidance c)\<rparr>)"

definition drop_evidence :: "unit run_step" where
  "drop_evidence = change_ctx (\<lambda>c. c\<lparr>cx_evidence_references := [],
     cx_retrieval_outcome := (if cx_retrieval_outcome c = AVAILABLE then NO_MATCH
       else cx_retrieval_outcome c)\<rparr>)"

text \<open>\<open>_route_final\<close>.\<close>

definition route_final :: "harness_result \<Rightarrow> runtime_result run_step" where
  "route_final h =
     with_ctx (\<lambda>ctx. let original = cx_usage_guidance ctx in
       if hr_decision h = HUMAN_REVIEW
       then and_then (if original = None then block_guidance else done_with ()) (\<lambda>_.
         and_then (with_ctx (\<lambda>c. result_step (route_runtime c h original None))) (\<lambda>routed.
         and_then (if original = None then done_with () else block_guidance) (\<lambda>_.
         done_with routed)))
       else if hr_decision h = ESCALATE
       then and_then block_guidance (\<lambda>_.
         and_then (if vr_accepted (hr_verification h) = [] then drop_evidence else done_with ()) (\<lambda>_.
         with_ctx (\<lambda>c. result_step (route_runtime c h (cx_usage_guidance c) None))))
       else result_step (route_runtime ctx h original
         (if is_danger (cx_safety_assessment ctx) then Some ''DANGER_PRIORITY'' else None)))"

section \<open>The reliability runtime\<close>

record reliability_result =
  rl_runtime :: runtime_result
  rl_retrieval_retry :: bool
  rl_generation_retry :: bool
  rl_blocked :: "string list"
  rl_timeout_stage :: "string option"

definition evidence_required :: "pipeline_context \<Rightarrow> bool" where
  "evidence_required ctx =
     (\<not> cx_awaiting_customer_input ctx \<and> \<not> is_danger (cx_safety_assessment ctx))"

definition harness_on ::
  "ai_world \<Rightarrow> product_context \<Rightarrow> string list \<Rightarrow> output_payload \<Rightarrow> retry_state \<Rightarrow> bool \<Rightarrow> bool option \<Rightarrow>
     tool_failure option \<Rightarrow> harness_result run_step" where
  "harness_on w p fns payload st timed_out required failure s =
     result_step (run_harness (wd_config w) st
       \<lparr>hi_product = p, hi_chunks = evidence_for_harness s,
        hi_safety = cx_safety_assessment (rs_ctx s), hi_guidance = cx_usage_guidance (rs_ctx s),
        hi_required_functions = fns, hi_payload = payload, hi_timed_out = timed_out,
        hi_evidence_required = Some (case required of Some b \<Rightarrow> b | None \<Rightarrow> evidence_required (rs_ctx s)),
        hi_tool_failure = failure\<rparr>) s"

definition finish ::
  "harness_result \<Rightarrow> bool \<Rightarrow> bool \<Rightarrow> string option \<Rightarrow> reliability_result run_step" where
  "finish h retrieval_done generation_done timeout_stage =
     and_then (route_final h) (\<lambda>r s.
       (Inr \<lparr>rl_runtime = r, rl_retrieval_retry = retrieval_done,
             rl_generation_retry = generation_done, rl_blocked = rejected_chunk_ids s,
             rl_timeout_stage = timeout_stage\<rparr>, s))"

definition retry_generation :: "ai_world \<Rightarrow> unit run_step" where
  "retry_generation w =
     and_then (raise_if_cancelled w None) (\<lambda>_.
     and_then (change_ctx (\<lambda>c. c\<lparr>cx_retry_count := 1\<rparr>)) (\<lambda>_.
     generate_and_validate w))"

definition retry_retrieval :: "ai_world \<Rightarrow> product_context \<Rightarrow> unit run_step" where
  "retry_retrieval w p =
     and_then (raise_if_cancelled w None) (\<lambda>_.
     and_then begin_attempt (\<lambda>_.
     and_then (change_ctx (\<lambda>c. c\<lparr>cx_retry_count := 1\<rparr>)) (\<lambda>_.
     and_then (deadline_scope w ''RETRIEVING'' (execute_retrieval_stage w p)) (\<lambda>_.
     with_ctx (\<lambda>c. if cx_evidence_references c = [] then done_with () else retry_generation w)))))"

definition timeout_finish ::
  "ai_world \<Rightarrow> product_context \<Rightarrow> retry_state \<Rightarrow> bool \<Rightarrow> bool \<Rightarrow> string \<Rightarrow> reliability_result run_step" where
  "timeout_finish w p st retrieval_done generation_done stage =
     and_then (harness_on w p [] No_payload st True (Some False) None) (\<lambda>h.
     finish h retrieval_done generation_done (Some stage))"

definition tool_failure_finish ::
  "ai_world \<Rightarrow> product_context \<Rightarrow> retry_state \<Rightarrow> bool \<Rightarrow> bool \<Rightarrow> bool \<Rightarrow> reliability_result run_step" where
  "tool_failure_finish w p st retrieval_done generation_done retryable =
     and_then (harness_on w p [] No_payload st False (Some False)
       (Some \<lparr>tf_tool_name = SEARCH_OFFICIAL_EVIDENCE, tf_retryable = retryable\<rparr>)) (\<lambda>h.
     finish h retrieval_done generation_done None)"

definition defensive_finish ::
  "ai_world \<Rightarrow> product_context \<Rightarrow> string list \<Rightarrow> output_payload \<Rightarrow> retry_state \<Rightarrow> bool \<Rightarrow> bool \<Rightarrow>
     reliability_result run_step" where
  "defensive_finish w p fns payload st retrieval_done generation_done =
     and_then (harness_on w p fns payload st False None None) (\<lambda>h.
     finish h retrieval_done generation_done None)"

text \<open>The loop of \<open>ReliabilityRuntime.run\<close>; its first argument counts the rounds that are left.\<close>

fun reliability_rounds ::
  "nat \<Rightarrow> ai_world \<Rightarrow> product_context \<Rightarrow> string list \<Rightarrow> output_payload \<Rightarrow> retry_state \<Rightarrow> bool \<Rightarrow> bool \<Rightarrow>
     tool_failure option \<Rightarrow> reliability_result run_step" where
  "reliability_rounds 0 w p fns payload st retrieval_done generation_done failure =
     defensive_finish w p fns payload st retrieval_done generation_done"
| "reliability_rounds (Suc n) w p fns payload st retrieval_done generation_done failure =
     and_then (harness_on w p fns payload st False None failure) (\<lambda>h s.
       let st' = hr_retry_state h in
       if hr_decision h = RETRY_RETRIEVAL
       then (if retrieval_done \<or> \<not> wd_has_search w
             then defensive_finish w p fns payload st' retrieval_done generation_done s
             else case retry_retrieval w p s of
               (Inr _, t) \<Rightarrow> reliability_rounds n w p fns payload st' True generation_done None t
             | (Inl (Stage_timeout stage), t) \<Rightarrow> timeout_finish w p st' True generation_done stage t
             | (Inl (Retrieval_tool kind retryable), t) \<Rightarrow>
                 tool_failure_finish w p st' True generation_done retryable t
             | (Inl e, t) \<Rightarrow> (Inl e, t))
       else if hr_decision h = RETRY_GENERATION
       then (if generation_done
             then defensive_finish w p fns payload st' retrieval_done generation_done s
             else case retry_generation w s of
               (Inr _, t) \<Rightarrow> reliability_rounds n w p fns payload st' retrieval_done True None t
             | (Inl (Stage_timeout stage), t) \<Rightarrow> timeout_finish w p st' retrieval_done True stage t
             | (Inl e, t) \<Rightarrow> (Inl e, t))
       else finish h retrieval_done generation_done None s)"

definition RELIABILITY_ROUNDS :: nat where "RELIABILITY_ROUNDS = 3"

definition run_reliability ::
  "ai_world \<Rightarrow> product_context \<Rightarrow> string list \<Rightarrow> output_payload \<Rightarrow> tool_failure option \<Rightarrow>
     reliability_result run_step" where
  "run_reliability w p fns payload failure =
     reliability_rounds RELIABILITY_ROUNDS w p fns payload \<lparr>rt_retrieval = 0, rt_generation = 0\<rparr>
       False False failure"

section \<open>The routing policy\<close>

datatype routing_disposition =
  DANGER_HANDOFF | PRE_SEND_HUMAN_REVIEW | AUTO_GUIDANCE | FAIL_CLOSED_CONSULTATION
  | CUSTOMER_INPUT_PENDING

definition routing_blocking_guidance :: usage_guidance where
  "routing_blocking_guidance =
     usage_guidance_init GUIDE_PENDING_CONSULTATION msg_blocked [rf_unreviewed_self_help]
       [na_request_consultation]"

definition accepted_evidence_matches :: "analysis_result \<Rightarrow> string list option \<Rightarrow> bool" where
  "accepted_evidence_matches r accepted =
     (case accepted of None \<Rightarrow> True
      | Some ids \<Rightarrow>
          let public = map er_chunk_id (an_evidence_references r) in
          distinct public \<and> distinct ids \<and> set public = set ids)"

definition invalid_success_fallback :: "analysis_result \<Rightarrow> analysis_result" where
  "invalid_success_fallback r =
     (let a = an_safety_assessment r; danger = (sa_risk_level a = RISK_DANGER) in
      r\<lparr>an_status := AI_FALLBACK, an_fallback_reason_code := Some OUTPUT_SCHEMA_INVALID,
        an_failure_stage := Some VALIDATING,
        an_safety_assessment := (if danger then a\<lparr>sa_requires_consultation := True\<rparr>
          else a\<lparr>sa_risk_level := RISK_CAUTION, sa_priority := CONSULTATION_RECOMMENDED,
                 sa_requires_consultation := True, sa_safety_reason := reason_routing\<rparr>),
        an_usage_guidance := (if danger then an_usage_guidance r else routing_blocking_guidance),
        an_evidence_references := []\<rparr>)"

definition normalize_existing_fallback :: "analysis_result \<Rightarrow> analysis_result" where
  "normalize_existing_fallback r =
     (let a = an_safety_assessment r; g = an_usage_guidance r in
      r\<lparr>an_failure_stage := (case an_failure_stage r of None \<Rightarrow> Some VALIDATING | Some s \<Rightarrow> Some s),
        an_safety_assessment := a\<lparr>sa_requires_consultation := True\<rparr>,
        an_usage_guidance :=
          (if sa_risk_level a \<noteq> RISK_DANGER \<and> ug_status g \<noteq> GUIDE_PENDING_CONSULTATION
           then routing_blocking_guidance else g)\<rparr>)"

definition apply_routing_policy ::
  "analysis_result \<Rightarrow> string list option \<Rightarrow> analysis_result \<times> routing_disposition" where
  "apply_routing_policy r accepted =
     (let a = an_safety_assessment r; g = an_usage_guidance r;
          invalid = (invalid_success_fallback r, FAIL_CLOSED_CONSULTATION) in
      if an_status r = AI_FALLBACK then (normalize_existing_fallback r, FAIL_CLOSED_CONSULTATION)
      else if sa_risk_level a = RISK_DANGER
      then (if sa_requires_consultation a \<and> sa_matched_safety_rule_ids a \<noteq> [] \<and>
              an_missing_fields r = [] \<and> an_followup_questions r = [] \<and>
              ug_status g \<notin> {GUIDE_NORMAL, GUIDE_PENDING_CONSULTATION}
            then (r, DANGER_HANDOFF) else invalid)
      else if an_followup_questions r \<noteq> [] \<and> an_evidence_references r = []
      then (if sa_risk_level a = RISK_CAUTION \<and> sa_requires_consultation a \<and>
              ug_status g = GUIDE_PENDING_CONSULTATION
            then (r, CUSTOMER_INPUT_PENDING) else invalid)
      else if sa_risk_level a = RISK_CAUTION
      then (if an_evidence_references r \<noteq> [] \<and> ug_status g = GUIDE_PARTIAL_STOP \<and>
              accepted_evidence_matches r accepted
            then (r, PRE_SEND_HUMAN_REVIEW) else invalid)
      else
        (if an_evidence_references r \<noteq> [] \<and> \<not> sa_requires_consultation a \<and>
            sa_matched_safety_rule_ids a = [] \<and> an_missing_fields r = [] \<and>
            an_followup_questions r = [] \<and> ug_status g = GUIDE_NORMAL \<and>
            accepted_evidence_matches r accepted
         then (r, AUTO_GUIDANCE) else invalid))"

section \<open>The public result\<close>

definition clarification_fallback :: "pipeline_context \<Rightarrow> bool" where
  "clarification_fallback ctx =
     (cx_awaiting_customer_input ctx \<and> cx_followup_questions ctx = [] \<and>
      unresolved_answered_required_fields ctx \<noteq> [])"

definition no_evidence_fallback :: "pipeline_context \<Rightarrow> bool" where
  "no_evidence_fallback ctx =
     (cx_retrieval_outcome ctx = NO_MATCH \<and> cx_evidence_references ctx = [] \<and>
      \<not> cx_awaiting_customer_input ctx \<and>
      (case cx_usage_guidance ctx of None \<Rightarrow> False
       | Some g \<Rightarrow> ug_status g = GUIDE_PENDING_CONSULTATION))"

definition harness_of :: "reliability_result \<Rightarrow> harness_result" where
  "harness_of rel = ru_harness (rl_runtime rel)"

definition resolve_fallback_reason ::
  "verification_result \<Rightarrow> bool \<Rightarrow> bool \<Rightarrow> fallback_reason option" where
  "resolve_fallback_reason v no_evidence unreliable =
     (if has_issue v ISSUE_RUNTIME_PRODUCT_NOT_APPROVED then Some RUNTIME_PRODUCT_NOT_APPROVED
      else if has_issue v ISSUE_MCP_TOOL_FAILURE then Some MCP_TOOL_FAILURE
      else if has_issue v ISSUE_OUTPUT_SCHEMA_INVALID then Some OUTPUT_SCHEMA_INVALID
      else if has_issue v ISSUE_NO_EVIDENCE then Some NO_EVIDENCE
      else if no_evidence then Some NO_EVIDENCE
      else if unreliable then Some UNSPECIFIED_FALLBACK
      else None)"

text \<open>\<open>PipelineResult.to_analysis_result\<close> of a run with its reliability result.\<close>

definition to_analysis_result ::
  "pipeline_context \<Rightarrow> reliability_result \<Rightarrow> ai_error + (analysis_result \<times> routing_disposition)" where
  "to_analysis_result ctx rel =
     (let h = harness_of rel; v = hr_verification h;
          clarification = clarification_fallback ctx;
          no_evidence = no_evidence_fallback ctx;
          unreliable = (hr_decision h \<noteq> PASS);
          fallback = (no_evidence \<or> unreliable \<or> clarification);
          reason0 = resolve_fallback_reason v no_evidence unreliable;
          reason = (if clarification \<and> reason0 = None then Some UNSPECIFIED_FALLBACK else reason0);
          stage = (if no_evidence then Some RETRIEVING else if unreliable then Some VALIDATING
                   else if clarification then Some CHECKING_MISSING_FIELDS else None) in
      rbind (of_option (Value_error ''structured_symptom'') (cx_structured_symptom ctx)) (\<lambda>symptom.
      rbind (of_option (Value_error ''safety_assessment'') (cx_safety_assessment ctx)) (\<lambda>a.
      rbind (of_option (Value_error ''usage_guidance'') (cx_usage_guidance ctx)) (\<lambda>g.
      let r = \<lparr>an_inquiry_id = cx_inquiry_id ctx, an_correlation_id = cx_correlation_id ctx,
            an_ai_request_id = cx_ai_request_id ctx, an_state_version = cx_state_version ctx,
            an_model_code = cx_model_code ctx,
            an_status = (if fallback then AI_FALLBACK else AI_SUCCEEDED),
            an_fallback_reason_code = reason, an_failure_stage = stage,
            an_retry_count = cx_retry_count ctx, an_structured_symptom = symptom,
            an_missing_fields = cx_missing_fields ctx,
            an_followup_questions = cx_followup_questions ctx, an_safety_assessment = a,
            an_usage_guidance = g, an_evidence_references = cx_evidence_references ctx\<rparr> in
      rbind (guard_or (cx_retry_count ctx \<le> 1 \<and> within 100 (trim (cx_model_code ctx)) \<and>
          validate_fallback_reason r) (Value_error ''SymptomAnalysisResult'')) (\<lambda>_.
      Inr (apply_routing_policy r (Some (vr_accepted v))))))))"

section \<open>A request\<close>

definition new_context ::
  "nat \<Rightarrow> nat \<Rightarrow> string \<Rightarrow> nat \<Rightarrow> utext \<Rightarrow> string \<Rightarrow> utext list \<Rightarrow> (string \<times> utext) list \<Rightarrow>
     pipeline_context" where
  "new_context inquiry correlation request version raw code selected answers =
     \<lparr>cx_inquiry_id = inquiry, cx_correlation_id = correlation, cx_ai_request_id = request,
      cx_state_version = version, cx_raw_symptom = raw, cx_model_code = code,
      cx_selected_symptoms = selected, cx_previous_answers = answers,
      cx_structured_symptom = None, cx_safety_signals = [], cx_missing_fields = [],
      cx_followup_questions = [], cx_safety_assessment = None, cx_evidence_references = [],
      cx_retrieval_outcome = NOT_RUN, cx_retry_count = 0, cx_usage_guidance = None,
      cx_awaiting_customer_input = False\<rparr>"

definition new_run :: "pipeline_context \<Rightarrow> run_state" where
  "new_run ctx = \<lparr>rs_ctx = ctx, rs_capture = \<lparr>cp_forwarded = [], cp_rejected = [], cp_all_rejected = []\<rparr>,
     rs_searches = 0, rs_provider_calls = 0, rs_checks = 0\<rparr>"

definition run_pipeline :: "ai_world \<Rightarrow> product_context \<Rightarrow> reliability_result run_step" where
  "run_pipeline w p =
     and_then (raise_if_cancelled w None) (\<lambda>_.
     and_then (with_ctx (\<lambda>c. result_step (guard_or
       (within 100 (trim (cx_ai_request_id c)) \<and> 1 \<le> cx_state_version c)
       (Value_error ''TraceContext'')))) (\<lambda>_.
     and_then begin_attempt (\<lambda>_.
     and_then (run_single_rag w p) (\<lambda>_.
     run_reliability w p [] No_payload None))))"

text \<open>
  The answer to a request: the product of the model code, the run of its context, and the public
  result with the disposition of the routing policy.
\<close>

definition analyze ::
  "ai_world \<Rightarrow> string list option \<Rightarrow> pipeline_context \<Rightarrow>
     (ai_error + (analysis_result \<times> routing_disposition)) \<times> run_state" where
  "analyze w approved request =
     (let p = resolve_product_context (cx_model_code request) [] approved in
      and_then (run_pipeline w p)
        (\<lambda>rel s. (to_analysis_result (rs_ctx s) rel, s))
        (new_run (request\<lparr>cx_model_code := pc_model_code p\<rparr>)))"

end
