(* ===== verification/AiBackend.thy ===== *)
theory AiBackend
  imports AiRuntime
begin

text \<open>
  What the backend makes of an AI result: the registry of safety rules
  (\<open>src/contracts/codes/safety-rule-ids.yaml\<close> and
  \<open>src/backend/apps/inquiries/services/safety_rule_registry.py\<close>), the mapping of a response to a state
  event (\<open>src/backend/integrations/ai/response_mapper.py\<close>) and the review policy of guidance
  (\<open>src/backend/apps/inquiries/services/guidance_review_policy.py\<close>).
\<close>

section \<open>The registry of safety rules\<close>

record registry_rule =
  rg_rule_id :: string
  rg_active :: bool
  rg_risk_level :: risk_level
  rg_requires_consultation :: bool
  rg_default_status :: "guidance_status option"
  rg_allowed_statuses :: "guidance_status list"
  rg_danger_event_enabled :: bool
  rg_applicability_policy :: "string option"
  rg_negated_expressions :: "utext list"
  rg_restricted_functions :: "utext list option"
  rg_next_actions :: "utext list option"
  rg_next_action_merge_policy :: "string option"

record registry =
  ry_version :: string
  ry_status :: string
  ry_codes :: "string list"
  ry_rules :: "registry_rule list"

definition plain_rule ::
  "string \<Rightarrow> risk_level \<Rightarrow> bool \<Rightarrow> guidance_status \<Rightarrow> bool \<Rightarrow> registry_rule" where
  "plain_rule i risk consultation status enabled =
     \<lparr>rg_rule_id = i, rg_active = True, rg_risk_level = risk,
      rg_requires_consultation = consultation, rg_default_status = Some status,
      rg_allowed_statuses = [status], rg_danger_event_enabled = enabled,
      rg_applicability_policy = None, rg_negated_expressions = [], rg_restricted_functions = None,
      rg_next_actions = None, rg_next_action_merge_policy = None\<rparr>"

definition heater_entry :: registry_rule where
  "heater_entry =
     (plain_rule ''SAFETY-HOT-WATER-HEATER-001'' RISK_DANGER True GUIDE_PARTIAL_STOP True)\<lparr>
       rg_applicability_policy := Some ''RUNTIME_APPROVED_PRODUCTS'',
       rg_allowed_statuses := [GUIDE_PARTIAL_STOP, GUIDE_TOTAL_STOP],
       rg_negated_expressions := [neg_heater_1, neg_heater_2, neg_heater_3, neg_heater_4],
       rg_restricted_functions := Some [rf_heater_1],
       rg_next_actions := Some [na_heater_1, na_heater_2]\<rparr>"

definition refrigerant_entry :: registry_rule where
  "refrigerant_entry =
     (plain_rule ''SAFETY-REFRIGERANT-001'' RISK_DANGER True GUIDE_TOTAL_STOP True)\<lparr>
       rg_applicability_policy := Some ''RUNTIME_APPROVED_PRODUCTS'',
       rg_next_action_merge_policy := Some ''EXCLUSIVE'',
       rg_negated_expressions :=
         [neg_refrigerant_1, neg_refrigerant_2, neg_refrigerant_3, neg_refrigerant_4],
       rg_restricted_functions := Some [rf_electrical_1, rf_refrigerant_2],
       rg_next_actions :=
         Some [na_refrigerant_1, na_refrigerant_2, na_refrigerant_3, na_refrigerant_4]\<rparr>"

definition canonical_registry :: registry where
  "canonical_registry =
     \<lparr>ry_version = ''1.3.0'', ry_status = ''TEAM_APPROVED'',
      ry_codes = [''SAFETY-LEAK-001'', ''SAFETY-ELECTRICAL-001'', ''SAFETY-HOT-WATER-001'',
        ''SAFETY-HOT-WATER-HEATER-001'', ''SAFETY-REFRIGERANT-001'', ''SAFETY-TEMP-ABNORMAL-001''],
      ry_rules =
        [plain_rule ''SAFETY-LEAK-001'' RISK_DANGER True GUIDE_TOTAL_STOP True,
         plain_rule ''SAFETY-ELECTRICAL-001'' RISK_DANGER True GUIDE_TOTAL_STOP True,
         plain_rule ''SAFETY-HOT-WATER-001'' RISK_DANGER True GUIDE_PARTIAL_STOP False,
         heater_entry, refrigerant_entry,
         plain_rule ''SAFETY-TEMP-ABNORMAL-001'' RISK_CAUTION False GUIDE_PARTIAL_STOP False]\<rparr>"

definition non_empty_texts :: "utext list option \<Rightarrow> bool" where
  "non_empty_texts v =
     (case v of None \<Rightarrow> False | Some ts \<Rightarrow> ts \<noteq> [] \<and> list_all (\<lambda>t. \<not> blank_text t) ts)"

definition registry_rule_ok :: "string list \<Rightarrow> registry_rule \<Rightarrow> bool" where
  "registry_rule_ok seen r =
     (take 7 (rg_rule_id r) = ''SAFETY-'' \<and> rg_rule_id r \<notin> set seen \<and> rg_allowed_statuses r \<noteq> [] \<and>
      (case rg_default_status r of None \<Rightarrow> True | Some s \<Rightarrow> s \<in> set (rg_allowed_statuses r)) \<and>
      (rg_risk_level r = RISK_DANGER \<longrightarrow>
        rg_default_status r \<in> {Some GUIDE_PARTIAL_STOP, Some GUIDE_TOTAL_STOP}) \<and>
      (rg_danger_event_enabled r \<and> rg_default_status r = Some GUIDE_PARTIAL_STOP \<longrightarrow>
        non_empty_texts (rg_restricted_functions r) \<and> non_empty_texts (rg_next_actions r)) \<and>
      rg_applicability_policy r \<in> {None, Some ''RUNTIME_APPROVED_PRODUCTS''} \<and>
      rg_next_action_merge_policy r \<in> {None, Some ''EXCLUSIVE''} \<and>
      (rg_next_action_merge_policy r = Some ''EXCLUSIVE'' \<longrightarrow>
        rg_default_status r = Some GUIDE_TOTAL_STOP \<and>
        non_empty_texts (rg_restricted_functions r) \<and> non_empty_texts (rg_next_actions r)) \<and>
      (rg_rule_id r = ''SAFETY-HOT-WATER-HEATER-001'' \<longrightarrow>
        rg_applicability_policy r = Some ''RUNTIME_APPROVED_PRODUCTS'' \<and>
        non_empty_texts (Some (rg_negated_expressions r))))"

fun registry_rules_ok :: "string list \<Rightarrow> registry_rule list \<Rightarrow> bool" where
  "registry_rules_ok seen [] = True"
| "registry_rules_ok seen (r # rs) =
     (registry_rule_ok seen r \<and> registry_rules_ok (rg_rule_id r # seen) rs)"

text \<open>\<open>load_safety_rule_registry\<close>: the rules of an admitted registry, nothing of any other.\<close>

definition load_registry :: "registry \<Rightarrow> registry_rule list option" where
  "load_registry y =
     (if ry_status y \<in> {''OWNER_BASELINE'', ''TEAM_APPROVED''} \<and>
         ry_version y \<in> {''1.0.0'', ''1.1.0'', ''1.2.0'', ''1.3.0''} \<and> ry_rules y \<noteq> [] \<and>
         registry_rules_ok [] (ry_rules y) \<and> ry_codes y = map rg_rule_id (ry_rules y)
      then Some (ry_rules y) else None)"

definition registry_entry :: "registry_rule list \<Rightarrow> string \<Rightarrow> registry_rule option" where
  "registry_entry rules i = find (\<lambda>r. rg_rule_id r = i) rules"

definition danger_enabled :: "registry_rule \<Rightarrow> bool" where
  "danger_enabled r = (rg_active r \<and> rg_danger_event_enabled r \<and> rg_risk_level r = RISK_DANGER \<and>
     rg_requires_consultation r)"

text \<open>
  \<open>danger_assessment_validation_errors\<close>: the first objection to an assessment and its guidance.
\<close>

definition danger_errors ::
  "registry \<Rightarrow> bool \<Rightarrow> safety_assessment \<Rightarrow> usage_guidance \<Rightarrow> string list" where
  "danger_errors y details a g =
     (let ids = sa_matched_safety_rule_ids a in
      if sa_risk_level a \<noteq> RISK_DANGER \<or> \<not> sa_requires_consultation a \<or> ids = [] \<or> \<not> distinct ids
      then [''consultation and unique rules required'']
      else case load_registry y of
        None \<Rightarrow> [''registry unavailable'']
      | Some rules \<Rightarrow>
          if \<exists>i \<in> set ids. (case registry_entry rules i of None \<Rightarrow> True | Some r \<Rightarrow> \<not> danger_enabled r)
          then [''rule not enabled'']
          else
            let matched = map (the \<circ> registry_entry rules) ids;
                expected = (if list_ex (\<lambda>r. rg_default_status r = Some GUIDE_TOTAL_STOP) matched
                  then GUIDE_TOTAL_STOP else GUIDE_PARTIAL_STOP);
                exclusive = filter (\<lambda>r. rg_next_action_merge_policy r = Some ''EXCLUSIVE'') matched;
                actions = fromkeys (concat (map (\<lambda>r. case rg_next_actions r of
                  None \<Rightarrow> [] | Some ts \<Rightarrow> ts) exclusive)) in
            if ug_status g \<noteq> expected then [''strictest rule'']
            else if \<exists>r \<in> set matched. ug_status g \<notin> set (rg_allowed_statuses r)
            then [''status not allowed by every rule'']
            else if exclusive \<noteq> [] \<and> details \<and> ug_next_actions g \<noteq> actions
            then [''exclusive actions'']
            else if expected = GUIDE_PARTIAL_STOP \<and> details
            then (if length matched \<noteq> 1 then [''ambiguous partial stop'']
                  else if Some (ug_restricted_functions g) \<noteq> rg_restricted_functions (hd matched)
                  then [''restricted_functions'']
                  else if Some (ug_next_actions g) \<noteq> rg_next_actions (hd matched)
                  then [''next_actions''] else [])
            else [])"

section \<open>The mapping of a response\<close>

record expected_request =
  xr_inquiry_id :: nat
  xr_correlation_id :: nat
  xr_ai_request_id :: string
  xr_state_version :: nat
  xr_model_code :: string

definition echoes :: "expected_request \<Rightarrow> analysis_result \<Rightarrow> bool" where
  "echoes x r =
     (an_inquiry_id r = xr_inquiry_id x \<and> an_correlation_id r = xr_correlation_id x \<and>
      an_ai_request_id r = xr_ai_request_id x \<and> an_state_version r = xr_state_version x \<and>
      an_model_code r = xr_model_code x)"

datatype event_candidate =
  PRODUCT_VALIDATION_FAILED | DANGER_DETECTED | EVENT_NO_EVIDENCE | SAFE_GUIDANCE_READY

datatype mapping_error = Contract_violated | Identifier_mismatch | Invariant_violated "string list"

record mapped_result =
  mp_payload :: analysis_result
  mp_event_candidate :: "event_candidate option"
  mp_is_no_evidence :: bool

definition response_no_evidence :: "analysis_result \<Rightarrow> bool" where
  "response_no_evidence r = (an_status r = AI_FALLBACK \<and>
     an_fallback_reason_code r = Some NO_EVIDENCE \<and> an_evidence_references r = [])"

definition response_unapproved :: "analysis_result \<Rightarrow> bool" where
  "response_unapproved r = (an_status r = AI_FALLBACK \<and>
     an_fallback_reason_code r = Some RUNTIME_PRODUCT_NOT_APPROVED)"

definition response_errors :: "registry \<Rightarrow> analysis_result \<Rightarrow> string list" where
  "response_errors y r =
     (let a = an_safety_assessment r; g = an_usage_guidance r;
          danger = (sa_risk_level a = RISK_DANGER) in
      (if an_status r = AI_FALLBACK \<and> an_failure_stage r = None then [''failure_stage''] else []) @
      (if response_no_evidence r \<and>
          (\<not> sa_requires_consultation a \<or> ug_status g \<noteq> GUIDE_PENDING_CONSULTATION)
       then [''NO_EVIDENCE''] else []) @
      (if response_unapproved r \<and>
          (an_evidence_references r \<noteq> [] \<or> \<not> sa_requires_consultation a \<or>
           (\<not> danger \<and> ug_status g \<noteq> GUIDE_PENDING_CONSULTATION))
       then [''RUNTIME_PRODUCT_NOT_APPROVED''] else []) @
      (if danger then map (\<lambda>e. ''danger: '' @ e) (danger_errors y True a g) else []))"

definition response_event :: "analysis_result \<Rightarrow> event_candidate option" where
  "response_event r =
     (let a = an_safety_assessment r in
      if response_unapproved r then Some PRODUCT_VALIDATION_FAILED
      else if sa_risk_level a = RISK_DANGER then Some DANGER_DETECTED
      else if response_no_evidence r then Some EVENT_NO_EVIDENCE
      else if an_status r = AI_SUCCEEDED \<and> an_evidence_references r \<noteq> [] \<and>
          sa_risk_level a = RISK_GENERAL \<and> \<not> sa_requires_consultation a \<and>
          ug_status (an_usage_guidance r) = GUIDE_NORMAL \<and> an_missing_fields r = [] \<and>
          an_followup_questions r = []
      then Some SAFE_GUIDANCE_READY else None)"

text \<open>
  \<open>_map_public_success_response\<close>. The JSON schema check is done by a library on the contract files;
  \<open>conforms\<close> is its verdict.
\<close>

definition map_success_response ::
  "(analysis_result \<Rightarrow> bool) \<Rightarrow> registry \<Rightarrow> expected_request \<Rightarrow> analysis_result \<Rightarrow>
     mapping_error + mapped_result" where
  "map_success_response conforms y x r =
     rbind (guard_or (conforms r) Contract_violated) (\<lambda>_.
     rbind (guard_or (echoes x r) Identifier_mismatch) (\<lambda>_.
     rbind (guard_or (response_errors y r = []) (Invariant_violated (response_errors y r))) (\<lambda>_.
     Inr \<lparr>mp_payload = r, mp_event_candidate = response_event r,
          mp_is_no_evidence = response_no_evidence r\<rparr>)))"

section \<open>Review and visibility of guidance\<close>

definition initial_review_status :: "mapped_result \<Rightarrow> string" where
  "initial_review_status m =
     (let r = mp_payload m; risk = sa_risk_level (an_safety_assessment r) in
      if an_status r = AI_FALLBACK \<or> mp_is_no_evidence m then ''REJECTED''
      else if risk = RISK_CAUTION then ''PENDING''
      else ''CONFIRMED'')"

definition visible_to_customer :: "risk_level \<Rightarrow> string \<Rightarrow> bool" where
  "visible_to_customer risk status =
     (if risk = RISK_CAUTION then status = ''APPROVED''
      else status \<in> {''APPROVED'', ''CONFIRMED''})"

text \<open>A guidance the customer sees without a decision of a consultant.\<close>

definition published_at_once :: "mapped_result \<Rightarrow> bool" where
  "published_at_once m =
     visible_to_customer (sa_risk_level (an_safety_assessment (mp_payload m))) (initial_review_status m)"

end
