(* ===== verification/AiSafetyFacts.thy ===== *)
theory AiSafetyFacts
  imports AiSafety
begin

text \<open>
  The facts behind the safety properties: which rules are effective, what a classification finds, and
  that the guidance the classifier determines for a danger is the one the validator expects.
\<close>

section \<open>Effective rules\<close>

lemma rule_candidates_in:
  "r \<in> set (rule_candidates rules ids risk) \<longleftrightarrow>
     r \<in> snd ` set rules \<and> sr_rule_id r \<in> set ids \<and> sr_risk_level r = risk"
  by (auto simp: rule_candidates_def)

lemma effective_in:
  "r \<in> set (select_effective_rules rules ids risk) \<Longrightarrow>
     r \<in> snd ` set rules \<and> sr_rule_id r \<in> set ids \<and> sr_risk_level r = risk"
  by (auto simp: select_effective_rules_def Let_def rule_candidates_in split: if_splits)

lemma effective_highest:
  assumes "r \<in> set (select_effective_rules rules ids risk)" and "r' \<in> set (rule_candidates rules ids risk)"
  shows "guidance_precedence (sr_status r') \<le> guidance_precedence (sr_status r)"
  using assms
  by (auto simp: select_effective_rules_def Let_def split: if_splits intro!: Max_ge)

lemma effective_Nil_iff:
  "select_effective_rules rules ids risk = [] \<longleftrightarrow> rule_candidates rules ids risk = []"
proof (cases "rule_candidates rules ids risk = []")
  case False
  define S where "S = set (map (guidance_precedence \<circ> sr_status) (rule_candidates rules ids risk))"
  have "Max S \<in> S" using False by (intro Max_in) (auto simp: S_def)
  then obtain r where r: "r \<in> set (rule_candidates rules ids risk)"
      "guidance_precedence (sr_status r) = Max S" by (auto simp: S_def)
  then have "r \<in> set (select_effective_rules rules ids risk)"
    using False by (auto simp: select_effective_rules_def Let_def S_def)
  then show ?thesis using False by auto
qed (simp add: select_effective_rules_def)

lemma merge_Nil_iff [simp]:
  "merge_restricted rules = [] \<longleftrightarrow> (\<forall>r \<in> set rules. sr_restricted_functions r = [])"
  by (simp add: merge_restricted_def)

lemma set_merge_restricted: "set (merge_restricted rules) = (\<Union>r \<in> set rules. set (sr_restricted_functions r))"
  by (simp add: merge_restricted_def)

lemma set_merge_actions: "set (merge_actions rules) \<subseteq> (\<Union>r \<in> set rules. set (sr_next_actions r))"
  by (auto simp: merge_actions_def Let_def exclusive_rules_def)

lemma merge_actions_nonempty:
  assumes "rules \<noteq> []" and "\<forall>r \<in> set rules. sr_next_actions r \<noteq> []"
  shows "merge_actions rules \<noteq> []"
proof (cases "exclusive_rules rules = []")
  case True
  then show ?thesis using assms by (cases rules) (auto simp: merge_actions_def)
next
  case False
  then obtain r rs where "exclusive_rules rules = r # rs" by (cases "exclusive_rules rules") auto
  moreover from this have "r \<in> set rules" by (auto simp: exclusive_rules_def filter_eq_Cons_iff)
  ultimately show ?thesis using assms(2) by (auto simp: merge_actions_def)
qed

section \<open>A configuration that is safe to run\<close>

text \<open>
  What the classifier relies on beyond the loader's checks: identifiers are distinct and well formed,
  every danger rule asks for a consultation, stops some use, has a known priority and states its
  restrictions and actions in stripped texts, and the rules the observed signals name are danger rules.
\<close>

definition danger_rule_ok :: "safety_rule \<Rightarrow> bool" where
  "danger_rule_ok r =
     (sr_requires_consultation r \<and> sr_status r \<in> {GUIDE_PARTIAL_STOP, GUIDE_TOTAL_STOP} \<and>
      sr_restricted_functions r \<noteq> [] \<and> sr_next_actions r \<noteq> [] \<and>
      (case sr_priority r of None \<Rightarrow> False | Some p \<Rightarrow> \<not> isl (safety_priority_of p)) \<and>
      list_all (\<lambda>t. text_strip t = t) (sr_restricted_functions r @ sr_next_actions r))"

definition feature_rule_ids :: "string list" where
  "feature_rule_ids = [''SAFETY-LEAK-001'', ''SAFETY-ELECTRICAL-001'', ''SAFETY-REFRIGERANT-001'',
     ''SAFETY-HOT-WATER-HEATER-001'']"

definition sound_config :: "safety_config \<Rightarrow> bool" where
  "sound_config cfg =
     (let rules = map snd (sc_rules cfg) in
      distinct (map sr_rule_id rules) \<and>
      list_all (\<lambda>r. safety_rule_id_ok (sr_rule_id r)) rules \<and>
      list_all (\<lambda>r. case sr_priority r of None \<Rightarrow> True | Some p \<Rightarrow> \<not> isl (safety_priority_of p)) rules \<and>
      list_all (\<lambda>r. sr_risk_level r = RISK_DANGER \<longrightarrow> danger_rule_ok r) rules \<and>
      list_all (\<lambda>i. list_ex (\<lambda>r. sr_rule_id r = i \<and> sr_risk_level r = RISK_DANGER) rules)
        feature_rule_ids)"

lemma sound_config_danger:
  "\<lbrakk> sound_config cfg; r \<in> snd ` set (sc_rules cfg); sr_risk_level r = RISK_DANGER \<rbrakk> \<Longrightarrow> danger_rule_ok r"
  by (auto simp: sound_config_def Let_def list_all_iff)

lemma sound_config_feature:
  "\<lbrakk> sound_config cfg; i \<in> set feature_rule_ids \<rbrakk> \<Longrightarrow>
     \<exists>r \<in> snd ` set (sc_rules cfg). sr_rule_id r = i \<and> sr_risk_level r = RISK_DANGER"
  by (simp add: sound_config_def Let_def list_all_iff list_ex_iff)

lemma stripped_merge:
  assumes "\<forall>r \<in> set rules. danger_rule_ok r"
  shows "map text_strip (merge_restricted rules) = merge_restricted rules"
    and "map text_strip (merge_actions rules) = merge_actions rules"
proof -
  have r: "text_strip t = t" if "t \<in> set (sr_restricted_functions r @ sr_next_actions r)" "r \<in> set rules" for t r
    using assms that by (auto simp: danger_rule_ok_def list_all_iff)
  show "map text_strip (merge_restricted rules) = merge_restricted rules"
    by (rule map_idI) (use r in \<open>auto simp: set_merge_restricted\<close>)
  show "map text_strip (merge_actions rules) = merge_actions rules"
    by (rule map_idI) (use r set_merge_actions [of rules] in fastforce)
qed

text \<open>The guidance of a danger states exactly what the effective rules ask for.\<close>

lemma danger_guidance_rules:
  assumes "sound_config cfg" and "select_effective_rules (sc_rules cfg) ids RISK_DANGER = rules"
    and "rules \<noteq> []"
  shows "danger_guidance cfg ids =
    \<lparr>ug_status = sr_status (hd rules), ug_message = text_strip msg_danger_guidance,
     ug_restricted_functions = merge_restricted rules, ug_next_actions = merge_actions rules\<rparr>"
proof -
  have ok: "\<forall>r \<in> set rules. danger_rule_ok r"
    using assms(1,2) by (auto dest!: effective_in intro!: sound_config_danger)
  obtain r rs where rules: "rules = r # rs" using assms(3) by (cases rules) auto
  have "merge_actions rules \<noteq> []"
    using ok assms(3) by (intro merge_actions_nonempty) (auto simp: danger_rule_ok_def)
  moreover have "merge_restricted rules \<noteq> []"
    using ok rules by (auto simp: danger_rule_ok_def)
  ultimately show ?thesis
    using assms(2) stripped_merge [OF ok] rules
    by (simp add: danger_guidance_def Let_def usage_guidance_init_def or_default_def del: merge_Nil_iff)
qed

text \<open>
  An assessment carries what its effective rules ask for. The classifier makes such assessments, and
  the validator accepts exactly the guidance determined for them.
\<close>

definition assessed_by_rules :: "safety_config \<Rightarrow> safety_assessment \<Rightarrow> bool" where
  "assessed_by_rules cfg a =
     (sa_risk_level a = RISK_DANGER \<longrightarrow>
      (let rules = select_effective_rules (sc_rules cfg) (sa_matched_safety_rule_ids a) RISK_DANGER in
       sa_requires_consultation a \<and> rules \<noteq> [] \<and>
       set (sa_matched_safety_rule_ids a) \<subseteq> set (map (sr_rule_id \<circ> snd) (sc_rules cfg)) \<and>
       (\<exists>p. sr_priority (hd rules) = Some p \<and> safety_priority_of p = Inr (sa_priority a))))"

lemma validate_alignment_iff:
  assumes "sound_config cfg" and "assessed_by_rules cfg a" and "sa_risk_level a = RISK_DANGER"
  shows "validate_alignment cfg a g = Inr () \<longleftrightarrow>
    (let d = danger_guidance cfg (sa_matched_safety_rule_ids a) in
     ug_status g = ug_status d \<and> ug_restricted_functions g = ug_restricted_functions d \<and>
     ug_next_actions g = ug_next_actions d)"
proof -
  let ?ids = "sa_matched_safety_rule_ids a"
  define rules where "rules = select_effective_rules (sc_rules cfg) ?ids RISK_DANGER"
  from assms(2,3) obtain p where p: "sa_requires_consultation a" "rules \<noteq> []"
      "set ?ids \<subseteq> set (map (sr_rule_id \<circ> snd) (sc_rules cfg))" "sr_priority (hd rules) = Some p"
      "safety_priority_of p = Inr (sa_priority a)"
    by (auto simp: assessed_by_rules_def rules_def Let_def)
  have "list_all sr_requires_consultation rules"
    using assms(1) by (auto simp: list_all_iff rules_def danger_rule_ok_def
      dest!: effective_in sound_config_danger)
  moreover have "?ids \<noteq> []"
    using p(2) by (auto simp: rules_def effective_Nil_iff rule_candidates_def)
  ultimately show ?thesis
    using p assms(3) danger_guidance_rules [OF assms(1) rules_def [symmetric] p(2)]
    by (simp add: validate_alignment_def rules_def [symmetric] Let_def res_simps)
qed

lemma danger_guidance_stops:
  assumes "sound_config cfg" and "assessed_by_rules cfg a" and "sa_risk_level a = RISK_DANGER"
  shows "ug_status (danger_guidance cfg (sa_matched_safety_rule_ids a))
    \<in> {GUIDE_PARTIAL_STOP, GUIDE_TOTAL_STOP}"
proof -
  define rules where
    "rules = select_effective_rules (sc_rules cfg) (sa_matched_safety_rule_ids a) RISK_DANGER"
  have ne: "rules \<noteq> []" using assms(2,3) by (auto simp: assessed_by_rules_def rules_def Let_def)
  then have "hd rules \<in> set rules" by simp
  then have "danger_rule_ok (hd rules)"
    using assms(1) by (auto simp: rules_def dest!: effective_in intro!: sound_config_danger)
  then show ?thesis
    using danger_guidance_rules [OF assms(1) rules_def [symmetric] ne] by (simp add: danger_rule_ok_def)
qed

section \<open>The classification\<close>

definition keyword_hit :: "(utext \<Rightarrow> bool) \<Rightarrow> safety_rule \<Rightarrow> bool" where
  "keyword_hit asserted r = list_ex asserted (sr_keywords r)"

lemma find_None_hit: "find asserted (sr_keywords r) = None \<longleftrightarrow> \<not> keyword_hit asserted r"
  by (auto simp: keyword_hit_def find_None_iff list_ex_iff)

lemma find_Some_hit: "find asserted (sr_keywords r) = Some kw \<Longrightarrow> keyword_hit asserted r"
  by (metis find_None_hit option.distinct(1))

text \<open>What one rule of the loop adds, and then the loop over the rules.\<close>

lemma keyword_step_parts:
  "rk_ids (keyword_step asserted x k) =
     rk_ids k @ (if keyword_hit asserted (snd x) then [sr_rule_id (snd x)] else [])"
  "rk_level (keyword_step asserted x k) = RISK_DANGER \<longleftrightarrow>
     rk_level k = RISK_DANGER \<or> (keyword_hit asserted (snd x) \<and> sr_risk_level (snd x) = RISK_DANGER)"
  "rk_priority (keyword_step asserted x k) \<in>
     {rk_priority k, priority_or (snd x) ''priority_consultation'',
      priority_or (snd x) ''consultation_recommended''}"
proof -
  obtain key r where x: "x = (key, r)" by (cases x)
  show "rk_ids (keyword_step asserted x k) =
     rk_ids k @ (if keyword_hit asserted (snd x) then [sr_rule_id (snd x)] else [])"
    by (cases "find asserted (sr_keywords r)")
       (simp_all add: x find_None_hit [symmetric] Let_def)
  show "rk_level (keyword_step asserted x k) = RISK_DANGER \<longleftrightarrow>
     rk_level k = RISK_DANGER \<or> (keyword_hit asserted (snd x) \<and> sr_risk_level (snd x) = RISK_DANGER)"
  proof (cases "find asserted (sr_keywords r)")
    case (Some kw)
    then have "keyword_hit asserted r" by (rule find_Some_hit)
    with Some show ?thesis by (cases "sr_risk_level r") (simp_all add: x Let_def)
  next
    case None
    then have "\<not> keyword_hit asserted r" by (simp add: find_None_hit)
    with None show ?thesis by (simp add: x)
  qed
  show "rk_priority (keyword_step asserted x k) \<in>
     {rk_priority k, priority_or (snd x) ''priority_consultation'',
      priority_or (snd x) ''consultation_recommended''}"
    by (cases "find asserted (sr_keywords r)") (simp_all add: x Let_def)
qed

lemma keyword_fold_ids:
  "rk_ids (fold (keyword_step asserted) rules k) =
     rk_ids k @ map (sr_rule_id \<circ> snd) (filter (keyword_hit asserted \<circ> snd) rules)"
  by (induction rules arbitrary: k) (simp_all add: keyword_step_parts(1) del: keyword_step.simps)

lemma keyword_fold_danger:
  "rk_level (fold (keyword_step asserted) rules k) = RISK_DANGER \<longleftrightarrow>
     rk_level k = RISK_DANGER \<or>
     (\<exists>r \<in> snd ` set rules. keyword_hit asserted r \<and> sr_risk_level r = RISK_DANGER)"
proof (induction rules arbitrary: k)
  case (Cons x rules)
  show ?case
    by (simp only: fold_simps Cons.IH keyword_step_parts(2)) auto
qed simp

definition known_priority :: "string \<Rightarrow> bool" where
  "known_priority p = (\<not> isl (safety_priority_of p))"

lemma keyword_fold_priority:
  assumes "known_priority (rk_priority k)"
    and "\<forall>r \<in> snd ` set rules. case sr_priority r of None \<Rightarrow> True | Some p \<Rightarrow> known_priority p"
  shows "known_priority (rk_priority (fold (keyword_step asserted) rules k))"
  using assms
proof (induction rules arbitrary: k)
  case (Cons x rules)
  have "known_priority (priority_or (snd x) d)" if "known_priority d" for d
    using Cons.prems(2) that by (auto simp: priority_or_def split: option.splits)
  moreover have "known_priority ''priority_consultation''" "known_priority ''consultation_recommended''"
    by (simp_all add: known_priority_def safety_priority_of_def)
  ultimately have "\<forall>p \<in> {rk_priority k, priority_or (snd x) ''priority_consultation'',
      priority_or (snd x) ''consultation_recommended''}. known_priority p"
    using Cons.prems(1) by blast
  then have "known_priority (rk_priority (keyword_step asserted x k))"
    using keyword_step_parts(3) by (rule bspec)
  then show ?case using Cons by (simp del: keyword_step.simps)
qed simp

lemma initial_priority: "known_priority (rk_priority (initial_finding danger features))"
  by (simp add: initial_finding_def known_priority_def safety_priority_of_def)

lemma feature_ids_in: "set (map fst (feature_findings has_signal alert)) \<subseteq> set feature_rule_ids"
  by (auto simp: feature_findings_def feature_rule_ids_def)

lemma feature_id_in: "(i, x) \<in> set (feature_findings has_signal alert) \<Longrightarrow> i \<in> set feature_rule_ids"
  using feature_ids_in [of has_signal alert] by force

lemma feature_ids_nonempty:
  "(\<exists>s. has_signal s) \<or> alert \<Longrightarrow> feature_findings has_signal alert \<noteq> []"
proof (elim disjE exE)
  fix s assume "has_signal s"
  then show ?thesis by (cases s) (auto simp: feature_findings_def)
qed (simp add: feature_findings_def)

text \<open>The search text and the observations a classification looks at.\<close>

definition source_text :: "utext \<Rightarrow> utext list \<Rightarrow> utext" where
  "source_text raw answers = text_lines (raw # answers)"

definition search_text :: "text_checks \<Rightarrow> utext \<Rightarrow> utext list \<Rightarrow> utext list \<Rightarrow> utext" where
  "search_text tc raw selected answers =
     py_strip (source_text raw answers @ 10 # text_lines (normalize_selected (leak_negated tc raw) selected))"

definition danger_observed :: "text_checks \<Rightarrow> utext \<Rightarrow> safety_signal list \<Rightarrow> utext list \<Rightarrow> bool" where
  "danger_observed tc raw signals answers =
     (signals \<noteq> [] \<or> detected_signals tc (source_text raw answers) \<noteq> [] \<or>
      panel_alert tc (source_text raw answers))"

definition danger_keyword ::
  "text_checks \<Rightarrow> safety_config \<Rightarrow> utext \<Rightarrow> utext list \<Rightarrow> utext list \<Rightarrow> bool" where
  "danger_keyword tc cfg raw selected answers =
     list_ex (\<lambda>r. sr_risk_level r = RISK_DANGER \<and>
         keyword_hit (asserted_keyword tc (search_text tc raw selected answers)) r)
       (map snd (sc_rules cfg))"

lemma find_risks_parts:
  fixes tc cfg raw selected signals answers
  defines "k \<equiv> find_risks tc cfg raw selected signals answers"
    and "hit \<equiv> keyword_hit (asserted_keyword tc (search_text tc raw selected answers))"
    and "features \<equiv> feature_findings
      (\<lambda>s. s \<in> set signals \<or> s \<in> set (detected_signals tc (source_text raw answers)))
      (panel_alert tc (source_text raw answers))"
  shows "rk_level k = RISK_DANGER \<longleftrightarrow>
      danger_observed tc raw signals answers \<or> danger_keyword tc cfg raw selected answers"
    and "rk_ids k = map (sr_rule_id \<circ> snd) (filter (hit \<circ> snd) (sc_rules cfg)) @ map fst features"
    and "sound_config cfg \<Longrightarrow> known_priority (rk_priority k)"
proof -
  show "rk_level k = RISK_DANGER \<longleftrightarrow>
      danger_observed tc raw signals answers \<or> danger_keyword tc cfg raw selected answers"
    by (auto simp: k_def find_risks_def Let_def keyword_fold_danger initial_finding_def
      danger_observed_def danger_keyword_def source_text_def search_text_def list_ex_iff)
  show "rk_ids k = map (sr_rule_id \<circ> snd) (filter (hit \<circ> snd) (sc_rules cfg)) @ map fst features"
    by (simp add: k_def find_risks_def Let_def keyword_fold_ids initial_finding_def
      source_text_def search_text_def hit_def features_def)
  assume "sound_config cfg"
  then have "\<forall>r \<in> snd ` set (sc_rules cfg).
      case sr_priority r of None \<Rightarrow> True | Some p \<Rightarrow> known_priority p"
    unfolding known_priority_def by (simp add: sound_config_def Let_def list_all_iff)
  then have "known_priority (rk_priority (fold (keyword_step asserted) (sc_rules cfg)
      (initial_finding danger fs)))" for asserted danger fs
    by (rule keyword_fold_priority [OF initial_priority])
  then show "known_priority (rk_priority k)"
    by (simp add: k_def find_risks_def Let_def)
qed

lemma danger_rule_found:
  assumes "sound_config cfg" and "rk_level (find_risks tc cfg raw selected signals answers) = RISK_DANGER"
  shows "rule_candidates (sc_rules cfg) (rk_ids (find_risks tc cfg raw selected signals answers))
    RISK_DANGER \<noteq> []"
proof -
  let ?k = "find_risks tc cfg raw selected signals answers"
  note parts = find_risks_parts [where tc = tc and cfg = cfg and raw = raw and selected = selected
    and signals = signals and answers = answers]
  from assms(2) parts(1) consider "danger_observed tc raw signals answers"
    | "danger_keyword tc cfg raw selected answers" by auto
  then obtain r where "r \<in> snd ` set (sc_rules cfg)" "sr_risk_level r = RISK_DANGER"
      "sr_rule_id r \<in> set (rk_ids ?k)"
  proof cases
    case 1
    let ?f = "feature_findings
      (\<lambda>s. s \<in> set signals \<or> s \<in> set (detected_signals tc (source_text raw answers)))
      (panel_alert tc (source_text raw answers))"
    have "?f \<noteq> []"
      using 1 by (intro feature_ids_nonempty) (auto simp: danger_observed_def neq_Nil_conv)
    then have "fst (hd ?f) \<in> set (map fst ?f)" by simp
    then have "fst (hd ?f) \<in> set feature_rule_ids" using feature_ids_in by blast
    from sound_config_feature [OF assms(1) this] obtain r where
        "r \<in> snd ` set (sc_rules cfg)" "sr_rule_id r = fst (hd ?f)" "sr_risk_level r = RISK_DANGER" by auto
    moreover from \<open>fst (hd ?f) \<in> set (map fst ?f)\<close> have "fst (hd ?f) \<in> set (rk_ids ?k)"
      by (simp add: parts(2))
    ultimately show ?thesis using that by metis
  next
    case 2
    then obtain key r where "(key, r) \<in> set (sc_rules cfg)" "sr_risk_level r = RISK_DANGER"
        "keyword_hit (asserted_keyword tc (search_text tc raw selected answers)) r"
      by (auto simp: danger_keyword_def list_ex_iff)
    then show ?thesis using that [of r] by (force simp: parts(2))
  qed
  then have "r \<in> set (rule_candidates (sc_rules cfg) (rk_ids ?k) RISK_DANGER)"
    by (simp add: rule_candidates_in)
  then show ?thesis by auto
qed

lemma effective_fromkeys [simp]:
  "select_effective_rules rules (fromkeys ids) risk = select_effective_rules rules ids risk"
  by (simp add: select_effective_rules_def rule_candidates_def)

lemma classify_level:
  "classify tc cfg raw selected signals answers = Inr a \<Longrightarrow>
     sa_risk_level a = RISK_DANGER \<longleftrightarrow>
       danger_observed tc raw signals answers \<or> danger_keyword tc cfg raw selected answers"
  by (auto simp: classify_def Let_def safety_assessment_init_def res_simps find_risks_parts(1))

lemma classified_ids:
  assumes "sound_config cfg" and "i \<in> set (rk_ids (find_risks tc cfg raw selected signals answers))"
  shows "i \<in> sr_rule_id ` snd ` set (sc_rules cfg)"
proof -
  from assms(2) consider "i \<in> sr_rule_id ` snd ` set (sc_rules cfg)" | "i \<in> set feature_rule_ids"
    unfolding find_risks_parts(2) set_append Un_iff
    by (elim disjE) (auto dest!: feature_id_in)
  then show ?thesis
  proof cases
    case 2
    then show ?thesis using sound_config_feature [OF assms(1), of i] by blast
  qed
qed

text \<open>Under a sound configuration a classification never fails, and carries what its rules ask for.\<close>

theorem classify_sound:
  assumes "sound_config cfg"
  obtains a where "classify tc cfg raw selected signals answers = Inr a" and "assessed_by_rules cfg a"
    and "set (sa_matched_safety_rule_ids a) \<subseteq> sr_rule_id ` snd ` set (sc_rules cfg)"
    and "distinct (sa_matched_safety_rule_ids a)"
proof -
  let ?k = "find_risks tc cfg raw selected signals answers"
  let ?rules = "select_effective_rules (sc_rules cfg) (rk_ids ?k) RISK_DANGER"
  have ids: "safety_rule_id_ok i" if "i \<in> set (rk_ids ?k)" for i
    using classified_ids [OF assms that] assms
    by (auto simp: sound_config_def Let_def list_all_iff)
  have danger: "?rules \<noteq> [] \<and> danger_rule_ok (hd ?rules)" if "rk_level ?k = RISK_DANGER"
  proof -
    have "?rules \<noteq> []" using danger_rule_found [OF assms that] by (simp add: effective_Nil_iff)
    moreover from this have "hd ?rules \<in> set ?rules" by simp
    ultimately show ?thesis
      using effective_in sound_config_danger [OF assms] by blast
  qed
  define priority where "priority = (if rk_level ?k = RISK_DANGER
    then (case select_effective_rule (sc_rules cfg) (rk_ids ?k) RISK_DANGER of
            None \<Rightarrow> rk_priority ?k | Some r \<Rightarrow> priority_or r ''priority_consultation'')
    else rk_priority ?k)"
  have priority: "priority = the (sr_priority (hd ?rules)) \<and> sr_priority (hd ?rules) \<noteq> None"
    if "rk_level ?k = RISK_DANGER"
    using danger [OF that] that
    by (cases ?rules) (auto simp: priority_def select_effective_rule_def priority_or_def
      danger_rule_ok_def split: option.splits)
  have "\<not> isl (safety_priority_of priority)"
    using priority danger find_risks_parts(3) [OF assms]
    by (cases "rk_level ?k = RISK_DANGER")
       (auto simp: danger_rule_ok_def priority_def known_priority_def split: option.splits)
  then obtain p where p: "safety_priority_of priority = Inr p" by (cases "safety_priority_of priority") auto
  obtain a where a: "classify tc cfg raw selected signals answers = Inr a"
      "sa_risk_level a = rk_level ?k" "sa_priority a = p"
      "sa_requires_consultation a = (rk_level ?k = RISK_DANGER \<or> rk_consultation ?k)"
      "sa_matched_safety_rule_ids a = fromkeys (rk_ids ?k)"
    using p ids
    by (simp add: classify_def Let_def safety_assessment_init_def priority_def [symmetric] list_all_iff)
  have "assessed_by_rules cfg a"
    using a p danger priority classified_ids [OF assms]
    by (auto simp: assessed_by_rules_def Let_def image_image)
  with a show ?thesis
    using classified_ids [OF assms] by (intro that [of a]) auto
qed

section \<open>Admission by the loader\<close>

lemma validate_rule_seen:
  "validate_rule seen r = Inr () \<longleftrightarrow> validate_rule [] r = Inr () \<and> sr_rule_id r \<notin> set seen"
  by (auto simp: validate_rule_def res_simps)

lemma validate_rule_list_iff:
  "validate_rule_list seen rs = Inr () \<longleftrightarrow>
     list_all (\<lambda>r. validate_rule [] r = Inr ()) (map snd rs) \<and> distinct (map sr_rule_id (map snd rs)) \<and>
     set (map sr_rule_id (map snd rs)) \<inter> set seen = {}"
proof (induction seen rs rule: validate_rule_list.induct)
  case (2 seen k r rs)
  then show ?case
    using validate_rule_seen [of seen r] by (auto simp: res_simps)
qed simp

section \<open>The approved configuration\<close>

lemmas approved_rules = rule_leak_def rule_electrical_def rule_hot_water_def rule_heater_def
  rule_refrigerant_def rule_temp_def

text \<open>The transcribed configuration passes the loader and has what the classifier relies on.\<close>

lemma approved_rules_admitted: "list_all (\<lambda>r. validate_rule [] r = Inr ()) (map snd (sc_rules approved_config))"
  by code_simp

lemma approved_config_admitted: "validate_safety_config approved_config = Inr ()"
proof -
  have "validate_rule_list [] (sc_rules approved_config) = Inr ()"
    unfolding validate_rule_list_iff using approved_rules_admitted
    by (simp add: approved_config_def approved_rules)
  then show ?thesis
    by (simp add: validate_safety_config_def Let_def approved_config_def no_evidence_default_def)
qed

lemma approved_config_sound: "sound_config approved_config"
  unfolding sound_config_def Let_def
proof (intro conjI)
  show "distinct (map sr_rule_id (map snd (sc_rules approved_config)))"
    by (simp add: approved_config_def approved_rules)
  show "list_all (\<lambda>i. list_ex (\<lambda>r. sr_rule_id r = i \<and> sr_risk_level r = RISK_DANGER)
      (map snd (sc_rules approved_config))) feature_rule_ids"
    by (simp add: approved_config_def approved_rules feature_rule_ids_def)
qed code_simp+

end
