(* ===== verification/AiHarnessFacts.thy ===== *)
theory AiHarnessFacts
  imports AiBackend AiSafetyFacts
begin

text \<open>
  The facts behind the properties of the AI service: when the harness passes a run, how steps of a run
  compose, what a run may spend, and what it keeps.
\<close>

section \<open>When the harness passes a run\<close>

definition usable_chunk :: "product_context \<Rightarrow> retrieved_chunk \<Rightarrow> bool" where
  "usable_chunk p c = (chunk_eligible c \<and> model_matches p c \<and> \<not> family_conflicts p c)"

lemma match_fold:
  "mr_accepted (fold (match_step p) cs m) =
     mr_accepted m @ map ch_chunk_id (filter (\<lambda>c. model_matches p c \<and> \<not> family_conflicts p c) cs)"
  "mr_model_valid (fold (match_step p) cs m) \<longleftrightarrow> mr_model_valid m \<and> (\<forall>c \<in> set cs. model_matches p c)"
  "mr_family_valid (fold (match_step p) cs m) \<longleftrightarrow>
     mr_family_valid m \<and> (\<forall>c \<in> set cs. model_matches p c \<longrightarrow> \<not> family_conflicts p c)"
  by (induction cs arbitrary: m) auto

lemma match_chunks_sel:
  "mr_accepted (match_chunks p cs) =
     map ch_chunk_id (filter (\<lambda>c. model_matches p c \<and> \<not> family_conflicts p c) cs)"
  "mr_model_valid (match_chunks p cs) \<longleftrightarrow> (\<forall>c \<in> set cs. model_matches p c)"
  "mr_family_valid (match_chunks p cs) \<longleftrightarrow>
     (\<forall>c \<in> set cs. model_matches p c \<longrightarrow> \<not> family_conflicts p c)"
  by (simp_all add: match_chunks_def match_fold)

definition required_of :: "harness_input \<Rightarrow> bool" where
  "required_of h = (case hi_evidence_required h of None \<Rightarrow> \<not> is_danger (hi_safety h) | Some b \<Rightarrow> b)"

lemma evidence_verdict_accepted:
  "vr_accepted (evidence_verdict h safe) = map ch_chunk_id (filter (usable_chunk (hi_product h)) (hi_chunks h))"
proof -
  have "vr_accepted (evidence_verdict h safe) = map ch_chunk_id
      (filter (\<lambda>c. model_matches (hi_product h) c \<and> \<not> family_conflicts (hi_product h) c)
        (filter chunk_eligible (hi_chunks h)))"
    by (simp only: evidence_verdict_def Let_def match_chunks_sel verification_result.simps)
  also have "\<dots> = map ch_chunk_id (filter (usable_chunk (hi_product h)) (hi_chunks h))"
    unfolding filter_filter by (rule arg_cong [where f = "map ch_chunk_id"], rule filter_cong)
      (auto simp: usable_chunk_def)
  finally show ?thesis .
qed

lemma evidence_verdict_pass:
  "vr_decision (evidence_verdict h safe) = PASS \<longleftrightarrow>
     safe \<and> missing_functions (hi_product h) (hi_required_functions h) = [] \<and>
     schema_is_valid (hi_guidance h) (hi_payload h) \<and>
     (required_of h \<longrightarrow>
       (\<exists>c \<in> set (hi_chunks h). chunk_eligible c) \<and>
       (\<forall>c \<in> set (hi_chunks h). chunk_eligible c \<longrightarrow> usable_chunk (hi_product h) c))"
proof -
  let ?m = "match_chunks (hi_product h) (filter chunk_eligible (hi_chunks h))"
  have acc: "mr_accepted ?m = [] \<longleftrightarrow> \<not> (\<exists>c \<in> set (hi_chunks h). usable_chunk (hi_product h) c)"
    by (auto simp: match_chunks_sel usable_chunk_def filter_empty_conv)
  have val: "mr_model_valid ?m \<and> mr_family_valid ?m \<longleftrightarrow>
      (\<forall>c \<in> set (hi_chunks h). chunk_eligible c \<longrightarrow> usable_chunk (hi_product h) c)"
    by (auto simp: match_chunks_sel usable_chunk_def)
  have "vr_decision (evidence_verdict h safe) = PASS \<longleftrightarrow>
      safe \<and> missing_functions (hi_product h) (hi_required_functions h) = [] \<and>
      schema_is_valid (hi_guidance h) (hi_payload h) \<and>
      (required_of h \<longrightarrow> mr_accepted ?m \<noteq> [] \<and> mr_model_valid ?m \<and> mr_family_valid ?m)"
    by (simp add: evidence_verdict_def Let_def required_of_def)
  also have "\<dots> \<longleftrightarrow> safe \<and> missing_functions (hi_product h) (hi_required_functions h) = [] \<and>
     schema_is_valid (hi_guidance h) (hi_payload h) \<and>
     (required_of h \<longrightarrow>
       (\<exists>c \<in> set (hi_chunks h). chunk_eligible c) \<and>
       (\<forall>c \<in> set (hi_chunks h). chunk_eligible c \<longrightarrow> usable_chunk (hi_product h) c))"
    unfolding acc val by (auto simp: usable_chunk_def)
  finally show ?thesis .
qed

lemma verify_output_cases:
  assumes "verify_output cfg h = Inr v"
  obtains (timeout) "hi_timed_out h" "v = timeout_result h"
  | (unapproved) safe where "\<not> hi_timed_out h" "\<not> pc_runtime_approved (hi_product h)"
      "v = unapproved_result h safe"
  | (failure) f safe where "\<not> hi_timed_out h" "pc_runtime_approved (hi_product h)"
      "hi_tool_failure h = Some f" "v = tool_failure_result h f safe"
  | (verdict) safe where "\<not> hi_timed_out h" "pc_runtime_approved (hi_product h)"
      "hi_tool_failure h = None" "safety_is_consistent cfg (hi_safety h) (hi_guidance h) = Inr safe"
      "v = evidence_verdict h safe"
  using assms
  by (cases "hi_timed_out h"; cases "pc_runtime_approved (hi_product h)"; cases "hi_tool_failure h")
     (auto simp: verify_output_def res_simps)

lemma judge_decision:
  "hr_decision (judge_verification h st v) = PASS \<longleftrightarrow> \<not> hi_timed_out h \<and> vr_decision v = PASS"
  "hr_verification (judge_verification h st v) = v"
  by (auto simp: judge_verification_def apply_retry_policy_def split: if_splits)

lemma run_harness_parts:
  "run_harness cfg st h = Inr r \<longleftrightarrow> (\<exists>v. verify_output cfg h = Inr v \<and> r = judge_verification h st v)"
  by (auto simp: run_harness_def res_simps)

text \<open>The consistency of a safety assessment with a guidance, as the harness sees it.\<close>

definition safety_agrees :: "safety_config \<Rightarrow> safety_assessment option \<Rightarrow> usage_guidance option \<Rightarrow> bool" where
  "safety_agrees cfg safety guidance =
     (case (safety, guidance) of (Some a, Some g) \<Rightarrow> validate_alignment cfg a g = Inr () | _ \<Rightarrow> True)"

lemma safety_is_consistent_Inr:
  "safety_is_consistent cfg safety guidance = Inr safe \<Longrightarrow> safe = safety_agrees cfg safety guidance"
  by (auto simp: safety_is_consistent_def safety_agrees_def
    split: option.splits sum.splits ai_error.splits)

lemma harness_pass_iff:
  assumes "run_harness cfg st h = Inr r"
  shows "hr_decision r = PASS \<longleftrightarrow>
    \<not> hi_timed_out h \<and> pc_runtime_approved (hi_product h) \<and> hi_tool_failure h = None \<and>
    safety_agrees cfg (hi_safety h) (hi_guidance h) \<and>
    missing_functions (hi_product h) (hi_required_functions h) = [] \<and>
    schema_is_valid (hi_guidance h) (hi_payload h) \<and>
    (required_of h \<longrightarrow>
      (\<exists>c \<in> set (hi_chunks h). chunk_eligible c) \<and>
      (\<forall>c \<in> set (hi_chunks h). chunk_eligible c \<longrightarrow> usable_chunk (hi_product h) c))"
proof -
  obtain v where v: "verify_output cfg h = Inr v" "r = judge_verification h st v"
    using assms by (auto simp: run_harness_parts)
  from v(1) show ?thesis
    by (cases rule: verify_output_cases)
       (auto simp: v(2) judge_decision evidence_verdict_pass timeout_result_def unapproved_result_def
         tool_failure_result_def dest: safety_is_consistent_Inr)
qed

lemma harness_accepted:
  assumes "run_harness cfg st h = Inr r" and "i \<in> set (vr_accepted (hr_verification r))"
  shows "\<exists>c \<in> set (hi_chunks h). ch_chunk_id c = i \<and> usable_chunk (hi_product h) c"
proof -
  obtain v where v: "verify_output cfg h = Inr v" "r = judge_verification h st v"
    using assms(1) by (auto simp: run_harness_parts)
  from v(1) assms(2) show ?thesis
    by (cases rule: verify_output_cases)
       (auto simp: v(2) judge_decision evidence_verdict_accepted timeout_result_def
         unapproved_result_def tool_failure_result_def)
qed

text \<open>Without required functions nobody asks for a human review.\<close>

lemma verdict_choice:
  "(if a then ESCALATE else if b then if c then RETRY_RETRIEVAL else ESCALATE
    else if d then RETRY_RETRIEVAL else if e then RETRY_GENERATION else PASS) \<noteq> HUMAN_REVIEW"
  by simp

lemma evidence_verdict_no_review:
  "missing_functions (hi_product h) (hi_required_functions h) = [] \<Longrightarrow>
     vr_decision (evidence_verdict h safe) \<noteq> HUMAN_REVIEW"
  by (simp only: evidence_verdict_def Let_def verification_result.simps simp_thms if_False)
    (rule verdict_choice)

lemma no_human_review:
  assumes "run_harness cfg st h = Inr r" and "hi_required_functions h = []"
  shows "hr_decision r \<noteq> HUMAN_REVIEW"
proof -
  obtain v where v: "verify_output cfg h = Inr v" "r = judge_verification h st v"
    using assms(1) by (auto simp: run_harness_parts)
  have "missing_functions (hi_product h) (hi_required_functions h) = []"
    by (simp add: missing_functions_def assms(2))
  note verdict = evidence_verdict_no_review [OF this]
  have "vr_decision v \<noteq> HUMAN_REVIEW"
    using v(1) verdict
    by (cases rule: verify_output_cases)
       (simp_all add: timeout_result_def unapproved_result_def tool_failure_result_def)
  then show ?thesis
    by (auto simp: v(2) judge_verification_def apply_retry_policy_def split: if_splits)
qed

section \<open>The budget of retries\<close>

lemma judge_retry:
  assumes "r = judge_verification h st v"
  shows "hr_decision r = RETRY_RETRIEVAL \<Longrightarrow>
      rt_retrieval st = 0 \<and> hr_retry_state r = st\<lparr>rt_retrieval := 1\<rparr>"
    and "hr_decision r = RETRY_GENERATION \<Longrightarrow>
      rt_generation st = 0 \<and> hr_retry_state r = st\<lparr>rt_generation := 1\<rparr>"
  using assms
  by (auto simp: judge_verification_def apply_retry_policy_def MAX_RETRIEVAL_RETRIES_def
    MAX_GENERATION_RETRIES_def Let_def split: if_splits prod.splits)

lemma judge_escalates: "hr_should_escalate (judge_verification h st v) \<longleftrightarrow>
    hr_decision (judge_verification h st v) = ESCALATE"
  by (auto simp: judge_verification_def apply_retry_policy_def split: if_splits)

lemma judge_choice:
  "hr_decision (judge_verification h st v) \<in> {vr_decision v, ESCALATE}"
  "hi_timed_out h \<Longrightarrow> hr_decision (judge_verification h st v) = ESCALATE"
  by (auto simp: judge_verification_def apply_retry_policy_def split: if_splits)

end
