(* ===== verification/AiRunFacts.thy ===== *)
theory AiRunFacts
  imports AiHarnessFacts
begin

text \<open>
  The facts behind the properties of a pipeline run. A relation between the states before and after a
  step that composes, counts searches and provider calls, and admits the changes a stage makes to the
  context bounds every stage, every retry and the whole reliability runtime: \<open>run_frame\<close> proves that
  once. Its instances are the budget of a run, what a run may capture, and what it keeps of the
  context.
\<close>

section \<open>What no stage after the safety check changes\<close>

definition ctx_frame :: "pipeline_context \<Rightarrow> pipeline_context \<Rightarrow> bool" where
  "ctx_frame c d =
     (cx_previous_answers d = cx_previous_answers c \<and> cx_inquiry_id d = cx_inquiry_id c \<and>
      cx_correlation_id d = cx_correlation_id c \<and> cx_ai_request_id d = cx_ai_request_id c \<and>
      cx_state_version d = cx_state_version c \<and> cx_model_code d = cx_model_code c \<and>
      (is_danger (cx_safety_assessment c) \<longrightarrow> cx_safety_assessment d = cx_safety_assessment c))"

lemma ctx_frame_refl [simp]: "ctx_frame c c"
  by (simp add: ctx_frame_def)

lemma ctx_frame_trans: "\<lbrakk> ctx_frame c d; ctx_frame d e \<rbrakk> \<Longrightarrow> ctx_frame c e"
  by (auto simp: ctx_frame_def)

definition stays :: "(nat \<Rightarrow> nat \<Rightarrow> run_state \<Rightarrow> run_state \<Rightarrow> bool) \<Rightarrow> nat \<Rightarrow> nat \<Rightarrow> 'a run_step \<Rightarrow> bool" where
  "stays R n m f = (\<forall>s. R n m s (snd (f s)))"

lemmas step_defs = done_with_def fails_with_def result_step_def change_ctx_def with_ctx_def

section \<open>The rounds of the reliability runtime\<close>

lemma harness_on_state: "harness_on w p fns payload st to req failure s = (x, t) \<Longrightarrow> t = s"
  by (simp add: harness_on_def result_step_def)

text \<open>A round ends in one of these ways.\<close>

lemma rounds_cases:
  assumes "reliability_rounds (Suc n) w p fns payload st rd gd failure s = (x, u)"
  obtains (harness_error) e where "harness_on w p fns payload st False None failure s = (Inl e, s)"
      "x = Inl e" "u = s"
  | (finished) h where "harness_on w p fns payload st False None failure s = (Inr h, s)"
      "hr_decision h \<notin> {RETRY_RETRIEVAL, RETRY_GENERATION}" "finish h rd gd None s = (x, u)"
  | (defensive) h where "harness_on w p fns payload st False None failure s = (Inr h, s)"
      "(hr_decision h = RETRY_RETRIEVAL \<and> (rd \<or> \<not> wd_has_search w)) \<or>
       (hr_decision h = RETRY_GENERATION \<and> gd)"
      "defensive_finish w p fns payload (hr_retry_state h) rd gd s = (x, u)"
  | (search_round) h t where "harness_on w p fns payload st False None failure s = (Inr h, s)"
      "hr_decision h = RETRY_RETRIEVAL" "\<not> rd" "retry_retrieval w p s = (Inr (), t)"
      "reliability_rounds n w p fns payload (hr_retry_state h) True gd None t = (x, u)"
  | (search_timeout) h stage t where "harness_on w p fns payload st False None failure s = (Inr h, s)"
      "hr_decision h = RETRY_RETRIEVAL" "\<not> rd" "retry_retrieval w p s = (Inl (Stage_timeout stage), t)"
      "timeout_finish w p (hr_retry_state h) True gd stage t = (x, u)"
  | (search_tool) h kind retryable t where
      "harness_on w p fns payload st False None failure s = (Inr h, s)"
      "hr_decision h = RETRY_RETRIEVAL" "\<not> rd"
      "retry_retrieval w p s = (Inl (Retrieval_tool kind retryable), t)"
      "tool_failure_finish w p (hr_retry_state h) True gd retryable t = (x, u)"
  | (search_error) h e where "harness_on w p fns payload st False None failure s = (Inr h, s)"
      "hr_decision h = RETRY_RETRIEVAL" "\<not> rd" "retry_retrieval w p s = (Inl e, u)" "x = Inl e"
  | (generation_round) h t where "harness_on w p fns payload st False None failure s = (Inr h, s)"
      "hr_decision h = RETRY_GENERATION \<and> \<not> gd" "retry_generation w s = (Inr (), t)"
      "reliability_rounds n w p fns payload (hr_retry_state h) rd True None t = (x, u)"
  | (generation_timeout) h stage t where
      "harness_on w p fns payload st False None failure s = (Inr h, s)"
      "hr_decision h = RETRY_GENERATION \<and> \<not> gd"
      "retry_generation w s = (Inl (Stage_timeout stage), t)"
      "timeout_finish w p (hr_retry_state h) rd True stage t = (x, u)"
  | (generation_error) h e where "harness_on w p fns payload st False None failure s = (Inr h, s)"
      "hr_decision h = RETRY_GENERATION \<and> \<not> gd" "retry_generation w s = (Inl e, u)" "x = Inl e"
proof (cases "harness_on w p fns payload st False None failure s")
  case (Pair r s')
  then have s': "s' = s" by (rule harness_on_state)
  show ?thesis
  proof (cases r)
    case (Inl e)
    note h = Pair [unfolded Inl s']
    have "x = Inl e \<and> u = s"
      using assms unfolding reliability_rounds.simps and_then.simps h by simp
    then show ?thesis using h by (intro that(1)) simp_all
  next
    case (Inr h)
    note h = Pair [unfolded Inr s']
    note step = assms [unfolded reliability_rounds.simps and_then.simps h, simplified, unfolded Let_def]
    consider "hr_decision h = RETRY_RETRIEVAL" | "hr_decision h = RETRY_GENERATION"
      | "hr_decision h \<notin> {RETRY_RETRIEVAL, RETRY_GENERATION}" by blast
    then show ?thesis
    proof cases
      case 1
      obtain q t where q: "retry_retrieval w p s = (q, t)" by fastforce
      show ?thesis
      proof (cases "rd \<or> \<not> wd_has_search w")
        case True
        then show ?thesis using step 1 by (intro that(3) [OF h]) simp_all
      next
        case False
        note step' = step [simplified 1 False q, simplified]
        show ?thesis
        proof (cases q)
          case (Inl e)
          show ?thesis
          proof (cases "(\<exists>k. e = Stage_timeout k) \<or> (\<exists>k r. e = Retrieval_tool k r)")
            case True
            then show ?thesis using step' Inl q 1 False that(5,6) [OF h] by auto
          next
            case other: False
            then have "x = Inl e \<and> u = t" using step' Inl by (cases e) auto
            then show ?thesis using Inl q 1 False by (intro that(7) [OF h]) simp_all
          qed
        next
          case (Inr v)
          then show ?thesis using step' q 1 False by (intro that(4) [OF h]) simp_all
        qed
      qed
    next
      case 2
      obtain q t where q: "retry_generation w s = (q, t)" by fastforce
      show ?thesis
      proof (cases gd)
        case True
        then show ?thesis using step 2 by (intro that(3) [OF h]) simp_all
      next
        case False
        note step' = step [simplified 2 False q, simplified]
        show ?thesis
        proof (cases q)
          case (Inl e)
          show ?thesis
          proof (cases "\<exists>k. e = Stage_timeout k")
            case True
            then show ?thesis using step' Inl q 2 False that(9) [OF h] by auto
          next
            case other: False
            then have "x = Inl e \<and> u = t" using step' Inl by (cases e) auto
            then show ?thesis using Inl q 2 False by (intro that(10) [OF h]) simp_all
          qed
        next
          case (Inr v)
          then show ?thesis using step' q 2 False by (intro that(8) [OF h]) simp_all
        qed
      qed
    next
      case 3
      then show ?thesis using step that(2) [OF h] by simp
    qed
  qed
qed

section \<open>The frame of a run\<close>

locale run_frame =
  fixes w :: ai_world and p :: product_context
    and R :: "nat \<Rightarrow> nat \<Rightarrow> run_state \<Rightarrow> run_state \<Rightarrow> bool"
  assumes same: "R n m s s"
    and compose: "\<lbrakk> R n m s t; R n' m' t u \<rbrakk> \<Longrightarrow> R (n + n') (m + m') s u"
    and check: "R 0 0 s (s\<lparr>rs_checks := k\<rparr>)"
    and search: "R 1 0 s (snd (guarded_search w p s))"
    and call: "R 0 1 s (s\<lparr>rs_provider_calls := rs_provider_calls s + 1\<rparr>)"
    and attempt: "R 0 0 s (s\<lparr>rs_capture := (rs_capture s)\<lparr>cp_forwarded := [], cp_rejected := []\<rparr>\<rparr>)"
    and ctx: "ctx_frame (rs_ctx s) c \<Longrightarrow> R 0 0 s (s\<lparr>rs_ctx := c\<rparr>)"
begin

lemma weaken: "\<lbrakk> R n m s t; n \<le> n'; m \<le> m' \<rbrakk> \<Longrightarrow> R n' m' s t"
  using compose [OF _ same [of "n' - n" "m' - m" t], of n m s] by simp

lemma free_then: "\<lbrakk> R 0 0 s t; R n m t u \<rbrakk> \<Longrightarrow> R n m s u"
  using compose [of 0 0 s t n m u] by simp

lemma then_free: "\<lbrakk> R n m s t; R 0 0 t u \<rbrakk> \<Longrightarrow> R n m s u"
  using compose [of n m s t 0 0 u] by simp

lemma and_then_at:
  assumes "R n m s (snd (f s))" and "\<And>a t. f s = (Inr a, t) \<Longrightarrow> R n' m' t (snd (g a t))"
  shows "R (n + n') (m + m') s (snd (and_then f g s))"
proof (cases "f s")
  case (Pair r t)
  show ?thesis
  proof (cases r)
    case (Inl e)
    then show ?thesis using assms(1) Pair by (simp add: weaken)
  next
    case (Inr a)
    then show ?thesis using assms Pair compose [of n m s t n' m' "snd (g a t)"] by simp
  qed
qed

lemma and_then_free:
  "\<lbrakk> R 0 0 s (snd (f s)); \<And>a t. f s = (Inr a, t) \<Longrightarrow> R n m t (snd (g a t)) \<rbrakk> \<Longrightarrow>
     R n m s (snd (and_then f g s))"
  using and_then_at [of 0 0 s f n m g] by simp

lemma stays_bind:
  "\<lbrakk> stays R n m f; \<And>a. stays R n' m' (g a) \<rbrakk> \<Longrightarrow> stays R (n + n') (m + m') (and_then f g)"
  unfolding stays_def by (blast intro: and_then_at)

lemma stays_free: "\<lbrakk> stays R 0 0 f; \<And>a. stays R n m (g a) \<rbrakk> \<Longrightarrow> stays R n m (and_then f g)"
  using stays_bind [of 0 0 f n m g] by simp

lemma stays_last: "\<lbrakk> stays R n m f; \<And>a. stays R 0 0 (g a) \<rbrakk> \<Longrightarrow> stays R n m (and_then f g)"
  using stays_bind [of n m f 0 0 g] by simp

lemma stays_with_ctx: "(\<And>s. R n m s (snd (f (rs_ctx s) s))) \<Longrightarrow> stays R n m (with_ctx f)"
  by (simp add: stays_def with_ctx_def)

lemma stays_read: "(\<And>c. stays R n m (f c)) \<Longrightarrow> stays R n m (with_ctx f)"
  by (simp add: stays_def with_ctx_def)

lemma stays_weaken: "\<lbrakk> stays R n m f; n \<le> n'; m \<le> m' \<rbrakk> \<Longrightarrow> stays R n' m' f"
  by (auto simp: stays_def intro: weaken)

lemma stays_at: "stays R n m f \<Longrightarrow> R n m s (snd (f s))"
  by (simp add: stays_def)

lemma stays_pure: "stays R n m (done_with a)" "stays R n m (fails_with e)" "stays R n m (result_step r)"
  by (simp_all add: stays_def step_defs same)

lemma stays_change: "(\<And>c. ctx_frame c (u c)) \<Longrightarrow> stays R 0 0 (change_ctx u)"
  by (simp add: stays_def change_ctx_def ctx)

lemma cancelled_at: "raise_if_cancelled w scope s = (r, t) \<Longrightarrow> R 0 0 s t"
  using check [of s "rs_checks s + 1"]
  by (auto simp: raise_if_cancelled_def Let_def split: checkpoint.splits option.splits)

lemma stays_cancelled: "stays R 0 0 (raise_if_cancelled w scope)"
  using cancelled_at by (simp add: stays_def) (metis prod.collapse)

lemma stays_begin: "stays R 0 0 begin_attempt"
  by (simp add: stays_def begin_attempt_def attempt)

lemma stays_deadline: "stays R n m f \<Longrightarrow> stays R n m (deadline_scope w stage f)"
  unfolding deadline_scope_def by (intro stays_free stays_last stays_cancelled)

lemma stays_harness: "stays R 0 0 (harness_on w' p' fns payload st to req failure)"
  by (simp add: stays_def harness_on_def result_step_def same)

lemma retry_count_at: "R 0 0 s (s\<lparr>rs_ctx := (rs_ctx s)\<lparr>cx_retry_count := k\<rparr>\<rparr>)"
  by (rule ctx) (simp add: ctx_frame_def)

lemma store_at: "R 0 0 s (snd (change_ctx (store_evidence es) s))"
  unfolding change_ctx_def by (simp, rule ctx) (simp add: ctx_frame_def store_evidence_def)

text \<open>The retrieval stage searches at most twice, the generation stage calls the provider at most twice.\<close>

lemma retrieval_attempts_at: "R (left + 1) 0 s (snd (retrieval_attempts w p retries left s))"
proof (induction left arbitrary: retries s)
  case (0 retries s)
  obtain r0 t0 where c: "raise_if_cancelled w (Some ''RETRIEVING'') s = (r0, t0)" by fastforce
  obtain g t where g: "guarded_search w p t0 = (g, t)" by fastforce
  have t: "R 1 0 s t" using free_then [OF cancelled_at [OF c]] search [of t0] by (simp add: g)
  show ?case
    using c g t weaken [OF cancelled_at [OF c], of 1 0] then_free [OF t retry_count_at]
      then_free [OF t store_at]
    by (cases r0; cases g) (simp_all add: Let_def)
next
  case (Suc left retries s)
  obtain r0 t0 where c: "raise_if_cancelled w (Some ''RETRIEVING'') s = (r0, t0)" by fastforce
  obtain g t where g: "guarded_search w p t0 = (g, t)" by fastforce
  obtain r1 u where d: "raise_if_cancelled w (Some ''RETRIEVING'') t = (r1, u)" by fastforce
  have t: "R 1 0 s t" using free_then [OF cancelled_at [OF c]] search [of t0] by (simp add: g)
  have t': "R (Suc left + 1) 0 s t" by (rule weaken [OF t]) simp_all
  have u: "R 1 0 s u" using t cancelled_at [OF d] by (rule then_free)
  have u': "R (Suc left + 1) 0 s u" by (rule weaken [OF u]) simp_all
  have next_round: "R (Suc left + 1) 0 s (snd (retrieval_attempts w p (retries + 1) left
      (u\<lparr>rs_ctx := (rs_ctx u)\<lparr>cx_retry_count := k\<rparr>\<rparr>)))" for k
    using compose [OF then_free [OF u retry_count_at [of u k]] Suc.IH] by simp
  show ?case
    using c g d t' u' next_round weaken [OF cancelled_at [OF c], of "Suc left + 1" 0]
      then_free [OF t' retry_count_at] then_free [OF t' store_at]
    by (cases r0; cases g; cases r1) (simp_all add: Let_def del: retrieval_attempts.simps
      add: retrieval_attempts.simps [of w p retries "Suc left"])
qed

lemma stays_retrieval: "stays R 2 0 (execute_retrieval_stage w p)"
  using retrieval_attempts_at [where left = 1]
  by (auto simp: stays_def execute_retrieval_stage_def MAX_INTERNAL_RETRIES_def fails_with_def same
    numeral_2_eq_2 simp del: retrieval_attempts.simps)

lemma provider_attempts_at: "R 0 (left + 1) s (snd (provider_attempts w retries left s))"
proof (induction left arbitrary: retries s)
  case (0 retries s)
  obtain r0 t0 where c: "raise_if_cancelled w (Some ''GENERATING'') s = (r0, t0)" by fastforce
  have t: "R 0 1 s (t0\<lparr>rs_provider_calls := rs_provider_calls t0 + 1\<rparr>)"
    by (rule free_then [OF cancelled_at [OF c] call])
  show ?case
    using c t weaken [OF cancelled_at [OF c], of 0 1]
    by (cases r0; cases "wd_provider w (rs_provider_calls t0)") (simp_all add: Let_def)
next
  case (Suc left retries s)
  obtain r0 t0 where c: "raise_if_cancelled w (Some ''GENERATING'') s = (r0, t0)" by fastforce
  define t where "t = t0\<lparr>rs_provider_calls := Suc (rs_provider_calls t0)\<rparr>"
  obtain r1 u where d: "raise_if_cancelled w (Some ''GENERATING'') t = (r1, u)" by fastforce
  have t: "R 0 1 s t"
    using free_then [OF cancelled_at [OF c] call] by (simp add: t_def)
  have t': "R 0 (Suc left + 1) s t" by (rule weaken [OF t]) simp_all
  have u: "R 0 1 s u" using t cancelled_at [OF d] by (rule then_free)
  have u': "R 0 (Suc left + 1) s u" by (rule weaken [OF u]) simp_all
  have next_round: "R 0 (Suc left + 1) s (snd (provider_attempts w (retries + 1) left
      (u\<lparr>rs_ctx := (rs_ctx u)\<lparr>cx_retry_count := k\<rparr>\<rparr>)))" for k
    using compose [OF then_free [OF u retry_count_at [of u k]] Suc.IH] by simp
  show ?case
    using c d t' u' next_round weaken [OF cancelled_at [OF c], of 0 "Suc left + 1"]
    by (cases r0; cases "wd_provider w (rs_provider_calls t0)"; cases r1)
       (simp_all add: Let_def t_def [symmetric] del: provider_attempts.simps
         add: provider_attempts.simps [of w retries "Suc left"])
qed

lemma stays_provider: "stays R 0 2 (provider_attempts w 0 MAX_INTERNAL_RETRIES)"
  using provider_attempts_at [where left = 1]
  by (simp add: stays_def MAX_INTERNAL_RETRIES_def numeral_2_eq_2 del: provider_attempts.simps)

lemma stays_generate: "stays R 0 2 (generate_guidance w a g)"
proof (cases "wd_has_provider w")
  case True
  have build: "stays R 0 0 (with_ctx (\<lambda>ctx. result_step (build_request w ctx a g)))"
    by (rule stays_with_ctx) (simp add: result_step_def same)
  have assemble: "stays R 0 0 (and_then
      (change_ctx (\<lambda>ctx. ctx\<lparr>cx_retry_count := max (cx_retry_count ctx) (snd (snd x))\<rparr>))
      (\<lambda>_. result_step (assemble_guidance w a q (fst x) (fst (snd x)) (snd (snd x)))))" for x q
    by (intro stays_free stays_change stays_pure) (simp add: ctx_frame_def)
  show ?thesis
    unfolding generate_guidance_def case_prod_beta
    by (simp only: True not_True_eq_False if_False)
      (rule stays_free [OF build stays_last [OF stays_provider assemble]])
qed (simp add: generate_guidance_def stays_pure)

text \<open>The assessment of a danger survives the generation stage.\<close>

lemma determined_assessment:
  "determine_assessment_and_guidance cfg a e = (b, g) \<Longrightarrow> sa_risk_level a = RISK_DANGER \<Longrightarrow> b = a"
  by (auto simp: determine_assessment_and_guidance_def split: if_splits)

lemma stays_keep_guidance:
  "stays R 0 0 (change_ctx (\<lambda>c. c\<lparr>cx_usage_guidance := f c\<rparr>))"
  by (rule stays_change) (simp add: ctx_frame_def)

lemma stays_generation: "stays R 0 2 (execute_generation_stage w)"
  unfolding execute_generation_stage_def
proof (rule stays_with_ctx)
  fix s :: run_state
  show "R 0 2 s (snd ((case cx_safety_assessment (rs_ctx s) of
       None \<Rightarrow> fails_with (Runtime_failure ''no safety assessment'')
     | Some a0 \<Rightarrow>
         (let has_evidence = (cx_evidence_references (rs_ctx s) \<noteq> []);
              (a, g) = determine_assessment_and_guidance (wd_config w) a0 has_evidence;
              keep = (\<lambda>g'. change_ctx (\<lambda>c. c\<lparr>cx_usage_guidance := Some g'\<rparr>)) in
          and_then (change_ctx (\<lambda>c. c\<lparr>cx_safety_assessment := Some a\<rparr>)) (\<lambda>_.
          if sa_risk_level a = RISK_DANGER \<or> \<not> has_evidence then keep g
          else and_then (generate_guidance w a g) keep))) s))"
  proof (cases "cx_safety_assessment (rs_ctx s)")
    case (Some a0)
    obtain b g where d: "determine_assessment_and_guidance (wd_config w) a0
        (cx_evidence_references (rs_ctx s) \<noteq> []) = (b, g)" by fastforce
    have "ctx_frame (rs_ctx s) (rs_ctx s\<lparr>cx_safety_assessment := Some b\<rparr>)"
      using determined_assessment [OF d] by (simp add: ctx_frame_def Some is_danger_def)
    note first = ctx [OF this]
    have rest: "stays R 0 2 (if sa_risk_level b = RISK_DANGER \<or> \<not> e
        then change_ctx (\<lambda>c. c\<lparr>cx_usage_guidance := Some g\<rparr>)
        else and_then (generate_guidance w b g) (\<lambda>g'. change_ctx (\<lambda>c. c\<lparr>cx_usage_guidance := Some g'\<rparr>)))"
      for e
      by (auto intro: stays_last stays_generate stays_keep_guidance
        stays_weaken [OF stays_keep_guidance])
    show ?thesis
      unfolding Some option.case Let_def d prod.case
    proof (rule and_then_free)
      show "R 0 0 s (snd (change_ctx (\<lambda>c. c\<lparr>cx_safety_assessment := Some b\<rparr>) s))"
        using first by (simp add: change_ctx_def)
    qed (rule stays_at [OF rest])
  qed (simp add: fails_with_def same)
qed

lemma stays_validation: "stays R 0 0 (execute_validation_stage w)"
  unfolding execute_validation_stage_def
  by (rule stays_read)
     (auto simp: Let_def split: option.split intro!: stays_free stays_pure stays_keep_guidance)

lemma stays_generate_and_validate: "stays R 0 2 (generate_and_validate w)"
  unfolding generate_and_validate_def
  by (intro stays_last stays_deadline stays_generation stays_validation)

lemma stays_retry_generation: "stays R 0 2 (retry_generation w)"
  unfolding retry_generation_def
  by (intro stays_free stays_cancelled stays_change stays_generate_and_validate) (simp add: ctx_frame_def)

lemma stays_retry_retrieval: "stays R 2 2 (retry_retrieval w p)"
proof -
  have "stays R 0 2 (with_ctx (\<lambda>c. if cx_evidence_references c = [] then done_with ()
      else retry_generation w))"
    by (rule stays_read) (auto intro: stays_pure stays_retry_generation)
  then have search: "stays R (2 + 0) (0 + 2) (and_then
      (deadline_scope w ''RETRIEVING'' (execute_retrieval_stage w p))
      (\<lambda>_. with_ctx (\<lambda>c. if cx_evidence_references c = [] then done_with () else retry_generation w)))"
    by (intro stays_bind stays_deadline stays_retrieval)
  have count: "stays R 0 0 (change_ctx (\<lambda>c. c\<lparr>cx_retry_count := 1\<rparr>))"
    by (rule stays_change) (simp add: ctx_frame_def)
  show ?thesis
    unfolding retry_retrieval_def
    by (rule stays_free [OF stays_cancelled stays_free [OF stays_begin stays_free [OF count]]])
      (use search in \<open>simp only: add_0 add_0_right\<close>)
qed

text \<open>Judging and finishing a run is free; the rounds pay for the retries that are left.\<close>

lemma stays_route_final: "stays R 0 0 (route_final h)"
proof -
  have block: "stays R 0 0 block_guidance"
    unfolding block_guidance_def by (rule stays_keep_guidance)
  have drop: "stays R 0 0 drop_evidence"
    unfolding drop_evidence_def by (rule stays_change) (simp add: ctx_frame_def)
  show ?thesis
    unfolding route_final_def Let_def
    by (auto intro!: stays_read stays_free stays_pure block drop)
qed

lemma stays_finish: "stays R 0 0 (finish h rd gd stage)"
  unfolding finish_def by (rule stays_free [OF stays_route_final]) (simp add: stays_def same)

lemma stays_finishes:
  "stays R 0 0 (timeout_finish w p st rd gd stage)"
  "stays R 0 0 (tool_failure_finish w p st rd gd retryable)"
  "stays R 0 0 (defensive_finish w p fns payload st rd gd)"
  unfolding timeout_finish_def tool_failure_finish_def defensive_finish_def
  by (intro stays_free stays_harness stays_finish)+

lemma finishes_at:
  "timeout_finish w p st rd gd stage s = (x, u) \<Longrightarrow> R 0 0 s u"
  "tool_failure_finish w p st rd gd retryable s = (x, u) \<Longrightarrow> R 0 0 s u"
  "defensive_finish w p fns payload st rd gd s = (x, u) \<Longrightarrow> R 0 0 s u"
  "finish h rd gd limit s = (x, u) \<Longrightarrow> R 0 0 s u"
  using stays_at [OF stays_finishes(1)] stays_at [OF stays_finishes(2)] stays_at [OF stays_finishes(3)]
    stays_at [OF stays_finish] by (metis snd_conv)+

lemma rounds_at:
  "reliability_rounds n w p fns payload st rd gd failure s = (x, u) \<Longrightarrow>
     R (if rd then 0 else 2) ((if rd then 0 else 2) + (if gd then 0 else 2)) s u"
proof (induction n arbitrary: st rd gd failure s)
  case 0
  then have "R 0 0 s u" using finishes_at(3) by simp
  then show ?case by (rule weaken) simp_all
next
  case (Suc n)
  have after_search: "R 2 (2 + (if gd then 0 else 2)) s u"
    if "retry_retrieval w p s = (r, t)" "R 0 (if gd then 0 else 2) t u" for r t
    using compose [of 2 2 s t 0] that stays_at [OF stays_retry_retrieval, of s] by simp
  have after_generation: "R (if rd then 0 else 2) ((if rd then 0 else 2) + 2) s u"
    if "retry_generation w s = (r, t)" "R (if rd then 0 else 2) (if rd then 0 else 2) t u" for r t
    using compose [of 0 2 s t _ _ u] that stays_at [OF stays_retry_generation, of s]
    by (simp add: add.commute)
  from Suc.prems show ?case
  proof (cases rule: rounds_cases)
    case (search_round h t)
    then show ?thesis using Suc.IH [OF search_round(5)] after_search [OF search_round(4)] by simp
  next
    case (generation_round h t)
    then show ?thesis using Suc.IH [OF generation_round(4)] after_generation [OF generation_round(3)]
      by simp
  next
    case (search_timeout h stage t)
    then show ?thesis using finishes_at(1) weaken [of 0 0 t u] after_search [OF search_timeout(4)] by simp
  next
    case (search_tool h kind retryable t)
    then show ?thesis using finishes_at(2) weaken [of 0 0 t u] after_search [OF search_tool(4)] by simp
  next
    case (search_error h e)
    then show ?thesis using after_search [OF search_error(4)] same by simp
  next
    case (generation_timeout h stage t)
    then show ?thesis
      using finishes_at(1) weaken [of 0 0 t u] after_generation [OF generation_timeout(3)] by simp
  next
    case (generation_error h e)
    then show ?thesis using after_generation [OF generation_error(3)] same by simp
  next
    case (finished h)
    then have "R 0 0 s u" using finishes_at(4) by simp
    then show ?thesis by (rule weaken) simp_all
  next
    case (defensive h)
    then have "R 0 0 s u" using finishes_at(3) by simp
    then show ?thesis by (rule weaken) simp_all
  qed (simp add: same)
qed

lemma stays_reliability: "stays R 2 4 (run_reliability w p fns payload failure)"
  unfolding stays_def run_reliability_def
  using rounds_at [of RELIABILITY_ROUNDS fns payload _ False False failure] by simp (metis prod.collapse)

end

text \<open>
  The stages before the harness classify and may change the context at will. A frame that does not
  look at the context bounds them, and so a whole request.
\<close>

locale whole_run_frame = run_frame +
  assumes any_ctx: "R 0 0 s (s\<lparr>rs_ctx := c\<rparr>)"
begin

lemma stays_any_change: "stays R 0 0 (change_ctx u)"
  by (simp add: stays_def change_ctx_def any_ctx)

lemma stays_early:
  "stays R 0 0 (execute_structuring_stage w)" "stays R 0 0 (execute_safety_check_stage w)"
  "stays R 0 0 (execute_missing_fields_stage w)" "stays R 0 0 execute_questionnaire_pending_stage"
  unfolding execute_structuring_stage_def execute_safety_check_stage_def
    execute_missing_fields_stage_def execute_questionnaire_pending_stage_def
  by (auto simp: Let_def case_prod_beta intro!: stays_read stays_free stays_pure stays_any_change
    split: option.split)

lemma stays_run_single_rag: "stays R 2 2 (run_single_rag w p)"
proof -
  have pending: "stays R 2 2 (and_then (deadline_scope w ''GENERATING'' execute_questionnaire_pending_stage)
      (\<lambda>_. deadline_scope w ''VALIDATING'' (execute_validation_stage w)))"
    by (rule stays_weaken [of 0 0], intro stays_free stays_deadline stays_early stays_validation) simp_all
  have answer: "stays R (2 + 0) (0 + 2) (and_then
      (deadline_scope w ''RETRIEVING'' (execute_retrieval_stage w p)) (\<lambda>_. generate_and_validate w))"
    by (intro stays_bind stays_deadline stays_retrieval stays_generate_and_validate)
  have danger: "stays R 2 2 (generate_and_validate w)"
    by (rule stays_weaken [OF stays_generate_and_validate]) simp_all
  have "stays R 2 2 (with_ctx (\<lambda>c. if should_wait_for_customer_input (wd_nfc w) c
      then and_then (deadline_scope w ''GENERATING'' execute_questionnaire_pending_stage)
        (\<lambda>_. deadline_scope w ''VALIDATING'' (execute_validation_stage w))
      else and_then (deadline_scope w ''RETRIEVING'' (execute_retrieval_stage w p))
        (\<lambda>_. generate_and_validate w)))"
    using pending answer [unfolded add_0 add_0_right] by (intro stays_read) (simp only: if_split simp_thms)
  then have general: "stays R 2 2 (and_then
      (deadline_scope w ''CHECKING_MISSING_FIELDS'' (execute_missing_fields_stage w)) (\<lambda>_.
      with_ctx (\<lambda>c. if should_wait_for_customer_input (wd_nfc w) c
      then and_then (deadline_scope w ''GENERATING'' execute_questionnaire_pending_stage)
        (\<lambda>_. deadline_scope w ''VALIDATING'' (execute_validation_stage w))
      else and_then (deadline_scope w ''RETRIEVING'' (execute_retrieval_stage w p))
        (\<lambda>_. generate_and_validate w))))"
    by (intro stays_free stays_deadline stays_early)
  show ?thesis
    unfolding run_single_rag_def
    by (intro stays_free [OF stays_cancelled] stays_free [OF stays_deadline [OF stays_early(1)]]
      stays_free [OF stays_deadline [OF stays_early(2)]] stays_read) (simp add: danger general)
qed

lemma stays_run_pipeline: "stays R 4 6 (run_pipeline w p)"
proof -
  have "stays R (2 + 2) (2 + 4) (and_then (run_single_rag w p)
      (\<lambda>_. run_reliability w p [] No_payload None))"
    by (intro stays_bind stays_run_single_rag stays_reliability)
  then have body: "stays R 4 6 (and_then (run_single_rag w p)
      (\<lambda>_. run_reliability w p [] No_payload None))" by simp
  show ?thesis
    unfolding run_pipeline_def
    by (intro stays_free [OF stays_cancelled] stays_free [OF stays_begin]
      stays_free [OF stays_read [OF stays_pure(3)]] body)
qed

end

end
