(* ===== verification/AiOutcome.thy ===== *)
theory AiOutcome
  imports AiRunFacts
begin

text \<open>
  How a pipeline run ends: its budget, where its captured evidence comes from, what it keeps of the
  context, and what the final decision of the harness leaves behind.
\<close>

section \<open>Instances of the frame\<close>

definition within_budget :: "nat \<Rightarrow> nat \<Rightarrow> run_state \<Rightarrow> run_state \<Rightarrow> bool" where
  "within_budget n m s t =
     (rs_searches t \<le> rs_searches s + n \<and> rs_provider_calls t \<le> rs_provider_calls s + m)"

interpretation budget: whole_run_frame w p within_budget for w p
  by unfold_locales
    (auto simp: within_budget_def guarded_search_def Let_def split: search_reply.split)

text \<open>Every captured chunk is in a reply of a search of this run.\<close>

definition found_by :: "ai_world \<Rightarrow> nat \<Rightarrow> retrieved_chunk \<Rightarrow> bool" where
  "found_by w n c = (\<exists>i < n. \<exists>cs. wd_search w i = Search_found cs \<and> c \<in> set cs)"

definition capture_found :: "ai_world \<Rightarrow> run_state \<Rightarrow> bool" where
  "capture_found w s =
     (\<forall>c \<in> set (cp_forwarded (rs_capture s)) \<union> set (cp_rejected (rs_capture s)).
        found_by w (rs_searches s) c)"

lemma found_by_Suc: "found_by w n c \<Longrightarrow> found_by w (Suc n) c"
  by (auto simp: found_by_def intro: less_SucI)

lemma guarded_search_found:
  assumes "capture_found w s" shows "capture_found w (snd (guarded_search w p s))"
proof (cases "pc_runtime_approved p")
  case True
  show ?thesis
  proof (cases "wd_search w (rs_searches s)")
    case (Search_found cs)
    then have "found_by w (Suc (rs_searches s)) c" if "c \<in> set cs" for c
      using that by (auto simp: found_by_def)
    then show ?thesis
      using assms True Search_found
      by (auto simp: guarded_search_def capture_found_def record_search_def Let_def intro: found_by_Suc)
  qed (use assms True in \<open>auto simp: guarded_search_def capture_found_def Let_def intro: found_by_Suc\<close>)
qed (use assms in \<open>simp add: guarded_search_def\<close>)

interpretation sources: whole_run_frame w p "\<lambda>_ _ s t. capture_found w s \<longrightarrow> capture_found w t" for w p
  by unfold_locales (auto simp: guarded_search_found, auto simp: capture_found_def)

lemma guarded_search_ctx: "rs_ctx (snd (guarded_search w p s)) = rs_ctx s"
  by (simp add: guarded_search_def Let_def split: search_reply.split)

interpretation kept: run_frame w p "\<lambda>_ _ s t. ctx_frame (rs_ctx s) (rs_ctx t)" for w p
  by unfold_locales (auto simp: guarded_search_ctx intro: ctx_frame_trans)

section \<open>Results of steps\<close>

lemma and_then_Inr:
  "and_then f g s = (Inr b, u) \<longleftrightarrow> (\<exists>a t. f s = (Inr a, t) \<and> g a t = (Inr b, u))"
  by (simp split: prod.split sum.split)

declare and_then.simps [simp del]

lemma with_ctx_at: "with_ctx f s = f (rs_ctx s) s"
  by (simp add: with_ctx_def)

lemma result_step_Inr: "result_step r s = (Inr a, t) \<longleftrightarrow> r = Inr a \<and> t = s"
  by (auto simp: result_step_def)

lemma done_with_Inr: "done_with a s = (Inr b, t) \<longleftrightarrow> b = a \<and> t = s"
  by (auto simp: done_with_def)

lemma change_ctx_Inr: "change_ctx f s = (Inr a, t) \<longleftrightarrow> t = s\<lparr>rs_ctx := f (rs_ctx s)\<rparr>"
  by (auto simp: change_ctx_def)

lemmas step_simps = and_then_Inr with_ctx_at result_step_Inr done_with_Inr change_ctx_Inr

lemma cancelled_ctx: "raise_if_cancelled w scope s = (r, t) \<Longrightarrow> rs_ctx t = rs_ctx s"
  by (auto simp: raise_if_cancelled_def Let_def split: checkpoint.splits option.splits)

lemma deadline_Inr:
  assumes "deadline_scope w stage f s = (Inr a, u)"
  obtains t t' b where "rs_ctx t = rs_ctx s" "f t = (Inr b, t')" "rs_ctx u = rs_ctx t'"
  using assms unfolding deadline_scope_def and_then_Inr by (auto dest!: cancelled_ctx)

section \<open>A danger in the text\<close>

definition danger_in_text :: "ai_world \<Rightarrow> pipeline_context \<Rightarrow> bool" where
  "danger_in_text w c =
     (let answers = map snd (cx_previous_answers c) in
      danger_observed (wd_checks w) (cx_raw_symptom c) [] answers \<or>
      danger_keyword (wd_checks w) (wd_config w) (cx_raw_symptom c) (cx_selected_symptoms c) answers)"

definition danger_kept :: "(string \<times> utext) list \<Rightarrow> run_state \<Rightarrow> bool" where
  "danger_kept answers s =
     (is_danger (cx_safety_assessment (rs_ctx s)) \<and> cx_previous_answers (rs_ctx s) = answers)"

lemma kept_danger: "\<lbrakk> ctx_frame (rs_ctx s) (rs_ctx t); danger_kept answers s \<rbrakk> \<Longrightarrow> danger_kept answers t"
  by (simp add: ctx_frame_def danger_kept_def)

lemma classified_danger:
  assumes "classify_context w signals c = Inr a" and "danger_in_text w c"
  shows "sa_risk_level a = RISK_DANGER"
  using assms classify_level [of "wd_checks w" "wd_config w"]
  by (auto simp: classify_context_def danger_in_text_def danger_observed_def Let_def)

lemma structuring_Inr:
  assumes "execute_structuring_stage w s = (Inr a, t)"
  shows "rs_ctx t = (rs_ctx s)\<lparr>cx_structured_symptom := cx_structured_symptom (rs_ctx t),
    cx_safety_signals := cx_safety_signals (rs_ctx t)\<rparr>"
  using assms by (auto simp: execute_structuring_stage_def step_simps Let_def case_prod_beta)

lemma safety_check_Inr:
  assumes "execute_safety_check_stage w s = (Inr a, t)" and "danger_in_text w (rs_ctx s)"
  shows "danger_kept (cx_previous_answers (rs_ctx s)) t"
  using assms classified_danger
  by (auto simp: execute_safety_check_stage_def step_simps danger_kept_def is_danger_def)

lemma single_rag_danger:
  assumes "run_single_rag w p s = (Inr a, u)" and "danger_in_text w (rs_ctx s)"
  shows "danger_kept (cx_previous_answers (rs_ctx s)) u"
proof -
  from assms(1) obtain s1 s2 s3 x y z where s1: "raise_if_cancelled w None s = (x, s1)"
      and s2: "deadline_scope w ''STRUCTURING'' (execute_structuring_stage w) s1 = (Inr y, s2)"
      and s3: "deadline_scope w ''SAFETY_CHECK'' (execute_safety_check_stage w) s2 = (Inr z, s3)"
      and rest: "(if is_danger (cx_safety_assessment (rs_ctx s3)) then generate_and_validate w s3
         else and_then (deadline_scope w ''CHECKING_MISSING_FIELDS'' (execute_missing_fields_stage w)) (\<lambda>_.
         with_ctx (\<lambda>ctx'.
           if should_wait_for_customer_input (wd_nfc w) ctx'
           then and_then (deadline_scope w ''GENERATING'' execute_questionnaire_pending_stage) (\<lambda>_.
             deadline_scope w ''VALIDATING'' (execute_validation_stage w))
           else and_then (deadline_scope w ''RETRIEVING'' (execute_retrieval_stage w p)) (\<lambda>_.
             generate_and_validate w))) s3) = (Inr a, u)"
    unfolding run_single_rag_def step_simps by (auto split: if_splits)
  have c1: "rs_ctx s1 = rs_ctx s" using s1 by (rule cancelled_ctx)
  obtain sym sig where c2: "rs_ctx s2 = (rs_ctx s)\<lparr>cx_structured_symptom := sym, cx_safety_signals := sig\<rparr>"
    using s2 by (elim deadline_Inr) (use c1 structuring_Inr in metis)
  have "danger_in_text w (rs_ctx s2)"
    using assms(2) by (simp add: c2 danger_in_text_def)
  then have s3: "danger_kept (cx_previous_answers (rs_ctx s)) s3"
    using s3 by (elim deadline_Inr) (use c2 safety_check_Inr in \<open>fastforce simp: danger_kept_def\<close>)
  then have "generate_and_validate w s3 = (Inr a, u)" using rest by (simp add: danger_kept_def)
  then have "ctx_frame (rs_ctx s3) (rs_ctx u)"
    using kept.stays_generate_and_validate [of w] by (metis stays_def snd_conv)
  then show ?thesis using s3 by (rule kept_danger)
qed

section \<open>The final decision\<close>

definition retries :: "harness_decision \<Rightarrow> bool" where
  "retries d = (d = RETRY_RETRIEVAL \<or> d = RETRY_GENERATION)"

text \<open>The result of a run is what the harness decided on its last state.\<close>

definition ends_run ::
  "ai_world \<Rightarrow> product_context \<Rightarrow> string list \<Rightarrow> bool \<Rightarrow> reliability_result \<Rightarrow> run_state \<Rightarrow> bool" where
  "ends_run w p fns settled rel u =
     (\<exists>h s fns' payload st to req failure rd gd stage.
        fns' \<in> {fns, []} \<and> harness_on w p fns' payload st to req failure s = (Inr h, s) \<and>
        (settled \<longrightarrow> \<not> retries (hr_decision h)) \<and> finish h rd gd stage s = (Inr rel, u))"

lemma harness_on_Inr:
  assumes "harness_on w p fns payload st to req failure s = (Inr h, t)"
  obtains hi where "run_harness (wd_config w) st hi = Inr h" "hi_product hi = p"
    "hi_chunks hi = evidence_for_harness s" "hi_required_functions hi = fns"
    "hi_timed_out hi = to" "hi_tool_failure hi = failure" "t = s"
    "hi_safety hi = cx_safety_assessment (rs_ctx s)" "hi_guidance hi = cx_usage_guidance (rs_ctx s)"
    "hi_evidence_required hi = Some (case req of Some b \<Rightarrow> b | None \<Rightarrow> evidence_required (rs_ctx s))"
proof -
  let ?hi = "\<lparr>hi_product = p, hi_chunks = evidence_for_harness s,
    hi_safety = cx_safety_assessment (rs_ctx s), hi_guidance = cx_usage_guidance (rs_ctx s),
    hi_required_functions = fns, hi_payload = payload, hi_timed_out = to,
    hi_evidence_required = Some (case req of Some b \<Rightarrow> b | None \<Rightarrow> evidence_required (rs_ctx s)),
    hi_tool_failure = failure\<rparr>"
  have h: "run_harness (wd_config w) st ?hi = Inr h" "t = s"
    using assms unfolding harness_on_def result_step_def by blast+
  show ?thesis by (rule that [OF h(1)]) (simp_all only: harness_input.simps h(2))
qed

lemma harness_on_retry:
  assumes "harness_on w p fns payload st to req failure s = (Inr h, t)"
  shows "hr_decision h = RETRY_RETRIEVAL \<Longrightarrow> rt_retrieval st = 0 \<and> hr_retry_state h = st\<lparr>rt_retrieval := 1\<rparr>"
    and "hr_decision h = RETRY_GENERATION \<Longrightarrow>
      rt_generation st = 0 \<and> hr_retry_state h = st\<lparr>rt_generation := 1\<rparr>"
proof -
  from assms obtain hi v where "h = judge_verification hi st v"
    by (auto elim!: harness_on_Inr simp: run_harness_parts)
  note judge_retry [OF this]
  then show "hr_decision h = RETRY_RETRIEVAL \<Longrightarrow> rt_retrieval st = 0 \<and> hr_retry_state h = st\<lparr>rt_retrieval := 1\<rparr>"
    and "hr_decision h = RETRY_GENERATION \<Longrightarrow>
      rt_generation st = 0 \<and> hr_retry_state h = st\<lparr>rt_generation := 1\<rparr>"
    by blast+
qed

lemma harness_on_timeout:
  "harness_on w p fns payload st True req failure s = (Inr h, t) \<Longrightarrow> hr_decision h = ESCALATE"
  by (elim harness_on_Inr) (auto simp: run_harness_parts judge_choice)

lemma harness_on_failure:
  assumes "harness_on w p fns payload st to req (Some f) s = (Inr h, t)"
  shows "hr_decision h \<in> {RETRY_RETRIEVAL, ESCALATE}"
proof -
  from assms obtain hi v where v: "verify_output (wd_config w) hi = Inr v" "h = judge_verification hi st v"
      "hi_tool_failure hi = Some f"
    by (auto elim!: harness_on_Inr simp: run_harness_parts)
  have "hi_timed_out hi \<or> vr_decision v \<in> {RETRY_RETRIEVAL, ESCALATE}"
    using v(1,3) by (cases rule: verify_output_cases)
      (simp_all add: unapproved_result_def tool_failure_result_def)
  then show ?thesis
    using judge_choice [of hi st v] by (auto simp: v(2))
qed

lemma harness_on_escalates:
  "harness_on w p fns payload st to req failure s = (Inr h, t) \<Longrightarrow>
     hr_should_escalate h = (hr_decision h = ESCALATE)"
  by (elim harness_on_Inr) (auto simp: run_harness_parts judge_escalates)

lemma ends_runI:
  "\<lbrakk> fns' \<in> {fns, []}; harness_on w p fns' payload st to req failure s = (Inr h, s);
     finish h rd gd stage s = (Inr rel, u); settled \<Longrightarrow> \<not> retries (hr_decision h) \<rbrakk> \<Longrightarrow>
     ends_run w p fns settled rel u"
  unfolding ends_run_def by blast

lemma finishes_end:
  "timeout_finish w p st rd gd stage s = (Inr rel, u) \<Longrightarrow> ends_run w p fns settled rel u"
  "tool_failure_finish w p st rd gd retryable s = (Inr rel, u) \<Longrightarrow>
     (settled \<Longrightarrow> rt_retrieval st = 1) \<Longrightarrow> ends_run w p fns settled rel u"
  "defensive_finish w p fns payload st rd gd s = (Inr rel, u) \<Longrightarrow> \<not> settled \<Longrightarrow>
     ends_run w p fns settled rel u"
proof -
  assume "timeout_finish w p st rd gd stage s = (Inr rel, u)"
  then obtain h where h: "harness_on w p [] No_payload st True (Some False) None s = (Inr h, s)"
      "finish h rd gd (Some stage) s = (Inr rel, u)"
    unfolding timeout_finish_def and_then_Inr using harness_on_state by metis
  show "ends_run w p fns settled rel u"
    by (rule ends_runI [OF _ h]) (use harness_on_timeout [OF h(1)] in \<open>simp_all add: retries_def\<close>)
next
  assume "tool_failure_finish w p st rd gd retryable s = (Inr rel, u)" "settled \<Longrightarrow> rt_retrieval st = 1"
  then obtain h where h: "harness_on w p [] No_payload st False (Some False)
      (Some \<lparr>tf_tool_name = SEARCH_OFFICIAL_EVIDENCE, tf_retryable = retryable\<rparr>) s = (Inr h, s)"
      "finish h rd gd None s = (Inr rel, u)"
    unfolding tool_failure_finish_def and_then_Inr using harness_on_state by metis
  have "settled \<Longrightarrow> \<not> retries (hr_decision h)"
    using harness_on_failure [OF h(1)] harness_on_retry(1) [OF h(1)] \<open>settled \<Longrightarrow> rt_retrieval st = 1\<close>
    by (auto simp: retries_def)
  then show "ends_run w p fns settled rel u"
    by (intro ends_runI [OF _ h]) simp_all
next
  assume "defensive_finish w p fns payload st rd gd s = (Inr rel, u)" "\<not> settled"
  then obtain h where h: "harness_on w p fns payload st False None None s = (Inr h, s)"
      "finish h rd gd None s = (Inr rel, u)"
    unfolding defensive_finish_def and_then_Inr using harness_on_state by metis
  show "ends_run w p fns settled rel u"
    by (rule ends_runI [OF _ h]) (simp_all add: \<open>\<not> settled\<close>)
qed

text \<open>With a search, every round that is left can still retry, and none is left to retry at the end.\<close>

lemma rounds_end:
  assumes "reliability_rounds n w p fns payload st rd gd failure s = (Inr rel, u)"
    and "settled \<Longrightarrow> wd_has_search w \<and> rt_retrieval st = of_bool rd \<and> rt_generation st = of_bool gd \<and>
      of_bool (\<not> rd) + of_bool (\<not> gd) < n"
  shows "ends_run w p fns settled rel u"
  using assms
proof (induction n arbitrary: st rd gd failure s)
  case 0
  then have "\<not> settled" by auto
  then show ?case using finishes_end(3) 0(1) by simp
next
  case (Suc n)
  from Suc.prems(1) show ?case
  proof (cases rule: rounds_cases)
    case (finished h)
    then show ?thesis unfolding ends_run_def retries_def by blast
  next
    case (defensive h)
    have "\<not> settled"
      using defensive(2) Suc.prems(2) harness_on_retry [OF defensive(1)] by auto
    then show ?thesis using finishes_end(3) defensive(3) by blast
  next
    case (search_round h t)
    show ?thesis
      by (rule Suc.IH [OF search_round(5)])
        (use Suc.prems(2) search_round(3) harness_on_retry(1) [OF search_round(1,2)] in auto)
  next
    case (search_timeout h stage t)
    then show ?thesis using finishes_end(1) by blast
  next
    case (search_tool h kind retryable t)
    then show ?thesis
      using finishes_end(2) [OF search_tool(5)] harness_on_retry(1) [OF search_tool(1,2)] by simp
  next
    case (generation_round h t)
    show ?thesis
      by (rule Suc.IH [OF generation_round(4)])
        (use Suc.prems(2) generation_round(2) harness_on_retry(2) [OF generation_round(1)] in auto)
  next
    case (generation_timeout h stage t)
    then show ?thesis using finishes_end(1) by blast
  qed simp_all
qed

lemma reliability_ends:
  "run_reliability w p fns payload failure s = (Inr rel, u) \<Longrightarrow> ends_run w p fns (wd_has_search w) rel u"
  unfolding run_reliability_def by (erule rounds_end) (simp add: RELIABILITY_ROUNDS_def)

section \<open>What the final decision leaves behind\<close>

lemma block_guidance_Inr:
  "block_guidance s = (Inr a, t) \<longleftrightarrow>
     t = s\<lparr>rs_ctx := (rs_ctx s)\<lparr>cx_usage_guidance := Some (safe_blocking_guidance (rs_ctx s))\<rparr>\<rparr>"
  by (simp add: block_guidance_def change_ctx_Inr)

lemma blocking_depends:
  "cx_safety_assessment d = cx_safety_assessment c \<Longrightarrow> safe_blocking_guidance d = safe_blocking_guidance c"
  by (simp add: safe_blocking_guidance_def)

text \<open>The final state of a run differs from the judged one at most by blocked guidance and evidence.\<close>

definition blocked_or_same :: "harness_decision \<Rightarrow> run_state \<Rightarrow> run_state \<Rightarrow> bool" where
  "blocked_or_same d s t =
     (if d = HUMAN_REVIEW \<or> d = ESCALATE
      then rs_capture t = rs_capture s \<and> rs_searches t = rs_searches s \<and>
        cx_safety_assessment (rs_ctx t) = cx_safety_assessment (rs_ctx s) \<and>
        cx_previous_answers (rs_ctx t) = cx_previous_answers (rs_ctx s) \<and>
        cx_usage_guidance (rs_ctx t) = Some (safe_blocking_guidance (rs_ctx t))
      else t = s)"

text \<open>A danger, an escalation and a review that cannot be shown are handed to a consultant.\<close>

definition routed_well :: "pipeline_context \<Rightarrow> harness_decision \<Rightarrow> runtime_result \<Rightarrow> bool" where
  "routed_well c d r =
     ((ru_handoff r \<noteq> None \<longrightarrow> list_all handoff_answer_ok (cx_previous_answers c)) \<and>
      (d = ESCALATE \<longrightarrow> ru_handoff r \<noteq> None) \<and>
      (d = HUMAN_REVIEW \<longrightarrow> ru_handoff r \<noteq> None \<or> ru_human_review r \<noteq> None) \<and>
      (d \<noteq> HUMAN_REVIEW \<and> is_danger (cx_safety_assessment c) \<longrightarrow> ru_handoff r \<noteq> None))"

lemma route_runtime_parts:
  assumes "route_runtime c h g forced = Inr r" and "hr_should_escalate h = (hr_decision h = ESCALATE)"
  shows "ru_harness r = h"
    and "hr_decision h = ESCALATE \<or> (hr_decision h \<noteq> HUMAN_REVIEW \<and> forced \<noteq> None) \<Longrightarrow> ru_handoff r \<noteq> None"
    and "hr_decision h = HUMAN_REVIEW \<Longrightarrow> g = None \<Longrightarrow> ru_handoff r \<noteq> None"
    and "hr_decision h = HUMAN_REVIEW \<Longrightarrow> g \<noteq> None \<Longrightarrow> ru_human_review r \<noteq> None"
    and "ru_handoff r \<noteq> None \<Longrightarrow> list_all handoff_answer_ok (cx_previous_answers c)"
  using assms
  by (auto simp: route_runtime_def Let_def res_simps create_handoff_def handoff_input_ok_def
    split: if_splits option.splits)

lemma route_final_Inr:
  assumes "route_final h s = (Inr r, t)" and "hr_should_escalate h = (hr_decision h = ESCALATE)"
  shows "ru_harness r = h \<and> blocked_or_same (hr_decision h) s t \<and>
    routed_well (rs_ctx s) (hr_decision h) r"
proof -
  consider (review) "hr_decision h = HUMAN_REVIEW" | (escalate) "hr_decision h = ESCALATE"
    | (other) "hr_decision h \<noteq> HUMAN_REVIEW" "hr_decision h \<noteq> ESCALATE" by blast
  then show ?thesis
  proof cases
    case review
    have "t = s\<lparr>rs_ctx := (rs_ctx s)\<lparr>cx_usage_guidance := Some (safe_blocking_guidance (rs_ctx s))\<rparr>\<rparr> \<and>
        (\<exists>c. cx_previous_answers c = cx_previous_answers (rs_ctx s) \<and>
          route_runtime c h (cx_usage_guidance (rs_ctx s)) None = Inr r)"
    proof (cases "cx_usage_guidance (rs_ctx s)")
      case None
      let ?c = "(rs_ctx s)\<lparr>cx_usage_guidance := Some (safe_blocking_guidance (rs_ctx s))\<rparr>"
      have "t = s\<lparr>rs_ctx := ?c\<rparr>" "route_runtime ?c h None None = Inr r"
        using assms(1) review None
        by (auto simp: route_final_def step_simps Let_def block_guidance_Inr)
      then show ?thesis using None by (intro conjI exI [of _ ?c]) simp_all
    next
      case (Some g)
      then show ?thesis using assms(1) review
        by (auto simp: route_final_def step_simps Let_def block_guidance_Inr)
    qed
    then obtain c where t: "t = s\<lparr>rs_ctx := (rs_ctx s)\<lparr>cx_usage_guidance := Some (safe_blocking_guidance (rs_ctx s))\<rparr>\<rparr>"
        and a: "cx_previous_answers c = cx_previous_answers (rs_ctx s)"
        and c: "route_runtime c h (cx_usage_guidance (rs_ctx s)) None = Inr r" by blast
    have "ru_handoff r \<noteq> None \<or> ru_human_review r \<noteq> None"
      using route_runtime_parts(3,4) [OF c assms(2) review] by blast
    then show ?thesis
      using review route_runtime_parts(1,5) [OF c assms(2)] a
      by (simp add: t blocked_or_same_def routed_well_def safe_blocking_guidance_def)
  next
    case escalate
    then have t: "rs_capture t = rs_capture s \<and> rs_searches t = rs_searches s \<and>
        cx_safety_assessment (rs_ctx t) = cx_safety_assessment (rs_ctx s) \<and>
        cx_previous_answers (rs_ctx t) = cx_previous_answers (rs_ctx s) \<and>
        cx_usage_guidance (rs_ctx t) = Some (safe_blocking_guidance (rs_ctx s))"
        and c: "route_runtime (rs_ctx t) h (cx_usage_guidance (rs_ctx t)) None = Inr r"
      using assms(1)
      by (auto simp: route_final_def step_simps Let_def block_guidance_Inr drop_evidence_def split: if_splits)
    have "safe_blocking_guidance (rs_ctx t) = safe_blocking_guidance (rs_ctx s)"
      using t by (intro blocking_depends) simp
    moreover have "ru_handoff r \<noteq> None"
      using route_runtime_parts(2) [OF c assms(2)] escalate by blast
    ultimately show ?thesis
      using t escalate route_runtime_parts(1,5) [OF c assms(2)]
      by (simp add: blocked_or_same_def routed_well_def)
  next
    case other
    then have t: "t = s" and c: "route_runtime (rs_ctx s) h (cx_usage_guidance (rs_ctx s))
        (if is_danger (cx_safety_assessment (rs_ctx s)) then Some ''DANGER_PRIORITY'' else None) = Inr r"
      using assms(1) by (simp_all add: route_final_def step_simps Let_def)
    show ?thesis
      using other route_runtime_parts(1,2,5) [OF c assms(2)]
      by (simp add: t blocked_or_same_def routed_well_def)
  qed
qed

lemma finish_Inr:
  "finish h rd gd stage s = (Inr rel, u) \<Longrightarrow> route_final h s = (Inr (rl_runtime rel), u)"
  by (auto simp: finish_def and_then_Inr)

text \<open>A run that ends was judged in some state, which the end changes only as above.\<close>

lemma ends_runE:
  assumes "ends_run w p fns settled rel u"
  obtains s fns' payload st to req failure where "fns' \<in> {fns, []}"
    "harness_on w p fns' payload st to req failure s = (Inr (harness_of rel), s)"
    "settled \<Longrightarrow> \<not> retries (hr_decision (harness_of rel))"
    "blocked_or_same (hr_decision (harness_of rel)) s u"
    "routed_well (rs_ctx s) (hr_decision (harness_of rel)) (rl_runtime rel)"
proof -
  from assms obtain h s fns' payload st to req failure rd gd stage where h: "fns' \<in> {fns, []}"
      "harness_on w p fns' payload st to req failure s = (Inr h, s)"
      "settled \<longrightarrow> \<not> retries (hr_decision h)" "finish h rd gd stage s = (Inr rel, u)"
    unfolding ends_run_def by blast
  note route_final_Inr [OF finish_Inr [OF h(4)] harness_on_escalates [OF h(2)]]
  then show ?thesis using h by (intro that) (auto simp: harness_of_def)
qed

text \<open>Accepted evidence is usable and was captured.\<close>

lemma first_chunks_in: "set (first_chunks seen cs) \<subseteq> set cs"
  by (induction seen cs rule: first_chunks.induct) auto

lemma evidence_for_harness_in:
  "set (evidence_for_harness s) \<subseteq> set (cp_forwarded (rs_capture s)) \<union> set (cp_rejected (rs_capture s))"
  using first_chunks_in [of "[]" "filter _ _ @ _"] by (fastforce simp: evidence_for_harness_def Let_def)

lemma harness_on_accepted:
  assumes "harness_on w p fns payload st to req failure s = (Inr h, t)"
    and "i \<in> set (vr_accepted (hr_verification h))"
  shows "\<exists>c \<in> set (cp_forwarded (rs_capture s)) \<union> set (cp_rejected (rs_capture s)).
    ch_chunk_id c = i \<and> usable_chunk p c"
proof -
  from assms obtain hi where "run_harness (wd_config w) st hi = Inr h" "hi_product hi = p"
      "hi_chunks hi = evidence_for_harness s"
    by (elim harness_on_Inr) blast
  with harness_accepted [OF this(1) assms(2)] evidence_for_harness_in [of s] show ?thesis by auto
qed

lemma harness_on_pass:
  assumes "harness_on w p fns payload st to req failure s = (Inr h, t)" and "hr_decision h = PASS"
  shows "pc_runtime_approved p"
  using assms by (elim harness_on_Inr) (auto simp: harness_pass_iff)

lemma harness_on_no_review:
  "harness_on w p [] payload st to req failure s = (Inr h, t) \<Longrightarrow> hr_decision h \<noteq> HUMAN_REVIEW"
  by (elim harness_on_Inr) (rule no_human_review)

section \<open>A danger whose answers do not fit the handoff\<close>

lemma danger_needs_answers:
  assumes "run_single_rag w p s = (Inr a, t)" and "run_reliability w p [] No_payload None t = (Inr rel, u)"
    and "danger_in_text w (rs_ctx s)"
  shows "list_all handoff_answer_ok (cx_previous_answers (rs_ctx s))"
proof -
  have "danger_kept (cx_previous_answers (rs_ctx s)) t" using assms(1,3) by (rule single_rag_danger)
  moreover have "ctx_frame (rs_ctx t) (rs_ctx u)"
    using kept.stays_reliability [of w p "[]" No_payload None] assms(2) by (metis stays_def snd_conv)
  ultimately have u: "danger_kept (cx_previous_answers (rs_ctx s)) u" by (rule kept_danger [rotated])
  from reliability_ends [OF assms(2)] obtain s' payload st to req failure where h:
      "harness_on w p [] payload st to req failure s' = (Inr (harness_of rel), s')"
      "blocked_or_same (hr_decision (harness_of rel)) s' u"
      "routed_well (rs_ctx s') (hr_decision (harness_of rel)) (rl_runtime rel)"
    by (elim ends_runE) auto
  have s': "danger_kept (cx_previous_answers (rs_ctx s)) s'"
    using h(2) u by (auto simp: blocked_or_same_def danger_kept_def split: if_splits)
  then show ?thesis
    using h(3) harness_on_no_review [OF h(1)] by (auto simp: routed_well_def danger_kept_def)
qed

lemma analyze_Inr:
  assumes "analyze w approved request = (Inr x, u)"
  obtains p rel s t where "p = resolve_product_context (cx_model_code request) [] approved"
    "rs_ctx s = request\<lparr>cx_model_code := pc_model_code p\<rparr>" "run_single_rag w p s = (Inr (), t)"
    "run_reliability w p [] No_payload None t = (Inr rel, u)"
    "to_analysis_result (rs_ctx u) rel = Inr x"
    "run_pipeline w p (new_run (request\<lparr>cx_model_code := pc_model_code p\<rparr>)) = (Inr rel, u)"
proof -
  let ?p = "resolve_product_context (cx_model_code request) [] approved"
  from assms obtain rel where rel: "to_analysis_result (rs_ctx u) rel = Inr x"
      "run_pipeline w ?p (new_run (request\<lparr>cx_model_code := pc_model_code ?p\<rparr>)) = (Inr rel, u)"
    unfolding analyze_def Let_def and_then_Inr by auto
  from rel(2) obtain s0 s t y z where s: "raise_if_cancelled w None
        (new_run (request\<lparr>cx_model_code := pc_model_code ?p\<rparr>)) = (Inr y, s0)"
      "begin_attempt s0 = (Inr z, s)" "run_single_rag w ?p s = (Inr (), t)"
      "run_reliability w ?p [] No_payload None t = (Inr rel, u)"
    unfolding run_pipeline_def step_simps by auto
  have "rs_ctx s = request\<lparr>cx_model_code := pc_model_code ?p\<rparr>"
    using cancelled_ctx [OF s(1)] s(2) by (auto simp: begin_attempt_def new_run_def)
  then show ?thesis using rel s(3,4) by (intro that) simp_all
qed

section \<open>The public result of a run\<close>

lemma routing_auto:
  assumes "apply_routing_policy r (Some ids) = (r', AUTO_GUIDANCE)"
  shows "r' = r \<and> an_status r = AI_SUCCEEDED \<and> sa_risk_level (an_safety_assessment r) = RISK_GENERAL \<and>
    an_evidence_references r \<noteq> [] \<and> ug_status (an_usage_guidance r) = GUIDE_NORMAL \<and>
    er_chunk_id ` set (an_evidence_references r) = set ids"
proof -
  have "an_status r = AI_SUCCEEDED" "sa_risk_level (an_safety_assessment r) = RISK_GENERAL"
    using assms
    by (cases "an_status r"; cases "sa_risk_level (an_safety_assessment r)";
        simp add: apply_routing_policy_def Let_def split: if_splits)+
  with assms show ?thesis
    by (auto simp: apply_routing_policy_def Let_def accepted_evidence_matches_def split: if_splits)
qed

lemma analysis_auto:
  assumes "to_analysis_result c rel = Inr (r, AUTO_GUIDANCE)"
  shows "hr_decision (harness_of rel) = PASS \<and> sa_risk_level (an_safety_assessment r) = RISK_GENERAL \<and>
    an_evidence_references r \<noteq> [] \<and> ug_status (an_usage_guidance r) = GUIDE_NORMAL \<and>
    er_chunk_id ` set (an_evidence_references r) = set (vr_accepted (hr_verification (harness_of rel)))"
proof -
  from assms obtain r0 where r0: "apply_routing_policy r0
        (Some (vr_accepted (hr_verification (harness_of rel)))) = (r, AUTO_GUIDANCE)"
      "an_status r0 = AI_SUCCEEDED \<Longrightarrow> hr_decision (harness_of rel) = PASS"
    unfolding to_analysis_result_def Let_def rbind_Inr_iff sum.inject
    by - (elim exE conjE, rule that, assumption, simp split: if_splits)
  show ?thesis using routing_auto [OF r0(1)] r0(2) by auto
qed

end
