(* ===== verification/AiBackendFacts.thy ===== *)
theory AiBackendFacts
  imports AiOutcome
begin

text \<open>
  The facts behind the properties that span the AI service and the backend: which guidance of a danger
  the registry of the backend accepts, and what the backend makes of a routed result.
\<close>

section \<open>The canonical registry\<close>

lemma canonical_registry_loads: "load_registry canonical_registry = Some (ry_rules canonical_registry)"
  by code_simp

definition known_danger_ids :: "string list" where
  "known_danger_ids = [''SAFETY-LEAK-001'', ''SAFETY-ELECTRICAL-001'', ''SAFETY-HOT-WATER-HEATER-001'',
     ''SAFETY-REFRIGERANT-001'']"

definition unaccepted_ids :: "string list" where
  "unaccepted_ids = [''SAFETY-HOT-WATER-001'', ''SAFETY-TEMP-ABNORMAL-001'']"

definition entry_of :: "string \<Rightarrow> registry_rule option" where
  "entry_of i = registry_entry (ry_rules canonical_registry) i"

lemma entries:
  "entry_of ''SAFETY-LEAK-001'' = Some (plain_rule ''SAFETY-LEAK-001'' RISK_DANGER True GUIDE_TOTAL_STOP True)"
  "entry_of ''SAFETY-ELECTRICAL-001'' =
     Some (plain_rule ''SAFETY-ELECTRICAL-001'' RISK_DANGER True GUIDE_TOTAL_STOP True)"
  "entry_of ''SAFETY-HOT-WATER-HEATER-001'' = Some heater_entry"
  "entry_of ''SAFETY-REFRIGERANT-001'' = Some refrigerant_entry"
  "entry_of ''SAFETY-HOT-WATER-001'' =
     Some (plain_rule ''SAFETY-HOT-WATER-001'' RISK_DANGER True GUIDE_PARTIAL_STOP False)"
  "entry_of ''SAFETY-TEMP-ABNORMAL-001'' =
     Some (plain_rule ''SAFETY-TEMP-ABNORMAL-001'' RISK_CAUTION False GUIDE_PARTIAL_STOP False)"
  by (simp_all add: entry_of_def registry_entry_def canonical_registry_def plain_rule_def heater_entry_def
    refrigerant_entry_def)

lemma approved_ids: "sr_rule_id ` snd ` set (sc_rules approved_config) =
    set known_danger_ids \<union> set unaccepted_ids"
  by (auto simp: approved_config_def approved_rules known_danger_ids_def unaccepted_ids_def)

text \<open>What the classifier's configuration asks for, over every set of the rules the registry accepts.\<close>

definition asks_as_registered :: "string list \<Rightarrow> bool" where
  "asks_as_registered ids =
     (let g = danger_guidance approved_config ids in
      ug_status g = (if ids = [''SAFETY-HOT-WATER-HEATER-001''] then GUIDE_PARTIAL_STOP else GUIDE_TOTAL_STOP) \<and>
      (''SAFETY-REFRIGERANT-001'' \<in> set ids \<longrightarrow> Some (ug_next_actions g) = rg_next_actions refrigerant_entry) \<and>
      (ids = [''SAFETY-HOT-WATER-HEATER-001''] \<longrightarrow>
        Some (ug_next_actions g) = rg_next_actions heater_entry \<and>
        Some (ug_restricted_functions g) = rg_restricted_functions heater_entry))"

lemma all_ask_as_registered:
  "list_all (\<lambda>ids. ids = [] \<or> asks_as_registered ids) (subseqs known_danger_ids)"
  by code_simp

end
