(* ===== verification/AiMapping.thy ===== *)
theory AiMapping
  imports AiBackendFacts
begin

text \<open>
  Which guidance of a danger the backend accepts, and what the backend makes of a routed result.
\<close>

section \<open>Guidance of a danger at the registry\<close>

lemma effective_same_set:
  "set ids = set ids' \<Longrightarrow> select_effective_rules rules ids risk = select_effective_rules rules ids' risk"
  by (simp add: select_effective_rules_def rule_candidates_def)

lemma danger_guidance_same_set:
  "set ids = set ids' \<Longrightarrow> danger_guidance cfg ids = danger_guidance cfg ids'"
  by (simp add: danger_guidance_def effective_same_set [of ids ids'])

lemma filter_subseqs: "filter P xs \<in> set (subseqs xs)"
  by (induction xs) (auto simp: Let_def)

definition in_order :: "string list \<Rightarrow> string list" where
  "in_order ids = filter (\<lambda>i. i \<in> set ids) known_danger_ids"

lemma in_order_set: "set ids \<subseteq> set known_danger_ids \<Longrightarrow> set (in_order ids) = set ids"
  by (auto simp: in_order_def)

lemma in_order_single:
  assumes "set ids \<subseteq> set known_danger_ids"
  shows "in_order ids = [''SAFETY-HOT-WATER-HEATER-001''] \<longleftrightarrow> set ids = {''SAFETY-HOT-WATER-HEATER-001''}"
proof
  assume "in_order ids = [''SAFETY-HOT-WATER-HEATER-001'']"
  then show "set ids = {''SAFETY-HOT-WATER-HEATER-001''}"
    using in_order_set [OF assms] by (metis empty_set list.simps(15))
next
  assume "set ids = {''SAFETY-HOT-WATER-HEATER-001''}"
  then show "in_order ids = [''SAFETY-HOT-WATER-HEATER-001'']"
    by (simp add: in_order_def known_danger_ids_def)
qed

lemma asks_as_registered_any:
  assumes "set ids \<subseteq> set known_danger_ids" and "ids \<noteq> []"
  shows "ug_status (danger_guidance approved_config ids) =
      (if set ids = {''SAFETY-HOT-WATER-HEATER-001''} then GUIDE_PARTIAL_STOP else GUIDE_TOTAL_STOP)"
    and "''SAFETY-REFRIGERANT-001'' \<in> set ids \<Longrightarrow>
      Some (ug_next_actions (danger_guidance approved_config ids)) = rg_next_actions refrigerant_entry"
    and "set ids = {''SAFETY-HOT-WATER-HEATER-001''} \<Longrightarrow>
      Some (ug_next_actions (danger_guidance approved_config ids)) = rg_next_actions heater_entry \<and>
      Some (ug_restricted_functions (danger_guidance approved_config ids)) =
        rg_restricted_functions heater_entry"
proof -
  have "in_order ids \<noteq> []" using in_order_set [OF assms(1)] assms(2) by force
  moreover have "in_order ids \<in> set (subseqs known_danger_ids)"
    unfolding in_order_def by (rule filter_subseqs)
  ultimately have "asks_as_registered (in_order ids)"
    using all_ask_as_registered by (auto simp: list_all_iff)
  moreover have "danger_guidance approved_config (in_order ids) = danger_guidance approved_config ids"
    by (rule danger_guidance_same_set) (rule in_order_set [OF assms(1)])
  ultimately show "ug_status (danger_guidance approved_config ids) =
      (if set ids = {''SAFETY-HOT-WATER-HEATER-001''} then GUIDE_PARTIAL_STOP else GUIDE_TOTAL_STOP)"
    and "''SAFETY-REFRIGERANT-001'' \<in> set ids \<Longrightarrow>
      Some (ug_next_actions (danger_guidance approved_config ids)) = rg_next_actions refrigerant_entry"
    and "set ids = {''SAFETY-HOT-WATER-HEATER-001''} \<Longrightarrow>
      Some (ug_next_actions (danger_guidance approved_config ids)) = rg_next_actions heater_entry \<and>
      Some (ug_restricted_functions (danger_guidance approved_config ids)) =
        rg_restricted_functions heater_entry"
    by (simp_all add: asks_as_registered_def Let_def in_order_single [OF assms(1)] in_order_set [OF assms(1)])
qed

text \<open>The objections of the registry, once every rule is enabled.\<close>

lemma entry_facts:
  assumes "i \<in> set known_danger_ids"
  shows "\<exists>r. entry_of i = Some r \<and> danger_enabled r \<and>
    (rg_default_status r = Some GUIDE_TOTAL_STOP \<longleftrightarrow> i \<noteq> ''SAFETY-HOT-WATER-HEATER-001'') \<and>
    GUIDE_TOTAL_STOP \<in> set (rg_allowed_statuses r) \<and>
    (rg_next_action_merge_policy r = Some ''EXCLUSIVE'' \<longleftrightarrow> i = ''SAFETY-REFRIGERANT-001'')"
  using assms
  by (auto simp: known_danger_ids_def entries danger_enabled_def plain_rule_def heater_entry_def
    refrigerant_entry_def)

lemma unaccepted_facts:
  "i \<in> set unaccepted_ids \<Longrightarrow> \<exists>r. entry_of i = Some r \<and> \<not> danger_enabled r"
  by (auto simp: unaccepted_ids_def entries danger_enabled_def plain_rule_def)

lemma refuses_unaccepted:
  assumes "set ids \<inter> set unaccepted_ids \<noteq> {}" and "sa_matched_safety_rule_ids a = ids"
    and "sa_risk_level a = RISK_DANGER" "sa_requires_consultation a" "distinct ids"
  shows "danger_errors canonical_registry details a g = [''rule not enabled'']"
proof -
  obtain i where i: "i \<in> set ids" "i \<in> set unaccepted_ids" using assms(1) by auto
  obtain r where "entry_of i = Some r" "\<not> danger_enabled r" using unaccepted_facts [OF i(2)] by blast
  with i(1) have "\<exists>i \<in> set ids. (case registry_entry (ry_rules canonical_registry) i of
      None \<Rightarrow> True | Some r \<Rightarrow> \<not> danger_enabled r)"
    by (intro bexI [of _ i]) (simp_all add: entry_of_def)
  moreover have "ids \<noteq> []" using assms(1) by auto
  ultimately show ?thesis
    using assms by (simp add: danger_errors_def Let_def canonical_registry_loads)
qed

definition matched_entries :: "string list \<Rightarrow> registry_rule list" where
  "matched_entries ids = map (\<lambda>i. the (entry_of i)) ids"

definition exclusive_entries :: "string list \<Rightarrow> registry_rule list" where
  "exclusive_entries ids =
     filter (\<lambda>r. rg_next_action_merge_policy r = Some ''EXCLUSIVE'') (matched_entries ids)"

definition entry_actions :: "registry_rule \<Rightarrow> utext list" where
  "entry_actions r = (case rg_next_actions r of None \<Rightarrow> [] | Some ts \<Rightarrow> ts)"

lemma distinct_singleton_list: "distinct xs \<Longrightarrow> set xs = {x} \<Longrightarrow> xs = [x]"
proof (cases xs)
  case (Cons y ys)
  moreover assume "distinct xs" "set xs = {x}"
  ultimately show ?thesis by (cases ys) auto
qed simp

lemma exclusive_entries_known:
  assumes "set ids \<subseteq> set known_danger_ids" and "distinct ids"
  shows "exclusive_entries ids =
    (if ''SAFETY-REFRIGERANT-001'' \<in> set ids then [refrigerant_entry] else [])"
proof -
  let ?R = "''SAFETY-REFRIGERANT-001''"
  have "(rg_next_action_merge_policy (the (entry_of i)) = Some ''EXCLUSIVE'') = (i = ?R)"
    if "i \<in> set ids" for i
  proof -
    have "i \<in> set known_danger_ids" using that assms(1) by blast
    from entry_facts [OF this] obtain r where "entry_of i = Some r"
      "rg_next_action_merge_policy r = Some ''EXCLUSIVE'' \<longleftrightarrow> i = ?R" by blast
    then show ?thesis by simp
  qed
  then have f: "exclusive_entries ids = map (\<lambda>i. the (entry_of i)) (filter (\<lambda>i. i = ?R) ids)"
    unfolding exclusive_entries_def matched_entries_def filter_map comp_def by (auto cong: filter_cong)
  have "filter (\<lambda>i. i = ?R) ids = [?R]" if "?R \<in> set ids"
    using that assms(2) by (intro distinct_singleton_list) auto
  moreover have "filter (\<lambda>i. i = ?R) ids = []" if "?R \<notin> set ids"
    using that by (auto simp: filter_empty_conv)
  ultimately show ?thesis by (simp add: f entries)
qed

lemma refrigerant_actions: "fromkeys (entry_actions refrigerant_entry) = entry_actions refrigerant_entry"
  by code_simp

lemma refrigerant_Some: "rg_next_actions refrigerant_entry = Some (entry_actions refrigerant_entry)"
  by (simp add: refrigerant_entry_def entry_actions_def)

lemma danger_errors_matched:
  assumes "set ids \<subseteq> set known_danger_ids" and "sa_matched_safety_rule_ids a = ids" and "ids \<noteq> []"
    and "distinct ids" and "sa_risk_level a = RISK_DANGER" and "sa_requires_consultation a"
  shows "danger_errors canonical_registry True a g =
    (let matched = matched_entries ids;
         expected = (if list_ex (\<lambda>r. rg_default_status r = Some GUIDE_TOTAL_STOP) matched
           then GUIDE_TOTAL_STOP else GUIDE_PARTIAL_STOP);
         actions = fromkeys (concat (map entry_actions (exclusive_entries ids))) in
     if ug_status g \<noteq> expected then [''strictest rule'']
     else if \<exists>r \<in> set matched. ug_status g \<notin> set (rg_allowed_statuses r)
     then [''status not allowed by every rule'']
     else if exclusive_entries ids \<noteq> [] \<and> ug_next_actions g \<noteq> actions then [''exclusive actions'']
     else if expected = GUIDE_PARTIAL_STOP
     then (if length matched \<noteq> 1 then [''ambiguous partial stop'']
           else if Some (ug_restricted_functions g) \<noteq> rg_restricted_functions (hd matched)
           then [''restricted_functions'']
           else if Some (ug_next_actions g) \<noteq> rg_next_actions (hd matched)
           then [''next_actions''] else [])
     else [])"
proof -
  have "\<not> (\<exists>i \<in> set ids. case registry_entry (ry_rules canonical_registry) i of
      None \<Rightarrow> True | Some r \<Rightarrow> \<not> danger_enabled r)"
  proof
    assume "\<exists>i \<in> set ids. case registry_entry (ry_rules canonical_registry) i of
      None \<Rightarrow> True | Some r \<Rightarrow> \<not> danger_enabled r"
    then obtain i where i: "i \<in> set ids" "case entry_of i of None \<Rightarrow> True | Some r \<Rightarrow> \<not> danger_enabled r"
      by (auto simp: entry_of_def)
    have "i \<in> set known_danger_ids" using i(1) assms(1) by blast
    from entry_facts [OF this] obtain r where "entry_of i = Some r" "danger_enabled r" by blast
    then show False using i(2) by simp
  qed
  then show ?thesis
    unfolding danger_errors_def Let_def canonical_registry_loads
    using assms(2-6)
    by (simp add: matched_entries_def entry_of_def comp_def exclusive_entries_def entry_actions_def [abs_def])
qed

lemma registry_accepts:
  assumes "set ids \<subseteq> set known_danger_ids" and "sa_matched_safety_rule_ids a = ids" and "ids \<noteq> []"
    and "distinct ids" and "sa_risk_level a = RISK_DANGER" and "sa_requires_consultation a"
  shows "danger_errors canonical_registry True a g = [] \<longleftrightarrow>
    (if set ids = {''SAFETY-HOT-WATER-HEATER-001''}
     then ug_status g = GUIDE_PARTIAL_STOP \<and>
       Some (ug_restricted_functions g) = rg_restricted_functions heater_entry \<and>
       Some (ug_next_actions g) = rg_next_actions heater_entry
     else ug_status g = GUIDE_TOTAL_STOP \<and>
       (''SAFETY-REFRIGERANT-001'' \<in> set ids \<longrightarrow>
         ug_next_actions g = entry_actions refrigerant_entry))"
proof (cases "set ids = {''SAFETY-HOT-WATER-HEATER-001''}")
  case True
  then have ids: "ids = [''SAFETY-HOT-WATER-HEATER-001'']"
    using assms(4) by (rule distinct_singleton_list [rotated])
  have m: "matched_entries ids = [heater_entry]" by (simp add: matched_entries_def ids entries)
  have x: "exclusive_entries ids = []"
    unfolding exclusive_entries_known [OF assms(1,4)] by (simp add: ids)
  have h: "rg_default_status heater_entry = Some GUIDE_PARTIAL_STOP"
      "GUIDE_PARTIAL_STOP \<in> set (rg_allowed_statuses heater_entry)"
    by (simp_all add: heater_entry_def plain_rule_def)
  show ?thesis
    unfolding danger_errors_matched [OF assms] m x Let_def using True h by auto
next
  case False
  have facts: "GUIDE_TOTAL_STOP \<in> set (rg_allowed_statuses (the (entry_of i))) \<and>
      (rg_default_status (the (entry_of i)) = Some GUIDE_TOTAL_STOP \<longleftrightarrow> i \<noteq> ''SAFETY-HOT-WATER-HEATER-001'')"
    if "i \<in> set ids" for i
  proof -
    have "i \<in> set known_danger_ids" using that assms(1) by blast
    from entry_facts [OF this] obtain r where "entry_of i = Some r" "GUIDE_TOTAL_STOP \<in> set (rg_allowed_statuses r)"
        "rg_default_status r = Some GUIDE_TOTAL_STOP \<longleftrightarrow> i \<noteq> ''SAFETY-HOT-WATER-HEATER-001''" by blast
    then show ?thesis by simp
  qed
  have "\<exists>i \<in> set ids. i \<noteq> ''SAFETY-HOT-WATER-HEATER-001''"
    using False assms(3) by (cases ids) auto
  then have e: "list_ex (\<lambda>r. rg_default_status r = Some GUIDE_TOTAL_STOP) (matched_entries ids)"
    using facts by (auto simp: matched_entries_def list_ex_iff)
  have s: "\<not> (\<exists>r \<in> set (matched_entries ids). GUIDE_TOTAL_STOP \<notin> set (rg_allowed_statuses r))"
    using facts by (auto simp: matched_entries_def)
  show ?thesis
    unfolding danger_errors_matched [OF assms] Let_def using e s False
    by (auto simp: exclusive_entries_known [OF assms(1,4)] refrigerant_actions)
qed

text \<open>The guidance of the classifier, and the guidance that blocks a danger.\<close>

definition rules_known :: "safety_assessment \<Rightarrow> bool" where
  "rules_known a =
     (set (sa_matched_safety_rule_ids a) \<subseteq> set known_danger_ids \<union> set unaccepted_ids \<and>
      sa_matched_safety_rule_ids a \<noteq> [] \<and> distinct (sa_matched_safety_rule_ids a) \<and>
      sa_risk_level a = RISK_DANGER \<and> sa_requires_consultation a)"

lemma determined_at_registry:
  assumes "rules_known a" and "sa_matched_safety_rule_ids a = ids"
  shows "danger_errors canonical_registry True a (danger_guidance approved_config ids) = [] \<longleftrightarrow>
    set ids \<inter> set unaccepted_ids = {}"
proof (cases "set ids \<inter> set unaccepted_ids = {}")
  case True
  then have ids: "set ids \<subseteq> set known_danger_ids" "ids \<noteq> []" "distinct ids"
      "sa_risk_level a = RISK_DANGER" "sa_requires_consultation a"
    using assms by (auto simp: rules_known_def)
  show ?thesis
    unfolding registry_accepts [OF ids(1) assms(2) ids(2-5)]
    using True asks_as_registered_any [OF ids(1,2)] refrigerant_Some by auto
next
  case False
  then show ?thesis
    using refuses_unaccepted [OF False assms(2)] assms by (simp add: rules_known_def)
qed

definition TOTAL_STOP_IDS :: "string list" where
  "TOTAL_STOP_IDS = [''SAFETY-LEAK-001'', ''SAFETY-ELECTRICAL-001'']"

lemma four_rules:
  assumes "S \<subseteq> {l, e, h, r}" and "S \<noteq> {}" and "r \<notin> {l, e, h}" and "h \<notin> {l, e}"
  shows "S \<noteq> {h} \<and> r \<notin> S \<longleftrightarrow> S \<subseteq> insert h {l, e} \<and> S \<inter> {l, e} \<noteq> {}"
  using assms by (cases "l \<in> S"; cases "e \<in> S") auto

lemma blocked_at_registry:
  assumes "rules_known a" and "sa_matched_safety_rule_ids a = ids"
    and "ug_status g = GUIDE_TOTAL_STOP" and "length (ug_next_actions g) = 1"
  shows "danger_errors canonical_registry True a g = [] \<longleftrightarrow>
    set ids \<subseteq> insert ''SAFETY-HOT-WATER-HEATER-001'' (set TOTAL_STOP_IDS) \<and>
    set ids \<inter> set TOTAL_STOP_IDS \<noteq> {}"
proof (cases "set ids \<inter> set unaccepted_ids = {}")
  case True
  then have ids: "set ids \<subseteq> set known_danger_ids" "ids \<noteq> []" "distinct ids"
      "sa_risk_level a = RISK_DANGER" "sa_requires_consultation a"
    using assms(1,2) by (auto simp: rules_known_def)
  have "length (entry_actions refrigerant_entry) = 4"
    by (simp add: entry_actions_def refrigerant_entry_def)
  then have "ug_next_actions g \<noteq> entry_actions refrigerant_entry" using assms(4) by auto
  then have "danger_errors canonical_registry True a g = [] \<longleftrightarrow>
      set ids \<noteq> {''SAFETY-HOT-WATER-HEATER-001''} \<and> ''SAFETY-REFRIGERANT-001'' \<notin> set ids"
    unfolding registry_accepts [OF ids(1) assms(2) ids(2-5)] using assms(3) by auto
  also have "\<dots> \<longleftrightarrow> set ids \<subseteq> insert ''SAFETY-HOT-WATER-HEATER-001'' (set TOTAL_STOP_IDS) \<and>
      set ids \<inter> set TOTAL_STOP_IDS \<noteq> {}"
    using four_rules [of "set ids" "''SAFETY-LEAK-001''" "''SAFETY-ELECTRICAL-001''"
        "''SAFETY-HOT-WATER-HEATER-001''" "''SAFETY-REFRIGERANT-001''"] ids(1,2)
    by (simp add: known_danger_ids_def TOTAL_STOP_IDS_def)
  finally show ?thesis .
next
  case False
  then show ?thesis
    using refuses_unaccepted [OF False assms(2)] assms
    by (auto simp: rules_known_def unaccepted_ids_def TOTAL_STOP_IDS_def)
qed

lemma blocking_guidance_of_danger:
  "is_danger (cx_safety_assessment c) \<Longrightarrow> ug_status (safe_blocking_guidance c) = GUIDE_TOTAL_STOP \<and>
     length (ug_next_actions (safe_blocking_guidance c)) = 1"
  by (simp add: safe_blocking_guidance_def usage_guidance_init_def)

lemma classified_rules_known:
  assumes "classify tc approved_config raw selected signals answers = Inr a"
    and "sa_risk_level a = RISK_DANGER"
  shows "rules_known a"
proof -
  obtain b where b: "classify tc approved_config raw selected signals answers = Inr b"
      "assessed_by_rules approved_config b"
      "set (sa_matched_safety_rule_ids b) \<subseteq> sr_rule_id ` snd ` set (sc_rules approved_config)"
      "distinct (sa_matched_safety_rule_ids b)"
    using classify_sound [OF approved_config_sound] by metis
  then have "b = a" using assms(1) by simp
  moreover have "select_effective_rules (sc_rules approved_config) [] RISK_DANGER = []"
    by (simp add: effective_Nil_iff rule_candidates_def)
  ultimately show ?thesis
    using b(2-4) assms(2) unfolding approved_ids rules_known_def assessed_by_rules_def Let_def
    by (cases "sa_matched_safety_rule_ids a = []") simp_all
qed

section \<open>Routed results\<close>

text \<open>What every disposition says of the result it goes with.\<close>

lemma routed:
  assumes "apply_routing_policy r ids = (r', d)"
  shows "d = FAIL_CLOSED_CONSULTATION \<longleftrightarrow> an_status r' = AI_FALLBACK"
    and "d = FAIL_CLOSED_CONSULTATION \<Longrightarrow> sa_requires_consultation (an_safety_assessment r') \<and>
      an_failure_stage r' \<noteq> None \<and>
      (sa_risk_level (an_safety_assessment r') \<noteq> RISK_DANGER \<longrightarrow>
        ug_status (an_usage_guidance r') = GUIDE_PENDING_CONSULTATION)"
    and "d \<noteq> FAIL_CLOSED_CONSULTATION \<Longrightarrow> r' = r \<and> an_status r = AI_SUCCEEDED"
proof -
  have inv: "an_status (invalid_success_fallback r) = AI_FALLBACK \<and>
      an_failure_stage (invalid_success_fallback r) \<noteq> None \<and>
      sa_requires_consultation (an_safety_assessment (invalid_success_fallback r)) \<and>
      (sa_risk_level (an_safety_assessment (invalid_success_fallback r)) \<noteq> RISK_DANGER \<longrightarrow>
        ug_status (an_usage_guidance (invalid_success_fallback r)) = GUIDE_PENDING_CONSULTATION)"
    by (simp add: invalid_success_fallback_def Let_def routing_blocking_guidance_def usage_guidance_init_def)
  have norm: "an_status (normalize_existing_fallback r) = an_status r \<and>
      an_failure_stage (normalize_existing_fallback r) \<noteq> None \<and>
      sa_requires_consultation (an_safety_assessment (normalize_existing_fallback r)) \<and>
      (sa_risk_level (an_safety_assessment (normalize_existing_fallback r)) \<noteq> RISK_DANGER \<longrightarrow>
        ug_status (an_usage_guidance (normalize_existing_fallback r)) = GUIDE_PENDING_CONSULTATION)"
    by (auto simp: normalize_existing_fallback_def Let_def routing_blocking_guidance_def
      usage_guidance_init_def split: option.split)
  have "(r', d) = (normalize_existing_fallback r, FAIL_CLOSED_CONSULTATION) \<and> an_status r = AI_FALLBACK \<or>
      (r', d) = (invalid_success_fallback r, FAIL_CLOSED_CONSULTATION) \<or>
      r' = r \<and> d \<noteq> FAIL_CLOSED_CONSULTATION \<and> an_status r = AI_SUCCEEDED"
    using assms by (cases "an_status r") (auto simp: apply_routing_policy_def Let_def split: if_splits)
  then show "d = FAIL_CLOSED_CONSULTATION \<longleftrightarrow> an_status r' = AI_FALLBACK"
    and "d = FAIL_CLOSED_CONSULTATION \<Longrightarrow> sa_requires_consultation (an_safety_assessment r') \<and>
      an_failure_stage r' \<noteq> None \<and>
      (sa_risk_level (an_safety_assessment r') \<noteq> RISK_DANGER \<longrightarrow>
        ug_status (an_usage_guidance r') = GUIDE_PENDING_CONSULTATION)"
    and "d \<noteq> FAIL_CLOSED_CONSULTATION \<Longrightarrow> r' = r \<and> an_status r = AI_SUCCEEDED"
    using inv norm by auto
qed

lemma routed_general:
  assumes "apply_routing_policy r ids = (r', d)" and "d \<noteq> FAIL_CLOSED_CONSULTATION"
  shows "d = DANGER_HANDOFF \<longleftrightarrow> sa_risk_level (an_safety_assessment r') = RISK_DANGER"
    and "d = AUTO_GUIDANCE \<longleftrightarrow> sa_risk_level (an_safety_assessment r') = RISK_GENERAL"
    and "d = AUTO_GUIDANCE \<Longrightarrow> an_evidence_references r' \<noteq> [] \<and>
      \<not> sa_requires_consultation (an_safety_assessment r') \<and> an_missing_fields r' = [] \<and>
      an_followup_questions r' = [] \<and> ug_status (an_usage_guidance r') = GUIDE_NORMAL"
proof -
  note same = routed(3) [OF assms]
  have r: "apply_routing_policy r' ids = (r', d)" "an_status r' = AI_SUCCEEDED" using same assms(1) by auto
  show "d = DANGER_HANDOFF \<longleftrightarrow> sa_risk_level (an_safety_assessment r') = RISK_DANGER"
    using r assms(2)
    by (cases "sa_risk_level (an_safety_assessment r')")
      (auto simp: apply_routing_policy_def Let_def split: if_splits)
  show "d = AUTO_GUIDANCE \<longleftrightarrow> sa_risk_level (an_safety_assessment r') = RISK_GENERAL"
    using r assms(2)
    by (cases "sa_risk_level (an_safety_assessment r')")
      (auto simp: apply_routing_policy_def Let_def split: if_splits)
  show "d = AUTO_GUIDANCE \<Longrightarrow> an_evidence_references r' \<noteq> [] \<and>
      \<not> sa_requires_consultation (an_safety_assessment r') \<and> an_missing_fields r' = [] \<and>
      an_followup_questions r' = [] \<and> ug_status (an_usage_guidance r') = GUIDE_NORMAL"
    using r assms(2)
    by (cases "sa_risk_level (an_safety_assessment r')")
      (auto simp: apply_routing_policy_def Let_def split: if_splits)
qed

text \<open>Routing twice is routing once.\<close>

lemma routing_idempotent:
  assumes "apply_routing_policy r ids = (r', d)"
  shows "apply_routing_policy r' ids = (r', d)"
proof (cases "d = FAIL_CLOSED_CONSULTATION")
  case True
  have f: "an_status r' = AI_FALLBACK" using routed(1) [OF assms] True by simp
  note p = routed(2) [OF assms True]
  have "normalize_existing_fallback r' = r'"
    using p by (auto simp: normalize_existing_fallback_def Let_def)
  then show ?thesis using f True by (simp add: apply_routing_policy_def Let_def)
next
  case False
  then show ?thesis using routed(3) [OF assms False] assms by simp
qed

text \<open>The backend rejects a routed result only for a danger, and agrees with its disposition.\<close>

lemma routed_accepted:
  assumes "apply_routing_policy r ids = (r', d)"
    and "sa_risk_level (an_safety_assessment r') \<noteq> RISK_DANGER"
    and "an_fallback_reason_code r' = Some RUNTIME_PRODUCT_NOT_APPROVED \<Longrightarrow> an_evidence_references r' = []"
  shows "response_errors y r' = []"
proof (cases "d = FAIL_CLOSED_CONSULTATION")
  case True
  then show ?thesis
    using routed(2) [OF assms(1) True] assms(2,3)
    by (auto simp: response_errors_def Let_def response_no_evidence_def response_unapproved_def)
next
  case False
  then have "an_status r' = AI_SUCCEEDED" using routed(3) [OF assms(1) False] by simp
  then show ?thesis using assms(2)
    by (simp add: response_errors_def Let_def response_no_evidence_def response_unapproved_def)
qed

lemma routed_event:
  assumes "apply_routing_policy r ids = (r', d)"
  shows "response_event r' = Some SAFE_GUIDANCE_READY \<longleftrightarrow> d = AUTO_GUIDANCE"
    and "d = DANGER_HANDOFF \<longleftrightarrow> an_status r' = AI_SUCCEEDED \<and> response_event r' = Some DANGER_DETECTED"
proof -
  show "response_event r' = Some SAFE_GUIDANCE_READY \<longleftrightarrow> d = AUTO_GUIDANCE"
  proof (cases "d = FAIL_CLOSED_CONSULTATION")
    case True
    then show ?thesis using routed(1) [OF assms] by (simp add: response_event_def Let_def)
  next
    case False
    note g = routed_general [OF assms False]
    show ?thesis using routed(3) [OF assms False] g
      by (auto simp: response_event_def Let_def response_unapproved_def response_no_evidence_def)
  qed
  show "d = DANGER_HANDOFF \<longleftrightarrow> an_status r' = AI_SUCCEEDED \<and> response_event r' = Some DANGER_DETECTED"
  proof (cases "d = FAIL_CLOSED_CONSULTATION")
    case True
    then show ?thesis using routed(1) [OF assms] by simp
  next
    case False
    note g = routed_general(1) [OF assms False]
    show ?thesis using routed(3) [OF assms False] g
      by (auto simp: response_event_def Let_def response_unapproved_def response_no_evidence_def
        split: if_splits)
  qed
qed

lemma routed_published:
  assumes "apply_routing_policy r ids = (r', d)" and "map_success_response conforms y x r' = Inr m"
  shows "published_at_once m \<longleftrightarrow> d \<in> {AUTO_GUIDANCE, DANGER_HANDOFF}"
proof -
  have m: "mp_payload m = r'" "mp_is_no_evidence m = response_no_evidence r'"
    using assms(2) by (auto simp: map_success_response_def res_simps)
  show ?thesis
  proof (cases "d = FAIL_CLOSED_CONSULTATION")
    case True
    then show ?thesis using routed(1) [OF assms(1)]
      by (simp add: published_at_once_def m initial_review_status_def visible_to_customer_def Let_def)
  next
    case False
    note g = routed_general(1,2) [OF assms(1) False]
    show ?thesis using routed(3) [OF assms(1) False] g
      by (cases "sa_risk_level (an_safety_assessment r')")
        (simp_all add: published_at_once_def m initial_review_status_def visible_to_customer_def Let_def
          response_no_evidence_def)
  qed
qed

lemma mapped_event:
  "map_success_response conforms y x r = Inr m \<Longrightarrow> mp_event_candidate m = response_event r"
  by (auto simp: map_success_response_def res_simps)

end
