(* ===== verification/AiLiveness.thy ===== *)
theory AiLiveness
  imports AiMapping
begin

text \<open>
  A run that is neither cancelled nor timed out takes a danger in the text of a request to a consultant.
\<close>

section \<open>Steps that succeed\<close>

definition runs_to :: "'a run_step \<Rightarrow> run_state \<Rightarrow> 'a \<Rightarrow> pipeline_context \<Rightarrow> bool" where
  "runs_to f s x c = (\<exists>t. f s = (Inr x, t) \<and> rs_ctx t = c \<and> rs_capture t = rs_capture s)"

lemma runs_to_pure:
  "runs_to (done_with x) s x (rs_ctx s)" "runs_to (result_step (Inr x)) s x (rs_ctx s)"
  "runs_to (change_ctx u) s () (u (rs_ctx s))"
  by (simp_all add: runs_to_def done_with_def result_step_def change_ctx_def)

lemma runs_to_and_then:
  assumes "runs_to f s x c" and "\<And>t. \<lbrakk> rs_ctx t = c; rs_capture t = rs_capture s \<rbrakk> \<Longrightarrow> runs_to (g x) t y d"
  shows "runs_to (and_then f g) s y d"
  using assms unfolding runs_to_def and_then_Inr by metis

lemma runs_to_with_ctx: "runs_to (f (rs_ctx s)) s x c \<Longrightarrow> runs_to (with_ctx f) s x c"
  by (simp add: runs_to_def with_ctx_def)

definition undisturbed :: "ai_world \<Rightarrow> bool" where
  "undisturbed w = (\<forall>i. wd_clock w i = Go_on)"

lemma runs_to_check: "undisturbed w \<Longrightarrow> runs_to (raise_if_cancelled w scope) s () (rs_ctx s)"
  by (simp add: runs_to_def raise_if_cancelled_def Let_def undisturbed_def)

lemma runs_to_deadline:
  assumes "undisturbed w"
    and "\<And>t. \<lbrakk> rs_ctx t = rs_ctx s; rs_capture t = rs_capture s \<rbrakk> \<Longrightarrow> runs_to f t () c"
  shows "runs_to (deadline_scope w stage f) s () c"
  unfolding deadline_scope_def
proof (rule runs_to_and_then [OF runs_to_check [OF assms(1)]])
  fix t :: run_state assume t: "rs_ctx t = rs_ctx s" "rs_capture t = rs_capture s"
  show "runs_to (and_then f (\<lambda>_. raise_if_cancelled w (Some stage))) t () c"
  proof (rule runs_to_and_then [OF assms(2) [OF t]])
    fix u :: run_state assume "rs_ctx u = c"
    then show "runs_to (raise_if_cancelled w (Some stage)) u () c"
      using runs_to_check [OF assms(1), of "Some stage" u] by simp
  qed
qed

section \<open>The guidance of a danger passes every check\<close>

lemma danger_message_clean:
  "detected_phrases approved_config (text_strip msg_danger_guidance) = [] \<and>
   text_strip msg_danger_guidance \<noteq> []"
  by code_simp

lemma danger_actions_clean:
  "list_all (\<lambda>r. actions_allowed approved_config (sr_next_actions (snd r))) (sc_rules approved_config)"
  by code_simp

lemma merged_actions_clean:
  "set rules \<subseteq> snd ` set (sc_rules approved_config) \<Longrightarrow>
     actions_allowed approved_config (merge_actions rules)"
  using danger_actions_clean set_merge_actions [of rules]
  unfolding actions_allowed_def list_all_iff by fastforce

text \<open>What the run needs of the assessment of a danger.\<close>

lemma danger_validates:
  assumes "assessed_by_rules approved_config a" and "sa_risk_level a = RISK_DANGER"
    and "danger_guidance approved_config (sa_matched_safety_rule_ids a) = g"
    and "\<And>s. semantics_ok tc (text_strip msg_danger_guidance) s"
  shows "validate_guidance tc approved_config a g e = Inr g"
    and "ug_message g = text_strip msg_danger_guidance"
    and "ug_status g \<in> {GUIDE_PARTIAL_STOP, GUIDE_TOTAL_STOP}"
    and "validate_alignment approved_config a g = Inr ()"
proof -
  define rules where "rules = select_effective_rules (sc_rules approved_config)
    (sa_matched_safety_rule_ids a) RISK_DANGER"
  have ne: "rules \<noteq> []" using assms(1,2) by (auto simp: assessed_by_rules_def rules_def Let_def)
  have g: "g = \<lparr>ug_status = sr_status (hd rules), ug_message = text_strip msg_danger_guidance,
      ug_restricted_functions = merge_restricted rules, ug_next_actions = merge_actions rules\<rparr>"
    using danger_guidance_rules [OF approved_config_sound rules_def [symmetric] ne] assms(3) by simp
  show align: "validate_alignment approved_config a g = Inr ()"
    using validate_alignment_iff [OF approved_config_sound assms(1,2), of g] assms(3) by (simp add: Let_def)
  show stops: "ug_status g \<in> {GUIDE_PARTIAL_STOP, GUIDE_TOTAL_STOP}"
    using danger_guidance_stops [OF approved_config_sound assms(1,2)] assms(3) by simp
  show "ug_message g = text_strip msg_danger_guidance" by (simp add: g)
  have "set rules \<subseteq> snd ` set (sc_rules approved_config)"
    unfolding rules_def using effective_in by blast
  then have "actions_allowed approved_config (ug_next_actions g)"
    using merged_actions_clean by (simp add: g)
  then show "validate_guidance tc approved_config a g e = Inr g"
    using align stops danger_message_clean assms(2,4) unfolding validate_guidance_def
    by (auto simp: g)
qed

section \<open>The run of a danger\<close>

text \<open>The context after the stages of a danger: its symptom, its assessment and its guidance.\<close>

definition structured_danger :: "ai_world \<Rightarrow> pipeline_context \<Rightarrow> pipeline_context" where
  "structured_danger w c = c\<lparr>cx_structured_symptom := Some (fst (wd_structure w False c)),
     cx_safety_signals := snd (wd_structure w False c)\<rparr>"

definition settled_danger :: "ai_world \<Rightarrow> safety_assessment \<Rightarrow> pipeline_context \<Rightarrow> pipeline_context" where
  "settled_danger w a c = (structured_danger w c)\<lparr>cx_safety_assessment := Some a,
     cx_usage_guidance := Some (danger_guidance (wd_config w) (sa_matched_safety_rule_ids a))\<rparr>"

text \<open>A text with a danger is classified as one, before and after structuring.\<close>

lemma danger_classified:
  assumes "wd_config w = approved_config" and "danger_in_text w c"
  obtains a where "classify_context w signals c = Inr a" "sa_risk_level a = RISK_DANGER"
    "assessed_by_rules approved_config a" "rules_known a"
proof -
  obtain a where a: "classify (wd_checks w) approved_config (cx_raw_symptom c) (cx_selected_symptoms c)
      signals (map snd (cx_previous_answers c)) = Inr a" "assessed_by_rules approved_config a"
    using classify_sound [OF approved_config_sound] by metis
  then have c: "classify_context w signals c = Inr a" by (simp add: classify_context_def assms(1))
  note danger = classified_danger [OF c assms(2)]
  show ?thesis by (rule that [OF c danger a(2) classified_rules_known [OF a(1) danger]])
qed

definition danger_run :: "ai_world \<Rightarrow> pipeline_context \<Rightarrow> safety_assessment \<Rightarrow> bool" where
  "danger_run w c a =
     (undisturbed w \<and> wd_config w = approved_config \<and> danger_in_text w c \<and>
      (\<forall>st. semantics_ok (wd_checks w) (text_strip msg_danger_guidance) st) \<and>
      classify_context w (snd (wd_structure w False c)) (structured_danger w c) = Inr a \<and>
      sa_risk_level a = RISK_DANGER \<and> assessed_by_rules approved_config a)"

lemma runs_structuring:
  assumes "danger_run w c a" and "rs_ctx s = c"
  shows "runs_to (execute_structuring_stage w) s () (structured_danger w c)"
proof -
  from assms(1) have "wd_config w = approved_config" "danger_in_text w c" by (auto simp: danger_run_def)
  then obtain b where "classify_context w [] c = Inr b" "sa_risk_level b = RISK_DANGER"
    using danger_classified by metis
  then show ?thesis
    unfolding execute_structuring_stage_def runs_to_def
    by (auto simp: assms(2) step_simps structured_danger_def case_prod_beta Let_def)
qed

lemma runs_safety_check:
  assumes "danger_run w c a" and "rs_ctx s = structured_danger w c"
  shows "runs_to (execute_safety_check_stage w) s ()
    ((structured_danger w c)\<lparr>cx_safety_assessment := Some a\<rparr>)"
proof -
  have "classify_context w (cx_safety_signals (structured_danger w c)) (structured_danger w c) = Inr a"
    using assms(1) by (simp add: danger_run_def structured_danger_def)
  then show ?thesis
    unfolding execute_safety_check_stage_def runs_to_def by (auto simp: assms(2) step_simps)
qed

lemma runs_generation:
  assumes "danger_run w c a"
    and "rs_ctx s = (structured_danger w c)\<lparr>cx_safety_assessment := Some a\<rparr>"
  shows "runs_to (execute_generation_stage w) s () (settled_danger w a c)"
  using assms(1) unfolding execute_generation_stage_def runs_to_def danger_run_def
  by (auto simp: step_simps assms(2) determine_assessment_and_guidance_def determine_guidance_def
    Let_def settled_danger_def)

lemma runs_validation:
  assumes "danger_run w c a" and "rs_ctx s = settled_danger w a c"
  shows "runs_to (execute_validation_stage w) s () (settled_danger w a c)"
proof -
  let ?g = "danger_guidance approved_config (sa_matched_safety_rule_ids a)"
  from assms(1) have d: "wd_config w = approved_config" "assessed_by_rules approved_config a"
      "sa_risk_level a = RISK_DANGER" "\<And>st. semantics_ok (wd_checks w) (text_strip msg_danger_guidance) st"
    by (auto simp: danger_run_def)
  note g = danger_validates [OF d(2,3) refl d(4)]
  have "?g\<lparr>ug_message := sanitized_message approved_config (ug_message ?g)\<rparr> = ?g"
    using danger_message_clean g(2) by (simp add: sanitized_message_def)
  then show ?thesis
    using danger_message_clean g(1,2)
    unfolding execute_validation_stage_def runs_to_def
    by (auto simp: step_simps assms(2) settled_danger_def d(1) Let_def)
qed

text \<open>Once the assessment is a danger, whatever the run would do otherwise is skipped.\<close>

lemma runs_assessed:
  assumes "danger_run w c a" and "rs_ctx s = (structured_danger w c)\<lparr>cx_safety_assessment := Some a\<rparr>"
  shows "runs_to (with_ctx (\<lambda>ctx. if is_danger (cx_safety_assessment ctx) then generate_and_validate w
    else otherwise ctx)) s () (settled_danger w a c)"
proof (rule runs_to_with_ctx)
  have u: "undisturbed w" and "is_danger (cx_safety_assessment (rs_ctx s))"
    using assms by (simp_all add: danger_run_def is_danger_def)
  moreover have "runs_to (generate_and_validate w) s () (settled_danger w a c)"
    unfolding generate_and_validate_def
    by (rule runs_to_and_then [OF runs_to_deadline [OF u runs_generation [OF assms(1)]]],
        simp add: assms(2), rule runs_to_deadline [OF u runs_validation [OF assms(1)]], simp)
  ultimately show "runs_to (if is_danger (cx_safety_assessment (rs_ctx s)) then generate_and_validate w
    else otherwise (rs_ctx s)) s () (settled_danger w a c)" by simp
qed

lemma runs_pipeline:
  assumes "danger_run w c a" and "rs_ctx s = c"
  shows "runs_to (run_single_rag w p) s () (settled_danger w a c)"
proof -
  have u: "undisturbed w" using assms(1) by (simp add: danger_run_def)
  show ?thesis
    unfolding run_single_rag_def
    by (rule runs_to_and_then [OF runs_to_check [OF u]],
        rule runs_to_and_then [OF runs_to_deadline [OF u runs_structuring [OF assms(1)]]],
        simp add: assms(2),
        rule runs_to_and_then [OF runs_to_deadline [OF u runs_safety_check [OF assms(1)]]],
        simp, rule runs_assessed [OF assms(1)])
qed

section \<open>The harness and the result\<close>

lemma settled_danger_sel [simp]:
  "cx_safety_assessment (settled_danger w a c) = Some a"
  "cx_usage_guidance (settled_danger w a c) =
     Some (danger_guidance (wd_config w) (sa_matched_safety_rule_ids a))"
  "cx_structured_symptom (settled_danger w a c) = Some (fst (wd_structure w False c))"
  "cx_missing_fields (settled_danger w a c) = cx_missing_fields c"
  "cx_followup_questions (settled_danger w a c) = cx_followup_questions c"
  "cx_evidence_references (settled_danger w a c) = cx_evidence_references c"
  "cx_awaiting_customer_input (settled_danger w a c) = cx_awaiting_customer_input c"
  "cx_retrieval_outcome (settled_danger w a c) = cx_retrieval_outcome c"
  "cx_retry_count (settled_danger w a c) = cx_retry_count c"
  "cx_ai_request_id (settled_danger w a c) = cx_ai_request_id c"
  "cx_state_version (settled_danger w a c) = cx_state_version c"
  "cx_model_code (settled_danger w a c) = cx_model_code c"
  by (simp_all add: settled_danger_def structured_danger_def)

text \<open>The harness passes a settled danger without evidence.\<close>

lemma danger_passes:
  assumes "danger_run w c a" and "pc_runtime_approved p" and "rs_ctx s = settled_danger w a c"
  obtains h where "harness_on w p [] No_payload st False None None s = (Inr h, s)" "hr_decision h = PASS"
proof -
  from assms(1) have d: "wd_config w = approved_config" "assessed_by_rules approved_config a"
      "sa_risk_level a = RISK_DANGER" "\<And>st. semantics_ok (wd_checks w) (text_strip msg_danger_guidance) st"
    by (auto simp: danger_run_def)
  note aligned = danger_validates(4) [OF d(2,3) refl d(4)]
  let ?h = "\<lparr>hi_product = p, hi_chunks = evidence_for_harness s,
    hi_safety = cx_safety_assessment (rs_ctx s), hi_guidance = cx_usage_guidance (rs_ctx s),
    hi_required_functions = [], hi_payload = No_payload, hi_timed_out = False,
    hi_evidence_required = Some (evidence_required (rs_ctx s)), hi_tool_failure = None\<rparr>"
  obtain r where r: "run_harness (wd_config w) st ?h = Inr r"
    using aligned assms(2) by (auto simp: run_harness_def verify_output_def safety_is_consistent_def
      assms(3) d(1))
  moreover have "hr_decision r = PASS"
    unfolding harness_pass_iff [OF r]
    using aligned assms(2) by (simp add: assms(3) safety_agrees_def missing_functions_def
      schema_is_valid_def required_of_def evidence_required_def is_danger_def d(1,3))
  ultimately show ?thesis by (intro that [of r]) (simp_all add: harness_on_def result_step_def)
qed

text \<open>A run that passed has no issue that the public result would report.\<close>

lemma match_issue_codes:
  "i \<in> set (mr_issues (fold (match_step p) cs m)) \<Longrightarrow>
     i \<in> set (mr_issues m) \<or> vi_code i \<in> {ISSUE_WRONG_MODEL_EVIDENCE, ISSUE_PRODUCT_FAMILY_MISMATCH}"
proof (induction cs arbitrary: m)
  case (Cons c cs)
  then have "i \<in> set (mr_issues (match_step p c m)) \<or>
      vi_code i \<in> {ISSUE_WRONG_MODEL_EVIDENCE, ISSUE_PRODUCT_FAMILY_MISMATCH}" by auto
  then show ?case by (auto split: if_splits)
qed simp

lemma passed_reason:
  assumes "run_harness cfg st h = Inr r" and "hr_decision r = PASS"
  shows "resolve_fallback_reason (hr_verification r) False False = None"
proof -
  obtain v where v: "verify_output cfg h = Inr v" "r = judge_verification h st v"
    using assms(1) by (auto simp: run_harness_parts)
  note pass = assms(2) [unfolded harness_pass_iff [OF assms(1)]]
  from v(1) obtain safe where v': "v = evidence_verdict h safe" "safe"
    by (cases rule: verify_output_cases) (use pass in \<open>auto dest: safety_is_consistent_Inr\<close>)
  have present: "required_of h \<Longrightarrow> mr_accepted (match_chunks (hi_product h)
      (filter chunk_eligible (hi_chunks h))) \<noteq> []"
    using pass unfolding match_chunks_sel usable_chunk_def by (fastforce simp: filter_empty_conv)
  have "vi_code i \<in> {ISSUE_UNVERIFIED_EVIDENCE, ISSUE_WRONG_MODEL_EVIDENCE, ISSUE_PRODUCT_FAMILY_MISMATCH}"
    if "i \<in> set (vr_issues v)" for i
    using that pass present v'(2)
    by (auto simp: v'(1) evidence_verdict_def Let_def issue_def required_of_def match_chunks_def
      dest!: match_issue_codes split: if_splits)
  then have "\<not> has_issue v c" if "c \<notin> {ISSUE_UNVERIFIED_EVIDENCE, ISSUE_WRONG_MODEL_EVIDENCE,
      ISSUE_PRODUCT_FAMILY_MISMATCH}" for c
    using that by (auto simp: has_issue_def list_ex_iff)
  then show ?thesis by (simp add: v(2) judge_decision resolve_fallback_reason_def)
qed

text \<open>A danger that passed is handed over.\<close>

lemma passed_danger_ends:
  assumes "danger_run w c a" and "pc_runtime_approved p" and "rs_ctx s = settled_danger w a c"
    and "handoff_input_ok (settled_danger w a c) ''DANGER_PRIORITY'' []" and "cx_evidence_references c = []"
  obtains rel where "run_reliability w p [] No_payload None s = (Inr rel, s)"
    "hr_decision (harness_of rel) = PASS"
    "resolve_fallback_reason (hr_verification (harness_of rel)) False False = None"
proof -
  obtain h where h: "harness_on w p [] No_payload \<lparr>rt_retrieval = 0, rt_generation = 0\<rparr> False None None s =
      (Inr h, s)" "hr_decision h = PASS"
    using danger_passes [OF assms(1-3)] by metis
  have fits: "handoff_input_ok (rs_ctx s) ''DANGER_PRIORITY'' (fromkeys (vr_accepted (hr_verification h)))"
    using assms(4,5) by (simp add: assms(3) handoff_input_ok_def handoff_evidence_def)
  have "is_danger (cx_safety_assessment (rs_ctx s))"
    using assms(1) by (simp add: assms(3) is_danger_def danger_run_def)
  moreover have "\<not> hr_should_escalate h"
    using harness_on_escalates [OF h(1)] h(2) by simp
  ultimately obtain rt where rt: "route_final h s = (Inr rt, s)" "ru_harness rt = h"
    using h(2) fits
    by (auto simp: route_final_def with_ctx_def route_runtime_def create_handoff_def result_step_def Let_def)
  have "resolve_fallback_reason (hr_verification h) False False = None"
    using h(2) passed_reason by (metis harness_on_Inr [OF h(1)])
  then show ?thesis
    using h rt by (intro that) (auto simp: run_reliability_def RELIABILITY_ROUNDS_def numeral_3_eq_3
      step_simps finish_def harness_of_def)
qed

section \<open>From the request to the result\<close>

text \<open>A danger in the text of a request makes some assessment the danger of its run.\<close>

lemma danger_run_exists:
  assumes "undisturbed w" and "wd_config w = approved_config" and "danger_in_text w c"
    and "\<And>st. semantics_ok (wd_checks w) (text_strip msg_danger_guidance) st"
  obtains a where "danger_run w c a" "rules_known a"
proof -
  have "danger_in_text w (structured_danger w c)"
    using assms(3) by (simp add: danger_in_text_def structured_danger_def)
  from danger_classified [OF assms(2) this] obtain a where
    "classify_context w (snd (wd_structure w False c)) (structured_danger w c) = Inr a"
    "sa_risk_level a = RISK_DANGER" "assessed_by_rules approved_config a" "rules_known a" by metis
  then show ?thesis using assms by (intro that [of a]) (simp_all add: danger_run_def)
qed

text \<open>The result of a settled danger.\<close>

lemma settled_danger_result:
  assumes "danger_run w c a" and "rules_known a" and "hr_decision (harness_of rel) = PASS"
    and "resolve_fallback_reason (hr_verification (harness_of rel)) False False = None"
    and "handoff_input_ok (settled_danger w a c) ''DANGER_PRIORITY'' []"
    and "c = new_context inquiry correlation request version raw code selected answers"
  obtains r where "to_analysis_result (settled_danger w a c) rel = Inr (r, DANGER_HANDOFF)"
    "an_status r = AI_SUCCEEDED" "an_safety_assessment r = a"
    "an_usage_guidance r = danger_guidance approved_config (sa_matched_safety_rule_ids a)"
proof -
  from assms(1) have d: "wd_config w = approved_config" "assessed_by_rules approved_config a"
      "sa_risk_level a = RISK_DANGER" "\<And>st. semantics_ok (wd_checks w) (text_strip msg_danger_guidance) st"
    by (auto simp: danger_run_def)
  have stops: "ug_status (danger_guidance approved_config (sa_matched_safety_rule_ids a))
      \<notin> {GUIDE_NORMAL, GUIDE_PENDING_CONSULTATION}"
    using danger_validates(3) [OF d(2,3) refl d(4)] by auto
  have known: "sa_requires_consultation a" "sa_matched_safety_rule_ids a \<noteq> []"
    using assms(2) by (auto simp: rules_known_def)
  have fresh: "cx_retrieval_outcome c = NOT_RUN" "\<not> cx_awaiting_customer_input c" "cx_retry_count c = 0"
      "cx_missing_fields c = []" "cx_followup_questions c = []" "cx_evidence_references c = []"
    by (simp_all add: assms(6) new_context_def)
  have code: "within 100 (trim (cx_model_code c))"
    using assms(5) by (simp add: handoff_input_ok_def)
  show ?thesis
    using stops known fresh code assms(3,4) d(1,3)
    by (intro that) (auto simp: to_analysis_result_def Let_def clarification_fallback_def
      no_evidence_fallback_def validate_fallback_reason_def apply_routing_policy_def)
qed

lemma danger_delivered:
  assumes "undisturbed w" and "wd_config w = approved_config"
    and "\<And>st. semantics_ok (wd_checks w) (text_strip msg_danger_guidance) st"
    and "request = new_context inquiry correlation number version raw code selected answers"
    and "danger_in_text w request"
    and "resolve_product_context code [] approved = p" and "pc_runtime_approved p"
    and "c = request\<lparr>cx_model_code := pc_model_code p\<rparr>"
    and "handoff_input_ok (structured_danger w c) ''DANGER_PRIORITY'' []"
  obtains a r t where "analyze w approved request = (Inr (r, DANGER_HANDOFF), t)"
    "an_status r = AI_SUCCEEDED" "an_safety_assessment r = a" "rules_known a"
    "an_usage_guidance r = danger_guidance approved_config (sa_matched_safety_rule_ids a)"
proof -
  have c: "c = new_context inquiry correlation number version raw (pc_model_code p) selected answers"
    by (simp add: assms(4,8) new_context_def)
  have "danger_in_text w c" using assms(5) by (simp add: assms(8) danger_in_text_def)
  then obtain a where a: "danger_run w c a" "rules_known a"
    using danger_run_exists [OF assms(1,2) _ assms(3)] by metis
  have fits: "handoff_input_ok (settled_danger w a c) ''DANGER_PRIORITY'' []"
    using assms(9) by (simp add: handoff_input_ok_def handoff_evidence_def settled_danger_def)
  obtain s0 where s0: "raise_if_cancelled w None (new_run c) = (Inr (), s0)" "rs_ctx s0 = c"
    using runs_to_check [OF assms(1), of None "new_run c"] by (auto simp: runs_to_def new_run_def)
  let ?s = "s0\<lparr>rs_capture := (rs_capture s0)\<lparr>cp_forwarded := [], cp_rejected := []\<rparr>\<rparr>"
  obtain t where t: "run_single_rag w p ?s = (Inr (), t)" "rs_ctx t = settled_danger w a c"
    using runs_pipeline [OF a(1), of ?s p] s0(2) by (auto simp: runs_to_def)
  have "cx_evidence_references c = []" by (simp add: c new_context_def)
  from passed_danger_ends [OF a(1) assms(7) t(2) fits this] obtain rel where rel:
    "run_reliability w p [] No_payload None t = (Inr rel, t)" "hr_decision (harness_of rel) = PASS"
    "resolve_fallback_reason (hr_verification (harness_of rel)) False False = None" by metis
  from settled_danger_result [OF a rel(2,3) fits c] obtain r where r:
    "to_analysis_result (settled_danger w a c) rel = Inr (r, DANGER_HANDOFF)" "an_status r = AI_SUCCEEDED"
    "an_safety_assessment r = a"
    "an_usage_guidance r = danger_guidance approved_config (sa_matched_safety_rule_ids a)" by metis
  have "within 100 (trim (cx_ai_request_id c)) \<and> 1 \<le> cx_state_version c"
    using assms(9) by (simp add: handoff_input_ok_def structured_danger_def)
  then have "run_pipeline w p (new_run c) = (Inr rel, t)"
    using s0 t(1) rel(1) by (auto simp: run_pipeline_def step_simps begin_attempt_def)
  moreover have "cx_model_code request = code" by (simp add: assms(4) new_context_def)
  ultimately have "analyze w approved request = (Inr (r, DANGER_HANDOFF), t)"
    using r(1) by (simp add: analyze_def Let_def assms(6) assms(8) [symmetric] step_simps t(2))
  then show ?thesis using r a(2) by (intro that)
qed

end
