(* ===== verification/AiProperties.thy ===== *)
theory AiProperties
  imports AiLiveness
begin

text \<open>
  The properties of the AI service and of what the backend makes of its results, over every answer the
  regular expressions, the vector search, the provider and the clock may give.
\<close>

section \<open>A world for the witnesses\<close>

definition quiet_checks :: text_checks where
  "quiet_checks = \<lparr>asserted_keyword = (\<lambda>_ _. False), detected_signals = (\<lambda>_. []),
     panel_alert = (\<lambda>_. False), leak_negated = (\<lambda>_. False), semantics_ok = (\<lambda>_ _. True),
     grounded = (\<lambda>_ _. True)\<rparr>"

definition filter_chunk :: retrieved_chunk where
  "filter_chunk = \<lparr>ch_chunk_id = ''chunk-1'', ch_document_title = [77], ch_page = Some 3,
     ch_model_code = Some ''WPUJAC104DWH'', ch_content = [70, 105],
     ch_verification_status = ''official_verified'', ch_allowed_use = True, ch_runtime_eligible = True\<rparr>"

definition plain_symptom :: structured_symptom where
  "plain_symptom = \<lparr>ss_symptom_type = [65], ss_occurrence_time = None, ss_target_water_type = None,
     ss_occurrence_condition = None, ss_error_code = None, ss_accompanying_symptoms = [],
     ss_actions_taken = []\<rparr>"

definition quiet_config :: safety_config where
  "quiet_config = approved_config\<lparr>sc_prohibited :=
     \<lparr>pe_diagnosis = [], pe_guarantee = [], pe_repair = [], pe_fallback_message = []\<rparr>\<rparr>"

definition quiet_world :: ai_world where
  "quiet_world = \<lparr>wd_checks = quiet_checks, wd_nfc = (\<lambda>t. t), wd_config = quiet_config,
     wd_has_search = True, wd_has_provider = True, wd_search = (\<lambda>_. Search_found [filter_chunk]),
     wd_provider = (\<lambda>_. Provider_output 0 [na_keep_filter]), wd_clock = (\<lambda>_. Go_on),
     wd_structure = (\<lambda>_ _. (plain_symptom, [])), wd_questions = (\<lambda>_. (plain_symptom, [], [])),
     wd_select = (\<lambda>_ cs. cs), wd_summary_ok = (\<lambda>_. True)\<rparr>"

definition leaking_world :: ai_world where
  "leaking_world = quiet_world\<lparr>wd_checks := quiet_checks\<lparr>detected_signals := \<lambda>_. [water_leak]\<rparr>\<rparr>"

definition plain_request :: "(string \<times> utext) list \<Rightarrow> pipeline_context" where
  "plain_request answers = new_context 1 2 ''req-1'' 1 [65] ''wpujac104dwh'' [] answers"

lemma result_pair:
  "case fst x of Inl e \<Rightarrow> False | Inr y \<Rightarrow> snd y = d \<Longrightarrow> \<exists>r t. x = (Inr (r, d), t)"
  by (cases x; cases "fst x") auto

section \<open>Danger\<close>

text \<open>
  C4: Under the approved rules a classification never fails. It finds a danger exactly when a signal, the
  panel alert or a keyword of a danger rule is observed; then, whether or not evidence is found, the
  assessment stands, asks for a consultation, and its guidance stops at least part of the product's use
  and is accepted by the validator of the same rules.
\<close>

theorem danger_is_stopped:
  "\<exists>a. classify tc approved_config raw selected signals answers = Inr a \<and>
     (sa_risk_level a = RISK_DANGER \<longleftrightarrow>
        danger_observed tc raw signals answers \<or>
        danger_keyword tc approved_config raw selected answers) \<and>
     (sa_risk_level a = RISK_DANGER \<longrightarrow>
        sa_requires_consultation a \<and>
        (\<forall>has_evidence. \<exists>g.
           determine_assessment_and_guidance approved_config a has_evidence = (a, g) \<and>
           ug_status g \<in> {GUIDE_PARTIAL_STOP, GUIDE_TOTAL_STOP} \<and>
           validate_alignment approved_config a g = Inr ()))"
proof -
  obtain a where a: "classify tc approved_config raw selected signals answers = Inr a"
      "assessed_by_rules approved_config a"
    using classify_sound [OF approved_config_sound] by metis
  have "sa_requires_consultation a \<and>
      (\<forall>has_evidence. \<exists>g. determine_assessment_and_guidance approved_config a has_evidence = (a, g) \<and>
        ug_status g \<in> {GUIDE_PARTIAL_STOP, GUIDE_TOTAL_STOP} \<and>
        validate_alignment approved_config a g = Inr ())" if "sa_risk_level a = RISK_DANGER"
    using that a(2) validate_alignment_iff [OF approved_config_sound a(2) that]
      danger_guidance_stops [OF approved_config_sound a(2) that]
    by (simp add: determine_assessment_and_guidance_def determine_guidance_def Let_def assessed_by_rules_def)
  then show ?thesis using a(1) classify_level [OF a(1)] by blast
qed

theorem danger_is_stopped_witness:
  "\<exists>a g. classify quiet_checks approved_config [65] [] [water_leak] [] = Inr a \<and>
     sa_risk_level a = RISK_DANGER \<and> sa_requires_consultation a \<and>
     determine_assessment_and_guidance approved_config a False = (a, g) \<and>
     validate_alignment approved_config a g = Inr ()"
proof -
  have "danger_observed quiet_checks [65] [water_leak] []" by (simp add: danger_observed_def)
  with danger_is_stopped [of quiet_checks "[65]" "[]" "[water_leak]" "[]"] show ?thesis by blast
qed

text \<open>
  C6: Which dangers survive the backend: it accepts the guidance of the classifier exactly when no rule it
  does not enable (warm water, lukewarm water) is among the matched ones, and the guidance that blocks an
  unusable run exactly when the danger is a leak or an electrical one and nothing but a heater alert comes
  with it. Every other danger is rejected as an invalid response.
\<close>

theorem danger_survives_backend_iff:
  assumes "classify tc approved_config raw selected signals answers = Inr a"
    and "sa_risk_level a = RISK_DANGER" and "sa_matched_safety_rule_ids a = ids"
  shows "(danger_errors canonical_registry True a (danger_guidance approved_config ids) = [] \<longleftrightarrow>
      set ids \<inter> set unaccepted_ids = {}) \<and>
    (\<forall>c. cx_safety_assessment c = Some a \<longrightarrow>
      (danger_errors canonical_registry True a (safe_blocking_guidance c) = [] \<longleftrightarrow>
        set ids \<subseteq> insert ''SAFETY-HOT-WATER-HEATER-001'' (set TOTAL_STOP_IDS) \<and>
        set ids \<inter> set TOTAL_STOP_IDS \<noteq> {}))"
proof (intro conjI allI impI)
  note known = classified_rules_known [OF assms(1,2)]
  show "danger_errors canonical_registry True a (danger_guidance approved_config ids) = [] \<longleftrightarrow>
      set ids \<inter> set unaccepted_ids = {}"
    by (rule determined_at_registry [OF known assms(3)])
  fix c :: pipeline_context assume "cx_safety_assessment c = Some a"
  then have "is_danger (cx_safety_assessment c)" using assms(2) by (simp add: is_danger_def)
  then show "danger_errors canonical_registry True a (safe_blocking_guidance c) = [] \<longleftrightarrow>
      set ids \<subseteq> insert ''SAFETY-HOT-WATER-HEATER-001'' (set TOTAL_STOP_IDS) \<and>
      set ids \<inter> set TOTAL_STOP_IDS \<noteq> {}"
    using blocking_guidance_of_danger by (intro blocked_at_registry [OF known assms(3)]) auto
qed

definition lukewarm_checks :: text_checks where
  "lukewarm_checks = quiet_checks\<lparr>asserted_keyword := \<lambda>_ k. k = kw_temp_1\<rparr>"

theorem danger_survives_backend_witness:
  "\<exists>a. classify lukewarm_checks approved_config [65] [] [water_leak] [] = Inr a \<and>
     danger_errors canonical_registry True a
       (danger_guidance approved_config (sa_matched_safety_rule_ids a)) \<noteq> [] \<and>
     danger_errors canonical_registry True a
       (safe_blocking_guidance (plain_request [] \<lparr>cx_safety_assessment := Some a\<rparr>)) \<noteq> []"
proof -
  obtain a where a: "classify lukewarm_checks approved_config [65] [] [water_leak] [] = Inr a"
    using classify_sound [OF approved_config_sound] by metis
  have "map_option sa_matched_safety_rule_ids (case classify lukewarm_checks approved_config [65] []
      [water_leak] [] of Inr b \<Rightarrow> Some b | Inl _ \<Rightarrow> None) =
      Some [''SAFETY-TEMP-ABNORMAL-001'', ''SAFETY-LEAK-001'']"
    by code_simp
  then have ids: "sa_matched_safety_rule_ids a = [''SAFETY-TEMP-ABNORMAL-001'', ''SAFETY-LEAK-001'']"
    by (simp add: a)
  have "danger_observed lukewarm_checks [65] [water_leak] []" by (simp add: danger_observed_def)
  then have "sa_risk_level a = RISK_DANGER" using classify_level [OF a] by simp
  note t = danger_survives_backend_iff [OF a this ids]
  have "cx_safety_assessment (plain_request [] \<lparr>cx_safety_assessment := Some a\<rparr>) = Some a" by simp
  then show ?thesis
    using a t by (auto simp: ids unaccepted_ids_def TOTAL_STOP_IDS_def)
qed




text \<open>
  C20: A danger in the text of a request whose answers do not fit the handoff is lost: with an answer of
  more than 500 characters, which the request contract admits, every run ends in an error, whatever the
  world answers. No danger result and no handoff leaves the service.
\<close>

theorem long_answer_loses_danger:
  assumes "danger_in_text w request" and "a \<in> set (cx_previous_answers request)"
    and "500 < length (text_strip (snd a))"
  shows "isl (fst (analyze w approved request))"
proof (rule ccontr)
  assume "\<not> isl (fst (analyze w approved request))"
  then obtain x u where "analyze w approved request = (Inr x, u)"
    by (metis isl_def old.sum.exhaust prod.collapse)
  then obtain p rel s t where s: "rs_ctx s = request\<lparr>cx_model_code := pc_model_code p\<rparr>"
      "run_single_rag w p s = (Inr (), t)" "run_reliability w p [] No_payload None t = (Inr rel, u)"
    by (rule analyze_Inr)
  have "danger_in_text w (rs_ctx s)" using assms(1) by (simp add: s(1) danger_in_text_def)
  with s have "list_all handoff_answer_ok (cx_previous_answers request)"
    using danger_needs_answers [OF s(2,3)] by simp
  then have "handoff_answer_ok a" using assms(2) by (simp add: list_all_iff)
  then show False using assms(3) by (auto simp: handoff_answer_ok_def within_def text_strip_def)
qed

lemma answers_of_request: "cx_previous_answers (plain_request answers) = answers"
  by (simp add: plain_request_def new_context_def)

lemma dropWhile_replicate_keep: "\<not> P x \<Longrightarrow> dropWhile P (replicate n x) = replicate n x"
  by (cases n) simp_all

lemma strip_letters: "text_strip (replicate n 65) = replicate n 65"
  by (simp add: text_strip_def text_space_def dropWhile_replicate_keep)

theorem long_answer_loses_danger_witness:
  "isl (fst (analyze leaking_world None (plain_request [(''q'', replicate 501 65)]))) \<and>
   (case fst (analyze leaking_world None (plain_request [(''q'', [65])])) of
      Inl _ \<Rightarrow> False | Inr x \<Rightarrow> snd x = DANGER_HANDOFF)"
proof
  have "danger_in_text leaking_world (plain_request [(''q'', replicate 501 65)])"
    by (simp add: danger_in_text_def danger_observed_def leaking_world_def quiet_world_def Let_def)
  then show "isl (fst (analyze leaking_world None (plain_request [(''q'', replicate 501 65)])))"
    by (rule long_answer_loses_danger [where a = "(''q'', replicate 501 65)"])
      (simp_all add: answers_of_request strip_letters)
  show "case fst (analyze leaking_world None (plain_request [(''q'', [65])])) of
      Inl _ \<Rightarrow> False | Inr x \<Rightarrow> snd x = DANGER_HANDOFF"
    by code_simp
qed

section \<open>Evidence\<close>

text \<open>
  C13: The harness passes a run exactly when it did not time out, the product is approved, no tool failed,
  the guidance agrees with the safety assessment, the required functions are supported, the output fits
  its schema and, where evidence is required, there is eligible evidence and all of it is of the exact
  model and family; what it accepts is always verified, allowed evidence of the exact model.
\<close>

theorem harness_passes_iff:
  assumes "run_harness cfg st h = Inr r"
  shows "(hr_decision r = PASS \<longleftrightarrow>
      \<not> hi_timed_out h \<and> pc_runtime_approved (hi_product h) \<and> hi_tool_failure h = None \<and>
      safety_agrees cfg (hi_safety h) (hi_guidance h) \<and>
      missing_functions (hi_product h) (hi_required_functions h) = [] \<and>
      schema_is_valid (hi_guidance h) (hi_payload h) \<and>
      (required_of h \<longrightarrow>
        (\<exists>c \<in> set (hi_chunks h). chunk_eligible c) \<and>
        (\<forall>c \<in> set (hi_chunks h). chunk_eligible c \<longrightarrow> usable_chunk (hi_product h) c))) \<and>
    (\<forall>i \<in> set (vr_accepted (hr_verification r)).
      \<exists>c \<in> set (hi_chunks h). ch_chunk_id c = i \<and> usable_chunk (hi_product h) c)"
  using harness_pass_iff [OF assms] harness_accepted [OF assms] by blast

definition filter_input :: harness_input where
  "filter_input = \<lparr>hi_product = resolve_product_context ''WPUJAC104DWH'' [] None,
     hi_chunks = [filter_chunk], hi_safety = None,
     hi_guidance = Some (usage_guidance_init GUIDE_NORMAL [70, 105] [] [na_keep_filter]),
     hi_required_functions = [], hi_payload = No_payload, hi_timed_out = False,
     hi_evidence_required = None, hi_tool_failure = None\<rparr>"

theorem harness_passes_iff_witness:
  "\<exists>r. run_harness approved_config \<lparr>rt_retrieval = 0, rt_generation = 0\<rparr> filter_input = Inr r \<and>
     hr_decision r = PASS \<and> usable_chunk (hi_product filter_input) filter_chunk"
proof -
  have "\<not> isl (run_harness approved_config \<lparr>rt_retrieval = 0, rt_generation = 0\<rparr> filter_input)"
    by code_simp
  then obtain r where r: "run_harness approved_config \<lparr>rt_retrieval = 0, rt_generation = 0\<rparr> filter_input = Inr r"
    by (metis isl_def old.sum.exhaust)
  have p: "pc_runtime_approved (hi_product filter_input)"
    and m: "missing_functions (hi_product filter_input) (hi_required_functions filter_input) = []"
    and u: "usable_chunk (hi_product filter_input) filter_chunk"
    by code_simp+
  have "hr_decision r = PASS"
    using harness_passes_iff [OF r] p m u
    by (simp add: filter_input_def safety_agrees_def schema_is_valid_def usable_chunk_def)
  then show ?thesis using r u by blast
qed

text \<open>
  C15: Guidance that goes out automatically is grounded, from the request to the result: the product is
  approved, no risk was found, and every evidence reference names a chunk that the vector search returned
  in this run and that is verified, allowed and of the exact model.
\<close>

theorem auto_guidance_is_grounded:
  assumes "analyze w approved request = (Inr (r, AUTO_GUIDANCE), t)"
    and "resolve_product_context (cx_model_code request) [] approved = p"
  shows "pc_runtime_approved p \<and> sa_risk_level (an_safety_assessment r) = RISK_GENERAL \<and>
    ug_status (an_usage_guidance r) = GUIDE_NORMAL \<and> an_evidence_references r \<noteq> [] \<and>
    (\<forall>e \<in> set (an_evidence_references r).
      \<exists>c. found_by w (rs_searches t) c \<and> ch_chunk_id c = er_chunk_id e \<and> usable_chunk p c)"
proof -
  from assms(1) obtain rel s0 where rel: "to_analysis_result (rs_ctx t) rel = Inr (r, AUTO_GUIDANCE)"
      "run_reliability w p [] No_payload None s0 = (Inr rel, t)"
      "run_pipeline w p (new_run (request\<lparr>cx_model_code := pc_model_code p\<rparr>)) = (Inr rel, t)"
    by (rule analyze_Inr) (use assms(2) in auto)
  note auto = analysis_auto [OF rel(1)]
  from reliability_ends [OF rel(2)] obtain s payload st to req failure where h:
      "harness_on w p [] payload st to req failure s = (Inr (harness_of rel), s)"
      "blocked_or_same (hr_decision (harness_of rel)) s t"
    by (elim ends_runE) auto
  have "t = s" using h(2) auto by (simp add: blocked_or_same_def)
  have found: "capture_found w t"
  proof -
    have "capture_found w (new_run c)" for c by (simp add: capture_found_def new_run_def)
    then show ?thesis
      using sources.stays_at [OF sources.stays_run_pipeline, of w
        "new_run (request\<lparr>cx_model_code := pc_model_code p\<rparr>)" p] rel(3) by simp
  qed
  have "\<exists>c. found_by w (rs_searches t) c \<and> ch_chunk_id c = er_chunk_id e \<and> usable_chunk p c"
    if "e \<in> set (an_evidence_references r)" for e
    using harness_on_accepted [OF h(1), of "er_chunk_id e"] auto that found \<open>t = s\<close>
    unfolding capture_found_def by blast
  then show ?thesis using auto harness_on_pass [OF h(1)] by blast
qed

theorem auto_guidance_is_grounded_witness:
  "\<exists>r t. analyze quiet_world None (plain_request []) = (Inr (r, AUTO_GUIDANCE), t) \<and>
     (\<forall>e \<in> set (an_evidence_references r). \<exists>c. found_by quiet_world (rs_searches t) c \<and>
        ch_chunk_id c = er_chunk_id e)"
proof -
  have "case fst (analyze quiet_world None (plain_request [])) of
      Inl _ \<Rightarrow> False | Inr x \<Rightarrow> snd x = AUTO_GUIDANCE"
    by code_simp
  from result_pair [OF this] obtain r t where
    a: "analyze quiet_world None (plain_request []) = (Inr (r, AUTO_GUIDANCE), t)" by blast
  then show ?thesis using auto_guidance_is_grounded [OF a refl] by blast
qed

section \<open>The reliability runtime\<close>

text \<open>
  C16: Whatever the world answers, the reliability runtime searches at most twice and calls the provider at
  most four times, and a whole request searches at most four times and calls the provider at most six
  times.
\<close>

theorem ai_work_bounded:
  "rs_searches (snd (run_reliability w p fns payload failure s)) \<le> rs_searches s + 2 \<and>
   rs_provider_calls (snd (run_reliability w p fns payload failure s)) \<le> rs_provider_calls s + 4 \<and>
   rs_searches (snd (analyze w approved request)) \<le> 4 \<and>
   rs_provider_calls (snd (analyze w approved request)) \<le> 6"
proof -
  let ?p = "resolve_product_context (cx_model_code request) [] approved"
  let ?s = "new_run (request\<lparr>cx_model_code := pc_model_code ?p\<rparr>)"
  have "snd (analyze w approved request) = snd (run_pipeline w ?p ?s)"
    by (cases "run_pipeline w ?p ?s"; cases "fst (run_pipeline w ?p ?s)")
      (simp_all add: analyze_def Let_def and_then.simps)
  moreover have "within_budget 4 6 ?s (snd (run_pipeline w ?p ?s))"
    by (rule budget.stays_at [OF budget.stays_run_pipeline])
  moreover have "within_budget 2 4 s (snd (run_reliability w p fns payload failure s))"
    by (rule budget.stays_at [OF budget.stays_reliability])
  ultimately show ?thesis by (simp add: within_budget_def new_run_def)
qed

text \<open>
  C19: With a search at hand the runtime never ends on an open retry. A run that did not pass leaves the
  customer nothing but the blocking guidance; an escalation and every danger reach a consultant as a
  handoff, and a run for human review as a review or, without guidance to review, as a handoff.
\<close>

theorem unreliable_runs_are_blocked:
  assumes "run_reliability w p fns payload failure s = (Inr rel, t)" and "wd_has_search w"
    and "hr_decision (harness_of rel) = d"
  shows "d \<in> {PASS, HUMAN_REVIEW, ESCALATE} \<and>
    (d \<noteq> PASS \<longrightarrow> cx_usage_guidance (rs_ctx t) = Some (safe_blocking_guidance (rs_ctx t))) \<and>
    (d = ESCALATE \<longrightarrow> ru_handoff (rl_runtime rel) \<noteq> None) \<and>
    (d = HUMAN_REVIEW \<longrightarrow>
      ru_handoff (rl_runtime rel) \<noteq> None \<or> ru_human_review (rl_runtime rel) \<noteq> None) \<and>
    (is_danger (cx_safety_assessment (rs_ctx t)) \<and> d \<noteq> HUMAN_REVIEW \<longrightarrow>
      ru_handoff (rl_runtime rel) \<noteq> None)"
proof -
  from reliability_ends [OF assms(1)] obtain s' where h: "\<not> retries d" "blocked_or_same d s' t"
      "routed_well (rs_ctx s') d (rl_runtime rel)"
    by (elim ends_runE) (use assms(2,3) in auto)
  have d: "d \<in> {PASS, HUMAN_REVIEW, ESCALATE}" using h(1) by (cases d) (auto simp: retries_def)
  have "cx_safety_assessment (rs_ctx t) = cx_safety_assessment (rs_ctx s')"
    using h(2) by (auto simp: blocked_or_same_def split: if_splits)
  then show ?thesis using d h(2,3) by (auto simp: blocked_or_same_def routed_well_def)
qed

theorem unreliable_runs_are_blocked_witness:
  "\<exists>rel t. run_reliability quiet_world (resolve_product_context ''WPUIAC425SNW'' [] None) [] No_payload None
      (new_run (plain_request [])) = (Inr rel, t) \<and>
    hr_decision (harness_of rel) = ESCALATE \<and> ru_handoff (rl_runtime rel) \<noteq> None"
proof -
  let ?run = "run_reliability quiet_world (resolve_product_context ''WPUIAC425SNW'' [] None) [] No_payload
    None (new_run (plain_request []))"
  have "case fst ?run of Inl _ \<Rightarrow> False | Inr rel \<Rightarrow> hr_decision (harness_of rel) = ESCALATE"
    by code_simp
  then obtain rel t where r: "?run = (Inr rel, t)" "hr_decision (harness_of rel) = ESCALATE"
    by (cases ?run) (auto split: sum.splits)
  have "wd_has_search quiet_world" by (simp add: quiet_world_def)
  then show ?thesis using unreliable_runs_are_blocked [OF r(1) _ r(2)] r by blast
qed

section \<open>The backend\<close>

text \<open>
  C29: The routing policy of the AI service and the backend agree on every routed result. Routing twice is
  routing once; the closed disposition is exactly a fallback, asks for a consultation and, without a danger,
  leaves the guidance pending. The backend rejects no result without a danger (an unapproved product
  carries no evidence); a result it maps is ready as safe guidance exactly for \<open>AUTO_GUIDANCE\<close>, a detected
  danger of a successful run exactly for \<open>DANGER_HANDOFF\<close>, and shown to the customer without a decision
  of a consultant in exactly these two cases.
\<close>

theorem routing_and_backend_agree:
  assumes "apply_routing_policy r ids = (r', d)"
    and "an_fallback_reason_code r' = Some RUNTIME_PRODUCT_NOT_APPROVED \<Longrightarrow> an_evidence_references r' = []"
  shows "apply_routing_policy r' ids = (r', d) \<and>
    (d = FAIL_CLOSED_CONSULTATION \<longleftrightarrow> an_status r' = AI_FALLBACK) \<and>
    (d = FAIL_CLOSED_CONSULTATION \<longrightarrow> sa_requires_consultation (an_safety_assessment r') \<and>
      (sa_risk_level (an_safety_assessment r') \<noteq> RISK_DANGER \<longrightarrow>
        ug_status (an_usage_guidance r') = GUIDE_PENDING_CONSULTATION)) \<and>
    (sa_risk_level (an_safety_assessment r') \<noteq> RISK_DANGER \<longrightarrow> response_errors y r' = []) \<and>
    (\<forall>conforms x m. map_success_response conforms y x r' = Inr m \<longrightarrow>
      (mp_event_candidate m = Some SAFE_GUIDANCE_READY \<longleftrightarrow> d = AUTO_GUIDANCE) \<and>
      (d = DANGER_HANDOFF \<longleftrightarrow>
        an_status r' = AI_SUCCEEDED \<and> mp_event_candidate m = Some DANGER_DETECTED) \<and>
      (published_at_once m \<longleftrightarrow> d \<in> {AUTO_GUIDANCE, DANGER_HANDOFF}))"
proof (intro conjI allI impI)
  show "sa_risk_level (an_safety_assessment r') \<noteq> RISK_DANGER \<Longrightarrow> response_errors y r' = []"
    using routed_accepted [OF assms(1) _ assms(2)] by blast
  fix conforms x m assume m: "map_success_response conforms y x r' = Inr m"
  show "mp_event_candidate m = Some SAFE_GUIDANCE_READY \<longleftrightarrow> d = AUTO_GUIDANCE"
    "d = DANGER_HANDOFF \<longleftrightarrow> an_status r' = AI_SUCCEEDED \<and> mp_event_candidate m = Some DANGER_DETECTED"
    unfolding mapped_event [OF m] by (rule routed_event [OF assms(1)])+
  show "published_at_once m \<longleftrightarrow> d \<in> {AUTO_GUIDANCE, DANGER_HANDOFF}"
    by (rule routed_published [OF assms(1) m])
qed (use routing_idempotent [OF assms(1)] routed(1,2) [OF assms(1)] in simp_all)

definition grounded_result :: analysis_result where
  "grounded_result = \<lparr>an_inquiry_id = 1, an_correlation_id = 2, an_ai_request_id = ''req-1'',
     an_state_version = 1, an_model_code = ''WPUJAC104DWH'', an_status = AI_SUCCEEDED,
     an_fallback_reason_code = None, an_failure_stage = None, an_retry_count = 0,
     an_structured_symptom = plain_symptom, an_missing_fields = [], an_followup_questions = [],
     an_safety_assessment = \<lparr>sa_risk_level = RISK_GENERAL, sa_priority = GENERAL_GUIDANCE,
       sa_requires_consultation = False, sa_matched_safety_rule_ids = [], sa_detected_risks = [],
       sa_safety_reason = [65]\<rparr>,
     an_usage_guidance = usage_guidance_init GUIDE_NORMAL [70, 105] [] [na_keep_filter],
     an_evidence_references = [evidence_of_chunk filter_chunk]\<rparr>"

theorem routing_and_backend_agree_witness:
  "\<exists>m. map_success_response (\<lambda>_. True) canonical_registry
      \<lparr>xr_inquiry_id = 1, xr_correlation_id = 2, xr_ai_request_id = ''req-1'', xr_state_version = 1,
       xr_model_code = ''WPUJAC104DWH''\<rparr> grounded_result = Inr m \<and>
    mp_event_candidate m = Some SAFE_GUIDANCE_READY \<and> published_at_once m"
proof -
  let ?x = "\<lparr>xr_inquiry_id = 1, xr_correlation_id = 2, xr_ai_request_id = ''req-1'', xr_state_version = 1,
    xr_model_code = ''WPUJAC104DWH''\<rparr>"
  have r: "apply_routing_policy grounded_result (Some [''chunk-1'']) = (grounded_result, AUTO_GUIDANCE)"
    by code_simp
  have "an_fallback_reason_code grounded_result = None" by (simp add: grounded_result_def)
  then have agree: "sa_risk_level (an_safety_assessment grounded_result) \<noteq> RISK_DANGER \<longrightarrow>
      response_errors canonical_registry grounded_result = []"
    "\<forall>m. map_success_response (\<lambda>_. True) canonical_registry ?x grounded_result = Inr m \<longrightarrow>
      mp_event_candidate m = Some SAFE_GUIDANCE_READY \<and> published_at_once m"
    using routing_and_backend_agree [OF r, where y = canonical_registry] by simp_all
  have "echoes ?x grounded_result" by (simp add: echoes_def grounded_result_def)
  moreover have "response_errors canonical_registry grounded_result = []"
    using agree(1) by (simp add: grounded_result_def)
  ultimately obtain m where "map_success_response (\<lambda>_. True) canonical_registry ?x grounded_result = Inr m"
    by (simp add: map_success_response_def)
  then show ?thesis using agree(2) by blast
qed

end
