(* ===== verification/Spec2Isabelle.thy ===== *)
theory Spec2Isabelle
  imports Scenario BackendProperties ReviewProperties ValidatorProperties AuthProperties AiProperties
begin

text \<open>
  The WaterBridge backend (\<open>src/backend\<close>, with the approved contracts of \<open>src/contracts\<close>) and the
  decisions of its AI service (\<open>src/ai/app\<close>). The core of the backend is
  the workflow of inquiries: an inquiry moves through a contract-defined state machine; every operation
  on it is one database transaction that checks guards, claims an idempotency key, changes the inquiry,
  appends an audit row and stores its response for retries. Around it stand the validation of the
  contracts, and customer authentication with the administration of accounts. The AI service answers the
  symptom of an inquiry with a safety assessment and guidance, which the backend checks and maps to an
  event of the workflow.

  Engine and contracts.

  \<^item> \<open>Prelude\<close>: results (\<open>error + value\<close>, \<open>rbind\<close>), Python strings and dict lookup, descending sort
    keys, reachability and runs of a step relation, the locale \<open>inductive_invariant\<close>.
  \<^item> \<open>StateEngine\<close>: \<open>workflow/domain/workflow_snapshot.py\<close>, \<open>workflow/domain/transition.py\<close> and
    \<open>StateMachine\<close> of \<open>workflow/engine/state_machine.py\<close>. A contract is the record of the parsed YAML
    documents; \<open>resolve\<close> returns a planned \<open>transition\<close> or an \<open>sm_error\<close>, one constructor per
    \<open>InvalidStateTransition\<close> reason, \<open>Missing_key\<close> for a \<open>KeyError\<close>.
  \<^item> \<open>GuardEngine\<close>: \<open>GuardEvaluator\<close> of \<open>workflow/engine/guard_evaluator.py\<close>.
  \<^item> \<open>ContractData\<close>, \<open>ContractTables\<close>: the documents \<open>contracts/state-machine/inquiry-states.yaml\<close>,
    \<open>inquiry-events.yaml\<close>, \<open>transition-rules.yaml\<close>, \<open>transition-guards.yaml\<close> as the value
    \<open>waterbridge\<close>, and its reads as rewrite rules.
  \<^item> \<open>ContractFacts\<close>: executable checks on a contract (\<open>conflict_free\<close>, \<open>well_formed\<close>) and what they
    imply for the engine; \<open>Lifecycle\<close>: the state space of the approved contract.
  \<^item> \<open>ActionResolver\<close>, \<open>ActionContext\<close>, \<open>ActionData\<close>, \<open>ActionFacts\<close>:
    \<open>workflow/engine/allowed_action_resolver.py\<close> with \<open>contracts/state-machine/allowed-actions.yaml\<close>
    and \<open>contracts/api/action-operation-crosswalk.yaml\<close>: which actions a client may offer.
  \<^item> \<open>ContractValidator\<close>: \<open>workflow/contracts/contract_validator.py\<close> over arbitrary YAML values;
    \<open>ValidatorFacts\<close>, \<open>ValidatorProperties\<close>: how the engines read accepted documents, and what
    acceptance guarantees.

  Services of an inquiry.

  \<^item> \<open>Canonical\<close>: \<open>IdempotencyService.canonical_request_hash\<close> with JSON, UTF-8 and SHA-256 spelled out.
  \<^item> \<open>Store\<close>: the rows and constraints of \<open>workflow/models\<close>, \<open>inquiries/models/inquiry.py\<close>,
    \<open>consultations/models/consultation.py\<close>, \<open>visits/models/visit.py\<close>, and the repository functions on
    them (\<open>WorkflowRepository\<close>, \<open>TransitionHistoryService\<close>, \<open>InquiryRepository\<close>).
  \<^item> \<open>AssignedAction\<close>: \<open>AssignedConsultantActionService.execute\<close>; \<open>Consultations\<close> and \<open>Visits\<close>: the
    repositories and the nine operations of \<open>ConsultationService\<close> and \<open>VisitService\<close> that run
    through it, gathered in \<open>operation\<close> and \<open>perform\<close>.
  \<^item> \<open>Flow\<close>: what the other services share; \<open>CustomerFlow\<close>: \<open>InquiryService\<close>, \<open>FollowupAnswerService\<close>
    and the questionnaire link; \<open>ConsultationQueue\<close>: request, claim and phone registration;
    \<open>Resolution\<close>: \<open>ResolutionService\<close>.
  \<^item> \<open>ReviewData\<close>, \<open>HumanReview\<close>: guidance, its evidence and its review
    (\<open>inquiries/models/human_review.py\<close>, \<open>HumanReviewService\<close>, \<open>HumanReviewRepository\<close> and the outbox
    row of \<open>HumanReviewResumeDispatchService\<close>); \<open>ReviewFacts\<close>, \<open>ReviewSafety\<close>,
    \<open>ReviewProperties\<close>: a decision as a recorded move, what it may waive, that it is taken once.
  \<^item> \<open>Ledger\<close>, \<open>Tally\<close>, \<open>Contracts\<close>: what an operation owes the database, as the locales
    \<open>ledger_operation\<close>, \<open>tallied_operation\<close> and \<open>keyed_operation\<close>, a stronger contract giving a
    weaker one; \<open>AssignedFacts\<close>, \<open>OperationFacts\<close>, \<open>FlowFacts\<close>, \<open>ServiceFacts\<close>, \<open>ServiceCases\<close>,
    \<open>Retries\<close>, \<open>ServiceSafety\<close>: every service satisfies its contract.
  \<^item> \<open>Sessions\<close>, \<open>Backend\<close>: sequences of calls of the services; \<open>BackendProperties\<close>: what holds over
    them; \<open>Scenario\<close>, \<open>BackendScenario\<close>, \<open>CloseScenario\<close>: concrete inquiries on which hypotheses are
    shown to hold.

  Authentication (\<open>accounts\<close>).

  \<^item> \<open>AuthStore\<close>: rows, digests (HMAC-SHA256 spelled out), the code cipher and the audit event;
    \<open>AuthTokens\<close>: \<open>AuthenticationService\<close> and \<open>common/authentication\<close>; \<open>AuthChallenge\<close>: one-time codes of
    \<open>P1AuthService\<close>, current targets, and the outbox with its worker; \<open>AuthCredentials\<close>: signup, login
    and password reset; \<open>AccountLifecycle\<close>: \<open>AccountLifecycleService\<close> with its policies.
  \<^item> \<open>AuthEvolution\<close>: the relation in which every table only moves forward (locale \<open>evolution\<close>);
    \<open>AuthSystem\<close>: every operation respects it; \<open>AuthRuns\<close>, \<open>AuthSafety\<close>, \<open>AuthOutbox\<close>, \<open>AuthFacts\<close>:
    sequences of requests and their invariants; \<open>AuthProperties\<close>: the properties.

  The AI service.

  \<^item> \<open>AiSchema\<close>: the data of \<open>schemas\<close>; \<open>AiConfig\<close>: \<open>configs/safety_rules.yaml\<close>, the prohibited
    expressions and the backend's registry of safety rules, as values; \<open>AiSafety\<close>: the classifier, the
    precedence of rules, usage guidance and the guards of its wording (\<open>app/safety\<close>, \<open>app/validation\<close>).
  \<^item> \<open>AiHarness\<close>: product matching, the verifier, the retry policy and the runner; \<open>AiContext\<close>: the
    pipeline context, questions, handoff and review; \<open>AiPipeline\<close>: the stages of \<open>SingleRagPipeline\<close> with
    their deadlines, retries and error classes; \<open>AiRuntime\<close>: \<open>ReliabilityRuntime\<close>, the public result and
    the routing policy. A stage is a \<open>run_step\<close>, a function from the run's state to an error or a value and
    the new state; \<open>ai_world\<close> gathers what the run asks of the outside.
  \<^item> \<open>AiBackend\<close>: what the backend makes of a response (\<open>safety_rule_registry.py\<close>,
    \<open>response_mapper.py\<close>, \<open>guidance_review_policy.py\<close>).
  \<^item> \<open>AiSafetyFacts\<close>, \<open>AiHarnessFacts\<close>, \<open>AiBackendFacts\<close>: each part on every branch; \<open>AiRunFacts\<close>: the
    locales \<open>run_frame\<close> and \<open>whole_run_frame\<close>, a relation every step respects, interpreted in \<open>AiOutcome\<close>
    for the budget of calls, the sources of evidence and the fields that stay; \<open>AiMapping\<close>: routed results
    at the backend; \<open>AiLiveness\<close>: the run of a danger; \<open>AiProperties\<close>: the properties.

  What the properties show. Under the approved contract the engine never fails for an internal reason
  (C7), is deterministic (C8), and has exactly the life cycle of C9; an inquiry can always be
  ended (C10) except in one reachable configuration (C11). Guards decide exactly what they should,
  without exception (C14). Offered actions can be executed (C18). Operations keep the audit trail
  whole (C1), take effect at most once per key (C2), and replay retries (C3). Over
  all services, the human review among them, versions are accounted for (C22, C25), keys take effect once (C23), retries replay
  (C24), effects carry the current version (C26), customers are isolated (C27), a claim has one winner
  (C28), a cancellation stops all work (C30) and a questionnaire is
  linked once (C31). A human review waives a required consultation only where it is entitled to
  (C12, C21) and is decided once (C17). Validated documents are sound for the engines up to gaps that are stated (C32 to
  C34). One-time codes admit a bounded number of guesses (C35) and make the round trip through the
  outbox (C38), whose worker ends (C39); sessions end for good (C36); administrators remain (C37); an
  account with an unlucky permission cannot be administered (C40). The AI service finds every danger the
  rules name (C4) and takes it to a consultant (C5), unless an answer is too long for the handoff (C20);
  which dangers the backend then accepts is exact (C6). The harness passes exactly what it should (C13),
  automatic guidance is grounded (C15), the work is bounded (C16), unreliable runs are blocked and handed
  over (C19), and the backend agrees with the routing (C29). The other theorems of the root theory and of
  \<open>BackendProperties\<close> complete these: guards in security order, refused operations rolled back, reused
  keys and stale versions refused, canonical request hashes, reservations respected.

  Conventions. A Python \<open>str\<close> is a HOL string, so code points stop at 255; Korean literals are
  represented by ASCII keys (a message key, a guard's or action's code), which the code only copies.
  Contract documents are typed outside \<open>ContractValidator\<close>: the loader validates them before use.
  \<open>'a option\<close> is a key read with \<open>.get\<close>; \<open>'a option option\<close> tells an absent key from a null one where
  the code does. Timestamps are microseconds UTC, dates day numbers; the time zone of \<open>make_aware\<close> is
  the configured Asia/Seoul. Primary keys and UUIDs come from counters of the database. A row embeds the
  rows it joins that no operation changes, and keeps the columns the modelled code reads or writes;
  column widths are not modelled. Database constraints are the \<open>Integrity\<close> error.
  \<open>transaction.atomic\<close> is all or nothing, and \<open>select_for_update\<close> serialises operations on one inquiry
  or account; what may still happen concurrently in the workflow is that another transaction commits an
  idempotency record, the argument \<open>races\<close>. A verified JSON web token is its claims. Every modelled
  loop is structural or bounded by an argument of the code; there is no fuel. The rounds of the
  reliability runtime, which the code counts up to three, and the attempts of a search or a provider call,
  one and one retry, are counted down as the code's own bounds. In the AI service a text is the list of its
  code points, as the rules compare Korean text.

  Environment and hypotheses. The record \<open>auth_env\<close> holds the settings and the functions of libraries
  that are not part of the repository: Unicode normalisation, case mapping, e-mail syntax, password
  hashes, Fernet, UUID syntax. Properties assume of them at most that Fernet decrypts what it encrypted
  (\<open>fernet_laws\<close>) and that a freshly made password hash is usable (\<open>hashes_usable\<close>). Random values are
  arguments (\<open>draw\<close>, \<open>salt\<close>, tickets). The record \<open>ai_world\<close> holds what a run of the AI service asks:
  the structuring of a symptom and the questions about it, the vector search, the provider, Unicode
  normalisation, the clock with cancellations and deadlines at every checkpoint; \<open>text_checks\<close> holds its
  regular expressions. Properties hold for every such world, C5 for one that is neither cancelled nor timed
  out (\<open>undisturbed\<close>) and whose wording check admits the danger message.

  Not modelled: the YAML reader, the HTTP layer, \<open>on_commit\<close> calls of the AI service and the storing of
  its results, the sending of resumptions, supervisor consultations, subscriptions, care and evidence, search and
  list projections, seeds and migrations, front ends; of the AI service, the structuring of symptoms, the vector
  store, language model clients, agents, tracing, the resumption of reviews and the HTTP interface; of authentication, the admin
  site, management commands and the cleaning of the development mail directory.
  \<open>latest_visit_status\<close> orders by creation time alone while \<open>lock_latest\<close> also orders by id; both are
  modelled as they are.
\<close>

section \<open>Requests and the ledger\<close>

text \<open>
  C1: Whatever sequence of consultation and visit operations the services serve, in whatever order
  and with whatever idempotency records other transactions commit meanwhile, the audit trail of
  every inquiry stays gapless (versions 1, 2, 3, ...), chained (each row starts in the state the
  previous one ended in), in step with the inquiry's state and version, and made of transitions the
  contract lists; idempotency scopes stay unique.
\<close>

theorem sessions_keep_ledger:
  assumes "run (served dc) d ls d'" and "ledger_ok d" and "lawful (dc_contract dc) d"
  shows "ledger_ok d' \<and> lawful (dc_contract dc) d'"
  using sessions.on_run [OF assms(1)] assms(2,3) by (simp add: ledger_lawful_def)

theorem sessions_keep_ledger_witness:
  "\<exists>l d'. run (served approved) office [l] d' \<and> cl_effect l \<and> cl_operation l = Start None \<and>
     ledger_ok d' \<and> lawful waterbridge d' \<and> db_history d' \<noteq> db_history office"
proof -
  obtain kvs d' where p: "perform approved [] (Start None) start_call office = (Inr (200, PDict kvs), d')"
    "db_history d' \<noteq> db_history office"
    using start_performed by blast
  let ?l = "\<lparr>cl_races = [], cl_operation = Start None, cl_request = start_call, cl_effect = True\<rparr>"
  have "served approved office ?l d'"
    unfolding served_iff using p ledger_office(3) by auto
  then have r: "run (served approved) office [?l] d'" by (blast intro: run_cons run_nil)
  have "ledger_ok d' \<and> lawful waterbridge d'"
    using sessions_keep_ledger [OF r ledger_office(1)] ledger_office(2) by simp
  then show ?thesis using r p(2) by (intro exI [of _ ?l] exI [of _ d']) simp
qed

text \<open>
  C2: In every sequence of requests, an idempotency scope (actor, operation, key) takes effect at most
  once: at most one call with that scope writes history, whatever the calls in between do.
\<close>

theorem key_takes_effect_once:
  assumes "run (served dc) d ls d'"
  shows "length (filter (\<lambda>l. cl_effect l \<and> call_scope l = k) ls) \<le> 1"
  using assms by (rule one_effect)

theorem key_takes_effect_once_witness:
  "\<exists>l d'. run (served approved) office [l] d' \<and>
     length (filter (\<lambda>l. cl_effect l \<and> call_scope l = (7, ''startConsultation'', ''k1'')) [l]) = 1"
proof -
  obtain kvs d' where p: "perform approved [] (Start None) start_call office = (Inr (200, PDict kvs), d')"
    "db_history d' \<noteq> db_history office"
    using start_performed by blast
  let ?l = "\<lparr>cl_races = [], cl_operation = Start None, cl_request = start_call, cl_effect = True\<rparr>"
  have "served approved office ?l d'"
    unfolding served_iff using p ledger_office(3) by auto
  then have r: "run (served approved) office [?l] d'" by (blast intro: run_cons run_nil)
  have "call_scope ?l = (7, ''startConsultation'', ''k1'')"
    by (simp add: call_scope_def operation_scope_def request_scope_def start_call_def lee_def)
  then show ?thesis
    using r key_takes_effect_once [OF r, of "(7, ''startConsultation'', ''k1'')"]
    by (intro exI [of _ ?l] exI [of _ d']) simp
qed



text \<open>
  A key already used for another body is refused with \<open>DUPLICATE-EVENT-01\<close> (409), and nothing but
  the other transactions' records is added.
\<close>

theorem reused_key_refused:
  assumes "target_of op rq d = Some n"
    and "lock_assigned_inquiry n (execution_actor (spec_of op (resolved_request op rq d)) rq) d = Some i"
    and "lock_idempotency_scope (operation_scope op rq) d = Some r"
    and "ir_request_hash r \<noteq> operation_hash op rq d"
  shows "perform dc races op rq d =
    (Inl (Business DUPLICATE_EVENT ''msg.key_reused'' (PDict []) 409), add_races races d)"
  using assms by (rule perform_key_reuse)

theorem reused_key_refused_witness:
  "perform approved [] (Start None) start_call
     (office\<lparr>db_idem := [\<lparr>ir_actor_id = 7, ir_operation_id = ''startConsultation'',
        ir_idempotency_key = ''k1'', ir_request_hash = [], ir_response_status = Some 200,
        ir_response_body = PDict [], ir_resource_public_id = None, ir_completed_at = Some 3\<rparr>]\<rparr>) =
   (Inl (Business DUPLICATE_EVENT ''msg.key_reused'' (PDict []) 409),
    office\<lparr>db_idem := [\<lparr>ir_actor_id = 7, ir_operation_id = ''startConsultation'',
        ir_idempotency_key = ''k1'', ir_request_hash = [], ir_response_status = Some 200,
        ir_response_body = PDict [], ir_resource_public_id = None, ir_completed_at = Some 3\<rparr>]\<rparr>)"
  (is "perform _ _ _ _ ?d = _")
proof -
  let ?r = "\<lparr>ir_actor_id = 7, ir_operation_id = ''startConsultation'',
        ir_idempotency_key = ''k1'', ir_request_hash = [], ir_response_status = Some 200,
        ir_response_body = PDict [], ir_resource_public_id = None, ir_completed_at = Some 3\<rparr> :: idem_row"
  have t: "target_of (Start None) start_call ?d = Some 501"
    by (simp add: target_of_def visit_named_def start_call_def)
  have l: "lock_assigned_inquiry 501
      (execution_actor (spec_of (Start None) (resolved_request (Start None) start_call ?d)) start_call) ?d = Some leak"
    by (simp add: execution_actor_def spec_of_def start_spec_def consultation_spec_def
        lock_assigned_inquiry_def office_defs)
  have k: "lock_idempotency_scope (operation_scope (Start None) start_call) ?d = Some ?r"
    by (simp add: lock_idempotency_scope_def idem_scope_def operation_scope_def request_scope_def start_call_def lee_def)
  have "length (operation_hash (Start None) start_call ?d) = 64"
    by (simp add: operation_hash_def request_hash_def Let_def length_request_hash)
  then have h: "ir_request_hash ?r \<noteq> operation_hash (Start None) start_call ?d" by auto
  show ?thesis using reused_key_refused [OF t l k h, of approved "[]"] by simp
qed

text \<open>
  The optimistic lock. A request for an event that requires a state version takes effect only when
  the version it carries is the version of the inquiry it names.
\<close>

theorem fresh_effect_needs_version:
  assumes "perform dc races op rq d = (Inr out, d')"
    and "\<not> replayed (operation_scope op rq) (operation_hash op rq d) races d out d'"
    and "event_entry_of (dc_contract dc) (operation_event op) = Some e" and "ev_requires_version e"
  shows "\<exists>i n. target_of op rq d = Some n \<and> i \<in> set (db_inquiries d) \<and> i_public_id i = n \<and>
    map_of (rq_data rq) ''state_version'' = Some (PInt (i_state_version i))"
  using assms by (rule perform_fresh_version)

theorem fresh_effect_needs_version_witness:
  "\<exists>out d'. perform approved [] (Start None) start_call office = (Inr out, d') \<and>
     (\<exists>i. target_of (Start None) start_call office = Some (i_public_id i) \<and> i \<in> set (db_inquiries office) \<and>
        map_of (rq_data start_call) ''state_version'' = Some (PInt (i_state_version i)))"
proof -
  obtain kvs d' where p: "perform approved [] (Start None) start_call office = (Inr (200, PDict kvs), d')"
    "\<not> replayed (operation_scope (Start None) start_call) (operation_hash (Start None) start_call office)
       [] office (200, PDict kvs) d'"
    using start_performed by blast
  have e: "event_entry_of (dc_contract approved) (operation_event (Start None)) =
      Some (event_row ''START_CONSULTATION'' ''STAFF_COMMAND'' [''CONSULTANT''] True True)"
    by (simp add: contract_simps)
  from fresh_effect_needs_version [OF p e] p(1) show ?thesis by (auto simp: contract_simps)
qed

text \<open>
  A refused operation is rolled back: whatever error it raises, the inquiries, visits,
  consultations, history and idempotency records are those of before, with the records other
  transactions committed.
\<close>

theorem refused_rolls_back:
  assumes "perform dc races op rq d = (Inl e, d')"
  shows "d' = add_races races d"
  using assms by (rule perform_failure)

theorem refused_rolls_back_witness:
  "perform approved [] (Start None) (start_call\<lparr>rq_target := 502\<rparr>) office = (Inl Not_found, office)"
proof -
  let ?rq = "start_call\<lparr>rq_target := 502\<rparr>"
  have "lock_assigned_inquiry 502 (execution_actor (start_spec ?rq None) ?rq) office = None"
    by (simp add: lock_assigned_inquiry_def office_defs)
  then have "fst (perform approved [] (Start None) ?rq office) = Inl Not_found"
    by (simp add: perform_def visit_named_def spec_of_def execute_def atomically_def execute_body_def Let_def)
  then show ?thesis
    using refused_rolls_back [of approved "[]" "Start None" ?rq office Not_found]
    by (cases "perform approved [] (Start None) ?rq office") simp
qed

section \<open>The state machine\<close>

text \<open>
  C7: In a well-formed contract, for every snapshot the domain class can construct and every event,
  \<open>StateMachine.resolve\<close> either plans a transition or refuses it for one of five business reasons;
  it is never ambiguous, never meets an unknown mode or version action, never raises \<open>KeyError\<close>.
\<close>

theorem resolve_only_business_errors:
  assumes "well_formed c" and "snapshot_init st v vis = Inr s" and "resolve c s ev = Inl e"
  shows "e \<in> Invalid ` {UNKNOWN_EVENT, TERMINAL_STATE, VISIT_STATE_MISMATCH, UNLISTED_TRANSITION,
    VISIT_STATUS_NOT_ALLOWED}"
  using well_formed_resolve_Inl [OF assms(1) snapshot_init_ok [OF assms(2)] assms(3)]
  by (simp add: business_reasons_def)

theorem resolve_only_business_errors_witness:
  "\<exists>s. snapshot_init (Some ''RESOLVED'') (Some 7) None = Inr s \<and>
     resolve waterbridge s ''CANCEL_INQUIRY'' = Inl (Invalid TERMINAL_STATE) \<and>
     Invalid TERMINAL_STATE \<in> Invalid ` {UNKNOWN_EVENT, TERMINAL_STATE, VISIT_STATE_MISMATCH,
       UNLISTED_TRANSITION, VISIT_STATUS_NOT_ALLOWED}"
proof -
  let ?s = "\<lparr>s_state = Some ''RESOLVED'', s_version = Some 7, s_visit = None\<rparr>"
  have i: "snapshot_init (Some ''RESOLVED'') (Some 7) None = Inr ?s"
    by (simp add: snapshot_init_def has_text_iff is_space_def)
  have r: "resolve waterbridge ?s ''CANCEL_INQUIRY'' = Inl (Invalid TERMINAL_STATE)"
    by (simp add: resolve_def sm_event_entry contract_simps)
  show ?thesis using i r resolve_only_business_errors [OF wf_waterbridge i r] by blast
qed

text \<open>
  C8: \<open>conflict_free\<close> is exactly determinism: a contract passes the check if and only if no snapshot
  and event make \<open>resolve\<close> find two rules (\<open>AMBIGUOUS_TRANSITION\<close>).
\<close>

theorem conflict_free_iff_unambiguous:
  "conflict_free (c_rules c) \<longleftrightarrow>
     (\<forall>s ev. select_rule c s ev \<noteq> Inl (Invalid AMBIGUOUS_TRANSITION))"
proof -
  have "select_rule c s ev \<noteq> Inl (Invalid AMBIGUOUS_TRANSITION) \<longleftrightarrow> length (candidates c s ev) \<le> 1" for s ev
    by (auto simp: select_rule_def split: list.splits)
  then show ?thesis by (simp add: conflict_free_candidates)
qed

text \<open>
  C9: The life cycle of an inquiry, exactly: under the approved contract a state and visit status are
  reached by some sequence of events if and only if the table \<open>lifecycle\<close> lists them (or no inquiry
  exists yet).
\<close>

theorem lifecycle_exact:
  "(\<exists>s. inquiry_reach s \<and> s_state s = st \<and> s_visit s = vis) \<longleftrightarrow>
     (st, vis) \<in> {(None, None)} \<union> {(Some x, w) | x w. \<exists>ws. (x, ws) \<in> set lifecycle \<and> w \<in> set ws}"
proof -
  have "w \<in> set (lifecycle_visits (Some x)) \<longleftrightarrow> (\<exists>ws. (x, ws) \<in> set lifecycle \<and> w \<in> set ws)" for x w
    by (auto simp: lifecycle_def lifecycle_simps elim!: lifecycle_visits_cases)
  then have "vis \<in> set (lifecycle_visits st) \<longleftrightarrow>
      (st, vis) \<in> {(None, None)} \<union> {(Some x, w) | x w. \<exists>ws. (x, ws) \<in> set lifecycle \<and> w \<in> set ws}"
    by (cases st) (auto simp: lifecycle_simps)
  then show ?thesis using reached_iff by (simp add: reached_def)
qed

text \<open>
  C10: From every reachable inquiry some sequence of at most five events ends it (\<open>RESOLVED\<close> or
  \<open>CANCELLED\<close>), with one exception: a reopened inquiry whose visit is completed.
\<close>

theorem inquiry_can_end:
  assumes "inquiry_reach s" and "s_state s = Some st"
    and "(st, s_visit s) \<noteq> (''REOPENED'', Some ''COMPLETED'')"
  shows "\<exists>ls t. run (plan_step waterbridge) s ls t \<and> length ls \<le> 5 \<and>
    s_state t \<in> {Some ''RESOLVED'', Some ''CANCELLED''}"
proof -
  have ok: "snapshot_ok s" "s_visit s \<in> set (lifecycle_visits (Some st))"
    using reach_ok [OF assms(1)] assms(2) by (simp_all add: in_lifecycle_def)
  have "ends_within 5 st (s_visit s)" using ok(2) assms(3) by (rule reached_ends)
  then show ?thesis using ok(1) assms(2) by (auto simp: ends_within_def)
qed

theorem inquiry_can_end_witness:
  "\<exists>s ls t. inquiry_reach s \<and> s_state s = Some ''VISIT_SCHEDULING'' \<and> s_visit s = Some ''ASSIGNING'' \<and>
     run (plan_step waterbridge) s ls t \<and> length ls \<le> 5 \<and>
     s_state t \<in> {Some ''RESOLVED'', Some ''CANCELLED''}"
proof -
  obtain s where s: "inquiry_reach s" "s_state s = Some ''VISIT_SCHEDULING''" "s_visit s = Some ''ASSIGNING''"
    using reached_visit(1) by (auto simp: reached_def)
  then show ?thesis using inquiry_can_end [OF s(1,2)] by auto
qed

text \<open>
  C11: The exception is a dead end, and it is reachable: the customer reports the problem unresolved
  after a completed visit, and from then on the engine refuses every event, \<open>RESUME_CONSULTATION\<close>
  with \<open>VISIT_STATUS_NOT_ALLOWED\<close>: the inquiry can be neither resumed nor ended.
\<close>

theorem reopened_after_visit_is_stuck:
  "(\<exists>s. inquiry_reach s \<and> s_state s = Some ''REOPENED'' \<and> s_visit s = Some ''COMPLETED'') \<and>
   (\<forall>v ev. \<exists>e. resolve waterbridge
      \<lparr>s_state = Some ''REOPENED'', s_version = Some (1 + int v), s_visit = Some ''COMPLETED''\<rparr> ev =
      Inl (Invalid e)) \<and>
   (\<forall>v. resolve waterbridge
      \<lparr>s_state = Some ''REOPENED'', s_version = Some (1 + int v), s_visit = Some ''COMPLETED''\<rparr>
      ''RESUME_CONSULTATION'' = Inl (Invalid VISIT_STATUS_NOT_ALLOWED))"
proof (intro conjI allI)
  show "\<exists>s. inquiry_reach s \<and> s_state s = Some ''REOPENED'' \<and> s_visit s = Some ''COMPLETED''"
    using reached_visit(7) by (simp add: reached_def)
next
  fix v ev
  show "\<exists>e. resolve waterbridge
      \<lparr>s_state = Some ''REOPENED'', s_version = Some (1 + int v), s_visit = Some ''COMPLETED''\<rparr> ev =
      Inl (Invalid e)"
    using firings_Nil_blocked [of "\<lparr>s_state = Some ''REOPENED'', s_version = Some (1 + int v), s_visit = Some ''COMPLETED''\<rparr>" ev]
    by (auto simp: firings_waterbridge snapshot_ok_def)
next
  fix v
  show "resolve waterbridge
      \<lparr>s_state = Some ''REOPENED'', s_version = Some (1 + int v), s_visit = Some ''COMPLETED''\<rparr>
      ''RESUME_CONSULTATION'' = Inl (Invalid VISIT_STATUS_NOT_ALLOWED)"
    by (simp add: resolve_def sm_event_entry select_rule_def candidates_def state_candidates_def
        waterbridge_rules_def visit_matches_def next_version_def version_action_of_def
        next_visit_status_def ensure_visit_allowed_def visit_shapes contract_simps)
qed

text \<open>
  An inquiry's version counts its events: after any sequence of planned transitions that starts
  with no inquiry, the version is the number of events.
\<close>

theorem version_counts_events:
  assumes "run (plan_step c) s ls t" and "no_inquiry s" and "ls \<noteq> []"
  shows "s_version t = Some (int (length ls))"
  using run_version [OF assms(1,3)] assms(2) by (simp add: no_inquiry_def)

theorem version_counts_events_witness:
  "\<exists>t. run (plan_step waterbridge) \<lparr>s_state = None, s_version = None, s_visit = None\<rparr>
     [''START_INQUIRY'', ''SUBMIT_SYMPTOM''] t \<and> s_version t = Some 2"
proof -
  have step: "plan_step waterbridge s ev
      \<lparr>s_state = Some st', s_version = Some (version_next (s_version s)), s_visit = vis'\<rparr>"
    if "(ev, st', vis') \<in> set (firings waterbridge (s_state s) (s_visit s))" "snapshot_ok s" for s ev st' vis'
    using that plan_step_firings [OF wf_waterbridge] by blast
  let ?s = "\<lparr>s_state = None, s_version = None, s_visit = None\<rparr>"
  let ?t = "\<lparr>s_state = Some ''DRAFT'', s_version = Some (version_next (s_version ?s)), s_visit = None\<rparr>"
  have 1: "plan_step waterbridge ?s ''START_INQUIRY'' ?t"
    by (rule step) (simp_all add: firings_waterbridge snapshot_ok_def)
  have 2: "plan_step waterbridge ?t ''SUBMIT_SYMPTOM''
      \<lparr>s_state = Some ''QUESTIONNAIRE_IN_PROGRESS'', s_version = Some (version_next (s_version ?t)), s_visit = None\<rparr>"
    by (rule step) (simp_all add: firings_waterbridge snapshot_ok_def version_next_def)
  from 1 2 have r: "run (plan_step waterbridge) ?s [''START_INQUIRY'', ''SUBMIT_SYMPTOM'']
      \<lparr>s_state = Some ''QUESTIONNAIRE_IN_PROGRESS'', s_version = Some (version_next (s_version ?t)), s_visit = None\<rparr>"
    by (blast intro: run_cons run_nil)
  have "s_version (\<lparr>s_state = Some ''QUESTIONNAIRE_IN_PROGRESS'',
      s_version = Some (version_next (s_version ?t)), s_visit = None\<rparr> :: snapshot) =
      Some (int (length [''START_INQUIRY'', ''SUBMIT_SYMPTOM'']))"
    by (rule version_counts_events [OF r]) (simp_all add: no_inquiry_def)
  then show ?thesis using r by auto
qed

section \<open>Guards\<close>

text \<open>
  Whatever transition the approved contract plans, its guards can be evaluated in every context
  (no \<open>KeyError\<close>), and a denial answers with one of 401, 403, 404, 409, 422, never with a 500.
\<close>

theorem denials_are_client_errors:
  assumes "resolve waterbridge s ev = Inr t"
  shows "\<exists>r. evaluate waterbridge t s' x = Inr r \<and>
    (allowed r \<or> (\<exists>f. failure r = Some f \<and> f_http_status f \<in> {401, 403, 404, 409, 422}))"
proof -
  obtain r where r: "evaluate waterbridge t s' x = Inr r"
    using evaluate_total [OF wf_waterbridge assms] by blast
  then show ?thesis
    using evaluate_denial_status [OF wf_waterbridge assms r] denial_statuses_waterbridge by auto
qed

theorem denials_are_client_errors_witness:
  "resolve waterbridge leak_snapshot ''START_CONSULTATION'' = Inr start_plan \<and>
   (\<exists>r. evaluate waterbridge start_plan leak_snapshot start_context = Inr r \<and>
      (allowed r \<or> (\<exists>f. failure r = Some f \<and> f_http_status f \<in> {401, 403, 404, 409, 422})))"
  using denials_are_client_errors [OF start_resolves] start_resolves by blast

text \<open>
  C14: An evaluation allows the transition exactly when the event is registered and every check
  passes: no mandatory guard is missing, the actor is authenticated and has a role of the event (a
  system actor is trusted), the correlation id and idempotency key are valid, and every guard holds.
\<close>

theorem allowed_iff_all_checks:
  assumes "evaluate c t s x = Inr r"
  shows "allowed r \<longleftrightarrow> (\<exists>e. event_entry_of c (t_event t) = Some e \<and> all_checks c e t s x)"
  using assms by (rule evaluate_allowed_iff)

theorem allowed_iff_all_checks_witness:
  "\<exists>r. evaluate waterbridge start_plan leak_snapshot start_context = Inr r \<and> allowed r"
proof -
  obtain r where r: "evaluate waterbridge start_plan leak_snapshot start_context = Inr r"
    using evaluate_total [OF wf_waterbridge start_resolves] by blast
  show ?thesis using r allowed_iff_all_checks [OF r] start_checks start_event_entry by auto
qed

text \<open>
  Once the event, actor, correlation id and key are in order, a denial names a guard of the
  transition that fails, with the failure the contract registers for it, and every guard of a
  stricter security category passes: a request that fails several guards is told of the first one in
  security order only.
\<close>

theorem denial_names_first_guard:
  assumes "evaluate c t s x = Inr r" and "\<not> allowed r"
    and "event_entry_of c (t_event t) = Some e" and "preconditions_pass c e t x"
  shows "\<exists>g entry. g \<in> set (t_guard_refs t) \<and> guard_entry_of c g = Some entry \<and>
    \<not> fst (evaluate_guard g e s x) \<and>
    failure r = Some (contract_failure entry (snd (evaluate_guard g e s x))) \<and>
    (\<forall>h \<in> set (t_guard_refs t). \<forall>h'. guard_entry_of c h = Some h' \<longrightarrow>
       guard_rank c h' < guard_rank c entry \<longrightarrow> fst (evaluate_guard h e s x))"
  using assms by (rule evaluate_denial)

theorem denial_names_first_guard_witness:
  "\<exists>r f. evaluate waterbridge start_plan leak_snapshot (start_context\<lparr>x_requested_version := Some 1\<rparr>) = Inr r \<and>
     failure r = Some f \<and> f_guard_id f = ''G-STATE-VERSION'' \<and> f_http_status f = 409 \<and>
     f_reason f = ''STATE_VERSION_MISMATCH''"
proof -
  let ?x = "start_context\<lparr>x_requested_version := Some 1\<rparr>"
  obtain r where r: "evaluate waterbridge start_plan leak_snapshot ?x = Inr r"
    using evaluate_total [OF wf_waterbridge start_resolves] by blast
  have e: "event_entry_of waterbridge (t_event start_plan) = Some start_event" by (simp add: start_event_entry)
  have "\<not> all_checks waterbridge start_event start_plan leak_snapshot ?x"
    using start_guards(4) [of "Some 1"] by (simp add: all_checks_def)
  then have "\<not> allowed r" using evaluate_allowed_iff [OF r] e by auto
  from denial_names_first_guard [OF r this e start_preconditions] obtain g entry where
    g: "g \<in> set (t_guard_refs start_plan)" "guard_entry_of waterbridge g = Some entry"
    "\<not> fst (evaluate_guard g start_event leak_snapshot ?x)"
    "failure r = Some (contract_failure entry (snd (evaluate_guard g start_event leak_snapshot ?x)))"
    by blast
  have "g = ''G-STATE-VERSION''" using g(1,3) start_guards [of "Some 1"] by auto
  then show ?thesis using r g(2,4) start_guards(4) [of "Some 1"]
    by (auto simp: contract_failure_def contract_simps)
qed

text \<open>
  The order in which guards are checked is the declared security precedence with the guard
  categories it does not mention inserted: nothing is dropped, the declared order is kept, and no
  category appears twice.
\<close>

theorem effective_precedence_extends_declared:
  assumes "distinct (c_security_precedence c)"
  shows "subseq (c_security_precedence c) (effective_precedence c) \<and>
    set (effective_precedence c) = set (c_guard_categories c) \<union> set (c_security_precedence c) \<and>
    distinct (effective_precedence c)"
  using assms by (simp add: effective_precedence_def subseq_fill_precedence distinct_fill_precedence)

theorem effective_precedence_extends_declared_witness:
  "effective_precedence waterbridge = c_guard_categories waterbridge \<and>
   subseq (c_security_precedence waterbridge) (effective_precedence waterbridge)"
proof -
  have "distinct (c_security_precedence waterbridge)" by (simp add: waterbridge_def)
  from effective_precedence_extends_declared [OF this] show ?thesis
    by (simp add: effective_precedence_def waterbridge_def insert_before_def)
qed

text \<open>
  The evaluation order of a transition's guards: a permutation of the guards the rule lists,
  sorted by security category, guards of one category in the order the rule lists them.
\<close>

theorem guard_order:
  assumes "ordered_guard_refs c refs = Inr gids"
  shows "mset gids = mset refs \<and>
    (\<forall>i j g h. i < j \<longrightarrow> j < length gids \<longrightarrow> guard_entry_of c (gids ! i) = Some g \<longrightarrow>
       guard_entry_of c (gids ! j) = Some h \<longrightarrow> guard_rank c g \<le> guard_rank c h) \<and>
    (\<forall>r. filter (\<lambda>g. map_option (guard_rank c) (guard_entry_of c g) = Some r) gids =
         filter (\<lambda>g. map_option (guard_rank c) (guard_entry_of c g) = Some r) refs)"
  using ordered_guard_refs_mset [OF assms] ordered_guard_refs_stable [OF assms]
    ordered_guard_refs_sorted [OF assms] by blast

theorem guard_order_witness:
  "\<exists>gids. ordered_guard_refs waterbridge [''G-STATE-VERSION'', ''G-ACTOR-CONSULTANT''] = Inr gids \<and>
     mset gids = {#''G-STATE-VERSION'', ''G-ACTOR-CONSULTANT''#}"
proof -
  have "guard_entry_of waterbridge g \<noteq> None" if "g \<in> set [''G-STATE-VERSION'', ''G-ACTOR-CONSULTANT'']" for g
    using that by (auto simp: contract_simps)
  then obtain gids where g: "ordered_guard_refs waterbridge [''G-STATE-VERSION'', ''G-ACTOR-CONSULTANT''] = Inr gids"
    using ordered_guard_refs_total by blast
  then show ?thesis using guard_order [OF g] by simp
qed

section \<open>Offered actions\<close>

text \<open>
  C18: Every action the resolver offers under the approved documents can be executed: its event
  resolves in the state machine for the inquiry as it is, the event admits the actor's role, no
  system-only action is offered, and every guard the read can decide holds.
\<close>

theorem offered_actions_executable:
  assumes "resolve_actions waterbridge action_doc crosswalk x = Inr es" and "e \<in> set es"
  shows "\<exists>ra s t ev. map_of runtime_actions (ca_code e) = Some ra \<and>
     snapshot_init (Some (ac_inquiry_state x)) (Some (ac_state_version x)) (ac_visit_status x) = Inr s \<and>
     resolve waterbridge s (ra_event ra) = Inr t \<and> event_entry_of waterbridge (ra_event ra) = Some ev \<and>
     ac_actor_role x \<in> set (ev_actor_roles ev) \<and> ac_actor_role x \<noteq> ''SYSTEM'' \<and>
     (\<forall>g \<in> set (t_guard_refs t). guard_available x g)"
  using offered_action [OF action_table_approved runtime_actions_crosswalk assms] .

theorem offered_actions_executable_witness:
  "\<exists>es e. resolve_actions waterbridge action_doc crosswalk (from_models leak lee no_args office) = Inr es \<and>
     e \<in> set es \<and> ca_code e = ''START_CONSULTATION'' \<and>
     map_of runtime_actions ''START_CONSULTATION'' \<noteq> None"
proof -
  let ?x = "from_models leak lee no_args office"
  obtain es where es: "resolve_actions waterbridge action_doc crosswalk ?x = Inr es"
    using leak_offered by blast
  from leak_offered_start [OF es] obtain e where e: "e \<in> set es" "ca_code e = ''START_CONSULTATION''" by blast
  then show ?thesis using es offered_actions_executable [OF es e(1)] by auto
qed

text \<open>
  Listing the actions of an inquiry never fails under the approved documents: no catalog drift, no
  missing key, for any actor and any facts, as long as the inquiry's state, version and visit status
  form a snapshot.
\<close>

theorem listing_actions_never_fails:
  assumes "snapshot_init (Some (ac_inquiry_state x)) (Some (ac_state_version x)) (ac_visit_status x) = Inr s"
  shows "\<exists>es. resolve_actions waterbridge action_doc crosswalk x = Inr es"
  using assms by (rule resolve_actions_total [OF wf_waterbridge runtime_actions_crosswalk action_table_approved])

theorem listing_actions_never_fails_witness:
  "\<exists>es. resolve_actions waterbridge action_doc crosswalk (from_models leak lee no_args office) = Inr es"
  using listing_actions_never_fails [OF leak_context_snapshot] .

section \<open>Idempotency hashes\<close>

text \<open>
  The hash that decides whether two requests are the same request does not depend on the order in
  which a client wrote the keys of its JSON body, at any depth.
\<close>

theorem hash_ignores_key_order:
  assumes "same_value v w"
  shows "canonical_request_hash v = canonical_request_hash w"
  using assms by (rule same_value_hash)

theorem hash_ignores_key_order_witness:
  "canonical_request_hash (PDict [(''b'', PInt 1), (''a'', PList [PUuid 5, PBool True])]) =
   canonical_request_hash (PDict [(''a'', PList [PUuid 5, PBool True]), (''b'', PInt 1)])"
proof (rule hash_ignores_key_order)
  let ?w = "[(''a'', PList [PUuid 5, PBool True]), (''b'', PInt 1)]"
  have "list_all2 (\<lambda>p q. fst p = fst q \<and> same_value (snd p) (snd q)) ?w ?w"
    by (simp add: same_refl)
  then show "same_value (PDict [(''b'', PInt 1), (''a'', PList [PUuid 5, PBool True])]) (PDict ?w)"
    by (intro same_dict [of _ ?w]) (simp_all add: add_mset_commute)
qed

text \<open>
  Every request hash is 64 characters of lower-case hexadecimal, which is what the column of the
  idempotency record holds.
\<close>

theorem hash_fits_column:
  "length (canonical_request_hash v) = 64 \<and>
   set (canonical_request_hash v) \<subseteq> set ''0123456789abcdef''"
  using length_request_hash hex_request_hash by blast

end
